(* ===== verification/Prelude.thy ===== *)
theory Prelude
  imports Main "HOL-Library.AList" "HOL-Library.Char_ord" "HOL-Library.List_Lexorder"
    "HOL-Library.Product_Lexorder" "HOL-Library.Sublist"
begin

text \<open>
  Vocabulary shared by every component theory: how the Python values of the
  program are represented, and the generic facts about lists, dictionaries and
  results that the component proofs use.

  \<^item> \<open>str\<close> and \<open>bytes\<close> are \<open>string\<close>s: the UTF-8 bytes of the Python string. Byte
    order on UTF-8 is code-point order, so \<open>sorted\<close> on strings is the
    lexicographic order of \<open>List_Lexorder\<close>.
  \<^item> A \<open>dict\<close> is an association list in insertion order. \<open>d[k] = v\<close> is
    \<open>AList.update\<close>, which overwrites in place or appends, and \<open>d.get(k)\<close> is
    \<open>map_of\<close>.
  \<^item> A \<open>frozenset\<close> whose members are only tested, united or sorted is a \<open>set\<close>.
    One whose iteration order can be observed is the list of its members in
    iteration order.
  \<^item> An operation that raises returns \<open>Inl\<close> of the error, otherwise \<open>Inr\<close>.
\<close>

type_synonym pystr = string
type_synonym bytes = string

named_theorems result_simps \<open>evaluation of results and guards\<close>
named_theorems row_simps \<open>lookups after table updates\<close>

section \<open>Results\<close>

definition res_bind :: "'e + 'a \<Rightarrow> ('a \<Rightarrow> 'e + 'b) \<Rightarrow> 'e + 'b" where
  "res_bind r f = (case r of Inl e \<Rightarrow> Inl e | Inr x \<Rightarrow> f x)"

fun res_map :: "('a \<Rightarrow> 'e + 'b) \<Rightarrow> 'a list \<Rightarrow> 'e + 'b list" where
  "res_map f [] = Inr []"
| "res_map f (x # xs) =
     (case f x of Inl e \<Rightarrow> Inl e
      | Inr y \<Rightarrow> (case res_map f xs of Inl e \<Rightarrow> Inl e | Inr ys \<Rightarrow> Inr (y # ys)))"

lemma res_bind_simps [simp, result_simps]:
  "res_bind (Inl e) f = Inl e"
  "res_bind (Inr x) f = f x"
  by (simp_all add: res_bind_def)

lemma res_bind_Inr_iff [result_simps]:
  "res_bind r f = Inr y \<longleftrightarrow> (\<exists>x. r = Inr x \<and> f x = Inr y)"
  by (cases r) auto

lemma res_bind_Inl_iff [result_simps]:
  "res_bind r f = Inl e \<longleftrightarrow> r = Inl e \<or> (\<exists>x. r = Inr x \<and> f x = Inl e)"
  by (cases r) auto

lemma res_map_Inr_iff:
  "res_map f xs = Inr ys \<longleftrightarrow> list_all2 (\<lambda>x y. f x = Inr y) xs ys"
proof (induction xs arbitrary: ys)
  case Nil
  then show ?case by auto
next
  case (Cons x xs)
  show ?case
  proof (cases "f x")
    case (Inr y)
    show ?thesis
    proof (cases "res_map f xs")
      case (Inl e)
      then show ?thesis
        using Inr Cons.IH by (auto simp: list_all2_Cons1)
    next
      case (Inr zs)
      then have "list_all2 (\<lambda>x y. f x = Inr y) xs us \<longleftrightarrow> us = zs" for us
        using Cons.IH [of us] by auto
      then show ?thesis
        using Inr \<open>f x = Inr y\<close> by (auto simp: list_all2_Cons1)
    qed
  qed (auto simp: list_all2_Cons1)
qed

lemma res_map_total:
  "(\<And>x. x \<in> set xs \<Longrightarrow> f x = Inr (g x)) \<Longrightarrow> res_map f xs = Inr (map g xs)"
  by (induction xs) auto

text \<open>A loop over a sequence whose body updates a state or raises.\<close>

fun res_fold :: "('s \<Rightarrow> 'a \<Rightarrow> 'e + 's) \<Rightarrow> 's \<Rightarrow> 'a list \<Rightarrow> 'e + 's" where
  "res_fold f s [] = Inr s"
| "res_fold f s (x # xs) = res_bind (f s x) (\<lambda>s'. res_fold f s' xs)"

lemma res_fold_invariant:
  assumes "res_fold f s xs = Inr s'" and "P s"
    and "\<And>s x s'. P s \<Longrightarrow> x \<in> set xs \<Longrightarrow> f s x = Inr s' \<Longrightarrow> P s'"
  shows "P s'"
  using assms
proof (induction xs arbitrary: s)
  case (Cons x xs)
  from Cons.prems(1) obtain t where t: "f s x = Inr t" "res_fold f t xs = Inr s'"
    by (auto simp: res_bind_Inr_iff)
  from Cons.prems(3) [OF Cons.prems(2) _ t(1)] have "P t" by simp
  with t(2) show ?case
  proof (rule Cons.IH)
    fix s x' s' assume "P s" and "x' \<in> set xs" and "f s x' = Inr s'"
    then show "P s'" using Cons.prems(3) [of s x' s'] by simp
  qed
qed simp

text \<open>What the body establishes for an element and every later step keeps holds at the end.\<close>

lemma res_fold_establishes:
  assumes "res_fold f s xs = Inr s'" and "x \<in> set xs"
    and "\<And>s s'. f s x = Inr s' \<Longrightarrow> Q s'"
    and "\<And>s y s'. Q s \<Longrightarrow> f s y = Inr s' \<Longrightarrow> Q s'"
  shows "Q s'"
  using assms
proof (induction xs arbitrary: s)
  case (Cons y ys)
  from Cons.prems(1) obtain t where t: "f s y = Inr t" "res_fold f t ys = Inr s'"
    by (auto simp: res_bind_Inr_iff)
  show ?case
  proof (cases "x = y")
    case True
    with t Cons.prems(3) have "Q t" by blast
    then show ?thesis
      by (rule res_fold_invariant [OF t(2)]) (rule Cons.prems(4))
  next
    case False
    with Cons.prems(2) have "x \<in> set ys" by simp
    with t(2) show ?thesis
      by (rule Cons.IH) (erule Cons.prems(3), rule Cons.prems(4))
  qed
qed simp

section \<open>Strings\<close>

text \<open>\<open>sep.join(parts)\<close>, \<open>s.startswith(p)\<close> and \<open>s.split(c)\<close> for a one-character
  separator.\<close>

fun py_join :: "pystr \<Rightarrow> pystr list \<Rightarrow> pystr" where
  "py_join sep [] = []"
| "py_join sep [x] = x"
| "py_join sep (x # y # ys) = x @ sep @ py_join sep (y # ys)"

definition startswith :: "pystr \<Rightarrow> pystr \<Rightarrow> bool" where
  "startswith s p = (take (length p) s = p)"

fun py_split :: "char \<Rightarrow> pystr \<Rightarrow> pystr list" where
  "py_split c [] = [[]]"
| "py_split c (x # xs) =
     (if x = c then [] # py_split c xs
      else (case py_split c xs of [] \<Rightarrow> [[x]] | p # ps \<Rightarrow> (x # p) # ps))"

text \<open>\<open>s.partition(c)\<close> for a one-character separator.\<close>

definition py_partition :: "char \<Rightarrow> pystr \<Rightarrow> pystr \<times> pystr \<times> pystr" where
  "py_partition c s = (takeWhile (\<lambda>d. d \<noteq> c) s,
     (case dropWhile (\<lambda>d. d \<noteq> c) s of [] \<Rightarrow> ([], []) | d # rest \<Rightarrow> ([d], rest)))"

lemma startswith_iff_prefix: "startswith s p \<longleftrightarrow> prefix p s"
proof
  assume "startswith s p"
  then show "prefix p s" unfolding startswith_def by (metis take_is_prefix)
next
  assume "prefix p s"
  then show "startswith s p" by (auto simp: startswith_def prefix_def)
qed

lemma py_split_ne [simp]: "py_split c s \<noteq> []"
  by (induction s) (auto split: list.splits)

lemma py_split_no_sep: "part \<in> set (py_split c s) \<Longrightarrow> c \<notin> set part"
proof (induction s arbitrary: part)
  case Nil
  then show ?case by simp
next
  case (Cons x xs)
  then show ?case
    by (cases "py_split c xs") (auto split: if_splits)
qed

lemma py_join_Cons_ne [simp]:
  "ys \<noteq> [] \<Longrightarrow> py_join sep (x # ys) = x @ sep @ py_join sep ys"
  by (cases ys) auto

text \<open>Joining undoes splitting, and splitting undoes joining of separator-free parts.\<close>

lemma py_join_split: "py_join [c] (py_split c s) = s"
proof (induction s)
  case Nil
  then show ?case by simp
next
  case (Cons x xs)
  show ?case
  proof (cases "x = c")
    case True
    with Cons show ?thesis by simp
  next
    case False
    obtain p ps where p: "py_split c xs = p # ps"
      by (cases "py_split c xs") auto
    with Cons False show ?thesis by (cases ps) auto
  qed
qed

lemma py_split_append_sep:
  "c \<notin> set p \<Longrightarrow> py_split c (p @ c # s) = p # py_split c s"
  by (induction p) auto

lemma py_split_no_char: "c \<notin> set p \<Longrightarrow> py_split c p = [p]"
  by (induction p) auto

lemma py_split_join:
  "ps \<noteq> [] \<Longrightarrow> \<forall>p \<in> set ps. c \<notin> set p \<Longrightarrow> py_split c (py_join [c] ps) = ps"
proof (induction ps)
  case Nil
  then show ?case by simp
next
  case (Cons p ps)
  then show ?case
    by (cases "ps = []") (auto simp: py_split_append_sep py_split_no_char)
qed

section \<open>Dictionaries\<close>

text \<open>A dictionary built by assigning \<open>d[f x] = x\<close> over a sequence.\<close>

definition dict_by :: "('a \<Rightarrow> 'k) \<Rightarrow> 'a list \<Rightarrow> ('k \<times> 'a) list" where
  "dict_by f xs = foldl (\<lambda>d x. AList.update (f x) x d) [] xs"

abbreviation dict_keys :: "('k \<times> 'v) list \<Rightarrow> 'k list" where
  "dict_keys d \<equiv> map fst d"

abbreviation dict_values :: "('k \<times> 'v) list \<Rightarrow> 'v list" where
  "dict_values d \<equiv> map snd d"

lemma dict_by_snoc [simp]:
  "dict_by f (xs @ [x]) = AList.update (f x) x (dict_by f xs)"
  by (simp add: dict_by_def)

lemma dict_by_Nil [simp]: "dict_by f [] = []"
  by (simp add: dict_by_def)

lemma keys_dict_by [simp]: "set (dict_keys (dict_by f xs)) = f ` set xs"
proof (induction xs rule: rev_induct)
  case (snoc x xs)
  have "set (dict_keys (AList.update (f x) x (dict_by f xs))) =
        insert (f x) (set (dict_keys (dict_by f xs)))"
    by (auto simp: update_keys simp del: set_map)
  with snoc show ?case by simp
qed simp

lemma fst_image_dict_by [simp]: "fst ` set (dict_by f xs) = f ` set xs"
  using keys_dict_by [of f xs] by (simp only: set_map)

lemma distinct_dict_by [simp]: "distinct (dict_keys (dict_by f xs))"
  by (induction xs rule: rev_induct) (simp_all add: distinct_update)

lemma map_of_dict_by:
  "map_of (dict_by f xs) k = map_of (rev (map (\<lambda>x. (f x, x)) xs)) k"
  by (induction xs rule: rev_induct) (auto simp: update_conv')

lemma map_of_dict_byD:
  assumes "map_of (dict_by f xs) k = Some x"
  shows "x \<in> set xs" and "f x = k"
proof -
  from assms have "map_of (rev (map (\<lambda>x. (f x, x)) xs)) k = Some x"
    by (simp only: map_of_dict_by)
  then have "(k, x) \<in> set (rev (map (\<lambda>x. (f x, x)) xs))"
    by (rule map_of_SomeD)
  then show "x \<in> set xs" and "f x = k" by auto
qed

lemma map_of_dict_by_eq_None:
  "map_of (dict_by f xs) k = None \<longleftrightarrow> k \<notin> f ` set xs"
  by (simp add: map_of_eq_None_iff)

lemma map_of_dict_by_ex: "x \<in> set xs \<Longrightarrow> \<exists>y. map_of (dict_by f xs) (f x) = Some y"
  by (cases "map_of (dict_by f xs) (f x)") (auto simp: map_of_dict_by_eq_None)

lemma map_of_dict_by_inj:
  assumes "inj_on f (set xs)" and "x \<in> set xs"
  shows "map_of (dict_by f xs) (f x) = Some x"
proof -
  obtain y where y: "map_of (dict_by f xs) (f x) = Some y"
    using map_of_dict_by_ex [OF assms(2)] ..
  have "y \<in> set xs" and "f y = f x"
    by (rule map_of_dict_byD [OF y])+
  then have "y = x"
    using inj_onD [OF assms(1)] assms(2) by metis
  with y show ?thesis by simp
qed

lemma values_dict_by:
  "set (dict_values (dict_by f xs)) \<subseteq> set xs"
proof
  fix x assume "x \<in> set (dict_values (dict_by f xs))"
  then obtain k where "(k, x) \<in> set (dict_by f xs)" by auto
  then have "map_of (dict_by f xs) k = Some x" by simp
  then show "x \<in> set xs" by (rule map_of_dict_byD)
qed

lemma values_dict_by_inj:
  assumes "inj_on f (set xs)"
  shows "set (dict_values (dict_by f xs)) = set xs"
proof
  show "set (dict_values (dict_by f xs)) \<subseteq> set xs" by (rule values_dict_by)
  show "set xs \<subseteq> set (dict_values (dict_by f xs))"
  proof
    fix x assume "x \<in> set xs"
    then have "map_of (dict_by f xs) (f x) = Some x"
      using assms by (simp add: map_of_dict_by_inj)
    then show "x \<in> set (dict_values (dict_by f xs))"
      by (metis image_eqI list.set_map map_of_SomeD snd_conv)
  qed
qed

section \<open>Sorting\<close>

text \<open>\<open>sorted(xs, key=f)\<close> is \<open>sort_key f xs\<close>, which is stable as Python's is.
  \<open>sorted(s)\<close> of a set is \<open>sorted_list_of_set s\<close>.\<close>

lemma sort_key_unique:
  assumes "inj_on f (set xs)" and "set xs = set ys" and "distinct xs" and "distinct ys"
  shows "sort_key f xs = sort_key f ys"
proof (rule map_sorted_distinct_set_unique [where f = f])
  show "inj_on f (set (sort_key f xs) \<union> set (sort_key f ys))"
    using assms by simp
  show "sorted (map f (sort_key f xs))" and "sorted (map f (sort_key f ys))"
    by simp_all
  show "distinct (map f (sort_key f xs))" and "distinct (map f (sort_key f ys))"
    using assms by (simp_all add: distinct_map)
  show "set (sort_key f xs) = set (sort_key f ys)"
    using assms by simp
qed

lemma sort_key_sort_key: "sort_key f (sort_key f xs) = sort_key f xs"
  by (simp add: sort_key_id_if_sorted)

end
