(* ===== verification/Formal_Model.thy ===== *)
theory Formal_Model
  imports Prelude
begin

text \<open>
  The data of the reference semantics (\<^verbatim>\<open>src/src/contractcapsule/formal.py\<close>,
  lines 1--426): the frozen dataclasses as records, the blocker codes, the
  canonical form that fingerprints are taken of, and the structural and
  eligibility checks on one capsule.

  Record fields carry a prefix naming their class (\<open>mf_\<close> manifest, \<open>cap_\<close>
  capsule, \<open>cv_\<close> compiled view, ...) because several classes share field
  names. \<open>Capsule.atoms\<close>, \<open>Capsule.evidence\<close> and the two edge sets are lists in the
  iteration order of the Python frozensets (the order of blockers depends on it);
  every other frozenset is a set. SHA-256 and \<open>repr\<close> are the fields of \<open>py_host\<close>.
\<close>

section \<open>Blockers and dataclasses\<close>

datatype blocker_code =
    NONE | MALFORMED_CAPSULE | MISSING_EVIDENCE | INTEGRITY_FAILED
  | UNAUTHORIZED_CAPSULE | OUT_OF_SCOPE | STALE_EVIDENCE
  | MISSING_MANDATORY_DEPENDENCY | UNRESOLVED_CONFLICT | P0_NOT_EXACT
  | P0_BUDGET_OVERFLOW | MANDATORY_CLOSURE_BUDGET_OVERFLOW
  | INCOMPATIBLE_INTERFACE | INCOMPATIBLE_REPLACEMENT_TARGET
  | TARGET_EFFECT_FAILED | PROTECTED_INVARIANT_FAILED | FORBIDDEN_SPILLOVER
  | IRREVERSIBLE_SIDE_EFFECT_UNCONTROLLED | VIEW_INCONSISTENT
  | VALIDATION_MISMATCH | CANDIDATE_MISMATCH | TASK_MISMATCH
  | UNSAFE_ACTIVATION_BOUNDARY | ACTIVATION_NOT_APPLIED

fun blocker_value :: "blocker_code \<Rightarrow> pystr" where
  "blocker_value NONE = ''NONE''"
| "blocker_value MALFORMED_CAPSULE = ''MALFORMED_CAPSULE''"
| "blocker_value MISSING_EVIDENCE = ''MISSING_EVIDENCE''"
| "blocker_value INTEGRITY_FAILED = ''INTEGRITY_FAILED''"
| "blocker_value UNAUTHORIZED_CAPSULE = ''UNAUTHORIZED_CAPSULE''"
| "blocker_value OUT_OF_SCOPE = ''OUT_OF_SCOPE''"
| "blocker_value STALE_EVIDENCE = ''STALE_EVIDENCE''"
| "blocker_value MISSING_MANDATORY_DEPENDENCY = ''MISSING_MANDATORY_DEPENDENCY''"
| "blocker_value UNRESOLVED_CONFLICT = ''UNRESOLVED_CONFLICT''"
| "blocker_value P0_NOT_EXACT = ''P0_NOT_EXACT''"
| "blocker_value P0_BUDGET_OVERFLOW = ''P0_BUDGET_OVERFLOW''"
| "blocker_value MANDATORY_CLOSURE_BUDGET_OVERFLOW = ''MANDATORY_CLOSURE_BUDGET_OVERFLOW''"
| "blocker_value INCOMPATIBLE_INTERFACE = ''INCOMPATIBLE_INTERFACE''"
| "blocker_value INCOMPATIBLE_REPLACEMENT_TARGET = ''INCOMPATIBLE_REPLACEMENT_TARGET''"
| "blocker_value TARGET_EFFECT_FAILED = ''TARGET_EFFECT_FAILED''"
| "blocker_value PROTECTED_INVARIANT_FAILED = ''PROTECTED_INVARIANT_FAILED''"
| "blocker_value FORBIDDEN_SPILLOVER = ''FORBIDDEN_SPILLOVER''"
| "blocker_value IRREVERSIBLE_SIDE_EFFECT_UNCONTROLLED =
     ''IRREVERSIBLE_SIDE_EFFECT_UNCONTROLLED''"
| "blocker_value VIEW_INCONSISTENT = ''VIEW_INCONSISTENT''"
| "blocker_value VALIDATION_MISMATCH = ''VALIDATION_MISMATCH''"
| "blocker_value CANDIDATE_MISMATCH = ''CANDIDATE_MISMATCH''"
| "blocker_value TASK_MISMATCH = ''TASK_MISMATCH''"
| "blocker_value UNSAFE_ACTIVATION_BOUNDARY = ''UNSAFE_ACTIVATION_BOUNDARY''"
| "blocker_value ACTIVATION_NOT_APPLIED = ''ACTIVATION_NOT_APPLIED''"

definition ALLOWED_COMPRESSION_CLASSES :: "pystr set" where
  "ALLOWED_COMPRESSION_CLASSES =
     {''P0_EXACT'', ''P1_STRUCTURED'', ''P2_EXCERPT'', ''P3_SUMMARY'', ''P4_TRANSIENT''}"

record principal =
  pr_principal_id :: pystr

record budget =
  bu_tokens :: int

record task_context =
  tc_task_id :: pystr
  tc_repository :: pystr
  tc_path :: pystr
  tc_environment :: pystr
  tc_required_interfaces :: "pystr set"
  tc_irreversible_external_action :: bool
  tc_preflight_completed :: bool
  tc_approval_granted :: bool
  tc_compensation_available :: bool

record safe_boundary =
  sb_before_next_action :: bool

record manifest =
  mf_capsule_id :: pystr
  mf_version :: pystr
  mf_authorized_principals :: "pystr set"
  mf_repositories :: "pystr set"
  mf_path_prefixes :: "pystr list"
  mf_environments :: "pystr set"
  mf_provides :: "pystr set"
  mf_lifecycle :: pystr

definition manifest_reference :: "manifest \<Rightarrow> pystr" where
  "manifest_reference m = mf_capsule_id m @ ''@'' @ mf_version m"

record atom =
  at_atom_id :: pystr
  at_statement :: pystr
  at_compression_class :: pystr
  at_token_cost :: int
  at_relevance :: int
  at_evidence_refs :: "pystr set"

definition is_p0 :: "atom \<Rightarrow> bool" where
  "is_p0 a = (at_compression_class a = ''P0_EXACT'')"

record evidence =
  ev_evidence_id :: pystr
  ev_digest :: pystr
  ev_exact_text :: pystr
  ev_fresh :: bool

record dependency_graph =
  dg_requires :: "(pystr \<times> pystr) list"
  dg_conflicts :: "(pystr \<times> pystr) list"

record replacement_contract =
  rc_replaces :: "pystr option"
  rc_accepts_interfaces :: "pystr set"
  rc_target_effects_passed :: bool
  rc_protected_invariants_passed :: bool
  rc_forbidden_spillover_detected :: bool

record compression_policy =
  cp_p0_exact :: bool

record integrity_bundle =
  ib_valid :: bool

record capsule =
  cap_manifest :: manifest
  cap_atoms :: "atom list"
  cap_evidence :: "evidence list"
  cap_dependency_graph :: dependency_graph
  cap_replacement_contract :: replacement_contract
  cap_compression_policy :: compression_policy
  cap_integrity :: integrity_bundle

definition reference :: "capsule \<Rightarrow> pystr" where
  "reference c = manifest_reference (cap_manifest c)"

record compiled_view =
  cv_capsule_refs :: "pystr list"
  cv_capsule_fingerprints :: "(pystr \<times> pystr) list"
  cv_task_id :: pystr
  cv_task_fingerprint :: pystr
  cv_principal_id :: pystr
  cv_adapter :: pystr
  cv_budget_tokens :: int
  cv_content :: pystr
  cv_selected_atom_ids :: "pystr set"
  cv_exact_atom_ids :: "pystr set"
  cv_evidence_handles :: "pystr set"
  cv_eligibility_checked :: "pystr list"
  cv_ranked_capsules :: "pystr list"
  cv_audit_phases :: "pystr list"
  cv_missing_dependencies :: "pystr set"
  cv_conflicts :: "(pystr \<times> pystr) set"
  cv_dependency_closed :: bool
  cv_p0_preserved :: bool
  cv_blockers :: "blocker_code list"

record validation_report =
  vr_valid :: bool
  vr_blockers :: "blocker_code list"
  vr_view_fingerprint :: pystr
  vr_capsule_fingerprints :: "(pystr \<times> pystr) list"
  vr_principal_id :: pystr

record replacement_decision =
  rd_old_capsule :: pystr
  rd_new_capsule :: pystr
  rd_old_fingerprint :: pystr
  rd_new_fingerprint :: pystr
  rd_task_id :: pystr
  rd_task_fingerprint :: pystr
  rd_allowed :: bool
  rd_target_effect_realized :: bool
  rd_protected_invariants_preserved :: bool
  rd_forbidden_spillover_detected :: bool
  rd_interface_compatible :: bool
  rd_blockers :: "blocker_code list"

record activation_candidate =
  ac_old :: capsule
  ac_new :: capsule
  ac_view :: compiled_view
  ac_validation :: validation_report
  ac_replacement :: replacement_decision

record activation_receipt =
  ar_activated :: bool
  ar_previous_capsule :: pystr
  ar_active_capsule :: pystr
  ar_blockers :: "blocker_code list"

record rollback_receipt =
  rr_rolled_back :: bool
  rr_replaced_capsule :: pystr
  rr_active_capsule :: pystr
  rr_blockers :: "blocker_code list"

text \<open>The \<open>reason\<close> property of the four report classes.\<close>

definition reason_of :: "blocker_code list \<Rightarrow> blocker_code" where
  "reason_of bs = (case bs of b # _ \<Rightarrow> b | [] \<Rightarrow> NONE)"

section \<open>Blocker lists\<close>

text \<open>The loop of \<open>_unique_blockers\<close>: \<open>seen\<close> and \<open>result\<close> hold the same codes.\<close>

fun unique_loop :: "blocker_code list \<Rightarrow> blocker_code list \<Rightarrow> blocker_code list" where
  "unique_loop result [] = result"
| "unique_loop result (b # bs) =
     (if b = NONE \<or> b \<in> set result then unique_loop result bs
      else unique_loop (result @ [b]) bs)"

definition unique_blockers :: "blocker_code list list \<Rightarrow> blocker_code list" where
  "unique_blockers groups = unique_loop [] (concat groups)"

text \<open>\<open>if c: blockers.append(b)\<close>.\<close>

definition block_if :: "bool \<Rightarrow> blocker_code \<Rightarrow> blocker_code list" where
  "block_if c b = (if c then [b] else [])"

section \<open>Canonical form and fingerprints\<close>

text \<open>The values \<open>_canonical\<close> returns: strings, integers, booleans, \<open>None\<close> and
  tuples of them.\<close>

datatype canon = CStr pystr | CInt int | CBool bool | CNone | CTuple "canon list"

record py_host =
  py_repr :: "canon \<Rightarrow> pystr"
  sha256_hex :: "pystr \<Rightarrow> pystr"

definition canonical_dataclass :: "pystr \<Rightarrow> (pystr \<times> canon) list \<Rightarrow> canon" where
  "canonical_dataclass qualname fs =
     CTuple [CStr qualname, CTuple (map (\<lambda>(n, v). CTuple [CStr n, v]) fs)]"

definition canonical_set :: "py_host \<Rightarrow> canon list \<Rightarrow> canon" where
  "canonical_set H items = CTuple (sort_key (py_repr H) items)"

definition canonical_strs :: "py_host \<Rightarrow> pystr set \<Rightarrow> canon" where
  "canonical_strs H S = canonical_set H (map CStr (sorted_list_of_set S))"

definition canonical_pair :: "pystr \<times> pystr \<Rightarrow> canon" where
  "canonical_pair p = CTuple [CStr (fst p), CStr (snd p)]"

definition canonical_edges :: "py_host \<Rightarrow> (pystr \<times> pystr) list \<Rightarrow> canon" where
  "canonical_edges H es = canonical_set H (map canonical_pair es)"

definition canonical_tuple :: "pystr list \<Rightarrow> canon" where
  "canonical_tuple xs = CTuple (map CStr xs)"

definition canonical_opt :: "pystr option \<Rightarrow> canon" where
  "canonical_opt x = (case x of None \<Rightarrow> CNone | Some s \<Rightarrow> CStr s)"

definition canonical_task :: "py_host \<Rightarrow> task_context \<Rightarrow> canon" where
  "canonical_task H t = canonical_dataclass ''TaskContext''
     [(''task_id'', CStr (tc_task_id t)),
      (''repository'', CStr (tc_repository t)),
      (''path'', CStr (tc_path t)),
      (''environment'', CStr (tc_environment t)),
      (''required_interfaces'', canonical_strs H (tc_required_interfaces t)),
      (''irreversible_external_action'', CBool (tc_irreversible_external_action t)),
      (''preflight_completed'', CBool (tc_preflight_completed t)),
      (''approval_granted'', CBool (tc_approval_granted t)),
      (''compensation_available'', CBool (tc_compensation_available t))]"

definition canonical_manifest :: "py_host \<Rightarrow> manifest \<Rightarrow> canon" where
  "canonical_manifest H m = canonical_dataclass ''Manifest''
     [(''capsule_id'', CStr (mf_capsule_id m)),
      (''version'', CStr (mf_version m)),
      (''authorized_principals'', canonical_strs H (mf_authorized_principals m)),
      (''repositories'', canonical_strs H (mf_repositories m)),
      (''path_prefixes'', canonical_tuple (mf_path_prefixes m)),
      (''environments'', canonical_strs H (mf_environments m)),
      (''provides'', canonical_strs H (mf_provides m)),
      (''lifecycle'', CStr (mf_lifecycle m))]"

definition canonical_atom :: "py_host \<Rightarrow> atom \<Rightarrow> canon" where
  "canonical_atom H a = canonical_dataclass ''Atom''
     [(''atom_id'', CStr (at_atom_id a)),
      (''statement'', CStr (at_statement a)),
      (''compression_class'', CStr (at_compression_class a)),
      (''token_cost'', CInt (at_token_cost a)),
      (''relevance'', CInt (at_relevance a)),
      (''evidence_refs'', canonical_strs H (at_evidence_refs a))]"

definition canonical_evidence :: "evidence \<Rightarrow> canon" where
  "canonical_evidence e = canonical_dataclass ''Evidence''
     [(''evidence_id'', CStr (ev_evidence_id e)),
      (''digest'', CStr (ev_digest e)),
      (''exact_text'', CStr (ev_exact_text e)),
      (''fresh'', CBool (ev_fresh e))]"

definition canonical_graph :: "py_host \<Rightarrow> dependency_graph \<Rightarrow> canon" where
  "canonical_graph H g = canonical_dataclass ''DependencyGraph''
     [(''requires'', canonical_edges H (dg_requires g)),
      (''conflicts'', canonical_edges H (dg_conflicts g))]"

definition canonical_contract :: "py_host \<Rightarrow> replacement_contract \<Rightarrow> canon" where
  "canonical_contract H r = canonical_dataclass ''ReplacementContract''
     [(''replaces'', canonical_opt (rc_replaces r)),
      (''accepts_interfaces'', canonical_strs H (rc_accepts_interfaces r)),
      (''target_effects_passed'', CBool (rc_target_effects_passed r)),
      (''protected_invariants_passed'', CBool (rc_protected_invariants_passed r)),
      (''forbidden_spillover_detected'', CBool (rc_forbidden_spillover_detected r))]"

definition canonical_capsule :: "py_host \<Rightarrow> capsule \<Rightarrow> canon" where
  "canonical_capsule H c = canonical_dataclass ''Capsule''
     [(''manifest'', canonical_manifest H (cap_manifest c)),
      (''atoms'', canonical_set H (map (canonical_atom H) (cap_atoms c))),
      (''evidence'', canonical_set H (map canonical_evidence (cap_evidence c))),
      (''dependency_graph'', canonical_graph H (cap_dependency_graph c)),
      (''replacement_contract'', canonical_contract H (cap_replacement_contract c)),
      (''compression_policy'', canonical_dataclass ''CompressionPolicy''
         [(''p0_exact'', CBool (cp_p0_exact (cap_compression_policy c)))]),
      (''integrity'', canonical_dataclass ''IntegrityBundle''
         [(''valid'', CBool (ib_valid (cap_integrity c)))])]"

definition canonical_view :: "py_host \<Rightarrow> compiled_view \<Rightarrow> canon" where
  "canonical_view H v = canonical_dataclass ''CompiledView''
     [(''capsule_refs'', canonical_tuple (cv_capsule_refs v)),
      (''capsule_fingerprints'', CTuple (map canonical_pair (cv_capsule_fingerprints v))),
      (''task_id'', CStr (cv_task_id v)),
      (''task_fingerprint'', CStr (cv_task_fingerprint v)),
      (''principal_id'', CStr (cv_principal_id v)),
      (''adapter'', CStr (cv_adapter v)),
      (''budget_tokens'', CInt (cv_budget_tokens v)),
      (''content'', CStr (cv_content v)),
      (''selected_atom_ids'', canonical_strs H (cv_selected_atom_ids v)),
      (''exact_atom_ids'', canonical_strs H (cv_exact_atom_ids v)),
      (''evidence_handles'', canonical_strs H (cv_evidence_handles v)),
      (''eligibility_checked'', canonical_tuple (cv_eligibility_checked v)),
      (''ranked_capsules'', canonical_tuple (cv_ranked_capsules v)),
      (''audit_phases'', canonical_tuple (cv_audit_phases v)),
      (''missing_dependencies'', canonical_strs H (cv_missing_dependencies v)),
      (''conflicts'', canonical_edges H (sorted_list_of_set (cv_conflicts v))),
      (''dependency_closed'', CBool (cv_dependency_closed v)),
      (''p0_preserved'', CBool (cv_p0_preserved v)),
      (''blockers'', canonical_tuple (map blocker_value (cv_blockers v)))]"

definition digest_of :: "py_host \<Rightarrow> canon \<Rightarrow> pystr" where
  "digest_of H c = sha256_hex H (py_repr H c)"

definition task_fingerprint :: "py_host \<Rightarrow> task_context \<Rightarrow> pystr" where
  "task_fingerprint H t = digest_of H (canonical_task H t)"

definition capsule_fingerprint :: "py_host \<Rightarrow> capsule \<Rightarrow> pystr" where
  "capsule_fingerprint H c = digest_of H (canonical_capsule H c)"

definition view_fingerprint :: "py_host \<Rightarrow> compiled_view \<Rightarrow> pystr" where
  "view_fingerprint H v = digest_of H (canonical_view H v)"

section \<open>Checks on capsules\<close>

definition setdefault :: "'k \<Rightarrow> 'v \<Rightarrow> ('k \<times> 'v) list \<Rightarrow> 'v \<times> ('k \<times> 'v) list" where
  "setdefault k v d = (case map_of d k of Some w \<Rightarrow> (w, d) | None \<Rightarrow> (v, d @ [(k, v)]))"

text \<open>The inner loops of \<open>_cross_capsule_identity_blockers\<close>: \<open>None\<close> is the early
  return on two different values under one identifier.\<close>

fun identity_items :: "('a \<Rightarrow> pystr) \<Rightarrow> 'a list \<Rightarrow> (pystr \<times> 'a) list \<Rightarrow> (pystr \<times> 'a) list option"
where
  "identity_items key [] d = Some d"
| "identity_items key (x # xs) d =
     (let (previous, d') = setdefault (key x) x d
      in if previous \<noteq> x then None else identity_items key xs d')"

fun cross_identity_loop ::
  "py_host \<Rightarrow> capsule list \<Rightarrow> (pystr \<times> pystr) list \<Rightarrow> (pystr \<times> atom) list \<Rightarrow>
   (pystr \<times> evidence) list \<Rightarrow> blocker_code list"
where
  "cross_identity_loop H [] references atoms evidence_items = []"
| "cross_identity_loop H (c # cs) references atoms evidence_items =
     (let fingerprint = capsule_fingerprint H c;
          (previous, references') = setdefault (reference c) fingerprint references
      in if previous \<noteq> fingerprint then [MALFORMED_CAPSULE]
         else (case identity_items at_atom_id (cap_atoms c) atoms of
                 None \<Rightarrow> [MALFORMED_CAPSULE]
               | Some atoms' \<Rightarrow>
                   (case identity_items ev_evidence_id (cap_evidence c) evidence_items of
                      None \<Rightarrow> [MALFORMED_CAPSULE]
                    | Some evidence' \<Rightarrow>
                        cross_identity_loop H cs references' atoms' evidence')))"

definition cross_capsule_identity_blockers :: "py_host \<Rightarrow> capsule list \<Rightarrow> blocker_code list" where
  "cross_capsule_identity_blockers H capsules = cross_identity_loop H capsules [] [] []"

definition manifest_is_well_formed :: "manifest \<Rightarrow> bool" where
  "manifest_is_well_formed m \<longleftrightarrow>
     mf_capsule_id m \<noteq> [] \<and> mf_version m \<noteq> [] \<and>
     mf_lifecycle m \<in> {''PUBLISHED'', ''ACTIVE''} \<and>
     mf_repositories m \<noteq> {} \<and> mf_path_prefixes m \<noteq> [] \<and> mf_environments m \<noteq> {}"

definition evidence_is_well_formed :: "evidence \<Rightarrow> bool" where
  "evidence_is_well_formed e \<longleftrightarrow>
     ev_evidence_id e \<noteq> [] \<and> ev_digest e \<noteq> [] \<and> ev_exact_text e \<noteq> []"

definition atom_is_well_formed :: "atom \<Rightarrow> bool" where
  "atom_is_well_formed a \<longleftrightarrow>
     at_atom_id a \<noteq> [] \<and> at_statement a \<noteq> [] \<and> at_token_cost a \<ge> 0 \<and>
     at_evidence_refs a \<noteq> {} \<and> at_compression_class a \<in> ALLOWED_COMPRESSION_CLASSES"

definition identifier_blockers :: "capsule \<Rightarrow> blocker_code list" where
  "identifier_blockers c =
     (let evidence_ids = map ev_evidence_id (cap_evidence c);
          atom_ids = map at_atom_id (cap_atoms c)
      in if length evidence_ids \<noteq> card (set evidence_ids) then [MALFORMED_CAPSULE]
         else if length atom_ids \<noteq> card (set atom_ids) then [MALFORMED_CAPSULE]
         else [])"

definition evidence_blockers :: "capsule \<Rightarrow> blocker_code list" where
  "evidence_blockers c =
     map (\<lambda>_. MISSING_EVIDENCE) (filter (\<lambda>e. \<not> evidence_is_well_formed e) (cap_evidence c))"

definition atom_blockers :: "capsule \<Rightarrow> blocker_code list" where
  "atom_blockers c =
     (let evidence_ids = ev_evidence_id ` set (cap_evidence c)
      in concat (map (\<lambda>a.
           block_if (\<not> atom_is_well_formed a) MALFORMED_CAPSULE @
           block_if (\<not> at_evidence_refs a \<subseteq> evidence_ids) MISSING_EVIDENCE @
           block_if (is_p0 a \<and> \<not> cp_p0_exact (cap_compression_policy c)) P0_NOT_EXACT)
         (cap_atoms c)))"

definition well_formedness :: "capsule \<Rightarrow> blocker_code list" where
  "well_formedness c = unique_blockers
     [block_if (\<not> manifest_is_well_formed (cap_manifest c)) MALFORMED_CAPSULE @
      block_if (\<not> ib_valid (cap_integrity c)) INTEGRITY_FAILED @
      identifier_blockers c @ evidence_blockers c @ atom_blockers c]"

definition eligibility_blockers ::
  "capsule \<Rightarrow> task_context \<Rightarrow> principal \<Rightarrow> blocker_code list" where
  "eligibility_blockers c task who =
     (let m = cap_manifest c in unique_blockers
       [block_if (pr_principal_id who \<notin> mf_authorized_principals m) UNAUTHORIZED_CAPSULE @
        block_if (tc_repository task \<notin> mf_repositories m
            \<or> tc_environment task \<notin> mf_environments m
            \<or> \<not> (\<exists>p \<in> set (mf_path_prefixes m). startswith (tc_path task) p)) OUT_OF_SCOPE @
        block_if (\<not> tc_required_interfaces task \<subseteq> mf_provides m) INCOMPATIBLE_INTERFACE @
        block_if (\<exists>e \<in> set (cap_evidence c). \<not> ev_fresh e) STALE_EVIDENCE])"

section \<open>Blocker lists: what the checks report\<close>

lemma set_unique_loop: "set (unique_loop r bs) = set r \<union> (set bs - {NONE})"
  by (induction r bs rule: unique_loop.induct) auto

lemma distinct_unique_loop: "distinct r \<Longrightarrow> distinct (unique_loop r bs)"
  by (induction r bs rule: unique_loop.induct) auto

lemma set_unique_blockers [simp]:
  "set (unique_blockers gs) = (\<Union>g \<in> set gs. set g) - {NONE}"
  by (simp add: unique_blockers_def set_unique_loop)

lemma distinct_unique_blockers [simp]: "distinct (unique_blockers gs)"
  by (simp add: unique_blockers_def distinct_unique_loop)

lemma unique_blockers_Nil_iff [simp]:
  "unique_blockers gs = [] \<longleftrightarrow> (\<forall>g \<in> set gs. set g \<subseteq> {NONE})"
proof -
  have "unique_blockers gs = [] \<longleftrightarrow> set (unique_blockers gs) = {}"
    by (simp only: set_empty)
  then show ?thesis by auto
qed

lemma unique_loop_snoc:
  "unique_loop r (bs @ [b]) =
     (if b = NONE \<or> b \<in> set (unique_loop r bs) then unique_loop r bs
      else unique_loop r bs @ [b])"
  by (induction r bs rule: unique_loop.induct) auto

text \<open>The result keeps the first occurrence of every code but \<open>NONE\<close>.\<close>

lemma unique_blockers_eq:
  "unique_blockers gs = rev (remdups (rev (filter (\<lambda>b. b \<noteq> NONE) (concat gs))))"
proof -
  have "unique_loop [] bs = rev (remdups (rev (filter (\<lambda>b. b \<noteq> NONE) bs)))" for bs
    by (induction bs rule: rev_induct) (auto simp: unique_loop_snoc set_unique_loop)
  then show ?thesis by (simp add: unique_blockers_def)
qed

lemma set_block_if [simp]: "set (block_if c b) = (if c then {b} else {})"
  by (simp add: block_if_def)

lemma block_if_clear [simp]: "set (block_if c b) \<subseteq> {NONE} \<longleftrightarrow> (c \<longrightarrow> b = NONE)"
  by (cases c) (simp_all add: block_if_def)

lemma card_set_eq_length_iff: "length xs = card (set xs) \<longleftrightarrow> distinct xs"
  by (metis card_distinct distinct_card)

text \<open>What an empty verdict of the structural check means.\<close>

definition capsule_ok :: "capsule \<Rightarrow> bool" where
  "capsule_ok c \<longleftrightarrow>
     manifest_is_well_formed (cap_manifest c) \<and> ib_valid (cap_integrity c) \<and>
     distinct (map ev_evidence_id (cap_evidence c)) \<and>
     distinct (map at_atom_id (cap_atoms c)) \<and>
     (\<forall>e \<in> set (cap_evidence c). evidence_is_well_formed e) \<and>
     (\<forall>a \<in> set (cap_atoms c). atom_is_well_formed a \<and>
        at_evidence_refs a \<subseteq> ev_evidence_id ` set (cap_evidence c) \<and>
        (is_p0 a \<longrightarrow> cp_p0_exact (cap_compression_policy c)))"

lemma identifier_blockers_iff:
  "set (identifier_blockers c) \<subseteq> {NONE} \<longleftrightarrow>
     distinct (map ev_evidence_id (cap_evidence c)) \<and> distinct (map at_atom_id (cap_atoms c))"
  unfolding identifier_blockers_def Let_def card_set_eq_length_iff
  by (cases "distinct (map ev_evidence_id (cap_evidence c))";
      cases "distinct (map at_atom_id (cap_atoms c))") simp_all

lemma evidence_blockers_iff:
  "set (evidence_blockers c) \<subseteq> {NONE} \<longleftrightarrow>
     (\<forall>e \<in> set (cap_evidence c). evidence_is_well_formed e)"
  by (auto simp: evidence_blockers_def)

lemma atom_blockers_iff:
  "set (atom_blockers c) \<subseteq> {NONE} \<longleftrightarrow>
     (\<forall>a \<in> set (cap_atoms c). atom_is_well_formed a \<and>
        at_evidence_refs a \<subseteq> ev_evidence_id ` set (cap_evidence c) \<and>
        (is_p0 a \<longrightarrow> cp_p0_exact (cap_compression_policy c)))"
  unfolding atom_blockers_def Let_def set_concat set_map
  by (simp add: UN_subset_iff del: set_block_if)

lemma well_formedness_iff: "well_formedness c = [] \<longleftrightarrow> capsule_ok c"
  unfolding well_formedness_def unique_blockers_Nil_iff
  by (simp add: capsule_ok_def identifier_blockers_iff evidence_blockers_iff atom_blockers_iff
      del: set_block_if)

text \<open>What an empty verdict of the eligibility check means.\<close>

definition capsule_eligible :: "capsule \<Rightarrow> task_context \<Rightarrow> principal \<Rightarrow> bool" where
  "capsule_eligible c task who \<longleftrightarrow>
     (let m = cap_manifest c in
        pr_principal_id who \<in> mf_authorized_principals m \<and>
        tc_repository task \<in> mf_repositories m \<and>
        tc_environment task \<in> mf_environments m \<and>
        (\<exists>p \<in> set (mf_path_prefixes m). prefix p (tc_path task)) \<and>
        tc_required_interfaces task \<subseteq> mf_provides m \<and>
        (\<forall>e \<in> set (cap_evidence c). ev_fresh e))"

lemma eligibility_blockers_iff:
  "eligibility_blockers c task p = [] \<longleftrightarrow> capsule_eligible c task p"
  unfolding eligibility_blockers_def capsule_eligible_def Let_def unique_blockers_Nil_iff
  by (auto simp: startswith_iff_prefix simp del: set_block_if)

lemma cross_identity_loop_result:
  "cross_identity_loop H cs r a e = [] \<or> cross_identity_loop H cs r a e = [MALFORMED_CAPSULE]"
  by (induction H cs r a e rule: cross_identity_loop.induct)
    (auto simp: Let_def split: option.splits prod.splits)

lemma cross_identity_no_NONE: "NONE \<notin> set (cross_capsule_identity_blockers H cs)"
  using cross_identity_loop_result [of H cs "[]" "[]" "[]"]
  by (auto simp: cross_capsule_identity_blockers_def)

end
