(* ===== verification/Closure_Spec.thy ===== *)
theory Closure_Spec
  imports Prelude
begin

text \<open>
  The contract every dependency closure of the program promises: the result is
  the set of nodes reachable from the selection along the followed edges. The
  clients use only what follows from it: the closure contains the selection, is
  closed under the edges, is the least such set, is monotone and idempotent.
  The providers are \<open>_dependency_closure\<close> of \<^verbatim>\<open>formal.py\<close> and
  \<open>dependency_closure\<close> of \<^verbatim>\<open>resolve/closure.py\<close>.
\<close>

definition closed_under :: "('a \<times> 'a) set \<Rightarrow> 'a set \<Rightarrow> bool" where
  "closed_under E S \<longleftrightarrow> (\<forall>(x, y) \<in> E. x \<in> S \<longrightarrow> y \<in> S)"

lemma closed_underI: "(\<And>x y. (x, y) \<in> E \<Longrightarrow> x \<in> S \<Longrightarrow> y \<in> S) \<Longrightarrow> closed_under E S"
  by (auto simp: closed_under_def)

lemma closed_underD: "closed_under E S \<Longrightarrow> (x, y) \<in> E \<Longrightarrow> x \<in> S \<Longrightarrow> y \<in> S"
  by (auto simp: closed_under_def)

lemma closed_under_rtrancl:
  assumes "closed_under E S" and "(x, y) \<in> E\<^sup>*" and "x \<in> S"
  shows "y \<in> S"
  using assms(2,3,1) by (induction rule: rtrancl_induct) (auto dest: closed_underD)

lemma rtrancl_image_closed: "closed_under E (E\<^sup>* `` S)"
  by (rule closed_underI) (auto intro: rtrancl_into_rtrancl)

text \<open>A set between the selection and the reachable nodes that is closed is exactly
  the reachable nodes. Both closure loops end with this argument.\<close>

lemma closed_between_eq_reach:
  assumes "S \<subseteq> C" and "C \<subseteq> E\<^sup>* `` S" and "closed_under E C"
  shows "C = E\<^sup>* `` S"
proof
  show "E\<^sup>* `` S \<subseteq> C"
    using assms(1) closed_under_rtrancl [OF assms(3)] by auto
qed (rule assms(2))

lemma reach_step_subset:
  assumes "C \<subseteq> E\<^sup>* `` S" and "x \<in> C" and "(x, y) \<in> E"
  shows "insert y C \<subseteq> E\<^sup>* `` S"
  using assms by (auto intro: rtrancl_into_rtrancl)

locale reach_closure =
  fixes edges :: "('a \<times> 'a) set" and cl :: "'a set \<Rightarrow> 'a set"
  assumes cl_reach: "finite S \<Longrightarrow> cl S = edges\<^sup>* `` S"
begin

lemma extensive: "finite S \<Longrightarrow> S \<subseteq> cl S"
  by (auto simp: cl_reach)

lemma closed: "finite S \<Longrightarrow> closed_under edges (cl S)"
  by (simp add: cl_reach rtrancl_image_closed)

lemma least:
  assumes "finite S" and "S \<subseteq> T" and "closed_under edges T"
  shows "cl S \<subseteq> T"
  using assms closed_under_rtrancl [OF assms(3)] by (auto simp: cl_reach)

lemma mono: "finite T \<Longrightarrow> S \<subseteq> T \<Longrightarrow> cl S \<subseteq> cl T"
  by (auto simp: cl_reach finite_subset)

lemma fixpoint_iff: "finite S \<Longrightarrow> cl S = S \<longleftrightarrow> closed_under edges S"
  by (metis closed extensive least order_refl subset_antisym)

lemma idem: "finite S \<Longrightarrow> finite (cl S) \<Longrightarrow> cl (cl S) = cl S"
  by (simp add: fixpoint_iff closed)

end

end
