(* ===== verification/Formal_Closure.thy ===== *)
theory Formal_Closure
  imports Formal_Model Closure_Spec
begin

text \<open>
  The atom index and the dependency closure of the reference semantics
  (\<^verbatim>\<open>formal.py\<close>, \<open>_atom_index\<close> and \<open>_dependency_closure\<close>). The \<open>while\<close> loop is a
  recursive function; it ends because every pass that sets \<open>changed\<close> closes over
  a further atom of the finite index.
\<close>

definition atom_index :: "capsule list \<Rightarrow> (pystr \<times> atom) list" where
  "atom_index capsules = dict_by at_atom_id (concat (map cap_atoms capsules))"

text \<open>One run of the \<open>for\<close> loop over \<open>sorted(requires)\<close>.\<close>

fun closure_pass ::
  "(pystr \<times> atom) list \<Rightarrow> (pystr \<times> pystr) list \<Rightarrow> pystr set \<times> pystr set \<times> bool \<Rightarrow>
   pystr set \<times> pystr set \<times> bool"
where
  "closure_pass atom_by_id [] st = st"
| "closure_pass atom_by_id ((source, dependency) # es) (closed, missing, changed) =
     closure_pass atom_by_id es
       (if source \<notin> closed then (closed, missing, changed)
        else if dependency \<notin> set (dict_keys atom_by_id)
        then (closed, insert dependency missing, changed)
        else if dependency \<notin> closed then (insert dependency closed, missing, True)
        else (closed, missing, changed))"

lemma closure_pass_grows:
  "closure_pass d es (c, m, b) = (c', m', b') \<Longrightarrow> c \<subseteq> c' \<and> m \<subseteq> m' \<and> (b \<longrightarrow> b')"
proof (induction d es "(c, m, b)" arbitrary: c m b rule: closure_pass.induct)
  case (2 d s t es c m b)
  then show ?case by (auto split: if_splits)
qed auto

lemma closure_pass_bound:
  "closure_pass d es (c, m, b) = (c', m', b') \<Longrightarrow> c' \<subseteq> c \<union> set (dict_keys d)"
proof (induction d es "(c, m, b)" arbitrary: c m b rule: closure_pass.induct)
  case (2 d s t es c m b)
  then show ?case by (fastforce split: if_splits)
qed auto

lemma closure_pass_changed:
  "closure_pass d es (c, m, False) = (c', m', True) \<Longrightarrow> \<exists>t \<in> set (dict_keys d). t \<in> c' \<and> t \<notin> c"
proof (induction d es "(c, m, False)" arbitrary: c m rule: closure_pass.induct)
  case (2 d s t es c m)
  show ?case
  proof (cases "s \<in> c \<and> t \<in> set (dict_keys d) \<and> t \<notin> c")
    case True
    with "2.prems" have "closure_pass d es (insert t c, m, True) = (c', m', True)"
      by simp
    from closure_pass_grows [OF this] True show ?thesis by blast
  next
    case False
    then show ?thesis
      using "2.hyps" "2.prems" by (auto split: if_splits)
  qed
qed auto

lemma closure_pass_unchanged:
  "closure_pass d es (c, m, b) = (c', m', False) \<Longrightarrow>
     c' = c \<and> m' = m \<union> {t. \<exists>s. (s, t) \<in> set es \<and> s \<in> c \<and> t \<notin> set (dict_keys d)} \<and>
     (\<forall>(s, t) \<in> set es. s \<in> c \<longrightarrow> t \<in> set (dict_keys d) \<longrightarrow> t \<in> c)"
proof (induction d es "(c, m, b)" arbitrary: c m b rule: closure_pass.induct)
  case (2 d s t es c m b)
  show ?case
  proof (cases "s \<in> c \<and> t \<in> set (dict_keys d) \<and> t \<notin> c")
    case True
    with "2.prems" have "closure_pass d es (insert t c, m, True) = (c', m', False)"
      by simp
    from closure_pass_grows [OF this] show ?thesis by simp
  next
    case False
    then show ?thesis
      using "2.hyps" "2.prems" by (auto split: if_splits)
  qed
qed auto

function dependency_closure_loop ::
  "(pystr \<times> atom) list \<Rightarrow> (pystr \<times> pystr) list \<Rightarrow> pystr set \<Rightarrow> pystr set \<Rightarrow> pystr set \<times> pystr set"
where
  "dependency_closure_loop d es closed missing =
     (case closure_pass d es (closed, missing, False) of (closed', missing', changed) \<Rightarrow>
        if changed then dependency_closure_loop d es closed' missing'
        else (closed', missing'))"
  by pat_completeness auto
termination
proof (relation "measure (\<lambda>(d, es, c, m). card (set (dict_keys d) - c))")
  fix d es c m c' y m' b'
  assume "(c', y) = closure_pass d es (c, m, False)" and "(m', b') = y" and b'
  then have pass: "closure_pass d es (c, m, False) = (c', m', True)" by auto
  obtain t where t: "t \<in> set (dict_keys d)" "t \<in> c'" "t \<notin> c"
    using closure_pass_changed [OF pass] by blast
  have "set (dict_keys d) - c' \<subset> set (dict_keys d) - c"
    using closure_pass_grows [OF pass] t by blast
  then have "card (set (dict_keys d) - c') < card (set (dict_keys d) - c)"
    by (simp add: psubset_card_mono del: set_map)
  then show "((d, es, c', m'), d, es, c, m) \<in> measure (\<lambda>(d, es, c, m). card (set (dict_keys d) - c))"
    by simp
qed simp

declare dependency_closure_loop.simps [simp del]

definition dependency_closure ::
  "pystr set \<Rightarrow> (pystr \<times> atom) list \<Rightarrow> (pystr \<times> pystr) set \<Rightarrow> pystr set \<times> pystr set" where
  "dependency_closure selected atom_by_id requires =
     dependency_closure_loop atom_by_id (sorted_list_of_set requires) selected {}"

section \<open>The loop computes reachability\<close>

text \<open>The edges the loop follows: those whose target is an indexed atom.\<close>

definition followed :: "(pystr \<times> atom) list \<Rightarrow> (pystr \<times> pystr) set \<Rightarrow> (pystr \<times> pystr) set" where
  "followed d R = {(s, t) \<in> R. t \<in> set (dict_keys d)}"

lemma closure_pass_reach:
  "closure_pass d es (c, m, b) = (c', m', b') \<Longrightarrow> set es \<subseteq> R \<Longrightarrow>
     c \<subseteq> (followed d R)\<^sup>* `` S \<Longrightarrow> c' \<subseteq> (followed d R)\<^sup>* `` S"
proof (induction d es "(c, m, b)" arbitrary: c m b rule: closure_pass.induct)
  case (2 d s t es c m b)
  show ?case
  proof (cases "s \<in> c \<and> t \<in> set (dict_keys d) \<and> t \<notin> c")
    case True
    then have "(s, t) \<in> followed d R"
      using "2.prems" by (simp add: followed_def)
    with True "2.prems" have "insert t c \<subseteq> (followed d R)\<^sup>* `` S"
      by (meson reach_step_subset)
    then show ?thesis
      using "2.hyps" "2.prems" True by auto
  next
    case False
    then show ?thesis
      using "2.hyps" "2.prems" by (auto split: if_splits)
  qed
qed auto

text \<open>A missing dependency is always one some closed atom requires.\<close>

lemma closure_pass_missing:
  "closure_pass d es (c, m, b) = (c', m', b') \<Longrightarrow>
     m' \<subseteq> m \<union> {t. \<exists>s \<in> c'. (s, t) \<in> set es \<and> t \<notin> set (dict_keys d)}"
proof (induction d es "(c, m, b)" arbitrary: c m b rule: closure_pass.induct)
  case (2 d s t es c m b)
  note grow = closure_pass_grows
  show ?case
  proof (cases "s \<in> c \<and> t \<notin> set (dict_keys d)")
    case True
    with "2.prems" have pass: "closure_pass d es (c, insert t m, b) = (c', m', b')"
      by simp
    then have "s \<in> c'" using closure_pass_grows [OF pass] True by blast
    moreover have "m' \<subseteq> insert t m \<union> {t. \<exists>s \<in> c'. (s, t) \<in> set es \<and> t \<notin> set (dict_keys d)}"
      using "2.hyps" pass True by simp
    ultimately show ?thesis using True by (auto simp del: set_map)
  next
    case False
    then have "m' \<subseteq> m \<union> {t. \<exists>s \<in> c'. (s, t) \<in> set es \<and> t \<notin> set (dict_keys d)}"
      using "2.hyps" "2.prems" by (auto split: if_splits simp del: set_map)
    then show ?thesis by (auto simp del: set_map)
  qed
qed auto

lemma dependency_closure_loop_correct:
  assumes "dependency_closure_loop d es c m = (c', m')"
    and "c \<subseteq> (followed d (set es))\<^sup>* `` S" and "S \<subseteq> c"
    and "m \<subseteq> {t. \<exists>s \<in> c. (s, t) \<in> set es \<and> t \<notin> set (dict_keys d)}"
  shows "c' = (followed d (set es))\<^sup>* `` S \<and>
         m' = {t. \<exists>s \<in> c'. (s, t) \<in> set es \<and> t \<notin> set (dict_keys d)}"
  using assms
proof (induction d es c m arbitrary: c' m' rule: dependency_closure_loop.induct)
  case (1 d es c m)
  obtain c1 m1 b1 where pass: "closure_pass d es (c, m, False) = (c1, m1, b1)"
    by (metis prod_cases3)
  have reach: "c1 \<subseteq> (followed d (set es))\<^sup>* `` S"
    using closure_pass_reach [OF pass order_refl] "1.prems"(2) .
  have grow: "S \<subseteq> c1" "c \<subseteq> c1" using closure_pass_grows [OF pass] "1.prems"(3) by blast+
  have miss: "m1 \<subseteq> {t. \<exists>s \<in> c1. (s, t) \<in> set es \<and> t \<notin> set (dict_keys d)}"
    using closure_pass_missing [OF pass] "1.prems"(4) grow(2) by blast
  show ?case
  proof (cases b1)
    case True
    with pass "1.prems"(1) have "dependency_closure_loop d es c1 m1 = (c', m')"
      by (simp add: dependency_closure_loop.simps [of d es c m])
    with "1.IH" [OF pass [symmetric] refl True] reach grow(1) miss show ?thesis
      by blast
  next
    case False
    with pass "1.prems"(1) have res: "c' = c1" "m' = m1"
      by (simp_all add: dependency_closure_loop.simps [of d es c m])
    from False pass have "closure_pass d es (c, m, False) = (c1, m1, False)" by simp
    note stable = closure_pass_unchanged [OF this]
    have "closed_under (followed d (set es)) c1"
      using stable by (auto simp: closed_under_def followed_def simp del: set_map)
    then have "c1 = (followed d (set es))\<^sup>* `` S"
      by (rule closed_between_eq_reach [OF grow(1) reach])
    moreover have "m1 = {t. \<exists>s \<in> c1. (s, t) \<in> set es \<and> t \<notin> set (dict_keys d)}"
      using stable miss by blast
    ultimately show ?thesis using res by simp
  qed
qed

lemma dependency_closure_loop_eq:
  "dependency_closure_loop d es S {} =
     ((followed d (set es))\<^sup>* `` S,
      {t. \<exists>s \<in> (followed d (set es))\<^sup>* `` S. (s, t) \<in> set es \<and> t \<notin> set (dict_keys d)})"
proof -
  obtain c m where "dependency_closure_loop d es S {} = (c, m)"
    by (cases "dependency_closure_loop d es S {}")
  then show ?thesis
    using dependency_closure_loop_correct [of d es S "{}" c m S] by auto
qed

lemma dependency_closure_eq:
  "finite R \<Longrightarrow> dependency_closure S d R =
     ((followed d R)\<^sup>* `` S,
      {t. \<exists>s \<in> (followed d R)\<^sup>* `` S. (s, t) \<in> R \<and> t \<notin> set (dict_keys d)})"
  by (simp add: dependency_closure_def dependency_closure_loop_eq)

text \<open>The first component meets the closure contract.\<close>

interpretation fc: reach_closure
  "followed d (set es)" "\<lambda>S. fst (dependency_closure_loop d es S {})"
  for d :: "(pystr \<times> atom) list" and es :: "(pystr \<times> pystr) list"
  by unfold_locales (simp add: dependency_closure_loop_eq)

lemma fst_dependency_closure:
  "fst (dependency_closure S d R) = fst (dependency_closure_loop d (sorted_list_of_set R) S {})"
  by (simp add: dependency_closure_def)

end
