(* ===== verification/Formal_View.thy ===== *)
theory Formal_View
  imports Formal_Closure
begin

text \<open>
  Compilation and independent validation of a view (\<^verbatim>\<open>formal.py\<close>, \<open>compile_view\<close>
  to \<open>validate_view\<close>). The code recomputes in \<open>_recompute_view\<close> what
  \<open>compile_view\<close> computes inline; both are written out here as the source has them.
  The result of sorting \<open>selected\<close> atoms does not depend on the order the set is
  enumerated in, because the sort key ends in the atom's identifier, so the
  enumeration is taken to be ascending.
\<close>

section \<open>Compilation\<close>

definition rank_key :: "capsule \<Rightarrow> int \<times> pystr" where
  "rank_key c = (- sum_list (map at_relevance (cap_atoms c)), reference c)"

definition atom_key :: "atom \<Rightarrow> bool \<times> int \<times> pystr" where
  "atom_key a = (\<not> is_p0 a, - at_relevance a, at_atom_id a)"

fun eligibility_loop ::
  "task_context \<Rightarrow> principal \<Rightarrow> capsule list \<Rightarrow> blocker_code list \<times> capsule list \<Rightarrow>
   blocker_code list \<times> capsule list"
where
  "eligibility_loop task who [] st = st"
| "eligibility_loop task who (c # cs) (blockers, eligible) =
     (let structural_blockers = well_formedness c;
          elig_blockers = eligibility_blockers c task who
      in eligibility_loop task who cs
           (blockers @ structural_blockers @ elig_blockers,
            if structural_blockers = [] \<and> elig_blockers = [] then eligible @ [c] else eligible))"

definition compile_view ::
  "py_host \<Rightarrow> capsule list \<Rightarrow> task_context \<Rightarrow> principal \<Rightarrow> budget \<Rightarrow> pystr \<Rightarrow> compiled_view"
where
  "compile_view H supplied task who bud adapter =
    (let
       global_blockers = cross_capsule_identity_blockers H supplied;
       (blockers, eligible0) = eligibility_loop task who supplied (global_blockers, []);
       eligible = (if global_blockers \<noteq> [] then [] else eligible0);
       audit_phases = [''eligibility''] @ (if eligible \<noteq> [] then [''ranking''] else []);
       ranked = (if eligible \<noteq> [] then sort_key rank_key eligible else []);
       atom_by_id = atom_index ranked;
       selected0 = at_atom_id ` set (filter (\<lambda>a. is_p0 a \<or> at_relevance a > 0)
                                         (concat (map cap_atoms ranked)));
       requires = set (concat (map (\<lambda>c. dg_requires (cap_dependency_graph c)) ranked));
       (selected, missing_dependencies) = dependency_closure selected0 atom_by_id requires;
       declared_conflicts =
         set (concat (map (\<lambda>c. dg_conflicts (cap_dependency_graph c)) ranked));
       conflicts = Set.filter (\<lambda>(l, r). l \<in> selected \<and> r \<in> selected) declared_conflicts;
       selected_atoms = sort_key atom_key
         (List.map_filter (map_of atom_by_id) (sorted_list_of_set selected));
       exact_atom_ids = at_atom_id ` set (filter is_p0 selected_atoms);
       p0_atom_ids = at_atom_id ` set (filter is_p0 (dict_values atom_by_id));
       p0_cost = sum_list (map at_token_cost (filter is_p0 (dict_values atom_by_id)));
       policies_are_exact = (\<forall>c \<in> set ranked. cp_p0_exact (cap_compression_policy c));
       selected_cost = sum_list (map at_token_cost selected_atoms)
     in
       \<lparr> cv_capsule_refs = map reference supplied,
         cv_capsule_fingerprints = map (\<lambda>c. (reference c, capsule_fingerprint H c)) supplied,
         cv_task_id = tc_task_id task,
         cv_task_fingerprint = task_fingerprint H task,
         cv_principal_id = pr_principal_id who,
         cv_adapter = adapter,
         cv_budget_tokens = bu_tokens bud,
         cv_content = py_join ''\<newline>'' (map at_statement selected_atoms),
         cv_selected_atom_ids = selected,
         cv_exact_atom_ids = exact_atom_ids,
         cv_evidence_handles = (\<Union>a \<in> set selected_atoms. at_evidence_refs a),
         cv_eligibility_checked = map reference supplied,
         cv_ranked_capsules = map reference ranked,
         cv_audit_phases = audit_phases,
         cv_missing_dependencies = missing_dependencies,
         cv_conflicts = conflicts,
         cv_dependency_closed =
           (missing_dependencies = {} \<and>
            (\<forall>(source, dependency) \<in> requires. source \<notin> selected \<or> dependency \<in> selected)),
         cv_p0_preserved = (p0_atom_ids \<subseteq> exact_atom_ids \<and> policies_are_exact),
         cv_blockers = unique_blockers
           [blockers @
            block_if (missing_dependencies \<noteq> {}) MISSING_MANDATORY_DEPENDENCY @
            block_if (conflicts \<noteq> {}) UNRESOLVED_CONFLICT @
            block_if (\<not> policies_are_exact \<and> p0_atom_ids \<noteq> {}) P0_NOT_EXACT @
            block_if (p0_cost > bu_tokens bud) P0_BUDGET_OVERFLOW @
            block_if (selected_cost > bu_tokens bud \<and> p0_cost \<le> bu_tokens bud)
              MANDATORY_CLOSURE_BUDGET_OVERFLOW] \<rparr>)"

section \<open>Validation\<close>

record recomputed_view =
  rv_ranked :: "capsule list"
  rv_selected_atom_ids :: "pystr set"
  rv_selected_atoms :: "atom list"
  rv_exact_atom_ids :: "pystr set"
  rv_evidence_handles :: "pystr set"
  rv_evidence_ids :: "pystr set"
  rv_missing_dependencies :: "pystr set"
  rv_conflicts :: "(pystr \<times> pystr) set"
  rv_dependency_closed :: bool
  rv_p0_preserved :: bool
  rv_p0_cost :: int
  rv_selected_cost :: int

definition recomputed_content :: "recomputed_view \<Rightarrow> pystr" where
  "recomputed_content rv = py_join ''\<newline>'' (map at_statement (rv_selected_atoms rv))"

definition resolve_ranked_capsules ::
  "compiled_view \<Rightarrow> capsule list \<Rightarrow> capsule list \<times> bool" where
  "resolve_ranked_capsules view supplied =
    (let capsule_by_ref = dict_by reference supplied;
         references_are_valid =
           (length (cv_ranked_capsules view) = card (set (cv_ranked_capsules view)) \<and>
            (\<forall>r \<in> set (cv_ranked_capsules view). r \<in> set (dict_keys capsule_by_ref)));
         ranked = List.map_filter (map_of capsule_by_ref) (cv_ranked_capsules view);
         expected_ranked = sort_key rank_key ranked;
         phases = [''eligibility''] @ (if ranked \<noteq> [] then [''ranking''] else []);
         consistent =
           (references_are_valid \<and>
            cv_ranked_capsules view = map reference expected_ranked \<and>
            cv_audit_phases view = phases \<and>
            \<not> (supplied \<noteq> [] \<and> ranked = [] \<and> cv_blockers view = []))
     in (expected_ranked, consistent))"

definition recompute_view :: "capsule list \<Rightarrow> recomputed_view" where
  "recompute_view ranked =
    (let atom_by_id = atom_index ranked;
         selected0 = at_atom_id ` set (filter (\<lambda>a. is_p0 a \<or> at_relevance a > 0)
                                         (concat (map cap_atoms ranked)));
         requires = set (concat (map (\<lambda>c. dg_requires (cap_dependency_graph c)) ranked));
         (selected, missing_dependencies) = dependency_closure selected0 atom_by_id requires;
         declared_conflicts =
           set (concat (map (\<lambda>c. dg_conflicts (cap_dependency_graph c)) ranked));
         conflicts = Set.filter (\<lambda>(l, r). l \<in> selected \<and> r \<in> selected) declared_conflicts;
         selected_atoms = sort_key atom_key
           (List.map_filter (map_of atom_by_id) (sorted_list_of_set selected));
         exact_atom_ids = at_atom_id ` set (filter is_p0 selected_atoms);
         p0_ids = at_atom_id ` set (filter is_p0 (dict_values atom_by_id));
         policies_are_exact = (\<forall>c \<in> set ranked. cp_p0_exact (cap_compression_policy c))
     in
       \<lparr> rv_ranked = ranked,
         rv_selected_atom_ids = selected,
         rv_selected_atoms = selected_atoms,
         rv_exact_atom_ids = exact_atom_ids,
         rv_evidence_handles = (\<Union>a \<in> set selected_atoms. at_evidence_refs a),
         rv_evidence_ids = (\<Union>c \<in> set ranked. ev_evidence_id ` set (cap_evidence c)),
         rv_missing_dependencies = missing_dependencies,
         rv_conflicts = conflicts,
         rv_dependency_closed =
           (missing_dependencies = {} \<and>
            (\<forall>(source, dependency) \<in> requires. source \<notin> selected \<or> dependency \<in> selected)),
         rv_p0_preserved = (p0_ids \<subseteq> exact_atom_ids \<and> policies_are_exact),
         rv_p0_cost = sum_list (map at_token_cost (filter is_p0 (dict_values atom_by_id))),
         rv_selected_cost = sum_list (map at_token_cost selected_atoms) \<rparr>)"

definition view_metadata_is_consistent ::
  "compiled_view \<Rightarrow> capsule list \<Rightarrow> (pystr \<times> pystr) list \<Rightarrow> recomputed_view \<Rightarrow> bool \<Rightarrow> bool" where
  "view_metadata_is_consistent view supplied supplied_fingerprints recomputed ranking_is_consistent =
    (let supplied_refs = map reference supplied in
       ranking_is_consistent \<and>
       cv_capsule_refs view = supplied_refs \<and>
       cv_capsule_fingerprints view = supplied_fingerprints \<and>
       cv_eligibility_checked view = supplied_refs \<and>
       cv_selected_atom_ids view = rv_selected_atom_ids recomputed \<and>
       cv_exact_atom_ids view = rv_exact_atom_ids recomputed \<and>
       cv_evidence_handles view = rv_evidence_handles recomputed \<and>
       cv_content view = recomputed_content recomputed \<and>
       cv_missing_dependencies view = rv_missing_dependencies recomputed \<and>
       cv_conflicts view = rv_conflicts recomputed \<and>
       cv_dependency_closed view = rv_dependency_closed recomputed \<and>
       cv_p0_preserved view = rv_p0_preserved recomputed)"

definition capsule_validation_blockers ::
  "py_host \<Rightarrow> capsule list \<Rightarrow> principal \<Rightarrow> blocker_code list" where
  "capsule_validation_blockers H supplied who = unique_blockers
     [cross_capsule_identity_blockers H supplied @
      concat (map (\<lambda>c. well_formedness c @
        block_if (pr_principal_id who \<notin> mf_authorized_principals (cap_manifest c))
          UNAUTHORIZED_CAPSULE @
        block_if (\<exists>e \<in> set (cap_evidence c). \<not> ev_fresh e) STALE_EVIDENCE) supplied)]"

definition recomputed_validation_blockers ::
  "compiled_view \<Rightarrow> recomputed_view \<Rightarrow> blocker_code list" where
  "recomputed_validation_blockers view rv =
     block_if (\<not> rv_evidence_handles rv \<subseteq> rv_evidence_ids rv) MISSING_EVIDENCE @
     block_if (\<not> rv_p0_preserved rv) P0_NOT_EXACT @
     block_if (rv_missing_dependencies rv \<noteq> {} \<or> \<not> rv_dependency_closed rv)
       MISSING_MANDATORY_DEPENDENCY @
     block_if (rv_conflicts rv \<noteq> {}) UNRESOLVED_CONFLICT @
     (if rv_p0_cost rv > cv_budget_tokens view then [P0_BUDGET_OVERFLOW]
      else block_if (rv_selected_cost rv > cv_budget_tokens view)
        MANDATORY_CLOSURE_BUDGET_OVERFLOW)"

definition validate_view ::
  "py_host \<Rightarrow> compiled_view \<Rightarrow> capsule list \<Rightarrow> principal \<Rightarrow> validation_report" where
  "validate_view H view supplied who =
    (let supplied_fingerprints = map (\<lambda>c. (reference c, capsule_fingerprint H c)) supplied;
         (ranked, ranking_is_consistent) = resolve_ranked_capsules view supplied;
         recomputed = recompute_view ranked;
         unique = unique_blockers
           [cv_blockers view @
            capsule_validation_blockers H supplied who @
            block_if (cv_principal_id view \<noteq> pr_principal_id who) UNAUTHORIZED_CAPSULE @
            block_if (\<not> view_metadata_is_consistent view supplied supplied_fingerprints
                          recomputed ranking_is_consistent) VIEW_INCONSISTENT @
            recomputed_validation_blockers view recomputed]
     in
       \<lparr> vr_valid = (unique = []),
         vr_blockers = unique,
         vr_view_fingerprint = view_fingerprint H view,
         vr_capsule_fingerprints = supplied_fingerprints,
         vr_principal_id = pr_principal_id who \<rparr>)"

end
