(* ===== verification/Formal_View_Laws.thy ===== *)
theory Formal_View_Laws
  imports Formal_View
begin

text \<open>
  Correctness of \<open>compile_view\<close> and \<open>validate_view\<close>. The specification level is
  what a view over a list of ranked capsules has to contain: the seed atoms, the
  atoms reachable from them, and the atoms' statements in key order.
\<close>

section \<open>What a view over ranked capsules contains\<close>

definition seeds :: "capsule list \<Rightarrow> pystr set" where
  "seeds R = {at_atom_id a |a c. c \<in> set R \<and> a \<in> set (cap_atoms c) \<and>
                                 (is_p0 a \<or> at_relevance a > 0)}"

definition requires_of :: "capsule list \<Rightarrow> (pystr \<times> pystr) set" where
  "requires_of R = (\<Union>c \<in> set R. set (dg_requires (cap_dependency_graph c)))"

definition conflicts_of :: "capsule list \<Rightarrow> (pystr \<times> pystr) set" where
  "conflicts_of R = (\<Union>c \<in> set R. set (dg_conflicts (cap_dependency_graph c)))"

abbreviation indexed :: "capsule list \<Rightarrow> pystr set" where
  "indexed R \<equiv> {at_atom_id a |a c. c \<in> set R \<and> a \<in> set (cap_atoms c)}"

definition reachable_atoms :: "capsule list \<Rightarrow> pystr set" where
  "reachable_atoms R = (followed (atom_index R) (requires_of R))\<^sup>* `` seeds R"

lemma keys_atom_index: "fst ` set (atom_index R) = indexed R"
  by (auto simp: atom_index_def)

lemma finite_requires_of [simp]: "finite (requires_of R)"
  by (simp add: requires_of_def)

lemma seeds_indexed: "seeds R \<subseteq> indexed R"
  by (auto simp: seeds_def)

lemma reachable_indexed: "reachable_atoms R \<subseteq> indexed R"
proof
  fix y assume "y \<in> reachable_atoms R"
  then obtain x where "x \<in> seeds R" and "(x, y) \<in> (followed (atom_index R) (requires_of R))\<^sup>*"
    by (auto simp: reachable_atoms_def)
  from this(2,1) show "y \<in> indexed R"
  proof (cases rule: rtranclE)
    case base
    with \<open>x \<in> seeds R\<close> seeds_indexed show ?thesis by blast
  next
    case (step z)
    then show ?thesis by (auto simp: followed_def keys_atom_index)
  qed
qed

lemma finite_indexed [simp]: "finite (indexed R)"
  by (simp flip: keys_atom_index)

lemma finite_reachable [simp]: "finite (reachable_atoms R)"
  using finite_indexed reachable_indexed by (rule finite_subset [rotated])

lemma recompute_selected:
  "rv_selected_atom_ids (recompute_view R) = reachable_atoms R"
  "rv_missing_dependencies (recompute_view R) =
     {t. \<exists>s \<in> reachable_atoms R. (s, t) \<in> requires_of R \<and> t \<notin> indexed R}"
  "rv_conflicts (recompute_view R) =
     {(l, r). (l, r) \<in> conflicts_of R \<and> l \<in> reachable_atoms R \<and> r \<in> reachable_atoms R}"
proof -
  have seeds: "at_atom_id ` set (filter (\<lambda>a. is_p0 a \<or> at_relevance a > 0)
                 (concat (map cap_atoms R))) = seeds R"
    by (auto simp: seeds_def)
  have req: "set (concat (map (\<lambda>c. dg_requires (cap_dependency_graph c)) R)) = requires_of R"
    by (simp add: requires_of_def)
  have con: "set (concat (map (\<lambda>c. dg_conflicts (cap_dependency_graph c)) R)) = conflicts_of R"
    by (simp add: conflicts_of_def)
  note defs = recompute_view_def Let_def seeds req con dependency_closure_eq
    reachable_atoms_def [symmetric] keys_atom_index
  show "rv_selected_atom_ids (recompute_view R) = reachable_atoms R"
    unfolding defs by (simp add: dependency_closure_eq reachable_atoms_def)
  show "rv_missing_dependencies (recompute_view R) =
     {t. \<exists>s \<in> reachable_atoms R. (s, t) \<in> requires_of R \<and> t \<notin> indexed R}"
    unfolding defs by (simp add: dependency_closure_eq reachable_atoms_def keys_atom_index)
  show "rv_conflicts (recompute_view R) =
     {(l, r). (l, r) \<in> conflicts_of R \<and> l \<in> reachable_atoms R \<and> r \<in> reachable_atoms R}"
    unfolding defs by (auto simp: dependency_closure_eq reachable_atoms_def)
qed

text \<open>The index holds an atom of the ranked capsules under each identifier.\<close>

lemma atom_indexD:
  assumes "map_of (atom_index R) k = Some a"
  shows "at_atom_id a = k" and "\<exists>c \<in> set R. a \<in> set (cap_atoms c)"
  using map_of_dict_byD [OF assms [unfolded atom_index_def]] by auto

lemma values_atom_index:
  "set (dict_values (atom_index R)) = {a. map_of (atom_index R) (at_atom_id a) = Some a}"
proof -
  have dist: "distinct (dict_keys (atom_index R))"
    by (simp add: atom_index_def)
  have "a \<in> set (dict_values (atom_index R)) \<longleftrightarrow>
        map_of (atom_index R) (at_atom_id a) = Some a" for a
  proof
    assume "a \<in> set (dict_values (atom_index R))"
    then obtain k where "(k, a) \<in> set (atom_index R)" by auto
    with dist have "map_of (atom_index R) k = Some a" by simp
    with atom_indexD(1) show "map_of (atom_index R) (at_atom_id a) = Some a" by blast
  next
    assume "map_of (atom_index R) (at_atom_id a) = Some a"
    then show "a \<in> set (dict_values (atom_index R))"
      by (metis image_eqI list.set_map map_of_SomeD snd_conv)
  qed
  then show ?thesis by blast
qed

lemma set_map_filter: "set (List.map_filter f xs) = {y. \<exists>x \<in> set xs. f x = Some y}"
  by (force simp: map_filter_def image_iff)

lemma set_selected_atoms:
  "set (rv_selected_atoms (recompute_view R)) =
     {a. map_of (atom_index R) (at_atom_id a) = Some a \<and> at_atom_id a \<in> reachable_atoms R}"
proof -
  have "set (rv_selected_atoms (recompute_view R)) =
        {a. \<exists>k \<in> rv_selected_atom_ids (recompute_view R). map_of (atom_index R) k = Some a}"
    using recompute_selected(1) [of R]
    by (auto simp: recompute_view_def Let_def set_map_filter split: prod.splits)
  then show ?thesis
    using atom_indexD(1) [of R] by (auto simp: recompute_selected)
qed

lemma ids_selected_atoms:
  "at_atom_id ` set (rv_selected_atoms (recompute_view R)) = reachable_atoms R"
proof
  show "reachable_atoms R \<subseteq> at_atom_id ` set (rv_selected_atoms (recompute_view R))"
  proof
    fix k assume k: "k \<in> reachable_atoms R"
    then have "k \<in> fst ` set (atom_index R)"
      using reachable_indexed keys_atom_index by fastforce
    then obtain a where a: "map_of (atom_index R) k = Some a"
      by (metis domD dom_map_of_conv_image_fst)
    then have "at_atom_id a = k" by (rule atom_indexD)
    with a k show "k \<in> at_atom_id ` set (rv_selected_atoms (recompute_view R))"
      by (auto simp: set_selected_atoms)
  qed
qed (auto simp: set_selected_atoms)

lemma recompute_simple_fields:
  "rv_exact_atom_ids (recompute_view R) =
     at_atom_id ` {a \<in> set (rv_selected_atoms (recompute_view R)). is_p0 a}"
  "rv_evidence_handles (recompute_view R) =
     (\<Union>a \<in> set (rv_selected_atoms (recompute_view R)). at_evidence_refs a)"
  "rv_evidence_ids (recompute_view R) = (\<Union>c \<in> set R. ev_evidence_id ` set (cap_evidence c))"
  "rv_selected_cost (recompute_view R) =
     sum_list (map at_token_cost (rv_selected_atoms (recompute_view R)))"
  "rv_p0_cost (recompute_view R) =
     sum_list (map at_token_cost (filter is_p0 (dict_values (atom_index R))))"
  by (auto simp: recompute_view_def Let_def split: prod.splits)

lemma recompute_dependency_closed:
  "rv_dependency_closed (recompute_view R) \<longleftrightarrow>
     rv_missing_dependencies (recompute_view R) = {} \<and>
     closed_under (requires_of R) (rv_selected_atom_ids (recompute_view R))"
  by (auto simp: recompute_view_def Let_def closed_under_def requires_of_def split: prod.splits)

text \<open>Every exact-class atom of the index is selected, so \<open>p0_preserved\<close> is about the
  policies only.\<close>

lemma p0_reachable:
  assumes "map_of (atom_index R) (at_atom_id a) = Some a" and "is_p0 a"
  shows "at_atom_id a \<in> reachable_atoms R"
proof -
  have "at_atom_id a \<in> seeds R"
    using atom_indexD(2) [OF assms(1)] assms(2) by (auto simp: seeds_def)
  then show ?thesis by (auto simp: reachable_atoms_def)
qed

lemma recompute_p0_preserved:
  "rv_p0_preserved (recompute_view R) \<longleftrightarrow>
     (\<forall>c \<in> set R. cp_p0_exact (cap_compression_policy c))"
proof -
  have "rv_p0_preserved (recompute_view R) \<longleftrightarrow>
     at_atom_id ` {a \<in> set (dict_values (atom_index R)). is_p0 a}
       \<subseteq> rv_exact_atom_ids (recompute_view R) \<and>
     (\<forall>c \<in> set R. cp_p0_exact (cap_compression_policy c))"
    by (simp add: recompute_view_def Let_def split: prod.splits)
  moreover have "at_atom_id ` {a \<in> set (dict_values (atom_index R)). is_p0 a}
       \<subseteq> rv_exact_atom_ids (recompute_view R)"
    using p0_reachable [of R]
    by (auto simp: recompute_simple_fields set_selected_atoms values_atom_index simp del: set_map)
  ultimately show ?thesis by blast
qed

text \<open>With nothing missing, following the indexed edges follows every edge.\<close>

lemma no_missing_closed:
  assumes "rv_missing_dependencies (recompute_view R) = {}"
  shows "closed_under (requires_of R) (reachable_atoms R)"
proof (rule closed_underI)
  fix x y assume xy: "(x, y) \<in> requires_of R" and x: "x \<in> reachable_atoms R"
  with assms have "y \<in> indexed R"
    by (auto simp: recompute_selected)
  with xy have "(x, y) \<in> followed (atom_index R) (requires_of R)"
    by (auto simp: followed_def keys_atom_index)
  with x show "y \<in> reachable_atoms R"
    by (auto simp: reachable_atoms_def intro: rtrancl_into_rtrancl)
qed

lemma evidence_handles_known:
  assumes "\<forall>c \<in> set R. capsule_ok c"
  shows "rv_evidence_handles (recompute_view R) \<subseteq> rv_evidence_ids (recompute_view R)"
  using assms atom_indexD(2) [of R]
  by (fastforce simp: recompute_simple_fields set_selected_atoms capsule_ok_def)

section \<open>Compilation in terms of recomputation\<close>

definition eligible_for :: "py_host \<Rightarrow> capsule list \<Rightarrow> task_context \<Rightarrow> principal \<Rightarrow> capsule list" where
  "eligible_for H cs task who =
     (if cross_capsule_identity_blockers H cs \<noteq> [] then []
      else filter (\<lambda>c. capsule_ok c \<and> capsule_eligible c task who) cs)"

definition ranked_for :: "py_host \<Rightarrow> capsule list \<Rightarrow> task_context \<Rightarrow> principal \<Rightarrow> capsule list" where
  "ranked_for H cs task who = sort_key rank_key (eligible_for H cs task who)"

lemma eligibility_loop_eq:
  "eligibility_loop task who cs (b, e) =
     (b @ concat (map (\<lambda>c. well_formedness c @ eligibility_blockers c task who) cs),
      e @ filter (\<lambda>c. capsule_ok c \<and> capsule_eligible c task who) cs)"
  by (induction task who cs "(b, e)" arbitrary: b e rule: eligibility_loop.induct)
    (auto simp: Let_def well_formedness_iff eligibility_blockers_iff)

lemma compile_view_eq:
  "compile_view H cs task who bud adapter =
    (let R = ranked_for H cs task who; rv = recompute_view R in
       \<lparr> cv_capsule_refs = map reference cs,
         cv_capsule_fingerprints = map (\<lambda>c. (reference c, capsule_fingerprint H c)) cs,
         cv_task_id = tc_task_id task,
         cv_task_fingerprint = task_fingerprint H task,
         cv_principal_id = pr_principal_id who,
         cv_adapter = adapter,
         cv_budget_tokens = bu_tokens bud,
         cv_content = recomputed_content rv,
         cv_selected_atom_ids = rv_selected_atom_ids rv,
         cv_exact_atom_ids = rv_exact_atom_ids rv,
         cv_evidence_handles = rv_evidence_handles rv,
         cv_eligibility_checked = map reference cs,
         cv_ranked_capsules = map reference R,
         cv_audit_phases = [''eligibility''] @ (if R \<noteq> [] then [''ranking''] else []),
         cv_missing_dependencies = rv_missing_dependencies rv,
         cv_conflicts = rv_conflicts rv,
         cv_dependency_closed = rv_dependency_closed rv,
         cv_p0_preserved = rv_p0_preserved rv,
         cv_blockers = unique_blockers
           [(cross_capsule_identity_blockers H cs @
             concat (map (\<lambda>c. well_formedness c @ eligibility_blockers c task who) cs)) @
            block_if (rv_missing_dependencies rv \<noteq> {}) MISSING_MANDATORY_DEPENDENCY @
            block_if (rv_conflicts rv \<noteq> {}) UNRESOLVED_CONFLICT @
            block_if (\<not> (\<forall>c \<in> set R. cp_p0_exact (cap_compression_policy c)) \<and>
                      at_atom_id ` set (filter is_p0 (dict_values (atom_index R))) \<noteq> {})
              P0_NOT_EXACT @
            block_if (rv_p0_cost rv > bu_tokens bud) P0_BUDGET_OVERFLOW @
            block_if (rv_selected_cost rv > bu_tokens bud \<and> rv_p0_cost rv \<le> bu_tokens bud)
              MANDATORY_CLOSURE_BUDGET_OVERFLOW] \<rparr>)"
proof -
  have R: "(if (if cross_capsule_identity_blockers H cs \<noteq> [] then [] else
                filter (\<lambda>c. capsule_ok c \<and> capsule_eligible c task who) cs) \<noteq> []
            then sort_key rank_key (if cross_capsule_identity_blockers H cs \<noteq> [] then [] else
                filter (\<lambda>c. capsule_ok c \<and> capsule_eligible c task who) cs) else [])
      = ranked_for H cs task who"
    by (simp add: ranked_for_def eligible_for_def)
  have ne: "ranked_for H cs task who = [] \<longleftrightarrow>
      (if cross_capsule_identity_blockers H cs \<noteq> [] then [] else
                filter (\<lambda>c. capsule_ok c \<and> capsule_eligible c task who) cs) = []"
    by (simp only: ranked_for_def eligible_for_def length_0_conv [symmetric] length_sort)
  show ?thesis
    unfolding compile_view_def recompute_view_def recomputed_content_def Let_def
      eligibility_loop_eq append_Nil case_prod_beta fst_conv snd_conv
    by (simp only: R ne recomputed_view.select_convs)
qed

lemma recompute_view_ranked [simp]: "rv_ranked (recompute_view R) = R"
  by (simp add: recompute_view_def Let_def split: prod.splits)

lemma compile_view_sel:
  fixes H cs task who bud adapter
  defines "v \<equiv> compile_view H cs task who bud adapter"
    and "R \<equiv> ranked_for H cs task who"
  shows "cv_ranked_capsules v = map reference R"
    and "cv_content v = recomputed_content (recompute_view R)"
    and "cv_selected_atom_ids v = reachable_atoms R"
    and "cv_audit_phases v = [''eligibility''] @ (if R \<noteq> [] then [''ranking''] else [])"
    and "cv_principal_id v = pr_principal_id who"
    and "cv_budget_tokens v = bu_tokens bud"
  unfolding v_def R_def compile_view_eq by (simp_all add: Let_def recompute_selected)

lemma compile_blockers_iff:
  fixes H cs task who bud adapter
  defines "R \<equiv> ranked_for H cs task who"
  shows "cv_blockers (compile_view H cs task who bud adapter) = [] \<longleftrightarrow>
     cross_capsule_identity_blockers H cs = [] \<and>
     (\<forall>c \<in> set cs. capsule_ok c \<and> capsule_eligible c task who) \<and>
     rv_missing_dependencies (recompute_view R) = {} \<and>
     rv_conflicts (recompute_view R) = {} \<and>
     ((\<forall>c \<in> set R. cp_p0_exact (cap_compression_policy c)) \<or>
      (\<forall>a \<in> set (dict_values (atom_index R)). \<not> is_p0 a)) \<and>
     rv_p0_cost (recompute_view R) \<le> bu_tokens bud \<and>
     rv_selected_cost (recompute_view R) \<le> bu_tokens bud"
proof -
  have wf: "set (well_formedness c) \<subseteq> {NONE} \<longleftrightarrow> capsule_ok c" for c
    by (subst well_formedness_iff [symmetric]) (auto simp: well_formedness_def)
  have el: "set (eligibility_blockers c task who) \<subseteq> {NONE} \<longleftrightarrow> capsule_eligible c task who" for c
    by (subst eligibility_blockers_iff [symmetric]) (auto simp: eligibility_blockers_def Let_def)
  have cs: "set (concat (map (\<lambda>c. well_formedness c @ eligibility_blockers c task who) cs))
      \<subseteq> {NONE} \<longleftrightarrow> (\<forall>c \<in> set cs. capsule_ok c \<and> capsule_eligible c task who)"
    unfolding set_concat set_map by (simp add: UN_subset_iff wf el)
  have cr: "set (cross_capsule_identity_blockers H cs) \<subseteq> {NONE} \<longleftrightarrow>
      cross_capsule_identity_blockers H cs = []"
    using cross_identity_no_NONE [of H cs] by (auto simp: subset_singleton_iff)
  have fl: "at_atom_id ` set (filter is_p0 xs) = {} \<longleftrightarrow> (\<forall>a \<in> set xs. \<not> is_p0 a)" for xs
    by auto
  show ?thesis
    unfolding compile_view_eq Let_def R_def [symmetric] compiled_view.select_convs
      unique_blockers_Nil_iff
    by (simp only: list.set ball_simps set_append Un_subset_iff cs cr fl block_if_clear
        blocker_code.distinct) auto
qed

section \<open>Validation in terms of recomputation\<close>

abbreviation ranked_by :: "compiled_view \<Rightarrow> capsule list \<Rightarrow> capsule list" where
  "ranked_by view cs \<equiv> fst (resolve_ranked_capsules view cs)"

definition admitted_for :: "capsule \<Rightarrow> principal \<Rightarrow> bool" where
  "admitted_for c who \<longleftrightarrow> capsule_ok c \<and>
     pr_principal_id who \<in> mf_authorized_principals (cap_manifest c) \<and>
     (\<forall>e \<in> set (cap_evidence c). ev_fresh e)"

lemma capsule_validation_clear:
  "set (capsule_validation_blockers H cs who) \<subseteq> {NONE} \<longleftrightarrow>
     cross_capsule_identity_blockers H cs = [] \<and> (\<forall>c \<in> set cs. admitted_for c who)"
proof -
  have wf: "set (well_formedness c) \<subseteq> {NONE} \<longleftrightarrow> capsule_ok c" for c
    by (subst well_formedness_iff [symmetric]) (auto simp: well_formedness_def)
  have "set (capsule_validation_blockers H cs who) \<subseteq> {NONE} \<longleftrightarrow>
        capsule_validation_blockers H cs who = []"
    by (auto simp: capsule_validation_blockers_def)
  also have "\<dots> \<longleftrightarrow> set (cross_capsule_identity_blockers H cs) \<subseteq> {NONE} \<and>
      (\<forall>c \<in> set cs. admitted_for c who)"
    unfolding capsule_validation_blockers_def unique_blockers_Nil_iff admitted_for_def
    by (simp add: UN_subset_iff wf del: set_block_if)
  finally show ?thesis
    using cross_identity_no_NONE [of H cs] by (auto simp: subset_singleton_iff)
qed

lemma recomputed_validation_clear:
  "set (recomputed_validation_blockers v rv) \<subseteq> {NONE} \<longleftrightarrow>
     rv_evidence_handles rv \<subseteq> rv_evidence_ids rv \<and> rv_p0_preserved rv \<and>
     rv_missing_dependencies rv = {} \<and> rv_dependency_closed rv \<and> rv_conflicts rv = {} \<and>
     rv_p0_cost rv \<le> cv_budget_tokens v \<and> rv_selected_cost rv \<le> cv_budget_tokens v"
  unfolding recomputed_validation_blockers_def
  by (auto simp del: set_block_if split: if_splits)

lemma validate_valid_iff:
  "vr_valid (validate_view H v cs who) \<longleftrightarrow>
     set (cv_blockers v) \<subseteq> {NONE} \<and>
     cross_capsule_identity_blockers H cs = [] \<and> (\<forall>c \<in> set cs. admitted_for c who) \<and>
     cv_principal_id v = pr_principal_id who \<and>
     view_metadata_is_consistent v cs (map (\<lambda>c. (reference c, capsule_fingerprint H c)) cs)
       (recompute_view (ranked_by v cs)) (snd (resolve_ranked_capsules v cs)) \<and>
     set (recomputed_validation_blockers v (recompute_view (ranked_by v cs))) \<subseteq> {NONE}"
  unfolding validate_view_def Let_def case_prod_beta validation_report.select_convs
    unique_blockers_Nil_iff
  by (simp add: capsule_validation_clear del: set_block_if)

lemma map_filter_own_refs:
  assumes "distinct (map reference cs)" and "set R \<subseteq> set cs"
  shows "List.map_filter (map_of (dict_by reference cs)) (map reference R) = R"
  using assms(2)
proof (induction R)
  case Nil
  then show ?case by (simp add: map_filter_def)
next
  case (Cons c R)
  then have "map_of (dict_by reference cs) (reference c) = Some c"
    using assms(1) by (intro map_of_dict_by_inj) (auto simp: distinct_map)
  with Cons show ?case by (simp add: map_filter_def del: map_of_eq_Some_iff)
qed

lemma resolve_ranked_own:
  assumes "distinct (map reference cs)" and "distinct (map reference R)" and "set R = set cs"
    and "sorted (map rank_key R)"
    and "cv_ranked_capsules v = map reference R"
    and "cv_audit_phases v = [''eligibility''] @ (if R \<noteq> [] then [''ranking''] else [])"
  shows "resolve_ranked_capsules v cs = (R, True)"
proof -
  have ne: "R = [] \<longleftrightarrow> cs = []" using assms(3) by auto
  have card: "length (map reference R) = card (set (map reference R))"
    using assms(2) by (metis distinct_card)
  have own: "List.map_filter (map_of (dict_by reference cs)) (map reference R) = R"
    using assms(1,3) by (intro map_filter_own_refs) auto
  have sort: "sort_key rank_key R = R"
    using assms(4) by (rule sort_key_id_if_sorted)
  show ?thesis
    unfolding resolve_ranked_capsules_def Let_def assms(5,6) own sort
    using card assms(3) ne by simp
qed

lemma resolve_ranked_consistentD:
  assumes "snd (resolve_ranked_capsules v cs)"
  shows "map reference (ranked_by v cs) = cv_ranked_capsules v"
    and "distinct (cv_ranked_capsules v)"
    and "set (ranked_by v cs) \<subseteq> set cs"
    and "sorted (map rank_key (ranked_by v cs))"
  using assms values_dict_by [of reference cs]
  by (auto simp: resolve_ranked_capsules_def Let_def card_set_eq_length_iff set_map_filter
      dest!: map_of_SomeD)

end
