(* ===== verification/Formal_Swap.thy ===== *)
theory Formal_Swap
  imports Formal_View_Laws
begin

text \<open>
  Replacement, activation and rollback of the reference semantics
  (\<^verbatim>\<open>formal.py\<close>, \<open>can_replace\<close>, \<open>activate\<close>, \<open>rollback\<close>), and what their verdicts
  mean gate by gate.
\<close>

definition can_replace ::
  "py_host \<Rightarrow> capsule \<Rightarrow> capsule \<Rightarrow> task_context \<Rightarrow> replacement_decision" where
  "can_replace H old new task =
    (let contract = cap_replacement_contract new;
         interface_compatible =
           (mf_provides (cap_manifest old) \<subseteq> rc_accepts_interfaces contract \<and>
            tc_required_interfaces task \<subseteq> mf_provides (cap_manifest new));
         external_action_controlled =
           (tc_preflight_completed task \<or> tc_approval_granted task \<or>
            tc_compensation_available task);
         unique = unique_blockers
           [well_formedness old @ well_formedness new @
            block_if (rc_replaces contract \<noteq> Some (reference old))
              INCOMPATIBLE_REPLACEMENT_TARGET @
            block_if (\<not> interface_compatible) INCOMPATIBLE_INTERFACE @
            block_if (\<not> rc_target_effects_passed contract) TARGET_EFFECT_FAILED @
            block_if (\<not> rc_protected_invariants_passed contract) PROTECTED_INVARIANT_FAILED @
            block_if (rc_forbidden_spillover_detected contract) FORBIDDEN_SPILLOVER @
            block_if (tc_irreversible_external_action task \<and> \<not> external_action_controlled)
              IRREVERSIBLE_SIDE_EFFECT_UNCONTROLLED]
     in
       \<lparr> rd_old_capsule = reference old,
         rd_new_capsule = reference new,
         rd_old_fingerprint = capsule_fingerprint H old,
         rd_new_fingerprint = capsule_fingerprint H new,
         rd_task_id = tc_task_id task,
         rd_task_fingerprint = task_fingerprint H task,
         rd_allowed = (unique = []),
         rd_target_effect_realized = rc_target_effects_passed contract,
         rd_protected_invariants_preserved = rc_protected_invariants_passed contract,
         rd_forbidden_spillover_detected = rc_forbidden_spillover_detected contract,
         rd_interface_compatible = interface_compatible,
         rd_blockers = unique \<rparr>)"

definition activate :: "py_host \<Rightarrow> activation_candidate \<Rightarrow> safe_boundary \<Rightarrow> activation_receipt" where
  "activate H candidate boundary =
    (let old = ac_old candidate; new = ac_new candidate; view = ac_view candidate;
         validation = ac_validation candidate; replacement = ac_replacement candidate;
         boundary_blockers =
           block_if (\<not> sb_before_next_action boundary) UNSAFE_ACTIVATION_BOUNDARY;
         expected_new_identity = (reference new, capsule_fingerprint H new);
         candidate_blockers = block_if
           (expected_new_identity \<notin> set (cv_capsule_fingerprints view)
            \<or> rd_old_capsule replacement \<noteq> reference old
            \<or> rd_new_capsule replacement \<noteq> reference new
            \<or> rd_old_fingerprint replacement \<noteq> capsule_fingerprint H old
            \<or> rd_new_fingerprint replacement \<noteq> capsule_fingerprint H new) CANDIDATE_MISMATCH;
         task_blockers = block_if
           (rd_task_id replacement \<noteq> cv_task_id view
            \<or> rd_task_fingerprint replacement \<noteq> cv_task_fingerprint view) TASK_MISMATCH;
         validation_blockers = block_if
           (vr_view_fingerprint validation \<noteq> view_fingerprint H view
            \<or> vr_capsule_fingerprints validation \<noteq> cv_capsule_fingerprints view
            \<or> vr_principal_id validation \<noteq> cv_principal_id view
            \<or> vr_valid validation \<noteq> (vr_blockers validation = [])
            \<or> rd_allowed replacement \<noteq> (rd_blockers replacement = [])) VALIDATION_MISMATCH;
         blockers = unique_blockers
           [boundary_blockers, candidate_blockers, task_blockers, validation_blockers,
            cv_blockers view, vr_blockers validation, rd_blockers replacement];
         activated = (blockers = [])
     in
       \<lparr> ar_activated = activated,
         ar_previous_capsule = reference old,
         ar_active_capsule = (if activated then reference new else reference old),
         ar_blockers = blockers \<rparr>)"

definition rollback :: "activation_receipt \<Rightarrow> rollback_receipt" where
  "rollback receipt =
    (if \<not> ar_activated receipt
     then \<lparr> rr_rolled_back = False,
            rr_replaced_capsule = ar_active_capsule receipt,
            rr_active_capsule = ar_active_capsule receipt,
            rr_blockers = [ACTIVATION_NOT_APPLIED] \<rparr>
     else \<lparr> rr_rolled_back = True,
            rr_replaced_capsule = ar_active_capsule receipt,
            rr_active_capsule = ar_previous_capsule receipt,
            rr_blockers = [] \<rparr>)"

section \<open>The gates\<close>

text \<open>The obligations \<open>can_replace\<close> checks, each on its own.\<close>

definition replacement_obligations :: "capsule \<Rightarrow> capsule \<Rightarrow> task_context \<Rightarrow> bool" where
  "replacement_obligations old new task \<longleftrightarrow>
     (let contract = cap_replacement_contract new in
      capsule_ok old \<and> capsule_ok new \<and>
      rc_replaces contract = Some (reference old) \<and>
      mf_provides (cap_manifest old) \<subseteq> rc_accepts_interfaces contract \<and>
      tc_required_interfaces task \<subseteq> mf_provides (cap_manifest new) \<and>
      rc_target_effects_passed contract \<and> rc_protected_invariants_passed contract \<and>
      \<not> rc_forbidden_spillover_detected contract \<and>
      (tc_irreversible_external_action task \<longrightarrow>
         tc_preflight_completed task \<or> tc_approval_granted task \<or> tc_compensation_available task))"

lemma well_formedness_clear: "set (well_formedness c) \<subseteq> {NONE} \<longleftrightarrow> capsule_ok c"
  by (subst well_formedness_iff [symmetric]) (auto simp: well_formedness_def)

lemma can_replace_clear:
  "rd_allowed (can_replace H old new task) \<longleftrightarrow> replacement_obligations old new task"
  "rd_blockers (can_replace H old new task) = [] \<longleftrightarrow> replacement_obligations old new task"
  unfolding can_replace_def replacement_obligations_def Let_def replacement_decision.select_convs
    unique_blockers_Nil_iff
  by (auto simp: well_formedness_clear simp del: set_block_if)

text \<open>The binding checks of \<open>activate\<close>: the three reports talk about this candidate,
  this view and this task.\<close>

definition candidate_bound :: "py_host \<Rightarrow> activation_candidate \<Rightarrow> bool" where
  "candidate_bound H k \<longleftrightarrow>
     (reference (ac_new k), capsule_fingerprint H (ac_new k))
        \<in> set (cv_capsule_fingerprints (ac_view k)) \<and>
     rd_old_capsule (ac_replacement k) = reference (ac_old k) \<and>
     rd_new_capsule (ac_replacement k) = reference (ac_new k) \<and>
     rd_old_fingerprint (ac_replacement k) = capsule_fingerprint H (ac_old k) \<and>
     rd_new_fingerprint (ac_replacement k) = capsule_fingerprint H (ac_new k) \<and>
     rd_task_id (ac_replacement k) = cv_task_id (ac_view k) \<and>
     rd_task_fingerprint (ac_replacement k) = cv_task_fingerprint (ac_view k) \<and>
     vr_view_fingerprint (ac_validation k) = view_fingerprint H (ac_view k) \<and>
     vr_capsule_fingerprints (ac_validation k) = cv_capsule_fingerprints (ac_view k) \<and>
     vr_principal_id (ac_validation k) = cv_principal_id (ac_view k) \<and>
     vr_valid (ac_validation k) = (vr_blockers (ac_validation k) = []) \<and>
     rd_allowed (ac_replacement k) = (rd_blockers (ac_replacement k) = [])"

lemma activate_clear:
  "ar_activated (activate H k b) \<longleftrightarrow>
     sb_before_next_action b \<and> candidate_bound H k \<and>
     set (cv_blockers (ac_view k)) \<subseteq> {NONE} \<and> set (vr_blockers (ac_validation k)) \<subseteq> {NONE} \<and>
     set (rd_blockers (ac_replacement k)) \<subseteq> {NONE}"
  unfolding activate_def candidate_bound_def Let_def activation_receipt.select_convs
    unique_blockers_Nil_iff
  by (auto simp del: set_block_if)

lemma activate_refs:
  "ar_previous_capsule (activate H k b) = reference (ac_old k)"
  "ar_active_capsule (activate H k b) =
     (if ar_activated (activate H k b) then reference (ac_new k) else reference (ac_old k))"
  by (simp_all add: activate_def Let_def)

text \<open>Reports that the program itself produces never carry \<open>NONE\<close>.\<close>

lemma produced_blockers_no_NONE:
  "NONE \<notin> set (cv_blockers (compile_view H cs task who bud adapter))"
  "NONE \<notin> set (vr_blockers (validate_view H v cs who))"
  "NONE \<notin> set (rd_blockers (can_replace H old new task))"
  by (simp_all add: compile_view_eq validate_view_def can_replace_def Let_def case_prod_beta)

lemma validate_valid_blockers: "vr_valid (validate_view H v cs who) \<longleftrightarrow>
    vr_blockers (validate_view H v cs who) = []"
  by (simp add: validate_view_def Let_def case_prod_beta)

end
