(* ===== verification/Formal_Fingerprint.thy ===== *)
theory Formal_Fingerprint
  imports Formal_Model
begin

text \<open>
  Fingerprints of the reference semantics (\<^verbatim>\<open>formal.py\<close>, \<open>_canonical\<close>, \<open>_digest\<close>):
  the canonical form of a capsule determines the capsule and does not depend on
  the order its frozensets are iterated in, provided \<open>repr\<close> is injective.
\<close>

section \<open>Frozensets in canonical form\<close>

text \<open>The lists that stand for frozensets have no repetition and the sets are finite.\<close>

definition frozen_capsule :: "capsule \<Rightarrow> bool" where
  "frozen_capsule c \<longleftrightarrow>
     finite (mf_authorized_principals (cap_manifest c)) \<and>
     finite (mf_repositories (cap_manifest c)) \<and> finite (mf_environments (cap_manifest c)) \<and>
     finite (mf_provides (cap_manifest c)) \<and>
     finite (rc_accepts_interfaces (cap_replacement_contract c)) \<and>
     distinct (cap_atoms c) \<and> (\<forall>a \<in> set (cap_atoms c). finite (at_evidence_refs a)) \<and>
     distinct (cap_evidence c) \<and>
     distinct (dg_requires (cap_dependency_graph c)) \<and>
     distinct (dg_conflicts (cap_dependency_graph c))"

text \<open>Equality of the Python values: tuples and scalars agree, frozensets hold the same
  elements.\<close>

definition same_capsule :: "capsule \<Rightarrow> capsule \<Rightarrow> bool" where
  "same_capsule c c' \<longleftrightarrow>
     cap_manifest c = cap_manifest c' \<and>
     set (cap_atoms c) = set (cap_atoms c') \<and> set (cap_evidence c) = set (cap_evidence c') \<and>
     set (dg_requires (cap_dependency_graph c)) = set (dg_requires (cap_dependency_graph c')) \<and>
     set (dg_conflicts (cap_dependency_graph c)) = set (dg_conflicts (cap_dependency_graph c')) \<and>
     cap_replacement_contract c = cap_replacement_contract c' \<and>
     cap_compression_policy c = cap_compression_policy c' \<and>
     cap_integrity c = cap_integrity c'"

lemma canonical_dataclass_eq [simp]:
  "canonical_dataclass q fs = canonical_dataclass q' fs' \<longleftrightarrow> q = q' \<and> fs = fs'"
proof -
  have "map (\<lambda>(n, v). CTuple [CStr n, v]) fs = map (\<lambda>(n, v). CTuple [CStr n, v]) fs' \<longleftrightarrow> fs = fs'"
    by (rule inj_map_eq_map) (auto simp: inj_on_def)
  then show ?thesis by (simp add: canonical_dataclass_def)
qed

lemma canonical_set_eq:
  assumes "inj (py_repr H)" and "distinct (map f xs)" and "distinct (map f ys)"
    and "inj_on f (set xs \<union> set ys)"
  shows "canonical_set H (map f xs) = canonical_set H (map f ys) \<longleftrightarrow> set xs = set ys"
proof
  assume "canonical_set H (map f xs) = canonical_set H (map f ys)"
  then have "f ` set xs = f ` set ys"
    by (metis canon.inject(4) canonical_set_def list.set_map set_sort)
  with assms(4) show "set xs = set ys"
    using inj_on_image_eq_iff by blast
next
  assume "set xs = set ys"
  then have "sort_key (py_repr H) (map f xs) = sort_key (py_repr H) (map f ys)"
    using assms by (intro sort_key_unique) (auto intro: inj_on_subset)
  then show "canonical_set H (map f xs) = canonical_set H (map f ys)"
    by (simp add: canonical_set_def)
qed

lemma canonical_strs_eq:
  assumes "inj (py_repr H)" and "finite S" and "finite T"
  shows "canonical_strs H S = canonical_strs H T \<longleftrightarrow> S = T"
  unfolding canonical_strs_def
  using assms by (subst canonical_set_eq) (auto simp: distinct_map inj_on_def)

lemma canonical_edges_eq:
  assumes "inj (py_repr H)" and "distinct es" and "distinct fs"
  shows "canonical_edges H es = canonical_edges H fs \<longleftrightarrow> set es = set fs"
  unfolding canonical_edges_def
  using assms by (subst canonical_set_eq)
    (auto simp: distinct_map inj_on_def canonical_pair_def prod_eq_iff)

lemma canonical_atom_eq:
  assumes "inj (py_repr H)" and "finite (at_evidence_refs a)" and "finite (at_evidence_refs b)"
  shows "canonical_atom H a = canonical_atom H b \<longleftrightarrow> a = b"
  unfolding canonical_atom_def using canonical_strs_eq [OF assms]
  by (cases a; cases b) auto

lemma canonical_evidence_eq: "canonical_evidence e = canonical_evidence f \<longleftrightarrow> e = f"
  unfolding canonical_evidence_def by (cases e; cases f) auto

lemma canonical_opt_eq: "canonical_opt x = canonical_opt y \<longleftrightarrow> x = y"
  by (auto simp: canonical_opt_def split: option.splits)

lemma canonical_tuple_eq: "canonical_tuple xs = canonical_tuple ys \<longleftrightarrow> xs = ys"
proof -
  have "map CStr xs = map CStr ys \<longleftrightarrow> xs = ys"
    by (rule inj_map_eq_map) (simp add: inj_on_def)
  then show ?thesis by (simp add: canonical_tuple_def)
qed

section \<open>The canonical form of a capsule\<close>

lemma canonical_manifest_eq:
  assumes "inj (py_repr H)" and "frozen_capsule c" and "frozen_capsule c'"
  shows "canonical_manifest H (cap_manifest c) = canonical_manifest H (cap_manifest c') \<longleftrightarrow>
    cap_manifest c = cap_manifest c'"
  unfolding canonical_manifest_def
  using assms(2,3)
  by (cases "cap_manifest c"; cases "cap_manifest c'")
    (auto simp: canonical_strs_eq [OF assms(1)] frozen_capsule_def canonical_tuple_eq)

lemma canonical_contract_eq:
  assumes "inj (py_repr H)" and "frozen_capsule c" and "frozen_capsule c'"
  shows "canonical_contract H (cap_replacement_contract c) =
      canonical_contract H (cap_replacement_contract c') \<longleftrightarrow>
    cap_replacement_contract c = cap_replacement_contract c'"
  unfolding canonical_contract_def
  using assms(2,3)
  by (cases "cap_replacement_contract c"; cases "cap_replacement_contract c'")
    (auto simp: canonical_strs_eq [OF assms(1)] frozen_capsule_def canonical_opt_eq)

lemma canonical_members_eq:
  assumes "inj (py_repr H)" and "frozen_capsule c" and "frozen_capsule c'"
  shows "canonical_set H (map (canonical_atom H) (cap_atoms c)) =
      canonical_set H (map (canonical_atom H) (cap_atoms c')) \<longleftrightarrow>
      set (cap_atoms c) = set (cap_atoms c')"
    and "canonical_set H (map canonical_evidence (cap_evidence c)) =
      canonical_set H (map canonical_evidence (cap_evidence c')) \<longleftrightarrow>
      set (cap_evidence c) = set (cap_evidence c')"
proof -
  have inj: "inj_on (canonical_atom H) (set (cap_atoms c) \<union> set (cap_atoms c'))"
    using assms(2,3)
    by (auto simp: inj_on_def frozen_capsule_def canonical_atom_eq [OF assms(1)])
  show "canonical_set H (map (canonical_atom H) (cap_atoms c)) =
      canonical_set H (map (canonical_atom H) (cap_atoms c')) \<longleftrightarrow>
      set (cap_atoms c) = set (cap_atoms c')"
    using assms inj by (intro canonical_set_eq)
      (auto simp: distinct_map frozen_capsule_def intro: inj_on_subset)
  show "canonical_set H (map canonical_evidence (cap_evidence c)) =
      canonical_set H (map canonical_evidence (cap_evidence c')) \<longleftrightarrow>
      set (cap_evidence c) = set (cap_evidence c')"
    using assms by (intro canonical_set_eq)
      (auto simp: distinct_map frozen_capsule_def inj_on_def canonical_evidence_eq)
qed

lemma canonical_capsule_eq:
  assumes "inj (py_repr H)" and "frozen_capsule c" and "frozen_capsule c'"
  shows "canonical_capsule H c = canonical_capsule H c' \<longleftrightarrow> same_capsule c c'"
proof -
  have edges: "canonical_graph H (cap_dependency_graph c) =
      canonical_graph H (cap_dependency_graph c') \<longleftrightarrow>
     set (dg_requires (cap_dependency_graph c)) = set (dg_requires (cap_dependency_graph c')) \<and>
     set (dg_conflicts (cap_dependency_graph c)) = set (dg_conflicts (cap_dependency_graph c'))"
    using assms(2,3)
    by (simp add: canonical_graph_def frozen_capsule_def canonical_edges_eq [OF assms(1)])
  have flags: "cp_p0_exact p = cp_p0_exact q \<longleftrightarrow> p = q" "ib_valid i = ib_valid j \<longleftrightarrow> i = j"
    for p q :: compression_policy and i j :: integrity_bundle
    by auto
  show ?thesis
    unfolding canonical_capsule_def same_capsule_def
    by (simp add: canonical_manifest_eq [OF assms] canonical_contract_eq [OF assms]
        canonical_members_eq [OF assms] edges flags)
qed

end
