(* ===== verification/Formal_Properties.thy ===== *)
theory Formal_Properties
  imports Formal_Swap Formal_Fingerprint "HOL-Library.Countable"
begin

text \<open>
  The contract of the reference semantics (\<^verbatim>\<open>formal.py\<close>): the properties that make
  compilation, validation, replacement, activation and rollback correct, each
  with a witness on a small concrete capsule where it has hypotheses.
\<close>

section \<open>A sample for the witnesses\<close>

fun sample_repr :: "canon \<Rightarrow> pystr" where
  "sample_repr (CStr s) = CHR 0x27 # s @ [CHR 0x27]"
| "sample_repr (CInt i) = CHR ''i'' # replicate (nat i) (CHR ''1'')"
| "sample_repr (CBool b) = (if b then ''True'' else ''False'')"
| "sample_repr CNone = ''None''"
| "sample_repr (CTuple cs) = CHR ''('' # concat (map (\<lambda>c. sample_repr c @ '', '') cs) @ '')''"

definition sample_host :: py_host where
  "sample_host = \<lparr> py_repr = sample_repr, sha256_hex = id \<rparr>"

definition sample_atom_0 :: atom where
  "sample_atom_0 = \<lparr> at_atom_id = ''a0'', at_statement = ''S0'',
     at_compression_class = ''P0_EXACT'', at_token_cost = 2, at_relevance = 1,
     at_evidence_refs = {''e0''} \<rparr>"

definition sample_atom_1 :: atom where
  "sample_atom_1 = \<lparr> at_atom_id = ''a1'', at_statement = ''S1'',
     at_compression_class = ''P1_STRUCTURED'', at_token_cost = 3, at_relevance = 0,
     at_evidence_refs = {''e0''} \<rparr>"

definition sample_capsule :: "pystr \<Rightarrow> pystr option \<Rightarrow> capsule" where
  "sample_capsule version target = \<lparr>
     cap_manifest = \<lparr> mf_capsule_id = ''cap'', mf_version = version,
       mf_authorized_principals = {''p''}, mf_repositories = {''r''},
       mf_path_prefixes = [''src/''], mf_environments = {''env''}, mf_provides = {''i''},
       mf_lifecycle = ''ACTIVE'' \<rparr>,
     cap_atoms = [sample_atom_0, sample_atom_1],
     cap_evidence = [\<lparr> ev_evidence_id = ''e0'', ev_digest = ''d'', ev_exact_text = ''x'',
                      ev_fresh = True \<rparr>],
     cap_dependency_graph = \<lparr> dg_requires = [(''a0'', ''a1'')], dg_conflicts = [] \<rparr>,
     cap_replacement_contract = \<lparr> rc_replaces = target, rc_accepts_interfaces = {''i''},
       rc_target_effects_passed = True, rc_protected_invariants_passed = True,
       rc_forbidden_spillover_detected = False \<rparr>,
     cap_compression_policy = \<lparr> cp_p0_exact = True \<rparr>,
     cap_integrity = \<lparr> ib_valid = True \<rparr> \<rparr>"

definition sample_old :: capsule where
  "sample_old = sample_capsule ''1'' None"

definition sample_new :: capsule where
  "sample_new = sample_capsule ''2'' (Some ''cap@1'')"

definition sample_task :: task_context where
  "sample_task = \<lparr> tc_task_id = ''t'', tc_repository = ''r'', tc_path = ''src/a'',
     tc_environment = ''env'', tc_required_interfaces = {''i''},
     tc_irreversible_external_action = False, tc_preflight_completed = False,
     tc_approval_granted = False, tc_compensation_available = False \<rparr>"

definition sample_principal :: principal where
  "sample_principal = \<lparr> pr_principal_id = ''p'' \<rparr>"

definition sample_budget :: budget where
  "sample_budget = \<lparr> bu_tokens = 10 \<rparr>"

definition sample_view :: compiled_view where
  "sample_view = compile_view sample_host [sample_new] sample_task sample_principal
     sample_budget ''plain''"

section \<open>Compilation and validation\<close>

lemma ranked_for_all:
  assumes "cross_capsule_identity_blockers H cs = []"
    and "\<forall>c \<in> set cs. capsule_ok c \<and> capsule_eligible c task who"
  shows "ranked_for H cs task who = sort_key rank_key cs"
  using assms by (simp add: ranked_for_def eligible_for_def)

lemma eligible_admitted: "capsule_ok c \<Longrightarrow> capsule_eligible c task who \<Longrightarrow> admitted_for c who"
  by (simp add: admitted_for_def capsule_eligible_def Let_def)

lemma distinct_sorted_references:
  "distinct (map reference (sort_key rank_key cs)) \<longleftrightarrow> distinct (map reference cs)"
  by (simp flip: card_set_eq_length_iff)

text \<open>When nothing blocks compilation, the validator recomputes over the very ranking
  the compiler used, and finds the same metadata.\<close>

lemma compiled_resolves:
  fixes H cs task who bud adapter
  defines "v \<equiv> compile_view H cs task who bud adapter"
  assumes "cv_blockers v = []" and "distinct (map reference cs)"
  shows "resolve_ranked_capsules v cs = (ranked_for H cs task who, True)"
proof (rule resolve_ranked_own [OF assms(3)])
  have all: "cross_capsule_identity_blockers H cs = []"
      "\<forall>c \<in> set cs. capsule_ok c \<and> capsule_eligible c task who"
    using assms(2) unfolding v_def compile_blockers_iff by blast+
  note R = ranked_for_all [OF all]
  show "distinct (map reference (ranked_for H cs task who))"
    unfolding R distinct_sorted_references by (rule assms(3))
  show "set (ranked_for H cs task who) = set cs" "sorted (map rank_key (ranked_for H cs task who))"
    by (simp_all add: R)
qed (simp_all add: v_def compile_view_sel)

lemma compiled_metadata_consistent:
  "view_metadata_is_consistent (compile_view H cs task who bud adapter) cs
     (map (\<lambda>c. (reference c, capsule_fingerprint H c)) cs)
     (recompute_view (ranked_for H cs task who)) ok \<longleftrightarrow> ok"
  unfolding view_metadata_is_consistent_def compile_view_eq by (simp add: Let_def)

lemma compiled_valid_if:
  fixes H cs task who bud adapter
  defines "v \<equiv> compile_view H cs task who bud adapter"
  assumes nb: "cv_blockers v = []" and "distinct (map reference cs)"
    and p0: "\<forall>c \<in> set cs. cp_p0_exact (cap_compression_policy c)"
  shows "vr_valid (validate_view H v cs who)"
proof -
  let ?R = "ranked_for H cs task who"
  note res = compiled_resolves [OF assms(2,3) [unfolded v_def], folded v_def]
  note facts = nb [unfolded v_def compile_blockers_iff]
  have R: "?R = sort_key rank_key cs"
    using facts by (intro ranked_for_all) blast+
  have "set (recomputed_validation_blockers v (recompute_view ?R)) \<subseteq> {NONE}"
    unfolding recomputed_validation_clear recompute_p0_preserved recompute_dependency_closed
      recompute_selected(1)
    using facts p0 evidence_handles_known [of ?R] no_missing_closed [of ?R]
    by (auto simp: R v_def compile_view_sel)
  moreover have "view_metadata_is_consistent v cs
      (map (\<lambda>c. (reference c, capsule_fingerprint H c)) cs) (recompute_view ?R) True"
    unfolding v_def compiled_metadata_consistent ..
  ultimately show ?thesis
    unfolding validate_valid_iff res fst_conv snd_conv
    using facts nb eligible_admitted by (auto simp: v_def compile_view_sel)
qed

text \<open>C1. A compiled view is accepted by the independent validator exactly when
  compilation reported no blocker, the supplied capsules have pairwise distinct
  references and every one of them keeps an exact P0 policy. The validator
  recomputes selection, closure, conflicts, content and costs from the capsules,
  so this says that compiler and validator agree on all of them.\<close>

theorem compile_view_validates_iff:
  "vr_valid (validate_view H (compile_view H cs task who bud adapter) cs who) \<longleftrightarrow>
     cv_blockers (compile_view H cs task who bud adapter) = [] \<and>
     distinct (map reference cs) \<and>
     list_all (\<lambda>c. cp_p0_exact (cap_compression_policy c)) cs"
  (is "vr_valid (validate_view H ?v cs who) \<longleftrightarrow> _")
proof
  assume valid: "vr_valid (validate_view H ?v cs who)"
  note facts = valid [unfolded validate_valid_iff]
  have nb: "cv_blockers ?v = []"
    using facts produced_blockers_no_NONE(1) [of H cs task who bud adapter]
    by (auto simp: subset_singleton_iff)
  note clear = nb [unfolded compile_blockers_iff]
  have R: "ranked_for H cs task who = sort_key rank_key cs"
    using clear by (intro ranked_for_all) blast+
  have ok: "snd (resolve_ranked_capsules ?v cs)"
    using facts by (simp add: view_metadata_is_consistent_def Let_def)
  have dist: "distinct (map reference cs)"
    using resolve_ranked_consistentD(2) [OF ok]
    unfolding compile_view_sel R distinct_sorted_references .
  have "resolve_ranked_capsules ?v cs = (ranked_for H cs task who, True)"
    using nb dist by (rule compiled_resolves)
  then have "\<forall>c \<in> set (ranked_for H cs task who). cp_p0_exact (cap_compression_policy c)"
    using facts by (simp add: recomputed_validation_clear recompute_p0_preserved)
  with nb dist R show "cv_blockers ?v = [] \<and> distinct (map reference cs) \<and>
     list_all (\<lambda>c. cp_p0_exact (cap_compression_policy c)) cs"
    by (simp add: list_all_iff)
qed (auto intro: compiled_valid_if simp: list_all_iff)

text \<open>What a view has to be over a list of ranked capsules.\<close>

definition view_matches :: "compiled_view \<Rightarrow> capsule list \<Rightarrow> bool" where
  "view_matches v R \<longleftrightarrow>
     cv_ranked_capsules v = map reference R \<and>
     cv_selected_atom_ids v = reachable_atoms R \<and>
     cv_exact_atom_ids v = at_atom_id ` {a \<in> set (rv_selected_atoms (recompute_view R)). is_p0 a} \<and>
     cv_evidence_handles v =
       (\<Union>a \<in> set (rv_selected_atoms (recompute_view R)). at_evidence_refs a) \<and>
     cv_content v = recomputed_content (recompute_view R)"

lemma valid_viewD:
  assumes "vr_valid (validate_view H v cs who)"
  defines "R \<equiv> ranked_by v cs"
  shows "view_matches v R" and "set R \<subseteq> set cs" and "distinct R"
    and "sorted (map rank_key R)"
    and "\<forall>c \<in> set cs. admitted_for c who" and "cv_principal_id v = pr_principal_id who"
    and "closed_under (requires_of R) (cv_selected_atom_ids v)"
    and "\<forall>(l, r) \<in> conflicts_of R. \<not> (l \<in> cv_selected_atom_ids v \<and> r \<in> cv_selected_atom_ids v)"
    and "sum_list (map at_token_cost (rv_selected_atoms (recompute_view R)))
           \<le> cv_budget_tokens v"
    and "cv_capsule_fingerprints v = map (\<lambda>c. (reference c, capsule_fingerprint H c)) cs"
proof -
  note facts = assms(1) [unfolded validate_valid_iff, folded R_def]
  have meta: "view_metadata_is_consistent v cs
      (map (\<lambda>c. (reference c, capsule_fingerprint H c)) cs) (recompute_view R)
      (snd (resolve_ranked_capsules v cs))"
    using facts by blast
  note clear = recomputed_validation_clear [THEN iffD1]
  have rec: "rv_dependency_closed (recompute_view R)" "rv_conflicts (recompute_view R) = {}"
      "rv_selected_cost (recompute_view R) \<le> cv_budget_tokens v"
    using facts clear [of v "recompute_view R"] by blast+
  have sel: "cv_selected_atom_ids v = reachable_atoms R"
    using meta by (simp add: view_metadata_is_consistent_def Let_def recompute_selected)
  have ok: "snd (resolve_ranked_capsules v cs)"
    using meta by (simp add: view_metadata_is_consistent_def Let_def)
  note res = resolve_ranked_consistentD [OF ok, folded R_def]
  show "view_matches v R"
    using meta res(1) sel
    by (simp add: view_matches_def view_metadata_is_consistent_def Let_def recompute_simple_fields)
  show "set R \<subseteq> set cs" "sorted (map rank_key R)" by (fact res)+
  show "distinct R"
    using res(2) unfolding res(1) [symmetric] distinct_map by blast
  show "\<forall>c \<in> set cs. admitted_for c who" "cv_principal_id v = pr_principal_id who"
    using facts by blast+
  show "closed_under (requires_of R) (cv_selected_atom_ids v)"
    using rec(1) unfolding recompute_dependency_closed recompute_selected(1) sel by blast
  show "\<forall>(l, r) \<in> conflicts_of R. \<not> (l \<in> cv_selected_atom_ids v \<and> r \<in> cv_selected_atom_ids v)"
    using rec(2) unfolding recompute_selected(3) sel by blast
  show "sum_list (map at_token_cost (rv_selected_atoms (recompute_view R))) \<le> cv_budget_tokens v"
    using rec(3) unfolding recompute_simple_fields .
  show "cv_capsule_fingerprints v = map (\<lambda>c. (reference c, capsule_fingerprint H c)) cs"
    using meta by (simp add: view_metadata_is_consistent_def Let_def)
qed

text \<open>C2. Soundness of validation for an arbitrary, possibly forged view: if the
  validator accepts it, then every supplied capsule is structurally sound, authorised
  for the caller and fresh, the view belongs to the caller, and there is a
  duplicate-free ranking of supplied capsules, sorted by the ranking key, such that
  the view selects exactly the atoms reachable from its P0 and relevant atoms, the
  content is their statements in key order, the selection is closed under the
  ranked capsules' requirements, contains no declared conflict, and costs at most
  the budget.\<close>

theorem validate_view_sound:
  assumes "vr_valid (validate_view H v cs who)"
  shows "(\<forall>c \<in> set cs. admitted_for c who) \<and> cv_principal_id v = pr_principal_id who \<and>
    (\<exists>R. set R \<subseteq> set cs \<and> distinct R \<and> sorted (map rank_key R) \<and> view_matches v R \<and>
       closed_under (requires_of R) (cv_selected_atom_ids v) \<and>
       (\<forall>(l, r) \<in> conflicts_of R.
          \<not> (l \<in> cv_selected_atom_ids v \<and> r \<in> cv_selected_atom_ids v)) \<and>
       sum_list (map at_token_cost (rv_selected_atoms (recompute_view R)))
         \<le> cv_budget_tokens v)"
  using valid_viewD [OF assms] by blast

theorem validate_view_sound_witness:
  "\<exists>R. set R \<subseteq> {sample_new} \<and> view_matches sample_view R \<and>
     cv_content sample_view = ''S0'' @ [CHR 0x0A] @ ''S1''"
proof -
  have "vr_valid (validate_view sample_host sample_view [sample_new] sample_principal)"
    by code_simp
  moreover have "cv_content sample_view = ''S0'' @ [CHR 0x0A] @ ''S1''" by code_simp
  ultimately show ?thesis
    using validate_view_sound [of sample_host sample_view "[sample_new]" sample_principal] by auto
qed

text \<open>The ranking the validator resolves depends on the references in the view only.\<close>

lemma ranked_by_cong:
  "cv_ranked_capsules v = cv_ranked_capsules w \<Longrightarrow> ranked_by v cs = ranked_by w cs"
  by (simp add: resolve_ranked_capsules_def Let_def)

text \<open>Nothing the validator checks can be tampered with: two accepted views over
  the same capsules with the same ranking carry the same content, selection, exact
  atoms and evidence handles, and the same capsule fingerprints.\<close>

theorem validated_views_agree:
  assumes "vr_valid (validate_view H v cs who)" and "vr_valid (validate_view H w cs who')"
    and "cv_ranked_capsules v = cv_ranked_capsules w"
  shows "cv_content v = cv_content w \<and> cv_selected_atom_ids v = cv_selected_atom_ids w \<and>
    cv_exact_atom_ids v = cv_exact_atom_ids w \<and> cv_evidence_handles v = cv_evidence_handles w \<and>
    cv_capsule_fingerprints v = cv_capsule_fingerprints w"
  using valid_viewD(1,10) [OF assms(1)] valid_viewD(1,10) [OF assms(2)]
  unfolding ranked_by_cong [OF assms(3)] view_matches_def by simp

theorem validated_views_agree_witness:
  "cv_content sample_view =
   cv_content (sample_view \<lparr> cv_adapter := ''codex'', cv_budget_tokens := 7 \<rparr>)"
proof -
  have v: "vr_valid (validate_view sample_host sample_view [sample_new] sample_principal)"
    by code_simp
  have w: "vr_valid (validate_view sample_host
      (sample_view \<lparr> cv_adapter := ''codex'', cv_budget_tokens := 7 \<rparr>)
      [sample_new] sample_principal)"
    by code_simp
  have "cv_ranked_capsules sample_view =
      cv_ranked_capsules (sample_view \<lparr> cv_adapter := ''codex'', cv_budget_tokens := 7 \<rparr>)"
    by simp
  from validated_views_agree [OF v w this] show ?thesis by (rule conjunct1)
qed

text \<open>C20. \<open>_dependency_closure\<close> terminates with the least set that contains the selection
  and is closed under the requirements on indexed atoms, and reports as missing
  exactly the targets that a closed atom requires and no capsule has.\<close>

theorem dependency_closure_least:
  assumes "finite R" and "finite S"
  shows "case dependency_closure S d R of (closed, missing) \<Rightarrow>
    S \<subseteq> closed \<and> closed_under (followed d R) closed \<and>
    (\<forall>C. S \<subseteq> C \<and> closed_under (followed d R) C \<longrightarrow> closed \<subseteq> C) \<and>
    missing = {t. \<exists>s \<in> closed. (s, t) \<in> R \<and> t \<notin> set (dict_keys d)}"
proof -
  let ?es = "sorted_list_of_set R"
  have R: "set ?es = R" using assms(1) by simp
  obtain c m where cm: "dependency_closure S d R = (c, m)" by (cases "dependency_closure S d R")
  then have c: "c = fst (dependency_closure_loop d ?es S {})"
    by (metis fst_conv fst_dependency_closure)
  have "m = {t. \<exists>s \<in> c. (s, t) \<in> R \<and> t \<notin> set (dict_keys d)}"
    using cm unfolding dependency_closure_eq [OF assms(1)] by blast
  then show ?thesis
    using fc.extensive [OF assms(2), of d ?es] fc.closed [OF assms(2), of d ?es]
      fc.least [OF assms(2), of _ d ?es]
    by (simp add: cm c R)
qed

theorem dependency_closure_least_witness:
  "closed_under (followed (atom_index [sample_new]) {(''a0'', ''a1''), (''a1'', ''x'')})
     (fst (dependency_closure {''a0''} (atom_index [sample_new])
        {(''a0'', ''a1''), (''a1'', ''x'')})) \<and>
   dependency_closure {''a0''} (atom_index [sample_new]) {(''a0'', ''a1''), (''a1'', ''x'')} =
     ({''a0'', ''a1''}, {''x''})"
proof
  show "closed_under (followed (atom_index [sample_new]) {(''a0'', ''a1''), (''a1'', ''x'')})
     (fst (dependency_closure {''a0''} (atom_index [sample_new])
        {(''a0'', ''a1''), (''a1'', ''x'')}))"
    using dependency_closure_least [of "{(''a0'', ''a1''), (''a1'', ''x'')}" "{''a0''}"
        "atom_index [sample_new]"]
    by (simp add: case_prod_beta)
  show "dependency_closure {''a0''} (atom_index [sample_new]) {(''a0'', ''a1''), (''a1'', ''x'')} =
     ({''a0'', ''a1''}, {''x''})"
    by code_simp
qed

text \<open>Compilation never uses an ineligible capsule: the ranking of a compiled view is
  the sorted list of the supplied capsules that are well formed, authorised, in
  scope, interface-compatible and fresh (none at all when two capsules disagree on
  an identifier), every selected atom is an atom of one of those, and the content
  consists of the statements of the selected atoms.\<close>

theorem compile_view_only_eligible:
  "cv_ranked_capsules (compile_view H cs task who bud adapter) =
     map reference (sort_key rank_key (eligible_for H cs task who)) \<and>
   cv_selected_atom_ids (compile_view H cs task who bud adapter) \<subseteq>
     {at_atom_id a |a c. c \<in> set (eligible_for H cs task who) \<and> a \<in> set (cap_atoms c)} \<and>
   (\<exists>atoms. set atoms \<subseteq> (\<Union>c \<in> set (eligible_for H cs task who). set (cap_atoms c)) \<and>
      sorted (map atom_key atoms) \<and>
      cv_content (compile_view H cs task who bud adapter) =
        py_join [CHR 0x0A] (map at_statement atoms))"
proof -
  let ?R = "ranked_for H cs task who" and ?E = "eligible_for H cs task who"
  let ?A = "rv_selected_atoms (recompute_view ?R)"
  have set: "set ?R = set ?E" by (simp add: ranked_for_def)
  have "set ?A \<subseteq> (\<Union>c \<in> set ?E. set (cap_atoms c))"
    using atom_indexD(2) [of ?R] by (auto simp: set_selected_atoms set)
  moreover have "sorted (map atom_key ?A)"
    by (simp add: recompute_view_def Let_def case_prod_beta)
  ultimately show ?thesis
    using reachable_indexed [of ?R]
    by (intro conjI exI [of _ ?A])
      (simp_all add: compile_view_sel set recomputed_content_def, simp add: ranked_for_def)
qed

section \<open>Replacement, activation, rollback\<close>

text \<open>C19. A replacement is allowed exactly when both capsules are well formed, the new
  one names the old one as its target, accepts every interface the old one provides
  and provides every interface the task requires, its effects passed, its
  invariants passed, no spillover was seen, and an irreversible external action is
  controlled. The verdict and the blocker list agree.\<close>

theorem can_replace_allowed_iff:
  "rd_allowed (can_replace H old new task) = replacement_obligations old new task \<and>
   (rd_blockers (can_replace H old new task) = []) = rd_allowed (can_replace H old new task)"
  by (simp add: can_replace_clear)

text \<open>Activation is fail closed: it succeeds exactly when the boundary is before the
  next action, the reports are bound to this candidate, and no report carries a
  blocking code; otherwise the old capsule stays the active one.\<close>

theorem activate_fail_closed:
  "ar_activated (activate H k b) =
     (sb_before_next_action b \<and> candidate_bound H k \<and>
      set (cv_blockers (ac_view k) @ vr_blockers (ac_validation k) @
           rd_blockers (ac_replacement k)) \<subseteq> {NONE}) \<and>
   ar_active_capsule (activate H k b) =
     reference (if ar_activated (activate H k b) then ac_new k else ac_old k) \<and>
   ar_previous_capsule (activate H k b) = reference (ac_old k)"
  by (auto simp: activate_clear activate_refs)

text \<open>C18. The whole pipeline, run on the program's own reports: compile, validate, decide
  the replacement and activate at a boundary. It activates the new capsule exactly
  when the boundary is safe, the new capsule is among the compiled ones, compilation
  is unblocked, the validator accepts, and every replacement obligation holds.\<close>

theorem pipeline_activates_iff:
  "ar_activated (activate H
     \<lparr> ac_old = old, ac_new = new,
       ac_view = compile_view H cs task who bud adapter,
       ac_validation = validate_view H (compile_view H cs task who bud adapter) cs who,
       ac_replacement = can_replace H old new task \<rparr> b) =
   (sb_before_next_action b \<and>
    (reference new, capsule_fingerprint H new)
       \<in> (\<lambda>c. (reference c, capsule_fingerprint H c)) ` set cs \<and>
    vr_valid (validate_view H (compile_view H cs task who bud adapter) cs who) \<and>
    replacement_obligations old new task)"
proof -
  let ?v = "compile_view H cs task who bud adapter"
  let ?r = "validate_view H ?v cs who"
  have vr: "set (vr_blockers ?r) \<subseteq> {NONE} \<longleftrightarrow> vr_valid ?r"
    using produced_blockers_no_NONE(2) [of H ?v cs who]
    by (auto simp: validate_valid_blockers subset_singleton_iff)
  have rd: "set (rd_blockers (can_replace H old new task)) \<subseteq> {NONE} \<longleftrightarrow>
      replacement_obligations old new task"
    using produced_blockers_no_NONE(3) [of H old new task] can_replace_clear(2) [of H old new task]
    by (auto simp: subset_singleton_iff)
  have cv: "set (cv_blockers ?v) \<subseteq> {NONE}" if "vr_valid ?r"
    using that unfolding validate_valid_iff by blast
  show ?thesis
    unfolding activate_clear activation_candidate.select_convs vr rd candidate_bound_def
    using cv validate_valid_blockers [of H ?v cs who] can_replace_clear [of H old new task]
    by (auto simp: validate_view_def can_replace_def compile_view_eq Let_def case_prod_beta)
qed

section \<open>Fingerprints\<close>

instance canon :: countable
  by countable_datatype

text \<open>C21. Fingerprints bind content: with an injective \<open>repr\<close>, two capsules have the same
  fingerprint exactly when they are the same value (whatever the order their
  frozensets are iterated in), or their two representations are a SHA-256 collision.\<close>

theorem capsule_fingerprint_binds:
  assumes "inj (py_repr H)" and "frozen_capsule c" and "frozen_capsule c'"
  shows "capsule_fingerprint H c = capsule_fingerprint H c' \<longleftrightarrow>
    same_capsule c c' \<or>
    (py_repr H (canonical_capsule H c) \<noteq> py_repr H (canonical_capsule H c') \<and>
     sha256_hex H (py_repr H (canonical_capsule H c)) =
     sha256_hex H (py_repr H (canonical_capsule H c')))"
  using canonical_capsule_eq [OF assms] assms(1)
  by (auto simp: capsule_fingerprint_def digest_of_def dest: injD)

theorem capsule_fingerprint_binds_witness:
  "capsule_fingerprint \<lparr> py_repr = (\<lambda>c. replicate (to_nat c) (CHR ''x'')), sha256_hex = id \<rparr>
     sample_new =
   capsule_fingerprint \<lparr> py_repr = (\<lambda>c. replicate (to_nat c) (CHR ''x'')), sha256_hex = id \<rparr>
     (sample_new \<lparr> cap_atoms := [sample_atom_1, sample_atom_0] \<rparr>)"
proof -
  let ?H = "\<lparr> py_repr = (\<lambda>c :: canon. replicate (to_nat c) (CHR ''x'')), sha256_hex = id \<rparr>"
  let ?c' = "sample_new \<lparr> cap_atoms := [sample_atom_1, sample_atom_0] \<rparr>"
  have "inj (py_repr ?H)"
    by (simp add: inj_on_def replicate_eq_replicate)
  moreover have "frozen_capsule sample_new" "frozen_capsule ?c'"
    by (simp_all add: frozen_capsule_def sample_new_def sample_capsule_def
        sample_atom_0_def sample_atom_1_def)
  moreover have "same_capsule sample_new ?c'"
    by (auto simp: same_capsule_def sample_new_def sample_capsule_def)
  ultimately show ?thesis
    using capsule_fingerprint_binds [of ?H sample_new ?c'] by blast
qed

section \<open>Where the code departs from its intent\<close>

text \<open>C22. \<open>activate\<close> compares \<open>validation.valid\<close> with \<open>not validation.blockers\<close> and then drops
  \<open>NONE\<close> codes, so a report whose only blocker is \<open>NONE\<close> passes although it says the view
  is not valid: every activation the program would make is still made after the
  validation verdict is replaced by a negative one with blockers \<open>(NONE,)\<close>.\<close>

theorem activate_accepts_none_report:
  "ar_activated (activate H k b) \<Longrightarrow>
   ar_activated (activate H
     (k \<lparr> ac_validation := ac_validation k \<lparr> vr_valid := False, vr_blockers := [NONE] \<rparr> \<rparr>) b)"
  by (simp add: activate_clear candidate_bound_def)

definition sample_candidate :: activation_candidate where
  "sample_candidate =
     \<lparr> ac_old = sample_old, ac_new = sample_new, ac_view = sample_view,
       ac_validation = validate_view sample_host sample_view [sample_new] sample_principal,
       ac_replacement = can_replace sample_host sample_old sample_new sample_task \<rparr>"

theorem activate_accepts_none_report_witness:
  "ar_activated (activate sample_host
     (sample_candidate \<lparr> ac_validation :=
        ac_validation sample_candidate \<lparr> vr_valid := False, vr_blockers := [NONE] \<rparr> \<rparr>)
     \<lparr> sb_before_next_action = True \<rparr>)"
proof -
  have "ar_activated (activate sample_host sample_candidate \<lparr> sb_before_next_action = True \<rparr>)"
    by code_simp
  then show ?thesis by (rule activate_accepts_none_report)
qed

end
