(* ===== verification/Base_Models.thy ===== *)
theory Base_Models
  imports Prelude
begin

text \<open>
  Shared value checks of \<^verbatim>\<open>models/base.py\<close> and the compile error of
  \<^verbatim>\<open>compile/errors.py\<close>. Regular expressions of the source are written out as
  predicates on the string they are matched against.
\<close>

datatype compile_error = CompileError (ce_code: pystr)

type_synonym 'a compile_result = "compile_error + 'a"

text \<open>The constructor of \<open>CompileError\<close> admits \<open>[A-Za-z][A-Za-z0-9_.-]*\<close> only.\<close>

definition ascii_letter :: "char \<Rightarrow> bool" where
  "ascii_letter c \<longleftrightarrow>
     (CHR ''A'' \<le> c \<and> c \<le> CHR ''Z'') \<or> (CHR ''a'' \<le> c \<and> c \<le> CHR ''z'')"

definition ascii_digit :: "char \<Rightarrow> bool" where
  "ascii_digit c \<longleftrightarrow> CHR ''0'' \<le> c \<and> c \<le> CHR ''9''"

definition safe_code :: "pystr \<Rightarrow> bool" where
  "safe_code code = (case code of [] \<Rightarrow> False
     | c # cs \<Rightarrow> ascii_letter c \<and>
         (\<forall>d \<in> set cs. ascii_letter d \<or> ascii_digit d \<or> d \<in> {CHR ''_'', CHR ''.'', CHR ''-''}))"

text \<open>\<open>re.match(r"^[A-Za-z]:", value)\<close>.\<close>

definition drive_prefixed :: "pystr \<Rightarrow> bool" where
  "drive_prefixed value = (case value of c # d # _ \<Rightarrow> ascii_letter c \<and> d = CHR '':'' | _ \<Rightarrow> False)"

definition is_safe_relative_path :: "pystr \<Rightarrow> pystr option \<Rightarrow> bool" where
  "is_safe_relative_path value prf =
    (if value = [] \<or> CHR 0x5C \<in> set value \<or> CHR 0x00 \<in> set value
        \<or> startswith value ''/'' \<or> drive_prefixed value
     then False
     else if \<exists>part \<in> set (py_split (CHR ''/'') value). part \<in> {'''', ''.'', ''..''} then False
     else (case prf of None \<Rightarrow> True | Some p \<Rightarrow> startswith value p))"

text \<open>A safe path has at least one segment, none of them empty, \<open>.\<close> or \<open>..\<close>, and is the
  join of its segments.\<close>

lemma safe_path_segments:
  assumes "is_safe_relative_path value prf"
  shows "\<forall>part \<in> set (py_split (CHR ''/'') value). part \<noteq> '''' \<and> part \<noteq> ''.'' \<and> part \<noteq> ''..''"
    and "py_join ''/'' (py_split (CHR ''/'') value) = value"
  using assms by (auto simp: is_safe_relative_path_def py_join_split split: if_splits)

end
