(* ===== verification/Glob_Spec.thy ===== *)
theory Glob_Spec
  imports Prelude
begin

text \<open>
  What a glob match is, and the contract of the row-by-row evaluation both
  matchers of \<^verbatim>\<open>resolve/scope.py\<close> use. A pattern matches a sequence when the
  sequence can be cut into one piece per pattern element: a star takes any piece,
  any other element takes exactly one element that it accepts.
\<close>

definition piece :: "('p \<Rightarrow> bool) \<Rightarrow> ('p \<Rightarrow> 'v \<Rightarrow> bool) \<Rightarrow> 'p \<Rightarrow> 'v list \<Rightarrow> bool" where
  "piece star accepts p vs \<longleftrightarrow> star p \<or> (\<exists>v. vs = [v] \<and> accepts p v)"

definition glob :: "('p \<Rightarrow> bool) \<Rightarrow> ('p \<Rightarrow> 'v \<Rightarrow> bool) \<Rightarrow> 'p list \<Rightarrow> 'v list \<Rightarrow> bool" where
  "glob star accepts ps vs \<longleftrightarrow>
     (\<exists>pieces. vs = concat pieces \<and> list_all2 (piece star accepts) ps pieces)"

lemma glob_Nil [simp]: "glob star accepts [] vs \<longleftrightarrow> vs = []"
  by (auto simp: glob_def)

lemma glob_snoc:
  "glob star accepts (ps @ [p]) vs \<longleftrightarrow>
     (\<exists>us ws. vs = us @ ws \<and> glob star accepts ps us \<and> piece star accepts p ws)"
proof
  assume "glob star accepts (ps @ [p]) vs"
  then obtain pieces where "vs = concat pieces" "list_all2 (piece star accepts) (ps @ [p]) pieces"
    by (auto simp: glob_def)
  then show "\<exists>us ws. vs = us @ ws \<and> glob star accepts ps us \<and> piece star accepts p ws"
    unfolding glob_def list_all2_append1 list_all2_Cons1 by force
next
  assume "\<exists>us ws. vs = us @ ws \<and> glob star accepts ps us \<and> piece star accepts p ws"
  then obtain pieces ws where "vs = concat pieces @ ws" "list_all2 (piece star accepts) ps pieces"
      "piece star accepts p ws"
    by (auto simp: glob_def)
  then show "glob star accepts (ps @ [p]) vs"
    unfolding glob_def by (intro exI [of _ "pieces @ [ws]"]) (auto intro: list_all2_appendI)
qed

lemma glob_snoc_take:
  assumes "i \<le> length vs"
  shows "glob star accepts (ps @ [p]) (take i vs) \<longleftrightarrow>
    (if star p then \<exists>j \<le> i. glob star accepts ps (take j vs)
     else i > 0 \<and> glob star accepts ps (take (i - 1) vs) \<and> accepts p (vs ! (i - 1)))"
proof (cases "star p")
  case True
  have "(\<exists>us ws. take i vs = us @ ws \<and> glob star accepts ps us) \<longleftrightarrow>
        (\<exists>j \<le> i. glob star accepts ps (take j vs))"
  proof
    assume "\<exists>us ws. take i vs = us @ ws \<and> glob star accepts ps us"
    then obtain us ws where us: "take i vs = us @ ws" "glob star accepts ps us" by blast
    then have "us = take (length us) (take i vs)" by simp
    then have "us = take (length us) vs" "length us \<le> i"
      using us(1) assms by (metis append_eq_conv_conj min.absorb2 take_take append_take_drop_id,
        metis length_append length_take le_add1 min.absorb2)
    with us(2) show "\<exists>j \<le> i. glob star accepts ps (take j vs)" by metis
  next
    assume "\<exists>j \<le> i. glob star accepts ps (take j vs)"
    then obtain j where "j \<le> i" "glob star accepts ps (take j vs)" by blast
    then show "\<exists>us ws. take i vs = us @ ws \<and> glob star accepts ps us"
      by (metis append_take_drop_id min.absorb1 take_take)
  qed
  with True show ?thesis by (simp add: glob_snoc piece_def)
next
  case False
  show ?thesis
  proof (cases i)
    case 0
    with False show ?thesis by (simp add: glob_snoc piece_def)
  next
    case (Suc k)
    then have "take i vs = take k vs @ [vs ! k]" using assms by (simp add: take_Suc_conv_app_nth)
    with False Suc show ?thesis by (auto simp: glob_snoc piece_def)
  qed
qed

text \<open>The contract of one row: from the row of a pattern prefix (entry \<open>i\<close> says whether
  the prefix matches the first \<open>i\<close> elements) to the row of the prefix extended by \<open>p\<close>.\<close>

locale glob_rows =
  fixes star :: "'p \<Rightarrow> bool" and accepts :: "'p \<Rightarrow> 'v \<Rightarrow> bool"
    and row :: "'v list \<Rightarrow> bool list \<Rightarrow> 'p \<Rightarrow> bool list"
  assumes row_length: "length (row vs prev p) = length vs + 1"
    and row_first: "row vs prev p ! 0 \<longleftrightarrow> prev ! 0 \<and> star p"
    and row_next: "i < length vs \<Longrightarrow> row vs prev p ! Suc i \<longleftrightarrow>
      (if star p then prev ! Suc i \<or> row vs prev p ! i else prev ! i \<and> accepts p (vs ! i))"
begin

definition correct_row :: "'p list \<Rightarrow> 'v list \<Rightarrow> bool list \<Rightarrow> bool" where
  "correct_row ps vs r \<longleftrightarrow> length r = length vs + 1 \<and>
     (\<forall>i \<le> length vs. r ! i \<longleftrightarrow> glob star accepts ps (take i vs))"

lemma initial_row: "correct_row [] vs (True # replicate (length vs) False)"
  by (auto simp: correct_row_def nth_Cons split: nat.splits)

lemma row_star:
  assumes "star p" and "i \<le> length vs"
  shows "row vs prev p ! i \<longleftrightarrow> (\<exists>j \<le> i. prev ! j)"
  using assms(2)
proof (induction i)
  case 0
  then show ?case using assms(1) by (simp add: row_first)
next
  case (Suc i)
  then show ?case using assms(1) by (auto simp: row_next le_Suc_eq)
qed

lemma row_correct:
  assumes "correct_row ps vs prev"
  shows "correct_row (ps @ [p]) vs (row vs prev p)"
proof -
  have "row vs prev p ! i \<longleftrightarrow> glob star accepts (ps @ [p]) (take i vs)" if "i \<le> length vs" for i
  proof (cases "star p")
    case True
    with that assms show ?thesis
      by (auto simp: row_star glob_snoc_take correct_row_def)
  next
    case False
    with that assms show ?thesis
      using glob_snoc_take [OF that, of star accepts ps p]
      by (cases i) (auto simp: correct_row_def row_first row_next)
  qed
  then show ?thesis by (simp add: correct_row_def row_length)
qed

lemma rows_correct:
  "correct_row ps vs (foldl (row vs) (True # replicate (length vs) False) ps)"
  by (induction ps rule: rev_induct) (simp_all add: initial_row row_correct)

theorem last_row_glob:
  "last (foldl (row vs) (True # replicate (length vs) False) ps) \<longleftrightarrow> glob star accepts ps vs"
  using rows_correct [of ps vs]
  by (metis correct_row_def add_diff_cancel_right' add_is_0 last_conv_nth length_0_conv order_refl
      take_all zero_neq_one)

end

end
