(* ===== verification/Scope_Match.thy ===== *)
theory Scope_Match
  imports Base_Models Glob_Spec
begin

text \<open>
  Scope matching (\<^verbatim>\<open>resolve/scope.py\<close>): validation of patterns and paths, the two
  table-driven matchers, and the evaluation of an atom's scope selectors against a
  task. Both matchers keep one row of the table and compute the next one cell by
  cell; \<open>previous[index]\<close> and \<open>current[index - 1]\<close> are list indexing, in range because
  every row has one cell more than the value.
\<close>

definition segments :: "bool \<Rightarrow> pystr \<Rightarrow> pystr list compile_result" where
  "segments pat value =
    (let parts = py_split (CHR ''/'') value in
     if \<not> is_safe_relative_path value None then Inl (CompileError ''INVALID_SCOPE'')
     else if \<exists>c \<in> set ''?[]''. c \<in> set value then Inl (CompileError ''INVALID_SCOPE'')
     else if \<not> pat \<and> CHR ''*'' \<in> set value then Inl (CompileError ''INVALID_SCOPE'')
     else if \<exists>part \<in> set parts. sublist ''**'' part \<and> part \<noteq> ''**''
     then Inl (CompileError ''INVALID_SCOPE'')
     else Inr parts)"

definition segment_row :: "pystr \<Rightarrow> bool list \<Rightarrow> char \<Rightarrow> bool list" where
  "segment_row value previous character =
     foldl (\<lambda>current (index, literal). current @
         [if character = CHR ''*'' then previous ! index \<or> current ! (index - 1)
          else previous ! (index - 1) \<and> character = literal])
       [previous ! 0 \<and> character = CHR ''*''] (List.enumerate 1 value)"

definition segment_matches :: "pystr \<Rightarrow> pystr \<Rightarrow> bool" where
  "segment_matches pat value =
     last (foldl (segment_row value) (True # replicate (length value) False) pat)"

definition matches_row :: "pystr list \<Rightarrow> bool list \<Rightarrow> pystr \<Rightarrow> bool list" where
  "matches_row path previous part =
     foldl (\<lambda>current (index, segment). current @
         [if part = ''**'' then previous ! index \<or> current ! (index - 1)
          else previous ! (index - 1) \<and> segment_matches part segment])
       [previous ! 0 \<and> part = ''**''] (List.enumerate 1 path)"

definition matches :: "pystr list \<Rightarrow> pystr list \<Rightarrow> bool" where
  "matches pat path =
     last (foldl (matches_row path) (True # replicate (length path) False) pat)"

definition path_matches :: "pystr \<Rightarrow> pystr \<Rightarrow> bool compile_result" where
  "path_matches pat path =
     res_bind (segments True pat) (\<lambda>ps.
     res_bind (segments False path) (\<lambda>vs. Inr (matches ps vs)))"

definition paths_match :: "pystr list \<Rightarrow> pystr list \<Rightarrow> bool compile_result" where
  "paths_match patterns paths =
     res_bind (res_map (segments True) patterns) (\<lambda>parsed_patterns.
     res_bind (res_map (segments False) paths) (\<lambda>parsed_paths.
       Inr (\<exists>pat \<in> set parsed_patterns. \<exists>path \<in> set parsed_paths. matches pat path)))"

text \<open>The task fields a scope is evaluated against.\<close>

record scope_task =
  st_repository :: pystr
  st_paths :: "pystr list"
  st_environment :: pystr

text \<open>The three lists of the \<open>dimensions\<close> dictionary.\<close>

record dimensions =
  dm_repository :: "pystr list"
  dm_path :: "pystr list"
  dm_environment :: "pystr list"

fun collect_dimensions :: "pystr list \<Rightarrow> dimensions \<Rightarrow> dimensions compile_result" where
  "collect_dimensions [] d = Inr d"
| "collect_dimensions (selector # rest) d =
     (case py_partition (CHR '':'') selector of (dimension, separator, value) \<Rightarrow>
        if separator = '''' \<or> dimension \<notin> {''repository'', ''path'', ''environment''} \<or> value = ''''
        then Inl (CompileError ''INVALID_SCOPE'')
        else collect_dimensions rest
          (if dimension = ''repository'' then d \<lparr> dm_repository := dm_repository d @ [value] \<rparr>
           else if dimension = ''path'' then d \<lparr> dm_path := dm_path d @ [value] \<rparr>
           else d \<lparr> dm_environment := dm_environment d @ [value] \<rparr>))"

definition atom_scope_matches :: "pystr list \<Rightarrow> scope_task \<Rightarrow> bool compile_result" where
  "atom_scope_matches scope task =
    (if scope = [] then Inl (CompileError ''INVALID_SCOPE'')
     else res_bind (collect_dimensions scope
              \<lparr> dm_repository = [], dm_path = [], dm_environment = [] \<rparr>) (\<lambda>dims.
          res_bind (if dm_path dims \<noteq> [] then paths_match (dm_path dims) (st_paths task)
                    else Inr True) (\<lambda>path_allowed.
          Inr ((dm_repository dims = [] \<or> st_repository task \<in> set (dm_repository dims)) \<and>
               (dm_environment dims = [] \<or> st_environment task \<in> set (dm_environment dims)) \<and>
               path_allowed))))"

section \<open>The rows\<close>

text \<open>Appending cells one by one: cell \<open>i\<close> of the result is computed from the cells
  before it.\<close>

lemma foldl_cells:
  fixes cell :: "bool list \<Rightarrow> nat \<Rightarrow> 'v \<Rightarrow> bool" and b :: bool
  assumes "\<And>cur cur' i v. cur ! i = cur' ! i \<Longrightarrow> cell cur (Suc i) v = cell cur' (Suc i) v"
  defines "r \<equiv> \<lambda>vs. foldl (\<lambda>cur (i, v). cur @ [cell cur i v]) [b] (List.enumerate 1 vs)"
  shows "length (r vs) = Suc (length vs) \<and> r vs ! 0 = b \<and>
    (\<forall>i < length vs. r vs ! Suc i = cell (r vs) (Suc i) (vs ! i))"
proof (induction vs rule: rev_induct)
  case Nil
  then show ?case by (simp add: r_def)
next
  case (snoc v vs)
  have r: "r (vs @ [v]) = r vs @ [cell (r vs) (Suc (length vs)) v]"
    by (simp add: r_def enumerate_append_eq)
  have "r (vs @ [v]) ! Suc i = cell (r (vs @ [v])) (Suc i) ((vs @ [v]) ! i)"
    if "i < length (vs @ [v])" for i
  proof (cases "i < length vs")
    case True
    have "cell (r vs) (Suc i) (vs ! i) = cell (r (vs @ [v])) (Suc i) (vs ! i)"
      using snoc True by (intro assms(1)) (simp add: r nth_append)
    with True snoc show ?thesis by (simp add: r nth_append)
  next
    case False
    with that have i: "i = length vs" by simp
    have "cell (r vs) (Suc i) v = cell (r (vs @ [v])) (Suc i) v"
      using snoc i by (intro assms(1)) (simp add: r nth_append)
    with snoc i show ?thesis by (simp add: r nth_append)
  qed
  with snoc show ?case by (simp add: r nth_append)
qed

interpretation seg: glob_rows "\<lambda>c. c = CHR ''*''" "(=)" segment_row
proof
  fix vs prev p i
  let ?cell = "\<lambda>current index v. if p = CHR ''*'' then prev ! index \<or> current ! (index - 1)
      else prev ! (index - 1) \<and> p = v"
  have cells: "length (segment_row vs prev p) = Suc (length vs) \<and>
      segment_row vs prev p ! 0 = (prev ! 0 \<and> p = CHR ''*'') \<and>
      (\<forall>i < length vs. segment_row vs prev p ! Suc i = ?cell (segment_row vs prev p) (Suc i) (vs ! i))"
    unfolding segment_row_def by (rule foldl_cells [where cell = ?cell]) simp
  show "length (segment_row vs prev p) = length vs + 1" using conjunct1 [OF cells] by simp
  show "segment_row vs prev p ! 0 \<longleftrightarrow> prev ! 0 \<and> p = CHR ''*''" using cells by blast
  show "segment_row vs prev p ! Suc i \<longleftrightarrow>
      (if p = CHR ''*'' then prev ! Suc i \<or> segment_row vs prev p ! i
       else prev ! i \<and> p = vs ! i)" if "i < length vs"
    using cells that unfolding diff_Suc_1 by blast
qed

interpretation pth: glob_rows "\<lambda>p. p = ''**''" segment_matches matches_row
proof
  fix vs prev p i
  let ?cell = "\<lambda>current index v. if p = ''**'' then prev ! index \<or> current ! (index - 1)
      else prev ! (index - 1) \<and> segment_matches p v"
  have cells: "length (matches_row vs prev p) = Suc (length vs) \<and>
      matches_row vs prev p ! 0 = (prev ! 0 \<and> p = ''**'') \<and>
      (\<forall>i < length vs. matches_row vs prev p ! Suc i = ?cell (matches_row vs prev p) (Suc i) (vs ! i))"
    unfolding matches_row_def by (rule foldl_cells [where cell = ?cell]) simp
  show "length (matches_row vs prev p) = length vs + 1" using conjunct1 [OF cells] by simp
  show "matches_row vs prev p ! 0 \<longleftrightarrow> prev ! 0 \<and> p = ''**''" using cells by blast
  show "matches_row vs prev p ! Suc i \<longleftrightarrow>
      (if p = ''**'' then prev ! Suc i \<or> matches_row vs prev p ! i
       else prev ! i \<and> segment_matches p (vs ! i))" if "i < length vs"
    using cells that unfolding diff_Suc_1 by blast
qed

lemma segment_matches_glob: "segment_matches = glob (\<lambda>c. c = CHR ''*'') (=)"
  by (simp add: fun_eq_iff segment_matches_def seg.last_row_glob)

lemma matches_glob: "matches = glob (\<lambda>p. p = ''**'') (glob (\<lambda>c. c = CHR ''*'') (=))"
  by (simp add: fun_eq_iff matches_def pth.last_row_glob segment_matches_glob)

section \<open>What matching decides\<close>

text \<open>The strings \<open>_segments\<close> accepts.\<close>

definition scope_string_ok :: "bool \<Rightarrow> pystr \<Rightarrow> bool" where
  "scope_string_ok pat value \<longleftrightarrow>
     is_safe_relative_path value None \<and> set value \<inter> set ''?[]'' = {} \<and>
     (pat \<or> CHR ''*'' \<notin> set value) \<and>
     (\<forall>part \<in> set (py_split (CHR ''/'') value). sublist ''**'' part \<longrightarrow> part = ''**'')"

lemma segments_eq:
  "segments pat value =
     (if scope_string_ok pat value then Inr (py_split (CHR ''/'') value)
      else Inl (CompileError ''INVALID_SCOPE''))"
  by (auto simp: segments_def scope_string_ok_def Let_def)

lemma res_map_segments:
  "res_map (segments pat) xs =
     (if list_all (scope_string_ok pat) xs then Inr (map (py_split (CHR ''/'')) xs)
      else Inl (CompileError ''INVALID_SCOPE''))"
  by (induction xs) (simp_all add: segments_eq)

text \<open>A path pattern matches a literal path segment by segment: \<open>**\<close> spans any number of
  segments, and within a segment \<open>*\<close> spans any number of characters.\<close>

definition path_glob :: "pystr \<Rightarrow> pystr \<Rightarrow> bool" where
  "path_glob pat path \<longleftrightarrow>
     glob (\<lambda>p. p = ''**'') (glob (\<lambda>c. c = CHR ''*'') (=))
       (py_split (CHR ''/'') pat) (py_split (CHR ''/'') path)"

text \<open>C39. \<open>path_matches\<close> rejects every malformed pattern or path with \<open>INVALID_SCOPE\<close> and
  otherwise decides the declarative glob relation: the row-by-row tables of the two
  nested matchers agree with cutting the path into pieces.\<close>

theorem path_matches_correct:
  "path_matches pat path =
     (if scope_string_ok True pat \<and> scope_string_ok False path then Inr (path_glob pat path)
      else Inl (CompileError ''INVALID_SCOPE''))"
  by (simp add: path_matches_def segments_eq matches_glob path_glob_def)

lemma paths_match_eq:
  "paths_match patterns paths =
     (if list_all (scope_string_ok True) patterns \<and> list_all (scope_string_ok False) paths
      then Inr (\<exists>pat \<in> set patterns. \<exists>path \<in> set paths. path_glob pat path)
      else Inl (CompileError ''INVALID_SCOPE''))"
  by (simp add: paths_match_def res_map_segments matches_glob path_glob_def)

text \<open>Selectors by dimension.\<close>

definition selector_ok :: "pystr \<Rightarrow> bool" where
  "selector_ok s \<longleftrightarrow> (case py_partition (CHR '':'') s of (dimension, separator, value) \<Rightarrow>
     separator \<noteq> '''' \<and> dimension \<in> {''repository'', ''path'', ''environment''} \<and> value \<noteq> '''')"

definition selected_values :: "pystr \<Rightarrow> pystr list \<Rightarrow> pystr list" where
  "selected_values dimension scope =
     map (\<lambda>s. snd (snd (py_partition (CHR '':'') s))) (filter (\<lambda>s. fst (py_partition (CHR '':'') s) = dimension) scope)"

lemma collect_dimensions_eq:
  "collect_dimensions scope d =
     (if list_all selector_ok scope then Inr
        \<lparr> dm_repository = dm_repository d @ selected_values ''repository'' scope,
          dm_path = dm_path d @ selected_values ''path'' scope,
          dm_environment = dm_environment d @ selected_values ''environment'' scope \<rparr>
      else Inl (CompileError ''INVALID_SCOPE''))"
proof (induction scope d rule: collect_dimensions.induct)
  case (1 d)
  then show ?case by (simp add: selected_values_def)
next
  case (2 selector rest d)
  obtain dim sep val where p: "py_partition (CHR '':'') selector = (dim, sep, val)"
    by (metis prod_cases3)
  show ?case
  proof (cases "selector_ok selector")
    case True
    with p have "sep \<noteq> ''''" "val \<noteq> ''''" "dim \<in> {''repository'', ''path'', ''environment''}"
      by (simp_all add: selector_ok_def)
    then show ?thesis
      using "2.IH" [OF p [symmetric] refl] True p by (auto simp: selected_values_def)
  next
    case False
    then show ?thesis using p by (auto simp: selector_ok_def)
  qed
qed

text \<open>An atom's scope admits a task exactly when it is non-empty, all its selectors
  are well formed, each dimension it mentions is met by the task, and the path
  patterns and task paths are all valid when there is a path selector: one malformed
  pattern denies the atom even if another pattern matches.\<close>

theorem atom_scope_matches_iff:
  "atom_scope_matches scope task = Inr True \<longleftrightarrow>
     scope \<noteq> [] \<and> list_all selector_ok scope \<and>
     (selected_values ''repository'' scope = [] \<or>
      st_repository task \<in> set (selected_values ''repository'' scope)) \<and>
     (selected_values ''environment'' scope = [] \<or>
      st_environment task \<in> set (selected_values ''environment'' scope)) \<and>
     (selected_values ''path'' scope = [] \<or>
      list_all (scope_string_ok True) (selected_values ''path'' scope) \<and>
      list_all (scope_string_ok False) (st_paths task) \<and>
      list_ex (\<lambda>pat. list_ex (path_glob pat) (st_paths task)) (selected_values ''path'' scope))"
  by (auto simp: atom_scope_matches_def collect_dimensions_eq paths_match_eq list_ex_iff)

end
