(* ===== verification/Json.thy ===== *)
theory Json
  imports Prelude Complex_Main "HOL-Library.Countable"
begin

text \<open>
  JSON values, the canonical encoding of \<^verbatim>\<open>models/canonical.py\<close> (\<open>_json_value\<close>,
  \<open>canonical_json_bytes\<close>) and the text forms of binary data (\<open>bytes.hex\<close>,
  \<open>bytes.fromhex\<close>, base64). The JCS encoder itself (\<open>rfc8785.dumps\<close>) is a parameter.
  Strings carry their UTF-8 bytes, so a lone surrogate cannot occur. A finite \<open>float\<close> is the
  rational number it denotes; the non-finite ones, which every model rejects, have no value.
\<close>

datatype json = JNull | JBool bool | JInt int | JFloat rat | JStr pystr | JList "json list"
  | JObj "(pystr \<times> json) list"

instance json :: countable
  by countable_datatype

text \<open>The integer range check of \<open>_json_value\<close>.\<close>

fun json_value_ok :: "json \<Rightarrow> bool" where
  "json_value_ok (JInt i) = (\<bar>i\<bar> \<le> 2 ^ 53 - 1)"
| "json_value_ok (JList xs) = (\<forall>x \<in> set xs. json_value_ok x)"
| "json_value_ok (JObj fs) = (\<forall>f \<in> set fs. json_value_ok (snd f))"
| "json_value_ok JNull = True"
| "json_value_ok (JBool b) = True"
| "json_value_ok (JFloat r) = True"
| "json_value_ok (JStr s) = True"

text \<open>\<open>None\<close> is the \<open>ValueError\<close> on a value that is not JCS-compatible.\<close>

definition canonical_json_bytes :: "(json \<Rightarrow> bytes) \<Rightarrow> json \<Rightarrow> bytes option" where
  "canonical_json_bytes dumps v = (if json_value_ok v then Some (dumps v) else None)"

definition json_opt :: "('a \<Rightarrow> json) \<Rightarrow> 'a option \<Rightarrow> json" where
  "json_opt f x = (case x of None \<Rightarrow> JNull | Some y \<Rightarrow> f y)"

section \<open>Hexadecimal and base64 text\<close>

definition hex_digit :: "nat \<Rightarrow> char" where
  "hex_digit n = ''0123456789abcdef'' ! n"

definition hex_value :: "char \<Rightarrow> nat option" where
  "hex_value c =
    (let n = of_char c :: nat in
     if 48 \<le> n \<and> n \<le> 57 then Some (n - 48)
     else if 97 \<le> n \<and> n \<le> 102 then Some (n - 87)
     else if 65 \<le> n \<and> n \<le> 70 then Some (n - 55)
     else None)"

fun to_hex :: "bytes \<Rightarrow> pystr" where
  "to_hex [] = []"
| "to_hex (c # cs) =
     hex_digit (of_char c div 16) # hex_digit (of_char c mod 16) # to_hex cs"

text \<open>\<open>None\<close> is the \<open>ValueError\<close> of \<open>bytes.fromhex\<close> on text that is not pairs of digits.\<close>

fun from_hex :: "pystr \<Rightarrow> bytes option" where
  "from_hex [] = Some []"
| "from_hex [c] = None"
| "from_hex (c # d # cs) =
     (case (hex_value c, hex_value d, from_hex cs) of
        (Some h, Some l, Some bs) \<Rightarrow> Some (char_of (16 * h + l) # bs)
      | _ \<Rightarrow> None)"

definition b64_digit :: "nat \<Rightarrow> char" where
  "b64_digit n = ''ABCDEFGHIJKLMNOPQRSTUVWXYZabcdefghijklmnopqrstuvwxyz0123456789+/'' ! n"

fun b64encode :: "bytes \<Rightarrow> pystr" where
  "b64encode [] = []"
| "b64encode [a] =
     (let n = of_char a * 16 in [b64_digit (n div 64), b64_digit (n mod 64), CHR ''='', CHR ''=''])"
| "b64encode [a, b] =
     (let n = (of_char a * 256 + of_char b) * 4 in
      [b64_digit (n div 4096), b64_digit (n div 64 mod 64), b64_digit (n mod 64), CHR ''=''])"
| "b64encode (a # b # c # rest) =
     (let n = (of_char a * 256 + of_char b) * 256 + of_char c in
      [b64_digit (n div 262144), b64_digit (n div 4096 mod 64), b64_digit (n div 64 mod 64),
       b64_digit (n mod 64)] @ b64encode rest)"

lemma hex_value_digit: "n < 16 \<Longrightarrow> hex_value (hex_digit n) = Some n"
proof -
  have "\<forall>n \<in> set [0..<16]. hex_value (hex_digit n) = Some n" by code_simp
  then show "n < 16 \<Longrightarrow> hex_value (hex_digit n) = Some n" by simp
qed

lemma of_char_less: "(of_char c :: nat) < 256"
  by (rule of_char_mod_256 [of c, where 'a = nat, THEN subst]) simp

lemma nibbles:
  "(of_char c :: nat) div 16 < 16" "(of_char c :: nat) mod 16 < 16"
  using of_char_less [of c] by (simp_all add: less_mult_imp_div_less)

lemma from_hex_to_hex [simp]: "from_hex (to_hex bs) = Some bs"
proof (induction bs)
  case (Cons c cs)
  have eq: "(of_char c :: nat) = 16 * (of_char c div 16) + of_char c mod 16"
    by simp
  with Cons show ?case
    using hex_value_digit [OF nibbles(1)] hex_value_digit [OF nibbles(2)] by simp
qed simp

lemma to_hex_inject: "to_hex xs = to_hex ys \<longleftrightarrow> xs = ys"
  by (metis from_hex_to_hex option.inject)

lemma length_to_hex [simp]: "length (to_hex bs) = 2 * length bs"
  by (induction bs) auto

section \<open>Digest strings\<close>

text \<open>The pattern \<open>^sha256:[0-9a-f]{64}$\<close>.\<close>

definition is_digest :: "pystr \<Rightarrow> bool" where
  "is_digest s \<longleftrightarrow> length s = 71 \<and> take 7 s = ''sha256:'' \<and>
     (\<forall>c \<in> set (drop 7 s). (CHR ''0'' \<le> c \<and> c \<le> CHR ''9'') \<or> (CHR ''a'' \<le> c \<and> c \<le> CHR ''f''))"

definition removeprefix :: "pystr \<Rightarrow> pystr \<Rightarrow> pystr" where
  "removeprefix p s = (if startswith s p then drop (length p) s else s)"

definition removesuffix :: "pystr \<Rightarrow> pystr \<Rightarrow> pystr" where
  "removesuffix p s = (if p \<noteq> [] \<and> startswith (rev s) (rev p) then take (length s - length p) s else s)"

lemma removeprefix_append [simp]: "removeprefix p (p @ s) = s"
  by (simp add: removeprefix_def startswith_def)

lemma removesuffix_append [simp]: "removesuffix p (s @ p) = s"
  by (auto simp: removesuffix_def startswith_def)

lemma hex_digit_range:
  "n < 16 \<Longrightarrow> (CHR ''0'' \<le> hex_digit n \<and> hex_digit n \<le> CHR ''9'') \<or>
              (CHR ''a'' \<le> hex_digit n \<and> hex_digit n \<le> CHR ''f'')"
proof -
  have "\<forall>n \<in> set [0..<16]. (CHR ''0'' \<le> hex_digit n \<and> hex_digit n \<le> CHR ''9'') \<or>
              (CHR ''a'' \<le> hex_digit n \<and> hex_digit n \<le> CHR ''f'')" by code_simp
  then show "n < 16 \<Longrightarrow> (CHR ''0'' \<le> hex_digit n \<and> hex_digit n \<le> CHR ''9'') \<or>
              (CHR ''a'' \<le> hex_digit n \<and> hex_digit n \<le> CHR ''f'')" by simp
qed

lemma set_to_hex:
  "c \<in> set (to_hex bs) \<Longrightarrow>
     (CHR ''0'' \<le> c \<and> c \<le> CHR ''9'') \<or> (CHR ''a'' \<le> c \<and> c \<le> CHR ''f'')"
proof (induction bs)
  case (Cons b bs)
  then show ?case
    using hex_digit_range [OF nibbles(1) [of b]] hex_digit_range [OF nibbles(2) [of b]] by auto
qed simp

lemma is_digest_hex: "length bs = 32 \<Longrightarrow> is_digest (''sha256:'' @ to_hex bs)"
  unfolding is_digest_def using set_to_hex [of _ bs] by simp

section \<open>Base64 text determines the bytes\<close>

lemma b64_digit_inj: "m < 64 \<Longrightarrow> n < 64 \<Longrightarrow> b64_digit m = b64_digit n \<longleftrightarrow> m = n"
proof -
  have "distinct (map b64_digit [0..<64])" by code_simp
  then have "inj_on b64_digit {0..<64}" by (simp add: distinct_map)
  then show "m < 64 \<Longrightarrow> n < 64 \<Longrightarrow> b64_digit m = b64_digit n \<longleftrightarrow> m = n"
    by (auto dest: inj_onD)
qed

lemma b64_digit_pad: "n < 64 \<Longrightarrow> b64_digit n \<noteq> CHR ''=''"
proof -
  have "\<forall>n \<in> set [0..<64]. b64_digit n \<noteq> CHR ''=''" by code_simp
  then show "n < 64 \<Longrightarrow> b64_digit n \<noteq> CHR ''=''" by simp
qed

lemma of_char_inj: "(of_char c :: nat) = of_char d \<longleftrightarrow> c = d"
  by (metis char_of_char)

lemma four_digits:
  fixes m n :: nat
  assumes "m < 16777216" and "n < 16777216"
    and "b64_digit (m div 262144) = b64_digit (n div 262144)"
    and "b64_digit (m div 4096 mod 64) = b64_digit (n div 4096 mod 64)"
    and "b64_digit (m div 64 mod 64) = b64_digit (n div 64 mod 64)"
    and "b64_digit (m mod 64) = b64_digit (n mod 64)"
  shows "m = n"
proof -
  have d: "m div 262144 = n div 262144" "m div 4096 mod 64 = n div 4096 mod 64"
    "m div 64 mod 64 = n div 64 mod 64" "m mod 64 = n mod 64"
    using assms by (simp_all add: b64_digit_inj less_mult_imp_div_less)
  have "k = ((k div 262144 * 64 + k div 4096 mod 64) * 64 + k div 64 mod 64) * 64 + k mod 64"
    for k :: nat
  proof -
    have "k div 4096 div 64 = k div 262144" "k div 64 div 64 = k div 4096"
      by (simp_all flip: div_mult2_eq)
    then show ?thesis
      by (metis div_mult_mod_eq)
  qed
  from this [of m] this [of n] d show ?thesis by simp
qed

lemma three_digits:
  fixes m n :: nat
  assumes "m < 262144" and "n < 262144"
    and "b64_digit (m div 4096) = b64_digit (n div 4096)"
    and "b64_digit (m div 64 mod 64) = b64_digit (n div 64 mod 64)"
    and "b64_digit (m mod 64) = b64_digit (n mod 64)"
  shows "m = n"
proof -
  have d: "m div 4096 = n div 4096" "m div 64 mod 64 = n div 64 mod 64" "m mod 64 = n mod 64"
    using assms by (simp_all add: b64_digit_inj less_mult_imp_div_less)
  have "k = (k div 4096 * 64 + k div 64 mod 64) * 64 + k mod 64" for k :: nat
  proof -
    have "k div 64 div 64 = k div 4096" by (simp flip: div_mult2_eq)
    then show ?thesis by (metis div_mult_mod_eq)
  qed
  from this [of m] this [of n] d show ?thesis by simp
qed

lemma last_byte: "x < 256 \<Longrightarrow> (k * 256 + x) mod 256 = (x :: nat)"
  by simp

lemma bytes_digits:
  "(of_char a * 256 + of_char b) * 256 + of_char c =
   ((of_char a' * 256 + of_char b') * 256 + of_char c' :: nat) \<longleftrightarrow> a = a' \<and> b = b' \<and> c = c'"
proof
  assume eq: "(of_char a * 256 + of_char b) * 256 + of_char c =
   ((of_char a' * 256 + of_char b') * 256 + of_char c' :: nat)"
  have "(of_char c :: nat) = of_char c'"
    using arg_cong [OF eq, of "\<lambda>k. k mod 256"] unfolding last_byte [OF of_char_less] .
  moreover from this eq have ab: "(of_char a * 256 + of_char b :: nat) = of_char a' * 256 + of_char b'"
    by simp
  have "(of_char b :: nat) = of_char b'"
    using arg_cong [OF ab, of "\<lambda>k. k mod 256"] unfolding last_byte [OF of_char_less] .
  moreover from this ab have "(of_char a :: nat) = of_char a'" by simp
  ultimately show "a = a' \<and> b = b' \<and> c = c'" by (simp add: of_char_inj)
qed simp

lemma three_bytes:
  fixes x y z :: nat
  assumes "x < 256" and "y < 256" and "z < 256"
  shows "(x * 256 + y) * 256 + z < 16777216"
proof -
  have "x * 256 + y < 65536" using assms by simp
  then have "(x * 256 + y) * 256 \<le> 65535 * 256" by (intro mult_right_mono) simp_all
  with assms(3) show ?thesis by simp
qed

lemma triple_bound: "(of_char a * 256 + of_char b) * 256 + of_char c < (16777216 :: nat)"
  by (rule three_bytes [OF of_char_less of_char_less of_char_less])

lemma two_bytes: "x < 256 \<Longrightarrow> y < 256 \<Longrightarrow> (x * 256 + y) * 4 < (262144 :: nat)"
  by simp

lemma pair_bound: "(of_char a * 256 + of_char b) * 4 < (262144 :: nat)"
  by (rule two_bytes [OF of_char_less of_char_less])

lemma b64_mod_pad [simp]:
  "b64_digit (n mod 64) \<noteq> CHR ''=''" "CHR ''='' \<noteq> b64_digit (n mod 64)"
  using b64_digit_pad [of "n mod 64"] by auto

lemma b64encode_inj: "b64encode xs = b64encode ys \<Longrightarrow> xs = ys"
proof (induction xs arbitrary: ys rule: b64encode.induct)
  case 1
  then show ?case by (cases ys rule: b64encode.cases) (simp_all add: Let_def)
next
  case (2 a)
  show ?case
  proof (cases ys rule: b64encode.cases)
    case (2 b)
    then have "b64_digit (of_char a * 16 div 64) = b64_digit (of_char b * 16 div 64)"
      "b64_digit (of_char a * 16 mod 64) = b64_digit (of_char b * 16 mod 64)"
      using "2.prems" by (simp_all only: b64encode.simps Let_def list.inject)
    then have "(of_char a * 16 :: nat) div 64 = of_char b * 16 div 64"
      "(of_char a * 16 :: nat) mod 64 = of_char b * 16 mod 64"
      using of_char_less [of a] of_char_less [of b]
      by (simp_all only: b64_digit_inj less_mult_imp_div_less mod_less_divisor zero_less_numeral)
    then have "(of_char a * 16 :: nat) = of_char b * 16" by (metis div_mult_mod_eq)
    with 2 show ?thesis by (simp add: of_char_inj)
  qed (use "2.prems" in \<open>auto simp: Let_def\<close>)
next
  case (3 a b)
  show ?case
  proof (cases ys rule: b64encode.cases)
    case (3 c d)
    let ?m = "(of_char a * 256 + of_char b) * 4 :: nat" and ?n = "(of_char c * 256 + of_char d) * 4 :: nat"
    have "b64_digit (?m div 4096) = b64_digit (?n div 4096)"
      "b64_digit (?m div 64 mod 64) = b64_digit (?n div 64 mod 64)"
      "b64_digit (?m mod 64) = b64_digit (?n mod 64)"
      using "3.prems" 3 by (simp_all only: b64encode.simps Let_def list.inject)
    then have "?m = ?n" by (rule three_digits [OF pair_bound pair_bound])
    then have "(of_char a * 256 + of_char b) * 256 + of_char (CHR 0x00) =
        ((of_char c * 256 + of_char d) * 256 + of_char (CHR 0x00) :: nat)" by simp
    then have "a = c \<and> b = d" unfolding bytes_digits by simp
    with 3 show ?thesis by simp
  qed (use "3.prems" in \<open>auto simp: Let_def\<close>)
next
  case (4 a b c rest)
  show ?case
  proof (cases ys rule: b64encode.cases)
    case (4 a' b' c' rest')
    let ?m = "(of_char a * 256 + of_char b) * 256 + of_char c :: nat"
    let ?n = "(of_char a' * 256 + of_char b') * 256 + of_char c' :: nat"
    have d: "b64_digit (?m div 262144) = b64_digit (?n div 262144)"
      "b64_digit (?m div 4096 mod 64) = b64_digit (?n div 4096 mod 64)"
      "b64_digit (?m div 64 mod 64) = b64_digit (?n div 64 mod 64)"
      "b64_digit (?m mod 64) = b64_digit (?n mod 64)"
      and rest: "b64encode rest = b64encode rest'"
      using "4.prems" 4 by (simp_all only: b64encode.simps Let_def append.simps list.inject)
    from d have "?m = ?n" by (rule four_digits [OF triple_bound triple_bound])
    then have "a = a' \<and> b = b' \<and> c = c'" by (simp only: bytes_digits)
    with rest "4.IH" 4 show ?thesis by simp
  qed (use "4.prems" in \<open>auto simp: Let_def\<close>)
qed

end
