(* ===== verification/Resolve_Closure.thy ===== *)
theory Resolve_Closure
  imports Closure_Spec Json
begin

text \<open>
  Mandatory dependency closure (\<^verbatim>\<open>resolve/closure.py\<close>) and conflict detection
  (\<^verbatim>\<open>resolve/conflicts.py\<close>) over the edges of \<^verbatim>\<open>models/core.py\<close>. The closure is a
  work list: \<open>pending.pop()\<close> takes the last entry. The sets \<open>selected\<close> and
  \<open>dependencies[n]\<close> are iterated in ascending order and in insertion order; the
  result does not depend on either.
\<close>

record dependency_edge =
  de_source :: pystr
  de_target :: pystr
  de_edge_type :: pystr
  de_version_constraint :: "pystr option"
  de_mandatory :: bool
  de_extensions :: "(pystr \<times> json) list"

definition mandatory_edge :: "dependency_edge \<Rightarrow> bool" where
  "mandatory_edge e \<longleftrightarrow> de_edge_type e = ''requires'' \<and> de_mandatory e"

text \<open>\<open>dependencies.setdefault(source, set()).add(target)\<close>.\<close>

definition add_dependency ::
  "(pystr \<times> pystr list) list \<Rightarrow> dependency_edge \<Rightarrow> (pystr \<times> pystr list) list" where
  "add_dependency d e =
     (if mandatory_edge e
      then (let ts = (case map_of d (de_source e) of None \<Rightarrow> [] | Some ts \<Rightarrow> ts)
            in AList.update (de_source e) (List.insert (de_target e) ts) d)
      else d)"

definition build_dependencies :: "dependency_edge list \<Rightarrow> (pystr \<times> pystr list) list" where
  "build_dependencies edges = foldl add_dependency [] edges"

definition dependencies_get :: "(pystr \<times> pystr list) list \<Rightarrow> pystr \<Rightarrow> pystr list" where
  "dependencies_get d n = (case map_of d n of None \<Rightarrow> [] | Some ts \<Rightarrow> ts)"

fun visit_targets :: "pystr list \<Rightarrow> pystr set \<times> pystr list \<Rightarrow> pystr set \<times> pystr list" where
  "visit_targets [] st = st"
| "visit_targets (target # ts) (seen, pending) =
     visit_targets ts (if target \<notin> seen then (insert target seen, pending @ [target])
                       else (seen, pending))"

lemma visit_targets_eq:
  "visit_targets ts (seen, pending) = (seen', pending') \<Longrightarrow>
     seen' = seen \<union> set ts \<and> set pending' = set pending \<union> (set ts - seen) \<and>
     (set ts \<subseteq> seen \<longrightarrow> pending' = pending)"
proof (induction ts "(seen, pending)" arbitrary: seen pending rule: visit_targets.induct)
  case (2 t ts seen pending)
  then show ?case by (cases "t \<in> seen") auto
qed auto

definition all_targets :: "(pystr \<times> pystr list) list \<Rightarrow> pystr set" where
  "all_targets d = (\<Union>ts \<in> snd ` set d. set ts)"

lemma dependencies_get_targets: "set (dependencies_get d n) \<subseteq> all_targets d"
proof (cases "map_of d n")
  case (Some ts)
  then have "ts \<in> snd ` set d" by (metis map_of_SomeD image_eqI snd_conv)
  with Some show ?thesis by (auto simp: dependencies_get_def all_targets_def)
qed (simp add: dependencies_get_def)

lemma finite_all_targets [simp]: "finite (all_targets d)"
  by (simp add: all_targets_def)

function closure_loop :: "(pystr \<times> pystr list) list \<Rightarrow> pystr set \<Rightarrow> pystr list \<Rightarrow> pystr set" where
  "closure_loop d seen pending =
     (if pending = [] then seen
      else (case visit_targets (dependencies_get d (last pending)) (seen, butlast pending) of
              (seen', pending') \<Rightarrow> closure_loop d seen' pending'))"
  by pat_completeness auto
termination
proof (relation "measures [\<lambda>(d, seen, pending). card (all_targets d - seen),
                           \<lambda>(d, seen, pending). length pending]")
  fix d seen pending seen' pending'
  assume ne: "pending \<noteq> []"
    and visit: "(seen', pending') =
      visit_targets (dependencies_get d (last pending)) (seen, butlast pending)"
  let ?ts = "dependencies_get d (last pending)"
  note eq = visit_targets_eq [OF visit [symmetric]]
  show "((d, seen', pending'), d, seen, pending) \<in>
    measures [\<lambda>(d, seen, pending). card (all_targets d - seen),
              \<lambda>(d, seen, pending). length pending]"
  proof (cases "set ?ts \<subseteq> seen")
    case True
    then have "seen' = seen" "pending' = butlast pending" using eq by auto
    with ne show ?thesis by simp
  next
    case False
    then have "all_targets d - seen' \<subset> all_targets d - seen"
      using eq dependencies_get_targets [of d "last pending"] by blast
    then show ?thesis by (simp add: psubset_card_mono)
  qed
qed simp

declare closure_loop.simps [simp del]

definition resolve_dependency_closure :: "pystr set \<Rightarrow> dependency_edge list \<Rightarrow> pystr set" where
  "resolve_dependency_closure selected edges =
     closure_loop (build_dependencies edges) selected (sorted_list_of_set selected)"

record conflict =
  cf_source :: pystr
  cf_target :: pystr
  cf_reason :: pystr

definition ordered_pair :: "pystr \<Rightarrow> pystr \<Rightarrow> pystr \<times> pystr" where
  "ordered_pair a b = (if a \<le> b then (a, b) else (b, a))"

definition detect_conflicts :: "pystr set \<Rightarrow> dependency_edge list \<Rightarrow> conflict list" where
  "detect_conflicts selected edges =
     (let pairs = (\<lambda>e. ordered_pair (de_source e) (de_target e)) `
            set (filter (\<lambda>e. de_edge_type e = ''conflicts'' \<and> de_source e \<in> selected \<and>
                             de_target e \<in> selected) edges)
      in map (\<lambda>(s, t). \<lparr> cf_source = s, cf_target = t, cf_reason = ''DECLARED_CONFLICT'' \<rparr>)
           (sorted_list_of_set pairs))"

section \<open>The work list computes reachability\<close>

definition mandatory_edges :: "dependency_edge list \<Rightarrow> (pystr \<times> pystr) set" where
  "mandatory_edges edges = (\<lambda>e. (de_source e, de_target e)) ` {e \<in> set edges. mandatory_edge e}"

lemma build_dependencies_get:
  "set (dependencies_get (build_dependencies edges) n) = {t. (n, t) \<in> mandatory_edges edges}"
proof (induction edges rule: rev_induct)
  case Nil
  then show ?case by (simp add: build_dependencies_def dependencies_get_def mandatory_edges_def)
next
  case (snoc e edges)
  then show ?case
    by (auto simp: build_dependencies_def dependencies_get_def mandatory_edges_def
        add_dependency_def Let_def update_conv' split: option.splits)
qed

lemma closure_loop_reach:
  fixes d S
  defines "E \<equiv> {(n, t). t \<in> set (dependencies_get d n)}"
  assumes "S \<subseteq> seen" and "seen \<subseteq> E\<^sup>* `` S" and "set pending \<subseteq> seen"
    and "\<forall>x \<in> seen - set pending. \<forall>t. (x, t) \<in> E \<longrightarrow> t \<in> seen"
  shows "closure_loop d seen pending = E\<^sup>* `` S"
  using assms(2-5) unfolding E_def
proof (induction d seen pending rule: closure_loop.induct)
  case (1 d seen pending)
  let ?E = "{(n, t). t \<in> set (dependencies_get d n)}"
  show ?case
  proof (cases "pending = []")
    case True
    then have "closed_under ?E seen"
      using "1.prems"(4) by (auto simp: closed_under_def)
    then show ?thesis
      using True "1.prems" closed_between_eq_reach [of S seen ?E]
      by (simp add: closure_loop.simps)
  next
    case False
    obtain c p where visit:
      "visit_targets (dependencies_get d (last pending)) (seen, butlast pending) = (c, p)"
      by (cases "visit_targets (dependencies_get d (last pending)) (seen, butlast pending)")
    note eq = visit_targets_eq [OF visit]
    have split: "set pending = insert (last pending) (set (butlast pending))"
      using False by (metis append_butlast_last_id list.set(1) list.simps(15) rotate1.simps(2)
          set_rotate1)
    have lastc: "last pending \<in> seen" using "1.prems"(3) split by blast
    have "c \<subseteq> ?E\<^sup>* `` S"
    proof -
      have "t \<in> ?E\<^sup>* `` S" if "t \<in> set (dependencies_get d (last pending))" for t
        using lastc "1.prems"(2) that by (auto intro: rtrancl_into_rtrancl)
      then show ?thesis using eq "1.prems"(2) by blast
    qed
    moreover have "S \<subseteq> c" "set p \<subseteq> c" using eq "1.prems"(1,3) split by blast+
    moreover have "\<forall>x \<in> c - set p. \<forall>t. (x, t) \<in> ?E \<longrightarrow> t \<in> c"
    proof (intro ballI allI impI)
      fix x t assume x: "x \<in> c - set p" and t: "(x, t) \<in> ?E"
      then have "x \<in> seen" using eq by auto
      show "t \<in> c"
      proof (cases "x = last pending")
        case True
        with t eq show ?thesis by auto
      next
        case False
        with x eq split have "x \<notin> set pending" by auto
        with \<open>x \<in> seen\<close> t "1.prems"(4) have "t \<in> seen" by blast
        with eq show ?thesis by blast
      qed
    qed
    ultimately show ?thesis
      using "1.IH" [OF False visit [symmetric]] False visit
      by (simp add: closure_loop.simps [of d seen pending])
  qed
qed

lemma resolve_closure_reach:
  assumes "finite S"
  shows "resolve_dependency_closure S edges = (mandatory_edges edges)\<^sup>* `` S"
proof -
  have E: "{(n, t). t \<in> set (dependencies_get (build_dependencies edges) n)} = mandatory_edges edges"
    by (auto simp: build_dependencies_get)
  show ?thesis
    unfolding resolve_dependency_closure_def
    using closure_loop_reach [of S S "build_dependencies edges" "sorted_list_of_set S"] assms
    by (auto simp: E)
qed

interpretation rc: reach_closure "mandatory_edges edges" "\<lambda>S. resolve_dependency_closure S edges"
  for edges :: "dependency_edge list"
  by unfold_locales (rule resolve_closure_reach)

lemma set_detect_conflicts:
  "set (detect_conflicts S edges) =
     {\<lparr> cf_source = s, cf_target = t, cf_reason = ''DECLARED_CONFLICT'' \<rparr> |s t.
        s \<in> S \<and> t \<in> S \<and> s \<le> t \<and>
        (\<exists>e \<in> set edges. de_edge_type e = ''conflicts'' \<and>
           {de_source e, de_target e} = {s, t})}"
  by (fastforce simp: detect_conflicts_def Let_def ordered_pair_def doubleton_eq_iff
      split: if_splits)

text \<open>C40. The work-list closure terminates with exactly the nodes reachable over mandatory
  \<open>requires\<close> edges: it contains the selection, is closed, is the least such set, and
  closing again adds nothing.\<close>

theorem resolve_closure_least:
  assumes "finite S"
  shows "S \<subseteq> resolve_dependency_closure S edges \<and>
    closed_under (mandatory_edges edges) (resolve_dependency_closure S edges) \<and>
    (\<forall>T. S \<subseteq> T \<and> closed_under (mandatory_edges edges) T \<longrightarrow>
         resolve_dependency_closure S edges \<subseteq> T) \<and>
    (resolve_dependency_closure S edges = S \<longleftrightarrow> closed_under (mandatory_edges edges) S)"
  using rc.extensive [OF assms] rc.closed [OF assms] rc.least [OF assms] rc.fixpoint_iff [OF assms]
  by blast

theorem resolve_closure_least_witness:
  "closed_under (mandatory_edges [\<lparr> de_source = ''a'', de_target = ''b'', de_edge_type = ''requires'',
       de_version_constraint = None, de_mandatory = True, de_extensions = [] \<rparr>])
     (resolve_dependency_closure {''a''} [\<lparr> de_source = ''a'', de_target = ''b'',
       de_edge_type = ''requires'', de_version_constraint = None, de_mandatory = True, de_extensions = [] \<rparr>]) \<and>
   resolve_dependency_closure {''a''} [\<lparr> de_source = ''a'', de_target = ''b'',
       de_edge_type = ''requires'', de_version_constraint = None, de_mandatory = True, de_extensions = [] \<rparr>] =
     {''a'', ''b''}"
proof
  show "resolve_dependency_closure {''a''} [\<lparr> de_source = ''a'', de_target = ''b'',
       de_edge_type = ''requires'', de_version_constraint = None, de_mandatory = True, de_extensions = [] \<rparr>] =
     {''a'', ''b''}"
    by code_simp
qed (use resolve_closure_least [of "{''a''}"] in simp)

text \<open>Conflict detection is symmetric and complete: a selected pair is reported exactly
  when some edge declares it in either direction, each pair once, in ascending order
  with its endpoints ordered.\<close>

theorem detect_conflicts_complete:
  "set (detect_conflicts S edges) =
     {\<lparr> cf_source = s, cf_target = t, cf_reason = ''DECLARED_CONFLICT'' \<rparr> |s t.
        s \<in> S \<and> t \<in> S \<and> s \<le> t \<and>
        list_ex (\<lambda>e. de_edge_type e = ''conflicts'' \<and> {de_source e, de_target e} = {s, t}) edges} \<and>
   distinct (detect_conflicts S edges) \<and>
   sorted (map (\<lambda>c. (cf_source c, cf_target c)) (detect_conflicts S edges))"
proof (intro conjI)
  have id: "(\<lambda>c. (cf_source c, cf_target c)) \<circ>
      (\<lambda>(s, t). \<lparr> cf_source = s, cf_target = t, cf_reason = r \<rparr>) = id" for r
    by auto
  show "sorted (map (\<lambda>c. (cf_source c, cf_target c)) (detect_conflicts S edges))"
    by (simp add: detect_conflicts_def Let_def id)
  have "inj (\<lambda>(s, t). \<lparr> cf_source = s, cf_target = t, cf_reason = r \<rparr>)" for r
    by (auto simp: inj_on_def)
  then show "distinct (detect_conflicts S edges)"
    unfolding detect_conflicts_def Let_def distinct_map by (blast intro: inj_on_subset
        distinct_sorted_list_of_set)
qed (simp add: set_detect_conflicts list_ex_iff Bex_def)

end
