(* ===== verification/Runtime_Models.thy ===== *)
theory Runtime_Models
  imports Json Base_Models
begin

text \<open>
  The transport models of the swap runtime (\<^verbatim>\<open>swap/runtime_models.py\<close>, and
  \<open>CapsuleRef\<close> of \<^verbatim>\<open>models/view.py\<close>): records with the field checks that pydantic
  runs on construction as predicates (\<open>..._valid\<close>), and what \<open>model_dump(mode="json")\<close>
  gives for each.
\<close>

section \<open>Field types\<close>

definition numeric_identifier :: "pystr \<Rightarrow> bool" where
  "numeric_identifier s \<longleftrightarrow>
     s = ''0'' \<or> (s \<noteq> [] \<and> (\<forall>c \<in> set s. ascii_digit c) \<and> hd s \<noteq> CHR ''0'')"

definition semver_char :: "char \<Rightarrow> bool" where
  "semver_char c \<longleftrightarrow> ascii_digit c \<or> ascii_letter c \<or> c = CHR ''-''"

definition prerelease_identifier :: "pystr \<Rightarrow> bool" where
  "prerelease_identifier s \<longleftrightarrow>
     numeric_identifier s \<or>
     ((\<forall>c \<in> set s. semver_char c) \<and> (\<exists>c \<in> set s. \<not> ascii_digit c))"

text \<open>\<open>SEMVER_PATTERN\<close>: \<open>+\<close> cannot occur before the build part, nor \<open>-\<close> in the core.\<close>

definition is_semver :: "pystr \<Rightarrow> bool" where
  "is_semver s =
    (case py_partition (CHR ''+'') s of (main, sep, build) \<Rightarrow>
     case py_partition (CHR ''-'') main of (core, dash, pre) \<Rightarrow>
       length (py_split (CHR ''.'') core) = 3 \<and>
       (\<forall>n \<in> set (py_split (CHR ''.'') core). numeric_identifier n) \<and>
       (dash = [] \<or> (\<forall>i \<in> set (py_split (CHR ''.'') pre). prerelease_identifier i)) \<and>
       (sep = [] \<or> (\<forall>i \<in> set (py_split (CHR ''.'') build). i \<noteq> [] \<and> (\<forall>c \<in> set i. semver_char c))))"

text \<open>\<open>RFC3339_PATTERN\<close>: the shape of a UTC timestamp. Whether it names a real instant is
  decided by \<open>datetime.fromisoformat\<close>.\<close>

definition digits :: "nat \<Rightarrow> pystr \<Rightarrow> bool" where
  "digits n s \<longleftrightarrow> length s = n \<and> (\<forall>c \<in> set s. ascii_digit c)"

definition is_rfc3339 :: "pystr \<Rightarrow> bool" where
  "is_rfc3339 s \<longleftrightarrow>
     length s \<ge> 20 \<and> digits 4 (take 4 s) \<and> s ! 4 = CHR ''-'' \<and> digits 2 (take 2 (drop 5 s)) \<and>
     s ! 7 = CHR ''-'' \<and> digits 2 (take 2 (drop 8 s)) \<and> s ! 10 = CHR ''T'' \<and>
     digits 2 (take 2 (drop 11 s)) \<and> s ! 13 = CHR '':'' \<and> digits 2 (take 2 (drop 14 s)) \<and>
     s ! 16 = CHR '':'' \<and> digits 2 (take 2 (drop 17 s)) \<and> last s = CHR ''Z'' \<and>
     (let fraction = butlast (drop 19 s) in
        fraction = [] \<or>
        (hd fraction = CHR ''.'' \<and> tl fraction \<noteq> [] \<and> (\<forall>c \<in> set (tl fraction). ascii_digit c)))"

section \<open>Models\<close>

record runtime_scope =
  rs_tenant :: pystr
  rs_principal :: pystr
  rs_repository :: pystr
  rs_environment :: pystr
  rs_session :: pystr

definition runtime_scope_valid :: "runtime_scope \<Rightarrow> bool" where
  "runtime_scope_valid s \<longleftrightarrow> rs_tenant s \<noteq> [] \<and> rs_principal s \<noteq> [] \<and> rs_repository s \<noteq> [] \<and>
     rs_environment s \<noteq> [] \<and> rs_session s \<noteq> []"

definition runtime_scope_json :: "runtime_scope \<Rightarrow> json" where
  "runtime_scope_json s = JObj
     [(''tenant'', JStr (rs_tenant s)), (''principal'', JStr (rs_principal s)),
      (''repository'', JStr (rs_repository s)), (''environment'', JStr (rs_environment s)),
      (''session'', JStr (rs_session s))]"

record capsule_ref =
  cr_capsule_id :: pystr
  cr_version :: pystr
  cr_digest :: pystr

definition capsule_ref_valid :: "capsule_ref \<Rightarrow> bool" where
  "capsule_ref_valid c \<longleftrightarrow> cr_capsule_id c \<noteq> [] \<and> is_semver (cr_version c) \<and> is_digest (cr_digest c)"

definition capsule_ref_key :: "capsule_ref \<Rightarrow> pystr" where
  "capsule_ref_key c = cr_capsule_id c @ ''@'' @ cr_version c @ ''#'' @ cr_digest c"

definition capsule_ref_json :: "capsule_ref \<Rightarrow> json" where
  "capsule_ref_json c = JObj
     [(''capsule_id'', JStr (cr_capsule_id c)), (''version'', JStr (cr_version c)),
      (''digest'', JStr (cr_digest c))]"

record active_binding =
  ab_capsule :: capsule_ref
  ab_view_digest :: pystr
  ab_input_digest :: pystr
  ab_generation :: int

definition active_binding_valid :: "active_binding \<Rightarrow> bool" where
  "active_binding_valid b \<longleftrightarrow> capsule_ref_valid (ab_capsule b) \<and> is_digest (ab_view_digest b) \<and>
     is_digest (ab_input_digest b) \<and> 0 \<le> ab_generation b"

definition active_binding_json :: "active_binding \<Rightarrow> json" where
  "active_binding_json b = JObj
     [(''capsule'', capsule_ref_json (ab_capsule b)), (''view_digest'', JStr (ab_view_digest b)),
      (''input_digest'', JStr (ab_input_digest b)), (''generation'', JInt (ab_generation b))]"

record bootstrap_proof =
  bp_scope_digest :: pystr
  bp_binding_digest :: pystr
  bp_issued_at :: pystr
  bp_signature :: pystr

record reconciliation_proof =
  cp_scope_digest :: pystr
  cp_operation_id :: pystr
  cp_action_epoch :: int
  cp_termination_digest :: pystr
  cp_evidence_digest :: pystr
  cp_issued_at :: pystr
  cp_signature :: pystr

datatype action_state = IDLE | RUNNING | UNCERTAIN

fun action_state_text :: "action_state \<Rightarrow> pystr" where
  "action_state_text IDLE = ''IDLE''"
| "action_state_text RUNNING = ''RUNNING''"
| "action_state_text UNCERTAIN = ''UNCERTAIN''"

record runtime_state =
  rt_scope :: runtime_scope
  rt_active :: active_binding
  rt_action_state :: action_state
  rt_action_epoch :: int
  rt_current_operation_id :: "pystr option"

record action_lease =
  al_scope_digest :: pystr
  al_operation_id :: pystr
  al_request_digest :: pystr
  al_action_epoch :: int
  al_state :: action_state
  al_replayed :: bool
  al_outcome_digest :: "pystr option"
  al_outcome :: "bytes option"

record boundary_ticket =
  bt_ticket_id :: pystr
  bt_scope_digest :: pystr
  bt_expected_generation :: int
  bt_action_epoch :: int
  bt_operation_id :: pystr
  bt_expires_at :: pystr
  bt_signature :: pystr

record prepared_replacement =
  pp_prepared_id :: pystr
  pp_scope_digest :: pystr
  pp_operation_id :: pystr
  pp_request_digest :: pystr
  pp_old_binding :: active_binding
  pp_new_binding :: active_binding
  pp_evidence_digest :: pystr
  pp_expires_at :: pystr
  pp_payload :: bytes
  pp_effective_risk :: pystr
  pp_approval_required :: bool

definition prepared_replacement_valid :: "prepared_replacement \<Rightarrow> bool" where
  "prepared_replacement_valid p \<longleftrightarrow>
     pp_prepared_id p \<noteq> [] \<and> is_digest (pp_scope_digest p) \<and> pp_operation_id p \<noteq> [] \<and>
     is_digest (pp_request_digest p) \<and> active_binding_valid (pp_old_binding p) \<and>
     active_binding_valid (pp_new_binding p) \<and> is_digest (pp_evidence_digest p) \<and>
     is_rfc3339 (pp_expires_at p) \<and>
     pp_effective_risk p \<in> {''low'', ''medium'', ''high'', ''critical''} \<and>
     ab_generation (pp_new_binding p) = ab_generation (pp_old_binding p) + 1"

definition prepared_replacement_json :: "prepared_replacement \<Rightarrow> json" where
  "prepared_replacement_json p = JObj
     [(''prepared_id'', JStr (pp_prepared_id p)), (''scope_digest'', JStr (pp_scope_digest p)),
      (''operation_id'', JStr (pp_operation_id p)),
      (''request_digest'', JStr (pp_request_digest p)),
      (''old_binding'', active_binding_json (pp_old_binding p)),
      (''new_binding'', active_binding_json (pp_new_binding p)),
      (''evidence_digest'', JStr (pp_evidence_digest p)),
      (''expires_at'', JStr (pp_expires_at p)), (''payload'', JStr (b64encode (pp_payload p))),
      (''effective_risk'', JStr (pp_effective_risk p)),
      (''approval_required'', JBool (pp_approval_required p))]"

record rt_activation_receipt =
  xa_receipt_id :: pystr
  xa_scope_digest :: pystr
  xa_operation_id :: pystr
  xa_prepared_id :: pystr
  xa_ticket_id :: pystr
  xa_request_digest :: pystr
  xa_old_binding :: active_binding
  xa_new_binding :: active_binding
  xa_generation_before :: int
  xa_generation_after :: int
  xa_approval_digest :: pystr
  xa_applied :: bool
  xa_rolled_back :: bool
  xa_signature :: pystr

definition rt_activation_receipt_valid :: "rt_activation_receipt \<Rightarrow> bool" where
  "rt_activation_receipt_valid r \<longleftrightarrow>
     xa_receipt_id r \<noteq> [] \<and> is_digest (xa_scope_digest r) \<and> xa_operation_id r \<noteq> [] \<and>
     xa_prepared_id r \<noteq> [] \<and> xa_ticket_id r \<noteq> [] \<and> is_digest (xa_request_digest r) \<and>
     active_binding_valid (xa_old_binding r) \<and> active_binding_valid (xa_new_binding r) \<and>
     0 \<le> xa_generation_before r \<and> 0 \<le> xa_generation_after r \<and>
     is_digest (xa_approval_digest r) \<and> is_digest (xa_signature r) \<and>
     xa_generation_after r = xa_generation_before r + 1 \<and>
     ab_generation (xa_old_binding r) = xa_generation_before r \<and>
     ab_generation (xa_new_binding r) = xa_generation_after r"

text \<open>\<open>model_dump(mode="json", exclude={"signature"})\<close>, and the whole dump.\<close>

definition rt_activation_unsigned :: "rt_activation_receipt \<Rightarrow> (pystr \<times> json) list" where
  "rt_activation_unsigned r =
     [(''receipt_id'', JStr (xa_receipt_id r)), (''scope_digest'', JStr (xa_scope_digest r)),
      (''operation_id'', JStr (xa_operation_id r)), (''prepared_id'', JStr (xa_prepared_id r)),
      (''ticket_id'', JStr (xa_ticket_id r)), (''request_digest'', JStr (xa_request_digest r)),
      (''old_binding'', active_binding_json (xa_old_binding r)),
      (''new_binding'', active_binding_json (xa_new_binding r)),
      (''generation_before'', JInt (xa_generation_before r)),
      (''generation_after'', JInt (xa_generation_after r)),
      (''approval_digest'', JStr (xa_approval_digest r)),
      (''applied'', JBool (xa_applied r)), (''rolled_back'', JBool (xa_rolled_back r))]"

definition rt_activation_json :: "rt_activation_receipt \<Rightarrow> json" where
  "rt_activation_json r = JObj (rt_activation_unsigned r @ [(''signature'', JStr (xa_signature r))])"

record rt_rollback_receipt =
  xr_receipt_id :: pystr
  xr_source_receipt_id :: pystr
  xr_scope_digest :: pystr
  xr_operation_id :: pystr
  xr_ticket_id :: pystr
  xr_request_digest :: pystr
  xr_restored_binding :: active_binding
  xr_generation_before :: int
  xr_generation_after :: int
  xr_applied :: bool
  xr_signature :: pystr

definition rt_rollback_receipt_valid :: "rt_rollback_receipt \<Rightarrow> bool" where
  "rt_rollback_receipt_valid r \<longleftrightarrow>
     xr_receipt_id r \<noteq> [] \<and> xr_source_receipt_id r \<noteq> [] \<and> is_digest (xr_scope_digest r) \<and>
     xr_operation_id r \<noteq> [] \<and> xr_ticket_id r \<noteq> [] \<and> is_digest (xr_request_digest r) \<and>
     active_binding_valid (xr_restored_binding r) \<and> 0 \<le> xr_generation_before r \<and>
     0 \<le> xr_generation_after r \<and> is_digest (xr_signature r) \<and>
     xr_generation_after r = xr_generation_before r + 1 \<and>
     ab_generation (xr_restored_binding r) = xr_generation_after r"

definition rt_rollback_unsigned :: "rt_rollback_receipt \<Rightarrow> (pystr \<times> json) list" where
  "rt_rollback_unsigned r =
     [(''receipt_id'', JStr (xr_receipt_id r)),
      (''source_receipt_id'', JStr (xr_source_receipt_id r)),
      (''scope_digest'', JStr (xr_scope_digest r)), (''operation_id'', JStr (xr_operation_id r)),
      (''ticket_id'', JStr (xr_ticket_id r)), (''request_digest'', JStr (xr_request_digest r)),
      (''restored_binding'', active_binding_json (xr_restored_binding r)),
      (''generation_before'', JInt (xr_generation_before r)),
      (''generation_after'', JInt (xr_generation_after r)), (''applied'', JBool (xr_applied r))]"

definition rt_rollback_json :: "rt_rollback_receipt \<Rightarrow> json" where
  "rt_rollback_json r = JObj (rt_rollback_unsigned r @ [(''signature'', JStr (xr_signature r))])"

section \<open>The dumps determine the models\<close>

lemma runtime_scope_json_inj: "runtime_scope_json s = runtime_scope_json t \<longleftrightarrow> s = t"
  by (cases s; cases t) (auto simp: runtime_scope_json_def)

lemma capsule_ref_json_inj: "capsule_ref_json c = capsule_ref_json d \<longleftrightarrow> c = d"
  by (cases c; cases d) (auto simp: capsule_ref_json_def)

lemma active_binding_json_inj: "active_binding_json a = active_binding_json b \<longleftrightarrow> a = b"
  by (cases a; cases b) (auto simp: active_binding_json_def capsule_ref_json_inj)

lemma rt_activation_json_inj: "rt_activation_json a = rt_activation_json b \<longleftrightarrow> a = b"
  by (cases a; cases b)
    (auto simp: rt_activation_json_def rt_activation_unsigned_def active_binding_json_inj)

lemma rt_rollback_json_inj: "rt_rollback_json a = rt_rollback_json b \<longleftrightarrow> a = b"
  by (cases a; cases b)
    (auto simp: rt_rollback_json_def rt_rollback_unsigned_def active_binding_json_inj)

end
