(* ===== verification/Store_Base.thy ===== *)
theory Store_Base
  imports Runtime_Models
begin

text \<open>
  The base of the runtime store (\<^verbatim>\<open>swap/store.py\<close>): errors, the SQLite tables, the
  environment the store is composed with, clocks and timestamps, signatures, and the
  verification of stored rows.

  A table is the list of its rows in insertion order. An \<open>INSERT\<close> whose primary key is
  taken raises, \<open>UPDATE\<close> maps over the rows its \<open>WHERE\<close> clause selects, \<open>fetchone\<close> is the
  first match. Columns are typed, so the \<open>type(...) is not bytes\<close> guards of the source hold.
  The environment holds what is not part of the repository: HMAC and SHA-256, the JCS
  encoder, pydantic's JSON parsers, the ISO 8601 text of instants (microseconds, UTC),
  and the validators the store is configured with. A validator decides anew at every
  call: its first argument counts the calls within one operation. Each operation gets
  the readings of the clock and the fresh identifiers (\<open>uuid4\<close>) it will see, in order.
\<close>

section \<open>Errors, tables, environment\<close>

datatype store_error =
    RuntimeStoreError pystr
  | ScopeNotInitialized pystr
  | ActionInProgress pystr
  | UncertainState pystr
  | GenerationMismatch pystr
  | ReplayConflict pystr
  | PyValueError
  | SqliteError

type_synonym 'a store_result = "store_error + 'a"

definition safe_db_call :: "'a store_result \<Rightarrow> 'a store_result" where
  "safe_db_call r = (case r of
      Inl PyValueError \<Rightarrow> Inl (RuntimeStoreError ''runtime store unavailable'')
    | Inl SqliteError \<Rightarrow> Inl (RuntimeStoreError ''runtime store unavailable'')
    | _ \<Rightarrow> r)"

record scope_row =
  sr_scope_digest :: pystr
  sr_scope_jcs :: bytes
  sr_active_jcs :: bytes
  sr_generation :: int
  sr_action_state :: action_state
  sr_action_epoch :: int
  sr_current_operation_id :: "pystr option"
  sr_state_signature :: bytes
  sr_updated_at :: pystr

record action_row =
  aw_scope_digest :: pystr
  aw_operation_id :: pystr
  aw_request_digest :: pystr
  aw_action_epoch :: int
  aw_state :: action_state
  aw_outcome_digest :: "pystr option"
  aw_outcome :: "bytes option"
  aw_action_signature :: bytes

record ticket_row =
  tw_ticket_id :: pystr
  tw_scope_digest :: pystr
  tw_expected_generation :: int
  tw_action_epoch :: int
  tw_operation_id :: pystr
  tw_expires_at :: pystr
  tw_signature :: bytes
  tw_consumed :: bool
  tw_record_signature :: bytes

record prepared_row =
  pw_prepared_id :: pystr
  pw_scope_digest :: pystr
  pw_operation_id :: pystr
  pw_payload :: bytes
  pw_digest :: pystr
  pw_signature :: bytes
  pw_expires_at :: pystr

datatype receipt_kind = ACTIVATE | ROLLBACK

fun receipt_kind_text :: "receipt_kind \<Rightarrow> pystr" where
  "receipt_kind_text ACTIVATE = ''ACTIVATE''"
| "receipt_kind_text ROLLBACK = ''ROLLBACK''"

record receipt_row =
  ew_receipt_id :: pystr
  ew_scope_digest :: pystr
  ew_operation_id :: pystr
  ew_kind :: receipt_kind
  ew_request_digest :: pystr
  ew_payload :: bytes
  ew_signature :: bytes
  ew_created_at :: pystr

record audit_row =
  uw_event_id :: pystr
  uw_scope_digest :: pystr
  uw_event_kind :: pystr
  uw_payload :: bytes
  uw_signature :: bytes
  uw_created_at :: pystr

record runtime_db =
  db_scopes :: "scope_row list"
  db_actions :: "action_row list"
  db_tickets :: "ticket_row list"
  db_prepared :: "prepared_row list"
  db_receipts :: "receipt_row list"
  db_audit :: "audit_row list"

definition empty_db :: runtime_db where
  "empty_db = \<lparr> db_scopes = [], db_actions = [], db_tickets = [], db_prepared = [],
     db_receipts = [], db_audit = [] \<rparr>"

datatype clock_value = Utc int | NotUtc

record store_env =
  se_key :: bytes
  se_hmac :: "bytes \<Rightarrow> bytes \<Rightarrow> bytes"
  se_sha256 :: "bytes \<Rightarrow> bytes"
  se_dumps :: "json \<Rightarrow> bytes"
  se_parse_scope :: "bytes \<Rightarrow> runtime_scope option"
  se_parse_binding :: "bytes \<Rightarrow> active_binding option"
  se_parse_prepared :: "bytes \<Rightarrow> prepared_replacement option"
  se_parse_activation :: "bytes \<Rightarrow> rt_activation_receipt option"
  se_parse_rollback :: "bytes \<Rightarrow> rt_rollback_receipt option"
  se_isoformat :: "int \<Rightarrow> pystr"
  se_fromisoformat :: "pystr \<Rightarrow> int option"
  se_binding_validator :: "(nat \<Rightarrow> runtime_scope \<Rightarrow> active_binding \<Rightarrow> bool) option"
  se_termination_validator :: "(runtime_scope \<Rightarrow> pystr \<Rightarrow> bytes \<Rightarrow> bool) option"

section \<open>Clocks and timestamps\<close>

text \<open>\<open>isoformat\<close> of a UTC instant ends in \<open>+00:00\<close>, which \<open>_stamp\<close> replaces by \<open>Z\<close>; \<open>se_isoformat\<close>
  is the text before it.\<close>

definition stamp :: "store_env \<Rightarrow> clock_value \<Rightarrow> pystr store_result" where
  "stamp E value = (case value of
      NotUtc \<Rightarrow> Inl (RuntimeStoreError ''explicit UTC clock required'')
    | Utc t \<Rightarrow> Inr (se_isoformat E t @ ''Z''))"

definition parse_stamp :: "store_env \<Rightarrow> pystr \<Rightarrow> int store_result" where
  "parse_stamp E value =
     (case se_fromisoformat E (removesuffix ''Z'' value @ ''+00:00'') of
        None \<Rightarrow> Inl (RuntimeStoreError ''timestamp rejected'')
      | Some t \<Rightarrow> Inr t)"

definition expired :: "store_env \<Rightarrow> clock_value \<Rightarrow> pystr \<Rightarrow> bool store_result" where
  "expired E now expires_at =
     res_bind (stamp E now) (\<lambda>text.
     res_bind (parse_stamp E text) (\<lambda>t.
     res_bind (parse_stamp E expires_at) (\<lambda>limit. Inr (t \<ge> limit))))"

fun clock_plus :: "clock_value \<Rightarrow> int \<Rightarrow> clock_value" where
  "clock_plus (Utc t) ttl = Utc (t + ttl)"
| "clock_plus NotUtc ttl = NotUtc"

section \<open>Digests and signatures\<close>

definition jcs :: "store_env \<Rightarrow> json \<Rightarrow> bytes store_result" where
  "jcs E v = (case canonical_json_bytes (se_dumps E) v of None \<Rightarrow> Inl PyValueError | Some b \<Rightarrow> Inr b)"

definition digest_bytes :: "store_env \<Rightarrow> bytes \<Rightarrow> pystr" where
  "digest_bytes E data = ''sha256:'' @ to_hex (se_sha256 E data)"

definition json_digest :: "store_env \<Rightarrow> json \<Rightarrow> pystr store_result" where
  "json_digest E v = res_bind (jcs E v) (\<lambda>raw. Inr (digest_bytes E raw))"

text \<open>A scope holds strings only, so its digest always exists.\<close>

definition scope_digest :: "store_env \<Rightarrow> runtime_scope \<Rightarrow> pystr" where
  "scope_digest E scope = digest_bytes E (se_dumps E (runtime_scope_json scope))"

lemma json_digest_scope: "json_digest E (runtime_scope_json scope) = Inr (scope_digest E scope)"
  by (simp add: json_digest_def jcs_def canonical_json_bytes_def runtime_scope_json_def
      scope_digest_def)

definition binding_digest :: "store_env \<Rightarrow> active_binding \<Rightarrow> pystr store_result" where
  "binding_digest E b = json_digest E (active_binding_json b)"

definition sign :: "store_env \<Rightarrow> pystr \<Rightarrow> json \<Rightarrow> bytes store_result" where
  "sign E domain payload =
     res_bind (jcs E payload) (\<lambda>raw. Inr (se_hmac E (se_key E) (domain @ [CHR 0x00] @ raw)))"

definition sign_text :: "store_env \<Rightarrow> pystr \<Rightarrow> json \<Rightarrow> pystr store_result" where
  "sign_text E domain payload =
     res_bind (sign E domain payload) (\<lambda>s. Inr (''sha256:'' @ to_hex s))"

text \<open>The placeholder signature \<open>"sha256:" + "0" * 64\<close>.\<close>

definition unsigned_digest :: pystr where
  "unsigned_digest = ''sha256:'' @ replicate 64 (CHR ''0'')"

definition state_signature ::
  "store_env \<Rightarrow> pystr \<Rightarrow> bytes \<Rightarrow> bytes \<Rightarrow> int \<Rightarrow> action_state \<Rightarrow> int \<Rightarrow> pystr option \<Rightarrow> bytes store_result"
where
  "state_signature E sd scope_jcs active_jcs generation astate epoch current =
     sign E ''ccs-m5-runtime-state/1'' (JObj
       [(''scope_digest'', JStr sd), (''scope_jcs'', JStr (digest_bytes E scope_jcs)),
        (''active_jcs'', JStr (digest_bytes E active_jcs)), (''generation'', JInt generation),
        (''action_state'', JStr (action_state_text astate)), (''action_epoch'', JInt epoch),
        (''current_operation_id'', json_opt JStr current)])"

definition action_signature ::
  "store_env \<Rightarrow> pystr \<Rightarrow> pystr \<Rightarrow> pystr \<Rightarrow> int \<Rightarrow> action_state \<Rightarrow> pystr option \<Rightarrow> bytes option \<Rightarrow>
   bytes store_result"
where
  "action_signature E sd op req epoch astate outcome_digest outcome =
    (if (case outcome of Some o' \<Rightarrow> outcome_digest \<noteq> Some (digest_bytes E o')
         | None \<Rightarrow> outcome_digest \<noteq> None)
     then Inl (RuntimeStoreError ''runtime action integrity unavailable'')
     else sign E ''ccs-m5-runtime-action/1'' (JObj
       [(''scope_digest'', JStr sd), (''operation_id'', JStr op), (''request_digest'', JStr req),
        (''action_epoch'', JInt epoch), (''state'', JStr (action_state_text astate)),
        (''outcome_digest'', json_opt JStr outcome_digest),
        (''outcome'', json_opt (\<lambda>o'. JStr (digest_bytes E o')) outcome)]))"

definition ticket_fields :: "boundary_ticket \<Rightarrow> (pystr \<times> json) list" where
  "ticket_fields t =
     [(''ticket_id'', JStr (bt_ticket_id t)), (''scope_digest'', JStr (bt_scope_digest t)),
      (''expected_generation'', JInt (bt_expected_generation t)),
      (''action_epoch'', JInt (bt_action_epoch t)), (''operation_id'', JStr (bt_operation_id t)),
      (''expires_at'', JStr (bt_expires_at t))]"

definition ticket_signature :: "store_env \<Rightarrow> boundary_ticket \<Rightarrow> pystr store_result" where
  "ticket_signature E t = sign_text E ''ccs-m5-runtime-boundary/1'' (JObj (ticket_fields t))"

definition ticket_record_signature :: "store_env \<Rightarrow> boundary_ticket \<Rightarrow> bool \<Rightarrow> bytes store_result" where
  "ticket_record_signature E t consumed =
     sign E ''ccs-m5-runtime-ticket-row/1'' (JObj (ticket_fields t @ [(''consumed'', JBool consumed)]))"

definition receipt_payload :: "receipt_kind \<Rightarrow> (pystr \<times> json) list \<Rightarrow> json" where
  "receipt_payload kind receipt =
     JObj [(''kind'', JStr (receipt_kind_text kind)), (''receipt'', JObj receipt)]"

definition receipt_signature :: "store_env \<Rightarrow> receipt_kind \<Rightarrow> (pystr \<times> json) list \<Rightarrow> pystr store_result" where
  "receipt_signature E kind receipt =
     sign_text E ''ccs-m5-runtime-receipt/1'' (receipt_payload kind receipt)"

section \<open>Inserting rows\<close>

definition insert_row :: "('r \<Rightarrow> 'k) \<Rightarrow> 'r \<Rightarrow> 'r list \<Rightarrow> 'r list store_result" where
  "insert_row key r rows = (if key r \<in> key ` set rows then Inl SqliteError else Inr (rows @ [r]))"

definition audit ::
  "store_env \<Rightarrow> runtime_db \<Rightarrow> pystr \<Rightarrow> pystr \<Rightarrow> json \<Rightarrow> pystr \<Rightarrow> clock_value \<Rightarrow> runtime_db store_result"
where
  "audit E db sd kind payload event_id now =
     res_bind (jcs E payload) (\<lambda>raw.
     res_bind (sign E ''ccs-m5-runtime-audit/1'' (JObj
         [(''event_id'', JStr event_id), (''scope_digest'', JStr sd), (''kind'', JStr kind),
          (''payload'', JStr (digest_bytes E raw))])) (\<lambda>signature.
     res_bind (stamp E now) (\<lambda>stamped.
     res_bind (insert_row uw_event_id
         \<lparr> uw_event_id = event_id, uw_scope_digest = sd, uw_event_kind = kind, uw_payload = raw,
           uw_signature = signature, uw_created_at = stamped \<rparr> (db_audit db)) (\<lambda>rows.
     Inr (db \<lparr> db_audit := rows \<rparr>)))))"

section \<open>Reading a scope\<close>

definition verify_action :: "store_env \<Rightarrow> action_row \<Rightarrow> unit store_result" where
  "verify_action E a =
     res_bind (action_signature E (aw_scope_digest a) (aw_operation_id a) (aw_request_digest a)
         (aw_action_epoch a) (aw_state a) (aw_outcome_digest a) (aw_outcome a)) (\<lambda>expected.
       if aw_action_signature a \<noteq> expected then Inl (RuntimeStoreError ''runtime action rejected'')
       else Inr ())"

definition verify_row :: "store_env \<Rightarrow> scope_row \<Rightarrow> unit store_result" where
  "verify_row E r =
    (case (se_parse_scope E (sr_scope_jcs r), se_parse_binding E (sr_active_jcs r)) of
       (Some stored_scope, Some stored_binding) \<Rightarrow>
         if scope_digest E stored_scope \<noteq> sr_scope_digest r
            \<or> ab_generation stored_binding \<noteq> sr_generation r
            \<or> (sr_action_state r = RUNNING \<and>
               (sr_current_operation_id r = None \<or> sr_current_operation_id r = Some []))
            \<or> (sr_action_state r \<noteq> RUNNING \<and> sr_current_operation_id r \<noteq> None)
         then Inl (RuntimeStoreError ''runtime state rejected'')
         else res_bind (state_signature E (sr_scope_digest r) (sr_scope_jcs r) (sr_active_jcs r)
                  (sr_generation r) (sr_action_state r) (sr_action_epoch r)
                  (sr_current_operation_id r)) (\<lambda>expected.
              if sr_state_signature r \<noteq> expected
              then Inl (RuntimeStoreError ''runtime state rejected'') else Inr ())
     | _ \<Rightarrow> Inl (RuntimeStoreError ''runtime state rejected''))"

definition actions_of :: "runtime_db \<Rightarrow> pystr \<Rightarrow> action_row list" where
  "actions_of db sd = filter (\<lambda>a. aw_scope_digest a = sd) (db_actions db)"

definition find_action :: "runtime_db \<Rightarrow> pystr \<Rightarrow> pystr \<Rightarrow> action_row option" where
  "find_action db sd op =
     find (\<lambda>a. aw_scope_digest a = sd \<and> aw_operation_id a = op) (db_actions db)"

definition find_scope :: "runtime_db \<Rightarrow> pystr \<Rightarrow> scope_row option" where
  "find_scope db sd = find (\<lambda>r. sr_scope_digest r = sd) (db_scopes db)"

text \<open>\<open>ORDER BY action_epoch DESC LIMIT 1\<close>.\<close>

definition latest_action :: "action_row list \<Rightarrow> action_row option" where
  "latest_action as =
     (case sort_key (\<lambda>a. - aw_action_epoch a) as of [] \<Rightarrow> None | a # _ \<Rightarrow> Some a)"

definition action_state_consistent :: "runtime_db \<Rightarrow> scope_row \<Rightarrow> bool" where
  "action_state_consistent db r =
    (let sd = sr_scope_digest r;
         action_rows = filter (\<lambda>a. aw_state a = RUNNING) (actions_of db sd)
     in (if sr_action_state r = RUNNING
         then (case (case sr_current_operation_id r of None \<Rightarrow> None
                     | Some op \<Rightarrow> find_action db sd op) of
                 None \<Rightarrow> False
               | Some current \<Rightarrow> length action_rows = 1 \<and> aw_state current = RUNNING \<and>
                   aw_action_epoch current = sr_action_epoch r)
         else action_rows = []) \<and>
        (case latest_action (actions_of db sd) of None \<Rightarrow> True
         | Some latest \<Rightarrow> \<not> (aw_action_epoch latest = sr_action_epoch r \<and>
                              aw_state latest \<noteq> sr_action_state r)))"

text \<open>\<open>_row\<close>.\<close>

definition load_row :: "store_env \<Rightarrow> runtime_db \<Rightarrow> runtime_scope \<Rightarrow> scope_row store_result" where
  "load_row E db scope =
    (case find_scope db (scope_digest E scope) of
       None \<Rightarrow> Inl (ScopeNotInitialized ''runtime scope is not initialized'')
     | Some r \<Rightarrow>
         res_bind (verify_row E r) (\<lambda>_.
         res_bind (res_map (verify_action E) (actions_of db (sr_scope_digest r))) (\<lambda>_.
         if \<not> action_state_consistent db r
         then Inl (RuntimeStoreError ''runtime action state rejected'') else Inr r)))"

definition state_of :: "store_env \<Rightarrow> scope_row \<Rightarrow> runtime_state store_result" where
  "state_of E r =
     res_bind (verify_row E r) (\<lambda>_.
     (case (se_parse_scope E (sr_scope_jcs r), se_parse_binding E (sr_active_jcs r)) of
        (Some scope, Some binding) \<Rightarrow> Inr
          \<lparr> rt_scope = scope, rt_active = binding, rt_action_state = sr_action_state r,
            rt_action_epoch = sr_action_epoch r,
            rt_current_operation_id = sr_current_operation_id r \<rparr>
      | _ \<Rightarrow> Inl PyValueError))"

definition get_state :: "store_env \<Rightarrow> runtime_db \<Rightarrow> runtime_scope \<Rightarrow> runtime_state store_result" where
  "get_state E db scope = safe_db_call (res_bind (load_row E db scope) (state_of E))"

section \<open>Writing a scope\<close>

definition update_scope :: "pystr \<Rightarrow> (scope_row \<Rightarrow> scope_row) \<Rightarrow> runtime_db \<Rightarrow> runtime_db" where
  "update_scope sd f db =
     db \<lparr> db_scopes := map (\<lambda>r. if sr_scope_digest r = sd then f r else r) (db_scopes db) \<rparr>"

definition update_action :: "pystr \<Rightarrow> pystr \<Rightarrow> (action_row \<Rightarrow> action_row) \<Rightarrow> runtime_db \<Rightarrow> runtime_db" where
  "update_action sd op f db =
     db \<lparr> db_actions := map (\<lambda>a. if aw_scope_digest a = sd \<and> aw_operation_id a = op then f a else a)
        (db_actions db) \<rparr>"

end
