(* ===== verification/Runtime_Store.thy ===== *)
theory Runtime_Store
  imports Store_Base
begin

text \<open>
  The operations of the runtime store (\<^verbatim>\<open>swap/store.py\<close>), one definition per method.
  An operation that writes returns its result and the database after the commit; when
  it raises, the transaction is rolled back and the database is unchanged. \<open>clk i\<close> is
  the \<open>i\<close>-th reading of the clock in the operation and \<open>uid i\<close> its \<open>i\<close>-th fresh identifier.
\<close>

type_synonym 'a store_write = "('a \<times> runtime_db) store_result"
type_synonym clock_readings = "nat \<Rightarrow> clock_value"
type_synonym fresh_ids = "nat \<Rightarrow> pystr"

section \<open>Bootstrap\<close>

definition validate_binding ::
  "store_env \<Rightarrow> nat \<Rightarrow> runtime_scope \<Rightarrow> active_binding \<Rightarrow> unit store_result" where
  "validate_binding E i scope binding =
    (case se_binding_validator E of
       None \<Rightarrow> Inl (RuntimeStoreError ''validated binding authority is not configured'')
     | Some accepts \<Rightarrow>
         if accepts i scope binding then Inr ()
         else Inl (RuntimeStoreError ''binding validation rejected''))"

definition bootstrap_payload :: "bootstrap_proof \<Rightarrow> json" where
  "bootstrap_payload p = JObj
     [(''scope_digest'', JStr (bp_scope_digest p)), (''binding_digest'', JStr (bp_binding_digest p)),
      (''issued_at'', JStr (bp_issued_at p))]"

definition issue_bootstrap ::
  "store_env \<Rightarrow> clock_readings \<Rightarrow> runtime_scope \<Rightarrow> active_binding \<Rightarrow> bootstrap_proof store_result" where
  "issue_bootstrap E clk scope binding =
     res_bind (validate_binding E 0 scope binding) (\<lambda>_.
     res_bind (stamp E (clk 0)) (\<lambda>issued.
     res_bind (binding_digest E binding) (\<lambda>bd.
     let unsigned = \<lparr> bp_scope_digest = scope_digest E scope, bp_binding_digest = bd,
                      bp_issued_at = issued, bp_signature = unsigned_digest \<rparr> in
     res_bind (sign_text E ''ccs-m5-runtime-bootstrap/1'' (bootstrap_payload unsigned)) (\<lambda>signature.
     Inr (unsigned \<lparr> bp_signature := signature \<rparr>)))))"

definition verify_bootstrap ::
  "store_env \<Rightarrow> runtime_scope \<Rightarrow> active_binding \<Rightarrow> bootstrap_proof \<Rightarrow> unit store_result" where
  "verify_bootstrap E scope binding proof' =
    (if bp_scope_digest proof' \<noteq> scope_digest E scope
     then Inl (RuntimeStoreError ''bootstrap proof rejected'')
     else res_bind (binding_digest E binding) (\<lambda>bd.
       if bp_binding_digest proof' \<noteq> bd then Inl (RuntimeStoreError ''bootstrap proof rejected'')
       else res_bind (sign_text E ''ccs-m5-runtime-bootstrap/1'' (bootstrap_payload proof'))
         (\<lambda>expected. if bp_signature proof' \<noteq> expected
            then Inl (RuntimeStoreError ''bootstrap proof rejected'') else Inr ())))"

definition initialize ::
  "store_env \<Rightarrow> clock_readings \<Rightarrow> fresh_ids \<Rightarrow> runtime_db \<Rightarrow> runtime_scope \<Rightarrow> active_binding \<Rightarrow>
   bootstrap_proof \<Rightarrow> active_binding store_write"
where
  "initialize E clk uid db scope binding proof' = safe_db_call (
     res_bind (verify_bootstrap E scope binding proof') (\<lambda>_.
     res_bind (validate_binding E 0 scope binding) (\<lambda>_.
     if ab_generation binding \<noteq> 0
     then Inl (RuntimeStoreError ''bootstrap requires generation zero'')
     else let sd = scope_digest E scope in
     res_bind (validate_binding E 1 scope binding) (\<lambda>_.
     if find_scope db sd \<noteq> None then Inl (RuntimeStoreError ''scope already initialized'')
     else
     res_bind (jcs E (runtime_scope_json scope)) (\<lambda>scope_jcs.
     res_bind (jcs E (active_binding_json binding)) (\<lambda>active_jcs.
     res_bind (state_signature E sd scope_jcs active_jcs (ab_generation binding) IDLE 0 None) (\<lambda>sig.
     res_bind (stamp E (clk 0)) (\<lambda>now.
     res_bind (insert_row sr_scope_digest
         \<lparr> sr_scope_digest = sd, sr_scope_jcs = scope_jcs, sr_active_jcs = active_jcs,
           sr_generation = ab_generation binding, sr_action_state = IDLE, sr_action_epoch = 0,
           sr_current_operation_id = None, sr_state_signature = sig, sr_updated_at = now \<rparr>
         (db_scopes db)) (\<lambda>rows.
     res_bind (binding_digest E binding) (\<lambda>bd.
     res_bind (audit E (db \<lparr> db_scopes := rows \<rparr>) sd ''INITIALIZE'' (JObj [(''binding'', JStr bd)])
         (uid 0) (clk 1)) (\<lambda>db'.
     Inr (binding, db'))))))))))))"

section \<open>Actions\<close>

definition begin_action ::
  "store_env \<Rightarrow> clock_readings \<Rightarrow> fresh_ids \<Rightarrow> runtime_db \<Rightarrow> runtime_scope \<Rightarrow> pystr \<Rightarrow> pystr \<Rightarrow>
   action_lease store_write"
where
  "begin_action E clk uid db scope op req = safe_db_call (
     if op = [] then Inl (RuntimeStoreError ''action request rejected'')
     else let sd = scope_digest E scope in
     res_bind (load_row E db scope) (\<lambda>row.
     case find_action db sd op of
       Some existing \<Rightarrow>
         if aw_request_digest existing \<noteq> req
         then Inl (ReplayConflict ''operation id is bound to another request'')
         else if aw_state existing = RUNNING then Inl (ActionInProgress ''action already running'')
         else if sr_action_state row \<noteq> IDLE then Inl (UncertainState ''runtime action is uncertain'')
         else if (case aw_outcome existing of None \<Rightarrow> False
                  | Some o' \<Rightarrow> aw_outcome_digest existing \<noteq> Some (digest_bytes E o'))
         then Inl (RuntimeStoreError ''stored action outcome rejected'')
         else if \<not> is_digest req then Inl PyValueError
         else Inr (\<lparr> al_scope_digest = sd, al_operation_id = op, al_request_digest = req,
                al_action_epoch = aw_action_epoch existing, al_state = IDLE, al_replayed = True,
                al_outcome_digest = aw_outcome_digest existing, al_outcome = aw_outcome existing \<rparr>, db)
     | None \<Rightarrow>
         if sr_action_state row = RUNNING then Inl (ActionInProgress ''another action is running'')
         else if sr_action_state row = UNCERTAIN
         then Inl (UncertainState ''runtime action is uncertain'')
         else let epoch = sr_action_epoch row + 1 in
         res_bind (state_signature E sd (sr_scope_jcs row) (sr_active_jcs row) (sr_generation row)
             RUNNING epoch (Some op)) (\<lambda>sig.
         res_bind (stamp E (clk 0)) (\<lambda>now.
         let db1 = update_scope sd (\<lambda>r. r \<lparr> sr_action_state := RUNNING, sr_action_epoch := epoch,
               sr_current_operation_id := Some op, sr_state_signature := sig,
               sr_updated_at := now \<rparr>) db in
         res_bind (action_signature E sd op req epoch RUNNING None None) (\<lambda>asig.
         res_bind (insert_row (\<lambda>a. (aw_scope_digest a, aw_operation_id a))
             \<lparr> aw_scope_digest = sd, aw_operation_id = op, aw_request_digest = req,
               aw_action_epoch = epoch, aw_state = RUNNING, aw_outcome_digest = None,
               aw_outcome = None, aw_action_signature = asig \<rparr> (db_actions db1)) (\<lambda>rows.
         res_bind (audit E (db1 \<lparr> db_actions := rows \<rparr>) sd ''BEGIN_ACTION''
             (JObj [(''operation_id'', JStr op), (''epoch'', JInt epoch)]) (uid 0) (clk 1)) (\<lambda>db2.
         if \<not> is_digest req then Inl PyValueError
         else Inr (\<lparr> al_scope_digest = sd, al_operation_id = op, al_request_digest = req,
                al_action_epoch = epoch, al_state = RUNNING, al_replayed = False,
                al_outcome_digest = None, al_outcome = None \<rparr>, db2))))))))"

definition end_action ::
  "store_env \<Rightarrow> clock_readings \<Rightarrow> fresh_ids \<Rightarrow> runtime_db \<Rightarrow> runtime_scope \<Rightarrow> action_lease \<Rightarrow> bool \<Rightarrow>
   bytes \<Rightarrow> unit store_write"
where
  "end_action E clk uid db scope lease uncertain outcome = safe_db_call (
     if al_scope_digest lease \<noteq> scope_digest E scope \<or> al_state lease \<noteq> RUNNING \<or> al_replayed lease
     then Inl (RuntimeStoreError ''action lease rejected'')
     else let target = (if uncertain then UNCERTAIN else IDLE);
              sd = al_scope_digest lease; op = al_operation_id lease;
              outcome_digest = digest_bytes E outcome in
     res_bind (load_row E db scope) (\<lambda>row.
     if sr_action_state row \<noteq> RUNNING \<or> sr_current_operation_id row \<noteq> Some op
        \<or> sr_action_epoch row \<noteq> al_action_epoch lease
     then Inl (RuntimeStoreError ''action lease is not current'')
     else case find_action db sd op of
       None \<Rightarrow> Inl (RuntimeStoreError ''action lease is not current'')
     | Some action \<Rightarrow>
         if aw_state action \<noteq> RUNNING \<or> aw_action_epoch action \<noteq> al_action_epoch lease
            \<or> aw_request_digest action \<noteq> al_request_digest lease
         then Inl (RuntimeStoreError ''action lease is not current'')
         else
         res_bind (state_signature E sd (sr_scope_jcs row) (sr_active_jcs row) (sr_generation row)
             target (sr_action_epoch row) None) (\<lambda>sig.
         res_bind (stamp E (clk 0)) (\<lambda>now.
         let db1 = update_scope sd (\<lambda>r. r \<lparr> sr_action_state := target,
               sr_current_operation_id := None, sr_state_signature := sig,
               sr_updated_at := now \<rparr>) db in
         res_bind (action_signature E sd op (al_request_digest lease) (al_action_epoch lease) target
             (Some outcome_digest) (Some outcome)) (\<lambda>asig.
         let db2 = update_action sd op (\<lambda>a. a \<lparr> aw_state := target,
               aw_outcome_digest := Some outcome_digest, aw_outcome := Some outcome,
               aw_action_signature := asig \<rparr>) db1 in
         res_bind (audit E db2 sd ''END_ACTION''
             (JObj [(''operation_id'', JStr op), (''state'', JStr (action_state_text target))])
             (uid 0) (clk 1)) (\<lambda>db3. Inr ((), db3)))))))"

section \<open>Reconciliation\<close>

definition reconciliation_payload :: "reconciliation_proof \<Rightarrow> json" where
  "reconciliation_payload p = JObj
     [(''scope_digest'', JStr (cp_scope_digest p)), (''operation_id'', JStr (cp_operation_id p)),
      (''action_epoch'', JInt (cp_action_epoch p)),
      (''termination_digest'', JStr (cp_termination_digest p)),
      (''evidence_digest'', JStr (cp_evidence_digest p)), (''issued_at'', JStr (cp_issued_at p))]"

definition issue_reconciliation ::
  "store_env \<Rightarrow> clock_readings \<Rightarrow> runtime_db \<Rightarrow> runtime_scope \<Rightarrow> pystr \<Rightarrow> bytes \<Rightarrow>
   reconciliation_proof store_result"
where
  "issue_reconciliation E clk db scope op termination_evidence = safe_db_call (
     if op = [] then Inl (RuntimeStoreError ''reconciliation evidence rejected'')
     else case se_termination_validator E of
       None \<Rightarrow> Inl (RuntimeStoreError ''termination authority is not configured'')
     | Some accepts \<Rightarrow>
         if \<not> accepts scope op termination_evidence
         then Inl (RuntimeStoreError ''termination evidence rejected'')
         else let sd = scope_digest E scope in
         res_bind (load_row E db scope) (\<lambda>row.
         case find_action db sd op of
           None \<Rightarrow> Inl (RuntimeStoreError ''reconciliation is not required'')
         | Some action \<Rightarrow>
             if sr_action_state row \<noteq> UNCERTAIN \<or> aw_state action \<noteq> UNCERTAIN
             then Inl (RuntimeStoreError ''reconciliation is not required'')
             else
             res_bind (stamp E (clk 0)) (\<lambda>issued.
             let unsigned = \<lparr> cp_scope_digest = sd, cp_operation_id = op,
                   cp_action_epoch = aw_action_epoch action,
                   cp_termination_digest = digest_bytes E termination_evidence,
                   cp_evidence_digest = digest_bytes E termination_evidence,
                   cp_issued_at = issued, cp_signature = unsigned_digest \<rparr> in
             res_bind (sign_text E ''ccs-m5-runtime-reconcile/1'' (reconciliation_payload unsigned))
               (\<lambda>signature. Inr (unsigned \<lparr> cp_signature := signature \<rparr>)))))"

definition reconcile ::
  "store_env \<Rightarrow> clock_readings \<Rightarrow> fresh_ids \<Rightarrow> runtime_db \<Rightarrow> runtime_scope \<Rightarrow> reconciliation_proof \<Rightarrow>
   unit store_write"
where
  "reconcile E clk uid db scope proof' = safe_db_call (
     if cp_scope_digest proof' \<noteq> scope_digest E scope
     then Inl (RuntimeStoreError ''reconciliation evidence rejected'')
     else
     res_bind (sign_text E ''ccs-m5-runtime-reconcile/1'' (reconciliation_payload proof')) (\<lambda>expected.
     if cp_signature proof' \<noteq> expected
     then Inl (RuntimeStoreError ''reconciliation evidence rejected'')
     else let sd = scope_digest E scope; op = cp_operation_id proof' in
     res_bind (load_row E db scope) (\<lambda>row.
     case find_action db sd op of
       None \<Rightarrow> Inl (RuntimeStoreError ''reconciliation is not required'')
     | Some action \<Rightarrow>
         if sr_action_state row \<noteq> UNCERTAIN \<or> aw_state action \<noteq> UNCERTAIN
            \<or> aw_action_epoch action \<noteq> cp_action_epoch proof'
         then Inl (RuntimeStoreError ''reconciliation is not required'')
         else
         res_bind (state_signature E sd (sr_scope_jcs row) (sr_active_jcs row) (sr_generation row)
             IDLE (sr_action_epoch row) None) (\<lambda>sig.
         res_bind (stamp E (clk 0)) (\<lambda>now.
         let db1 = update_scope sd (\<lambda>r. r \<lparr> sr_action_state := IDLE,
               sr_current_operation_id := None, sr_state_signature := sig,
               sr_updated_at := now \<rparr>) db in
         res_bind (action_signature E sd op (aw_request_digest action) (aw_action_epoch action) IDLE
             (aw_outcome_digest action) (aw_outcome action)) (\<lambda>asig.
         let db2 = update_action sd op (\<lambda>a. a \<lparr> aw_state := IDLE, aw_action_signature := asig \<rparr>) db1 in
         res_bind (audit E db2 sd ''RECONCILE''
             (JObj [(''operation_id'', JStr op), (''evidence'', JStr (cp_evidence_digest proof'))])
             (uid 0) (clk 1)) (\<lambda>db3. Inr ((), db3))))))))"

section \<open>Boundary tickets\<close>

definition reserve_boundary ::
  "store_env \<Rightarrow> clock_readings \<Rightarrow> fresh_ids \<Rightarrow> runtime_db \<Rightarrow> runtime_scope \<Rightarrow> pystr \<Rightarrow> int \<Rightarrow> int \<Rightarrow>
   boundary_ticket store_write"
where
  "reserve_boundary E clk uid db scope op expected_generation ttl = safe_db_call (
     if op = [] then Inl (RuntimeStoreError ''boundary request rejected'')
     else if ttl \<le> 0 \<or> ttl > 600000000 then Inl (RuntimeStoreError ''boundary lifetime rejected'')
     else let sd = scope_digest E scope in
     res_bind (load_row E db scope) (\<lambda>row.
     if sr_action_state row = UNCERTAIN
     then Inl (UncertainState ''uncertain action blocks boundary'')
     else if sr_action_state row \<noteq> IDLE
     then Inl (ActionInProgress ''running action blocks boundary'')
     else if sr_generation row \<noteq> expected_generation
     then Inl (GenerationMismatch ''generation changed'')
     else case find_action db sd op of
       None \<Rightarrow> Inl (RuntimeStoreError ''boundary operation is not complete'')
     | Some action \<Rightarrow>
         if aw_state action \<noteq> IDLE \<or> aw_action_epoch action \<noteq> sr_action_epoch row
         then Inl (RuntimeStoreError ''boundary operation is not complete'')
         else
         res_bind (stamp E (clock_plus (clk 0) ttl)) (\<lambda>expires.
         let unsigned = \<lparr> bt_ticket_id = uid 0, bt_scope_digest = sd,
               bt_expected_generation = expected_generation, bt_action_epoch = sr_action_epoch row,
               bt_operation_id = op, bt_expires_at = expires, bt_signature = unsigned_digest \<rparr> in
         res_bind (ticket_signature E unsigned) (\<lambda>signature.
         let ticket = unsigned \<lparr> bt_signature := signature \<rparr> in
         case from_hex (removeprefix ''sha256:'' (bt_signature ticket)) of
           None \<Rightarrow> Inl PyValueError
         | Some raw \<Rightarrow>
             res_bind (ticket_record_signature E ticket False) (\<lambda>rsig.
             res_bind (insert_row tw_ticket_id
                 \<lparr> tw_ticket_id = bt_ticket_id ticket, tw_scope_digest = bt_scope_digest ticket,
                   tw_expected_generation = bt_expected_generation ticket,
                   tw_action_epoch = bt_action_epoch ticket,
                   tw_operation_id = bt_operation_id ticket, tw_expires_at = bt_expires_at ticket,
                   tw_signature = raw, tw_consumed = False, tw_record_signature = rsig \<rparr>
                 (db_tickets db)) (\<lambda>rows.
             res_bind (audit E (db \<lparr> db_tickets := rows \<rparr>) sd ''RESERVE_BOUNDARY''
                 (JObj [(''ticket_id'', JStr (bt_ticket_id ticket))]) (uid 1) (clk 1)) (\<lambda>db'.
             Inr (ticket, db'))))))))"

definition check_ticket_db ::
  "store_env \<Rightarrow> clock_value \<Rightarrow> runtime_db \<Rightarrow> runtime_scope \<Rightarrow> boundary_ticket \<Rightarrow> scope_row \<Rightarrow>
   pystr option \<Rightarrow> pystr option \<Rightarrow> unit store_result"
where
  "check_ticket_db E now db scope ticket row expected_op expected_req =
    (let sd = scope_digest E scope in
     if bt_scope_digest ticket \<noteq> sd \<or>
        (case expected_op of None \<Rightarrow> False | Some op \<Rightarrow> bt_operation_id ticket \<noteq> op)
     then Inl (RuntimeStoreError ''boundary ticket rejected'')
     else
     res_bind (ticket_signature E ticket) (\<lambda>expected.
     if bt_signature ticket \<noteq> expected then Inl (RuntimeStoreError ''boundary ticket rejected'')
     else case find (\<lambda>t. tw_ticket_id t = bt_ticket_id ticket) (db_tickets db) of
       None \<Rightarrow> Inl (RuntimeStoreError ''boundary ticket already consumed'')
     | Some stored \<Rightarrow>
         if tw_consumed stored then Inl (RuntimeStoreError ''boundary ticket already consumed'')
         else case from_hex (removeprefix ''sha256:'' (bt_signature ticket)) of
           None \<Rightarrow> Inl PyValueError
         | Some public_signature \<Rightarrow>
             if tw_scope_digest stored \<noteq> bt_scope_digest ticket
                \<or> tw_expected_generation stored \<noteq> bt_expected_generation ticket
                \<or> tw_action_epoch stored \<noteq> bt_action_epoch ticket
                \<or> tw_operation_id stored \<noteq> bt_operation_id ticket
                \<or> tw_expires_at stored \<noteq> bt_expires_at ticket
                \<or> tw_signature stored \<noteq> public_signature
             then Inl (RuntimeStoreError ''boundary ticket rejected'')
             else
             res_bind (ticket_record_signature E ticket False) (\<lambda>rsig.
             if tw_record_signature stored \<noteq> rsig
             then Inl (RuntimeStoreError ''boundary ticket rejected'')
             else
             res_bind (expired E now (bt_expires_at ticket)) (\<lambda>late.
             if late then Inl (RuntimeStoreError ''boundary ticket expired'')
             else if sr_action_state row \<noteq> IDLE
                \<or> sr_generation row \<noteq> bt_expected_generation ticket
                \<or> sr_action_epoch row \<noteq> bt_action_epoch ticket
             then Inl (RuntimeStoreError ''boundary ticket is stale'')
             else case find_action db sd (bt_operation_id ticket) of
               None \<Rightarrow> Inl (RuntimeStoreError ''boundary operation is not complete'')
             | Some action \<Rightarrow>
                 if aw_state action \<noteq> IDLE \<or> aw_action_epoch action \<noteq> bt_action_epoch ticket
                    \<or> (case expected_req of None \<Rightarrow> False
                       | Some req \<Rightarrow> aw_request_digest action \<noteq> req)
                 then Inl (RuntimeStoreError ''boundary operation is not complete'')
                 else Inr ()))))"

text \<open>The guarded \<open>UPDATE\<close> that consumes a ticket, with its \<open>rowcount\<close> check.\<close>

definition consume_ticket :: "store_env \<Rightarrow> boundary_ticket \<Rightarrow> runtime_db \<Rightarrow> runtime_db store_result" where
  "consume_ticket E ticket db =
     res_bind (ticket_record_signature E ticket True) (\<lambda>consumed_sig.
     res_bind (ticket_record_signature E ticket False) (\<lambda>open_sig.
     let hit = (\<lambda>t. tw_ticket_id t = bt_ticket_id ticket \<and> \<not> tw_consumed t \<and>
                    tw_record_signature t = open_sig)
     in if length (filter hit (db_tickets db)) \<noteq> 1
        then Inl (RuntimeStoreError ''boundary ticket consumption failed'')
        else Inr (db \<lparr> db_tickets := map (\<lambda>t. if hit t
               then t \<lparr> tw_consumed := True, tw_record_signature := consumed_sig \<rparr> else t)
               (db_tickets db) \<rparr>)))"

definition consume_boundary ::
  "store_env \<Rightarrow> clock_readings \<Rightarrow> fresh_ids \<Rightarrow> runtime_db \<Rightarrow> runtime_scope \<Rightarrow> boundary_ticket \<Rightarrow>
   boundary_ticket store_write"
where
  "consume_boundary E clk uid db scope ticket = safe_db_call (
     if bt_scope_digest ticket \<noteq> scope_digest E scope
     then Inl (RuntimeStoreError ''boundary ticket rejected'')
     else
     res_bind (ticket_signature E ticket) (\<lambda>expected.
     if bt_signature ticket \<noteq> expected then Inl (RuntimeStoreError ''boundary ticket rejected'')
     else
     res_bind (load_row E db scope) (\<lambda>row.
     res_bind (check_ticket_db E (clk 0) db scope ticket row None None) (\<lambda>_.
     res_bind (consume_ticket E ticket db) (\<lambda>db1.
     res_bind (audit E db1 (scope_digest E scope) ''CONSUME_BOUNDARY''
         (JObj [(''ticket_id'', JStr (bt_ticket_id ticket))]) (uid 0) (clk 1)) (\<lambda>db2.
     Inr (ticket, db2)))))))"

end
