(* ===== verification/Store_Receipts.thy ===== *)
theory Store_Receipts
  imports Runtime_Store
begin

text \<open>
  Prepared replacements, activation, rollback and their receipts (\<^verbatim>\<open>swap/store.py\<close>,
  \<open>_load_prepared_db\<close> to \<open>get_prepared\<close>).
\<close>

section \<open>Prepared replacements\<close>

definition prepared_digest :: "store_env \<Rightarrow> prepared_replacement \<Rightarrow> pystr store_result" where
  "prepared_digest E p = json_digest E (prepared_replacement_json p)"

definition prepared_signature ::
  "store_env \<Rightarrow> pystr \<Rightarrow> pystr \<Rightarrow> pystr \<Rightarrow> pystr \<Rightarrow> pystr \<Rightarrow> bytes store_result" where
  "prepared_signature E pid sd op expires_at digest =
     sign E ''ccs-m5-runtime-prepared/1'' (JObj
       [(''prepared_id'', JStr pid), (''scope_digest'', JStr sd), (''operation_id'', JStr op),
        (''expires_at'', JStr expires_at), (''digest'', JStr digest)])"

definition load_prepared_db ::
  "store_env \<Rightarrow> clock_value \<Rightarrow> runtime_db \<Rightarrow> runtime_scope \<Rightarrow> pystr \<Rightarrow> bool \<Rightarrow>
   prepared_replacement store_result"
where
  "load_prepared_db E now db scope pid allow_expired =
    (let sd = scope_digest E scope in
     case find (\<lambda>p. pw_scope_digest p = sd \<and> pw_prepared_id p = pid) (db_prepared db) of
       None \<Rightarrow> Inl (RuntimeStoreError ''prepared record unavailable'')
     | Some row \<Rightarrow>
        (case se_parse_prepared E (pw_payload row) of
           None \<Rightarrow> Inl (RuntimeStoreError ''prepared record rejected'')
         | Some record' \<Rightarrow>
             res_bind (prepared_signature E (pw_prepared_id row) (pw_scope_digest row)
                 (pp_operation_id record') (pp_expires_at record') (pw_digest row)) (\<lambda>expected.
             if expected \<noteq> pw_signature row
             then Inl (RuntimeStoreError ''prepared record rejected'')
             else if pp_prepared_id record' \<noteq> pw_prepared_id row
                \<or> pp_scope_digest record' \<noteq> pw_scope_digest row \<or> pp_scope_digest record' \<noteq> sd
             then Inl (RuntimeStoreError ''prepared record rejected'')
             else
             res_bind (prepared_digest E record') (\<lambda>digest.
             if digest \<noteq> pw_digest row then Inl (RuntimeStoreError ''prepared record rejected'')
             else if allow_expired then Inr record'
             else
             res_bind (expired E now (pp_expires_at record')) (\<lambda>late.
             if late then Inl (RuntimeStoreError ''prepared record expired'') else Inr record')))))"

definition save_prepared ::
  "store_env \<Rightarrow> runtime_db \<Rightarrow> prepared_replacement \<Rightarrow> unit store_write" where
  "save_prepared E db record' = safe_db_call (
     res_bind (jcs E (prepared_replacement_json record')) (\<lambda>serialized.
     let digest = digest_bytes E serialized in
     res_bind (prepared_signature E (pp_prepared_id record') (pp_scope_digest record')
         (pp_operation_id record') (pp_expires_at record') digest) (\<lambda>signature.
     case find_scope db (pp_scope_digest record') of
       None \<Rightarrow> Inl (ScopeNotInitialized ''runtime scope is not initialized'')
     | Some r \<Rightarrow>
        (case se_parse_scope E (sr_scope_jcs r) of
           None \<Rightarrow> Inl PyValueError
         | Some scope \<Rightarrow>
             res_bind (load_row E db scope) (\<lambda>_.
             case insert_row pw_prepared_id
                 \<lparr> pw_prepared_id = pp_prepared_id record', pw_scope_digest = pp_scope_digest record',
                   pw_operation_id = pp_operation_id record', pw_payload = serialized,
                   pw_digest = digest, pw_signature = signature,
                   pw_expires_at = pp_expires_at record' \<rparr> (db_prepared db) of
               Inl _ \<Rightarrow> Inl (RuntimeStoreError ''prepared record unavailable'')
             | Inr rows \<Rightarrow> Inr ((), db \<lparr> db_prepared := rows \<rparr>))))))"

definition get_prepared ::
  "store_env \<Rightarrow> clock_readings \<Rightarrow> runtime_db \<Rightarrow> runtime_scope \<Rightarrow> pystr \<Rightarrow> bool \<Rightarrow>
   prepared_replacement store_result"
where
  "get_prepared E clk db scope pid allow_expired =
     safe_db_call (load_prepared_db E (clk 0) db scope pid allow_expired)"

section \<open>Receipts\<close>

datatype runtime_receipt = ActivationR rt_activation_receipt | RollbackR rt_rollback_receipt

fun receipt_fields :: "runtime_receipt \<Rightarrow> (pystr \<times> json) list" where
  "receipt_fields (ActivationR a) = rt_activation_unsigned a"
| "receipt_fields (RollbackR r) = rt_rollback_unsigned r"

fun receipt_scope :: "runtime_receipt \<Rightarrow> pystr" where
  "receipt_scope (ActivationR a) = xa_scope_digest a"
| "receipt_scope (RollbackR r) = xr_scope_digest r"

fun receipt_id :: "runtime_receipt \<Rightarrow> pystr" where
  "receipt_id (ActivationR a) = xa_receipt_id a"
| "receipt_id (RollbackR r) = xr_receipt_id r"

fun receipt_operation :: "runtime_receipt \<Rightarrow> pystr" where
  "receipt_operation (ActivationR a) = xa_operation_id a"
| "receipt_operation (RollbackR r) = xr_operation_id r"

fun receipt_request :: "runtime_receipt \<Rightarrow> pystr" where
  "receipt_request (ActivationR a) = xa_request_digest a"
| "receipt_request (RollbackR r) = xr_request_digest r"

fun receipt_stored_signature :: "runtime_receipt \<Rightarrow> pystr" where
  "receipt_stored_signature (ActivationR a) = xa_signature a"
| "receipt_stored_signature (RollbackR r) = xr_signature r"

fun parse_receipt :: "store_env \<Rightarrow> receipt_kind \<Rightarrow> bytes \<Rightarrow> runtime_receipt option" where
  "parse_receipt E ACTIVATE raw = map_option ActivationR (se_parse_activation E raw)"
| "parse_receipt E ROLLBACK raw = map_option RollbackR (se_parse_rollback E raw)"

definition load_receipt_db ::
  "store_env \<Rightarrow> runtime_db \<Rightarrow> runtime_scope \<Rightarrow> pystr \<Rightarrow> (receipt_kind \<times> runtime_receipt) store_result" where
  "load_receipt_db E db scope rid =
    (case find (\<lambda>e. ew_scope_digest e = scope_digest E scope \<and> ew_receipt_id e = rid)
        (db_receipts db) of
       None \<Rightarrow> Inl (RuntimeStoreError ''receipt unavailable'')
     | Some row \<Rightarrow>
        (case parse_receipt E (ew_kind row) (ew_payload row) of
           None \<Rightarrow> Inl (RuntimeStoreError ''receipt rejected'')
         | Some model \<Rightarrow>
             res_bind (sign E ''ccs-m5-runtime-receipt/1''
                 (receipt_payload (ew_kind row) (receipt_fields model))) (\<lambda>sig.
             if sig \<noteq> ew_signature row then Inl (RuntimeStoreError ''receipt rejected'')
             else if receipt_scope model \<noteq> scope_digest E scope \<or> receipt_id model \<noteq> rid
                \<or> receipt_operation model \<noteq> ew_operation_id row
                \<or> receipt_request model \<noteq> ew_request_digest row
             then Inl (RuntimeStoreError ''receipt rejected'')
             else
             res_bind (receipt_signature E (ew_kind row) (receipt_fields model)) (\<lambda>expected.
             if receipt_stored_signature model \<noteq> expected
             then Inl (RuntimeStoreError ''receipt rejected'')
             else Inr (ew_kind row, model)))))"

definition get_receipt ::
  "store_env \<Rightarrow> runtime_db \<Rightarrow> runtime_scope \<Rightarrow> pystr \<Rightarrow> runtime_receipt store_result" where
  "get_receipt E db scope rid =
     safe_db_call (res_bind (load_receipt_db E db scope rid) (\<lambda>kr. Inr (snd kr)))"

text \<open>The loop over the candidates of \<open>find_activation\<close> and \<open>find_rollback\<close>, which stops at
  the first receipt that answers and fails on the first one that does not verify.\<close>

fun search_receipts ::
  "store_env \<Rightarrow> runtime_db \<Rightarrow> runtime_scope \<Rightarrow> (runtime_receipt \<Rightarrow> 'a option) \<Rightarrow> receipt_row list \<Rightarrow>
   'a option store_result"
where
  "search_receipts E db scope pick [] = Inr None"
| "search_receipts E db scope pick (row # rows) =
     res_bind (load_receipt_db E db scope (ew_receipt_id row)) (\<lambda>kr.
       case pick (snd kr) of Some x \<Rightarrow> Inr (Some x)
       | None \<Rightarrow> search_receipts E db scope pick rows)"

definition receipts_by_time :: "runtime_db \<Rightarrow> pystr \<Rightarrow> receipt_kind \<Rightarrow> receipt_row list" where
  "receipts_by_time db sd kind =
     sort_key ew_created_at
       (filter (\<lambda>e. ew_scope_digest e = sd \<and> ew_kind e = kind) (db_receipts db))"

definition pick_activation :: "pystr \<Rightarrow> runtime_receipt \<Rightarrow> rt_activation_receipt option" where
  "pick_activation pid r = (case r of
      ActivationR a \<Rightarrow> if xa_prepared_id a = pid then Some a else None
    | RollbackR _ \<Rightarrow> None)"

definition find_activation ::
  "store_env \<Rightarrow> runtime_db \<Rightarrow> runtime_scope \<Rightarrow> pystr \<Rightarrow> rt_activation_receipt option store_result" where
  "find_activation E db scope pid = safe_db_call (
     search_receipts E db scope (pick_activation pid)
       (receipts_by_time db (scope_digest E scope) ACTIVATE))"

definition pick_rollback :: "pystr \<Rightarrow> runtime_receipt \<Rightarrow> rt_rollback_receipt option" where
  "pick_rollback source r = (case r of
      RollbackR b \<Rightarrow> if xr_source_receipt_id b = source then Some b else None
    | ActivationR _ \<Rightarrow> None)"

definition find_rollback ::
  "store_env \<Rightarrow> runtime_db \<Rightarrow> runtime_scope \<Rightarrow> pystr \<Rightarrow> rt_rollback_receipt option store_result" where
  "find_rollback E db scope source = safe_db_call (
     search_receipts E db scope (pick_rollback source)
       (receipts_by_time db (scope_digest E scope) ROLLBACK))"

section \<open>Activation\<close>

definition operation_receipt :: "runtime_db \<Rightarrow> pystr \<Rightarrow> pystr \<Rightarrow> receipt_kind \<Rightarrow> receipt_row option" where
  "operation_receipt db sd op kind =
     find (\<lambda>e. ew_scope_digest e = sd \<and> ew_operation_id e = op \<and> ew_kind e = kind) (db_receipts db)"

definition find_activation_replay ::
  "store_env \<Rightarrow> runtime_db \<Rightarrow> runtime_scope \<Rightarrow> prepared_replacement \<Rightarrow>
   rt_activation_receipt option store_result"
where
  "find_activation_replay E db scope record' =
    (case operation_receipt db (scope_digest E scope) (pp_operation_id record') ACTIVATE of
       None \<Rightarrow> Inr None
     | Some existing \<Rightarrow>
         res_bind (load_receipt_db E db scope (ew_receipt_id existing)) (\<lambda>kr.
         case snd kr of
           RollbackR _ \<Rightarrow> Inl (ReplayConflict ''activation operation is bound to another request'')
         | ActivationR receipt \<Rightarrow>
             if xa_request_digest receipt \<noteq> pp_request_digest record'
             then Inl (ReplayConflict ''activation operation is bound to another request'')
             else if xa_prepared_id receipt \<noteq> pp_prepared_id record'
             then Inl (ReplayConflict ''activation operation is bound to another preparation'')
             else Inr (Some receipt)))"

definition authorize_activation ::
  "prepared_replacement \<Rightarrow> pystr \<Rightarrow> (prepared_replacement \<Rightarrow> pystr \<Rightarrow> bool) option \<Rightarrow>
   unit store_result"
where
  "authorize_activation record' approval_digest validator = (case validator of
      None \<Rightarrow> Inl (RuntimeStoreError ''activation authority unavailable'')
    | Some accepts \<Rightarrow>
        if accepts record' approval_digest then Inr ()
        else Inl (RuntimeStoreError ''activation authorization rejected''))"

text \<open>The guarded \<open>UPDATE\<close> of the active pointer, with its \<open>rowcount\<close> check.\<close>

definition swap_pointer ::
  "store_env \<Rightarrow> pystr \<Rightarrow> scope_row \<Rightarrow> active_binding \<Rightarrow> clock_value \<Rightarrow> pystr \<Rightarrow> runtime_db \<Rightarrow>
   runtime_db store_result"
where
  "swap_pointer E sd row binding now failure db =
     res_bind (jcs E (active_binding_json binding)) (\<lambda>new_active_jcs.
     res_bind (state_signature E sd (sr_scope_jcs row) new_active_jcs (ab_generation binding) IDLE
         (sr_action_epoch row) None) (\<lambda>sig.
     res_bind (stamp E now) (\<lambda>stamped.
     let hit = (\<lambda>r. sr_scope_digest r = sd \<and> sr_generation r = sr_generation row) in
     if length (filter hit (db_scopes db)) \<noteq> 1 then Inl (RuntimeStoreError failure)
     else Inr (db \<lparr> db_scopes := map (\<lambda>r. if hit r
            then r \<lparr> sr_active_jcs := new_active_jcs, sr_generation := ab_generation binding,
                     sr_state_signature := sig, sr_updated_at := stamped \<rparr> else r) (db_scopes db) \<rparr>))))"

definition commit_activation ::
  "store_env \<Rightarrow> clock_readings \<Rightarrow> fresh_ids \<Rightarrow> runtime_db \<Rightarrow> pystr \<Rightarrow> scope_row \<Rightarrow>
   prepared_replacement \<Rightarrow> boundary_ticket \<Rightarrow> pystr \<Rightarrow> rt_activation_receipt store_write"
where
  "commit_activation E clk uid db sd row record' ticket approval_digest =
    (case se_parse_binding E (sr_active_jcs row) of
       None \<Rightarrow> Inl PyValueError
     | Some old \<Rightarrow>
         let unsigned = \<lparr> xa_receipt_id = uid 0, xa_scope_digest = sd,
               xa_operation_id = pp_operation_id record', xa_prepared_id = pp_prepared_id record',
               xa_ticket_id = bt_ticket_id ticket, xa_request_digest = pp_request_digest record',
               xa_old_binding = old, xa_new_binding = pp_new_binding record',
               xa_generation_before = sr_generation row,
               xa_generation_after = ab_generation (pp_new_binding record'),
               xa_approval_digest = approval_digest, xa_applied = True, xa_rolled_back = False,
               xa_signature = unsigned_digest \<rparr> in
         if \<not> rt_activation_receipt_valid unsigned then Inl PyValueError
         else
         res_bind (receipt_signature E ACTIVATE (rt_activation_unsigned unsigned)) (\<lambda>signature.
         let receipt = unsigned \<lparr> xa_signature := signature \<rparr> in
         res_bind (jcs E (rt_activation_json receipt)) (\<lambda>payload.
         res_bind (swap_pointer E sd row (pp_new_binding record') (clk 2)
             ''activation compare-and-swap failed'' db) (\<lambda>db1.
         res_bind (consume_ticket E ticket db1) (\<lambda>db2.
         case from_hex (removeprefix ''sha256:'' (xa_signature receipt)) of
           None \<Rightarrow> Inl PyValueError
         | Some raw \<Rightarrow>
             res_bind (stamp E (clk 3)) (\<lambda>stamped.
             res_bind (insert_row ew_receipt_id
                 \<lparr> ew_receipt_id = xa_receipt_id receipt, ew_scope_digest = sd,
                   ew_operation_id = pp_operation_id record', ew_kind = ACTIVATE,
                   ew_request_digest = pp_request_digest record', ew_payload = payload,
                   ew_signature = raw, ew_created_at = stamped \<rparr> (db_receipts db2)) (\<lambda>rows.
             res_bind (audit E (db2 \<lparr> db_receipts := rows \<rparr>) sd ''ACTIVATE''
                 (JObj [(''receipt_id'', JStr (xa_receipt_id receipt))]) (uid 1) (clk 4)) (\<lambda>db3.
             Inr (receipt, db3)))))))))"

definition activate_prepared ::
  "store_env \<Rightarrow> clock_readings \<Rightarrow> fresh_ids \<Rightarrow> runtime_db \<Rightarrow> runtime_scope \<Rightarrow> pystr \<Rightarrow>
   boundary_ticket \<Rightarrow> pystr \<Rightarrow> (prepared_replacement \<Rightarrow> pystr \<Rightarrow> bool) option \<Rightarrow>
   rt_activation_receipt store_write"
where
  "activate_prepared E clk uid db scope pid ticket approval_digest validator = safe_db_call (
     if \<not> startswith approval_digest ''sha256:''
     then Inl (RuntimeStoreError ''activation approval rejected'')
     else let sd = scope_digest E scope in
     res_bind (load_row E db scope) (\<lambda>row.
     res_bind (load_prepared_db E NotUtc db scope pid True) (\<lambda>record'.
     res_bind (find_activation_replay E db scope record') (\<lambda>replay.
     case replay of
       Some receipt \<Rightarrow> Inr (receipt, db)
     | None \<Rightarrow>
         res_bind (expired E (clk 0) (pp_expires_at record')) (\<lambda>late.
         if late then Inl (RuntimeStoreError ''prepared record expired'')
         else
         res_bind (binding_digest E (pp_old_binding record')) (\<lambda>expected_old.
         case se_parse_binding E (sr_active_jcs row) of
           None \<Rightarrow> Inl PyValueError
         | Some active \<Rightarrow>
             res_bind (binding_digest E active) (\<lambda>current.
             if expected_old \<noteq> current
             then Inl (RuntimeStoreError ''prepared old binding mismatch'')
             else
             res_bind (check_ticket_db E (clk 1) db scope ticket row
                 (Some (pp_operation_id record')) (Some (pp_request_digest record'))) (\<lambda>_.
             if ab_generation (pp_new_binding record') \<noteq> sr_generation row + 1
             then Inl (GenerationMismatch ''prepared generation mismatch'')
             else
             res_bind (authorize_activation record' approval_digest validator) (\<lambda>_.
             commit_activation E clk uid db sd row record' ticket approval_digest)))))))))"

section \<open>Rollback\<close>

definition commit_rollback ::
  "store_env \<Rightarrow> clock_readings \<Rightarrow> fresh_ids \<Rightarrow> runtime_db \<Rightarrow> pystr \<Rightarrow> scope_row \<Rightarrow>
   rt_activation_receipt \<Rightarrow> boundary_ticket \<Rightarrow> rt_rollback_receipt store_write"
where
  "commit_rollback E clk uid db sd row source ticket =
    (let restored = (xa_old_binding source) \<lparr> ab_generation := sr_generation row + 1 \<rparr>;
         unsigned = \<lparr> xr_receipt_id = uid 0, xr_source_receipt_id = xa_receipt_id source,
           xr_scope_digest = sd, xr_operation_id = xa_operation_id source,
           xr_ticket_id = bt_ticket_id ticket, xr_request_digest = xa_request_digest source,
           xr_restored_binding = restored, xr_generation_before = sr_generation row,
           xr_generation_after = ab_generation restored, xr_applied = True,
           xr_signature = unsigned_digest \<rparr> in
     if \<not> rt_rollback_receipt_valid unsigned then Inl PyValueError
     else
     res_bind (receipt_signature E ROLLBACK (rt_rollback_unsigned unsigned)) (\<lambda>signature.
     let rb = unsigned \<lparr> xr_signature := signature \<rparr> in
     res_bind (swap_pointer E sd row restored (clk 1) ''rollback compare-and-swap failed'' db) (\<lambda>db1.
     res_bind (consume_ticket E ticket db1) (\<lambda>db2.
     res_bind (jcs E (rt_rollback_json rb)) (\<lambda>payload.
     case from_hex (removeprefix ''sha256:'' (xr_signature rb)) of
       None \<Rightarrow> Inl PyValueError
     | Some raw \<Rightarrow>
         res_bind (stamp E (clk 2)) (\<lambda>stamped.
         res_bind (insert_row ew_receipt_id
             \<lparr> ew_receipt_id = xr_receipt_id rb, ew_scope_digest = sd,
               ew_operation_id = xa_operation_id source, ew_kind = ROLLBACK,
               ew_request_digest = xa_request_digest source, ew_payload = payload,
               ew_signature = raw, ew_created_at = stamped \<rparr> (db_receipts db2)) (\<lambda>rows.
         res_bind (audit E (db2 \<lparr> db_receipts := rows \<rparr>) sd ''ROLLBACK''
             (JObj [(''receipt_id'', JStr (xr_receipt_id rb))]) (uid 1) (clk 3)) (\<lambda>db3.
         Inr (rb, db3)))))))))"

definition rollback_receipt ::
  "store_env \<Rightarrow> clock_readings \<Rightarrow> fresh_ids \<Rightarrow> runtime_db \<Rightarrow> runtime_scope \<Rightarrow> pystr \<Rightarrow>
   boundary_ticket \<Rightarrow> (rt_activation_receipt \<Rightarrow> bool) option \<Rightarrow> rt_rollback_receipt store_write"
where
  "rollback_receipt E clk uid db scope rid ticket validator = safe_db_call (
     let sd = scope_digest E scope in
     res_bind (load_row E db scope) (\<lambda>row.
     res_bind (load_receipt_db E db scope rid) (\<lambda>kr.
     case snd kr of
       RollbackR _ \<Rightarrow> Inl (RuntimeStoreError ''rollback receipt rejected'')
     | ActivationR source \<Rightarrow>
        (case operation_receipt db sd (xa_operation_id source) ROLLBACK of
           Some existing \<Rightarrow>
             res_bind (load_receipt_db E db scope (ew_receipt_id existing)) (\<lambda>kr'.
             case snd kr' of
               RollbackR rb \<Rightarrow> Inr (rb, db)
             | ActivationR _ \<Rightarrow> Inl (RuntimeStoreError ''rollback receipt rejected''))
         | None \<Rightarrow>
             if sr_generation row \<noteq> xa_generation_after source
             then Inl (GenerationMismatch ''rollback generation or binding mismatch'')
             else case se_parse_binding E (sr_active_jcs row) of
               None \<Rightarrow> Inl PyValueError
             | Some active \<Rightarrow>
                 res_bind (binding_digest E active) (\<lambda>current.
                 res_bind (binding_digest E (xa_new_binding source)) (\<lambda>expected.
                 if current \<noteq> expected
                 then Inl (GenerationMismatch ''rollback generation or binding mismatch'')
                 else
                 res_bind (check_ticket_db E (clk 0) db scope ticket row
                     (Some (xa_operation_id source)) (Some (xa_request_digest source))) (\<lambda>_.
                 case validator of
                   None \<Rightarrow> Inl (RuntimeStoreError ''rollback authority unavailable'')
                 | Some accepts \<Rightarrow>
                     if \<not> accepts source
                     then Inl (RuntimeStoreError ''rollback authorization rejected'')
                     else commit_rollback E clk uid db sd row source ticket)))))))"

end
