(* ===== verification/Store_Effects.thy ===== *)
theory Store_Effects
  imports Store_Receipts
begin

text \<open>
  What a successful store operation did: one elimination lemma per operation, with the
  guards that held and the tables afterwards. Every later proof about the store goes
  through these.
\<close>

lemma safe_db_call_Inr [simp, result_simps]: "safe_db_call r = Inr x \<longleftrightarrow> r = Inr x"
  by (auto simp: safe_db_call_def split: sum.splits store_error.splits)

lemma guard_Inr [result_simps]:
  "(if c then Inl e else r) = Inr x \<longleftrightarrow> \<not> c \<and> r = Inr x"
  "(if c then r else Inl e) = Inr x \<longleftrightarrow> c \<and> r = Inr x"
  "(case opt of None \<Rightarrow> Inl e | Some y \<Rightarrow> f y) = Inr x \<longleftrightarrow> (\<exists>y. opt = Some y \<and> f y = Inr x)"
  "(case opt of None \<Rightarrow> r | Some y \<Rightarrow> Inl (g y)) = Inr x \<longleftrightarrow> opt = None \<and> r = Inr x"
  by (auto split: option.splits)

lemma receipt_case_Inr [result_simps]:
  "(case r of ActivationR a \<Rightarrow> f a | RollbackR b \<Rightarrow> Inl (e b)) = Inr x \<longleftrightarrow>
     (\<exists>a. r = ActivationR a \<and> f a = Inr x)"
  "(case r of ActivationR a \<Rightarrow> Inl (e' a) | RollbackR b \<Rightarrow> g b) = Inr x \<longleftrightarrow>
     (\<exists>b. r = RollbackR b \<and> g b = Inr x)"
  by (auto split: runtime_receipt.splits)

lemma insert_row_Inr [result_simps]:
  "insert_row key r rows = Inr rows' \<longleftrightarrow> key r \<notin> key ` set rows \<and> rows' = rows @ [r]"
  by (auto simp: insert_row_def)

text \<open>An audit event changes the audit table only.\<close>

lemma audit_Inr:
  assumes "audit E db sd kind payload eid now = Inr db'"
  obtains row where "db' = db \<lparr> db_audit := db_audit db @ [row] \<rparr>"
    and "uw_event_id row = eid" and "uw_scope_digest row = sd" and "uw_event_kind row = kind"
    and "eid \<notin> uw_event_id ` set (db_audit db)"
  using assms unfolding audit_def by (auto simp: result_simps)

lemma load_row_Inr:
  assumes "load_row E db scope = Inr row"
  shows "find_scope db (scope_digest E scope) = Some row" and "verify_row E row = Inr ()"
    and "action_state_consistent db row" and "sr_scope_digest row = scope_digest E scope"
    and "row \<in> set (db_scopes db)"
  using assms unfolding load_row_def find_scope_def
  by (auto simp: result_simps find_Some_iff split: option.splits if_splits)

lemma verify_row_idle:
  assumes "verify_row E r = Inr ()" and "sr_action_state r \<noteq> RUNNING"
  shows "sr_current_operation_id r = None"
  using assms by (auto simp: verify_row_def split: option.splits if_splits)

lemma find_action_Some:
  assumes "find_action db sd op = Some a"
  shows "a \<in> set (db_actions db)" and "aw_scope_digest a = sd" and "aw_operation_id a = op"
  using assms by (auto simp: find_action_def find_Some_iff)

lemma find_action_None:
  "find_action db sd op = None \<longleftrightarrow>
     (sd, op) \<notin> (\<lambda>a. (aw_scope_digest a, aw_operation_id a)) ` set (db_actions db)"
  by (auto simp: find_action_def find_None_iff)

lemma not_running: "s \<noteq> RUNNING \<Longrightarrow> s \<noteq> UNCERTAIN \<Longrightarrow> s = IDLE"
  by (cases s) auto

lemma initialize_Inr:
  assumes "initialize E clk uid db scope binding prf = Inr (res, db')"
  obtains sig now event where "res = binding" and "ab_generation binding = 0"
    and "verify_bootstrap E scope binding prf = Inr ()"
    and "validate_binding E 1 scope binding = Inr ()"
    and "find_scope db (scope_digest E scope) = None"
    and "json_value_ok (active_binding_json binding)"
    and "state_signature E (scope_digest E scope) (se_dumps E (runtime_scope_json scope))
           (se_dumps E (active_binding_json binding)) 0 IDLE 0 None = Inr sig"
    and "db' = db \<lparr> db_scopes := db_scopes db @ [
           \<lparr> sr_scope_digest = scope_digest E scope,
             sr_scope_jcs = se_dumps E (runtime_scope_json scope),
             sr_active_jcs = se_dumps E (active_binding_json binding), sr_generation = 0,
             sr_action_state = IDLE, sr_action_epoch = 0, sr_current_operation_id = None,
             sr_state_signature = sig, sr_updated_at = now \<rparr>],
           db_audit := db_audit db @ [event] \<rparr>"
    and "uw_event_id event \<notin> uw_event_id ` set (db_audit db)"
    and "uw_event_id event = uid 0"
proof -
  have jcs: "jcs E v = Inr raw \<longleftrightarrow> json_value_ok v \<and> raw = se_dumps E v" for v raw
    by (auto simp: jcs_def canonical_json_bytes_def)
  show ?thesis
    using assms that unfolding initialize_def
    by (auto simp: result_simps Let_def jcs elim!: audit_Inr split: if_splits)
qed

lemma begin_action_Inr:
  assumes "begin_action E clk uid db scope op req = Inr (lease, db')"
  obtains
    (replay) row existing where "load_row E db scope = Inr row"
      and "find_action db (scope_digest E scope) op = Some existing"
      and "aw_request_digest existing = req" and "aw_state existing \<noteq> RUNNING"
      and "sr_action_state row = IDLE" and "db' = db"
      and "al_replayed lease" and "al_state lease = IDLE"
      and "al_outcome lease = aw_outcome existing"
      and "al_action_epoch lease = aw_action_epoch existing"
  | (fresh) row sig now asig event where "load_row E db scope = Inr row"
      and "find_action db (scope_digest E scope) op = None"
      and "sr_action_state row = IDLE" and "op \<noteq> []" and "is_digest req"
      and "state_signature E (scope_digest E scope) (sr_scope_jcs row) (sr_active_jcs row)
             (sr_generation row) RUNNING (sr_action_epoch row + 1) (Some op) = Inr sig"
      and "action_signature E (scope_digest E scope) op req (sr_action_epoch row + 1) RUNNING
             None None = Inr asig"
      and "db' = (update_scope (scope_digest E scope) (\<lambda>r. r \<lparr> sr_action_state := RUNNING,
             sr_action_epoch := sr_action_epoch row + 1, sr_current_operation_id := Some op,
             sr_state_signature := sig, sr_updated_at := now \<rparr>) db)
           \<lparr> db_actions := db_actions db @ [
             \<lparr> aw_scope_digest = scope_digest E scope, aw_operation_id = op,
               aw_request_digest = req, aw_action_epoch = sr_action_epoch row + 1,
               aw_state = RUNNING, aw_outcome_digest = None, aw_outcome = None,
               aw_action_signature = asig \<rparr>],
             db_audit := db_audit db @ [event] \<rparr>"
      and "lease = \<lparr> al_scope_digest = scope_digest E scope, al_operation_id = op,
             al_request_digest = req, al_action_epoch = sr_action_epoch row + 1,
             al_state = RUNNING, al_replayed = False, al_outcome_digest = None, al_outcome = None \<rparr>"
      and "uw_event_id event \<notin> uw_event_id ` set (db_audit db)"
      and "uw_event_id event = uid 0"
proof (cases "find_action db (scope_digest E scope) op")
  case None
  from assms None show ?thesis
    unfolding begin_action_def Let_def
    apply (clarsimp simp: result_simps split: if_splits)
    apply (erule audit_Inr)
    apply (rule fresh)
    apply (assumption | rule refl | simp add: update_scope_def not_running)+
    done
next
  case (Some existing)
  from assms Some show ?thesis
    unfolding begin_action_def Let_def
    by (clarsimp simp: result_simps split: if_splits) (rule replay, auto)
qed

lemma end_action_Inr:
  assumes "end_action E clk uid db scope lease uncertain outcome = Inr (res, db')"
  obtains row action sig now asig event where "load_row E db scope = Inr row"
    and "find_action db (scope_digest E scope) (al_operation_id lease) = Some action"
    and "sr_action_state row = RUNNING"
    and "sr_current_operation_id row = Some (al_operation_id lease)"
    and "sr_action_epoch row = al_action_epoch lease" and "aw_state action = RUNNING"
    and "aw_action_epoch action = al_action_epoch lease"
    and "aw_request_digest action = al_request_digest lease"
    and "state_signature E (scope_digest E scope) (sr_scope_jcs row) (sr_active_jcs row)
           (sr_generation row) (if uncertain then UNCERTAIN else IDLE) (sr_action_epoch row) None
         = Inr sig"
    and "action_signature E (scope_digest E scope) (al_operation_id lease)
           (al_request_digest lease) (al_action_epoch lease) (if uncertain then UNCERTAIN else IDLE)
           (Some (digest_bytes E outcome)) (Some outcome) = Inr asig"
    and "db' = (update_action (scope_digest E scope) (al_operation_id lease)
           (\<lambda>a. a \<lparr> aw_state := (if uncertain then UNCERTAIN else IDLE),
              aw_outcome_digest := Some (digest_bytes E outcome), aw_outcome := Some outcome,
              aw_action_signature := asig \<rparr>)
           (update_scope (scope_digest E scope)
             (\<lambda>r. r \<lparr> sr_action_state := (if uncertain then UNCERTAIN else IDLE),
                sr_current_operation_id := None, sr_state_signature := sig,
                sr_updated_at := now \<rparr>) db)) \<lparr> db_audit := db_audit db @ [event] \<rparr>"
    and "uw_event_id event \<notin> uw_event_id ` set (db_audit db)"
    and "uw_event_id event = uid 0"
proof (cases "al_scope_digest lease = scope_digest E scope")
  case True
  from assms show ?thesis
    unfolding end_action_def Let_def True
    apply (clarsimp simp: result_simps)
    apply (erule audit_Inr)
    apply (rule that)
    apply (assumption | rule refl | simp add: update_scope_def update_action_def)+
    done
qed (use assms in \<open>simp add: end_action_def\<close>)

lemma reconcile_Inr:
  assumes "reconcile E clk uid db scope prf = Inr (res, db')"
  obtains row action sig now asig event where "load_row E db scope = Inr row"
    and "sign_text E ''ccs-m5-runtime-reconcile/1'' (reconciliation_payload prf) =
         Inr (cp_signature prf)"
    and "cp_scope_digest prf = scope_digest E scope"
    and "find_action db (scope_digest E scope) (cp_operation_id prf) = Some action"
    and "sr_action_state row = UNCERTAIN" and "aw_state action = UNCERTAIN"
    and "aw_action_epoch action = cp_action_epoch prf"
    and "state_signature E (scope_digest E scope) (sr_scope_jcs row) (sr_active_jcs row)
           (sr_generation row) IDLE (sr_action_epoch row) None = Inr sig"
    and "action_signature E (scope_digest E scope) (cp_operation_id prf)
           (aw_request_digest action) (aw_action_epoch action) IDLE
           (aw_outcome_digest action) (aw_outcome action) = Inr asig"
    and "db' = (update_action (scope_digest E scope) (cp_operation_id prf)
           (\<lambda>a. a \<lparr> aw_state := IDLE, aw_action_signature := asig \<rparr>)
           (update_scope (scope_digest E scope)
             (\<lambda>r. r \<lparr> sr_action_state := IDLE, sr_current_operation_id := None,
                sr_state_signature := sig, sr_updated_at := now \<rparr>) db))
           \<lparr> db_audit := db_audit db @ [event] \<rparr>"
    and "uw_event_id event \<notin> uw_event_id ` set (db_audit db)"
proof -
  from assms show ?thesis
  unfolding reconcile_def Let_def
  apply (clarsimp simp: result_simps)
  apply (erule audit_Inr)
  apply (rule that)
  apply (assumption | rule refl | simp add: update_scope_def update_action_def)+
  done
qed

lemma reserve_boundary_Inr:
  assumes "reserve_boundary E clk uid db scope op g ttl = Inr (ticket, db')"
  obtains row action stored event where "load_row E db scope = Inr row"
    and "db' = db \<lparr> db_tickets := db_tickets db @ [stored], db_audit := db_audit db @ [event] \<rparr>"
    and "sr_action_state row = IDLE" and "sr_generation row = g"
    and "find_action db (scope_digest E scope) op = Some action" and "aw_state action = IDLE"
    and "aw_action_epoch action = sr_action_epoch row"
    and "bt_ticket_id ticket = uid 0" and "bt_scope_digest ticket = scope_digest E scope"
    and "bt_expected_generation ticket = g" and "bt_action_epoch ticket = sr_action_epoch row"
    and "bt_operation_id ticket = op" and "ticket_signature E ticket = Inr (bt_signature ticket)"
    and "ticket_record_signature E ticket False = Inr (tw_record_signature stored)"
    and "tw_ticket_id stored = uid 0" and "\<not> tw_consumed stored"
    and "tw_ticket_id stored \<notin> tw_ticket_id ` set (db_tickets db)"
    and "uw_event_id event \<notin> uw_event_id ` set (db_audit db)"
    and "0 < ttl" and "stamp E (clock_plus (clk 0) ttl) = Inr (bt_expires_at ticket)"
    and "tw_scope_digest stored = bt_scope_digest ticket"
    and "tw_expected_generation stored = g" and "tw_action_epoch stored = sr_action_epoch row"
    and "tw_operation_id stored = op" and "tw_expires_at stored = bt_expires_at ticket"
    and "from_hex (removeprefix ''sha256:'' (bt_signature ticket)) = Some (tw_signature stored)"
    and "uw_event_id event = uid 1"
proof -
  from assms show ?thesis
    unfolding reserve_boundary_def Let_def
    apply (clarsimp simp: result_simps)
    apply (erule audit_Inr)
    apply clarsimp
    apply (rule that)
    apply (assumption | rule refl | simp add: not_running ticket_signature_def
      ticket_record_signature_def ticket_fields_def)+
    done
qed

text \<open>A ticket passes the check only if it is authentic, open, unexpired, and matches the
  current generation and epoch of an idle scope.\<close>

lemma check_ticket_Inr:
  assumes "check_ticket_db E now db scope ticket row eop ereq = Inr ()"
  obtains stored action where
    "find (\<lambda>t. tw_ticket_id t = bt_ticket_id ticket) (db_tickets db) = Some stored"
    and "\<not> tw_consumed stored" and "bt_scope_digest ticket = scope_digest E scope"
    and "ticket_signature E ticket = Inr (bt_signature ticket)"
    and "ticket_record_signature E ticket False = Inr (tw_record_signature stored)"
    and "expired E now (bt_expires_at ticket) = Inr False"
    and "sr_action_state row = IDLE" and "sr_generation row = bt_expected_generation ticket"
    and "sr_action_epoch row = bt_action_epoch ticket"
    and "find_action db (scope_digest E scope) (bt_operation_id ticket) = Some action"
    and "aw_state action = IDLE" and "aw_action_epoch action = bt_action_epoch ticket"
    and "\<And>op. eop = Some op \<Longrightarrow> bt_operation_id ticket = op"
    and "\<And>req. ereq = Some req \<Longrightarrow> aw_request_digest action = req"
proof -
  from assms show ?thesis
  unfolding check_ticket_db_def Let_def
  apply (clarsimp simp: result_simps)
  apply (rule that)
  apply (assumption | rule refl | simp | (clarsimp split: option.splits))+
  done
qed

lemma consume_ticket_Inr:
  assumes "consume_ticket E ticket db = Inr db'"
  obtains closed_sig open_sig where
    "ticket_record_signature E ticket True = Inr closed_sig"
    and "ticket_record_signature E ticket False = Inr open_sig"
    and "length (filter (\<lambda>t. tw_ticket_id t = bt_ticket_id ticket \<and> \<not> tw_consumed t \<and>
           tw_record_signature t = open_sig) (db_tickets db)) = 1"
    and "db' = db \<lparr> db_tickets := map (\<lambda>t. if tw_ticket_id t = bt_ticket_id ticket \<and>
           \<not> tw_consumed t \<and> tw_record_signature t = open_sig
           then t \<lparr> tw_consumed := True, tw_record_signature := closed_sig \<rparr> else t)
           (db_tickets db) \<rparr>"
proof -
  from assms show ?thesis
  unfolding consume_ticket_def Let_def
  by (clarsimp simp: result_simps) (rule that, simp_all)
qed

lemma consume_boundary_Inr:
  assumes "consume_boundary E clk uid db scope ticket = Inr (res, db')"
  obtains row db1 event where "load_row E db scope = Inr row"
    and "check_ticket_db E (clk 0) db scope ticket row None None = Inr ()"
    and "consume_ticket E ticket db = Inr db1"
    and "db' = db1 \<lparr> db_audit := db_audit db1 @ [event] \<rparr>" and "res = ticket"
    and "uw_event_id event \<notin> uw_event_id ` set (db_audit db1)"
proof -
  from assms show ?thesis
  unfolding consume_boundary_def Let_def
  apply (clarsimp simp: result_simps)
  apply (erule audit_Inr)
  apply (rule that)
  apply (assumption | rule refl | simp)+
  done
qed

lemma jcs_Inr [result_simps]: "jcs E v = Inr raw \<longleftrightarrow> json_value_ok v \<and> raw = se_dumps E v"
  by (auto simp: jcs_def canonical_json_bytes_def)

lemma save_prepared_Inr:
  assumes "save_prepared E db prep = Inr (res, db')"
  obtains stored where "db' = db \<lparr> db_prepared := db_prepared db @ [stored] \<rparr>"
    and "pw_prepared_id stored = pp_prepared_id prep"
    and "pw_scope_digest stored = pp_scope_digest prep"
    and "pw_payload stored = se_dumps E (prepared_replacement_json prep)"
    and "json_value_ok (prepared_replacement_json prep)"
    and "pw_digest stored = digest_bytes E (pw_payload stored)"
    and "prepared_signature E (pp_prepared_id prep) (pp_scope_digest prep)
           (pp_operation_id prep) (pp_expires_at prep) (pw_digest stored) = Inr (pw_signature stored)"
    and "pw_prepared_id stored \<notin> pw_prepared_id ` set (db_prepared db)"
    and "find_scope db (pp_scope_digest prep) \<noteq> None"
proof -
  have ins: "(case insert_row k r rows of Inl _ \<Rightarrow> Inl e | Inr y \<Rightarrow> Inr (f y)) = Inr x \<longleftrightarrow>
      k r \<notin> k ` set rows \<and> x = f (rows @ [r])" for k r rows e f x
    by (auto simp: insert_row_def)
  from assms show ?thesis
    unfolding save_prepared_def Let_def
    apply (clarsimp simp: result_simps ins)
    apply (rule that)
    apply (assumption | rule refl | simp)+
    done
qed

lemma find_SomeD: "find P xs = Some x \<Longrightarrow> x \<in> set xs \<and> P x"
  by (auto simp: find_Some_iff)

lemma load_prepared_Inr:
  assumes "load_prepared_db E now db scope pid late = Inr prep"
  obtains stored where "stored \<in> set (db_prepared db)"
    and "se_parse_prepared E (pw_payload stored) = Some prep"
    and "pp_scope_digest prep = scope_digest E scope" and "pp_prepared_id prep = pid"
  using assms unfolding load_prepared_db_def Let_def
  by (auto simp: result_simps dest!: find_SomeD split: if_splits)

lemma swap_pointer_Inr:
  assumes "swap_pointer E sd row binding now failure db = Inr db'"
  obtains sig stamped where "json_value_ok (active_binding_json binding)"
    and "state_signature E sd (sr_scope_jcs row) (se_dumps E (active_binding_json binding))
           (ab_generation binding) IDLE (sr_action_epoch row) None = Inr sig"
    and "db' = db \<lparr> db_scopes := map (\<lambda>r. if sr_scope_digest r = sd \<and>
           sr_generation r = sr_generation row
           then r \<lparr> sr_active_jcs := se_dumps E (active_binding_json binding),
                    sr_generation := ab_generation binding, sr_state_signature := sig,
                    sr_updated_at := stamped \<rparr> else r) (db_scopes db) \<rparr>"
proof -
  from assms show ?thesis
  unfolding swap_pointer_def Let_def
  by (clarsimp simp: result_simps) (rule that, simp_all)
qed

lemma commit_activation_Inr:
  assumes "commit_activation E clk uid db sd row prep ticket approval = Inr (receipt, db')"
  obtains old db1 db2 stored event where
    "se_parse_binding E (sr_active_jcs row) = Some old"
    and "swap_pointer E sd row (pp_new_binding prep) (clk 2)
           ''activation compare-and-swap failed'' db = Inr db1"
    and "consume_ticket E ticket db1 = Inr db2"
    and "db' = db2 \<lparr> db_receipts := db_receipts db2 @ [stored], db_audit := db_audit db2 @ [event] \<rparr>"
    and "ew_receipt_id stored \<notin> ew_receipt_id ` set (db_receipts db2)"
    and "ew_receipt_id stored = xa_receipt_id receipt" and "ew_scope_digest stored = sd"
    and "ew_operation_id stored = pp_operation_id prep" and "ew_kind stored = ACTIVATE"
    and "ew_request_digest stored = pp_request_digest prep"
    and "ew_payload stored = se_dumps E (rt_activation_json receipt)"
    and "json_value_ok (rt_activation_json receipt)"
    and "receipt_signature E ACTIVATE (rt_activation_unsigned receipt) = Inr (xa_signature receipt)"
    and "from_hex (removeprefix ''sha256:'' (xa_signature receipt)) = Some (ew_signature stored)"
    and "rt_activation_receipt_valid (receipt \<lparr> xa_signature := unsigned_digest \<rparr>)"
    and "xa_scope_digest receipt = sd" and "xa_operation_id receipt = pp_operation_id prep"
    and "xa_prepared_id receipt = pp_prepared_id prep"
    and "xa_ticket_id receipt = bt_ticket_id ticket"
    and "xa_request_digest receipt = pp_request_digest prep" and "xa_old_binding receipt = old"
    and "xa_new_binding receipt = pp_new_binding prep"
    and "xa_generation_before receipt = sr_generation row"
    and "xa_generation_after receipt = ab_generation (pp_new_binding prep)"
    and "uw_event_id event \<notin> uw_event_id ` set (db_audit db2)"
    and "xa_receipt_id receipt = uid 0"
    and "uw_event_id event = uid 1"
    and "xa_approval_digest receipt = approval"
proof -
  from assms show ?thesis
  unfolding commit_activation_def Let_def
  apply (clarsimp simp: result_simps)
  apply (erule audit_Inr)
  apply clarsimp
  apply (rule that)
  apply (assumption | rule refl | simp add: rt_activation_unsigned_def)+
  done
qed

lemma activate_prepared_Inr:
  assumes "activate_prepared E clk uid db scope pid ticket approval validator = Inr (receipt, db')"
  obtains
    (replay) row prep where "load_row E db scope = Inr row"
      and "load_prepared_db E NotUtc db scope pid True = Inr prep"
      and "find_activation_replay E db scope prep = Inr (Some receipt)" and "db' = db"
  | (fresh) row prep active accepts where "load_row E db scope = Inr row"
      and "load_prepared_db E NotUtc db scope pid True = Inr prep"
      and "find_activation_replay E db scope prep = Inr None"
      and "expired E (clk 0) (pp_expires_at prep) = Inr False"
      and "se_parse_binding E (sr_active_jcs row) = Some active"
      and "binding_digest E (pp_old_binding prep) = binding_digest E active"
      and "check_ticket_db E (clk 1) db scope ticket row (Some (pp_operation_id prep))
             (Some (pp_request_digest prep)) = Inr ()"
      and "ab_generation (pp_new_binding prep) = sr_generation row + 1"
      and "validator = Some accepts" and "accepts prep approval"
      and "commit_activation E clk uid db (scope_digest E scope) row prep ticket approval =
           Inr (receipt, db')"
proof -
  from assms show ?thesis
  unfolding activate_prepared_def Let_def
  apply (clarsimp simp: result_simps)
  apply (clarsimp simp: result_simps authorize_activation_def split: option.split_asm)
   apply (rule fresh)
             apply (assumption | simp)+
  apply (rule replay)
     apply simp+
  done
qed

lemma commit_rollback_Inr:
  assumes "commit_rollback E clk uid db sd row source ticket = Inr (rb, db')"
  obtains db1 db2 stored event where
    "swap_pointer E sd row ((xa_old_binding source) \<lparr> ab_generation := sr_generation row + 1 \<rparr>)
       (clk 1) ''rollback compare-and-swap failed'' db = Inr db1"
    and "consume_ticket E ticket db1 = Inr db2"
    and "db' = db2 \<lparr> db_receipts := db_receipts db2 @ [stored], db_audit := db_audit db2 @ [event] \<rparr>"
    and "ew_receipt_id stored \<notin> ew_receipt_id ` set (db_receipts db2)"
    and "ew_receipt_id stored = xr_receipt_id rb" and "ew_scope_digest stored = sd"
    and "ew_operation_id stored = xa_operation_id source" and "ew_kind stored = ROLLBACK"
    and "ew_request_digest stored = xa_request_digest source"
    and "ew_payload stored = se_dumps E (rt_rollback_json rb)"
    and "json_value_ok (rt_rollback_json rb)"
    and "receipt_signature E ROLLBACK (rt_rollback_unsigned rb) = Inr (xr_signature rb)"
    and "from_hex (removeprefix ''sha256:'' (xr_signature rb)) = Some (ew_signature stored)"
    and "rt_rollback_receipt_valid (rb \<lparr> xr_signature := unsigned_digest \<rparr>)"
    and "xr_scope_digest rb = sd" and "xr_operation_id rb = xa_operation_id source"
    and "xr_source_receipt_id rb = xa_receipt_id source"
    and "xr_request_digest rb = xa_request_digest source"
    and "xr_restored_binding rb =
           (xa_old_binding source) \<lparr> ab_generation := sr_generation row + 1 \<rparr>"
    and "xr_generation_before rb = sr_generation row"
    and "xr_generation_after rb = sr_generation row + 1"
    and "uw_event_id event \<notin> uw_event_id ` set (db_audit db2)"
proof -
  from assms show ?thesis
  unfolding commit_rollback_def Let_def
  apply (clarsimp simp: result_simps)
  apply (erule audit_Inr)
  apply clarsimp
  apply (rule that)
  apply (assumption | rule refl | simp add: rt_rollback_unsigned_def)+
  done
qed

lemma rollback_receipt_Inr:
  assumes "rollback_receipt E clk uid db scope rid ticket validator = Inr (rb, db')"
  obtains
    (replay) row kind source existing kind' where "load_row E db scope = Inr row"
      and "load_receipt_db E db scope rid = Inr (kind, ActivationR source)"
      and "operation_receipt db (scope_digest E scope) (xa_operation_id source) ROLLBACK =
           Some existing"
      and "load_receipt_db E db scope (ew_receipt_id existing) = Inr (kind', RollbackR rb)"
      and "db' = db"
  | (fresh) row kind source active accepts where "load_row E db scope = Inr row"
      and "load_receipt_db E db scope rid = Inr (kind, ActivationR source)"
      and "operation_receipt db (scope_digest E scope) (xa_operation_id source) ROLLBACK = None"
      and "sr_generation row = xa_generation_after source"
      and "se_parse_binding E (sr_active_jcs row) = Some active"
      and "binding_digest E active = binding_digest E (xa_new_binding source)"
      and "check_ticket_db E (clk 0) db scope ticket row (Some (xa_operation_id source))
             (Some (xa_request_digest source)) = Inr ()"
      and "validator = Some accepts" and "accepts source"
      and "commit_rollback E clk uid db (scope_digest E scope) row source ticket = Inr (rb, db')"
proof -
  from assms show ?thesis
  unfolding rollback_receipt_def Let_def
  apply (clarsimp simp: result_simps)
  subgoal for row kind source
    apply (cases "operation_receipt db (scope_digest E scope) (xa_operation_id source) ROLLBACK")
     apply (clarsimp simp: result_simps)
     apply (rule fresh)
              apply (assumption | simp)+
    apply (clarsimp simp: result_simps)
    apply (rule replay)
        apply simp+
    done
  done
qed

end
