(* ===== verification/Store_Machine.thy ===== *)
theory Store_Machine
  imports Store_Effects
begin

text \<open>
  The store as a state machine. \<open>store_step E db sd db'\<close> says that some operation on the
  scope with digest \<open>sd\<close> committed and took \<open>db\<close> to \<open>db'\<close>, whatever its arguments, clock
  readings and fresh identifiers (arguments of model types are valid, as pydantic
  guarantees). Read-only operations and failed ones leave the database alone and have
  no rule.

  The abstract machine \<open>lock_step\<close> is what the store promises about one scope: an action
  lock with an epoch, an uncertain state that only reconciliation leaves, and a
  generation that advances by one when an idle scope swaps its binding.
\<close>

inductive store_step :: "store_env \<Rightarrow> runtime_db \<Rightarrow> pystr \<Rightarrow> runtime_db \<Rightarrow> bool" for E where
  step_initialize: "runtime_scope_valid scope \<Longrightarrow> active_binding_valid binding \<Longrightarrow>
     initialize E clk uid db scope binding prf = Inr (res, db') \<Longrightarrow>
     store_step E db (scope_digest E scope) db'"
| step_begin: "runtime_scope_valid scope \<Longrightarrow>
     begin_action E clk uid db scope op req = Inr (lease, db') \<Longrightarrow>
     store_step E db (scope_digest E scope) db'"
| step_end: "runtime_scope_valid scope \<Longrightarrow>
     end_action E clk uid db scope lease uncertain outcome = Inr (u, db') \<Longrightarrow>
     store_step E db (scope_digest E scope) db'"
| step_reconcile: "runtime_scope_valid scope \<Longrightarrow>
     reconcile E clk uid db scope rprf = Inr (u, db') \<Longrightarrow>
     store_step E db (scope_digest E scope) db'"
| step_reserve: "runtime_scope_valid scope \<Longrightarrow>
     reserve_boundary E clk uid db scope op g ttl = Inr (ticket, db') \<Longrightarrow>
     store_step E db (scope_digest E scope) db'"
| step_consume: "runtime_scope_valid scope \<Longrightarrow>
     consume_boundary E clk uid db scope ticket = Inr (ticket', db') \<Longrightarrow>
     store_step E db (scope_digest E scope) db'"
| step_save: "prepared_replacement_valid prep \<Longrightarrow>
     save_prepared E db prep = Inr (u, db') \<Longrightarrow>
     store_step E db (pp_scope_digest prep) db'"
| step_activate: "runtime_scope_valid scope \<Longrightarrow>
     activate_prepared E clk uid db scope pid ticket approval validator = Inr (receipt, db') \<Longrightarrow>
     store_step E db (scope_digest E scope) db'"
| step_rollback: "runtime_scope_valid scope \<Longrightarrow>
     rollback_receipt E clk uid db scope rid ticket rvalidator = Inr (rb, db') \<Longrightarrow>
     store_step E db (scope_digest E scope) db'"

inductive store_reachable :: "store_env \<Rightarrow> runtime_db \<Rightarrow> bool" for E where
  reach_empty: "store_reachable E empty_db"
| reach_step: "store_reachable E db \<Longrightarrow> store_step E db sd db' \<Longrightarrow> store_reachable E db'"

section \<open>The abstract lock\<close>

record scope_view =
  sv_generation :: int
  sv_state :: action_state
  sv_epoch :: int
  sv_current :: "pystr option"

inductive lock_step :: "scope_view option \<Rightarrow> scope_view option \<Rightarrow> bool" where
  lock_init: "lock_step None (Some \<lparr> sv_generation = 0, sv_state = IDLE, sv_epoch = 0,
     sv_current = None \<rparr>)"
| lock_begin: "op \<noteq> [] \<Longrightarrow>
     lock_step (Some \<lparr> sv_generation = g, sv_state = IDLE, sv_epoch = n, sv_current = None \<rparr>)
       (Some \<lparr> sv_generation = g, sv_state = RUNNING, sv_epoch = n + 1, sv_current = Some op \<rparr>)"
| lock_end: "s \<noteq> RUNNING \<Longrightarrow>
     lock_step (Some \<lparr> sv_generation = g, sv_state = RUNNING, sv_epoch = n, sv_current = Some op \<rparr>)
       (Some \<lparr> sv_generation = g, sv_state = s, sv_epoch = n, sv_current = None \<rparr>)"
| lock_reconcile:
    "lock_step (Some \<lparr> sv_generation = g, sv_state = UNCERTAIN, sv_epoch = n, sv_current = None \<rparr>)
       (Some \<lparr> sv_generation = g, sv_state = IDLE, sv_epoch = n, sv_current = None \<rparr>)"
| lock_swap:
    "lock_step (Some \<lparr> sv_generation = g, sv_state = IDLE, sv_epoch = n, sv_current = None \<rparr>)
       (Some \<lparr> sv_generation = g + 1, sv_state = IDLE, sv_epoch = n, sv_current = None \<rparr>)"

inductive_cases lock_stepE: "lock_step v w"

definition scope_view_of :: "scope_row \<Rightarrow> scope_view" where
  "scope_view_of r = \<lparr> sv_generation = sr_generation r, sv_state = sr_action_state r,
     sv_epoch = sr_action_epoch r, sv_current = sr_current_operation_id r \<rparr>"

definition view_of :: "runtime_db \<Rightarrow> pystr \<Rightarrow> scope_view option" where
  "view_of db sd = map_option scope_view_of (find_scope db sd)"

section \<open>Looking up rows after updates\<close>

lemma find_map_update:
  assumes "\<And>r. key (f r) = key r"
  shows "find (\<lambda>r. key r = k) (map f xs) = map_option f (find (\<lambda>r. key r = k) xs)"
  using assms by (induction xs) auto

lemma find_scope_update [row_simps]:
  assumes "\<And>r. sr_scope_digest (f r) = sr_scope_digest r"
  shows "find_scope (update_scope sd f db) sd' =
    (if sd' = sd then map_option f (find_scope db sd') else find_scope db sd')"
proof -
  let ?g = "\<lambda>r. if sr_scope_digest r = sd then f r else r"
  have "find_scope (update_scope sd f db) sd' = map_option ?g (find_scope db sd')"
    unfolding find_scope_def update_scope_def using assms
    by (simp add: find_map_update [of sr_scope_digest ?g])
  also have "map_option ?g (find_scope db sd') =
      (if sd' = sd then map_option f (find_scope db sd') else find_scope db sd')"
    by (cases "find_scope db sd'") (auto simp: find_scope_def dest: find_SomeD)
  finally show ?thesis .
qed

lemma find_scope_digest: "find_scope db sd = Some r \<Longrightarrow> sr_scope_digest r = sd \<and> r \<in> set (db_scopes db)"
  by (auto simp: find_scope_def dest: find_SomeD)

lemma find_scope_cong:
  "db_scopes db = db_scopes db' \<Longrightarrow> find_scope db = find_scope db'"
  by (simp add: find_scope_def fun_eq_iff)

lemma find_scope_irrelevant [row_simps]:
  "find_scope (db \<lparr> db_actions := as \<rparr>) = find_scope db"
  "find_scope (db \<lparr> db_tickets := ts \<rparr>) = find_scope db"
  "find_scope (db \<lparr> db_prepared := ps \<rparr>) = find_scope db"
  "find_scope (db \<lparr> db_receipts := rs \<rparr>) = find_scope db"
  "find_scope (db \<lparr> db_audit := es \<rparr>) = find_scope db"
  "find_scope (update_action sd op f db) = find_scope db"
  by (simp_all add: find_scope_def fun_eq_iff update_action_def)

lemma find_scope_insert [row_simps]:
  "find_scope db sd = None \<Longrightarrow> sr_scope_digest r = sd \<Longrightarrow>
     find_scope (db \<lparr> db_scopes := db_scopes db @ [r] \<rparr>) sd' =
       (if sd' = sd then Some r else find_scope db sd')"
proof -
  have "find P (xs @ [r]) = (case find P xs of None \<Rightarrow> if P r then Some r else None | Some x \<Rightarrow> Some x)"
    for P and xs :: "scope_row list"
    by (induction xs) auto
  then show "find_scope db sd = None \<Longrightarrow> sr_scope_digest r = sd \<Longrightarrow>
     find_scope (db \<lparr> db_scopes := db_scopes db @ [r] \<rparr>) sd' =
       (if sd' = sd then Some r else find_scope db sd')"
    by (auto simp: find_scope_def split: option.splits)
qed

text \<open>The pointer swap as a scope update: the row it selects is the one that was loaded.\<close>

lemma find_scope_swap:
  assumes "swap_pointer E sd row binding now failure db = Inr db'" and "find_scope db sd = Some row"
  obtains sig stamped where
    "find_scope db' sd = Some (row \<lparr> sr_active_jcs := se_dumps E (active_binding_json binding),
        sr_generation := ab_generation binding, sr_state_signature := sig, sr_updated_at := stamped \<rparr>)"
    and "state_signature E sd (sr_scope_jcs row) (se_dumps E (active_binding_json binding))
           (ab_generation binding) IDLE (sr_action_epoch row) None = Inr sig"
    and "\<And>sd'. sd' \<noteq> sd \<Longrightarrow> find_scope db' sd' = find_scope db sd'"
  using assms(1)
proof (rule swap_pointer_Inr)
  fix sig stamped
  let ?f = "\<lambda>r. if sr_scope_digest r = sd \<and> sr_generation r = sr_generation row
     then r \<lparr> sr_active_jcs := se_dumps E (active_binding_json binding),
              sr_generation := ab_generation binding, sr_state_signature := sig,
              sr_updated_at := stamped \<rparr> else r"
  assume db': "db' = db \<lparr> db_scopes := map ?f (db_scopes db) \<rparr>"
    and sig: "state_signature E sd (sr_scope_jcs row) (se_dumps E (active_binding_json binding))
           (ab_generation binding) IDLE (sr_action_epoch row) None = Inr sig"
  have map: "find_scope db' sd' = map_option ?f (find_scope db sd')" for sd'
    unfolding find_scope_def db' by (simp add: find_map_update [of sr_scope_digest ?f])
  have "sr_scope_digest row = sd" using assms(2) by (auto simp: find_scope_def dest: find_SomeD)
  then have "find_scope db' sd = Some (row \<lparr> sr_active_jcs := se_dumps E (active_binding_json binding),
        sr_generation := ab_generation binding, sr_state_signature := sig, sr_updated_at := stamped \<rparr>)"
    by (simp add: map assms(2))
  moreover have "find_scope db' sd' = find_scope db sd'" if "sd' \<noteq> sd" for sd'
    using that by (cases "find_scope db sd'") (auto simp: map dest: find_scope_digest)
  ultimately show thesis using sig that by blast
qed

lemma consume_ticket_scopes:
  "consume_ticket E ticket db = Inr db' \<Longrightarrow> db_scopes db' = db_scopes db \<and>
     db_actions db' = db_actions db \<and> db_receipts db' = db_receipts db \<and>
     db_prepared db' = db_prepared db \<and> db_audit db' = db_audit db"
  by (auto elim: consume_ticket_Inr)

lemma swap_pointer_tables:
  "swap_pointer E sd row binding now failure db = Inr db' \<Longrightarrow> db_actions db' = db_actions db \<and>
     db_tickets db' = db_tickets db \<and> db_receipts db' = db_receipts db \<and>
     db_prepared db' = db_prepared db \<and> db_audit db' = db_audit db"
  by (auto elim: swap_pointer_Inr)

section \<open>Every committed operation is a lock step\<close>

lemma loaded_view:
  assumes "load_row E db scope = Inr row"
  shows "view_of db (scope_digest E scope) = Some (scope_view_of row)"
  using load_row_Inr(1) [OF assms] by (simp add: view_of_def)

lemma idle_view:
  assumes "load_row E db scope = Inr row" and "sr_action_state row = IDLE"
  shows "scope_view_of row = \<lparr> sv_generation = sr_generation row, sv_state = IDLE,
    sv_epoch = sr_action_epoch row, sv_current = None \<rparr>"
  using verify_row_idle [OF load_row_Inr(2) [OF assms(1)]] assms(2) by (simp add: scope_view_of_def)

definition refines_lock :: "runtime_db \<Rightarrow> pystr \<Rightarrow> runtime_db \<Rightarrow> bool" where
  "refines_lock db sd db' \<longleftrightarrow>
     (view_of db' sd = view_of db sd \<or> lock_step (view_of db sd) (view_of db' sd)) \<and>
     (\<forall>sd'. sd' \<noteq> sd \<longrightarrow> find_scope db' sd' = find_scope db sd')"

lemma refines_lock_stutter: "db_scopes db' = db_scopes db \<Longrightarrow> refines_lock db sd db'"
  by (simp add: refines_lock_def view_of_def find_scope_def)

lemma refines_initialize:
  assumes "initialize E clk uid db scope binding prf = Inr (res, db')"
  shows "refines_lock db (scope_digest E scope) db'"
  using assms
proof (rule initialize_Inr)
  fix sig now event
  assume none: "find_scope db (scope_digest E scope) = None"
    and db': "db' = db \<lparr> db_scopes := db_scopes db @ [
           \<lparr> sr_scope_digest = scope_digest E scope,
             sr_scope_jcs = se_dumps E (runtime_scope_json scope),
             sr_active_jcs = se_dumps E (active_binding_json binding), sr_generation = 0,
             sr_action_state = IDLE, sr_action_epoch = 0, sr_current_operation_id = None,
             sr_state_signature = sig, sr_updated_at = now \<rparr>],
           db_audit := db_audit db @ [event] \<rparr>"
  have "lock_step (view_of db (scope_digest E scope)) (view_of db' (scope_digest E scope))"
    using none by (simp add: db' view_of_def row_simps scope_view_of_def lock_init)
  moreover have "find_scope db' sd' = find_scope db sd'" if "sd' \<noteq> scope_digest E scope" for sd'
    using that none by (simp add: db' row_simps)
  ultimately show ?thesis by (simp add: refines_lock_def)
qed

lemma refines_begin:
  assumes "begin_action E clk uid db scope op req = Inr (lease, db')"
  shows "refines_lock db (scope_digest E scope) db'"
  using assms
proof (cases rule: begin_action_Inr)
  case (fresh row sig now asig event)
  note view = loaded_view [OF fresh(1)] idle_view [OF fresh(1,3)]
  have "lock_step (view_of db (scope_digest E scope)) (view_of db' (scope_digest E scope))"
    using lock_begin [OF fresh(4), of "sr_generation row" "sr_action_epoch row"]
      load_row_Inr(1) [OF fresh(1)]
    unfolding view by (simp add: fresh(8) view_of_def row_simps scope_view_of_def)
  then show ?thesis by (simp add: refines_lock_def fresh(8) row_simps)
qed (simp add: refines_lock_stutter)

lemma refines_end:
  assumes "end_action E clk uid db scope lease uncertain outcome = Inr (u, db')"
  shows "refines_lock db (scope_digest E scope) db'"
  using assms
proof (cases rule: end_action_Inr)
  case (1 row action sig now asig event)
  have view: "view_of db (scope_digest E scope) = Some \<lparr> sv_generation = sr_generation row,
      sv_state = RUNNING, sv_epoch = sr_action_epoch row,
      sv_current = Some (al_operation_id lease) \<rparr>"
    using loaded_view [OF 1(1)] 1(3,4) by (simp add: scope_view_of_def)
  have "lock_step (view_of db (scope_digest E scope)) (view_of db' (scope_digest E scope))"
    using lock_end [of "if uncertain then UNCERTAIN else IDLE" "sr_generation row"
        "sr_action_epoch row" "al_operation_id lease"] load_row_Inr(1) [OF 1(1)]
    unfolding view by (simp add: 1(11) view_of_def row_simps scope_view_of_def)
  then show ?thesis by (simp add: refines_lock_def 1(11) row_simps)
qed

lemma refines_reconcile:
  assumes "reconcile E clk uid db scope prf = Inr (u, db')"
  shows "refines_lock db (scope_digest E scope) db'"
  using assms
proof (cases rule: reconcile_Inr)
  case (1 row action sig now asig event)
  have "sr_current_operation_id row = None"
    using verify_row_idle [OF load_row_Inr(2) [OF 1(1)]] 1(5) by simp
  then have view: "view_of db (scope_digest E scope) = Some \<lparr> sv_generation = sr_generation row,
      sv_state = UNCERTAIN, sv_epoch = sr_action_epoch row, sv_current = None \<rparr>"
    using loaded_view [OF 1(1)] 1(5) by (simp add: scope_view_of_def)
  have "lock_step (view_of db (scope_digest E scope)) (view_of db' (scope_digest E scope))"
    using lock_reconcile [of "sr_generation row" "sr_action_epoch row"] load_row_Inr(1) [OF 1(1)]
    unfolding view by (simp add: 1(10) view_of_def row_simps scope_view_of_def)
  then show ?thesis by (simp add: refines_lock_def 1(10) row_simps)
qed

text \<open>Activation and rollback both swap the pointer of an idle scope to the next
  generation; the tables written afterwards do not matter to the lock.\<close>

lemma refines_swap:
  assumes "load_row E db scope = Inr row" and "sr_action_state row = IDLE"
    and "swap_pointer E (scope_digest E scope) row binding now failure db = Inr db1"
    and "ab_generation binding = sr_generation row + 1" and "db_scopes db' = db_scopes db1"
  shows "refines_lock db (scope_digest E scope) db'"
proof -
  have fs: "find_scope db' = find_scope db1" by (rule find_scope_cong [OF assms(5)])
  note view = loaded_view [OF assms(1)] idle_view [OF assms(1,2)]
  from assms(3) load_row_Inr(1) [OF assms(1)] show ?thesis
  proof (rule find_scope_swap)
    fix sig stamped
    assume row': "find_scope db1 (scope_digest E scope) = Some (row \<lparr>
        sr_active_jcs := se_dumps E (active_binding_json binding),
        sr_generation := ab_generation binding, sr_state_signature := sig, sr_updated_at := stamped \<rparr>)"
      and frame: "\<And>sd'. sd' \<noteq> scope_digest E scope \<Longrightarrow> find_scope db1 sd' = find_scope db sd'"
    have "lock_step (view_of db (scope_digest E scope)) (view_of db' (scope_digest E scope))"
      using lock_swap [of "sr_generation row" "sr_action_epoch row"] row' assms(2)
        verify_row_idle [OF load_row_Inr(2) [OF assms(1)]]
      unfolding view by (simp add: view_of_def fs assms(4) scope_view_of_def)
    then show ?thesis using frame by (simp add: refines_lock_def fs)
  qed
qed

lemma refines_activate:
  assumes "activate_prepared E clk uid db scope pid ticket approval validator = Inr (receipt, db')"
  shows "refines_lock db (scope_digest E scope) db'"
  using assms
proof (cases rule: activate_prepared_Inr)
  case (fresh row prep active accepts)
  from fresh(7) have idle: "sr_action_state row = IDLE" by (rule check_ticket_Inr)
  from fresh(11) show ?thesis
  proof (rule commit_activation_Inr)
    fix old db1 db2 stored event
    assume "swap_pointer E (scope_digest E scope) row (pp_new_binding prep) (clk 2)
        ''activation compare-and-swap failed'' db = Inr db1"
      and "consume_ticket E ticket db1 = Inr db2"
      and "db' = db2 \<lparr> db_receipts := db_receipts db2 @ [stored],
        db_audit := db_audit db2 @ [event] \<rparr>"
    with fresh(1,8) idle consume_ticket_scopes [of E ticket db1 db2] show ?thesis
      by (intro refines_swap) auto
  qed
qed (simp add: refines_lock_stutter)

lemma refines_rollback:
  assumes "rollback_receipt E clk uid db scope rid ticket validator = Inr (rb, db')"
  shows "refines_lock db (scope_digest E scope) db'"
  using assms
proof (cases rule: rollback_receipt_Inr)
  case (fresh row kind source active accepts)
  from fresh(7) have idle: "sr_action_state row = IDLE" by (rule check_ticket_Inr)
  from fresh(10) show ?thesis
  proof (rule commit_rollback_Inr)
    fix db1 db2 stored event
    assume "swap_pointer E (scope_digest E scope) row
        ((xa_old_binding source) \<lparr> ab_generation := sr_generation row + 1 \<rparr>) (clk 1)
        ''rollback compare-and-swap failed'' db = Inr db1"
      and "consume_ticket E ticket db1 = Inr db2"
      and "db' = db2 \<lparr> db_receipts := db_receipts db2 @ [stored],
        db_audit := db_audit db2 @ [event] \<rparr>"
    with fresh(1) idle consume_ticket_scopes [of E ticket db1 db2] show ?thesis
      by (intro refines_swap) auto
  qed
qed (simp add: refines_lock_stutter)

lemma store_step_refines:
  "store_step E db sd db' \<Longrightarrow> refines_lock db sd db'"
proof (induction rule: store_step.induct)
  case (step_reserve scope clk uid db op g ttl ticket db')
  from step_reserve(2) show ?case by (rule reserve_boundary_Inr) (simp add: refines_lock_stutter)
next
  case (step_consume scope clk uid db ticket ticket' db')
  from step_consume(2) show ?case
    by (rule consume_boundary_Inr) (auto intro!: refines_lock_stutter dest: consume_ticket_scopes)
next
  case (step_save prep db u db')
  from step_save(2) show ?case by (rule save_prepared_Inr) (simp add: refines_lock_stutter)
qed (blast intro: refines_initialize refines_begin refines_end refines_reconcile refines_activate
    refines_rollback)+

end
