(* ===== verification/Store_Invariant.thy ===== *)
theory Store_Invariant
  imports Store_Machine
begin

text \<open>
  The store invariant: primary keys are unique, every stored row carries a signature
  that verifies, and the actions of a scope fit its lock. Every operation keeps it, and
  it implies that \<open>_row\<close> accepts: the integrity checks never lock out a scope that only
  the store has written.
\<close>

section \<open>Documented behaviour of the environment\<close>

text \<open>Parsing the dump of a valid model gives the model back, parsed models are valid, and
  HMAC-SHA-256 and SHA-256 give 32 bytes.\<close>

definition env_laws :: "store_env \<Rightarrow> bool" where
  "env_laws E \<longleftrightarrow>
     (\<forall>s. runtime_scope_valid s \<longrightarrow> se_parse_scope E (se_dumps E (runtime_scope_json s)) = Some s) \<and>
     (\<forall>b. active_binding_valid b \<longrightarrow> json_value_ok (active_binding_json b) \<longrightarrow>
        se_parse_binding E (se_dumps E (active_binding_json b)) = Some b) \<and>
     (\<forall>p. prepared_replacement_valid p \<longrightarrow> json_value_ok (prepared_replacement_json p) \<longrightarrow>
        se_parse_prepared E (se_dumps E (prepared_replacement_json p)) = Some p) \<and>
     (\<forall>r. rt_activation_receipt_valid r \<longrightarrow> json_value_ok (rt_activation_json r) \<longrightarrow>
        se_parse_activation E (se_dumps E (rt_activation_json r)) = Some r) \<and>
     (\<forall>r. rt_rollback_receipt_valid r \<longrightarrow> json_value_ok (rt_rollback_json r) \<longrightarrow>
        se_parse_rollback E (se_dumps E (rt_rollback_json r)) = Some r) \<and>
     (\<forall>raw p. se_parse_prepared E raw = Some p \<longrightarrow> prepared_replacement_valid p) \<and>
     (\<forall>key m. length (se_hmac E key m) = 32) \<and> (\<forall>m. length (se_sha256 E m) = 32)"

section \<open>The invariant\<close>

definition actions_fit :: "action_row list \<Rightarrow> scope_row \<Rightarrow> bool" where
  "actions_fit as r \<longleftrightarrow>
     (\<forall>a \<in> set as. aw_action_epoch a \<le> sr_action_epoch r \<and>
        (if aw_action_epoch a = sr_action_epoch r
         then aw_state a = sr_action_state r \<and>
           (sr_action_state r = RUNNING \<longrightarrow> sr_current_operation_id r = Some (aw_operation_id a))
         else aw_state a = IDLE)) \<and>
     distinct (map aw_action_epoch as) \<and>
     (sr_action_state r \<noteq> IDLE \<longrightarrow> (\<exists>a \<in> set as. aw_action_epoch a = sr_action_epoch r))"

definition scope_inv :: "store_env \<Rightarrow> runtime_db \<Rightarrow> scope_row \<Rightarrow> bool" where
  "scope_inv E db r \<longleftrightarrow> verify_row E r = Inr () \<and>
     actions_fit (actions_of db (sr_scope_digest r)) r \<and>
     (\<forall>a \<in> set (actions_of db (sr_scope_digest r)). verify_action E a = Inr ())"

definition action_key :: "action_row \<Rightarrow> pystr \<times> pystr" where
  "action_key a = (aw_scope_digest a, aw_operation_id a)"

definition store_inv :: "store_env \<Rightarrow> runtime_db \<Rightarrow> bool" where
  "store_inv E db \<longleftrightarrow>
     distinct (map sr_scope_digest (db_scopes db)) \<and> distinct (map action_key (db_actions db)) \<and>
     distinct (map tw_ticket_id (db_tickets db)) \<and> distinct (map ew_receipt_id (db_receipts db)) \<and>
     (\<forall>r \<in> set (db_scopes db). scope_inv E db r) \<and>
     (\<forall>a \<in> set (db_actions db). aw_scope_digest a \<in> sr_scope_digest ` set (db_scopes db))"

section \<open>The invariant makes loading succeed\<close>

lemma find_distinct:
  assumes "distinct (map key xs)" and "x \<in> set xs"
  shows "find (\<lambda>y. key y = key x) xs = Some x"
  using assms by (induction xs) (auto simp: image_iff)

lemma find_action_key: "find_action db sd op = find (\<lambda>a. action_key a = (sd, op)) (db_actions db)"
  by (simp add: find_action_def action_key_def)

lemma find_action_distinct:
  assumes "distinct (map action_key (db_actions db))" and "a \<in> set (db_actions db)"
  shows "find_action db (aw_scope_digest a) (aw_operation_id a) = Some a"
  using find_distinct [OF assms] by (simp add: find_action_key action_key_def)

lemma actions_of_iff: "a \<in> set (actions_of db sd) \<longleftrightarrow> a \<in> set (db_actions db) \<and> aw_scope_digest a = sd"
  by (auto simp: actions_of_def)

lemma latest_action_in: "latest_action as = Some a \<Longrightarrow> a \<in> set as"
  by (auto simp: latest_action_def split: list.splits)
    (metis list.set_intros(1) set_sort)

lemma distinct_set_single: "distinct xs \<Longrightarrow> set xs = {a} \<Longrightarrow> xs = [a]"
  by (cases xs) (auto simp: subset_singleton_iff)

lemma one_running:
  assumes "actions_fit as r" and "a \<in> set as" and "aw_state a = RUNNING"
  shows "filter (\<lambda>b. aw_state b = RUNNING) as = [a]"
proof (rule distinct_set_single)
  have inj: "inj_on aw_action_epoch (set as)" and "distinct as"
    using assms(1) by (simp_all add: actions_fit_def distinct_map)
  then show "distinct (filter (\<lambda>b. aw_state b = RUNNING) as)" by simp
  have epoch: "aw_action_epoch b = sr_action_epoch r" if "b \<in> set as" "aw_state b = RUNNING" for b
    using assms(1) that by (auto simp: actions_fit_def split: if_splits)
  have "b = a" if "b \<in> set as" "aw_state b = RUNNING" for b
  proof (rule inj_onD [OF inj _ that(1) assms(2)])
    show "aw_action_epoch b = aw_action_epoch a"
      unfolding epoch [OF that] epoch [OF assms(2,3)] ..
  qed
  then show "set (filter (\<lambda>b. aw_state b = RUNNING) as) = {a}"
    unfolding set_filter using assms(2,3) by blast
qed

lemma actions_fit_consistent:
  assumes "distinct (map action_key (db_actions db))"
    and "actions_fit (actions_of db (sr_scope_digest r)) r"
  shows "action_state_consistent db r"
proof -
  let ?as = "actions_of db (sr_scope_digest r)"
  have latest: "case latest_action ?as of None \<Rightarrow> True
      | Some l \<Rightarrow> \<not> (aw_action_epoch l = sr_action_epoch r \<and> aw_state l \<noteq> sr_action_state r)"
    using assms(2) latest_action_in [of ?as]
    by (auto simp: actions_fit_def split: option.splits)
  show ?thesis
  proof (cases "sr_action_state r = RUNNING")
    case True
    then obtain a where a: "a \<in> set ?as" "aw_action_epoch a = sr_action_epoch r"
      using assms(2) by (auto simp: actions_fit_def)
    with True assms(2) have st: "aw_state a = RUNNING"
      and cur: "sr_current_operation_id r = Some (aw_operation_id a)"
      by (auto simp: actions_fit_def)
    have "find_action db (sr_scope_digest r) (aw_operation_id a) = Some a"
      using find_action_distinct [OF assms(1), of a] a(1) by (auto simp: actions_of_iff)
    with True a(2) st cur one_running [OF assms(2) a(1) st] latest show ?thesis
      by (simp add: action_state_consistent_def Let_def)
  next
    case False
    then have "filter (\<lambda>a. aw_state a = RUNNING) ?as = []"
      using assms(2) by (auto simp: actions_fit_def filter_empty_conv split: if_splits)
    with False latest show ?thesis by (simp add: action_state_consistent_def Let_def)
  qed
qed

lemma load_row_available:
  assumes "store_inv E db" and "find_scope db (scope_digest E scope) = Some r"
  shows "load_row E db scope = Inr r"
proof -
  have r: "r \<in> set (db_scopes db)" "sr_scope_digest r = scope_digest E scope"
    using find_scope_digest [OF assms(2)] by simp_all
  have inv: "scope_inv E db r" and keys: "distinct (map action_key (db_actions db))"
    using assms(1) r(1) by (simp_all add: store_inv_def)
  have "res_map (verify_action E) (actions_of db (sr_scope_digest r)) =
      Inr (map (\<lambda>_. ()) (actions_of db (sr_scope_digest r)))"
    using inv by (intro res_map_total) (simp add: scope_inv_def)
  then show ?thesis
    using inv actions_fit_consistent [OF keys] by (simp add: load_row_def assms(2) scope_inv_def)
qed

section \<open>Every operation keeps the invariant\<close>

text \<open>Signing new lock fields over an already verified row.\<close>

lemma verify_row_resign:
  assumes "verify_row E r = Inr ()"
    and "sr_scope_digest r' = sr_scope_digest r" and "sr_scope_jcs r' = sr_scope_jcs r"
    and "sr_active_jcs r' = sr_active_jcs r" and "sr_generation r' = sr_generation r"
    and "sr_action_state r' = RUNNING \<longrightarrow> (\<exists>op. sr_current_operation_id r' = Some op \<and> op \<noteq> [])"
    and "sr_action_state r' \<noteq> RUNNING \<longrightarrow> sr_current_operation_id r' = None"
    and "state_signature E (sr_scope_digest r) (sr_scope_jcs r) (sr_active_jcs r) (sr_generation r)
           (sr_action_state r') (sr_action_epoch r') (sr_current_operation_id r') =
         Inr (sr_state_signature r')"
  shows "verify_row E r' = Inr ()"
  using assms by (auto simp: verify_row_def split: option.splits if_splits)

text \<open>An update of one scope and its actions leaves the other scopes alone.\<close>

lemma store_inv_update:
  assumes "store_inv E db" and "row \<in> set (db_scopes db)" and "sr_scope_digest row = sd"
    and "db_scopes db' = map (\<lambda>r. if sr_scope_digest r = sd then f r else r) (db_scopes db)"
    and "sr_scope_digest (f row) = sd" and "scope_inv E db' (f row)"
    and "\<And>sd'. sd' \<noteq> sd \<Longrightarrow> actions_of db' sd' = actions_of db sd'"
    and "distinct (map action_key (db_actions db'))"
    and "distinct (map tw_ticket_id (db_tickets db'))"
    and "distinct (map ew_receipt_id (db_receipts db'))"
  shows "store_inv E db'"
proof -
  have uniq: "r = row" if "r \<in> set (db_scopes db)" "sr_scope_digest r = sd" for r
    using assms(1,2,3) that by (auto simp: store_inv_def distinct_map dest: inj_onD)
  have digests: "map sr_scope_digest (db_scopes db') = map sr_scope_digest (db_scopes db)"
    unfolding assms(4) using uniq assms(3,5) by auto
  have scopes: "scope_inv E db' r" if "r \<in> set (db_scopes db')" for r
  proof (cases "sr_scope_digest r = sd")
    case True
    with that uniq assms(4,5,6) show ?thesis by (auto split: if_splits)
  next
    case False
    with that uniq assms(4,5) have "r \<in> set (db_scopes db)" by (auto split: if_splits)
    with False assms(1,7) show ?thesis by (simp add: store_inv_def scope_inv_def)
  qed
  have fk: "aw_scope_digest a \<in> sr_scope_digest ` set (db_scopes db')"
    if "a \<in> set (db_actions db')" for a
  proof (cases "aw_scope_digest a = sd")
    case True
    then show ?thesis using digests assms(2,3) by (metis image_eqI image_set)
  next
    case False
    with that have "a \<in> set (actions_of db (aw_scope_digest a))"
      using assms(7) [OF False] by (simp add: actions_of_iff flip: assms(7))
    then have "aw_scope_digest a \<in> set (map sr_scope_digest (db_scopes db))"
      using assms(1) by (simp add: store_inv_def actions_of_iff)
    then show ?thesis unfolding digests [symmetric] by simp
  qed
  have "distinct (map sr_scope_digest (db_scopes db'))"
    unfolding digests using assms(1) by (simp add: store_inv_def)
  with scopes fk assms(8-10) show ?thesis by (simp add: store_inv_def)
qed

lemma store_inv_tables:
  assumes "store_inv E db" and "db_scopes db' = db_scopes db" and "db_actions db' = db_actions db"
    and "distinct (map tw_ticket_id (db_tickets db'))"
    and "distinct (map ew_receipt_id (db_receipts db'))"
  shows "store_inv E db'"
  using assms by (simp add: store_inv_def scope_inv_def actions_of_def)

lemma inv_initialize:
  assumes "env_laws E" and "store_inv E db" and "runtime_scope_valid scope"
    and "active_binding_valid binding"
    and "initialize E clk uid db scope binding prf = Inr (res, db')"
  shows "store_inv E db'"
  using assms(5)
proof (rule initialize_Inr)
  fix sig now event
  let ?sd = "scope_digest E scope"
  let ?r = "\<lparr> sr_scope_digest = ?sd, sr_scope_jcs = se_dumps E (runtime_scope_json scope),
     sr_active_jcs = se_dumps E (active_binding_json binding), sr_generation = 0,
     sr_action_state = IDLE, sr_action_epoch = 0, sr_current_operation_id = None,
     sr_state_signature = sig, sr_updated_at = now \<rparr>"
  assume gen: "ab_generation binding = 0" and none: "find_scope db ?sd = None"
    and ok: "json_value_ok (active_binding_json binding)"
    and sig: "state_signature E ?sd (se_dumps E (runtime_scope_json scope))
      (se_dumps E (active_binding_json binding)) 0 IDLE 0 None = Inr sig"
    and db': "db' = db \<lparr> db_scopes := db_scopes db @ [?r], db_audit := db_audit db @ [event] \<rparr>"
  have new: "?sd \<notin> sr_scope_digest ` set (db_scopes db)"
    using none by (auto simp: find_scope_def find_None_iff)
  have "aw_scope_digest a \<in> sr_scope_digest ` set (db_scopes db)" if "a \<in> set (db_actions db)" for a
    using assms(2) that by (simp add: store_inv_def)
  with new have "aw_scope_digest a \<noteq> ?sd" if "a \<in> set (db_actions db)" for a
    using that by metis
  then have acts: "actions_of db ?sd = []" by (simp add: actions_of_def filter_empty_conv)
  have same: "actions_of db' = actions_of db" by (simp add: fun_eq_iff actions_of_def db')
  have "verify_row E ?r = Inr ()"
    using assms(1,3,4) ok sig gen by (simp add: verify_row_def env_laws_def)
  then have "scope_inv E db' ?r" by (simp add: scope_inv_def same acts actions_fit_def)
  with assms(2) new show ?thesis
    by (auto simp: store_inv_def db' scope_inv_def same [unfolded db'])
qed

text \<open>Starting an action appends one to the actions of an idle scope.\<close>

lemma fit_begin:
  assumes "actions_fit as r" and "sr_action_state r = IDLE"
    and "aw_action_epoch a = sr_action_epoch r + 1" and "aw_state a = RUNNING"
    and "sr_action_epoch r' = sr_action_epoch r + 1" and "sr_action_state r' = RUNNING"
    and "sr_current_operation_id r' = Some (aw_operation_id a)"
  shows "actions_fit (as @ [a]) r'"
  using assms unfolding actions_fit_def by (force split: if_splits)

text \<open>Settling the action of the current epoch keeps the rest idle.\<close>

lemma fit_settle:
  assumes "actions_fit as r" and "a0 \<in> set as" and "aw_action_epoch a0 = sr_action_epoch r"
    and "\<And>a. a \<in> set as \<Longrightarrow> aw_operation_id a = aw_operation_id a0 \<Longrightarrow> a = a0"
    and "\<And>a. aw_action_epoch (g a) = aw_action_epoch a" and "aw_state (g a0) = sr_action_state r'"
    and "sr_action_epoch r' = sr_action_epoch r" and "sr_action_state r' \<noteq> RUNNING"
  shows "actions_fit (map (\<lambda>a. if aw_operation_id a = aw_operation_id a0 then g a else a) as) r'"
proof -
  define h where "h = (\<lambda>a. if aw_operation_id a = aw_operation_id a0 then g a else a)"
  have epoch: "aw_action_epoch (h a) = aw_action_epoch a" for a using assms(5) by (simp add: h_def)
  have inj: "inj_on aw_action_epoch (set as)" using assms(1) by (simp add: actions_fit_def distinct_map)
  have state: "aw_state (h a) =
      (if aw_action_epoch a = sr_action_epoch r then sr_action_state r' else IDLE)"
    if "a \<in> set as" for a
  proof (cases "a = a0")
    case True
    then show ?thesis using assms(3,6) by (simp add: h_def)
  next
    case False
    then have "aw_action_epoch a \<noteq> sr_action_epoch r"
      using inj_onD [OF inj _ that assms(2)] assms(3) by auto
    moreover from this have "aw_state a = IDLE" using assms(1) that by (auto simp: actions_fit_def)
    ultimately show ?thesis using False assms(4) [OF that] by (auto simp: h_def)
  qed
  have le: "aw_action_epoch a \<le> sr_action_epoch r" if "a \<in> set as" for a
    using assms(1) that by (auto simp: actions_fit_def)
  have "distinct (map aw_action_epoch (map h as))"
    using assms(1) by (simp add: actions_fit_def epoch comp_def)
  moreover have "\<exists>a \<in> set as. aw_action_epoch a = sr_action_epoch r" using assms(2,3) by blast
  ultimately have "actions_fit (map h as) r'"
    unfolding actions_fit_def assms(7)
    using state epoch le assms(3,8) by auto
  then show ?thesis by (simp add: h_def)
qed

lemma actions_of_update:
  assumes "\<And>a. aw_scope_digest (f a) = aw_scope_digest a"
  shows "actions_of (update_action sd op f db) sd' =
    (if sd' = sd then map (\<lambda>a. if aw_operation_id a = op then f a else a) (actions_of db sd')
     else actions_of db sd')"
proof -
  have "filter (\<lambda>a. aw_scope_digest a = sd')
      (map (\<lambda>a. if aw_scope_digest a = sd \<and> aw_operation_id a = op then f a else a) xs) =
    (if sd' = sd then map (\<lambda>a. if aw_operation_id a = op then f a else a)
        (filter (\<lambda>a. aw_scope_digest a = sd') xs)
     else filter (\<lambda>a. aw_scope_digest a = sd') xs)" for xs
    using assms by (induction xs) auto
  then show ?thesis by (simp add: actions_of_def update_action_def)
qed

lemma actions_of_irrelevant [simp]:
  "actions_of (db \<lparr> db_audit := es \<rparr>) = actions_of db"
  "actions_of (update_scope sd f db) = actions_of db"
  by (simp_all add: fun_eq_iff actions_of_def update_scope_def)

lemma keys_update_action:
  assumes "\<And>a. action_key (f a) = action_key a"
  shows "map action_key (db_actions (update_action sd op f db)) = map action_key (db_actions db)"
  using assms by (simp add: update_action_def)

end
