(* ===== verification/Store_Preserve.thy ===== *)
theory Store_Preserve
  imports Store_Invariant
begin

text \<open>
  Preservation of the store invariant by every operation, and the invariant of every
  reachable database.
\<close>

lemma loaded_inv:
  assumes "store_inv E db" and "load_row E db scope = Inr row"
  shows "scope_inv E db row"
  using assms load_row_Inr(5) [OF assms(2)] by (simp add: store_inv_def)

lemma scope_invD:
  assumes "scope_inv E db row"
  shows "verify_row E row = Inr ()" and "actions_fit (actions_of db (sr_scope_digest row)) row"
  using assms by (simp_all add: scope_inv_def)

lemma inv_begin:
  assumes "store_inv E db" and "begin_action E clk uid db scope op req = Inr (lease, db')"
  shows "store_inv E db'"
  using assms(2)
proof (cases rule: begin_action_Inr)
  case (replay row existing)
  with assms(1) show ?thesis by simp
next
  case (fresh row sig now asig event)
  let ?sd = "scope_digest E scope"
  let ?a = "\<lparr> aw_scope_digest = ?sd, aw_operation_id = op, aw_request_digest = req,
     aw_action_epoch = sr_action_epoch row + 1, aw_state = RUNNING, aw_outcome_digest = None,
     aw_outcome = None, aw_action_signature = asig \<rparr>"
  let ?f = "\<lambda>r. r \<lparr> sr_action_state := RUNNING, sr_action_epoch := sr_action_epoch row + 1,
     sr_current_operation_id := Some op, sr_state_signature := sig, sr_updated_at := now \<rparr>"
  note inv = loaded_inv [OF assms(1) fresh(1)] and sd = load_row_Inr(4) [OF fresh(1)]
  have acts: "actions_of db' sd' = (if sd' = ?sd then actions_of db sd' @ [?a] else actions_of db sd')"
    for sd'
    by (simp add: fresh(8) actions_of_def update_scope_def)
  have "verify_row E (?f row) = Inr ()"
    by (rule verify_row_resign [OF scope_invD(1) [OF inv]]) (use fresh(4,6) sd in simp_all)
  moreover have "actions_fit (actions_of db ?sd @ [?a]) (?f row)"
    by (rule fit_begin [OF scope_invD(2) [OF inv, unfolded sd] fresh(3)]) simp_all
  moreover have "verify_action E ?a = Inr ()"
    using fresh(7) by (simp add: verify_action_def)
  ultimately have new: "scope_inv E db' (?f row)"
    using inv by (auto simp: scope_inv_def acts sd)
  show ?thesis
  proof (rule store_inv_update [where f = ?f, OF assms(1) load_row_Inr(5) [OF fresh(1)] sd _ _ new])
    show "db_scopes db' = map (\<lambda>r. if sr_scope_digest r = ?sd then ?f r else r) (db_scopes db)"
      by (simp add: fresh(8) update_scope_def)
    show "distinct (map action_key (db_actions db'))"
      using assms(1) fresh(2)
      by (auto simp: fresh(8) store_inv_def find_action_None action_key_def update_scope_def)
  qed (use assms(1) sd acts in \<open>simp_all add: fresh(8) update_scope_def store_inv_def\<close>)
qed

text \<open>Settling the current action, by its lease or by reconciliation.\<close>

lemma inv_settle:
  assumes "store_inv E db" and "load_row E db scope = Inr row" and "target \<noteq> RUNNING"
    and "find_action db (scope_digest E scope) op = Some action"
    and "aw_action_epoch action = sr_action_epoch row"
    and "state_signature E (scope_digest E scope) (sr_scope_jcs row) (sr_active_jcs row)
           (sr_generation row) target (sr_action_epoch row) None = Inr sig"
    and "f = (\<lambda>r. r \<lparr> sr_action_state := target, sr_current_operation_id := None,
           sr_state_signature := sig, sr_updated_at := now \<rparr>)"
    and "\<And>a. action_key (g a) = action_key a" and "\<And>a. aw_action_epoch (g a) = aw_action_epoch a"
    and "aw_state (g action) = target" and "verify_action E (g action) = Inr ()"
    and "db' = (update_action (scope_digest E scope) op g
           (update_scope (scope_digest E scope) f db)) \<lparr> db_audit := es \<rparr>"
  shows "store_inv E db'"
proof -
  let ?sd = "scope_digest E scope"
  note inv = loaded_inv [OF assms(1,2)] and sd = load_row_Inr(4) [OF assms(2)]
  have keys: "distinct (map action_key (db_actions db))" using assms(1) by (simp add: store_inv_def)
  note act = find_action_Some [OF assms(4)]
  have a0: "action \<in> set (actions_of db ?sd)" using act by (simp add: actions_of_iff)
  have uniq: "a = action" if "a \<in> set (actions_of db ?sd)" "aw_operation_id a = op" for a
    using find_action_distinct [OF keys, of a] that assms(4) by (auto simp: actions_of_iff)
  have gsd: "aw_scope_digest (g a) = aw_scope_digest a" for a
    using assms(8) [of a] by (simp add: action_key_def)
  have acts: "actions_of db' sd' = (if sd' = ?sd
      then map (\<lambda>a. if aw_operation_id a = op then g a else a) (actions_of db sd')
      else actions_of db sd')" for sd'
    unfolding assms(12) by (simp add: actions_of_update gsd)
  have "verify_row E (f row) = Inr ()"
    by (rule verify_row_resign [OF scope_invD(1) [OF inv]]) (use assms(3,6) sd in \<open>simp_all add: assms(7)\<close>)
  moreover have "actions_fit (map (\<lambda>a. if aw_operation_id a = aw_operation_id action then g a else a)
      (actions_of db ?sd)) (f row)"
    by (rule fit_settle [OF scope_invD(2) [OF inv, unfolded sd] a0 assms(5) _ assms(9)])
      (use uniq act(3) assms(3,10) in \<open>simp_all add: assms(7)\<close>)
  moreover have "\<forall>b \<in> set (actions_of db' ?sd). verify_action E b = Inr ()"
  proof -
    have "verify_action E (if aw_operation_id a = op then g a else a) = Inr ()"
      if "a \<in> set (actions_of db ?sd)" for a
      using uniq [OF that] inv that assms(11) by (auto simp: scope_inv_def sd)
    then show ?thesis unfolding acts if_True simp_thms set_map by blast
  qed
  moreover have "sr_scope_digest (f row) = ?sd" by (simp add: assms(7) sd)
  ultimately have new: "scope_inv E db' (f row)"
    unfolding scope_inv_def by (simp add: acts act(3))
  show ?thesis
  proof (rule store_inv_update [where f = f, OF assms(1) load_row_Inr(5) [OF assms(2)] sd _ _ new])
    show "db_scopes db' = map (\<lambda>r. if sr_scope_digest r = ?sd then f r else r) (db_scopes db)"
      by (simp add: assms(12) update_scope_def update_action_def)
    show "distinct (map action_key (db_actions db'))"
      using keys assms(8)
      by (simp add: assms(12) keys_update_action update_scope_def)
  qed (use assms(1) sd acts in
    \<open>simp_all add: assms(7,12) update_scope_def update_action_def store_inv_def\<close>)
qed

lemma inv_end:
  assumes "store_inv E db"
    and "end_action E clk uid db scope lease uncertain outcome = Inr (u, db')"
  shows "store_inv E db'"
  using assms(2)
proof (cases rule: end_action_Inr)
  case (1 row action sig now asig event)
  note act = find_action_Some [OF 1(2)]
  show ?thesis
    using assms(1) 1(1) _ 1(2) _ 1(9) refl _ _ _ _ 1(11)
    by (rule inv_settle)
      (use 1 act in \<open>simp_all add: action_key_def verify_action_def\<close>)
qed

lemma inv_reconcile:
  assumes "store_inv E db" and "reconcile E clk uid db scope prf = Inr (u, db')"
  shows "store_inv E db'"
  using assms(2)
proof (cases rule: reconcile_Inr)
  case (1 row action sig now asig event)
  note act = find_action_Some [OF 1(4)] and inv = loaded_inv [OF assms(1) 1(1)]
  have "action \<in> set (actions_of db (sr_scope_digest row))"
    using act load_row_Inr(4) [OF 1(1)] by (simp add: actions_of_iff)
  with inv 1(6) have "aw_action_epoch action = sr_action_epoch row"
    by (auto simp: scope_inv_def actions_fit_def split: if_splits)
  then show ?thesis
    by (intro inv_settle [OF assms(1) 1(1) _ 1(4) _ 1(8) refl _ _ _ _ 1(10)])
      (use 1 act in \<open>simp_all add: action_key_def verify_action_def\<close>)
qed

lemma ids_consume_ticket:
  "consume_ticket E ticket db = Inr db' \<Longrightarrow>
     map tw_ticket_id (db_tickets db') = map tw_ticket_id (db_tickets db)"
  by (auto elim: consume_ticket_Inr)

lemma inv_swap:
  assumes "env_laws E" and "store_inv E db" and "load_row E db scope = Inr row"
    and "sr_action_state row = IDLE" and "active_binding_valid binding"
    and "swap_pointer E (scope_digest E scope) row binding now failure db = Inr db1"
  shows "store_inv E db1"
  using assms(6)
proof (rule swap_pointer_Inr)
  fix sig stamped
  let ?sd = "scope_digest E scope"
  let ?f = "\<lambda>r. r \<lparr> sr_active_jcs := se_dumps E (active_binding_json binding),
     sr_generation := ab_generation binding, sr_state_signature := sig, sr_updated_at := stamped \<rparr>"
  assume ok: "json_value_ok (active_binding_json binding)"
    and sig: "state_signature E ?sd (sr_scope_jcs row) (se_dumps E (active_binding_json binding))
      (ab_generation binding) IDLE (sr_action_epoch row) None = Inr sig"
    and db1: "db1 = db \<lparr> db_scopes := map (\<lambda>r. if sr_scope_digest r = ?sd \<and>
       sr_generation r = sr_generation row then ?f r else r) (db_scopes db) \<rparr>"
  note inv = loaded_inv [OF assms(2,3)] and sd = load_row_Inr(4) [OF assms(3)]
    and row = load_row_Inr(5) [OF assms(3)]
  have uniq: "r = row" if "r \<in> set (db_scopes db)" "sr_scope_digest r = ?sd" for r
  proof (rule inj_onD [of sr_scope_digest "set (db_scopes db)"])
    show "inj_on sr_scope_digest (set (db_scopes db))"
      using assms(2) by (simp add: store_inv_def distinct_map)
  qed (use that sd row in simp_all)
  have cur: "sr_current_operation_id row = None"
    using inv assms(4) by (auto simp: scope_inv_def intro: verify_row_idle)
  have parse: "se_parse_binding E (se_dumps E (active_binding_json binding)) = Some binding"
    using assms(1,5) ok by (simp add: env_laws_def)
  have "verify_row E row = Inr ()" using inv by (simp add: scope_inv_def)
  with parse sig cur assms(4) have "verify_row E (?f row) = Inr ()"
    by (auto simp: verify_row_def sd split: option.splits if_splits)
  moreover have "actions_of db1 = actions_of db" by (simp add: fun_eq_iff actions_of_def db1)
  ultimately have new: "scope_inv E db1 (?f row)"
    using inv by (simp add: scope_inv_def actions_fit_def)
  have "db_scopes db1 = map (\<lambda>r. if sr_scope_digest r = ?sd then ?f r else r) (db_scopes db)"
    using uniq by (auto simp: db1)
  from store_inv_update [OF assms(2) row sd this _ new] show ?thesis
    using assms(2) sd by (simp add: db1 store_inv_def actions_of_def)
qed

text \<open>What activation and rollback write after the swap.\<close>

lemma inv_after_swap:
  assumes "store_inv E db1" and "consume_ticket E ticket db1 = Inr db2"
    and "db' = db2 \<lparr> db_receipts := db_receipts db2 @ [stored], db_audit := es \<rparr>"
    and "ew_receipt_id stored \<notin> ew_receipt_id ` set (db_receipts db2)"
  shows "store_inv E db'"
  using assms(1)
proof (rule store_inv_tables)
  note same = consume_ticket_scopes [OF assms(2)] ids_consume_ticket [OF assms(2)]
  show "db_scopes db' = db_scopes db1" "db_actions db' = db_actions db1"
    using same by (simp_all add: assms(3))
  show "distinct (map tw_ticket_id (db_tickets db'))"
    using same assms(1) by (simp add: assms(3) store_inv_def)
  show "distinct (map ew_receipt_id (db_receipts db'))"
    using same assms(1,4) by (simp add: assms(3) store_inv_def)
qed

lemma prepared_binding_valid:
  assumes "env_laws E" and "load_prepared_db E now db scope pid late = Inr prep"
  shows "active_binding_valid (pp_new_binding prep)" and "pp_operation_id prep \<noteq> []"
proof -
  from assms(2) obtain stored :: prepared_row where "se_parse_prepared E (pw_payload stored) = Some prep"
    by (rule load_prepared_Inr) blast
  moreover have "\<forall>raw p. se_parse_prepared E raw = Some p \<longrightarrow> prepared_replacement_valid p"
    using assms(1) unfolding env_laws_def by blast
  ultimately have "prepared_replacement_valid prep" by blast
  then show "active_binding_valid (pp_new_binding prep)" and "pp_operation_id prep \<noteq> []"
    by (simp_all add: prepared_replacement_valid_def)
qed

lemma inv_activate:
  assumes "env_laws E" and "store_inv E db"
    and "activate_prepared E clk uid db scope pid ticket approval validator = Inr (receipt, db')"
  shows "store_inv E db'"
  using assms(3)
proof (cases rule: activate_prepared_Inr)
  case (replay row prep)
  with assms(2) show ?thesis by simp
next
  case (fresh row prep active accepts)
  from fresh(7) have idle: "sr_action_state row = IDLE" by (rule check_ticket_Inr)
  note valid = prepared_binding_valid(1) [OF assms(1) fresh(2)]
  from fresh(11) show ?thesis
  proof (rule commit_activation_Inr)
    fix old db1 db2 stored event
    assume swap: "swap_pointer E (scope_digest E scope) row (pp_new_binding prep) (clk 2)
        ''activation compare-and-swap failed'' db = Inr db1"
      and rest: "consume_ticket E ticket db1 = Inr db2"
      "db' = db2 \<lparr> db_receipts := db_receipts db2 @ [stored],
        db_audit := db_audit db2 @ [event] \<rparr>"
      "ew_receipt_id stored \<notin> ew_receipt_id ` set (db_receipts db2)"
    show ?thesis
      by (rule inv_after_swap [OF inv_swap [OF assms(1,2) fresh(1) idle valid swap] rest])
  qed
qed

lemma inv_rollback:
  assumes "env_laws E" and "store_inv E db"
    and "rollback_receipt E clk uid db scope rid ticket validator = Inr (rb, db')"
  shows "store_inv E db'"
  using assms(3)
proof (cases rule: rollback_receipt_Inr)
  case (replay row kind source existing kind')
  with assms(2) show ?thesis by simp
next
  case (fresh row kind source active accepts)
  from fresh(7) have idle: "sr_action_state row = IDLE" by (rule check_ticket_Inr)
  from fresh(10) show ?thesis
  proof (rule commit_rollback_Inr)
    fix db1 db2 stored event
    assume swap: "swap_pointer E (scope_digest E scope) row
        ((xa_old_binding source) \<lparr> ab_generation := sr_generation row + 1 \<rparr>) (clk 1)
        ''rollback compare-and-swap failed'' db = Inr db1"
      and rest: "consume_ticket E ticket db1 = Inr db2"
      "db' = db2 \<lparr> db_receipts := db_receipts db2 @ [stored],
        db_audit := db_audit db2 @ [event] \<rparr>"
      "ew_receipt_id stored \<notin> ew_receipt_id ` set (db_receipts db2)"
      and valid: "rt_rollback_receipt_valid (rb \<lparr> xr_signature := unsigned_digest \<rparr>)"
      and rest': "xr_restored_binding rb = (xa_old_binding source) \<lparr> ab_generation := sr_generation row + 1 \<rparr>"
    have "active_binding_valid (xr_restored_binding rb)"
      using valid by (simp add: rt_rollback_receipt_valid_def)
    then show ?thesis unfolding rest'
      using inv_after_swap [OF inv_swap [OF assms(1,2) fresh(1) idle _ swap] rest] by blast
  qed
qed

lemma store_step_inv:
  "store_step E db sd db' \<Longrightarrow> env_laws E \<Longrightarrow> store_inv E db \<Longrightarrow> store_inv E db'"
proof (induction rule: store_step.induct)
  case (step_reserve scope clk uid db op g ttl ticket db')
  from step_reserve(2) show ?case
  proof (rule reserve_boundary_Inr)
    fix stored event
    assume db': "db' = db \<lparr> db_tickets := db_tickets db @ [stored], db_audit := db_audit db @ [event] \<rparr>"
      and "tw_ticket_id stored \<notin> tw_ticket_id ` set (db_tickets db)"
    then show ?thesis
      by (intro store_inv_tables [OF step_reserve(4)]) (use step_reserve(4) in \<open>simp_all add: store_inv_def\<close>)
  qed
next
  case (step_consume scope clk uid db ticket ticket' db')
  from step_consume(2) show ?case
  proof (rule consume_boundary_Inr)
    fix row db1 event
    assume c: "consume_ticket E ticket db = Inr db1" and db': "db' = db1 \<lparr> db_audit := db_audit db1 @ [event] \<rparr>"
    note same = consume_ticket_scopes [OF c] ids_consume_ticket [OF c]
    show ?thesis
      by (rule store_inv_tables [OF step_consume(4)])
        (use same step_consume(4) in \<open>simp_all add: db' store_inv_def\<close>)
  qed
next
  case (step_save prep db u db')
  from step_save(2) show ?case
  proof (rule save_prepared_Inr)
    fix stored
    assume db': "db' = db \<lparr> db_prepared := db_prepared db @ [stored] \<rparr>"
    then show ?thesis
      by (intro store_inv_tables [OF step_save(4)]) (use step_save(4) in \<open>simp_all add: store_inv_def\<close>)
  qed
qed (blast intro: inv_initialize inv_begin inv_end inv_reconcile inv_activate inv_rollback)+

lemma store_inv_empty: "store_inv E empty_db"
  by (simp add: store_inv_def empty_db_def)

lemma reachable_inv: "store_reachable E db \<Longrightarrow> env_laws E \<Longrightarrow> store_inv E db"
  by (induction rule: store_reachable.induct) (auto intro: store_inv_empty store_step_inv)

end
