(* ===== verification/Store_Laws.thy ===== *)
theory Store_Laws
  imports Store_Preserve
begin

text \<open>
  Consequences of the refinement and of the invariant that the properties of the store
  rest on: monotone generations, spent tickets, what a swap leaves behind, and replay
  from receipts.
\<close>

section \<open>Runs\<close>

inductive store_run :: "store_env \<Rightarrow> runtime_db \<Rightarrow> runtime_db \<Rightarrow> bool" for E where
  run_refl: "store_run E db db"
| run_step: "store_run E db db' \<Longrightarrow> store_step E db' sd db'' \<Longrightarrow> store_run E db db''"

definition view_le :: "scope_view option \<Rightarrow> scope_view option \<Rightarrow> bool" where
  "view_le v w \<longleftrightarrow> (case v of None \<Rightarrow> True
     | Some a \<Rightarrow> (case w of None \<Rightarrow> False
        | Some b \<Rightarrow> sv_generation a \<le> sv_generation b \<and> sv_epoch a \<le> sv_epoch b))"

lemma view_le_refl [simp]: "view_le v v"
  by (simp add: view_le_def split: option.splits)

lemma view_le_trans: "view_le u v \<Longrightarrow> view_le v w \<Longrightarrow> view_le u w"
  by (auto simp: view_le_def split: option.splits)

lemma lock_step_le: "lock_step v w \<Longrightarrow> view_le v w"
  by (induction rule: lock_step.induct) (simp_all add: view_le_def)

lemma store_step_view:
  assumes "store_step E db sd db'"
  shows "view_of db' x = view_of db x \<or> lock_step (view_of db x) (view_of db' x)"
  using store_step_refines [OF assms] by (cases "x = sd") (auto simp: refines_lock_def view_of_def)

lemma store_run_le: "store_run E db db' \<Longrightarrow> view_le (view_of db sd) (view_of db' sd)"
proof (induction rule: store_run.induct)
  case (run_step db db' sd' db'')
  from store_step_view [OF run_step(2), of sd] lock_step_le have "view_le (view_of db' sd) (view_of db'' sd)"
    by auto
  with run_step(3) show ?case by (rule view_le_trans)
qed simp

section \<open>Tickets\<close>

definition find_ticket :: "runtime_db \<Rightarrow> pystr \<Rightarrow> ticket_row option" where
  "find_ticket db tid = find (\<lambda>t. tw_ticket_id t = tid) (db_tickets db)"

definition spent :: "runtime_db \<Rightarrow> pystr \<Rightarrow> bool" where
  "spent db tid \<longleftrightarrow> (\<exists>t. find_ticket db tid = Some t \<and> tw_consumed t)"

lemma spent_append: "spent db tid \<Longrightarrow> db_tickets db' = db_tickets db @ ts \<Longrightarrow> spent db' tid"
proof -
  have "find P (xs @ ys) = (case find P xs of None \<Rightarrow> find P ys | Some x \<Rightarrow> Some x)"
    for P and xs ys :: "ticket_row list"
    by (induction xs) auto
  then show "spent db tid \<Longrightarrow> db_tickets db' = db_tickets db @ ts \<Longrightarrow> spent db' tid"
    by (auto simp: spent_def find_ticket_def)
qed

lemma find_ticket_consume:
  assumes "consume_ticket E ticket db = Inr db'"
  obtains f where "\<And>tid. find_ticket db' tid = map_option f (find_ticket db tid)"
    and "\<And>t. tw_consumed t \<Longrightarrow> tw_consumed (f t)"
    and "\<And>t. tw_ticket_id t = bt_ticket_id ticket \<Longrightarrow>
      ticket_record_signature E ticket False = Inr (tw_record_signature t) \<Longrightarrow> tw_consumed (f t)"
  using assms
proof (rule consume_ticket_Inr)
  fix closed_sig open_sig
  let ?f = "\<lambda>t. if tw_ticket_id t = bt_ticket_id ticket \<and> \<not> tw_consumed t \<and>
     tw_record_signature t = open_sig
     then t \<lparr> tw_consumed := True, tw_record_signature := closed_sig \<rparr> else t"
  assume sig: "ticket_record_signature E ticket False = Inr open_sig"
    and db': "db' = db \<lparr> db_tickets := map ?f (db_tickets db) \<rparr>"
  show thesis
  proof (rule that [of ?f])
    show "find_ticket db' tid = map_option ?f (find_ticket db tid)" for tid
      unfolding find_ticket_def db' by (simp add: find_map_update [of tw_ticket_id ?f])
  qed (use sig in auto)
qed

lemma spent_consume: "consume_ticket E ticket db = Inr db' \<Longrightarrow> spent db tid \<Longrightarrow> spent db' tid"
  by (erule find_ticket_consume) (auto simp: spent_def)

lemma check_ticket_spends:
  assumes "check_ticket_db E now db scope ticket row eop ereq = Inr ()"
    and "db_tickets db1 = db_tickets db" and "consume_ticket E ticket db1 = Inr db2"
  shows "spent db2 (bt_ticket_id ticket)"
proof -
  from assms(1) obtain stored :: ticket_row
    where stored: "find_ticket db (bt_ticket_id ticket) = Some stored"
      and sig: "ticket_record_signature E ticket False = Inr (tw_record_signature stored)"
    by (rule check_ticket_Inr) (auto simp: find_ticket_def)
  then have "tw_ticket_id stored = bt_ticket_id ticket"
    by (auto simp: find_ticket_def dest: find_SomeD)
  moreover have "find_ticket db1 (bt_ticket_id ticket) = Some stored"
    using stored assms(2) by (simp add: find_ticket_def)
  ultimately show ?thesis
    using sig find_ticket_consume [OF assms(3), of "spent db2 (bt_ticket_id ticket)"]
    by (auto simp: spent_def)
qed

lemma spent_blocks:
  assumes "spent db (bt_ticket_id ticket)"
  shows "check_ticket_db E now db scope ticket row eop ereq \<noteq> Inr ()"
proof
  assume "check_ticket_db E now db scope ticket row eop ereq = Inr ()"
  then show False
    using assms by (auto simp: spent_def find_ticket_def elim: check_ticket_Inr)
qed

lemma spent_step:
  assumes "store_step E db sd db'" and "spent db tid"
  shows "spent db' tid"
  using assms
proof (induction rule: store_step.induct)
  case (step_initialize scope binding clk uid db bproof res db')
  from step_initialize(3) show ?case by (rule initialize_Inr) (use step_initialize(4) in \<open>simp add: spent_def find_ticket_def\<close>)
next
  case (step_begin scope clk uid db op req lease db')
  from step_begin(2) show ?case
    by (cases rule: begin_action_Inr)
      (use step_begin(3) in \<open>simp_all add: spent_def find_ticket_def update_scope_def\<close>)
next
  case (step_end scope clk uid db lease uncertain outcome u db')
  from step_end(2) show ?case
    by (rule end_action_Inr)
      (use step_end(3) in \<open>simp add: spent_def find_ticket_def update_scope_def update_action_def\<close>)
next
  case (step_reconcile scope clk uid db rprf u db')
  from step_reconcile(2) show ?case
    by (rule reconcile_Inr)
      (use step_reconcile(3) in \<open>simp add: spent_def find_ticket_def update_scope_def update_action_def\<close>)
next
  case (step_reserve scope clk uid db op g ttl ticket db')
  from step_reserve(2) show ?case
    by (rule reserve_boundary_Inr) (rule spent_append [OF step_reserve(3)], simp)
next
  case (step_consume scope clk uid db ticket ticket' db')
  from step_consume(2) show ?case
    by (rule consume_boundary_Inr)
      (use spent_consume [OF _ step_consume(3)] in \<open>simp add: spent_def find_ticket_def\<close>)
next
  case (step_save prep db u db')
  from step_save(2) show ?case
    by (rule save_prepared_Inr) (use step_save(3) in \<open>simp add: spent_def find_ticket_def\<close>)
next
  case (step_activate scope clk uid db pid ticket approval validator receipt db')
  from step_activate(2) show ?case
  proof (cases rule: activate_prepared_Inr)
    case (fresh row prep active accepts)
    from fresh(11) show ?thesis
    proof (rule commit_activation_Inr)
      fix old db1 db2 stored event
      assume swap: "swap_pointer E (scope_digest E scope) row (pp_new_binding prep) (clk 2)
          ''activation compare-and-swap failed'' db = Inr db1"
        and used: "consume_ticket E ticket db1 = Inr db2"
        and db': "db' = db2 \<lparr> db_receipts := db_receipts db2 @ [stored],
          db_audit := db_audit db2 @ [event] \<rparr>"
      have "spent db1 tid" using swap_pointer_tables [OF swap] step_activate(3) by (simp add: spent_def find_ticket_def)
      from spent_consume [OF used this] show ?thesis by (simp add: db' spent_def find_ticket_def)
    qed
  qed (use step_activate(3) in simp)
next
  case (step_rollback scope clk uid db rid ticket rvalidator rb db')
  from step_rollback(2) show ?case
  proof (cases rule: rollback_receipt_Inr)
    case (fresh row kind source active accepts)
    from fresh(10) show ?thesis
    proof (rule commit_rollback_Inr)
      fix db1 db2 stored event
      assume swap: "swap_pointer E (scope_digest E scope) row
          ((xa_old_binding source) \<lparr> ab_generation := sr_generation row + 1 \<rparr>) (clk 1)
          ''rollback compare-and-swap failed'' db = Inr db1"
        and used: "consume_ticket E ticket db1 = Inr db2"
        and db': "db' = db2 \<lparr> db_receipts := db_receipts db2 @ [stored],
          db_audit := db_audit db2 @ [event] \<rparr>"
      have "spent db1 tid" using swap_pointer_tables [OF swap] step_rollback(3) by (simp add: spent_def find_ticket_def)
      from spent_consume [OF used this] show ?thesis by (simp add: db' spent_def find_ticket_def)
    qed
  qed (use step_rollback(3) in simp)
qed

lemma spent_run: "store_run E db db' \<Longrightarrow> spent db tid \<Longrightarrow> spent db' tid"
  by (induction rule: store_run.induct) (auto intro: spent_step)

end
