(* ===== verification/Store_Replay.thy ===== *)
theory Store_Replay
  imports Store_Laws
begin

text \<open>
  What activation and rollback leave behind, and that the receipts they leave answer a
  repeated call.
\<close>

lemma sign_text_Inr [result_simps]:
  "sign_text E domain v = Inr text \<longleftrightarrow> (\<exists>s. sign E domain v = Inr s \<and> text = ''sha256:'' @ to_hex s)"
  by (auto simp: sign_text_def result_simps)

lemma sign_text_digest:
  assumes "env_laws E" and "sign_text E domain v = Inr text"
  shows "is_digest text"
  using assms is_digest_hex by (auto simp: result_simps sign_def env_laws_def)

section \<open>After an activation\<close>

lemma activation_valid:
  assumes "env_laws E"
    and "receipt_signature E ACTIVATE (rt_activation_unsigned receipt) = Inr (xa_signature receipt)"
    and "rt_activation_receipt_valid (receipt \<lparr> xa_signature := unsigned_digest \<rparr>)"
  shows "rt_activation_receipt_valid receipt"
  using assms(3) sign_text_digest [OF assms(1) assms(2) [unfolded receipt_signature_def]]
  by (simp add: rt_activation_receipt_valid_def)

lemma find_append: "find P (xs @ ys) = (case find P xs of None \<Rightarrow> find P ys | Some x \<Rightarrow> Some x)"
  by (induction xs) auto

lemma find_new_key:
  "key x \<notin> key ` set xs \<Longrightarrow> P x \<Longrightarrow> (\<And>y. P y \<Longrightarrow> key y = key x) \<Longrightarrow> find P (xs @ [x]) = Some x"
proof -
  assume new: "key x \<notin> key ` set xs" and P: "P x" and key: "\<And>y. P y \<Longrightarrow> key y = key x"
  have "\<not> P y" if "y \<in> set xs" for y
  proof
    assume "P y"
    from key [OF this] that new show False by (metis image_eqI)
  qed
  then have "find P xs = None" by (simp add: find_None_iff)
  with P show "find P (xs @ [x]) = Some x" by (simp add: find_append)
qed

text \<open>The receipt a commit wrote loads back as the receipt it returned.\<close>

lemma load_committed_activation:
  assumes "env_laws E" and "db_receipts db' = rows @ [stored]"
    and "ew_receipt_id stored \<notin> ew_receipt_id ` set rows"
    and "ew_receipt_id stored = xa_receipt_id receipt"
    and "ew_scope_digest stored = scope_digest E scope"
    and "ew_kind stored = ACTIVATE" and "ew_operation_id stored = xa_operation_id receipt"
    and "ew_request_digest stored = xa_request_digest receipt"
    and "ew_payload stored = se_dumps E (rt_activation_json receipt)"
    and "json_value_ok (rt_activation_json receipt)"
    and sig: "receipt_signature E ACTIVATE (rt_activation_unsigned receipt) = Inr (xa_signature receipt)"
    and "from_hex (removeprefix ''sha256:'' (xa_signature receipt)) = Some (ew_signature stored)"
    and "rt_activation_receipt_valid (receipt \<lparr> xa_signature := unsigned_digest \<rparr>)"
    and "xa_scope_digest receipt = scope_digest E scope"
  shows "load_receipt_db E db' scope (xa_receipt_id receipt) = Inr (ACTIVATE, ActivationR receipt)"
proof -
  have find: "find (\<lambda>e. ew_scope_digest e = scope_digest E scope \<and>
      ew_receipt_id e = xa_receipt_id receipt) (db_receipts db') = Some stored"
    unfolding assms(2) using assms(3-5) by (intro find_new_key [of ew_receipt_id]) auto
  have "rt_activation_receipt_valid receipt" by (rule activation_valid [OF assms(1) sig assms(13)])
  with assms(1,10) have "se_parse_activation E (ew_payload stored) = Some receipt"
    by (simp add: env_laws_def assms(9))
  moreover obtain s where "sign E ''ccs-m5-runtime-receipt/1''
      (receipt_payload ACTIVATE (rt_activation_unsigned receipt)) = Inr s"
    and "xa_signature receipt = ''sha256:'' @ to_hex s"
    using sig by (auto simp: receipt_signature_def result_simps)
  moreover from this assms(12) have "ew_signature stored = s"
    using removeprefix_append [of "''sha256:''" "to_hex s"] by simp
  ultimately show ?thesis
    using find sig assms(6-8,14) by (simp add: load_receipt_db_def)
qed

lemma fresh_activation:
  assumes "env_laws E"
    and "activate_prepared E clk uid db scope pid ticket approval validator = Inr (receipt, db')"
    and "db' \<noteq> db"
  obtains row row' prep stored rows where "load_row E db scope = Inr row"
    and "find_scope db (scope_digest E scope) = Some row" and "sr_action_state row = IDLE"
    and "load_prepared_db E NotUtc db scope pid True = Inr prep"
    and "operation_receipt db (scope_digest E scope) (pp_operation_id prep) ACTIVATE = None"
    and "find_scope db' (scope_digest E scope) = Some row'"
    and "sr_generation row' = sr_generation row + 1" and "sr_action_state row' = IDLE"
    and "sr_action_epoch row' = sr_action_epoch row"
    and "sr_active_jcs row' = se_dumps E (active_binding_json (pp_new_binding prep))"
    and "spent db' (bt_ticket_id ticket)" and "db_prepared db' = db_prepared db"
    and "db_receipts db' = db_receipts db @ [stored]"
    and "ew_scope_digest stored = scope_digest E scope"
    and "ew_operation_id stored = pp_operation_id prep" and "ew_kind stored = ACTIVATE"
    and "ew_receipt_id stored = xa_receipt_id receipt"
    and "se_parse_binding E (sr_active_jcs row) = Some (xa_old_binding receipt)"
    and "xa_new_binding receipt = pp_new_binding prep"
    and "xa_request_digest receipt = pp_request_digest prep"
    and "xa_prepared_id receipt = pp_prepared_id prep"
    and "xa_generation_before receipt = sr_generation row"
    and "load_receipt_db E db' scope (xa_receipt_id receipt) = Inr (ACTIVATE, ActivationR receipt)"
    and "json_value_ok (active_binding_json (pp_new_binding prep))"
  using assms(2)
proof (cases rule: activate_prepared_Inr)
  case (fresh row prep active accepts)
  from fresh(7) have idle: "sr_action_state row = IDLE" by (rule check_ticket_Inr)
  have none: "operation_receipt db (scope_digest E scope) (pp_operation_id prep) ACTIVATE = None"
    using fresh(3) by (auto simp: find_activation_replay_def result_simps split: option.splits)
  note row = load_row_Inr(1) [OF fresh(1)]
  from fresh(11) show ?thesis
  proof (rule commit_activation_Inr)
    fix old db1 db2 stored event
    assume c: "se_parse_binding E (sr_active_jcs row) = Some old"
      "swap_pointer E (scope_digest E scope) row (pp_new_binding prep) (clk 2)
         ''activation compare-and-swap failed'' db = Inr db1"
      "consume_ticket E ticket db1 = Inr db2"
      "db' = db2 \<lparr> db_receipts := db_receipts db2 @ [stored], db_audit := db_audit db2 @ [event] \<rparr>"
      "ew_receipt_id stored \<notin> ew_receipt_id ` set (db_receipts db2)"
      "ew_receipt_id stored = xa_receipt_id receipt" "ew_scope_digest stored = scope_digest E scope"
      "ew_operation_id stored = pp_operation_id prep" "ew_kind stored = ACTIVATE"
      "ew_request_digest stored = pp_request_digest prep"
      "ew_payload stored = se_dumps E (rt_activation_json receipt)"
      "json_value_ok (rt_activation_json receipt)"
      "receipt_signature E ACTIVATE (rt_activation_unsigned receipt) = Inr (xa_signature receipt)"
      "from_hex (removeprefix ''sha256:'' (xa_signature receipt)) = Some (ew_signature stored)"
      "rt_activation_receipt_valid (receipt \<lparr> xa_signature := unsigned_digest \<rparr>)"
      "xa_scope_digest receipt = scope_digest E scope"
      "xa_operation_id receipt = pp_operation_id prep"
      "xa_prepared_id receipt = pp_prepared_id prep"
      "xa_request_digest receipt = pp_request_digest prep" "xa_old_binding receipt = old"
      "xa_new_binding receipt = pp_new_binding prep"
      "xa_generation_before receipt = sr_generation row"
    note t1 = swap_pointer_tables [OF c(2)] and t2 = consume_ticket_scopes [OF c(3)]
    have fs: "find_scope db' = find_scope db1" using t2 by (intro find_scope_cong) (simp add: c(4))
    have spent: "spent db' (bt_ticket_id ticket)"
      using check_ticket_spends [OF fresh(7) _ c(3)] t1
      by (simp add: c(4) spent_def find_ticket_def)
    have load: "load_receipt_db E db' scope (xa_receipt_id receipt) = Inr (ACTIVATE, ActivationR receipt)"
      by (rule load_committed_activation [OF assms(1) _ c(5-7,9) _ _ c(11-16)])
        (simp_all add: c(4,8,10,17,19))
    have rcpts: "db_receipts db' = db_receipts db @ [stored]" using t1 t2 by (simp add: c(4))
    have preps: "db_prepared db' = db_prepared db" using t1 t2 by (simp add: c(4))
    have ok: "json_value_ok (active_binding_json (pp_new_binding prep))" using c(2) by (rule swap_pointer_Inr)
    from c(2) row show ?thesis
    proof (rule find_scope_swap)
      fix sig stamped
      let ?row' = "row \<lparr> sr_active_jcs := se_dumps E (active_binding_json (pp_new_binding prep)),
        sr_generation := ab_generation (pp_new_binding prep), sr_state_signature := sig,
        sr_updated_at := stamped \<rparr>"
      assume "find_scope db1 (scope_digest E scope) = Some ?row'"
      then have row': "find_scope db' (scope_digest E scope) = Some ?row'" by (simp add: fs)
      show ?thesis
        by (rule that [OF fresh(1) row idle fresh(2) none row' _ _ _ _ spent preps rcpts c(7,8,9,6)
              _ c(21,19,18,22) load ok])
          (use idle c(1,20) fresh(8) in simp_all)
    qed
  qed
qed (use assms(3) in simp)

text \<open>The action that authorised the swap, and the receipt it produced.\<close>

lemma fresh_activation_action:
  assumes "env_laws E"
    and "activate_prepared E clk uid db scope pid ticket approval validator = Inr (receipt, db')"
    and "db' \<noteq> db" and "load_row E db scope = Inr row"
  obtains a where "find_action db' (scope_digest E scope) (xa_operation_id receipt) = Some a"
    and "aw_state a = IDLE" and "aw_action_epoch a = sr_action_epoch row"
    and "aw_request_digest a = xa_request_digest receipt" and "rt_activation_receipt_valid receipt"
    and "xa_generation_after receipt = sr_generation row + 1" and "xa_receipt_id receipt = uid 0"
  using assms(2)
proof (cases rule: activate_prepared_Inr)
  case (fresh row' prep active accepts)
  have [simp]: "row' = row" using fresh(1) assms(4) by simp
  from fresh(11) show ?thesis
  proof (rule commit_activation_Inr)
    fix db1 db2 stored event
    assume c: "swap_pointer E (scope_digest E scope) row' (pp_new_binding prep) (clk 2)
         ''activation compare-and-swap failed'' db = Inr db1" "consume_ticket E ticket db1 = Inr db2"
      "db' = db2 \<lparr> db_receipts := db_receipts db2 @ [stored], db_audit := db_audit db2 @ [event] \<rparr>"
      "receipt_signature E ACTIVATE (rt_activation_unsigned receipt) = Inr (xa_signature receipt)"
      "rt_activation_receipt_valid (receipt \<lparr> xa_signature := unsigned_digest \<rparr>)"
      "xa_operation_id receipt = pp_operation_id prep" "xa_request_digest receipt = pp_request_digest prep"
      "xa_generation_after receipt = ab_generation (pp_new_binding prep)" "xa_receipt_id receipt = uid 0"
    have "find_action db' = find_action db"
      using swap_pointer_tables [OF c(1)] consume_ticket_scopes [OF c(2)]
      by (simp add: fun_eq_iff find_action_def c(3))
    moreover obtain a where "find_action db (scope_digest E scope) (bt_operation_id ticket) = Some a"
      "aw_state a = IDLE" "aw_action_epoch a = sr_action_epoch row"
      "bt_operation_id ticket = pp_operation_id prep" "aw_request_digest a = pp_request_digest prep"
      using fresh(7) by (rule check_ticket_Inr) auto
    ultimately show ?thesis
      using activation_valid [OF assms(1) c(4,5)] fresh(8) c(6-) by (intro that [of a]) simp_all
  qed
qed (use assms(3) in simp)

lemma activation_replays:
  assumes "env_laws E" and "store_inv E db"
    and "activate_prepared E clk uid db scope pid ticket approval validator = Inr (receipt, db')"
    and "db' \<noteq> db" and "startswith approval' ''sha256:''"
  shows "activate_prepared E clk' uid' db' scope pid ticket' approval' validator' = Inr (receipt, db')"
  using assms(1,3,4)
proof (rule fresh_activation)
  fix row row' prep stored
  assume f: "load_prepared_db E NotUtc db scope pid True = Inr prep"
    "operation_receipt db (scope_digest E scope) (pp_operation_id prep) ACTIVATE = None"
    "find_scope db' (scope_digest E scope) = Some row'" "db_prepared db' = db_prepared db"
    "db_receipts db' = db_receipts db @ [stored]" "ew_scope_digest stored = scope_digest E scope"
    "ew_operation_id stored = pp_operation_id prep" "ew_kind stored = ACTIVATE"
    "ew_receipt_id stored = xa_receipt_id receipt"
    "xa_request_digest receipt = pp_request_digest prep"
    "xa_prepared_id receipt = pp_prepared_id prep"
    "load_receipt_db E db' scope (xa_receipt_id receipt) = Inr (ACTIVATE, ActivationR receipt)"
  have inv: "store_inv E db'" by (rule inv_activate [OF assms(1,2,3)])
  have load: "load_row E db' scope = Inr row'" by (rule load_row_available [OF inv f(3)])
  have prep: "load_prepared_db E NotUtc db' scope pid True = Inr prep"
    using f(1) by (simp add: load_prepared_db_def f(4))
  have "operation_receipt db' (scope_digest E scope) (pp_operation_id prep) ACTIVATE = Some stored"
    using f(2,6-8) by (simp add: operation_receipt_def f(5) find_append)
  then have "find_activation_replay E db' scope prep = Inr (Some receipt)"
    using f(9-12) by (simp add: find_activation_replay_def)
  with load prep assms(5) show ?thesis by (simp add: activate_prepared_def Let_def)
qed

section \<open>After a rollback\<close>

lemma fresh_rollback:
  assumes "rollback_receipt E clk uid db scope rid ticket validator = Inr (rb, db')" and "db' \<noteq> db"
  obtains row row' kind source where "load_row E db scope = Inr row"
    and "load_receipt_db E db scope rid = Inr (kind, ActivationR source)"
    and "sr_generation row = xa_generation_after source" and "sr_action_state row = IDLE"
    and "find_scope db (scope_digest E scope) = Some row"
    and "find_scope db' (scope_digest E scope) = Some row'"
    and "sr_generation row' = sr_generation row + 1" and "sr_action_state row' = IDLE"
    and "sr_active_jcs row' = se_dumps E (active_binding_json
           ((xa_old_binding source) \<lparr> ab_generation := sr_generation row + 1 \<rparr>))"
    and "json_value_ok (active_binding_json
           ((xa_old_binding source) \<lparr> ab_generation := sr_generation row + 1 \<rparr>))"
    and "active_binding_valid ((xa_old_binding source) \<lparr> ab_generation := sr_generation row + 1 \<rparr>)"
    and "spent db' (bt_ticket_id ticket)"
    and "xr_restored_binding rb = (xa_old_binding source) \<lparr> ab_generation := sr_generation row + 1 \<rparr>"
  using assms(1)
proof (cases rule: rollback_receipt_Inr)
  case (fresh row kind source active accepts)
  from fresh(7) have idle: "sr_action_state row = IDLE" by (rule check_ticket_Inr)
  note row = load_row_Inr(1) [OF fresh(1)]
  let ?b = "(xa_old_binding source) \<lparr> ab_generation := sr_generation row + 1 \<rparr>"
  from fresh(10) show ?thesis
  proof (rule commit_rollback_Inr)
    fix db1 db2 stored event
    assume c: "swap_pointer E (scope_digest E scope) row ?b (clk 1)
         ''rollback compare-and-swap failed'' db = Inr db1"
      "consume_ticket E ticket db1 = Inr db2"
      "db' = db2 \<lparr> db_receipts := db_receipts db2 @ [stored], db_audit := db_audit db2 @ [event] \<rparr>"
      and valid: "rt_rollback_receipt_valid (rb \<lparr> xr_signature := unsigned_digest \<rparr>)"
      and restored: "xr_restored_binding rb = ?b"
    note t1 = swap_pointer_tables [OF c(1)] and t2 = consume_ticket_scopes [OF c(2)]
    have fs: "find_scope db' = find_scope db1" using t2 by (intro find_scope_cong) (simp add: c(3))
    have spent: "spent db' (bt_ticket_id ticket)"
      using check_ticket_spends [OF fresh(7) _ c(2)] t1
      by (simp add: c(3) spent_def find_ticket_def)
    have bv: "active_binding_valid (xr_restored_binding rb)"
      using valid by (simp add: rt_rollback_receipt_valid_def)
    have ok: "json_value_ok (active_binding_json ?b)" using c(1) by (rule swap_pointer_Inr)
    from c(1) row show ?thesis
    proof (rule find_scope_swap)
      fix sig stamped
      let ?row' = "row \<lparr> sr_active_jcs := se_dumps E (active_binding_json ?b),
        sr_generation := ab_generation ?b, sr_state_signature := sig, sr_updated_at := stamped \<rparr>"
      assume "find_scope db1 (scope_digest E scope) = Some ?row'"
      then have row': "find_scope db' (scope_digest E scope) = Some ?row'" by (simp add: fs)
      show ?thesis
        by (rule that [OF fresh(1,2,4) idle row row' _ _ _ ok bv [unfolded restored] spent restored])
          (use idle in simp_all)
    qed
  qed
qed (use assms(2) in simp)

end
