(* ===== verification/Store_Liveness.thy ===== *)
theory Store_Liveness
  imports Store_Replay
begin

text \<open>
  Operations succeed when their guards hold: one lemma per operation with the conditions
  under which it commits, for a composition whose clock reads UTC and whose fresh
  identifiers are fresh. Together they carry a scope from bootstrap to an activated
  replacement.
\<close>

text \<open>\<open>datetime.fromisoformat\<close> reads back what \<open>isoformat\<close> wrote.\<close>

definition iso_laws :: "store_env \<Rightarrow> bool" where
  "iso_laws E \<longleftrightarrow> (\<forall>t. se_fromisoformat E (se_isoformat E t @ ''+00:00'') = Some t)"

definition exact_int :: "int \<Rightarrow> bool" where
  "exact_int i \<longleftrightarrow> \<bar>i\<bar> \<le> 2 ^ 53 - 1"

lemma json_ok_int [simp]: "json_value_ok (JInt i) = exact_int i"
  by (simp add: exact_int_def)

declare json_value_ok.simps(1) [simp del]

lemma exact_int_small [simp]: "exact_int 0" "exact_int 1"
  by (simp_all add: exact_int_def)

lemma json_ok_opt [simp]: "json_value_ok (json_opt f x) \<longleftrightarrow> (\<forall>y. x = Some y \<longrightarrow> json_value_ok (f y))"
  by (cases x) (simp_all add: json_opt_def)

lemma jcs_ok [simp]: "json_value_ok v \<Longrightarrow> jcs E v = Inr (se_dumps E v)"
  by (simp add: jcs_def canonical_json_bytes_def)

lemma sign_ok: "json_value_ok v \<Longrightarrow> \<exists>s. sign E domain v = Inr s"
  by (simp add: sign_def)

lemma json_ok_scope [simp]: "json_value_ok (runtime_scope_json s)"
  by (simp add: runtime_scope_json_def)

lemma json_ok_binding [simp]:
  "json_value_ok (active_binding_json b) \<longleftrightarrow> exact_int (ab_generation b)"
  by (simp add: active_binding_json_def capsule_ref_json_def)

lemma binding_digest_ok:
  "exact_int (ab_generation b) \<Longrightarrow>
     binding_digest E b = Inr (digest_bytes E (se_dumps E (active_binding_json b)))"
  by (simp add: binding_digest_def json_digest_def)

lemma state_signature_ok:
  "exact_int g \<Longrightarrow> exact_int n \<Longrightarrow> \<exists>s. state_signature E sd sj aj g st n cur = Inr s"
  by (simp add: state_signature_def sign_def)

lemma state_signature_range:
  "state_signature E sd sj aj g st n cur = Inr s \<Longrightarrow> exact_int g \<and> exact_int n"
  by (auto simp: state_signature_def sign_def result_simps)

lemma action_signature_ok:
  "exact_int n \<Longrightarrow> (case outcome of None \<Rightarrow> od = None | Some o' \<Rightarrow> od = Some (digest_bytes E o')) \<Longrightarrow>
     \<exists>s. action_signature E sd op req n st od outcome = Inr s"
  by (auto simp: action_signature_def sign_def split: option.splits)

lemma audit_ok:
  assumes "json_value_ok payload" and "eid \<notin> uw_event_id ` set (db_audit db)"
  shows "\<exists>db'. audit E db sd kind payload eid (Utc t) = Inr db'"
  using assms by (simp add: audit_def sign_def stamp_def insert_row_def)

lemma verify_row_range:
  assumes "verify_row E r = Inr ()"
  shows "exact_int (sr_generation r)" and "exact_int (sr_action_epoch r)"
  using assms state_signature_range
  by (fastforce simp: verify_row_def result_simps split: option.splits if_splits)+

lemma verify_row_binding:
  assumes "verify_row E r = Inr ()"
  obtains b where "se_parse_binding E (sr_active_jcs r) = Some b"
    and "ab_generation b = sr_generation r"
proof -
  from assms show ?thesis
    using that by (auto simp: verify_row_def split: option.splits if_splits)
qed

section \<open>Bootstrap\<close>

lemma issue_bootstrap_succeeds:
  assumes "se_binding_validator E = Some accepts" and "\<And>i. accepts i scope b"
    and "exact_int (ab_generation b)"
  shows "\<exists>prf. issue_bootstrap E (\<lambda>i. Utc (t i)) scope b = Inr prf \<and>
    verify_bootstrap E scope b prf = Inr ()"
  using assms
  by (auto simp: issue_bootstrap_def validate_binding_def stamp_def binding_digest_ok Let_def
      sign_text_def sign_def bootstrap_payload_def verify_bootstrap_def)

lemma initialize_succeeds:
  assumes "se_binding_validator E = Some accepts" and "\<And>i. accepts i scope b"
    and "ab_generation b = 0" and "verify_bootstrap E scope b prf = Inr ()"
    and "find_scope db (scope_digest E scope) = None"
    and "uid 0 \<notin> uw_event_id ` set (db_audit db)"
  shows "\<exists>db'. initialize E (\<lambda>i. Utc (t i)) uid db scope b prf = Inr (b, db')"
proof -
  have new: "scope_digest E scope \<notin> sr_scope_digest ` set (db_scopes db)"
    using assms(5) by (auto simp: find_scope_def find_None_iff)
  show ?thesis
    using assms new
    by (auto simp: initialize_def validate_binding_def Let_def state_signature_def sign_def stamp_def
        insert_row_def binding_digest_ok audit_def safe_db_call_def)
qed

section \<open>Actions\<close>

lemma begin_succeeds:
  assumes "store_inv E db" and "find_scope db (scope_digest E scope) = Some r"
    and "sr_action_state r = IDLE" and "find_action db (scope_digest E scope) op = None"
    and "op \<noteq> []" and "is_digest req" and "exact_int (sr_action_epoch r + 1)"
    and "uid 0 \<notin> uw_event_id ` set (db_audit db)"
  shows "\<exists>lease db'. begin_action E (\<lambda>i. Utc (t i)) uid db scope op req = Inr (lease, db')"
proof -
  have load: "load_row E db scope = Inr r" by (rule load_row_available [OF assms(1,2)])
  have gen: "exact_int (sr_generation r)" by (rule verify_row_range [OF load_row_Inr(2) [OF load]])
  have new: "(scope_digest E scope, op) \<notin> (\<lambda>a. (aw_scope_digest a, aw_operation_id a)) ` set (db_actions db)"
    using assms(4) by (simp only: find_action_None not_False_eq_True)
  show ?thesis
    using assms(3-) load gen new
    by (auto simp: begin_action_def Let_def state_signature_def sign_def stamp_def insert_row_def
        action_signature_def audit_def safe_db_call_def update_scope_def)
qed

lemma end_succeeds:
  assumes "store_inv E db" and "find_scope db (scope_digest E scope) = Some r"
    and "find_action db (scope_digest E scope) (al_operation_id lease) = Some a"
    and "sr_action_state r = RUNNING" and "sr_current_operation_id r = Some (al_operation_id lease)"
    and "sr_action_epoch r = al_action_epoch lease" and "aw_state a = RUNNING"
    and "aw_action_epoch a = al_action_epoch lease"
    and "aw_request_digest a = al_request_digest lease"
    and "al_scope_digest lease = scope_digest E scope" and "al_state lease = RUNNING"
    and "\<not> al_replayed lease" and "uid 0 \<notin> uw_event_id ` set (db_audit db)"
  shows "\<exists>db'. end_action E (\<lambda>i. Utc (t i)) uid db scope lease uncertain outcome = Inr ((), db')"
proof -
  have load: "load_row E db scope = Inr r" by (rule load_row_available [OF assms(1,2)])
  note range = verify_row_range [OF load_row_Inr(2) [OF load]]
  show ?thesis
    using assms(3-) load range
    by (auto simp: end_action_def Let_def state_signature_def sign_def stamp_def insert_row_def
        action_signature_def audit_def safe_db_call_def update_scope_def update_action_def)
qed

section \<open>Tickets and preparations\<close>

lemma ticket_fields_ok [simp]:
  "(\<forall>f \<in> set (ticket_fields t). json_value_ok (snd f)) \<longleftrightarrow>
     exact_int (bt_expected_generation t) \<and> exact_int (bt_action_epoch t)"
  by (auto simp: ticket_fields_def)

lemma removeprefix_digest [simp]:
  "removeprefix ''sha256:'' (CHR ''s'' # CHR ''h'' # CHR ''a'' # CHR ''2'' # CHR ''5'' # CHR ''6'' #
     CHR '':'' # text) = text"
  by (simp add: removeprefix_def startswith_def)

lemma reserve_succeeds:
  assumes "store_inv E db" and "find_scope db (scope_digest E scope) = Some r"
    and "find_action db (scope_digest E scope) op = Some a" and "op \<noteq> []"
    and "sr_action_state r = IDLE" and "aw_state a = IDLE"
    and "aw_action_epoch a = sr_action_epoch r" and "0 < ttl" and "ttl \<le> 600000000"
    and "uid 0 \<notin> tw_ticket_id ` set (db_tickets db)"
    and "uid 1 \<notin> uw_event_id ` set (db_audit db)"
  shows "\<exists>ticket db'. reserve_boundary E (\<lambda>i. Utc (t i)) uid db scope op (sr_generation r) ttl =
    Inr (ticket, db')"
proof -
  have load: "load_row E db scope = Inr r" by (rule load_row_available [OF assms(1,2)])
  note range = verify_row_range [OF load_row_Inr(2) [OF load]]
  show ?thesis
    using assms(3-) load range
    by (auto simp: reserve_boundary_def Let_def ticket_signature_def sign_text_def sign_def
        ticket_record_signature_def ticket_fields_def stamp_def insert_row_def audit_def
        safe_db_call_def)
qed

lemma prepared_json_ok [simp]:
  "json_value_ok (prepared_replacement_json p) \<longleftrightarrow>
     exact_int (ab_generation (pp_old_binding p)) \<and> exact_int (ab_generation (pp_new_binding p))"
  by (simp add: prepared_replacement_json_def)

text \<open>A prepared replacement loads back as it was saved.\<close>

lemma save_succeeds:
  assumes "store_inv E db" and "find_scope db (pp_scope_digest p) = Some r"
    and "exact_int (ab_generation (pp_old_binding p))"
    and "exact_int (ab_generation (pp_new_binding p))"
    and "pp_prepared_id p \<notin> pw_prepared_id ` set (db_prepared db)"
  shows "\<exists>db'. save_prepared E db p = Inr ((), db')"
proof -
  note r = find_scope_digest [OF assms(2)]
  then have "verify_row E r = Inr ()" using assms(1) by (simp add: store_inv_def scope_inv_def)
  then obtain scope where scope: "se_parse_scope E (sr_scope_jcs r) = Some scope"
    and sd: "scope_digest E scope = pp_scope_digest p"
    using r by (auto simp: verify_row_def split: option.splits if_splits)
  then have "load_row E db scope = Inr r" using load_row_available [OF assms(1)] assms(2) by simp
  with assms(2-) scope show ?thesis
    by (auto simp: save_prepared_def Let_def prepared_signature_def sign_def insert_row_def
        safe_db_call_def)
qed

lemma saved_loads:
  assumes "env_laws E" and "prepared_replacement_valid p"
    and "pp_scope_digest p = scope_digest E scope" and "save_prepared E db p = Inr (u, db')"
  shows "load_prepared_db E now db' scope (pp_prepared_id p) True = Inr p"
  using assms(4)
proof (rule save_prepared_Inr)
  fix stored
  assume s: "db' = db \<lparr> db_prepared := db_prepared db @ [stored] \<rparr>"
    "pw_prepared_id stored = pp_prepared_id p" "pw_scope_digest stored = pp_scope_digest p"
    "pw_payload stored = se_dumps E (prepared_replacement_json p)"
    "json_value_ok (prepared_replacement_json p)"
    "pw_digest stored = digest_bytes E (pw_payload stored)"
    "prepared_signature E (pp_prepared_id p) (pp_scope_digest p) (pp_operation_id p)
       (pp_expires_at p) (pw_digest stored) = Inr (pw_signature stored)"
    "pw_prepared_id stored \<notin> pw_prepared_id ` set (db_prepared db)"
  have find: "find (\<lambda>q. pw_scope_digest q = scope_digest E scope \<and>
      pw_prepared_id q = pp_prepared_id p) (db_prepared db') = Some stored"
    using s(2,3,8) assms(3) unfolding s(1)
    by (simp, intro find_new_key [of pw_prepared_id]) auto
  have "se_parse_prepared E (pw_payload stored) = Some p"
    using assms(1,2) s(5) by (simp add: env_laws_def s(4))
  with find s(2-7) assms(3) show ?thesis
    by (simp add: load_prepared_db_def prepared_digest_def json_digest_def)
qed

section \<open>Activation\<close>

lemma stamp_reads:
  "iso_laws E \<Longrightarrow> parse_stamp E (se_isoformat E t @ ''Z'') = Inr t"
  using removesuffix_append [of "''Z''" "se_isoformat E t"] by (simp add: parse_stamp_def iso_laws_def)

lemma not_expired:
  "iso_laws E \<Longrightarrow> parse_stamp E stamped = Inr limit \<Longrightarrow> t < limit \<Longrightarrow> expired E (Utc t) stamped = Inr False"
  by (simp add: expired_def stamp_def stamp_reads)

text \<open>A ticket that was just reserved passes the check until it expires.\<close>

lemma reserved_ticket_checks:
  assumes "iso_laws E"
    and "reserve_boundary E (\<lambda>i. Utc (t i)) uid db scope op g ttl = Inr (ticket, db')"
    and "load_row E db scope = Inr row" and "now < t 0 + ttl"
    and "find_action db (scope_digest E scope) op = Some a"
    and "db_tickets db'' = db_tickets db'" and "db_actions db'' = db_actions db'"
  shows "check_ticket_db E (Utc now) db'' scope ticket row (Some op) (Some (aw_request_digest a)) = Inr ()"
  using assms(2)
proof (rule reserve_boundary_Inr)
  fix row' action stored event
  assume s: "load_row E db scope = Inr row'"
    "db' = db \<lparr> db_tickets := db_tickets db @ [stored], db_audit := db_audit db @ [event] \<rparr>"
    "sr_action_state row' = IDLE" "sr_generation row' = g"
    "find_action db (scope_digest E scope) op = Some action" "aw_state action = IDLE"
    "aw_action_epoch action = sr_action_epoch row'"
    "bt_ticket_id ticket = uid 0" "bt_scope_digest ticket = scope_digest E scope"
    "bt_expected_generation ticket = g" "bt_action_epoch ticket = sr_action_epoch row'"
    "bt_operation_id ticket = op" "ticket_signature E ticket = Inr (bt_signature ticket)"
    "ticket_record_signature E ticket False = Inr (tw_record_signature stored)"
    "tw_ticket_id stored = uid 0" "\<not> tw_consumed stored"
    "tw_ticket_id stored \<notin> tw_ticket_id ` set (db_tickets db)"
    "stamp E (clock_plus (Utc (t 0)) ttl) = Inr (bt_expires_at ticket)"
    "tw_scope_digest stored = bt_scope_digest ticket"
    "tw_expected_generation stored = g" "tw_action_epoch stored = sr_action_epoch row'"
    "tw_operation_id stored = op" "tw_expires_at stored = bt_expires_at ticket"
    "from_hex (removeprefix ''sha256:'' (bt_signature ticket)) = Some (tw_signature stored)"
  have [simp]: "row' = row" "action = a" using s(1,5) assms(3,5) by simp_all
  have find: "find (\<lambda>t. tw_ticket_id t = bt_ticket_id ticket) (db_tickets db'') = Some stored"
    using s(8,15,17) unfolding assms(6) s(2)
    by (simp, intro find_new_key [of tw_ticket_id]) auto
  have act: "find_action db'' (scope_digest E scope) op = Some a"
    using assms(5,7) s(2) by (simp add: find_action_def)
  have "bt_expires_at ticket = se_isoformat E (t 0 + ttl) @ ''Z''" using s(18) by (simp add: stamp_def)
  then have "expired E (Utc now) (bt_expires_at ticket) = Inr False"
    using not_expired [OF assms(1) stamp_reads [OF assms(1)] assms(4)] by simp
  with find act s(3-16) s(19-) show ?thesis by (simp add: check_ticket_db_def)
qed

lemma one_row:
  assumes "distinct (map key xs)" and "x \<in> set xs" and "P x" and "\<And>y. P y \<Longrightarrow> key y = key x"
  shows "length (filter P xs) = 1"
proof -
  have "filter P xs = [x]"
  proof (rule distinct_set_single)
    show "distinct (filter P xs)" using assms(1) by (simp add: distinct_map)
    show "set (filter P xs) = {x}"
      using assms by (auto simp: distinct_map dest: inj_onD)
  qed
  then show ?thesis by simp
qed

lemma consume_succeeds:
  assumes "store_inv E db" and "check_ticket_db E now db scope ticket row eop ereq = Inr ()"
    and "db_tickets db1 = db_tickets db"
  shows "\<exists>db2. consume_ticket E ticket db1 = Inr db2"
  using assms(2)
proof (rule check_ticket_Inr)
  fix stored
  assume s: "find (\<lambda>t. tw_ticket_id t = bt_ticket_id ticket) (db_tickets db) = Some stored"
    "\<not> tw_consumed stored" "ticket_record_signature E ticket False = Inr (tw_record_signature stored)"
  have "length (filter (\<lambda>t. tw_ticket_id t = bt_ticket_id ticket \<and> \<not> tw_consumed t \<and>
      tw_record_signature t = tw_record_signature stored) (db_tickets db1)) = 1"
    using assms(1,3) s find_SomeD [OF s(1)]
    by (intro one_row [of tw_ticket_id _ stored]) (auto simp: store_inv_def)
  moreover have "\<exists>sig. ticket_record_signature E ticket True = Inr sig"
    using s(3) by (auto simp: ticket_record_signature_def sign_def result_simps ball_Un)
  ultimately show ?thesis using s(3) by (auto simp: consume_ticket_def)
qed

lemma swap_succeeds:
  assumes "store_inv E db" and "find_scope db sd = Some row" and "exact_int (ab_generation b)"
  shows "\<exists>db1. swap_pointer E sd row b (Utc t) failure db = Inr db1"
proof -
  have row: "row \<in> set (db_scopes db)" "sr_scope_digest row = sd" using find_scope_digest [OF assms(2)] by simp_all
  have "scope_inv E db row" using assms(1) row(1) by (simp add: store_inv_def)
  then have "exact_int (sr_action_epoch row)" by (simp add: scope_inv_def verify_row_range [of E])
  moreover have "length (filter (\<lambda>r. sr_scope_digest r = sd \<and> sr_generation r = sr_generation row)
      (db_scopes db)) = 1"
    using assms(1) row by (intro one_row [of sr_scope_digest _ row]) (auto simp: store_inv_def)
  ultimately show ?thesis
    using assms(3) by (auto simp: swap_pointer_def state_signature_def sign_def stamp_def)
qed

lemma scope_digest_is_digest: "env_laws E \<Longrightarrow> is_digest (scope_digest E scope)"
  using is_digest_hex by (simp add: scope_digest_def digest_bytes_def env_laws_def)

lemma unsigned_is_digest: "is_digest unsigned_digest"
  by (simp add: is_digest_def unsigned_digest_def)

lemma commit_activation_succeeds:
  assumes "env_laws E" and "store_inv E db" and "find_scope db (scope_digest E scope) = Some row"
    and "prepared_replacement_valid p" and "se_parse_binding E (sr_active_jcs row) = Some (pp_old_binding p)"
    and "check_ticket_db E now db scope ticket row eop ereq = Inr ()" and "bt_ticket_id ticket \<noteq> []"
    and "is_digest approval" and "exact_int (ab_generation (pp_new_binding p))"
    and "uid 0 \<notin> ew_receipt_id ` set (db_receipts db)" and "uid 0 \<noteq> []"
    and "uid 1 \<notin> uw_event_id ` set (db_audit db)"
  shows "\<exists>receipt db'. commit_activation E (\<lambda>i. Utc (t i)) uid db (scope_digest E scope) row p
    ticket approval = Inr (receipt, db')"
proof -
  have "scope_inv E db row"
    using assms(2) find_scope_digest [OF assms(3)] by (simp add: store_inv_def)
  then have gen: "ab_generation (pp_old_binding p) = sr_generation row" "exact_int (sr_generation row)"
    using verify_row_binding verify_row_range(1) assms(5) by (fastforce simp: scope_inv_def)+
  obtain db1 where swap: "swap_pointer E (scope_digest E scope) row (pp_new_binding p) (Utc (t 2))
      ''activation compare-and-swap failed'' db = Inr db1"
    using swap_succeeds [OF assms(2,3,9)] by blast
  note t1 = swap_pointer_tables [OF swap]
  obtain db2 where used: "consume_ticket E ticket db1 = Inr db2"
    using consume_succeeds [OF assms(2,6)] t1 by blast
  note t2 = consume_ticket_scopes [OF used]
  show ?thesis
    using assms(4,7-12) gen scope_digest_is_digest [OF assms(1)] unsigned_is_digest t1 t2
    by (simp add: commit_activation_def assms(5) swap used Let_def rt_activation_receipt_valid_def
        prepared_replacement_valid_def active_binding_valid_def receipt_signature_def
        receipt_payload_def rt_activation_unsigned_def rt_activation_json_def sign_text_def sign_def
        stamp_def insert_row_def audit_def)
qed

lemma activate_succeeds:
  assumes "env_laws E" and "iso_laws E" and "store_inv E db"
    and "find_scope db (scope_digest E scope) = Some row"
    and "load_prepared_db E NotUtc db scope pid True = Inr p" and "prepared_replacement_valid p"
    and "operation_receipt db (scope_digest E scope) (pp_operation_id p) ACTIVATE = None"
    and "parse_stamp E (pp_expires_at p) = Inr limit" and "t 0 < limit"
    and "se_parse_binding E (sr_active_jcs row) = Some (pp_old_binding p)"
    and "check_ticket_db E (Utc (t 1)) db scope ticket row (Some (pp_operation_id p))
           (Some (pp_request_digest p)) = Inr ()" and "bt_ticket_id ticket \<noteq> []"
    and "is_digest approval" and "accepts p approval"
    and "exact_int (ab_generation (pp_new_binding p))"
    and "uid 0 \<notin> ew_receipt_id ` set (db_receipts db)" and "uid 0 \<noteq> []"
    and "uid 1 \<notin> uw_event_id ` set (db_audit db)"
  shows "\<exists>receipt db'. activate_prepared E (\<lambda>i. Utc (t i)) uid db scope pid ticket approval
    (Some accepts) = Inr (receipt, db') \<and> db' \<noteq> db"
proof -
  have load: "load_row E db scope = Inr row" by (rule load_row_available [OF assms(3,4)])
  have "scope_inv E db row"
    using assms(3) find_scope_digest [OF assms(4)] by (simp add: store_inv_def)
  then have gen: "ab_generation (pp_old_binding p) = sr_generation row" "exact_int (sr_generation row)"
    using verify_row_binding verify_row_range(1) assms(10) by (fastforce simp: scope_inv_def)+
  have late: "expired E (Utc (t 0)) (pp_expires_at p) = Inr False"
    by (rule not_expired [OF assms(2,8,9)])
  have prefix: "startswith approval ''sha256:''"
    using assms(13) by (simp add: is_digest_def startswith_def eval_nat_numeral)
  obtain receipt db' where commit: "commit_activation E (\<lambda>i. Utc (t i)) uid db (scope_digest E scope)
      row p ticket approval = Inr (receipt, db')"
    using commit_activation_succeeds [where t = t and uid = uid, OF assms(1,3,4,6,10,11,12,13,15-18)]
    by blast
  have "db' \<noteq> db"
    using commit
  proof (rule commit_activation_Inr)
    fix db1 db2 stored event
    assume c: "swap_pointer E (scope_digest E scope) row (pp_new_binding p) (Utc (t 2))
         ''activation compare-and-swap failed'' db = Inr db1" "consume_ticket E ticket db1 = Inr db2"
      "db' = db2 \<lparr> db_receipts := db_receipts db2 @ [stored], db_audit := db_audit db2 @ [event] \<rparr>"
    have "db_receipts db' = db_receipts db @ [stored]"
      using swap_pointer_tables [OF c(1)] consume_ticket_scopes [OF c(2)] by (simp add: c(3))
    then show ?thesis by auto
  qed
  moreover have "ab_generation (pp_new_binding p) = sr_generation row + 1"
    using assms(6) gen by (simp add: prepared_replacement_valid_def)
  ultimately show ?thesis
    using load assms(5,7,10,11,14) late prefix gen commit
    by (simp add: activate_prepared_def Let_def find_activation_replay_def binding_digest_ok
        authorize_activation_def)
qed

section \<open>Rollback\<close>

lemma commit_rollback_succeeds:
  assumes "env_laws E" and "store_inv E db" and "find_scope db (scope_digest E scope) = Some row"
    and "rt_activation_receipt_valid source" and "0 \<le> sr_generation row"
    and "check_ticket_db E now db scope ticket row eop ereq = Inr ()" and "bt_ticket_id ticket \<noteq> []"
    and "exact_int (sr_generation row + 1)"
    and "uid 0 \<notin> ew_receipt_id ` set (db_receipts db)" and "uid 0 \<noteq> []"
    and "uid 1 \<notin> uw_event_id ` set (db_audit db)"
  shows "\<exists>rb db'. commit_rollback E (\<lambda>i. Utc (t i)) uid db (scope_digest E scope) row source ticket =
    Inr (rb, db')"
proof -
  let ?b = "(xa_old_binding source) \<lparr> ab_generation := sr_generation row + 1 \<rparr>"
  have "scope_inv E db row"
    using assms(2) find_scope_digest [OF assms(3)] by (simp add: store_inv_def)
  then have gen: "exact_int (sr_generation row)" by (simp add: scope_inv_def verify_row_range [of E])
  obtain db1 where swap: "swap_pointer E (scope_digest E scope) row ?b (Utc (t 1))
      ''rollback compare-and-swap failed'' db = Inr db1"
    using swap_succeeds [OF assms(2,3), of ?b] assms(8) by auto
  note t1 = swap_pointer_tables [OF swap]
  obtain db2 where used: "consume_ticket E ticket db1 = Inr db2"
    using consume_succeeds [OF assms(2,6)] t1 by blast
  note t2 = consume_ticket_scopes [OF used]
  show ?thesis
    using assms(4,5,7-11) gen scope_digest_is_digest [OF assms(1)] unsigned_is_digest t1 t2
    by (simp add: commit_rollback_def swap [simplified] used Let_def rt_activation_receipt_valid_def
        rt_rollback_receipt_valid_def active_binding_valid_def receipt_signature_def
        receipt_payload_def rt_rollback_unsigned_def rt_rollback_json_def sign_text_def sign_def
        stamp_def insert_row_def audit_def)
qed

lemma rollback_succeeds:
  assumes "env_laws E" and "store_inv E db" and "find_scope db (scope_digest E scope) = Some row"
    and "load_receipt_db E db scope rid = Inr (kind, ActivationR source)"
    and "rt_activation_receipt_valid source"
    and "operation_receipt db (scope_digest E scope) (xa_operation_id source) ROLLBACK = None"
    and "sr_generation row = xa_generation_after source"
    and "se_parse_binding E (sr_active_jcs row) = Some (xa_new_binding source)"
    and "check_ticket_db E (Utc (t 0)) db scope ticket row (Some (xa_operation_id source))
           (Some (xa_request_digest source)) = Inr ()" and "bt_ticket_id ticket \<noteq> []"
    and "accepts source" and "exact_int (sr_generation row + 1)"
    and "uid 0 \<notin> ew_receipt_id ` set (db_receipts db)" and "uid 0 \<noteq> []"
    and "uid 1 \<notin> uw_event_id ` set (db_audit db)"
  shows "\<exists>rb db'. rollback_receipt E (\<lambda>i. Utc (t i)) uid db scope rid ticket (Some accepts) =
    Inr (rb, db') \<and> db' \<noteq> db"
proof -
  have load: "load_row E db scope = Inr row" by (rule load_row_available [OF assms(2,3)])
  have gen: "exact_int (sr_generation row)" by (rule verify_row_range [OF load_row_Inr(2) [OF load]])
  have new: "0 \<le> sr_generation row" "ab_generation (xa_new_binding source) = sr_generation row"
    using assms(5,7) by (simp_all add: rt_activation_receipt_valid_def)
  obtain rb db' where commit: "commit_rollback E (\<lambda>i. Utc (t i)) uid db (scope_digest E scope) row source
      ticket = Inr (rb, db')"
    using commit_rollback_succeeds [where t = t and uid = uid, OF assms(1-3,5) new(1) assms(9,10,12-15)]
    by blast
  have "db' \<noteq> db"
    using commit
  proof (rule commit_rollback_Inr)
    fix db1 db2 stored event
    assume c: "swap_pointer E (scope_digest E scope) row
        ((xa_old_binding source) \<lparr> ab_generation := sr_generation row + 1 \<rparr>) (Utc (t 1))
        ''rollback compare-and-swap failed'' db = Inr db1" "consume_ticket E ticket db1 = Inr db2"
      "db' = db2 \<lparr> db_receipts := db_receipts db2 @ [stored], db_audit := db_audit db2 @ [event] \<rparr>"
    have "db_receipts db' = db_receipts db @ [stored]"
      using swap_pointer_tables [OF c(1)] consume_ticket_scopes [OF c(2)] by (simp add: c(3))
    then show ?thesis by auto
  qed
  with load assms(4,6-9,11) gen new commit show ?thesis
    by (simp add: rollback_receipt_def Let_def binding_digest_ok)
qed

end
