(* ===== verification/Approvals.thy ===== *)
theory Approvals
  imports Store_Liveness
begin

text \<open>
  Approval envelopes (\<^verbatim>\<open>validate/approvals.py\<close>): issuing and verifying a signed approval
  for one domain, operation and subject within a time window. The verifier holds the
  authority's key; hashing, the JCS encoder and ISO texts are those of the environment.
  The operations of the execution domain, \<open>verify_execution\<close> and \<open>issue_execution\<close>, are in
  Contracts, beside the subject they approve.
\<close>

datatype approval_domain = Execution | Activation

fun approval_domain_text :: "approval_domain \<Rightarrow> pystr" where
  "approval_domain_text Execution = ''execution''"
| "approval_domain_text Activation = ''activation''"

record approval =
  av_issuer :: pystr
  av_domain :: approval_domain
  av_operation_id :: pystr
  av_subject :: pystr
  av_issued_at :: pystr
  av_expires_at :: pystr
  av_synthetic :: bool
  av_signature :: pystr

datatype approval_error = ApprovalError pystr | ApprovalValidation

type_synonym 'a approval_result = "approval_error + 'a"

text \<open>\<open>TimestampString\<close>: the pattern, and \<open>_valid_timestamp\<close>.\<close>

definition timestamp_valid :: "store_env \<Rightarrow> pystr \<Rightarrow> bool" where
  "timestamp_valid E s \<longleftrightarrow> is_rfc3339 s \<and> se_fromisoformat E (removesuffix ''Z'' s @ ''+00:00'') \<noteq> None"

definition approval_valid :: "store_env \<Rightarrow> approval \<Rightarrow> bool" where
  "approval_valid E a \<longleftrightarrow> av_issuer a \<noteq> [] \<and> av_operation_id a \<noteq> [] \<and> is_digest (av_subject a) \<and>
     timestamp_valid E (av_issued_at a) \<and> timestamp_valid E (av_expires_at a) \<and>
     is_digest (av_signature a)"

definition approval_unsigned :: "approval \<Rightarrow> (pystr \<times> json) list" where
  "approval_unsigned a =
     [(''issuer'', JStr (av_issuer a)), (''domain'', JStr (approval_domain_text (av_domain a))),
      (''operation_id'', JStr (av_operation_id a)), (''subject'', JStr (av_subject a)),
      (''issued_at'', JStr (av_issued_at a)), (''expires_at'', JStr (av_expires_at a)),
      (''synthetic'', JBool (av_synthetic a))]"

definition approval_json :: "approval \<Rightarrow> json" where
  "approval_json a = JObj (approval_unsigned a @ [(''signature'', JStr (av_signature a))])"

definition approval_utc :: "store_env \<Rightarrow> clock_value \<Rightarrow> pystr approval_result" where
  "approval_utc E value = (case value of
      NotUtc \<Rightarrow> Inl (ApprovalError ''explicit UTC clock required'')
    | Utc t \<Rightarrow> Inr (se_isoformat E t @ ''Z''))"

definition approval_parse_utc :: "store_env \<Rightarrow> pystr \<Rightarrow> int approval_result" where
  "approval_parse_utc E value =
     (case se_fromisoformat E (removesuffix ''Z'' value @ ''+00:00'') of
        None \<Rightarrow> Inl (ApprovalError ''approval rejected'') | Some t \<Rightarrow> Inr t)"

text \<open>The payload holds strings and a bool, so its canonical encoding always exists.\<close>

definition approval_signature :: "store_env \<Rightarrow> bytes \<Rightarrow> approval \<Rightarrow> pystr" where
  "approval_signature E key a =
     ''sha256:'' @ to_hex (se_hmac E key
       (''ccs-m5-approval-envelope/1.0.0'' @ [CHR 0x00] @ se_dumps E (JObj (approval_unsigned a))))"

definition activation_subject ::
  "store_env \<Rightarrow> pystr \<Rightarrow> pystr \<Rightarrow> pystr \<Rightarrow> pystr \<Rightarrow> int \<Rightarrow> pystr store_result" where
  "activation_subject E op pd sd request_digest expected_generation =
     json_digest E (JObj
       [(''domain'', JStr ''ccs-m5-activation-approval/1.0.0''), (''operation_id'', JStr op),
        (''prepared_digest'', JStr pd), (''scope_digest'', JStr sd),
        (''request_digest'', JStr request_digest),
        (''expected_generation'', JInt expected_generation)])"

record approval_verifier =
  vf_issuer :: pystr
  vf_key :: bytes

definition approval_verify ::
  "store_env \<Rightarrow> approval_verifier \<Rightarrow> approval \<Rightarrow> approval_domain \<Rightarrow> pystr \<Rightarrow> pystr \<Rightarrow> clock_value \<Rightarrow>
   approval approval_result"
where
  "approval_verify E v checked domain op subject now =
    (if \<not> approval_valid E checked then Inl (ApprovalError ''approval rejected'')
     else case res_bind (approval_utc E now) (approval_parse_utc E) of
       Inl _ \<Rightarrow> Inl (ApprovalError ''approval rejected'')
     | Inr current \<Rightarrow>
         if av_issuer checked = vf_issuer v \<and> av_domain checked = domain \<and>
            av_operation_id checked = op \<and> av_subject checked = subject
         then case (approval_parse_utc E (av_issued_at checked),
                    approval_parse_utc E (av_expires_at checked)) of
             (Inr start, Inr stop) \<Rightarrow>
               if start \<le> current \<and> current < stop \<and>
                  av_signature checked = approval_signature E (vf_key v) checked
               then Inr checked else Inl (ApprovalError ''approval rejected'')
           | _ \<Rightarrow> Inl (ApprovalError ''approval rejected'')
         else Inl (ApprovalError ''approval rejected''))"

text \<open>\<open>ApprovalAuthority\<close>: \<open>__post_init__\<close> as a predicate, and \<open>issue\<close>. The interval check
  compares the two timestamps as text.\<close>

definition approval_authority_valid :: "approval_verifier \<Rightarrow> bool" where
  "approval_authority_valid v \<longleftrightarrow> vf_issuer v \<noteq> [] \<and> length (vf_key v) \<ge> 16"

definition approval_issue ::
  "store_env \<Rightarrow> approval_verifier \<Rightarrow> approval_domain \<Rightarrow> pystr \<Rightarrow> pystr \<Rightarrow> clock_value \<Rightarrow> clock_value \<Rightarrow>
   bool \<Rightarrow> approval approval_result"
where
  "approval_issue E v domain op subject issued_at expires_at synthetic =
     res_bind (approval_utc E issued_at) (\<lambda>start.
     res_bind (approval_utc E expires_at) (\<lambda>stop.
     if start \<ge> stop then Inl (ApprovalError ''invalid approval interval'')
     else let unsigned = \<lparr> av_issuer = vf_issuer v, av_domain = domain, av_operation_id = op,
            av_subject = subject, av_issued_at = start, av_expires_at = stop,
            av_synthetic = synthetic, av_signature = unsigned_digest \<rparr> in
       if \<not> approval_valid E unsigned then Inl ApprovalValidation
       else let signed = unsigned \<lparr> av_signature := approval_signature E (vf_key v) unsigned \<rparr> in
         if \<not> approval_valid E signed then Inl ApprovalValidation else Inr signed))"

section \<open>Laws\<close>

lemma approval_parse_stamp: "approval_parse_utc E s = Inr t \<longleftrightarrow> parse_stamp E s = Inr t"
  by (auto simp: approval_parse_utc_def parse_stamp_def split: option.splits)

lemma timestamp_valid_parses: "timestamp_valid E s \<Longrightarrow> \<exists>t. approval_parse_utc E s = Inr t"
  by (auto simp: timestamp_valid_def approval_parse_utc_def)

lemma approval_verify_iff:
  "approval_verify E v a domain op subject now = Inr b \<longleftrightarrow>
     b = a \<and> approval_valid E a \<and> av_issuer a = vf_issuer v \<and> av_domain a = domain \<and>
     av_operation_id a = op \<and> av_subject a = subject \<and>
     av_signature a = approval_signature E (vf_key v) a \<and>
     (\<exists>text current start stop. approval_utc E now = Inr text \<and>
        approval_parse_utc E text = Inr current \<and>
        approval_parse_utc E (av_issued_at a) = Inr start \<and>
        approval_parse_utc E (av_expires_at a) = Inr stop \<and> start \<le> current \<and> current < stop)"
  by (auto simp: approval_verify_def result_simps split: sum.splits if_splits)

lemma approval_signature_unsigned [simp]:
  "approval_signature E key (a \<lparr> av_signature := s \<rparr>) = approval_signature E key a"
  by (simp add: approval_signature_def approval_unsigned_def)

lemma approval_verify_error:
  "approval_verify E v a domain op subject now = Inl e \<Longrightarrow> e = ApprovalError ''approval rejected''"
  by (auto simp: approval_verify_def split: sum.splits if_splits)

end
