(* ===== verification/Swap_Controller.thy ===== *)
theory Swap_Controller
  imports Approvals
begin

text \<open>
  The policy layer over the store: \<open>SwapController\<close> (\<^verbatim>\<open>swap/controller.py\<close>) and the facade
  \<open>SafeBoundary\<close> (\<^verbatim>\<open>swap/boundary.py\<close>).

  A controller call runs several transactions. Other processes may commit between them, so
  \<open>dbs i\<close> is the database that the \<open>i\<close>-th transaction of the call sees; the last one is the
  transaction that writes. Validators and the controller's clock answer anew at each call,
  so they take the number of the call. A validator that raises denies; only the rollback
  validator's own store errors are passed on.
\<close>

record swap_controller =
  sc_scope :: runtime_scope
  sc_validator :: "nat \<Rightarrow> prepared_replacement \<Rightarrow> bool"
  sc_approval_verifier :: "approval_verifier option"
  sc_rollback_validator :: "(nat \<Rightarrow> rt_activation_receipt \<Rightarrow> bool store_result) option"
  sc_clock :: clock_readings

text \<open>What callers pass as approval: nothing, something that is no \<open>Approval\<close>, or one.\<close>

datatype approval_arg = NoApproval | ForeignObject | GivenApproval approval

section \<open>Operations\<close>

definition check_record ::
  "store_env \<Rightarrow> swap_controller \<Rightarrow> nat \<Rightarrow> prepared_replacement \<Rightarrow> unit store_result" where
  "check_record E C i record' =
    (if pp_scope_digest record' \<noteq> scope_digest E (sc_scope C)
     then Inl (RuntimeStoreError ''prepared scope rejected'')
     else if \<not> sc_validator C i record'
     then Inl (RuntimeStoreError ''replacement validation rejected'') else Inr ())"

definition controller_prepare ::
  "store_env \<Rightarrow> swap_controller \<Rightarrow> runtime_db \<Rightarrow> prepared_replacement \<Rightarrow> prepared_replacement store_write" where
  "controller_prepare E C db record' =
     res_bind (check_record E C 0 record') (\<lambda>_.
     res_bind (save_prepared E db record') (\<lambda>(_, db'). Inr (record', db')))"

definition needs_approval :: "prepared_replacement \<Rightarrow> bool" where
  "needs_approval record' \<longleftrightarrow>
     pp_approval_required record' \<or> pp_effective_risk record' \<in> {''high'', ''critical''}"

definition controller_approval_digest ::
  "store_env \<Rightarrow> swap_controller \<Rightarrow> nat \<Rightarrow> prepared_replacement \<Rightarrow> approval_arg \<Rightarrow> pystr store_result" where
  "controller_approval_digest E C i record' approval =
    (case approval of
       NoApproval \<Rightarrow>
         if needs_approval record'
         then Inl (RuntimeStoreError ''distinct activation approval required'')
         else res_bind (prepared_digest E record') (\<lambda>d.
           json_digest E (JObj [(''domain'', JStr ''ccs-m5-no-approval/1''),
             (''prepared_digest'', JStr d)]))
     | _ \<Rightarrow>
        (case sc_approval_verifier C of
           None \<Rightarrow> Inl (RuntimeStoreError ''activation approval authority unavailable'')
         | Some v \<Rightarrow>
            (case approval of
               GivenApproval a \<Rightarrow>
                 if av_issuer a = rs_principal (sc_scope C)
                 then Inl (RuntimeStoreError ''activation approval must be distinct'')
                 else res_bind (prepared_digest E record') (\<lambda>d.
                   res_bind (activation_subject E (pp_operation_id record') d
                       (pp_scope_digest record') (pp_request_digest record')
                       (ab_generation (pp_old_binding record'))) (\<lambda>subject.
                   case approval_verify E v a Activation (pp_operation_id record') subject
                       (sc_clock C i) of
                     Inl _ \<Rightarrow> Inl (RuntimeStoreError ''activation approval rejected'')
                   | Inr checked \<Rightarrow> json_digest E (approval_json checked)))
             | _ \<Rightarrow> Inl (RuntimeStoreError ''activation approval rejected''))))"

text \<open>The gate that \<open>activate\<close> hands to the store, evaluated inside its transaction.\<close>

definition activation_gate ::
  "store_env \<Rightarrow> swap_controller \<Rightarrow> prepared_replacement \<Rightarrow> pystr \<Rightarrow> approval_arg \<Rightarrow>
   prepared_replacement \<Rightarrow> pystr \<Rightarrow> bool"
where
  "activation_gate E C record' approval_digest approval current_record current_digest =
    (case (prepared_digest E current_record, prepared_digest E record') of
       (Inr d, Inr d') \<Rightarrow>
         d = d' \<and> current_digest = approval_digest \<and>
         (case check_record E C 1 current_record of
            Inl _ \<Rightarrow> False
          | Inr _ \<Rightarrow> controller_approval_digest E C 1 current_record approval = Inr current_digest)
     | _ \<Rightarrow> False)"

definition controller_activate ::
  "store_env \<Rightarrow> swap_controller \<Rightarrow> clock_readings \<Rightarrow> fresh_ids \<Rightarrow> (nat \<Rightarrow> runtime_db) \<Rightarrow> pystr \<Rightarrow>
   boundary_ticket \<Rightarrow> approval_arg \<Rightarrow> rt_activation_receipt store_write"
where
  "controller_activate E C clk uid dbs pid ticket approval =
     res_bind (find_activation E (dbs 0) (sc_scope C) pid) (\<lambda>replay.
     case replay of
       Some receipt \<Rightarrow> Inr (receipt, dbs 2)
     | None \<Rightarrow>
         res_bind (get_prepared E clk (dbs 1) (sc_scope C) pid True) (\<lambda>record'.
         res_bind (check_record E C 0 record') (\<lambda>_.
         res_bind (controller_approval_digest E C 0 record' approval) (\<lambda>approval_digest.
         activate_prepared E clk uid (dbs 2) (sc_scope C) pid ticket approval_digest
           (Some (activation_gate E C record' approval_digest approval))))))"

definition is_store_error :: "store_error \<Rightarrow> bool" where
  "is_store_error e \<longleftrightarrow> e \<noteq> PyValueError \<and> e \<noteq> SqliteError"

text \<open>The gate that \<open>rollback\<close> hands to the store.\<close>

definition rollback_gate ::
  "store_env \<Rightarrow> (nat \<Rightarrow> rt_activation_receipt \<Rightarrow> bool store_result) \<Rightarrow> rt_activation_receipt \<Rightarrow>
   rt_activation_receipt \<Rightarrow> bool"
where
  "rollback_gate E accepts source current_source =
    (case (json_digest E (rt_activation_json current_source), json_digest E (rt_activation_json source)) of
       (Inr d, Inr d') \<Rightarrow> d = d' \<and> accepts 1 current_source = Inr True
     | _ \<Rightarrow> False)"

definition controller_rollback ::
  "store_env \<Rightarrow> swap_controller \<Rightarrow> clock_readings \<Rightarrow> fresh_ids \<Rightarrow> (nat \<Rightarrow> runtime_db) \<Rightarrow> pystr \<Rightarrow>
   boundary_ticket \<Rightarrow> rt_rollback_receipt store_write"
where
  "controller_rollback E C clk uid dbs rid ticket =
     res_bind (find_rollback E (dbs 0) (sc_scope C) rid) (\<lambda>replay.
     case replay of
       Some rb \<Rightarrow> Inr (rb, dbs 2)
     | None \<Rightarrow>
        (case sc_rollback_validator C of
           None \<Rightarrow> Inl (RuntimeStoreError ''rollback authority unavailable'')
         | Some accepts \<Rightarrow>
             res_bind (get_receipt E (dbs 1) (sc_scope C) rid) (\<lambda>source.
             case source of
               RollbackR _ \<Rightarrow> Inl (RuntimeStoreError ''rollback receipt rejected'')
             | ActivationR source' \<Rightarrow>
                (case accepts 0 source' of
                   Inl e \<Rightarrow> if is_store_error e then Inl e
                            else Inl (RuntimeStoreError ''rollback authorization rejected'')
                 | Inr ok \<Rightarrow>
                     if \<not> ok then Inl (RuntimeStoreError ''rollback authorization rejected'')
                     else Store_Receipts.rollback_receipt E clk uid (dbs 2) (sc_scope C) rid ticket
                       (Some (rollback_gate E accepts source'))))))"

section \<open>The boundary facade\<close>

record runtime_boundary =
  sb_scope :: runtime_scope

definition boundary_begin where
  "boundary_begin E B clk uid db op req = begin_action E clk uid db (sb_scope B) op req"

definition boundary_end where
  "boundary_end E B clk uid db lease uncertain outcome =
     end_action E clk uid db (sb_scope B) lease uncertain outcome"

definition boundary_issue_reconciliation where
  "boundary_issue_reconciliation E B clk db op evidence =
     issue_reconciliation E clk db (sb_scope B) op evidence"

definition boundary_reconcile where
  "boundary_reconcile E B clk uid db prf = reconcile E clk uid db (sb_scope B) prf"

text \<open>\<open>ttl\<close> defaults to 30 seconds.\<close>

definition boundary_reserve where
  "boundary_reserve E B clk uid db op g ttl =
     reserve_boundary E clk uid db (sb_scope B) op g (case ttl of None \<Rightarrow> 30000000 | Some t \<Rightarrow> t)"

definition boundary_consume where
  "boundary_consume E B clk uid db ticket = consume_boundary E clk uid db (sb_scope B) ticket"

end
