(* ===== verification/Store_Cycle.thy ===== *)
theory Store_Cycle
  imports Store_Liveness
begin

text \<open>
  One whole replacement on the store: start and finish the action of the request, reserve
  a boundary, save the prepared replacement, activate it. \<open>t\<close> gives the clock readings and
  \<open>ids\<close> the fresh identifiers in the order the operations consume them.
\<close>

definition replacement_cycle ::
  "store_env \<Rightarrow> (nat \<Rightarrow> int) \<Rightarrow> fresh_ids \<Rightarrow> runtime_db \<Rightarrow> runtime_scope \<Rightarrow> prepared_replacement \<Rightarrow>
   bytes \<Rightarrow> int \<Rightarrow> pystr \<Rightarrow> (prepared_replacement \<Rightarrow> pystr \<Rightarrow> bool) \<Rightarrow> rt_activation_receipt store_write"
where
  "replacement_cycle E t ids db scope p outcome ttl approval accepts =
     res_bind (begin_action E (\<lambda>i. Utc (t i)) ids db scope (pp_operation_id p)
         (pp_request_digest p)) (\<lambda>(lease, db1).
     res_bind (end_action E (\<lambda>i. Utc (t (2 + i))) (\<lambda>i. ids (1 + i)) db1 scope lease False outcome)
       (\<lambda>(_, db2).
     res_bind (reserve_boundary E (\<lambda>i. Utc (t (4 + i))) (\<lambda>i. ids (2 + i)) db2 scope
         (pp_operation_id p) (ab_generation (pp_old_binding p)) ttl) (\<lambda>(ticket, db3).
     res_bind (save_prepared E db3 p) (\<lambda>(_, db4).
     activate_prepared E (\<lambda>i. Utc (t (6 + i))) (\<lambda>i. ids (4 + i)) db4 scope (pp_prepared_id p) ticket
       approval (Some accepts)))))"

text \<open>What the caller and its environment provide: an idle scope whose active binding is the
  one to be replaced, unused identifiers, and a clock that meets both deadlines.\<close>

definition cycle_ready ::
  "store_env \<Rightarrow> (nat \<Rightarrow> int) \<Rightarrow> fresh_ids \<Rightarrow> runtime_db \<Rightarrow> runtime_scope \<Rightarrow> prepared_replacement \<Rightarrow> int \<Rightarrow>
   scope_row \<Rightarrow> bool"
where
  "cycle_ready E t ids db scope p ttl r \<longleftrightarrow>
     runtime_scope_valid scope \<and> find_scope db (scope_digest E scope) = Some r \<and> sr_action_state r = IDLE \<and>
     se_parse_binding E (sr_active_jcs r) = Some (pp_old_binding p) \<and>
     pp_scope_digest p = scope_digest E scope \<and> prepared_replacement_valid p \<and>
     find_action db (scope_digest E scope) (pp_operation_id p) = None \<and>
     operation_receipt db (scope_digest E scope) (pp_operation_id p) ACTIVATE = None \<and>
     exact_int (sr_action_epoch r + 1) \<and> exact_int (sr_generation r + 1) \<and>
     0 < ttl \<and> ttl \<le> 600000000 \<and> t 7 < t 4 + ttl \<and>
     (case parse_stamp E (pp_expires_at p) of Inl _ \<Rightarrow> False | Inr limit \<Rightarrow> t 6 < limit) \<and>
     (\<forall>i. ids i \<noteq> []) \<and> inj ids \<and>
     (\<forall>i. ids i \<notin> uw_event_id ` set (db_audit db) \<and> ids i \<notin> tw_ticket_id ` set (db_tickets db) \<and>
          ids i \<notin> ew_receipt_id ` set (db_receipts db)) \<and>
     pp_prepared_id p \<notin> pw_prepared_id ` set (db_prepared db)"

lemma find_action_append:
  "find_action db sd op = None \<Longrightarrow> aw_scope_digest a = sd \<Longrightarrow> aw_operation_id a = op \<Longrightarrow>
     db_actions db' = db_actions db @ [a] \<Longrightarrow> find_action db' sd op = Some a"
  by (simp add: find_action_def find_append)

lemma find_action_update:
  assumes "\<And>a. aw_scope_digest (f a) = aw_scope_digest a"
    and "\<And>a. aw_operation_id (f a) = aw_operation_id a"
  shows "find_action (update_action sd op f db) sd op = map_option f (find_action db sd op)"
proof -
  let ?g = "\<lambda>a. if aw_scope_digest a = sd \<and> aw_operation_id a = op then f a else a"
  have "find (\<lambda>a. (aw_scope_digest a, aw_operation_id a) = (sd, op)) (map ?g (db_actions db)) =
      map_option ?g (find (\<lambda>a. (aw_scope_digest a, aw_operation_id a) = (sd, op)) (db_actions db))"
    by (rule find_map_update) (use assms in auto)
  also have "\<dots> = map_option f (find (\<lambda>a. (aw_scope_digest a, aw_operation_id a) = (sd, op)) (db_actions db))"
    by (cases "find (\<lambda>a. (aw_scope_digest a, aw_operation_id a) = (sd, op)) (db_actions db)")
      (auto dest: find_SomeD)
  finally show ?thesis by (simp add: find_action_def update_action_def)
qed

text \<open>After the first two operations the action is finished and the lock is idle again.\<close>

lemma action_completes:
  assumes "env_laws E" and "store_inv E db" and "find_scope db (scope_digest E scope) = Some r"
    and "sr_action_state r = IDLE" and "find_action db (scope_digest E scope) op = None"
    and "op \<noteq> []" and "is_digest req" and "exact_int (sr_action_epoch r + 1)"
    and "uid 0 \<notin> uw_event_id ` set (db_audit db)" and "uid' 0 \<notin> uw_event_id ` set (db_audit db)"
    and "uid' 0 \<noteq> uid 0"
  obtains lease db1 db2 r' a e1 e2 where
    "begin_action E (\<lambda>i. Utc (t i)) uid db scope op req = Inr (lease, db1)"
    and "end_action E (\<lambda>i. Utc (t' i)) uid' db1 scope lease False outcome = Inr ((), db2)"
    and "store_inv E db2"
    and "find_scope db2 (scope_digest E scope) = Some r'" and "sr_action_state r' = IDLE"
    and "sr_active_jcs r' = sr_active_jcs r" and "sr_generation r' = sr_generation r"
    and "find_action db2 (scope_digest E scope) op = Some a" and "aw_state a = IDLE"
    and "aw_action_epoch a = sr_action_epoch r'" and "aw_request_digest a = req"
    and "db_tickets db2 = db_tickets db" and "db_prepared db2 = db_prepared db"
    and "db_receipts db2 = db_receipts db"
    and "db_audit db2 = db_audit db @ [e1, e2]"
    and "uw_event_id e1 = uid 0" and "uw_event_id e2 = uid' 0"
proof -
  let ?sd = "scope_digest E scope"
  obtain lease db1 where beg: "begin_action E (\<lambda>i. Utc (t i)) uid db scope op req = Inr (lease, db1)"
    using begin_succeeds [where t = t and uid = uid, OF assms(2-9)] by blast
  have inv1: "store_inv E db1" by (rule inv_begin [OF assms(2) beg])
  from beg show ?thesis
  proof (cases rule: begin_action_Inr)
    case (replay row existing)
    with assms(5) show ?thesis by simp
  next
    case (fresh row sig now asig event)
    have [simp]: "row = r" using load_row_Inr(1) [OF fresh(1)] assms(3) by simp
    let ?r1 = "r \<lparr> sr_action_state := RUNNING, sr_action_epoch := sr_action_epoch r + 1,
       sr_current_operation_id := Some op, sr_state_signature := sig, sr_updated_at := now \<rparr>"
    have r1: "find_scope db1 ?sd = Some ?r1" using assms(3) by (simp add: fresh(8) row_simps)
    obtain a1 where a1: "find_action db1 ?sd op = Some a1" "aw_state a1 = RUNNING"
      "aw_action_epoch a1 = sr_action_epoch r + 1" "aw_request_digest a1 = req"
      using find_action_append [OF assms(5), of _ db1] by (simp add: fresh(8) update_scope_def)
    have "uid' 0 \<notin> uw_event_id ` set (db_audit db1)"
      using assms(10,11) by (simp add: fresh(8,11) update_scope_def)
    then obtain db2 where fin: "end_action E (\<lambda>i. Utc (t' i)) uid' db1 scope lease False outcome = Inr ((), db2)"
      using end_succeeds [OF inv1 r1, of lease a1 uid' t' False outcome] a1 by (auto simp: fresh(9))
    have inv2: "store_inv E db2" by (rule inv_end [OF inv1 fin])
    from fin show ?thesis
    proof (cases rule: end_action_Inr)
      case (1 row' action sig' now' asig' event')
      have [simp]: "row' = ?r1" using load_row_Inr(1) [OF 1(1)] r1 by simp
      have lease: "al_operation_id lease = op" by (simp add: fresh(9))
      let ?r2 = "?r1 \<lparr> sr_action_state := IDLE, sr_current_operation_id := None,
         sr_state_signature := sig', sr_updated_at := now' \<rparr>"
      have r2: "find_scope db2 ?sd = Some ?r2" using r1 by (simp add: 1(11) row_simps)
      let ?f = "\<lambda>a. a \<lparr> aw_state := IDLE, aw_outcome_digest := Some (digest_bytes E outcome),
         aw_outcome := Some outcome, aw_action_signature := asig' \<rparr>"
      have "find_action db2 ?sd op = map_option ?f (find_action db1 ?sd op)"
        using find_action_update [of ?f ?sd op]
        by (simp add: 1(11) lease find_action_def update_action_def update_scope_def)
      then have a2: "find_action db2 ?sd op = Some (?f a1)" using a1(1) by simp
      show ?thesis
        by (rule that [OF beg fin inv2 r2 _ _ _ a2 _ _ _ _ _ _ _ fresh(11) 1(13)])
          (use a1 in \<open>simp_all add: 1(11) fresh(8) update_action_def update_scope_def\<close>)
    qed
  qed
qed

lemma res_bind_Inr_eq: "x = Inr y \<Longrightarrow> res_bind x f = f y"
  by simp

text \<open>The active binding that a caller reads after the cycle.\<close>

lemma get_state_available:
  assumes "store_inv E db" and "find_scope db (scope_digest E scope) = Some r"
    and "se_parse_binding E (sr_active_jcs r) = Some b"
  obtains state where "get_state E db scope = Inr state" and "rt_active state = b"
    and "rt_action_state state = sr_action_state r" and "rt_action_epoch state = sr_action_epoch r"
proof -
  have load: "load_row E db scope = Inr r" by (rule load_row_available [OF assms(1,2)])
  have ver: "verify_row E r = Inr ()" by (rule load_row_Inr(2) [OF load])
  then obtain sc where "se_parse_scope E (sr_scope_jcs r) = Some sc"
    by (auto simp: verify_row_def split: option.splits)
  with load ver assms(3) show ?thesis
    by - (rule that, simp add: get_state_def state_of_def safe_db_call_def, simp_all)
qed

text \<open>The second half: a finished action, a boundary, the preparation, the swap.\<close>

lemma boundary_activates:
  assumes "env_laws E" and "iso_laws E" and inv: "store_inv E db"
    and r: "find_scope db (scope_digest E scope) = Some r" "sr_action_state r = IDLE"
      "se_parse_binding E (sr_active_jcs r) = Some (pp_old_binding p)"
    and a: "find_action db (scope_digest E scope) (pp_operation_id p) = Some a" "aw_state a = IDLE"
      "aw_action_epoch a = sr_action_epoch r" "aw_request_digest a = pp_request_digest p"
    and p: "pp_scope_digest p = scope_digest E scope" "prepared_replacement_valid p"
      "pp_prepared_id p \<notin> pw_prepared_id ` set (db_prepared db)"
    and none: "operation_receipt db (scope_digest E scope) (pp_operation_id p) ACTIVATE = None"
    and ttl: "0 < ttl" "ttl \<le> 600000000" "t' 1 < t 0 + ttl"
    and limit: "parse_stamp E (pp_expires_at p) = Inr limit" "t' 0 < limit"
    and big: "exact_int (sr_generation r + 1)"
    and ids: "uid 0 \<notin> tw_ticket_id ` set (db_tickets db)" "uid 0 \<noteq> []"
      "uid 1 \<notin> uw_event_id ` set (db_audit db)" "uid' 0 \<notin> ew_receipt_id ` set (db_receipts db)"
      "uid' 0 \<noteq> []" "uid' 1 \<notin> uw_event_id ` set (db_audit db)" "uid' 1 \<noteq> uid 1"
    and appr: "is_digest approval" "accepts p approval"
  obtains ticket db1 db2 receipt db3 where
    "reserve_boundary E (\<lambda>i. Utc (t i)) uid db scope (pp_operation_id p)
       (ab_generation (pp_old_binding p)) ttl = Inr (ticket, db1)"
    and "save_prepared E db1 p = Inr ((), db2)" and "store_inv E db2"
    and "activate_prepared E (\<lambda>i. Utc (t' i)) uid' db2 scope (pp_prepared_id p) ticket approval
       (Some accepts) = Inr (receipt, db3)" and "db3 \<noteq> db2"
    and "find_scope db2 (scope_digest E scope) = Some r"
    and "load_prepared_db E NotUtc db2 scope (pp_prepared_id p) True = Inr p"
    and "db_receipts db2 = db_receipts db"
proof -
  let ?sd = "scope_digest E scope"
  have load: "load_row E db scope = Inr r" by (rule load_row_available [OF inv r(1)])
  have gens: "ab_generation (pp_old_binding p) = sr_generation r" "exact_int (sr_generation r)"
    using verify_row_binding verify_row_range(1) load_row_Inr(2) [OF load] r(3) by fastforce+
  have pv: "pp_operation_id p \<noteq> []" "ab_generation (pp_new_binding p) = sr_generation r + 1"
    using p(2) gens by (simp_all add: prepared_replacement_valid_def)
  obtain ticket db1 where res: "reserve_boundary E (\<lambda>i. Utc (t i)) uid db scope (pp_operation_id p)
       (ab_generation (pp_old_binding p)) ttl = Inr (ticket, db1)"
    using reserve_succeeds [where t = t and uid = uid, OF inv r(1) a(1) pv(1) r(2) a(2,3) ttl(1,2) ids(1,3)] gens by auto
  obtain stored event where d1: "db1 = db \<lparr> db_tickets := db_tickets db @ [stored],
      db_audit := db_audit db @ [event] \<rparr>" "tw_ticket_id stored = uid 0"
      "tw_ticket_id stored \<notin> tw_ticket_id ` set (db_tickets db)" "uw_event_id event = uid 1"
      and tid: "bt_ticket_id ticket = uid 0"
    using res by (rule reserve_boundary_Inr)
  have inv1: "store_inv E db1"
    by (rule store_inv_tables [OF inv]) (use d1 inv in \<open>auto simp: store_inv_def\<close>)
  have r1: "find_scope db1 ?sd = Some r" using r(1) by (simp add: d1(1) row_simps)
  obtain db2 where save: "save_prepared E db1 p = Inr ((), db2)"
    using save_succeeds [OF inv1, of p r] r1 p gens pv(2) big by (auto simp: d1(1))
  obtain row where d2: "db2 = db1 \<lparr> db_prepared := db_prepared db1 @ [row] \<rparr>"
    using save by (rule save_prepared_Inr)
  have inv2: "store_inv E db2"
    by (rule store_inv_tables [OF inv1]) (use inv1 in \<open>simp_all add: d2 store_inv_def\<close>)
  have r2: "find_scope db2 ?sd = Some r" using r1 by (simp add: d2 row_simps)
  have loads: "load_prepared_db E NotUtc db2 scope (pp_prepared_id p) True = Inr p"
    by (rule saved_loads [OF assms(1) p(2,1) save])
  have check: "check_ticket_db E (Utc (t' 1)) db2 scope ticket r (Some (pp_operation_id p))
      (Some (pp_request_digest p)) = Inr ()"
    using reserved_ticket_checks [OF assms(2) res load ttl(3) a(1), of db2] a(4) by (simp add: d2)
  have "operation_receipt db2 ?sd (pp_operation_id p) ACTIVATE = None"
    using none by (simp add: operation_receipt_def d1(1) d2)
  moreover have "uid' 1 \<notin> uw_event_id ` set (db_audit db2)"
    "uid' 0 \<notin> ew_receipt_id ` set (db_receipts db2)" "bt_ticket_id ticket \<noteq> []"
    "exact_int (ab_generation (pp_new_binding p))"
    using ids tid pv(2) big by (simp_all add: d1(1,4) d2)
  ultimately obtain receipt db3 where "activate_prepared E (\<lambda>i. Utc (t' i)) uid' db2 scope
      (pp_prepared_id p) ticket approval (Some accepts) = Inr (receipt, db3)" "db3 \<noteq> db2"
    using activate_succeeds [where t = t' and uid = uid' and accepts = accepts,
        OF assms(1,2) inv2 r2 loads p(2) _ limit r(3) check _ appr]
      ids(5) by blast
  then show ?thesis using that [OF res save inv2 _ _ r2 loads] by (simp add: d1(1) d2)
qed

lemma cycle_activates:
  assumes "env_laws E" and "iso_laws E" and "store_inv E db"
    and ready: "cycle_ready E t ids db scope p ttl r" and "is_digest approval" and "accepts p approval"
  obtains receipt db' state where
    "replacement_cycle E t ids db scope p outcome ttl approval accepts = Inr (receipt, db')"
    and "xa_old_binding receipt = pp_old_binding p" and "xa_new_binding receipt = pp_new_binding p"
    and "get_state E db' scope = Inr state" and "rt_active state = pp_new_binding p"
    and "rt_action_state state = IDLE"
    and "\<exists>db4 ticket. store_run E db db4 \<and> db_receipts db4 = db_receipts db \<and> db' \<noteq> db4 \<and>
       load_prepared_db E NotUtc db4 scope (pp_prepared_id p) True = Inr p \<and>
       activate_prepared E (\<lambda>i. Utc (t (6 + i))) (\<lambda>i. ids (4 + i)) db4 scope (pp_prepared_id p)
         ticket approval (Some accepts) = Inr (receipt, db')"
proof -
  let ?sd = "scope_digest E scope" and ?op = "pp_operation_id p"
  have g: "find_scope db ?sd = Some r" "sr_action_state r = IDLE"
    "se_parse_binding E (sr_active_jcs r) = Some (pp_old_binding p)" "pp_scope_digest p = ?sd"
    "prepared_replacement_valid p" "find_action db ?sd ?op = None"
    "operation_receipt db ?sd ?op ACTIVATE = None" "exact_int (sr_action_epoch r + 1)"
    "exact_int (sr_generation r + 1)" "0 < ttl" "ttl \<le> 600000000" "t 7 < t 4 + ttl"
    "\<And>i. ids i \<noteq> []" "inj ids" "\<And>i. ids i \<notin> uw_event_id ` set (db_audit db)"
    "\<And>i. ids i \<notin> tw_ticket_id ` set (db_tickets db)"
    "\<And>i. ids i \<notin> ew_receipt_id ` set (db_receipts db)"
    "pp_prepared_id p \<notin> pw_prepared_id ` set (db_prepared db)"
    using ready by (simp_all add: cycle_ready_def)
  obtain limit where limit: "parse_stamp E (pp_expires_at p) = Inr limit" "t 6 < limit"
    using ready by (auto simp: cycle_ready_def split: sum.splits)
  have ids: "ids i = ids j \<longleftrightarrow> i = j" for i j using g(14) by (auto dest: injD)
  have gens: "ab_generation (pp_old_binding p) = sr_generation r" "exact_int (sr_generation r)"
    using verify_row_binding verify_row_range(1) load_row_Inr(2) [OF load_row_available [OF assms(3) g(1)]] g(3)
    by fastforce+
  have pv: "?op \<noteq> []" "is_digest (pp_request_digest p)"
    "ab_generation (pp_new_binding p) = sr_generation r + 1"
    using g(5) gens by (simp_all add: prepared_replacement_valid_def)
  obtain lease db1 db2 r2 a e1 e2 where beg: "begin_action E (\<lambda>i. Utc (t i)) ids db scope ?op
      (pp_request_digest p) = Inr (lease, db1)"
    and fin: "end_action E (\<lambda>i. Utc (t (2 + i))) (\<lambda>i. ids (1 + i)) db1 scope lease False outcome = Inr ((), db2)"
    and inv2: "store_inv E db2" and r2: "find_scope db2 ?sd = Some r2" "sr_action_state r2 = IDLE"
      "sr_active_jcs r2 = sr_active_jcs r" "sr_generation r2 = sr_generation r"
    and a: "find_action db2 ?sd ?op = Some a" "aw_state a = IDLE"
      "aw_action_epoch a = sr_action_epoch r2" "aw_request_digest a = pp_request_digest p"
    and d2: "db_tickets db2 = db_tickets db" "db_prepared db2 = db_prepared db"
      "db_receipts db2 = db_receipts db" "db_audit db2 = db_audit db @ [e1, e2]"
      "uw_event_id e1 = ids 0" "uw_event_id e2 = ids 1"
    by (rule action_completes [where t = t and t' = "\<lambda>i. t (2 + i)" and uid = ids and
          uid' = "\<lambda>i. ids (1 + i)" and outcome = outcome, OF assms(1,3) g(1,2,6) pv(1,2) g(8) g(15) g(15)])
      (simp_all add: ids)
  obtain ticket db3 db4 receipt db5 where res: "reserve_boundary E (\<lambda>i. Utc (t (4 + i))) (\<lambda>i. ids (2 + i))
      db2 scope ?op (ab_generation (pp_old_binding p)) ttl = Inr (ticket, db3)"
    and save: "save_prepared E db3 p = Inr ((), db4)" and inv4: "store_inv E db4"
    and act: "activate_prepared E (\<lambda>i. Utc (t (6 + i))) (\<lambda>i. ids (4 + i)) db4 scope (pp_prepared_id p)
       ticket approval (Some accepts) = Inr (receipt, db5)" "db5 \<noteq> db4"
    and r4: "find_scope db4 ?sd = Some r2"
    and loads: "load_prepared_db E NotUtc db4 scope (pp_prepared_id p) True = Inr p"
    and rcpts: "db_receipts db4 = db_receipts db2"
    by (rule boundary_activates [where t = "\<lambda>i. t (4 + i)" and t' = "\<lambda>i. t (6 + i)" and
          uid = "\<lambda>i. ids (2 + i)" and uid' = "\<lambda>i. ids (4 + i)" and ttl = ttl and accepts = accepts,
          OF assms(1,2) inv2 r2(1,2) _ a g(4,5) _ _ g(10,11) _ limit(1) _ _ _ _ _ _ _ _ _ assms(5,6)])
      (use g d2 r2 limit(2) in \<open>simp_all add: operation_receipt_def ids\<close>)
  have inv5: "store_inv E db5" by (rule inv_activate [OF assms(1) inv4 act(1)])
  have sv: "runtime_scope_valid scope" using ready by (simp add: cycle_ready_def)
  have run: "store_run E db db4"
    by (rule run_step [OF run_step [OF run_step [OF run_step [OF run_refl step_begin [OF sv beg]]
            step_end [OF sv fin]] step_reserve [OF sv res]] step_save [OF g(5) save]])
  have cycle: "replacement_cycle E t ids db scope p outcome ttl approval accepts = Inr (receipt, db5)"
    unfolding replacement_cycle_def res_bind_Inr_eq [OF beg] prod.case res_bind_Inr_eq [OF fin]
      res_bind_Inr_eq [OF res] res_bind_Inr_eq [OF save] by (rule act(1))
  from assms(1) act show ?thesis
  proof (rule fresh_activation)
    fix row row' prep
    assume f: "find_scope db4 ?sd = Some row" "load_prepared_db E NotUtc db4 scope (pp_prepared_id p) True = Inr prep"
      "find_scope db5 ?sd = Some row'" "sr_action_state row' = IDLE"
      "sr_active_jcs row' = se_dumps E (active_binding_json (pp_new_binding prep))"
      "se_parse_binding E (sr_active_jcs row) = Some (xa_old_binding receipt)"
      "xa_new_binding receipt = pp_new_binding prep"
    have [simp]: "prep = p" "row = r2" using f(1,2) loads r4 by simp_all
    have "se_parse_binding E (sr_active_jcs row') = Some (pp_new_binding p)"
      using assms(1) g(5,9) pv(3) by (simp add: f(5) env_laws_def prepared_replacement_valid_def)
    with inv5 f(3) obtain state where "get_state E db5 scope = Inr state" "rt_active state = pp_new_binding p"
      "rt_action_state state = sr_action_state row'" by (rule get_state_available)
    then show ?thesis using that [OF cycle] f(4,6,7) g(3) r2(3) run act rcpts loads d2(3) by fastforce
  qed
qed

section \<open>Undoing a replacement\<close>

text \<open>After an activation committed, a new boundary for the same operation lets the caller
  roll it back.\<close>

lemma rollback_completes:
  assumes "env_laws E" and "iso_laws E" and inv: "store_inv E db" and "runtime_scope_valid scope"
    and act: "activate_prepared E clk auid db scope pid ticket approval v = Inr (receipt, db')" "db' \<noteq> db"
    and none: "operation_receipt db (scope_digest E scope) (xa_operation_id receipt) ROLLBACK = None"
    and ttl: "0 < ttl" "ttl \<le> 600000000" "t' 0 < t 0 + ttl"
    and big: "exact_int (xa_generation_after receipt + 1)"
    and ids: "uid 0 \<notin> tw_ticket_id ` set (db_tickets db')" "uid 0 \<noteq> []"
      "uid 1 \<notin> uw_event_id ` set (db_audit db')" "uid' 0 \<notin> ew_receipt_id ` set (db_receipts db')"
      "uid' 0 \<noteq> []" "uid' 1 \<notin> uw_event_id ` set (db_audit db')" "uid' 1 \<noteq> uid 1"
    and accepted: "accepts receipt"
  obtains ticket' db1 rb db2 where
    "reserve_boundary E (\<lambda>i. Utc (t i)) uid db' scope (xa_operation_id receipt)
       (xa_generation_after receipt) ttl = Inr (ticket', db1)"
    and "rollback_receipt E (\<lambda>i. Utc (t' i)) uid' db1 scope (xa_receipt_id receipt) ticket'
       (Some accepts) = Inr (rb, db2)" and "db2 \<noteq> db1"
  using assms(1) act
proof (rule fresh_activation)
  let ?sd = "scope_digest E scope"
  fix row row' prep stored
  assume f: "load_row E db scope = Inr row" "load_prepared_db E NotUtc db scope pid True = Inr prep"
    "find_scope db' ?sd = Some row'"
    "sr_generation row' = sr_generation row + 1" "sr_action_state row' = IDLE"
    "sr_action_epoch row' = sr_action_epoch row"
    "sr_active_jcs row' = se_dumps E (active_binding_json (pp_new_binding prep))"
    "db_receipts db' = db_receipts db @ [stored]" "ew_kind stored = ACTIVATE"
    "xa_new_binding receipt = pp_new_binding prep"
    "load_receipt_db E db' scope (xa_receipt_id receipt) = Inr (ACTIVATE, ActivationR receipt)"
    "json_value_ok (active_binding_json (pp_new_binding prep))"
  have inv': "store_inv E db'" by (rule inv_activate [OF assms(1) inv act(1)])
  obtain a where a: "find_action db' ?sd (xa_operation_id receipt) = Some a" "aw_state a = IDLE"
    "aw_action_epoch a = sr_action_epoch row" "aw_request_digest a = xa_request_digest receipt"
    "rt_activation_receipt_valid receipt" "xa_generation_after receipt = sr_generation row + 1"
    using assms(1) act f(1) by (rule fresh_activation_action)
  have gen: "sr_generation row' = xa_generation_after receipt" using a(6) f(4) by simp
  have op: "xa_operation_id receipt \<noteq> []" using a(5) by (simp add: rt_activation_receipt_valid_def)
  have load': "load_row E db' scope = Inr row'" by (rule load_row_available [OF inv' f(3)])
  have parse: "se_parse_binding E (sr_active_jcs row') = Some (xa_new_binding receipt)"
    using assms(1) prepared_binding_valid(1) [OF assms(1) f(2)] f(12) by (simp add: f(7,10) env_laws_def)
  obtain ticket' db1 where res: "reserve_boundary E (\<lambda>i. Utc (t i)) uid db' scope
      (xa_operation_id receipt) (xa_generation_after receipt) ttl = Inr (ticket', db1)"
    using reserve_succeeds [where t = t and uid = uid, OF inv' f(3) a(1) op f(5) a(2) _ ttl(1,2) ids(1,3)]
      a(3) f(6) gen by auto
  obtain stored' event where d1: "db1 = db' \<lparr> db_tickets := db_tickets db' @ [stored'],
      db_audit := db_audit db' @ [event] \<rparr>" "tw_ticket_id stored' = uid 0"
      "tw_ticket_id stored' \<notin> tw_ticket_id ` set (db_tickets db')" "uw_event_id event = uid 1"
      and tid: "bt_ticket_id ticket' = uid 0"
    using res by (rule reserve_boundary_Inr)
  have inv1: "store_inv E db1"
    by (rule store_inv_tables [OF inv']) (use d1 inv' in \<open>auto simp: store_inv_def\<close>)
  have r1: "find_scope db1 ?sd = Some row'" using f(3) by (simp add: d1(1) row_simps)
  have rc: "load_receipt_db E db1 scope (xa_receipt_id receipt) = Inr (ACTIVATE, ActivationR receipt)"
    using f(11) by (simp add: load_receipt_db_def d1(1))
  have nr: "operation_receipt db1 ?sd (xa_operation_id receipt) ROLLBACK = None"
    using none f(8,9) by (simp add: operation_receipt_def d1(1) find_append)
  have ck: "check_ticket_db E (Utc (t' 0)) db1 scope ticket' row' (Some (xa_operation_id receipt))
      (Some (xa_request_digest receipt)) = Inr ()"
    using reserved_ticket_checks [OF assms(2) res load' ttl(3) a(1), of db1] a(4) by simp
  have new: "bt_ticket_id ticket' \<noteq> []" "uid' 0 \<notin> ew_receipt_id ` set (db_receipts db1)"
    "uid' 1 \<notin> uw_event_id ` set (db_audit db1)"
    using tid ids by (simp_all add: d1(1,4))
  obtain rb db2 where "rollback_receipt E (\<lambda>i. Utc (t' i)) uid' db1 scope (xa_receipt_id receipt)
      ticket' (Some accepts) = Inr (rb, db2)" "db2 \<noteq> db1"
    using rollback_succeeds [where t = t' and uid = uid' and accepts = accepts, OF assms(1) inv1 r1 rc a(5) nr gen
          parse ck new(1) accepted _ new(2) ids(5) new(3)] big gen by auto
  then show ?thesis using that [OF res] by blast
qed

end
