(* ===== verification/Store_Sample.thy ===== *)
theory Store_Sample
  imports Store_Cycle
begin

text \<open>
  A concrete environment that satisfies the documented laws, and a scope bootstrapped in
  it. Instants are written in unary (in the fraction of a second), JSON values by their position in an enumeration, and
  a parser inverts the dump of its model.
\<close>

definition sample_dumps :: "json \<Rightarrow> bytes" where
  "sample_dumps v = replicate (to_nat v) (CHR ''x'')"

definition undump :: "('m \<Rightarrow> bool) \<Rightarrow> ('m \<Rightarrow> json) \<Rightarrow> bytes \<Rightarrow> 'm option" where
  "undump valid dump raw =
    (if \<exists>m. valid m \<and> sample_dumps (dump m) = raw
     then Some (SOME m. valid m \<and> sample_dumps (dump m) = raw) else None)"

definition sample_hash :: "bytes \<Rightarrow> bytes" where
  "sample_hash m = take 32 (m @ replicate 32 (CHR ''0''))"

definition sample_env :: store_env where
  "sample_env = \<lparr> se_key = ''k'', se_hmac = (\<lambda>key m. sample_hash (rev m)), se_sha256 = sample_hash,
     se_dumps = sample_dumps, se_parse_scope = undump runtime_scope_valid runtime_scope_json,
     se_parse_binding = undump active_binding_valid active_binding_json,
     se_parse_prepared = undump prepared_replacement_valid prepared_replacement_json,
     se_parse_activation = undump rt_activation_receipt_valid rt_activation_json,
     se_parse_rollback = undump rt_rollback_receipt_valid rt_rollback_json,
     se_isoformat = (\<lambda>t. ''2026-01-01T00:00:00.1'' @ replicate (int_encode t) (CHR ''1'')),
     se_fromisoformat = (\<lambda>s. Some (int_decode (length s - 27))),
     se_binding_validator = Some (\<lambda>i scope b. True),
     se_termination_validator = Some (\<lambda>scope op e. True) \<rparr>"

lemma sample_dumps_inj: "sample_dumps v = sample_dumps w \<longleftrightarrow> v = w"
  by (metis length_replicate sample_dumps_def to_nat_split)

lemma undump_dump:
  assumes "valid m" and "\<And>a b. dump a = dump b \<Longrightarrow> a = b"
  shows "undump valid dump (sample_dumps (dump m)) = Some m"
proof -
  have "(SOME x. valid x \<and> sample_dumps (dump x) = sample_dumps (dump m)) = m"
    using assms by (intro some_equality) (auto simp: sample_dumps_inj)
  with assms(1) show ?thesis by (auto simp: undump_def)
qed

lemma undump_valid: "undump valid dump raw = Some m \<Longrightarrow> valid m"
  using someI_ex [of "\<lambda>m. valid m \<and> sample_dumps (dump m) = raw"]
  by (auto simp only: undump_def split: if_splits)

lemma prepared_json_inj: "prepared_replacement_json a = prepared_replacement_json b \<Longrightarrow> a = b"
  by (cases a; cases b)
    (auto simp: prepared_replacement_json_def active_binding_json_inj dest: b64encode_inj)

lemmas sample_parses =
  undump_dump [of runtime_scope_valid _ runtime_scope_json, OF _ runtime_scope_json_inj [THEN iffD1]]
  undump_dump [of active_binding_valid _ active_binding_json, OF _ active_binding_json_inj [THEN iffD1]]
  undump_dump [of prepared_replacement_valid _ prepared_replacement_json, OF _ prepared_json_inj]
  undump_dump [of rt_activation_receipt_valid _ rt_activation_json, OF _ rt_activation_json_inj [THEN iffD1]]
  undump_dump [of rt_rollback_receipt_valid _ rt_rollback_json, OF _ rt_rollback_json_inj [THEN iffD1]]

lemma sample_env_laws: "env_laws sample_env"
  unfolding env_laws_def sample_env_def
  using undump_valid [of prepared_replacement_valid prepared_replacement_json]
  by (simp add: sample_parses sample_hash_def min_def)

lemma sample_iso_laws: "iso_laws sample_env"
  by (simp add: iso_laws_def sample_env_def)

section \<open>A bootstrapped scope\<close>

definition sample_scope :: runtime_scope where
  "sample_scope = \<lparr> rs_tenant = ''tenant'', rs_principal = ''alice'', rs_repository = ''repo'',
     rs_environment = ''prod'', rs_session = ''s1'' \<rparr>"

definition sample_binding :: "int \<Rightarrow> active_binding" where
  "sample_binding g = \<lparr> ab_capsule = \<lparr> cr_capsule_id = ''capsule'', cr_version = ''1.0.0'',
     cr_digest = unsigned_digest \<rparr>, ab_view_digest = unsigned_digest,
     ab_input_digest = unsigned_digest, ab_generation = g \<rparr>"

definition sample_prepared :: prepared_replacement where
  "sample_prepared = \<lparr> pp_prepared_id = ''prep'', pp_scope_digest = scope_digest sample_env sample_scope,
     pp_operation_id = ''op'', pp_request_digest = unsigned_digest,
     pp_old_binding = sample_binding 0, pp_new_binding = sample_binding 1,
     pp_evidence_digest = unsigned_digest, pp_expires_at = ''2026-01-01T00:00:00.000Z'',
     pp_payload = ''payload'', pp_effective_risk = ''high'', pp_approval_required = False \<rparr>"

definition sample_ids :: fresh_ids where
  "sample_ids i = replicate (Suc i) (CHR ''u'')"

definition sample_proof :: bootstrap_proof where
  "sample_proof = projr (issue_bootstrap sample_env (\<lambda>i. Utc 0) sample_scope (sample_binding 0))"

definition sample_db :: runtime_db where
  "sample_db = snd (projr (initialize sample_env (\<lambda>i. Utc 0) (\<lambda>i. []) empty_db sample_scope
     (sample_binding 0) sample_proof))"

lemma sample_scope_valid: "runtime_scope_valid sample_scope"
  by (simp add: runtime_scope_valid_def sample_scope_def)

lemma sample_semver: "is_semver ''1.0.0''"
  by code_simp

lemma sample_binding_valid: "0 \<le> g \<Longrightarrow> active_binding_valid (sample_binding g)"
  by (simp add: active_binding_valid_def capsule_ref_valid_def sample_binding_def sample_semver
      unsigned_is_digest)

lemma sample_initialize:
  "initialize sample_env (\<lambda>i. Utc 0) (\<lambda>i. []) empty_db sample_scope (sample_binding 0) sample_proof =
     Inr (sample_binding 0, sample_db)"
proof -
  have gen: "ab_generation (sample_binding 0) = 0" by (simp add: sample_binding_def)
  have v: "se_binding_validator sample_env = Some (\<lambda>i scope b. True)" by (simp add: sample_env_def)
  obtain bp where bp: "issue_bootstrap sample_env (\<lambda>i. Utc 0) sample_scope (sample_binding 0) = Inr bp"
    and ok: "verify_bootstrap sample_env sample_scope (sample_binding 0) bp = Inr ()"
    using issue_bootstrap_succeeds [OF v TrueI, where t = "\<lambda>_. 0" and b = "sample_binding 0" and
        scope = sample_scope] gen by auto
  have [simp]: "sample_proof = bp" by (simp add: sample_proof_def bp)
  obtain db where db: "initialize sample_env (\<lambda>i. Utc 0) (\<lambda>i. []) empty_db sample_scope (sample_binding 0)
      sample_proof = Inr (sample_binding 0, db)"
    using initialize_succeeds [OF v TrueI gen ok, where db = empty_db and uid = "\<lambda>i. []" and t = "\<lambda>_. 0"]
    by (auto simp: empty_db_def find_scope_def)
  then show ?thesis by (simp add: sample_db_def)
qed

lemma sample_step: "store_step sample_env empty_db (scope_digest sample_env sample_scope) sample_db"
  by (rule step_initialize [OF sample_scope_valid _ sample_initialize]) (simp add: sample_binding_valid)

lemma sample_reachable: "store_reachable sample_env sample_db"
  by (rule reach_step [OF reach_empty sample_step])

lemma sample_prepared_valid: "prepared_replacement_valid sample_prepared"
proof -
  have "is_rfc3339 ''2026-01-01T00:00:00.000Z''" by code_simp
  then show ?thesis
    by (simp add: prepared_replacement_valid_def sample_prepared_def sample_binding_valid
        unsigned_is_digest scope_digest_is_digest [OF sample_env_laws])
      (simp add: sample_binding_def)
qed

lemma sample_row:
  obtains r where "find_scope sample_db (scope_digest sample_env sample_scope) = Some r"
    and "sr_action_state r = IDLE" and "sr_generation r = 0" and "sr_action_epoch r = 0"
    and "se_parse_binding sample_env (sr_active_jcs r) = Some (sample_binding 0)"
    and "db_actions sample_db = []" and "db_tickets sample_db = []" and "db_receipts sample_db = []"
    and "db_prepared sample_db = []" and "uw_event_id ` set (db_audit sample_db) = {[]}"
  using sample_initialize
proof (rule initialize_Inr)
  fix sig now event
  let ?r = "\<lparr> sr_scope_digest = scope_digest sample_env sample_scope,
             sr_scope_jcs = se_dumps sample_env (runtime_scope_json sample_scope),
             sr_active_jcs = se_dumps sample_env (active_binding_json (sample_binding 0)), sr_generation = 0,
             sr_action_state = IDLE, sr_action_epoch = 0, sr_current_operation_id = None,
             sr_state_signature = sig, sr_updated_at = now \<rparr>"
  assume db: "sample_db = empty_db \<lparr> db_scopes := db_scopes empty_db @ [?r],
           db_audit := db_audit empty_db @ [event] \<rparr>" and ev: "uw_event_id event = []"
  have "se_parse_binding sample_env (se_dumps sample_env (active_binding_json (sample_binding 0))) =
      Some (sample_binding 0)"
    by (simp add: sample_env_def sample_parses sample_binding_valid)
  then show thesis
    by (intro that [of ?r]) (simp_all add: db ev find_scope_def empty_db_def)
qed

lemma sample_ready:
  obtains r where "cycle_ready sample_env (\<lambda>_. 0) sample_ids sample_db sample_scope sample_prepared 1 r"
proof -
  obtain r where r: "find_scope sample_db (scope_digest sample_env sample_scope) = Some r"
    "sr_action_state r = IDLE" "sr_generation r = 0" "sr_action_epoch r = 0"
    "se_parse_binding sample_env (sr_active_jcs r) = Some (sample_binding 0)"
    "db_actions sample_db = []" "db_tickets sample_db = []" "db_receipts sample_db = []"
    "db_prepared sample_db = []" "uw_event_id ` set (db_audit sample_db) = {[]}"
    by (rule sample_row)
  have limit: "parse_stamp sample_env (pp_expires_at sample_prepared) = Inr 1"
    by (simp add: parse_stamp_def sample_env_def sample_prepared_def removesuffix_def startswith_def
        int_decode_def sum_decode_def)
  have "inj sample_ids" by (rule injI) (metis length_replicate nat.inject sample_ids_def)
  with r limit show ?thesis
    by (intro that [of r]) (simp add: cycle_ready_def sample_scope_valid sample_prepared_valid find_action_def operation_receipt_def
      sample_ids_def, simp add: sample_prepared_def sample_ids_def)
qed

lemma reachable_run: "store_run E db db' \<Longrightarrow> store_reachable E db \<Longrightarrow> store_reachable E db'"
  by (induction rule: store_run.induct) (auto intro: reach_step)

text \<open>A reachable database on which an activation commits.\<close>

lemma sample_activation:
  obtains db ticket receipt db' where "store_reachable sample_env db"
    and "activate_prepared sample_env (\<lambda>i. Utc 0) (\<lambda>i. sample_ids (4 + i)) db sample_scope ''prep''
       ticket unsigned_digest (Some (\<lambda>p a. True)) = Inr (receipt, db')" and "db' \<noteq> db"
    and "xa_new_binding receipt = sample_binding 1" and "db_receipts db = []"
proof -
  obtain r where ready: "cycle_ready sample_env (\<lambda>_. 0) sample_ids sample_db sample_scope sample_prepared 1 r"
    by (rule sample_ready)
  obtain r0 where "db_receipts sample_db = []" by (rule sample_row)
  moreover obtain receipt db' where "\<exists>db4 ticket. store_run sample_env sample_db db4 \<and>
       db_receipts db4 = db_receipts sample_db \<and> db' \<noteq> db4 \<and>
       load_prepared_db sample_env NotUtc db4 sample_scope (pp_prepared_id sample_prepared) True =
         Inr sample_prepared \<and>
       activate_prepared sample_env (\<lambda>i. Utc 0) (\<lambda>i. sample_ids (4 + i)) db4 sample_scope
         (pp_prepared_id sample_prepared) ticket unsigned_digest (Some (\<lambda>p a. True)) = Inr (receipt, db')"
    and "xa_new_binding receipt = pp_new_binding sample_prepared"
    by (rule cycle_activates [where accepts = "\<lambda>p a. True" and outcome = "[]", OF sample_env_laws sample_iso_laws
          reachable_inv [OF sample_reachable sample_env_laws] ready unsigned_is_digest TrueI])
  ultimately obtain db ticket where run: "store_run sample_env sample_db db" and "db' \<noteq> db"
    and "activate_prepared sample_env (\<lambda>i. Utc 0) (\<lambda>i. sample_ids (4 + i)) db sample_scope
         (pp_prepared_id sample_prepared) ticket unsigned_digest (Some (\<lambda>p a. True)) = Inr (receipt, db')"
    and "xa_new_binding receipt = sample_binding 1" and "db_receipts db = []"
    by (auto simp: sample_prepared_def)
  then show ?thesis
    using that [OF reachable_run [OF run sample_reachable]] by (simp add: sample_prepared_def)
qed

lemma fresh_supply:
  fixes used :: "pystr list"
  obtains ids :: fresh_ids where "inj ids" and "\<forall>i. ids i \<noteq> []" and "\<forall>i. ids i \<notin> set used"
proof
  let ?ids = "\<lambda>i. replicate (Suc (sum_list (map length used)) + i) (CHR ''r'')"
  show "inj ?ids" by (rule injI) (metis add_left_cancel length_replicate)
  show "\<forall>i. ?ids i \<noteq> []" by simp
  show "\<forall>i. ?ids i \<notin> set used"
  proof (intro allI notI)
    fix i
    assume "?ids i \<in> set used"
    then have "length (?ids i) \<le> sum_list (map length used)"
      by (intro member_le_sum_list) (auto simp only: set_map intro: imageI)
    then show False by simp
  qed
qed

text \<open>And one on which a rollback commits.\<close>

lemma sample_rollback:
  obtains uid db rid ticket rb db' where "store_reachable sample_env db"
    and "rollback_receipt sample_env (\<lambda>i. Utc 0) uid db sample_scope rid ticket
       (Some (\<lambda>r. True)) = Inr (rb, db')" and "db' \<noteq> db"
    and "\<forall>e \<in> set (db_receipts db). ew_kind e = ACTIVATE"
proof -
  obtain db0 ticket receipt db where act: "store_reachable sample_env db0"
    "activate_prepared sample_env (\<lambda>i. Utc 0) (\<lambda>i. sample_ids (4 + i)) db0 sample_scope ''prep''
       ticket unsigned_digest (Some (\<lambda>p a. True)) = Inr (receipt, db)" "db \<noteq> db0"
    "xa_new_binding receipt = sample_binding 1" "db_receipts db0 = []"
    by (rule sample_activation)
  have inv: "store_inv sample_env db0" by (rule reachable_inv [OF act(1) sample_env_laws])
  have reach: "store_reachable sample_env db"
    by (rule reach_step [OF act(1) step_activate [OF sample_scope_valid act(2)]])
  obtain row and stored :: receipt_row where row: "load_row sample_env db0 sample_scope = Inr row"
    and stored: "db_receipts db = db_receipts db0 @ [stored]" "ew_kind stored = ACTIVATE"
    using sample_env_laws act(2,3) by (rule fresh_activation)
  have "rt_activation_receipt_valid receipt"
    using sample_env_laws act(2,3) row by (rule fresh_activation_action)
  then have gen: "xa_generation_after receipt = 1"
    using act(4) by (simp add: rt_activation_receipt_valid_def sample_binding_def)
  obtain ids :: fresh_ids where ids: "inj ids" "\<forall>i. ids i \<noteq> []"
    "\<forall>i. ids i \<notin> set (map tw_ticket_id (db_tickets db) @ map uw_event_id (db_audit db) @
       map ew_receipt_id (db_receipts db))"
    by (rule fresh_supply [of "map tw_ticket_id (db_tickets db) @ map uw_event_id (db_audit db) @
       map ew_receipt_id (db_receipts db)"])
  have big: "exact_int 2" by (simp add: exact_int_def)
  obtain ticket' db1 rb db2 where res: "reserve_boundary sample_env (\<lambda>i. Utc 0) ids db sample_scope
       (xa_operation_id receipt) (xa_generation_after receipt) 1 = Inr (ticket', db1)"
    and rb: "rollback_receipt sample_env (\<lambda>i. Utc 0) (\<lambda>i. ids (2 + i)) db1 sample_scope (xa_receipt_id receipt)
       ticket' (Some (\<lambda>r. True)) = Inr (rb, db2)" "db2 \<noteq> db1"
    by (rule rollback_completes [where t = "\<lambda>_. 0" and t' = "\<lambda>_. 0" and uid = ids and ttl = 1 and
          uid' = "\<lambda>i. ids (2 + i)" and accepts = "\<lambda>r. True",
          OF sample_env_laws sample_iso_laws inv sample_scope_valid act(2,3)])
      (use ids act(5) gen big in \<open>auto simp: operation_receipt_def dest: injD\<close>)
  have "db_receipts db1 = db_receipts db" using res by (rule reserve_boundary_Inr) simp
  then show ?thesis
    using stored act(5)
    by (intro that [OF reach_step [OF reach step_reserve [OF sample_scope_valid res]] rb]) simp
qed

text \<open>A running action of the sample scope, and its end either way.\<close>

lemma sample_running:
  obtains lease db r a where
    "begin_action sample_env (\<lambda>i. Utc 0) sample_ids sample_db sample_scope ''op'' unsigned_digest = Inr (lease, db)"
    and "store_inv sample_env db" and "find_scope db (scope_digest sample_env sample_scope) = Some r"
    and "find_action db (scope_digest sample_env sample_scope) ''op'' = Some a"
    and "sr_action_state r = RUNNING" and "sr_current_operation_id r = Some ''op''"
    and "sr_action_epoch r = 1" and "aw_state a = RUNNING" and "aw_action_epoch a = 1"
    and "aw_request_digest a = unsigned_digest"
    and "lease = \<lparr> al_scope_digest = scope_digest sample_env sample_scope, al_operation_id = ''op'',
       al_request_digest = unsigned_digest, al_action_epoch = 1, al_state = RUNNING,
       al_replayed = False, al_outcome_digest = None, al_outcome = None \<rparr>"
    and "sample_ids 1 \<notin> uw_event_id ` set (db_audit db)"
proof -
  obtain r :: scope_row where r: "find_scope sample_db (scope_digest sample_env sample_scope) = Some r"
    "sr_action_state r = IDLE" "sr_action_epoch r = 0" "db_actions sample_db = []"
    "uw_event_id ` set (db_audit sample_db) = {[]}"
    by (rule sample_row)
  have inv: "store_inv sample_env sample_db" by (rule reachable_inv [OF sample_reachable sample_env_laws])
  have none: "find_action sample_db (scope_digest sample_env sample_scope) ''op'' = None"
    by (simp add: find_action_def r(4))
  obtain lease db where beg: "begin_action sample_env (\<lambda>i. Utc 0) sample_ids sample_db sample_scope ''op''
      unsigned_digest = Inr (lease, db)"
    using begin_succeeds [where t = "\<lambda>_. 0" and uid = sample_ids, OF inv r(1,2) none _ unsigned_is_digest] r(3,5)
    by (auto simp: sample_ids_def)
  have inv': "store_inv sample_env db" by (rule inv_begin [OF inv beg])
  from beg show ?thesis
  proof (cases rule: begin_action_Inr)
    case (replay row existing)
    with none show ?thesis by simp
  next
    case (fresh row sig now asig event)
    have [simp]: "row = r" using load_row_Inr(1) [OF fresh(1)] r(1) by simp
    have r1: "find_scope db (scope_digest sample_env sample_scope) = Some (r \<lparr> sr_action_state := RUNNING,
        sr_action_epoch := 1, sr_current_operation_id := Some ''op'', sr_state_signature := sig,
        sr_updated_at := now \<rparr>)"
      using r by (simp add: fresh(8) row_simps)
    have a1: "find_action db (scope_digest sample_env sample_scope) ''op'' = Some
        \<lparr> aw_scope_digest = scope_digest sample_env sample_scope, aw_operation_id = ''op'',
          aw_request_digest = unsigned_digest, aw_action_epoch = 1, aw_state = RUNNING,
          aw_outcome_digest = None, aw_outcome = None, aw_action_signature = asig \<rparr>"
      using r by (simp add: fresh(8) find_action_def update_scope_def)
    show ?thesis
      by (rule that [OF beg inv' r1 a1])
        (use r fresh(9,11) in \<open>simp_all add: fresh(8) update_scope_def sample_ids_def\<close>)
  qed
qed

lemma sample_end:
  obtains lease db db' where "store_inv sample_env db" and "al_request_digest lease = unsigned_digest"
    and "end_action sample_env (\<lambda>i. Utc 0) (\<lambda>i. sample_ids (1 + i)) db sample_scope lease uncertain outcome =
      Inr ((), db')"
proof -
  obtain lease db and r :: scope_row and a :: action_row where s:
    "store_inv sample_env db" "find_scope db (scope_digest sample_env sample_scope) = Some r"
    "find_action db (scope_digest sample_env sample_scope) ''op'' = Some a"
    "sr_action_state r = RUNNING" "sr_current_operation_id r = Some ''op''"
    "sr_action_epoch r = 1" "aw_state a = RUNNING" "aw_action_epoch a = 1"
    "aw_request_digest a = unsigned_digest"
    "lease = \<lparr> al_scope_digest = scope_digest sample_env sample_scope, al_operation_id = ''op'',
       al_request_digest = unsigned_digest, al_action_epoch = 1, al_state = RUNNING,
       al_replayed = False, al_outcome_digest = None, al_outcome = None \<rparr>"
    "sample_ids 1 \<notin> uw_event_id ` set (db_audit db)"
    by (rule sample_running)
  have "\<exists>db'. end_action sample_env (\<lambda>i. Utc 0) (\<lambda>i. sample_ids (1 + i)) db sample_scope lease uncertain outcome =
      Inr ((), db')"
    by (rule end_succeeds [where t = "\<lambda>_. 0", OF s(1,2)]) (use s(3-) in simp_all)
  then obtain db' where "end_action sample_env (\<lambda>i. Utc 0) (\<lambda>i. sample_ids (1 + i)) db sample_scope lease
      uncertain outcome = Inr ((), db')" by blast
  then show ?thesis using that [OF s(1), of lease] s(10) by simp
qed

lemma sample_uncertain:
  obtains db r where "find_scope db (scope_digest sample_env sample_scope) = Some r"
    and "sr_action_state r = UNCERTAIN"
proof -
  obtain lease db db' where "end_action sample_env (\<lambda>i. Utc 0) (\<lambda>i. sample_ids (1 + i)) db sample_scope lease True [] =
      Inr ((), db')" by (rule sample_end)
  then show ?thesis
  proof (cases rule: end_action_Inr)
    case (1 row action sig now asig event)
    have "find_scope db' (scope_digest sample_env sample_scope) = Some (row \<lparr> sr_action_state := UNCERTAIN,
        sr_current_operation_id := None, sr_state_signature := sig, sr_updated_at := now \<rparr>)"
      using load_row_Inr(1) [OF 1(1)] by (simp add: 1(11) row_simps)
    then show ?thesis by (rule that) simp
  qed
qed

end
