(* ===== verification/Swap_Properties.thy ===== *)
theory Swap_Properties
  imports Swap_Controller Store_Sample
begin

text \<open>
  Properties of approvals and of the swap controller: what has to be true, inside the
  transaction that writes, whenever a controller changed the active binding.
\<close>

section \<open>Approvals\<close>

lemma approval_round_trip_iff:
  assumes "iso_laws E" and "approval_issue E v domain op subject (Utc s) (Utc e) synthetic = Inr a"
  shows "approval_verify E v a domain' op' subject' (Utc t) = Inr a \<longleftrightarrow>
    domain' = domain \<and> op' = op \<and> subject' = subject \<and> s \<le> t \<and> t < e"
proof -
  have a: "approval_valid E a" "av_issuer a = vf_issuer v" "av_domain a = domain"
    "av_operation_id a = op" "av_subject a = subject"
    "av_signature a = approval_signature E (vf_key v) a"
    "av_issued_at a = se_isoformat E s @ ''Z''" "av_expires_at a = se_isoformat E e @ ''Z''"
    using assms(2) by (auto simp: approval_issue_def approval_utc_def Let_def result_simps approval_signature_def
        approval_unsigned_def)
  have parse: "approval_parse_utc E (se_isoformat E i @ ''Z'') = Inr i" for i
    by (simp only: approval_parse_stamp stamp_reads [OF assms(1)])
  have clock: "approval_utc E (Utc t) = Inr (se_isoformat E t @ ''Z'')" by (simp add: approval_utc_def)
  show ?thesis
    unfolding approval_verify_iff clock a(7,8) sum.inject ex_simps parse
    by (auto simp: a(1-6) parse simp del: append.simps)
qed

text \<open>C32. An approval that an authority issued is accepted by its verifier exactly for the
  domain, operation and subject it was issued for, and exactly from the instant of issue up to,
  but excluding, the instant of expiry.\<close>

theorem approval_round_trip:
  assumes "iso_laws E" and "approval_issue E v domain op subject (Utc s) (Utc e) synthetic = Inr a"
  shows "approval_verify E v a domain' op' subject' (Utc t) = Inr a \<longleftrightarrow>
    domain' = domain \<and> op' = op \<and> subject' = subject \<and> s \<le> t \<and> t < e"
  by (rule approval_round_trip_iff [OF assms])

section \<open>Activation under control\<close>

lemma controller_activate_fresh:
  assumes "controller_activate E C clk uid dbs pid ticket approval = Inr (receipt, db')" and "db' \<noteq> dbs 2"
  obtains record' digest where
    "activate_prepared E clk uid (dbs 2) (sc_scope C) pid ticket digest
       (Some (activation_gate E C record' digest approval)) = Inr (receipt, db')"
proof -
  from assms show ?thesis
    by (auto simp: controller_activate_def result_simps intro: that split: option.splits)
qed

lemma sum_case_Inr:
  "(case r of Inl e \<Rightarrow> h e | Inr y \<Rightarrow> g y) = Inr x \<longleftrightarrow>
     (\<exists>e. r = Inl e \<and> h e = Inr x) \<or> (\<exists>y. r = Inr y \<and> g y = Inr x)"
  by (cases r) auto

lemma approval_digest_Inr:
  assumes "controller_approval_digest E C i p approval = Inr digest" and "needs_approval p"
  obtains v a d subject where "sc_approval_verifier C = Some v" and "approval = GivenApproval a"
    and "av_issuer a \<noteq> rs_principal (sc_scope C)" and "prepared_digest E p = Inr d"
    and "activation_subject E (pp_operation_id p) d (pp_scope_digest p) (pp_request_digest p)
           (ab_generation (pp_old_binding p)) = Inr subject"
    and "approval_verify E v a Activation (pp_operation_id p) subject (sc_clock C i) = Inr a"
    and "json_digest E (approval_json a) = Inr digest"
proof -
  from assms obtain v a where v: "sc_approval_verifier C = Some v" and a: "approval = GivenApproval a"
    by (auto simp: controller_approval_digest_def split: approval_arg.splits option.splits)
  obtain d subject b where "av_issuer a \<noteq> rs_principal (sc_scope C)" "prepared_digest E p = Inr d"
    "activation_subject E (pp_operation_id p) d (pp_scope_digest p) (pp_request_digest p)
       (ab_generation (pp_old_binding p)) = Inr subject"
    and verify: "approval_verify E v a Activation (pp_operation_id p) subject (sc_clock C i) = Inr b"
    and "json_digest E (approval_json b) = Inr digest"
    using assms(1) by (auto simp: controller_approval_digest_def v a result_simps sum_case_Inr)
  moreover have "b = a" using verify by (simp add: approval_verify_iff)
  ultimately show ?thesis using that [OF v a] by simp
qed

lemma approval_issue_succeeds:
  assumes "env_laws E" and "iso_laws E" and "vf_issuer v \<noteq> []" and "op \<noteq> []" and "is_digest subject"
    and "is_rfc3339 (se_isoformat E s @ ''Z'')" and "is_rfc3339 (se_isoformat E e @ ''Z'')"
    and "se_isoformat E s @ ''Z'' < se_isoformat E e @ ''Z''"
  shows "\<exists>a. approval_issue E v domain op subject (Utc s) (Utc e) synthetic = Inr a"
proof -
  have ts: "timestamp_valid E (se_isoformat E i @ ''Z'')" if "is_rfc3339 (se_isoformat E i @ ''Z'')" for i
    using that stamp_reads [OF assms(2), of i] by (auto simp: timestamp_valid_def parse_stamp_def split: option.splits)
  have "is_digest (approval_signature E key a)" for key a
    unfolding approval_signature_def using assms(1) by (intro is_digest_hex) (simp add: env_laws_def)
  with assms(3-5,8) ts [OF assms(6)] ts [OF assms(7)] unsigned_is_digest show ?thesis
    by (simp add: approval_issue_def approval_utc_def Let_def approval_valid_def not_le)
qed

section \<open>A sample composition\<close>

definition sample_verifier :: approval_verifier where
  "sample_verifier = \<lparr> vf_issuer = ''bob'', vf_key = replicate 16 (CHR ''k'') \<rparr>"

definition sample_controller :: swap_controller where
  "sample_controller = \<lparr> sc_scope = sample_scope, sc_validator = (\<lambda>i p. True),
     sc_approval_verifier = Some sample_verifier, sc_rollback_validator = Some (\<lambda>i r. Inr True),
     sc_clock = (\<lambda>i. Utc (- 1)) \<rparr>"

lemma sample_stamps:
  "is_rfc3339 (se_isoformat sample_env (- 1) @ ''Z'')" "is_rfc3339 (se_isoformat sample_env 0 @ ''Z'')"
  "se_isoformat sample_env (- 1) @ ''Z'' < se_isoformat sample_env 0 @ ''Z''"
proof -
  have eq: "se_isoformat sample_env (- 1) @ ''Z'' = ''2026-01-01T00:00:00.11Z''"
    "se_isoformat sample_env 0 @ ''Z'' = ''2026-01-01T00:00:00.1Z''"
    by (simp_all add: sample_env_def int_encode_def sum_encode_def)
  show "is_rfc3339 (se_isoformat sample_env (- 1) @ ''Z'')" "is_rfc3339 (se_isoformat sample_env 0 @ ''Z'')"
    "se_isoformat sample_env (- 1) @ ''Z'' < se_isoformat sample_env 0 @ ''Z''"
    unfolding eq by code_simp+
qed

lemma sample_issue:
  assumes "op \<noteq> []" and "is_digest subject"
  shows "\<exists>a. approval_issue sample_env sample_verifier domain op subject (Utc (- 1)) (Utc 0) False = Inr a"
  by (rule approval_issue_succeeds [OF sample_env_laws sample_iso_laws _ assms sample_stamps])
    (simp add: sample_verifier_def)

theorem approval_round_trip_witness:
  "\<exists>a. approval_issue sample_env sample_verifier Activation ''op'' unsigned_digest (Utc (- 1)) (Utc 0) False = Inr a \<and>
    approval_verify sample_env sample_verifier a Activation ''op'' unsigned_digest (Utc (- 1)) = Inr a \<and>
    approval_verify sample_env sample_verifier a Activation ''op'' unsigned_digest (Utc 0) \<noteq> Inr a"
proof -
  obtain a where a: "approval_issue sample_env sample_verifier Activation ''op'' unsigned_digest
      (Utc (- 1)) (Utc 0) False = Inr a"
    using sample_issue [of "''op''" unsigned_digest] unsigned_is_digest by auto
  note verify = approval_round_trip [OF sample_iso_laws a]
  have "approval_verify sample_env sample_verifier a Activation ''op'' unsigned_digest (Utc (- 1)) = Inr a"
    "approval_verify sample_env sample_verifier a Activation ''op'' unsigned_digest (Utc 0) \<noteq> Inr a"
    unfolding verify by simp_all
  with a show ?thesis by blast
qed

lemma json_digest_ok:
  "env_laws E \<Longrightarrow> json_value_ok v \<Longrightarrow> \<exists>d. json_digest E v = Inr d \<and> is_digest d"
  using is_digest_hex by (simp add: json_digest_def digest_bytes_def env_laws_def)

lemma activation_subject_ok:
  assumes "env_laws E" and "exact_int g"
  shows "\<exists>s. activation_subject E op d sd req g = Inr s \<and> is_digest s"
  unfolding activation_subject_def by (rule json_digest_ok [OF assms(1)]) (simp add: assms(2))

lemma sample_generation: "ab_generation (pp_old_binding sample_prepared) = 0"
  by (simp add: sample_prepared_def sample_binding_def)

text \<open>The sample preparation is high risk, so the sample controller needs an approval for it.\<close>

lemma sample_gate:
  obtains a digest where "is_digest digest"
    and "controller_approval_digest sample_env sample_controller 0 sample_prepared (GivenApproval a) = Inr digest"
    and "activation_gate sample_env sample_controller sample_prepared digest (GivenApproval a) sample_prepared digest"
proof -
  obtain d where d: "prepared_digest sample_env sample_prepared = Inr d"
    using json_digest_ok [OF sample_env_laws, of "prepared_replacement_json sample_prepared"]
    by (auto simp: prepared_digest_def sample_prepared_def sample_binding_def)
  obtain subject where s: "activation_subject sample_env (pp_operation_id sample_prepared) d
      (pp_scope_digest sample_prepared) (pp_request_digest sample_prepared)
      (ab_generation (pp_old_binding sample_prepared)) = Inr subject" "is_digest subject"
    using activation_subject_ok [OF sample_env_laws]
    by (metis exact_int_small(1) sample_generation)
  obtain a where a: "approval_issue sample_env sample_verifier Activation (pp_operation_id sample_prepared) subject
      (Utc (- 1)) (Utc 0) False = Inr a"
    using sample_issue [OF _ s(2)] by (fastforce simp: sample_prepared_def)
  have verify: "approval_verify sample_env sample_verifier a Activation (pp_operation_id sample_prepared) subject
      (Utc (- 1)) = Inr a"
    using approval_round_trip_iff [OF sample_iso_laws a] by simp
  have "av_issuer a = ''bob''" using verify by (simp add: approval_verify_iff sample_verifier_def)
  then have issuer: "av_issuer a \<noteq> rs_principal sample_scope" by (simp add: sample_scope_def)
  obtain digest where digest: "json_digest sample_env (approval_json a) = Inr digest" "is_digest digest"
    using json_digest_ok [OF sample_env_laws, of "approval_json a"]
    by (auto simp: approval_json_def approval_unsigned_def)
  have dig: "controller_approval_digest sample_env sample_controller i sample_prepared (GivenApproval a) = Inr digest" for i
    using issuer d s verify digest by (simp add: controller_approval_digest_def sample_controller_def)
  have "check_record sample_env sample_controller 1 sample_prepared = Inr ()"
    by (simp add: check_record_def sample_controller_def sample_prepared_def)
  then have "activation_gate sample_env sample_controller sample_prepared digest (GivenApproval a) sample_prepared digest"
    using d dig by (simp add: activation_gate_def)
  then show ?thesis using that digest(2) dig by blast
qed

text \<open>C31. Whenever a controller activation changed the store, then inside the transaction that
  wrote: the stored preparation belonged to the controller's scope, the replacement validator
  accepted it, and if it is high risk or demands approval, the caller had passed an approval by
  the configured issuer, not by the session's own principal, that verified for this very
  preparation (its digest, scope, request and generation are the subject) at that time; the
  receipt records the digest of that approval.\<close>

theorem controller_activation_authorized:
  assumes "controller_activate E C clk uid dbs pid ticket approval = Inr (receipt, db')" and "db' \<noteq> dbs 2"
  shows "\<exists>p. load_prepared_db E NotUtc (dbs 2) (sc_scope C) pid True = Inr p \<and>
    pp_scope_digest p = scope_digest E (sc_scope C) \<and> sc_validator C 1 p \<and>
    xa_new_binding receipt = pp_new_binding p \<and>
    (needs_approval p \<longrightarrow>
      (\<exists>v a d subject. sc_approval_verifier C = Some v \<and> approval = GivenApproval a \<and>
         av_issuer a = vf_issuer v \<and> av_issuer a \<noteq> rs_principal (sc_scope C) \<and>
         prepared_digest E p = Inr d \<and>
         activation_subject E (pp_operation_id p) d (pp_scope_digest p) (pp_request_digest p)
           (ab_generation (pp_old_binding p)) = Inr subject \<and>
         approval_verify E v a Activation (pp_operation_id p) subject (sc_clock C 1) = Inr a \<and>
         json_digest E (approval_json a) = Inr (xa_approval_digest receipt)))"
  using assms
proof (rule controller_activate_fresh)
  fix record' digest
  assume "activate_prepared E clk uid (dbs 2) (sc_scope C) pid ticket digest
       (Some (activation_gate E C record' digest approval)) = Inr (receipt, db')"
  then show ?thesis
  proof (cases rule: activate_prepared_Inr)
    case (fresh row p active accepts)
    have gate: "activation_gate E C record' digest approval p digest" using fresh(9,10) by simp
    then have ok: "check_record E C 1 p = Inr ()" "controller_approval_digest E C 1 p approval = Inr digest"
      by (auto simp: activation_gate_def split: sum.splits)
    have r: "xa_new_binding receipt = pp_new_binding p" "xa_approval_digest receipt = digest"
      using commit_activation_Inr [OF fresh(11)] by metis+
    have "pp_scope_digest p = scope_digest E (sc_scope C) \<and> sc_validator C 1 p"
      using ok(1) by (simp add: check_record_def result_simps)
    moreover have "\<exists>v a d subject. sc_approval_verifier C = Some v \<and> approval = GivenApproval a \<and>
         av_issuer a = vf_issuer v \<and> av_issuer a \<noteq> rs_principal (sc_scope C) \<and>
         prepared_digest E p = Inr d \<and>
         activation_subject E (pp_operation_id p) d (pp_scope_digest p) (pp_request_digest p)
           (ab_generation (pp_old_binding p)) = Inr subject \<and>
         approval_verify E v a Activation (pp_operation_id p) subject (sc_clock C 1) = Inr a \<and>
         json_digest E (approval_json a) = Inr (xa_approval_digest receipt)" if "needs_approval p"
      using ok(2) that
    proof (rule approval_digest_Inr)
      fix v a d subject
      assume "sc_approval_verifier C = Some v" "approval = GivenApproval a"
        "av_issuer a \<noteq> rs_principal (sc_scope C)" "prepared_digest E p = Inr d"
        "activation_subject E (pp_operation_id p) d (pp_scope_digest p) (pp_request_digest p)
           (ab_generation (pp_old_binding p)) = Inr subject"
        and verify: "approval_verify E v a Activation (pp_operation_id p) subject (sc_clock C 1) = Inr a"
        and "json_digest E (approval_json a) = Inr digest"
      moreover have "av_issuer a = vf_issuer v" using verify by (simp add: approval_verify_iff)
      ultimately show ?thesis using r(2) by blast
    qed
    ultimately show ?thesis using fresh(2) r(1) by blast
  qed (use assms(2) in simp)
qed

lemma load_prepared_clock:
  "load_prepared_db E now db scope pid True = load_prepared_db E NotUtc db scope pid True"
  by (simp only: load_prepared_db_def if_True)

lemma sample_controlled:
  obtains db ticket a receipt db' where
    "controller_activate sample_env sample_controller (\<lambda>i. Utc 0) (\<lambda>i. sample_ids (4 + i)) (\<lambda>i. db) ''prep''
       ticket (GivenApproval a) = Inr (receipt, db')" and "db' \<noteq> db"
proof -
  obtain a digest where g: "is_digest digest"
    "controller_approval_digest sample_env sample_controller 0 sample_prepared (GivenApproval a) = Inr digest"
    "activation_gate sample_env sample_controller sample_prepared digest (GivenApproval a) sample_prepared digest"
    by (rule sample_gate)
  let ?gate = "activation_gate sample_env sample_controller sample_prepared digest (GivenApproval a)"
  obtain r where ready: "cycle_ready sample_env (\<lambda>_. 0) sample_ids sample_db sample_scope sample_prepared 1 r"
    by (rule sample_ready)
  obtain receipt db' where "\<exists>db4 ticket. store_run sample_env sample_db db4 \<and>
       db_receipts db4 = db_receipts sample_db \<and> db' \<noteq> db4 \<and>
       load_prepared_db sample_env NotUtc db4 sample_scope (pp_prepared_id sample_prepared) True =
         Inr sample_prepared \<and>
       activate_prepared sample_env (\<lambda>i. Utc 0) (\<lambda>i. sample_ids (4 + i)) db4 sample_scope
         (pp_prepared_id sample_prepared) ticket digest (Some ?gate) = Inr (receipt, db')"
    and new: "xa_new_binding receipt = pp_new_binding sample_prepared"
    by (rule cycle_activates [where accepts = ?gate and outcome = "[]", OF sample_env_laws sample_iso_laws
          reachable_inv [OF sample_reachable sample_env_laws] ready g(1,3)])
  then obtain db ticket where act: "activate_prepared sample_env (\<lambda>i. Utc 0) (\<lambda>i. sample_ids (4 + i)) db
      sample_scope (pp_prepared_id sample_prepared) ticket digest (Some ?gate) = Inr (receipt, db')" "db' \<noteq> db"
    and none: "db_receipts db = db_receipts sample_db"
    and loads: "load_prepared_db sample_env NotUtc db sample_scope (pp_prepared_id sample_prepared) True =
      Inr sample_prepared" by blast
  have none: "db_receipts db = []" unfolding none by (rule sample_row)
  have pid: "pp_prepared_id sample_prepared = ''prep''" by (simp add: sample_prepared_def)
  have "find_activation sample_env db sample_scope ''prep'' = Inr None"
    by (simp add: find_activation_def receipts_by_time_def none safe_db_call_def)
  moreover have "get_prepared sample_env (\<lambda>i. Utc 0) db sample_scope ''prep'' True = Inr sample_prepared"
    using loads load_prepared_clock [of _ "Utc 0"] by (simp add: get_prepared_def pid)
  moreover have "check_record sample_env sample_controller 0 sample_prepared = Inr ()"
    by (simp add: check_record_def sample_controller_def sample_prepared_def)
  moreover have "sc_scope sample_controller = sample_scope" by (simp add: sample_controller_def)
  ultimately show ?thesis
    using act g(2) by (intro that [of db ticket a receipt db']) (simp_all add: controller_activate_def pid)
qed

theorem controller_activation_authorized_witness:
  "\<exists>db ticket a receipt db' p. controller_activate sample_env sample_controller (\<lambda>i. Utc 0)
      (\<lambda>i. sample_ids (4 + i)) (\<lambda>i. db) ''prep'' ticket (GivenApproval a) = Inr (receipt, db') \<and> db' \<noteq> db \<and>
    load_prepared_db sample_env NotUtc db sample_scope ''prep'' True = Inr p \<and> sc_validator sample_controller 1 p"
proof -
  obtain db ticket a receipt db' where c: "controller_activate sample_env sample_controller (\<lambda>i. Utc 0)
      (\<lambda>i. sample_ids (4 + i)) (\<lambda>i. db) ''prep'' ticket (GivenApproval a) = Inr (receipt, db')" "db' \<noteq> db"
    by (rule sample_controlled)
  have scope: "sc_scope sample_controller = sample_scope" by (simp add: sample_controller_def)
  have "\<exists>p. load_prepared_db sample_env NotUtc db sample_scope ''prep'' True = Inr p \<and>
      sc_validator sample_controller 1 p"
    using controller_activation_authorized [OF c] unfolding scope by blast
  with c show ?thesis by blast
qed

text \<open>Whenever a controller rollback changed the store, the rollback validator had accepted
  the activation twice: before, and again inside the transaction that wrote, for the receipt
  with the same digest.\<close>

theorem controller_rollback_authorized:
  assumes "controller_rollback E C clk uid dbs rid ticket = Inr (rb, db')" and "db' \<noteq> dbs 2"
  shows "\<exists>accepts before source. sc_rollback_validator C = Some accepts \<and>
    get_receipt E (dbs 1) (sc_scope C) rid = Inr (ActivationR before) \<and> accepts 0 before = Inr True \<and>
    get_receipt E (dbs 2) (sc_scope C) rid = Inr (ActivationR source) \<and> accepts 1 source = Inr True \<and>
    json_digest E (rt_activation_json source) = json_digest E (rt_activation_json before) \<and>
    xr_source_receipt_id rb = xa_receipt_id source"
proof -
  from assms obtain accepts before where v: "sc_rollback_validator C = Some accepts"
    and before: "get_receipt E (dbs 1) (sc_scope C) rid = Inr (ActivationR before)" "accepts 0 before = Inr True"
    and run: "Store_Receipts.rollback_receipt E clk uid (dbs 2) (sc_scope C) rid ticket
      (Some (rollback_gate E accepts before)) = Inr (rb, db')"
    by (auto simp: controller_rollback_def result_simps sum_case_Inr split: option.splits if_splits)
  from run show ?thesis
  proof (cases rule: rollback_receipt_Inr)
    case (fresh row kind source active accepts')
    have "rollback_gate E accepts before source" using fresh(8,9) by simp
    then have "accepts 1 source = Inr True"
      "json_digest E (rt_activation_json source) = json_digest E (rt_activation_json before)"
      by (auto simp: rollback_gate_def split: sum.splits)
    moreover have "get_receipt E (dbs 2) (sc_scope C) rid = Inr (ActivationR source)"
      using fresh(2) by (simp add: get_receipt_def)
    moreover have "xr_source_receipt_id rb = xa_receipt_id source"
      using commit_rollback_Inr [OF fresh(10)] by metis
    ultimately show ?thesis using v before by blast
  qed (use assms(2) in simp)
qed

lemma sample_rolled_back:
  obtains uid db rid ticket rb db' where
    "controller_rollback sample_env sample_controller (\<lambda>i. Utc 0) uid (\<lambda>i. db) rid ticket = Inr (rb, db')"
    and "db' \<noteq> db"
proof -
  obtain uid db rid ticket rb db' where rb:
    "Store_Receipts.rollback_receipt sample_env (\<lambda>i. Utc 0) uid db sample_scope rid ticket (Some (\<lambda>r. True)) =
       Inr (rb, db')" "db' \<noteq> db" and kinds: "\<forall>e \<in> set (db_receipts db). ew_kind e = ACTIVATE"
    by (rule sample_rollback)
  obtain kind source where load: "load_receipt_db sample_env db sample_scope rid = Inr (kind, ActivationR source)"
    using rb(1) by (cases rule: rollback_receipt_Inr)
  let ?gate = "rollback_gate sample_env (\<lambda>i r. Inr True) source"
  have valid: "\<exists>d. json_digest sample_env (rt_activation_json source) = Inr d"
  proof -
    obtain s where "receipt_signature sample_env kind (rt_activation_unsigned source) = Inr s"
      using load by (auto simp: load_receipt_db_def result_simps split: option.splits if_splits)
    then show ?thesis
      by (auto simp: receipt_signature_def sign_text_def sign_def result_simps receipt_payload_def
          rt_activation_json_def json_digest_def)
  qed
  then have gate: "?gate source" by (auto simp: rollback_gate_def)
  have none: "filter (\<lambda>e. ew_scope_digest e = scope_digest sample_env sample_scope \<and> ew_kind e = ROLLBACK)
      (db_receipts db) = []"
    using kinds by (auto simp: filter_empty_conv)
  have run: "Store_Receipts.rollback_receipt sample_env (\<lambda>i. Utc 0) uid db sample_scope rid ticket (Some ?gate) =
      Inr (rb, db')"
    using rb gate
    by (cases "operation_receipt db (scope_digest sample_env sample_scope) (xa_operation_id source) ROLLBACK")
      (auto simp: rollback_receipt_def Let_def result_simps load)
  have "find_rollback sample_env db sample_scope rid = Inr None"
    by (simp add: find_rollback_def receipts_by_time_def none safe_db_call_def)
  moreover have "get_receipt sample_env db sample_scope rid = Inr (ActivationR source)"
    using load by (simp add: get_receipt_def)
  ultimately have "controller_rollback sample_env sample_controller (\<lambda>i. Utc 0) uid (\<lambda>i. db) rid ticket = Inr (rb, db')"
    using run by (simp add: controller_rollback_def sample_controller_def)
  then show ?thesis using that rb(2) by blast
qed

theorem controller_rollback_authorized_witness:
  "\<exists>uid db rid ticket rb db' source. controller_rollback sample_env sample_controller (\<lambda>i. Utc 0) uid (\<lambda>i. db) rid
      ticket = Inr (rb, db') \<and> db' \<noteq> db \<and>
    get_receipt sample_env db sample_scope rid = Inr (ActivationR source) \<and>
    xr_source_receipt_id rb = xa_receipt_id source"
proof -
  obtain uid db rid ticket rb db' where c: "controller_rollback sample_env sample_controller (\<lambda>i. Utc 0) uid
      (\<lambda>i. db) rid ticket = Inr (rb, db')" "db' \<noteq> db"
    by (rule sample_rolled_back)
  have scope: "sc_scope sample_controller = sample_scope" by (simp add: sample_controller_def)
  have "\<exists>source. get_receipt sample_env db sample_scope rid = Inr (ActivationR source) \<and>
      xr_source_receipt_id rb = xa_receipt_id source"
    using controller_rollback_authorized [OF c] unfolding scope by blast
  with c show ?thesis by blast
qed

end
