(* ===== verification/Attempts.thy ===== *)
theory Attempts
  imports Store_Base
begin

text \<open>
  The reservation store of twin attempts (\<^verbatim>\<open>swap/attempts.py\<close>): one row per operation, reserved
  as RUNNING and completed once. The table is the list of its rows. The \<open>UPDATE\<close> of
  \<open>complete\<close> selects running rows only, so the transition trigger never fires; rows are never
  deleted.
\<close>

datatype attempt_state = AttemptRunning | AttemptComplete

fun attempt_state_text :: "attempt_state \<Rightarrow> pystr" where
  "attempt_state_text AttemptRunning = ''RUNNING''"
| "attempt_state_text AttemptComplete = ''COMPLETE''"

record attempt_row =
  at_operation_id :: pystr
  at_binding_digest :: pystr
  at_state :: attempt_state
  at_manifest :: "bytes option"

record stored_attempt = attempt_row +
  at_signature :: bytes

datatype attempt_error = AttemptError pystr | AttemptSqlite

type_synonym 'a attempt_result = "attempt_error + 'a"

definition attempt_sign ::
  "store_env \<Rightarrow> bytes \<Rightarrow> pystr \<Rightarrow> pystr \<Rightarrow> attempt_state \<Rightarrow> bytes option \<Rightarrow> bytes" where
  "attempt_sign E key op binding st manifest =
     se_hmac E key (se_dumps E (JObj
       [(''domain'', JStr ''ccs-m5-twin-attempt/1''), (''operation_id'', JStr op),
        (''binding_digest'', JStr binding), (''state'', JStr (attempt_state_text st)),
        (''manifest'', json_opt (\<lambda>m. JStr (digest_bytes E m)) manifest)]))"

definition attempt_verified ::
  "store_env \<Rightarrow> bytes \<Rightarrow> stored_attempt \<Rightarrow> attempt_row attempt_result" where
  "attempt_verified E key row =
    (if at_signature row \<noteq>
        attempt_sign E key (at_operation_id row) (at_binding_digest row) (at_state row) (at_manifest row)
     then Inl (AttemptError ''attempt authentication failed'')
     else Inr (attempt_row.truncate row))"

definition find_attempt :: "stored_attempt list \<Rightarrow> pystr \<Rightarrow> stored_attempt option" where
  "find_attempt rows op = find (\<lambda>r. at_operation_id r = op) rows"

definition attempt_reserve ::
  "store_env \<Rightarrow> bytes \<Rightarrow> stored_attempt list \<Rightarrow> pystr \<Rightarrow> pystr \<Rightarrow>
   (attempt_row \<times> stored_attempt list) attempt_result"
where
  "attempt_reserve E key rows op binding =
    (case find_attempt rows op of
       None \<Rightarrow>
         Inr (\<lparr> at_operation_id = op, at_binding_digest = binding, at_state = AttemptRunning,
                at_manifest = None \<rparr>,
              rows @ [\<lparr> at_operation_id = op, at_binding_digest = binding, at_state = AttemptRunning,
                at_manifest = None, at_signature = attempt_sign E key op binding AttemptRunning None \<rparr>])
     | Some row \<Rightarrow>
         res_bind (attempt_verified E key row) (\<lambda>result.
         if at_binding_digest result \<noteq> binding then Inl (AttemptError ''attempt binding mismatch'')
         else if at_state result \<noteq> AttemptComplete then Inl (AttemptError ''attempt already reserved'')
         else Inr (result, rows)))"

definition attempt_complete ::
  "store_env \<Rightarrow> bytes \<Rightarrow> stored_attempt list \<Rightarrow> pystr \<Rightarrow> bytes \<Rightarrow> stored_attempt list attempt_result" where
  "attempt_complete E key rows op manifest =
    (case find_attempt rows op of
       None \<Rightarrow> Inl (AttemptError ''attempt completion rejected'')
     | Some row \<Rightarrow>
         res_bind (attempt_verified E key row) (\<lambda>result.
         if at_state result \<noteq> AttemptRunning then Inl (AttemptError ''attempt completion rejected'')
         else
           let signature = attempt_sign E key op (at_binding_digest row) AttemptComplete (Some manifest);
               hit = (\<lambda>r. at_operation_id r = op \<and> at_state r = AttemptRunning)
           in if length (filter hit rows) \<noteq> 1
              then Inl (AttemptError ''attempt completion rejected'')
              else Inr (map (\<lambda>r. if hit r
                     then r \<lparr> at_state := AttemptComplete, at_manifest := Some manifest,
                              at_signature := signature \<rparr> else r) rows)))"

definition attempt_get ::
  "store_env \<Rightarrow> bytes \<Rightarrow> stored_attempt list \<Rightarrow> pystr \<Rightarrow> attempt_row option attempt_result" where
  "attempt_get E key rows op =
    (case find_attempt rows op of
       None \<Rightarrow> Inr None
     | Some row \<Rightarrow> res_bind (attempt_verified E key row) (\<lambda>r. Inr (Some r)))"

section \<open>The store as a state machine\<close>

inductive attempt_run ::
  "store_env \<Rightarrow> bytes \<Rightarrow> stored_attempt list \<Rightarrow> stored_attempt list \<Rightarrow> bool" for E key where
  attempt_refl: "attempt_run E key rows rows"
| attempt_reserves: "attempt_run E key rows rows1 \<Longrightarrow>
    attempt_reserve E key rows1 op b = Inr (r, rows2) \<Longrightarrow> attempt_run E key rows rows2"
| attempt_completes: "attempt_run E key rows rows1 \<Longrightarrow>
    attempt_complete E key rows1 op m = Inr rows2 \<Longrightarrow> attempt_run E key rows rows2"

lemma find_attempt_append:
  "find_attempt rows op = Some r \<Longrightarrow> find_attempt (rows @ xs) op = Some r"
  by (induction rows) (auto simp: find_attempt_def)

lemma find_attempt_new:
  "find_attempt rows op = None \<Longrightarrow> at_operation_id r = op \<Longrightarrow> find_attempt (rows @ [r]) op = Some r"
  by (induction rows) (auto simp: find_attempt_def split: if_splits)

lemma find_attempt_map:
  assumes "\<And>r. at_operation_id (f r) = at_operation_id r"
  shows "find_attempt (map f rows) op = map_option f (find_attempt rows op)"
  using assms by (induction rows) (auto simp: find_attempt_def)

lemma attempt_reserve_rows:
  assumes "attempt_reserve E key rows op b = Inr (r, rows')"
  obtains "find_attempt rows op = None" "rows' = rows @ [\<lparr> at_operation_id = op, at_binding_digest = b,
      at_state = AttemptRunning, at_manifest = None,
      at_signature = attempt_sign E key op b AttemptRunning None \<rparr>]" "at_state r = AttemptRunning"
  | "rows' = rows" "at_state r = AttemptComplete"
proof -
  from assms show ?thesis
    using that by (cases "at_state r")
      (auto simp: attempt_reserve_def result_simps split: option.splits if_splits)
qed

lemma attempt_complete_find:
  assumes "attempt_complete E key rows op m = Inr rows'"
  obtains f where "\<And>x. find_attempt rows' x = map_option f (find_attempt rows x)"
    and "\<And>r. at_operation_id (f r) = at_operation_id r" and "\<And>r. at_binding_digest (f r) = at_binding_digest r"
    and "\<And>r. at_state r = AttemptComplete \<Longrightarrow> f r = r"
    and "\<And>r. at_operation_id r \<noteq> op \<Longrightarrow> f r = r"
    and "\<exists>r. find_attempt rows op = Some r \<and> at_state r = AttemptRunning \<and>
      f r = r \<lparr> at_state := AttemptComplete, at_manifest := Some m,
        at_signature := attempt_sign E key op (at_binding_digest r) AttemptComplete (Some m) \<rparr>"
proof -
  from assms obtain r where r: "find_attempt rows op = Some r" "at_state r = AttemptRunning"
    and rows': "rows' = map (\<lambda>x. if at_operation_id x = op \<and> at_state x = AttemptRunning
      then x \<lparr> at_state := AttemptComplete, at_manifest := Some m,
        at_signature := attempt_sign E key op (at_binding_digest r) AttemptComplete (Some m) \<rparr> else x) rows"
    by (auto simp: attempt_complete_def attempt_verified_def attempt_row.truncate_def Let_def result_simps
        split: option.splits if_splits)
  let ?f = "\<lambda>x. if at_operation_id x = op \<and> at_state x = AttemptRunning
      then x \<lparr> at_state := AttemptComplete, at_manifest := Some m,
        at_signature := attempt_sign E key op (at_binding_digest r) AttemptComplete (Some m) \<rparr> else x"
  have "at_operation_id r = op" using r(1) by (auto simp: find_attempt_def find_Some_iff)
  then show ?thesis
    using r by (intro that [of ?f]) (simp_all add: rows' find_attempt_map)
qed

text \<open>A completed row is never written again, and a row keeps its operation and binding.\<close>

lemma attempt_run_complete:
  assumes "attempt_run E key rows rows'" and "find_attempt rows op = Some r" and "at_state r = AttemptComplete"
  shows "find_attempt rows' op = Some r"
  using assms
proof (induction rule: attempt_run.induct)
  case (attempt_reserves rows rows1 op' b r' rows2)
  then have "find_attempt rows1 op = Some r" by blast
  with attempt_reserves(2) show ?case
    by (cases rule: attempt_reserve_rows) (auto intro: find_attempt_append)
next
  case (attempt_completes rows rows1 op' m rows2)
  then have "find_attempt rows1 op = Some r" by blast
  with attempt_completes(2,5) show ?case by (elim attempt_complete_find) auto
qed

lemma attempt_run_present:
  assumes "attempt_run E key rows rows'" and "find_attempt rows op = Some r"
  shows "\<exists>r'. find_attempt rows' op = Some r' \<and> at_binding_digest r' = at_binding_digest r"
  using assms
proof (induction rule: attempt_run.induct)
  case (attempt_reserves rows rows1 op' b r' rows2)
  then obtain x where "find_attempt rows1 op = Some x" "at_binding_digest x = at_binding_digest r" by blast
  with attempt_reserves(2) show ?case
    by (cases rule: attempt_reserve_rows) (auto intro: find_attempt_append)
next
  case (attempt_completes rows rows1 op' m rows2)
  then obtain x where "find_attempt rows1 op = Some x" "at_binding_digest x = at_binding_digest r" by blast
  with attempt_completes(2) show ?case by (elim attempt_complete_find) auto
qed auto

lemma attempt_reserved:
  assumes "attempt_reserve E key rows op b = Inr (r, rows1)" and "at_state r = AttemptRunning"
    and "attempt_run E key rows1 rows2"
  obtains x where "find_attempt rows2 op = Some x" and "at_binding_digest x = b"
    and "at_operation_id x = op"
proof -
  have "find_attempt rows1 op = Some \<lparr> at_operation_id = op, at_binding_digest = b,
      at_state = AttemptRunning, at_manifest = None,
      at_signature = attempt_sign E key op b AttemptRunning None \<rparr>"
    using assms(1) by (cases rule: attempt_reserve_rows) (use assms(2) in \<open>auto intro: find_attempt_new\<close>)
  from attempt_run_present [OF assms(3) this] obtain x
    where x: "find_attempt rows2 op = Some x" "at_binding_digest x = b" by auto
  moreover have "at_operation_id x = op" using x(1) by (auto simp: find_attempt_def find_Some_iff)
  ultimately show ?thesis by (rule that)
qed

text \<open>What a completion leaves for every later reader.\<close>

lemma attempt_completed:
  assumes "find_attempt rows2 op = Some x" and "at_binding_digest x = b" and "at_operation_id x = op"
    and "attempt_complete E key rows2 op m = Inr rows3" and "attempt_run E key rows3 rows4"
  obtains y where "find_attempt rows4 op = Some y"
    and "attempt_verified E key y = Inr \<lparr> at_operation_id = op, at_binding_digest = b,
      at_state = AttemptComplete, at_manifest = Some m \<rparr>"
proof -
  let ?y = "x \<lparr> at_state := AttemptComplete, at_manifest := Some m,
        at_signature := attempt_sign E key op b AttemptComplete (Some m) \<rparr>"
  have "find_attempt rows3 op = Some ?y" using assms(1,2,4) by (elim attempt_complete_find) auto
  then have "find_attempt rows4 op = Some ?y" by (rule attempt_run_complete [OF assms(5)]) simp
  moreover have "attempt_verified E key ?y = Inr \<lparr> at_operation_id = op, at_binding_digest = b,
      at_state = AttemptComplete, at_manifest = Some m \<rparr>"
    using assms(2,3) by (simp add: attempt_verified_def attempt_row.truncate_def)
  ultimately show ?thesis by (rule that)
qed

end
