(* ===== verification/Journal.thy ===== *)
theory Journal
  imports Store_Base
begin

text \<open>
  The host's append-only record journal (\<^verbatim>\<open>validate/journal.py\<close>). The table is the list of its
  rows; triggers forbid update and delete, so appending is the only write. The registry only
  contributes the path of the database. A caller that passes something other than a
  \<open>RecordRef\<close> is rejected like an unknown reference, and is not modelled.
\<close>

record record_ref =
  rr_record_id :: pystr
  rr_digest :: pystr

record journal_row =
  jr_record_id :: pystr
  jr_kind :: pystr
  jr_scope :: pystr
  jr_subject :: pystr
  jr_payload :: bytes
  jr_signature :: bytes

datatype record_error = RecordError pystr

type_synonym 'a record_result = "record_error + 'a"

definition signed_bytes ::
  "store_env \<Rightarrow> pystr \<Rightarrow> pystr \<Rightarrow> pystr \<Rightarrow> pystr \<Rightarrow> bytes \<Rightarrow> bytes" where
  "signed_bytes E record_id kind scope subject payload =
     se_dumps E (JObj
       [(''domain'', JStr ''ccs-m5-record/1''), (''record_id'', JStr record_id), (''kind'', JStr kind),
        (''scope'', JStr scope), (''subject'', JStr subject),
        (''payload_sha256'', JStr (digest_bytes E payload))])"

text \<open>\<open>RecordJournal.__post_init__\<close>.\<close>

definition journal_key_valid :: "bytes \<Rightarrow> bool" where
  "journal_key_valid key \<longleftrightarrow> length key \<ge> 32"

definition record_verify ::
  "store_env \<Rightarrow> bytes \<Rightarrow> journal_row list \<Rightarrow> record_ref \<Rightarrow> pystr \<Rightarrow> pystr \<Rightarrow> pystr \<Rightarrow> bytes record_result"
where
  "record_verify E key rows reference kind scope subject =
    (case find (\<lambda>r. jr_record_id r = rr_record_id reference) rows of
       None \<Rightarrow> Inl (RecordError ''record rejected'')
     | Some row \<Rightarrow>
         if (jr_kind row, jr_scope row, jr_subject row) \<noteq> (kind, scope, subject)
         then Inl (RecordError ''record rejected'')
         else if digest_bytes E (jr_payload row) \<noteq> rr_digest reference
         then Inl (RecordError ''record rejected'')
         else if se_hmac E key (signed_bytes E (rr_record_id reference) kind scope subject (jr_payload row))
             \<noteq> jr_signature row
         then Inl (RecordError ''record rejected'')
         else Inr (jr_payload row))"

text \<open>\<open>append\<close>, with the fresh \<open>uuid4\<close> as an argument.\<close>

definition record_append ::
  "store_env \<Rightarrow> bytes \<Rightarrow> pystr \<Rightarrow> journal_row list \<Rightarrow> pystr \<Rightarrow> pystr \<Rightarrow> pystr \<Rightarrow> bytes \<Rightarrow>
   (record_ref \<times> journal_row list) record_result"
where
  "record_append E key record_id rows kind scope subject payload =
    (if kind = [] \<or> scope = [] \<or> subject = [] then Inl (RecordError ''record rejected'')
     else if record_id \<in> jr_record_id ` set rows \<or> record_id = [] then Inl (RecordError ''record rejected'')
     else Inr (\<lparr> rr_record_id = record_id, rr_digest = digest_bytes E payload \<rparr>,
       rows @ [\<lparr> jr_record_id = record_id, jr_kind = kind, jr_scope = scope, jr_subject = subject,
         jr_payload = payload,
         jr_signature = se_hmac E key (signed_bytes E record_id kind scope subject payload) \<rparr>]))"

inductive journal_run :: "store_env \<Rightarrow> bytes \<Rightarrow> journal_row list \<Rightarrow> journal_row list \<Rightarrow> bool" for E key where
  journal_refl: "journal_run E key rows rows"
| journal_append: "journal_run E key rows rows1 \<Longrightarrow>
    record_append E key rid rows1 kind scope subject payload = Inr (ref, rows2) \<Longrightarrow>
    journal_run E key rows rows2"

lemma journal_run_extends: "journal_run E key rows rows' \<Longrightarrow> \<exists>xs. rows' = rows @ xs"
  by (induction rule: journal_run.induct) (auto simp: record_append_def split: if_splits)

lemma record_append_find:
  assumes "record_append E key rid rows kind scope subject payload = Inr (ref, rows1)"
    and "journal_run E key rows1 rows2"
  shows "find (\<lambda>r. jr_record_id r = rr_record_id ref) rows2 = Some
    \<lparr> jr_record_id = rid, jr_kind = kind, jr_scope = scope, jr_subject = subject, jr_payload = payload,
      jr_signature = se_hmac E key (signed_bytes E rid kind scope subject payload) \<rparr>"
    and "rr_record_id ref = rid" and "rr_digest ref = digest_bytes E payload"
proof -
  from assms(1) have new: "rid \<notin> jr_record_id ` set rows" and ref: "rr_record_id ref = rid"
    "rr_digest ref = digest_bytes E payload"
    and rows1: "rows1 = rows @ [\<lparr> jr_record_id = rid, jr_kind = kind, jr_scope = scope, jr_subject = subject,
      jr_payload = payload, jr_signature = se_hmac E key (signed_bytes E rid kind scope subject payload) \<rparr>]"
    by (auto simp: record_append_def split: if_splits)
  obtain xs where xs: "rows2 = rows1 @ xs" using journal_run_extends [OF assms(2)] by blast
  have find: "find P (ys @ zs) = (case find P ys of None \<Rightarrow> find P zs | Some x \<Rightarrow> Some x)"
    for P and ys zs :: "journal_row list" by (induction ys) auto
  have "find (\<lambda>r. jr_record_id r = rid) rows = None" using new by (auto simp: find_None_iff)
  then show "find (\<lambda>r. jr_record_id r = rr_record_id ref) rows2 = Some
    \<lparr> jr_record_id = rid, jr_kind = kind, jr_scope = scope, jr_subject = subject, jr_payload = payload,
      jr_signature = se_hmac E key (signed_bytes E rid kind scope subject payload) \<rparr>"
    by (simp add: ref xs rows1 find)
  show "rr_record_id ref = rid" and "rr_digest ref = digest_bytes E payload" by (rule ref)+
qed

end
