(* ===== verification/Record_Properties.thy ===== *)
theory Record_Properties
  imports Attempts Journal Store_Sample
begin

text \<open>
  Properties of the two authenticated record stores: twin attempts and the host journal.
\<close>

section \<open>At most one attempt per operation\<close>

text \<open>C33. A twin attempt runs at most once: after an operation was reserved, no later reservation
  of it is told to run, whatever happened in between; and once it completed, every later
  reservation with its binding returns the recorded manifest, with another binding is refused,
  and a second completion is refused.\<close>

theorem attempt_runs_once:
  assumes "attempt_reserve E key rows0 op b = Inr (r, rows1)" and "at_state r = AttemptRunning"
    and "attempt_run E key rows1 rows2"
  shows "(\<forall>b' r' rows3. attempt_reserve E key rows2 op b' = Inr (r', rows3) \<longrightarrow>
      at_state r' = AttemptComplete \<and> rows3 = rows2) \<and>
    (\<forall>m rows3 rows4 b' m'. attempt_complete E key rows2 op m = Inr rows3 \<longrightarrow> attempt_run E key rows3 rows4 \<longrightarrow>
      attempt_reserve E key rows4 op b' =
        (if b' = b then Inr (\<lparr> at_operation_id = op, at_binding_digest = b, at_state = AttemptComplete,
            at_manifest = Some m \<rparr>, rows4)
         else Inl (AttemptError ''attempt binding mismatch'')) \<and>
      attempt_complete E key rows4 op m' = Inl (AttemptError ''attempt completion rejected''))"
proof -
  obtain x where x: "find_attempt rows2 op = Some x" "at_binding_digest x = b" "at_operation_id x = op"
    using assms by (rule attempt_reserved)
  have again: "at_state r' = AttemptComplete \<and> rows3 = rows2"
    if "attempt_reserve E key rows2 op b' = Inr (r', rows3)" for b' r' rows3
    using that x(1) by (cases rule: attempt_reserve_rows) simp_all
  have fin: "attempt_reserve E key rows4 op b' =
        (if b' = b then Inr (\<lparr> at_operation_id = op, at_binding_digest = b, at_state = AttemptComplete,
            at_manifest = Some m \<rparr>, rows4)
         else Inl (AttemptError ''attempt binding mismatch'')) \<and>
      attempt_complete E key rows4 op m' = Inl (AttemptError ''attempt completion rejected'')"
    if "attempt_complete E key rows2 op m = Inr rows3" "attempt_run E key rows3 rows4" for m rows3 rows4 b' m'
    using x that
  proof (rule attempt_completed)
    fix y
    assume "find_attempt rows4 op = Some y"
      and "attempt_verified E key y = Inr \<lparr> at_operation_id = op, at_binding_digest = b,
        at_state = AttemptComplete, at_manifest = Some m \<rparr>"
    then show ?thesis by (simp add: attempt_reserve_def attempt_complete_def)
  qed
  from again fin show ?thesis by blast
qed

theorem attempt_runs_once_witness:
  "\<exists>r rows rows'. attempt_reserve sample_env ''key'' [] ''op'' ''b'' = Inr (r, rows) \<and>
    attempt_complete sample_env ''key'' rows ''op'' ''m'' = Inr rows' \<and>
    attempt_reserve sample_env ''key'' rows' ''op'' ''c'' = Inl (AttemptError ''attempt binding mismatch'')"
proof -
  obtain r rows where r: "attempt_reserve sample_env ''key'' [] ''op'' ''b'' = Inr (r, rows)" "at_state r = AttemptRunning"
    and rows: "rows = [\<lparr> at_operation_id = ''op'', at_binding_digest = ''b'', at_state = AttemptRunning,
      at_manifest = None, at_signature = attempt_sign sample_env ''key'' ''op'' ''b'' AttemptRunning None \<rparr>]"
    by (simp add: attempt_reserve_def find_attempt_def)
  obtain rows' where c: "attempt_complete sample_env ''key'' rows ''op'' ''m'' = Inr rows'"
    by (simp add: rows attempt_complete_def find_attempt_def attempt_verified_def attempt_row.truncate_def)
  have "attempt_reserve sample_env ''key'' rows' ''op'' ''c'' =
      (if ''c'' = ''b'' then Inr (\<lparr> at_operation_id = ''op'', at_binding_digest = ''b'', at_state = AttemptComplete,
            at_manifest = Some ''m'' \<rparr>, rows') else Inl (AttemptError ''attempt binding mismatch''))"
    using attempt_runs_once [OF r attempt_refl] c attempt_refl by blast
  with r c show ?thesis by simp
qed

section \<open>The journal\<close>

text \<open>A journal record can be read back, exactly: after any later appends, the reference that
  \<open>append\<close> returned yields the appended payload for the kind, scope and subject it was appended
  under, and is rejected under any other.\<close>

theorem journal_round_trip:
  assumes "record_append E key rid rows kind scope subject payload = Inr (ref, rows1)"
    and "journal_run E key rows1 rows2"
  shows "record_verify E key rows2 ref kind' scope' subject' =
    (if kind' = kind \<and> scope' = scope \<and> subject' = subject then Inr payload
     else Inl (RecordError ''record rejected''))"
  unfolding record_verify_def record_append_find(1) [OF assms]
  by (simp add: record_append_find(2,3) [OF assms])

theorem journal_round_trip_witness:
  "\<exists>ref rows. record_append sample_env ''key'' ''r1'' [] ''run'' ''scope'' ''subject'' ''data'' = Inr (ref, rows) \<and>
    record_verify sample_env ''key'' rows ref ''run'' ''scope'' ''subject'' = Inr ''data'' \<and>
    record_verify sample_env ''key'' rows ref ''pair'' ''scope'' ''subject'' = Inl (RecordError ''record rejected'')"
proof -
  obtain ref rows where a: "record_append sample_env ''key'' ''r1'' [] ''run'' ''scope'' ''subject'' ''data'' = Inr (ref, rows)"
    by (simp add: record_append_def)
  from journal_round_trip [OF this journal_refl] a show ?thesis by simp
qed

end
