(* ===== verification/Store_Properties.thy ===== *)
theory Store_Properties
  imports Store_Sample
begin

text \<open>
  The properties of the runtime store, each with a witness on the sample environment.
\<close>

section \<open>Integrity and the lock\<close>

text \<open>C23. In every database that a sequence of store operations can produce, reading a scope
  either reports that it was never initialized or returns its row: the signature, binding and
  action checks of \<open>_row\<close> reject none of the store's own writes.\<close>

theorem reachable_scope_reads:
  assumes "env_laws E" and "store_reachable E db"
  shows "load_row E db scope =
    (case find_scope db (scope_digest E scope) of
       None \<Rightarrow> Inl (ScopeNotInitialized ''runtime scope is not initialized'') | Some r \<Rightarrow> Inr r)"
  using load_row_available [OF reachable_inv [OF assms(2,1)]]
  by (simp add: load_row_def split: option.splits)

theorem reachable_scope_reads_witness:
  "load_row sample_env sample_db sample_scope =
    (case find_scope sample_db (scope_digest sample_env sample_scope) of
       None \<Rightarrow> Inl (ScopeNotInitialized ''runtime scope is not initialized'') | Some r \<Rightarrow> Inr r)"
  by (rule reachable_scope_reads [OF sample_env_laws sample_reachable])

text \<open>C24. Every committed store operation is a step of the abstract lock on its own scope, or
  leaves the lock as it was, and changes the row of no other scope. The lock: initialization at
  generation 0, begin on an idle scope with the next epoch, end by the running operation,
  reconciliation from UNCERTAIN to IDLE, and a swap of an idle scope to the next generation.\<close>

theorem store_refines_lock:
  assumes "store_step E db sd db'"
  shows "(view_of db' sd = view_of db sd \<or> lock_step (view_of db sd) (view_of db' sd)) \<and>
    (\<forall>other. other \<noteq> sd \<longrightarrow> find_scope db' other = find_scope db other)"
  using store_step_refines [OF assms] by (simp add: refines_lock_def)

theorem store_refines_lock_witness:
  "lock_step (view_of empty_db (scope_digest sample_env sample_scope))
     (view_of sample_db (scope_digest sample_env sample_scope))"
proof -
  obtain r :: scope_row where "find_scope sample_db (scope_digest sample_env sample_scope) = Some r"
    by (rule sample_row)
  then have "view_of sample_db (scope_digest sample_env sample_scope) \<noteq>
      view_of empty_db (scope_digest sample_env sample_scope)"
    by (simp add: view_of_def find_scope_def empty_db_def)
  with store_refines_lock [OF sample_step] show ?thesis by blast
qed

text \<open>Along any sequence of committed operations the generation and the action epoch of a
  scope never decrease, and an initialized scope never disappears.\<close>

theorem generation_monotone:
  assumes "store_run E db db'" and "find_scope db sd = Some r"
  shows "\<exists>r'. find_scope db' sd = Some r' \<and> sr_generation r \<le> sr_generation r' \<and>
    sr_action_epoch r \<le> sr_action_epoch r'"
  using store_run_le [OF assms(1), of sd] assms(2)
  by (auto simp: view_le_def view_of_def scope_view_of_def split: option.splits)

theorem generation_monotone_witness:
  "\<exists>r db'. find_scope sample_db (scope_digest sample_env sample_scope) = Some r \<and>
    store_run sample_env sample_db db' \<and>
    (\<exists>r'. find_scope db' (scope_digest sample_env sample_scope) = Some r' \<and>
       sr_generation r \<le> sr_generation r' \<and> sr_action_epoch r \<le> sr_action_epoch r')"
proof -
  obtain r :: scope_row where r: "find_scope sample_db (scope_digest sample_env sample_scope) = Some r"
    by (rule sample_row)
  from generation_monotone [OF run_refl r] r show ?thesis using run_refl by blast
qed

section \<open>Tickets\<close>

text \<open>An operation that passed a ticket check and committed has spent the ticket.\<close>

lemma consume_boundary_spends:
  assumes "consume_boundary E clk uid db scope ticket = Inr (t', db')"
  shows "spent db' (bt_ticket_id ticket)"
  using assms
proof (rule consume_boundary_Inr)
  fix row db1 event
  assume c: "check_ticket_db E (clk 0) db scope ticket row None None = Inr ()"
    "consume_ticket E ticket db = Inr db1" "db' = db1 \<lparr> db_audit := db_audit db1 @ [event] \<rparr>"
  from check_ticket_spends [OF c(1) refl c(2)] show ?thesis by (simp add: c(3) spent_def find_ticket_def)
qed

lemma spent_rejects:
  assumes "spent db (bt_ticket_id ticket)"
  shows "consume_boundary E clk uid db scope ticket \<noteq> Inr (t', db')"
    and "activate_prepared E clk uid db scope pid ticket approval v = Inr (receipt, db') \<Longrightarrow> db' = db"
    and "rollback_receipt E clk uid db scope rid ticket rv = Inr (rb, db') \<Longrightarrow> db' = db"
proof -
  note blocks = spent_blocks [OF assms, of E]
  show "consume_boundary E clk uid db scope ticket \<noteq> Inr (t', db')"
    using blocks by (auto elim!: consume_boundary_Inr)
  show "db' = db" if "activate_prepared E clk uid db scope pid ticket approval v = Inr (receipt, db')"
    using that by (cases rule: activate_prepared_Inr) (auto simp: blocks)
  show "db' = db" if "rollback_receipt E clk uid db scope rid ticket rv = Inr (rb, db')"
    using that by (cases rule: rollback_receipt_Inr) (auto simp: blocks)
qed

lemma spent_by_use:
  assumes "env_laws E"
    and "(\<exists>t'. consume_boundary E clk uid db scope ticket = Inr (t', db')) \<or>
      (\<exists>receipt. activate_prepared E clk uid db scope pid ticket approval v = Inr (receipt, db') \<and> db' \<noteq> db) \<or>
      (\<exists>rb. rollback_receipt E clk uid db scope rid ticket rv = Inr (rb, db') \<and> db' \<noteq> db)"
  shows "spent db' (bt_ticket_id ticket)"
  using assms(2)
proof (elim disjE exE conjE)
  fix receipt
  assume "activate_prepared E clk uid db scope pid ticket approval v = Inr (receipt, db')" and "db' \<noteq> db"
  with assms(1) show ?thesis by (rule fresh_activation)
next
  fix rb
  assume "rollback_receipt E clk uid db scope rid ticket rv = Inr (rb, db')" and "db' \<noteq> db"
  then show ?thesis by (rule fresh_rollback)
qed (rule consume_boundary_spends)

text \<open>C26. A boundary ticket is used at most once, by whichever of its three uses comes first:
  consuming it, an activation that commits, or a rollback that commits. In every later database,
  for any ticket with the same id, consuming fails, and activation and rollback can at most
  return an existing receipt, changing nothing.\<close>

theorem ticket_single_use:
  assumes "env_laws E"
    and "(\<exists>t'. consume_boundary E clk uid db scope ticket = Inr (t', db1)) \<or>
      (\<exists>receipt. activate_prepared E clk uid db scope pid ticket approval v = Inr (receipt, db1) \<and> db1 \<noteq> db) \<or>
      (\<exists>rb. rollback_receipt E clk uid db scope rid ticket rv = Inr (rb, db1) \<and> db1 \<noteq> db)"
    and "store_run E db1 db2" and "bt_ticket_id other = bt_ticket_id ticket"
  shows "(\<nexists>t'' db3. consume_boundary E clk2 uid2 db2 scope2 other = Inr (t'', db3)) \<and>
    (\<forall>receipt db3. activate_prepared E clk2 uid2 db2 scope2 pid2 other approval2 v2 = Inr (receipt, db3) \<longrightarrow>
       db3 = db2) \<and>
    (\<forall>rb db3. rollback_receipt E clk2 uid2 db2 scope2 rid2 other rv2 = Inr (rb, db3) \<longrightarrow> db3 = db2)"
proof -
  have "spent db2 (bt_ticket_id other)"
    using spent_run [OF assms(3) spent_by_use [OF assms(1,2)]] assms(4) by simp
  note s = spent_rejects [OF this]
  show ?thesis using s(1) by (intro conjI allI impI) (blast, erule s(2), erule s(3))
qed

theorem ticket_single_use_witness:
  "\<exists>db ticket receipt db'. activate_prepared sample_env (\<lambda>i. Utc 0) (\<lambda>i. sample_ids (4 + i)) db
      sample_scope ''prep'' ticket unsigned_digest (Some (\<lambda>p a. True)) = Inr (receipt, db') \<and> db' \<noteq> db \<and>
    (\<nexists>t'' db3. consume_boundary sample_env (\<lambda>i. Utc 0) sample_ids db' sample_scope ticket = Inr (t'', db3))"
proof -
  obtain db ticket receipt db' where a: "activate_prepared sample_env (\<lambda>i. Utc 0) (\<lambda>i. sample_ids (4 + i)) db
      sample_scope ''prep'' ticket unsigned_digest (Some (\<lambda>p a. True)) = Inr (receipt, db')" "db' \<noteq> db"
    by (rule sample_activation)
  have "\<nexists>t'' db3. consume_boundary sample_env (\<lambda>i. Utc 0) sample_ids db' sample_scope ticket = Inr (t'', db3)"
    by (rule ticket_single_use [OF sample_env_laws _ run_refl refl, THEN conjunct1]) (use a in blast)
  with a show ?thesis by blast
qed

section \<open>Activation and rollback\<close>

lemma state_of_reachable:
  assumes "env_laws E" and "store_reachable E db" and "find_scope db (scope_digest E scope) = Some r"
    and "se_parse_binding E (sr_active_jcs r) = Some b"
  shows "\<exists>state. get_state E db scope = Inr state \<and> rt_active state = b \<and>
    rt_action_state state = sr_action_state r \<and> rt_action_epoch state = sr_action_epoch r"
  by (rule get_state_available [OF reachable_inv [OF assms(2,1)] assms(3,4)]) blast

lemma activation_pointer:
  assumes "env_laws E" and "store_reachable E db" and "runtime_scope_valid scope"
    and "activate_prepared E clk uid db scope pid ticket approval v = Inr (receipt, db')" and "db' \<noteq> db"
  shows "\<exists>before after. get_state E db scope = Inr before \<and> get_state E db' scope = Inr after \<and>
    rt_active before = xa_old_binding receipt \<and> rt_active after = xa_new_binding receipt \<and>
    ab_generation (rt_active after) = ab_generation (rt_active before) + 1 \<and>
    rt_action_state before = IDLE \<and> rt_action_state after = IDLE \<and>
    rt_action_epoch after = rt_action_epoch before"
proof -
  have reach': "store_reachable E db'" by (rule reach_step [OF assms(2) step_activate [OF assms(3,4)]])
  from assms(1,4,5) show ?thesis
  proof (rule fresh_activation)
    fix row row' prep
    assume f: "find_scope db (scope_digest E scope) = Some row" "sr_action_state row = IDLE"
      "load_prepared_db E NotUtc db scope pid True = Inr prep"
      "find_scope db' (scope_digest E scope) = Some row'" "sr_generation row' = sr_generation row + 1"
      "sr_action_state row' = IDLE" "sr_action_epoch row' = sr_action_epoch row"
      "se_parse_binding E (sr_active_jcs row) = Some (xa_old_binding receipt)"
      "sr_active_jcs row' = se_dumps E (active_binding_json (pp_new_binding prep))"
      "xa_new_binding receipt = pp_new_binding prep"
      "json_value_ok (active_binding_json (pp_new_binding prep))"
    note inv = reachable_inv [OF assms(2,1)] reachable_inv [OF reach' assms(1)]
    note ver = load_row_Inr(2) [OF load_row_available [OF inv(1) f(1)]]
      load_row_Inr(2) [OF load_row_available [OF inv(2) f(4)]]
    have old: "ab_generation (xa_old_binding receipt) = sr_generation row"
      using ver(1) f(8) by (auto elim: verify_row_binding)
    obtain b where b: "se_parse_binding E (sr_active_jcs row') = Some b" "ab_generation b = sr_generation row'"
      using ver(2) by (rule verify_row_binding)
    have "active_binding_valid (pp_new_binding prep)"
      by (rule prepared_binding_valid [OF assms(1) f(3)])
    then have "b = pp_new_binding prep" using b(1) assms(1) f(11) by (simp add: f(9) env_laws_def)
    with b f(5,10) old state_of_reachable [OF assms(1,2) f(1,8)] state_of_reachable [OF assms(1) reach' f(4) b(1)] f(2,6,7)
    show ?thesis by auto
  qed
qed

text \<open>C25. A committed activation is one atomic swap: on a reachable store the scope was idle with
  the receipt's old binding active, and is idle afterwards with the receipt's new binding active
  at the next generation and the same epoch; the receipt can be read back and its boundary
  ticket is spent.\<close>

theorem activation_swaps:
  assumes "env_laws E" and "store_reachable E db" and "runtime_scope_valid scope"
    and "activate_prepared E clk uid db scope pid ticket approval v = Inr (receipt, db')" and "db' \<noteq> db"
  shows "(\<exists>before after. get_state E db scope = Inr before \<and> get_state E db' scope = Inr after \<and>
      rt_active before = xa_old_binding receipt \<and> rt_active after = xa_new_binding receipt \<and>
      ab_generation (rt_active after) = ab_generation (rt_active before) + 1 \<and>
      rt_action_state before = IDLE \<and> rt_action_state after = IDLE \<and>
      rt_action_epoch after = rt_action_epoch before) \<and>
    get_receipt E db' scope (xa_receipt_id receipt) = Inr (ActivationR receipt) \<and>
    spent db' (bt_ticket_id ticket)"
proof -
  have load: "load_receipt_db E db' scope (xa_receipt_id receipt) = Inr (ACTIVATE, ActivationR receipt)"
    and spent: "spent db' (bt_ticket_id ticket)"
    using fresh_activation [OF assms(1,4,5)] by metis+
  from load have "get_receipt E db' scope (xa_receipt_id receipt) = Inr (ActivationR receipt)"
    by (simp add: get_receipt_def)
  with spent activation_pointer [OF assms] show ?thesis by blast
qed

theorem activation_swaps_witness:
  "\<exists>db ticket receipt db'. activate_prepared sample_env (\<lambda>i. Utc 0) (\<lambda>i. sample_ids (4 + i)) db
      sample_scope ''prep'' ticket unsigned_digest (Some (\<lambda>p a. True)) = Inr (receipt, db') \<and> db' \<noteq> db \<and>
    get_receipt sample_env db' sample_scope (xa_receipt_id receipt) = Inr (ActivationR receipt)"
proof -
  obtain db ticket receipt db' where a: "store_reachable sample_env db"
    "activate_prepared sample_env (\<lambda>i. Utc 0) (\<lambda>i. sample_ids (4 + i)) db
      sample_scope ''prep'' ticket unsigned_digest (Some (\<lambda>p a. True)) = Inr (receipt, db')" "db' \<noteq> db"
    by (rule sample_activation)
  from activation_swaps [OF sample_env_laws a(1) sample_scope_valid a(2,3)] a show ?thesis by blast
qed

text \<open>C27. Activation is idempotent: once it committed, repeating it with any ticket, any
  well-formed approval digest, any validator and at any time returns the same receipt and
  changes nothing.\<close>

theorem activation_idempotent:
  assumes "env_laws E" and "store_reachable E db"
    and "activate_prepared E clk uid db scope pid ticket approval v = Inr (receipt, db')" and "db' \<noteq> db"
    and "startswith approval' ''sha256:''"
  shows "activate_prepared E clk' uid' db' scope pid ticket' approval' v' = Inr (receipt, db')"
  by (rule activation_replays [OF assms(1) reachable_inv [OF assms(2,1)] assms(3-5)])

theorem activation_idempotent_witness:
  "\<exists>db ticket receipt db'. activate_prepared sample_env (\<lambda>i. Utc 0) (\<lambda>i. sample_ids (4 + i)) db
      sample_scope ''prep'' ticket unsigned_digest (Some (\<lambda>p a. True)) = Inr (receipt, db') \<and> db' \<noteq> db \<and>
    activate_prepared sample_env (\<lambda>i. NotUtc) (\<lambda>i. []) db' sample_scope ''prep'' ticket ''sha256:'' None =
      Inr (receipt, db')"
proof -
  obtain db ticket receipt db' where a: "store_reachable sample_env db"
    "activate_prepared sample_env (\<lambda>i. Utc 0) (\<lambda>i. sample_ids (4 + i)) db
      sample_scope ''prep'' ticket unsigned_digest (Some (\<lambda>p a. True)) = Inr (receipt, db')" "db' \<noteq> db"
    by (rule sample_activation)
  have "startswith ''sha256:'' ''sha256:''" by (simp add: startswith_def)
  from activation_idempotent [OF sample_env_laws a this] a show ?thesis by blast
qed

text \<open>C28. A committed rollback undoes the activation it names: the activation's receipt is on
  file, the scope was at the generation that activation produced, and afterwards the binding that
  activation replaced is active again, at the next generation; the ticket is spent.\<close>

theorem rollback_restores_binding:
  assumes "env_laws E" and "store_reachable E db" and "runtime_scope_valid scope"
    and "rollback_receipt E clk uid db scope rid ticket v = Inr (rb, db')" and "db' \<noteq> db"
  shows "\<exists>source before after. get_receipt E db scope rid = Inr (ActivationR source) \<and>
    get_state E db scope = Inr before \<and> get_state E db' scope = Inr after \<and>
    ab_generation (rt_active before) = xa_generation_after source \<and>
    rt_active after = (xa_old_binding source) \<lparr> ab_generation := xa_generation_after source + 1 \<rparr> \<and>
    xr_restored_binding rb = rt_active after \<and> rt_action_state after = IDLE \<and>
    spent db' (bt_ticket_id ticket)"
proof -
  have reach': "store_reachable E db'" by (rule reach_step [OF assms(2) step_rollback [OF assms(3,4)]])
  from assms(4,5) show ?thesis
  proof (rule fresh_rollback)
    fix row row' :: scope_row and kind and source :: rt_activation_receipt
    let ?b = "(xa_old_binding source) \<lparr> ab_generation := sr_generation row + 1 \<rparr>"
    assume f: "load_row E db scope = Inr row" "load_receipt_db E db scope rid = Inr (kind, ActivationR source)"
      "sr_generation row = xa_generation_after source" "find_scope db (scope_digest E scope) = Some row"
      "find_scope db' (scope_digest E scope) = Some row'" "sr_action_state row' = IDLE"
      "sr_active_jcs row' = se_dumps E (active_binding_json ?b)" "json_value_ok (active_binding_json ?b)"
      "active_binding_valid ?b" "spent db' (bt_ticket_id ticket)" "xr_restored_binding rb = ?b"
    obtain b where b: "se_parse_binding E (sr_active_jcs row) = Some b" "ab_generation b = sr_generation row"
      using load_row_Inr(2) [OF f(1)] by (rule verify_row_binding)
    have b': "se_parse_binding E (sr_active_jcs row') = Some ?b"
      using assms(1) f(8,9) by (simp add: f(7) env_laws_def)
    have "get_receipt E db scope rid = Inr (ActivationR source)" using f(2) by (simp add: get_receipt_def)
    with state_of_reachable [OF assms(1,2) f(4) b(1)] state_of_reachable [OF assms(1) reach' f(5) b'] b(2)
      f(3,6,10,11) show ?thesis by auto
  qed
qed

theorem rollback_restores_binding_witness:
  "\<exists>uid db rid ticket rb db' after. rollback_receipt sample_env (\<lambda>i. Utc 0) uid db sample_scope
      rid ticket (Some (\<lambda>r. True)) = Inr (rb, db') \<and> db' \<noteq> db \<and>
    get_state sample_env db' sample_scope = Inr after \<and> rt_active after = xr_restored_binding rb"
proof -
  obtain uid db rid ticket rb db' where r: "store_reachable sample_env db"
    "rollback_receipt sample_env (\<lambda>i. Utc 0) uid db sample_scope
      rid ticket (Some (\<lambda>r. True)) = Inr (rb, db')" "db' \<noteq> db"
    by (rule sample_rollback)
  from rollback_restores_binding [OF sample_env_laws r(1) sample_scope_valid r(2,3)]
  have "\<exists>after. get_state sample_env db' sample_scope = Inr after \<and> rt_active after = xr_restored_binding rb"
    by auto
  with r(2,3) show ?thesis by blast
qed

section \<open>Actions\<close>

text \<open>What may commit while the end of an action is uncertain: a reconciliation, or a write that
  leaves the row of the scope alone.\<close>

lemma uncertain_row_kept:
  assumes "store_step E db sd db'" and "find_scope db d = Some r" and "sr_action_state r = UNCERTAIN"
  shows "find_scope db' d = Some r \<or>
    (\<exists>clk uid scope rprf u. scope_digest E scope = d \<and> reconcile E clk uid db scope rprf = Inr (u, db'))"
proof (cases "sd = d")
  case False
  then show ?thesis using store_step_refines [OF assms(1)] assms(2) by (simp add: refines_lock_def)
next
  case same: True
  have row: "row = r" if "load_row E db scope = Inr row" "scope_digest E scope = d" for scope row
    using load_row_Inr(1) [OF that(1)] that(2) assms(2) by simp
  have busy: "check_ticket_db E now db scope ticket r eop ereq \<noteq> Inr ()" for now scope ticket eop ereq
    using assms(3) by (auto elim!: check_ticket_Inr)
  from assms(1) show ?thesis
  proof cases
    case step_initialize then show ?thesis using assms(2) same by (auto elim!: initialize_Inr)
  next
    case step_begin then show ?thesis using assms(3) same row by (auto elim!: begin_action_Inr)
  next
    case step_end then show ?thesis using assms(3) same row by (fastforce elim!: end_action_Inr)
  next
    case step_reconcile then show ?thesis using same by blast
  next
    case step_reserve then show ?thesis using assms(3) same row by (fastforce elim!: reserve_boundary_Inr)
  next
    case step_consume then show ?thesis using busy same row by (fastforce elim!: consume_boundary_Inr)
  next
    case step_save
    from step_save(3) show ?thesis
      by (rule save_prepared_Inr) (use assms(2) in \<open>simp add: find_scope_def\<close>)
  next
    case (step_activate scope clk uid pid ticket approval v receipt)
    from step_activate(3) have "db' = db"
      by (cases rule: activate_prepared_Inr) (use busy row same step_activate(1) in auto)
    then show ?thesis using assms(2) by simp
  next
    case (step_rollback scope clk uid rid ticket rv rb)
    from step_rollback(3) have "db' = db"
      by (cases rule: rollback_receipt_Inr) (use busy row same step_rollback(1) in auto)
    then show ?thesis using assms(2) by simp
  qed
qed

text \<open>C30. An action whose end is uncertain blocks its scope: until reconciliation no new action
  starts, no lease ends, no boundary is reserved or consumed, and activation and rollback can at
  most return an existing receipt. A preparation can still be saved, but no committed operation of
  the store other than a reconciliation of this scope changes its row, which stays uncertain. A
  reconciliation that commits makes the scope idle again and leaves generation, epoch and active
  binding as they were.\<close>

theorem uncertain_blocks:
  assumes "find_scope db (scope_digest E scope) = Some r" and "sr_action_state r = UNCERTAIN"
  shows "(\<nexists>lease db'. begin_action E clk uid db scope op req = Inr (lease, db')) \<and>
    (\<nexists>u db'. end_action E clk uid db scope lease unc outcome = Inr (u, db')) \<and>
    (\<nexists>ticket db'. reserve_boundary E clk uid db scope op g ttl = Inr (ticket, db')) \<and>
    (\<nexists>t' db'. consume_boundary E clk uid db scope ticket = Inr (t', db')) \<and>
    (\<forall>receipt db'. activate_prepared E clk uid db scope pid ticket approval v = Inr (receipt, db') \<longrightarrow> db' = db) \<and>
    (\<forall>rb db'. rollback_receipt E clk uid db scope rid ticket rv = Inr (rb, db') \<longrightarrow> db' = db) \<and>
    (\<forall>u db'. save_prepared E db prep = Inr (u, db') \<longrightarrow> find_scope db' (scope_digest E scope) = Some r) \<and>
    (\<forall>sd db'. store_step E db sd db' \<longrightarrow> find_scope db' (scope_digest E scope) = Some r \<or>
       (\<exists>clk uid scope' rprf u. scope_digest E scope' = scope_digest E scope \<and>
          reconcile E clk uid db scope' rprf = Inr (u, db'))) \<and>
    (\<forall>u db'. reconcile E clk uid db scope rprf = Inr (u, db') \<longrightarrow>
       (\<exists>r'. find_scope db' (scope_digest E scope) = Some r' \<and> sr_action_state r' = IDLE \<and>
          sr_generation r' = sr_generation r \<and> sr_action_epoch r' = sr_action_epoch r \<and>
          sr_active_jcs r' = sr_active_jcs r))"
proof -
  have row: "row = r" if "load_row E db scope = Inr row" for row
    using load_row_Inr(1) [OF that] assms(1) by simp
  have beg: "\<nexists>lease db'. begin_action E clk uid db scope op req = Inr (lease, db')"
    using assms(2) row by (auto elim!: begin_action_Inr)
  have fin: "\<nexists>u db'. end_action E clk uid db scope lease unc outcome = Inr (u, db')"
    using assms(2) row by (fastforce elim!: end_action_Inr)
  have res: "\<nexists>ticket db'. reserve_boundary E clk uid db scope op g ttl = Inr (ticket, db')"
    using assms(2) row by (fastforce elim!: reserve_boundary_Inr)
  have busy: "check_ticket_db E now db scope ticket r eop ereq \<noteq> Inr ()" for now eop ereq
    using assms(2) by (auto elim!: check_ticket_Inr)
  have con: "\<nexists>t' db'. consume_boundary E clk uid db scope ticket = Inr (t', db')"
    using busy row by (fastforce elim!: consume_boundary_Inr)
  have act: "db' = db" if "activate_prepared E clk uid db scope pid ticket approval v = Inr (receipt, db')" for receipt db'
    using that by (cases rule: activate_prepared_Inr) (use busy row in auto)
  have rol: "db' = db" if "rollback_receipt E clk uid db scope rid ticket rv = Inr (rb, db')" for rb db'
    using that by (cases rule: rollback_receipt_Inr) (use busy row in auto)
  have rec: "\<exists>r'. find_scope db' (scope_digest E scope) = Some r' \<and> sr_action_state r' = IDLE \<and>
          sr_generation r' = sr_generation r \<and> sr_action_epoch r' = sr_action_epoch r \<and>
          sr_active_jcs r' = sr_active_jcs r"
    if "reconcile E clk uid db scope rprf = Inr (u, db')" for u db'
    using that by (cases rule: reconcile_Inr) (use assms(1) in \<open>simp add: row_simps\<close>)
  have sav: "find_scope db' (scope_digest E scope) = Some r" if "save_prepared E db prep = Inr (u, db')" for u db'
    using that by (rule save_prepared_Inr) (use assms(1) in \<open>simp add: find_scope_def\<close>)
  show ?thesis
    by (intro conjI allI impI; (rule beg fin res con | erule act rol sav rec uncertain_row_kept [OF _ assms]))
qed

theorem uncertain_blocks_witness:
  "\<exists>db r. find_scope db (scope_digest sample_env sample_scope) = Some r \<and> sr_action_state r = UNCERTAIN \<and>
    (\<nexists>lease db'. begin_action sample_env (\<lambda>i. Utc 0) sample_ids db sample_scope ''next'' unsigned_digest =
       Inr (lease, db'))"
proof -
  obtain db and r :: scope_row where u: "find_scope db (scope_digest sample_env sample_scope) = Some r"
    "sr_action_state r = UNCERTAIN" by (rule sample_uncertain)
  have "\<nexists>lease db'. begin_action sample_env (\<lambda>i. Utc 0) sample_ids db sample_scope ''next'' unsigned_digest =
      Inr (lease, db')"
    by (rule uncertain_blocks [OF u, THEN conjunct1])
  with u show ?thesis by blast
qed

text \<open>A finished action is replayed, not repeated: after \<open>end_action\<close> committed without
  uncertainty, beginning the same operation with the same request again returns the recorded
  outcome and changes nothing, and with another request it is refused as a replay conflict.\<close>

theorem finished_action_replays:
  assumes "store_inv E db" and "is_digest (al_request_digest lease)"
    and "end_action E clk uid db scope lease False outcome = Inr (u, db')"
  shows "(\<exists>again. begin_action E clk' uid' db' scope (al_operation_id lease) (al_request_digest lease) =
      Inr (again, db') \<and> al_replayed again \<and> al_outcome again = Some outcome \<and>
      al_outcome_digest again = Some (digest_bytes E outcome) \<and>
      al_action_epoch again = al_action_epoch lease) \<and>
    (req \<noteq> al_request_digest lease \<longrightarrow>
      begin_action E clk' uid' db' scope (al_operation_id lease) req =
        Inl (ReplayConflict ''operation id is bound to another request''))"
  using assms(3)
proof (cases rule: end_action_Inr)
  case (1 row action sig now asig event)
  let ?sd = "scope_digest E scope" and ?op = "al_operation_id lease"
  let ?f = "\<lambda>a. a \<lparr> aw_state := IDLE, aw_outcome_digest := Some (digest_bytes E outcome),
     aw_outcome := Some outcome, aw_action_signature := asig \<rparr>"
  have inv: "store_inv E db'" by (rule inv_end [OF assms(1,3)])
  have op: "?op \<noteq> []"
    using load_row_Inr(2) [OF 1(1)] 1(3,4) by (auto simp: verify_row_def split: option.splits if_splits)
  have row: "find_scope db' ?sd = Some (row \<lparr> sr_action_state := IDLE, sr_current_operation_id := None,
      sr_state_signature := sig, sr_updated_at := now \<rparr>)"
    using load_row_Inr(1) [OF 1(1)] by (simp add: 1(11) row_simps)
  have "find_action db' ?sd ?op = map_option ?f (find_action db ?sd ?op)"
    using find_action_update [of ?f ?sd ?op]
    by (simp add: 1(11) find_action_def update_action_def update_scope_def)
  then have act: "find_action db' ?sd ?op = Some (?f action)" using 1(2) by simp
  from load_row_available [OF inv row] act op assms(2) 1(7,8) show ?thesis
    by (simp add: begin_action_def Let_def safe_db_call_def)
qed

theorem finished_action_replays_witness:
  "\<exists>lease db db' again. end_action sample_env (\<lambda>i. Utc 0) (\<lambda>i. sample_ids (1 + i)) db sample_scope lease False
      ''out'' = Inr ((), db') \<and>
    begin_action sample_env (\<lambda>i. NotUtc) sample_ids db' sample_scope (al_operation_id lease)
      (al_request_digest lease) = Inr (again, db') \<and> al_outcome again = Some ''out''"
proof -
  obtain lease db db' where e: "store_inv sample_env db" "al_request_digest lease = unsigned_digest"
    "end_action sample_env (\<lambda>i. Utc 0) (\<lambda>i. sample_ids (1 + i)) db sample_scope lease False ''out'' =
      Inr ((), db')" by (rule sample_end)
  from finished_action_replays [OF e(1) _ e(3), of "\<lambda>i. NotUtc" sample_ids] e(2,3) unsigned_is_digest
  show ?thesis by metis
qed

section \<open>Availability\<close>

text \<open>C29. A replacement can always be carried through: on a reachable store with an idle scope,
  a prepared replacement for the active binding, unused identifiers and a clock that meets the
  deadlines, begin, end, reserve, save and activate all succeed in this order, and afterwards the
  scope is idle with the new binding active.\<close>

theorem replacement_cycle_activates:
  assumes "env_laws E" and "iso_laws E" and "store_reachable E db"
    and "cycle_ready E t ids db scope p ttl r" and "is_digest approval" and "accepts p approval"
  shows "\<exists>receipt db' state.
    replacement_cycle E t ids db scope p outcome ttl approval accepts = Inr (receipt, db') \<and>
    xa_old_binding receipt = pp_old_binding p \<and> xa_new_binding receipt = pp_new_binding p \<and>
    get_state E db' scope = Inr state \<and> rt_active state = pp_new_binding p \<and>
    rt_action_state state = IDLE"
  by (rule cycle_activates [where outcome = outcome and accepts = accepts, OF assms(1,2) reachable_inv [OF assms(3,1)] assms(4-6)])
    blast

theorem replacement_cycle_activates_witness:
  "\<exists>receipt db' state. replacement_cycle sample_env (\<lambda>_. 0) sample_ids sample_db sample_scope sample_prepared
      ''done'' 1 unsigned_digest (\<lambda>p a. True) = Inr (receipt, db') \<and>
    get_state sample_env db' sample_scope = Inr state \<and> rt_active state = sample_binding 1"
proof -
  obtain r where "cycle_ready sample_env (\<lambda>_. 0) sample_ids sample_db sample_scope sample_prepared 1 r"
    by (rule sample_ready)
  from replacement_cycle_activates [where accepts = "\<lambda>p a. True" and outcome = "''done''",
      OF sample_env_laws sample_iso_laws sample_reachable this unsigned_is_digest TrueI]
  show ?thesis by (auto simp: sample_prepared_def)
qed

end
