(* ===== verification/Capsule_Model.thy ===== *)
theory Capsule_Model
  imports Runtime_Models Resolve_Closure
begin

text \<open>
  The seven modules of a capsule (\<^verbatim>\<open>models/core.py\<close>) as records, with the checks that run on
  construction as predicates \<open>..._valid\<close>. \<open>Literal\<close> fields are strings that the predicate
  restricts. Regular expressions are written out on the parts they separate. Two host
  functions are parameters: whether a text is a canonical https address (it rests on
  \<open>urllib.parse\<close>) and the instant, in microseconds, that \<open>datetime.fromisoformat\<close> reads.
\<close>

record value_env =
  ve_https :: "pystr \<Rightarrow> bool"
  ve_instant :: "pystr \<Rightarrow> int option"

section \<open>Field types\<close>

definition nonempty_strings :: "pystr list \<Rightarrow> bool" where
  "nonempty_strings xs \<longleftrightarrow> (\<forall>x \<in> set xs. x \<noteq> [])"

definition lower_alnum :: "char \<Rightarrow> bool" where
  "lower_alnum c \<longleftrightarrow> ascii_digit c \<or> (CHR ''a'' \<le> c \<and> c \<le> CHR ''z'')"

definition lower_word :: "pystr \<Rightarrow> bool" where
  "lower_word s \<longleftrightarrow> s \<noteq> [] \<and> (\<forall>c \<in> set s. lower_alnum c)"

definition hex_text :: "nat \<Rightarrow> pystr \<Rightarrow> bool" where
  "hex_text n s \<longleftrightarrow> length s = n \<and>
     (\<forall>c \<in> set s. ascii_digit c \<or> (CHR ''a'' \<le> c \<and> c \<le> CHR ''f''))"

text \<open>\<open>DATE_PATTERN\<close> and \<open>date.fromisoformat\<close>: the proleptic Gregorian calendar, years 1 to 9999.\<close>

definition digit_value :: "char \<Rightarrow> nat" where
  "digit_value c = of_char c - 48"

definition decimal :: "pystr \<Rightarrow> nat" where
  "decimal s = foldl (\<lambda>n c. 10 * n + digit_value c) 0 s"

definition leap_year :: "nat \<Rightarrow> bool" where
  "leap_year y \<longleftrightarrow> y mod 4 = 0 \<and> (y mod 100 \<noteq> 0 \<or> y mod 400 = 0)"

definition month_days :: "nat \<Rightarrow> nat \<Rightarrow> nat" where
  "month_days y m = (if m = 2 then (if leap_year y then 29 else 28)
     else if m \<in> {4, 6, 9, 11} then 30 else 31)"

definition is_date :: "pystr \<Rightarrow> bool" where
  "is_date s \<longleftrightarrow> length s = 10 \<and> digits 4 (take 4 s) \<and> s ! 4 = CHR ''-'' \<and>
     digits 2 (take 2 (drop 5 s)) \<and> s ! 7 = CHR ''-'' \<and> digits 2 (drop 8 s)"

definition valid_date :: "pystr \<Rightarrow> bool" where
  "valid_date s \<longleftrightarrow> is_date s \<and>
     (let y = decimal (take 4 s); m = decimal (take 2 (drop 5 s)); d = decimal (drop 8 s)
      in 1 \<le> y \<and> 1 \<le> m \<and> m \<le> 12 \<and> 1 \<le> d \<and> d \<le> month_days y m)"

definition timestamp_string :: "value_env \<Rightarrow> pystr \<Rightarrow> bool" where
  "timestamp_string V s \<longleftrightarrow> is_rfc3339 s \<and> ve_instant V s \<noteq> None"

definition media_char :: "char \<Rightarrow> bool" where
  "media_char c \<longleftrightarrow> ascii_letter c \<or> ascii_digit c \<or> c \<in> set ''!#$&^_.+-''"

definition media_token :: "pystr \<Rightarrow> bool" where
  "media_token s \<longleftrightarrow> s \<noteq> [] \<and> (\<forall>c \<in> set s. media_char c)"

definition token_pair :: "char \<Rightarrow> pystr \<Rightarrow> bool" where
  "token_pair c s \<longleftrightarrow> length (py_split c s) = 2 \<and> (\<forall>t \<in> set (py_split c s). media_token t)"

definition is_media_type :: "pystr \<Rightarrow> bool" where
  "is_media_type s = (case py_split (CHR '';'') s of [] \<Rightarrow> False
     | main # parameters \<Rightarrow> token_pair (CHR ''/'') main \<and>
         (\<forall>p \<in> set parameters. token_pair (CHR ''='') p))"

text \<open>The UTF-8 text of the characters that \<open>\s\<close> matches.\<close>

definition whitespace_codes :: "pystr list" where
  "whitespace_codes =
     map (\<lambda>n. [char_of n]) ([9..<14] @ [28..<33]) @
     [[CHR 0xC2, CHR 0x85], [CHR 0xC2, CHR 0xA0], [CHR 0xE1, CHR 0x9A, CHR 0x80]] @
     map (\<lambda>n. [CHR 0xE2, CHR 0x80, char_of n]) ([0x80..<0x8B :: nat] @ [0xA8, 0xA9, 0xAF]) @
     [[CHR 0xE2, CHR 0x81, CHR 0x9F], [CHR 0xE3, CHR 0x80, CHR 0x80]]"

definition whitespace_free :: "pystr \<Rightarrow> bool" where
  "whitespace_free s \<longleftrightarrow> \<not> (\<exists>w \<in> set whitespace_codes. sublist w s)"

definition is_doi :: "pystr \<Rightarrow> bool" where
  "is_doi s \<longleftrightarrow> startswith s ''doi:10.'' \<and>
     (let rest = drop 7 s; number = takeWhile ascii_digit rest; tail = dropWhile ascii_digit rest
      in 4 \<le> length number \<and> length number \<le> 9 \<and> tail \<noteq> [] \<and> hd tail = CHR ''/'' \<and>
         tl tail \<noteq> [] \<and> whitespace_free (tl tail))"

definition is_urn :: "pystr \<Rightarrow> bool" where
  "is_urn s \<longleftrightarrow> startswith s ''urn:'' \<and>
     (case py_partition (CHR '':'') (drop 4 s) of (nid, sep, rest) \<Rightarrow>
        1 \<le> length nid \<and> length nid \<le> 32 \<and> lower_alnum (hd nid) \<and>
        (\<forall>c \<in> set nid. lower_alnum c \<or> c = CHR ''-'') \<and>
        sep \<noteq> [] \<and> rest \<noteq> [] \<and> whitespace_free rest)"

text \<open>\<open>validate_extensions\<close>: the key pattern \<open>x-[a-z0-9]+(-[a-z0-9]+)*\<close>, then \<open>freeze_json\<close>.\<close>

definition extension_key :: "pystr \<Rightarrow> bool" where
  "extension_key k = (case py_split (CHR ''-'') k of [] \<Rightarrow> False
     | x # words \<Rightarrow> x = ''x'' \<and> words \<noteq> [] \<and> (\<forall>w \<in> set words. lower_word w))"

definition extensions_valid :: "(pystr \<times> json) list \<Rightarrow> bool" where
  "extensions_valid ext \<longleftrightarrow> distinct (map fst ext) \<and>
     (\<forall>(k, v) \<in> set ext. extension_key k \<and> json_value_ok v)"

definition sensitivity_levels :: "pystr list" where
  "sensitivity_levels = [''public'', ''internal'', ''confidential'', ''restricted'']"

definition compression_classes :: "pystr list" where
  "compression_classes =
     [''P0_EXACT'', ''P1_STRUCTURED'', ''P2_EVIDENCE'', ''P3_SUMMARY'', ''P4_TRANSIENT'']"

section \<open>Control manifest\<close>

record scope_model =
  sp_repositories :: "pystr list"
  sp_paths :: "pystr list"
  sp_environments :: "pystr list"

definition scope_model_valid :: "scope_model \<Rightarrow> bool" where
  "scope_model_valid s \<longleftrightarrow>
     sp_repositories s \<noteq> [] \<and> sp_paths s \<noteq> [] \<and> sp_environments s \<noteq> [] \<and>
     nonempty_strings (sp_repositories s) \<and> nonempty_strings (sp_paths s) \<and>
     nonempty_strings (sp_environments s) \<and>
     (\<forall>p \<in> set (sp_paths s). is_safe_relative_path p None)"

record integrity_references =
  ir_lock :: pystr
  ir_signature :: "pystr option"

definition integrity_references_valid :: "integrity_references \<Rightarrow> bool" where
  "integrity_references_valid r \<longleftrightarrow> ir_lock r = ''integrity/capsule.lock'' \<and>
     (ir_signature r = None \<or> ir_signature r = Some ''integrity/signature.json'')"

record control_manifest =
  cm_spec_version :: pystr
  cm_canonical_profile :: pystr
  cm_capsule_id :: pystr
  cm_version :: pystr
  cm_content_digest :: pystr
  cm_owner :: pystr
  cm_tenant :: pystr
  cm_scope :: scope_model
  cm_authority :: pystr
  cm_sensitivity :: pystr
  cm_provides :: "pystr list"
  cm_requires :: "pystr list"
  cm_conflicts :: "pystr list"
  cm_lifecycle :: pystr
  cm_created_from :: "pystr list"
  cm_integrity :: integrity_references
  cm_extensions :: "(pystr \<times> json) list"

definition capsule_id_valid :: "pystr \<Rightarrow> bool" where
  "capsule_id_valid s \<longleftrightarrow>
     (let parts = py_split (CHR ''.'') (map (\<lambda>c. if c = CHR ''-'' then CHR ''.'' else c) s)
      in 2 \<le> length parts \<and> (\<forall>p \<in> set parts. lower_word p))"

definition control_manifest_valid :: "control_manifest \<Rightarrow> bool" where
  "control_manifest_valid m \<longleftrightarrow>
     cm_spec_version m = ''CCS-2.1'' \<and> cm_canonical_profile m = ''CCS-2.1-canonical-v1'' \<and>
     capsule_id_valid (cm_capsule_id m) \<and> is_semver (cm_version m) \<and>
     is_digest (cm_content_digest m) \<and> cm_owner m \<noteq> [] \<and> cm_tenant m \<noteq> [] \<and>
     scope_model_valid (cm_scope m) \<and> cm_authority m \<noteq> [] \<and>
     cm_sensitivity m \<in> set sensitivity_levels \<and> nonempty_strings (cm_provides m) \<and>
     nonempty_strings (cm_requires m) \<and> nonempty_strings (cm_conflicts m) \<and>
     cm_lifecycle m \<in> {''DRAFT'', ''VALIDATED'', ''PUBLISHED'', ''ACTIVE'', ''DEPRECATED'', ''REVOKED''} \<and>
     nonempty_strings (cm_created_from m) \<and> integrity_references_valid (cm_integrity m) \<and>
     extensions_valid (cm_extensions m)"

section \<open>Semantic payload\<close>

record validity =
  vd_from :: pystr
  vd_until :: "pystr option"

record core_atom =
  at_atom_id :: pystr
  at_kind :: pystr
  at_statement :: pystr
  at_modality :: pystr
  at_scope :: "pystr list"
  at_exceptions :: "pystr list"
  at_validity :: validity
  at_authority :: pystr
  at_status :: pystr
  at_confidence :: rat
  at_evidence_refs :: "pystr list"
  at_requires_atoms :: "pystr list"
  at_conflicts_with :: "pystr list"
  at_sensitivity :: pystr
  at_compression_class :: pystr
  at_refresh_policy :: pystr
  at_extensions :: "(pystr \<times> json) list"

definition core_atom_valid :: "core_atom \<Rightarrow> bool" where
  "core_atom_valid a \<longleftrightarrow> at_atom_id a \<noteq> [] \<and>
     at_kind a \<in> {''policy'', ''invariant'', ''fact'', ''decision'', ''procedure'', ''interface'',
       ''tool_contract'', ''example'', ''episodic_observation''} \<and>
     at_statement a \<noteq> [] \<and> at_modality a \<in> {''MUST'', ''SHOULD'', ''MAY'', ''INFORMATIVE''} \<and>
     at_scope a \<noteq> [] \<and> nonempty_strings (at_scope a) \<and> nonempty_strings (at_exceptions a) \<and>
     valid_date (vd_from (at_validity a)) \<and>
     (case vd_until (at_validity a) of None \<Rightarrow> True | Some u \<Rightarrow> valid_date u) \<and>
     at_authority a \<noteq> [] \<and> at_status a \<in> {''candidate'', ''validated'', ''deprecated'', ''revoked''} \<and>
     0 \<le> at_confidence a \<and> at_confidence a \<le> 1 \<and> nonempty_strings (at_evidence_refs a) \<and>
     nonempty_strings (at_requires_atoms a) \<and> nonempty_strings (at_conflicts_with a) \<and>
     at_sensitivity a \<in> set sensitivity_levels \<and> at_compression_class a \<in> set compression_classes \<and>
     at_refresh_policy a \<noteq> [] \<and> extensions_valid (at_extensions a) \<and>
     (at_status a = ''validated'' \<longrightarrow> at_evidence_refs a \<noteq> [])"

record semantic_payload =
  sl_atoms :: "core_atom list"
  sl_extensions :: "(pystr \<times> json) list"

definition semantic_payload_valid :: "semantic_payload \<Rightarrow> bool" where
  "semantic_payload_valid p \<longleftrightarrow> sl_atoms p \<noteq> [] \<and> (\<forall>a \<in> set (sl_atoms p). core_atom_valid a) \<and>
     distinct (map at_atom_id (sl_atoms p)) \<and> extensions_valid (sl_extensions p)"

section \<open>Evidence plane\<close>

record git_locator =
  gl_symbol_or_heading :: pystr
  gl_start_line :: int
  gl_end_line :: int
  gl_span_digest :: pystr

definition git_locator_valid :: "git_locator \<Rightarrow> bool" where
  "git_locator_valid l \<longleftrightarrow> gl_symbol_or_heading l \<noteq> [] \<and>
     1 \<le> gl_start_line l \<and> gl_start_line l \<le> 2 ^ 53 - 1 \<and>
     1 \<le> gl_end_line l \<and> gl_end_line l \<le> 2 ^ 53 - 1 \<and> is_digest (gl_span_digest l) \<and>
     gl_start_line l \<le> gl_end_line l"

text \<open>The discriminated union: what each mode adds to the common fields.\<close>

datatype evidence_mode =
    CAS
  | GIT_IMMUTABLE (gm_repository: pystr) (gm_revision: pystr) (gm_path: pystr) (gm_locator: git_locator)
  | EXTERNAL_IMMUTABLE (xm_uri: pystr) (xm_source: pystr) (xm_verification_method: pystr)

fun evidence_mode_text :: "evidence_mode \<Rightarrow> pystr" where
  "evidence_mode_text CAS = ''CAS''"
| "evidence_mode_text (GIT_IMMUTABLE r v p l) = ''GIT_IMMUTABLE''"
| "evidence_mode_text (EXTERNAL_IMMUTABLE u s m) = ''EXTERNAL_IMMUTABLE''"

definition git_revision :: "pystr \<Rightarrow> bool" where
  "git_revision s \<longleftrightarrow> (startswith s ''sha1:'' \<and> hex_text 40 (drop 5 s)) \<or>
     (startswith s ''sha256:'' \<and> hex_text 64 (drop 7 s))"

fun evidence_mode_valid :: "value_env \<Rightarrow> evidence_mode \<Rightarrow> bool" where
  "evidence_mode_valid V CAS = True"
| "evidence_mode_valid V (GIT_IMMUTABLE repository revision path locator) =
     (ve_https V repository \<and> git_revision revision \<and> is_safe_relative_path path None \<and>
      git_locator_valid locator)"
| "evidence_mode_valid V (EXTERNAL_IMMUTABLE uri source verification) =
     ((is_doi uri \<or> is_urn uri \<or> ve_https V uri) \<and> source \<noteq> [] \<and> verification \<noteq> [])"

record evidence_record =
  er_evidence_id :: pystr
  er_atom_ids :: "pystr list"
  er_content_digest :: pystr
  er_media_type :: pystr
  er_captured_at :: pystr
  er_retention :: pystr
  er_access_policy :: pystr
  er_validation :: pystr
  er_mode :: evidence_mode
  er_extensions :: "(pystr \<times> json) list"

definition evidence_record_valid :: "value_env \<Rightarrow> evidence_record \<Rightarrow> bool" where
  "evidence_record_valid V r \<longleftrightarrow> er_evidence_id r \<noteq> [] \<and> er_atom_ids r \<noteq> [] \<and>
     nonempty_strings (er_atom_ids r) \<and> is_digest (er_content_digest r) \<and>
     is_media_type (er_media_type r) \<and> timestamp_string V (er_captured_at r) \<and>
     er_retention r \<noteq> [] \<and> er_access_policy r \<noteq> [] \<and>
     er_validation r \<in> {''verified'', ''stale'', ''unavailable'', ''revoked''} \<and>
     evidence_mode_valid V (er_mode r) \<and> extensions_valid (er_extensions r)"

record evidence_plane =
  ep_records :: "evidence_record list"
  ep_extensions :: "(pystr \<times> json) list"

definition evidence_plane_valid :: "value_env \<Rightarrow> evidence_plane \<Rightarrow> bool" where
  "evidence_plane_valid V p \<longleftrightarrow> ep_records p \<noteq> [] \<and>
     (\<forall>r \<in> set (ep_records p). evidence_record_valid V r) \<and>
     distinct (map er_evidence_id (ep_records p)) \<and> extensions_valid (ep_extensions p)"

section \<open>Dependency graph\<close>

definition dependency_edge_valid :: "dependency_edge \<Rightarrow> bool" where
  "dependency_edge_valid e \<longleftrightarrow> de_source e \<noteq> [] \<and> de_target e \<noteq> [] \<and>
     de_edge_type e \<in> {''requires'', ''provides'', ''conflicts'', ''replaces'', ''optional''} \<and>
     de_version_constraint e \<noteq> Some [] \<and> extensions_valid (de_extensions e)"

definition edge_key :: "dependency_edge \<Rightarrow> pystr \<times> pystr \<times> pystr" where
  "edge_key e = (de_source e, de_target e, de_edge_type e)"

record core_graph =
  dg_edges :: "dependency_edge list"
  dg_extensions :: "(pystr \<times> json) list"

definition core_graph_valid :: "core_graph \<Rightarrow> bool" where
  "core_graph_valid g \<longleftrightarrow> (\<forall>e \<in> set (dg_edges g). dependency_edge_valid e) \<and>
     distinct (map edge_key (dg_edges g)) \<and> extensions_valid (dg_extensions g)"

section \<open>Replacement contract\<close>

record verification_commands =
  vc_static :: "pystr list"
  vc_behavioral :: "pystr list"
  vc_differential :: "pystr list"

record activation_policy =
  ap_risk :: pystr
  ap_approval_required :: bool
  ap_safe_boundary :: pystr

record rollback_policy =
  rp_pointer :: pystr
  rp_compensating_action :: "pystr option"

record core_contract =
  rc_contract_id :: pystr
  rc_replaces :: "pystr option"
  rc_preconditions :: "pystr list"
  rc_target_effects :: "pystr list"
  rc_protected_invariants :: "pystr list"
  rc_allowed_scope :: "pystr list"
  rc_forbidden_spillover :: "pystr list"
  rc_verification :: verification_commands
  rc_activation :: activation_policy
  rc_rollback :: rollback_policy
  rc_extensions :: "(pystr \<times> json) list"

definition core_contract_valid :: "core_contract \<Rightarrow> bool" where
  "core_contract_valid c \<longleftrightarrow> rc_contract_id c \<noteq> [] \<and> rc_replaces c \<noteq> Some [] \<and>
     nonempty_strings (rc_preconditions c) \<and>
     rc_target_effects c \<noteq> [] \<and> nonempty_strings (rc_target_effects c) \<and>
     rc_protected_invariants c \<noteq> [] \<and> nonempty_strings (rc_protected_invariants c) \<and>
     (\<forall>p \<in> set (rc_allowed_scope c) \<union> set (rc_forbidden_spillover c). is_safe_relative_path p None) \<and>
     nonempty_strings (vc_static (rc_verification c)) \<and>
     nonempty_strings (vc_behavioral (rc_verification c)) \<and>
     nonempty_strings (vc_differential (rc_verification c)) \<and>
     ap_risk (rc_activation c) \<in> {''low'', ''medium'', ''high'', ''critical''} \<and>
     ap_safe_boundary (rc_activation c) = ''before-next-agent-action'' \<and>
     rp_pointer (rc_rollback c) \<noteq> [] \<and> rp_compensating_action (rc_rollback c) \<noteq> Some [] \<and>
     extensions_valid (rc_extensions c)"

section \<open>Compression policy\<close>

record class_policy =
  cl_name :: pystr
  cl_rendering :: pystr
  cl_lossy_compression :: pystr
  cl_expansion_triggers :: "pystr list"
  cl_ttl :: "pystr option"

definition ttl_pattern :: "pystr \<Rightarrow> bool" where
  "ttl_pattern s \<longleftrightarrow> 3 \<le> length s \<and> hd s = CHR ''P'' \<and> last s = CHR ''D'' \<and>
     (\<forall>c \<in> set (butlast (tl s)). ascii_digit c)"

definition class_policy_valid :: "class_policy \<Rightarrow> bool" where
  "class_policy_valid p \<longleftrightarrow> cl_name p \<in> set compression_classes \<and> cl_rendering p \<noteq> [] \<and>
     cl_lossy_compression p \<in> {''forbidden'', ''validated_only'', ''excerpt_only'', ''allowed''} \<and>
     nonempty_strings (cl_expansion_triggers p) \<and>
     (case cl_ttl p of None \<Rightarrow> True | Some t \<Rightarrow> ttl_pattern t) \<and>
     (cl_name p = ''P0_EXACT'' \<longrightarrow> cl_rendering p = ''exact'' \<and> cl_lossy_compression p = ''forbidden'')"

record core_compression =
  kp_policy_version :: pystr
  kp_classes :: "class_policy list"
  kp_extensions :: "(pystr \<times> json) list"

definition core_compression_valid :: "core_compression \<Rightarrow> bool" where
  "core_compression_valid p \<longleftrightarrow> is_semver (kp_policy_version p) \<and> length (kp_classes p) = 5 \<and>
     (\<forall>c \<in> set (kp_classes p). class_policy_valid c) \<and> distinct (map cl_name (kp_classes p)) \<and>
     set (map cl_name (kp_classes p)) = set compression_classes \<and> extensions_valid (kp_extensions p)"

section \<open>Tests and integrity\<close>

record test_definition =
  td_test_id :: pystr
  td_kind :: pystr
  td_path :: pystr
  td_digest :: pystr

definition test_definition_valid :: "test_definition \<Rightarrow> bool" where
  "test_definition_valid t \<longleftrightarrow> td_test_id t \<noteq> [] \<and>
     td_kind t \<in> {''static'', ''evidence'', ''compression'', ''behavioral''} \<and> is_digest (td_digest t) \<and>
     (\<exists>p \<in> {''tests/static/'', ''tests/behavioral/'', ''tests/compression/''}.
        is_safe_relative_path (td_path t) (Some p))"

text \<open>\<open>CapsuleDependency\<close> has the fields of \<open>CapsuleRef\<close>.\<close>

record integrity_lock =
  il_capsule_dependencies :: "capsule_ref list"
  il_source_commits :: "pystr list"
  il_compiler_version :: pystr
  il_adapter_versions :: "pystr list"
  il_compression_policy_version :: pystr
  il_test_set_version :: pystr
  il_model_series :: "pystr list"
  il_parameters :: "pystr list"
  il_runtime_config_digest :: pystr
  il_extensions :: "(pystr \<times> json) list"

definition integrity_lock_valid :: "integrity_lock \<Rightarrow> bool" where
  "integrity_lock_valid l \<longleftrightarrow> (\<forall>d \<in> set (il_capsule_dependencies l). capsule_ref_valid d) \<and>
     nonempty_strings (il_source_commits l) \<and> is_semver (il_compiler_version l) \<and>
     nonempty_strings (il_adapter_versions l) \<and> is_semver (il_compression_policy_version l) \<and>
     is_semver (il_test_set_version l) \<and> nonempty_strings (il_model_series l) \<and>
     nonempty_strings (il_parameters l) \<and> is_digest (il_runtime_config_digest l) \<and>
     extensions_valid (il_extensions l)"

record artifact_checksum =
  ac_path :: pystr
  ac_digest :: pystr

definition artifact_checksum_valid :: "artifact_checksum \<Rightarrow> bool" where
  "artifact_checksum_valid c \<longleftrightarrow> is_safe_relative_path (ac_path c) (Some ''tests/'') \<and> is_digest (ac_digest c)"

record signature_policy =
  gp_algorithm :: pystr
  gp_key_id :: pystr
  gp_input_profile :: pystr

definition signature_policy_valid :: "signature_policy \<Rightarrow> bool" where
  "signature_policy_valid p \<longleftrightarrow> gp_algorithm p \<noteq> [] \<and> gp_key_id p \<noteq> [] \<and>
     gp_input_profile p = ''CCS-2.1-signature-v1''"

record tests_integrity =
  ti_tests :: "test_definition list"
  ti_lock :: integrity_lock
  ti_artifact_checksums :: "artifact_checksum list"
  ti_signature_policy :: signature_policy
  ti_extensions :: "(pystr \<times> json) list"

definition tests_integrity_valid :: "tests_integrity \<Rightarrow> bool" where
  "tests_integrity_valid t \<longleftrightarrow> ti_tests t \<noteq> [] \<and> (\<forall>d \<in> set (ti_tests t). test_definition_valid d) \<and>
     integrity_lock_valid (ti_lock t) \<and>
     (\<forall>c \<in> set (ti_artifact_checksums t). artifact_checksum_valid c) \<and>
     signature_policy_valid (ti_signature_policy t) \<and> extensions_valid (ti_extensions t) \<and>
     distinct (map (\<lambda>d. (td_path d, td_digest d)) (ti_tests t)) \<and>
     map (\<lambda>c. (ac_path c, ac_digest c)) (ti_artifact_checksums t) =
       map (\<lambda>d. (td_path d, td_digest d)) (ti_tests t)"

record detached_signature =
  ds_algorithm :: pystr
  ds_key_id :: pystr
  ds_value :: pystr
  ds_envelope :: "(pystr \<times> json) list"

definition json_map_valid :: "(pystr \<times> json) list \<Rightarrow> bool" where
  "json_map_valid m \<longleftrightarrow> distinct (map fst m) \<and> (\<forall>(k, v) \<in> set m. json_value_ok v)"

definition detached_signature_valid :: "detached_signature \<Rightarrow> bool" where
  "detached_signature_valid s \<longleftrightarrow> ds_algorithm s \<noteq> [] \<and> ds_key_id s \<noteq> [] \<and> ds_value s \<noteq> [] \<and>
     json_map_valid (ds_envelope s)"

section \<open>The capsule\<close>

record core_capsule =
  cc_control_manifest :: control_manifest
  cc_semantic_payload :: semantic_payload
  cc_evidence_plane :: evidence_plane
  cc_dependency_graph :: core_graph
  cc_replacement_contract :: core_contract
  cc_compression_policy :: core_compression
  cc_tests_integrity :: tests_integrity
  cc_detached_signature :: "detached_signature option"
  cc_derived_artifacts :: "(pystr \<times> json) list"
  cc_runtime_sidecar :: "(pystr \<times> json) list"

abbreviation capsule_atoms :: "core_capsule \<Rightarrow> core_atom list" where
  "capsule_atoms c \<equiv> sl_atoms (cc_semantic_payload c)"

abbreviation capsule_evidence :: "core_capsule \<Rightarrow> evidence_record list" where
  "capsule_evidence c \<equiv> ep_records (cc_evidence_plane c)"

definition atom_bindings :: "core_capsule \<Rightarrow> (pystr \<times> pystr) set" where
  "atom_bindings c = (\<Union>a \<in> set (capsule_atoms c). Pair (at_atom_id a) ` set (at_evidence_refs a))"

definition evidence_bindings :: "core_capsule \<Rightarrow> (pystr \<times> pystr) set" where
  "evidence_bindings c =
     (\<Union>r \<in> set (capsule_evidence c). (\<lambda>i. (i, er_evidence_id r)) ` set (er_atom_ids r))"

definition references_are_closed :: "core_capsule \<Rightarrow> bool" where
  "references_are_closed c \<longleftrightarrow>
     (\<Union>a \<in> set (capsule_atoms c). set (at_evidence_refs a)) \<subseteq> er_evidence_id ` set (capsule_evidence c) \<and>
     (\<forall>r \<in> set (capsule_evidence c). set (er_atom_ids r) \<subseteq> at_atom_id ` set (capsule_atoms c)) \<and>
     atom_bindings c = evidence_bindings c \<and>
     (ir_signature (cm_integrity (cc_control_manifest c)) \<noteq> None) = (cc_detached_signature c \<noteq> None) \<and>
     (cm_lifecycle (cc_control_manifest c) = ''PUBLISHED'' \<longrightarrow> cc_detached_signature c \<noteq> None) \<and>
     (case cc_detached_signature c of None \<Rightarrow> True
      | Some s \<Rightarrow> ds_algorithm s = gp_algorithm (ti_signature_policy (cc_tests_integrity c)) \<and>
          ds_key_id s = gp_key_id (ti_signature_policy (cc_tests_integrity c)))"

definition core_capsule_valid :: "value_env \<Rightarrow> core_capsule \<Rightarrow> bool" where
  "core_capsule_valid V c \<longleftrightarrow> control_manifest_valid (cc_control_manifest c) \<and>
     semantic_payload_valid (cc_semantic_payload c) \<and> evidence_plane_valid V (cc_evidence_plane c) \<and>
     core_graph_valid (cc_dependency_graph c) \<and> core_contract_valid (cc_replacement_contract c) \<and>
     core_compression_valid (cc_compression_policy c) \<and> tests_integrity_valid (cc_tests_integrity c) \<and>
     (case cc_detached_signature c of None \<Rightarrow> True | Some s \<Rightarrow> detached_signature_valid s) \<and>
     json_map_valid (cc_derived_artifacts c) \<and> json_map_valid (cc_runtime_sidecar c) \<and>
     references_are_closed c"

end
