(* ===== verification/Canonical.thy ===== *)
theory Canonical
  imports Capsule_Model
begin

text \<open>
  The identity projection of a capsule and its canonical digest (\<^verbatim>\<open>models/canonical.py\<close>). The JCS
  encoder \<open>rfc8785.dumps\<close> and SHA-256 are parameters. What RFC 8785 promises is stated with
  the normal form \<open>jcs_norm\<close>: member order and the spelling of integral numbers do not matter,
  everything else does.
\<close>

section \<open>Projection\<close>

definition json_strings :: "pystr list \<Rightarrow> json" where
  "json_strings xs = JList (map JStr xs)"

definition manifest_json :: "control_manifest \<Rightarrow> (pystr \<times> json) list" where
  "manifest_json m =
    [(''spec_version'', JStr (cm_spec_version m)),
     (''canonical_profile'', JStr (cm_canonical_profile m)),
     (''capsule_id'', JStr (cm_capsule_id m)),
     (''version'', JStr (cm_version m)),
     (''owner'', JStr (cm_owner m)),
     (''tenant'', JStr (cm_tenant m)),
     (''scope'', JObj
       [(''repositories'', json_strings (sp_repositories (cm_scope m))),
        (''paths'', json_strings (sp_paths (cm_scope m))),
        (''environments'', json_strings (sp_environments (cm_scope m)))]),
     (''authority'', JStr (cm_authority m)),
     (''sensitivity'', JStr (cm_sensitivity m)),
     (''provides'', json_strings (cm_provides m)),
     (''requires'', json_strings (cm_requires m)),
     (''conflicts'', json_strings (cm_conflicts m)),
     (''lifecycle'', JStr (cm_lifecycle m)),
     (''created_from'', json_strings (cm_created_from m)),
     (''integrity'', JObj
       [(''lock'', JStr (ir_lock (cm_integrity m))),
        (''signature'', json_opt JStr (ir_signature (cm_integrity m)))]),
     (''extensions'', JObj (cm_extensions m))]"

definition atom_json :: "core_atom \<Rightarrow> json" where
  "atom_json a = JObj
    [(''atom_id'', JStr (at_atom_id a)),
     (''kind'', JStr (at_kind a)),
     (''statement'', JStr (at_statement a)),
     (''modality'', JStr (at_modality a)),
     (''scope'', json_strings (at_scope a)),
     (''exceptions'', json_strings (at_exceptions a)),
     (''validity'', JObj
       [(''from'', JStr (vd_from (at_validity a))),
        (''until'', json_opt JStr (vd_until (at_validity a)))]),
     (''authority'', JStr (at_authority a)),
     (''status'', JStr (at_status a)),
     (''confidence'', JFloat (at_confidence a)),
     (''evidence_refs'', json_strings (at_evidence_refs a)),
     (''requires_atoms'', json_strings (at_requires_atoms a)),
     (''conflicts_with'', json_strings (at_conflicts_with a)),
     (''sensitivity'', JStr (at_sensitivity a)),
     (''compression_class'', JStr (at_compression_class a)),
     (''refresh_policy'', JStr (at_refresh_policy a)),
     (''extensions'', JObj (at_extensions a))]"

definition semantic_payload_json :: "semantic_payload \<Rightarrow> json" where
  "semantic_payload_json p = JObj
    [(''atoms'', JList (map atom_json (sl_atoms p))), (''extensions'', JObj (sl_extensions p))]"

fun evidence_mode_json :: "evidence_mode \<Rightarrow> (pystr \<times> json) list" where
  "evidence_mode_json CAS = []"
| "evidence_mode_json (GIT_IMMUTABLE repository revision path locator) =
     [(''repository'', JStr repository), (''revision'', JStr revision), (''path'', JStr path),
      (''locator'', JObj
        [(''symbol_or_heading'', JStr (gl_symbol_or_heading locator)),
         (''start_line'', JInt (gl_start_line locator)),
         (''end_line'', JInt (gl_end_line locator)),
         (''span_digest'', JStr (gl_span_digest locator))])]"
| "evidence_mode_json (EXTERNAL_IMMUTABLE uri source verification) =
     [(''uri'', JStr uri), (''source'', JStr source), (''verification_method'', JStr verification)]"

definition evidence_json :: "evidence_record \<Rightarrow> json" where
  "evidence_json r = JObj
    ([(''mode'', JStr (evidence_mode_text (er_mode r))),
      (''evidence_id'', JStr (er_evidence_id r)),
      (''atom_ids'', json_strings (er_atom_ids r)),
      (''content_digest'', JStr (er_content_digest r)),
      (''media_type'', JStr (er_media_type r)),
      (''captured_at'', JStr (er_captured_at r)),
      (''retention'', JStr (er_retention r)),
      (''access_policy'', JStr (er_access_policy r)),
      (''validation'', JStr (er_validation r)),
      (''extensions'', JObj (er_extensions r))] @ evidence_mode_json (er_mode r))"

definition evidence_plane_json :: "evidence_plane \<Rightarrow> json" where
  "evidence_plane_json p = JObj
    [(''records'', JList (map evidence_json (ep_records p))), (''extensions'', JObj (ep_extensions p))]"

definition edge_json :: "dependency_edge \<Rightarrow> json" where
  "edge_json e = JObj
    [(''source'', JStr (de_source e)), (''target'', JStr (de_target e)),
     (''edge_type'', JStr (de_edge_type e)),
     (''version_constraint'', json_opt JStr (de_version_constraint e)),
     (''mandatory'', JBool (de_mandatory e)), (''extensions'', JObj (de_extensions e))]"

definition dependency_graph_json :: "core_graph \<Rightarrow> json" where
  "dependency_graph_json g = JObj
    [(''edges'', JList (map edge_json (dg_edges g))), (''extensions'', JObj (dg_extensions g))]"

definition replacement_contract_json :: "core_contract \<Rightarrow> json" where
  "replacement_contract_json c = JObj
    [(''contract_id'', JStr (rc_contract_id c)),
     (''replaces'', json_opt JStr (rc_replaces c)),
     (''preconditions'', json_strings (rc_preconditions c)),
     (''target_effects'', json_strings (rc_target_effects c)),
     (''protected_invariants'', json_strings (rc_protected_invariants c)),
     (''allowed_scope'', json_strings (rc_allowed_scope c)),
     (''forbidden_spillover'', json_strings (rc_forbidden_spillover c)),
     (''verification'', JObj
       [(''static'', json_strings (vc_static (rc_verification c))),
        (''behavioral'', json_strings (vc_behavioral (rc_verification c))),
        (''differential'', json_strings (vc_differential (rc_verification c)))]),
     (''activation'', JObj
       [(''risk'', JStr (ap_risk (rc_activation c))),
        (''approval_required'', JBool (ap_approval_required (rc_activation c))),
        (''safe_boundary'', JStr (ap_safe_boundary (rc_activation c)))]),
     (''rollback'', JObj
       [(''pointer'', JStr (rp_pointer (rc_rollback c))),
        (''compensating_action'', json_opt JStr (rp_compensating_action (rc_rollback c)))]),
     (''extensions'', JObj (rc_extensions c))]"

definition class_policy_json :: "class_policy \<Rightarrow> json" where
  "class_policy_json p = JObj
    [(''name'', JStr (cl_name p)), (''rendering'', JStr (cl_rendering p)),
     (''lossy_compression'', JStr (cl_lossy_compression p)),
     (''expansion_triggers'', json_strings (cl_expansion_triggers p)),
     (''ttl'', json_opt JStr (cl_ttl p))]"

definition compression_policy_json :: "core_compression \<Rightarrow> json" where
  "compression_policy_json p = JObj
    [(''policy_version'', JStr (kp_policy_version p)),
     (''classes'', JList (map class_policy_json (kp_classes p))),
     (''extensions'', JObj (kp_extensions p))]"

definition test_json :: "test_definition \<Rightarrow> json" where
  "test_json t = JObj
    [(''test_id'', JStr (td_test_id t)), (''kind'', JStr (td_kind t)), (''path'', JStr (td_path t)),
     (''digest'', JStr (td_digest t))]"

definition checksum_json :: "artifact_checksum \<Rightarrow> json" where
  "checksum_json c = JObj [(''path'', JStr (ac_path c)), (''digest'', JStr (ac_digest c))]"

definition lock_json :: "integrity_lock \<Rightarrow> json" where
  "lock_json l = JObj
    [(''capsule_dependencies'', JList (map capsule_ref_json (il_capsule_dependencies l))),
     (''source_commits'', json_strings (il_source_commits l)),
     (''compiler_version'', JStr (il_compiler_version l)),
     (''adapter_versions'', json_strings (il_adapter_versions l)),
     (''compression_policy_version'', JStr (il_compression_policy_version l)),
     (''test_set_version'', JStr (il_test_set_version l)),
     (''model_series'', json_strings (il_model_series l)),
     (''parameters'', json_strings (il_parameters l)),
     (''runtime_config_digest'', JStr (il_runtime_config_digest l)),
     (''extensions'', JObj (il_extensions l))]"

definition tests_integrity_json :: "tests_integrity \<Rightarrow> json" where
  "tests_integrity_json t = JObj
    [(''tests'', JList (map test_json (ti_tests t))),
     (''lock'', lock_json (ti_lock t)),
     (''artifact_checksums'', JList (map checksum_json (ti_artifact_checksums t))),
     (''signature_policy'', JObj
       [(''algorithm'', JStr (gp_algorithm (ti_signature_policy t))),
        (''key_id'', JStr (gp_key_id (ti_signature_policy t))),
        (''input_profile'', JStr (gp_input_profile (ti_signature_policy t)))]),
     (''extensions'', JObj (ti_extensions t))]"

definition core_modules_json :: "(pystr \<times> json) list \<Rightarrow> core_capsule \<Rightarrow> (pystr \<times> json) list" where
  "core_modules_json manifest c =
    [(''control_manifest'', JObj manifest),
     (''semantic_payload'', semantic_payload_json (cc_semantic_payload c)),
     (''evidence_plane'', evidence_plane_json (cc_evidence_plane c)),
     (''dependency_graph'', dependency_graph_json (cc_dependency_graph c)),
     (''replacement_contract'', replacement_contract_json (cc_replacement_contract c)),
     (''compression_policy'', compression_policy_json (cc_compression_policy c)),
     (''tests_integrity'', tests_integrity_json (cc_tests_integrity c))]"

definition identity_projection :: "core_capsule \<Rightarrow> json" where
  "identity_projection c = JObj
    [(''profile'', JStr ''CCS-2.1-canonical-v1''),
     (''core'', JObj (core_modules_json (manifest_json (cc_control_manifest c)) c))]"

definition canonical_digest :: "(bytes \<Rightarrow> bytes) \<Rightarrow> (json \<Rightarrow> bytes) \<Rightarrow> core_capsule \<Rightarrow> pystr option" where
  "canonical_digest sha256 dumps c =
     map_option (\<lambda>data. ''sha256:'' @ to_hex (sha256 data))
       (canonical_json_bytes dumps (identity_projection c))"

text \<open>\<open>None\<close> is the \<open>ValueError\<close> on anything but a digest.\<close>

definition signature_input :: "pystr \<Rightarrow> bytes option" where
  "signature_input content_digest =
     (if is_digest content_digest then Some (''CCS-2.1-signature-v1'' @ [CHR 0x00] @ content_digest)
      else None)"

definition signature_json :: "detached_signature \<Rightarrow> json" where
  "signature_json s = JObj
    [(''algorithm'', JStr (ds_algorithm s)), (''key_id'', JStr (ds_key_id s)),
     (''value'', JStr (ds_value s)), (''envelope'', JObj (ds_envelope s))]"

definition capsule_wire_dict :: "core_capsule \<Rightarrow> (pystr \<times> json) list" where
  "capsule_wire_dict c =
     core_modules_json (manifest_json (cc_control_manifest c) @
         [(''content_digest'', JStr (cm_content_digest (cc_control_manifest c)))]) c @
     (case cc_detached_signature c of None \<Rightarrow> []
      | Some s \<Rightarrow> [(''detached_signature'', signature_json s)]) @
     [(''derived_artifacts'', JObj (cc_derived_artifacts c)),
      (''runtime_sidecar'', JObj (cc_runtime_sidecar c))]"

text \<open>\<open>_loader_publication_digest\<close> of \<^verbatim>\<open>build/publish.py\<close>: the wire form without its two rebuildable
  members.\<close>

definition loader_publication_digest ::
  "(bytes \<Rightarrow> bytes) \<Rightarrow> (json \<Rightarrow> bytes) \<Rightarrow> core_capsule \<Rightarrow> pystr option" where
  "loader_publication_digest sha256 dumps c =
     map_option (\<lambda>data. ''sha256:'' @ to_hex (sha256 data))
       (canonical_json_bytes dumps (JObj (filter (\<lambda>(k, v). k \<notin> {''derived_artifacts'', ''runtime_sidecar''})
         (capsule_wire_dict c))))"

section \<open>What the encoder promises\<close>

fun jcs_norm :: "json \<Rightarrow> json" where
  "jcs_norm (JFloat r) = (if of_int \<lfloor>r\<rfloor> = r then JInt \<lfloor>r\<rfloor> else JFloat r)"
| "jcs_norm (JList xs) = JList (map jcs_norm xs)"
| "jcs_norm (JObj fs) = JObj (sort_key fst (map (\<lambda>f. (fst f, jcs_norm (snd f))) fs))"
| "jcs_norm JNull = JNull"
| "jcs_norm (JBool b) = JBool b"
| "jcs_norm (JInt i) = JInt i"
| "jcs_norm (JStr s) = JStr s"

definition jcs_law :: "(json \<Rightarrow> bytes) \<Rightarrow> bool" where
  "jcs_law dumps \<longleftrightarrow> (\<forall>v w. dumps v = dumps w \<longleftrightarrow> jcs_norm v = jcs_norm w)"

lemma jcs_norm_float [simp]: "jcs_norm (JFloat r) = jcs_norm (JFloat s) \<longleftrightarrow> r = s"
  by (auto split: if_splits)

lemma sorted_fields_eq:
  assumes "map fst fs = map fst gs" and "distinct (map fst fs)"
    and "sort_key fst fs = sort_key fst gs"
  shows "fs = gs"
proof (rule nth_equalityI)
  show len: "length fs = length gs" using assms(1) by (metis length_map)
  have sets: "set fs = set gs" using arg_cong [OF assms(3), of set] by simp
  fix i assume i: "i < length fs"
  then have "fs ! i \<in> set gs" using sets nth_mem by blast
  then obtain j where j: "j < length gs" "gs ! j = fs ! i" by (auto simp: in_set_conv_nth)
  have "map fst fs ! i = map fst fs ! j" using i j len assms(1) by (metis nth_map)
  then have "i = j" using i j len assms(2) by (metis length_map nth_eq_iff_index_eq)
  with j show "fs ! i = gs ! i" by simp
qed

lemma jcs_norm_obj:
  assumes "map fst fs = map fst gs" and "distinct (map fst fs)"
  shows "jcs_norm (JObj fs) = jcs_norm (JObj gs) \<longleftrightarrow> map (jcs_norm \<circ> snd) fs = map (jcs_norm \<circ> snd) gs"
proof
  let ?n = "map (\<lambda>f. (fst f, jcs_norm (snd f)))"
  have fst: "map fst (?n hs) = map fst hs" for hs :: "(pystr \<times> json) list" by (simp add: comp_def)
  { assume "jcs_norm (JObj fs) = jcs_norm (JObj gs)"
    then have eq: "sort_key fst (?n fs) = sort_key fst (?n gs)" by simp
    have "?n fs = ?n gs" using assms by (intro sorted_fields_eq [OF _ _ eq]) (simp_all only: fst)
    from arg_cong [OF this, of "map snd"] show "map (jcs_norm \<circ> snd) fs = map (jcs_norm \<circ> snd) gs"
      by (simp add: comp_def) }
  { assume "map (jcs_norm \<circ> snd) fs = map (jcs_norm \<circ> snd) gs"
    then have "zip (map fst fs) (map (jcs_norm \<circ> snd) fs) = zip (map fst gs) (map (jcs_norm \<circ> snd) gs)"
      using assms(1) by simp
    then have "?n fs = ?n gs" by (simp add: zip_map_map zip_same_conv_map comp_def)
    then show "jcs_norm (JObj fs) = jcs_norm (JObj gs)" by simp }
qed

declare jcs_norm.simps(1,2,3) [simp del]

section \<open>What the identity covers\<close>

text \<open>Equality of records, field by field.\<close>

lemma validity_eq:
  "x = y \<longleftrightarrow>
     vd_from x = vd_from y \<and>
     vd_until x = vd_until y"
  for x y :: validity
  by (cases x; cases y) simp

lemma scope_model_eq:
  "x = y \<longleftrightarrow>
     sp_repositories x = sp_repositories y \<and>
     sp_paths x = sp_paths y \<and>
     sp_environments x = sp_environments y"
  for x y :: scope_model
  by (cases x; cases y) simp

lemma integrity_references_eq:
  "x = y \<longleftrightarrow>
     ir_lock x = ir_lock y \<and>
     ir_signature x = ir_signature y"
  for x y :: integrity_references
  by (cases x; cases y) simp

lemma control_manifest_eq:
  "x = y \<longleftrightarrow>
     cm_spec_version x = cm_spec_version y \<and>
     cm_canonical_profile x = cm_canonical_profile y \<and>
     cm_capsule_id x = cm_capsule_id y \<and>
     cm_version x = cm_version y \<and>
     cm_content_digest x = cm_content_digest y \<and>
     cm_owner x = cm_owner y \<and>
     cm_tenant x = cm_tenant y \<and>
     cm_scope x = cm_scope y \<and>
     cm_authority x = cm_authority y \<and>
     cm_sensitivity x = cm_sensitivity y \<and>
     cm_provides x = cm_provides y \<and>
     cm_requires x = cm_requires y \<and>
     cm_conflicts x = cm_conflicts y \<and>
     cm_lifecycle x = cm_lifecycle y \<and>
     cm_created_from x = cm_created_from y \<and>
     cm_integrity x = cm_integrity y \<and>
     cm_extensions x = cm_extensions y"
  for x y :: control_manifest
  by (cases x; cases y) simp

lemma core_atom_eq:
  "x = y \<longleftrightarrow>
     at_atom_id x = at_atom_id y \<and>
     at_kind x = at_kind y \<and>
     at_statement x = at_statement y \<and>
     at_modality x = at_modality y \<and>
     at_scope x = at_scope y \<and>
     at_exceptions x = at_exceptions y \<and>
     at_validity x = at_validity y \<and>
     at_authority x = at_authority y \<and>
     at_status x = at_status y \<and>
     at_confidence x = at_confidence y \<and>
     at_evidence_refs x = at_evidence_refs y \<and>
     at_requires_atoms x = at_requires_atoms y \<and>
     at_conflicts_with x = at_conflicts_with y \<and>
     at_sensitivity x = at_sensitivity y \<and>
     at_compression_class x = at_compression_class y \<and>
     at_refresh_policy x = at_refresh_policy y \<and>
     at_extensions x = at_extensions y"
  for x y :: core_atom
  by (cases x; cases y) simp

lemma semantic_payload_eq:
  "x = y \<longleftrightarrow>
     sl_atoms x = sl_atoms y \<and>
     sl_extensions x = sl_extensions y"
  for x y :: semantic_payload
  by (cases x; cases y) simp

lemma git_locator_eq:
  "x = y \<longleftrightarrow>
     gl_symbol_or_heading x = gl_symbol_or_heading y \<and>
     gl_start_line x = gl_start_line y \<and>
     gl_end_line x = gl_end_line y \<and>
     gl_span_digest x = gl_span_digest y"
  for x y :: git_locator
  by (cases x; cases y) simp

lemma evidence_record_eq:
  "x = y \<longleftrightarrow>
     er_evidence_id x = er_evidence_id y \<and>
     er_atom_ids x = er_atom_ids y \<and>
     er_content_digest x = er_content_digest y \<and>
     er_media_type x = er_media_type y \<and>
     er_captured_at x = er_captured_at y \<and>
     er_retention x = er_retention y \<and>
     er_access_policy x = er_access_policy y \<and>
     er_validation x = er_validation y \<and>
     er_mode x = er_mode y \<and>
     er_extensions x = er_extensions y"
  for x y :: evidence_record
  by (cases x; cases y) simp

lemma evidence_plane_eq:
  "x = y \<longleftrightarrow>
     ep_records x = ep_records y \<and>
     ep_extensions x = ep_extensions y"
  for x y :: evidence_plane
  by (cases x; cases y) simp

lemma dependency_edge_eq:
  "x = y \<longleftrightarrow>
     de_source x = de_source y \<and>
     de_target x = de_target y \<and>
     de_edge_type x = de_edge_type y \<and>
     de_version_constraint x = de_version_constraint y \<and>
     de_mandatory x = de_mandatory y \<and>
     de_extensions x = de_extensions y"
  for x y :: dependency_edge
  by (cases x; cases y) simp

lemma core_graph_eq:
  "x = y \<longleftrightarrow>
     dg_edges x = dg_edges y \<and>
     dg_extensions x = dg_extensions y"
  for x y :: core_graph
  by (cases x; cases y) simp

lemma verification_commands_eq:
  "x = y \<longleftrightarrow>
     vc_static x = vc_static y \<and>
     vc_behavioral x = vc_behavioral y \<and>
     vc_differential x = vc_differential y"
  for x y :: verification_commands
  by (cases x; cases y) simp

lemma activation_policy_eq:
  "x = y \<longleftrightarrow>
     ap_risk x = ap_risk y \<and>
     ap_approval_required x = ap_approval_required y \<and>
     ap_safe_boundary x = ap_safe_boundary y"
  for x y :: activation_policy
  by (cases x; cases y) simp

lemma rollback_policy_eq:
  "x = y \<longleftrightarrow>
     rp_pointer x = rp_pointer y \<and>
     rp_compensating_action x = rp_compensating_action y"
  for x y :: rollback_policy
  by (cases x; cases y) simp

lemma core_contract_eq:
  "x = y \<longleftrightarrow>
     rc_contract_id x = rc_contract_id y \<and>
     rc_replaces x = rc_replaces y \<and>
     rc_preconditions x = rc_preconditions y \<and>
     rc_target_effects x = rc_target_effects y \<and>
     rc_protected_invariants x = rc_protected_invariants y \<and>
     rc_allowed_scope x = rc_allowed_scope y \<and>
     rc_forbidden_spillover x = rc_forbidden_spillover y \<and>
     rc_verification x = rc_verification y \<and>
     rc_activation x = rc_activation y \<and>
     rc_rollback x = rc_rollback y \<and>
     rc_extensions x = rc_extensions y"
  for x y :: core_contract
  by (cases x; cases y) simp

lemma class_policy_eq:
  "x = y \<longleftrightarrow>
     cl_name x = cl_name y \<and>
     cl_rendering x = cl_rendering y \<and>
     cl_lossy_compression x = cl_lossy_compression y \<and>
     cl_expansion_triggers x = cl_expansion_triggers y \<and>
     cl_ttl x = cl_ttl y"
  for x y :: class_policy
  by (cases x; cases y) simp

lemma core_compression_eq:
  "x = y \<longleftrightarrow>
     kp_policy_version x = kp_policy_version y \<and>
     kp_classes x = kp_classes y \<and>
     kp_extensions x = kp_extensions y"
  for x y :: core_compression
  by (cases x; cases y) simp

lemma test_definition_eq:
  "x = y \<longleftrightarrow>
     td_test_id x = td_test_id y \<and>
     td_kind x = td_kind y \<and>
     td_path x = td_path y \<and>
     td_digest x = td_digest y"
  for x y :: test_definition
  by (cases x; cases y) simp

lemma integrity_lock_eq:
  "x = y \<longleftrightarrow>
     il_capsule_dependencies x = il_capsule_dependencies y \<and>
     il_source_commits x = il_source_commits y \<and>
     il_compiler_version x = il_compiler_version y \<and>
     il_adapter_versions x = il_adapter_versions y \<and>
     il_compression_policy_version x = il_compression_policy_version y \<and>
     il_test_set_version x = il_test_set_version y \<and>
     il_model_series x = il_model_series y \<and>
     il_parameters x = il_parameters y \<and>
     il_runtime_config_digest x = il_runtime_config_digest y \<and>
     il_extensions x = il_extensions y"
  for x y :: integrity_lock
  by (cases x; cases y) simp

lemma artifact_checksum_eq:
  "x = y \<longleftrightarrow>
     ac_path x = ac_path y \<and>
     ac_digest x = ac_digest y"
  for x y :: artifact_checksum
  by (cases x; cases y) simp

lemma signature_policy_eq:
  "x = y \<longleftrightarrow>
     gp_algorithm x = gp_algorithm y \<and>
     gp_key_id x = gp_key_id y \<and>
     gp_input_profile x = gp_input_profile y"
  for x y :: signature_policy
  by (cases x; cases y) simp

lemma tests_integrity_eq:
  "x = y \<longleftrightarrow>
     ti_tests x = ti_tests y \<and>
     ti_lock x = ti_lock y \<and>
     ti_artifact_checksums x = ti_artifact_checksums y \<and>
     ti_signature_policy x = ti_signature_policy y \<and>
     ti_extensions x = ti_extensions y"
  for x y :: tests_integrity
  by (cases x; cases y) simp

lemma capsule_ref_eq:
  "x = y \<longleftrightarrow>
     cr_capsule_id x = cr_capsule_id y \<and>
     cr_version x = cr_version y \<and>
     cr_digest x = cr_digest y"
  for x y :: capsule_ref
  by (cases x; cases y) simp

lemmas record_eqs =
  validity_eq scope_model_eq integrity_references_eq control_manifest_eq core_atom_eq semantic_payload_eq git_locator_eq evidence_record_eq evidence_plane_eq dependency_edge_eq core_graph_eq verification_commands_eq activation_policy_eq rollback_policy_eq core_contract_eq class_policy_eq core_compression_eq test_definition_eq integrity_lock_eq artifact_checksum_eq signature_policy_eq tests_integrity_eq capsule_ref_eq

text \<open>The content of a capsule that its identity binds: everything but the digest itself, the
  signature, the derived artifacts and the runtime data, with extensions up to their encoding.\<close>

definition norm_map :: "(pystr \<times> json) list \<Rightarrow> (pystr \<times> json) list" where
  "norm_map m = (case jcs_norm (JObj m) of JObj fs \<Rightarrow> fs | _ \<Rightarrow> [])"

definition atom_identity :: "core_atom \<Rightarrow> core_atom" where
  "atom_identity a = a \<lparr> at_extensions := norm_map (at_extensions a) \<rparr>"

definition evidence_identity :: "evidence_record \<Rightarrow> evidence_record" where
  "evidence_identity r = r \<lparr> er_extensions := norm_map (er_extensions r) \<rparr>"

definition edge_identity :: "dependency_edge \<Rightarrow> dependency_edge" where
  "edge_identity e = e \<lparr> de_extensions := norm_map (de_extensions e) \<rparr>"

definition manifest_identity :: "control_manifest \<Rightarrow> control_manifest" where
  "manifest_identity m = m \<lparr> cm_content_digest := [], cm_extensions := norm_map (cm_extensions m) \<rparr>"

definition core_identity :: "core_capsule \<Rightarrow>
  control_manifest \<times> semantic_payload \<times> evidence_plane \<times> core_graph \<times> core_contract \<times>
  core_compression \<times> tests_integrity" where
  "core_identity c =
    (manifest_identity (cc_control_manifest c),
     \<lparr> sl_atoms = map atom_identity (capsule_atoms c),
       sl_extensions = norm_map (sl_extensions (cc_semantic_payload c)) \<rparr>,
     \<lparr> ep_records = map evidence_identity (capsule_evidence c),
       ep_extensions = norm_map (ep_extensions (cc_evidence_plane c)) \<rparr>,
     \<lparr> dg_edges = map edge_identity (dg_edges (cc_dependency_graph c)),
       dg_extensions = norm_map (dg_extensions (cc_dependency_graph c)) \<rparr>,
     (cc_replacement_contract c) \<lparr> rc_extensions := norm_map (rc_extensions (cc_replacement_contract c)) \<rparr>,
     (cc_compression_policy c) \<lparr> kp_extensions := norm_map (kp_extensions (cc_compression_policy c)) \<rparr>,
     (cc_tests_integrity c) \<lparr> ti_lock := (ti_lock (cc_tests_integrity c))
         \<lparr> il_extensions := norm_map (il_extensions (ti_lock (cc_tests_integrity c))) \<rparr>,
       ti_extensions := norm_map (ti_extensions (cc_tests_integrity c)) \<rparr>)"

lemma norm_map_eq: "norm_map m = norm_map n \<longleftrightarrow> jcs_norm (JObj m) = jcs_norm (JObj n)"
  by (simp add: norm_map_def jcs_norm.simps(3))

lemma jcs_strings: "jcs_norm (json_strings xs) = jcs_norm (json_strings ys) \<longleftrightarrow> xs = ys"
  by (simp add: json_strings_def jcs_norm.simps(2) inj_map_eq_map inj_def)

lemma jcs_opt: "jcs_norm (json_opt JStr x) = jcs_norm (json_opt JStr y) \<longleftrightarrow> x = y"
  by (simp add: json_opt_def split: option.splits)

lemma jcs_items:
  assumes "\<And>x y. jcs_norm (f x) = jcs_norm (f y) \<longleftrightarrow> g x = g y"
  shows "jcs_norm (JList (map f xs)) = jcs_norm (JList (map f ys)) \<longleftrightarrow> map g xs = map g ys"
  by (simp add: jcs_norm.simps(2) list_eq_iff_nth_eq assms cong: conj_cong)

lemmas jcs_fields = jcs_strings jcs_opt jcs_norm_float norm_map_eq jcs_norm_obj

lemma atom_json_norm: "jcs_norm (atom_json a) = jcs_norm (atom_json b) \<longleftrightarrow> atom_identity a = atom_identity b"
  by (simp add: atom_json_def atom_identity_def record_eqs jcs_fields)

lemma edge_json_norm: "jcs_norm (edge_json a) = jcs_norm (edge_json b) \<longleftrightarrow> edge_identity a = edge_identity b"
  by (simp add: edge_json_def edge_identity_def record_eqs jcs_fields)

lemma jcs_norm_length: "jcs_norm (JObj fs) = jcs_norm (JObj gs) \<Longrightarrow> length fs = length gs"
  by (auto simp: jcs_norm.simps(3) dest: arg_cong [where f = length])

lemma evidence_json_norm:
  "jcs_norm (evidence_json a) = jcs_norm (evidence_json b) \<longleftrightarrow> evidence_identity a = evidence_identity b"
proof (cases "length (evidence_mode_json (er_mode a)) = length (evidence_mode_json (er_mode b))")
  case True
  then show ?thesis
    by (cases "er_mode a"; cases "er_mode b")
      (auto simp: evidence_json_def evidence_identity_def record_eqs jcs_fields)
next
  case False
  then have "er_mode a \<noteq> er_mode b" by auto
  moreover have "jcs_norm (evidence_json a) \<noteq> jcs_norm (evidence_json b)"
    using False by (auto simp: evidence_json_def dest!: jcs_norm_length)
  ultimately show ?thesis by (auto simp: evidence_identity_def evidence_record_eq)
qed

lemma class_json_norm: "jcs_norm (class_policy_json a) = jcs_norm (class_policy_json b) \<longleftrightarrow> id a = id b"
  by (simp add: class_policy_json_def record_eqs jcs_fields)

lemma test_json_norm: "jcs_norm (test_json a) = jcs_norm (test_json b) \<longleftrightarrow> id a = id b"
  by (simp add: test_json_def record_eqs jcs_fields)

lemma checksum_json_norm: "jcs_norm (checksum_json a) = jcs_norm (checksum_json b) \<longleftrightarrow> id a = id b"
  by (simp add: checksum_json_def record_eqs jcs_fields)

lemma capsule_ref_json_norm: "jcs_norm (capsule_ref_json a) = jcs_norm (capsule_ref_json b) \<longleftrightarrow> id a = id b"
  by (simp add: capsule_ref_json_def record_eqs jcs_fields)

lemmas jcs_lists = jcs_items [OF atom_json_norm] jcs_items [OF edge_json_norm] jcs_items [OF evidence_json_norm]
  jcs_items [OF class_json_norm, simplified] jcs_items [OF test_json_norm, simplified]
  jcs_items [OF checksum_json_norm, simplified] jcs_items [OF capsule_ref_json_norm, simplified]

lemma manifest_json_norm:
  "jcs_norm (JObj (manifest_json a)) = jcs_norm (JObj (manifest_json b)) \<longleftrightarrow>
     manifest_identity a = manifest_identity b"
  by (simp add: manifest_json_def manifest_identity_def record_eqs jcs_fields)

lemma contract_json_norm:
  "jcs_norm (replacement_contract_json a) = jcs_norm (replacement_contract_json b) \<longleftrightarrow>
     a \<lparr> rc_extensions := norm_map (rc_extensions a) \<rparr> = b \<lparr> rc_extensions := norm_map (rc_extensions b) \<rparr>"
  by (simp add: replacement_contract_json_def record_eqs jcs_fields)

lemma tests_json_norm:
  "jcs_norm (tests_integrity_json a) = jcs_norm (tests_integrity_json b) \<longleftrightarrow>
     a \<lparr> ti_lock := (ti_lock a) \<lparr> il_extensions := norm_map (il_extensions (ti_lock a)) \<rparr>,
         ti_extensions := norm_map (ti_extensions a) \<rparr> =
     b \<lparr> ti_lock := (ti_lock b) \<lparr> il_extensions := norm_map (il_extensions (ti_lock b)) \<rparr>,
         ti_extensions := norm_map (ti_extensions b) \<rparr>"
  by (auto simp: tests_integrity_json_def lock_json_def tests_integrity_eq integrity_lock_eq
      signature_policy_eq jcs_fields jcs_lists)

lemma core_modules_norm:
  "jcs_norm (JObj (core_modules_json (manifest_json (cc_control_manifest c)) c)) =
   jcs_norm (JObj (core_modules_json (manifest_json (cc_control_manifest d)) d)) \<longleftrightarrow>
     core_identity c = core_identity d"
proof -
  have "jcs_norm (semantic_payload_json a) = jcs_norm (semantic_payload_json b) \<longleftrightarrow>
      map atom_identity (sl_atoms a) = map atom_identity (sl_atoms b) \<and>
      norm_map (sl_extensions a) = norm_map (sl_extensions b)" for a b
    by (simp add: semantic_payload_json_def jcs_fields jcs_lists)
  moreover have "jcs_norm (evidence_plane_json a) = jcs_norm (evidence_plane_json b) \<longleftrightarrow>
      map evidence_identity (ep_records a) = map evidence_identity (ep_records b) \<and>
      norm_map (ep_extensions a) = norm_map (ep_extensions b)" for a b
    by (simp add: evidence_plane_json_def jcs_fields jcs_lists)
  moreover have "jcs_norm (dependency_graph_json a) = jcs_norm (dependency_graph_json b) \<longleftrightarrow>
      map edge_identity (dg_edges a) = map edge_identity (dg_edges b) \<and>
      norm_map (dg_extensions a) = norm_map (dg_extensions b)" for a b
    by (simp add: dependency_graph_json_def jcs_fields jcs_lists)
  moreover have "jcs_norm (compression_policy_json a) = jcs_norm (compression_policy_json b) \<longleftrightarrow>
      a \<lparr> kp_extensions := norm_map (kp_extensions a) \<rparr> = b \<lparr> kp_extensions := norm_map (kp_extensions b) \<rparr>" for a b
    by (simp add: compression_policy_json_def core_compression_eq jcs_fields jcs_lists)
  moreover have "jcs_norm (JObj (core_modules_json (manifest_json (cc_control_manifest c)) c)) =
      jcs_norm (JObj (core_modules_json (manifest_json (cc_control_manifest d)) d)) \<longleftrightarrow>
      map (jcs_norm \<circ> snd) (core_modules_json (manifest_json (cc_control_manifest c)) c) =
      map (jcs_norm \<circ> snd) (core_modules_json (manifest_json (cc_control_manifest d)) d)"
    by (rule jcs_norm_obj) (simp_all add: core_modules_json_def)
  ultimately show ?thesis
    by (simp add: core_modules_json_def core_identity_def manifest_json_norm contract_json_norm
        tests_json_norm)
qed

lemma identity_projection_norm:
  "jcs_norm (identity_projection c) = jcs_norm (identity_projection d) \<longleftrightarrow> core_identity c = core_identity d"
proof -
  have "jcs_norm (identity_projection c) = jcs_norm (identity_projection d) \<longleftrightarrow>
    jcs_norm (JObj (core_modules_json (manifest_json (cc_control_manifest c)) c)) =
    jcs_norm (JObj (core_modules_json (manifest_json (cc_control_manifest d)) d))"
    unfolding identity_projection_def by (subst jcs_norm_obj) simp_all
  then show ?thesis by (simp only: core_modules_norm)
qed

end
