(* ===== verification/View_Model.thy ===== *)
theory View_Model
  imports Canonical Scope_Match
begin

text \<open>
  The runtime contracts of view compilation (\<^verbatim>\<open>models/view.py\<close>): tasks, budgets, admission and
  ranking results, token accounting, and what a publication is (\<^verbatim>\<open>storage/registry.py\<close>). The
  environment holds the host functions the resolver and the compiler call.
\<close>

datatype ver_order = VLess | VEqual | VGreater

text \<open>\<open>rv_semver\<close> compares two versions the way \<open>semantic_version.Version\<close> does after
  \<open>truncate("prerelease")\<close>.\<close>

record resolve_env =
  rv_values :: value_env
  rv_sha256 :: "bytes \<Rightarrow> bytes"
  rv_dumps :: "json \<Rightarrow> bytes"
  rv_semver :: "pystr \<Rightarrow> pystr \<Rightarrow> ver_order"

definition unique_strings :: "pystr list \<Rightarrow> pystr list" where
  "unique_strings xs = sorted_list_of_set (set xs)"

definition string_set :: "pystr list \<Rightarrow> bool" where
  "string_set xs \<longleftrightarrow> nonempty_strings xs \<and> unique_strings xs = xs"

definition count_valid :: "int \<Rightarrow> bool" where
  "count_valid n \<longleftrightarrow> 0 \<le> n \<and> n \<le> 2 ^ 53 - 1"

definition snapshot_digest :: "resolve_env \<Rightarrow> json \<Rightarrow> pystr" where
  "snapshot_digest E v = ''sha256:'' @ to_hex (rv_sha256 E (rv_dumps E v))"

record view_task =
  tk_task_id :: pystr
  tk_tenant :: pystr
  tk_repository :: pystr
  tk_paths :: "pystr list"
  tk_environment :: pystr
  tk_text :: pystr
  tk_risk :: pystr
  tk_required_interfaces :: "pystr list"
  tk_required_atom_ids :: "pystr list"

definition view_task_valid :: "view_task \<Rightarrow> bool" where
  "view_task_valid t \<longleftrightarrow> tk_task_id t \<noteq> [] \<and> tk_tenant t \<noteq> [] \<and> tk_repository t \<noteq> [] \<and>
     string_set (tk_paths t) \<and> tk_paths t \<noteq> [] \<and>
     (\<forall>p \<in> set (tk_paths t). is_safe_relative_path p None \<and> set p \<inter> set ''*?[]'' = {}) \<and>
     tk_environment t \<noteq> [] \<and> tk_risk t \<in> {''low'', ''medium'', ''high'', ''critical''} \<and>
     string_set (tk_required_interfaces t) \<and> string_set (tk_required_atom_ids t)"

definition view_task_json :: "view_task \<Rightarrow> json" where
  "view_task_json t = JObj
    [(''task_id'', JStr (tk_task_id t)), (''tenant'', JStr (tk_tenant t)),
     (''repository'', JStr (tk_repository t)), (''paths'', json_strings (tk_paths t)),
     (''environment'', JStr (tk_environment t)), (''text'', JStr (tk_text t)),
     (''risk'', JStr (tk_risk t)), (''required_interfaces'', json_strings (tk_required_interfaces t)),
     (''required_atom_ids'', json_strings (tk_required_atom_ids t))]"

record view_budget =
  vb_model_input_tokens :: int
  vb_system_tokens :: int
  vb_conversation_tokens :: int
  vb_tools_tokens :: int
  vb_safety_headroom_tokens :: int

definition budget_available :: "view_budget \<Rightarrow> int" where
  "budget_available b = vb_model_input_tokens b - vb_system_tokens b - vb_conversation_tokens b -
     vb_tools_tokens b - vb_safety_headroom_tokens b"

definition view_budget_valid :: "view_budget \<Rightarrow> bool" where
  "view_budget_valid b \<longleftrightarrow> count_valid (vb_model_input_tokens b) \<and> count_valid (vb_system_tokens b) \<and>
     count_valid (vb_conversation_tokens b) \<and> count_valid (vb_tools_tokens b) \<and>
     count_valid (vb_safety_headroom_tokens b) \<and> 0 \<le> budget_available b"

record published_capsule =
  pc_capsule :: core_capsule
  pc_registry_status :: pystr
  pc_published_at :: pystr

record eligibility =
  el_allowed :: bool
  el_atom_ids :: "pystr list"
  el_blockers :: "pystr list"

definition eligibility_valid :: "eligibility \<Rightarrow> bool" where
  "eligibility_valid e \<longleftrightarrow> string_set (el_atom_ids e) \<and> string_set (el_blockers e) \<and>
     \<not> (\<not> el_allowed e \<and> el_atom_ids e \<noteq> []) \<and> \<not> (el_allowed e \<and> el_blockers e \<noteq> [])"

text \<open>A finite score is the rational it denotes.\<close>

record ranked_atom =
  ra_atom :: core_atom
  ra_score :: rat
  ra_matched :: bool

record provider_witness =
  wt_consumer :: "capsule_ref option"
  wt_requirement :: pystr
  wt_provider :: capsule_ref
  wt_atom_ids :: "pystr list"

definition provider_witness_json :: "provider_witness \<Rightarrow> json" where
  "provider_witness_json w = JObj
    [(''consumer'', json_opt capsule_ref_json (wt_consumer w)), (''requirement'', JStr (wt_requirement w)),
     (''provider'', capsule_ref_json (wt_provider w)), (''atom_ids'', json_strings (wt_atom_ids w))]"

record closure_link =
  lk_source :: pystr
  lk_target :: pystr

record token_accounting =
  ta_total :: int
  ta_available :: int
  ta_sections :: "(pystr \<times> int) list"
  ta_boundary_adjustment :: int

definition token_accounting_valid :: "token_accounting \<Rightarrow> bool" where
  "token_accounting_valid t \<longleftrightarrow> count_valid (ta_total t) \<and> count_valid (ta_available t) \<and>
     (\<forall>(name, n) \<in> set (ta_sections t). name \<noteq> [] \<and> count_valid n) \<and>
     - (2 ^ 53 - 1) \<le> ta_boundary_adjustment t \<and> ta_boundary_adjustment t \<le> 2 ^ 53 - 1 \<and>
     ta_total t = sum_list (map snd (ta_sections t)) + ta_boundary_adjustment t"

definition capsule_ref_of :: "core_capsule \<Rightarrow> capsule_ref" where
  "capsule_ref_of c = \<lparr> cr_capsule_id = cm_capsule_id (cc_control_manifest c),
     cr_version = cm_version (cc_control_manifest c),
     cr_digest = cm_content_digest (cc_control_manifest c) \<rparr>"

lemma unique_strings_set [simp]: "set (unique_strings xs) = set xs"
  and unique_strings_sorted [simp]: "sorted (unique_strings xs)"
  and unique_strings_distinct [simp]: "distinct (unique_strings xs)"
  by (simp_all add: unique_strings_def)

lemma unique_strings_idem [simp]: "unique_strings (unique_strings xs) = unique_strings xs"
  by (simp add: unique_strings_def)

end
