(* ===== verification/Versions.thy ===== *)
theory Versions
  imports View_Model
begin

text \<open>
  Interface names and version constraints (\<^verbatim>\<open>resolve/versions.py\<close>). The two regular expressions
  are written out on the parts they separate; a constraint is a conjunction of comparisons,
  every one of which is checked before any is evaluated.
\<close>

text \<open>\<open>([^\s/]+(?:/[^\s/]+)*)/v(0|[1-9][0-9]*)\<close>: the family, when the whole text matches.\<close>

definition interface_family :: "pystr \<Rightarrow> pystr option" where
  "interface_family value =
    (let parts = py_split (CHR ''/'') value in
     if 2 \<le> length parts \<and> (\<forall>p \<in> set parts. p \<noteq> [] \<and> whitespace_free p) \<and>
        hd (last parts) = CHR ''v'' \<and> numeric_identifier (tl (last parts))
     then Some (py_join ''/'' (butlast parts)) else None)"

definition parse_interface :: "pystr \<Rightarrow> (pystr \<times> pystr) compile_result" where
  "parse_interface value = (case interface_family value of
      None \<Rightarrow> Inl (CompileError ''INTERFACE_INCOMPATIBLE'')
    | Some family \<Rightarrow> Inr (family, value))"

definition numeric_shorthand :: "pystr \<Rightarrow> bool" where
  "numeric_shorthand value \<longleftrightarrow>
     (let parts = py_split (CHR ''.'') value in
      length parts \<le> 2 \<and> (\<forall>p \<in> set parts. numeric_identifier p))"

definition normalized :: "pystr \<Rightarrow> pystr compile_result" where
  "normalized value =
    (let value' = (if numeric_shorthand value
                   then value @ concat (replicate (2 - count_list value (CHR ''.'')) ''.0'') else value)
     in if is_semver value' then Inr value' else Inl (CompileError ''INVALID_VERSION_CONSTRAINT''))"

definition is_blank :: "char \<Rightarrow> bool" where
  "is_blank c \<longleftrightarrow> c = CHR '' '' \<or> c = CHR 0x09"

definition strip_blanks :: "pystr \<Rightarrow> pystr" where
  "strip_blanks s = rev (dropWhile is_blank (rev (dropWhile is_blank s)))"

text \<open>The operator is matched greedily; where the shorter one would also match, the operand that is
  left is not a version, so the same error is raised.\<close>

fun split_operator :: "pystr \<Rightarrow> (pystr \<times> pystr) option" where
  "split_operator (c # d # rest) =
     (if d = CHR ''='' \<and> c \<in> {CHR ''='', CHR ''!'', CHR ''>'', CHR ''<''} then Some ([c, d], rest)
      else if c \<in> {CHR ''>'', CHR ''<''} then Some ([c], d # rest) else None)"
| "split_operator _ = None"

definition constraint_term :: "pystr \<Rightarrow> (pystr \<times> pystr) compile_result" where
  "constraint_term term = (case split_operator (strip_blanks term) of
      None \<Rightarrow> Inl (CompileError ''INVALID_VERSION_CONSTRAINT'')
    | Some (operation, rest) \<Rightarrow>
        (let operand = strip_blanks rest in
         if operand \<noteq> [] \<and> whitespace_free operand
         then res_bind (normalized operand) (\<lambda>value. Inr (operation, value))
         else Inl (CompileError ''INVALID_VERSION_CONSTRAINT'')))"

definition constraint_terms :: "pystr \<Rightarrow> (pystr \<times> pystr) list compile_result" where
  "constraint_terms constraint = res_map constraint_term (py_split (CHR '','') constraint)"

fun comparison :: "pystr \<Rightarrow> ver_order \<Rightarrow> bool" where
  "comparison operation ord =
    (if operation = ''=='' then ord = VEqual
     else if operation = ''!='' then ord \<noteq> VEqual
     else if operation = ''>'' then ord = VGreater
     else if operation = ''>='' then ord \<noteq> VLess
     else if operation = ''<'' then ord = VLess
     else ord \<noteq> VGreater)"

definition satisfies :: "resolve_env \<Rightarrow> pystr \<Rightarrow> pystr \<Rightarrow> bool compile_result" where
  "satisfies E version constraint =
     res_bind (constraint_terms constraint) (\<lambda>terms.
     res_bind (normalized version) (\<lambda>current.
       Inr (\<forall>(operation, value) \<in> set terms. comparison operation (rv_semver E current value))))"

section \<open>Laws\<close>

lemma interface_family_iff:
  "interface_family value = Some family \<longleftrightarrow>
     (\<exists>parts n. value = py_join ''/'' (parts @ [CHR ''v'' # n]) \<and> family = py_join ''/'' parts \<and> parts \<noteq> [] \<and>
        (\<forall>p \<in> set parts. p \<noteq> [] \<and> whitespace_free p \<and> CHR ''/'' \<notin> set p) \<and>
        whitespace_free (CHR ''v'' # n) \<and> CHR ''/'' \<notin> set n \<and> numeric_identifier n)"
  (is "?l \<longleftrightarrow> ?r")
proof
  assume ?l
  let ?ps = "py_split (CHR ''/'') value"
  from \<open>?l\<close> have ps: "2 \<le> length ?ps" "\<forall>p \<in> set ?ps. p \<noteq> [] \<and> whitespace_free p"
    "hd (last ?ps) = CHR ''v''" "numeric_identifier (tl (last ?ps))" "family = py_join ''/'' (butlast ?ps)"
    by (auto simp: interface_family_def Let_def split: if_splits)
  have last: "last ?ps \<in> set ?ps" by simp
  with ps have v: "last ?ps = CHR ''v'' # tl (last ?ps)" by (metis list.collapse)
  have "value = py_join ''/'' (butlast ?ps @ [last ?ps])" by (simp add: py_join_split)
  moreover have "butlast ?ps \<noteq> []" using ps(1) by (cases ?ps) auto
  moreover have "\<forall>p \<in> set (butlast ?ps). p \<noteq> [] \<and> whitespace_free p \<and> CHR ''/'' \<notin> set p"
    using ps(2) in_set_butlastD py_split_no_sep by metis
  moreover have "CHR ''/'' \<notin> set (tl (last ?ps))" using py_split_no_sep [OF last] v by (metis list.set_intros(2))
  ultimately show ?r using ps last v by metis
next
  assume ?r
  then obtain parts n where r: "value = py_join ''/'' (parts @ [CHR ''v'' # n])" "family = py_join ''/'' parts"
    "parts \<noteq> []" "\<forall>p \<in> set parts. p \<noteq> [] \<and> whitespace_free p \<and> CHR ''/'' \<notin> set p"
    "whitespace_free (CHR ''v'' # n)" "CHR ''/'' \<notin> set n" "numeric_identifier n" by blast
  then have "py_split (CHR ''/'') value = parts @ [CHR ''v'' # n]"
    by (simp only: r(1)) (rule py_split_join, auto)
  moreover have "Suc 0 \<le> length parts" using r(3) by (cases parts) auto
  ultimately show ?l using r by (auto simp: interface_family_def Let_def)
qed

lemma res_map_Inl_iff: "(\<exists>e. res_map f xs = Inl e) \<longleftrightarrow> (\<exists>x \<in> set xs. \<exists>e. f x = Inl e)"
  by (induction xs) (auto split: sum.splits)

end
