(* ===== verification/Policies.thy ===== *)
theory Policies
  imports Versions
begin

text \<open>
  The explicit local policies (\<^verbatim>\<open>resolve/policies.py\<close>): static access grants and recorded
  freshness. Both deny by default. A timestamp of a validated record always has an
  instant; where it had none, the comparison that needs it is false.
\<close>

definition sensitivity_within :: "pystr \<Rightarrow> pystr \<Rightarrow> bool" where
  "sensitivity_within value limit \<longleftrightarrow>
     value \<in> set sensitivity_levels \<and> limit \<in> set sensitivity_levels \<and>
     length (takeWhile (\<lambda>l. l \<noteq> value) sensitivity_levels) \<le>
       length (takeWhile (\<lambda>l. l \<noteq> limit) sensitivity_levels)"

definition evidence_by_id :: "core_capsule \<Rightarrow> (pystr \<times> evidence_record) list" where
  "evidence_by_id c = dict_by er_evidence_id (capsule_evidence c)"

definition referenced_evidence :: "core_capsule \<Rightarrow> core_atom option \<Rightarrow> evidence_record list" where
  "referenced_evidence c atom = (case atom of
      None \<Rightarrow> capsule_evidence c
    | Some a \<Rightarrow>
        (if at_evidence_refs a = [] \<or> \<not> set (at_evidence_refs a) \<subseteq> set (dict_keys (evidence_by_id c)) then []
         else map (\<lambda>i. the (map_of (evidence_by_id c) i)) (at_evidence_refs a)))"

section \<open>Access grants\<close>

record access_grant =
  ag_principal_id :: pystr
  ag_tenant :: pystr
  ag_authorities :: "pystr list"
  ag_capsule_ids :: "pystr list"
  ag_access_policies :: "pystr list"
  ag_max_sensitivity :: pystr

definition access_grant_valid :: "access_grant \<Rightarrow> bool" where
  "access_grant_valid g \<longleftrightarrow> ag_principal_id g \<noteq> [] \<and> ag_tenant g \<noteq> [] \<and>
     string_set (ag_authorities g) \<and> string_set (ag_capsule_ids g) \<and> string_set (ag_access_policies g) \<and>
     ag_max_sensitivity g \<in> set sensitivity_levels"

definition access_grant_json :: "access_grant \<Rightarrow> json" where
  "access_grant_json g = JObj
    [(''principal_id'', JStr (ag_principal_id g)), (''tenant'', JStr (ag_tenant g)),
     (''authorities'', json_strings (ag_authorities g)), (''capsule_ids'', json_strings (ag_capsule_ids g)),
     (''access_policies'', json_strings (ag_access_policies g)),
     (''max_sensitivity'', JStr (ag_max_sensitivity g))]"

definition grant_matches ::
  "access_grant \<Rightarrow> core_capsule \<Rightarrow> core_atom option \<Rightarrow> view_task \<Rightarrow> pystr \<Rightarrow> bool" where
  "grant_matches grant capsule atom task caller =
    (let manifest = cc_control_manifest capsule;
         authorities = (case atom of None \<Rightarrow> [cm_authority manifest]
                        | Some a \<Rightarrow> [cm_authority manifest, at_authority a]);
         sensitivities = (case atom of None \<Rightarrow> [cm_sensitivity manifest]
                          | Some a \<Rightarrow> [cm_sensitivity manifest, at_sensitivity a]);
         evidence = referenced_evidence capsule atom
     in ag_principal_id grant = caller \<and>
        ag_tenant grant = tk_tenant task \<and> tk_tenant task = cm_tenant manifest \<and>
        (cm_capsule_id manifest \<in> set (ag_capsule_ids grant) \<or> ''*'' \<in> set (ag_capsule_ids grant)) \<and>
        (\<forall>v \<in> set authorities. v \<in> set (ag_authorities grant) \<or> ''*'' \<in> set (ag_authorities grant)) \<and>
        (\<forall>v \<in> set sensitivities. sensitivity_within v (ag_max_sensitivity grant)) \<and>
        evidence \<noteq> [] \<and>
        (\<forall>r \<in> set evidence. er_access_policy r \<in> set (ag_access_policies grant)))"

text \<open>\<open>StaticEligibilityAuthorizer.__post_init__\<close>: grants are kept once each, in the order of their
  encodings.\<close>

definition canonical_grants :: "resolve_env \<Rightarrow> access_grant list \<Rightarrow> access_grant list" where
  "canonical_grants E grants =
    (let by_wire = dict_by (\<lambda>g. rv_dumps E (access_grant_json g)) grants
     in map (\<lambda>key. the (map_of by_wire key)) (sort (dict_keys by_wire)))"

definition static_authorize ::
  "access_grant list \<Rightarrow> core_capsule \<Rightarrow> core_atom option \<Rightarrow> view_task \<Rightarrow> pystr \<Rightarrow> bool" where
  "static_authorize grants capsule atom task caller \<longleftrightarrow>
     (\<exists>g \<in> set grants. grant_matches g capsule atom task caller)"

definition static_context_digest ::
  "resolve_env \<Rightarrow> pystr \<Rightarrow> access_grant list \<Rightarrow> view_task \<Rightarrow> pystr \<Rightarrow> pystr" where
  "static_context_digest E version grants task caller = snapshot_digest E (JObj
    [(''version'', JStr version), (''grants'', JList (map access_grant_json grants)),
     (''task'', view_task_json task), (''principal_id'', JStr caller)])"

section \<open>Freshness\<close>

record freshness_record =
  fr_capsule :: capsule_ref
  fr_evidence_id :: pystr
  fr_content_digest :: pystr
  fr_checked_at :: pystr
  fr_valid_until :: pystr

abbreviation instant_of :: "resolve_env \<Rightarrow> pystr \<Rightarrow> int option" where
  "instant_of E s \<equiv> ve_instant (rv_values E) s"

definition not_after :: "resolve_env \<Rightarrow> pystr \<Rightarrow> int \<Rightarrow> bool" where
  "not_after E s t = (case instant_of E s of None \<Rightarrow> False | Some i \<Rightarrow> i \<le> t)"

definition not_before :: "resolve_env \<Rightarrow> pystr \<Rightarrow> int \<Rightarrow> bool" where
  "not_before E s t = (case instant_of E s of None \<Rightarrow> False | Some i \<Rightarrow> t \<le> i)"

definition freshness_record_valid :: "resolve_env \<Rightarrow> freshness_record \<Rightarrow> bool" where
  "freshness_record_valid E r \<longleftrightarrow> capsule_ref_valid (fr_capsule r) \<and> fr_evidence_id r \<noteq> [] \<and>
     is_digest (fr_content_digest r) \<and> timestamp_string (rv_values E) (fr_checked_at r) \<and>
     timestamp_string (rv_values E) (fr_valid_until r) \<and>
     (case (instant_of E (fr_checked_at r), instant_of E (fr_valid_until r)) of
        (Some c, Some u) \<Rightarrow> \<not> c > u | _ \<Rightarrow> False)"

definition freshness_record_json :: "freshness_record \<Rightarrow> json" where
  "freshness_record_json r = JObj
    [(''capsule'', capsule_ref_json (fr_capsule r)), (''evidence_id'', JStr (fr_evidence_id r)),
     (''content_digest'', JStr (fr_content_digest r)), (''checked_at'', JStr (fr_checked_at r)),
     (''valid_until'', JStr (fr_valid_until r))]"

definition fresh_record :: "resolve_env \<Rightarrow> freshness_record \<Rightarrow> evidence_record \<Rightarrow> int \<Rightarrow> bool" where
  "fresh_record E record evidence as_of \<longleftrightarrow>
     er_validation evidence = ''verified'' \<and> fr_content_digest record = er_content_digest evidence \<and>
     not_after E (er_captured_at evidence) as_of \<and> not_after E (fr_checked_at record) as_of \<and>
     not_before E (fr_valid_until record) as_of"

text \<open>\<open>RecordedFreshnessChecker.__post_init__\<close>: \<open>None\<close> is the \<open>ValueError\<close> on duplicate keys.\<close>

definition freshness_key :: "freshness_record \<Rightarrow> pystr \<times> pystr" where
  "freshness_key r = (capsule_ref_key (fr_capsule r), fr_evidence_id r)"

definition canonical_freshness :: "freshness_record list \<Rightarrow> freshness_record list option" where
  "canonical_freshness records =
     (if card (freshness_key ` set records) \<noteq> length records then None
      else Some (sort_key freshness_key records))"

text \<open>\<open>None\<close> is the \<open>ValidationError\<close> on a malformed \<open>as_of\<close>.\<close>

definition freshness_check ::
  "resolve_env \<Rightarrow> freshness_record list \<Rightarrow> core_capsule \<Rightarrow> core_atom option \<Rightarrow> pystr \<Rightarrow> bool option" where
  "freshness_check E records capsule atom as_of =
    (if \<not> timestamp_string (rv_values E) as_of then None
     else (case instant_of E as_of of None \<Rightarrow> None | Some instant \<Rightarrow>
       (let evidence = referenced_evidence capsule atom;
            by_id = dict_by fr_evidence_id (filter (\<lambda>r. fr_capsule r = capsule_ref_of capsule) records)
        in Some (evidence \<noteq> [] \<and>
             (\<forall>item \<in> set evidence. case map_of by_id (er_evidence_id item) of
                None \<Rightarrow> False | Some r \<Rightarrow> fresh_record E r item instant)))))"

definition freshness_context_digest :: "resolve_env \<Rightarrow> pystr \<Rightarrow> freshness_record list \<Rightarrow> pystr" where
  "freshness_context_digest E version records = snapshot_digest E (JObj
    [(''version'', JStr version), (''records'', JList (map freshness_record_json records))])"

section \<open>Laws\<close>

lemma evidence_by_id_keys: "set (dict_keys (evidence_by_id c)) = er_evidence_id ` set (capsule_evidence c)"
  unfolding evidence_by_id_def by (rule keys_dict_by)

text \<open>What a policy sees for an atom are records of the capsule, one for each reference.\<close>

lemma referenced_evidence_atom:
  assumes "referenced_evidence c (Some a) \<noteq> []"
  shows "set (referenced_evidence c (Some a)) \<subseteq> set (capsule_evidence c)"
    and "map er_evidence_id (referenced_evidence c (Some a)) = at_evidence_refs a"
proof -
  from assms have refs: "set (at_evidence_refs a) \<subseteq> set (dict_keys (evidence_by_id c))"
    and eq: "referenced_evidence c (Some a) = map (\<lambda>i. the (map_of (evidence_by_id c) i)) (at_evidence_refs a)"
    by (simp_all add: referenced_evidence_def split: if_splits)
  have get: "the (map_of (evidence_by_id c) i) \<in> set (capsule_evidence c)"
    "er_evidence_id (the (map_of (evidence_by_id c) i)) = i" if "i \<in> set (at_evidence_refs a)" for i
  proof -
    from that refs obtain r where r: "map_of (dict_by er_evidence_id (capsule_evidence c)) i = Some r"
      unfolding evidence_by_id_def by (metis (no_types) map_of_eq_None_iff not_Some_eq set_map subsetD)
    from map_of_dict_byD [OF r] r show "the (map_of (evidence_by_id c) i) \<in> set (capsule_evidence c)"
      "er_evidence_id (the (map_of (evidence_by_id c) i)) = i" by (simp_all add: evidence_by_id_def)
  qed
  show "set (referenced_evidence c (Some a)) \<subseteq> set (capsule_evidence c)" using get(1) eq by auto
  show "map er_evidence_id (referenced_evidence c (Some a)) = at_evidence_refs a"
    using get(2) eq by (simp add: map_idI)
qed

lemma canonical_grants_set:
  assumes "inj_on (rv_dumps E \<circ> access_grant_json) (set grants)"
  shows "set (canonical_grants E grants) = set grants"
proof -
  let ?f = "\<lambda>g. rv_dumps E (access_grant_json g)"
  have inj: "inj_on ?f (set grants)" using assms by (simp add: inj_on_def)
  have "set (canonical_grants E grants) = (\<lambda>k. the (map_of (dict_by ?f grants) k)) ` (?f ` set grants)"
    using keys_dict_by [of ?f grants] by (simp add: canonical_grants_def Let_def)
  also have "\<dots> = (\<lambda>g. g) ` set grants"
    unfolding image_image by (rule image_cong [OF refl]) (metis map_of_dict_by_inj [OF inj] option.sel)
  also have "\<dots> = set grants" by simp
  finally show ?thesis .
qed

end
