(* ===== verification/Admission.thy ===== *)
theory Admission
  imports Policies
begin

text \<open>
  Registry-backed admission (\<^verbatim>\<open>resolve/eligibility.py\<close>). A policy question that raises counts as
  no answer (\<open>None\<close>); \<open>_require\<close> lets only a definite \<open>True\<close> pass. The authorizer, the
  freshness checker and the registry are the services the resolver is composed with: in one
  resolution each question is asked once, so they are functions of the question, while the two
  readings of the policy snapshot (number 0 and 1) may differ. Types of arguments hold by
  typing, so the nominal type checks of the source are not repeated.
\<close>

record authorizer =
  au_version :: "nat \<Rightarrow> pystr"
  au_authorize :: "core_capsule \<Rightarrow> core_atom option \<Rightarrow> view_task \<Rightarrow> pystr \<Rightarrow> bool option"
  au_context_digest :: "nat \<Rightarrow> view_task \<Rightarrow> pystr \<Rightarrow> pystr option"

record freshness_checker =
  fc_version :: "nat \<Rightarrow> pystr"
  fc_check :: "core_capsule \<Rightarrow> core_atom option \<Rightarrow> pystr \<Rightarrow> bool option"
  fc_context_digest :: "nat \<Rightarrow> pystr option"

record eligibility_resolver =
  rz_registry :: "pystr \<Rightarrow> pystr \<Rightarrow> pystr \<Rightarrow> published_capsule option"
  rz_authorizer :: authorizer
  rz_freshness :: freshness_checker
  rz_as_of :: pystr
  rz_max_sensitivity :: pystr

definition eligibility_resolver_valid :: "resolve_env \<Rightarrow> eligibility_resolver \<Rightarrow> bool" where
  "eligibility_resolver_valid E R \<longleftrightarrow> timestamp_string (rv_values E) (rz_as_of R) \<and>
     rz_max_sensitivity R \<in> set sensitivity_levels"

record admitted_capsule =
  ad_published :: published_capsule
  ad_atom_ids :: "pystr list"

record admission_result =
  ar_items :: "admitted_capsule list"
  ar_rejected_counts :: "(pystr \<times> nat) list"
  ar_permission_digest :: pystr
  ar_freshness_digest :: pystr

section \<open>Gates\<close>

definition require :: "bool option \<Rightarrow> pystr \<Rightarrow> unit compile_result" where
  "require decision code = (if decision = Some True then Inr () else Inl (CompileError code))"

fun require_all :: "(bool option \<times> pystr) list \<Rightarrow> unit compile_result" where
  "require_all [] = Inr ()"
| "require_all ((decision, code) # rest) = res_bind (require decision code) (\<lambda>_. require_all rest)"

definition decision_of :: "bool compile_result \<Rightarrow> bool option" where
  "decision_of r = (case r of Inl _ \<Rightarrow> None | Inr b \<Rightarrow> Some b)"

fun interfaces :: "pystr list \<Rightarrow> (pystr \<times> pystr list) list \<Rightarrow> (pystr \<times> pystr list) list compile_result" where
  "interfaces [] d = Inr d"
| "interfaces (value # rest) d = (case interface_family value of
      None \<Rightarrow> Inl (CompileError ''INTERFACE_INCOMPATIBLE'')
    | Some family \<Rightarrow> interfaces rest
        (AList.update family (List.insert value (case map_of d family of None \<Rightarrow> [] | Some vs \<Rightarrow> vs)) d))"

definition interface_compatible :: "core_capsule \<Rightarrow> view_task \<Rightarrow> bool compile_result" where
  "interface_compatible capsule task =
     res_bind (interfaces (cm_provides (cc_control_manifest capsule)) []) (\<lambda>provided.
     res_bind (interfaces (tk_required_interfaces task) []) (\<lambda>required.
       Inr (\<forall>(family, versions) \<in> set required. case map_of provided family of
              None \<Rightarrow> True | Some offered \<Rightarrow> set versions \<inter> set offered \<noteq> {})))"

text \<open>\<open>instant.date().isoformat()\<close> of a UTC timestamp is its first ten characters.\<close>

definition valid_at :: "core_atom \<Rightarrow> pystr \<Rightarrow> bool" where
  "valid_at atom as_of \<longleftrightarrow>
     (let today = take 10 as_of in vd_from (at_validity atom) \<le> today \<and>
        (case vd_until (at_validity atom) of None \<Rightarrow> True | Some u \<Rightarrow> today \<le> u))"

fun admitted_paths :: "core_capsule \<Rightarrow> pystr list \<Rightarrow> pystr list compile_result" where
  "admitted_paths capsule [] = Inr []"
| "admitted_paths capsule (path # rest) =
     res_bind (paths_match (sp_paths (cm_scope (cc_control_manifest capsule))) [path]) (\<lambda>b.
     res_bind (admitted_paths capsule rest) (\<lambda>ps. Inr (if b then path # ps else ps)))"

definition atom_scope_within_capsule :: "core_capsule \<Rightarrow> core_atom \<Rightarrow> view_task \<Rightarrow> bool compile_result" where
  "atom_scope_within_capsule capsule atom task =
     res_bind (admitted_paths capsule (tk_paths task)) (\<lambda>paths.
       if paths = [] then Inr False
       else atom_scope_matches (at_scope atom)
         \<lparr> st_repository = tk_repository task, st_paths = paths, st_environment = tk_environment task \<rparr>)"

text \<open>Adding to a \<open>datetime\<close> past the year 9999 raises, as does a \<open>timedelta\<close> of more than
  999999999 days.\<close>

definition max_instant :: int where
  "max_instant = 253402300799999999"

fun within_ttl :: "resolve_env \<Rightarrow> int \<Rightarrow> int \<Rightarrow> evidence_record list \<Rightarrow> bool option" where
  "within_ttl E instant ttl [] = Some True"
| "within_ttl E instant ttl (item # rest) = (case instant_of E (er_captured_at item) of
      None \<Rightarrow> None
    | Some captured \<Rightarrow>
        if \<not> captured \<le> instant then Some False
        else if captured + ttl > max_instant then None
        else if instant \<le> captured + ttl then within_ttl E instant ttl rest
        else Some False)"

definition ttl_valid :: "resolve_env \<Rightarrow> core_capsule \<Rightarrow> core_atom \<Rightarrow> int \<Rightarrow> bool option" where
  "ttl_valid E capsule atom instant =
    (if at_compression_class atom \<noteq> ''P4_TRANSIENT'' then Some True
     else (case find (\<lambda>p. cl_name p = ''P4_TRANSIENT'') (kp_classes (cc_compression_policy capsule)) of
        None \<Rightarrow> None
      | Some policy \<Rightarrow> (case cl_ttl policy of
          None \<Rightarrow> Some True
        | Some text \<Rightarrow>
            (let days = decimal (butlast (tl text)); evidence = referenced_evidence capsule (Some atom) in
             if days > 999999999 then None
             else if evidence = [] then Some False
             else within_ttl E instant (int days * 86400000000) evidence))))"

definition capsule_gates ::
  "eligibility_resolver \<Rightarrow> published_capsule \<Rightarrow> view_task \<Rightarrow> pystr \<Rightarrow> unit compile_result" where
  "capsule_gates R published task caller =
    (let capsule = pc_capsule published; manifest = cc_control_manifest capsule in
     require_all
      [(Some (pc_registry_status published = ''PUBLISHED'' \<and> cm_lifecycle manifest = ''PUBLISHED''),
          ''LIFECYCLE_DENIED''),
       (Some (cm_tenant manifest = tk_tenant task), ''TENANT_DENIED''),
       (au_authorize (rz_authorizer R) capsule None task caller, ''AUTHORIZATION_DENIED''),
       (Some (sensitivity_within (cm_sensitivity manifest) (rz_max_sensitivity R)), ''SENSITIVITY_DENIED''),
       (Some (tk_repository task \<in> set (sp_repositories (cm_scope manifest))), ''REPOSITORY_DENIED''),
       (decision_of (paths_match (sp_paths (cm_scope manifest)) (tk_paths task)), ''PATH_DENIED''),
       (Some (tk_environment task \<in> set (sp_environments (cm_scope manifest))), ''ENVIRONMENT_DENIED''),
       (fc_check (rz_freshness R) capsule None (rz_as_of R), ''FRESHNESS_DENIED''),
       (decision_of (interface_compatible capsule task), ''INTERFACE_INCOMPATIBLE'')])"

definition atom_gates ::
  "resolve_env \<Rightarrow> eligibility_resolver \<Rightarrow> core_capsule \<Rightarrow> core_atom \<Rightarrow> view_task \<Rightarrow> pystr \<Rightarrow> unit compile_result" where
  "atom_gates E R capsule atom task caller =
    (let instant = the (instant_of E (rz_as_of R)) in
     require_all
      [(Some (at_status atom = ''validated''), ''ATOM_STATUS_DENIED''),
       (au_authorize (rz_authorizer R) capsule (Some atom) task caller, ''AUTHORIZATION_DENIED''),
       (Some (sensitivity_within (at_sensitivity atom) (rz_max_sensitivity R)), ''SENSITIVITY_DENIED''),
       (decision_of (atom_scope_within_capsule capsule atom task), ''ATOM_SCOPE_DENIED''),
       (Some (valid_at atom (rz_as_of R)), ''VALIDITY_DENIED''),
       (Some (at_refresh_policy atom \<in> {''on-source-change'', ''immutable''}), ''REFRESH_POLICY_DENIED''),
       (fc_check (rz_freshness R) capsule (Some atom) (rz_as_of R), ''FRESHNESS_DENIED''),
       (ttl_valid E capsule atom instant, ''TTL_EXPIRED'')])"

section \<open>Resolution\<close>

text \<open>One reading of the two policy snapshots; any fault of a provider denies.\<close>

definition policy_snapshot ::
  "resolve_env \<Rightarrow> eligibility_resolver \<Rightarrow> nat \<Rightarrow> view_task \<Rightarrow> pystr \<Rightarrow> (pystr \<times> pystr) compile_result" where
  "policy_snapshot E R i task caller =
    (let permission_version = au_version (rz_authorizer R) i; freshness_version = fc_version (rz_freshness R) i in
     case (au_context_digest (rz_authorizer R) i task caller, fc_context_digest (rz_freshness R) i) of
       (Some permission, Some freshness) \<Rightarrow>
         if is_semver permission_version \<and> is_semver freshness_version \<and> is_digest permission \<and> is_digest freshness
         then Inr
           (snapshot_digest E (JObj
              [(''authorizer'', JStr permission), (''version'', JStr permission_version),
               (''as_of'', JStr (rz_as_of R)), (''max_sensitivity'', JStr (rz_max_sensitivity R)),
               (''task'', view_task_json task), (''principal_id'', JStr caller)]),
            snapshot_digest E (JObj
              [(''freshness'', JStr freshness), (''version'', JStr freshness_version),
               (''as_of'', JStr (rz_as_of R))]))
         else Inl (CompileError ''INVALID_POLICY_SNAPSHOT'')
     | _ \<Rightarrow> Inl (CompileError ''INVALID_POLICY_SNAPSHOT''))"

abbreviation publication_digest :: "resolve_env \<Rightarrow> core_capsule \<Rightarrow> pystr option" where
  "publication_digest E c \<equiv> loader_publication_digest (rv_sha256 E) (rv_dumps E) c"

definition verified ::
  "resolve_env \<Rightarrow> eligibility_resolver \<Rightarrow> core_capsule \<Rightarrow> pystr \<Rightarrow> published_capsule compile_result" where
  "verified E R capsule caller =
    (let manifest = cc_control_manifest capsule in
     case rz_registry R (cm_capsule_id manifest) (cm_version manifest) caller of
       None \<Rightarrow> Inl (CompileError ''REGISTRY_INTEGRITY'')
     | Some published \<Rightarrow>
         (case (publication_digest E capsule, publication_digest E (pc_capsule published)) of
            (Some d, Some d') \<Rightarrow> if d \<noteq> d' then Inl (CompileError ''REGISTRY_INTEGRITY'') else Inr published
          | _ \<Rightarrow> Inl (CompileError ''REGISTRY_INTEGRITY'')))"

type_synonym counts = "(pystr \<times> nat) list"

definition count_more :: "pystr \<Rightarrow> nat \<Rightarrow> counts \<Rightarrow> counts" where
  "count_more code n counts = AList.update code ((case map_of counts code of None \<Rightarrow> 0 | Some m \<Rightarrow> m) + n) counts"

fun select_atoms ::
  "(core_atom \<Rightarrow> unit compile_result) \<Rightarrow> core_atom list \<Rightarrow> counts \<Rightarrow> pystr list \<times> counts" where
  "select_atoms gates [] counts = ([], counts)"
| "select_atoms gates (atom # rest) counts = (case gates atom of
      Inr _ \<Rightarrow> (case select_atoms gates rest counts of (ids, cs) \<Rightarrow> (at_atom_id atom # ids, cs))
    | Inl e \<Rightarrow> select_atoms gates rest (count_more (ce_code e) 1 counts))"

definition admit ::
  "resolve_env \<Rightarrow> eligibility_resolver \<Rightarrow> core_capsule \<Rightarrow> view_task \<Rightarrow> pystr \<Rightarrow> counts \<Rightarrow>
   (admitted_capsule \<times> counts) compile_result" where
  "admit E R capsule task caller counts =
     res_bind (verified E R capsule caller) (\<lambda>published.
     res_bind (capsule_gates R published task caller) (\<lambda>_.
       (case select_atoms (\<lambda>atom. atom_gates E R (pc_capsule published) atom task caller)
               (capsule_atoms (pc_capsule published)) counts of
          (selected, counts') \<Rightarrow>
            Inr (\<lparr> ad_published = published, ad_atom_ids = unique_strings selected \<rparr>, counts'))))"

definition eligible ::
  "resolve_env \<Rightarrow> eligibility_resolver \<Rightarrow> core_capsule \<Rightarrow> view_task \<Rightarrow> pystr \<Rightarrow> eligibility" where
  "eligible E R capsule task caller =
    (case res_bind (policy_snapshot E R 0 task caller) (\<lambda>before.
          res_bind (admit E R capsule task caller []) (\<lambda>(admitted, _).
          res_bind (policy_snapshot E R 1 task caller) (\<lambda>after.
            if before \<noteq> after then Inl (CompileError ''POLICY_SNAPSHOT_CHANGED'') else Inr admitted))) of
       Inr admitted \<Rightarrow> \<lparr> el_allowed = True, el_atom_ids = ad_atom_ids admitted, el_blockers = [] \<rparr>
     | Inl e \<Rightarrow> \<lparr> el_allowed = False, el_atom_ids = [], el_blockers = [ce_code e] \<rparr>)"

definition publication_key :: "published_capsule \<Rightarrow> (pystr \<times> pystr) option" where
  "publication_key p =
    (let manifest = cc_control_manifest (pc_capsule p) in
     if cm_capsule_id manifest \<noteq> [] \<and> cm_version manifest \<noteq> []
     then Some (cm_capsule_id manifest, cm_version manifest) else None)"

fun group_publications ::
  "published_capsule list \<Rightarrow> ((pystr \<times> pystr) \<times> published_capsule list) list \<times> counts \<Rightarrow>
   ((pystr \<times> pystr) \<times> published_capsule list) list \<times> counts" where
  "group_publications [] st = st"
| "group_publications (p # rest) (groups, counts) = (case publication_key p of
      None \<Rightarrow> group_publications rest (groups, count_more ''REGISTRY_INTEGRITY'' 1 counts)
    | Some key \<Rightarrow> group_publications rest
        (AList.update key ((case map_of groups key of None \<Rightarrow> [] | Some ps \<Rightarrow> ps) @ [p]) groups, counts))"

definition publication_identity :: "resolve_env \<Rightarrow> published_capsule \<Rightarrow> (pystr \<times> pystr) option" where
  "publication_identity E p = map_option (\<lambda>d. (d, pc_registry_status p)) (publication_digest E (pc_capsule p))"

definition group_consistent :: "resolve_env \<Rightarrow> published_capsule list \<Rightarrow> bool" where
  "group_consistent E ps \<longleftrightarrow> None \<notin> publication_identity E ` set ps \<and>
     card (publication_identity E ` set ps) = 1"

fun pick_groups ::
  "resolve_env \<Rightarrow> published_capsule list list \<Rightarrow> counts \<Rightarrow> published_capsule list \<times> counts" where
  "pick_groups E [] counts = ([], counts)"
| "pick_groups E (ps # rest) counts =
    (if group_consistent E ps
     then (case pick_groups E rest counts of (selected, cs) \<Rightarrow> (hd ps # selected, cs))
     else pick_groups E rest (count_more ''CONFLICTING_PUBLICATION'' (length ps) counts))"

definition unique_publications ::
  "resolve_env \<Rightarrow> published_capsule list \<Rightarrow> counts \<Rightarrow> published_capsule list \<times> counts" where
  "unique_publications E capsules counts =
    (case group_publications capsules ([], counts) of (groups, counts') \<Rightarrow>
       pick_groups E (map (\<lambda>key. the (map_of groups key)) (sort (dict_keys groups))) counts')"

fun admit_all ::
  "resolve_env \<Rightarrow> eligibility_resolver \<Rightarrow> view_task \<Rightarrow> pystr \<Rightarrow> published_capsule list \<Rightarrow> counts \<Rightarrow>
   admitted_capsule list \<times> counts" where
  "admit_all E R task caller [] counts = ([], counts)"
| "admit_all E R task caller (p # rest) counts =
    (case (if pc_registry_status p \<noteq> ''PUBLISHED'' then Inl (CompileError ''LIFECYCLE_DENIED'')
           else admit E R (pc_capsule p) task caller counts) of
       Inl e \<Rightarrow> admit_all E R task caller rest (count_more (ce_code e) 1 counts)
     | Inr (item, counts') \<Rightarrow>
         (case admit_all E R task caller rest counts' of (items, cs) \<Rightarrow> (item # items, cs)))"

definition resolve ::
  "resolve_env \<Rightarrow> eligibility_resolver \<Rightarrow> published_capsule list \<Rightarrow> view_task \<Rightarrow> pystr \<Rightarrow>
   admission_result compile_result" where
  "resolve E R capsules task caller =
     res_bind (policy_snapshot E R 0 task caller) (\<lambda>before.
       (case unique_publications E capsules [] of (publications, counts) \<Rightarrow>
        case admit_all E R task caller publications counts of (items, counts') \<Rightarrow>
          res_bind (policy_snapshot E R 1 task caller) (\<lambda>after.
            if before \<noteq> after then Inl (CompileError ''POLICY_SNAPSHOT_CHANGED'')
            else Inr \<lparr> ar_items = items, ar_rejected_counts = sort_key fst counts',
                       ar_permission_digest = fst before, ar_freshness_digest = snd before \<rparr>)))"

end
