(* ===== verification/Admission_Laws.thy ===== *)
theory Admission_Laws
  imports Admission
begin

text \<open>
  What admission decides, without the loops: the declarative conditions on a capsule, an atom
  and a publication, and the lemmas that connect them with the code.
\<close>

section \<open>The conditions\<close>

definition capsule_admissible :: "eligibility_resolver \<Rightarrow> published_capsule \<Rightarrow> view_task \<Rightarrow> pystr \<Rightarrow> bool" where
  "capsule_admissible R published task caller \<longleftrightarrow>
    (let capsule = pc_capsule published; manifest = cc_control_manifest capsule in
     pc_registry_status published = ''PUBLISHED'' \<and> cm_lifecycle manifest = ''PUBLISHED'' \<and>
     cm_tenant manifest = tk_tenant task \<and>
     au_authorize (rz_authorizer R) capsule None task caller = Some True \<and>
     sensitivity_within (cm_sensitivity manifest) (rz_max_sensitivity R) \<and>
     tk_repository task \<in> set (sp_repositories (cm_scope manifest)) \<and>
     paths_match (sp_paths (cm_scope manifest)) (tk_paths task) = Inr True \<and>
     tk_environment task \<in> set (sp_environments (cm_scope manifest)) \<and>
     fc_check (rz_freshness R) capsule None (rz_as_of R) = Some True \<and>
     interface_compatible capsule task = Inr True)"

definition atom_admissible ::
  "resolve_env \<Rightarrow> eligibility_resolver \<Rightarrow> core_capsule \<Rightarrow> view_task \<Rightarrow> pystr \<Rightarrow> core_atom \<Rightarrow> bool" where
  "atom_admissible E R capsule task caller atom \<longleftrightarrow>
     at_status atom = ''validated'' \<and>
     au_authorize (rz_authorizer R) capsule (Some atom) task caller = Some True \<and>
     sensitivity_within (at_sensitivity atom) (rz_max_sensitivity R) \<and>
     atom_scope_within_capsule capsule atom task = Inr True \<and>
     valid_at atom (rz_as_of R) \<and>
     at_refresh_policy atom \<in> {''on-source-change'', ''immutable''} \<and>
     fc_check (rz_freshness R) capsule (Some atom) (rz_as_of R) = Some True \<and>
     ttl_valid E capsule atom (the (instant_of E (rz_as_of R))) = Some True"

text \<open>A supplied publication stands for its identity when all supplied publications of the same
  capsule and version agree on the publication digest and the status.\<close>

definition uncontested :: "resolve_env \<Rightarrow> published_capsule list \<Rightarrow> published_capsule \<Rightarrow> bool" where
  "uncontested E capsules p \<longleftrightarrow> publication_key p \<noteq> None \<and> publication_identity E p \<noteq> None \<and>
     (\<forall>q \<in> set capsules. publication_key q = publication_key p \<longrightarrow>
        publication_identity E q = publication_identity E p)"

definition admissible_publication ::
  "resolve_env \<Rightarrow> eligibility_resolver \<Rightarrow> published_capsule list \<Rightarrow> view_task \<Rightarrow> pystr \<Rightarrow>
   published_capsule \<Rightarrow> published_capsule \<Rightarrow> bool" where
  "admissible_publication E R capsules task caller p published \<longleftrightarrow>
     p \<in> set capsules \<and> uncontested E capsules p \<and> pc_registry_status p = ''PUBLISHED'' \<and>
     rz_registry R (cm_capsule_id (cc_control_manifest (pc_capsule p)))
       (cm_version (cc_control_manifest (pc_capsule p))) caller = Some published \<and>
     publication_digest E (pc_capsule published) = publication_digest E (pc_capsule p) \<and>
     capsule_admissible R published task caller"

definition admitted_item ::
  "resolve_env \<Rightarrow> eligibility_resolver \<Rightarrow> view_task \<Rightarrow> pystr \<Rightarrow> published_capsule \<Rightarrow> admitted_capsule" where
  "admitted_item E R task caller published =
     \<lparr> ad_published = published,
       ad_atom_ids = unique_strings (map at_atom_id
         (filter (atom_admissible E R (pc_capsule published) task caller) (capsule_atoms (pc_capsule published)))) \<rparr>"

section \<open>The gates decide the conditions\<close>

lemma require_Inr [simp]: "require d code = Inr () \<longleftrightarrow> d = Some True"
  by (simp add: require_def)

lemma require_all_Inr: "require_all gates = Inr () \<longleftrightarrow> (\<forall>g \<in> set gates. fst g = Some True)"
  by (induction gates rule: require_all.induct) (auto simp: result_simps)

lemma decision_of_True: "decision_of r = Some True \<longleftrightarrow> r = Inr True"
  by (auto simp: decision_of_def split: sum.splits)

lemma capsule_gates_iff: "capsule_gates R published task caller = Inr () \<longleftrightarrow> capsule_admissible R published task caller"
  by (simp add: capsule_gates_def capsule_admissible_def Let_def require_all_Inr decision_of_True del: require_all.simps)

lemma atom_gates_iff: "atom_gates E R capsule atom task caller = Inr () \<longleftrightarrow> atom_admissible E R capsule task caller atom"
  by (simp add: atom_gates_def atom_admissible_def Let_def require_all_Inr decision_of_True del: require_all.simps)

section \<open>The loops\<close>

lemma select_atoms_fst: "fst (select_atoms gates atoms counts) = map at_atom_id (filter (\<lambda>a. gates a = Inr ()) atoms)"
  by (induction gates atoms counts rule: select_atoms.induct) (auto split: sum.splits prod.splits)

lemma verified_Inr:
  "verified E R capsule caller = Inr published \<longleftrightarrow>
     rz_registry R (cm_capsule_id (cc_control_manifest capsule)) (cm_version (cc_control_manifest capsule)) caller =
       Some published \<and> publication_digest E capsule \<noteq> None \<and>
     publication_digest E (pc_capsule published) = publication_digest E capsule"
  by (auto simp: verified_def Let_def split: option.splits)

lemma admit_Inr:
  "(\<exists>cs. admit E R capsule task caller counts = Inr (item, cs)) \<longleftrightarrow>
     (\<exists>published. verified E R capsule caller = Inr published \<and> capsule_admissible R published task caller \<and>
        item = admitted_item E R task caller published)"
  by (auto simp: admit_def result_simps capsule_gates_iff admitted_item_def prod.case_eq_if
      select_atoms_fst atom_gates_iff)

lemma admit_all_set:
  "item \<in> set (fst (admit_all E R task caller ps counts)) \<longleftrightarrow>
     (\<exists>p \<in> set ps. pc_registry_status p = ''PUBLISHED'' \<and>
        (\<exists>published. verified E R (pc_capsule p) caller = Inr published \<and>
           capsule_admissible R published task caller \<and> item = admitted_item E R task caller published))"
proof (induction E R task caller ps counts rule: admit_all.induct)
  case (2 E R task caller p rest counts)
  show ?case
  proof (cases "pc_registry_status p = ''PUBLISHED''")
    case pub: True
    show ?thesis
    proof (cases "admit E R (pc_capsule p) task caller counts")
      case (Inl e)
      then have none: "\<nexists>published. verified E R (pc_capsule p) caller = Inr published \<and>
          capsule_admissible R published task caller \<and> item = admitted_item E R task caller published"
        using admit_Inr [of E R "pc_capsule p" task caller counts item] by simp
      have "item \<in> set (fst (admit_all E R task caller (p # rest) counts)) \<longleftrightarrow>
          item \<in> set (fst (admit_all E R task caller rest (count_more (ce_code e) 1 counts)))"
        using pub Inl by simp
      also have "\<dots> \<longleftrightarrow> (\<exists>p \<in> set rest. pc_registry_status p = ''PUBLISHED'' \<and>
        (\<exists>published. verified E R (pc_capsule p) caller = Inr published \<and>
           capsule_admissible R published task caller \<and> item = admitted_item E R task caller published))"
        by (rule 2(1)) (use pub Inl in simp_all)
      finally show ?thesis using none by auto
    next
      case (Inr r)
      obtain it cs where r: "r = (it, cs)" by (cases r)
      have head: "item = it \<longleftrightarrow> (\<exists>published. verified E R (pc_capsule p) caller = Inr published \<and>
          capsule_admissible R published task caller \<and> item = admitted_item E R task caller published)"
        using admit_Inr [of E R "pc_capsule p" task caller counts item] Inr r by auto
      have "item \<in> set (fst (admit_all E R task caller (p # rest) counts)) \<longleftrightarrow>
          item = it \<or> item \<in> set (fst (admit_all E R task caller rest cs))"
        using pub Inr r by (auto split: prod.splits)
      also have "item \<in> set (fst (admit_all E R task caller rest cs)) \<longleftrightarrow>
        (\<exists>p \<in> set rest. pc_registry_status p = ''PUBLISHED'' \<and>
        (\<exists>published. verified E R (pc_capsule p) caller = Inr published \<and>
           capsule_admissible R published task caller \<and> item = admitted_item E R task caller published))"
        by (rule 2(2)) (use pub Inr r in simp_all)
      finally show ?thesis using head pub by auto
    qed
  next
    case False
    have "item \<in> set (fst (admit_all E R task caller rest (count_more ''LIFECYCLE_DENIED'' 1 counts))) \<longleftrightarrow>
      (\<exists>p \<in> set rest. pc_registry_status p = ''PUBLISHED'' \<and>
        (\<exists>published. verified E R (pc_capsule p) caller = Inr published \<and>
           capsule_admissible R published task caller \<and> item = admitted_item E R task caller published))"
      using 2(1) [of "CompileError ''LIFECYCLE_DENIED''"] False by simp
    with False show ?thesis by auto
  qed
qed simp

section \<open>Grouping\<close>

lemma group_publications_get:
  "map_of (fst (group_publications ps (groups, counts))) key =
    (case map_of groups key of
       Some l \<Rightarrow> Some (l @ filter (\<lambda>p. publication_key p = Some key) ps)
     | None \<Rightarrow> (if filter (\<lambda>p. publication_key p = Some key) ps = [] then None
               else Some (filter (\<lambda>p. publication_key p = Some key) ps)))"
proof (induction ps "(groups, counts)" arbitrary: groups counts rule: group_publications.induct)
  case (2 p rest groups counts)
  show ?case
  proof (cases "publication_key p")
    case None
    then show ?thesis using 2(1) by (simp split: option.splits)
  next
    case (Some k)
    then show ?thesis using 2(2) [OF Some] by (auto simp: update_conv' split: option.splits)
  qed
qed (simp split: option.splits)

lemma pick_groups_fst: "fst (pick_groups E gs counts) = map hd (filter (group_consistent E) gs)"
  by (induction E gs counts rule: pick_groups.induct) (auto split: prod.splits)

lemma group_consistent_iff:
  "ps \<noteq> [] \<Longrightarrow> group_consistent E ps \<longleftrightarrow>
     publication_identity E (hd ps) \<noteq> None \<and> (\<forall>q \<in> set ps. publication_identity E q = publication_identity E (hd ps))"
proof -
  assume ne: "ps \<noteq> []"
  then have hd: "hd ps \<in> set ps" by simp
  have "card (publication_identity E ` set ps) = 1 \<longleftrightarrow>
      (\<forall>q \<in> set ps. publication_identity E q = publication_identity E (hd ps))"
  proof
    assume "card (publication_identity E ` set ps) = 1"
    then obtain x where "publication_identity E ` set ps = {x}" by (auto simp: card_1_singleton_iff)
    then have "publication_identity E q = x" if "q \<in> set ps" for q using that by blast
    with hd show "\<forall>q \<in> set ps. publication_identity E q = publication_identity E (hd ps)" by simp
  next
    assume "\<forall>q \<in> set ps. publication_identity E q = publication_identity E (hd ps)"
    then have "publication_identity E ` set ps = (\<lambda>_. publication_identity E (hd ps)) ` set ps"
      by (intro image_cong) simp_all
    also have "\<dots> = {publication_identity E (hd ps)}" using ne by (simp add: image_constant_conv)
    finally have "publication_identity E ` set ps = {publication_identity E (hd ps)}" .
    then show "card (publication_identity E ` set ps) = 1" by simp
  qed
  moreover have "None \<in> publication_identity E ` set ps \<longleftrightarrow> publication_identity E (hd ps) = None"
    if "\<forall>q \<in> set ps. publication_identity E q = publication_identity E (hd ps)"
    using that hd by (metis imageE image_eqI)
  ultimately show ?thesis by (auto simp: group_consistent_def)
qed

lemma unique_publications_set:
  "p \<in> set (fst (unique_publications E capsules counts)) \<longleftrightarrow>
     (\<exists>key. filter (\<lambda>q. publication_key q = Some key) capsules \<noteq> [] \<and>
        p = hd (filter (\<lambda>q. publication_key q = Some key) capsules) \<and>
        group_consistent E (filter (\<lambda>q. publication_key q = Some key) capsules))"
proof -
  obtain groups counts' where g: "group_publications capsules ([], counts) = (groups, counts')"
    by (cases "group_publications capsules ([], counts)")
  have get: "map_of groups key = (if filter (\<lambda>p. publication_key p = Some key) capsules = [] then None
      else Some (filter (\<lambda>p. publication_key p = Some key) capsules))" for key
    using group_publications_get [of capsules "[]" counts key] g by simp
  have keys: "key \<in> set (dict_keys groups) \<longleftrightarrow> filter (\<lambda>p. publication_key p = Some key) capsules \<noteq> []" for key
    using get [of key] by (metis (no_types) map_of_eq_None_iff option.distinct(1) set_map)
  have "p \<in> set (fst (unique_publications E capsules counts)) \<longleftrightarrow>
      (\<exists>key \<in> set (dict_keys groups). p = hd (the (map_of groups key)) \<and> group_consistent E (the (map_of groups key)))"
    by (simp only: unique_publications_def g prod.case pick_groups_fst set_map set_filter set_sort) blast
  then show ?thesis using get keys by (metis option.sel)
qed

text \<open>Whichever member of an uncontested group stands for it, the registry is asked for the same
  capsule and the comparison is with the same digest.\<close>

lemma resolve_items:
  assumes "resolve E R capsules task caller = Inr result"
  shows "item \<in> set (ar_items result) \<longleftrightarrow>
    (\<exists>p published. admissible_publication E R capsules task caller p published \<and>
       item = admitted_item E R task caller published)"
proof -
  let ?ps = "fst (unique_publications E capsules [])"
  from assms obtain counts where "ar_items result = fst (admit_all E R task caller ?ps counts)"
    by (auto simp: resolve_def result_simps prod.case_eq_if split: if_splits)
  then have items: "item \<in> set (ar_items result) \<longleftrightarrow>
     (\<exists>p \<in> set ?ps. pc_registry_status p = ''PUBLISHED'' \<and>
        (\<exists>published. verified E R (pc_capsule p) caller = Inr published \<and>
           capsule_admissible R published task caller \<and> item = admitted_item E R task caller published))"
    by (simp only: admit_all_set)
  let ?group = "\<lambda>key. filter (\<lambda>q. publication_key q = Some key) capsules"
  have ident: "publication_identity E p = publication_identity E q \<Longrightarrow> publication_identity E p \<noteq> None \<Longrightarrow>
      pc_registry_status p = pc_registry_status q \<and>
      publication_digest E (pc_capsule p) = publication_digest E (pc_capsule q) \<and>
      publication_digest E (pc_capsule p) \<noteq> None" for p q
    by (auto simp: publication_identity_def)
  show ?thesis
  proof
    assume "item \<in> set (ar_items result)"
    then obtain p published where p: "p \<in> set ?ps" "pc_registry_status p = ''PUBLISHED''"
      "verified E R (pc_capsule p) caller = Inr published" "capsule_admissible R published task caller"
      "item = admitted_item E R task caller published" by (auto simp: items)
    from p(1) obtain key where key: "?group key \<noteq> []" "p = hd (?group key)" "group_consistent E (?group key)"
      by (auto simp: unique_publications_set)
    then have "p \<in> set (?group key)" by (simp del: set_filter)
    then have "p \<in> set capsules" "publication_key p = Some key" by auto
    moreover have "publication_identity E p \<noteq> None \<and>
        (\<forall>q \<in> set (?group key). publication_identity E q = publication_identity E p)"
      using key(3) unfolding group_consistent_iff [OF key(1)] key(2) [symmetric] .
    ultimately have "p \<in> set capsules" "uncontested E capsules p"
      unfolding uncontested_def set_filter by (fast, metis (mono_tags, lifting) mem_Collect_eq option.distinct(1))
    then have "admissible_publication E R capsules task caller p published"
      using p by (simp add: admissible_publication_def verified_Inr)
    with p(5) show "\<exists>p published. admissible_publication E R capsules task caller p published \<and>
       item = admitted_item E R task caller published" by blast
  next
    assume "\<exists>p published. admissible_publication E R capsules task caller p published \<and>
       item = admitted_item E R task caller published"
    then obtain p published where p: "p \<in> set capsules" "uncontested E capsules p"
      "pc_registry_status p = ''PUBLISHED''"
      "rz_registry R (cm_capsule_id (cc_control_manifest (pc_capsule p)))
         (cm_version (cc_control_manifest (pc_capsule p))) caller = Some published"
      "publication_digest E (pc_capsule published) = publication_digest E (pc_capsule p)"
      "capsule_admissible R published task caller" "item = admitted_item E R task caller published"
      by (auto simp: admissible_publication_def)
    from p(2) obtain key where key: "publication_key p = Some key" by (auto simp: uncontested_def)
    have ne: "?group key \<noteq> []" using p(1) key by (auto simp: filter_empty_conv)
    define q where "q = hd (?group key)"
    have "q \<in> set (?group key)" using ne by (simp add: q_def del: set_filter)
    then have q: "q \<in> set capsules" "publication_key q = Some key" by auto
    have same: "publication_identity E r = publication_identity E p" if "r \<in> set (?group key)" for r
      using p(2) that key by (auto simp: uncontested_def)
    have some: "publication_identity E p \<noteq> None" using p(2) by (simp add: uncontested_def)
    note qp = ident [OF same [OF \<open>q \<in> set (?group key)\<close>]]
    have "group_consistent E (?group key)"
      using same some \<open>q \<in> set (?group key)\<close> by (simp only: group_consistent_iff [OF ne] q_def [symmetric]) metis
    then have "q \<in> set ?ps" using ne q_def unfolding unique_publications_set by blast
    moreover have "cm_capsule_id (cc_control_manifest (pc_capsule q)) = cm_capsule_id (cc_control_manifest (pc_capsule p)) \<and>
        cm_version (cc_control_manifest (pc_capsule q)) = cm_version (cc_control_manifest (pc_capsule p))"
      using q(2) key by (auto simp: publication_key_def Let_def split: if_splits)
    ultimately show "item \<in> set (ar_items result)"
      using p qp some same [OF \<open>q \<in> set (?group key)\<close>] unfolding items verified_Inr by metis
  qed
qed

end
