(* ===== verification/Capsule_Sample.thy ===== *)
theory Capsule_Sample
  imports Canonical
begin

text \<open>
  A small published capsule: two atoms that share one verified evidence record, the second
  one requiring the first. It shows that the hypotheses of the properties can hold.
\<close>

definition sample_instant :: "pystr \<Rightarrow> int option" where
  "sample_instant s = (if s = ''2024-01-01T00:00:00Z'' then Some 0
     else if s = ''2024-06-01T00:00:00Z'' then Some 100
     else if s = ''2024-12-31T00:00:00Z'' then Some 200 else None)"

definition sample_values :: value_env where
  "sample_values = \<lparr> ve_https = (\<lambda>s. startswith s ''https://''), ve_instant = sample_instant \<rparr>"

definition text_digest :: "char \<Rightarrow> pystr" where
  "text_digest c = ''sha256:'' @ replicate 64 c"

definition sample_atom :: "pystr \<Rightarrow> pystr \<Rightarrow> pystr list \<Rightarrow> core_atom" where
  "sample_atom i cls reqs = \<lparr> at_atom_id = i, at_kind = ''fact'', at_statement = ''statement of '' @ i,
     at_modality = ''MUST'', at_scope = [''repository:repo''], at_exceptions = [],
     at_validity = \<lparr> vd_from = ''2024-01-01'', vd_until = None \<rparr>, at_authority = ''team'',
     at_status = ''validated'', at_confidence = 1, at_evidence_refs = [''e1''],
     at_requires_atoms = reqs, at_conflicts_with = [], at_sensitivity = ''internal'',
     at_compression_class = cls, at_refresh_policy = ''immutable'', at_extensions = [] \<rparr>"

definition sample_manifest :: "pystr \<Rightarrow> control_manifest" where
  "sample_manifest i = \<lparr> cm_spec_version = ''CCS-2.1'', cm_canonical_profile = ''CCS-2.1-canonical-v1'',
     cm_capsule_id = i, cm_version = ''1.0.0'', cm_content_digest = text_digest (CHR ''a''),
     cm_owner = ''team'', cm_tenant = ''acme'',
     cm_scope = \<lparr> sp_repositories = [''repo''], sp_paths = [''lib''], sp_environments = [''ci''] \<rparr>,
     cm_authority = ''team'', cm_sensitivity = ''internal'', cm_provides = [''api/v1''], cm_requires = [],
     cm_conflicts = [], cm_lifecycle = ''PUBLISHED'', cm_created_from = [],
     cm_integrity = \<lparr> ir_lock = ''integrity/capsule.lock'',
       ir_signature = Some ''integrity/signature.json'' \<rparr>, cm_extensions = [] \<rparr>"

definition sample_evidence :: evidence_record where
  "sample_evidence = \<lparr> er_evidence_id = ''e1'', er_atom_ids = [''a0'', ''a1''],
     er_content_digest = text_digest (CHR ''b''), er_media_type = ''text/plain'',
     er_captured_at = ''2024-01-01T00:00:00Z'', er_retention = ''keep'', er_access_policy = ''team-read'',
     er_validation = ''verified'', er_mode = CAS, er_extensions = [] \<rparr>"

definition sample_class :: "pystr \<Rightarrow> pystr \<Rightarrow> pystr \<Rightarrow> class_policy" where
  "sample_class n r l = \<lparr> cl_name = n, cl_rendering = r, cl_lossy_compression = l,
     cl_expansion_triggers = [], cl_ttl = None \<rparr>"

definition sample_capsule :: core_capsule where
  "sample_capsule = \<lparr>
     cc_control_manifest = sample_manifest ''acme.core'',
     cc_semantic_payload = \<lparr> sl_atoms = [sample_atom ''a0'' ''P0_EXACT'' [],
       sample_atom ''a1'' ''P1_STRUCTURED'' [''a0'']], sl_extensions = [] \<rparr>,
     cc_evidence_plane = \<lparr> ep_records = [sample_evidence], ep_extensions = [] \<rparr>,
     cc_dependency_graph = \<lparr> dg_edges = [\<lparr> de_source = ''a1'', de_target = ''a0'', de_edge_type = ''optional'',
       de_version_constraint = None, de_mandatory = False, de_extensions = [] \<rparr>], dg_extensions = [] \<rparr>,
     cc_replacement_contract = \<lparr> rc_contract_id = ''c'', rc_replaces = None, rc_preconditions = [],
       rc_target_effects = [''effect''], rc_protected_invariants = [''invariant''], rc_allowed_scope = [''lib''],
       rc_forbidden_spillover = [],
       rc_verification = \<lparr> vc_static = [], vc_behavioral = [], vc_differential = [] \<rparr>,
       rc_activation = \<lparr> ap_risk = ''low'', ap_approval_required = False,
         ap_safe_boundary = ''before-next-agent-action'' \<rparr>,
       rc_rollback = \<lparr> rp_pointer = ''previous'', rp_compensating_action = None \<rparr>, rc_extensions = [] \<rparr>,
     cc_compression_policy = \<lparr> kp_policy_version = ''1.0.0'',
       kp_classes = [sample_class ''P0_EXACT'' ''exact'' ''forbidden'', sample_class ''P1_STRUCTURED'' ''s'' ''allowed'',
         sample_class ''P2_EVIDENCE'' ''s'' ''allowed'', sample_class ''P3_SUMMARY'' ''s'' ''allowed'',
         sample_class ''P4_TRANSIENT'' ''s'' ''allowed''], kp_extensions = [] \<rparr>,
     cc_tests_integrity = \<lparr>
       ti_tests = [\<lparr> td_test_id = ''t'', td_kind = ''static'', td_path = ''tests/static/t.py'',
         td_digest = text_digest (CHR ''c'') \<rparr>],
       ti_lock = \<lparr> il_capsule_dependencies = [], il_source_commits = [], il_compiler_version = ''0.1.0'',
         il_adapter_versions = [], il_compression_policy_version = ''1.0.0'', il_test_set_version = ''1.0.0'',
         il_model_series = [], il_parameters = [], il_runtime_config_digest = text_digest (CHR ''d''),
         il_extensions = [] \<rparr>,
       ti_artifact_checksums = [\<lparr> ac_path = ''tests/static/t.py'', ac_digest = text_digest (CHR ''c'') \<rparr>],
       ti_signature_policy = \<lparr> gp_algorithm = ''ed25519'', gp_key_id = ''k'',
         gp_input_profile = ''CCS-2.1-signature-v1'' \<rparr>, ti_extensions = [] \<rparr>,
     cc_detached_signature = Some \<lparr> ds_algorithm = ''ed25519'', ds_key_id = ''k'', ds_value = ''v'',
       ds_envelope = [] \<rparr>,
     cc_derived_artifacts = [], cc_runtime_sidecar = [] \<rparr>"

lemma sample_capsule_valid: "core_capsule_valid sample_values sample_capsule"
  by code_simp

text \<open>An encoder with the promise of RFC 8785.\<close>

definition counting_dumps :: "json \<Rightarrow> bytes" where
  "counting_dumps v = replicate (to_nat (jcs_norm v)) (CHR ''x'')"

lemma counting_dumps_law: "jcs_law counting_dumps"
  by (auto simp: jcs_law_def counting_dumps_def replicate_eq_replicate)

end
