(* ===== verification/Capsule_Properties.thy ===== *)
theory Capsule_Properties
  imports Capsule_Sample
begin

text \<open>
  Properties of capsules: their references resolve, and the canonical digest binds their
  content.
\<close>

section \<open>References\<close>

lemma references_resolve:
  assumes "core_capsule_valid V c" and "a \<in> set (capsule_atoms c)" and "i \<in> set (at_evidence_refs a)"
  shows "\<exists>!r. r \<in> set (capsule_evidence c) \<and> er_evidence_id r = i"
    and "r \<in> set (capsule_evidence c) \<Longrightarrow> er_evidence_id r = i \<Longrightarrow> at_atom_id a \<in> set (er_atom_ids r)"
proof -
  from assms(1) have ids: "inj_on er_evidence_id (set (capsule_evidence c))"
    and sub: "(\<Union>a \<in> set (capsule_atoms c). set (at_evidence_refs a)) \<subseteq> er_evidence_id ` set (capsule_evidence c)"
    and bind: "atom_bindings c = evidence_bindings c"
    by (simp_all add: core_capsule_valid_def references_are_closed_def evidence_plane_valid_def distinct_map)
  from sub assms(2,3) obtain p where p: "p \<in> set (capsule_evidence c)" "er_evidence_id p = i" by blast
  show "\<exists>!r. r \<in> set (capsule_evidence c) \<and> er_evidence_id r = i"
    using p inj_onD [OF ids] by (intro ex1I [of _ p]) auto
  show "r \<in> set (capsule_evidence c) \<Longrightarrow> er_evidence_id r = i \<Longrightarrow> at_atom_id a \<in> set (er_atom_ids r)"
  proof -
    assume r': "r \<in> set (capsule_evidence c)" "er_evidence_id r = i"
    have "(at_atom_id a, i) \<in> atom_bindings c" using assms(2,3) by (auto simp: atom_bindings_def)
    then obtain q where "q \<in> set (capsule_evidence c)" "er_evidence_id q = i" "at_atom_id a \<in> set (er_atom_ids q)"
      unfolding bind by (auto simp: evidence_bindings_def)
    with r' inj_onD [OF ids] show ?thesis by metis
  qed
qed

text \<open>C37. In a capsule that passed construction every reference resolves both ways: each evidence
  reference of an atom names exactly one record, that record names the atom, every atom a record
  names exists and refers back, a validated atom has such a record, and a published capsule
  carries a signature made with the key and algorithm of its own policy.\<close>

theorem capsule_references_resolve:
  assumes "core_capsule_valid V c"
  shows "(\<forall>a i. a \<in> set (capsule_atoms c) \<and> i \<in> set (at_evidence_refs a) \<longrightarrow>
      (\<exists>!r. r \<in> set (capsule_evidence c) \<and> er_evidence_id r = i \<and> at_atom_id a \<in> set (er_atom_ids r))) \<and>
    (\<forall>r i. r \<in> set (capsule_evidence c) \<and> i \<in> set (er_atom_ids r) \<longrightarrow>
      (\<exists>!a. a \<in> set (capsule_atoms c) \<and> at_atom_id a = i \<and> er_evidence_id r \<in> set (at_evidence_refs a))) \<and>
    (\<forall>a. a \<in> set (capsule_atoms c) \<and> at_status a = ''validated'' \<longrightarrow>
      (\<exists>r. r \<in> set (capsule_evidence c) \<and> at_atom_id a \<in> set (er_atom_ids r))) \<and>
    (cm_lifecycle (cc_control_manifest c) = ''PUBLISHED'' \<longrightarrow>
      (\<exists>s. cc_detached_signature c = Some s \<and>
         ds_key_id s = gp_key_id (ti_signature_policy (cc_tests_integrity c)) \<and>
         ds_algorithm s = gp_algorithm (ti_signature_policy (cc_tests_integrity c))))"
proof (intro conjI allI impI; (elim conjE)?)
  fix a i assume a: "a \<in> set (capsule_atoms c)" "i \<in> set (at_evidence_refs a)"
  show "\<exists>!r. r \<in> set (capsule_evidence c) \<and> er_evidence_id r = i \<and> at_atom_id a \<in> set (er_atom_ids r)"
    using references_resolve [OF assms a] by metis
next
  fix r i assume r: "r \<in> set (capsule_evidence c)" "i \<in> set (er_atom_ids r)"
  from assms have ids: "inj_on at_atom_id (set (capsule_atoms c))" and bind: "atom_bindings c = evidence_bindings c"
    by (simp_all add: core_capsule_valid_def references_are_closed_def semantic_payload_valid_def distinct_map)
  have "(i, er_evidence_id r) \<in> evidence_bindings c" using r by (auto simp: evidence_bindings_def)
  then obtain a where "a \<in> set (capsule_atoms c)" "at_atom_id a = i" "er_evidence_id r \<in> set (at_evidence_refs a)"
    unfolding bind [symmetric] by (auto simp: atom_bindings_def)
  then show "\<exists>!a. a \<in> set (capsule_atoms c) \<and> at_atom_id a = i \<and> er_evidence_id r \<in> set (at_evidence_refs a)"
    using inj_onD [OF ids] by metis
next
  fix a assume a: "a \<in> set (capsule_atoms c)" "at_status a = ''validated''"
  from assms a have "core_atom_valid a" by (simp add: core_capsule_valid_def semantic_payload_valid_def)
  with a have "at_evidence_refs a \<noteq> []" by (simp add: core_atom_valid_def)
  then obtain i where "i \<in> set (at_evidence_refs a)" by (meson list.set_sel(1))
  then show "\<exists>r. r \<in> set (capsule_evidence c) \<and> at_atom_id a \<in> set (er_atom_ids r)"
    using references_resolve [OF assms a(1)] by metis
qed (use assms in \<open>auto simp: core_capsule_valid_def references_are_closed_def split: option.splits\<close>)

theorem capsule_references_resolve_witness:
  "\<exists>!r. r \<in> set (capsule_evidence sample_capsule) \<and> er_evidence_id r = ''e1'' \<and>
     ''a1'' \<in> set (er_atom_ids r)"
proof -
  have a: "sample_atom ''a1'' ''P1_STRUCTURED'' [''a0''] \<in> set (capsule_atoms sample_capsule)"
    "''e1'' \<in> set (at_evidence_refs (sample_atom ''a1'' ''P1_STRUCTURED'' [''a0'']))"
    "at_atom_id (sample_atom ''a1'' ''P1_STRUCTURED'' [''a0'']) = ''a1''"
    by (simp_all add: sample_capsule_def sample_atom_def)
  show ?thesis
    using capsule_references_resolve [OF sample_capsule_valid, THEN conjunct1, rule_format, OF conjI [OF a(1,2)]]
    by (simp add: a(3))
qed

section \<open>The canonical digest\<close>

lemma json_ok_extensions: "extensions_valid ext \<Longrightarrow> json_value_ok (JObj ext)"
  by (auto simp: extensions_valid_def)

lemma json_ok_strings [simp]: "json_value_ok (json_strings xs)" "json_value_ok (json_opt JStr x)"
  by (auto simp: json_strings_def json_opt_def split: option.splits)

lemma json_ok_evidence: "evidence_record_valid V r \<Longrightarrow> json_value_ok (evidence_json r)"
  using json_ok_extensions [of "er_extensions r"]
  by (cases "er_mode r") (simp_all add: evidence_record_valid_def evidence_json_def git_locator_valid_def)

lemma identity_projection_ok:
  assumes "core_capsule_valid V c"
  shows "json_value_ok (identity_projection c)"
proof -
  from assms have ext:
    "extensions_valid (cm_extensions (cc_control_manifest c))"
    "extensions_valid (sl_extensions (cc_semantic_payload c))"
    "\<And>a. a \<in> set (capsule_atoms c) \<Longrightarrow> extensions_valid (at_extensions a)"
    "extensions_valid (ep_extensions (cc_evidence_plane c))"
    "\<And>r. r \<in> set (capsule_evidence c) \<Longrightarrow> evidence_record_valid V r"
    "extensions_valid (dg_extensions (cc_dependency_graph c))"
    "\<And>e. e \<in> set (dg_edges (cc_dependency_graph c)) \<Longrightarrow> extensions_valid (de_extensions e)"
    "extensions_valid (rc_extensions (cc_replacement_contract c))"
    "extensions_valid (kp_extensions (cc_compression_policy c))"
    "extensions_valid (ti_extensions (cc_tests_integrity c))"
    "extensions_valid (il_extensions (ti_lock (cc_tests_integrity c)))"
    by (simp_all add: core_capsule_valid_def control_manifest_valid_def semantic_payload_valid_def
        core_atom_valid_def evidence_plane_valid_def core_graph_valid_def dependency_edge_valid_def
        core_contract_valid_def core_compression_valid_def tests_integrity_valid_def integrity_lock_valid_def)
  show ?thesis
    using json_ok_extensions [OF ext(1)] json_ok_extensions [OF ext(2)] json_ok_extensions [OF ext(3)]
      json_ok_extensions [OF ext(4)] json_ok_evidence [OF ext(5)] json_ok_extensions [OF ext(6)]
      json_ok_extensions [OF ext(7)] json_ok_extensions [OF ext(8)] json_ok_extensions [OF ext(9)]
      json_ok_extensions [OF ext(10)] json_ok_extensions [OF ext(11)]
    by (auto simp: identity_projection_def core_modules_json_def manifest_json_def semantic_payload_json_def
        atom_json_def evidence_plane_json_def dependency_graph_json_def edge_json_def
        replacement_contract_json_def compression_policy_json_def class_policy_json_def
        tests_integrity_json_def lock_json_def test_json_def checksum_json_def capsule_ref_json_def)
qed

text \<open>C36. Every valid capsule has a canonical digest, and under the promise of RFC 8785 two valid
  capsules share it exactly when their seven modules agree (the digest field itself apart, and
  extensions up to their encoding), unless their two encodings are an explicit SHA-256
  collision. Signatures, derived artifacts and runtime data never matter.\<close>

theorem canonical_digest_binds:
  assumes "jcs_law dumps" and "core_capsule_valid V c" and "core_capsule_valid V d"
  shows "canonical_digest sha256 dumps c \<noteq> None \<and>
    (canonical_digest sha256 dumps c = canonical_digest sha256 dumps d \<longleftrightarrow>
      core_identity c = core_identity d \<or>
      (dumps (identity_projection c) \<noteq> dumps (identity_projection d) \<and>
       sha256 (dumps (identity_projection c)) = sha256 (dumps (identity_projection d))))"
proof -
  have "dumps (identity_projection c) = dumps (identity_projection d) \<longleftrightarrow> core_identity c = core_identity d"
    using assms(1) by (simp add: jcs_law_def identity_projection_norm)
  moreover have "canonical_digest sha256 dumps x = Some (''sha256:'' @ to_hex (sha256 (dumps (identity_projection x))))"
    if "core_capsule_valid V x" for x
    using identity_projection_ok [OF that] by (simp add: canonical_digest_def canonical_json_bytes_def)
  ultimately show ?thesis using assms(2,3) by (auto simp: to_hex_inject)
qed

theorem canonical_digest_binds_witness:
  "canonical_digest id counting_dumps sample_capsule =
   canonical_digest id counting_dumps (sample_capsule \<lparr> cc_runtime_sidecar := [(''seen'', JBool True)] \<rparr>)"
proof -
  have "core_capsule_valid sample_values (sample_capsule \<lparr> cc_runtime_sidecar := [(''seen'', JBool True)] \<rparr>)"
    by code_simp
  moreover have "core_identity sample_capsule =
      core_identity (sample_capsule \<lparr> cc_runtime_sidecar := [(''seen'', JBool True)] \<rparr>)"
    by (simp add: core_identity_def)
  ultimately show ?thesis
    using canonical_digest_binds [OF counting_dumps_law sample_capsule_valid, of _ id] by blast
qed

end
