(* ===== verification/Admission_Properties.thy ===== *)
theory Admission_Properties
  imports Admission_Laws Capsule_Properties
begin

text \<open>
  Properties of admission: what is admitted is exactly what the conditions describe, and with
  the static policies every admitted atom is covered by one grant and by fresh evidence.
\<close>

section \<open>The shipped policies as services\<close>

definition static_authorizer :: "resolve_env \<Rightarrow> pystr \<Rightarrow> access_grant list \<Rightarrow> authorizer" where
  "static_authorizer E version grants =
     \<lparr> au_version = (\<lambda>_. version),
       au_authorize = (\<lambda>c a t p. Some (static_authorize (canonical_grants E grants) c a t p)),
       au_context_digest = (\<lambda>_ t p. Some (static_context_digest E version (canonical_grants E grants) t p)) \<rparr>"

definition recorded_freshness :: "resolve_env \<Rightarrow> pystr \<Rightarrow> freshness_record list \<Rightarrow> freshness_checker" where
  "recorded_freshness E version records =
     \<lparr> fc_version = (\<lambda>_. version), fc_check = freshness_check E records,
       fc_context_digest = (\<lambda>_. Some (freshness_context_digest E version records)) \<rparr>"

section \<open>A sample resolution\<close>

definition sample_resolve_env :: resolve_env where
  "sample_resolve_env = \<lparr> rv_values = sample_values, rv_sha256 = (\<lambda>m. replicate 32 (if m = [] then CHR ''0'' else hd m)),
     rv_dumps = (\<lambda>v. case v of JObj ((k, _) # _) \<Rightarrow> k | _ \<Rightarrow> []), rv_semver = (\<lambda>v w. if v = w then VEqual else VLess) \<rparr>"

definition sample_publication :: published_capsule where
  "sample_publication = \<lparr> pc_capsule = sample_capsule, pc_registry_status = ''PUBLISHED'',
     pc_published_at = ''2024-01-01T00:00:00Z'' \<rparr>"

definition sample_task :: view_task where
  "sample_task = \<lparr> tk_task_id = ''t1'', tk_tenant = ''acme'', tk_repository = ''repo'', tk_paths = [''lib''],
     tk_environment = ''ci'', tk_text = ''statement'', tk_risk = ''low'', tk_required_interfaces = [''api/v1''],
     tk_required_atom_ids = [] \<rparr>"

definition sample_grant :: access_grant where
  "sample_grant = \<lparr> ag_principal_id = ''bob'', ag_tenant = ''acme'', ag_authorities = [''team''],
     ag_capsule_ids = [''*''], ag_access_policies = [''team-read''], ag_max_sensitivity = ''confidential'' \<rparr>"

definition sample_freshness :: freshness_record where
  "sample_freshness = \<lparr> fr_capsule = capsule_ref_of sample_capsule, fr_evidence_id = ''e1'',
     fr_content_digest = text_digest (CHR ''b''), fr_checked_at = ''2024-01-01T00:00:00Z'',
     fr_valid_until = ''2024-12-31T00:00:00Z'' \<rparr>"

definition sample_resolver :: eligibility_resolver where
  "sample_resolver = \<lparr> rz_registry = (\<lambda>i v p. if i = ''acme.core'' \<and> p = ''bob'' then Some sample_publication else None),
     rz_authorizer = static_authorizer sample_resolve_env ''1.0.0'' [sample_grant],
     rz_freshness = recorded_freshness sample_resolve_env ''1.0.0'' [sample_freshness],
     rz_as_of = ''2024-06-01T00:00:00Z'', rz_max_sensitivity = ''restricted'' \<rparr>"

lemma sample_snapshot:
  "\<exists>d. \<forall>i. policy_snapshot sample_resolve_env sample_resolver i sample_task ''bob'' = Inr d"
proof -
  have "is_digest (snapshot_digest sample_resolve_env v)" for v
    unfolding snapshot_digest_def by (rule is_digest_hex) (simp add: sample_resolve_env_def)
  moreover have "is_semver ''1.0.0''" by code_simp
  ultimately show ?thesis
    by (simp add: policy_snapshot_def sample_resolver_def static_authorizer_def recorded_freshness_def
        static_context_digest_def freshness_context_digest_def Let_def)
qed

lemma sample_wire_ok:
  "json_value_ok (JObj (filter (\<lambda>(k, v). k \<notin> {''derived_artifacts'', ''runtime_sidecar''})
     (capsule_wire_dict sample_capsule)))"
proof -
  have "json_value_ok (JObj (core_modules_json (manifest_json (cc_control_manifest sample_capsule)) sample_capsule))"
    using identity_projection_ok [OF sample_capsule_valid] by (simp add: identity_projection_def)
  then show ?thesis
    by (auto simp: capsule_wire_dict_def core_modules_json_def signature_json_def sample_capsule_def split: option.splits)
qed

lemma sample_digest: "publication_digest sample_resolve_env sample_capsule \<noteq> None"
  using sample_wire_ok by (simp add: loader_publication_digest_def canonical_json_bytes_def)

lemma sample_gates:
  "capsule_gates sample_resolver sample_publication sample_task ''bob'' = Inr ()"
  "atom_gates sample_resolve_env sample_resolver sample_capsule (sample_atom ''a0'' ''P0_EXACT'' []) sample_task ''bob'' = Inr ()"
  "atom_gates sample_resolve_env sample_resolver sample_capsule (sample_atom ''a1'' ''P1_STRUCTURED'' [''a0'']) sample_task ''bob'' = Inr ()"
  by code_simp+

lemma sample_atoms: "capsule_atoms sample_capsule = [sample_atom ''a0'' ''P0_EXACT'' [], sample_atom ''a1'' ''P1_STRUCTURED'' [''a0'']]"
  by (simp add: sample_capsule_def)

definition sample_item :: admitted_capsule where
  "sample_item = \<lparr> ad_published = sample_publication, ad_atom_ids = [''a0'', ''a1''] \<rparr>"

lemma sample_unique: "unique_publications sample_resolve_env [sample_publication] [] = ([sample_publication], [])"
proof -
  have "publication_key sample_publication = Some (''acme.core'', ''1.0.0'')"
    by (simp add: publication_key_def sample_publication_def sample_capsule_def sample_manifest_def)
  moreover have "publication_identity sample_resolve_env sample_publication \<noteq> None"
    using sample_digest by (simp add: publication_identity_def sample_publication_def)
  then have "group_consistent sample_resolve_env [sample_publication]"
    by (auto simp: group_consistent_def)
  ultimately show ?thesis by (simp add: unique_publications_def)
qed

lemma sample_admit: "admit sample_resolve_env sample_resolver sample_capsule sample_task ''bob'' [] = Inr (sample_item, [])"
proof -
  have "verified sample_resolve_env sample_resolver sample_capsule ''bob'' = Inr sample_publication"
    using sample_digest
    by (simp add: verified_Inr sample_resolver_def sample_publication_def)
      (simp add: sample_capsule_def sample_manifest_def)
  moreover have "pc_capsule sample_publication = sample_capsule" by (simp add: sample_publication_def)
  moreover have "at_atom_id (sample_atom i c r) = i" for i c r by (simp add: sample_atom_def)
  moreover have "unique_strings [''a0'', ''a1''] = [''a0'', ''a1'']" by code_simp
  ultimately show ?thesis
    by (simp add: admit_def sample_gates sample_atoms sample_item_def)
qed

lemma sample_resolves:
  "\<exists>r. resolve sample_resolve_env sample_resolver [sample_publication] sample_task ''bob'' = Inr r \<and>
     ar_items r = [sample_item] \<and> ar_rejected_counts r = []"
proof -
  obtain d where d: "\<forall>i. policy_snapshot sample_resolve_env sample_resolver i sample_task ''bob'' = Inr d"
    using sample_snapshot by blast
  have "pc_registry_status sample_publication = ''PUBLISHED''" "pc_capsule sample_publication = sample_capsule"
    by (simp_all add: sample_publication_def)
  with d show ?thesis by (simp add: resolve_def sample_unique sample_admit)
qed

section \<open>Properties\<close>

text \<open>C34. Resolution admits exactly what its conditions describe: an item is admitted if and only if
  some supplied publication is uncontested and published, the registry returns that very
  publication to the caller, every capsule gate (lifecycle, tenant, authorization, sensitivity,
  repository, path, environment, freshness, interfaces) answered a definite yes, and the item
  lists, in ascending order and once each, exactly the atoms for which every atom gate did. The
  policy snapshot was the same before and after.\<close>

theorem admission_exact:
  assumes "resolve E R capsules task caller = Inr result"
  shows "(\<forall>item. item \<in> set (ar_items result) \<longleftrightarrow>
      (\<exists>p published. admissible_publication E R capsules task caller p published \<and>
         item = admitted_item E R task caller published)) \<and>
    policy_snapshot E R 0 task caller = Inr (ar_permission_digest result, ar_freshness_digest result) \<and>
    policy_snapshot E R 1 task caller = Inr (ar_permission_digest result, ar_freshness_digest result)"
proof (intro conjI allI)
  fix item
  show "item \<in> set (ar_items result) \<longleftrightarrow>
      (\<exists>p published. admissible_publication E R capsules task caller p published \<and>
         item = admitted_item E R task caller published)"
    by (rule resolve_items [OF assms])
qed (use assms in \<open>auto simp: resolve_def result_simps prod.case_eq_if split: if_splits\<close>)

theorem admission_exact_witness:
  "\<exists>p published. admissible_publication sample_resolve_env sample_resolver [sample_publication] sample_task ''bob'' p published \<and>
     sample_item = admitted_item sample_resolve_env sample_resolver sample_task ''bob'' published"
proof -
  obtain r where r: "resolve sample_resolve_env sample_resolver [sample_publication] sample_task ''bob'' = Inr r"
    "ar_items r = [sample_item]" using sample_resolves by blast
  then have "sample_item \<in> set (ar_items r)" by simp
  then show ?thesis using admission_exact [OF r(1)] by blast
qed

text \<open>C35. With the shipped policies nothing reaches a view on a combination of partial permissions:
  for every admitted atom one single grant of the caller covers the tenant, the capsule, the
  authorities and sensitivities of capsule and atom and the access policy of every record the
  atom refers to; and each of these records is verified, was captured by then, and has an
  attestation for this very capsule and content that is valid at the time of the request.\<close>

theorem admitted_atoms_backed:
  assumes "resolve E R capsules task caller = Inr result"
    and "rz_authorizer R = static_authorizer E version grants" and "inj_on (rv_dumps E \<circ> access_grant_json) (set grants)"
    and "rz_freshness R = recorded_freshness E fversion records"
    and "item \<in> set (ar_items result)" and "i \<in> set (ad_atom_ids item)"
  shows "\<exists>atom g instant. let capsule = pc_capsule (ad_published item); manifest = cc_control_manifest capsule in
      atom \<in> set (capsule_atoms capsule) \<and> at_atom_id atom = i \<and> at_status atom = ''validated'' \<and>
      g \<in> set grants \<and> ag_principal_id g = caller \<and> ag_tenant g = tk_tenant task \<and> cm_tenant manifest = tk_tenant task \<and>
      {cm_authority manifest, at_authority atom} \<subseteq> set (ag_authorities g) \<union> {a. ''*'' \<in> set (ag_authorities g)} \<and>
      sensitivity_within (cm_sensitivity manifest) (ag_max_sensitivity g) \<and>
      sensitivity_within (at_sensitivity atom) (ag_max_sensitivity g) \<and>
      instant_of E (rz_as_of R) = Some instant \<and> at_evidence_refs atom \<noteq> [] \<and>
      list_all (\<lambda>e. list_ex (\<lambda>r. er_evidence_id r = e \<and> er_validation r = ''verified'' \<and>
          er_access_policy r \<in> set (ag_access_policies g) \<and> not_after E (er_captured_at r) instant \<and>
          list_ex (\<lambda>f. fr_capsule f = capsule_ref_of capsule \<and> fr_evidence_id f = e \<and>
            fr_content_digest f = er_content_digest r \<and> not_after E (fr_checked_at f) instant \<and>
            not_before E (fr_valid_until f) instant) records) (capsule_evidence capsule)) (at_evidence_refs atom)"
proof -
  obtain p where p: "admissible_publication E R capsules task caller p (ad_published item)"
    and item: "item = admitted_item E R task caller (ad_published item)"
    using assms(5) resolve_items [OF assms(1)] by (auto simp: admitted_item_def)
  let ?c = "pc_capsule (ad_published item)"
  have "i \<in> at_atom_id ` set (filter (atom_admissible E R ?c task caller) (capsule_atoms ?c))"
    using assms(6) by (subst (asm) item) (simp add: admitted_item_def)
  then obtain atom where atom: "atom \<in> set (capsule_atoms ?c)" "at_atom_id atom = i"
    "atom_admissible E R ?c task caller atom" by auto
  then obtain g where g: "g \<in> set grants" "grant_matches g ?c (Some atom) task caller"
    using assms(2) canonical_grants_set [OF assms(3)]
    by (auto simp: atom_admissible_def static_authorizer_def static_authorize_def)
  have "freshness_check E records ?c (Some atom) (rz_as_of R) = Some True"
    using atom(3) assms(4) by (simp add: atom_admissible_def recorded_freshness_def)
  then obtain instant where t: "instant_of E (rz_as_of R) = Some instant"
    and ne: "referenced_evidence ?c (Some atom) \<noteq> []"
    and fresh: "\<forall>r \<in> set (referenced_evidence ?c (Some atom)).
      case map_of (dict_by fr_evidence_id (filter (\<lambda>f. fr_capsule f = capsule_ref_of ?c) records)) (er_evidence_id r) of
        None \<Rightarrow> False | Some f \<Rightarrow> fresh_record E f r instant"
    by (auto simp: freshness_check_def Let_def split: if_splits option.splits)
  note refs = referenced_evidence_atom [OF ne]
  have backed: "list_ex (\<lambda>r. er_evidence_id r = e \<and> er_validation r = ''verified'' \<and>
          er_access_policy r \<in> set (ag_access_policies g) \<and> not_after E (er_captured_at r) instant \<and>
          list_ex (\<lambda>f. fr_capsule f = capsule_ref_of ?c \<and> fr_evidence_id f = e \<and>
            fr_content_digest f = er_content_digest r \<and> not_after E (fr_checked_at f) instant \<and>
            not_before E (fr_valid_until f) instant) records) (capsule_evidence ?c)"
    if "e \<in> set (at_evidence_refs atom)" for e
  proof -
    from that refs obtain r where r: "r \<in> set (referenced_evidence ?c (Some atom))" "er_evidence_id r = e"
      by (metis image_iff set_map)
    with fresh obtain f where f: "map_of (dict_by fr_evidence_id
        (filter (\<lambda>f. fr_capsule f = capsule_ref_of ?c) records)) e = Some f" "fresh_record E f r instant"
      by (fastforce split: option.splits)
    have "f \<in> set records" "fr_capsule f = capsule_ref_of ?c" "fr_evidence_id f = e"
      using map_of_dict_byD [OF f(1)] by auto
    moreover have "er_access_policy r \<in> set (ag_access_policies g)"
      using g(2) r(1) by (simp add: grant_matches_def Let_def)
    ultimately show ?thesis
      using r refs(1) f(2) unfolding list_ex_iff fresh_record_def by blast
  qed
  show ?thesis
    unfolding Let_def
    by (intro exI [of _ atom] exI [of _ g] exI [of _ instant])
      (use atom g t ne refs(2) backed in \<open>auto simp: atom_admissible_def grant_matches_def Let_def list_all_iff\<close>)
qed

theorem admitted_atoms_backed_witness:
  "\<exists>atom. atom \<in> set (capsule_atoms sample_capsule) \<and> at_atom_id atom = ''a1'' \<and>
     {cm_authority (cc_control_manifest sample_capsule), at_authority atom} \<subseteq> {''team''} \<and>
     sensitivity_within (at_sensitivity atom) ''confidential''"
proof -
  obtain r where r: "resolve sample_resolve_env sample_resolver [sample_publication] sample_task ''bob'' = Inr r"
    "ar_items r = [sample_item]" using sample_resolves by blast
  have "sample_item \<in> set (ar_items r)" "''a1'' \<in> set (ad_atom_ids sample_item)"
    "rz_authorizer sample_resolver = static_authorizer sample_resolve_env ''1.0.0'' [sample_grant]"
    "rz_freshness sample_resolver = recorded_freshness sample_resolve_env ''1.0.0'' [sample_freshness]"
    "inj_on (rv_dumps sample_resolve_env \<circ> access_grant_json) (set [sample_grant])"
    by (simp_all add: r(2) sample_item_def sample_resolver_def)
  from admitted_atoms_backed [OF r(1) this(3,5,4,1,2)]
  show ?thesis by (auto simp: Let_def sample_item_def sample_publication_def sample_grant_def)
qed

end
