(* ===== verification/Graph.thy ===== *)
theory Graph
  imports Admission
begin

text \<open>
  Assembly of the two-level provider and atom graph (\<^verbatim>\<open>resolve/graph.py\<close>). \<open>_Assembly\<close> is a record
  that each step returns updated; dictionaries keep their insertion order. Besides the atoms the
  graph has two private nodes for each capsule: its presence, which carries what the capsule
  requires and conflicts with, and its unit, which loads all of its atoms. An access to a
  missing element of a tuple, which no reachable assembly makes, is the generic failure.
\<close>

definition private_prefix :: pystr where
  "private_prefix = ''__ccs_m4__:''"

definition presence :: "capsule_ref \<Rightarrow> pystr" where
  "presence ref = private_prefix @ ''presence:'' @ capsule_ref_key ref"

definition unit_node :: "capsule_ref \<Rightarrow> pystr" where
  "unit_node ref = private_prefix @ ''unit:'' @ capsule_ref_key ref"

abbreviation is_private :: "pystr \<Rightarrow> bool" where
  "is_private name \<equiv> startswith name private_prefix"

abbreviation publication_ref :: "published_capsule \<Rightarrow> capsule_ref" where
  "publication_ref p \<equiv> capsule_ref_of (pc_capsule p)"

definition requirement :: "pystr \<Rightarrow> (pystr \<times> pystr) compile_result" where
  "requirement value = (case py_partition (CHR ''@'') value of (family, separator, constraint) \<Rightarrow>
     if separator = [] \<or> CHR ''@'' \<in> set constraint then Inl (CompileError ''INVALID_VERSION_CONSTRAINT'')
     else res_bind (parse_interface (family @ ''/v0'')) (\<lambda>(parsed, _).
          res_bind (constraint_terms constraint) (\<lambda>_. Inr (parsed, constraint))))"

text \<open>\<open>model_dump(mode="json")\<close> of an atom keeps the field name \<open>from_\<close>.\<close>

definition atom_dump_json :: "core_atom \<Rightarrow> json" where
  "atom_dump_json a = (case atom_json a of
      JObj members \<Rightarrow> JObj (map (\<lambda>(k, v). if k = ''validity''
        then (k, JObj [(''from_'', JStr (vd_from (at_validity a))), (''until'', json_opt JStr (vd_until (at_validity a)))])
        else (k, v)) members)
    | v \<Rightarrow> v)"

section \<open>Assembly\<close>

record assembly =
  sm_atoms :: "(pystr \<times> core_atom) list"
  sm_owners :: "(pystr \<times> capsule_ref list) list"
  sm_publications :: "(pystr \<times> published_capsule) list"
  sm_refs :: "(pystr \<times> capsule_ref) list"
  sm_complete :: "pystr set"
  sm_known_atoms :: "pystr set"
  sm_edges :: "((pystr \<times> pystr \<times> pystr) \<times> dependency_edge) list"
  sm_providers :: "provider_witness list"

definition empty_assembly :: assembly where
  "empty_assembly = \<lparr> sm_atoms = [], sm_owners = [], sm_publications = [], sm_refs = [], sm_complete = {},
     sm_known_atoms = {}, sm_edges = [], sm_providers = [] \<rparr>"

definition add_edge :: "assembly \<Rightarrow> pystr \<Rightarrow> pystr \<Rightarrow> pystr \<Rightarrow> bool \<Rightarrow> assembly" where
  "add_edge A source target kind mandatory =
    (let key = (source, target, kind);
         earlier = (case map_of (sm_edges A) key of None \<Rightarrow> False | Some e \<Rightarrow> de_mandatory e)
     in A \<lparr> sm_edges := AList.update key
            \<lparr> de_source = source, de_target = target, de_edge_type = kind, de_version_constraint = None,
              de_mandatory = (mandatory \<or> earlier), de_extensions = [] \<rparr> (sm_edges A) \<rparr>)"

abbreviation add_requires :: "assembly \<Rightarrow> pystr \<Rightarrow> pystr \<Rightarrow> assembly" where
  "add_requires A source target \<equiv> add_edge A source target ''requires'' True"

abbreviation add_conflict :: "assembly \<Rightarrow> pystr \<Rightarrow> pystr \<Rightarrow> assembly" where
  "add_conflict A source target \<equiv> add_edge A source target ''conflicts'' True"

definition admit_atom :: "resolve_env \<Rightarrow> capsule_ref \<Rightarrow> assembly \<Rightarrow> core_atom \<Rightarrow> assembly compile_result" where
  "admit_atom E reference A atom =
    (if (case map_of (sm_atoms A) (at_atom_id atom) of None \<Rightarrow> False
         | Some previous \<Rightarrow> rv_dumps E (atom_dump_json previous) \<noteq> rv_dumps E (atom_dump_json atom))
     then Inl (CompileError ''DUPLICATE_ATOM'')
     else let old = (case map_of (sm_owners A) (at_atom_id atom) of None \<Rightarrow> [] | Some rs \<Rightarrow> rs);
              owners = AList.update (capsule_ref_key reference) reference (dict_by capsule_ref_key old);
              A1 = A \<lparr> sm_atoms := AList.update (at_atom_id atom) atom (sm_atoms A),
                       sm_owners := AList.update (at_atom_id atom)
                         (map (\<lambda>key. the (map_of owners key)) (sort (dict_keys owners))) (sm_owners A) \<rparr>
          in Inr (add_requires (add_requires A1 (at_atom_id atom) (presence reference))
                    (unit_node reference) (at_atom_id atom)))"

definition inventory_item :: "resolve_env \<Rightarrow> assembly \<Rightarrow> admitted_capsule \<Rightarrow> assembly compile_result" where
  "inventory_item E A item =
    (let reference = publication_ref (ad_published item);
         payload = capsule_atoms (pc_capsule (ad_published item));
         ids = at_atom_id ` set payload;
         key = capsule_ref_key reference;
         A1 = A \<lparr> sm_refs := AList.update key reference (sm_refs A),
                  sm_publications := AList.update key (ad_published item) (sm_publications A),
                  sm_known_atoms := sm_known_atoms A \<union> ids,
                  sm_complete := (if ids \<noteq> {} \<and> ids \<subseteq> set (ad_atom_ids item)
                    then insert key (sm_complete A) else sm_complete A) \<rparr>
     in res_fold (admit_atom E reference) A1 (filter (\<lambda>a. at_atom_id a \<in> set (ad_atom_ids item)) payload))"

definition inventory :: "resolve_env \<Rightarrow> assembly \<Rightarrow> admission_result \<Rightarrow> assembly compile_result" where
  "inventory E A admission =
     res_bind (res_fold (inventory_item E) A
         (sort_key (\<lambda>item. capsule_ref_key (publication_ref (ad_published item))) (ar_items admission))) (\<lambda>A1.
       if \<exists>name \<in> sm_known_atoms A1 \<union> cr_capsule_id ` set (dict_values (sm_refs A1)). is_private name
       then Inl (CompileError ''INVALID_GRAPH'') else Inr A1)"

definition payload_ids :: "assembly \<Rightarrow> capsule_ref \<Rightarrow> pystr list" where
  "payload_ids A reference = (case map_of (sm_publications A) (capsule_ref_key reference) of
      None \<Rightarrow> [] | Some p \<Rightarrow> sort (map at_atom_id (capsule_atoms (pc_capsule p))))"

definition add_witness :: "capsule_ref option \<Rightarrow> pystr \<Rightarrow> capsule_ref \<Rightarrow> assembly \<Rightarrow> assembly" where
  "add_witness consumer text provider A = A \<lparr> sm_providers := sm_providers A @
     [\<lparr> wt_consumer = consumer, wt_requirement = text, wt_provider = provider,
        wt_atom_ids = unique_strings (payload_ids A provider) \<rparr>] \<rparr>"

definition unique_ref :: "capsule_ref list \<Rightarrow> pystr \<Rightarrow> capsule_ref compile_result" where
  "unique_ref candidates missing = (case candidates of
      [] \<Rightarrow> Inl (CompileError missing)
    | [ref] \<Rightarrow> Inr ref
    | _ \<Rightarrow> Inl (CompileError ''AMBIGUOUS_PROVIDER''))"

abbreviation provides_of :: "assembly \<Rightarrow> pystr \<Rightarrow> pystr list" where
  "provides_of A key \<equiv> (case map_of (sm_publications A) key of None \<Rightarrow> []
     | Some p \<Rightarrow> cm_provides (cc_control_manifest (pc_capsule p)))"

definition root_step ::
  "assembly \<times> pystr set \<Rightarrow> pystr \<Rightarrow> (assembly \<times> pystr set) compile_result" where
  "root_step st text = (case st of (A, roots) \<Rightarrow>
     res_bind (parse_interface text) (\<lambda>_.
     res_bind (unique_ref (map snd (filter (\<lambda>(key, ref). key \<in> sm_complete A \<and> text \<in> set (provides_of A key))
         (sm_refs A))) ''MISSING_INTERFACE'') (\<lambda>provider.
       Inr (add_witness None text provider A, roots \<union> set (payload_ids A provider)))))"

definition roots :: "assembly \<Rightarrow> view_task \<Rightarrow> (assembly \<times> pystr set) compile_result" where
  "roots A task = res_bind (res_fold root_step (A, {}) (tk_required_interfaces task)) (\<lambda>(A1, rs).
     if \<not> set (tk_required_atom_ids task) \<subseteq> set (dict_keys (sm_atoms A1)) then Inl (CompileError ''MISSING_ATOM'')
     else Inr (A1, rs))"

definition locked :: "assembly \<Rightarrow> capsule_ref \<Rightarrow> capsule_ref \<Rightarrow> bool" where
  "locked A consumer provider = (case map_of (sm_publications A) (capsule_ref_key consumer) of
      None \<Rightarrow> False
    | Some p \<Rightarrow> provider \<in> set (il_capsule_dependencies (ti_lock (cc_tests_integrity (pc_capsule p)))))"

text \<open>\<open>any(...)\<close> stops at the first hit, so a malformed interface after it is not looked at.\<close>

fun any_family :: "pystr \<Rightarrow> pystr list \<Rightarrow> bool compile_result" where
  "any_family family [] = Inr False"
| "any_family family (value # rest) =
     res_bind (parse_interface value) (\<lambda>(parsed, _). if parsed = family then Inr True else any_family family rest)"

fun matching_refs ::
  "resolve_env \<Rightarrow> assembly \<Rightarrow> pystr \<Rightarrow> pystr \<Rightarrow> (pystr \<times> capsule_ref) list \<Rightarrow> capsule_ref list compile_result" where
  "matching_refs E A family constraint [] = Inr []"
| "matching_refs E A family constraint ((key, ref) # rest) =
     res_bind (any_family family (provides_of A key)) (\<lambda>offered.
     res_bind (if offered then satisfies E (cr_version ref) constraint else Inr False) (\<lambda>hit.
     res_bind (matching_refs E A family constraint rest) (\<lambda>refs. Inr (if hit then ref # refs else refs))))"

definition matching :: "resolve_env \<Rightarrow> assembly \<Rightarrow> pystr \<Rightarrow> capsule_ref list compile_result" where
  "matching E A declaration = res_bind (requirement declaration) (\<lambda>(family, constraint).
     matching_refs E A family constraint (sm_refs A))"

definition require_step ::
  "resolve_env \<Rightarrow> capsule_ref \<Rightarrow> assembly \<Rightarrow> pystr \<Rightarrow> assembly compile_result" where
  "require_step E consumer A text =
     res_bind (matching E A text) (\<lambda>refs.
     res_bind (unique_ref (filter (\<lambda>p. capsule_ref_key p \<in> sm_complete A \<and> locked A consumer p) refs)
         ''MISSING_DEPENDENCY'') (\<lambda>provider.
       Inr (add_witness (Some consumer) text provider (add_requires A (presence consumer) (unit_node provider)))))"

definition conflict_step ::
  "resolve_env \<Rightarrow> capsule_ref \<Rightarrow> assembly \<Rightarrow> pystr \<Rightarrow> assembly compile_result" where
  "conflict_step E consumer A text = res_bind (matching E A text) (\<lambda>refs.
     Inr (foldl (\<lambda>A p. add_conflict A (presence consumer) (presence p)) A refs))"

definition manifest_step :: "resolve_env \<Rightarrow> assembly \<Rightarrow> pystr \<times> capsule_ref \<Rightarrow> assembly compile_result" where
  "manifest_step E A entry = (case entry of (key, consumer) \<Rightarrow>
     case map_of (sm_publications A) key of
       None \<Rightarrow> Inl (CompileError ''COMPILATION_FAILED'')
     | Some p \<Rightarrow>
         (let manifest = cc_control_manifest (pc_capsule p) in
          res_bind (res_fold (require_step E consumer) A (unique_strings (cm_requires manifest))) (\<lambda>A1.
            res_fold (conflict_step E consumer) A1 (cm_conflicts manifest))))"

fun combinations :: "'a list \<Rightarrow> ('a \<times> 'a) list" where
  "combinations [] = []"
| "combinations (x # xs) = map (Pair x) xs @ combinations xs"

definition manifests :: "resolve_env \<Rightarrow> assembly \<Rightarrow> assembly compile_result" where
  "manifests E A = res_bind (res_fold (manifest_step E) A (sm_refs A)) (\<lambda>A1.
     Inr (foldl (\<lambda>A (left, right). if cr_capsule_id left = cr_capsule_id right
            then add_conflict A (presence left) (presence right) else A) A1
          (combinations (dict_values (sm_refs A1)))))"

definition nodes :: "assembly \<Rightarrow> pystr \<Rightarrow> pystr list compile_result" where
  "nodes A name =
    (if is_private name then Inl (CompileError ''INVALID_GRAPH'')
     else let refs = map presence (filter (\<lambda>ref. cr_capsule_id ref = name) (dict_values (sm_refs A))) in
       if refs \<noteq> [] \<and> name \<in> sm_known_atoms A then Inl (CompileError ''AMBIGUOUS_GRAPH_NODE'')
       else Inr (if refs \<noteq> [] then refs else [name]))"

definition node_owners :: "assembly \<Rightarrow> pystr \<Rightarrow> capsule_ref list" where
  "node_owners A node = (case map_of (sm_owners A) node of
      Some refs \<Rightarrow> refs
    | None \<Rightarrow> filter (\<lambda>ref. node = presence ref) (dict_values (sm_refs A)))"

definition link_step ::
  "pystr \<Rightarrow> pystr \<Rightarrow> assembly \<Rightarrow> capsule_ref \<times> capsule_ref \<Rightarrow> assembly compile_result" where
  "link_step source target A pair = (case pair of (consumer, provider) \<Rightarrow>
     if consumer = provider then Inr A
     else if \<not> locked A consumer provider then Inl (CompileError ''MISSING_DEPENDENCY'')
     else Inr (A \<lparr> sm_providers := sm_providers A @
       [\<lparr> wt_consumer = Some consumer, wt_requirement = ''requires:'' @ source @ ''->'' @ target,
          wt_provider = provider,
          wt_atom_ids = unique_strings (if is_private target then payload_ids A provider else [target]) \<rparr>] \<rparr>))"

definition required_target ::
  "assembly \<Rightarrow> pystr \<Rightarrow> pystr \<Rightarrow> capsule_ref option \<Rightarrow> (assembly \<times> pystr) compile_result" where
  "required_target A source target declaring =
    (let consumers = (case declaring of Some d \<Rightarrow> [d] | None \<Rightarrow> node_owners A source);
         providers = node_owners A target in
     res_bind (res_fold (link_step source target) A (List.product consumers providers)) (\<lambda>A1.
       if is_private target then
         (case providers of
            [] \<Rightarrow> Inl (CompileError ''COMPILATION_FAILED'')
          | provider # _ \<Rightarrow>
              if capsule_ref_key provider \<notin> sm_complete A1 then Inl (CompileError ''MISSING_DEPENDENCY'')
              else Inr (A1, unit_node provider))
       else Inr (A1, target)))"

definition version_matches :: "resolve_env \<Rightarrow> assembly \<Rightarrow> pystr \<Rightarrow> dependency_edge \<Rightarrow> bool compile_result" where
  "version_matches E A target edge = (case de_version_constraint edge of
      None \<Rightarrow> Inr True
    | Some constraint \<Rightarrow>
        if de_edge_type edge \<notin> {''requires'', ''conflicts''} then Inr True
        else res_bind (res_map (\<lambda>ref. satisfies E (cr_version ref) constraint) (node_owners A target)) (\<lambda>hits.
          Inr (if de_edge_type edge = ''conflicts'' then True \<in> set hits else False \<notin> set hits)))"

fun target_candidates ::
  "resolve_env \<Rightarrow> assembly \<Rightarrow> dependency_edge \<Rightarrow> capsule_ref \<Rightarrow> pystr list \<Rightarrow> capsule_ref list compile_result" where
  "target_candidates E A edge declaring [] = Inr []"
| "target_candidates E A edge declaring (target # rest) = (case node_owners A target of
      [] \<Rightarrow> Inl (CompileError ''COMPILATION_FAILED'')
    | owner # _ \<Rightarrow>
        res_bind (if capsule_ref_key owner \<in> sm_complete A then version_matches E A target edge else Inr False) (\<lambda>b.
        res_bind (target_candidates E A edge declaring rest) (\<lambda>refs.
          Inr (if b \<and> (declaring = owner \<or> locked A declaring owner) then owner # refs else refs))))"

definition targets_for ::
  "resolve_env \<Rightarrow> assembly \<Rightarrow> pystr list \<Rightarrow> dependency_edge \<Rightarrow> capsule_ref \<Rightarrow> pystr list compile_result" where
  "targets_for E A targets edge declaring =
    (if \<not> (mandatory_edge edge \<and> is_private (hd targets)) then Inr targets
     else res_bind (target_candidates E A edge declaring targets) (\<lambda>candidates.
          res_bind (unique_ref candidates ''MISSING_DEPENDENCY'') (\<lambda>provider. Inr [presence provider])))"

definition target_step ::
  "resolve_env \<Rightarrow> dependency_edge \<Rightarrow> capsule_ref \<Rightarrow> pystr \<Rightarrow> assembly \<Rightarrow> pystr \<Rightarrow> assembly compile_result" where
  "target_step E edge declaring source A target =
     res_bind (version_matches E A target edge) (\<lambda>b.
       if \<not> b then (if mandatory_edge edge then Inl (CompileError ''MISSING_DEPENDENCY'') else Inr A)
       else res_bind (if mandatory_edge edge then required_target A source target (Some declaring)
                      else Inr (A, target)) (\<lambda>(A1, resolved).
            Inr (add_edge A1 source resolved (de_edge_type edge) (de_mandatory edge))))"

definition source_step ::
  "resolve_env \<Rightarrow> dependency_edge \<Rightarrow> capsule_ref \<Rightarrow> pystr list \<Rightarrow> assembly \<Rightarrow> pystr \<Rightarrow> assembly compile_result" where
  "source_step E edge declaring targets A source =
    (if declaring \<notin> set (node_owners A source) then Inr A
     else res_bind (targets_for E A targets edge declaring) (\<lambda>ts. res_fold (target_step E edge declaring source) A ts))"

definition explicit_edge ::
  "resolve_env \<Rightarrow> capsule_ref \<Rightarrow> assembly \<Rightarrow> dependency_edge \<Rightarrow> assembly compile_result" where
  "explicit_edge E declaring A edge =
     res_bind (case de_version_constraint edge of None \<Rightarrow> Inr [] | Some c \<Rightarrow> constraint_terms c) (\<lambda>_.
     res_bind (nodes A (de_source edge)) (\<lambda>named.
     res_bind (nodes A (de_target edge)) (\<lambda>targets.
       let payload = (case map_of (sm_publications A) (capsule_ref_key declaring) of None \<Rightarrow> []
             | Some p \<Rightarrow> map at_atom_id (capsule_atoms (pc_capsule p)));
           sources = (if de_source edge = cr_capsule_id declaring then [presence declaring] else named) in
       if de_source edge \<notin> insert (cr_capsule_id declaring) (set payload) then Inl (CompileError ''INVALID_GRAPH'')
       else if node_owners A (hd sources) = [] \<and> de_source edge \<notin> sm_known_atoms A
       then Inl (CompileError ''INVALID_GRAPH'')
       else res_fold (source_step E edge declaring targets) A sources)))"

definition requires_step :: "pystr \<Rightarrow> assembly \<Rightarrow> pystr \<Rightarrow> assembly compile_result" where
  "requires_step atom_id A target =
    (if is_private target then Inl (CompileError ''INVALID_GRAPH'')
     else res_bind (required_target A atom_id target None) (\<lambda>(A1, resolved). Inr (add_requires A1 atom_id resolved)))"

definition conflicts_step :: "pystr \<Rightarrow> assembly \<Rightarrow> pystr \<Rightarrow> assembly compile_result" where
  "conflicts_step atom_id A target =
    (if is_private target then Inl (CompileError ''INVALID_GRAPH'') else Inr (add_conflict A atom_id target))"

definition atom_step :: "assembly \<Rightarrow> core_atom \<Rightarrow> assembly compile_result" where
  "atom_step A atom =
     res_bind (res_fold (requires_step (at_atom_id atom)) A (at_requires_atoms atom)) (\<lambda>A1.
       res_fold (conflicts_step (at_atom_id atom)) A1 (at_conflicts_with atom))"

definition publication_step :: "resolve_env \<Rightarrow> assembly \<Rightarrow> published_capsule \<Rightarrow> assembly compile_result" where
  "publication_step E A p =
     res_fold (explicit_edge E (publication_ref p)) A (dg_edges (cc_dependency_graph (pc_capsule p)))"

definition atomic_edges :: "resolve_env \<Rightarrow> assembly \<Rightarrow> assembly compile_result" where
  "atomic_edges E A = res_bind (res_fold atom_step A (dict_values (sm_atoms A))) (\<lambda>A1.
     res_fold (publication_step E) A1 (dict_values (sm_publications A1)))"

section \<open>The resolved graph\<close>

record resolved_graph =
  rg_atoms :: "(pystr \<times> core_atom) list"
  rg_owners :: "(pystr \<times> capsule_ref list) list"
  rg_publications :: "(pystr \<times> published_capsule) list"
  rg_edges :: "dependency_edge list"
  rg_root_atom_ids :: "pystr set"
  rg_providers :: "provider_witness list"
  rg_config_digest :: pystr

definition resolve_graph :: "resolve_env \<Rightarrow> admission_result \<Rightarrow> view_task \<Rightarrow> resolved_graph compile_result" where
  "resolve_graph E admission task =
     res_bind (inventory E empty_assembly admission) (\<lambda>A1.
     res_bind (roots A1 task) (\<lambda>(A2, root_ids).
     res_bind (manifests E A2) (\<lambda>A3.
     res_bind (atomic_edges E A3) (\<lambda>A4.
       let witnesses = dict_by (\<lambda>w. rv_dumps E (provider_witness_json w)) (sm_providers A4) in
       Inr \<lparr> rg_atoms = sort_key fst (sm_atoms A4), rg_owners = sort_key fst (sm_owners A4),
             rg_publications = sm_publications A4,
             rg_edges = map (\<lambda>key. the (map_of (sm_edges A4) key)) (sort (dict_keys (sm_edges A4))),
             rg_root_atom_ids = root_ids,
             rg_providers = map (\<lambda>key. the (map_of witnesses key)) (sort (dict_keys witnesses)),
             rg_config_digest = snapshot_digest E (JObj [(''version'', JStr ''1.0.1''),
               (''profile'', JStr ''CCS-2.1-m4-collective-interfaces-v1'')]) \<rparr>))))"

definition closed_nodes :: "resolved_graph \<Rightarrow> pystr set \<Rightarrow> pystr set compile_result" where
  "closed_nodes G selected =
    (if \<not> selected \<subseteq> set (dict_keys (rg_atoms G)) then Inl (CompileError ''MISSING_ATOM'')
     else let nodes = resolve_dependency_closure selected (rg_edges G);
              markers = (\<Union>p \<in> set (dict_values (rg_publications G)). {presence (publication_ref p), unit_node (publication_ref p)})
          in if nodes - set (dict_keys (rg_atoms G)) - markers \<noteq> {} then Inl (CompileError ''MISSING_DEPENDENCY'')
             else Inr nodes)"

definition close_atoms :: "resolved_graph \<Rightarrow> pystr set \<Rightarrow> pystr set compile_result" where
  "close_atoms G selected = res_bind (closed_nodes G selected) (\<lambda>nodes. Inr (nodes \<inter> set (dict_keys (rg_atoms G))))"

definition conflicts_for :: "resolved_graph \<Rightarrow> pystr set \<Rightarrow> conflict list compile_result" where
  "conflicts_for G selected = res_bind (closed_nodes G selected) (\<lambda>nodes. Inr (detect_conflicts nodes (rg_edges G)))"

definition closure_links :: "resolved_graph \<Rightarrow> pystr set \<Rightarrow> closure_link list compile_result" where
  "closure_links G selected = res_bind (closed_nodes G selected) (\<lambda>nodes.
     Inr (map (\<lambda>e. \<lparr> lk_source = de_source e, lk_target = de_target e \<rparr>)
       (filter (\<lambda>e. mandatory_edge e \<and> de_source e \<in> nodes \<and> de_target e \<in> nodes) (rg_edges G))))"

end
