(* ===== verification/Rank.thy ===== *)
theory Rank
  imports View_Model
begin

text \<open>
  Deterministic ranking of admitted atoms (\<^verbatim>\<open>resolve/rank.py\<close>). Two engines are parameters: the
  Unicode word pattern of \<open>re\<close> and the in-memory FTS5 index, which can be built from the rows in
  insertion order or not, and gives the scores of the rows a query matches, or an error.
\<close>

record rank_engine =
  rk_words :: "pystr \<Rightarrow> pystr list"
  rk_index :: "(pystr \<times> pystr) list \<Rightarrow> bool"
  rk_match :: "(pystr \<times> pystr) list \<Rightarrow> pystr \<Rightarrow> (pystr \<times> rat) list option"

definition checked_atom :: "core_atom \<Rightarrow> core_atom compile_result" where
  "checked_atom atom =
     (if core_atom_valid atom \<and> at_status atom = ''validated'' then Inr atom
      else Inl (CompileError ''INVALID_RANKING_INPUT''))"

text \<open>The two dictionaries of \<open>_unique_atoms\<close> have the same keys, and the bytes are those of the
  atom, so one dictionary is enough.\<close>

fun unique_atoms_loop ::
  "resolve_env \<Rightarrow> core_atom list \<Rightarrow> (pystr \<times> core_atom) list \<Rightarrow> (pystr \<times> core_atom) list compile_result" where
  "unique_atoms_loop E [] d = Inr d"
| "unique_atoms_loop E (atom # rest) d =
     res_bind (checked_atom atom) (\<lambda>checked.
       if (case map_of d (at_atom_id checked) of None \<Rightarrow> False
           | Some known \<Rightarrow> rv_dumps E (atom_json known) \<noteq> rv_dumps E (atom_json checked))
       then Inl (CompileError ''AMBIGUOUS_ATOM_ID'')
       else unique_atoms_loop E rest (AList.update (at_atom_id checked) checked d))"

definition unique_atoms :: "resolve_env \<Rightarrow> core_atom list \<Rightarrow> core_atom list compile_result" where
  "unique_atoms E atoms = res_bind (unique_atoms_loop E atoms []) (\<lambda>d.
     Inr (map (\<lambda>key. the (map_of d key)) (sort (dict_keys d))))"

definition literal_query :: "rank_engine \<Rightarrow> view_task \<Rightarrow> pystr compile_result" where
  "literal_query K task =
    (if \<not> view_task_valid task then Inl (CompileError ''INVALID_RANKING_INPUT'')
     else let text = py_join '' '' (tk_text task # tk_required_atom_ids task @ tk_required_interfaces task)
          in Inr (py_join '' OR '' (map (\<lambda>word. [CHR 0x22] @ word @ [CHR 0x22]) (unique_strings (rk_words K text)))))"

definition scores_of :: "rank_engine \<Rightarrow> core_atom list \<Rightarrow> pystr \<Rightarrow> (pystr \<times> rat) list compile_result" where
  "scores_of K atoms query =
    (let rows = map (\<lambda>a. (at_atom_id a, at_statement a)) atoms in
     if \<not> rk_index K rows then Inl (CompileError ''RANKING_UNAVAILABLE'')
     else if query = [] then Inr []
     else (case rk_match K rows query of
        None \<Rightarrow> Inl (CompileError ''RANKING_UNAVAILABLE'')
      | Some found \<Rightarrow> Inr (foldl (\<lambda>d (k, v). AList.update k v d) [] found)))"

definition ranked :: "(pystr \<times> rat) list \<Rightarrow> core_atom \<Rightarrow> ranked_atom" where
  "ranked scores atom = (case map_of scores (at_atom_id atom) of
      None \<Rightarrow> \<lparr> ra_atom = atom, ra_score = 0, ra_matched = False \<rparr>
    | Some s \<Rightarrow> \<lparr> ra_atom = atom, ra_score = s, ra_matched = True \<rparr>)"

definition ranked_atom_key :: "ranked_atom \<Rightarrow> pystr \<times> bool \<times> rat \<times> pystr" where
  "ranked_atom_key item = (at_compression_class (ra_atom item), \<not> ra_matched item, ra_score item, at_atom_id (ra_atom item))"

definition rank_atoms ::
  "resolve_env \<Rightarrow> rank_engine \<Rightarrow> core_atom list \<Rightarrow> view_task \<Rightarrow> ranked_atom list compile_result" where
  "rank_atoms E K atoms task =
     res_bind (unique_atoms E atoms) (\<lambda>candidates.
     res_bind (literal_query K task) (\<lambda>query.
     res_bind (scores_of K candidates query) (\<lambda>scores.
       Inr (sort_key ranked_atom_key (map (ranked scores) candidates)))))"

section \<open>Laws\<close>

lemma unique_atoms_loop_inj:
  assumes "inj_on at_atom_id (set atoms \<union> snd ` set d)"
    and "\<forall>(k, a) \<in> set d. k = at_atom_id a" and "\<forall>a \<in> set atoms. checked_atom a = Inr a"
  shows "unique_atoms_loop E atoms d = Inr (foldl (\<lambda>d a. AList.update (at_atom_id a) a d) d atoms)"
  using assms
proof (induction atoms arbitrary: d)
  case (Cons a atoms)
  have same: "known = a" if "map_of d (at_atom_id a) = Some known" for known
  proof -
    from map_of_SomeD [OF that] have mem: "(at_atom_id a, known) \<in> set d" .
    with Cons.prems(2) have "at_atom_id known = at_atom_id a" by force
    moreover have "known \<in> snd ` set d" using mem by force
    ultimately show ?thesis using inj_onD [OF Cons.prems(1)] by simp
  qed
  have sub: "snd ` set (AList.update (at_atom_id a) a d) \<subseteq> insert a (snd ` set d)"
  proof
    fix x assume "x \<in> snd ` set (AList.update (at_atom_id a) a d)"
    then show "x \<in> insert a (snd ` set d)"
      by (induction d) (auto split: if_splits)
  qed
  have fit: "\<forall>(k, b) \<in> set (AList.update (at_atom_id a) a d). k = at_atom_id b"
    using Cons.prems(2) by (induction d) (auto split: if_splits)
  have inj: "inj_on at_atom_id (set atoms \<union> snd ` set (AList.update (at_atom_id a) a d))"
    using Cons.prems(1) sub by (auto intro: inj_on_subset)
  have "unique_atoms_loop E (a # atoms) d = unique_atoms_loop E atoms (AList.update (at_atom_id a) a d)"
    using same Cons.prems(3) by (auto split: option.splits)
  also have "\<dots> = Inr (foldl (\<lambda>d a. AList.update (at_atom_id a) a d) d (a # atoms))"
    using Cons.IH [OF inj fit] Cons.prems(3) by simp
  finally show ?case .
qed simp

lemma unique_atoms_inj:
  assumes "inj_on at_atom_id (set atoms)" and "\<forall>a \<in> set atoms. checked_atom a = Inr a"
  shows "unique_atoms E atoms = Inr (map (\<lambda>key. the (map_of (dict_by at_atom_id atoms) key))
    (sorted_list_of_set (at_atom_id ` set atoms)))"
proof -
  have "unique_atoms_loop E atoms [] = Inr (dict_by at_atom_id atoms)"
    unfolding dict_by_def using assms by (intro unique_atoms_loop_inj) auto
  moreover have "sort (dict_keys (dict_by at_atom_id atoms)) = sorted_list_of_set (at_atom_id ` set atoms)"
    using sorted_list_of_set_sort_remdups [of "dict_keys (dict_by at_atom_id atoms)"] distinct_dict_by [of at_atom_id atoms]
    by (simp only: keys_dict_by distinct_remdups_id)
  ultimately show ?thesis by (simp only: unique_atoms_def res_bind_simps)
qed

lemma unique_atoms_set:
  assumes "inj_on at_atom_id (set atoms)" and "set atoms = set atoms'"
    and "\<forall>a \<in> set atoms. checked_atom a = Inr a"
  shows "unique_atoms E atoms = unique_atoms E atoms'"
proof -
  have "map_of (dict_by at_atom_id atoms) (at_atom_id a) = map_of (dict_by at_atom_id atoms') (at_atom_id a)"
    if "a \<in> set atoms" for a
    using that assms(1,2) by (metis map_of_dict_by_inj)
  with assms show ?thesis by (simp add: unique_atoms_inj)
qed

lemma unique_atoms_members:
  assumes "inj_on at_atom_id (set atoms)" and "\<forall>a \<in> set atoms. checked_atom a = Inr a"
    and "unique_atoms E atoms = Inr cs"
  shows "set cs = set atoms" and "distinct (map at_atom_id cs)" and "sorted (map at_atom_id cs)"
proof -
  let ?get = "\<lambda>key. the (map_of (dict_by at_atom_id atoms) key)"
  have get: "?get (at_atom_id a) = a" if "a \<in> set atoms" for a
    using map_of_dict_by_inj [OF assms(1) that] by (metis option.sel)
  have cs: "cs = map ?get (sorted_list_of_set (at_atom_id ` set atoms))"
    using assms by (simp add: unique_atoms_inj)
  have "set cs = ?get ` at_atom_id ` set atoms" by (simp add: cs)
  also have "\<dots> = (\<lambda>a. a) ` set atoms" unfolding image_image by (rule image_cong) (simp_all only: get)
  finally show "set cs = set atoms" by simp
  have "map at_atom_id cs = sorted_list_of_set (at_atom_id ` set atoms)"
    unfolding cs map_map by (rule map_idI) (use get in auto)
  then show "distinct (map at_atom_id cs)" and "sorted (map at_atom_id cs)" by simp_all
qed

end
