(* ===== verification/Session.thy ===== *)
theory Session
  imports Render
begin

text \<open>
  One compilation (\<^verbatim>\<open>compile/session.py\<close>, \<^verbatim>\<open>compile/compiler.py\<close>, \<^verbatim>\<open>compile/manifest.py\<close> and the
  manifest and view of \<^verbatim>\<open>models/view.py\<close>). \<open>Compilation\<close> is a record of its fields; a step maps
  it to its result or error and the record as the step leaves it, so that a failure is
  reported from the state in which it happened.

  The compiler is composed with services. The registry, the policies and the evidence sources
  are asked again at the end of a compilation, and the policies once more for a failure: a
  reading number tells which time. Within one reading they are functions of the question, as
  are the tokenizer, the ranker and the renderer.
\<close>

section \<open>Requests, services, results\<close>

record compile_request =
  rq_capsules :: "published_capsule list"
  rq_task :: view_task
  rq_principal :: pystr
  rq_budget :: view_budget
  rq_as_of :: pystr
  rq_model_id :: pystr
  rq_tokenizer_profile :: pystr
  rq_renderer_version :: pystr
  rq_runtime_config :: "(pystr \<times> json) list"
  rq_expected_manifest_digest :: "pystr option"

definition compile_request_valid :: "resolve_env \<Rightarrow> compile_request \<Rightarrow> bool" where
  "compile_request_valid E q \<longleftrightarrow>
     (\<forall>p \<in> set (rq_capsules q). core_capsule_valid (rv_values E) (pc_capsule p)) \<and>
     view_task_valid (rq_task q) \<and> rq_principal q \<noteq> [] \<and> view_budget_valid (rq_budget q) \<and>
     timestamp_string (rv_values E) (rq_as_of q) \<and> rq_model_id q \<noteq> [] \<and> rq_tokenizer_profile q \<noteq> [] \<and>
     rq_renderer_version q \<noteq> [] \<and> json_map_valid (rq_runtime_config q) \<and>
     (case rq_expected_manifest_digest q of None \<Rightarrow> True | Some d \<Rightarrow> is_digest d)"

record service_stamp =
  ss_name :: pystr
  ss_version :: pystr
  ss_config_digest :: pystr

record view_compiler =
  vc_resolver :: "nat \<Rightarrow> eligibility_resolver"
  vc_sources :: "nat \<Rightarrow> published_capsule \<Rightarrow> core_atom \<Rightarrow> evidence_material list compile_result"
  vc_expand :: "evidence_handle \<Rightarrow> evidence_material compile_result"
  vc_span :: "evidence_record \<Rightarrow> pystr \<Rightarrow> (pystr \<times> pystr option) compile_result"
  vc_evidence_version :: pystr
  vc_rank :: "core_atom list \<Rightarrow> view_task \<Rightarrow> ranked_atom list compile_result"
  vc_counter :: token_counter
  vc_renderer_version :: pystr
  vc_renderer_handles :: "pystr list"
  vc_render :: "pystr list \<Rightarrow> view_task \<Rightarrow> ranked_atom list \<Rightarrow> evidence_material list \<Rightarrow> (pystr \<times> pystr) list compile_result"
  vc_stamps :: "nat \<Rightarrow> service_stamp list compile_result"
  vc_clean :: "bytes \<Rightarrow> bool"

record decision_record =
  dn_capsule :: capsule_ref
  dn_atom_id :: pystr
  dn_outcome :: pystr
  dn_reason :: pystr

record view_report =
  vr_ok :: bool
  vr_codes :: "pystr list"

record view_manifest =
  vm_compiler_version :: pystr
  vm_metadata :: "(pystr \<times> pystr) list"
  vm_permission_digest :: pystr
  vm_capsules :: "capsule_ref list"
  vm_decisions :: "decision_record list"
  vm_providers :: "provider_witness list"
  vm_closure :: "closure_link list"
  vm_conflicts :: "conflict list"
  vm_expanded_evidence :: "pystr list"
  vm_rejected_counts :: counts
  vm_services :: "service_stamp list"
  vm_tokens :: token_accounting
  vm_validation :: view_report

record compiled_capsule_view =
  kv_content :: pystr
  kv_manifest :: view_manifest
  kv_validation :: view_report
  kv_evidence_handles :: "evidence_handle list"

record compilation =
  cs_request :: "compile_request option"
  cs_admission :: "admission_result option"
  cs_graph :: "resolved_graph option"
  cs_services :: "service_stamp list"
  cs_ranked :: "ranked_atom list"
  cs_evidence :: "(pystr \<times> evidence_material list) list"
  cs_selected :: "pystr set"
  cs_reasons :: "(pystr \<times> pystr) list"
  cs_expanded :: "pystr list"
  cs_tokens :: token_accounting
  cs_content :: pystr
  cs_metadata :: "(pystr \<times> pystr) list"
  cs_conflicts :: "conflict list"

definition no_tokens :: "int \<Rightarrow> token_accounting" where
  "no_tokens available = \<lparr> ta_total = 0, ta_available = available, ta_sections = [], ta_boundary_adjustment = 0 \<rparr>"

definition new_compilation :: compilation where
  "new_compilation = \<lparr> cs_request = None, cs_admission = None, cs_graph = None, cs_services = [], cs_ranked = [],
     cs_evidence = [], cs_selected = {}, cs_reasons = [], cs_expanded = [], cs_tokens = no_tokens 0,
     cs_content = [], cs_metadata = [], cs_conflicts = [] \<rparr>"

text \<open>A step that may raise, with the state it leaves.\<close>

type_synonym 'a session = "compilation \<Rightarrow> 'a compile_result \<times> compilation"

definition s_bind :: "'a session \<Rightarrow> ('a \<Rightarrow> 'b session) \<Rightarrow> 'b session" where
  "s_bind m f s = (case m s of (Inl e, s') \<Rightarrow> (Inl e, s') | (Inr x, s') \<Rightarrow> f x s')"

definition s_lift :: "'a compile_result \<Rightarrow> 'a session" where
  "s_lift r s = (r, s)"

definition s_update :: "(compilation \<Rightarrow> compilation) \<Rightarrow> unit session" where
  "s_update f s = (Inr (), f s)"

definition s_check :: "bool \<Rightarrow> pystr \<Rightarrow> unit session" where
  "s_check ok code s = (if ok then (Inr (), s) else (Inl (CompileError code), s))"

fun s_each :: "('a \<Rightarrow> unit session) \<Rightarrow> 'a list \<Rightarrow> unit session" where
  "s_each f [] = (\<lambda>s. (Inr (), s))"
| "s_each f (x # xs) = s_bind (f x) (\<lambda>_. s_each f xs)"

section \<open>Request identity\<close>

definition view_budget_json :: "view_budget \<Rightarrow> json" where
  "view_budget_json b = JObj
    [(''model_input_tokens'', JInt (vb_model_input_tokens b)), (''system_tokens'', JInt (vb_system_tokens b)),
     (''conversation_tokens'', JInt (vb_conversation_tokens b)), (''tools_tokens'', JInt (vb_tools_tokens b)),
     (''safety_headroom_tokens'', JInt (vb_safety_headroom_tokens b))]"

text \<open>The projections of \<^verbatim>\<open>validate/artifacts.py\<close>; \<open>compile_request_projection\<close> writes the same form
  inline.\<close>

definition core_projection :: "core_capsule \<Rightarrow> json" where
  "core_projection c = JObj (filter (\<lambda>(k, v). k \<notin> {''derived_artifacts'', ''runtime_sidecar''}) (capsule_wire_dict c))"

definition publication_projection :: "published_capsule \<Rightarrow> json" where
  "publication_projection p = JObj [(''capsule'', core_projection (pc_capsule p)),
     (''registry_status'', JStr (pc_registry_status p))]"

definition compile_request_projection :: "compile_request \<Rightarrow> json" where
  "compile_request_projection q = JObj
    [(''capsules'', JList (map publication_projection
       (sort_key (\<lambda>p. let m = cc_control_manifest (pc_capsule p) in
          (cm_capsule_id m, cm_version m, cm_content_digest m)) (rq_capsules q)))),
     (''task'', view_task_json (rq_task q)),
     (''principal'', JObj [(''principal_id'', JStr (rq_principal q))]),
     (''budget'', view_budget_json (rq_budget q)),
     (''as_of'', JStr (rq_as_of q)), (''model_id'', JStr (rq_model_id q)),
     (''tokenizer_profile'', JStr (rq_tokenizer_profile q)),
     (''renderer_version'', JStr (rq_renderer_version q)),
     (''runtime_config'', JObj (rq_runtime_config q))]"

definition request_digest :: "resolve_env \<Rightarrow> compile_request \<Rightarrow> pystr" where
  "request_digest E q = snapshot_digest E (compile_request_projection q)"

definition request_metadata :: "resolve_env \<Rightarrow> compile_request \<Rightarrow> (pystr \<times> pystr) list" where
  "request_metadata E q =
    [(''task_id'', tk_task_id (rq_task q)), (''tenant'', tk_tenant (rq_task q)),
     (''repository'', tk_repository (rq_task q)), (''as_of'', rq_as_of q),
     (''task_digest'', snapshot_digest E (view_task_json (rq_task q))), (''request_digest'', request_digest E q),
     (''model_id'', rq_model_id q), (''tokenizer_profile'', rq_tokenizer_profile q),
     (''renderer_version'', rq_renderer_version q)]"

text \<open>\<open>validate_request\<close>: revalidation, then the scan of everything the caller supplies in the open.\<close>

definition validate_request :: "resolve_env \<Rightarrow> view_compiler \<Rightarrow> compile_request \<Rightarrow> unit compile_result" where
  "validate_request E C q =
    (if \<not> compile_request_valid E q then Inl (CompileError ''COMPILATION_FAILED'')
     else if \<not> vc_clean C (rv_dumps E (JObj
       [(''task'', view_task_json (rq_task q)), (''principal'', JStr (rq_principal q)),
        (''model_id'', JStr (rq_model_id q)), (''tokenizer_profile'', JStr (rq_tokenizer_profile q)),
        (''renderer_version'', JStr (rq_renderer_version q)), (''runtime_config'', JObj (rq_runtime_config q))]))
     then Inl (CompileError ''SECRET_DETECTED'') else Inr ())"

section \<open>Configuration\<close>

definition json_digest_text :: "json \<Rightarrow> pystr compile_result" where
  "json_digest_text v = (case v of JStr s \<Rightarrow> if is_digest s then Inr s else Inl (CompileError ''COMPILATION_FAILED'')
     | _ \<Rightarrow> Inl (CompileError ''COMPILATION_FAILED''))"

definition expansion_ids :: "compile_request \<Rightarrow> pystr list \<Rightarrow> pystr list compile_result" where
  "expansion_ids q configured =
    (if set (dict_keys (rq_runtime_config q)) - {''expanded_handles''} \<noteq> {} then Inl (CompileError ''INVALID_CONFIGURATION'')
     else case (case map_of (rq_runtime_config q) ''expanded_handles'' of None \<Rightarrow> JList [] | Some v \<Rightarrow> v) of
       JList requested \<Rightarrow>
         res_bind (res_map json_digest_text (requested @ map JStr configured)) (\<lambda>ids. Inr (unique_strings ids))
     | _ \<Rightarrow> Inl (CompileError ''INVALID_CONFIGURATION''))"

definition configure :: "view_compiler \<Rightarrow> compile_request \<Rightarrow> unit session" where
  "configure C q =
     s_bind (s_check (ct_model_id (vc_counter C) = rq_model_id q \<and> ct_profile (vc_counter C) = rq_tokenizer_profile q \<and>
               vc_renderer_version C = rq_renderer_version q) ''INVALID_CONFIGURATION'') (\<lambda>_.
     s_bind (s_lift (expansion_ids q (vc_renderer_handles C))) (\<lambda>ids.
     s_bind (s_update (\<lambda>s. s \<lparr> cs_expanded := ids \<rparr>)) (\<lambda>_.
     s_bind (s_lift (vc_stamps C 0)) (\<lambda>stamps. s_update (\<lambda>s. s \<lparr> cs_services := stamps \<rparr>)))))"

section \<open>Evidence\<close>

definition text_sha256 :: "resolve_env \<Rightarrow> pystr \<Rightarrow> pystr" where
  "text_sha256 E text = ''sha256:'' @ to_hex (rv_sha256 E text)"

definition material_json :: "evidence_material \<Rightarrow> json" where
  "material_json m = JObj [(''handle'', evidence_handle_json (em_handle m)), (''excerpt'', JStr (em_excerpt m)),
     (''full_text'', JStr (em_full_text m))]"

definition verify_source ::
  "resolve_env \<Rightarrow> view_compiler \<Rightarrow> evidence_material \<Rightarrow> pystr \<Rightarrow> pystr \<Rightarrow> unit compile_result" where
  "verify_source E C source atom_id owner =
    (let h = em_handle source in
     if capsule_ref_key (eh_capsule h) \<noteq> owner \<or> atom_id \<notin> set (eh_atom_ids h) \<or>
        text_sha256 E (em_full_text source) \<noteq> eh_content_digest h
     then Inl (CompileError ''EVIDENCE_INTEGRITY'')
     else if (case eh_span_digest h of None \<Rightarrow> False | Some d \<Rightarrow> text_sha256 E (em_excerpt source) \<noteq> d)
     then Inl (CompileError ''EVIDENCE_INTEGRITY'')
     else if \<not> vc_clean C (rv_dumps E (material_json source)) then Inl (CompileError ''SECRET_DETECTED'')
     else Inr ())"

definition verify_binding ::
  "resolve_env \<Rightarrow> view_compiler \<Rightarrow> resolved_graph \<Rightarrow> evidence_material \<Rightarrow> pystr \<Rightarrow> unit compile_result" where
  "verify_binding E C G source owner =
    (let h = em_handle source;
         records = (case map_of (rg_publications G) owner of None \<Rightarrow> [] | Some p \<Rightarrow> evidence_by_id (pc_capsule p)) in
     case map_of records (eh_evidence_id h) of
       None \<Rightarrow> Inl (CompileError ''EVIDENCE_INTEGRITY'')
     | Some r \<Rightarrow>
         (let members = sort (filter (\<lambda>i. \<exists>ref \<in> set (case map_of (rg_owners G) i of None \<Rightarrow> [] | Some refs \<Rightarrow> refs).
                capsule_ref_key ref = owner) (er_atom_ids r)) in
          res_bind (vc_span C r (em_full_text source)) (\<lambda>(excerpt, span_digest).
            if eh_atom_ids h \<noteq> members \<or> eh_content_digest h \<noteq> er_content_digest r \<or>
               eh_mode h \<noteq> evidence_mode_text (er_mode r) \<or> eh_span_digest h \<noteq> span_digest \<or>
               eh_resolver_version h \<noteq> vc_evidence_version C \<or> em_excerpt source \<noteq> excerpt
            then Inl (CompileError ''EVIDENCE_INTEGRITY'') else Inr ())))"

definition owner_sources ::
  "resolve_env \<Rightarrow> view_compiler \<Rightarrow> nat \<Rightarrow> resolved_graph \<Rightarrow> core_atom \<Rightarrow> (pystr \<times> evidence_material) list \<Rightarrow>
   capsule_ref \<Rightarrow> (pystr \<times> evidence_material) list compile_result" where
  "owner_sources E C i G atom materials owner =
    (case map_of (rg_publications G) (capsule_ref_key owner) of
       None \<Rightarrow> Inl (CompileError ''COMPILATION_FAILED'')
     | Some p \<Rightarrow>
         res_bind (vc_sources C i p atom) (\<lambda>sources.
           if sources = [] then Inl (CompileError ''EVIDENCE_INTEGRITY'')
           else res_bind (res_fold (\<lambda>d source.
               res_bind (verify_source E C source (at_atom_id atom) (capsule_ref_key owner)) (\<lambda>_.
               res_bind (verify_binding E C G source (capsule_ref_key owner)) (\<lambda>_.
                 Inr (AList.update (material_id E source) source d)))) materials sources) (\<lambda>d.
             if (\<lambda>s. eh_evidence_id (em_handle s)) ` set sources \<noteq> set (at_evidence_refs atom)
             then Inl (CompileError ''EVIDENCE_INTEGRITY'') else Inr d)))"

definition graph_sources ::
  "resolve_env \<Rightarrow> view_compiler \<Rightarrow> nat \<Rightarrow> resolved_graph \<Rightarrow> (pystr \<times> evidence_material list) list compile_result" where
  "graph_sources E C i G =
     res_map (\<lambda>(atom_id, atom).
       res_bind (res_fold (owner_sources E C i G atom) []
           (case map_of (rg_owners G) atom_id of None \<Rightarrow> [] | Some refs \<Rightarrow> refs)) (\<lambda>materials.
         Inr (atom_id, sorted_values materials))) (rg_atoms G)"

section \<open>Ranking and rendering\<close>

fun check_ranking :: "resolved_graph \<Rightarrow> ranked_atom list \<Rightarrow> pystr set \<Rightarrow> bool" where
  "check_ranking G [] seen = True"
| "check_ranking G (r # rest) seen =
     (at_atom_id (ra_atom r) \<notin> seen \<and> map_of (rg_atoms G) (at_atom_id (ra_atom r)) = Some (ra_atom r) \<and>
      check_ranking G rest (insert (at_atom_id (ra_atom r)) seen))"

definition rank_session :: "view_compiler \<Rightarrow> resolved_graph \<Rightarrow> compile_request \<Rightarrow> unit session" where
  "rank_session C G q s = (case vc_rank C (dict_values (rg_atoms G)) (rq_task q) of
      Inl e \<Rightarrow> (Inl (CompileError ''RANKING_FAILED''), s)
    | Inr results \<Rightarrow>
        if length results \<noteq> length (rg_atoms G) \<or> \<not> check_ranking G results {}
        then (Inl (CompileError ''RANKING_FAILED''), s)
        else (Inr (), s \<lparr> cs_ranked := results \<rparr>))"

definition render_selection ::
  "resolve_env \<Rightarrow> view_compiler \<Rightarrow> compile_request \<Rightarrow> compilation \<Rightarrow> pystr set \<Rightarrow> pystr list \<Rightarrow>
   (pystr \<times> token_accounting) compile_result" where
  "render_selection E C q s selected ids =
    (let atoms = filter (\<lambda>r. at_atom_id (ra_atom r) \<in> selected) (cs_ranked s);
         sources = dict_by (material_id E) (concat (map (\<lambda>i. case map_of (cs_evidence s) i of None \<Rightarrow> [] | Some ms \<Rightarrow> ms)
           (sorted_list_of_set selected)));
         material = sorted_values sources in
     if \<not> set ids \<subseteq> set (dict_keys sources) then Inl (CompileError ''EVIDENCE_UNAVAILABLE'')
     else res_bind (res_map (\<lambda>i. let source = the (map_of sources i) in
           res_bind (vc_expand C (em_handle source)) (\<lambda>refreshed.
             if refreshed \<noteq> source then Inl (CompileError ''EVIDENCE_INTEGRITY'') else Inr ())) ids) (\<lambda>_.
       res_bind (vc_render C ids (rq_task q) atoms material) (\<lambda>sections.
       res_bind (neutral_render E (vc_clean C) ids (rq_task q) atoms material) (\<lambda>expected.
         if sections \<noteq> expected then Inl (CompileError ''RENDERING_FAILED'')
         else res_bind (rendered_content sections) (\<lambda>content.
              res_bind (account_tokens sections (vc_counter C) (rq_budget q)) (\<lambda>tokens. Inr (content, tokens)))))))"

section \<open>Selection\<close>

definition set_reasons :: "(pystr \<Rightarrow> pystr) \<Rightarrow> pystr set \<Rightarrow> (pystr \<times> pystr) list \<Rightarrow> (pystr \<times> pystr) list" where
  "set_reasons reason ids d = foldl (\<lambda>d i. AList.update i (reason i) d) d (sorted_list_of_set ids)"

definition close_checked :: "resolved_graph \<Rightarrow> pystr set \<Rightarrow> pystr set session" where
  "close_checked G wanted =
     s_bind (s_lift (close_atoms G wanted)) (\<lambda>chosen.
     s_bind (s_lift (conflicts_for G chosen)) (\<lambda>conflicts.
     s_bind (s_update (\<lambda>s. s \<lparr> cs_conflicts := conflicts \<rparr>)) (\<lambda>_.
     s_bind (s_check (conflicts = []) ''CONFLICT'') (\<lambda>_. s_lift (Inr chosen)))))"

definition mandatory_atoms ::
  "resolve_env \<Rightarrow> view_compiler \<Rightarrow> compile_request \<Rightarrow> resolved_graph \<Rightarrow> pystr set \<Rightarrow> pystr \<Rightarrow> pystr \<Rightarrow> unit session" where
  "mandatory_atoms E C q G seeds reason overflow =
     s_bind (\<lambda>s. close_checked G (cs_selected s \<union> seeds) s) (\<lambda>chosen.
     s_bind (s_update (\<lambda>s. s \<lparr> cs_reasons := set_reasons
         (\<lambda>i. if i \<in> seeds then reason else ''DEPENDENCY_REQUIRED'') (chosen - cs_selected s) (cs_reasons s),
         cs_selected := chosen \<rparr>)) (\<lambda>_.
     s_bind (\<lambda>s. s_lift (render_selection E C q s chosen []) s) (\<lambda>(content, tokens).
     s_bind (s_update (\<lambda>s. s \<lparr> cs_content := content, cs_tokens := tokens \<rparr>)) (\<lambda>_.
       s_check (\<not> ta_total tokens > ta_available tokens) overflow))))"

definition consider_atom ::
  "resolve_env \<Rightarrow> view_compiler \<Rightarrow> compile_request \<Rightarrow> resolved_graph \<Rightarrow> ranked_atom \<Rightarrow> unit session" where
  "consider_atom E C q G item = (let atom_id = at_atom_id (ra_atom item) in
    (\<lambda>s. if atom_id \<in> cs_selected s \<or> \<not> ra_matched item then (Inr (), s)
     else s_bind (\<lambda>s. close_checked G (cs_selected s \<union> {atom_id}) s) (\<lambda>chosen.
          s_bind (\<lambda>s. s_lift (render_selection E C q s chosen []) s) (\<lambda>(content, tokens).
            s_update (\<lambda>s.
              if ta_total tokens > ta_available tokens
              then s \<lparr> cs_reasons := AList.update atom_id ''BUDGET_EXCLUDED'' (cs_reasons s) \<rparr>
              else s \<lparr> cs_reasons := set_reasons (\<lambda>i. if i = atom_id then ''RELEVANT'' else ''DEPENDENCY_REQUIRED'')
                       (chosen - cs_selected s) (cs_reasons s),
                       cs_selected := chosen, cs_content := content, cs_tokens := tokens \<rparr>))) s))"

definition expand_selection ::
  "resolve_env \<Rightarrow> view_compiler \<Rightarrow> compile_request \<Rightarrow> unit session" where
  "expand_selection E C q = (\<lambda>s.
     if cs_expanded s = [] then (Inr (), s)
     else s_bind (\<lambda>s. s_lift (render_selection E C q s (cs_selected s) (cs_expanded s)) s) (\<lambda>(content, tokens).
          s_bind (s_update (\<lambda>s. s \<lparr> cs_content := content, cs_tokens := tokens \<rparr>)) (\<lambda>_.
            s_check (\<not> ta_total tokens > ta_available tokens) ''EXPANSION_OVERFLOW'')) s)"

definition select_atoms_session ::
  "resolve_env \<Rightarrow> view_compiler \<Rightarrow> compile_request \<Rightarrow> resolved_graph \<Rightarrow> unit session" where
  "select_atoms_session E C q G =
     s_bind (s_update (\<lambda>s. s \<lparr> cs_reasons := map (\<lambda>(i, a). (i, ''NOT_RELEVANT'')) (rg_atoms G) \<rparr>)) (\<lambda>_.
     s_bind (mandatory_atoms E C q G (fst ` set (filter (\<lambda>(i, a). at_compression_class a = ''P0_EXACT'') (rg_atoms G)))
         ''P0_REQUIRED'' ''P0_OVERFLOW'') (\<lambda>_.
     s_bind (\<lambda>s. mandatory_atoms E C q G
         (at_atom_id ` ra_atom ` set (filter (\<lambda>r. ra_matched r \<and> at_compression_class (ra_atom r) = ''P1_STRUCTURED'') (cs_ranked s)) \<union>
          set (tk_required_atom_ids (rq_task q)) \<union> rg_root_atom_ids G) ''TASK_REQUIRED'' ''P1_OVERFLOW'' s) (\<lambda>_.
     s_bind (\<lambda>s. s_each (consider_atom E C q G) (sort_key (\<lambda>r. at_compression_class (ra_atom r)) (cs_ranked s)) s) (\<lambda>_.
       expand_selection E C q))))"

section \<open>Final checks\<close>

definition final_checks ::
  "resolve_env \<Rightarrow> view_compiler \<Rightarrow> resolved_graph \<Rightarrow> compile_request \<Rightarrow> unit session" where
  "final_checks E C G q s =
     s_bind (s_check (map_of (cs_metadata s) ''request_digest'' = Some (request_digest E q)) ''INVALID_REQUEST'') (\<lambda>_.
     s_bind (s_lift (close_atoms G (cs_selected s))) (\<lambda>again.
     s_bind (s_check (again = cs_selected s \<and> rg_root_atom_ids G \<subseteq> cs_selected s \<and>
               set (tk_required_atom_ids (rq_task q)) \<subseteq> cs_selected s) ''FINAL_PRESERVATION_FAILED'') (\<lambda>_.
     s_bind (s_lift (conflicts_for G (cs_selected s))) (\<lambda>conflicts.
     s_bind (s_check (conflicts = []) ''FINAL_PRESERVATION_FAILED'') (\<lambda>_.
     s_bind (s_lift (graph_sources E C 1 G)) (\<lambda>evidence.
     s_bind (s_check (evidence = cs_evidence s) ''EVIDENCE_INTEGRITY'') (\<lambda>_.
     s_bind (s_lift (vc_stamps C 1)) (\<lambda>stamps.
     s_bind (s_check (stamps = cs_services s) ''SERVICE_SNAPSHOT_CHANGED'') (\<lambda>_.
     s_bind (s_lift (resolve E (vc_resolver C 1) (rq_capsules q) (rq_task q) (rq_principal q))) (\<lambda>admission.
       s_check (cs_admission s = Some admission) ''POLICY_SNAPSHOT_CHANGED'')))))))))) s"

section \<open>Manifest\<close>

definition compiler_version :: pystr where
  "compiler_version = ''0.1.2''"

definition empty_digest :: pystr where
  "empty_digest = ''sha256:'' @ replicate 64 (CHR ''0'')"

definition default_metadata :: "(pystr \<times> pystr) list" where
  "default_metadata =
    [(''task_id'', ''invalid-request''), (''tenant'', ''invalid-request''), (''repository'', ''invalid-request''),
     (''as_of'', ''1970-01-01T00:00:00Z''), (''task_digest'', empty_digest), (''request_digest'', empty_digest),
     (''model_id'', ''invalid-request''), (''tokenizer_profile'', ''invalid-request''),
     (''renderer_version'', ''invalid-request'')]"

definition session_metadata :: "compilation \<Rightarrow> (pystr \<times> pystr) list" where
  "session_metadata s = foldl (\<lambda>d (k, v). AList.update k v d) default_metadata (cs_metadata s)"

definition compiler_stamp :: "resolve_env \<Rightarrow> service_stamp" where
  "compiler_stamp E = \<lparr> ss_name = ''compiler'', ss_version = compiler_version,
     ss_config_digest = snapshot_digest E (JObj [(''profile'', JStr ''CCS-2.1-m4-collective-interfaces-v1''),
       (''version'', JStr compiler_version)]) \<rparr>"

text \<open>\<open>_withheld_manifest\<close>: nothing of an invalidated snapshot is exported.\<close>

definition withheld_manifest :: "resolve_env \<Rightarrow> compilation \<Rightarrow> view_report \<Rightarrow> view_manifest" where
  "withheld_manifest E s report =
     \<lparr> vm_compiler_version = compiler_version,
       vm_metadata = AList.update ''request_digest'' empty_digest (session_metadata s),
       vm_permission_digest = empty_digest, vm_capsules = [], vm_decisions = [], vm_providers = [],
       vm_closure = [], vm_conflicts = [], vm_expanded_evidence = [],
       vm_rejected_counts = [(''AUTHORIZATION_SNAPSHOT_INVALIDATED'',
         case cs_admission s of None \<Rightarrow> 0 | Some a \<Rightarrow> length (ar_items a))],
       vm_services = [compiler_stamp E], vm_tokens = no_tokens (ta_available (cs_tokens s)),
       vm_validation = report \<rparr>"

abbreviation atom_owners :: "resolved_graph \<Rightarrow> pystr \<Rightarrow> capsule_ref list" where
  "atom_owners G i \<equiv> (case map_of (rg_owners G) i of None \<Rightarrow> [] | Some refs \<Rightarrow> refs)"

definition participating :: "compilation \<Rightarrow> (pystr \<times> capsule_ref) list" where
  "participating s = (case cs_graph s of None \<Rightarrow> []
     | Some G \<Rightarrow> dict_by capsule_ref_key (concat (map (atom_owners G) (sorted_list_of_set (cs_selected s)))))"

definition decisions :: "compilation \<Rightarrow> decision_record list" where
  "decisions s = (case cs_graph s of None \<Rightarrow> []
     | Some G \<Rightarrow> concat (map (\<lambda>(i, a). map (\<lambda>ref. \<lparr> dn_capsule = ref, dn_atom_id = i,
          dn_outcome = (if i \<in> cs_selected s then ''selected'' else ''excluded''),
          dn_reason = (case map_of (cs_reasons s) i of None \<Rightarrow> ''COMPILATION_BLOCKED'' | Some r \<Rightarrow> r) \<rparr>)
        (atom_owners G i)) (rg_atoms G)))"

text \<open>\<open>str.replace(old, new, 1)\<close> on a text that starts with \<open>old\<close> or does not contain it.\<close>

definition realized_text :: "closure_link \<Rightarrow> pystr" where
  "realized_text l = ''requires:'' @ lk_source l @ ''->'' @
     (if startswith (lk_target l) ''__ccs_m4__:unit:''
      then ''__ccs_m4__:presence:'' @ removeprefix ''__ccs_m4__:unit:'' (lk_target l) else lk_target l)"

definition manifest_services :: "resolve_env \<Rightarrow> compilation \<Rightarrow> service_stamp list" where
  "manifest_services E s = cs_services s @ [compiler_stamp E] @
     (case cs_graph s of None \<Rightarrow> [] | Some G \<Rightarrow>
        [\<lparr> ss_name = ''graph'', ss_version = ''1.0.1'', ss_config_digest = rg_config_digest G \<rparr>]) @
     (case cs_admission s of None \<Rightarrow> [] | Some a \<Rightarrow>
        [\<lparr> ss_name = ''eligibility'', ss_version = ''1.0.0'', ss_config_digest = snapshot_digest E (JObj
            [(''permission'', JStr (ar_permission_digest a)), (''freshness'', JStr (ar_freshness_digest a))]) \<rparr>])"

definition service_stamp_json :: "service_stamp \<Rightarrow> json" where
  "service_stamp_json s = JObj [(''name'', JStr (ss_name s)), (''version'', JStr (ss_version s)),
     (''config_digest'', JStr (ss_config_digest s))]"

definition closure_link_json :: "closure_link \<Rightarrow> json" where
  "closure_link_json l = JObj [(''source'', JStr (lk_source l)), (''target'', JStr (lk_target l))]"

definition conflict_json :: "conflict \<Rightarrow> json" where
  "conflict_json c = JObj [(''source'', JStr (cf_source c)), (''target'', JStr (cf_target c)), (''reason'', JStr (cf_reason c))]"

text \<open>\<open>_ordered\<close> and the other field validators of \<open>ViewManifest\<close> put the sets in a canonical order.\<close>

definition ordered_by :: "resolve_env \<Rightarrow> ('a \<Rightarrow> json) \<Rightarrow> 'a list \<Rightarrow> 'a list" where
  "ordered_by E f xs = sort_key (\<lambda>x. rv_dumps E (f x)) xs"

definition build_manifest ::
  "resolve_env \<Rightarrow> compilation \<Rightarrow> view_report \<Rightarrow> bool \<Rightarrow> view_manifest compile_result" where
  "build_manifest E s report redact =
    (if redact then Inr (withheld_manifest E s report)
     else
       let refs = dict_values (participating s);
           links = (case cs_graph s of None \<Rightarrow> Inr [] | Some G \<Rightarrow> closure_links G (cs_selected s)) in
       res_bind (case cs_graph s of None \<Rightarrow> Inr [] | Some G \<Rightarrow>
           if list_ex (\<lambda>w. (case wt_consumer w of None \<Rightarrow> True | Some c \<Rightarrow> capsule_ref_key c \<in> set (dict_keys (participating s))) \<and>
                set (wt_atom_ids w) \<subseteq> cs_selected s \<and> startswith (wt_requirement w) ''requires:'') (rg_providers G)
           then links else Inr []) (\<lambda>realized.
       res_bind (if vr_ok report \<and> cs_graph s \<noteq> None then links else Inr []) (\<lambda>closure.
         Inr \<lparr> vm_compiler_version = compiler_version, vm_metadata = session_metadata s,
           vm_permission_digest = (case cs_admission s of None \<Rightarrow> empty_digest | Some a \<Rightarrow> ar_permission_digest a),
           vm_capsules = (if distinct (map cr_capsule_id refs) then sort_key capsule_ref_key refs else []),
           vm_decisions = sort_key (\<lambda>d. (capsule_ref_key (dn_capsule d), dn_atom_id d)) (decisions s),
           vm_providers = (case cs_graph s of None \<Rightarrow> [] | Some G \<Rightarrow> ordered_by E provider_witness_json
             (filter (\<lambda>w. (case wt_consumer w of None \<Rightarrow> True | Some c \<Rightarrow> capsule_ref_key c \<in> set (dict_keys (participating s))) \<and>
                set (wt_atom_ids w) \<subseteq> cs_selected s \<and>
                (\<not> startswith (wt_requirement w) ''requires:'' \<or> wt_requirement w \<in> realized_text ` set realized)) (rg_providers G))),
           vm_closure = ordered_by E closure_link_json closure,
           vm_conflicts = ordered_by E conflict_json (cs_conflicts s),
           vm_expanded_evidence = (if vr_ok report then cs_expanded s else []),
           vm_rejected_counts = (case cs_admission s of None \<Rightarrow> [] | Some a \<Rightarrow> ar_rejected_counts a),
           vm_services = ordered_by E service_stamp_json (manifest_services E s),
           vm_tokens = cs_tokens s, vm_validation = report \<rparr>)))"

section \<open>Results\<close>

text \<open>The validators of \<open>CompiledView\<close>.\<close>

definition compiled_view_valid :: "compiled_capsule_view \<Rightarrow> bool" where
  "compiled_view_valid v \<longleftrightarrow> kv_validation v = vm_validation (kv_manifest v) \<and>
     (\<not> vr_ok (kv_validation v) \<longrightarrow> kv_content v = []) \<and>
     (vr_ok (kv_validation v) \<longrightarrow> \<not> ta_total (vm_tokens (kv_manifest v)) > ta_available (vm_tokens (kv_manifest v)))"

definition session_result ::
  "resolve_env \<Rightarrow> compilation \<Rightarrow> view_report \<Rightarrow> bool \<Rightarrow> compiled_capsule_view compile_result" where
  "session_result E s report redact = res_bind (build_manifest E s report redact) (\<lambda>manifest.
     let handles = dict_by (handle_id E) (map em_handle (concat (map (\<lambda>i. case map_of (cs_evidence s) i of None \<Rightarrow> []
           | Some ms \<Rightarrow> ms) (sorted_list_of_set (cs_selected s))))) in
     let view = \<lparr> kv_content = (if vr_ok report then cs_content s else []), kv_manifest = manifest, kv_validation = report,
           kv_evidence_handles = (if vr_ok report then sorted_values handles else []) \<rparr> in
     if compiled_view_valid view then Inr view else Inl (CompileError ''COMPILATION_FAILED''))"

definition safe_codes :: "pystr set" where
  "safe_codes = {''INVALID_REQUEST'', ''INVALID_CONFIGURATION'', ''SECRET_DETECTED'', ''COMPILATION_FAILED'',
     ''INVALID_POLICY_SNAPSHOT'', ''POLICY_SNAPSHOT_CHANGED'', ''MISSING_ATOM'', ''MISSING_DEPENDENCY'',
     ''MISSING_INTERFACE'', ''AMBIGUOUS_PROVIDER'', ''INVALID_VERSION_CONSTRAINT'', ''INVALID_GRAPH'',
     ''DUPLICATE_ATOM'', ''AMBIGUOUS_GRAPH_NODE'', ''CONFLICT'', ''RANKING_FAILED'', ''RANKING_UNAVAILABLE'',
     ''EVIDENCE_UNAVAILABLE'', ''EVIDENCE_UNAUTHORIZED'', ''EVIDENCE_INTEGRITY'', ''TOKENIZER_UNAVAILABLE'',
     ''TOKENIZER_INTEGRITY'', ''RENDERING_FAILED'', ''P0_OVERFLOW'', ''P1_OVERFLOW'', ''EXPANSION_OVERFLOW'',
     ''REPLAY_MISMATCH'', ''SERVICE_SNAPSHOT_CHANGED'', ''FINAL_PRESERVATION_FAILED''}"

definition admission_is_current :: "resolve_env \<Rightarrow> view_compiler \<Rightarrow> compilation \<Rightarrow> bool" where
  "admission_is_current E C s = (case cs_admission s of None \<Rightarrow> True
     | Some admission \<Rightarrow> (case cs_request s of None \<Rightarrow> False
       | Some q \<Rightarrow>
           map_of (cs_metadata s) ''request_digest'' = Some (request_digest E q) \<and>
           resolve E (vc_resolver C 2) (rq_capsules q) (rq_task q) (rq_principal q) = Inr admission))"

definition failure ::
  "resolve_env \<Rightarrow> view_compiler \<Rightarrow> compilation \<Rightarrow> pystr \<Rightarrow> compiled_capsule_view compile_result" where
  "failure E C s code =
    (let safe = (if code \<in> safe_codes then code else ''COMPILATION_FAILED'');
         redact = (safe \<in> {''INVALID_POLICY_SNAPSHOT'', ''POLICY_SNAPSHOT_CHANGED'', ''EVIDENCE_UNAUTHORIZED''} \<or>
                   \<not> admission_is_current E C s)
     in session_result E s \<lparr> vr_ok = False, vr_codes = [safe] \<rparr> redact)"

definition decision_json :: "decision_record \<Rightarrow> json" where
  "decision_json d = JObj [(''capsule'', capsule_ref_json (dn_capsule d)), (''atom_id'', JStr (dn_atom_id d)),
     (''outcome'', JStr (dn_outcome d)), (''reason'', JStr (dn_reason d))]"

definition tokens_json :: "token_accounting \<Rightarrow> json" where
  "tokens_json t = JObj [(''total'', JInt (ta_total t)), (''available'', JInt (ta_available t)),
     (''sections'', JObj (map (\<lambda>(k, n). (k, JInt n)) (ta_sections t))),
     (''boundary_adjustment'', JInt (ta_boundary_adjustment t))]"

definition view_manifest_json :: "view_manifest \<Rightarrow> json" where
  "view_manifest_json m = JObj
    ([(''profile'', JStr ''CCS-2.1-m4-collective-interfaces-v1''), (''compiler_version'', JStr (vm_compiler_version m))] @
     map (\<lambda>(k, v). (k, JStr v)) (vm_metadata m) @
     [(''permission_digest'', JStr (vm_permission_digest m)),
      (''capsules'', JList (map capsule_ref_json (vm_capsules m))),
      (''decisions'', JList (map decision_json (vm_decisions m))),
      (''providers'', JList (map provider_witness_json (vm_providers m))),
      (''closure'', JList (map closure_link_json (vm_closure m))),
      (''conflicts'', JList (map conflict_json (vm_conflicts m))),
      (''expanded_evidence'', json_strings (vm_expanded_evidence m)),
      (''rejected_counts'', JObj (map (\<lambda>(k, n). (k, JInt (int n))) (vm_rejected_counts m))),
      (''services'', JList (map service_stamp_json (vm_services m))),
      (''tokens'', tokens_json (vm_tokens m)),
      (''validation'', JObj [(''valid'', JBool (vr_ok (vm_validation m))), (''blockers'', json_strings (vr_codes (vm_validation m)))])])"

definition view_manifest_digest :: "resolve_env \<Rightarrow> view_manifest \<Rightarrow> pystr" where
  "view_manifest_digest E m = ''sha256:'' @ to_hex (rv_sha256 E (rv_dumps E (view_manifest_json m)))"

section \<open>The transaction\<close>

text \<open>The end of \<open>run\<close>: the final checks, the result and the comparison with a recorded manifest.\<close>

definition finish_session ::
  "resolve_env \<Rightarrow> view_compiler \<Rightarrow> compile_request \<Rightarrow> resolved_graph \<Rightarrow> compiled_capsule_view session" where
  "finish_session E C q G =
     s_bind (final_checks E C G q) (\<lambda>_.
     s_bind (\<lambda>s. s_lift (session_result E s \<lparr> vr_ok = True, vr_codes = [] \<rparr> False) s) (\<lambda>result.
     s_bind (s_check (case rq_expected_manifest_digest q of None \<Rightarrow> True
         | Some d \<Rightarrow> view_manifest_digest E (kv_manifest result) = d) ''REPLAY_MISMATCH'') (\<lambda>_.
       s_lift (Inr result))))"

definition run_session :: "resolve_env \<Rightarrow> view_compiler \<Rightarrow> compile_request \<Rightarrow> compiled_capsule_view session" where
  "run_session E C q =
     s_bind (s_update (\<lambda>s. s \<lparr> cs_metadata := request_metadata E q, cs_request := Some q \<rparr>)) (\<lambda>_.
     s_bind (configure C q) (\<lambda>_.
     s_bind (s_lift (resolve E (vc_resolver C 0) (rq_capsules q) (rq_task q) (rq_principal q))) (\<lambda>admission.
     s_bind (s_update (\<lambda>s. s \<lparr> cs_admission := Some admission \<rparr>)) (\<lambda>_.
     s_bind (s_lift (resolve_graph E admission (rq_task q))) (\<lambda>G.
     s_bind (s_update (\<lambda>s. s \<lparr> cs_graph := Some G \<rparr>)) (\<lambda>_.
     s_bind (s_lift (graph_sources E C 0 G)) (\<lambda>evidence.
     s_bind (s_update (\<lambda>s. s \<lparr> cs_evidence := evidence \<rparr>)) (\<lambda>_.
     s_bind (s_lift (close_atoms G (rg_root_atom_ids G \<union> set (tk_required_atom_ids (rq_task q))))) (\<lambda>_.
     s_bind (rank_session C G q) (\<lambda>_.
     s_bind (select_atoms_session E C q G) (\<lambda>_.
       finish_session E C q G)))))))))))"

definition compile_capsule_view ::
  "resolve_env \<Rightarrow> view_compiler \<Rightarrow> compile_request \<Rightarrow> compiled_capsule_view compile_result" where
  "compile_capsule_view E C q =
    (case s_bind (s_lift (validate_request E C q)) (\<lambda>_. run_session E C q) new_compilation of
       (Inr view, s) \<Rightarrow> Inr view
     | (Inl e, s) \<Rightarrow> failure E C s (ce_code e))"

end
