(* ===== verification/Graph_Laws.thy ===== *)
theory Graph_Laws
  imports Graph
begin

text \<open>
  The assembly only grows: no step forgets an atom or an edge, and a mandatory edge stays
  mandatory. So every declaration an admitted atom makes is an edge of the resolved graph, and
  closing a selection in it respects the declarations of the atoms.
\<close>

section \<open>Growth\<close>

definition has_edge :: "assembly \<Rightarrow> pystr \<Rightarrow> pystr \<Rightarrow> pystr \<Rightarrow> bool" where
  "has_edge A s t k = (case map_of (sm_edges A) (s, t, k) of None \<Rightarrow> False | Some e \<Rightarrow> de_mandatory e)"

definition wf_assembly :: "assembly \<Rightarrow> bool" where
  "wf_assembly A \<longleftrightarrow> distinct (dict_keys (sm_edges A)) \<and> (\<forall>(k, e) \<in> set (sm_edges A). k = edge_key e) \<and>
     distinct (dict_keys (sm_atoms A)) \<and> (\<forall>(k, a) \<in> set (sm_atoms A). k = at_atom_id a)"

definition grows :: "assembly \<Rightarrow> assembly \<Rightarrow> bool" where
  "grows A B \<longleftrightarrow> sm_atoms B = sm_atoms A \<and> sm_publications B = sm_publications A \<and> sm_refs B = sm_refs A \<and>
     (\<forall>s t k. has_edge A s t k \<longrightarrow> has_edge B s t k) \<and> (wf_assembly A \<longrightarrow> wf_assembly B)"

named_theorems grow_intros \<open>steps under which an assembly grows\<close>

lemma grows_refl [simp, grow_intros]: "grows A A"
  by (simp add: grows_def)

lemma grows_trans: "grows A B \<Longrightarrow> grows B C \<Longrightarrow> grows A C"
  by (simp add: grows_def)

lemma dict_update_ok:
  assumes "distinct (dict_keys d)" and "\<forall>(k, e) \<in> set d. k = f e" and "k = f v"
  shows "distinct (dict_keys (AList.update k v d)) \<and> (\<forall>(k, e) \<in> set (AList.update k v d). k = f e)"
proof
  show "distinct (dict_keys (AList.update k v d))" by (rule distinct_update [OF assms(1)])
  show "\<forall>(k, e) \<in> set (AList.update k v d). k = f e"
    using assms(2,3) by (induction d) (auto split: if_splits)
qed

lemma add_edge_grows [grow_intros]: "grows A (add_edge A s t k m)"
proof -
  have "has_edge A s' t' k' \<Longrightarrow> has_edge (add_edge A s t k m) s' t' k'" for s' t' k'
    by (auto simp: has_edge_def add_edge_def Let_def update_conv' split: option.splits)
  moreover have "wf_assembly A \<Longrightarrow> wf_assembly (add_edge A s t k m)"
    unfolding wf_assembly_def add_edge_def Let_def
    by (simp, intro dict_update_ok) (auto simp: edge_key_def)
  ultimately show ?thesis by (simp add: grows_def) (simp add: add_edge_def Let_def)
qed

lemma has_edge_add: "has_edge (add_edge A s t k True) s t k"
  by (simp add: has_edge_def add_edge_def Let_def update_conv')

lemma providers_grow [grow_intros]: "grows A (A \<lparr> sm_providers := ps \<rparr>)"
  by (simp add: grows_def has_edge_def wf_assembly_def)

lemma add_witness_grows [grow_intros]: "grows A B \<Longrightarrow> grows A (add_witness c r p B)"
  unfolding add_witness_def by (rule grows_trans [OF _ providers_grow])

definition grows_step :: "(assembly \<Rightarrow> 'a \<Rightarrow> assembly compile_result) \<Rightarrow> bool" where
  "grows_step f \<longleftrightarrow> (\<forall>A x B. f A x = Inr B \<longrightarrow> grows A B)"

lemma grows_stepI: "(\<And>A x B. f A x = Inr B \<Longrightarrow> grows A B) \<Longrightarrow> grows_step f"
  by (simp add: grows_step_def)

lemma grows_stepD: "grows_step f \<Longrightarrow> f A x = Inr B \<Longrightarrow> grows A B"
  by (simp add: grows_step_def)

lemma res_fold_grows:
  assumes "grows_step f" and "res_fold f A xs = Inr B"
  shows "grows A B"
  by (rule res_fold_invariant [OF assms(2), where P = "grows A"])
    (auto intro: grows_trans grows_stepD [OF assms(1)])

lemma foldl_grows:
  assumes "\<And>A x. grows A (f A x)"
  shows "grows A (foldl f A xs)"
proof (induction xs arbitrary: A)
  case (Cons x xs)
  then show ?case using grows_trans [OF assms [of A x]] by simp
qed simp

lemma link_step_grows: "grows_step (link_step s t)"
  by (rule grows_stepI) (auto simp: link_step_def split: prod.splits if_splits intro: grow_intros)

lemma required_target_grows: "required_target A s t d = Inr (B, r) \<Longrightarrow> grows A B"
  by (auto simp: required_target_def Let_def res_bind_Inr_iff split: if_splits list.splits
      dest: res_fold_grows [OF link_step_grows])

lemma required_target_public: "required_target A s t d = Inr (B, r) \<Longrightarrow> \<not> is_private t \<Longrightarrow> r = t"
  by (auto simp: required_target_def Let_def res_bind_Inr_iff)

lemma root_step_grows: "root_step (A, rs) text = Inr (B, rs') \<Longrightarrow> grows A B"
  by (auto simp: root_step_def res_bind_Inr_iff intro: grow_intros)

lemma roots_grows:
  assumes "roots A task = Inr (B, rs)"
  shows "grows A B"
proof -
  from assms have "res_fold root_step (A, {}) (tk_required_interfaces task) = Inr (B, rs)"
    by (auto simp: roots_def res_bind_Inr_iff split: if_splits)
  then show ?thesis
    using res_fold_invariant [of root_step "(A, {})" _ "(B, rs)" "\<lambda>st. grows A (fst st)"] root_step_grows
    by (fastforce intro: grows_trans)
qed

lemma require_step_grows: "grows_step (require_step E c)"
  by (rule grows_stepI) (auto simp: require_step_def res_bind_Inr_iff intro: grow_intros)

lemma conflict_step_grows: "grows_step (conflict_step E c)"
  by (rule grows_stepI) (auto simp: conflict_step_def res_bind_Inr_iff intro!: foldl_grows grow_intros)

lemma manifest_step_grows: "grows_step (manifest_step E)"
  by (rule grows_stepI) (auto simp: manifest_step_def res_bind_Inr_iff Let_def split: prod.splits option.splits
      dest!: res_fold_grows [OF require_step_grows] res_fold_grows [OF conflict_step_grows] intro: grows_trans)

lemma manifests_grows:
  assumes "manifests E A = Inr B"
  shows "grows A B"
proof -
  from assms obtain A1 where A1: "res_fold (manifest_step E) A (sm_refs A) = Inr A1"
    and B: "B = foldl (\<lambda>A (left, right). if cr_capsule_id left = cr_capsule_id right
            then add_conflict A (presence left) (presence right) else A) A1 (combinations (dict_values (sm_refs A1)))"
    by (auto simp: manifests_def res_bind_Inr_iff)
  have "grows A1 B" unfolding B by (rule foldl_grows) (auto intro: grow_intros)
  with res_fold_grows [OF manifest_step_grows A1] show ?thesis by (rule grows_trans)
qed

lemma target_step_grows: "grows_step (target_step E e d s)"
  by (rule grows_stepI) (auto simp: target_step_def res_bind_Inr_iff split: if_splits prod.splits
      intro: grow_intros dest!: required_target_grows intro: grows_trans [OF _ add_edge_grows])

lemma source_step_grows: "grows_step (source_step E e d ts)"
  by (rule grows_stepI) (auto simp: source_step_def res_bind_Inr_iff split: if_splits dest: res_fold_grows [OF target_step_grows])

lemma explicit_edge_grows: "grows_step (explicit_edge E d)"
  by (rule grows_stepI) (auto simp: explicit_edge_def res_bind_Inr_iff Let_def split: if_splits
      dest: res_fold_grows [OF source_step_grows] grows_stepD [OF source_step_grows])

lemma publication_step_grows: "grows_step (publication_step E)"
  by (rule grows_stepI) (auto simp: publication_step_def dest: res_fold_grows [OF explicit_edge_grows])

lemma requires_step_grows: "grows_step (requires_step i)"
  by (rule grows_stepI) (auto simp: requires_step_def res_bind_Inr_iff split: if_splits dest!: required_target_grows
      intro: grows_trans [OF _ add_edge_grows])

lemma conflicts_step_grows: "grows_step (conflicts_step i)"
  by (rule grows_stepI) (auto simp: conflicts_step_def split: if_splits intro: grow_intros)

lemma atom_step_grows: "grows_step (atom_step)"
  by (rule grows_stepI) (auto simp: atom_step_def res_bind_Inr_iff intro: grows_trans
      dest!: res_fold_grows [OF requires_step_grows] res_fold_grows [OF conflicts_step_grows])

lemma atomic_edges_grows: "atomic_edges E A = Inr B \<Longrightarrow> grows A B"
  by (auto simp: atomic_edges_def res_bind_Inr_iff intro: grows_trans
      dest!: res_fold_grows [OF atom_step_grows] res_fold_grows [OF publication_step_grows])

section \<open>Declarations become edges\<close>

lemma keeps_edge: "grows A B \<Longrightarrow> has_edge A s t k \<Longrightarrow> has_edge B s t k"
  by (simp add: grows_def)

lemma requires_step_edge: "requires_step i A t = Inr B \<Longrightarrow> has_edge B i t ''requires'' \<and> \<not> is_private t"
  by (auto simp: requires_step_def res_bind_Inr_iff split: if_splits dest: required_target_public intro: has_edge_add)

lemma conflicts_step_edge: "conflicts_step i A t = Inr B \<Longrightarrow> has_edge B i t ''conflicts'' \<and> \<not> is_private t"
  by (auto simp: conflicts_step_def split: if_splits intro: has_edge_add)

lemma atom_step_edges:
  assumes "atom_step A a = Inr B"
  shows "t \<in> set (at_requires_atoms a) \<Longrightarrow> has_edge B (at_atom_id a) t ''requires'' \<and> \<not> is_private t"
    and "t \<in> set (at_conflicts_with a) \<Longrightarrow> has_edge B (at_atom_id a) t ''conflicts'' \<and> \<not> is_private t"
proof -
  from assms obtain A1 where A1: "res_fold (requires_step (at_atom_id a)) A (at_requires_atoms a) = Inr A1"
    and B: "res_fold (conflicts_step (at_atom_id a)) A1 (at_conflicts_with a) = Inr B"
    by (auto simp: atom_step_def res_bind_Inr_iff)
  { assume "t \<in> set (at_requires_atoms a)"
    then have "has_edge A1 (at_atom_id a) t ''requires'' \<and> \<not> is_private t"
      by (rule res_fold_establishes [OF A1]) (auto dest: requires_step_edge keeps_edge [OF grows_stepD [OF requires_step_grows]])
    then show "has_edge B (at_atom_id a) t ''requires'' \<and> \<not> is_private t"
      using keeps_edge [OF res_fold_grows [OF conflicts_step_grows B]] by blast }
  { assume "t \<in> set (at_conflicts_with a)"
    then show "has_edge B (at_atom_id a) t ''conflicts'' \<and> \<not> is_private t"
      by (rule res_fold_establishes [OF B]) (auto dest: conflicts_step_edge keeps_edge [OF grows_stepD [OF conflicts_step_grows]]) }
qed

lemma atomic_edges_declared:
  assumes "atomic_edges E A = Inr B" and "a \<in> set (dict_values (sm_atoms A))"
  shows "t \<in> set (at_requires_atoms a) \<Longrightarrow> has_edge B (at_atom_id a) t ''requires'' \<and> \<not> is_private t"
    and "t \<in> set (at_conflicts_with a) \<Longrightarrow> has_edge B (at_atom_id a) t ''conflicts'' \<and> \<not> is_private t"
proof -
  from assms(1) obtain A1 where A1: "res_fold atom_step A (dict_values (sm_atoms A)) = Inr A1"
    and B: "res_fold (publication_step E) A1 (dict_values (sm_publications A1)) = Inr B"
    by (auto simp: atomic_edges_def res_bind_Inr_iff)
  note keep = keeps_edge [OF res_fold_grows [OF publication_step_grows B]]
  { assume t: "t \<in> set (at_requires_atoms a)"
    have "has_edge A1 (at_atom_id a) t ''requires'' \<and> \<not> is_private t"
      by (rule res_fold_establishes [OF A1 assms(2)])
        (auto dest: atom_step_edges(1) [OF _ t] keeps_edge [OF grows_stepD [OF atom_step_grows]])
    with keep show "has_edge B (at_atom_id a) t ''requires'' \<and> \<not> is_private t" by blast }
  { assume t: "t \<in> set (at_conflicts_with a)"
    have "has_edge A1 (at_atom_id a) t ''conflicts'' \<and> \<not> is_private t"
      by (rule res_fold_establishes [OF A1 assms(2)])
        (auto dest: atom_step_edges(2) [OF _ t] keeps_edge [OF grows_stepD [OF atom_step_grows]])
    with keep show "has_edge B (at_atom_id a) t ''conflicts'' \<and> \<not> is_private t" by blast }
qed

lemma admit_atom_wf:
  assumes "admit_atom E r A a = Inr B" and "wf_assembly A"
  shows "wf_assembly B"
proof -
  let ?A1 = "\<lambda>owners. A \<lparr> sm_atoms := AList.update (at_atom_id a) a (sm_atoms A), sm_owners := owners \<rparr>"
  have wf: "wf_assembly (?A1 owners)" for owners
    using assms(2) unfolding wf_assembly_def
    using dict_update_ok [of "sm_atoms A" at_atom_id "at_atom_id a" a] by simp
  from assms(1) obtain owners where
    "B = add_requires (add_requires (?A1 owners) (at_atom_id a) (presence r)) (unit_node r) (at_atom_id a)"
    by (auto simp: admit_atom_def Let_def split: if_splits)
  moreover have "grows (?A1 owners) (add_requires (add_requires (?A1 owners) (at_atom_id a) (presence r)) (unit_node r) (at_atom_id a))"
    by (rule grows_trans [OF add_edge_grows add_edge_grows])
  ultimately show ?thesis using wf [of owners] by (simp add: grows_def)
qed

lemma inventory_wf:
  assumes "inventory E empty_assembly admission = Inr A"
  shows "wf_assembly A"
proof -
  from assms have fold: "res_fold (inventory_item E) empty_assembly
      (sort_key (\<lambda>item. capsule_ref_key (publication_ref (ad_published item))) (ar_items admission)) = Inr A"
    by (auto simp: inventory_def res_bind_Inr_iff split: if_splits)
  show ?thesis
  proof (rule res_fold_invariant [OF fold])
    show "wf_assembly empty_assembly" by (simp add: wf_assembly_def empty_assembly_def)
    fix A item B assume wf: "wf_assembly A" and step: "inventory_item E A item = Inr B"
    show "wf_assembly B"
      by (rule res_fold_invariant [OF step [unfolded inventory_item_def Let_def]])
        (use wf in \<open>simp add: wf_assembly_def\<close>, rule admit_atom_wf)
  qed
qed

section \<open>The resolved graph\<close>

definition graph_declares :: "resolved_graph \<Rightarrow> bool" where
  "graph_declares G \<longleftrightarrow> distinct (dict_keys (rg_atoms G)) \<and> distinct (map edge_key (rg_edges G)) \<and>
     (\<forall>(i, a) \<in> set (rg_atoms G). i = at_atom_id a \<and>
        (\<forall>t \<in> set (at_requires_atoms a). \<not> is_private t \<and> (i, t) \<in> mandatory_edges (rg_edges G)) \<and>
        (\<forall>t \<in> set (at_conflicts_with a). \<not> is_private t \<and>
           (\<exists>e \<in> set (rg_edges G). edge_key e = (i, t, ''conflicts''))))"

lemma map_of_edge_values:
  assumes "wf_assembly A"
  shows "set (map (\<lambda>key. the (map_of (sm_edges A) key)) (sort (dict_keys (sm_edges A)))) = set (dict_values (sm_edges A))"
    and "map edge_key (map (\<lambda>key. the (map_of (sm_edges A) key)) (sort (dict_keys (sm_edges A)))) = sort (dict_keys (sm_edges A))"
proof -
  have get: "map_of (sm_edges A) k = Some e" "edge_key e = k" if "(k, e) \<in> set (sm_edges A)" for k e
    using assms that by (auto simp: wf_assembly_def)
  show "set (map (\<lambda>key. the (map_of (sm_edges A) key)) (sort (dict_keys (sm_edges A)))) = set (dict_values (sm_edges A))"
    using get(1) by (force simp: image_iff)
  show "map edge_key (map (\<lambda>key. the (map_of (sm_edges A) key)) (sort (dict_keys (sm_edges A)))) = sort (dict_keys (sm_edges A))"
    unfolding map_map by (rule map_idI) (use get in force)
qed

lemma resolve_graph_declares:
  assumes "resolve_graph E admission task = Inr G"
  shows "graph_declares G"
proof -
  from assms obtain A1 A2 A3 A4 rs where
    A1: "inventory E empty_assembly admission = Inr A1" and A2: "roots A1 task = Inr (A2, rs)"
    and A3: "manifests E A2 = Inr A3" and A4: "atomic_edges E A3 = Inr A4"
    and atoms: "rg_atoms G = sort_key fst (sm_atoms A4)"
    and edges: "rg_edges G = map (\<lambda>key. the (map_of (sm_edges A4) key)) (sort (dict_keys (sm_edges A4)))"
    by (auto simp: resolve_graph_def res_bind_Inr_iff Let_def)
  have grow: "grows A1 A4" "grows A3 A4"
    using roots_grows [OF A2] manifests_grows [OF A3] atomic_edges_grows [OF A4] by (auto intro: grows_trans)
  then have wf: "wf_assembly A4" and same: "sm_atoms A4 = sm_atoms A3"
    using inventory_wf [OF A1] by (simp_all add: grows_def)
  have edge: "\<exists>e \<in> set (rg_edges G). edge_key e = (s, t, k) \<and> de_mandatory e" if "has_edge A4 s t k" for s t k
  proof -
    from that obtain e where e: "map_of (sm_edges A4) (s, t, k) = Some e" "de_mandatory e"
      by (auto simp: has_edge_def split: option.splits)
    from map_of_SomeD [OF e(1)] wf have "edge_key e = (s, t, k)" "e \<in> set (dict_values (sm_edges A4))"
      by (force simp: wf_assembly_def)+
    with e(2) show ?thesis unfolding edges map_of_edge_values(1) [OF wf] by blast
  qed
  have "distinct (dict_keys (rg_atoms G))"
    using wf by (simp add: atoms wf_assembly_def distinct_map inj_on_def)
  moreover have "distinct (map edge_key (rg_edges G))"
    using wf unfolding edges map_of_edge_values(2) [OF wf] by (simp add: wf_assembly_def)
  moreover have "i = at_atom_id a \<and>
        (\<forall>t \<in> set (at_requires_atoms a). \<not> is_private t \<and> (i, t) \<in> mandatory_edges (rg_edges G)) \<and>
        (\<forall>t \<in> set (at_conflicts_with a). \<not> is_private t \<and> (\<exists>e \<in> set (rg_edges G). edge_key e = (i, t, ''conflicts'')))"
    if "(i, a) \<in> set (rg_atoms G)" for i a
  proof -
    from that have mem: "(i, a) \<in> set (sm_atoms A4)" by (simp add: atoms)
    with wf have i: "i = at_atom_id a" by (auto simp: wf_assembly_def)
    from mem have a: "a \<in> set (dict_values (sm_atoms A3))" by (force simp: same)
    have "(i, t) \<in> mandatory_edges (rg_edges G)" "\<not> is_private t" if "t \<in> set (at_requires_atoms a)" for t
    proof -
      from atomic_edges_declared(1) [OF A4 a that] have "has_edge A4 i t ''requires''" "\<not> is_private t"
        by (simp_all add: i)
      from edge [OF this(1)] obtain e where "e \<in> set (rg_edges G)" "edge_key e = (i, t, ''requires'')" "de_mandatory e" by blast
      then show "(i, t) \<in> mandatory_edges (rg_edges G)"
        by (auto simp: mandatory_edges_def mandatory_edge_def edge_key_def)
      show "\<not> is_private t" by fact
    qed
    moreover have "\<not> is_private t \<and> (\<exists>e \<in> set (rg_edges G). edge_key e = (i, t, ''conflicts''))"
      if "t \<in> set (at_conflicts_with a)" for t
      using atomic_edges_declared(2) [OF A4 a that] edge [of i t "''conflicts''"] by (auto simp: i)
    ultimately show ?thesis using i by blast
  qed
  ultimately show ?thesis unfolding graph_declares_def by blast
qed

section \<open>Closing a selection\<close>

lemma private_nodes: "is_private (presence r)" "is_private (unit_node r)"
  by (simp_all add: presence_def unit_node_def startswith_def)

lemma closed_nodes_Inr:
  "closed_nodes G S = Inr N \<Longrightarrow> S \<subseteq> set (dict_keys (rg_atoms G)) \<and>
     N = resolve_dependency_closure S (rg_edges G) \<and> (\<forall>n \<in> N. n \<in> set (dict_keys (rg_atoms G)) \<or> is_private n)"
proof -
  assume "closed_nodes G S = Inr N"
  then have sub: "S \<subseteq> set (dict_keys (rg_atoms G))" and N: "N = resolve_dependency_closure S (rg_edges G)"
    and rest: "N - set (dict_keys (rg_atoms G)) - (\<Union>p \<in> set (dict_values (rg_publications G)).
      {presence (publication_ref p), unit_node (publication_ref p)}) = {}"
    unfolding closed_nodes_def Let_def by (simp_all split: if_splits)
  have "n \<in> set (dict_keys (rg_atoms G)) \<or> is_private n" if "n \<in> N" for n
    using rest that private_nodes by blast
  with sub N show ?thesis by blast
qed

lemma closed_nodes_finite: "closed_nodes G S = Inr N \<Longrightarrow> finite S"
  by (auto dest: closed_nodes_Inr intro: finite_subset [OF _ finite_set])

lemma close_atoms_sound:
  assumes "graph_declares G" and "close_atoms G S = Inr C"
  shows "S \<subseteq> C" and "C \<subseteq> set (dict_keys (rg_atoms G))"
    and "(i, a) \<in> set (rg_atoms G) \<Longrightarrow> i \<in> C \<Longrightarrow> set (at_requires_atoms a) \<subseteq> C"
proof -
  from assms(2) obtain N where N: "closed_nodes G S = Inr N" and C: "C = N \<inter> set (dict_keys (rg_atoms G))"
    by (auto simp: close_atoms_def res_bind_Inr_iff)
  note c = closed_nodes_Inr [OF N]
  have fin: "finite S" by (rule closed_nodes_finite [OF N])
  show "S \<subseteq> C" using c C rc.extensive [OF fin, of "rg_edges G"] by blast
  show "C \<subseteq> set (dict_keys (rg_atoms G))" using C by blast
  have cl: "closed_under (mandatory_edges (rg_edges G)) N" using c rc.closed [OF fin] by simp
  assume a: "(i, a) \<in> set (rg_atoms G)" "i \<in> C"
  show "set (at_requires_atoms a) \<subseteq> C"
  proof
    fix t assume "t \<in> set (at_requires_atoms a)"
    then have "\<not> is_private t" "(i, t) \<in> mandatory_edges (rg_edges G)"
      using assms(1) a(1) by (auto simp: graph_declares_def)
    moreover from this have "t \<in> N" using cl a(2) C by (auto simp: closed_under_def)
    ultimately show "t \<in> C" using c C by blast
  qed
qed

text \<open>A closed selection is closed again to itself.\<close>

lemma close_atoms_idem:
  assumes "close_atoms G S = Inr C"
  shows "close_atoms G C = Inr C"
proof -
  from assms obtain N where N: "closed_nodes G S = Inr N" and C: "C = N \<inter> set (dict_keys (rg_atoms G))"
    by (auto simp: close_atoms_def res_bind_Inr_iff)
  note c = closed_nodes_Inr [OF N]
  have fin: "finite S" by (rule closed_nodes_finite [OF N])
  have finC: "finite C" using C by simp
  let ?M = "resolve_dependency_closure C (rg_edges G)"
  have "?M \<subseteq> N" using c C rc.closed [OF fin] by (intro rc.least [OF finC]) auto
  moreover have "C \<subseteq> ?M" by (rule rc.extensive [OF finC])
  ultimately have "?M \<inter> set (dict_keys (rg_atoms G)) = C" using C by blast
  moreover have "closed_nodes G C = Inr ?M"
    using N \<open>?M \<subseteq> N\<close> C by (auto simp: closed_nodes_def Let_def split: if_splits)
  ultimately show ?thesis by (simp add: close_atoms_def)
qed

lemma detect_conflicts_Nil:
  "detect_conflicts S edges = [] \<Longrightarrow> e \<in> set edges \<Longrightarrow> de_edge_type e = ''conflicts'' \<Longrightarrow>
     \<not> (de_source e \<in> S \<and> de_target e \<in> S)"
  by (auto simp: detect_conflicts_def Let_def)

lemma conflicts_for_Nil:
  assumes "graph_declares G" and "close_atoms G S = Inr C" and "conflicts_for G S = Inr []"
    and "(i, a) \<in> set (rg_atoms G)" and "i \<in> C"
  shows "set (at_conflicts_with a) \<inter> C = {}"
proof -
  from assms(2) obtain N where N: "closed_nodes G S = Inr N" and C: "C = N \<inter> set (dict_keys (rg_atoms G))"
    by (auto simp: close_atoms_def res_bind_Inr_iff)
  with assms(3) have nil: "detect_conflicts N (rg_edges G) = []" by (simp add: conflicts_for_def)
  have "t \<notin> C" if "t \<in> set (at_conflicts_with a)" for t
  proof -
    from assms(1,4) that obtain e where "e \<in> set (rg_edges G)" "edge_key e = (i, t, ''conflicts'')"
      by (fastforce simp: graph_declares_def)
    with detect_conflicts_Nil [OF nil, of e] assms(5) C show ?thesis by (auto simp: edge_key_def)
  qed
  then show ?thesis by blast
qed

end
