(* ===== verification/Session_Laws.thy ===== *)
theory Session_Laws
  imports Session Graph_Laws
begin

text \<open>
  A weakest precondition for session steps, and with it the two invariants of a compilation:
  the selection can always be closed in its graph, also when a step raises; and once the
  mandatory atoms are in, the state is a consistent view within the budget.
\<close>

section \<open>Weakest preconditions\<close>

definition wp :: "'a session \<Rightarrow> ('a \<Rightarrow> compilation \<Rightarrow> bool) \<Rightarrow> (compilation \<Rightarrow> bool) \<Rightarrow> compilation \<Rightarrow> bool" where
  "wp m Q R s = (case m s of (Inr x, s') \<Rightarrow> Q x s' | (Inl e, s') \<Rightarrow> R s')"

named_theorems wp_simps \<open>weakest preconditions of the session primitives\<close>

lemma wp_bind [wp_simps]: "wp (s_bind m f) Q R s = wp m (\<lambda>x. wp (f x) Q R) R s"
  by (auto simp: wp_def s_bind_def split: prod.splits sum.splits)

lemma wp_lift [wp_simps]: "wp (s_lift r) Q R s = (case r of Inr x \<Rightarrow> Q x s | Inl e \<Rightarrow> R s)"
  by (simp add: wp_def s_lift_def split: sum.splits)

lemma wp_reads [wp_simps]: "wp (\<lambda>s. s_lift (g s) s) Q R s = (case g s of Inr x \<Rightarrow> Q x s | Inl e \<Rightarrow> R s)"
  by (simp add: wp_def s_lift_def split: sum.splits)

lemma wp_update [wp_simps]: "wp (s_update f) Q R s = Q () (f s)"
  by (simp add: wp_def s_update_def)

lemma wp_check [wp_simps]: "wp (s_check b code) Q R s = (if b then Q () s else R s)"
  by (simp add: wp_def s_check_def)

lemma wp_mono:
  assumes "wp m Q R s" and "\<And>x s'. Q x s' \<Longrightarrow> Q' x s'" and "\<And>s'. R s' \<Longrightarrow> R' s'"
  shows "wp m Q' R' s"
  using assms by (auto simp: wp_def split: prod.splits sum.splits)

lemma wp_each:
  assumes "\<And>x s. x \<in> set xs \<Longrightarrow> I s \<Longrightarrow> wp (f x) (\<lambda>_. I) R s" and "I s"
  shows "wp (s_each f xs) (\<lambda>_. I) R s"
  using assms
proof (induction xs arbitrary: s)
  case (Cons x xs)
  have rest: "wp (s_each f xs) (\<lambda>_. I) R s'" if "I s'" for s'
    by (rule Cons.IH [OF _ that]) (simp add: Cons.prems(1))
  have "wp (f x) (\<lambda>_. I) R s" using Cons.prems by simp
  then have "wp (f x) (\<lambda>_. wp (s_each f xs) (\<lambda>_. I) R) R s" by (rule wp_mono) (simp_all add: rest)
  then show ?case by (simp add: wp_bind)
qed (simp add: wp_def)

lemma wp_if [wp_simps]:
  "wp (\<lambda>s. if b s then m s else n s) Q R s = (if b s then wp m Q R s else wp n Q R s)"
  by (simp add: wp_def)

lemma wp_return [wp_simps]: "wp (\<lambda>s. (Inr x, s)) Q R s = Q x s"
  by (simp add: wp_def)

lemma wp_result: "wp m Q R s \<Longrightarrow> m s = (Inr x, s') \<Longrightarrow> Q x s'"
  and wp_error: "wp m Q R s \<Longrightarrow> m s = (Inl e, s') \<Longrightarrow> R s'"
  by (simp_all add: wp_def)

section \<open>The invariants\<close>

text \<open>Wherever a compilation stops, its selection can be closed in its graph.\<close>

definition closable :: "compile_request \<Rightarrow> compilation \<Rightarrow> bool" where
  "closable q s = (case cs_graph s of None \<Rightarrow> cs_selected s = {}
     | Some G \<Rightarrow> cs_request s = Some q \<and> cs_admission s \<noteq> None \<and> (\<exists>N. closed_nodes G (cs_selected s) = Inr N))"

text \<open>A consistent view: closed, free of conflicts, rendered and within the budget.\<close>

definition consistent ::
  "resolve_env \<Rightarrow> view_compiler \<Rightarrow> compile_request \<Rightarrow> resolved_graph \<Rightarrow> compilation \<Rightarrow> bool" where
  "consistent E C q G s \<longleftrightarrow> cs_request s = Some q \<and> cs_admission s \<noteq> None \<and> cs_graph s = Some G \<and> close_atoms G (cs_selected s) = Inr (cs_selected s) \<and>
     conflicts_for G (cs_selected s) = Inr [] \<and>
     (\<exists>ids. render_selection E C q s (cs_selected s) ids = Inr (cs_content s, cs_tokens s)) \<and>
     ta_total (cs_tokens s) \<le> ta_available (cs_tokens s)"

lemma close_atoms_closable: "close_atoms G S = Inr C \<Longrightarrow> \<exists>N. closed_nodes G C = Inr N"
  using close_atoms_idem [of G S C] by (auto simp: close_atoms_def res_bind_Inr_iff)

lemma render_selection_update [simp]:
  "render_selection E C q (s \<lparr> cs_content := c \<rparr>) = render_selection E C q s"
  "render_selection E C q (s \<lparr> cs_tokens := n \<rparr>) = render_selection E C q s"
  "render_selection E C q (s \<lparr> cs_selected := S \<rparr>) = render_selection E C q s"
  "render_selection E C q (s \<lparr> cs_reasons := r \<rparr>) = render_selection E C q s"
  "render_selection E C q (s \<lparr> cs_conflicts := d \<rparr>) = render_selection E C q s"
  by (simp_all add: fun_eq_iff render_selection_def)

lemma close_atoms_extends: "close_atoms G S = Inr chosen \<Longrightarrow> S \<subseteq> chosen"
proof -
  assume "close_atoms G S = Inr chosen"
  then obtain N where N: "closed_nodes G S = Inr N" and c: "chosen = N \<inter> set (dict_keys (rg_atoms G))"
    by (auto simp: close_atoms_def res_bind_Inr_iff)
  with closed_nodes_Inr [OF N] rc.extensive [OF closed_nodes_finite [OF N], of "rg_edges G"] show ?thesis by blast
qed

lemma closable_consistent: "consistent E C q G s \<Longrightarrow> closable q s"
  using close_atoms_closable by (auto simp: consistent_def closable_def)

lemma closable_update [simp]:
  "closable q (s \<lparr> cs_conflicts := d \<rparr>) = closable q s" "closable q (s \<lparr> cs_reasons := r \<rparr>) = closable q s"
  "closable q (s \<lparr> cs_content := c \<rparr>) = closable q s" "closable q (s \<lparr> cs_tokens := n \<rparr>) = closable q s"
  by (simp_all add: closable_def split: option.splits)

section \<open>Selection\<close>

lemma wp_close_checked:
  assumes "\<And>chosen. close_atoms G (W s) = Inr chosen \<Longrightarrow> close_atoms G chosen = Inr chosen \<Longrightarrow>
      \<exists>N. closed_nodes G chosen = Inr N \<Longrightarrow> W s \<subseteq> chosen \<Longrightarrow>
      conflicts_for G chosen = Inr [] \<Longrightarrow> Q chosen (s \<lparr> cs_conflicts := [] \<rparr>)"
    and "\<And>c. R (s \<lparr> cs_conflicts := c \<rparr>)" and "R s"
  shows "wp (\<lambda>s. close_checked G (W s) s) Q R s"
proof -
  have "wp (close_checked G (W s)) Q R s"
    using assms close_atoms_idem [of G "W s"] close_atoms_closable [of G "W s"] close_atoms_extends [of G "W s"]
    by (auto simp: close_checked_def wp_simps split: sum.splits)
  then show ?thesis by (simp add: wp_def)
qed

text \<open>What a mandatory step adds: the seeds, in a consistent state with the same ranking.\<close>

definition adds ::
  "resolve_env \<Rightarrow> view_compiler \<Rightarrow> compile_request \<Rightarrow> resolved_graph \<Rightarrow> pystr set \<Rightarrow> compilation \<Rightarrow> compilation \<Rightarrow> bool" where
  "adds E C q G seeds s s' \<longleftrightarrow> consistent E C q G s' \<and> cs_selected s \<union> seeds \<subseteq> cs_selected s' \<and>
     cs_ranked s' = cs_ranked s \<and> cs_evidence s' = cs_evidence s \<and> cs_admission s' = cs_admission s"

lemma adds_closable: "adds E C q G seeds s s' \<Longrightarrow> closable q s' \<and> cs_graph s' = Some G"
  by (metis adds_def consistent_def closable_consistent)

lemma mandatory_atoms_wp:
  assumes "cs_graph s = Some G" and "closable q s"
  shows "wp (mandatory_atoms E C q G seeds reason overflow) (\<lambda>_. adds E C q G seeds s) (closable q) s"
  unfolding mandatory_atoms_def wp_bind
proof (rule wp_close_checked, goal_cases)
  case (1 chosen)
  then show ?case
    using assms by (auto simp: wp_simps adds_def consistent_def closable_def split: sum.splits)
qed (use assms in \<open>simp_all add: closable_def\<close>)

lemma consider_atom_wp:
  assumes "adds E C q G seeds s0 s"
  shows "wp (consider_atom E C q G item) (\<lambda>_. adds E C q G seeds s0) (closable q) s"
proof -
  have c: "closable q s" using adds_closable [OF assms] by simp
  let ?i = "at_atom_id (ra_atom item)"
  have "wp (\<lambda>s. close_checked G (cs_selected s \<union> {?i}) s) (\<lambda>chosen. wp (\<lambda>s. s_lift (render_selection E C q s chosen []) s)
      (\<lambda>(content, tokens). wp (s_update (\<lambda>s.
              if ta_total tokens > ta_available tokens
              then s \<lparr> cs_reasons := AList.update ?i ''BUDGET_EXCLUDED'' (cs_reasons s) \<rparr>
              else s \<lparr> cs_reasons := set_reasons (\<lambda>i. if i = ?i then ''RELEVANT'' else ''DEPENDENCY_REQUIRED'')
                       (chosen - cs_selected s) (cs_reasons s),
                       cs_selected := chosen, cs_content := content, cs_tokens := tokens \<rparr>))
       (\<lambda>_. adds E C q G seeds s0) (closable q)) (closable q)) (closable q) s"
  proof (rule wp_close_checked, goal_cases)
    case (1 chosen)
    then show ?case
      using assms c by (auto simp: wp_simps adds_def consistent_def closable_def split: sum.splits)
  qed (simp_all add: c)
  then show ?thesis
    using assms unfolding consider_atom_def Let_def wp_if wp_bind wp_return by (simp add: case_prod_unfold)
qed

lemma expand_selection_wp:
  assumes "adds E C q G seeds s0 s"
  shows "wp (expand_selection E C q) (\<lambda>_. adds E C q G seeds s0) (closable q) s"
proof -
  have "closable q s" using closable_consistent assms by (auto simp: adds_def)
  then show ?thesis unfolding expand_selection_def using assms
    by (auto simp: wp_simps adds_def consistent_def closable_def split: sum.splits)
qed

definition mandatory_ids :: "compile_request \<Rightarrow> resolved_graph \<Rightarrow> ranked_atom list \<Rightarrow> pystr set" where
  "mandatory_ids q G ranking = (fst ` set (filter (\<lambda>(i, a). at_compression_class a = ''P0_EXACT'') (rg_atoms G))) \<union>
     (at_atom_id ` ra_atom ` set (filter (\<lambda>r. ra_matched r \<and> at_compression_class (ra_atom r) = ''P1_STRUCTURED'') ranking) \<union>
      set (tk_required_atom_ids (rq_task q)) \<union> rg_root_atom_ids G)"

lemma select_atoms_wp:
  assumes "cs_graph s = Some G" and "closable q s"
  shows "wp (select_atoms_session E C q G) (\<lambda>_. adds E C q G (mandatory_ids q G (cs_ranked s)) s) (closable q) s"
proof -
  let ?p0 = "(fst ` set (filter (\<lambda>(i, a). at_compression_class a = ''P0_EXACT'') (rg_atoms G)))"
  let ?p1 = "\<lambda>s. at_atom_id ` ra_atom ` set (filter (\<lambda>r. ra_matched r \<and> at_compression_class (ra_atom r) = ''P1_STRUCTURED'') (cs_ranked s)) \<union>
          set (tk_required_atom_ids (rq_task q)) \<union> rg_root_atom_ids G"
  let ?s = "s \<lparr> cs_reasons := map (\<lambda>(i, a). (i, ''NOT_RELEVANT'')) (rg_atoms G) \<rparr>"
  let ?A = "adds E C q G (mandatory_ids q G (cs_ranked s)) s"
  have second: "wp (\<lambda>s. mandatory_atoms E C q G (?p1 s) ''TASK_REQUIRED'' ''P1_OVERFLOW'' s) (\<lambda>_. ?A) (closable q) s1"
    if "adds E C q G ?p0 ?s s1" for s1
  proof -
    have "wp (mandatory_atoms E C q G (?p1 s1) ''TASK_REQUIRED'' ''P1_OVERFLOW'') (\<lambda>_. adds E C q G (?p1 s1) s1) (closable q) s1"
      by (rule mandatory_atoms_wp) (use adds_closable [OF that] in simp_all)
    then have "wp (mandatory_atoms E C q G (?p1 s1) ''TASK_REQUIRED'' ''P1_OVERFLOW'') (\<lambda>_. ?A) (closable q) s1"
      by (rule wp_mono) (use that in \<open>auto simp: adds_def mandatory_ids_def\<close>)
    then show ?thesis by (simp add: wp_def)
  qed
  have loop: "wp (\<lambda>s. s_each (consider_atom E C q G) (sort_key (\<lambda>r. at_compression_class (ra_atom r)) (cs_ranked s)) s)
      (\<lambda>_. ?A) (closable q) s1" if "?A s1" for s1
  proof -
    have "wp (s_each (consider_atom E C q G) (sort_key (\<lambda>r. at_compression_class (ra_atom r)) (cs_ranked s1)))
        (\<lambda>_. ?A) (closable q) s1"
      using that by (intro wp_each consider_atom_wp)
    then show ?thesis by (simp add: wp_def)
  qed
  have "wp (mandatory_atoms E C q G ?p0 ''P0_REQUIRED'' ''P0_OVERFLOW'') (\<lambda>_. adds E C q G ?p0 ?s) (closable q) ?s"
    by (rule mandatory_atoms_wp) (use assms in simp_all)
  then show ?thesis unfolding select_atoms_session_def wp_bind wp_update
    by (rule wp_mono) (blast intro: wp_mono [OF second] wp_mono [OF loop] expand_selection_wp)+
qed

section \<open>Final checks\<close>

lemma final_checks_wp:
  assumes "map_of (cs_metadata s) ''request_digest'' = Some (request_digest E q) \<Longrightarrow>
      graph_sources E C 1 G = Inr (cs_evidence s) \<Longrightarrow> vc_stamps C 1 = Inr (cs_services s) \<Longrightarrow>
      (\<exists>a. cs_admission s = Some a \<and> resolve E (vc_resolver C 1) (rq_capsules q) (rq_task q) (rq_principal q) = Inr a) \<Longrightarrow>
      Q () s"
    and "R s"
  shows "wp (final_checks E C G q) Q R s"
  using assms unfolding wp_def final_checks_def s_bind_def s_check_def s_lift_def
  by (auto split: sum.splits prod.splits if_splits)

section \<open>The whole session\<close>

lemma closed_nodes_empty: "closed_nodes G {} = Inr {}"
proof -
  have "resolve_dependency_closure {} (rg_edges G) = {}"
    using rc.least [of "{}" "{}" "rg_edges G"] by (simp add: closed_under_def)
  then show ?thesis by (simp add: closed_nodes_def)
qed

text \<open>What holds of the state \<open>s\<close> from which a valid view \<open>v\<close> is built.\<close>

definition compiled ::
  "resolve_env \<Rightarrow> view_compiler \<Rightarrow> compile_request \<Rightarrow> compiled_capsule_view \<Rightarrow> compilation \<Rightarrow> bool" where
  "compiled E C q v s \<longleftrightarrow> (\<exists>a G.
     (\<forall>i < 2. resolve E (vc_resolver C i) (rq_capsules q) (rq_task q) (rq_principal q) = Inr a) \<and>
     resolve_graph E a (rq_task q) = Inr G \<and> (\<forall>i < 2. graph_sources E C i G = Inr (cs_evidence s)) \<and>
     length (cs_ranked s) = length (rg_atoms G) \<and> check_ranking G (cs_ranked s) {} \<and>
     consistent E C q G s \<and> mandatory_ids q G (cs_ranked s) \<subseteq> cs_selected s) \<and>
     session_result E s \<lparr> vr_ok = True, vr_codes = [] \<rparr> False = Inr v \<and>
     (case rq_expected_manifest_digest q of None \<Rightarrow> True | Some d \<Rightarrow> view_manifest_digest E (kv_manifest v) = d)"

lemma less_2_all: "(\<forall>i < 2. P i) = (P 0 \<and> P (1::nat))"
  by (auto simp: less_Suc_eq numeral_2_eq_2)

lemma rank_session_wp:
  assumes "\<And>ranking. length ranking = length (rg_atoms G) \<Longrightarrow> check_ranking G ranking {} \<Longrightarrow> Q () (s \<lparr> cs_ranked := ranking \<rparr>)"
    and "R s"
  shows "wp (rank_session C G q) Q R s"
  using assms by (auto simp: wp_def rank_session_def split: sum.splits)

lemma configure_wp:
  assumes "\<And>ids stamps. Q () (s \<lparr> cs_expanded := ids, cs_services := stamps \<rparr>)" and "R s"
    and "\<And>ids. R (s \<lparr> cs_expanded := ids \<rparr>)"
  shows "wp (configure C q) Q R s"
  using assms by (auto simp: configure_def wp_simps split: sum.splits)

lemma finish_session_wp:
  assumes "adds E C q G (mandatory_ids q G (cs_ranked s0)) s0 s"
    and "cs_admission s0 = Some a" and "graph_sources E C 0 G = Inr (cs_evidence s0)"
    and "resolve E (vc_resolver C 0) (rq_capsules q) (rq_task q) (rq_principal q) = Inr a"
    and "resolve_graph E a (rq_task q) = Inr G"
    and "length (cs_ranked s0) = length (rg_atoms G)" and "check_ranking G (cs_ranked s0) {}"
  shows "wp (finish_session E C q G) (compiled E C q) (closable q) s"
  unfolding finish_session_def wp_bind
proof (rule final_checks_wp, goal_cases)
  case 1
  have same: "cs_admission s = Some a" "cs_ranked s = cs_ranked s0" "cs_evidence s = cs_evidence s0"
    "consistent E C q G s" "mandatory_ids q G (cs_ranked s0) \<subseteq> cs_selected s"
    using assms(1,2) by (auto simp: adds_def)
  with 1 assms(3-7) have "\<exists>a G. (\<forall>i < 2. resolve E (vc_resolver C i) (rq_capsules q) (rq_task q) (rq_principal q) = Inr a) \<and>
     resolve_graph E a (rq_task q) = Inr G \<and> (\<forall>i < 2. graph_sources E C i G = Inr (cs_evidence s)) \<and>
     length (cs_ranked s) = length (rg_atoms G) \<and> check_ranking G (cs_ranked s) {} \<and>
     consistent E C q G s \<and> mandatory_ids q G (cs_ranked s) \<subseteq> cs_selected s"
    unfolding less_2_all by auto
  then show ?case using adds_closable [OF assms(1)]
    by (simp add: wp_simps compiled_def split: sum.splits)
next
  case 2
  show ?case using adds_closable [OF assms(1)] by simp
qed

lemma run_session_wp: "wp (run_session E C q) (compiled E C q) (closable q) new_compilation"
  unfolding run_session_def wp_bind wp_update
proof (rule configure_wp, goal_cases)
  case (1 ids stamps)
  have start: "cs_selected s = {} \<Longrightarrow> cs_graph s = Some G \<Longrightarrow> cs_request s = Some q \<Longrightarrow> cs_admission s = Some a \<Longrightarrow> closable q s" for s G a
    by (simp add: closable_def closed_nodes_empty)
  have middle: "wp (rank_session C G q) (\<lambda>_. wp (select_atoms_session E C q G)
      (\<lambda>_. wp (finish_session E C q G) (compiled E C q) (closable q)) (closable q)) (closable q) s"
    if "resolve E (vc_resolver C 0) (rq_capsules q) (rq_task q) (rq_principal q) = Inr a"
      "resolve_graph E a (rq_task q) = Inr G" "graph_sources E C 0 G = Inr (cs_evidence s)"
      "cs_selected s = {}" "cs_graph s = Some G" "cs_request s = Some q" "cs_admission s = Some a" for a G s
  proof (rule rank_session_wp)
    fix ranking assume check: "length ranking = length (rg_atoms G)" "check_ranking G ranking {}"
    let ?s = "s \<lparr> cs_ranked := ranking \<rparr>"
    have "wp (select_atoms_session E C q G) (\<lambda>_. adds E C q G (mandatory_ids q G (cs_ranked ?s)) ?s) (closable q) ?s"
      by (rule select_atoms_wp) (use that start in simp_all)
    then show "wp (select_atoms_session E C q G) (\<lambda>_. wp (finish_session E C q G) (compiled E C q) (closable q)) (closable q) ?s"
      by (rule wp_mono) (rule finish_session_wp, assumption, use that check in simp_all)
  qed (use start that in simp)
  then show ?case using start
    by (auto simp: wp_simps new_compilation_def closable_def closed_nodes_empty split: sum.splits)
qed (simp_all add: closable_def new_compilation_def)

section \<open>Failure\<close>

lemma closure_links_closable: "closed_nodes G S = Inr N \<Longrightarrow> \<exists>links. closure_links G S = Inr links"
  by (simp add: closure_links_def)

lemma build_manifest_closable:
  assumes "closable q s"
  shows "\<exists>m. build_manifest E s report redact = Inr m \<and> vm_validation m = report"
proof (cases "cs_graph s")
  case (Some G)
  with assms obtain links where "closure_links G (cs_selected s) = Inr links"
    by (auto simp: closable_def dest: closure_links_closable)
  with Some show ?thesis by (simp add: build_manifest_def withheld_manifest_def Let_def)
qed (simp add: build_manifest_def withheld_manifest_def)

text \<open>A refusal: no content, one safe code, and names only as long as the policies still admit.\<close>

definition refusal :: "resolve_env \<Rightarrow> view_compiler \<Rightarrow> compile_request \<Rightarrow> compiled_capsule_view \<Rightarrow> bool" where
  "refusal E C q v \<longleftrightarrow> (let m = kv_manifest v in
     \<not> vr_ok (kv_validation v) \<and> vm_validation m = kv_validation v \<and> kv_content v = [] \<and> kv_evidence_handles v = [] \<and>
     vm_expanded_evidence m = [] \<and> vm_closure m = [] \<and>
     (\<exists>code \<in> safe_codes. vr_codes (kv_validation v) = [code] \<and>
        (code \<in> {''INVALID_POLICY_SNAPSHOT'', ''POLICY_SNAPSHOT_CHANGED'', ''EVIDENCE_UNAUTHORIZED''} \<longrightarrow>
           vm_decisions m = [] \<and> vm_capsules m = [] \<and> vm_providers m = [])) \<and>
     (vm_decisions m \<noteq> [] \<or> vm_capsules m \<noteq> [] \<or> vm_providers m \<noteq> [] \<longrightarrow>
        (\<exists>a. resolve E (vc_resolver C 2) (rq_capsules q) (rq_task q) (rq_principal q) = Inr a \<and>
             vm_permission_digest m = ar_permission_digest a)))"

lemma withheld_refuses:
  assumes "code \<in> safe_codes"
  shows "\<exists>v. session_result E s \<lparr> vr_ok = False, vr_codes = [code] \<rparr> True = Inr v \<and> refusal E C q v"
  using assms by (simp add: session_result_def build_manifest_def withheld_manifest_def compiled_view_valid_def
      refusal_def Let_def)

lemma manifest_refuses:
  assumes "closable q s" and "admission_is_current E C s" and "code \<in> safe_codes"
    and "code \<notin> {''INVALID_POLICY_SNAPSHOT'', ''POLICY_SNAPSHOT_CHANGED'', ''EVIDENCE_UNAUTHORIZED''}"
  shows "\<exists>v. session_result E s \<lparr> vr_ok = False, vr_codes = [code] \<rparr> False = Inr v \<and> refusal E C q v"
proof (cases "cs_graph s")
  case None
  with assms(3,4) show ?thesis by (simp add: session_result_def build_manifest_def compiled_view_valid_def
      refusal_def participating_def decisions_def ordered_by_def Let_def)
next
  case (Some G)
  with assms(1,2) obtain a links where "cs_admission s = Some a" "closure_links G (cs_selected s) = Inr links"
    and "resolve E (vc_resolver C 2) (rq_capsules q) (rq_task q) (rq_principal q) = Inr a"
    by (auto simp: closable_def admission_is_current_def dest: closure_links_closable)
  with Some assms(3,4) show ?thesis by (simp add: session_result_def build_manifest_def compiled_view_valid_def
      refusal_def ordered_by_def Let_def)
qed

lemma failure_refuses:
  assumes "closable q s"
  shows "\<exists>v. failure E C s code = Inr v \<and> refusal E C q v"
proof -
  define safe where "safe = (if code \<in> safe_codes then code else ''COMPILATION_FAILED'')"
  have mem: "safe \<in> safe_codes" by (simp add: safe_def safe_codes_def)
  show ?thesis
  proof (cases "safe \<in> {''INVALID_POLICY_SNAPSHOT'', ''POLICY_SNAPSHOT_CHANGED'', ''EVIDENCE_UNAUTHORIZED''} \<or>
      \<not> admission_is_current E C s")
    case True
    then show ?thesis using withheld_refuses [OF mem] unfolding failure_def Let_def safe_def [symmetric] by simp
  next
    case False
    then show ?thesis using manifest_refuses [OF assms _ mem]
      unfolding failure_def Let_def safe_def [symmetric] by simp
  qed
qed

section \<open>The compiler's answers\<close>

text \<open>A compilation answers with the view of a compiled state or with a refusal.\<close>

lemma compile_cases:
  obtains v s where "compile_capsule_view E C q = Inr v" "compiled E C q v s"
      "compile_request_valid E q"
  | v where "compile_capsule_view E C q = Inr v" "refusal E C q v"
proof (cases "validate_request E C q")
  case (Inl e)
  have "closable q new_compilation" by (simp add: closable_def new_compilation_def)
  with failure_refuses that(2) Inl show thesis
    unfolding compile_capsule_view_def by (simp add: s_bind_def s_lift_def) blast
next
  case (Inr u)
  then have valid: "compile_request_valid E q" by (auto simp: validate_request_def split: if_splits)
  obtain r s where run: "run_session E C q new_compilation = (r, s)" by (cases "run_session E C q new_compilation")
  show thesis
  proof (cases r)
    case (Inl e)
    with wp_error [OF run_session_wp] run have "closable q s" by metis
    with failure_refuses that(2) Inl Inr run show thesis
      unfolding compile_capsule_view_def by (simp add: s_bind_def s_lift_def) blast
  next
    case (Inr v)
    with wp_result [OF run_session_wp] run have "compiled E C q v s" by metis
    with that(1) valid Inr run \<open>validate_request E C q = Inr u\<close> show thesis
      unfolding compile_capsule_view_def by (simp add: s_bind_def s_lift_def)
  qed
qed

section \<open>The ranking covers the graph\<close>

lemma check_ranking_iff:
  "check_ranking G rs seen \<longleftrightarrow> distinct (map (at_atom_id \<circ> ra_atom) rs) \<and> (at_atom_id \<circ> ra_atom) ` set rs \<inter> seen = {} \<and>
     (\<forall>r \<in> set rs. map_of (rg_atoms G) (at_atom_id (ra_atom r)) = Some (ra_atom r))"
  by (induction G rs seen rule: check_ranking.induct) auto

lemma check_ranking_covers:
  assumes "check_ranking G rs {}" and "length rs = length (rg_atoms G)"
  shows "(at_atom_id \<circ> ra_atom) ` set rs = set (dict_keys (rg_atoms G))"
proof (rule card_seteq)
  have ids: "distinct (map (at_atom_id \<circ> ra_atom) rs)"
    "\<forall>r \<in> set rs. map_of (rg_atoms G) (at_atom_id (ra_atom r)) = Some (ra_atom r)"
    using assms(1) by (simp_all add: check_ranking_iff)
  show "(at_atom_id \<circ> ra_atom) ` set rs \<subseteq> set (dict_keys (rg_atoms G))"
    using ids(2) by (force dest: map_of_SomeD)
  have "card (set (dict_keys (rg_atoms G))) \<le> length rs"
    using card_length [of "dict_keys (rg_atoms G)"] assms(2) by simp
  also have "\<dots> = card ((at_atom_id \<circ> ra_atom) ` set rs)"
    using distinct_card [OF ids(1)] by (simp only: set_map length_map)
  finally show "card (set (dict_keys (rg_atoms G))) \<le> card ((at_atom_id \<circ> ra_atom) ` set rs)" .
qed simp

section \<open>What a valid view shows\<close>

lemma decisions_sound:
  assumes "cs_graph s = Some G" and "d \<in> set (decisions s)"
  shows "dn_atom_id d \<in> set (dict_keys (rg_atoms G))" and "dn_outcome d = ''selected'' \<longleftrightarrow> dn_atom_id d \<in> cs_selected s"
proof -
  obtain i a ref where "(i, a) \<in> set (rg_atoms G)" and d: "dn_atom_id d = i"
    "dn_outcome d = (if i \<in> cs_selected s then ''selected'' else ''excluded'')"
    using assms by (auto simp: decisions_def)
  then show "dn_atom_id d \<in> set (dict_keys (rg_atoms G))" by force
  show "dn_outcome d = ''selected'' \<longleftrightarrow> dn_atom_id d \<in> cs_selected s" by (simp add: d)
qed

lemma session_result_Inr:
  assumes "session_result E s report False = Inr v" and "cs_graph s = Some G" and "vr_ok report"
  shows "kv_validation v = report" and "kv_content v = cs_content s" and "vm_tokens (kv_manifest v) = cs_tokens s"
    and "compiled_view_valid v" and "d \<in> set (vm_decisions (kv_manifest v)) \<Longrightarrow>
      dn_atom_id d \<in> set (dict_keys (rg_atoms G)) \<and> (dn_outcome d = ''selected'' \<longleftrightarrow> dn_atom_id d \<in> cs_selected s)"
proof -
  obtain m where m: "build_manifest E s report False = Inr m" and v: "kv_validation v = report" "kv_content v = cs_content s"
    "kv_manifest v = m" "compiled_view_valid v"
    using assms(1,3) by (auto simp: session_result_def res_bind_Inr_iff Let_def split: if_splits)
  show "kv_validation v = report" "kv_content v = cs_content s" "compiled_view_valid v" by fact+
  show "vm_tokens (kv_manifest v) = cs_tokens s"
    unfolding v(3) using m by (auto simp: build_manifest_def Let_def res_bind_Inr_iff)
  have "set (vm_decisions m) = set (decisions s)"
    using m by (auto simp: build_manifest_def Let_def res_bind_Inr_iff)
  then show "d \<in> set (vm_decisions (kv_manifest v)) \<Longrightarrow>
      dn_atom_id d \<in> set (dict_keys (rg_atoms G)) \<and> (dn_outcome d = ''selected'' \<longleftrightarrow> dn_atom_id d \<in> cs_selected s)"
    using decisions_sound [OF assms(2)] v(3) by simp
qed

lemma render_selection_Inr:
  assumes "render_selection E C q s S ids = Inr (c, t)"
  shows "\<exists>material sections. neutral_render E (vc_clean C) ids (rq_task q)
      (filter (\<lambda>r. at_atom_id (ra_atom r) \<in> S) (cs_ranked s)) material = Inr sections \<and>
    c = concat (map snd sections) \<and> account_tokens sections (vc_counter C) (rq_budget q) = Inr t"
  using assms by (auto simp: render_selection_def Let_def res_bind_Inr_iff rendered_content_def split: if_splits)

end
