(* ===== verification/Frames.thy ===== *)
theory Frames
  imports Render
begin

text \<open>
  Laws of ranking that do not depend on the order of its input.

  What the neutral renderer prints can be read back. The text of a view is a sequence of items: an
  atom with its evidence, the expanded text of an evidence handle, the task. Every item begins with
  a line that says what it is, every payload with its length, so no statement and no excerpt,
  whatever delimiters it contains, can pass for another item. An atom identifier may hold any
  characters, line ends included: the metadata line before its frame has already named it.
\<close>

section \<open>Decimal lengths\<close>

definition digits_value :: "pystr \<Rightarrow> nat" where
  "digits_value text = foldl (\<lambda>n c. 10 * n + (of_char c - 48)) 0 text"

lemma nat_text_value: "digits_value (nat_text n) = n"
proof (induction n rule: nat_text.induct)
  case (1 n)
  show ?case
  proof (cases "n < 10")
    case True
    then show ?thesis by (subst nat_text.simps) (simp add: digits_value_def take_bit_eq_mod)
  next
    case False
    have digit: "(48 + n mod 10) mod 256 - 48 = n mod 10"
    proof -
      have "n mod 10 < 10" by simp
      then have "48 + n mod 10 < 256" by linarith
      then show ?thesis by simp
    qed
    have "digits_value (nat_text n) = 10 * digits_value (nat_text (n div 10)) + n mod 10"
      using False digit by (subst nat_text.simps) (simp add: digits_value_def)
    then show ?thesis using 1 False by simp
  qed
qed

lemma nat_text_inject [simp]: "nat_text m = nat_text n \<longleftrightarrow> m = n"
  using nat_text_value by metis

lemma nat_text_digits: "c \<in> set (nat_text n) \<Longrightarrow> 48 \<le> (of_char c :: nat) \<and> (of_char c :: nat) < 58"
proof (induction n rule: nat_text.induct)
  case (1 n)
  have digit: "(48 + k) mod 256 = 48 + (k::nat)" if "k < 10" for k using that by simp
  from 1 show ?case
    by (subst (asm) (2) nat_text.simps) (auto simp: digit split: if_splits)
qed

lemma nat_text_plain: "CHR 0x0A \<notin> set (nat_text n)" "CHR ''='' \<notin> set (nat_text n)"
  using nat_text_digits [of _ n] by fastforce+

section \<open>Frames\<close>

lemma split_at_unique:
  assumes "xs @ c # ys = xs' @ c # ys'" and "c \<notin> set xs" and "c \<notin> set xs'"
  shows "xs = xs' \<and> ys = ys'"
  using assms
proof (induction xs arbitrary: xs')
  case Nil
  then show ?case by (cases xs') auto
next
  case (Cons x xs)
  then show ?case by (cases xs') auto
qed

lemma split_last_unique:
  assumes "xs @ c # ys = xs' @ c # ys'" and "c \<notin> set ys" and "c \<notin> set ys'"
  shows "xs = xs' \<and> ys = ys'"
proof -
  have "rev ys @ c # rev xs = rev ys' @ c # rev xs'"
    using arg_cong [OF assms(1), of rev] by simp
  then have "rev ys = rev ys' \<and> rev xs = rev xs'" by (rule split_at_unique) (use assms(2,3) in simp_all)
  then show ?thesis by simp
qed

lemma frame_text_unique:
  assumes "frame_text kind text @ rest = frame_text kind' text' @ rest'"
    and "CHR 0x0A \<notin> set kind" and "CHR 0x0A \<notin> set kind'"
  shows "kind = kind' \<and> text = text' \<and> rest = rest'"
proof -
  let ?head = "\<lambda>k t. ''BEGIN '' @ k @ '' bytes='' @ nat_text (length t)"
  let ?tail = "\<lambda>k t r. t @ newline @ ''END '' @ k @ newline @ r"
  have "?head kind text @ CHR 0x0A # ?tail kind text rest = ?head kind' text' @ CHR 0x0A # ?tail kind' text' rest'"
    using assms(1) by (simp add: frame_text_def newline_def)
  moreover have "CHR 0x0A \<notin> set (?head k t)" if "CHR 0x0A \<notin> set k" for k t
    using that by (simp add: nat_text_plain)
  ultimately have lines: "?head kind text = ?head kind' text'" "?tail kind text rest = ?tail kind' text' rest'"
    using split_at_unique assms(2,3) by metis+
  have "(kind @ '' bytes'') @ CHR ''='' # nat_text (length text) = (kind' @ '' bytes'') @ CHR ''='' # nat_text (length text')"
    using lines(1) by simp
  from split_last_unique [OF this nat_text_plain(2) nat_text_plain(2)]
  have same: "kind = kind'" "length text = length text'" by simp_all
  with lines(2) show ?thesis by simp
qed

lemma frame_text_ne [simp]: "frame_text k t \<noteq> []"
  by (simp add: frame_text_def)

section \<open>Ranking\<close>

lemma unique_atoms_loop_invalid:
  assumes "inj_on at_atom_id (set atoms \<union> snd ` set d)" and "\<forall>(k, a) \<in> set d. k = at_atom_id a"
    and "a \<in> set atoms" and "checked_atom a \<noteq> Inr a"
  shows "unique_atoms_loop E atoms d = Inl (CompileError ''INVALID_RANKING_INPUT'')"
  using assms
proof (induction atoms arbitrary: d)
  case (Cons b atoms)
  show ?case
  proof (cases "checked_atom b = Inr b")
    case True
    let ?d = "AList.update (at_atom_id b) b d"
    have sub: "snd ` set ?d \<subseteq> insert b (snd ` set d)" by (induction d) auto
    have "inj_on at_atom_id (set atoms \<union> snd ` set ?d)"
      using Cons.prems(1) sub by (auto intro: inj_on_subset)
    moreover have "\<forall>(k, x) \<in> set ?d. k = at_atom_id x"
      using Cons.prems(2) by (induction d) (auto split: if_splits)
    moreover have "a \<in> set atoms" using Cons.prems(3,4) True by auto
    ultimately have "unique_atoms_loop E atoms ?d = Inl (CompileError ''INVALID_RANKING_INPUT'')"
      using Cons.IH Cons.prems(4) by blast
    moreover have "known = b" if "map_of d (at_atom_id b) = Some known" for known
    proof -
      from map_of_SomeD [OF that] have mem: "(at_atom_id b, known) \<in> set d" .
      with Cons.prems(2) have "at_atom_id known = at_atom_id b" by force
      moreover have "known \<in> snd ` set d" using mem by force
      ultimately show ?thesis using inj_onD [OF Cons.prems(1)] by simp
    qed
    ultimately show ?thesis using True by (auto split: option.splits)
  next
    case False
    then show ?thesis by (auto simp: checked_atom_def)
  qed
qed simp

lemma unique_atoms_order:
  assumes "inj_on at_atom_id (set atoms)" and "set atoms = set atoms'"
  shows "unique_atoms E atoms = unique_atoms E atoms'"
proof (cases "\<forall>a \<in> set atoms. checked_atom a = Inr a")
  case True
  then show ?thesis by (rule unique_atoms_set [OF assms])
next
  case False
  then obtain a where a: "a \<in> set atoms" "checked_atom a \<noteq> Inr a" by blast
  have "unique_atoms_loop E xs [] = Inl (CompileError ''INVALID_RANKING_INPUT'')" if "set xs = set atoms" for xs
    by (rule unique_atoms_loop_invalid) (use assms that a in auto)
  then show ?thesis using assms(2) by (simp add: unique_atoms_def)
qed

lemma unique_atoms_valid:
  assumes "unique_atoms E atoms = Inr cs" and "inj_on at_atom_id (set atoms)"
  shows "\<forall>a \<in> set atoms. checked_atom a = Inr a"
proof (rule ccontr)
  assume "\<not> ?thesis"
  then obtain a where "a \<in> set atoms" "checked_atom a \<noteq> Inr a" by blast
  then have "unique_atoms_loop E atoms [] = Inl (CompileError ''INVALID_RANKING_INPUT'')"
    by (intro unique_atoms_loop_invalid) (use assms(2) in auto)
  with assms(1) show False by (simp add: unique_atoms_def)
qed

lemma ranked_atom_id [simp]: "ra_atom (ranked scores a) = a"
  by (simp add: ranked_def split: option.splits)

text \<open>RFC 8785 prints an object on one line that begins with a brace.\<close>

definition object_lines :: "(json \<Rightarrow> bytes) \<Rightarrow> bool" where
  "object_lines dumps \<longleftrightarrow> (\<forall>fs. (\<exists>more. dumps (JObj fs) = CHR 0x7B # more) \<and> CHR 0x0A \<notin> set (dumps (JObj fs)))"

section \<open>Items\<close>

datatype item = AtomItem core_atom "evidence_material list" | FullItem pystr pystr | TaskItem view_task

fun item_text :: "resolve_env \<Rightarrow> item \<Rightarrow> pystr" where
  "item_text E (AtomItem a sources) = atom_text E a sources"
| "item_text E (FullItem handle text) = frame_text (''EXPANDED '' @ handle) text"
| "item_text E (TaskItem task) = frame_text ''TASK'' (rv_dumps E (view_task_json task))"

fun item_plain :: "item \<Rightarrow> bool" where
  "item_plain (FullItem handle text) = (CHR 0x0A \<notin> set handle)"
| "item_plain _ = True"

text \<open>What a reader sees of an atom: all of it, its handles, and for the class that is shown by its
  evidence the excerpts in place of the statement.\<close>

definition shown_atom :: "core_atom \<Rightarrow> core_atom" where
  "shown_atom a = atom_identity (if at_compression_class a = ''P2_EVIDENCE'' then a \<lparr> at_statement := [] \<rparr> else a)"

definition shown_sources :: "resolve_env \<Rightarrow> core_atom \<Rightarrow> evidence_material list \<Rightarrow> pystr list \<times> pystr list" where
  "shown_sources E a sources = (map (material_id E) sources,
     if at_compression_class a = ''P2_EVIDENCE'' then map em_excerpt sources else [])"

fun same_item :: "resolve_env \<Rightarrow> item \<Rightarrow> item \<Rightarrow> bool" where
  "same_item E (AtomItem a ss) (AtomItem b ts) \<longleftrightarrow> shown_atom a = shown_atom b \<and> shown_sources E a ss = shown_sources E b ts"
| "same_item E (FullItem h t) (FullItem k u) \<longleftrightarrow> h = k \<and> t = u"
| "same_item E (TaskItem s) (TaskItem t) \<longleftrightarrow> s = t"
| "same_item E _ _ \<longleftrightarrow> False"

section \<open>Reading one item\<close>

lemma task_json_norm: "jcs_norm (view_task_json s) = jcs_norm (view_task_json t) \<longleftrightarrow> s = t"
  by (cases s; cases t) (simp add: view_task_json_def jcs_fields)

lemma handle_plain [simp]: "CHR 0x0A \<notin> set (handle_id E h)"
  using set_to_hex by (fastforce simp: handle_id_def)

lemma frame_same_kind:
  assumes "frame_text kind text @ rest = frame_text kind text' @ rest'"
  shows "text = text' \<and> rest = rest'"
proof -
  have "nat_text (length text) @ CHR 0x0A # text @ newline @ ''END '' @ kind @ newline @ rest =
      nat_text (length text') @ CHR 0x0A # text' @ newline @ ''END '' @ kind @ newline @ rest'"
    using assms by (simp add: frame_text_def newline_def)
  from split_at_unique [OF this nat_text_plain(1) nat_text_plain(1)]
  have "length text = length text'" "text @ newline @ ''END '' @ kind @ newline @ rest = text' @ newline @ ''END '' @ kind @ newline @ rest'"
    by (simp_all only: nat_text_inject simp_thms)
  then show ?thesis by simp
qed

lemma excerpts_unique:
  assumes "concat (map (\<lambda>s. frame_text (''EVIDENCE '' @ material_id E s) (em_excerpt s)) ss) @ rest =
      concat (map (\<lambda>s. frame_text (''EVIDENCE '' @ material_id E s) (em_excerpt s)) ts) @ rest'"
    and "map (material_id E) ss = map (material_id E) ts"
  shows "map em_excerpt ss = map em_excerpt ts \<and> rest = rest'"
  using assms
proof (induction ss arbitrary: ts)
  case (Cons s ss)
  then obtain t ts' where ts: "ts = t # ts'" by (cases ts) auto
  have "frame_text (''EVIDENCE '' @ material_id E s) (em_excerpt s) @
      concat (map (\<lambda>s. frame_text (''EVIDENCE '' @ material_id E s) (em_excerpt s)) ss) @ rest =
      frame_text (''EVIDENCE '' @ material_id E s) (em_excerpt t) @
      concat (map (\<lambda>s. frame_text (''EVIDENCE '' @ material_id E s) (em_excerpt s)) ts') @ rest'"
    using Cons.prems by (simp add: ts)
  from frame_same_kind [OF this] Cons.IH [of ts'] Cons.prems(2) show ?case by (simp add: ts)
qed simp

definition short_json :: "core_atom \<Rightarrow> json" where
  "short_json a = JObj (filter (\<lambda>(k, v). k \<noteq> ''statement'') (json_members (atom_json a)))"

lemma short_json_norm:
  "jcs_norm (short_json a) = jcs_norm (short_json b) \<longleftrightarrow>
     atom_identity (a \<lparr> at_statement := s \<rparr>) = atom_identity (b \<lparr> at_statement := s \<rparr>)"
  by (simp add: short_json_def json_members_def atom_json_def atom_identity_def record_eqs jcs_fields)

definition atom_line :: "resolve_env \<Rightarrow> json \<Rightarrow> evidence_material list \<Rightarrow> pystr" where
  "atom_line E v sources = rv_dumps E (JObj [(''atom'', v), (''evidence_handles'', json_strings (map (material_id E) sources))])"

lemma atom_line_unique:
  assumes "jcs_law (rv_dumps E)" and "atom_line E v ss = atom_line E w ts"
  shows "jcs_norm v = jcs_norm w" and "map (material_id E) ss = map (material_id E) ts"
  using assms by (simp_all add: jcs_law_def atom_line_def jcs_fields)

lemma atom_text_cases:
  obtains "at_compression_class a = ''P1_STRUCTURED''" "atom_text E a ss = frame_text ''ATOM'' (atom_line E (atom_json a) ss)"
  | "at_compression_class a = ''P2_EVIDENCE''" "atom_text E a ss = atom_line E (short_json a) ss @ newline @
      concat (map (\<lambda>s. frame_text (''EVIDENCE '' @ material_id E s) (em_excerpt s)) ss)"
  | "at_compression_class a \<noteq> ''P1_STRUCTURED''" "at_compression_class a \<noteq> ''P2_EVIDENCE''"
    "atom_text E a ss = atom_line E (short_json a) ss @ newline @ frame_text (''ATOM '' @ at_atom_id a) (at_statement a)"
proof -
  have members: "JObj (json_members (atom_json a)) = atom_json a" by (simp add: json_members_def atom_json_def)
  show ?thesis
    using that by (cases "at_compression_class a = ''P1_STRUCTURED''"; cases "at_compression_class a = ''P2_EVIDENCE''")
      (simp_all add: atom_text_def Let_def atom_line_def short_json_def members)
qed

lemma brace_line: "object_lines (rv_dumps E) \<Longrightarrow> \<exists>more. atom_line E v ss = CHR 0x7B # more"
    "object_lines (rv_dumps E) \<Longrightarrow> CHR 0x0A \<notin> set (atom_line E v ss)"
  by (simp_all add: object_lines_def atom_line_def)

lemma frame_begins: "frame_text kind text = CHR ''B'' # tl (frame_text kind text)"
  by (simp add: frame_text_def)

text \<open>Two atoms that print alike are shown alike.\<close>

lemma atom_text_unique:
  assumes "jcs_law (rv_dumps E)" and "object_lines (rv_dumps E)"
    and "atom_text E a ss @ rest = atom_text E b ts @ rest'"
  shows "shown_atom a = shown_atom b \<and> shown_sources E a ss = shown_sources E b ts \<and> rest = rest'"
proof -
  have structured: "shown_atom a = shown_atom b \<and> shown_sources E a ss = shown_sources E b ts \<and> rest = rest'"
    if "at_compression_class a = ''P1_STRUCTURED''" "at_compression_class b = ''P1_STRUCTURED''"
      "frame_text ''ATOM'' (atom_line E (atom_json a) ss) @ rest = frame_text ''ATOM'' (atom_line E (atom_json b) ts) @ rest'"
  proof -
    note parts = frame_same_kind [OF that(3)]
    note line = atom_line_unique [OF assms(1) conjunct1 [OF parts]]
    from line(1) have "atom_identity a = atom_identity b" by (simp only: atom_json_norm)
    with line(2) parts that(1,2) show ?thesis by (simp add: shown_atom_def shown_sources_def)
  qed
  have mixed: False if "frame_text kind body @ x = atom_line E v us @ y" for kind body x v us y
  proof -
    obtain more where "atom_line E v us = CHR 0x7B # more" using brace_line(1) [OF assms(2)] by blast
    with that have "CHR ''B'' # tl (frame_text kind body) @ x = CHR 0x7B # more @ y"
      by (subst (asm) frame_begins) simp
    then show False by simp
  qed
  have split: "atom_line E (short_json a) ss = atom_line E (short_json b) ts \<and> x = y"
    if "atom_line E (short_json a) ss @ newline @ x = atom_line E (short_json b) ts @ newline @ y" for x y
    using split_at_unique [OF _ brace_line(2) [OF assms(2)] brace_line(2) [OF assms(2)]] that by (simp add: newline_def)
  have header: "at_compression_class a = at_compression_class b" "at_atom_id a = at_atom_id b"
      "map (material_id E) ss = map (material_id E) ts" "atom_identity (a \<lparr> at_statement := s \<rparr>) = atom_identity (b \<lparr> at_statement := s \<rparr>)"
    if "atom_line E (short_json a) ss = atom_line E (short_json b) ts" for s
    using atom_line_unique [OF assms(1) that] short_json_norm [of a b s]
    by (simp_all add: atom_identity_def core_atom_eq)
  have same: "shown_atom a = shown_atom b" if "atom_identity (a \<lparr> at_statement := []\<rparr>) = atom_identity (b \<lparr> at_statement := [] \<rparr>)"
    "at_compression_class a = ''P2_EVIDENCE'' \<or> at_statement a = at_statement b"
    using that by (auto simp: shown_atom_def atom_identity_def core_atom_eq)
  note cases = atom_text_cases [of b E ts]
  show ?thesis
  proof (cases rule: atom_text_cases [of a E ss])
    case a1: 1
    show ?thesis
    proof (cases rule: cases)
      case 1 then show ?thesis using structured a1(1) assms(3) [unfolded a1(2) 1(2)] by blast
    next
      case 2 then show ?thesis using mixed [OF assms(3) [unfolded a1(2) 2(2) append_assoc]] by blast
    next
      case 3 then show ?thesis using mixed [OF assms(3) [unfolded a1(2) 3(3) append_assoc]] by blast
    qed
  next
    case a2: 2
    show ?thesis
    proof (cases rule: cases)
      case 1 then show ?thesis using mixed [OF assms(3) [unfolded a2(2) 1(2) append_assoc, symmetric]] by blast
    next
      case 2
      note parts = split [OF assms(3) [unfolded a2(2) 2(2) append_assoc]]
      from header [OF conjunct1 [OF parts]] excerpts_unique [OF conjunct2 [OF parts]] same a2(1)
      show ?thesis by (simp add: shown_sources_def)
    next
      case 3
      from split [OF assms(3) [unfolded a2(2) 3(3) append_assoc]] header(1) a2(1) 3(2) show ?thesis by simp
    qed
  next
    case a3: 3
    show ?thesis
    proof (cases rule: cases)
      case 1 then show ?thesis using mixed [OF assms(3) [unfolded a3(3) 1(2) append_assoc, symmetric]] by blast
    next
      case 2
      from split [OF assms(3) [unfolded a3(3) 2(2) append_assoc]] header(1) a3(2) 2(1) show ?thesis by simp
    next
      case 3
      note parts = split [OF assms(3) [unfolded a3(3) 3(3) append_assoc]]
      note h = header [OF conjunct1 [OF parts]]
      from frame_same_kind [OF conjunct2 [OF parts, unfolded h(2)]]
      have "at_statement a = at_statement b" "rest = rest'" by simp_all
      with h same a3(2) show ?thesis by (simp add: shown_sources_def)
    qed
  qed
qed

section \<open>Reading a sequence of items\<close>

lemma atom_text_or_frame:
  assumes "object_lines (rv_dumps E)"
  shows "\<exists>more. atom_text E a ss = CHR 0x7B # more \<or> (\<exists>body. atom_text E a ss = frame_text ''ATOM'' body)"
proof (cases rule: atom_text_cases [of a E ss])
  case 1 then show ?thesis by blast
next
  case 2
  from brace_line(1) [OF assms, of "short_json a" ss] show ?thesis unfolding 2(2) by fastforce
next
  case 3
  from brace_line(1) [OF assms, of "short_json a" ss] show ?thesis unfolding 3(3) by fastforce
qed

lemma atom_text_other_frame:
  assumes "object_lines (rv_dumps E)" and "atom_text E a ss @ x = frame_text kind body @ y"
    and "CHR 0x0A \<notin> set kind" and "kind \<noteq> ''ATOM''"
  shows False
proof -
  consider more where "atom_text E a ss = CHR 0x7B # more" | body' where "atom_text E a ss = frame_text ''ATOM'' body'"
    using atom_text_or_frame [OF assms(1)] by blast
  then show False
  proof cases
    case 1
    with assms(2) have "CHR 0x7B # more @ x = CHR ''B'' # tl (frame_text kind body) @ y"
      by (subst (asm) frame_begins) simp
    then show False by simp
  next
    case 2
    from frame_text_unique [OF assms(2) [unfolded 2] _ assms(3)] assms(4) show False by simp
  qed
qed

lemma item_text_unique:
  assumes "jcs_law (rv_dumps E)" and "object_lines (rv_dumps E)"
    and "item_text E i @ rest = item_text E j @ rest'" and "item_plain i" and "item_plain j"
  shows "same_item E i j \<and> rest = rest'"
proof -
  have kinds: "CHR 0x0A \<notin> set (''EXPANDED '' @ h)" "CHR 0x0A \<notin> set ''TASK''" if "CHR 0x0A \<notin> set h" for h
    using that by simp_all
  note other = atom_text_other_frame [OF assms(2)]
  show ?thesis
  proof (cases i)
    case i: (AtomItem a ss)
    show ?thesis
    proof (cases j)
      case (AtomItem b ts)
      then show ?thesis using atom_text_unique [OF assms(1,2), of a ss rest b ts rest'] assms(3) i by simp
    next
      case (FullItem h t)
      then show ?thesis using other [of a ss rest _ _ rest', OF assms(3) [unfolded i FullItem item_text.simps] kinds(1)] assms(5) by simp
    next
      case (TaskItem t)
      then show ?thesis using other [of a ss rest _ _ rest', OF assms(3) [unfolded i TaskItem item_text.simps]] by simp
    qed
  next
    case i: (FullItem h t)
    show ?thesis
    proof (cases j)
      case (AtomItem b ts)
      then show ?thesis using other [of b ts rest' _ _ rest, OF assms(3) [symmetric, unfolded i AtomItem item_text.simps] kinds(1)] assms(4) i by simp
    next
      case (FullItem k u)
      then show ?thesis using frame_text_unique [OF assms(3) [unfolded i FullItem item_text.simps] kinds(1) kinds(1)] assms(4,5) i by simp
    next
      case (TaskItem u)
      then show ?thesis using frame_text_unique [OF assms(3) [unfolded i TaskItem item_text.simps] kinds(1)] assms(4) i by simp
    qed
  next
    case i: (TaskItem t)
    show ?thesis
    proof (cases j)
      case (AtomItem b ts)
      then show ?thesis using other [of b ts rest' _ _ rest, OF assms(3) [symmetric, unfolded i AtomItem item_text.simps]] by simp
    next
      case (FullItem k u)
      then show ?thesis using frame_text_unique [OF assms(3) [unfolded i FullItem item_text.simps] _ kinds(1)] assms(5) by simp
    next
      case (TaskItem u)
      from frame_same_kind [OF assms(3) [unfolded i TaskItem item_text.simps]]
      have "jcs_norm (view_task_json t) = jcs_norm (view_task_json u)" "rest = rest'"
        using assms(1) by (simp_all add: jcs_law_def)
      then show ?thesis by (simp add: i TaskItem task_json_norm)
    qed
  qed
qed

lemma item_text_ne: "object_lines (rv_dumps E) \<Longrightarrow> item_text E i \<noteq> []"
  using atom_text_or_frame [of E] by (cases i) (simp_all, metis frame_text_ne list.distinct(1))

lemma items_unique:
  assumes "jcs_law (rv_dumps E)" and "object_lines (rv_dumps E)"
    and "concat (map (item_text E) is) = concat (map (item_text E) js)" and "list_all item_plain is" and "list_all item_plain js"
  shows "list_all2 (same_item E) is js"
  using assms(3-5)
proof (induction "is" arbitrary: js)
  case Nil
  then show ?case using item_text_ne [OF assms(2)] by (cases js) auto
next
  case (Cons i "is")
  then obtain j js' where js: "js = j # js'" using item_text_ne [OF assms(2), of i] by (cases js) auto
  have "item_text E i @ concat (map (item_text E) is) = item_text E j @ concat (map (item_text E) js')"
    using Cons.prems(1) by (simp add: js)
  from item_text_unique [OF assms(1,2) this] Cons.IH [of js'] Cons.prems(2,3) show ?case by (simp add: js)
qed

section \<open>The items of a rendering\<close>

abbreviation group_names :: "pystr list" where
  "group_names \<equiv> map (take 2) compression_classes"

text \<open>The groups of a state hold the texts of the items in a set, and no other.\<close>

definition holds_items :: "resolve_env \<Rightarrow> item set \<Rightarrow> render_state \<Rightarrow> bool" where
  "holds_items E items st \<longleftrightarrow> (\<exists>its. (\<forall>n \<in> set group_names. map_of (rs_groups st) n = Some (map (item_text E) (its n))) \<and>
     (\<Union>n \<in> set group_names. set (its n)) = items)"

lemma holds_items_append:
  assumes "holds_items E items st" and "name \<in> set group_names"
    and "rs_groups st' = group_append name (item_text E i) (rs_groups st)"
  shows "holds_items E (insert i items) st'"
proof -
  obtain its where its: "\<forall>n \<in> set group_names. map_of (rs_groups st) n = Some (map (item_text E) (its n))"
    "(\<Union>n \<in> set group_names. set (its n)) = items"
    using assms(1) unfolding holds_items_def by blast
  let ?its = "its (name := its name @ [i])"
  have "\<forall>n \<in> set group_names. map_of (rs_groups st') n = Some (map (item_text E) (?its n))"
    using its(1) assms(2) by (auto simp: assms(3) group_append_def update_conv')
  moreover have "(\<Union>n \<in> set group_names. set (?its n)) = insert i items"
  proof -
    have "set (?its n) = set (its n) \<union> (if n = name then {i} else {})" for n by simp
    then have "(\<Union>n \<in> set group_names. set (?its n)) = (\<Union>n \<in> set group_names. set (its n)) \<union> (\<Union>n \<in> set group_names. if n = name then {i} else {})"
      by (simp only: UN_Un_distrib)
    with its(2) assms(2) show ?thesis by auto
  qed
  ultimately show ?thesis unfolding holds_items_def by blast
qed

definition plain_keys :: "render_state \<Rightarrow> bool" where
  "plain_keys st \<longleftrightarrow> (\<forall>h. map_of (rs_used st) h \<noteq> None \<longrightarrow> CHR 0x0A \<notin> set h)"

lemma plain_keys_update:
  "plain_keys st \<Longrightarrow> rs_used st' = foldl (\<lambda>d s. AList.update (material_id E s) s d) (rs_used st) sources \<Longrightarrow> plain_keys st'"
proof (induction sources arbitrary: st)
  case (Cons s sources)
  have "plain_keys (st \<lparr> rs_used := AList.update (material_id E s) s (rs_used st) \<rparr>)"
    using Cons.prems(1) by (simp add: plain_keys_def update_conv')
  from Cons.IH [OF this] Cons.prems(2) show ?case by simp
qed (simp add: plain_keys_def)

definition atom_items :: "resolve_env \<Rightarrow> evidence_material list \<Rightarrow> ranked_atom set \<Rightarrow> item set" where
  "atom_items E evidence rs = {AtomItem (ra_atom r) ss | r ss. r \<in> rs \<and> atom_materials E (ra_atom r) evidence = Inr ss}"

lemma render_atom_Inr:
  assumes "render_atom E clean evidence st r = Inr st'"
  obtains ss where "at_compression_class (ra_atom r) \<in> set compression_classes" and "atom_materials E (ra_atom r) evidence = Inr ss"
    and "rs_groups st' = group_append (take 2 (at_compression_class (ra_atom r))) (item_text E (AtomItem (ra_atom r) ss)) (rs_groups st)"
    and "rs_used st' = foldl (\<lambda>d s. AList.update (material_id E s) s d) (rs_used st) ss"
  using assms by (auto simp: render_atom_def Let_def res_bind_Inr_iff split: if_splits)

lemma render_atoms_items:
  assumes "res_fold (render_atom E clean evidence) st rs = Inr st'" and "holds_items E items st" and "plain_keys st"
  shows "holds_items E (items \<union> atom_items E evidence (set rs)) st' \<and> plain_keys st' \<and>
    (\<forall>r \<in> set rs. at_compression_class (ra_atom r) \<in> set compression_classes \<and> \<not> isl (atom_materials E (ra_atom r) evidence))"
  using assms
proof (induction rs arbitrary: st items)
  case Nil
  then show ?case by (simp add: atom_items_def)
next
  case (Cons r rs)
  from Cons.prems(1) obtain mid where mid: "render_atom E clean evidence st r = Inr mid"
    "res_fold (render_atom E clean evidence) mid rs = Inr st'" by (auto simp: res_bind_Inr_iff)
  from mid(1) obtain ss where ss: "at_compression_class (ra_atom r) \<in> set compression_classes" "atom_materials E (ra_atom r) evidence = Inr ss"
    "rs_groups mid = group_append (take 2 (at_compression_class (ra_atom r))) (item_text E (AtomItem (ra_atom r) ss)) (rs_groups st)"
    "rs_used mid = foldl (\<lambda>d s. AList.update (material_id E s) s d) (rs_used st) ss"
    by (rule render_atom_Inr)
  have "holds_items E (insert (AtomItem (ra_atom r) ss) items) mid"
    by (rule holds_items_append [OF Cons.prems(2) _ ss(3)]) (use ss(1) in simp)
  note rest = Cons.IH [OF mid(2) this plain_keys_update [OF Cons.prems(3) ss(4)]]
  have "atom_items E evidence (set (r # rs)) = insert (AtomItem (ra_atom r) ss) (atom_items E evidence (set rs))"
    using ss(2) by (auto simp: atom_items_def)
  with rest ss(1,2) show ?case by simp
qed

lemma expand_handle_items:
  assumes "res_fold (expand_handle E atoms) st handles = Inr st'" and "holds_items E items st" and "plain_keys st"
    and "\<forall>r \<in> set atoms. at_compression_class (ra_atom r) \<in> set compression_classes"
  shows "\<exists>fulls. holds_items E (items \<union> fulls) st' \<and> (\<forall>i \<in> fulls. \<exists>h t. i = FullItem h t \<and> CHR 0x0A \<notin> set h)"
  using assms(1-3)
proof (induction handles arbitrary: st items)
  case Nil
  then show ?case by (intro exI [of _ "{}"]) simp
next
  case (Cons h handles)
  from Cons.prems(1) obtain mid where mid: "expand_handle E atoms st h = Inr mid" "res_fold (expand_handle E atoms) mid handles = Inr st'"
    by (auto simp: res_bind_Inr_iff)
  from mid(1) obtain source owner more where known: "map_of (rs_used st) h = Some source"
    and owner: "sort_key (\<lambda>a. (at_compression_class a, at_atom_id a))
           (filter (\<lambda>a. at_atom_id a \<in> set (eh_atom_ids (em_handle source))) (map ra_atom atoms)) = owner # more"
    and mid': "mid = st \<lparr> rs_groups := group_append (take 2 (at_compression_class owner))
             (item_text E (FullItem h (em_full_text source))) (rs_groups st) \<rparr>"
    by (auto simp: expand_handle_def split: option.splits list.splits)
  have "owner \<in> set (map ra_atom atoms)" using arg_cong [OF owner, of set] by auto
  then have "take 2 (at_compression_class owner) \<in> set group_names" using assms(4) by auto
  from holds_items_append [OF Cons.prems(2) this, of mid "FullItem h (em_full_text source)"]
  have "holds_items E (insert (FullItem h (em_full_text source)) items) mid" by (simp add: mid')
  moreover have "plain_keys mid" using Cons.prems(3) by (simp add: mid' plain_keys_def)
  ultimately obtain fulls where f: "holds_items E (insert (FullItem h (em_full_text source)) items \<union> fulls) st'"
    "\<forall>i \<in> fulls. \<exists>h t. i = FullItem h t \<and> CHR 0x0A \<notin> set h" using Cons.IH [OF mid(2)] by blast
  have "CHR 0x0A \<notin> set h" using Cons.prems(3) known by (simp add: plain_keys_def)
  with f show ?case by (intro exI [of _ "insert (FullItem h (em_full_text source)) fulls"]) simp
qed

lemma rendering_items:
  assumes "neutral_render E clean expanded task atoms evidence = Inr sections"
  shows "\<exists>items. concat (map snd sections) = renderer_schema @ concat (map (item_text E) items) \<and> list_all item_plain items \<and>
    (\<forall>a ss. AtomItem a ss \<in> set items \<longleftrightarrow> AtomItem a ss \<in> atom_items E evidence (set atoms)) \<and>
    (\<forall>t. TaskItem t \<in> set items \<longleftrightarrow> t = task) \<and> (\<forall>r \<in> set atoms. \<not> isl (atom_materials E (ra_atom r) evidence))"
proof -
  let ?start = "\<lparr> rs_groups = map (\<lambda>c. (take 2 c, [])) compression_classes, rs_used = [], rs_seen = {} \<rparr>"
  from assms obtain st st' where folds: "res_fold (render_atom E clean evidence) ?start (sort_key (\<lambda>r. at_atom_id (ra_atom r)) atoms) = Inr st"
      "res_fold (expand_handle E atoms) st expanded = Inr st'"
    and sections: "sections = [(''schema'', renderer_schema), (''P0'', group_text st' ''P0''),
            (''task'', frame_text ''TASK'' (rv_dumps E (view_task_json task)))] @
           map (\<lambda>name. (name, group_text st' name)) [''P1'', ''P2'', ''P3'', ''P4'']"
    by (auto simp: neutral_render_def Let_def res_bind_Inr_iff split: if_splits)
  have names: "set group_names = {''P0'', ''P1'', ''P2'', ''P3'', ''P4''}" by (simp add: compression_classes_def)
  have "holds_items E {} ?start"
    unfolding holds_items_def by (intro exI [of _ "\<lambda>n. []"]) (simp add: compression_classes_def)
  moreover have "plain_keys ?start" by (simp add: plain_keys_def)
  ultimately have "holds_items E ({} \<union> atom_items E evidence (set (sort_key (\<lambda>r. at_atom_id (ra_atom r)) atoms))) st \<and> plain_keys st \<and>
      (\<forall>r \<in> set (sort_key (\<lambda>r. at_atom_id (ra_atom r)) atoms). at_compression_class (ra_atom r) \<in> set compression_classes \<and>
        \<not> isl (atom_materials E (ra_atom r) evidence))"
    by (rule render_atoms_items [OF folds(1)])
  then have first: "holds_items E (atom_items E evidence (set atoms)) st" "plain_keys st"
      "\<forall>r \<in> set atoms. at_compression_class (ra_atom r) \<in> set compression_classes \<and> \<not> isl (atom_materials E (ra_atom r) evidence)"
    by simp_all
  from expand_handle_items [OF folds(2) first(1,2)] first(3) obtain fulls
    where f: "holds_items E (atom_items E evidence (set atoms) \<union> fulls) st'" "\<forall>i \<in> fulls. \<exists>h t. i = FullItem h t \<and> CHR 0x0A \<notin> set h"
    by blast
  then obtain its where its: "\<forall>n \<in> set group_names. map_of (rs_groups st') n = Some (map (item_text E) (its n))"
    "(\<Union>n \<in> set group_names. set (its n)) = atom_items E evidence (set atoms) \<union> fulls"
    unfolding holds_items_def by blast
  have group: "group_text st' n = concat (map (item_text E) (its n))" if "n \<in> {''P0'', ''P1'', ''P2'', ''P3'', ''P4''}" for n
    by (simp add: group_text_def bspec [OF its(1) [unfolded names] that])
  let ?items = "its ''P0'' @ TaskItem task # its ''P1'' @ its ''P2'' @ its ''P3'' @ its ''P4''"
  have all: "set ?items = insert (TaskItem task) (atom_items E evidence (set atoms) \<union> fulls)"
    unfolding its(2) [symmetric] names by auto
  have "concat (map snd sections) = renderer_schema @ concat (map (item_text E) ?items)"
    by (simp add: sections group)
  moreover have "list_all item_plain ?items"
    unfolding list_all_iff all using f(2) by (auto simp: atom_items_def)
  moreover have "AtomItem a ss \<in> set ?items \<longleftrightarrow> AtomItem a ss \<in> atom_items E evidence (set atoms)" for a ss
    unfolding all using f(2) by auto
  moreover have "TaskItem t \<in> set ?items \<longleftrightarrow> t = task" for t
    unfolding all using f(2) by (auto simp: atom_items_def)
  ultimately show ?thesis using first(3) by blast
qed

section \<open>Reading a rendering\<close>

fun item_view :: "resolve_env \<Rightarrow> item \<Rightarrow> ((core_atom \<times> pystr list \<times> pystr list) + pystr \<times> pystr) + view_task" where
  "item_view E (AtomItem a ss) = Inl (Inl (shown_atom a, shown_sources E a ss))"
| "item_view E (FullItem h t) = Inl (Inr (h, t))"
| "item_view E (TaskItem t) = Inr t"

lemma same_item_view: "same_item E i j \<longleftrightarrow> item_view E i = item_view E j"
  by (cases i; cases j) simp_all

definition shown :: "resolve_env \<Rightarrow> evidence_material list \<Rightarrow> ranked_atom \<Rightarrow> (core_atom \<times> pystr list \<times> pystr list) option" where
  "shown E evidence r = (case atom_materials E (ra_atom r) evidence of Inl _ \<Rightarrow> None
     | Inr ss \<Rightarrow> Some (shown_atom (ra_atom r), shown_sources E (ra_atom r) ss))"

lemma shown_views:
  assumes "\<forall>a ss. AtomItem a ss \<in> set items \<longleftrightarrow> AtomItem a ss \<in> atom_items E evidence (set atoms)"
    and "\<forall>r \<in> set atoms. \<not> isl (atom_materials E (ra_atom r) evidence)"
  shows "shown E evidence ` set atoms = {Some v | v. Inl (Inl v) \<in> item_view E ` set items}"
proof -
  have some: "shown E evidence r = Some v \<longleftrightarrow> (\<exists>ss. atom_materials E (ra_atom r) evidence = Inr ss \<and>
      v = (shown_atom (ra_atom r), shown_sources E (ra_atom r) ss))" for r v
    by (cases "atom_materials E (ra_atom r) evidence") (auto simp: shown_def)
  have "Inl (Inl v) \<in> item_view E ` set items \<longleftrightarrow> (\<exists>r \<in> set atoms. shown E evidence r = Some v)" for v
  proof -
    have view: "Inl (Inl v) = item_view E i \<longleftrightarrow> (\<exists>a ss. i = AtomItem a ss \<and> v = (shown_atom a, shown_sources E a ss))" for i
      by (cases i) auto
    have "Inl (Inl v) \<in> item_view E ` set items \<longleftrightarrow>
        (\<exists>a ss. AtomItem a ss \<in> set items \<and> v = (shown_atom a, shown_sources E a ss))"
      unfolding image_iff view by blast
    also have "\<dots> \<longleftrightarrow> (\<exists>r \<in> set atoms. \<exists>ss. atom_materials E (ra_atom r) evidence = Inr ss \<and>
        v = (shown_atom (ra_atom r), shown_sources E (ra_atom r) ss))"
      using assms(1) by (auto simp: atom_items_def)
    finally show ?thesis using some by simp
  qed
  moreover have "shown E evidence r \<noteq> None" if "r \<in> set atoms" for r
    using assms(2) that by (cases "atom_materials E (ra_atom r) evidence") (auto simp: shown_def)
  ultimately show ?thesis by (auto simp: image_iff) (metis option.exhaust)+
qed

lemma renderings_shown:
  assumes "jcs_law (rv_dumps E)" and "object_lines (rv_dumps E)"
    and "neutral_render E clean expanded task atoms evidence = Inr sections"
    and "neutral_render E clean' expanded' task' atoms' evidence' = Inr sections'"
    and "concat (map snd sections) = concat (map snd sections')"
  shows "task = task' \<and> shown E evidence ` set atoms = shown E evidence' ` set atoms'"
proof -
  from rendering_items [OF assms(3)] obtain items where i: "concat (map snd sections) = renderer_schema @ concat (map (item_text E) items)"
    "list_all item_plain items" "\<forall>a ss. AtomItem a ss \<in> set items \<longleftrightarrow> AtomItem a ss \<in> atom_items E evidence (set atoms)"
    "\<forall>t. TaskItem t \<in> set items \<longleftrightarrow> t = task" "\<forall>r \<in> set atoms. \<not> isl (atom_materials E (ra_atom r) evidence)" by blast
  from rendering_items [OF assms(4)] obtain items' where j: "concat (map snd sections') = renderer_schema @ concat (map (item_text E) items')"
    "list_all item_plain items'" "\<forall>a ss. AtomItem a ss \<in> set items' \<longleftrightarrow> AtomItem a ss \<in> atom_items E evidence' (set atoms')"
    "\<forall>t. TaskItem t \<in> set items' \<longleftrightarrow> t = task'" "\<forall>r \<in> set atoms'. \<not> isl (atom_materials E (ra_atom r) evidence')" by blast
  have "concat (map (item_text E) items) = concat (map (item_text E) items')" using assms(5) i(1) j(1) by simp
  from items_unique [OF assms(1,2) this i(2) j(2)] have "map (item_view E) items = map (item_view E) items'"
    by (simp add: list_all2_conv_all_nth list_eq_iff_nth_eq same_item_view)
  then have views: "item_view E ` set items = item_view E ` set items'" by (metis set_map)
  have "item_view E (TaskItem task) \<in> item_view E ` set items'" unfolding views [symmetric] using i(4) by blast
  then obtain x where x: "x \<in> set items'" "item_view E x = Inr task" by auto
  from x(2) have "x = TaskItem task" by (cases x) simp_all
  with x(1) have "TaskItem task \<in> set items'" by simp
  then have "task = task'" using j(4) by blast
  with views show ?thesis using shown_views [OF i(3,5)] shown_views [OF j(3,5)] by simp
qed

end
