(* ===== verification/Compile_Sample.thy ===== *)
theory Compile_Sample
  imports Session_Laws Admission_Properties Frames
begin

text \<open>
  A compilation of the sample capsule: the task requires its interface, so both atoms and their
  evidence go into the view.
\<close>

definition sample_material :: evidence_material where
  "sample_material = \<lparr> em_handle = \<lparr> eh_capsule = capsule_ref_of sample_capsule, eh_evidence_id = ''e1'',
       eh_atom_ids = [''a0'', ''a1''], eh_mode = ''CAS'', eh_content_digest = text_digest (CHR ''b''),
       eh_span_digest = None, eh_resolver_version = ''1.0.0'' \<rparr>,
     em_excerpt = [CHR 0xBB], em_full_text = [CHR 0xBB] \<rparr>"

definition sample_engine :: rank_engine where
  "sample_engine = \<lparr> rk_words = (\<lambda>s. [s]), rk_index = (\<lambda>_. True),
     rk_match = (\<lambda>rows _. Some (map (\<lambda>(i, t). (i, 0)) rows)) \<rparr>"

definition sample_compiler :: view_compiler where
  "sample_compiler = \<lparr> vc_resolver = (\<lambda>_. sample_resolver), vc_sources = (\<lambda>_ _ _. Inr [sample_material]),
     vc_expand = (\<lambda>_. Inr sample_material), vc_span = (\<lambda>_ text. Inr (text, None)), vc_evidence_version = ''1.0.0'',
     vc_rank = rank_atoms sample_resolve_env sample_engine,
     vc_counter = \<lparr> ct_model_id = ''m'', ct_profile = ''texts'', ct_count = (\<lambda>text. Some 1) \<rparr>,
     vc_renderer_version = ''1.0.0'', vc_renderer_handles = [],
     vc_render = neutral_render sample_resolve_env (\<lambda>_. True), vc_stamps = (\<lambda>_. Inr []), vc_clean = (\<lambda>_. True) \<rparr>"

definition sample_request :: compile_request where
  "sample_request = \<lparr> rq_capsules = [sample_publication], rq_task = sample_task, rq_principal = ''bob'',
     rq_budget = \<lparr> vb_model_input_tokens = 4000, vb_system_tokens = 100, vb_conversation_tokens = 100,
       vb_tools_tokens = 100, vb_safety_headroom_tokens = 100 \<rparr>, rq_as_of = ''2024-06-01T00:00:00Z'',
     rq_model_id = ''m'', rq_tokenizer_profile = ''texts'', rq_renderer_version = ''1.0.0'',
     rq_runtime_config = [], rq_expected_manifest_digest = None \<rparr>"

abbreviation sample_a0 :: core_atom where
  "sample_a0 \<equiv> sample_atom ''a0'' ''P0_EXACT'' []"

abbreviation sample_a1 :: core_atom where
  "sample_a1 \<equiv> sample_atom ''a1'' ''P1_STRUCTURED'' [''a0'']"

definition sample_edge :: "pystr \<Rightarrow> pystr \<Rightarrow> pystr \<Rightarrow> bool \<Rightarrow> dependency_edge" where
  "sample_edge s t k m = \<lparr> de_source = s, de_target = t, de_edge_type = k, de_version_constraint = None,
     de_mandatory = m, de_extensions = [] \<rparr>"

definition sample_graph :: resolved_graph where
  "sample_graph = (let ref = capsule_ref_of sample_capsule in
     \<lparr> rg_atoms = [(''a0'', sample_a0), (''a1'', sample_a1)], rg_owners = [(''a0'', [ref]), (''a1'', [ref])],
       rg_publications = [(capsule_ref_key ref, sample_publication)],
       rg_edges = [sample_edge (unit_node ref) ''a0'' ''requires'' True, sample_edge (unit_node ref) ''a1'' ''requires'' True,
         sample_edge ''a0'' (presence ref) ''requires'' True, sample_edge ''a1'' (presence ref) ''requires'' True,
         sample_edge ''a1'' ''a0'' ''optional'' False, sample_edge ''a1'' ''a0'' ''requires'' True],
       rg_root_atom_ids = {''a0'', ''a1''},
       rg_providers = [\<lparr> wt_consumer = None, wt_requirement = ''api/v1'', wt_provider = ref, wt_atom_ids = [''a0'', ''a1''] \<rparr>],
       rg_config_digest = snapshot_digest sample_resolve_env (JObj [(''version'', JStr ''1.0.1''),
               (''profile'', JStr ''CCS-2.1-m4-collective-interfaces-v1'')]) \<rparr>)"

lemma sample_graph_resolves:
  "resolve_graph sample_resolve_env \<lparr> ar_items = [sample_item], ar_rejected_counts = [],
     ar_permission_digest = d, ar_freshness_digest = e \<rparr> sample_task = Inr sample_graph"
  by code_simp

lemma sample_closes:
  "close_atoms sample_graph {''a0''} = Inr {''a0''}" "close_atoms sample_graph {''a0'', ''a1''} = Inr {''a0'', ''a1''}"
  "conflicts_for sample_graph {''a0''} = Inr []" "conflicts_for sample_graph {''a0'', ''a1''} = Inr []"
  by code_simp+

definition sample_ranking :: "ranked_atom list" where
  "sample_ranking = [\<lparr> ra_atom = sample_a0, ra_score = 0, ra_matched = True \<rparr>, \<lparr> ra_atom = sample_a1, ra_score = 0, ra_matched = True \<rparr>]"

lemma sample_ranks:
  "rank_atoms sample_resolve_env sample_engine [sample_a0, sample_a1] sample_task = Inr sample_ranking"
  by code_simp

lemma sample_renders:
  "\<not> isl (neutral_render sample_resolve_env (\<lambda>_. True) [] sample_task (take 1 sample_ranking) [sample_material])"
  "\<not> isl (neutral_render sample_resolve_env (\<lambda>_. True) [] sample_task sample_ranking [sample_material])"
  by code_simp+


abbreviation sample_sources :: "(pystr \<times> evidence_material list) list" where
  "sample_sources \<equiv> [(''a0'', [sample_material]), (''a1'', [sample_material])]"

lemma sample_graph_sources: "graph_sources sample_resolve_env sample_compiler i sample_graph = Inr sample_sources"
  by code_simp

lemma sample_request_valid: "compile_request_valid sample_resolve_env sample_request"
  by code_simp

lemma sample_accounting:
  assumes "neutral_render E clean expanded task atoms evidence = Inr sections" and "ct_count T = (\<lambda>_. Some 1)"
    and "1 \<le> budget_available b" and "budget_available b < 2 ^ 53"
  shows "\<exists>c t. rendered_content sections = Inr c \<and> account_tokens sections T b = Inr t \<and> ta_total t \<le> ta_available t"
proof -
  note names = neutral_sections [OF assms(1)]
  have ok: "rendered_content sections = Inr (concat (map snd sections))"
  proof -
    have "[] \<notin> fst ` set sections" "distinct (map fst sections)"
      unfolding set_map [symmetric] names by simp_all
    then show ?thesis by (force simp: rendered_content_def)
  qed
  have counts: "res_map (\<lambda>(name, text). res_bind (count_tokens T text) (\<lambda>n. Inr (name, n))) xs = Inr (map (\<lambda>s. (fst s, 1)) xs)" for xs
    by (induction xs) (auto simp: count_tokens_def assms(2) count_valid_def)
  have "map (\<lambda>s. (fst s, 1::int)) sections = map (\<lambda>n. (n, 1)) (map fst sections)" by simp
  note counts' = counts [of sections, unfolded this names]
  show ?thesis
    unfolding account_tokens_def ok res_bind_simps counts'
    using assms(2-4) by (simp add: Let_def count_tokens_def count_valid_def token_accounting_valid_def)
qed

lemma sample_render_selection:
  assumes "cs_ranked s = sample_ranking" and "cs_evidence s = sample_sources" and "S = {''a0''} \<or> S = {''a0'', ''a1''}"
  shows "\<exists>c t. render_selection sample_resolve_env sample_compiler sample_request s S [] = Inr (c, t) \<and> ta_total t \<le> ta_available t"
proof -
  let ?m = "sorted_values (dict_by (material_id sample_resolve_env) (concat (map (\<lambda>i. case map_of (cs_evidence s) i of None \<Rightarrow> [] | Some ms \<Rightarrow> ms)
           (sorted_list_of_set S))))"
  have m: "?m = [sample_material]"
    using assms(2,3) by (auto simp: sorted_values_def dict_by_def)
  let ?atoms = "filter (\<lambda>r. at_atom_id (ra_atom r) \<in> S) (cs_ranked s)"
  have "?atoms = take 1 sample_ranking \<or> ?atoms = sample_ranking"
    using assms(1,3) by (auto simp: sample_ranking_def sample_atom_def)
  then obtain sections where sec: "neutral_render sample_resolve_env (\<lambda>_. True) [] sample_task ?atoms [sample_material] = Inr sections"
    using sample_renders by (auto simp: isl_def) (metis (no_types) sum.exhaust isl_def)+
  have "\<exists>c t. rendered_content sections = Inr c \<and> account_tokens sections (vc_counter sample_compiler) (rq_budget sample_request) = Inr t \<and> ta_total t \<le> ta_available t"
    by (rule sample_accounting [OF sec]) (simp_all add: sample_compiler_def sample_request_def budget_available_def)
  with sec m show ?thesis
    by (auto simp: render_selection_def sample_compiler_def sample_request_def Let_def)
qed

text \<open>What a selection leaves alone, and what it ends with.\<close>

definition settled :: "compilation \<Rightarrow> pystr set \<Rightarrow> compilation \<Rightarrow> bool" where
  "settled s S s' \<longleftrightarrow> cs_selected s' = S \<and> ta_total (cs_tokens s') \<le> ta_available (cs_tokens s') \<and>
     cs_ranked s' = cs_ranked s \<and> cs_evidence s' = cs_evidence s \<and> cs_metadata s' = cs_metadata s \<and>
     cs_services s' = cs_services s \<and> cs_admission s' = cs_admission s \<and> cs_graph s' = cs_graph s \<and>
     cs_request s' = cs_request s \<and> cs_expanded s' = cs_expanded s"

lemma sample_mandatory:
  assumes "cs_ranked s = sample_ranking" and "cs_evidence s = sample_sources"
    and S: "cs_selected s \<union> seeds = S" "S = {''a0''} \<or> S = {''a0'', ''a1''}"
  shows "wp (mandatory_atoms sample_resolve_env sample_compiler sample_request sample_graph seeds reason overflow)
    (\<lambda>_ s'. settled s S s') (\<lambda>_. False) s"
proof -
  have cl: "close_atoms sample_graph S = Inr S" "conflicts_for sample_graph S = Inr []"
    using S(2) sample_closes by auto
  obtain c t where r: "render_selection sample_resolve_env sample_compiler sample_request s S [] = Inr (c, t)"
    "ta_total t \<le> ta_available t" using sample_render_selection [OF assms(1,2) S(2)] by blast
  have "wp (close_checked sample_graph (cs_selected s \<union> seeds)) Q (\<lambda>_. False) s = Q S (s \<lparr> cs_conflicts := [] \<rparr>)" for Q
    unfolding S(1) by (simp add: close_checked_def wp_simps cl)
  then have cc: "wp (\<lambda>s. close_checked sample_graph (cs_selected s \<union> seeds) s) Q (\<lambda>_. False) s = Q S (s \<lparr> cs_conflicts := [] \<rparr>)" for Q
    by (simp add: wp_def)
  show ?thesis unfolding mandatory_atoms_def wp_bind cc using r by (simp add: wp_simps settled_def)
qed

lemma settled_trans: "settled s S s' \<Longrightarrow> settled s' T s'' \<Longrightarrow> settled s T s''"
  by (simp add: settled_def)

lemma sample_selects:
  assumes "cs_selected s = {}" and "cs_ranked s = sample_ranking"
    and "cs_evidence s = sample_sources" and "cs_expanded s = []"
  shows "wp (select_atoms_session sample_resolve_env sample_compiler sample_request sample_graph)
    (\<lambda>_ s'. settled s {''a0'', ''a1''} s') (\<lambda>_. False) s"
proof -
  let ?M = "mandatory_atoms sample_resolve_env sample_compiler sample_request sample_graph"
  let ?p1 = "\<lambda>s. at_atom_id ` ra_atom ` set (filter (\<lambda>r. ra_matched r \<and> at_compression_class (ra_atom r) = ''P1_STRUCTURED'') (cs_ranked s)) \<union>
      set (tk_required_atom_ids (rq_task sample_request)) \<union> rg_root_atom_ids sample_graph"
  have p0: "fst ` set (filter (\<lambda>(i, a). at_compression_class a = ''P0_EXACT'') (rg_atoms sample_graph)) = {''a0''}"
    by (simp add: sample_graph_def sample_atom_def Let_def)
  have p1: "?p1 s = {''a0'', ''a1''}" if "cs_ranked s = sample_ranking" for s
    using that by (simp add: sample_ranking_def sample_atom_def sample_request_def sample_task_def sample_graph_def Let_def)
  let ?s = "s \<lparr> cs_reasons := map (\<lambda>(i, a). (i, ''NOT_RELEVANT'')) (rg_atoms sample_graph) \<rparr>"
  have first: "wp (?M {''a0''} ''P0_REQUIRED'' ''P0_OVERFLOW'') (\<lambda>_. settled ?s {''a0''}) (\<lambda>_. False) ?s"
    by (rule sample_mandatory) (use assms in simp_all)
  have second: "wp (\<lambda>s. ?M (?p1 s) ''TASK_REQUIRED'' ''P1_OVERFLOW'' s) (\<lambda>_. settled s {''a0'', ''a1''}) (\<lambda>_. False) s1"
    if "settled ?s {''a0''} s1" for s1
  proof -
    have "wp (?M {''a0'', ''a1''} ''TASK_REQUIRED'' ''P1_OVERFLOW'') (\<lambda>_. settled s1 {''a0'', ''a1''}) (\<lambda>_. False) s1"
      by (rule sample_mandatory) (use assms that in \<open>auto simp: settled_def\<close>)
    then have "wp (?M {''a0'', ''a1''} ''TASK_REQUIRED'' ''P1_OVERFLOW'') (\<lambda>_. settled s {''a0'', ''a1''}) (\<lambda>_. False) s1"
      by (rule wp_mono) (use that in \<open>simp_all add: settled_def\<close>)
    moreover have "?p1 s1 = {''a0'', ''a1''}" by (rule p1) (use that assms(2) in \<open>simp add: settled_def\<close>)
    ultimately show ?thesis by (simp only: wp_def)
  qed
  have loop: "wp (\<lambda>s. s_each (consider_atom sample_resolve_env sample_compiler sample_request sample_graph)
      (sort_key (\<lambda>r. at_compression_class (ra_atom r)) (cs_ranked s)) s) (\<lambda>_. settled s {''a0'', ''a1''}) (\<lambda>_. False) s2"
    if "settled s {''a0'', ''a1''} s2" for s2
  proof -
    have "at_atom_id (ra_atom item) \<in> {''a0'', ''a1''}" if "item \<in> set sample_ranking" for item
      using that by (auto simp: sample_ranking_def sample_atom_def)
    then have "wp (s_each (consider_atom sample_resolve_env sample_compiler sample_request sample_graph)
      (sort_key (\<lambda>r. at_compression_class (ra_atom r)) sample_ranking)) (\<lambda>_. settled s {''a0'', ''a1''}) (\<lambda>_. False) s2"
      using that by (intro wp_each) (auto simp: consider_atom_def wp_def settled_def Let_def)
    moreover have "cs_ranked s2 = sample_ranking" using that assms(2) by (simp add: settled_def)
    ultimately show ?thesis by (simp add: wp_def)
  qed
  have last: "wp (expand_selection sample_resolve_env sample_compiler sample_request) (\<lambda>_. settled s {''a0'', ''a1''}) (\<lambda>_. False) s3"
    if "settled s {''a0'', ''a1''} s3" for s3
    using that assms(4) by (simp add: expand_selection_def wp_simps settled_def)
  show ?thesis unfolding select_atoms_session_def wp_bind wp_update p0
    by (rule wp_mono [OF first]) (blast intro: wp_mono [OF second] wp_mono [OF loop] last)+
qed

lemma sample_parts [simp]:
  "vc_resolver sample_compiler i = sample_resolver" "vc_stamps sample_compiler i = Inr []"
  "vc_rank sample_compiler = rank_atoms sample_resolve_env sample_engine"
  "rq_capsules sample_request = [sample_publication]" "rq_task sample_request = sample_task"
  "rq_principal sample_request = ''bob''" "rq_expected_manifest_digest sample_request = None"
  by (simp_all add: sample_compiler_def sample_request_def)

lemma sample_configures:
  "wp (configure sample_compiler sample_request) Q (\<lambda>_. False) s = Q () (s \<lparr> cs_expanded := [], cs_services := [] \<rparr>)"
  by (simp add: configure_def wp_simps)
    (simp add: sample_compiler_def sample_request_def expansion_ids_def unique_strings_def wp_simps)

lemma sample_session_ranks:
  "wp (rank_session sample_compiler sample_graph sample_request) Q (\<lambda>_. False) s = Q () (s \<lparr> cs_ranked := sample_ranking \<rparr>)"
proof -
  have "dict_values (rg_atoms sample_graph) = [sample_a0, sample_a1]" by (simp add: sample_graph_def Let_def)
  moreover have "length sample_ranking = length (rg_atoms sample_graph)" "check_ranking sample_graph sample_ranking {}"
    by (simp_all add: sample_ranking_def sample_graph_def sample_atom_def Let_def)
  ultimately show ?thesis by (simp add: rank_session_def wp_def sample_ranks)
qed

lemma sample_finishes:
  assumes "resolve sample_resolve_env sample_resolver [sample_publication] sample_task ''bob'' = Inr r"
    and "cs_selected s = {''a0'', ''a1''}" "ta_total (cs_tokens s) \<le> ta_available (cs_tokens s)" "cs_evidence s = sample_sources"
    and "cs_metadata s = request_metadata sample_resolve_env sample_request" "cs_services s = []" "cs_admission s = Some r"
    and "cs_graph s = Some sample_graph" "cs_request s = Some sample_request"
  shows "wp (finish_session sample_resolve_env sample_compiler sample_request sample_graph)
      (\<lambda>v _. vr_ok (kv_validation v)) (\<lambda>_. False) s"
proof -
  have "closable sample_request s" using assms close_atoms_closable [OF sample_closes(2)] by (simp add: closable_def)
  then obtain m where m: "build_manifest sample_resolve_env s \<lparr> vr_ok = True, vr_codes = [] \<rparr> False = Inr m"
    "vm_validation m = \<lparr> vr_ok = True, vr_codes = [] \<rparr>" using build_manifest_closable by blast
  have tok: "vm_tokens m = cs_tokens s"
    using m(1) by (auto simp: build_manifest_def Let_def res_bind_Inr_iff)
  have "\<exists>v. session_result sample_resolve_env s \<lparr> vr_ok = True, vr_codes = [] \<rparr> False = Inr v \<and> vr_ok (kv_validation v)"
    using m tok assms(3) by (simp add: session_result_def compiled_view_valid_def Let_def)
  then obtain v where v: "session_result sample_resolve_env s \<lparr> vr_ok = True, vr_codes = [] \<rparr> False = Inr v" "vr_ok (kv_validation v)"
    by blast
  have roots: "rg_root_atom_ids sample_graph \<subseteq> {''a0'', ''a1''}" "set (tk_required_atom_ids sample_task) \<subseteq> {''a0'', ''a1''}"
    by (simp_all add: sample_graph_def sample_task_def Let_def)
  have "map_of (cs_metadata s) ''request_digest'' = Some (request_digest sample_resolve_env sample_request)"
    unfolding assms(5) by (simp add: request_metadata_def)
  then have "final_checks sample_resolve_env sample_compiler sample_graph sample_request s = (Inr (), s)"
    using assms sample_closes roots
    by (simp add: final_checks_def s_bind_def s_check_def s_lift_def sample_graph_sources)
  then have "wp (final_checks sample_resolve_env sample_compiler sample_graph sample_request) Q (\<lambda>_. False) s = Q () s" for Q
    by (simp add: wp_def)
  then show ?thesis unfolding finish_session_def wp_bind using v by (simp add: wp_simps)
qed

lemma sample_runs:
  "wp (run_session sample_resolve_env sample_compiler sample_request) (\<lambda>v _. vr_ok (kv_validation v)) (\<lambda>_. False) new_compilation"
proof -
  obtain r where r: "resolve sample_resolve_env sample_resolver [sample_publication] sample_task ''bob'' = Inr r"
    "ar_items r = [sample_item]" "ar_rejected_counts r = []" using sample_resolves by blast
  have graph: "resolve_graph sample_resolve_env r sample_task = Inr sample_graph"
    using r(2,3) sample_graph_resolves by (cases r) simp
  have root: "close_atoms sample_graph (rg_root_atom_ids sample_graph \<union> set (tk_required_atom_ids sample_task)) = Inr {''a0'', ''a1''}"
    using sample_closes(2) by (simp add: sample_graph_def sample_task_def Let_def)
  have tail: "wp (select_atoms_session sample_resolve_env sample_compiler sample_request sample_graph)
      (\<lambda>_. wp (finish_session sample_resolve_env sample_compiler sample_request sample_graph) (\<lambda>v _. vr_ok (kv_validation v)) (\<lambda>_. False))
      (\<lambda>_. False) s"
    if "cs_selected s = {}" "cs_ranked s = sample_ranking" "cs_evidence s = sample_sources" "cs_expanded s = []"
      "cs_metadata s = request_metadata sample_resolve_env sample_request" "cs_services s = []" "cs_admission s = Some r"
      "cs_graph s = Some sample_graph" "cs_request s = Some sample_request" for s
    by (rule wp_mono [OF sample_selects [OF that(1-4)]])
      (use that(5-) in \<open>auto simp: settled_def that(3) intro!: sample_finishes [OF r(1)]\<close>)
  show ?thesis
    unfolding run_session_def wp_bind wp_update sample_configures
    by (simp add: wp_lift r(1) graph sample_graph_sources root sample_session_ranks wp_update)
      (rule tail; simp add: new_compilation_def)
qed

lemma sample_compiles:
  "\<exists>v. compile_capsule_view sample_resolve_env sample_compiler sample_request = Inr v \<and> vr_ok (kv_validation v)"
proof -
  have "validate_request sample_resolve_env sample_compiler sample_request = Inr ()"
    using sample_request_valid by (simp add: validate_request_def sample_compiler_def)
  moreover obtain v s where "run_session sample_resolve_env sample_compiler sample_request new_compilation = (Inr v, s)"
    "vr_ok (kv_validation v)"
    using sample_runs by (auto simp: wp_def split: prod.splits sum.splits)
  ultimately show ?thesis by (simp add: compile_capsule_view_def s_bind_def s_lift_def)
qed

section \<open>A rendering with a lawful encoder\<close>

text \<open>An encoder with what RFC 8785 promises.\<close>

definition brace_dumps :: "json \<Rightarrow> bytes" where
  "brace_dumps v = (case jcs_norm v of JObj _ \<Rightarrow> CHR 0x7B | _ \<Rightarrow> CHR ''-'') # counting_dumps v"

lemma brace_dumps_laws: "jcs_law brace_dumps" "object_lines brace_dumps"
proof -
  have "counting_dumps v = counting_dumps w \<longleftrightarrow> jcs_norm v = jcs_norm w" for v w
    using counting_dumps_law by (simp add: jcs_law_def)
  then show "jcs_law brace_dumps" by (auto simp: jcs_law_def brace_dumps_def)
  show "object_lines brace_dumps"
    by (auto simp: object_lines_def brace_dumps_def jcs_norm.simps(3) counting_dumps_def)
qed

abbreviation brace_env :: resolve_env where
  "brace_env \<equiv> sample_resolve_env \<lparr> rv_dumps := brace_dumps \<rparr>"

lemma brace_renders:
  "\<exists>sections. \<forall>r. ra_atom r = sample_a0 \<longrightarrow>
     neutral_render brace_env (\<lambda>_. True) [] sample_task [r] [sample_material] = Inr sections"
  by (simp add: neutral_render_def Let_def render_atom_def atom_materials_def collect_materials.simps sample_material_def
      sample_atom_def compression_classes_def)

end
