(* ===== verification/Compile_Properties.thy ===== *)
theory Compile_Properties
  imports Compile_Sample Frames
begin

text \<open>
  Properties of ranking and of view compilation, composed with admission and graph assembly.
\<close>

text \<open>C5. Every compilation answers: with the view of a completed transaction, which passed the view's
  own validators and reproduces a recorded manifest if one was given, or with a refusal. A
  refusal exports no content, no evidence handle and no closure, carries exactly one code of
  the public list, and names capsules, atoms or providers only as long as the policies still
  give the admission they were taken from, never after a policy snapshot was invalidated.\<close>

theorem compile_answers:
  "\<exists>v. compile_capsule_view E C q = Inr v \<and>
     (if vr_ok (kv_validation v)
      then compile_request_valid E q \<and> compiled_view_valid v \<and> vr_codes (kv_validation v) = [] \<and>
        (case rq_expected_manifest_digest q of None \<Rightarrow> True | Some d \<Rightarrow> view_manifest_digest E (kv_manifest v) = d)
      else refusal E C q v)"
proof (rule compile_cases [of E C q])
  fix v s assume v: "compile_capsule_view E C q = Inr v" "compiled E C q v s" "compile_request_valid E q"
  then obtain G where "cs_graph s = Some G" and r: "session_result E s \<lparr> vr_ok = True, vr_codes = [] \<rparr> False = Inr v"
    by (auto simp: compiled_def consistent_def)
  from session_result_Inr [OF r this(1)] v show ?thesis by (auto simp: compiled_def)
next
  fix v assume "compile_capsule_view E C q = Inr v" "refusal E C q v"
  then show ?thesis by (auto simp: refusal_def Let_def)
qed

text \<open>C4. A valid view fits: its token total is the tokenizer's count of exactly the content that is
  delivered, lies between 0 and what the model's input budget leaves after the system,
  conversation, tools and safety reserves, and is the sum of the counts of the sections
  corrected by the recorded boundary adjustment.\<close>

theorem compile_within_budget:
  assumes "compile_capsule_view E C q = Inr v" and "vr_ok (kv_validation v)"
  shows "let t = vm_tokens (kv_manifest v); b = rq_budget q in
    ct_count (vc_counter C) (kv_content v) = Some (ta_total t) \<and> 0 \<le> ta_total t \<and> ta_total t \<le> ta_available t \<and>
    ta_available t = vb_model_input_tokens b - vb_system_tokens b - vb_conversation_tokens b - vb_tools_tokens b -
      vb_safety_headroom_tokens b \<and>
    sum_list (map snd (ta_sections t)) + ta_boundary_adjustment t = ta_total t \<and>
    map fst (ta_sections t) = [''schema'', ''P0'', ''task'', ''P1'', ''P2'', ''P3'', ''P4'']"
proof (rule compile_cases [of E C q])
  fix v' assume "compile_capsule_view E C q = Inr v'" "refusal E C q v'"
  with assms show ?thesis by (simp add: refusal_def Let_def)
next
  fix v' s assume "compile_capsule_view E C q = Inr v'" "compiled E C q v' s"
  with assms(1) obtain G ids where s: "cs_graph s = Some G" "ta_total (cs_tokens s) \<le> ta_available (cs_tokens s)"
    and ren: "render_selection E C q s (cs_selected s) ids = Inr (cs_content s, cs_tokens s)"
    and res: "session_result E s \<lparr> vr_ok = True, vr_codes = [] \<rparr> False = Inr v"
    by (auto simp: compiled_def consistent_def)
  obtain material sections where sec: "neutral_render E (vc_clean C) ids (rq_task q)
      (filter (\<lambda>r. at_atom_id (ra_atom r) \<in> cs_selected s) (cs_ranked s)) material = Inr sections"
    and content: "cs_content s = concat (map snd sections)"
    and acc: "account_tokens sections (vc_counter C) (rq_budget q) = Inr (cs_tokens s)"
    using render_selection_Inr [OF ren] by blast
  note view = session_result_Inr [OF res s(1)] and tokens = account_tokens_Inr [OF acc]
  have "map fst (ta_sections (cs_tokens s)) = [''schema'', ''P0'', ''task'', ''P1'', ''P2'', ''P3'', ''P4'']"
    using tokens(4) neutral_sections [OF sec] by simp
  with view s(2) tokens(1-3) content show ?thesis
    by (simp add: token_accounting_valid_def budget_available_def count_valid_def)
qed

theorem compile_within_budget_witness:
  "\<exists>v. compile_capsule_view sample_resolve_env sample_compiler sample_request = Inr v \<and>
     ta_total (vm_tokens (kv_manifest v)) \<le> 3600"
proof -
  obtain v where "compile_capsule_view sample_resolve_env sample_compiler sample_request = Inr v" "vr_ok (kv_validation v)"
    using sample_compiles by blast
  with compile_within_budget [OF this] show ?thesis by (auto simp: Let_def sample_request_def)
qed

text \<open>C3. A valid view is sound. Its atoms \<open>S\<close> are atoms of the graph resolved from what was admitted,
  under policies that admitted the same at the end as at the start. \<open>S\<close> contains every admitted
  exact atom, every atom and interface the task requires and every relevant structured atom;
  with an atom it contains all atoms that one requires and none it conflicts with. The content
  is the neutral rendering of exactly the atoms of \<open>S\<close>, and the decisions say selected for these
  and only these.\<close>

theorem compile_sound:
  assumes "compile_capsule_view E C q = Inr v" and "vr_ok (kv_validation v)"
  shows "\<exists>a G S ids atoms material sections.
    resolve E (vc_resolver C 0) (rq_capsules q) (rq_task q) (rq_principal q) = Inr a \<and>
    resolve E (vc_resolver C 1) (rq_capsules q) (rq_task q) (rq_principal q) = Inr a \<and>
    resolve_graph E a (rq_task q) = Inr G \<and> S \<subseteq> set (dict_keys (rg_atoms G)) \<and>
    set (tk_required_atom_ids (rq_task q)) \<union> rg_root_atom_ids G \<subseteq> S \<and>
    (\<forall>(i, atom) \<in> set (rg_atoms G). (at_compression_class atom = ''P0_EXACT'' \<longrightarrow> i \<in> S) \<and>
       (i \<in> S \<longrightarrow> set (at_requires_atoms atom) \<subseteq> S \<and> set (at_conflicts_with atom) \<inter> S = {})) \<and>
    neutral_render E (vc_clean C) ids (rq_task q) atoms material = Inr sections \<and>
    kv_content v = concat (map snd sections) \<and> (at_atom_id \<circ> ra_atom) ` set atoms = S \<and>
    (\<forall>r \<in> set atoms. map_of (rg_atoms G) (at_atom_id (ra_atom r)) = Some (ra_atom r)) \<and>
    (\<forall>d \<in> set (vm_decisions (kv_manifest v)). dn_outcome d = ''selected'' \<longleftrightarrow> dn_atom_id d \<in> S)"
proof (rule compile_cases [of E C q])
  fix v' assume "compile_capsule_view E C q = Inr v'" "refusal E C q v'"
  with assms show ?thesis by (simp add: refusal_def Let_def)
next
  fix v' s assume "compile_capsule_view E C q = Inr v'" "compiled E C q v' s"
  with assms(1) obtain a G ids where
    admit: "resolve E (vc_resolver C 0) (rq_capsules q) (rq_task q) (rq_principal q) = Inr a"
      "resolve E (vc_resolver C 1) (rq_capsules q) (rq_task q) (rq_principal q) = Inr a"
      "resolve_graph E a (rq_task q) = Inr G"
    and rank: "length (cs_ranked s) = length (rg_atoms G)" "check_ranking G (cs_ranked s) {}"
    and state: "cs_graph s = Some G" "close_atoms G (cs_selected s) = Inr (cs_selected s)"
      "conflicts_for G (cs_selected s) = Inr []" "mandatory_ids q G (cs_ranked s) \<subseteq> cs_selected s"
    and ren: "render_selection E C q s (cs_selected s) ids = Inr (cs_content s, cs_tokens s)"
    and res: "session_result E s \<lparr> vr_ok = True, vr_codes = [] \<rparr> False = Inr v"
    by (auto simp: compiled_def consistent_def less_2_all)
  let ?S = "cs_selected s" and ?atoms = "filter (\<lambda>r. at_atom_id (ra_atom r) \<in> cs_selected s) (cs_ranked s)"
  have decl: "graph_declares G" by (rule resolve_graph_declares [OF admit(3)])
  note closed = close_atoms_sound [OF decl state(2)] and view = session_result_Inr [OF res state(1)]
  have "(at_atom_id \<circ> ra_atom) ` set ?atoms = (at_atom_id \<circ> ra_atom) ` set (cs_ranked s) \<inter> ?S" by auto
  then have cover: "(at_atom_id \<circ> ra_atom) ` set ?atoms = ?S"
    unfolding check_ranking_covers [OF rank(2,1)] by (simp only: Int_absorb1 [OF closed(2)])
  have found: "\<forall>r \<in> set ?atoms. map_of (rg_atoms G) (at_atom_id (ra_atom r)) = Some (ra_atom r)"
    using rank(2) by (simp add: check_ranking_iff)
  have each: "\<forall>(i, atom) \<in> set (rg_atoms G). (at_compression_class atom = ''P0_EXACT'' \<longrightarrow> i \<in> ?S) \<and>
       (i \<in> ?S \<longrightarrow> set (at_requires_atoms atom) \<subseteq> ?S \<and> set (at_conflicts_with atom) \<inter> ?S = {})"
  proof (clarify, intro conjI impI)
    fix i atom assume "(i, atom) \<in> set (rg_atoms G)" and "at_compression_class atom = ''P0_EXACT''"
    then have "i \<in> mandatory_ids q G (cs_ranked s)" by (force simp: mandatory_ids_def)
    with state(4) show "i \<in> ?S" ..
  qed (fact closed(3), fact conflicts_for_Nil [OF decl state(2,3)])
  have must: "set (tk_required_atom_ids (rq_task q)) \<union> rg_root_atom_ids G \<subseteq> ?S"
    using state(4) by (simp add: mandatory_ids_def)
  from render_selection_Inr [OF ren] obtain material sections where
    rendered: "neutral_render E (vc_clean C) ids (rq_task q) ?atoms material = Inr sections"
      "cs_content s = concat (map snd sections)"
    by blast
  have content: "kv_content v = concat (map snd sections)" using view(2) rendered(2) by simp
  have decided: "\<forall>d \<in> set (vm_decisions (kv_manifest v)). dn_outcome d = ''selected'' \<longleftrightarrow> dn_atom_id d \<in> ?S"
    using view(5) by simp
  show ?thesis
    by (rule exI [of _ a], rule exI [of _ G], rule exI [of _ ?S], rule exI [of _ ids], rule exI [of _ ?atoms],
        rule exI [of _ material], rule exI [of _ sections])
      (intro conjI admit closed(2) must each cover found rendered(1) content decided)
qed

theorem compile_sound_witness:
  "\<exists>v S. compile_capsule_view sample_resolve_env sample_compiler sample_request = Inr v \<and> {''a0'', ''a1''} \<subseteq> S \<and>
     (\<forall>d \<in> set (vm_decisions (kv_manifest v)). dn_outcome d = ''selected'' \<longleftrightarrow> dn_atom_id d \<in> S)"
proof -
  obtain v where v: "compile_capsule_view sample_resolve_env sample_compiler sample_request = Inr v" "vr_ok (kv_validation v)"
    using sample_compiles by blast
  obtain r where r: "resolve sample_resolve_env sample_resolver [sample_publication] sample_task ''bob'' = Inr r"
    "ar_items r = [sample_item]" "ar_rejected_counts r = []" using sample_resolves by blast
  then have graph: "resolve_graph sample_resolve_env r sample_task = Inr sample_graph"
    using sample_graph_resolves by (cases r) simp
  obtain a G S where S: "resolve sample_resolve_env sample_resolver [sample_publication] sample_task ''bob'' = Inr a"
    "resolve_graph sample_resolve_env a sample_task = Inr G" "rg_root_atom_ids G \<subseteq> S"
    "\<forall>d \<in> set (vm_decisions (kv_manifest v)). dn_outcome d = ''selected'' \<longleftrightarrow> dn_atom_id d \<in> S"
    using compile_sound [OF v] unfolding sample_parts Un_subset_iff by (elim exE conjE) (rule that)
  have "G = sample_graph" using S(1,2) r(1) graph by simp
  moreover have "rg_root_atom_ids sample_graph = {''a0'', ''a1''}" by (simp add: sample_graph_def Let_def)
  ultimately have "{''a0'', ''a1''} \<subseteq> S" using S(3) by simp
  with v(1) S(4) show ?thesis by (intro exI conjI)
qed

text \<open>Ranking is deterministic: it depends on the set of admitted atoms only, not on their order or
  on repetitions, errors included. A result lists each atom exactly once, by compression class,
  relevance, score and identifier.\<close>

theorem rank_atoms_deterministic:
  assumes "inj_on at_atom_id (set atoms)" and "set atoms = set atoms'"
  shows "rank_atoms E K atoms task = rank_atoms E K atoms' task \<and>
    (case rank_atoms E K atoms task of Inl e \<Rightarrow> True
     | Inr rs \<Rightarrow> ra_atom ` set rs = set atoms \<and> distinct (map (at_atom_id \<circ> ra_atom) rs) \<and> sorted (map ranked_atom_key rs))"
proof
  show "rank_atoms E K atoms task = rank_atoms E K atoms' task"
    by (simp add: rank_atoms_def unique_atoms_order [OF assms])
  show "case rank_atoms E K atoms task of Inl e \<Rightarrow> True
     | Inr rs \<Rightarrow> ra_atom ` set rs = set atoms \<and> distinct (map (at_atom_id \<circ> ra_atom) rs) \<and> sorted (map ranked_atom_key rs)"
  proof (cases "rank_atoms E K atoms task")
    case (Inr rs)
    then obtain cs scores where cs: "unique_atoms E atoms = Inr cs" and rs: "rs = sort_key ranked_atom_key (map (ranked scores) cs)"
      by (auto simp: rank_atoms_def res_bind_Inr_iff)
    note members = unique_atoms_members [OF assms(1) unique_atoms_valid [OF cs assms(1)] cs]
    have "map (at_atom_id \<circ> ra_atom) (map (ranked scores) cs) = map at_atom_id cs" by simp
    with members(2) have "distinct (map (at_atom_id \<circ> ra_atom) (map (ranked scores) cs))" by (simp only:)
    then have "distinct (map (at_atom_id \<circ> ra_atom) rs)" by (simp only: rs distinct_map distinct_sort set_sort)
    moreover have "ra_atom ` set rs = set atoms" using members(1) by (simp add: rs image_image)
    ultimately show ?thesis using Inr by (simp add: rs)
  qed simp
qed

theorem rank_atoms_deterministic_witness:
  "rank_atoms sample_resolve_env sample_engine [sample_a1, sample_a0, sample_a1] sample_task = Inr sample_ranking"
proof -
  have "inj_on at_atom_id (set [sample_a0, sample_a1])" by (simp add: sample_atom_def)
  moreover have "set [sample_a0, sample_a1] = set [sample_a1, sample_a0, sample_a1]" by auto
  ultimately have "rank_atoms sample_resolve_env sample_engine [sample_a0, sample_a1] sample_task =
      rank_atoms sample_resolve_env sample_engine [sample_a1, sample_a0, sample_a1] sample_task"
    by (rule rank_atoms_deterministic [THEN conjunct1])
  then show ?thesis by (simp only: sample_ranks)
qed

text \<open>C38. What the neutral renderer delivers can be read in one way only: two renderings, with
  whatever scanners and expanded handles, deliver the same text only if they are of the same task
  and show the same atoms (all fields, extensions up to their encoding) with the same evidence
  handles, the atoms of class P2 with the same excerpts in place of the statement. No statement,
  excerpt or identifier, whatever delimiters and line ends it contains, can pass for another part
  of the view.\<close>

theorem rendering_unambiguous:
  assumes "jcs_law (rv_dumps E)" and "object_lines (rv_dumps E)"
    and "neutral_render E clean expanded task atoms evidence = Inr sections"
    and "neutral_render E clean' expanded' task' atoms' evidence' = Inr sections'"
    and "concat (map snd sections) = concat (map snd sections')"
  shows "task = task' \<and> shown E evidence ` set atoms = shown E evidence' ` set atoms'"
  by (rule renderings_shown [OF assms])

theorem rendering_unambiguous_witness:
  "shown brace_env [sample_material] ` {\<lparr> ra_atom = sample_a0, ra_score = 0, ra_matched = True \<rparr>} =
     shown brace_env [sample_material] ` {\<lparr> ra_atom = sample_a0, ra_score = 1, ra_matched = False \<rparr>}"
proof -
  obtain sections where s: "ra_atom r = sample_a0 \<Longrightarrow>
     neutral_render brace_env (\<lambda>_. True) [] sample_task [r] [sample_material] = Inr sections" for r
    using brace_renders by blast
  from rendering_unambiguous [OF _ _ s [of "\<lparr> ra_atom = sample_a0, ra_score = 0, ra_matched = True \<rparr>"]
      s [of "\<lparr> ra_atom = sample_a0, ra_score = 1, ra_matched = False \<rparr>"] refl]
  show ?thesis by (simp add: brace_dumps_laws)
qed

end
