(* ===== verification/Cas.thy ===== *)
theory Cas
  imports View_Model
begin

text \<open>
  The content store (\<^verbatim>\<open>storage/cas.py\<close>): a map from digests to the bytes of the object files. A file
  is an envelope, the magic bytes, the length of the header in four bytes, the header and the
  data. Directories, locks and temporary files are the host's: the model has the store as the
  operations leave it, one operation at a time. The store only ever adds files.
\<close>

section \<open>The host\<close>

text \<open>\<open>re_loads\<close> is \<open>json.loads\<close> of decoded bytes, \<open>None\<close> when they are no JSON text.\<close>

record registry_env =
  re_base :: resolve_env
  re_loads :: "bytes \<Rightarrow> json option"

datatype registry_error = RegistryAuthorizationError | RegistryNotFound | VersionConflict
  | PublicationConflict pystr | PublicationIntegrityError pystr | BlobAuthorizationError
  | BlobIntegrityError pystr | BlobMetadataConflict | RegistryFault pystr

type_synonym 'a registry_result = "registry_error + 'a"

abbreviation re_digest :: "registry_env \<Rightarrow> bytes \<Rightarrow> pystr" where
  "re_digest H data \<equiv> ''sha256:'' @ to_hex (rv_sha256 (re_base H) data)"

abbreviation re_bytes :: "registry_env \<Rightarrow> json \<Rightarrow> bytes option" where
  "re_bytes H \<equiv> canonical_json_bytes (rv_dumps (re_base H))"

section \<open>Lengths in four bytes\<close>

definition be32 :: "nat \<Rightarrow> bytes" where
  "be32 n = map (\<lambda>k. char_of (n div 256 ^ k)) [3, 2, 1, 0]"

definition from_be32 :: "bytes \<Rightarrow> nat" where
  "from_be32 bs = foldl (\<lambda>n c. 256 * n + of_char c) 0 bs"

lemma length_be32 [simp]: "length (be32 n) = 4"
  by (simp add: be32_def)

lemma from_be32_be32:
  assumes "n < 2 ^ 32"
  shows "from_be32 (be32 n) = n"
proof -
  let ?a = "n div 256" and ?b = "n div 65536" and ?c = "n div 16777216"
  have steps: "?b = ?a div 256" "?c = ?b div 256" by (simp_all only: div_mult2_eq [symmetric]) simp_all
  have "?c < 256" using assms by simp
  then have top: "?c mod 256 = ?c" by simp
  have "256 * ?c + ?b mod 256 = ?b" "256 * ?b + ?a mod 256 = ?a" "256 * ?a + n mod 256 = n"
    unfolding steps by (rule mult_div_mod_eq)+
  then show ?thesis by (simp add: from_be32_def be32_def take_bit_eq_mod top)
qed

section \<open>Envelopes\<close>

record blob_ref =
  br_digest :: pystr
  br_media_type :: pystr
  br_size :: nat

record stored_blob =
  sb_ref :: blob_ref
  sb_data :: bytes

type_synonym cas = "(pystr \<times> bytes) list"

definition cas_magic :: bytes where
  "cas_magic = ''CCS-CAS-1'' @ [CHR 0x00]"

definition cas_header :: "bytes \<Rightarrow> pystr \<Rightarrow> pystr \<Rightarrow> json" where
  "cas_header data media_type digest =
     JObj [(''digest'', JStr digest), (''media_type'', JStr media_type), (''size'', JInt (int (length data)))]"

definition envelope :: "registry_env \<Rightarrow> bytes \<Rightarrow> pystr \<Rightarrow> pystr \<Rightarrow> bytes registry_result" where
  "envelope H data media_type digest = (case re_bytes H (cas_header data media_type digest) of
      None \<Rightarrow> Inl (RegistryFault ''ValueError'')
    | Some header \<Rightarrow>
        if length header < 2 ^ 32 then Inr (cas_magic @ be32 (length header) @ header @ data)
        else Inl (RegistryFault ''struct.error''))"

section \<open>Reading\<close>

text \<open>The header must be an object with exactly the three keys, in canonical form.\<close>

definition parse_header :: "registry_env \<Rightarrow> bytes \<Rightarrow> (pystr \<times> pystr \<times> json) registry_result" where
  "parse_header H header = (case re_loads H header of
      None \<Rightarrow> Inl (BlobIntegrityError ''malformed'')
    | Some (JObj members) \<Rightarrow>
        if set (dict_keys members) \<noteq> {''digest'', ''media_type'', ''size''} then Inl (BlobIntegrityError ''header'')
        else (case re_bytes H (JObj members) of
            None \<Rightarrow> Inl (BlobIntegrityError ''malformed'')
          | Some again \<Rightarrow>
              if again \<noteq> header then Inl (BlobIntegrityError ''header'')
              else (case (map_of members ''media_type'', map_of members ''digest'', map_of members ''size'') of
                  (Some (JStr media_type), Some (JStr digest), Some sz) \<Rightarrow>
                    if is_media_type media_type \<and> is_digest digest then Inr (media_type, digest, sz)
                    else Inl (BlobIntegrityError ''malformed'')
                | _ \<Rightarrow> Inl (BlobIntegrityError ''malformed'')))
    | Some _ \<Rightarrow> Inl (BlobIntegrityError ''header''))"

definition open_envelope :: "registry_env \<Rightarrow> bytes \<Rightarrow> ((pystr \<times> pystr \<times> json) \<times> bytes) registry_result" where
  "open_envelope H raw =
    (if \<not> startswith raw cas_magic \<or> length raw < length cas_magic + 4 then Inl (BlobIntegrityError ''malformed'')
     else let offset = length cas_magic; n = from_be32 (take 4 (drop offset raw)); start = offset + 4 in
       if n = 0 \<or> start + n > length raw then Inl (BlobIntegrityError ''header length'')
       else res_bind (parse_header H (take n (drop start raw))) (\<lambda>header. Inr (header, drop (start + n) raw)))"

definition read_verified :: "registry_env \<Rightarrow> cas \<Rightarrow> pystr \<Rightarrow> stored_blob registry_result" where
  "read_verified H store digest =
    (if \<not> is_digest digest then Inl (RegistryFault ''ValueError'')
     else (case map_of store digest of
        None \<Rightarrow> Inl (BlobIntegrityError ''missing'')
      | Some raw \<Rightarrow>
          res_bind (open_envelope H raw) (\<lambda>((media_type, stored_digest, sz), data).
            if stored_digest \<noteq> digest \<or> re_digest H data \<noteq> digest \<or> sz \<noteq> JInt (int (length data))
            then Inl (BlobIntegrityError ''verification'')
            else Inr \<lparr> sb_ref = \<lparr> br_digest = digest, br_media_type = media_type, br_size = length data \<rparr>,
                       sb_data = data \<rparr>)))"

section \<open>Writing\<close>

definition put_blob :: "registry_env \<Rightarrow> cas \<Rightarrow> bytes \<Rightarrow> pystr \<Rightarrow> (blob_ref \<times> cas) registry_result" where
  "put_blob H store data media_type =
    (if \<not> is_media_type media_type then Inl (RegistryFault ''ValueError'')
     else let digest = re_digest H data in
       (case map_of store digest of
          Some raw \<Rightarrow>
            res_bind (read_verified H store digest) (\<lambda>stored.
              if br_media_type (sb_ref stored) \<noteq> media_type then Inl BlobMetadataConflict
              else Inr (sb_ref stored, store))
        | None \<Rightarrow>
            res_bind (envelope H data media_type digest) (\<lambda>raw.
              Inr (\<lparr> br_digest = digest, br_media_type = media_type, br_size = length data \<rparr>,
                   store @ [(digest, raw)]))))"

text \<open>\<open>FilesystemCAS.get_blob\<close>: \<open>None\<close> stands for an authorizer that raises.\<close>

definition cas_get_blob ::
  "registry_env \<Rightarrow> (pystr \<Rightarrow> pystr \<Rightarrow> bool option) \<Rightarrow> cas \<Rightarrow> pystr \<Rightarrow> pystr \<Rightarrow> bytes registry_result" where
  "cas_get_blob H authorizer store digest caller =
    (if \<not> is_digest digest then Inl (RegistryFault ''ValueError'')
     else if authorizer digest caller \<noteq> Some True then Inl BlobAuthorizationError
     else res_bind (read_verified H store digest) (\<lambda>stored. Inr (sb_data stored)))"

section \<open>Laws\<close>

text \<open>Whatever a read returns has the digest it was asked for.\<close>

lemma read_verified_digest:
  "read_verified H store digest = Inr blob \<Longrightarrow> re_digest H (sb_data blob) = digest \<and> br_digest (sb_ref blob) = digest \<and>
     br_size (sb_ref blob) = length (sb_data blob)"
  by (auto simp: read_verified_def res_bind_Inr_iff split: if_splits option.splits)

text \<open>What \<open>json.loads\<close> promises on the output of the encoder for values without fractions: the same
  value up to the order of keys.\<close>

fun json_plain :: "json \<Rightarrow> bool" where
  "json_plain (JFloat r) = False"
| "json_plain (JList xs) = (\<forall>x \<in> set xs. json_plain x)"
| "json_plain (JObj fs) = (\<forall>f \<in> set fs. json_plain (snd f))"
| "json_plain v = True"

fun json_sorted :: "json \<Rightarrow> json" where
  "json_sorted (JList xs) = JList (map json_sorted xs)"
| "json_sorted (JObj fs) = JObj (sort_key fst (map (\<lambda>f. (fst f, json_sorted (snd f))) fs))"
| "json_sorted v = v"

definition loads_law :: "registry_env \<Rightarrow> bool" where
  "loads_law H \<longleftrightarrow> (\<forall>v. json_plain v \<longrightarrow>
     (\<exists>w. re_loads H (rv_dumps (re_base H) v) = Some w \<and> json_sorted w = json_sorted v \<and>
          rv_dumps (re_base H) w = rv_dumps (re_base H) v))"

lemma put_blob_keeps:
  assumes "put_blob H store data mt = Inr (ref, store')" and "map_of store d = Some raw"
  shows "map_of store' d = Some raw"
  using assms by (auto simp: put_blob_def Let_def res_bind_Inr_iff split: if_splits option.splits)

lemma read_verified_grows:
  assumes "map_of store' digest = map_of store digest"
  shows "read_verified H store' digest = read_verified H store digest"
  by (simp add: read_verified_def assms)

end
