(* ===== verification/Trust_Wire.thy ===== *)
theory Trust_Wire
  imports Cas
begin

text \<open>
  Access to JSON wires the way Python reads them, and the trust types of \<^verbatim>\<open>audit/quarantine.py\<close> and
  \<^verbatim>\<open>build/publish.py\<close> that a publication carries: trust root, source proof, loader attestation,
  issuer, permit. An object identity that the code uses as a capability is a number.
\<close>

section \<open>Reading JSON\<close>

type_synonym members = "(pystr \<times> json) list"

text \<open>\<open>d.get(key)\<close>: a missing member reads as \<open>None\<close>, as \<open>null\<close> does.\<close>

definition json_get :: "members \<Rightarrow> pystr \<Rightarrow> json" where
  "json_get d key = (case map_of d key of None \<Rightarrow> JNull | Some v \<Rightarrow> v)"

definition json_obj :: "json \<Rightarrow> members option" where
  "json_obj v = (case v of JObj d \<Rightarrow> Some d | _ \<Rightarrow> None)"

definition json_list :: "json \<Rightarrow> json list option" where
  "json_list v = (case v of JList xs \<Rightarrow> Some xs | _ \<Rightarrow> None)"

definition json_str :: "json \<Rightarrow> pystr option" where
  "json_str v = (case v of JStr s \<Rightarrow> Some s | _ \<Rightarrow> None)"

text \<open>\<open>isinstance(v, int)\<close> holds for a boolean.\<close>

definition json_int :: "json \<Rightarrow> int option" where
  "json_int v = (case v of JInt i \<Rightarrow> Some i | JBool b \<Rightarrow> Some (if b then 1 else 0) | _ \<Rightarrow> None)"

definition json_truthy :: "json \<Rightarrow> bool" where
  "json_truthy v = (case v of JNull \<Rightarrow> False | JBool b \<Rightarrow> b | JInt i \<Rightarrow> i \<noteq> 0 | JFloat r \<Rightarrow> r \<noteq> 0
     | JStr s \<Rightarrow> s \<noteq> [] | JList xs \<Rightarrow> xs \<noteq> [] | JObj d \<Rightarrow> d \<noteq> [])"

text \<open>Python's \<open>==\<close>: numbers and booleans by value, dictionaries without regard to order.\<close>

fun py_norm :: "json \<Rightarrow> json" where
  "py_norm (JBool b) = JFloat (if b then 1 else 0)"
| "py_norm (JInt i) = JFloat (of_int i)"
| "py_norm (JList xs) = JList (map py_norm xs)"
| "py_norm (JObj fs) = JObj (sort_key fst (map (\<lambda>f. (fst f, py_norm (snd f))) fs))"
| "py_norm v = v"

definition json_eq :: "json \<Rightarrow> json \<Rightarrow> bool" where
  "json_eq v w \<longleftrightarrow> py_norm v = py_norm w"

text \<open>A value used as a dictionary key: lists and dictionaries are not hashable, and no other value
  than a string is a key of the dictionaries looked into.\<close>

definition json_key :: "json \<Rightarrow> pystr option registry_result" where
  "json_key v = (case v of JStr s \<Rightarrow> Inr (Some s) | JList _ \<Rightarrow> Inl (RegistryFault ''TypeError'')
     | JObj _ \<Rightarrow> Inl (RegistryFault ''TypeError'') | _ \<Rightarrow> Inr None)"

abbreviation integrity :: "pystr \<Rightarrow> 'a registry_result" where
  "integrity code \<equiv> Inl (PublicationIntegrityError code)"

definition ensure :: "bool \<Rightarrow> pystr \<Rightarrow> unit registry_result" where
  "ensure ok code = (if ok then Inr () else integrity code)"

text \<open>\<open>except Exception\<close> around a block, raised as a publication error.\<close>

definition guarded :: "pystr \<Rightarrow> 'a registry_result \<Rightarrow> 'a registry_result" where
  "guarded code r = (case r of Inl e \<Rightarrow> integrity code | Inr x \<Rightarrow> Inr x)"

definition the_or :: "'a option \<Rightarrow> pystr \<Rightarrow> 'a registry_result" where
  "the_or x code = (case x of None \<Rightarrow> integrity code | Some y \<Rightarrow> Inr y)"

definition jcs_text :: "registry_env \<Rightarrow> json \<Rightarrow> bytes registry_result" where
  "jcs_text H v = (case re_bytes H v of None \<Rightarrow> Inl (RegistryFault ''ValueError'') | Some b \<Rightarrow> Inr b)"

definition jcs_digest :: "registry_env \<Rightarrow> json \<Rightarrow> pystr registry_result" where
  "jcs_digest H v = res_bind (jcs_text H v) (\<lambda>b. Inr (re_digest H b))"

definition jcs_same :: "registry_env \<Rightarrow> json \<Rightarrow> json \<Rightarrow> bool registry_result" where
  "jcs_same H v w = res_bind (jcs_text H v) (\<lambda>a. res_bind (jcs_text H w) (\<lambda>b. Inr (a = b)))"

lemma ensure_Inr [simp, result_simps]: "ensure ok code = Inr u \<longleftrightarrow> ok"
  by (simp add: ensure_def)

lemma guarded_Inr [simp, result_simps]: "guarded code r = Inr x \<longleftrightarrow> r = Inr x"
  by (cases r) (simp_all add: guarded_def)

lemma the_or_Inr [simp, result_simps]: "the_or x code = Inr y \<longleftrightarrow> x = Some y"
  by (cases x) (simp_all add: the_or_def)

lemma json_obj_Some [simp]: "json_obj v = Some d \<longleftrightarrow> v = JObj d"
  by (cases v) (simp_all add: json_obj_def)

lemma json_list_Some [simp]: "json_list v = Some xs \<longleftrightarrow> v = JList xs"
  by (cases v) (simp_all add: json_list_def)

lemma json_str_Some [simp]: "json_str v = Some s \<longleftrightarrow> v = JStr s"
  by (cases v) (simp_all add: json_str_def)

lemma json_eq_str [simp]: "json_eq v (JStr s) \<longleftrightarrow> v = JStr s" "json_eq (JStr s) v \<longleftrightarrow> v = JStr s"
  by (cases v; auto simp: json_eq_def)+

section \<open>The host of the trust gate\<close>

text \<open>A deterministic source proof names a parsed Git snapshot; its token is the store's.\<close>

record source_proof =
  pf_snapshot_id :: pystr
  pf_content_digest :: pystr
  pf_mode :: pystr
  pf_parser_kind :: pystr
  pf_repository :: pystr
  pf_revision :: pystr
  pf_path :: pystr
  pf_root :: pystr
  pf_collector_profile :: pystr
  pf_token :: "nat option"

record loader_attestation =
  la_capsule_digest :: pystr
  la_publication_digest :: pystr
  la_pipeline :: "pystr list"
  la_package_path :: "pystr option"
  la_signature :: pystr
  la_store_id :: pystr
  la_capability :: "nat option"
  la_profile :: pystr

record publication_issuer =
  pi_store_id :: pystr
  pi_source_token :: nat
  pi_loader_token :: nat

record publication_permit =
  pm_payload :: members
  pm_signature :: pystr
  pm_source_bytes :: "bytes list"
  pm_source_proofs :: "source_proof list"
  pm_loader_attestation :: "loader_attestation option"
  pm_issuer :: "publication_issuer option"

text \<open>What the gate asks of its surroundings: HMAC-SHA-256, the secret scanner, Git objects, the
  package loader, Python's own \<open>json.dumps\<close>, \<open>datetime.fromisoformat\<close>, the text functions
  \<open>decode\<close>, \<open>splitlines\<close> and \<open>strip\<close>, and the clock, read once for each approval.\<close>

record gate_env =
  ge_host :: registry_env
  ge_hmac :: "bytes \<Rightarrow> bytes \<Rightarrow> bytes"
  ge_clean :: "bytes \<Rightarrow> bool"
  ge_git :: "source_proof \<Rightarrow> bytes option"
  ge_load :: "pystr \<Rightarrow> core_capsule option"
  ge_loader_key :: bytes
  ge_py_dumps :: "json \<Rightarrow> bytes"
  ge_instant :: "pystr \<Rightarrow> int option"
  ge_lines :: "bytes \<Rightarrow> pystr list option"
  ge_strip :: "pystr \<Rightarrow> pystr"
  ge_now :: "pystr \<Rightarrow> int"

section \<open>The trust root\<close>

record trust_root =
  tr_secrets :: "(pystr \<times> bytes) list"
  tr_issuer :: pystr
  tr_policy_version :: pystr

definition trust_root_valid :: "trust_root \<Rightarrow> bool" where
  "trust_root_valid r \<longleftrightarrow> tr_secrets r \<noteq> [] \<and> distinct (dict_keys (tr_secrets r)) \<and>
     (\<forall>s \<in> set (dict_values (tr_secrets r)). s \<noteq> []) \<and> tr_issuer r \<noteq> [] \<and> tr_policy_version r \<noteq> []"

definition tr_signer :: "trust_root \<Rightarrow> pystr" where
  "tr_signer r = Min (set (dict_keys (tr_secrets r)))"

definition root_id :: "gate_env \<Rightarrow> trust_root \<Rightarrow> pystr registry_result" where
  "root_id T r = res_bind (jcs_text (ge_host T) (JObj
      [(''issuer'', JStr (tr_issuer r)), (''policy_version'', JStr (tr_policy_version r)),
       (''signer_id'', JStr (tr_signer r)),
       (''approvers'', JList (map (\<lambda>(a, s). JObj [(''approver_id'', JStr a),
          (''key_fingerprint'', JStr (to_hex (rv_sha256 (re_base (ge_host T)) s)))]) (sort_key fst (tr_secrets r))))]))
     (\<lambda>b. Inr (''trust-root-'' @ take 32 (to_hex (rv_sha256 (re_base (ge_host T)) b))))"

definition sign_payload :: "gate_env \<Rightarrow> trust_root \<Rightarrow> json \<Rightarrow> pystr registry_result" where
  "sign_payload T r payload = res_bind (jcs_text (ge_host T) payload) (\<lambda>message.
     case map_of (tr_secrets r) (tr_signer r) of
       None \<Rightarrow> Inl (RegistryFault ''KeyError'')
     | Some key \<Rightarrow> Inr (''hmac-sha256:'' @ tr_signer r @ '':'' @ to_hex (ge_hmac T key message)))"

text \<open>\<open>signature.split(":", 2)\<close> into three parts.\<close>

definition verify_payload :: "gate_env \<Rightarrow> trust_root \<Rightarrow> json \<Rightarrow> pystr \<Rightarrow> bool" where
  "verify_payload T r payload signature =
    (if \<not> startswith signature ''hmac-sha256:'' then False
     else (case py_partition (CHR '':'') (snd (snd (py_partition (CHR '':'') signature))) of
        (signer, separator, rest) \<Rightarrow>
          separator \<noteq> [] \<and> signer = tr_signer r \<and> sign_payload T r payload = Inr signature))"

section \<open>Loader attestations\<close>

definition loader_profile :: pystr where
  "loader_profile = ''CCS-2.1-m3-loader-v1''"

definition loader_pipeline :: "pystr list" where
  "loader_pipeline = [''strict-json'', ''json-schema'', ''python-semantics'', ''digest-and-reference-integrity'', ''load_capsule'']"

definition loader_payload :: "loader_attestation \<Rightarrow> members" where
  "loader_payload a =
    [(''profile'', JStr (la_profile a)), (''capsule_digest'', JStr (la_capsule_digest a)),
     (''publication_digest'', JStr (la_publication_digest a)),
     (''pipeline'', JList (map JStr (la_pipeline a))), (''package_path'', json_opt JStr (la_package_path a)),
     (''store_id'', JStr (la_store_id a))]"

definition loader_wire :: "loader_attestation \<Rightarrow> members" where
  "loader_wire a = loader_payload a @ [(''signature'', JStr (la_signature a))]"

text \<open>\<open>json.dumps(..., sort_keys=True)\<close> is the parameter on the members in key order.\<close>

definition loader_sign :: "gate_env \<Rightarrow> members \<Rightarrow> pystr" where
  "loader_sign T payload = ''loader-hmac-sha256:'' @
     to_hex (ge_hmac T (ge_loader_key T) (ge_py_dumps T (JObj (sort_key fst payload))))"

definition loader_verify :: "gate_env \<Rightarrow> members \<Rightarrow> pystr \<Rightarrow> bool" where
  "loader_verify T payload signature \<longleftrightarrow>
     startswith signature ''loader-hmac-sha256:'' \<and> signature = loader_sign T payload"

definition loader_attestation_valid :: "loader_attestation \<Rightarrow> bool" where
  "loader_attestation_valid a \<longleftrightarrow> la_profile a = loader_profile \<and> la_pipeline a = loader_pipeline \<and>
     startswith (la_capsule_digest a) ''sha256:'' \<and> startswith (la_publication_digest a) ''sha256:'' \<and>
     la_signature a \<noteq> [] \<and> la_store_id a \<noteq> []"

text \<open>\<open>_PublicationIssuer\<close>: a value is owned if it carries the store's own token.\<close>

definition owns_source_proof :: "publication_issuer \<Rightarrow> source_proof \<Rightarrow> bool" where
  "owns_source_proof i p \<longleftrightarrow> pf_token p = Some (pi_source_token i)"

definition owns_loader_attestation :: "publication_issuer \<Rightarrow> loader_attestation option \<Rightarrow> bool" where
  "owns_loader_attestation i a \<longleftrightarrow> (case a of None \<Rightarrow> False | Some a \<Rightarrow> la_capability a = Some (pi_loader_token i))"

definition permit_valid :: "publication_permit \<Rightarrow> bool" where
  "permit_valid p \<longleftrightarrow> pm_signature p \<noteq> []"

section \<open>Approvals\<close>

text \<open>An approval is read from its wire, so its members stand for the record. \<open>HumanApproval\<close> takes
  exactly its fields; the optional ones have defaults.\<close>

definition approval_field :: "members \<Rightarrow> pystr \<Rightarrow> json" where
  "approval_field m key = (case map_of m key of Some v \<Rightarrow> v
     | None \<Rightarrow> if key = ''signature'' then JStr [] else if key = ''issuer'' then JStr ''trusted-human-review'' else JNull)"

definition approval_required :: "pystr list" where
  "approval_required = [''approval_id'', ''candidate_id'', ''approver_id'', ''approved_at'', ''decision'', ''candidate_digest'', ''evidence_digests'']"

definition digest_list :: "json \<Rightarrow> pystr list option" where
  "digest_list v = (case v of JList xs \<Rightarrow>
      (if \<forall>x \<in> set xs. (case json_str x of None \<Rightarrow> False | Some d \<Rightarrow> is_digest d)
       then Some (map (\<lambda>x. the (json_str x)) xs) else None) | _ \<Rightarrow> None)"

definition parse_instant :: "gate_env \<Rightarrow> json \<Rightarrow> int option" where
  "parse_instant T v = (case v of JStr s \<Rightarrow> ge_instant T (removesuffix ''Z'' s @ ''+00:00'') | _ \<Rightarrow> None)"

definition human_approval_valid :: "gate_env \<Rightarrow> members \<Rightarrow> bool" where
  "human_approval_valid T m \<longleftrightarrow>
     set approval_required \<subseteq> set (dict_keys m) \<and>
     set (dict_keys m) \<subseteq> set approval_required \<union> {''expires_at'', ''signature'', ''issuer''} \<and>
     json_truthy (approval_field m ''approval_id'') \<and> json_truthy (approval_field m ''candidate_id'') \<and>
     json_truthy (approval_field m ''approver_id'') \<and>
     approval_field m ''decision'' \<in> {JStr ''approve'', JStr ''reject''} \<and>
     (case json_str (approval_field m ''candidate_digest'') of None \<Rightarrow> False | Some d \<Rightarrow> is_digest d) \<and>
     digest_list (approval_field m ''evidence_digests'') \<noteq> None \<and>
     parse_instant T (approval_field m ''approved_at'') \<noteq> None \<and>
     (approval_field m ''expires_at'' = JNull \<or> parse_instant T (approval_field m ''expires_at'') \<noteq> None)"

definition approval_signing_json :: "members \<Rightarrow> json" where
  "approval_signing_json m = JObj (map (\<lambda>key. (key, approval_field m key))
     [''approval_id'', ''candidate_id'', ''approver_id'', ''approved_at'', ''decision'', ''candidate_digest'',
      ''evidence_digests'', ''expires_at'', ''issuer''])"

definition hmac_verify :: "gate_env \<Rightarrow> trust_root \<Rightarrow> members \<Rightarrow> bool registry_result" where
  "hmac_verify T r m =
    res_bind (json_key (approval_field m ''approver_id'')) (\<lambda>approver.
      case (case approver of None \<Rightarrow> None | Some a \<Rightarrow> map_of (tr_secrets r) a) of
        None \<Rightarrow> Inr False
      | Some secret \<Rightarrow>
          if approval_field m ''issuer'' \<noteq> JStr (tr_issuer r) then Inr False
          else (case json_str (approval_field m ''signature'') of
              None \<Rightarrow> Inl (RegistryFault ''AttributeError'')
            | Some signature \<Rightarrow>
                if \<not> startswith signature ''hmac-sha256:'' then Inr False
                else res_bind (jcs_text (ge_host T) (approval_signing_json m)) (\<lambda>message.
                  Inr (removeprefix ''hmac-sha256:'' signature = to_hex (ge_hmac T secret message)))))"

end
