(* ===== verification/Trust_Gate.thy ===== *)
theory Trust_Gate
  imports Trust_Wire
begin

text \<open>
  The final publication gate of the registry (the trust checks of \<^verbatim>\<open>storage/registry.py\<close>): a publication
  with exact or structured atoms needs a permit signed by the registry's trust root for this
  very capsule, and every atom a candidate, an approval and evidence that still agree with the
  source bytes. Each check of the code is a function with a result; the messages of the errors
  are shortened.
\<close>

section \<open>Which publications cross the gate\<close>

definition is_m3_capsule :: "core_capsule \<Rightarrow> bool" where
  "is_m3_capsule c \<longleftrightarrow>
     json_get (cm_extensions (cc_control_manifest c)) ''x-builder-profile'' = JStr ''CCS-2.1-m3-v1'' \<or>
     json_get (cm_extensions (cc_control_manifest c)) ''x-m3-trust-required'' = JBool True \<or>
     (\<exists>a \<in> set (capsule_atoms c). json_obj (json_get (at_extensions a) ''x-trust'') \<noteq> None)"

definition requires_m3_gate :: "core_capsule \<Rightarrow> bool" where
  "requires_m3_gate c \<longleftrightarrow> is_m3_capsule c \<or>
     (\<exists>a \<in> set (capsule_atoms c). at_compression_class a \<in> {''P0_EXACT'', ''P1_STRUCTURED''})"

definition scope_json :: "core_capsule \<Rightarrow> json" where
  "scope_json c = (let scope = cm_scope (cc_control_manifest c) in JObj
     [(''repositories'', json_strings (sp_repositories scope)), (''paths'', json_strings (sp_paths scope)),
      (''environments'', json_strings (sp_environments scope))])"

section \<open>Permit signature and header\<close>

definition verify_permit_signature ::
  "gate_env \<Rightarrow> trust_root option \<Rightarrow> publication_permit \<Rightarrow> (trust_root \<times> publication_issuer \<times> members) registry_result" where
  "verify_permit_signature T trusted permit =
    (case (trusted, pm_issuer permit) of
       (Some r, Some issuer) \<Rightarrow>
         res_bind (the_or (json_obj (json_get (pm_payload permit) ''loader_attestation'')) ''issuer'') (\<lambda>wire.
         res_bind (ensure (json_get wire ''store_id'' = JStr (pi_store_id issuer) \<and>
             owns_loader_attestation issuer (pm_loader_attestation permit)) ''issuer'') (\<lambda>_.
         res_bind (ensure (verify_payload T r (JObj (pm_payload permit)) (pm_signature permit)) ''signature'') (\<lambda>_.
           Inr (r, issuer, pm_payload permit))))
     | _ \<Rightarrow> integrity ''unavailable'')"

definition publication_digest_of :: "gate_env \<Rightarrow> core_capsule \<Rightarrow> pystr option" where
  "publication_digest_of T c =
     loader_publication_digest (rv_sha256 (re_base (ge_host T))) (rv_dumps (re_base (ge_host T))) c"

definition canonical_digest_of :: "gate_env \<Rightarrow> core_capsule \<Rightarrow> pystr option" where
  "canonical_digest_of T c = canonical_digest (rv_sha256 (re_base (ge_host T))) (rv_dumps (re_base (ge_host T))) c"

definition validate_loader_attestation ::
  "gate_env \<Rightarrow> members \<Rightarrow> core_capsule \<Rightarrow> publication_permit \<Rightarrow> unit registry_result" where
  "validate_loader_attestation T payload c permit =
    (let digest = cm_content_digest (cc_control_manifest c) in
     res_bind (the_or (json_obj (json_get payload ''loader_attestation'')) ''loader'') (\<lambda>wire.
     res_bind (ensure (json_get wire ''profile'' = JStr loader_profile \<and> json_get wire ''capsule_digest'' = JStr digest \<and>
         json_get wire ''pipeline'' = JList (map JStr loader_pipeline)) ''loader binding'') (\<lambda>_.
     res_bind (the_or (json_str (json_get wire ''package_path'')) ''loader binding'') (\<lambda>path.
     res_bind (ensure (startswith path ''/'' \<and> json_str (json_get wire ''store_id'') \<noteq> None \<and>
         json_str (json_get wire ''signature'') \<noteq> None) ''loader binding'') (\<lambda>_.
     res_bind (the_or (json_str (json_get wire ''publication_digest'')) ''loader binding'') (\<lambda>publication_digest.
     res_bind (the_or (pm_loader_attestation permit) ''loader signature'') (\<lambda>attestation.
     res_bind (guarded ''loader signature'' (jcs_same (ge_host T) (JObj (loader_wire attestation)) (JObj wire))) (\<lambda>same.
     res_bind (ensure (same \<and> loader_verify T (loader_payload attestation) (la_signature attestation) \<and>
         publication_digest_of T c = Some publication_digest) ''loader signature'') (\<lambda>_.
     res_bind (the_or (ge_load T path) ''package'') (\<lambda>loaded.
     res_bind (ensure (canonical_digest_of T loaded = Some digest) ''package digest'') (\<lambda>_.
       ensure (publication_digest_of T loaded = Some publication_digest) ''package projection'')))))))))))"

definition validate_m3_header ::
  "gate_env \<Rightarrow> trust_root \<Rightarrow> core_capsule \<Rightarrow> pystr \<Rightarrow> members \<Rightarrow> publication_permit \<Rightarrow> unit registry_result" where
  "validate_m3_header T r c caller payload permit =
    (let manifest = cc_control_manifest c in
     res_bind (ensure (json_get payload ''capsule_digest'' = JStr (cm_content_digest manifest) \<and>
         json_get payload ''capsule_id'' = JStr (cm_capsule_id manifest) \<and>
         json_get payload ''version'' = JStr (cm_version manifest) \<and>
         json_get payload ''principal_id'' = JStr caller) ''publication'') (\<lambda>_.
     res_bind (ensure (json_get payload ''policy_version'' = JStr (tr_policy_version r)) ''policy version'') (\<lambda>_.
     res_bind (root_id T r) (\<lambda>anchor.
     res_bind (ensure (json_get payload ''trust_root_id'' = JStr anchor) ''trust root'') (\<lambda>_.
     res_bind (ensure (json_get payload ''scanner_version'' = JStr ''m3-secret-scanner-v1'') ''scanner'') (\<lambda>_.
     res_bind (ensure (json_get payload ''authority'' = JStr (cm_authority manifest) \<and>
         json_eq (json_get payload ''scope'') (scope_json c)) ''target'') (\<lambda>_.
       validate_loader_attestation T payload c permit)))))))"

section \<open>Trust metadata of the capsule\<close>

definition source_map_of :: "members \<Rightarrow> members option" where
  "source_map_of record = (case json_obj (json_get record ''extensions'') of None \<Rightarrow> None
     | Some extensions \<Rightarrow> json_obj (json_get extensions ''x-source-map''))"

definition wire_evidence :: "json list \<Rightarrow> (pystr \<times> members) list registry_result" where
  "wire_evidence records = res_fold (\<lambda>d record.
     res_bind (the_or (json_obj record) ''evidence'') (\<lambda>m.
     res_bind (the_or (json_str (json_get m ''evidence_id'')) ''evidence'') (\<lambda>i. Inr (AList.update i m d)))) [] records"

definition validate_atom_ref :: "pystr \<Rightarrow> (pystr \<times> members) list \<Rightarrow> json \<Rightarrow> unit registry_result" where
  "validate_atom_ref candidate_id evidence ref =
     res_bind (json_key ref) (\<lambda>key.
     res_bind (the_or (case key of None \<Rightarrow> None | Some i \<Rightarrow> map_of evidence i) ''reference'') (\<lambda>record.
     res_bind (the_or (source_map_of record) ''source map'') (\<lambda>source_map.
       ensure (case map_of source_map ''candidate_id'' of None \<Rightarrow> True | Some v \<Rightarrow> v = JStr candidate_id) ''evidence binding'')))"

definition wire_atom_trust ::
  "(pystr \<times> members) list \<Rightarrow> json \<Rightarrow> (members \<times> members) registry_result" where
  "wire_atom_trust evidence atom_wire =
     res_bind (the_or (json_obj atom_wire) ''atom'') (\<lambda>atom.
     res_bind (ensure (json_get atom ''status'' = JStr ''validated'') ''unvalidated'') (\<lambda>_.
     res_bind (the_or (case json_obj (json_get atom ''extensions'') of None \<Rightarrow> None
         | Some extensions \<Rightarrow> json_obj (json_get extensions ''x-trust'')) ''trust'') (\<lambda>trust.
     res_bind (json_key (json_get trust ''level'')) (\<lambda>level.
     res_bind (ensure (level \<in> {Some ''T0'', Some ''T1'', Some ''T2''}) ''level'') (\<lambda>_.
     res_bind (the_or (json_str (json_get trust ''candidate_id'')) ''candidate'') (\<lambda>candidate_id.
     res_bind (ensure (candidate_id \<noteq> []) ''candidate'') (\<lambda>_.
     res_bind (the_or (json_obj (json_get trust ''approval'')) ''approval'') (\<lambda>approval.
     res_bind (the_or (json_list (json_get atom ''evidence_refs'')) ''evidence'') (\<lambda>refs.
     res_bind (ensure (refs \<noteq> []) ''evidence'') (\<lambda>_.
     res_bind (ensure (case map_of approval ''candidate_id'' of None \<Rightarrow> True | Some v \<Rightarrow> v = JStr candidate_id) ''approval'') (\<lambda>_.
     res_bind (res_map (validate_atom_ref candidate_id evidence) refs) (\<lambda>_. Inr (atom, trust)))))))))))))"

definition wire_trust_metadata ::
  "core_capsule \<Rightarrow> ((members \<times> members) list \<times> (pystr \<times> members) list) registry_result" where
  "wire_trust_metadata c =
     res_bind (wire_evidence (map evidence_json (capsule_evidence c))) (\<lambda>evidence.
     res_bind (res_map (wire_atom_trust evidence) (map atom_json (capsule_atoms c))) (\<lambda>atoms. Inr (atoms, evidence)))"

definition permit_atom_map :: "json \<Rightarrow> nat \<Rightarrow> (pystr \<times> members) list registry_result" where
  "permit_atom_map permit_atoms count =
     res_bind (the_or (json_list permit_atoms) ''atom set'') (\<lambda>items.
     res_bind (ensure (length items = count) ''atom set'') (\<lambda>_.
       res_fold (\<lambda>d item.
         res_bind (the_or (json_obj item) ''atom entry'') (\<lambda>m.
         res_bind (the_or (json_str (json_get m ''candidate_id'')) ''atom entry'') (\<lambda>i.
         res_bind (ensure (i \<notin> set (dict_keys d)) ''duplicate'') (\<lambda>_. Inr (AList.update i m d))))) [] items))"

section \<open>Candidates\<close>

definition projection_keys :: "(pystr \<times> pystr) list" where
  "projection_keys = map (\<lambda>k. (k, k)) [''candidate_id'', ''atom_id'', ''kind'', ''statement'', ''modality'', ''scope'',
      ''source_snapshot_id'', ''start_line'', ''end_line'', ''symbol_or_heading'', ''compression_class'', ''generated''] @
     [(''trust_level'', ''source_trust_level''), (''status'', ''status'')]"

definition candidate_projection :: "members \<Rightarrow> json" where
  "candidate_projection candidate = JObj (map (\<lambda>(key, source). (key, json_get candidate source)) projection_keys)"

text \<open>The same keys read from the permit, with its name for the snapshot.\<close>

definition permit_projection :: "members \<Rightarrow> json" where
  "permit_projection permit_atom = JObj (map (\<lambda>(key, _). (key,
     json_get permit_atom (if key = ''source_snapshot_id'' then ''snapshot_id'' else key))) projection_keys)"

definition candidate_matches_permit ::
  "gate_env \<Rightarrow> members \<Rightarrow> members \<Rightarrow> members \<Rightarrow> members \<Rightarrow> pystr \<Rightarrow> unit registry_result" where
  "candidate_matches_permit T atom trust permit_atom candidate calculated =
     res_bind (ensure (json_eq (json_get candidate ''candidate_id'') (json_get trust ''candidate_id'') \<and>
       (\<forall>key \<in> {''atom_id'', ''statement'', ''kind'', ''modality'', ''scope'', ''compression_class''}.
          json_eq (json_get candidate key) (json_get atom key)) \<and>
       json_eq (json_get candidate ''validated_status'') (json_get atom ''status'') \<and>
       json_get trust ''candidate_digest'' = JStr calculated \<and> json_get permit_atom ''candidate_digest'' = JStr calculated \<and>
       json_eq (json_get trust ''level'') (json_get permit_atom ''validated_trust_level'') \<and>
       json_eq (json_get trust ''source_level'') (json_get permit_atom ''source_trust_level'') \<and>
       json_get trust ''level'' = JStr ''T1'' \<and>
       json_eq (json_get candidate ''validated_trust_level'') (json_get permit_atom ''validated_trust_level'') \<and>
       json_get permit_atom ''validated_status'' = JStr ''validated'') ''candidate binding'') (\<lambda>_.
     res_bind (jcs_same (ge_host T) (permit_projection permit_atom) (candidate_projection candidate)) (\<lambda>same.
       ensure same ''candidate binding''))"

text \<open>The classification of the source; the proof of a deterministic one is returned.\<close>

definition source_classification :: "members \<Rightarrow> members \<Rightarrow> members option registry_result" where
  "source_classification candidate permit_atom =
    (let level = json_get candidate ''source_trust_level''; proof = json_get permit_atom ''source_proof'' in
     case json_get candidate ''generated'' of
       JBool generated \<Rightarrow>
         if generated \<and> level \<noteq> JStr ''T3'' then integrity ''generated''
         else if level = JStr ''T2'' then
           (case json_obj proof of
              None \<Rightarrow> integrity ''source proof''
            | Some p \<Rightarrow>
                if json_get p ''collector_profile'' = JStr ''CCS-2.1-deterministic-source-v1'' \<and>
                   json_eq (json_get p ''snapshot_id'') (json_get candidate ''source_snapshot_id'') \<and>
                   json_get p ''mode'' = JStr ''GIT_IMMUTABLE''
                then Inr (Some p) else integrity ''source proof'')
         else if level = JStr ''T3'' then
           if proof = JNull then Inr None else integrity ''source proof''
         else integrity ''classification''
     | _ \<Rightarrow> integrity ''generated flag'')"

definition validate_candidate_witness ::
  "gate_env \<Rightarrow> members \<Rightarrow> members \<Rightarrow> members \<Rightarrow> (members \<times> pystr \<times> members option) registry_result" where
  "validate_candidate_witness T atom trust permit_atom =
     res_bind (the_or (json_str (json_get trust ''candidate_id'')) ''candidate'') (\<lambda>_.
     res_bind (the_or (json_obj (json_get trust ''candidate'')) ''candidate witness'') (\<lambda>candidate.
     res_bind (jcs_digest (ge_host T) (candidate_projection candidate)) (\<lambda>calculated.
     res_bind (candidate_matches_permit T atom trust permit_atom candidate calculated) (\<lambda>_.
     res_bind (source_classification candidate permit_atom) (\<lambda>source_proof.
       Inr (candidate, calculated, source_proof))))))"

section \<open>Approvals\<close>

definition validate_approval_source ::
  "gate_env \<Rightarrow> json \<Rightarrow> int \<Rightarrow> members \<Rightarrow> unit registry_result" where
  "validate_approval_source T approver approved_at permit_atom =
     res_bind (the_or (json_str (json_get permit_atom ''snapshot_principal_id'')) ''external approver'') (\<lambda>source.
     res_bind (ensure (approver \<noteq> JStr source) ''external approver'') (\<lambda>_.
     res_bind (the_or (parse_instant T (json_get permit_atom ''snapshot_captured_at'')) ''capture time'') (\<lambda>captured_at.
       ensure (captured_at \<le> approved_at) ''approval time'')))"

definition validate_approval ::
  "gate_env \<Rightarrow> trust_root \<Rightarrow> pystr \<Rightarrow> pystr \<Rightarrow> members \<Rightarrow> members \<Rightarrow> pystr list registry_result" where
  "validate_approval T r candidate_id candidate_digest trust permit_atom =
     res_bind (the_or (json_obj (json_get trust ''approval'')) ''approval'') (\<lambda>approval.
     res_bind (the_or (json_obj (json_get permit_atom ''approval'')) ''approval binding'') (\<lambda>permit_approval.
     res_bind (jcs_same (ge_host T) (JObj permit_approval) (JObj approval)) (\<lambda>same.
     res_bind (ensure same ''approval binding'') (\<lambda>_.
     res_bind (ensure (human_approval_valid T approval) ''approval'') (\<lambda>_.
     res_bind (guarded ''approval'' (hmac_verify T r approval)) (\<lambda>approval_valid.
     res_bind (the_or (parse_instant T (approval_field approval ''approved_at'')) ''approval'') (\<lambda>approved_at.
     res_bind (ensure (approval_valid \<and> approval_field approval ''decision'' = JStr ''approve'' \<and>
         approval_field approval ''candidate_id'' = JStr candidate_id \<and>
         approval_field approval ''candidate_digest'' = JStr candidate_digest \<and>
         approved_at \<le> ge_now T candidate_id \<and>
         (case parse_instant T (approval_field approval ''expires_at'') of None \<Rightarrow> True
          | Some expires_at \<Rightarrow> ge_now T candidate_id < expires_at)) ''untrusted'') (\<lambda>_.
     res_bind (validate_approval_source T (approval_field approval ''approver_id'') approved_at permit_atom) (\<lambda>_.
     res_bind (the_or (digest_list (json_get approval ''evidence_digests'')) ''evidence digests'') (\<lambda>digests.
     res_bind (ensure (digests \<noteq> []) ''evidence digests'') (\<lambda>_. Inr digests)))))))))))"

section \<open>Source subjects\<close>

definition source_proof_wire :: "source_proof \<Rightarrow> json" where
  "source_proof_wire p = JObj
    [(''snapshot_id'', JStr (pf_snapshot_id p)), (''content_digest'', JStr (pf_content_digest p)),
     (''mode'', JStr (pf_mode p)), (''parser_kind'', JStr (pf_parser_kind p)), (''repository'', JStr (pf_repository p)),
     (''revision'', JStr (pf_revision p)), (''path'', JStr (pf_path p)),
     (''collector_profile'', JStr (pf_collector_profile p))]"

definition permit_git_proofs ::
  "gate_env \<Rightarrow> publication_issuer \<Rightarrow> publication_permit \<Rightarrow> (bytes \<times> source_proof) list registry_result" where
  "permit_git_proofs T issuer permit = res_fold (\<lambda>d p.
     res_bind (guarded ''source resolver'' (jcs_text (ge_host T) (source_proof_wire p))) (\<lambda>key.
     res_bind (ensure (owns_source_proof issuer p \<and> key \<notin> set (dict_keys d)) ''source resolver'') (\<lambda>_.
       Inr (AList.update key p d)))) [] (pm_source_proofs permit)"

definition add_proof_wire ::
  "gate_env \<Rightarrow> json \<Rightarrow> (pystr \<times> members) list \<Rightarrow> json \<Rightarrow> (pystr \<times> members) list registry_result" where
  "add_proof_wire T proof d binding = (case json_obj binding of
      None \<Rightarrow> Inr d
    | Some b \<Rightarrow>
        if json_get b ''mode'' \<noteq> JStr ''GIT_IMMUTABLE'' then Inr d
        else res_bind (the_or (json_str (json_get b ''binding_id'')) ''source resolver'') (\<lambda>i.
             res_bind (the_or (json_obj proof) ''source resolver'') (\<lambda>p.
             res_bind (case map_of d i of None \<Rightarrow> Inr True
                 | Some known \<Rightarrow> jcs_same (ge_host T) (JObj known) (JObj p)) (\<lambda>same.
             res_bind (ensure same ''source resolver'') (\<lambda>_. Inr (AList.update i p d))))))"

definition git_proof_wires_by_binding ::
  "gate_env \<Rightarrow> members \<Rightarrow> (pystr \<times> members) list registry_result" where
  "git_proof_wires_by_binding T payload =
     res_bind (the_or (json_list (json_get payload ''atoms'')) ''atom set'') (\<lambda>atoms.
       res_fold (\<lambda>d atom_wire.
         res_bind (the_or (json_obj atom_wire) ''atom entry'') (\<lambda>atom.
         res_bind (the_or (json_list (json_get atom ''bindings'')) ''bindings'') (\<lambda>bindings.
           res_fold (add_proof_wire T (json_get atom ''source_proof'')) d bindings))) [] atoms)"

definition source_subject_inputs :: "members \<Rightarrow> publication_permit \<Rightarrow> (json \<times> bytes) list registry_result" where
  "source_subject_inputs payload permit =
     res_bind (the_or (json_list (json_get payload ''source_subjects'')) ''source subjects'') (\<lambda>subjects.
     res_bind (ensure (subjects \<noteq> [] \<and> length subjects = length (pm_source_bytes permit)) ''source subjects'') (\<lambda>_.
       Inr (zip subjects (pm_source_bytes permit))))"

text \<open>The bytes of a Git source are read again, from the proof; the result also says which proof was
  used. The cache of the code keeps what one proof gives.\<close>

definition resolve_source_subject ::
  "gate_env \<Rightarrow> pystr \<Rightarrow> json \<Rightarrow> bytes \<Rightarrow> (pystr \<times> members) list \<Rightarrow> (bytes \<times> source_proof) list \<Rightarrow>
   (bytes \<times> bytes option) registry_result" where
  "resolve_source_subject T binding_id mode retained proof_wires proofs =
    (if mode \<noteq> JStr ''GIT_IMMUTABLE'' then
       if binding_id \<in> set (dict_keys proof_wires) then Inl (RegistryFault ''ValueError'') else Inr (retained, None)
     else res_bind (the_or (map_of proof_wires binding_id) ''proof'') (\<lambda>wire.
          res_bind (jcs_text (ge_host T) (JObj wire)) (\<lambda>key.
          res_bind (the_or (map_of proofs key) ''proof'') (\<lambda>proof.
          res_bind (the_or (ge_git T proof) ''proof'') (\<lambda>data. Inr (data, Some key))))))"

record subject_state =
  ss_subjects :: "(pystr \<times> members) list"
  ss_authoritative :: "(pystr \<times> bytes) list"
  ss_used :: "bytes set"

definition subject_step ::
  "gate_env \<Rightarrow> (pystr \<times> members) list \<Rightarrow> (bytes \<times> source_proof) list \<Rightarrow> subject_state \<Rightarrow> json \<times> bytes \<Rightarrow>
   subject_state registry_result" where
  "subject_step T proof_wires proofs st entry = (case entry of (subject_wire, retained) \<Rightarrow>
     res_bind (the_or (json_obj subject_wire) ''subject'') (\<lambda>subject.
     res_bind (the_or (json_str (json_get subject ''binding_id'')) ''subject'') (\<lambda>i.
     res_bind (resolve_source_subject T i (json_get subject ''mode'') retained proof_wires proofs) (\<lambda>(data, used).
     res_bind (ensure (i \<notin> set (dict_keys (ss_subjects st)) \<and>
         json_get subject ''content_digest'' = JStr (re_digest (ge_host T) data)) ''subject'') (\<lambda>_.
     res_bind (ensure (ge_clean T data) ''secret'') (\<lambda>_.
       Inr \<lparr> ss_subjects = AList.update i subject (ss_subjects st),
             ss_authoritative = AList.update i data (ss_authoritative st),
             ss_used = ss_used st \<union> (case used of None \<Rightarrow> {} | Some key \<Rightarrow> {key}) \<rparr>))))))"

definition validate_source_subjects ::
  "gate_env \<Rightarrow> publication_issuer \<Rightarrow> members \<Rightarrow> publication_permit \<Rightarrow>
   ((pystr \<times> members) list \<times> (pystr \<times> bytes) list) registry_result" where
  "validate_source_subjects T issuer payload permit =
     res_bind (source_subject_inputs payload permit) (\<lambda>inputs.
     guarded ''revalidation''
       (res_bind (git_proof_wires_by_binding T payload) (\<lambda>proof_wires.
        res_bind (permit_git_proofs T issuer permit) (\<lambda>proofs.
        res_bind (res_fold (subject_step T proof_wires proofs)
            \<lparr> ss_subjects = [], ss_authoritative = [], ss_used = {} \<rparr> inputs) (\<lambda>st.
        res_bind (ensure (set (dict_keys proofs) = ss_used st) ''unbound resolvers'') (\<lambda>_.
          Inr (ss_subjects st, ss_authoritative st)))))))"

section \<open>Bindings\<close>

definition binding_wire :: "members \<Rightarrow> members \<Rightarrow> members" where
  "binding_wire record source_map =
     map (\<lambda>key. (key, json_get source_map key)) [''binding_id'', ''candidate_id'', ''snapshot_id''] @
     map (\<lambda>key. (key, json_get record key)) [''mode'', ''content_digest''] @
     [(''span_digest'', json_get source_map ''span_digest'')] @
     map (\<lambda>key. (key, json_get record key)) [''media_type'', ''captured_at'', ''access_policy'', ''repository'', ''revision''] @
     map (\<lambda>key. (key, json_get source_map key)) [''path'', ''symbol_or_heading'', ''start_line'', ''end_line''] @
     map (\<lambda>key. (key, json_get record key)) [''uri'', ''source'', ''verification_method'']"

definition authoritative_binding_data ::
  "gate_env \<Rightarrow> cas \<Rightarrow> members \<Rightarrow> pystr \<Rightarrow> (pystr \<times> bytes) list \<Rightarrow> bytes registry_result" where
  "authoritative_binding_data T store binding binding_id authoritative =
    (if json_get binding ''mode'' \<noteq> JStr ''CAS'' then the_or (map_of authoritative binding_id) ''source binding''
     else guarded ''CAS source''
       (res_bind (the_or (json_str (json_get binding ''content_digest'')) ''digest'') (\<lambda>digest.
        res_bind (read_verified (ge_host T) store digest) (\<lambda>stored.
        res_bind (ensure (ge_clean T (sb_data stored)) ''secret'') (\<lambda>_. Inr (sb_data stored))))))"

definition authoritative_line_span :: "gate_env \<Rightarrow> bytes \<Rightarrow> json \<Rightarrow> json \<Rightarrow> bytes registry_result" where
  "authoritative_line_span T data start_line end_line =
     res_bind (the_or (ge_lines T data) ''decode'') (\<lambda>lines.
     res_bind (the_or (json_int start_line) ''span'') (\<lambda>i.
     res_bind (the_or (json_int end_line) ''span'') (\<lambda>j.
     res_bind (ensure (1 \<le> i \<and> i \<le> j \<and> j \<le> int (length lines)) ''span'') (\<lambda>_.
       Inr (concat (take (nat j - (nat i - 1)) (drop (nat i - 1) lines)))))))"

text \<open>The statement of a source span: stripped, and a heading without its marks.\<close>

definition span_statement :: "gate_env \<Rightarrow> bytes \<Rightarrow> pystr" where
  "span_statement T text =
    (let statement = ge_strip T text; hash = (\<lambda>c. c = CHR ''#'') in
     if startswith statement ''#''
     then ge_strip T (rev (dropWhile hash (rev (ge_strip T (dropWhile hash statement)))))
     else statement)"

definition validate_authoritative_binding ::
  "gate_env \<Rightarrow> members \<Rightarrow> members \<Rightarrow> bytes \<Rightarrow> unit registry_result" where
  "validate_authoritative_binding T atom binding data = guarded ''source binding''
     (res_bind (ensure (json_get binding ''content_digest'' = JStr (re_digest (ge_host T) data)) ''digest'') (\<lambda>_.
      res_bind (authoritative_line_span T data (json_get binding ''start_line'') (json_get binding ''end_line'')) (\<lambda>span.
      res_bind (ensure (json_get binding ''span_digest'' = JStr (re_digest (ge_host T) span)) ''span digest'') (\<lambda>_.
      res_bind (the_or (json_str (json_get atom ''statement'')) ''statement'') (\<lambda>statement.
        ensure (span_statement T span = ge_strip T statement) ''statement'')))))"

definition validate_gate_binding ::
  "gate_env \<Rightarrow> cas \<Rightarrow> members \<Rightarrow> (pystr \<times> members) list \<Rightarrow> pystr list \<Rightarrow> (pystr \<times> members) list \<Rightarrow>
   (pystr \<times> bytes) list \<Rightarrow> json \<Rightarrow> members registry_result" where
  "validate_gate_binding T store atom evidence evidence_digests subjects authoritative ref =
     res_bind (the_or (case json_str ref of None \<Rightarrow> None | Some i \<Rightarrow> map_of evidence i) ''reference'') (\<lambda>record.
     res_bind (the_or (source_map_of record) ''source map'') (\<lambda>source_map.
       let binding = binding_wire record source_map in
       res_bind (jcs_digest (ge_host T) (JObj binding)) (\<lambda>digest.
       res_bind (ensure (json_get source_map ''binding_digest'' = JStr digest \<and> digest \<in> set evidence_digests) ''binding'') (\<lambda>_.
       res_bind (json_key (json_get binding ''binding_id'')) (\<lambda>key.
       res_bind (the_or key ''binding'') (\<lambda>binding_id.
       res_bind (the_or (map_of subjects binding_id) ''binding'') (\<lambda>subject.
       res_bind (ensure (\<forall>field \<in> {''content_digest'', ''mode'', ''media_type'', ''snapshot_id''}.
           json_eq (json_get subject field) (json_get binding field)) ''source subject'') (\<lambda>_.
       res_bind (authoritative_binding_data T store binding binding_id authoritative) (\<lambda>data.
       res_bind (validate_authoritative_binding T atom binding data) (\<lambda>_. Inr binding))))))))))"

text \<open>A deterministic source must be the source of one of the bindings.\<close>

definition proof_binds :: "members option \<Rightarrow> members list \<Rightarrow> bool" where
  "proof_binds source_proof bindings = (case source_proof of None \<Rightarrow> False
     | Some p \<Rightarrow> (\<exists>binding \<in> set bindings. \<forall>field \<in> {''mode'', ''snapshot_id'', ''content_digest'', ''repository'', ''revision'', ''path''}.
         json_eq (json_get binding field) (json_get p field)))"

definition validate_bindings ::
  "gate_env \<Rightarrow> cas \<Rightarrow> members \<Rightarrow> (pystr \<times> members) list \<Rightarrow> pystr list \<Rightarrow> (pystr \<times> members) list \<Rightarrow> json \<Rightarrow>
   members option \<Rightarrow> (pystr \<times> bytes) list \<Rightarrow> members list registry_result" where
  "validate_bindings T store atom evidence evidence_digests subjects source_level source_proof authoritative =
     res_bind (the_or (json_list (json_get atom ''evidence_refs'')) ''evidence'') (\<lambda>refs.
     res_bind (res_map (validate_gate_binding T store atom evidence evidence_digests subjects authoritative) refs) (\<lambda>bindings.
     res_bind (ensure (source_level = JStr ''T2'' \<longrightarrow> proof_binds source_proof bindings) ''source proof'') (\<lambda>_.
       Inr bindings)))"

section \<open>The gate\<close>

definition validate_m3_atom ::
  "gate_env \<Rightarrow> trust_root \<Rightarrow> cas \<Rightarrow> (pystr \<times> members) list \<Rightarrow> (pystr \<times> members) list \<Rightarrow> (pystr \<times> members) list \<Rightarrow>
   (pystr \<times> bytes) list \<Rightarrow> members \<times> members \<Rightarrow> unit registry_result" where
  "validate_m3_atom T r store permit_by_id evidence subjects authoritative item = (case item of (atom, trust) \<Rightarrow>
     res_bind (ensure (case json_str (json_get atom ''statement'') of None \<Rightarrow> False | Some s \<Rightarrow> ge_clean T s) ''secret'') (\<lambda>_.
     res_bind (the_or (json_str (json_get trust ''candidate_id'')) ''candidate'') (\<lambda>candidate_id.
     res_bind (the_or (map_of permit_by_id candidate_id) ''candidate not in capsule'') (\<lambda>permit_atom.
     res_bind (validate_candidate_witness T atom trust permit_atom) (\<lambda>(candidate, calculated, source_proof).
     res_bind (validate_approval T r candidate_id calculated trust permit_atom) (\<lambda>evidence_digests.
     res_bind (validate_bindings T store atom evidence evidence_digests subjects
         (json_get candidate ''source_trust_level'') source_proof authoritative) (\<lambda>bindings.
     res_bind (res_map (\<lambda>b. jcs_digest (ge_host T) (JObj b)) bindings) (\<lambda>expected.
     res_bind (the_or (json_list (json_get permit_atom ''bindings'')) ''evidence binding'') (\<lambda>permit_bindings.
     res_bind (jcs_same (ge_host T) (JList permit_bindings) (JList (map JObj bindings))) (\<lambda>same.
       ensure (same \<and> evidence_digests = expected) ''evidence binding''))))))))))"

definition clean_json :: "gate_env \<Rightarrow> json \<Rightarrow> bool" where
  "clean_json T v = (case re_bytes (ge_host T) v of None \<Rightarrow> False | Some b \<Rightarrow> ge_clean T b)"

text \<open>\<open>None\<close> where no gate applies, otherwise the verified payload.\<close>

definition validate_m3_publication ::
  "gate_env \<Rightarrow> trust_root option \<Rightarrow> cas \<Rightarrow> core_capsule \<Rightarrow> pystr \<Rightarrow> publication_permit option \<Rightarrow>
   members option registry_result" where
  "validate_m3_publication T trusted store c caller permit =
    (if \<not> requires_m3_gate c then Inr None
     else res_bind (the_or permit ''trust proof required'') (\<lambda>p.
       res_bind (ensure (clean_json T (JObj (capsule_wire_dict c))) ''secret'') (\<lambda>_.
       res_bind (verify_permit_signature T trusted p) (\<lambda>(r, issuer, payload).
       res_bind (ensure (clean_json T (JObj payload) \<and> ge_clean T (pm_signature p)) ''secret'') (\<lambda>_.
       res_bind (validate_m3_header T r c caller payload p) (\<lambda>_.
       res_bind (validate_source_subjects T issuer payload p) (\<lambda>(subjects, authoritative).
       res_bind (wire_trust_metadata c) (\<lambda>(atoms, evidence).
       res_bind (permit_atom_map (json_get payload ''atoms'') (length atoms)) (\<lambda>permit_by_id.
       res_bind (res_map (validate_m3_atom T r store permit_by_id evidence subjects authoritative) atoms) (\<lambda>_.
         Inr (Some payload)))))))))))"

end
