(* ===== verification/Registry.thy ===== *)
theory Registry
  imports Trust_Gate
begin

text \<open>
  The registry (\<^verbatim>\<open>storage/registry.py\<close>): four append-only tables and the operations \<open>publish\<close>, \<open>get\<close>,
  \<open>can_read_blob\<close> and \<open>get_blob\<close>. A publication is one transaction, so an operation that raises
  leaves the tables as they were. The policy resolver is a service that is asked with a reading
  number; \<open>None\<close> is an exception or a malformed decision, which the registry denies.
\<close>

section \<open>Tables\<close>

record publication_row =
  pr_id :: nat
  pr_capsule_id :: pystr
  pr_version :: pystr
  pr_content_digest :: pystr
  pr_lifecycle :: pystr
  pr_authority :: pystr
  pr_scope_jcs :: bytes
  pr_record_jcs :: bytes
  pr_signature_jcs :: "bytes option"
  pr_published_at :: pystr

record evidence_row =
  xr_publication :: nat
  xr_ordinal :: nat
  xr_evidence_id :: pystr
  xr_mode :: pystr
  xr_content_digest :: pystr
  xr_media_type :: pystr
  xr_access_policy :: pystr
  xr_record_jcs :: bytes

record grant_row =
  gr_publication :: nat
  gr_evidence_id :: pystr
  gr_digest :: pystr
  gr_access_policy :: pystr

record attestation_row =
  zr_publication :: nat
  zr_policy_version :: pystr
  zr_trust_root_id :: pystr
  zr_principal_id :: pystr
  zr_payload_jcs :: bytes
  zr_signature :: pystr
  zr_subjects_jcs :: bytes

record registry_db =
  rd_publications :: "publication_row list"
  rd_evidence :: "evidence_row list"
  rd_grants :: "grant_row list"
  rd_attestations :: "attestation_row list"

definition empty_registry :: registry_db where
  "empty_registry = \<lparr> rd_publications = [], rd_evidence = [], rd_grants = [], rd_attestations = [] \<rparr>"

record policy_decision =
  pd_allowed :: bool
  pd_policies :: "pystr list"

text \<open>\<open>rg_capsule\<close> is \<open>Capsule.model_validate_json\<close> of the members of a wire form.\<close>

record registry =
  rg_gate :: gate_env
  rg_trust :: "trust_root option"
  rg_resolve :: "nat \<Rightarrow> pystr \<Rightarrow> pystr \<Rightarrow> pystr \<Rightarrow> json \<Rightarrow> policy_decision option"
  rg_capsule :: "members \<Rightarrow> core_capsule option"

abbreviation rg_host :: "registry \<Rightarrow> registry_env" where
  "rg_host R \<equiv> ge_host (rg_gate R)"

section \<open>Authorization\<close>

definition deny :: policy_decision where
  "deny = \<lparr> pd_allowed = False, pd_policies = [] \<rparr>"

definition decision_for_claims :: "registry \<Rightarrow> nat \<Rightarrow> pystr \<Rightarrow> pystr \<Rightarrow> pystr \<Rightarrow> json \<Rightarrow> policy_decision" where
  "decision_for_claims R i caller action authority scope = (case rg_resolve R i caller action authority scope of
      None \<Rightarrow> deny
    | Some d \<Rightarrow> if [] \<in> set (pd_policies d) then deny else d)"

definition allows :: "policy_decision \<Rightarrow> pystr set \<Rightarrow> bool" where
  "allows d policies \<longleftrightarrow> pd_allowed d \<and> policies \<subseteq> set (pd_policies d)"

definition access_policies :: "core_capsule \<Rightarrow> pystr set" where
  "access_policies c = er_access_policy ` set (capsule_evidence c)"

definition capsule_decision :: "registry \<Rightarrow> nat \<Rightarrow> core_capsule \<Rightarrow> pystr \<Rightarrow> pystr \<Rightarrow> policy_decision" where
  "capsule_decision R i c caller action =
     decision_for_claims R i caller action (cm_authority (cc_control_manifest c)) (scope_json c)"

definition authorize_publish :: "registry \<Rightarrow> nat \<Rightarrow> core_capsule \<Rightarrow> pystr \<Rightarrow> unit registry_result" where
  "authorize_publish R i c caller =
    (if allows (capsule_decision R i c caller ''publish'') (access_policies c) then Inr ()
     else Inl RegistryAuthorizationError)"

section \<open>What a publication stores\<close>

definition publication_core :: "core_capsule \<Rightarrow> members" where
  "publication_core c = filter (\<lambda>(k, v). k \<notin> {''detached_signature'', ''derived_artifacts'', ''runtime_sidecar''})
     (capsule_wire_dict c)"

definition publication_signature :: "core_capsule \<Rightarrow> json option" where
  "publication_signature c = map_option signature_json (cc_detached_signature c)"

definition jcs_option :: "registry_env \<Rightarrow> json option \<Rightarrow> bytes option registry_result" where
  "jcs_option H v = (case v of None \<Rightarrow> Inr None | Some w \<Rightarrow> res_bind (jcs_text H w) (\<lambda>b. Inr (Some b)))"

text \<open>The publication row and the rows of the other tables as \<open>publish\<close> inserts and \<open>_verify_existing\<close>
  expects them.\<close>

definition new_row :: "registry \<Rightarrow> nat \<Rightarrow> core_capsule \<Rightarrow> pystr \<Rightarrow> publication_row registry_result" where
  "new_row R i c published_at =
    (let manifest = cc_control_manifest c in
     res_bind (jcs_text (rg_host R) (scope_json c)) (\<lambda>scope.
     res_bind (jcs_text (rg_host R) (JObj (publication_core c))) (\<lambda>record.
     res_bind (jcs_option (rg_host R) (publication_signature c)) (\<lambda>signature.
       Inr \<lparr> pr_id = i, pr_capsule_id = cm_capsule_id manifest, pr_version = cm_version manifest,
             pr_content_digest = cm_content_digest manifest, pr_lifecycle = cm_lifecycle manifest,
             pr_authority = cm_authority manifest, pr_scope_jcs = scope, pr_record_jcs = record,
             pr_signature_jcs = signature, pr_published_at = published_at \<rparr>))))"

definition expected_evidence :: "registry \<Rightarrow> nat \<Rightarrow> core_capsule \<Rightarrow> evidence_row list registry_result" where
  "expected_evidence R i c = res_map (\<lambda>(ordinal, r).
     res_bind (jcs_text (rg_host R) (evidence_json r)) (\<lambda>record.
       Inr \<lparr> xr_publication = i, xr_ordinal = ordinal, xr_evidence_id = er_evidence_id r,
             xr_mode = evidence_mode_text (er_mode r), xr_content_digest = er_content_digest r,
             xr_media_type = er_media_type r, xr_access_policy = er_access_policy r, xr_record_jcs = record \<rparr>))
     (List.enumerate 0 (capsule_evidence c))"

definition expected_grants :: "nat \<Rightarrow> core_capsule \<Rightarrow> grant_row list" where
  "expected_grants i c = map (\<lambda>r. \<lparr> gr_publication = i, gr_evidence_id = er_evidence_id r,
       gr_digest = er_content_digest r, gr_access_policy = er_access_policy r \<rparr>)
     (filter (\<lambda>r. er_mode r = CAS) (capsule_evidence c))"

definition grant_key :: "grant_row \<Rightarrow> pystr \<times> pystr \<times> pystr" where
  "grant_key g = (gr_evidence_id g, gr_digest g, gr_access_policy g)"

section \<open>Candidates\<close>

definition check_media_types :: "registry \<Rightarrow> cas \<Rightarrow> core_capsule \<Rightarrow> unit registry_result" where
  "check_media_types R store c = res_bind (res_map (\<lambda>r. if er_mode r \<noteq> CAS then Inr ()
     else res_bind (read_verified (rg_host R) store (er_content_digest r)) (\<lambda>stored.
       ensure (br_media_type (sb_ref stored) = er_media_type r) ''media type'')) (capsule_evidence c)) (\<lambda>_. Inr ())"

definition validate_candidate :: "registry \<Rightarrow> cas \<Rightarrow> core_capsule \<Rightarrow> unit registry_result" where
  "validate_candidate R store c =
     res_bind (ensure (cm_lifecycle (cc_control_manifest c) = ''PUBLISHED'') ''lifecycle'') (\<lambda>_.
     res_bind (ensure (canonical_digest_of (rg_gate R) c = Some (cm_content_digest (cc_control_manifest c))) ''digest'') (\<lambda>_.
       check_media_types R store c))"

definition revalidate_candidate :: "registry \<Rightarrow> core_capsule \<Rightarrow> core_capsule registry_result" where
  "revalidate_candidate R c = the_or (rg_capsule R (capsule_wire_dict c)) ''candidate model''"

section \<open>Attestations\<close>

definition find_attestation :: "registry_db \<Rightarrow> nat \<Rightarrow> attestation_row option" where
  "find_attestation db i = find (\<lambda>a. zr_publication a = i) (rd_attestations db)"

definition attestation_payload ::
  "registry \<Rightarrow> attestation_row \<Rightarrow> publication_row \<Rightarrow> core_capsule \<Rightarrow> members registry_result" where
  "attestation_payload R a row c =
     res_bind (the_or (rg_trust R) ''trust root'') (\<lambda>r.
     res_bind (the_or (case re_loads (rg_host R) (zr_payload_jcs a) of None \<Rightarrow> None | Some v \<Rightarrow> json_obj v) ''payload'') (\<lambda>payload.
     res_bind (ensure (json_get payload ''capsule_digest'' = JStr (pr_content_digest row) \<and>
         json_get payload ''capsule_id'' = JStr (pr_capsule_id row) \<and>
         json_get payload ''version'' = JStr (pr_version row)) ''capsule binding'') (\<lambda>_.
     res_bind (ensure (zr_policy_version a = tr_policy_version r) ''policy'') (\<lambda>_.
     res_bind (root_id (rg_gate R) r) (\<lambda>anchor.
     res_bind (ensure (zr_trust_root_id a = anchor \<and> json_get payload ''principal_id'' = JStr (zr_principal_id a)) ''binding'') (\<lambda>_.
     res_bind (ensure (verify_payload (rg_gate R) r (JObj payload) (zr_signature a)) ''signature'') (\<lambda>_.
     res_bind (the_or (case json_obj (json_get payload ''loader_attestation'') of None \<Rightarrow> None
         | Some wire \<Rightarrow> json_str (json_get wire ''publication_digest'')) ''projection'') (\<lambda>digest.
     res_bind (ensure (publication_digest_of (rg_gate R) c = Some digest) ''projection'') (\<lambda>_. Inr payload)))))))))"

definition verify_m3_attestation ::
  "registry \<Rightarrow> registry_db \<Rightarrow> publication_row \<Rightarrow> core_capsule \<Rightarrow> unit registry_result" where
  "verify_m3_attestation R db row c =
    (if \<not> requires_m3_gate c then Inr ()
     else (case find_attestation db (pr_id row) of
        None \<Rightarrow> ensure (\<not> is_m3_capsule c) ''attestation''
      | Some a \<Rightarrow>
          res_bind (attestation_payload R a row c) (\<lambda>payload.
          res_bind (the_or (re_loads (rg_host R) (zr_subjects_jcs a)) ''subjects'') (\<lambda>subjects.
            ensure (json_eq subjects (json_get payload ''source_subjects'')) ''subjects''))))"

definition verify_m3_replay ::
  "registry \<Rightarrow> registry_db \<Rightarrow> publication_row \<Rightarrow> members \<Rightarrow> publication_permit \<Rightarrow> unit registry_result" where
  "verify_m3_replay R db row payload permit = (case find_attestation db (pr_id row) of
      None \<Rightarrow> integrity ''attestation''
    | Some a \<Rightarrow> res_bind (jcs_text (rg_host R) (JObj payload)) (\<lambda>text.
        if zr_payload_jcs a \<noteq> text \<or> zr_signature a \<noteq> pm_signature permit
        then Inl (PublicationConflict ''trust proof'') else Inr ()))"

section \<open>Stored publications\<close>

text \<open>The expected rows are compared without the publication's number and time.\<close>

definition verify_existing ::
  "registry \<Rightarrow> registry_db \<Rightarrow> publication_row \<Rightarrow> core_capsule \<Rightarrow> unit registry_result" where
  "verify_existing R db row c =
     res_bind (new_row R (pr_id row) c (pr_published_at row)) (\<lambda>expected.
     res_bind (if row \<lparr> pr_capsule_id := pr_capsule_id expected, pr_version := pr_version expected \<rparr> \<noteq> expected
         then Inl (PublicationConflict ''immutable fields'') else Inr ()) (\<lambda>_.
     res_bind (expected_evidence R (pr_id row) c) (\<lambda>evidence.
     res_bind (ensure (sort_key xr_ordinal (filter (\<lambda>x. xr_publication x = pr_id row) (rd_evidence db)) = evidence) ''evidence'') (\<lambda>_.
     res_bind (ensure (map grant_key (sort_key (\<lambda>g. (gr_evidence_id g, gr_digest g))
           (filter (\<lambda>g. gr_publication g = pr_id row) (rd_grants db))) =
         sort (map grant_key (expected_grants (pr_id row) c))) ''grants'') (\<lambda>_.
       verify_m3_attestation R db row c)))))"

definition reconstruct :: "registry \<Rightarrow> publication_row \<Rightarrow> core_capsule registry_result" where
  "reconstruct R row = guarded ''reconstruction''
     (res_bind (the_or (case re_loads (rg_host R) (pr_record_jcs row) of None \<Rightarrow> None | Some v \<Rightarrow> json_obj v) ''record'') (\<lambda>wire.
      res_bind (case pr_signature_jcs row of None \<Rightarrow> Inr JNull
          | Some text \<Rightarrow> if text = [] then Inr JNull else the_or (re_loads (rg_host R) text) ''signature'') (\<lambda>signature.
        the_or (rg_capsule R (AList.update ''runtime_sidecar'' (JObj [])
          (AList.update ''derived_artifacts'' (JObj []) (AList.update ''detached_signature'' signature wire)))) ''model'')))"

definition row_to_published :: "registry \<Rightarrow> publication_row \<Rightarrow> published_capsule registry_result" where
  "row_to_published R row =
     res_bind (reconstruct R row) (\<lambda>c.
     res_bind (jcs_text (rg_host R) (scope_json c)) (\<lambda>scope.
     res_bind (ensure (canonical_digest_of (rg_gate R) c = Some (pr_content_digest row) \<and>
         cm_content_digest (cc_control_manifest c) = pr_content_digest row \<and>
         cm_lifecycle (cc_control_manifest c) = pr_lifecycle row \<and>
         cm_authority (cc_control_manifest c) = pr_authority row \<and> scope = pr_scope_jcs row) ''fields'') (\<lambda>_.
       Inr \<lparr> pc_capsule = c, pc_registry_status = ''PUBLISHED'', pc_published_at = pr_published_at row \<rparr>)))"

definition find_publication :: "registry_db \<Rightarrow> pystr \<Rightarrow> pystr \<Rightarrow> publication_row option" where
  "find_publication db capsule_id version =
     find (\<lambda>r. pr_capsule_id r = capsule_id \<and> pr_version r = version) (rd_publications db)"

section \<open>Publishing\<close>

definition next_publication :: "registry_db \<Rightarrow> nat" where
  "next_publication db = foldr max (map pr_id (rd_publications db)) 0 + 1"

definition new_attestation ::
  "registry \<Rightarrow> nat \<Rightarrow> pystr \<Rightarrow> publication_permit \<Rightarrow> members \<Rightarrow> attestation_row registry_result" where
  "new_attestation R i caller permit payload =
     res_bind (the_or (rg_trust R) ''trust root'') (\<lambda>r.
     res_bind (root_id (rg_gate R) r) (\<lambda>anchor.
     res_bind (ensure (pm_signature permit \<noteq> []) ''signature'') (\<lambda>_.
     res_bind (the_or (json_list (json_get payload ''source_subjects'')) ''subjects'') (\<lambda>subjects.
     res_bind (jcs_text (rg_host R) (JObj payload)) (\<lambda>text.
     res_bind (jcs_text (rg_host R) (JList subjects)) (\<lambda>subjects_text.
       Inr \<lparr> zr_publication = i, zr_policy_version = tr_policy_version r, zr_trust_root_id = anchor,
             zr_principal_id = caller, zr_payload_jcs = text, zr_signature = pm_signature permit,
             zr_subjects_jcs = subjects_text \<rparr>))))))"

text \<open>The inserts of a fresh publication. The primary key of the evidence rows rejects a repeated
  identifier.\<close>

definition insert_publication ::
  "registry \<Rightarrow> registry_db \<Rightarrow> core_capsule \<Rightarrow> pystr \<Rightarrow> publication_permit option \<Rightarrow> members option \<Rightarrow> pystr \<Rightarrow>
   (publication_row \<times> registry_db) registry_result" where
  "insert_publication R db c caller permit payload published_at =
    (let i = next_publication db in
     res_bind (new_row R i c published_at) (\<lambda>row.
     res_bind (expected_evidence R i c) (\<lambda>evidence.
     res_bind (if distinct (map er_evidence_id (capsule_evidence c)) then Inr ()
         else Inl (RegistryFault ''IntegrityError'')) (\<lambda>_.
     res_bind (case (payload, permit) of
           (Some members, Some p) \<Rightarrow> res_bind (new_attestation R i caller p members) (\<lambda>a. Inr [a])
         | _ \<Rightarrow> Inr []) (\<lambda>attestations.
       Inr (row, db \<lparr> rd_publications := rd_publications db @ [row], rd_evidence := rd_evidence db @ evidence,
              rd_grants := rd_grants db @ expected_grants i c,
              rd_attestations := rd_attestations db @ attestations \<rparr>))))))"

definition existing_result ::
  "registry \<Rightarrow> registry_db \<Rightarrow> publication_row \<Rightarrow> core_capsule \<Rightarrow> published_capsule registry_result" where
  "existing_result R db row c =
    (if pr_content_digest row \<noteq> cm_content_digest (cc_control_manifest c) then Inl VersionConflict
     else res_bind (verify_existing R db row c) (\<lambda>_. row_to_published R row))"

definition registry_publish ::
  "registry \<Rightarrow> cas \<Rightarrow> registry_db \<Rightarrow> core_capsule \<Rightarrow> pystr \<Rightarrow> publication_permit option \<Rightarrow> pystr \<Rightarrow>
   (published_capsule \<times> registry_db) registry_result" where
  "registry_publish R store db candidate caller permit published_at =
     res_bind (revalidate_candidate R candidate) (\<lambda>c.
     res_bind (authorize_publish R 0 c caller) (\<lambda>_.
     res_bind (authorize_publish R 1 c caller) (\<lambda>_.
     res_bind (validate_candidate R store c) (\<lambda>_.
       let found = find_publication db (cm_capsule_id (cc_control_manifest c)) (cm_version (cc_control_manifest c)) in
       case (found, permit, is_m3_capsule c) of
         (Some row, None, False) \<Rightarrow> res_bind (existing_result R db row c) (\<lambda>p. Inr (p, db))
       | _ \<Rightarrow>
           res_bind (validate_m3_publication (rg_gate R) (rg_trust R) store c caller permit) (\<lambda>payload.
             case found of
               Some row \<Rightarrow>
                 res_bind (if pr_content_digest row \<noteq> cm_content_digest (cc_control_manifest c) then Inl VersionConflict
                     else verify_existing R db row c) (\<lambda>_.
                 res_bind (case (payload, permit) of (Some members, Some p) \<Rightarrow> verify_m3_replay R db row members p
                     | _ \<Rightarrow> Inr ()) (\<lambda>_.
                 res_bind (row_to_published R row) (\<lambda>p. Inr (p, db))))
             | None \<Rightarrow>
                 res_bind (insert_publication R db c caller permit payload published_at) (\<lambda>(row, db').
                 res_bind (verify_existing R db' row c) (\<lambda>_.
                 res_bind (row_to_published R row) (\<lambda>p. Inr (p, db')))))))))"

section \<open>Reading\<close>

definition registry_get ::
  "registry \<Rightarrow> cas \<Rightarrow> registry_db \<Rightarrow> pystr \<Rightarrow> pystr \<Rightarrow> pystr \<Rightarrow> published_capsule registry_result" where
  "registry_get R store db capsule_id version caller = (case find_publication db capsule_id version of
      None \<Rightarrow> Inl RegistryNotFound
    | Some row \<Rightarrow>
        (case re_loads (rg_host R) (pr_scope_jcs row) of
           None \<Rightarrow> Inl RegistryNotFound
         | Some scope \<Rightarrow>
             if \<not> allows (decision_for_claims R 0 caller ''read'' (pr_authority row) scope)
                  (xr_access_policy ` set (filter (\<lambda>x. xr_publication x = pr_id row) (rd_evidence db)))
             then Inl RegistryNotFound
             else res_bind (row_to_published R row) (\<lambda>published.
                  res_bind (verify_existing R db row (pc_capsule published)) (\<lambda>_.
                  res_bind (check_media_types R store (pc_capsule published)) (\<lambda>_. Inr published)))))"

text \<open>The rows a digest is granted by are tried in order. A publication that does not verify is
  skipped; other exceptions leave the loop.\<close>

fun can_read_rows ::
  "registry \<Rightarrow> cas \<Rightarrow> registry_db \<Rightarrow> pystr \<Rightarrow> pystr \<Rightarrow> (grant_row \<times> publication_row) list \<Rightarrow> bool registry_result" where
  "can_read_rows R store db digest caller [] = Inr False"
| "can_read_rows R store db digest caller ((g, row) # rest) =
    (case res_bind (row_to_published R row) (\<lambda>p. res_bind (verify_existing R db row (pc_capsule p)) (\<lambda>_. Inr p)) of
       Inl (PublicationConflict code) \<Rightarrow> can_read_rows R store db digest caller rest
     | Inl (PublicationIntegrityError code) \<Rightarrow> can_read_rows R store db digest caller rest
     | Inl e \<Rightarrow> Inl e
     | Inr p \<Rightarrow>
         (let d = capsule_decision R 0 (pc_capsule p) caller ''read'' in
          if pd_allowed d \<and> gr_access_policy g \<in> set (pd_policies d) then
            (case find (\<lambda>r. er_mode r = CAS \<and> er_evidence_id r = gr_evidence_id g \<and> er_content_digest r = digest)
                (capsule_evidence (pc_capsule p)) of
               None \<Rightarrow> can_read_rows R store db digest caller rest
             | Some r \<Rightarrow>
                 res_bind (read_verified (rg_host R) store digest) (\<lambda>stored.
                   if br_media_type (sb_ref stored) \<noteq> er_media_type r then Inl (BlobIntegrityError ''media type'')
                   else Inr True))
          else can_read_rows R store db digest caller rest))"

definition can_read_blob :: "registry \<Rightarrow> cas \<Rightarrow> registry_db \<Rightarrow> pystr \<Rightarrow> pystr \<Rightarrow> bool registry_result" where
  "can_read_blob R store db digest caller = can_read_rows R store db digest caller
     (concat (map (\<lambda>g. map (Pair g) (filter (\<lambda>p. pr_id p = gr_publication g) (rd_publications db)))
        (filter (\<lambda>g. gr_digest g = digest) (rd_grants db))))"

definition registry_get_blob :: "registry \<Rightarrow> cas \<Rightarrow> registry_db \<Rightarrow> pystr \<Rightarrow> pystr \<Rightarrow> bytes registry_result" where
  "registry_get_blob R store db digest caller =
     res_bind (can_read_blob R store db digest caller) (\<lambda>allowed.
       if \<not> allowed then Inl BlobAuthorizationError
       else res_bind (read_verified (rg_host R) store digest) (\<lambda>stored. Inr (sb_data stored)))"

end
