(* ===== verification/Registry_Laws.thy ===== *)
theory Registry_Laws
  imports Registry
begin

text \<open>
  The registry only appends: whatever operations follow, the rows of a publication stay what they
  were, so a later read returns the same publication or refuses.
\<close>

section \<open>Policies do not matter to what is stored\<close>

abbreviation with_policies :: "registry \<Rightarrow> (nat \<Rightarrow> pystr \<Rightarrow> pystr \<Rightarrow> pystr \<Rightarrow> json \<Rightarrow> policy_decision option) \<Rightarrow> registry" where
  "with_policies R resolver \<equiv> R \<lparr> rg_resolve := resolver \<rparr>"

lemma policies_irrelevant_parts [simp]:
  "new_row (with_policies R p) = new_row R"
  "expected_evidence (with_policies R p) = expected_evidence R"
  "attestation_payload (with_policies R p) = attestation_payload R"
  "new_attestation (with_policies R p) = new_attestation R"
  by (simp_all add: fun_eq_iff new_row_def expected_evidence_def attestation_payload_def new_attestation_def Let_def)

lemma policies_irrelevant [simp]:
  "reconstruct (with_policies R p) = reconstruct R"
  "check_media_types (with_policies R p) = check_media_types R"
  "verify_m3_attestation (with_policies R p) = verify_m3_attestation R"
  "insert_publication (with_policies R p) = insert_publication R"
  by (simp_all add: fun_eq_iff reconstruct_def check_media_types_def insert_publication_def
      verify_m3_attestation_def Let_def cong: if_cong option.case_cong)

lemma policies_irrelevant_to_rows [simp]:
  "verify_existing (with_policies R p) = verify_existing R"
  "row_to_published (with_policies R p) = row_to_published R"
  by (simp_all add: fun_eq_iff verify_existing_def row_to_published_def)

section \<open>Steps\<close>

text \<open>Publications, under whatever policies, and new blobs.\<close>

inductive registry_step :: "registry \<Rightarrow> cas \<times> registry_db \<Rightarrow> cas \<times> registry_db \<Rightarrow> bool" for R where
  publishes: "registry_publish (with_policies R p) store db c caller permit stamped = Inr (out, db') \<Longrightarrow>
     registry_step R (store, db) (store, db')"
| stores: "put_blob (rg_host R) store data media_type = Inr (ref, store') \<Longrightarrow> registry_step R (store, db) (store', db)"

inductive registry_run :: "registry \<Rightarrow> cas \<times> registry_db \<Rightarrow> cas \<times> registry_db \<Rightarrow> bool" for R where
  refl: "registry_run R s s"
| step: "registry_run R s t \<Longrightarrow> registry_step R t u \<Longrightarrow> registry_run R s u"

section \<open>The invariant\<close>

definition registry_inv :: "registry_db \<Rightarrow> bool" where
  "registry_inv db \<longleftrightarrow> distinct (map pr_id (rd_publications db)) \<and>
     distinct (map (\<lambda>r. (pr_capsule_id r, pr_version r)) (rd_publications db)) \<and>
     xr_publication ` set (rd_evidence db) \<subseteq> pr_id ` set (rd_publications db) \<and>
     gr_publication ` set (rd_grants db) \<subseteq> pr_id ` set (rd_publications db) \<and>
     zr_publication ` set (rd_attestations db) \<subseteq> pr_id ` set (rd_publications db)"

text \<open>The tables of \<open>db'\<close> are those of \<open>db\<close> with rows of new publications added.\<close>

definition appends :: "registry_db \<Rightarrow> registry_db \<Rightarrow> bool" where
  "appends db db' \<longleftrightarrow> (\<exists>ps es gs as. rd_publications db' = rd_publications db @ ps \<and> rd_evidence db' = rd_evidence db @ es \<and>
     rd_grants db' = rd_grants db @ gs \<and> rd_attestations db' = rd_attestations db @ as \<and>
     (xr_publication ` set es \<union> gr_publication ` set gs \<union> zr_publication ` set as) \<inter> pr_id ` set (rd_publications db) = {})"

lemma next_publication_new: "next_publication db \<notin> pr_id ` set (rd_publications db)"
proof
  assume "next_publication db \<in> pr_id ` set (rd_publications db)"
  moreover have "i \<in> set xs \<Longrightarrow> i \<le> foldr max xs 0" for i :: nat and xs by (induction xs) auto
  ultimately have "next_publication db \<le> foldr max (map pr_id (rd_publications db)) 0" by auto
  then show False by (simp add: next_publication_def)
qed

lemma new_row_keys:
  "new_row R i c t = Inr row \<Longrightarrow> pr_id row = i \<and> pr_capsule_id row = cm_capsule_id (cc_control_manifest c) \<and>
     pr_version row = cm_version (cc_control_manifest c)"
  by (auto simp: new_row_def Let_def res_bind_Inr_iff)

lemma res_map_member:
  assumes "res_map f xs = Inr ys" and "y \<in> set ys"
  obtains x where "x \<in> set xs" "f x = Inr y"
proof -
  obtain k where "k < length ys" "y = ys ! k" using assms(2) by (auto simp: in_set_conv_nth)
  then show ?thesis
    using assms(1) that [of "xs ! k"] by (simp add: res_map_Inr_iff list_all2_conv_all_nth)
qed

lemma expected_evidence_publication:
  assumes "expected_evidence R i c = Inr es" and "x \<in> set es"
  shows "xr_publication x = i"
  using assms(1)[unfolded expected_evidence_def] assms(2)
  by (rule res_map_member) (auto simp: res_bind_Inr_iff)

lemma new_attestation_publication: "new_attestation R i caller p m = Inr a \<Longrightarrow> zr_publication a = i"
  by (auto simp: new_attestation_def res_bind_Inr_iff)

lemma attestations_publication:
  "(case (payload, permit) of (Some members, Some p) \<Rightarrow> res_bind (new_attestation R i caller p members) (\<lambda>a. Inr [a])
      | _ \<Rightarrow> Inr []) = Inr as \<Longrightarrow> \<forall>a \<in> set as. zr_publication a = i"
  by (auto simp: res_bind_Inr_iff dest: new_attestation_publication split: option.splits)

lemma insert_publication_appends:
  assumes "insert_publication R db c caller permit payload t = Inr (row, db')"
  shows "appends db db'" and "registry_inv db \<Longrightarrow>
     find_publication db (cm_capsule_id (cc_control_manifest c)) (cm_version (cc_control_manifest c)) = None \<Longrightarrow> registry_inv db'"
    and "rd_publications db' = rd_publications db @ [row]"
proof -
  let ?i = "next_publication db"
  obtain es as where row: "new_row R ?i c t = Inr row" and es: "expected_evidence R ?i c = Inr es"
    and as: "\<forall>a \<in> set as. zr_publication a = ?i"
    and db': "db' = db \<lparr> rd_publications := rd_publications db @ [row], rd_evidence := rd_evidence db @ es,
              rd_grants := rd_grants db @ expected_grants ?i c, rd_attestations := rd_attestations db @ as \<rparr>"
    using assms attestations_publication by (fastforce simp: insert_publication_def Let_def res_bind_Inr_iff split: if_splits)
  have gs: "\<forall>g \<in> set (expected_grants ?i c). gr_publication g = ?i" by (auto simp: expected_grants_def)
  have xs: "\<forall>x \<in> set es. xr_publication x = ?i" using expected_evidence_publication [OF es] by blast
  note fresh = next_publication_new [of db] and keys = new_row_keys [OF row]
  show "rd_publications db' = rd_publications db @ [row]" by (simp add: db')
  show "appends db db'" unfolding appends_def
    by (intro exI [of _ "[row]"] exI [of _ es] exI [of _ "expected_grants ?i c"] exI [of _ as])
      (use fresh as gs xs in \<open>auto simp: db' image_iff\<close>)
  assume inv: "registry_inv db" and none: "find_publication db (cm_capsule_id (cc_control_manifest c)) (cm_version (cc_control_manifest c)) = None"
  have "(pr_capsule_id row, pr_version row) \<notin> (\<lambda>r. (pr_capsule_id r, pr_version r)) ` set (rd_publications db)"
    using none keys by (auto simp: find_publication_def find_None_iff)
  then show "registry_inv db'"
    using inv fresh keys as gs xs by (auto simp: registry_inv_def db')
qed

text \<open>A publish either changes nothing or inserts a fresh publication that passed the gate.\<close>

lemma registry_publish_cases:
  assumes "registry_publish R store db cand caller permit t = Inr (p, db')"
  obtains c where "rg_capsule R (capsule_wire_dict cand) = Some c" "db' = db"
  | c payload row where "rg_capsule R (capsule_wire_dict cand) = Some c"
      "find_publication db (cm_capsule_id (cc_control_manifest c)) (cm_version (cc_control_manifest c)) = None"
      "authorize_publish R 1 c caller = Inr ()" "validate_candidate R store c = Inr ()"
      "validate_m3_publication (rg_gate R) (rg_trust R) store c caller permit = Inr payload"
      "insert_publication R db c caller permit payload t = Inr (row, db')"
      "verify_existing R db' row c = Inr ()" "row_to_published R row = Inr p"
proof -
  from assms obtain c where c: "rg_capsule R (capsule_wire_dict cand) = Some c" "authorize_publish R 1 c caller = Inr ()"
      "validate_candidate R store c = Inr ()"
    by (auto simp: registry_publish_def revalidate_candidate_def res_bind_Inr_iff the_or_def split: option.splits)
  note run = assms [unfolded registry_publish_def revalidate_candidate_def Let_def]
  show ?thesis
  proof (cases "find_publication db (cm_capsule_id (cc_control_manifest c)) (cm_version (cc_control_manifest c))")
    case None
    with run c show ?thesis
      by (auto simp: the_or_def res_bind_Inr_iff split: bool.splits intro: that(2) [OF c(1) None c(2,3)])
  next
    case (Some row)
    then have "db' = db"
      using run c by (cases permit; cases "is_m3_capsule c") (auto simp: the_or_def res_bind_Inr_iff)
    with that(1) c(1) show ?thesis by blast
  qed
qed

lemma appends_refl [simp]: "appends db db"
  by (simp add: appends_def)

lemma registry_step_appends:
  assumes "registry_step R s u" and "registry_inv (snd s)"
  shows "registry_inv (snd u) \<and> appends (snd s) (snd u) \<and> (\<forall>d raw. map_of (fst s) d = Some raw \<longrightarrow> map_of (fst u) d = Some raw)"
  using assms(1)
proof cases
  case (publishes p store db c caller permit stamped out db')
  from publishes(3) show ?thesis
  proof (cases rule: registry_publish_cases)
    case 1
    with publishes(1,2) assms(2) show ?thesis by simp
  next
    case (2 c payload row)
    with insert_publication_appends [OF 2(6)[simplified]] publishes(1,2) assms(2) show ?thesis by simp
  qed
next
  case (stores store data media_type ref store' db)
  with assms(2) put_blob_keeps [OF stores(3)] show ?thesis by simp
qed

section \<open>Lookups after appends\<close>

lemma find_append_found: "find P xs = Some x \<Longrightarrow> find P (xs @ ys) = Some x"
  by (induction xs) auto

lemma find_append_none: "find P (xs @ ys) = (case find P xs of None \<Rightarrow> find P ys | Some x \<Rightarrow> Some x)"
  by (induction xs) auto

lemma appends_lookups:
  assumes "appends db db'" and "row \<in> set (rd_publications db)"
  shows "filter (\<lambda>x. xr_publication x = pr_id row) (rd_evidence db') = filter (\<lambda>x. xr_publication x = pr_id row) (rd_evidence db)"
    and "filter (\<lambda>g. gr_publication g = pr_id row) (rd_grants db') = filter (\<lambda>g. gr_publication g = pr_id row) (rd_grants db)"
    and "find_attestation db' (pr_id row) = find_attestation db (pr_id row)"
proof -
  obtain ps es gs as where app: "rd_publications db' = rd_publications db @ ps" "rd_evidence db' = rd_evidence db @ es"
    "rd_grants db' = rd_grants db @ gs" "rd_attestations db' = rd_attestations db @ as"
    and new: "(xr_publication ` set es \<union> gr_publication ` set gs \<union> zr_publication ` set as) \<inter> pr_id ` set (rd_publications db) = {}"
    using assms(1) by (auto simp: appends_def)
  have "pr_id row \<in> pr_id ` set (rd_publications db)" using assms(2) by blast
  then have other: "pr_id row \<notin> xr_publication ` set es" "pr_id row \<notin> gr_publication ` set gs" "pr_id row \<notin> zr_publication ` set as"
    using new by blast+
  show "filter (\<lambda>x. xr_publication x = pr_id row) (rd_evidence db') = filter (\<lambda>x. xr_publication x = pr_id row) (rd_evidence db)"
    using other(1) by (auto simp: app filter_empty_conv image_iff)
  show "filter (\<lambda>g. gr_publication g = pr_id row) (rd_grants db') = filter (\<lambda>g. gr_publication g = pr_id row) (rd_grants db)"
    using other(2) by (auto simp: app filter_empty_conv image_iff)
  have "find (\<lambda>a. zr_publication a = pr_id row) as = None"
    using other(3) by (auto simp: find_None_iff image_iff)
  then show "find_attestation db' (pr_id row) = find_attestation db (pr_id row)"
    by (simp add: find_attestation_def app find_append_none split: option.splits)
qed

lemma verify_existing_appends:
  assumes "appends db db'" and "row \<in> set (rd_publications db)"
  shows "verify_existing R db' row c = verify_existing R db row c"
  by (simp add: verify_existing_def verify_m3_attestation_def appends_lookups [OF assms])

lemma find_publication_member: "find_publication db i v = Some row \<Longrightarrow> row \<in> set (rd_publications db)"
  by (auto simp: find_publication_def find_Some_iff)

lemma find_publication_appends:
  "appends db db' \<Longrightarrow> find_publication db i v = Some row \<Longrightarrow> find_publication db' i v = Some row"
  by (auto simp: appends_def find_publication_def find_append_found)

lemma appends_trans:
  assumes "appends a b" and "appends b c"
  shows "appends a c"
proof -
  obtain ps es gs as where ab: "rd_publications b = rd_publications a @ ps" "rd_evidence b = rd_evidence a @ es"
    "rd_grants b = rd_grants a @ gs" "rd_attestations b = rd_attestations a @ as"
    "(xr_publication ` set es \<union> gr_publication ` set gs \<union> zr_publication ` set as) \<inter> pr_id ` set (rd_publications a) = {}"
    using assms(1) by (auto simp: appends_def)
  obtain ps' es' gs' as' where bc: "rd_publications c = rd_publications b @ ps'" "rd_evidence c = rd_evidence b @ es'"
    "rd_grants c = rd_grants b @ gs'" "rd_attestations c = rd_attestations b @ as'"
    "(xr_publication ` set es' \<union> gr_publication ` set gs' \<union> zr_publication ` set as') \<inter> pr_id ` set (rd_publications b) = {}"
    using assms(2) by (auto simp: appends_def)
  show ?thesis unfolding appends_def
    by (intro exI [of _ "ps @ ps'"] exI [of _ "es @ es'"] exI [of _ "gs @ gs'"] exI [of _ "as @ as'"])
      (use ab bc in auto)
qed

lemma registry_run_appends:
  assumes "registry_run R s u" and "registry_inv (snd s)"
  shows "registry_inv (snd u) \<and> appends (snd s) (snd u) \<and> (\<forall>d raw. map_of (fst s) d = Some raw \<longrightarrow> map_of (fst u) d = Some raw)"
  using assms
proof induction
  case (step s t u)
  with registry_step_appends [OF step.hyps(2)] show ?case by (auto intro: appends_trans)
qed simp

lemma check_media_types_grows:
  assumes "check_media_types R store c = Inr ()" and "\<And>d raw. map_of store d = Some raw \<Longrightarrow> map_of store' d = Some raw"
  shows "check_media_types R store' c = Inr ()"
proof -
  have same: "read_verified H store' d = read_verified H store d" if "read_verified H store d = Inr b" for H d b
  proof (rule read_verified_grows)
    from that obtain raw where "map_of store d = Some raw" by (auto simp: read_verified_def split: if_splits option.splits)
    with assms(2) show "map_of store' d = map_of store d" by simp
  qed
  show ?thesis
    using assms(1) same
    by (fastforce simp: check_media_types_def res_bind_Inr_iff res_map_Inr_iff list_all2_conv_all_nth split: if_splits)
qed

end
