(* ===== verification/Registry_Trust.thy ===== *)
theory Registry_Trust
  imports Registry_Laws
begin

text \<open>
  What the publication gate establishes. The specification says, apart from the order and the
  wires of the checks, what a trusted publication is: a permit of the trust root for this
  capsule and this caller, and for every atom an approval of somebody other than the source of
  the statement, and source spans that read as the statement.
\<close>

section \<open>Specification\<close>

text \<open>A permit that the trust root signed for this capsule and caller.\<close>

definition permit_binds :: "gate_env \<Rightarrow> trust_root \<Rightarrow> core_capsule \<Rightarrow> pystr \<Rightarrow> publication_permit \<Rightarrow> bool" where
  "permit_binds T r c caller permit \<longleftrightarrow>
     verify_payload T r (JObj (pm_payload permit)) (pm_signature permit) \<and>
     (let manifest = cc_control_manifest c; payload = pm_payload permit in
      json_get payload ''capsule_digest'' = JStr (cm_content_digest manifest) \<and>
      json_get payload ''capsule_id'' = JStr (cm_capsule_id manifest) \<and>
      json_get payload ''version'' = JStr (cm_version manifest) \<and>
      json_get payload ''authority'' = JStr (cm_authority manifest) \<and>
      json_get payload ''principal_id'' = JStr caller \<and>
      json_get payload ''policy_version'' = JStr (tr_policy_version r))"

text \<open>An approval in force, signed with a secret of the trust root, of a candidate that
  \<open>source\<close> captured at an instant.\<close>

definition approval_in_force ::
  "gate_env \<Rightarrow> trust_root \<Rightarrow> pystr \<Rightarrow> pystr \<Rightarrow> pystr \<Rightarrow> int \<Rightarrow> members \<Rightarrow> bool" where
  "approval_in_force T r candidate_id candidate_digest source captured m \<longleftrightarrow>
    (\<exists>approver secret message approved.
       approval_field m ''approver_id'' = JStr approver \<and> approver \<noteq> source \<and>
       map_of (tr_secrets r) approver = Some secret \<and>
       jcs_text (ge_host T) (approval_signing_json m) = Inr message \<and>
       approval_field m ''signature'' = JStr (''hmac-sha256:'' @ to_hex (ge_hmac T secret message)) \<and>
       approval_field m ''decision'' = JStr ''approve'' \<and>
       approval_field m ''candidate_id'' = JStr candidate_id \<and>
       approval_field m ''candidate_digest'' = JStr candidate_digest \<and>
       parse_instant T (approval_field m ''approved_at'') = Some approved \<and>
       captured \<le> approved \<and> approved \<le> ge_now T candidate_id \<and>
       (case parse_instant T (approval_field m ''expires_at'') of None \<Rightarrow> True | Some e \<Rightarrow> ge_now T candidate_id < e))"

text \<open>Lines of a source that read as a statement.\<close>

definition reads_as :: "gate_env \<Rightarrow> bytes \<Rightarrow> pystr \<Rightarrow> bool" where
  "reads_as T data statement \<longleftrightarrow> (\<exists>ls i n. ge_lines T data = Some ls \<and> i + n \<le> length ls \<and> 0 < n \<and>
     span_statement T (concat (take n (drop i ls))) = ge_strip T statement)"

definition evidenced :: "gate_env \<Rightarrow> core_capsule \<Rightarrow> core_atom \<Rightarrow> bool" where
  "evidenced T c a \<longleftrightarrow> at_evidence_refs a \<noteq> [] \<and> (\<forall>ref \<in> set (at_evidence_refs a). \<exists>e \<in> set (capsule_evidence c).
     er_evidence_id e = ref \<and>
     (\<exists>data. er_content_digest e = re_digest (ge_host T) data \<and> reads_as T data (at_statement a)))"

text \<open>The trust metadata of the atom holds the approved candidate and the approval; the signed
  permit names the principal who captured the source, and when.\<close>

definition atom_trusted :: "gate_env \<Rightarrow> trust_root \<Rightarrow> publication_permit \<Rightarrow> core_capsule \<Rightarrow> core_atom \<Rightarrow> bool" where
  "atom_trusted T r p c a \<longleftrightarrow> at_status a = ''validated'' \<and> ge_clean T (at_statement a) \<and> evidenced T c a \<and>
    (\<exists>trust candidate_id candidate digest approval items permit_atom source captured.
       json_get (at_extensions a) ''x-trust'' = JObj trust \<and>
       json_get trust ''candidate'' = JObj candidate \<and> json_get trust ''approval'' = JObj approval \<and>
       json_get candidate ''candidate_id'' = JStr candidate_id \<and>
       json_get candidate ''statement'' = JStr (at_statement a) \<and>
       json_get candidate ''atom_id'' = JStr (at_atom_id a) \<and>
       jcs_digest (ge_host T) (candidate_projection candidate) = Inr digest \<and>
       json_get (pm_payload p) ''atoms'' = JList items \<and> JObj permit_atom \<in> set items \<and>
       json_get permit_atom ''candidate_id'' = JStr candidate_id \<and>
       json_get permit_atom ''snapshot_principal_id'' = JStr source \<and>
       parse_instant T (json_get permit_atom ''snapshot_captured_at'') = Some captured \<and>
       approval_in_force T r candidate_id digest source captured approval)"

section \<open>The checks establish it\<close>

lemma json_get_atom:
  assumes "atom_json a = JObj atom"
  shows "json_get atom ''statement'' = JStr (at_statement a)" "json_get atom ''status'' = JStr (at_status a)"
    "json_get atom ''atom_id'' = JStr (at_atom_id a)" "json_get atom ''evidence_refs'' = json_strings (at_evidence_refs a)"
    "json_get atom ''extensions'' = JObj (at_extensions a)"
  using assms by (auto simp: atom_json_def json_get_def)

lemma json_get_evidence:
  assumes "evidence_json e = JObj m"
  shows "json_get m ''evidence_id'' = JStr (er_evidence_id e)" "json_get m ''content_digest'' = JStr (er_content_digest e)"
  using assms by (auto simp: evidence_json_def json_get_def)

lemma json_obj_JObj [simp]: "json_obj (JObj d) = Some d"
  by simp

lemma json_strings_list [simp]: "json_strings xs = JList ys \<longleftrightarrow> ys = map JStr xs"
  by (auto simp: json_strings_def)

text \<open>Every member the collected records hold is the wire of a record with that identifier.\<close>

lemma wire_evidence_member:
  assumes "wire_evidence (map evidence_json es) = Inr d" and "map_of d i = Some m"
  shows "\<exists>e \<in> set es. evidence_json e = JObj m \<and> er_evidence_id e = i"
proof -
  let ?P = "\<lambda>d. \<forall>i m. map_of d i = Some m \<longrightarrow> (\<exists>e \<in> set es. evidence_json e = JObj m \<and> er_evidence_id e = i)"
  have "?P d"
  proof (rule res_fold_invariant [OF assms(1)[unfolded wire_evidence_def]])
    fix d x d' assume "x \<in> set (map evidence_json es)" "?P d"
      "res_bind (the_or (json_obj x) ''evidence'') (\<lambda>m.
         res_bind (the_or (json_str (json_get m ''evidence_id'')) ''evidence'') (\<lambda>i. Inr (AList.update i m d))) = Inr d'"
    then show "?P d'" by (auto simp: res_bind_Inr_iff update_conv' json_get_evidence split: if_splits)
  qed simp
  with assms(2) show ?thesis by blast
qed

text \<open>Every entry of the permit's atoms by candidate is one of them.\<close>

lemma permit_atom_map_member:
  assumes "permit_atom_map v n = Inr d" and "map_of d i = Some m"
  shows "\<exists>items. v = JList items \<and> JObj m \<in> set items \<and> json_get m ''candidate_id'' = JStr i"
proof -
  obtain items where items: "v = JList items" and run: "res_fold (\<lambda>d item.
         res_bind (the_or (json_obj item) ''atom entry'') (\<lambda>m.
         res_bind (the_or (json_str (json_get m ''candidate_id'')) ''atom entry'') (\<lambda>i.
         res_bind (ensure (i \<notin> set (dict_keys d)) ''duplicate'') (\<lambda>_. Inr (AList.update i m d))))) [] items = Inr d"
    using assms(1) by (auto simp: permit_atom_map_def res_bind_Inr_iff)
  let ?P = "\<lambda>d. \<forall>i m. map_of d i = Some m \<longrightarrow> JObj m \<in> set items \<and> json_get m ''candidate_id'' = JStr i"
  have "?P d"
    by (rule res_fold_invariant [OF run]) (auto simp: res_bind_Inr_iff update_conv' split: if_splits)
  with assms(2) items show ?thesis by blast
qed

lemma binding_wire_digest: "json_get (binding_wire record source_map) ''content_digest'' = json_get record ''content_digest''"
  by (simp add: binding_wire_def) (simp add: json_get_def [of "_ # _"])

lemma authoritative_binding_reads:
  assumes "validate_authoritative_binding T atom binding data = Inr ()"
  shows "json_get binding ''content_digest'' = JStr (re_digest (ge_host T) data) \<and>
     (\<exists>s. json_get atom ''statement'' = JStr s \<and> reads_as T data s)"
proof -
  obtain s span ls i j where s: "json_get atom ''statement'' = JStr s" "span_statement T span = ge_strip T s"
    and digest: "json_get binding ''content_digest'' = JStr (re_digest (ge_host T) data)"
    and ls: "ge_lines T data = Some ls" "1 \<le> i" "i \<le> j" "j \<le> int (length ls)"
      "span = concat (take (nat j - (nat i - 1)) (drop (nat i - 1) ls))"
    using assms by (auto simp: validate_authoritative_binding_def authoritative_line_span_def res_bind_Inr_iff)
  have "reads_as T data s" unfolding reads_as_def
    by (rule exI [of _ ls], rule exI [of _ "nat i - 1"], rule exI [of _ "nat j - (nat i - 1)"]) (use s ls in auto)
  with s digest show ?thesis by blast
qed

lemma gate_binding_reads:
  assumes "validate_gate_binding T store atom evidence digests subjects authoritative ref = Inr b"
  shows "\<exists>i m data. ref = JStr i \<and> map_of evidence i = Some m \<and>
     json_get m ''content_digest'' = JStr (re_digest (ge_host T) data) \<and>
     (\<exists>s. json_get atom ''statement'' = JStr s \<and> reads_as T data s)"
proof -
  obtain i m source_map data where "ref = JStr i" "map_of evidence i = Some m"
      "validate_authoritative_binding T atom (binding_wire m source_map) data = Inr ()"
    using assms by (auto simp: validate_gate_binding_def Let_def res_bind_Inr_iff split: option.splits)
  with authoritative_binding_reads [OF this(3)] show ?thesis by (fastforce simp: binding_wire_digest)
qed

lemma startswith_removeprefix: "startswith s p \<Longrightarrow> removeprefix p s = x \<Longrightarrow> s = p @ x"
  by (metis append_take_drop_id removeprefix_def startswith_def)

lemma hmac_verify_signed:
  assumes "hmac_verify T r m = Inr True"
  obtains approver secret message where "approval_field m ''approver_id'' = JStr approver"
    "map_of (tr_secrets r) approver = Some secret" "jcs_text (ge_host T) (approval_signing_json m) = Inr message"
    "approval_field m ''signature'' = JStr (''hmac-sha256:'' @ to_hex (ge_hmac T secret message))"
proof -
  obtain key where key: "json_key (approval_field m ''approver_id'') = Inr key"
    using assms by (auto simp: hmac_verify_def res_bind_Inr_iff)
  show ?thesis
  proof (cases "case key of None \<Rightarrow> None | Some a \<Rightarrow> map_of (tr_secrets r) a")
    case None
    with assms key show ?thesis by (simp add: hmac_verify_def)
  next
    case (Some secret)
    then obtain approver where approver: "key = Some approver" "map_of (tr_secrets r) approver = Some secret"
      by (auto split: option.splits)
    have "approval_field m ''approver_id'' = JStr approver"
      using key approver(1) by (simp add: json_key_def split: json.splits)
    with approver key assms show ?thesis
      by (auto simp: hmac_verify_def res_bind_Inr_iff split: option.splits if_splits
          intro!: that [OF _ approver(2)] dest: startswith_removeprefix)
  qed
qed

lemma validate_approval_in_force:
  assumes "validate_approval T r candidate_id digest trust permit_atom = Inr ds"
  shows "\<exists>source captured approval. json_get permit_atom ''snapshot_principal_id'' = JStr source \<and>
     parse_instant T (json_get permit_atom ''snapshot_captured_at'') = Some captured \<and>
     json_get trust ''approval'' = JObj approval \<and>
     approval_in_force T r candidate_id digest source captured approval"
proof -
  obtain approval approved source captured where m: "json_get trust ''approval'' = JObj approval" "hmac_verify T r approval = Inr True"
      "parse_instant T (approval_field approval ''approved_at'') = Some approved"
      "approval_field approval ''decision'' = JStr ''approve''" "approval_field approval ''candidate_id'' = JStr candidate_id"
      "approval_field approval ''candidate_digest'' = JStr digest" "approved \<le> ge_now T candidate_id"
      "case parse_instant T (approval_field approval ''expires_at'') of None \<Rightarrow> True | Some e \<Rightarrow> ge_now T candidate_id < e"
      "json_get permit_atom ''snapshot_principal_id'' = JStr source" "approval_field approval ''approver_id'' \<noteq> JStr source"
      "parse_instant T (json_get permit_atom ''snapshot_captured_at'') = Some captured" "captured \<le> approved"
    using assms by (auto simp: validate_approval_def validate_approval_source_def res_bind_Inr_iff)
  from hmac_verify_signed [OF m(2)] obtain approver secret message where
      "approval_field approval ''approver_id'' = JStr approver"
      "map_of (tr_secrets r) approver = Some secret" "jcs_text (ge_host T) (approval_signing_json approval) = Inr message"
      "approval_field approval ''signature'' = JStr (''hmac-sha256:'' @ to_hex (ge_hmac T secret message))"
    by blast
  with m have "approval_in_force T r candidate_id digest source captured approval"
    by (auto simp: approval_in_force_def)
  with m(1,9,11) show ?thesis by blast
qed

text \<open>What an accepted atom has.\<close>

lemma validate_m3_atom_trusted:
  assumes "validate_m3_atom T r store permit_by_id evidence subjects authoritative (atom, trust) = Inr ()"
    and "atom_json a = JObj atom" and "at_status a = ''validated''" and "at_evidence_refs a \<noteq> []"
    and "\<And>i m. map_of evidence i = Some m \<Longrightarrow> \<exists>e \<in> set (capsule_evidence c). evidence_json e = JObj m \<and> er_evidence_id e = i"
    and "json_get (at_extensions a) ''x-trust'' = JObj trust" and "permit_atom_map (json_get (pm_payload p) ''atoms'') n = Inr permit_by_id"
  shows "atom_trusted T r p c a"
proof -
  note wire = json_get_atom [OF assms(2)]
  obtain candidate_id permit_atom candidate digest sp ds bindings where m:
      "ge_clean T (at_statement a)" "json_get trust ''candidate_id'' = JStr candidate_id"
      "map_of permit_by_id candidate_id = Some permit_atom"
      "validate_candidate_witness T atom trust permit_atom = Inr (candidate, digest, sp)"
      "validate_approval T r candidate_id digest trust permit_atom = Inr ds"
      "validate_bindings T store atom evidence ds subjects (json_get candidate ''source_trust_level'') sp authoritative = Inr bindings"
    using assms(1) by (auto simp: validate_m3_atom_def res_bind_Inr_iff wire split: option.splits prod.splits)
  have candidate: "json_get trust ''candidate'' = JObj candidate" "json_get candidate ''candidate_id'' = JStr candidate_id"
      "json_get candidate ''statement'' = JStr (at_statement a)"
      "json_get candidate ''atom_id'' = JStr (at_atom_id a)" "jcs_digest (ge_host T) (candidate_projection candidate) = Inr digest"
    using m(2,4) by (auto simp: validate_candidate_witness_def candidate_matches_permit_def res_bind_Inr_iff wire)
  from permit_atom_map_member [OF assms(7) m(3)] obtain items where items: "json_get (pm_payload p) ''atoms'' = JList items"
      "JObj permit_atom \<in> set items" "json_get permit_atom ''candidate_id'' = JStr candidate_id" by blast
  from validate_approval_in_force [OF m(5)] obtain source captured approval where approval:
      "json_get permit_atom ''snapshot_principal_id'' = JStr source"
      "parse_instant T (json_get permit_atom ''snapshot_captured_at'') = Some captured"
      "json_get trust ''approval'' = JObj approval"
      "approval_in_force T r candidate_id digest source captured approval" by blast
  have "res_map (validate_gate_binding T store atom evidence ds subjects authoritative) (map JStr (at_evidence_refs a)) = Inr bindings"
    using m(6) by (auto simp: validate_bindings_def res_bind_Inr_iff wire)
  then have each: "\<forall>ref \<in> set (at_evidence_refs a). \<exists>b. validate_gate_binding T store atom evidence ds subjects authoritative (JStr ref) = Inr b"
    by (force simp: res_map_Inr_iff list_all2_conv_all_nth in_set_conv_nth)
  have "evidenced T c a"
    unfolding evidenced_def
  proof (intro conjI assms(4) ballI)
    fix ref assume "ref \<in> set (at_evidence_refs a)"
    with each obtain b where "validate_gate_binding T store atom evidence ds subjects authoritative (JStr ref) = Inr b" by blast
    from gate_binding_reads [OF this] obtain w data where w: "map_of evidence ref = Some w"
        "json_get w ''content_digest'' = JStr (re_digest (ge_host T) data)" "reads_as T data (at_statement a)"
      by (auto simp: wire)
    from assms(5) [OF w(1)] obtain e where "e \<in> set (capsule_evidence c)" "evidence_json e = JObj w" "er_evidence_id e = ref" by blast
    with w json_get_evidence [of e w]
    show "\<exists>e \<in> set (capsule_evidence c). er_evidence_id e = ref \<and>
        (\<exists>data. er_content_digest e = re_digest (ge_host T) data \<and> reads_as T data (at_statement a))" by auto
  qed
  with m(1) assms(3) have status: "at_status a = ''validated'' \<and> ge_clean T (at_statement a) \<and> evidenced T c a" by simp
  show ?thesis
    unfolding atom_trusted_def
    by (rule conjI [OF status [THEN conjunct1]], rule conjI [OF status [THEN conjunct2, THEN conjunct1]],
        rule conjI [OF status [THEN conjunct2, THEN conjunct2]],
        rule exI [of _ trust], rule exI [of _ candidate_id], rule exI [of _ candidate], rule exI [of _ digest],
        rule exI [of _ approval], rule exI [of _ items], rule exI [of _ permit_atom], rule exI [of _ source], rule exI [of _ captured])
      (intro conjI assms(6) candidate items approval)
qed

lemma wire_atom_trust_facts:
  assumes "wire_atom_trust evidence (atom_json a) = Inr (atom, trust)"
  shows "atom_json a = JObj atom \<and> at_status a = ''validated'' \<and> at_evidence_refs a \<noteq> [] \<and>
     json_get (at_extensions a) ''x-trust'' = JObj trust"
  using assms by (auto simp: wire_atom_trust_def res_bind_Inr_iff json_get_atom)

lemma verify_permit_signature_facts:
  "verify_permit_signature T trusted p = Inr (r, issuer, payload) \<Longrightarrow>
     payload = pm_payload p \<and> trusted = Some r \<and> verify_payload T r (JObj payload) (pm_signature p)"
  by (auto simp: verify_permit_signature_def res_bind_Inr_iff split: option.splits)

text \<open>The gate lets a capsule that needs it through only with trust.\<close>

lemma validate_m3_publication_trusted:
  assumes "validate_m3_publication T trusted store c caller permit = Inr payload" and "requires_m3_gate c"
  shows "\<exists>r p. trusted = Some r \<and> permit = Some p \<and> payload = Some (pm_payload p) \<and> permit_binds T r c caller p \<and>
     (\<forall>a \<in> set (capsule_atoms c). atom_trusted T r p c a)"
proof -
  obtain p r issuer members subjects authoritative atoms evidence permit_by_id us where m: "permit = Some p"
      "verify_permit_signature T trusted p = Inr (r, issuer, members)"
      "validate_m3_header T r c caller members p = Inr ()" "payload = Some members"
      "wire_trust_metadata c = Inr (atoms, evidence)"
      "res_map (validate_m3_atom T r store permit_by_id evidence subjects authoritative) atoms = Inr us"
      "permit_atom_map (json_get members ''atoms'') (length atoms) = Inr permit_by_id"
    using assms by (auto simp: validate_m3_publication_def res_bind_Inr_iff split: prod.splits)
  have r: "members = pm_payload p" "trusted = Some r" "verify_payload T r (JObj (pm_payload p)) (pm_signature p)"
    using verify_permit_signature_facts [OF m(2)] by auto
  have binds: "permit_binds T r c caller p"
    using m(3) r(1,3) by (auto simp: permit_binds_def validate_m3_header_def Let_def res_bind_Inr_iff)
  have evidence: "wire_evidence (map evidence_json (capsule_evidence c)) = Inr evidence"
    and atoms: "list_all2 (\<lambda>a pair. wire_atom_trust evidence (atom_json a) = Inr pair) (capsule_atoms c) atoms"
    using m(5) by (auto simp: wire_trust_metadata_def res_bind_Inr_iff res_map_Inr_iff list_all2_conv_all_nth)
  have "atom_trusted T r p c a" if a: "a \<in> set (capsule_atoms c)" for a
  proof -
    obtain k where k: "k < length (capsule_atoms c)" "a = capsule_atoms c ! k" using a by (auto simp: in_set_conv_nth)
    obtain atom trust where pair: "atoms ! k = (atom, trust)" by fastforce
    have "wire_atom_trust evidence (atom_json a) = Inr (atom, trust)"
      using atoms k pair by (auto simp: list_all2_conv_all_nth)
    note facts = wire_atom_trust_facts [OF this]
    have "validate_m3_atom T r store permit_by_id evidence subjects authoritative (atom, trust) = Inr ()"
      using m(6) atoms k pair by (auto simp: res_map_Inr_iff list_all2_conv_all_nth dest!: spec [of _ k])
    with facts show ?thesis
      using m(7)[unfolded r(1)] by (intro validate_m3_atom_trusted) (auto dest: wire_evidence_member [OF evidence])
  qed
  with m(1,4) r(1,2) binds show ?thesis by blast
qed

end
