(* ===== verification/Registry_Sample.thy ===== *)
theory Registry_Sample
  imports Registry_Trust Compile_Sample
begin

text \<open>
  A registry, a stored blob and a capsule of one exact atom with its approval, evidence and
  permit. The encoder of the sample tells the shapes of values apart, and one digest stands for
  all, so the wires below are what the code would have written.
\<close>

definition reg_subjects :: json where
  "reg_subjects = JList [JObj [(''binding_id'', JStr ''b1''), (''mode'', JStr ''CAS''),
     (''content_digest'', JStr (text_digest (CHR ''a''))), (''media_type'', JStr ''text/plain''),
     (''snapshot_id'', JStr ''s1'')]]"

definition reg_candidate :: members where
  "reg_candidate = [(''candidate_id'', JStr ''k1''), (''atom_id'', JStr ''a0''), (''kind'', JStr ''fact''),
     (''statement'', JStr ''reviewed''), (''modality'', JStr ''MUST''), (''scope'', json_strings [''repository:repo'']),
     (''source_snapshot_id'', JStr ''s1''), (''start_line'', JInt 1), (''end_line'', JInt 1), (''symbol_or_heading'', JNull),
     (''compression_class'', JStr ''P0_EXACT''), (''generated'', JBool False), (''source_trust_level'', JStr ''T3''),
     (''status'', JStr ''candidate''), (''validated_status'', JStr ''validated''), (''validated_trust_level'', JStr ''T1'')]"

definition reg_approval :: members where
  "reg_approval = [(''approval_id'', JStr ''p1''), (''candidate_id'', JStr ''k1''), (''approver_id'', JStr ''reviewer''),
     (''approved_at'', JStr ''day 2''), (''decision'', JStr ''approve''), (''candidate_digest'', JStr (text_digest (CHR ''a''))),
     (''evidence_digests'', JList [JStr (text_digest (CHR ''a''))]), (''signature'', JStr ''hmac-sha256:bb'')]"

definition reg_source_map :: members where
  "reg_source_map = [(''binding_id'', JStr ''b1''), (''candidate_id'', JStr ''k1''), (''snapshot_id'', JStr ''s1''),
     (''span_digest'', JStr (text_digest (CHR ''a''))), (''path'', JStr ''notes.txt''), (''symbol_or_heading'', JNull),
     (''start_line'', JInt 1), (''end_line'', JInt 1), (''binding_digest'', JStr (text_digest (CHR ''a'')))]"

definition reg_trust :: members where
  "reg_trust = [(''candidate_id'', JStr ''k1''), (''candidate'', JObj reg_candidate),
     (''candidate_digest'', JStr (text_digest (CHR ''a''))), (''level'', JStr ''T1''), (''source_level'', JStr ''T3''),
     (''approval'', JObj reg_approval)]"

definition reg_atom :: core_atom where
  "reg_atom = (sample_atom ''a0'' ''P0_EXACT'' []) \<lparr> at_statement := ''reviewed'', at_extensions := [(''x-trust'', JObj reg_trust)] \<rparr>"

definition reg_evidence :: evidence_record where
  "reg_evidence = sample_evidence \<lparr> er_atom_ids := [''a0''], er_content_digest := text_digest (CHR ''a''),
     er_extensions := [(''x-source-map'', JObj reg_source_map)] \<rparr>"

definition reg_capsule :: core_capsule where
  "reg_capsule = sample_capsule \<lparr> cc_semantic_payload := \<lparr> sl_atoms = [reg_atom], sl_extensions = [] \<rparr>,
     cc_evidence_plane := \<lparr> ep_records = [reg_evidence], ep_extensions = [] \<rparr>,
     cc_dependency_graph := \<lparr> dg_edges = [], dg_extensions = [] \<rparr> \<rparr>"

lemma reg_capsule_valid: "core_capsule_valid sample_values reg_capsule"
  by code_simp

definition reg_attestation :: loader_attestation where
  "reg_attestation = \<lparr> la_capsule_digest = text_digest (CHR ''a''), la_publication_digest = text_digest (CHR ''a''),
     la_pipeline = loader_pipeline, la_package_path = Some ''/packages/core'', la_signature = ''loader-hmac-sha256:bb'',
     la_store_id = ''st'', la_capability = Some 0, la_profile = loader_profile \<rparr>"

definition reg_permit_atom :: members where
  "reg_permit_atom = [(''snapshot_id'', JStr ''s1''), (''trust_level'', JStr ''T3''), (''validated_status'', JStr ''validated''),
     (''candidate_digest'', JStr (text_digest (CHR ''a''))), (''source_proof'', JNull), (''approval'', JObj reg_approval),
     (''snapshot_principal_id'', JStr ''author''), (''snapshot_captured_at'', JStr ''day 1''),
     (''bindings'', JList [JObj (binding_wire (case evidence_json reg_evidence of JObj m \<Rightarrow> m | _ \<Rightarrow> []) reg_source_map)])] @
     reg_candidate"

definition reg_payload :: members where
  "reg_payload = [(''capsule_digest'', JStr (text_digest (CHR ''a''))), (''capsule_id'', JStr ''acme.core''),
     (''version'', JStr ''1.0.0''), (''principal_id'', JStr ''ci''), (''policy_version'', JStr ''policy-1''),
     (''trust_root_id'', JStr (''trust-root-'' @ replicate 32 (CHR ''a''))), (''scanner_version'', JStr ''m3-secret-scanner-v1''),
     (''authority'', JStr ''team''), (''scope'', scope_json reg_capsule), (''loader_attestation'', JObj (loader_wire reg_attestation)),
     (''source_subjects'', reg_subjects), (''atoms'', JList [JObj reg_permit_atom])]"

definition reg_header :: json where
  "reg_header = cas_header ''reviewed'' ''text/plain'' (text_digest (CHR ''a''))"

definition reg_dumps :: "json \<Rightarrow> bytes" where
  "reg_dumps v = (case v of JList _ \<Rightarrow> ''L''
     | JObj fs \<Rightarrow> if map fst fs = [''digest'', ''media_type'', ''size''] then ''H'' else ''O'' | _ \<Rightarrow> ''V'')"

definition reg_loads :: "bytes \<Rightarrow> json option" where
  "reg_loads b = map_of [(''L'', reg_subjects), (''H'', reg_header), (''O'', JObj reg_payload)] b"

definition reg_gate :: gate_env where
  "reg_gate = \<lparr> ge_host = \<lparr> re_base = sample_resolve_env \<lparr> rv_sha256 := (\<lambda>_. replicate 32 (CHR 0xAA)), rv_dumps := reg_dumps \<rparr>,
       re_loads = reg_loads \<rparr>,
     ge_hmac = (\<lambda>_ _. [CHR 0xBB]), ge_clean = (\<lambda>_. True), ge_git = (\<lambda>_. None), ge_load = (\<lambda>path. if path = ''/packages/core'' then Some reg_capsule else None),
     ge_loader_key = [CHR 0x01], ge_py_dumps = reg_dumps,
     ge_instant = (\<lambda>s. if s = ''day 1+00:00'' then Some 1 else if s = ''day 2+00:00'' then Some 2 else None),
     ge_lines = (\<lambda>b. Some [b]), ge_strip = (\<lambda>s. s), ge_now = (\<lambda>_. 3) \<rparr>"

definition reg_root :: trust_root where
  "reg_root = \<lparr> tr_secrets = [(''reviewer'', [CHR 0x02])], tr_issuer = ''trusted-human-review'', tr_policy_version = ''policy-1'' \<rparr>"

definition sample_registry :: registry where
  "sample_registry = \<lparr> rg_gate = reg_gate, rg_trust = Some reg_root,
     rg_resolve = (\<lambda>_ _ _ _ _. Some \<lparr> pd_allowed = True, pd_policies = [''team-read''] \<rparr>), rg_capsule = (\<lambda>m. if m = [] then None else Some reg_capsule) \<rparr>"

definition reg_permit :: publication_permit where
  "reg_permit = \<lparr> pm_payload = reg_payload, pm_signature = ''hmac-sha256:reviewer:bb'', pm_source_bytes = [''reviewed''],
     pm_source_proofs = [], pm_loader_attestation = Some reg_attestation,
     pm_issuer = Some \<lparr> pi_store_id = ''st'', pi_source_token = 0, pi_loader_token = 0 \<rparr> \<rparr>"

definition reg_cas :: cas where
  "reg_cas = [(text_digest (CHR ''a''), cas_magic @ be32 1 @ ''H'' @ ''reviewed'')]"

lemma reg_stored: "put_blob (rg_host sample_registry) [] ''reviewed'' ''text/plain'' =
    Inr (\<lparr> br_digest = text_digest (CHR ''a''), br_media_type = ''text/plain'', br_size = 8 \<rparr>, reg_cas)"
proof -
  have "re_digest (rg_host sample_registry) ''reviewed'' = text_digest (CHR ''a'')"
    "re_bytes (rg_host sample_registry) reg_header = Some ''H''" "is_media_type ''text/plain''"
    by code_simp+
  then show ?thesis by (simp add: put_blob_def Let_def envelope_def reg_header_def reg_cas_def)
qed

section \<open>The permit and its header\<close>

definition reg_issuer :: publication_issuer where "reg_issuer = \<lparr> pi_store_id = ''st'', pi_source_token = 0, pi_loader_token = 0 \<rparr>"

lemma reg_permit_fields [simp]:
  "pm_payload reg_permit = reg_payload" "pm_signature reg_permit = ''hmac-sha256:reviewer:bb''"
  "pm_source_bytes reg_permit = [''reviewed'']" "pm_source_proofs reg_permit = []"
  "pm_loader_attestation reg_permit = Some reg_attestation" "pm_issuer reg_permit = Some reg_issuer"
  by (simp_all add: reg_permit_def reg_issuer_def)

lemma reg_payload_members [simp]:
  "json_get reg_payload ''capsule_digest'' = JStr (text_digest (CHR ''a''))" "json_get reg_payload ''capsule_id'' = JStr ''acme.core''"
  "json_get reg_payload ''version'' = JStr ''1.0.0''" "json_get reg_payload ''principal_id'' = JStr ''ci''"
  "json_get reg_payload ''policy_version'' = JStr ''policy-1''"
  "json_get reg_payload ''trust_root_id'' = JStr (''trust-root-'' @ replicate 32 (CHR ''a''))"
  "json_get reg_payload ''scanner_version'' = JStr ''m3-secret-scanner-v1''" "json_get reg_payload ''authority'' = JStr ''team''"
  "json_get reg_payload ''scope'' = scope_json reg_capsule"
  "json_get reg_payload ''loader_attestation'' = JObj (loader_wire reg_attestation)"
  "json_get reg_payload ''source_subjects'' = reg_subjects" "json_get reg_payload ''atoms'' = JList [JObj reg_permit_atom]"
  by (simp_all add: reg_payload_def json_get_def)

lemma reg_payload_signed: "sign_payload reg_gate reg_root (JObj reg_payload) = Inr ''hmac-sha256:reviewer:bb''" by code_simp

lemma reg_payload_verifies: "verify_payload reg_gate reg_root (JObj reg_payload) ''hmac-sha256:reviewer:bb''"
proof -
  have "py_partition (CHR '':'') (snd (snd (py_partition (CHR '':'') ''hmac-sha256:reviewer:bb''))) = (''reviewer'', '':'', ''bb'')"
    "startswith ''hmac-sha256:reviewer:bb'' ''hmac-sha256:''" "tr_signer reg_root = ''reviewer''" by code_simp+
  then show ?thesis unfolding verify_payload_def by (simp add: reg_payload_signed)
qed

lemma reg_loader_members: "json_get (loader_wire reg_attestation) ''store_id'' = JStr ''st''" "json_get (loader_wire reg_attestation) ''profile'' = JStr loader_profile"
 "json_get (loader_wire reg_attestation) ''capsule_digest'' = JStr (text_digest (CHR ''a''))"
 "json_get (loader_wire reg_attestation) ''publication_digest'' = JStr (text_digest (CHR ''a''))"
 "json_get (loader_wire reg_attestation) ''pipeline'' = JList (map JStr loader_pipeline)"
 "json_get (loader_wire reg_attestation) ''package_path'' = JStr ''/packages/core''"
 "json_get (loader_wire reg_attestation) ''signature'' = JStr ''loader-hmac-sha256:bb''"
 by code_simp+

lemma reg_issuer_owns: "pi_store_id reg_issuer = ''st''" "owns_loader_attestation reg_issuer (Some reg_attestation)" by code_simp+

lemma reg_permit_signature: "verify_permit_signature reg_gate (Some reg_root) reg_permit = Inr (reg_root, reg_issuer, reg_payload)"
  by (simp add: verify_permit_signature_def reg_loader_members reg_issuer_owns reg_payload_verifies ensure_def the_or_def json_obj_def)

lemma reg_root_id: "root_id reg_gate reg_root = Inr (''trust-root-'' @ replicate 32 (CHR ''a''))" by code_simp

lemma scope_json_eq: "json_eq (scope_json reg_capsule) (scope_json reg_capsule)" by (simp add: json_eq_def)

lemma jcs_same_refl: "jcs_same reg_host' v v = (case re_bytes reg_host' v of None \<Rightarrow> Inl (RegistryFault ''ValueError'') | Some b \<Rightarrow> Inr True)"
 by (simp add: jcs_same_def jcs_text_def split: option.splits)

lemma reg_loader_text: "re_bytes (ge_host reg_gate) (JObj (loader_wire reg_attestation)) = Some ''O''" by code_simp

lemma reg_loader_verifies: "loader_verify reg_gate (loader_payload reg_attestation) (la_signature reg_attestation)"  by code_simp

lemma reg_publication_digest: "publication_digest_of reg_gate reg_capsule = Some (text_digest (CHR ''a''))" by code_simp

lemma reg_canonical_digest: "canonical_digest_of reg_gate reg_capsule = Some (text_digest (CHR ''a''))" by code_simp

lemma reg_manifest: "cc_control_manifest reg_capsule = sample_manifest ''acme.core''" by (simp add: reg_capsule_def sample_capsule_def)

lemma reg_package: "ge_load reg_gate ''/packages/core'' = Some reg_capsule" by (simp add: reg_gate_def)

lemma reg_loader_validates: "validate_loader_attestation reg_gate reg_payload reg_capsule reg_permit = Inr ()"
  by (simp add: validate_loader_attestation_def Let_def reg_loader_members jcs_same_refl reg_loader_text reg_loader_verifies reg_publication_digest reg_canonical_digest reg_manifest reg_package sample_manifest_def ensure_def the_or_def json_obj_def json_str_def guarded_def startswith_def)

lemma reg_header_validates: "validate_m3_header reg_gate reg_root reg_capsule ''ci'' reg_payload reg_permit = Inr ()"
  by (simp add: validate_m3_header_def Let_def reg_loader_validates reg_root_id scope_json_eq reg_manifest sample_manifest_def ensure_def reg_root_def[THEN arg_cong[where f=tr_policy_version]])

section \<open>Sources, candidate and approval\<close>

definition reg_subject :: members where "reg_subject = [(''binding_id'', JStr ''b1''), (''mode'', JStr ''CAS''),
     (''content_digest'', JStr (text_digest (CHR ''a''))), (''media_type'', JStr ''text/plain''),
     (''snapshot_id'', JStr ''s1'')]"

lemma reg_subject_inputs: "source_subject_inputs reg_payload reg_permit = Inr [(JObj reg_subject, ''reviewed'')]"
  by (simp add: source_subject_inputs_def reg_subjects_def reg_subject_def the_or_def json_list_def ensure_def)

lemma reg_no_git: "git_proof_wires_by_binding reg_gate reg_payload = Inr []"
proof -
  have "case json_obj (JObj reg_permit_atom) of None \<Rightarrow> False | Some atom \<Rightarrow> 
    (case json_list (json_get atom ''bindings'') of None \<Rightarrow> False | Some bs \<Rightarrow>
      res_fold (add_proof_wire reg_gate (json_get atom ''source_proof'')) [] bs = Inr [])" by code_simp
  then show ?thesis by (auto simp: git_proof_wires_by_binding_def the_or_def json_list_def json_obj_def split: json.splits)
qed

lemma reg_subject_step: "subject_step reg_gate [] [] \<lparr> ss_subjects = [], ss_authoritative = [], ss_used = {} \<rparr> (JObj reg_subject, ''reviewed'') =
   Inr \<lparr> ss_subjects = [(''b1'', reg_subject)], ss_authoritative = [(''b1'', ''reviewed'')], ss_used = {} \<rparr>" by code_simp

lemma reg_subjects_validate: "validate_source_subjects reg_gate reg_issuer reg_payload reg_permit = Inr ([(''b1'', reg_subject)], [(''b1'', ''reviewed'')])"
  by (simp add: validate_source_subjects_def reg_subject_inputs reg_no_git reg_subject_step permit_git_proofs_def guarded_def ensure_def)

lemma reg_trust_metadata: "wire_trust_metadata reg_capsule = Inr ([(case atom_json reg_atom of JObj m \<Rightarrow> m | _ \<Rightarrow> [], reg_trust)],
    [(''e1'', case evidence_json reg_evidence of JObj m \<Rightarrow> m | _ \<Rightarrow> [])])" by code_simp

lemma reg_permit_atoms: "permit_atom_map (JList [JObj reg_permit_atom]) 1 = Inr [(''k1'', reg_permit_atom)]" by code_simp

lemma reg_witness: "validate_candidate_witness reg_gate (case atom_json reg_atom of JObj m \<Rightarrow> m | _ \<Rightarrow> []) reg_trust reg_permit_atom =
   Inr (reg_candidate, text_digest (CHR ''a''), None)" by code_simp

lemma reg_approval_validates: "validate_approval reg_gate reg_root ''k1'' (text_digest (CHR ''a'')) reg_trust reg_permit_atom =
   Inr [text_digest (CHR ''a'')]" by code_simp

section \<open>The gate and the insertion\<close>

lemma reg_parse_header: "parse_header (ge_host reg_gate) ''H'' = Inr (''text/plain'', text_digest (CHR ''a''), JInt 8)" by code_simp

lemma reg_digest_ok: "is_digest (text_digest (CHR ''a''))" by code_simp

lemma reg_digest: "re_digest (ge_host reg_gate) ''reviewed'' = text_digest (CHR ''a'')" by code_simp

lemma reg_open: "open_envelope (ge_host reg_gate) (cas_magic @ be32 1 @ ''H'' @ ''reviewed'') = Inr ((''text/plain'', text_digest (CHR ''a''), JInt 8), ''reviewed'')"
  by (simp add: open_envelope_def startswith_def Let_def from_be32_be32 reg_parse_header)

lemma reg_read: "read_verified (ge_host reg_gate) reg_cas (text_digest (CHR ''a'')) =
        Inr \<lparr> sb_ref = \<lparr> br_digest = text_digest (CHR ''a''), br_media_type = ''text/plain'', br_size = 8 \<rparr>, sb_data = ''reviewed'' \<rparr>"
  using reg_digest by (simp add: read_verified_def reg_cas_def reg_digest_ok reg_open [simplified])

definition reg_wire :: members where
  "reg_wire = (case atom_json reg_atom of JObj m \<Rightarrow> m | _ \<Rightarrow> [])"

definition reg_record :: members where
  "reg_record = (case evidence_json reg_evidence of JObj m \<Rightarrow> m | _ \<Rightarrow> [])"

definition reg_binding :: members where
  "reg_binding = binding_wire reg_record reg_source_map"

lemma reg_clean: "ge_clean reg_gate b" by (simp add: reg_gate_def)

lemma reg_binding_validates: "validate_gate_binding reg_gate reg_cas reg_wire [(''e1'', reg_record)] [text_digest (CHR ''a'')] [(''b1'', reg_subject)]
   [(''b1'', ''reviewed'')] (JStr ''e1'') = Inr reg_binding"
proof -
  have "source_map_of reg_record = Some reg_source_map" by code_simp
  moreover have "jcs_digest (ge_host reg_gate) (JObj reg_binding) = Inr (text_digest (CHR ''a''))" by code_simp
  moreover have "json_get reg_source_map ''binding_digest'' = JStr (text_digest (CHR ''a''))" by code_simp
  moreover have "json_get reg_binding ''binding_id'' = JStr ''b1''" by code_simp
  moreover have "\<forall>field \<in> {''content_digest'', ''mode'', ''media_type'', ''snapshot_id''}.
           json_eq (json_get reg_subject field) (json_get reg_binding field)" by code_simp
  moreover have "authoritative_binding_data reg_gate reg_cas reg_binding ''b1'' [(''b1'', ''reviewed'')] = Inr ''reviewed''"
  proof -
    have "json_get reg_binding ''mode'' = JStr ''CAS''" "json_get reg_binding ''content_digest'' = JStr (text_digest (CHR ''a''))"
      by code_simp+
    then show ?thesis
      by (simp add: authoritative_binding_data_def guarded_def the_or_def json_str_def ensure_def reg_clean reg_read)
  qed
  moreover have "validate_authoritative_binding reg_gate reg_wire reg_binding ''reviewed'' = Inr ()" by code_simp
  ultimately show ?thesis
    by (simp add: validate_gate_binding_def Let_def reg_binding_def [symmetric] json_str_def json_key_def the_or_def ensure_def)
qed

lemma reg_wire_members: "json_get reg_wire ''evidence_refs'' = JList [JStr ''e1'']" "json_get reg_wire ''statement'' = JStr ''reviewed''" by code_simp+

lemma reg_trust_members: "json_get reg_trust ''candidate_id'' = JStr ''k1''" "json_get reg_candidate ''source_trust_level'' = JStr ''T3''" by code_simp+

lemma reg_bindings_validate: "validate_bindings reg_gate reg_cas reg_wire [(''e1'', reg_record)] [text_digest (CHR ''a'')] [(''b1'', reg_subject)] (JStr ''T3'') None
   [(''b1'', ''reviewed'')] = Inr [reg_binding]"
  by (simp add: validate_bindings_def reg_binding_validates reg_wire_members the_or_def json_list_def ensure_def)

lemma reg_permit_bindings: "json_get reg_permit_atom ''bindings'' = JList [JObj reg_binding]"
  by (simp add: reg_permit_atom_def reg_binding_def reg_record_def) (simp add: json_get_def)

lemma reg_binding_text: "re_bytes (ge_host reg_gate) (JList [JObj reg_binding]) = Some ''L''" "jcs_digest (ge_host reg_gate) (JObj reg_binding) = Inr (text_digest (CHR ''a''))" by code_simp+

lemma reg_atom_validates: "validate_m3_atom reg_gate reg_root reg_cas [(''k1'', reg_permit_atom)] [(''e1'', reg_record)] [(''b1'', reg_subject)]
   [(''b1'', ''reviewed'')] (reg_wire, reg_trust) = Inr ()"
  by (simp add: validate_m3_atom_def reg_wire_members reg_trust_members reg_bindings_validate reg_permit_bindings reg_binding_text reg_clean jcs_same_refl reg_witness[folded reg_wire_def] reg_approval_validates the_or_def json_list_def json_str_def ensure_def)

lemma reg_needs_gate: "requires_m3_gate reg_capsule \<and> is_m3_capsule reg_capsule" by code_simp

lemma reg_clean_json: "clean_json reg_gate (JObj (capsule_wire_dict reg_capsule))" "clean_json reg_gate (JObj reg_payload)" by code_simp+

lemma reg_gate_passes: "validate_m3_publication reg_gate (Some reg_root) reg_cas reg_capsule ''ci'' (Some reg_permit) = Inr (Some reg_payload)"
  using reg_permit_atoms by (simp add: validate_m3_publication_def reg_clean reg_atom_validates reg_needs_gate reg_clean_json reg_permit_signature reg_header_validates reg_subjects_validate reg_trust_metadata[folded reg_wire_def reg_record_def] the_or_def ensure_def)

definition reg_row :: publication_row where
  "reg_row = (case new_row sample_registry 1 reg_capsule ''2024-06-01T00:00:00Z'' of Inr row \<Rightarrow> row | _ \<Rightarrow> undefined)"

definition reg_evidence_rows :: "evidence_row list" where
  "reg_evidence_rows = (case expected_evidence sample_registry 1 reg_capsule of Inr rs \<Rightarrow> rs | _ \<Rightarrow> [])"

definition reg_signed :: attestation_row where
  "reg_signed = \<lparr> zr_publication = 1, zr_policy_version = ''policy-1'', zr_trust_root_id = ''trust-root-'' @ replicate 32 (CHR ''a''),
  zr_principal_id = ''ci'', zr_payload_jcs = ''O'', zr_signature = ''hmac-sha256:reviewer:bb'', zr_subjects_jcs = ''L'' \<rparr>"

lemma reg_new_row: "new_row sample_registry 1 reg_capsule ''2024-06-01T00:00:00Z'' = Inr reg_row" by code_simp

lemma reg_new_evidence: "expected_evidence sample_registry 1 reg_capsule = Inr reg_evidence_rows" by code_simp

lemma reg_new_attestation: "new_attestation sample_registry 1 ''ci'' reg_permit reg_payload = Inr reg_signed"
proof -
  have "rg_trust sample_registry = Some reg_root" "rg_gate sample_registry = reg_gate" "tr_policy_version reg_root = ''policy-1''"
    by (simp_all add: sample_registry_def reg_root_def)
  moreover have "jcs_text (ge_host reg_gate) (JList [JObj reg_subject]) = Inr ''L''" "jcs_text (ge_host reg_gate) (JObj reg_payload) = Inr ''O''" by code_simp+
  moreover have "json_list reg_subjects = Some [JObj reg_subject]" by (simp add: reg_subjects_def reg_subject_def)
  ultimately show ?thesis
    by (simp add: new_attestation_def reg_root_id reg_signed_def the_or_def ensure_def del: json_list_Some)
qed

definition reg_db :: registry_db where
  "reg_db = \<lparr> rd_publications = [reg_row], rd_evidence = reg_evidence_rows, rd_grants = expected_grants 1 reg_capsule,
  rd_attestations = [reg_signed] \<rparr>"

lemma reg_evidence_distinct: "distinct (map er_evidence_id (capsule_evidence reg_capsule))" by code_simp

lemma reg_inserts: "insert_publication sample_registry empty_registry reg_capsule ''ci'' (Some reg_permit) (Some reg_payload) ''2024-06-01T00:00:00Z'' = Inr (reg_row, reg_db)"
  by (simp add: insert_publication_def Let_def next_publication_def empty_registry_def reg_new_row [simplified] reg_new_evidence [simplified] reg_new_attestation [simplified] reg_evidence_distinct reg_db_def)

section \<open>Publishing and reading back\<close>

lemma reg_row_fields: "pr_id reg_row = 1" "pr_published_at reg_row = ''2024-06-01T00:00:00Z''" "pr_capsule_id reg_row = ''acme.core''"
  "pr_version reg_row = ''1.0.0''" "pr_content_digest reg_row = text_digest (CHR ''a'')" "pr_record_jcs reg_row = ''O''"
  "pr_signature_jcs reg_row = Some ''O''" "pr_scope_jcs reg_row = ''O''" "pr_lifecycle reg_row = ''PUBLISHED''" "pr_authority reg_row = ''team''" by code_simp+

lemma reg_registry_fields: "rg_trust sample_registry = Some reg_root" "rg_gate sample_registry = reg_gate" "tr_policy_version reg_root = ''policy-1''"
    by (simp_all add: sample_registry_def reg_root_def)

lemma reg_loads_back: "re_loads (ge_host reg_gate) ''O'' = Some (JObj reg_payload)" "re_loads (ge_host reg_gate) ''L'' = Some reg_subjects"
  by (simp_all add: reg_gate_def reg_loads_def)

lemma reg_attested: "find_attestation reg_db 1 = Some reg_signed" by (simp add: find_attestation_def reg_db_def reg_signed_def)

lemma reg_attestation_payload: "attestation_payload sample_registry reg_signed reg_row reg_capsule = Inr reg_payload"
  by (simp add: attestation_payload_def reg_registry_fields reg_loads_back reg_signed_def the_or_def ensure_def reg_row_fields reg_root_id reg_payload_verifies reg_loader_members reg_publication_digest json_obj_def json_str_def)

lemma reg_attestation_verifies: "verify_m3_attestation sample_registry reg_db reg_row reg_capsule = Inr ()"
  using reg_attested by (simp add: verify_m3_attestation_def reg_needs_gate reg_row_fields reg_attestation_payload the_or_def ensure_def) (simp add: reg_signed_def reg_registry_fields reg_loads_back json_eq_def)

lemma reg_evidence_rows_sorted: "sort_key xr_ordinal (filter (\<lambda>x. xr_publication x = 1) (rd_evidence reg_db)) = reg_evidence_rows" 
  unfolding reg_db_def registry_db.simps by code_simp

lemma reg_grants_sorted: "map grant_key (sort_key (\<lambda>g. (gr_evidence_id g, gr_digest g)) (filter (\<lambda>g. gr_publication g = 1) (rd_grants reg_db))) =
         sort (map grant_key (expected_grants 1 reg_capsule))" 
  unfolding reg_db_def registry_db.simps by code_simp

lemma reg_verifies: "verify_existing sample_registry reg_db reg_row reg_capsule = Inr ()"
proof -
  have "reg_row \<lparr> pr_capsule_id := pr_capsule_id reg_row, pr_version := pr_version reg_row \<rparr> = reg_row" by simp
  then show ?thesis
   using reg_new_row reg_new_evidence reg_evidence_rows_sorted reg_grants_sorted by (simp add: verify_existing_def reg_row_fields reg_attestation_verifies ensure_def)
qed

lemma reg_model: "rg_capsule sample_registry (x # xs) = Some reg_capsule" by (simp add: sample_registry_def)

lemma reg_model_update: "rg_capsule sample_registry (AList.update k v m) = Some reg_capsule" by (cases m) (auto simp: reg_model)

definition reg_published :: published_capsule where
  "reg_published = \<lparr> pc_capsule = reg_capsule, pc_registry_status = ''PUBLISHED'', pc_published_at = ''2024-06-01T00:00:00Z'' \<rparr>"

lemma reg_scope_text: "jcs_text (ge_host reg_gate) (scope_json reg_capsule) = Inr ''O''" by code_simp

lemma reg_reconstructs: "row_to_published sample_registry reg_row = Inr reg_published"
  by (simp add: row_to_published_def reconstruct_def reg_row_fields reg_registry_fields reg_loads_back reg_model_update reg_scope_text reg_canonical_digest reg_manifest the_or_def json_obj_def sample_manifest_def guarded_def ensure_def reg_published_def)

lemma reg_revalidates: "rg_capsule sample_registry (capsule_wire_dict reg_capsule) = Some reg_capsule" 
  by (simp add: sample_registry_def capsule_wire_dict_def)

lemma reg_evidence_records: "capsule_evidence reg_capsule = [reg_evidence]" by code_simp

lemma reg_evidence_fields: "er_mode reg_evidence = CAS" "er_evidence_id reg_evidence = ''e1''" "er_content_digest reg_evidence = text_digest (CHR ''a'')"
     "er_media_type reg_evidence = ''text/plain''" by code_simp+

lemma reg_media_types: "check_media_types sample_registry reg_cas reg_capsule = Inr ()" "validate_candidate sample_registry reg_cas reg_capsule = Inr ()"
proof -
  show "check_media_types sample_registry reg_cas reg_capsule = Inr ()"
    by (simp add: check_media_types_def reg_evidence_records reg_evidence_fields reg_registry_fields reg_read ensure_def)
  then show "validate_candidate sample_registry reg_cas reg_capsule = Inr ()"
    by (simp add: validate_candidate_def reg_registry_fields reg_canonical_digest reg_manifest sample_manifest_def ensure_def)
qed

lemma reg_authorized: "authorize_publish sample_registry i reg_capsule ''ci'' = Inr ()"
proof -
  have "access_policies reg_capsule = {''team-read''}" by code_simp
  then show ?thesis by (simp add: authorize_publish_def allows_def capsule_decision_def decision_for_claims_def sample_registry_def)
qed

lemma reg_publishes: "registry_publish sample_registry reg_cas empty_registry reg_capsule ''ci'' (Some reg_permit) ''2024-06-01T00:00:00Z'' = Inr (reg_published, reg_db)"
proof -
  have "find_publication empty_registry i v = None" for i v by (simp add: find_publication_def empty_registry_def)
  then show ?thesis
  by (simp add: registry_publish_def revalidate_candidate_def the_or_def reg_revalidates reg_authorized reg_media_types reg_registry_fields reg_gate_passes reg_inserts reg_verifies reg_reconstructs)
qed

lemma reg_found: "find_publication reg_db ''acme.core'' ''1.0.0'' = Some reg_row" by (simp add: find_publication_def reg_db_def reg_row_fields)

lemma reg_gets: "registry_get sample_registry reg_cas reg_db ''acme.core'' ''1.0.0'' ''x'' = Inr reg_published"
proof -
  have "xr_access_policy ` set (filter (\<lambda>x. xr_publication x = 1) (rd_evidence reg_db)) = {''team-read''}"
    unfolding reg_db_def registry_db.simps by code_simp
  then have "allows (decision_for_claims sample_registry 0 ''x'' ''read'' ''team'' (JObj reg_payload))
      (xr_access_policy ` set (filter (\<lambda>x. xr_publication x = 1) (rd_evidence reg_db)))"
    by (simp add: allows_def decision_for_claims_def sample_registry_def)
  then show ?thesis
    by (simp add: registry_get_def reg_found reg_row_fields reg_registry_fields reg_loads_back reg_reconstructs reg_verifies reg_media_types reg_published_def)
qed

definition reg_grant :: grant_row where
  "reg_grant = \<lparr> gr_publication = 1, gr_evidence_id = ''e1'', gr_digest = text_digest (CHR ''a''), gr_access_policy = ''team-read'' \<rparr>"

lemma reg_grants: "expected_grants 1 reg_capsule = [reg_grant]" by code_simp

lemma reg_reads: "registry_get_blob sample_registry reg_cas reg_db (text_digest (CHR ''a'')) ''x'' = Inr ''reviewed''"
proof -
  have rows: "concat (map (\<lambda>g. map (Pair g) (filter (\<lambda>p. pr_id p = gr_publication g) (rd_publications reg_db)))
        (filter (\<lambda>g. gr_digest g = text_digest (CHR ''a'')) (rd_grants reg_db))) = [(reg_grant, reg_row)]"
    by (simp add: reg_db_def reg_grants [simplified] reg_grant_def reg_row_fields)
  have "capsule_decision sample_registry 0 reg_capsule ''x'' ''read'' = \<lparr> pd_allowed = True, pd_policies = [''team-read''] \<rparr>"
    by (simp add: capsule_decision_def decision_for_claims_def sample_registry_def)
  then have "can_read_blob sample_registry reg_cas reg_db (text_digest (CHR ''a'')) ''x'' = Inr True"
    by (simp add: can_read_blob_def rows reg_registry_fields reg_reconstructs reg_verifies reg_evidence_records reg_evidence_fields reg_read reg_published_def Let_def) (simp add: reg_grant_def)
  then show ?thesis by (simp add: registry_get_blob_def reg_registry_fields reg_read)
qed

end
