(* ===== verification/Registry_Properties.thy ===== *)
theory Registry_Properties
  imports Registry_Sample
begin

text \<open>
  The properties of the registry and of its publication gate.
\<close>

section \<open>Publications do not change\<close>

lemma registry_inv_empty: "registry_inv empty_registry"
  by (simp add: registry_inv_def empty_registry_def)

lemma registry_get_Inr:
  "registry_get R store db i v caller = Inr p \<longleftrightarrow> (\<exists>row scope. find_publication db i v = Some row \<and>
     re_loads (rg_host R) (pr_scope_jcs row) = Some scope \<and>
     allows (decision_for_claims R 0 caller ''read'' (pr_authority row) scope)
       (xr_access_policy ` set (filter (\<lambda>x. xr_publication x = pr_id row) (rd_evidence db))) \<and>
     row_to_published R row = Inr p \<and> verify_existing R db row (pc_capsule p) = Inr () \<and>
     check_media_types R store (pc_capsule p) = Inr ())"
  by (auto simp: registry_get_def res_bind_Inr_iff split: option.splits)

text \<open>C6. What a reader got for a version, every later reader gets or is refused with
  \<open>RegistryNotFound\<close>: no sequence of publications (of this or other versions, by whomever, under
  whatever policies) and new blobs changes a publication, hides its evidence or makes it
  unreadable.\<close>

theorem published_immutable:
  assumes "registry_run R ([], empty_registry) s"
    and "registry_get (with_policies R p) (fst s) (snd s) i v reader = Inr out"
    and "registry_run R s u"
  shows "registry_get (with_policies R q) (fst u) (snd u) i v other \<in> {Inr out, Inl RegistryNotFound}"
proof -
  have inv: "registry_inv (snd s)"
    using registry_run_appends [OF assms(1)] registry_inv_empty by simp
  note later = registry_run_appends [OF assms(3) inv]
  from assms(2) obtain row scope where row: "find_publication (snd s) i v = Some row"
      "re_loads (rg_host R) (pr_scope_jcs row) = Some scope" "row_to_published R row = Inr out"
      "verify_existing R (snd s) row (pc_capsule out) = Inr ()" "check_media_types R (fst s) (pc_capsule out) = Inr ()"
    by (auto simp: registry_get_Inr)
  have "find_publication (snd u) i v = Some row"
    using later row(1) by (blast intro: find_publication_appends)
  moreover have "verify_existing R (snd u) row (pc_capsule out) = Inr ()"
    using verify_existing_appends [of "snd s" "snd u" row] later row(4) find_publication_member [OF row(1)] by simp
  moreover have "check_media_types R (fst u) (pc_capsule out) = Inr ()"
    using check_media_types_grows [OF row(5)] later by blast
  ultimately show ?thesis
    using row(2,3) by (simp add: registry_get_def)
qed

section \<open>The publication gate\<close>

text \<open>C7. A publication that adds to the registry was authorized, and if it carries exact or
  structured atoms then the trust root signed a permit for this very capsule, version and caller,
  and every atom is validated, free of secrets, approved in force by somebody other than the
  principal who captured its source, and evidenced by lines of a source with the recorded digest
  that read as its statement.\<close>

theorem publication_trusted:
  assumes "registry_publish R store db candidate caller permit stamped = Inr (out, db')" and "db' \<noteq> db"
  shows "\<exists>c. rg_capsule R (capsule_wire_dict candidate) = Some c \<and>
     cm_lifecycle (cc_control_manifest c) = ''PUBLISHED'' \<and>
     canonical_digest_of (rg_gate R) c = Some (cm_content_digest (cc_control_manifest c)) \<and>
     allows (capsule_decision R 1 c caller ''publish'') (access_policies c) \<and>
     (requires_m3_gate c \<longrightarrow> (\<exists>r p. rg_trust R = Some r \<and> permit = Some p \<and>
        permit_binds (rg_gate R) r c caller p \<and> (\<forall>a \<in> set (capsule_atoms c). atom_trusted (rg_gate R) r p c a)))"
  using assms(1)
proof (cases rule: registry_publish_cases)
  case 1
  with assms(2) show ?thesis by simp
next
  case (2 c payload row)
  then have "allows (capsule_decision R 1 c caller ''publish'') (access_policies c)"
    by (simp add: authorize_publish_def split: if_splits)
  moreover have "cm_lifecycle (cc_control_manifest c) = ''PUBLISHED''"
      "canonical_digest_of (rg_gate R) c = Some (cm_content_digest (cc_control_manifest c))"
    using 2(4) by (auto simp: validate_candidate_def res_bind_Inr_iff)
  ultimately show ?thesis
    using 2(1) validate_m3_publication_trusted [OF 2(5)] by blast
qed

section \<open>Blobs\<close>

text \<open>A row whose grant lets a caller read a digest: its publication still verifies, the caller may
  read it under the grant's access policy, and it refers to the digest.\<close>

definition grants_read :: "registry \<Rightarrow> registry_db \<Rightarrow> pystr \<Rightarrow> pystr \<Rightarrow> grant_row \<times> publication_row \<Rightarrow> bool" where
  "grants_read R db digest caller pair \<longleftrightarrow> (case pair of (g, row) \<Rightarrow> \<exists>p. row_to_published R row = Inr p \<and>
     verify_existing R db row (pc_capsule p) = Inr () \<and>
     (let d = capsule_decision R 0 (pc_capsule p) caller ''read'' in
        pd_allowed d \<and> gr_access_policy g \<in> set (pd_policies d)) \<and>
     (\<exists>e \<in> set (capsule_evidence (pc_capsule p)). er_mode e = CAS \<and> er_evidence_id e = gr_evidence_id g \<and>
        er_content_digest e = digest))"

lemma can_read_rows_grant:
  "can_read_rows R store db digest caller pairs = Inr True \<Longrightarrow> \<exists>pair \<in> set pairs. grants_read R db digest caller pair"
proof (induction pairs)
  case (Cons pair rest)
  obtain g row where pair: "pair = (g, row)" by fastforce
  show ?case
  proof (cases "can_read_rows R store db digest caller rest = Inr True")
    case True
    with Cons.IH show ?thesis by auto
  next
    case False
    with Cons.prems have "grants_read R db digest caller pair"
      by (auto simp: pair grants_read_def Let_def res_bind_Inr_iff find_Some_iff
          split: sum.splits registry_error.splits option.splits if_splits)
    then show ?thesis by simp
  qed
qed simp

text \<open>C8. Bytes leave the registry only for a caller whom a grant covers, through a stored
  publication that verifies and refers to the digest, and they have that digest.\<close>

theorem blob_reads_granted:
  assumes "registry_get_blob R store db digest caller = Inr data"
  shows "re_digest (rg_host R) data = digest \<and> (\<exists>g \<in> set (rd_grants db). \<exists>row \<in> set (rd_publications db).
     gr_digest g = digest \<and> gr_publication g = pr_id row \<and> grants_read R db digest caller (g, row))"
proof -
  from assms obtain stored where read: "read_verified (rg_host R) store digest = Inr stored" "data = sb_data stored"
      "can_read_blob R store db digest caller = Inr True"
    by (auto simp: registry_get_blob_def res_bind_Inr_iff split: if_splits)
  from can_read_rows_grant [OF read(3)[unfolded can_read_blob_def]] obtain g row where
      "g \<in> set (rd_grants db)" "row \<in> set (rd_publications db)" "gr_digest g = digest" "gr_publication g = pr_id row"
      "grants_read R db digest caller (g, row)"
    by force
  then show ?thesis
    using read_verified_digest [OF read(1)] read(2) by blast
qed

section \<open>A publication that is read back\<close>

lemma sample_run: "registry_run sample_registry ([], empty_registry) (reg_cas, reg_db)"
proof -
  have "registry_step sample_registry ([], empty_registry) (reg_cas, empty_registry)"
    by (rule registry_step.stores [OF reg_stored])
  moreover have "registry_step sample_registry (reg_cas, empty_registry) (reg_cas, reg_db)"
    by (rule registry_step.publishes [where p = "rg_resolve sample_registry"]) (simp, rule reg_publishes)
  ultimately show ?thesis by (blast intro: registry_run.intros)
qed

theorem published_immutable_witness:
  "registry_get (sample_registry \<lparr> rg_resolve := (\<lambda>_ _ _ _ _. None) \<rparr>) reg_cas reg_db ''acme.core'' ''1.0.0'' ''y'' \<in>
     {Inr reg_published, Inl RegistryNotFound}"
proof -
  have "registry_get (sample_registry \<lparr> rg_resolve := rg_resolve sample_registry \<rparr>) (fst (reg_cas, reg_db)) (snd (reg_cas, reg_db))
      ''acme.core'' ''1.0.0'' ''x'' = Inr reg_published"
    by (simp add: reg_gets)
  from published_immutable [OF sample_run this registry_run.refl] show ?thesis by simp
qed

theorem publication_trusted_witness:
  "\<exists>r p. rg_trust sample_registry = Some r \<and> permit_binds (rg_gate sample_registry) r reg_capsule ''ci'' p \<and>
     atom_trusted (rg_gate sample_registry) r p reg_capsule reg_atom"
proof -
  have "reg_db \<noteq> empty_registry" by (simp add: reg_db_def empty_registry_def)
  moreover have "reg_atom \<in> set (capsule_atoms reg_capsule)" by (simp add: reg_capsule_def)
  ultimately show ?thesis
    using publication_trusted [OF reg_publishes] reg_needs_gate reg_revalidates by auto
qed

theorem blob_reads_granted_witness:
  "re_digest (rg_host sample_registry) ''reviewed'' = text_digest (CHR ''a'') \<and>
     (\<exists>row. grants_read sample_registry reg_db (text_digest (CHR ''a'')) ''x'' (reg_grant, row))"
  using blob_reads_granted [OF reg_reads] by (auto simp: reg_db_def reg_grants [simplified])

end
