(* ===== verification/Quarantine.thy ===== *)
theory Quarantine
  imports Trust_Gate
begin

text \<open>
  The quarantine (\<^verbatim>\<open>audit/quarantine.py\<close>): the in-memory store that candidate atoms pass on their way
  to a publication. It keeps snapshots, candidates, their evidence bindings and the promoted
  atoms; a promotion needs a current source, bindings whose bytes read as the statement, and an
  approval of an external principal. Object capabilities are numbers, the clock and the file
  system are arguments. The type checks of the code hold by typing.
\<close>

section \<open>Records\<close>

datatype quarantine_error = QuarantineError pystr | SecretDetectedError | QuarantineFault pystr

type_synonym 'a quarantine_result = "quarantine_error + 'a"

record source_snapshot =
  sn_snapshot_id :: pystr
  sn_content :: bytes
  sn_content_digest :: pystr
  sn_mode :: pystr
  sn_media_type :: pystr
  sn_captured_at :: pystr
  sn_principal_id :: pystr
  sn_relative_path :: pystr
  sn_path :: "pystr option"
  sn_repository_root :: "pystr option"
  sn_repository :: "pystr option"
  sn_revision :: "pystr option"
  sn_uri :: "pystr option"
  sn_source :: "pystr option"
  sn_verification_method :: "pystr option"
  sn_access_policy :: pystr
  sn_parser_kind :: pystr
  sn_generated :: bool
  sn_token :: "nat option"
  sn_proof :: "source_proof option"

record evidence_binding =
  eb_binding_id :: pystr
  eb_candidate_id :: pystr
  eb_snapshot_id :: pystr
  eb_mode :: pystr
  eb_content_digest :: pystr
  eb_span_digest :: pystr
  eb_media_type :: pystr
  eb_captured_at :: pystr
  eb_access_policy :: pystr
  eb_repository :: "pystr option"
  eb_revision :: "pystr option"
  eb_path :: "pystr option"
  eb_symbol_or_heading :: "pystr option"
  eb_start_line :: "int option"
  eb_end_line :: "int option"
  eb_uri :: "pystr option"
  eb_source :: "pystr option"
  eb_verification_method :: "pystr option"
  eb_source_bytes :: bytes

record candidate_atom =
  ca_candidate_id :: pystr
  ca_atom_id :: pystr
  ca_kind :: pystr
  ca_statement :: pystr
  ca_modality :: pystr
  ca_scope :: "pystr list"
  ca_source_snapshot_id :: pystr
  ca_start_line :: int
  ca_end_line :: int
  ca_symbol_or_heading :: pystr
  ca_compression_class :: pystr
  ca_generated :: bool
  ca_trust_level :: pystr
  ca_status :: pystr
  ca_token :: "nat option"

record human_approval =
  ha_approval_id :: pystr
  ha_candidate_id :: pystr
  ha_approver_id :: pystr
  ha_approved_at :: pystr
  ha_decision :: pystr
  ha_candidate_digest :: pystr
  ha_evidence_digests :: "pystr list"
  ha_expires_at :: "pystr option"
  ha_signature :: pystr
  ha_issuer :: pystr

record validated_atom =
  va_candidate_id :: pystr
  va_atom_id :: pystr
  va_kind :: pystr
  va_statement :: pystr
  va_modality :: pystr
  va_scope :: "pystr list"
  va_source_snapshot_id :: pystr
  va_start_line :: int
  va_end_line :: int
  va_symbol_or_heading :: pystr
  va_compression_class :: pystr
  va_evidence_bindings :: "evidence_binding list"
  va_approval :: human_approval
  va_source_trust_level :: pystr
  va_generated :: bool
  va_trust_level :: pystr
  va_status :: pystr

text \<open>The store. The composition (trust root, capabilities, identity) never changes.\<close>

record quarantine =
  qn_trust_root :: "trust_root option"
  qn_store_id :: pystr
  qn_snapshot_token :: nat
  qn_candidate_token :: nat
  qn_source_token :: nat
  qn_loader_token :: nat
  qn_snapshots :: "(pystr \<times> source_snapshot) list"
  qn_candidates :: "(pystr \<times> candidate_atom) list"
  qn_bindings :: "(pystr \<times> evidence_binding list) list"
  qn_promoted :: "(pystr \<times> validated_atom) list"

definition new_quarantine :: "trust_root option \<Rightarrow> pystr \<Rightarrow> nat \<times> nat \<times> nat \<times> nat \<Rightarrow> quarantine" where
  "new_quarantine r i tokens = (case tokens of (a, b, c, d) \<Rightarrow>
     \<lparr> qn_trust_root = r, qn_store_id = i, qn_snapshot_token = a, qn_candidate_token = b, qn_source_token = c,
       qn_loader_token = d, qn_snapshots = [], qn_candidates = [], qn_bindings = [], qn_promoted = [] \<rparr>)"

text \<open>Regular files by path, and \<open>git show\<close> by root, revision and path.\<close>

record source_world =
  sw_file :: "pystr \<Rightarrow> bytes option"
  sw_git :: "pystr \<Rightarrow> pystr \<Rightarrow> pystr \<Rightarrow> bytes option"

section \<open>Checks of the constructors\<close>

abbreviation qerror :: "pystr \<Rightarrow> 'a quarantine_result" where
  "qerror code \<equiv> Inl (QuarantineError code)"

definition demand :: "bool \<Rightarrow> pystr \<Rightarrow> unit quarantine_result" where
  "demand ok code = (if ok then Inr () else qerror code)"

lemma demand_Inr [simp, result_simps]: "demand ok code = Inr u \<longleftrightarrow> ok"
  by (simp add: demand_def)

definition demand_some :: "'a option \<Rightarrow> pystr \<Rightarrow> 'a quarantine_result" where
  "demand_some x code = (case x of None \<Rightarrow> qerror code | Some y \<Rightarrow> Inr y)"

lemma demand_some_Inr [simp, result_simps]: "demand_some x code = Inr y \<longleftrightarrow> x = Some y"
  by (cases x) (simp_all add: demand_some_def)

definition scan_secrets :: "gate_env \<Rightarrow> bytes \<Rightarrow> unit quarantine_result" where
  "scan_secrets T data = (if ge_clean T data then Inr () else Inl SecretDetectedError)"

lemma scan_secrets_Inr [simp, result_simps]: "scan_secrets T data = Inr u \<longleftrightarrow> ge_clean T data"
  by (simp add: scan_secrets_def)

definition q_digest :: "gate_env \<Rightarrow> json \<Rightarrow> pystr quarantine_result" where
  "q_digest T v = (case re_bytes (ge_host T) v of None \<Rightarrow> Inl (QuarantineFault ''ValueError'')
     | Some b \<Rightarrow> Inr (re_digest (ge_host T) b))"

text \<open>Thirty-two hexadecimal digits of the digest, as the identifiers have them.\<close>

definition short_digest :: "gate_env \<Rightarrow> json \<Rightarrow> pystr quarantine_result" where
  "short_digest T v = (case re_bytes (ge_host T) v of None \<Rightarrow> Inl (QuarantineFault ''ValueError'')
     | Some b \<Rightarrow> Inr (take 32 (to_hex (rv_sha256 (re_base (ge_host T)) b))))"

definition some_text :: "pystr option \<Rightarrow> bool" where
  "some_text s \<longleftrightarrow> s \<noteq> None \<and> s \<noteq> Some []"

definition source_proof_valid :: "source_proof \<Rightarrow> bool" where
  "source_proof_valid p \<longleftrightarrow> is_digest (pf_content_digest p) \<and> pf_mode p = ''GIT_IMMUTABLE'' \<and>
     pf_parser_kind p \<in> {''markdown'', ''code'', ''json'', ''yaml''}"

definition binding_valid :: "gate_env \<Rightarrow> evidence_binding \<Rightarrow> bool" where
  "binding_valid T b \<longleftrightarrow> is_digest (eb_content_digest b) \<and> is_digest (eb_span_digest b) \<and>
     eb_mode b \<in> {''CAS'', ''GIT_IMMUTABLE'', ''EXTERNAL_IMMUTABLE''} \<and>
     eb_candidate_id b \<noteq> [] \<and> eb_snapshot_id b \<noteq> [] \<and> eb_binding_id b \<noteq> [] \<and>
     (eb_mode b = ''GIT_IMMUTABLE'' \<longrightarrow>
        some_text (eb_repository b) \<and> some_text (eb_revision b) \<and> some_text (eb_path b) \<and> some_text (eb_symbol_or_heading b) \<and>
        (case (eb_start_line b, eb_end_line b) of (Some i, Some j) \<Rightarrow> 1 \<le> i \<and> i \<le> j | _ \<Rightarrow> False)) \<and>
     (eb_mode b = ''EXTERNAL_IMMUTABLE'' \<longrightarrow>
        some_text (eb_uri b) \<and> some_text (eb_source b) \<and> some_text (eb_verification_method b)) \<and>
     re_digest (ge_host T) (eb_source_bytes b) = eb_content_digest b"

definition candidate_valid :: "gate_env \<Rightarrow> candidate_atom \<Rightarrow> bool" where
  "candidate_valid T c \<longleftrightarrow> ca_status c = ''candidate'' \<and> ca_trust_level c \<in> {''T0'', ''T1'', ''T2'', ''T3''} \<and>
     (ca_generated c \<longrightarrow> ca_trust_level c = ''T3'') \<and>
     ca_candidate_id c \<noteq> [] \<and> ca_atom_id c \<noteq> [] \<and> ge_strip T (ca_statement c) \<noteq> [] \<and>
     ca_scope c \<noteq> [] \<and> 1 \<le> ca_start_line c \<and> ca_start_line c \<le> ca_end_line c"

definition validated_atom_valid :: "validated_atom \<Rightarrow> bool" where
  "validated_atom_valid v \<longleftrightarrow> va_status v = ''validated'' \<and> va_trust_level v \<in> {''T0'', ''T1'', ''T2''} \<and>
     va_evidence_bindings v \<noteq> []"

section \<open>Wires and digests\<close>

definition approval_wire :: "human_approval \<Rightarrow> members" where
  "approval_wire a =
    [(''approval_id'', JStr (ha_approval_id a)), (''candidate_id'', JStr (ha_candidate_id a)),
     (''approver_id'', JStr (ha_approver_id a)), (''approved_at'', JStr (ha_approved_at a)),
     (''decision'', JStr (ha_decision a)), (''candidate_digest'', JStr (ha_candidate_digest a)),
     (''evidence_digests'', json_strings (ha_evidence_digests a)), (''expires_at'', json_opt JStr (ha_expires_at a)),
     (''signature'', JStr (ha_signature a)), (''issuer'', JStr (ha_issuer a))]"

definition candidate_wire :: "candidate_atom \<Rightarrow> members" where
  "candidate_wire c =
    [(''candidate_id'', JStr (ca_candidate_id c)), (''atom_id'', JStr (ca_atom_id c)), (''kind'', JStr (ca_kind c)),
     (''statement'', JStr (ca_statement c)), (''modality'', JStr (ca_modality c)), (''scope'', json_strings (ca_scope c)),
     (''source_snapshot_id'', JStr (ca_source_snapshot_id c)), (''start_line'', JInt (ca_start_line c)),
     (''end_line'', JInt (ca_end_line c)), (''symbol_or_heading'', JStr (ca_symbol_or_heading c)),
     (''compression_class'', JStr (ca_compression_class c)), (''generated'', JBool (ca_generated c)),
     (''trust_level'', JStr (ca_trust_level c)), (''status'', JStr (ca_status c))]"

definition evidence_binding_wire :: "evidence_binding \<Rightarrow> members" where
  "evidence_binding_wire b =
    [(''binding_id'', JStr (eb_binding_id b)), (''candidate_id'', JStr (eb_candidate_id b)),
     (''snapshot_id'', JStr (eb_snapshot_id b)), (''mode'', JStr (eb_mode b)),
     (''content_digest'', JStr (eb_content_digest b)), (''span_digest'', JStr (eb_span_digest b)),
     (''media_type'', JStr (eb_media_type b)), (''captured_at'', JStr (eb_captured_at b)),
     (''access_policy'', JStr (eb_access_policy b)), (''repository'', json_opt JStr (eb_repository b)),
     (''revision'', json_opt JStr (eb_revision b)), (''path'', json_opt JStr (eb_path b)),
     (''symbol_or_heading'', json_opt JStr (eb_symbol_or_heading b)), (''start_line'', json_opt JInt (eb_start_line b)),
     (''end_line'', json_opt JInt (eb_end_line b)), (''uri'', json_opt JStr (eb_uri b)),
     (''source'', json_opt JStr (eb_source b)), (''verification_method'', json_opt JStr (eb_verification_method b))]"

definition candidate_digest_for :: "gate_env \<Rightarrow> candidate_atom \<Rightarrow> pystr quarantine_result" where
  "candidate_digest_for T c = q_digest T (JObj (candidate_wire c))"

definition binding_digest_for :: "gate_env \<Rightarrow> evidence_binding \<Rightarrow> pystr quarantine_result" where
  "binding_digest_for T b = q_digest T (JObj (evidence_binding_wire b))"

text \<open>The approval check of the configured trust root; without one every approval is denied.\<close>

definition approval_trusted :: "gate_env \<Rightarrow> quarantine \<Rightarrow> human_approval \<Rightarrow> bool quarantine_result" where
  "approval_trusted T q a = (case qn_trust_root q of None \<Rightarrow> Inr False
     | Some r \<Rightarrow> (case hmac_verify T r (approval_wire a) of Inl _ \<Rightarrow> Inl (QuarantineFault ''ValueError'') | Inr ok \<Rightarrow> Inr ok))"

definition approval_instant :: "gate_env \<Rightarrow> pystr \<Rightarrow> int quarantine_result" where
  "approval_instant T s = demand_some (parse_instant T (JStr s)) ''approval timestamp''"

section \<open>Approvals are issued\<close>

text \<open>\<open>ApprovalAuthority.issue\<close>: the times are already texts, the identifier is supplied.\<close>

definition unsigned_approval ::
  "trust_root \<Rightarrow> candidate_atom \<Rightarrow> pystr \<Rightarrow> pystr \<Rightarrow> pystr option \<Rightarrow> pystr \<Rightarrow> pystr \<Rightarrow> pystr list \<Rightarrow> human_approval" where
  "unsigned_approval r c approver approved_at expires_at i digest evidence =
     \<lparr> ha_approval_id = i, ha_candidate_id = ca_candidate_id c, ha_approver_id = approver,
       ha_approved_at = approved_at, ha_decision = ''approve'', ha_candidate_digest = digest,
       ha_evidence_digests = evidence, ha_expires_at = expires_at, ha_signature = [], ha_issuer = tr_issuer r \<rparr>"

definition issue_approval ::
  "gate_env \<Rightarrow> trust_root \<Rightarrow> candidate_atom \<Rightarrow> evidence_binding list \<Rightarrow> pystr \<Rightarrow> pystr \<Rightarrow> pystr option \<Rightarrow> pystr \<Rightarrow>
   human_approval quarantine_result" where
  "issue_approval T r c bindings approver approved_at expires_at i =
     res_bind (demand_some (map_of (tr_secrets r) approver) ''approver'') (\<lambda>secret.
     res_bind (candidate_digest_for T c) (\<lambda>digest.
     res_bind (res_map (binding_digest_for T) bindings) (\<lambda>evidence.
       let approval = unsigned_approval r c approver approved_at expires_at i digest evidence in
     res_bind (demand (human_approval_valid T (approval_wire approval)) ''approval'') (\<lambda>_.
     res_bind (case re_bytes (ge_host T) (approval_signing_json (approval_wire approval)) of
         None \<Rightarrow> Inl (QuarantineFault ''ValueError'') | Some message \<Rightarrow> Inr message) (\<lambda>message.
       Inr (approval \<lparr> ha_signature := ''hmac-sha256:'' @ to_hex (ge_hmac T secret message) \<rparr>))))))"

section \<open>Snapshots\<close>

text \<open>\<open>SourceSnapshot.assert_current\<close>.\<close>

definition assert_current :: "gate_env \<Rightarrow> source_world \<Rightarrow> source_snapshot \<Rightarrow> unit quarantine_result" where
  "assert_current T W s =
    (if sn_mode s = ''EXTERNAL_IMMUTABLE'' then scan_secrets T (sn_content s)
     else res_bind (demand_some (case sn_path s of None \<Rightarrow> None | Some p \<Rightarrow> sw_file W p) ''source path'') (\<lambda>current.
          res_bind (demand (re_digest (ge_host T) current = sn_content_digest s \<and> current = sn_content s) ''source drift'') (\<lambda>_.
          if sn_mode s \<noteq> ''GIT_IMMUTABLE'' then Inr ()
          else res_bind (demand_some (sn_repository_root s) ''repository root'') (\<lambda>directory.
               res_bind (demand_some (sw_git W directory (case sn_revision s of None \<Rightarrow> [] | Some v \<Rightarrow> v) (sn_relative_path s))
                   ''git source'') (\<lambda>committed.
               demand (committed = sn_content s) ''git source drift'')))))"

definition line_span :: "gate_env \<Rightarrow> bytes \<Rightarrow> int \<Rightarrow> int \<Rightarrow> bytes quarantine_result" where
  "line_span T content i j =
     res_bind (demand_some (ge_lines T content) ''utf-8'') (\<lambda>ls.
     res_bind (demand (1 \<le> i \<and> i \<le> j \<and> j \<le> int (length ls)) ''source span'') (\<lambda>_.
       Inr (concat (take (nat j - (nat i - 1)) (drop (nat i - 1) ls)))))"

definition has_deterministic_source_proof :: "quarantine \<Rightarrow> source_snapshot \<Rightarrow> bool" where
  "has_deterministic_source_proof q s \<longleftrightarrow> (case sn_proof s of None \<Rightarrow> False
     | Some p \<Rightarrow> pf_token p = Some (qn_source_token q) \<and>
         pf_collector_profile p = ''CCS-2.1-deterministic-source-v1'' \<and>
         pf_snapshot_id p = sn_snapshot_id s \<and> pf_content_digest p = sn_content_digest s \<and>
         pf_mode p = sn_mode s \<and> sn_mode s = ''GIT_IMMUTABLE'' \<and> pf_parser_kind p = sn_parser_kind s \<and>
         Some (pf_repository p) = sn_repository s \<and> Some (pf_revision p) = sn_revision s \<and>
         pf_path p = sn_relative_path s \<and> Some (pf_root p) = sn_repository_root s \<and> \<not> sn_generated s)"

text \<open>A proof, for the collector that holds the capability of this store.\<close>

definition issue_deterministic_source_proof ::
  "gate_env \<Rightarrow> source_world \<Rightarrow> quarantine \<Rightarrow> source_snapshot \<Rightarrow> nat option \<Rightarrow> source_proof option quarantine_result" where
  "issue_deterministic_source_proof T W q s capability =
     res_bind (demand (capability = Some (qn_source_token q)) ''collector capability'') (\<lambda>_.
     if qn_trust_root q = None then Inr None
     else (case (sn_repository s, sn_revision s, sn_repository_root s) of
         (Some repository, Some revision, Some directory) \<Rightarrow>
           if sn_mode s = ''GIT_IMMUTABLE'' \<and> \<not> sn_generated s \<and>
              sn_parser_kind s \<in> {''markdown'', ''code'', ''json'', ''yaml''} \<and>
              repository \<noteq> [] \<and> revision \<noteq> [] \<and> sn_relative_path s \<noteq> []
           then res_bind (demand (sn_token s = Some (qn_snapshot_token q)) ''snapshot'') (\<lambda>_.
                res_bind (assert_current T W s) (\<lambda>_.
                let p = \<lparr> pf_snapshot_id = sn_snapshot_id s, pf_content_digest = sn_content_digest s,
                  pf_mode = sn_mode s, pf_parser_kind = sn_parser_kind s, pf_repository = repository,
                  pf_revision = revision, pf_path = sn_relative_path s, pf_root = directory,
                  pf_collector_profile = ''CCS-2.1-deterministic-source-v1'', pf_token = Some (qn_source_token q) \<rparr> in
                res_bind (demand (source_proof_valid p) ''source proof'') (\<lambda>_. Inr (Some p))))
           else res_bind (demand (\<not> (sn_mode s = ''GIT_IMMUTABLE'' \<and> \<not> sn_generated s)) ''repository root'') (\<lambda>_. Inr None)
       | _ \<Rightarrow> res_bind (demand (\<not> (sn_mode s = ''GIT_IMMUTABLE'' \<and> \<not> sn_generated s)) ''repository root'') (\<lambda>_. Inr None)))"

definition snapshot_trust :: "source_snapshot \<Rightarrow>
  (pystr \<times> pystr \<times> pystr \<times> pystr \<times> pystr \<times> pystr option \<times> pystr option) \<times>
  (pystr option \<times> pystr option \<times> pystr option \<times> pystr \<times> pystr \<times> bool)" where
  "snapshot_trust s =
    ((sn_content_digest s, sn_mode s, sn_media_type s, sn_principal_id s, sn_relative_path s, sn_repository s, sn_revision s),
     (sn_uri s, sn_source s, sn_verification_method s, sn_access_policy s, sn_parser_kind s, sn_generated s))"

definition register_snapshot :: "quarantine \<Rightarrow> source_snapshot \<Rightarrow> quarantine quarantine_result" where
  "register_snapshot q s =
     res_bind (demand (sn_token s = Some (qn_snapshot_token q)) ''ingestion boundary'') (\<lambda>_.
     res_bind (demand (sn_proof s = None \<or> has_deterministic_source_proof q s) ''parser proof'') (\<lambda>_.
     res_bind (case map_of (qn_snapshots q) (sn_snapshot_id s) of
         None \<Rightarrow> Inr ()
       | Some existing \<Rightarrow>
           res_bind (demand (snapshot_trust existing = snapshot_trust s) ''identity collision'') (\<lambda>_.
             demand (\<not> ((\<exists>c \<in> set (dict_values (qn_candidates q)). ca_source_snapshot_id c = sn_snapshot_id s) \<and>
               (sn_path existing \<noteq> sn_path s \<or> sn_repository_root existing \<noteq> sn_repository_root s \<or>
                sn_captured_at existing \<noteq> sn_captured_at s))) ''bound snapshot'')) (\<lambda>_.
       Inr (q \<lparr> qn_snapshots := AList.update (sn_snapshot_id s) s (qn_snapshots q) \<rparr>))))"

definition is_registered_snapshot :: "quarantine \<Rightarrow> source_snapshot \<Rightarrow> bool" where
  "is_registered_snapshot q s \<longleftrightarrow> (case map_of (qn_snapshots q) (sn_snapshot_id s) of None \<Rightarrow> False
     | Some existing \<Rightarrow> sn_content_digest existing = sn_content_digest s)"

section \<open>Candidates\<close>

definition candidate_identity :: "pystr \<Rightarrow> pystr \<Rightarrow> pystr \<Rightarrow> int \<Rightarrow> int \<Rightarrow> pystr \<Rightarrow> json" where
  "candidate_identity snapshot_id statement kind i j symbol = JObj
    [(''snapshot_id'', JStr snapshot_id), (''statement'', JStr statement), (''kind'', JStr kind),
     (''start_line'', JInt i), (''end_line'', JInt j), (''symbol_or_heading'', JStr symbol)]"

definition expected_trust :: "quarantine \<Rightarrow> source_snapshot \<Rightarrow> pystr" where
  "expected_trust q s = (if has_deterministic_source_proof q s \<and> \<not> sn_generated s then ''T2'' else ''T3'')"

text \<open>Equality of candidates leaves the capability out.\<close>

definition candidate_same :: "candidate_atom \<Rightarrow> candidate_atom \<Rightarrow> bool" where
  "candidate_same c d \<longleftrightarrow> c \<lparr> ca_token := None \<rparr> = d \<lparr> ca_token := None \<rparr>"

definition register_candidate :: "gate_env \<Rightarrow> quarantine \<Rightarrow> candidate_atom \<Rightarrow> quarantine quarantine_result" where
  "register_candidate T q c =
     res_bind (demand (ca_token c = Some (qn_candidate_token q)) ''extractor'') (\<lambda>_.
     res_bind (demand_some (map_of (qn_snapshots q) (ca_source_snapshot_id c)) ''unknown snapshot'') (\<lambda>s.
     res_bind (short_digest T (candidate_identity (sn_snapshot_id s) (ca_statement c) (ca_kind c)
         (ca_start_line c) (ca_end_line c) (ca_symbol_or_heading c))) (\<lambda>hash.
     res_bind (demand (ca_candidate_id c = ''candidate-'' @ hash) ''candidate identity'') (\<lambda>_.
     res_bind (demand (ca_atom_id c = ''atom-'' @ hash) ''atom identity'') (\<lambda>_.
     res_bind (demand (ca_scope c = [''path:'' @ sn_relative_path s]) ''scope'') (\<lambda>_.
     res_bind (demand (ca_generated c = sn_generated s \<and> ca_trust_level c = expected_trust q s) ''classification'') (\<lambda>_.
     res_bind (demand (case map_of (qn_candidates q) (ca_candidate_id c) of None \<Rightarrow> True
         | Some existing \<Rightarrow> candidate_same existing c) ''identity collision'') (\<lambda>_.
       Inr (q \<lparr> qn_candidates := AList.update (ca_candidate_id c) c (qn_candidates q) \<rparr>)))))))))"

definition find_candidate :: "quarantine \<Rightarrow> pystr \<Rightarrow> candidate_atom quarantine_result" where
  "find_candidate q i = demand_some (map_of (qn_candidates q) i) ''candidate''"

section \<open>Bindings\<close>

definition bindings_for :: "quarantine \<Rightarrow> pystr \<Rightarrow> evidence_binding list" where
  "bindings_for q i = (case map_of (qn_bindings q) i of None \<Rightarrow> [] | Some bs \<Rightarrow> bs)"

definition register_binding :: "quarantine \<Rightarrow> evidence_binding \<Rightarrow> quarantine quarantine_result" where
  "register_binding q b =
     res_bind (demand_some (map_of (qn_candidates q) (eb_candidate_id b)) ''unknown candidate'') (\<lambda>c.
     res_bind (demand (ca_source_snapshot_id c = eb_snapshot_id b) ''snapshot mismatch'') (\<lambda>_.
       let current = bindings_for q (eb_candidate_id b) in
       Inr (q \<lparr> qn_bindings := AList.update (eb_candidate_id b)
         (if b \<in> set current then current else current @ [b]) (qn_bindings q) \<rparr>)))"

definition pending :: "quarantine \<Rightarrow> pystr \<Rightarrow> bool" where
  "pending q i \<longleftrightarrow> i \<in> set (dict_keys (qn_candidates q)) \<and> i \<notin> set (dict_keys (qn_promoted q))"

definition verify_binding_locator :: "source_snapshot \<Rightarrow> evidence_binding \<Rightarrow> unit quarantine_result" where
  "verify_binding_locator s b =
    (if eb_mode b = ''GIT_IMMUTABLE'' then
       demand (eb_repository b = sn_repository s \<and> eb_revision b = sn_revision s) ''git locator''
     else if eb_mode b = ''EXTERNAL_IMMUTABLE'' then demand (eb_uri b = sn_uri s) ''external locator''
     else Inr ())"

definition verify_binding_identity :: "candidate_atom \<Rightarrow> source_snapshot \<Rightarrow> evidence_binding \<Rightarrow> unit quarantine_result" where
  "verify_binding_identity c s b =
     res_bind (demand (eb_candidate_id b = ca_candidate_id c) ''candidate mismatch'') (\<lambda>_.
     res_bind (demand (eb_snapshot_id b = sn_snapshot_id s) ''snapshot mismatch'') (\<lambda>_.
     res_bind (demand (eb_mode b = sn_mode s) ''mode mismatch'') (\<lambda>_.
     res_bind (demand (eb_content_digest b = sn_content_digest s) ''content digest mismatch'') (\<lambda>_.
     res_bind (demand (eb_path b = Some (sn_relative_path s)) ''path mismatch'') (\<lambda>_.
     res_bind (demand (eb_symbol_or_heading b = Some (ca_symbol_or_heading c)) ''symbol mismatch'') (\<lambda>_.
     res_bind (demand (eb_start_line b = Some (ca_start_line c) \<and> eb_end_line b = Some (ca_end_line c)) ''line span mismatch'') (\<lambda>_.
       verify_binding_locator s b)))))))"

definition verify_binding_bytes :: "gate_env \<Rightarrow> candidate_atom \<Rightarrow> source_snapshot \<Rightarrow> evidence_binding \<Rightarrow> unit quarantine_result" where
  "verify_binding_bytes T c s b =
     res_bind (demand (eb_source_bytes b = sn_content s) ''bytes mismatch'') (\<lambda>_.
     res_bind (line_span T (sn_content s) (ca_start_line c) (ca_end_line c)) (\<lambda>span.
     res_bind (demand (span_statement T span = ge_strip T (ca_statement c)) ''statement mismatch'') (\<lambda>_.
     res_bind (demand (re_digest (ge_host T) span = eb_span_digest b) ''span digest mismatch'') (\<lambda>_.
       scan_secrets T (eb_source_bytes b)))))"

definition verify_evidence_binding :: "gate_env \<Rightarrow> candidate_atom \<Rightarrow> source_snapshot \<Rightarrow> evidence_binding \<Rightarrow> unit quarantine_result" where
  "verify_evidence_binding T c s b =
     res_bind (verify_binding_identity c s b) (\<lambda>_. verify_binding_bytes T c s b)"

section \<open>Promotion\<close>

definition promotion_inputs ::
  "quarantine \<Rightarrow> pystr \<Rightarrow> (candidate_atom \<times> evidence_binding list \<times> source_snapshot) quarantine_result" where
  "promotion_inputs q i =
     res_bind (find_candidate q i) (\<lambda>c.
     res_bind (demand (i \<notin> set (dict_keys (qn_promoted q))) ''already promoted'') (\<lambda>_.
     res_bind (demand (bindings_for q i \<noteq> []) ''evidence required'') (\<lambda>_.
     res_bind (demand_some (map_of (qn_snapshots q) (ca_source_snapshot_id c)) ''snapshot'') (\<lambda>s.
       Inr (c, bindings_for q i, s)))))"

text \<open>Any exception of the freshness check counts as drift.\<close>

definition recheck_source :: "gate_env \<Rightarrow> source_world \<Rightarrow> source_snapshot \<Rightarrow> unit quarantine_result" where
  "recheck_source T W s = (case assert_current T W s of Inl _ \<Rightarrow> qerror ''source drift'' | Inr u \<Rightarrow> Inr u)"

definition verify_snapshot :: "gate_env \<Rightarrow> source_world \<Rightarrow> source_snapshot \<Rightarrow> unit quarantine_result" where
  "verify_snapshot T W s = res_bind (recheck_source T W s) (\<lambda>_. scan_secrets T (sn_content s))"

definition verify_approval_identity ::
  "gate_env \<Rightarrow> pystr \<Rightarrow> candidate_atom \<Rightarrow> evidence_binding list \<Rightarrow> human_approval \<Rightarrow> unit quarantine_result" where
  "verify_approval_identity T i c bindings a =
     res_bind (demand (ha_candidate_id a = i) ''candidate mismatch'') (\<lambda>_.
     res_bind (demand (ha_decision a = ''approve'') ''not approved'') (\<lambda>_.
     res_bind (candidate_digest_for T c) (\<lambda>digest.
     res_bind (demand (ha_candidate_digest a = digest) ''candidate digest'') (\<lambda>_.
     res_bind (res_map (binding_digest_for T) bindings) (\<lambda>evidence.
       demand (ha_evidence_digests a = evidence) ''evidence digest'')))))"

definition verify_approval_time ::
  "gate_env \<Rightarrow> int \<Rightarrow> source_snapshot \<Rightarrow> human_approval \<Rightarrow> unit quarantine_result" where
  "verify_approval_time T now s a =
     res_bind (approval_instant T (ha_approved_at a)) (\<lambda>approved_at.
     res_bind (demand (approved_at \<le> now) ''future'') (\<lambda>_.
     res_bind (case ha_expires_at a of None \<Rightarrow> Inr ()
         | Some e \<Rightarrow> res_bind (approval_instant T e) (\<lambda>expires_at.
             res_bind (demand (now < expires_at) ''expired'') (\<lambda>_. demand (approved_at < expires_at) ''expiry''))) (\<lambda>_.
     res_bind (approval_instant T (sn_captured_at s)) (\<lambda>captured_at.
       demand (captured_at \<le> approved_at) ''predates''))))"

definition verify_approval_trust ::
  "gate_env \<Rightarrow> quarantine \<Rightarrow> source_snapshot \<Rightarrow> human_approval \<Rightarrow> unit quarantine_result" where
  "verify_approval_trust T q s a =
     res_bind (demand (ha_approver_id a \<noteq> sn_principal_id s) ''external principal'') (\<lambda>_.
     res_bind (approval_trusted T q a) (\<lambda>trusted. demand trusted ''trusted authority''))"

definition verify_human_approval ::
  "gate_env \<Rightarrow> int \<Rightarrow> quarantine \<Rightarrow> pystr \<Rightarrow> candidate_atom \<Rightarrow> evidence_binding list \<Rightarrow> source_snapshot \<Rightarrow> human_approval \<Rightarrow>
   unit quarantine_result" where
  "verify_human_approval T now q i c bindings s a =
     res_bind (verify_approval_identity T i c bindings a) (\<lambda>_.
     res_bind (verify_approval_time T now s a) (\<lambda>_.
       verify_approval_trust T q s a))"

definition validated_from :: "candidate_atom \<Rightarrow> evidence_binding list \<Rightarrow> human_approval \<Rightarrow> validated_atom" where
  "validated_from c bindings a =
     \<lparr> va_candidate_id = ca_candidate_id c, va_atom_id = ca_atom_id c, va_kind = ca_kind c,
       va_statement = ca_statement c, va_modality = ca_modality c, va_scope = ca_scope c,
       va_source_snapshot_id = ca_source_snapshot_id c, va_start_line = ca_start_line c, va_end_line = ca_end_line c,
       va_symbol_or_heading = ca_symbol_or_heading c, va_compression_class = ca_compression_class c,
       va_evidence_bindings = bindings, va_approval = a, va_source_trust_level = ca_trust_level c,
       va_generated = ca_generated c, va_trust_level = ''T1'', va_status = ''validated'' \<rparr>"

definition promote ::
  "gate_env \<Rightarrow> source_world \<Rightarrow> int \<Rightarrow> quarantine \<Rightarrow> pystr \<Rightarrow> human_approval \<Rightarrow> (validated_atom \<times> quarantine) quarantine_result" where
  "promote T W now q i a =
     res_bind (promotion_inputs q i) (\<lambda>(c, bindings, s).
     res_bind (verify_snapshot T W s) (\<lambda>_.
     res_bind (res_map (verify_evidence_binding T c s) bindings) (\<lambda>_.
     res_bind (verify_human_approval T now q i c bindings s a) (\<lambda>_.
       let v = validated_from c bindings a in
       Inr (v, q \<lparr> qn_promoted := AList.update i v (qn_promoted q) \<rparr>)))))"

text \<open>The later recheck of a promoted atom.\<close>

definition verify_validated ::
  "gate_env \<Rightarrow> source_world \<Rightarrow> int \<Rightarrow> quarantine \<Rightarrow> validated_atom \<Rightarrow> unit quarantine_result" where
  "verify_validated T W now q v =
     res_bind (demand (map_of (qn_promoted q) (va_candidate_id v) = Some v) ''not promoted'') (\<lambda>_.
     res_bind (demand_some (map_of (qn_snapshots q) (va_source_snapshot_id v)) ''snapshot'') (\<lambda>s.
     res_bind (recheck_source T W s) (\<lambda>_.
     res_bind (scan_secrets T (va_statement v)) (\<lambda>_.
     res_bind (demand_some (map_of (qn_candidates q) (va_candidate_id v)) ''candidate'') (\<lambda>c.
     res_bind (demand (ca_trust_level c = ''T2'' \<longrightarrow> has_deterministic_source_proof q s) ''source proof'') (\<lambda>_.
     res_bind (res_map (verify_evidence_binding T c s) (va_evidence_bindings v)) (\<lambda>_.
     res_bind (case ha_expires_at (va_approval v) of None \<Rightarrow> Inr ()
         | Some e \<Rightarrow> res_bind (approval_instant T e) (\<lambda>expires_at. demand (now < expires_at) ''expired'')) (\<lambda>_.
     res_bind (approval_trusted T q (va_approval v)) (\<lambda>trusted. demand trusted ''no longer trusted'')))))))))"

section \<open>Permits\<close>

definition snapshot_proof_wire :: "source_snapshot \<Rightarrow> json" where
  "snapshot_proof_wire s = (case sn_proof s of None \<Rightarrow> JNull | Some p \<Rightarrow> source_proof_wire p)"

text \<open>\<open>entry.update(...)\<close> overwrites in place and appends what is new.\<close>

definition permit_atom_entry ::
  "gate_env \<Rightarrow> source_world \<Rightarrow> int \<Rightarrow> quarantine \<Rightarrow> validated_atom \<Rightarrow>
   (members \<times> evidence_binding list \<times> source_proof option) quarantine_result" where
  "permit_atom_entry T W now q v =
     res_bind (verify_validated T W now q v) (\<lambda>_.
     res_bind (find_candidate q (va_candidate_id v)) (\<lambda>c.
     res_bind (demand_some (map_of (qn_snapshots q) (va_source_snapshot_id v)) ''snapshot'') (\<lambda>s.
     res_bind (candidate_digest_for T c) (\<lambda>digest.
       Inr (candidate_wire c @
         [(''candidate_digest'', JStr digest), (''snapshot_id'', JStr (va_source_snapshot_id v)),
          (''snapshot_principal_id'', JStr (sn_principal_id s)), (''snapshot_captured_at'', JStr (sn_captured_at s)),
          (''source_trust_level'', JStr (va_source_trust_level v)), (''validated_trust_level'', JStr (va_trust_level v)),
          (''validated_status'', JStr (va_status v)), (''source_proof'', snapshot_proof_wire s),
          (''approval'', JObj (approval_wire (va_approval v))),
          (''bindings'', JList (map (JObj \<circ> evidence_binding_wire) (va_evidence_bindings v)))],
        va_evidence_bindings v, sn_proof s)))))"

definition subject_wire :: "evidence_binding \<Rightarrow> json" where
  "subject_wire b = JObj
    [(''binding_id'', JStr (eb_binding_id b)), (''mode'', JStr (eb_mode b)),
     (''content_digest'', JStr (eb_content_digest b)), (''media_type'', JStr (eb_media_type b)),
     (''snapshot_id'', JStr (eb_snapshot_id b))]"

record permit_parts =
  pt_seen :: "(pystr \<times> pystr) list"
  pt_entries :: "json list"
  pt_subjects :: "json list"
  pt_bytes :: "bytes list"
  pt_proofs :: "source_proof list"

definition permit_subject :: "permit_parts \<Rightarrow> evidence_binding \<Rightarrow> permit_parts" where
  "permit_subject st b = (let key = (eb_binding_id b, eb_content_digest b) in
     if key \<in> set (pt_seen st) then st
     else st \<lparr> pt_seen := pt_seen st @ [key], pt_subjects := pt_subjects st @ [subject_wire b],
            pt_bytes := pt_bytes st @ [eb_source_bytes b] \<rparr>)"

text \<open>Equality of proofs leaves the repository root and the capability out.\<close>

definition proof_same :: "source_proof \<Rightarrow> source_proof \<Rightarrow> bool" where
  "proof_same p p' \<longleftrightarrow> p \<lparr> pf_root := [], pf_token := None \<rparr> = p' \<lparr> pf_root := [], pf_token := None \<rparr>"

definition publication_issuer_of :: "quarantine \<Rightarrow> publication_issuer" where
  "publication_issuer_of q = \<lparr> pi_store_id = qn_store_id q, pi_source_token = qn_source_token q,
     pi_loader_token = qn_loader_token q \<rparr>"

definition retain_source_proof ::
  "quarantine \<Rightarrow> source_proof option \<Rightarrow> source_proof list \<Rightarrow> source_proof list quarantine_result" where
  "retain_source_proof q p retained = (case p of None \<Rightarrow> Inr retained
     | Some p \<Rightarrow> if \<exists>p' \<in> set retained. proof_same p p' then Inr retained
         else res_bind (demand (owns_source_proof (publication_issuer_of q) p) ''source proof'') (\<lambda>_. Inr (retained @ [p])))"

definition permit_step ::
  "gate_env \<Rightarrow> source_world \<Rightarrow> (pystr \<Rightarrow> int) \<Rightarrow> quarantine \<Rightarrow> permit_parts \<Rightarrow> validated_atom \<Rightarrow> permit_parts quarantine_result" where
  "permit_step T W now q st v =
     res_bind (permit_atom_entry T W (now (va_candidate_id v)) q v) (\<lambda>(entry, bindings, p).
       let st' = foldl permit_subject (st \<lparr> pt_entries := pt_entries st @ [JObj entry] \<rparr>) bindings in
     res_bind (retain_source_proof q p (pt_proofs st')) (\<lambda>proofs. Inr (st' \<lparr> pt_proofs := proofs \<rparr>)))"

definition permit_payload ::
  "trust_root \<Rightarrow> pystr \<Rightarrow> core_capsule \<Rightarrow> pystr \<Rightarrow> loader_attestation \<Rightarrow> permit_parts \<Rightarrow> members" where
  "permit_payload r anchor c caller attestation parts = (let manifest = cc_control_manifest c in
    [(''policy_version'', JStr (tr_policy_version r)), (''trust_root_id'', JStr anchor),
     (''capsule_id'', JStr (cm_capsule_id manifest)), (''version'', JStr (cm_version manifest)),
     (''capsule_digest'', JStr (cm_content_digest manifest)), (''principal_id'', JStr caller),
     (''authority'', JStr (cm_authority manifest)), (''scope'', scope_json c),
     (''scanner_version'', JStr ''m3-secret-scanner-v1''), (''loader_attestation'', JObj (loader_wire attestation)),
     (''atoms'', JList (pt_entries parts)), (''source_subjects'', JList (pt_subjects parts))])"

definition validate_permit_loader ::
  "gate_env \<Rightarrow> quarantine \<Rightarrow> loader_attestation option \<Rightarrow> pystr \<Rightarrow> loader_attestation quarantine_result" where
  "validate_permit_loader T q attestation digest =
     res_bind (demand_some attestation ''loader attestation'') (\<lambda>a.
     res_bind (demand (loader_verify T (loader_payload a) (la_signature a)) ''loader signature'') (\<lambda>_.
     res_bind (demand (la_capsule_digest a = digest) ''loader digest'') (\<lambda>_.
     res_bind (demand (la_capability a = Some (qn_loader_token q) \<and> la_store_id a = qn_store_id q) ''loader issuer'') (\<lambda>_.
       Inr a))))"

definition of_registry :: "'a registry_result \<Rightarrow> 'a quarantine_result" where
  "of_registry x = (case x of Inl _ \<Rightarrow> Inl (QuarantineFault ''ValueError'') | Inr y \<Rightarrow> Inr y)"

lemma of_registry_Inr [simp, result_simps]: "of_registry x = Inr y \<longleftrightarrow> x = Inr y"
  by (cases x) (simp_all add: of_registry_def)

definition issue_publication_permit ::
  "gate_env \<Rightarrow> source_world \<Rightarrow> (pystr \<Rightarrow> int) \<Rightarrow> quarantine \<Rightarrow> core_capsule \<Rightarrow> validated_atom list \<Rightarrow> pystr \<Rightarrow>
   loader_attestation option \<Rightarrow> publication_permit quarantine_result" where
  "issue_publication_permit T W now q c atoms caller attestation =
     res_bind (demand_some (qn_trust_root q) ''trust root'') (\<lambda>r.
     res_bind (demand (cm_lifecycle (cc_control_manifest c) = ''PUBLISHED'') ''lifecycle'') (\<lambda>_.
     res_bind (demand (canonical_digest_of T c = Some (cm_content_digest (cc_control_manifest c))) ''digest'') (\<lambda>_.
     res_bind (validate_permit_loader T q attestation (cm_content_digest (cc_control_manifest c))) (\<lambda>a.
     res_bind (demand (atoms \<noteq> []) ''atoms'') (\<lambda>_.
     res_bind (res_fold (permit_step T W now q)
         \<lparr> pt_seen = [], pt_entries = [], pt_subjects = [], pt_bytes = [], pt_proofs = [] \<rparr> atoms) (\<lambda>parts.
     res_bind (of_registry (root_id T r)) (\<lambda>anchor.
       let payload = permit_payload r anchor c caller a parts in
     res_bind (of_registry (sign_payload T r (JObj payload))) (\<lambda>signature.
       Inr \<lparr> pm_payload = payload, pm_signature = signature, pm_source_bytes = pt_bytes parts,
             pm_source_proofs = pt_proofs parts, pm_loader_attestation = Some a,
             pm_issuer = Some (publication_issuer_of q) \<rparr>))))))))"

end
