(* ===== verification/Quarantine_Laws.thy ===== *)
theory Quarantine_Laws
  imports Quarantine
begin

text \<open>
  What a promoted atom rests on, as an invariant of the quarantine: whatever is registered later,
  each promoted atom stays what it was, a copy of a registered candidate of a registered snapshot,
  with evidence whose bytes read as its statement and an approval in force when it was promoted.
\<close>

section \<open>Steps\<close>

inductive quarantine_step :: "gate_env \<Rightarrow> quarantine \<Rightarrow> quarantine \<Rightarrow> bool" for T where
  snapshots: "register_snapshot q s = Inr q' \<Longrightarrow> quarantine_step T q q'"
| candidates: "register_candidate T q c = Inr q' \<Longrightarrow> quarantine_step T q q'"
| binds: "register_binding q b = Inr q' \<Longrightarrow> quarantine_step T q q'"
| promotes: "promote T W now q i a = Inr (v, q') \<Longrightarrow> quarantine_step T q q'"

inductive quarantine_run :: "gate_env \<Rightarrow> quarantine \<Rightarrow> quarantine \<Rightarrow> bool" for T where
  refl: "quarantine_run T q q"
| step: "quarantine_run T q q' \<Longrightarrow> quarantine_step T q' q'' \<Longrightarrow> quarantine_run T q q''"

section \<open>The specification of a promoted atom\<close>

text \<open>The binding holds the bytes of the snapshot, and the lines of the candidate in them are
  clean, have the recorded digest and read as the statement.\<close>

definition binding_reads :: "gate_env \<Rightarrow> candidate_atom \<Rightarrow> source_snapshot \<Rightarrow> evidence_binding \<Rightarrow> bool" where
  "binding_reads T c s b \<longleftrightarrow> eb_candidate_id b = ca_candidate_id c \<and> eb_snapshot_id b = sn_snapshot_id s \<and>
     eb_mode b = sn_mode s \<and> eb_content_digest b = sn_content_digest s \<and> ge_clean T (eb_source_bytes b) \<and>
     (\<exists>span. line_span T (eb_source_bytes b) (ca_start_line c) (ca_end_line c) = Inr span \<and>
        re_digest (ge_host T) span = eb_span_digest b \<and> span_statement T span = ge_strip T (ca_statement c))"

definition approval_backs ::
  "gate_env \<Rightarrow> quarantine \<Rightarrow> candidate_atom \<Rightarrow> evidence_binding list \<Rightarrow> source_snapshot \<Rightarrow> human_approval \<Rightarrow> bool" where
  "approval_backs T q c bindings s a \<longleftrightarrow> ha_candidate_id a = ca_candidate_id c \<and> ha_decision a = ''approve'' \<and>
     candidate_digest_for T c = Inr (ha_candidate_digest a) \<and>
     res_map (binding_digest_for T) bindings = Inr (ha_evidence_digests a) \<and>
     ha_approver_id a \<noteq> sn_principal_id s \<and> approval_trusted T q a = Inr True \<and>
     (\<exists>captured approved. approval_instant T (sn_captured_at s) = Inr captured \<and>
        approval_instant T (ha_approved_at a) = Inr approved \<and> captured \<le> approved)"

definition promotion_backed :: "gate_env \<Rightarrow> quarantine \<Rightarrow> validated_atom \<Rightarrow> bool" where
  "promotion_backed T q v \<longleftrightarrow> (\<exists>c s. map_of (qn_candidates q) (va_candidate_id v) = Some c \<and>
     map_of (qn_snapshots q) (va_source_snapshot_id v) = Some s \<and>
     v = validated_from c (va_evidence_bindings v) (va_approval v) \<and>
     va_scope v = [''path:'' @ sn_relative_path s] \<and> va_generated v = sn_generated s \<and>
     va_evidence_bindings v \<noteq> [] \<and> (\<forall>b \<in> set (va_evidence_bindings v). binding_reads T c s b) \<and>
     approval_backs T q c (va_evidence_bindings v) s (va_approval v))"

section \<open>The invariant\<close>

text \<open>Registered candidates belong to registered snapshots.\<close>

definition candidate_placed :: "quarantine \<Rightarrow> candidate_atom \<Rightarrow> bool" where
  "candidate_placed q c \<longleftrightarrow> ca_token c = Some (qn_candidate_token q) \<and>
     (\<exists>s. map_of (qn_snapshots q) (ca_source_snapshot_id c) = Some s \<and>
        ca_scope c = [''path:'' @ sn_relative_path s] \<and> ca_generated c = sn_generated s)"

definition quarantine_inv :: "gate_env \<Rightarrow> quarantine \<Rightarrow> bool" where
  "quarantine_inv T q \<longleftrightarrow>
     (\<forall>i s. map_of (qn_snapshots q) i = Some s \<longrightarrow> sn_snapshot_id s = i) \<and>
     (\<forall>i c. map_of (qn_candidates q) i = Some c \<longrightarrow> ca_candidate_id c = i \<and> candidate_placed q c) \<and>
     (\<forall>i v. map_of (qn_promoted q) i = Some v \<longrightarrow> va_candidate_id v = i \<and> promotion_backed T q v)"

lemma quarantine_invD:
  assumes "quarantine_inv T q"
  shows "map_of (qn_snapshots q) i = Some s \<Longrightarrow> sn_snapshot_id s = i"
    and "map_of (qn_candidates q) i = Some c \<Longrightarrow> ca_candidate_id c = i \<and> candidate_placed q c"
    and "map_of (qn_promoted q) i = Some v \<Longrightarrow> va_candidate_id v = i \<and> promotion_backed T q v"
  using assms by (auto simp: quarantine_inv_def)

lemma quarantine_inv_new: "quarantine_inv T (new_quarantine r i tokens)"
  by (cases tokens) (simp add: quarantine_inv_def new_quarantine_def)

lemma candidate_same_token:
  "candidate_same c d \<Longrightarrow> ca_token c = ca_token d \<Longrightarrow> c = d"
  by (cases c; cases d) (simp add: candidate_same_def)

text \<open>The store grows: what is promoted stays, and a candidate and the trust fields of its
  snapshot do not change.\<close>

definition quarantine_grows :: "quarantine \<Rightarrow> quarantine \<Rightarrow> bool" where
  "quarantine_grows q q' \<longleftrightarrow> qn_trust_root q' = qn_trust_root q \<and> qn_candidate_token q' = qn_candidate_token q \<and>
     (\<forall>i c. map_of (qn_candidates q) i = Some c \<longrightarrow> map_of (qn_candidates q') i = Some c) \<and>
     (\<forall>i v. map_of (qn_promoted q) i = Some v \<longrightarrow> map_of (qn_promoted q') i = Some v) \<and>
     (\<forall>i c s. map_of (qn_candidates q) i = Some c \<longrightarrow> map_of (qn_snapshots q) (ca_source_snapshot_id c) = Some s \<longrightarrow>
        (\<exists>s'. map_of (qn_snapshots q') (ca_source_snapshot_id c) = Some s' \<and> sn_snapshot_id s' = sn_snapshot_id s \<and>
           snapshot_trust s' = snapshot_trust s \<and> sn_captured_at s' = sn_captured_at s))"

lemma quarantine_grows_refl: "quarantine_grows q q"
  by (simp add: quarantine_grows_def)

lemma quarantine_grows_trans:
  assumes "quarantine_grows p q" and "quarantine_grows q r"
  shows "quarantine_grows p r"
proof -
  note pq = assms(1)[unfolded quarantine_grows_def] and qr = assms(2)[unfolded quarantine_grows_def]
  show ?thesis unfolding quarantine_grows_def
  proof (intro conjI allI impI)
    fix i c s assume c: "map_of (qn_candidates p) i = Some c" and s: "map_of (qn_snapshots p) (ca_source_snapshot_id c) = Some s"
    obtain t where t: "map_of (qn_snapshots q) (ca_source_snapshot_id c) = Some t" "sn_snapshot_id t = sn_snapshot_id s"
        "snapshot_trust t = snapshot_trust s" "sn_captured_at t = sn_captured_at s"
      using pq c s by blast
    have "map_of (qn_candidates q) i = Some c" using pq c by blast
    then obtain u where "map_of (qn_snapshots r) (ca_source_snapshot_id c) = Some u" "sn_snapshot_id u = sn_snapshot_id t"
        "snapshot_trust u = snapshot_trust t" "sn_captured_at u = sn_captured_at t"
      using qr t(1) by blast
    then show "\<exists>u. map_of (qn_snapshots r) (ca_source_snapshot_id c) = Some u \<and> sn_snapshot_id u = sn_snapshot_id s \<and>
        snapshot_trust u = snapshot_trust s \<and> sn_captured_at u = sn_captured_at s"
      using t(2-4) by auto
  qed (use pq qr in simp_all)
qed

lemma approval_trusted_root: "qn_trust_root q' = qn_trust_root q \<Longrightarrow> approval_trusted T q' = approval_trusted T q"
  by (simp add: approval_trusted_def fun_eq_iff)

lemma promotion_backed_grows:
  assumes "quarantine_grows q q'" and "promotion_backed T q v"
  shows "promotion_backed T q' v"
proof -
  obtain c s where c: "map_of (qn_candidates q) (va_candidate_id v) = Some c"
      "map_of (qn_snapshots q) (va_source_snapshot_id v) = Some s"
      "v = validated_from c (va_evidence_bindings v) (va_approval v)"
    and rest: "va_scope v = [''path:'' @ sn_relative_path s]" "va_generated v = sn_generated s" "va_evidence_bindings v \<noteq> []"
      "\<forall>b \<in> set (va_evidence_bindings v). binding_reads T c s b" "approval_backs T q c (va_evidence_bindings v) s (va_approval v)"
    using assms(2) by (auto simp: promotion_backed_def)
  have source: "va_source_snapshot_id v = ca_source_snapshot_id c"
    using arg_cong [OF c(3), of va_source_snapshot_id] by (simp add: validated_from_def)
  have c': "map_of (qn_candidates q') (va_candidate_id v) = Some c" and root: "qn_trust_root q' = qn_trust_root q"
    using assms(1) c(1) by (simp_all add: quarantine_grows_def)
  obtain s' where s': "map_of (qn_snapshots q') (va_source_snapshot_id v) = Some s'" "sn_snapshot_id s' = sn_snapshot_id s"
      "snapshot_trust s' = snapshot_trust s" "sn_captured_at s' = sn_captured_at s"
    using assms(1) c(1,2) unfolding quarantine_grows_def source by blast
  then have same: "sn_content_digest s' = sn_content_digest s" "sn_mode s' = sn_mode s" "sn_principal_id s' = sn_principal_id s"
      "sn_relative_path s' = sn_relative_path s" "sn_generated s' = sn_generated s"
    by (simp_all add: snapshot_trust_def)
  have "\<forall>b \<in> set (va_evidence_bindings v). binding_reads T c s' b"
    using rest(4) by (simp add: binding_reads_def same s'(2))
  moreover have "approval_backs T q' c (va_evidence_bindings v) s' (va_approval v)"
    using rest(5) by (simp add: approval_backs_def same s'(4) approval_trusted_root [OF root])
  ultimately show ?thesis
    unfolding promotion_backed_def using c' s'(1) c(3) rest(1-3) same by auto
qed

section \<open>Every operation keeps the invariant\<close>

lemma register_snapshot_grows:
  assumes "register_snapshot q s = Inr q'" and inv: "quarantine_inv T q"
  shows "quarantine_grows q q' \<and> quarantine_inv T q'"
proof -
  let ?i = "sn_snapshot_id s"
  have q': "q' = q \<lparr> qn_snapshots := AList.update ?i s (qn_snapshots q) \<rparr>"
    and checks: "\<And>e. map_of (qn_snapshots q) ?i = Some e \<Longrightarrow> snapshot_trust e = snapshot_trust s \<and>
      ((\<exists>c \<in> set (dict_values (qn_candidates q)). ca_source_snapshot_id c = ?i) \<longrightarrow> sn_captured_at e = sn_captured_at s)"
    using assms(1) by (auto simp: register_snapshot_def res_bind_Inr_iff)
  have grows: "quarantine_grows q q'"
    unfolding quarantine_grows_def
  proof (intro conjI allI impI)
    fix i c t assume c: "map_of (qn_candidates q) i = Some c" and t: "map_of (qn_snapshots q) (ca_source_snapshot_id c) = Some t"
    show "\<exists>s'. map_of (qn_snapshots q') (ca_source_snapshot_id c) = Some s' \<and> sn_snapshot_id s' = sn_snapshot_id t \<and>
        snapshot_trust s' = snapshot_trust t \<and> sn_captured_at s' = sn_captured_at t"
    proof (cases "ca_source_snapshot_id c = ?i")
      case True
      have "c \<in> set (dict_values (qn_candidates q))" using map_of_SomeD [OF c] by force
      with True checks [of t] t quarantine_invD(1) [OF inv t] show ?thesis
        by (auto simp: q' update_conv')
    next
      case False
      with t show ?thesis by (simp add: q' update_conv')
    qed
  qed (simp_all add: q')
  have "quarantine_inv T q'"
    unfolding quarantine_inv_def
  proof (intro conjI allI impI)
    fix i t assume "map_of (qn_snapshots q') i = Some t"
    then show "sn_snapshot_id t = i"
      using quarantine_invD(1) [OF inv] by (auto simp: q' update_conv' split: if_splits)
  next
    fix i c assume "map_of (qn_candidates q') i = Some c"
    then have c: "map_of (qn_candidates q) i = Some c" by (simp add: q')
    note old = quarantine_invD(2) [OF inv c]
    then show "ca_candidate_id c = i" by simp
    from old obtain t where t: "ca_token c = Some (qn_candidate_token q)" "map_of (qn_snapshots q) (ca_source_snapshot_id c) = Some t"
        "ca_scope c = [''path:'' @ sn_relative_path t]" "ca_generated c = sn_generated t"
      by (auto simp: candidate_placed_def)
    obtain t' where "map_of (qn_snapshots q') (ca_source_snapshot_id c) = Some t'" "snapshot_trust t' = snapshot_trust t"
      using grows c t(2) unfolding quarantine_grows_def by blast
    with t show "candidate_placed q' c" by (auto simp: candidate_placed_def q' snapshot_trust_def)
  next
    fix i v assume "map_of (qn_promoted q') i = Some v"
    then have "map_of (qn_promoted q) i = Some v" by (simp add: q')
    from quarantine_invD(3) [OF inv this] show "va_candidate_id v = i" "promotion_backed T q' v"
      using promotion_backed_grows [OF grows] by blast+
  qed
  with grows show ?thesis by blast
qed

lemma register_candidate_grows:
  assumes "register_candidate T q c = Inr q'" and inv: "quarantine_inv T q"
  shows "quarantine_grows q q' \<and> quarantine_inv T q'"
proof -
  let ?i = "ca_candidate_id c"
  obtain s where s: "map_of (qn_snapshots q) (ca_source_snapshot_id c) = Some s" "ca_scope c = [''path:'' @ sn_relative_path s]"
      "ca_generated c = sn_generated s" "ca_token c = Some (qn_candidate_token q)"
    and q': "q' = q \<lparr> qn_candidates := AList.update ?i c (qn_candidates q) \<rparr>"
    and same: "case map_of (qn_candidates q) ?i of None \<Rightarrow> True | Some d \<Rightarrow> candidate_same d c"
    using assms(1) by (fastforce simp: register_candidate_def res_bind_Inr_iff)
  have kept: "map_of (qn_candidates q') i = Some d" if d: "map_of (qn_candidates q) i = Some d" for i d
  proof (cases "i = ?i")
    case True
    with d same have "candidate_same d c" by simp
    moreover have "ca_token d = ca_token c"
      using quarantine_invD(2) [OF inv d] s(4) by (simp add: candidate_placed_def)
    ultimately have "d = c" by (rule candidate_same_token)
    then show ?thesis using True by (simp add: q' update_conv')
  next
    case False
    with d show ?thesis by (simp add: q' update_conv')
  qed
  then have grows: "quarantine_grows q q'"
    by (auto simp: quarantine_grows_def q')
  have "quarantine_inv T q'"
    unfolding quarantine_inv_def
  proof (intro conjI allI impI)
    fix i t assume "map_of (qn_snapshots q') i = Some t"
    then show "sn_snapshot_id t = i" using quarantine_invD(1) [OF inv] by (simp add: q')
  next
    fix i d assume "map_of (qn_candidates q') i = Some d"
    then have "(if i = ?i then Some c else map_of (qn_candidates q) i) = Some d"
      by (simp add: q' update_conv')
    then consider "i = ?i" "d = c" | "map_of (qn_candidates q) i = Some d"
      by (cases "i = ?i") auto
    then have "ca_candidate_id d = i \<and> candidate_placed q d"
    proof cases
      case 1
      with s show ?thesis by (simp add: candidate_placed_def)
    next
      case 2
      then show ?thesis by (rule quarantine_invD(2) [OF inv])
    qed
    then show "ca_candidate_id d = i" "candidate_placed q' d"
      by (simp_all add: candidate_placed_def q')
  next
    fix i v assume "map_of (qn_promoted q') i = Some v"
    then have "map_of (qn_promoted q) i = Some v" by (simp add: q')
    from quarantine_invD(3) [OF inv this] show "va_candidate_id v = i" "promotion_backed T q' v"
      using promotion_backed_grows [OF grows] by blast+
  qed
  with grows show ?thesis by blast
qed

lemma register_binding_grows:
  assumes "register_binding q b = Inr q'" and inv: "quarantine_inv T q"
  shows "quarantine_grows q q' \<and> quarantine_inv T q'"
proof -
  obtain bs where q': "q' = q \<lparr> qn_bindings := bs \<rparr>"
    using assms(1) by (auto simp: register_binding_def Let_def res_bind_Inr_iff)
  then have grows: "quarantine_grows q q'" by (simp add: quarantine_grows_def)
  with inv show ?thesis
    using promotion_backed_grows [OF grows] by (auto simp: quarantine_inv_def q' candidate_placed_def)
qed

lemma verify_evidence_binding_reads:
  assumes "verify_evidence_binding T c s b = Inr ()"
  shows "binding_reads T c s b"
  using assms by (auto simp: verify_evidence_binding_def verify_binding_identity_def verify_binding_bytes_def
      binding_reads_def res_bind_Inr_iff)

lemma verify_human_approval_backs:
  assumes "verify_human_approval T now q i c bindings s a = Inr ()" and "ca_candidate_id c = i"
  shows "approval_backs T q c bindings s a"
  using assms by (auto simp: verify_human_approval_def verify_approval_identity_def verify_approval_time_def
      verify_approval_trust_def approval_backs_def res_bind_Inr_iff)

lemma promote_Inr:
  assumes "promote T W now q i a = Inr (v, q')"
  obtains c s where "map_of (qn_candidates q) i = Some c" "i \<notin> set (dict_keys (qn_promoted q))"
    "bindings_for q i \<noteq> []" "map_of (qn_snapshots q) (ca_source_snapshot_id c) = Some s"
    "\<forall>b \<in> set (bindings_for q i). verify_evidence_binding T c s b = Inr ()"
    "verify_human_approval T now q i c (bindings_for q i) s a = Inr ()"
    "v = validated_from c (bindings_for q i) a" "q' = q \<lparr> qn_promoted := AList.update i v (qn_promoted q) \<rparr>"
    "verify_snapshot T W s = Inr ()"
proof -
  obtain c s us where m: "map_of (qn_candidates q) i = Some c" "i \<notin> set (dict_keys (qn_promoted q))"
      "bindings_for q i \<noteq> []" "map_of (qn_snapshots q) (ca_source_snapshot_id c) = Some s"
      "res_map (verify_evidence_binding T c s) (bindings_for q i) = Inr us"
      "verify_human_approval T now q i c (bindings_for q i) s a = Inr ()"
      "v = validated_from c (bindings_for q i) a" "q' = q \<lparr> qn_promoted := AList.update i v (qn_promoted q) \<rparr>"
      "verify_snapshot T W s = Inr ()"
    using assms by (auto simp: promote_def promotion_inputs_def find_candidate_def res_bind_Inr_iff Let_def)
  then show ?thesis
    using that by (fastforce simp: res_map_Inr_iff list_all2_conv_all_nth in_set_conv_nth)
qed

lemma promote_grows:
  assumes "promote T W now q i a = Inr (v, q')" and inv: "quarantine_inv T q"
  shows "quarantine_grows q q' \<and> quarantine_inv T q'"
proof -
  from promote_Inr [OF assms(1)] obtain c s where c: "map_of (qn_candidates q) i = Some c"
      "i \<notin> set (dict_keys (qn_promoted q))" "bindings_for q i \<noteq> []"
      "map_of (qn_snapshots q) (ca_source_snapshot_id c) = Some s"
      "\<forall>b \<in> set (bindings_for q i). verify_evidence_binding T c s b = Inr ()"
      "verify_human_approval T now q i c (bindings_for q i) s a = Inr ()"
      "v = validated_from c (bindings_for q i) a" "q' = q \<lparr> qn_promoted := AList.update i v (qn_promoted q) \<rparr>" .
  note placed = quarantine_invD(2) [OF inv c(1)]
  have "map_of (qn_promoted q) i = None" using c(2) by (simp add: map_of_eq_None_iff)
  then have grows: "quarantine_grows q q'" by (auto simp: quarantine_grows_def c(8) update_conv')
  have fields: "va_candidate_id v = i" "va_source_snapshot_id v = ca_source_snapshot_id c" "va_evidence_bindings v = bindings_for q i"
      "va_approval v = a" "va_scope v = ca_scope c" "va_generated v = ca_generated c"
    using placed by (simp_all add: c(7) validated_from_def)
  have "promotion_backed T q v"
    unfolding promotion_backed_def fields
  proof (rule exI [of _ c], rule exI [of _ s], intro conjI)
    show "v = validated_from c (bindings_for q i) a" by (rule c(7))
    show "approval_backs T q c (bindings_for q i) s a"
      using verify_human_approval_backs [OF c(6)] placed by blast
    show "\<forall>b \<in> set (bindings_for q i). binding_reads T c s b"
      using c(5) verify_evidence_binding_reads by blast
  qed (use c(1,3,4) placed in \<open>simp_all add: candidate_placed_def\<close>)
  then have backed: "promotion_backed T q' v" by (rule promotion_backed_grows [OF grows])
  have "quarantine_inv T q'"
    unfolding quarantine_inv_def
  proof (intro conjI allI impI)
    fix j t assume "map_of (qn_snapshots q') j = Some t"
    then show "sn_snapshot_id t = j" using quarantine_invD(1) [OF inv] by (simp add: c(8))
  next
    fix j d assume "map_of (qn_candidates q') j = Some d"
    then have "map_of (qn_candidates q) j = Some d" by (simp add: c(8))
    from quarantine_invD(2) [OF inv this] show "ca_candidate_id d = j" "candidate_placed q' d"
      by (simp_all add: candidate_placed_def c(8))
  next
    fix j w assume "map_of (qn_promoted q') j = Some w"
    then have "(if j = i then Some v else map_of (qn_promoted q) j) = Some w"
      by (simp add: c(8) update_conv')
    then consider "j = i" "w = v" | "map_of (qn_promoted q) j = Some w"
      by (cases "j = i") auto
    then have "va_candidate_id w = j \<and> promotion_backed T q' w"
    proof cases
      case 1
      with backed fields(1) show ?thesis by simp
    next
      case 2
      from quarantine_invD(3) [OF inv 2] show ?thesis using promotion_backed_grows [OF grows] by blast
    qed
    then show "va_candidate_id w = j" "promotion_backed T q' w" by simp_all
  qed
  with grows show ?thesis by blast
qed

lemma quarantine_step_grows:
  assumes "quarantine_step T q q'" and "quarantine_inv T q"
  shows "quarantine_grows q q' \<and> quarantine_inv T q'"
  using assms(1)
proof cases
  case snapshots
  then show ?thesis by (rule register_snapshot_grows [OF _ assms(2)])
next
  case candidates
  then show ?thesis by (rule register_candidate_grows [OF _ assms(2)])
next
  case binds
  then show ?thesis by (rule register_binding_grows [OF _ assms(2)])
next
  case promotes
  then show ?thesis by (rule promote_grows [OF _ assms(2)])
qed

lemma quarantine_run_grows:
  assumes "quarantine_run T q q'" and "quarantine_inv T q"
  shows "quarantine_grows q q' \<and> quarantine_inv T q'"
  using assms
proof induction
  case (step q q' q'')
  with quarantine_step_grows [OF step.hyps(2)] show ?case by (blast intro: quarantine_grows_trans)
qed (simp add: quarantine_grows_refl)

end
