(* ===== verification/Atomize.thy ===== *)
theory Atomize
  imports Quarantine Render
begin

text \<open>
  Extraction and binding (\<^verbatim>\<open>build/atomize.py\<close>): candidate atoms are cut from the lines of a snapshot
  and registered in its quarantine, and each is bound to the exact bytes of its lines. The word
  search and the heading pattern of the regular expressions, and the Python, JSON and YAML
  parsers, are parameters.
\<close>

record extracted_span =
  xp_statement :: pystr
  xp_kind :: pystr
  xp_start_line :: int
  xp_end_line :: int
  xp_symbol_or_heading :: pystr

record extractor =
  xe_word :: "pystr \<Rightarrow> pystr \<Rightarrow> bool"
  xe_heading :: "pystr \<Rightarrow> pystr option"
  xe_python :: "bytes \<Rightarrow> extracted_span list option"
  xe_config :: "bytes \<Rightarrow> pystr \<Rightarrow> extracted_span list option"

section \<open>Spans\<close>

definition endswith :: "pystr \<Rightarrow> pystr \<Rightarrow> bool" where
  "endswith s p = startswith (rev s) (rev p)"

definition modality_of :: "extractor \<Rightarrow> pystr \<Rightarrow> pystr" where
  "modality_of X statement = (case find (\<lambda>w. xe_word X w statement) [''MUST'', ''SHOULD'', ''MAY''] of
     None \<Rightarrow> ''INFORMATIVE'' | Some w \<Rightarrow> w)"

definition span_kind :: "extractor \<Rightarrow> pystr \<Rightarrow> pystr" where
  "span_kind X statement = (if modality_of X statement \<noteq> ''INFORMATIVE'' then ''policy'' else ''fact'')"

definition line_spanned :: "pystr \<Rightarrow> pystr \<Rightarrow> int \<Rightarrow> pystr \<Rightarrow> extracted_span" where
  "line_spanned statement kind n symbol = \<lparr> xp_statement = statement, xp_kind = kind, xp_start_line = n,
     xp_end_line = n, xp_symbol_or_heading = symbol \<rparr>"

text \<open>A line is stripped, so it does not matter whether it is taken with its terminator.\<close>

fun text_spans :: "gate_env \<Rightarrow> extractor \<Rightarrow> nat \<Rightarrow> pystr list \<Rightarrow> extracted_span list" where
  "text_spans T X n [] = []"
| "text_spans T X n (raw # rest) = (let statement = ge_strip T raw in
     if statement = [] then text_spans T X (Suc n) rest
     else line_spanned statement (span_kind X statement) (int n) (''line:'' @ nat_text n)
          # text_spans T X (Suc n) rest)"

fun markdown_spans :: "gate_env \<Rightarrow> extractor \<Rightarrow> pystr \<Rightarrow> nat \<Rightarrow> pystr list \<Rightarrow> extracted_span list" where
  "markdown_spans T X current n [] = []"
| "markdown_spans T X current n (raw # rest) = (let stripped = ge_strip T raw in
     if stripped = [] then markdown_spans T X current (Suc n) rest
     else (case xe_heading X stripped of
         Some heading \<Rightarrow> let title = ge_strip T heading in
           line_spanned title ''fact'' (int n) title # markdown_spans T X title (Suc n) rest
       | None \<Rightarrow>
           if startswith stripped ''<!--'' then markdown_spans T X current (Suc n) rest
           else line_spanned stripped (span_kind X stripped) (int n) current # markdown_spans T X current (Suc n) rest))"

definition extract_spans :: "gate_env \<Rightarrow> extractor \<Rightarrow> source_snapshot \<Rightarrow> extracted_span list quarantine_result" where
  "extract_spans T X s = res_bind (demand_some (ge_lines T (sn_content s)) ''utf-8'') (\<lambda>ls.
     if sn_parser_kind s = ''markdown'' then Inr (markdown_spans T X ''document'' 1 ls)
     else if sn_parser_kind s = ''code'' \<and> endswith (sn_relative_path s) ''.py''
       then demand_some (xe_python X (sn_content s)) ''python''
     else if sn_parser_kind s \<in> {''json'', ''yaml''}
       then demand_some (xe_config X (sn_content s) (sn_parser_kind s)) ''configuration''
     else Inr (text_spans T X 1 ls))"

section \<open>Candidates\<close>

definition candidate_hash :: "gate_env \<Rightarrow> source_snapshot \<Rightarrow> extracted_span \<Rightarrow> pystr quarantine_result" where
  "candidate_hash T s x = short_digest T (candidate_identity (sn_snapshot_id s) (xp_statement x) (xp_kind x)
     (xp_start_line x) (xp_end_line x) (xp_symbol_or_heading x))"

definition span_candidate :: "extractor \<Rightarrow> quarantine \<Rightarrow> source_snapshot \<Rightarrow> extracted_span \<Rightarrow> pystr \<Rightarrow> candidate_atom" where
  "span_candidate X q s x hash =
     \<lparr> ca_candidate_id = ''candidate-'' @ hash, ca_atom_id = ''atom-'' @ hash, ca_kind = xp_kind x,
       ca_statement = xp_statement x, ca_modality = modality_of X (xp_statement x),
       ca_scope = [''path:'' @ sn_relative_path s], ca_source_snapshot_id = sn_snapshot_id s,
       ca_start_line = xp_start_line x, ca_end_line = xp_end_line x, ca_symbol_or_heading = xp_symbol_or_heading x,
       ca_compression_class = ''P1_STRUCTURED'', ca_generated = sn_generated s, ca_trust_level = expected_trust q s,
       ca_status = ''candidate'', ca_token = Some (qn_candidate_token q) \<rparr>"

definition extract_step ::
  "gate_env \<Rightarrow> extractor \<Rightarrow> source_snapshot \<Rightarrow> quarantine \<times> candidate_atom list \<Rightarrow> extracted_span \<Rightarrow>
   (quarantine \<times> candidate_atom list) quarantine_result" where
  "extract_step T X s st x = (case st of (q, cs) \<Rightarrow>
     res_bind (candidate_hash T s x) (\<lambda>hash.
       let c = span_candidate X q s x hash in
     res_bind (demand (candidate_valid T c) ''candidate'') (\<lambda>_.
     res_bind (register_candidate T q c) (\<lambda>q'. Inr (q', cs @ [c])))))"

definition extract_candidate_atoms ::
  "gate_env \<Rightarrow> source_world \<Rightarrow> extractor \<Rightarrow> quarantine \<Rightarrow> source_snapshot \<Rightarrow>
   (quarantine \<times> candidate_atom list) quarantine_result" where
  "extract_candidate_atoms T W X q s =
     res_bind (demand (is_registered_snapshot q s) ''ingestion boundary'') (\<lambda>_.
     res_bind (assert_current T W s) (\<lambda>_.
     res_bind (extract_spans T X s) (\<lambda>spans.
     res_bind (demand (spans \<noteq> []) ''no candidates'') (\<lambda>_.
       res_fold (extract_step T X s) (q, []) spans))))"

section \<open>Evidence\<close>

definition binding_identity :: "pystr \<Rightarrow> source_snapshot \<Rightarrow> pystr \<Rightarrow> json" where
  "binding_identity candidate_digest s span_digest = JObj
    [(''candidate_digest'', JStr candidate_digest), (''snapshot_id'', JStr (sn_snapshot_id s)),
     (''content_digest'', JStr (sn_content_digest s)), (''span_digest'', JStr span_digest), (''mode'', JStr (sn_mode s))]"

definition make_binding :: "candidate_atom \<Rightarrow> source_snapshot \<Rightarrow> pystr \<Rightarrow> pystr \<Rightarrow> evidence_binding" where
  "make_binding c s span_digest hash =
     \<lparr> eb_binding_id = ''evidence-'' @ hash, eb_candidate_id = ca_candidate_id c, eb_snapshot_id = sn_snapshot_id s,
       eb_mode = sn_mode s, eb_content_digest = sn_content_digest s, eb_span_digest = span_digest,
       eb_media_type = sn_media_type s, eb_captured_at = sn_captured_at s, eb_access_policy = sn_access_policy s,
       eb_repository = sn_repository s, eb_revision = sn_revision s, eb_path = Some (sn_relative_path s),
       eb_symbol_or_heading = Some (ca_symbol_or_heading c), eb_start_line = Some (ca_start_line c),
       eb_end_line = Some (ca_end_line c), eb_uri = sn_uri s, eb_source = sn_source s,
       eb_verification_method = sn_verification_method s, eb_source_bytes = sn_content s \<rparr>"

definition bind_evidence ::
  "gate_env \<Rightarrow> source_world \<Rightarrow> quarantine \<Rightarrow> candidate_atom \<Rightarrow> source_snapshot \<Rightarrow>
   (evidence_binding \<times> quarantine) quarantine_result" where
  "bind_evidence T W q c s =
     res_bind (demand (ca_source_snapshot_id c = sn_snapshot_id s) ''candidate and snapshot'') (\<lambda>_.
     res_bind (find_candidate q (ca_candidate_id c)) (\<lambda>registered.
     res_bind (demand (candidate_same registered c) ''registered value'') (\<lambda>_.
     res_bind (assert_current T W s) (\<lambda>_.
     res_bind (line_span T (sn_content s) (ca_start_line c) (ca_end_line c)) (\<lambda>span.
     res_bind (scan_secrets T span) (\<lambda>_.
     res_bind (candidate_digest_for T c) (\<lambda>digest.
       let span_digest = re_digest (ge_host T) span in
     res_bind (short_digest T (binding_identity digest s span_digest)) (\<lambda>hash.
       let b = make_binding c s span_digest hash in
     res_bind (demand (binding_valid T b) ''binding'') (\<lambda>_.
     res_bind (register_binding q b) (\<lambda>q'. Inr (b, q')))))))))))"

text \<open>\<open>binding.start_line or 1\<close>: a missing or zero line is replaced.\<close>

definition line_or :: "int option \<Rightarrow> int \<Rightarrow> int" where
  "line_or i default_line = (case i of None \<Rightarrow> default_line | Some j \<Rightarrow> if j = 0 then default_line else j)"

definition render_evidence ::
  "gate_env \<Rightarrow> source_world \<Rightarrow> evidence_binding \<Rightarrow> source_snapshot \<Rightarrow> bytes quarantine_result" where
  "render_evidence T W b s =
     res_bind (demand (eb_snapshot_id b = sn_snapshot_id s) ''binding and snapshot'') (\<lambda>_.
     res_bind (assert_current T W s) (\<lambda>_.
     res_bind (demand_some (ge_lines T (sn_content s)) ''utf-8'') (\<lambda>ls.
     res_bind (line_span T (sn_content s) (line_or (eb_start_line b) 1) (line_or (eb_end_line b) (int (length ls)))) (\<lambda>span.
     res_bind (demand (re_digest (ge_host T) span = eb_span_digest b) ''span digest'') (\<lambda>_.
     res_bind (scan_secrets T span) (\<lambda>_. Inr span))))))"

section \<open>Laws\<close>

text \<open>What \<open>str.strip\<close> and the lines of a text promise.\<close>

definition strip_law :: "gate_env \<Rightarrow> bool" where
  "strip_law T \<longleftrightarrow> (\<forall>s. ge_strip T (ge_strip T s) = ge_strip T s \<and> length (ge_strip T s) \<le> length s)"

text \<open>Every span of a plain text is one of its lines.\<close>

lemma text_spans_line:
  "x \<in> set (text_spans T X n ls) \<Longrightarrow> \<exists>k < length ls. xp_start_line x = int (n + k) \<and> xp_end_line x = int (n + k) \<and>
     xp_statement x = ge_strip T (ls ! k) \<and> xp_statement x \<noteq> []"
proof (induction ls arbitrary: n)
  case (Cons raw rest)
  consider "x \<in> set (text_spans T X (Suc n) rest)"
    | "ge_strip T raw \<noteq> []" "x = line_spanned (ge_strip T raw) (span_kind X (ge_strip T raw)) (int n) (''line:'' @ nat_text n)"
    using Cons.prems by (auto simp: Let_def split: if_splits)
  then show ?case
  proof cases
    case 1
    from Cons.IH [OF this] obtain k where "k < length rest" "xp_start_line x = int (Suc n + k)" "xp_end_line x = int (Suc n + k)"
        "xp_statement x = ge_strip T (rest ! k)" "xp_statement x \<noteq> []" by blast
    then show ?thesis by (intro exI [of _ "Suc k"]) simp
  next
    case 2
    then show ?thesis by (intro exI [of _ 0]) (simp add: line_spanned_def)
  qed
qed simp

text \<open>The statement of one line is its stripped text, unless that begins with a hash mark.\<close>

lemma span_statement_plain: "\<not> startswith (ge_strip T s) ''#'' \<Longrightarrow> span_statement T s = ge_strip T s"
  by (simp add: span_statement_def Let_def)

lemma span_statement_marked:
  assumes "strip_law T" and "startswith (ge_strip T s) ''#''"
  shows "span_statement T s \<noteq> ge_strip T s"
proof -
  let ?hash = "\<lambda>c. c = CHR ''#''" and ?s = "ge_strip T s"
  have short: "length (ge_strip T t) \<le> length t" for t using assms(1) by (simp add: strip_law_def)
  from assms(2) obtain rest where rest: "?s = CHR ''#'' # rest"
    by (cases ?s) (auto simp: startswith_def)
  have "length (span_statement T s) \<le> length (dropWhile ?hash (rev (ge_strip T (dropWhile ?hash ?s))))"
    using assms(2) short [of "rev (dropWhile ?hash (rev (ge_strip T (dropWhile ?hash ?s))))"]
    by (simp add: span_statement_def Let_def)
  also have "\<dots> \<le> length (rev (ge_strip T (dropWhile ?hash ?s)))" by (rule length_dropWhile_le)
  also have "\<dots> \<le> length (dropWhile ?hash ?s)" using short by simp
  also have "\<dots> \<le> length rest" by (simp add: rest length_dropWhile_le)
  finally have "length (span_statement T s) < length ?s" by (simp add: rest)
  then show ?thesis by auto
qed

lemma line_span_single:
  assumes "ge_lines T content = Some ls" and "k < length ls"
  shows "line_span T content (int (Suc k)) (int (Suc k)) = Inr (ls ! k)"
proof -
  have "take 1 (drop k ls) = [ls ! k]" using assms(2) by (simp add: take_Suc_conv_app_nth flip: Cons_nth_drop_Suc)
  moreover have "nat (1 + int k) = Suc k" by simp
  ultimately show ?thesis using assms by (simp add: line_span_def demand_some_def demand_def)
qed

end
