(* ===== verification/Quarantine_Sample.thy ===== *)
theory Quarantine_Sample
  imports Quarantine_Laws Atomize Registry_Sample
begin

text \<open>
  One line of text goes through the quarantine: the snapshot is registered, its candidate is
  extracted and bound, a reviewer approves it and it is promoted.
\<close>

text \<open>Nothing below depends on the encoder, because one digest stands for all.\<close>

definition law_gate :: "(json \<Rightarrow> bytes) \<Rightarrow> gate_env" where
  "law_gate d = reg_gate \<lparr> ge_host := (ge_host reg_gate) \<lparr> re_base := (re_base (ge_host reg_gate)) \<lparr> rv_dumps := d \<rparr> \<rparr> \<rparr>"

lemma law_gate_reg: "law_gate reg_dumps = reg_gate"
  by (simp add: law_gate_def reg_gate_def)

definition quarantine_snapshot :: source_snapshot where
  "quarantine_snapshot = \<lparr> sn_snapshot_id = ''snapshot-1'', sn_content = ''reviewed'',
     sn_content_digest = text_digest (CHR ''a''), sn_mode = ''CAS'', sn_media_type = ''text/plain'',
     sn_captured_at = ''day 1'', sn_principal_id = ''author'', sn_relative_path = ''notes.txt'',
     sn_path = Some ''/repo/notes.txt'', sn_repository_root = None, sn_repository = None, sn_revision = None,
     sn_uri = None, sn_source = None, sn_verification_method = None, sn_access_policy = ''team-read'',
     sn_parser_kind = ''text'', sn_generated = False, sn_token = Some 1, sn_proof = None \<rparr>"

definition quarantine_world :: source_world where
  "quarantine_world = \<lparr> sw_file = (\<lambda>p. if p = ''/repo/notes.txt'' then Some ''reviewed'' else None), sw_git = (\<lambda>_ _ _. None) \<rparr>"

definition quarantine_words :: extractor where
  "quarantine_words = \<lparr> xe_word = (\<lambda>_ _. False), xe_heading = (\<lambda>_. None), xe_python = (\<lambda>_. None), xe_config = (\<lambda>_ _. None) \<rparr>"

definition quarantine_empty :: quarantine where
  "quarantine_empty = new_quarantine (Some reg_root) ''st'' (1, 2, 3, 0)"

definition quarantine_known :: quarantine where
  "quarantine_known = quarantine_empty \<lparr> qn_snapshots := [(''snapshot-1'', quarantine_snapshot)] \<rparr>"

definition quarantine_span :: extracted_span where
  "quarantine_span = line_spanned ''reviewed'' ''fact'' 1 ''line:1''"

abbreviation quarantine_hash :: pystr where
  "quarantine_hash \<equiv> replicate 32 (CHR ''a'')"

definition quarantine_candidate :: candidate_atom where
  "quarantine_candidate = span_candidate quarantine_words quarantine_known quarantine_snapshot quarantine_span quarantine_hash"

definition quarantine_binding :: evidence_binding where
  "quarantine_binding = make_binding quarantine_candidate quarantine_snapshot (text_digest (CHR ''a'')) quarantine_hash"

definition quarantine_held :: quarantine where
  "quarantine_held = quarantine_known \<lparr> qn_candidates := [(''candidate-'' @ quarantine_hash, quarantine_candidate)] \<rparr>"

definition quarantine_bound :: quarantine where
  "quarantine_bound = quarantine_held \<lparr> qn_bindings := [(''candidate-'' @ quarantine_hash, [quarantine_binding])] \<rparr>"

definition quarantine_approval :: human_approval where
  "quarantine_approval = (unsigned_approval reg_root quarantine_candidate ''reviewer'' ''day 2'' None ''approval-1''
     (text_digest (CHR ''a'')) [text_digest (CHR ''a'')]) \<lparr> ha_signature := ''hmac-sha256:bb'' \<rparr>"

definition quarantine_validated :: validated_atom where
  "quarantine_validated = validated_from quarantine_candidate [quarantine_binding] quarantine_approval"

definition quarantine_done :: quarantine where
  "quarantine_done = quarantine_bound \<lparr> qn_promoted := [(''candidate-'' @ quarantine_hash, quarantine_validated)] \<rparr>"

lemma quarantine_registers: "register_snapshot quarantine_empty quarantine_snapshot = Inr quarantine_known"
  by code_simp

lemma law_spans: "extract_spans (law_gate d) quarantine_words quarantine_snapshot = Inr [quarantine_span]"
  by code_simp

lemma law_candidate_hash: "candidate_hash (law_gate d) quarantine_snapshot quarantine_span = Inr quarantine_hash"
  by code_simp

lemma law_holds: "register_candidate (law_gate d) quarantine_known quarantine_candidate = Inr quarantine_held"
  by code_simp

lemma law_binds: "bind_evidence (law_gate d) quarantine_world quarantine_held quarantine_candidate quarantine_snapshot =
    Inr (quarantine_binding, quarantine_bound)"
  by code_simp

lemma quarantine_registers_binding: "register_binding quarantine_held quarantine_binding = Inr quarantine_bound"
  by code_simp

lemma law_approves: "issue_approval (law_gate d) reg_root quarantine_candidate [quarantine_binding] ''reviewer'' ''day 2'' None ''approval-1'' =
    Inr quarantine_approval"
  by code_simp

lemma law_binding_verifies: "verify_evidence_binding (law_gate d) quarantine_candidate quarantine_snapshot quarantine_binding = Inr ()"
  by code_simp

lemma law_snapshot_verifies: "verify_snapshot (law_gate d) quarantine_world quarantine_snapshot = Inr ()"
  by code_simp

lemma law_promotes: "promote (law_gate d) quarantine_world 3 quarantine_bound (''candidate-'' @ quarantine_hash) quarantine_approval =
    Inr (quarantine_validated, quarantine_done)"
  by code_simp

lemma law_rechecks: "verify_validated (law_gate d) quarantine_world 3 quarantine_done quarantine_validated = Inr ()"
  by code_simp

section \<open>The entry in a permit\<close>

definition quarantine_entry :: members where
  "quarantine_entry = candidate_wire quarantine_candidate @
     [(''candidate_digest'', JStr (text_digest (CHR ''a''))), (''snapshot_id'', JStr ''snapshot-1''),
      (''snapshot_principal_id'', JStr ''author''), (''snapshot_captured_at'', JStr ''day 1''),
      (''source_trust_level'', JStr ''T3''), (''validated_trust_level'', JStr ''T1''), (''validated_status'', JStr ''validated''),
      (''source_proof'', JNull), (''approval'', JObj (approval_wire quarantine_approval)),
      (''bindings'', JList [JObj (evidence_binding_wire quarantine_binding)])]"

definition quarantine_parts :: permit_parts where
  "quarantine_parts = \<lparr> pt_seen = [(''evidence-'' @ quarantine_hash, text_digest (CHR ''a''))], pt_entries = [JObj quarantine_entry],
     pt_subjects = [subject_wire quarantine_binding], pt_bytes = [''reviewed''], pt_proofs = [] \<rparr>"

lemma law_permit_entry: "permit_atom_entry (law_gate d) quarantine_world 3 quarantine_done quarantine_validated =
    Inr (quarantine_entry, [quarantine_binding], None)"
proof -
  have "find_candidate quarantine_done (va_candidate_id quarantine_validated) = Inr quarantine_candidate"
    "map_of (qn_snapshots quarantine_done) (va_source_snapshot_id quarantine_validated) = Some quarantine_snapshot"
    "va_evidence_bindings quarantine_validated = [quarantine_binding]" "sn_proof quarantine_snapshot = None"
    "va_source_snapshot_id quarantine_validated = ''snapshot-1''" "sn_principal_id quarantine_snapshot = ''author''"
    "sn_captured_at quarantine_snapshot = ''day 1''" "va_source_trust_level quarantine_validated = ''T3''"
    "va_trust_level quarantine_validated = ''T1''" "va_status quarantine_validated = ''validated''"
    "va_approval quarantine_validated = quarantine_approval"
    by (simp_all add: find_candidate_def quarantine_done_def quarantine_bound_def quarantine_held_def quarantine_known_def
        quarantine_validated_def validated_from_def quarantine_candidate_def span_candidate_def quarantine_snapshot_def
        expected_trust_def has_deterministic_source_proof_def)
  moreover have "candidate_digest_for (law_gate d) quarantine_candidate = Inr (text_digest (CHR ''a''))"
    by code_simp
  ultimately show ?thesis
    by (simp add: permit_atom_entry_def law_rechecks demand_some_def snapshot_proof_wire_def quarantine_entry_def)
qed

lemma law_permit_step: "permit_step (law_gate d) quarantine_world (\<lambda>_. 3) quarantine_done
    \<lparr> pt_seen = [], pt_entries = [], pt_subjects = [], pt_bytes = [], pt_proofs = [] \<rparr> quarantine_validated = Inr quarantine_parts"
proof -
  have "eb_binding_id quarantine_binding = ''evidence-'' @ quarantine_hash" "eb_content_digest quarantine_binding = text_digest (CHR ''a'')"
    "eb_source_bytes quarantine_binding = ''reviewed''"
    by (simp_all add: quarantine_binding_def make_binding_def quarantine_snapshot_def)
  then show ?thesis
    by (simp add: permit_step_def law_permit_entry Let_def retain_source_proof_def permit_subject_def quarantine_parts_def)
qed

lemma law_run_done: "quarantine_run (law_gate d) (new_quarantine (Some reg_root) ''st'' (1, 2, 3, 0)) quarantine_done"
proof -
  have "quarantine_step (law_gate d) quarantine_empty quarantine_known" "quarantine_step (law_gate d) quarantine_known quarantine_held"
    "quarantine_step (law_gate d) quarantine_held quarantine_bound" "quarantine_step (law_gate d) quarantine_bound quarantine_done"
    using quarantine_registers law_holds quarantine_registers_binding law_promotes
    by (blast intro: quarantine_step.intros)+
  then have "quarantine_run (law_gate d) quarantine_empty quarantine_done"
    by (meson quarantine_run.intros)
  then show ?thesis by (simp add: quarantine_empty_def)
qed

section \<open>With the encoder of the registry sample\<close>

lemmas quarantine_spans = law_spans [of reg_dumps, unfolded law_gate_reg]
lemmas quarantine_candidate_hash = law_candidate_hash [of reg_dumps, unfolded law_gate_reg]
lemmas quarantine_holds = law_holds [of reg_dumps, unfolded law_gate_reg]
lemmas quarantine_binds = law_binds [of reg_dumps, unfolded law_gate_reg]
lemmas quarantine_approves = law_approves [of reg_dumps, unfolded law_gate_reg]
lemmas quarantine_binding_verifies = law_binding_verifies [of reg_dumps, unfolded law_gate_reg]
lemmas quarantine_snapshot_verifies = law_snapshot_verifies [of reg_dumps, unfolded law_gate_reg]
lemmas quarantine_promotes = law_promotes [of reg_dumps, unfolded law_gate_reg]
lemmas quarantine_rechecks = law_rechecks [of reg_dumps, unfolded law_gate_reg]
lemmas quarantine_permit_entry = law_permit_entry [of reg_dumps, unfolded law_gate_reg]
lemmas quarantine_permit_step = law_permit_step [of reg_dumps, unfolded law_gate_reg]
lemmas quarantine_run_done = law_run_done [of reg_dumps, unfolded law_gate_reg]

end
