(* ===== verification/Quarantine_Properties.thy ===== *)
theory Quarantine_Properties
  imports Quarantine_Sample Registry_Trust
begin

text \<open>
  The properties of the quarantine: what is promoted is backed for good, what a reviewer signed is
  promoted, and a permit carries only promoted atoms and is accepted by the gate that checks it.
\<close>

section \<open>Binding\<close>

lemma bind_evidence_Inr:
  assumes "bind_evidence T W q c s = Inr (b, q')"
  obtains excerpt hash where "line_span T (sn_content s) (ca_start_line c) (ca_end_line c) = Inr excerpt"
    "b = make_binding c s (re_digest (ge_host T) excerpt) hash" "ca_source_snapshot_id c = sn_snapshot_id s" "register_binding q b = Inr q'"
  using assms by (auto simp: bind_evidence_def Let_def res_bind_Inr_iff)

lemma made_binding_verifies:
  assumes "line_span T (sn_content s) (ca_start_line c) (ca_end_line c) = Inr excerpt" and "ge_clean T (sn_content s)"
  shows "verify_evidence_binding T c s (make_binding c s (re_digest (ge_host T) excerpt) hash) = Inr () \<longleftrightarrow>
    span_statement T excerpt = ge_strip T (ca_statement c)"
  using assms by (simp add: verify_evidence_binding_def verify_binding_identity_def verify_binding_locator_def verify_binding_bytes_def
      make_binding_def res_bind_Inr_iff)

text \<open>C15. A candidate cut from a line of plain text and bound to its snapshot has evidence that
  verifies exactly if its statement does not begin with a hash mark: verification strips hash
  marks as if every text were Markdown, and extraction does not.\<close>

theorem text_candidate_binds_iff:
  assumes "strip_law T" and "ge_clean T (sn_content s)"
    and "sn_parser_kind s \<notin> {''markdown'', ''code'', ''json'', ''yaml''}"
    and "extract_spans T X s = Inr spans" and "x \<in> set spans"
    and "bind_evidence T W q (span_candidate X q s x hash) s = Inr (b, q')"
  shows "verify_evidence_binding T (span_candidate X q s x hash) s b = Inr () \<longleftrightarrow> \<not> startswith (xp_statement x) ''#''"
proof -
  let ?c = "span_candidate X q s x hash"
  obtain ls where ls: "ge_lines T (sn_content s) = Some ls" "spans = text_spans T X 1 ls"
    using assms(3,4) by (auto simp: extract_spans_def res_bind_Inr_iff)
  from text_spans_line [of x T X 1 ls] assms(5) ls(2) obtain k where k: "k < length ls" "xp_start_line x = int (Suc k)"
      "xp_end_line x = int (Suc k)" "xp_statement x = ge_strip T (ls ! k)" by auto
  from bind_evidence_Inr [OF assms(6)] obtain excerpt h where excerpt: "line_span T (sn_content s) (ca_start_line ?c) (ca_end_line ?c) = Inr excerpt"
      "b = make_binding ?c s (re_digest (ge_host T) excerpt) h" by blast
  have "excerpt = ls ! k"
    using excerpt(1) line_span_single [OF ls(1) k(1)] by (simp add: span_candidate_def k(2,3))
  moreover have "ge_strip T (ca_statement ?c) = ge_strip T (ls ! k)"
    using assms(1) by (simp add: span_candidate_def k(4) strip_law_def)
  ultimately show ?thesis
    using made_binding_verifies [OF excerpt(1) assms(2)] excerpt(2) span_statement_plain [of T "ls ! k"]
      span_statement_marked [OF assms(1), of "ls ! k"] k(4) by auto
qed

lemma strip_law_sample: "strip_law reg_gate"
  by (simp add: strip_law_def reg_gate_def)

theorem text_candidate_binds_iff_witness:
  "verify_evidence_binding reg_gate quarantine_candidate quarantine_snapshot quarantine_binding = Inr () \<longleftrightarrow>
   \<not> startswith (xp_statement quarantine_span) ''#''"
proof -
  have c: "quarantine_candidate = span_candidate quarantine_words quarantine_held quarantine_snapshot quarantine_span quarantine_hash"
    by (simp add: quarantine_candidate_def span_candidate_def expected_trust_def quarantine_held_def has_deterministic_source_proof_def
        quarantine_snapshot_def)
  show ?thesis
    unfolding c
    by (rule text_candidate_binds_iff [OF strip_law_sample _ _ quarantine_spans _ quarantine_binds [unfolded c]])
      (simp_all add: reg_clean quarantine_snapshot_def)
qed

section \<open>Promotion\<close>

text \<open>An approval that the authority issued is trusted by every store of the same root.\<close>

lemma approval_field_wire:
  "approval_field (approval_wire a) ''approver_id'' = JStr (ha_approver_id a)"
  "approval_field (approval_wire a) ''issuer'' = JStr (ha_issuer a)"
  "approval_field (approval_wire a) ''signature'' = JStr (ha_signature a)"
  by (simp_all add: approval_field_def approval_wire_def)

lemma approval_signing_unsigned:
  "approval_signing_json (approval_wire (a \<lparr> ha_signature := x \<rparr>)) = approval_signing_json (approval_wire a)"
  by (simp add: approval_signing_json_def approval_field_def approval_wire_def)

lemma issued_approval_trusted:
  assumes "issue_approval T r c bs approver approved_at expires_at i = Inr a" and "qn_trust_root q = Some r"
  shows "approval_trusted T q a = Inr True"
proof -
  obtain secret digest evidence message where m: "map_of (tr_secrets r) approver = Some secret"
      "re_bytes (ge_host T) (approval_signing_json (approval_wire (unsigned_approval r c approver approved_at expires_at i digest evidence))) = Some message"
      "a = (unsigned_approval r c approver approved_at expires_at i digest evidence)
         \<lparr> ha_signature := ''hmac-sha256:'' @ to_hex (ge_hmac T secret message) \<rparr>"
    using assms(1) by (auto simp: issue_approval_def Let_def res_bind_Inr_iff split: option.splits)
  let ?sig = "''hmac-sha256:'' @ to_hex (ge_hmac T secret message)"
  have "startswith ?sig ''hmac-sha256:''" "removeprefix ''hmac-sha256:'' ?sig = to_hex (ge_hmac T secret message)"
    by (simp_all add: startswith_def removeprefix_def)
  moreover have "ha_approver_id a = approver" "ha_issuer a = tr_issuer r" "ha_signature a = ?sig"
    by (simp_all add: m(3) unsigned_approval_def)
  moreover have "jcs_text (ge_host T) (approval_signing_json (approval_wire a)) = Inr message"
    using m(2) by (simp add: m(3) approval_signing_unsigned jcs_text_def)
  ultimately have "hmac_verify T r (approval_wire a) = Inr True"
    using m(1) by (simp add: hmac_verify_def approval_field_wire json_key_def json_str_def)
  then show ?thesis by (simp add: approval_trusted_def assms(2))
qed

lemma issue_approval_fields:
  assumes "issue_approval T r c bs approver approved_at expires_at i = Inr a"
  shows "ha_candidate_id a = ca_candidate_id c" "ha_decision a = ''approve''" "candidate_digest_for T c = Inr (ha_candidate_digest a)"
    "res_map (binding_digest_for T) bs = Inr (ha_evidence_digests a)" "ha_approver_id a = approver" "ha_approved_at a = approved_at"
    "ha_expires_at a = expires_at"
  using assms by (auto simp: issue_approval_def Let_def res_bind_Inr_iff unsigned_approval_def split: option.splits)

text \<open>C14. Review leads to promotion: a registered candidate with evidence, whose source is current
  and whose bindings verify, is promoted by an approval that the store's own authority issued for
  it, to an approver other than the principal of the snapshot, at a time that is neither before the
  capture nor in the future, exactly if the approval has no expiry or one that lies after both the
  approval and the present. It is then no longer pending.\<close>

theorem reviewed_candidate_promotes:
  assumes "map_of (qn_candidates q) i = Some c" and "ca_candidate_id c = i" and "i \<notin> set (dict_keys (qn_promoted q))"
    and "bindings_for q i \<noteq> []" and "map_of (qn_snapshots q) (ca_source_snapshot_id c) = Some s"
    and "verify_snapshot T W s = Inr ()" and "\<forall>b \<in> set (bindings_for q i). verify_evidence_binding T c s b = Inr ()"
    and "qn_trust_root q = Some r" and "issue_approval T r c (bindings_for q i) approver approved_at expiry k = Inr a"
    and "approver \<noteq> sn_principal_id s" and "approval_instant T (sn_captured_at s) = Inr captured"
    and "approval_instant T approved_at = Inr approved" and "captured \<le> approved" and "approved \<le> now"
  shows "(\<exists>q'. promote T W now q i a = Inr (validated_from c (bindings_for q i) a, q') \<and>
     map_of (qn_promoted q') i = Some (validated_from c (bindings_for q i) a) \<and> \<not> pending q' i) \<longleftrightarrow>
    (\<forall>e. expiry = Some e \<longrightarrow> (\<exists>t. approval_instant T e = Inr t \<and> approved < t \<and> now < t))" (is "?promoted \<longleftrightarrow> ?timely")
proof -
  note fields = issue_approval_fields [OF assms(9)]
  have bindings: "res_map (verify_evidence_binding T c s) (bindings_for q i) = Inr (map (\<lambda>_. ()) (bindings_for q i))"
    using assms(7) by (intro res_map_total) simp
  have time: "verify_approval_time T now s a = Inr () \<longleftrightarrow> ?timely"
    using assms(11-14) fields
    by (auto simp: verify_approval_time_def demand_def res_bind_Inr_iff split: option.splits)
  have "?promoted" if ?timely
  proof -
    have "verify_human_approval T now q i c (bindings_for q i) s a = Inr ()"
      using assms(2,10) fields issued_approval_trusted [OF assms(9,8)] time that
      by (simp add: verify_human_approval_def verify_approval_identity_def verify_approval_trust_def demand_def)
    with bindings have "promote T W now q i a = Inr (validated_from c (bindings_for q i) a,
        q \<lparr> qn_promoted := AList.update i (validated_from c (bindings_for q i) a) (qn_promoted q) \<rparr>)" (is "_ = Inr (_, ?q)")
      using assms(1,3-6) by (simp add: promote_def promotion_inputs_def find_candidate_def demand_def demand_some_def Let_def)
    moreover have "map_of (qn_promoted ?q) i = Some (validated_from c (bindings_for q i) a)"
      by (simp add: update_conv')
    moreover from this have "\<not> pending ?q i"
      by (force simp: pending_def dest: map_of_SomeD)
    ultimately show ?thesis by blast
  qed
  moreover have ?timely if "promote T W now q i a = Inr (v, q')" for v q'
    using that assms(1,5) unfolding time [symmetric]
    by (auto simp: promote_def promotion_inputs_def find_candidate_def verify_human_approval_def res_bind_Inr_iff
        demand_some_def Let_def split: if_splits)
  ultimately show ?thesis by blast
qed

theorem reviewed_candidate_promotes_witness:
  "\<exists>q'. promote reg_gate quarantine_world 3 quarantine_bound (''candidate-'' @ quarantine_hash) quarantine_approval =
      Inr (validated_from quarantine_candidate (bindings_for quarantine_bound (''candidate-'' @ quarantine_hash)) quarantine_approval, q') \<and>
    map_of (qn_promoted q') (''candidate-'' @ quarantine_hash) =
      Some (validated_from quarantine_candidate (bindings_for quarantine_bound (''candidate-'' @ quarantine_hash)) quarantine_approval) \<and>
    \<not> pending q' (''candidate-'' @ quarantine_hash)"
proof (rule reviewed_candidate_promotes [where s = quarantine_snapshot and r = reg_root and approver = "''reviewer''"
    and captured = 1 and approved = 2 and approved_at = "''day 2''" and expiry = None and k = "''approval-1''", THEN iffD2])
  show "map_of (qn_candidates quarantine_bound) (''candidate-'' @ quarantine_hash) = Some quarantine_candidate"
    "ca_candidate_id quarantine_candidate = ''candidate-'' @ quarantine_hash"
    "''candidate-'' @ quarantine_hash \<notin> set (dict_keys (qn_promoted quarantine_bound))"
    "map_of (qn_snapshots quarantine_bound) (ca_source_snapshot_id quarantine_candidate) = Some quarantine_snapshot"
    "qn_trust_root quarantine_bound = Some reg_root"
    by (simp_all add: quarantine_bound_def quarantine_held_def quarantine_known_def quarantine_empty_def new_quarantine_def
        quarantine_candidate_def span_candidate_def quarantine_snapshot_def)
  have bindings: "bindings_for quarantine_bound (''candidate-'' @ quarantine_hash) = [quarantine_binding]"
    by (simp add: bindings_for_def quarantine_bound_def)
  then show "bindings_for quarantine_bound (''candidate-'' @ quarantine_hash) \<noteq> []"
    "\<forall>b \<in> set (bindings_for quarantine_bound (''candidate-'' @ quarantine_hash)).
       verify_evidence_binding reg_gate quarantine_candidate quarantine_snapshot b = Inr ()"
    "issue_approval reg_gate reg_root quarantine_candidate (bindings_for quarantine_bound (''candidate-'' @ quarantine_hash)) ''reviewer''
       ''day 2'' None ''approval-1'' = Inr quarantine_approval"
    using quarantine_binding_verifies quarantine_approves by simp_all
  show "approval_instant reg_gate (sn_captured_at quarantine_snapshot) = Inr 1" "approval_instant reg_gate ''day 2'' = Inr 2"
    by code_simp+
qed (use quarantine_snapshot_verifies in \<open>simp_all add: quarantine_snapshot_def\<close>)

text \<open>C12. However a store is used, a promoted atom is a copy of a registered candidate of a
  registered snapshot of the same path and generation, with at least one binding, each to the very
  bytes whose lines read as the statement, and with a trusted approval of the candidate and these
  bindings by somebody other than the principal of the snapshot, not before its capture. No later
  operation replaces the atom or takes its backing away.\<close>

theorem promoted_backed:
  assumes "quarantine_run T (new_quarantine r i tokens) q" and "map_of (qn_promoted q) k = Some v"
    and "quarantine_run T q q'"
  shows "va_candidate_id v = k \<and> promotion_backed T q v \<and> map_of (qn_promoted q') k = Some v \<and> promotion_backed T q' v"
proof -
  note inv = quarantine_run_grows [OF assms(1) quarantine_inv_new]
  with quarantine_run_grows [OF assms(3)] have later: "quarantine_grows q q'" "quarantine_inv T q'" by blast+
  have "map_of (qn_promoted q') k = Some v" using later(1) assms(2) unfolding quarantine_grows_def by blast
  with quarantine_invD(3) [OF later(2)] quarantine_invD(3) [of T q k v] inv assms(2) show ?thesis by blast
qed

lemma quarantine_sample_promoted: "map_of (qn_promoted quarantine_done) (''candidate-'' @ quarantine_hash) = Some quarantine_validated"
  by (simp add: quarantine_done_def)

theorem promoted_backed_witness:
  "va_candidate_id quarantine_validated = ''candidate-'' @ quarantine_hash \<and> promotion_backed reg_gate quarantine_done quarantine_validated"
  using promoted_backed [OF quarantine_run_done quarantine_sample_promoted quarantine_run.refl] by blast

section \<open>Permits\<close>

lemma to_hex_no_colon: "CHR '':'' \<notin> set (to_hex bs)"
  by (auto dest: set_to_hex)

lemma split_signature:
  assumes "CHR '':'' \<notin> set h"
  shows "py_partition (CHR '':'') (snd (snd (py_partition (CHR '':'') (''hmac-sha256:'' @ s @ '':'' @ h)))) =
    py_partition (CHR '':'') (s @ '':'' @ h)"
  by (simp add: py_partition_def)

lemma partition_signer:
  "fst (py_partition (CHR '':'') (s @ '':'' @ h)) = s \<longleftrightarrow> CHR '':'' \<notin> set s"
  by (induction s) (auto simp: py_partition_def)

lemma partition_separator: "fst (snd (py_partition (CHR '':'') (s @ '':'' @ h))) = '':''"
  by (induction s) (auto simp: py_partition_def)

lemma signed_verifies_iff:
  assumes "sign_payload T r payload = Inr signature"
  shows "verify_payload T r payload signature \<longleftrightarrow> CHR '':'' \<notin> set (tr_signer r)"
proof -
  obtain h where h: "signature = ''hmac-sha256:'' @ tr_signer r @ '':'' @ to_hex h"
    using assms by (auto simp: sign_payload_def res_bind_Inr_iff split: option.splits)
  have start: "startswith signature ''hmac-sha256:''" by (simp add: h startswith_def)
  have "py_partition (CHR '':'') (snd (snd (py_partition (CHR '':'') signature))) =
      py_partition (CHR '':'') (tr_signer r @ '':'' @ to_hex h)"
    unfolding h by (rule split_signature [OF to_hex_no_colon])
  moreover have "fst (snd (py_partition (CHR '':'') (tr_signer r @ '':'' @ to_hex h))) \<noteq> []"
    by (simp only: partition_separator) simp
  ultimately show ?thesis
    using start assms partition_signer [of "tr_signer r" "to_hex h"]
    by (auto simp: verify_payload_def split: prod.splits)
qed

lemma permit_steps_promoted:
  "res_fold (permit_step T W now q) st atoms = Inr st' \<Longrightarrow> v \<in> set atoms \<Longrightarrow> map_of (qn_promoted q) (va_candidate_id v) = Some v"
  by (induction atoms arbitrary: st)
    (auto simp: permit_step_def permit_atom_entry_def verify_validated_def res_bind_Inr_iff)

lemma issue_permit_Inr:
  assumes "issue_publication_permit T W now q c atoms caller attestation = Inr p" and "qn_trust_root q = Some r"
  obtains a parts anchor where "attestation = Some a" "la_capability a = Some (qn_loader_token q)" "la_store_id a = qn_store_id q"
    "pm_payload p = permit_payload r anchor c caller a parts" "sign_payload T r (JObj (pm_payload p)) = Inr (pm_signature p)"
    "pm_loader_attestation p = Some a" "pm_issuer p = Some (publication_issuer_of q)" "root_id T r = Inr anchor"
    "res_fold (permit_step T W now q) \<lparr> pt_seen = [], pt_entries = [], pt_subjects = [], pt_bytes = [], pt_proofs = [] \<rparr> atoms = Inr parts"
    "pm_source_bytes p = pt_bytes parts" "pm_source_proofs p = pt_proofs parts"
  using assms by (auto simp: issue_publication_permit_def validate_permit_loader_def Let_def res_bind_Inr_iff)

lemma permit_payload_members:
  "json_get (permit_payload r anchor c caller a parts) ''loader_attestation'' = JObj (loader_wire a)"
  "json_get (permit_payload r anchor c caller a parts) ''atoms'' = JList (pt_entries parts)"
  "json_get (permit_payload r anchor c caller a parts) ''source_subjects'' = JList (pt_subjects parts)"
  "json_get (permit_payload r anchor c caller a parts) ''trust_root_id'' = JStr anchor"
  by (simp_all add: permit_payload_def json_get_def Let_def)

lemma issued_permit_verifies:
  assumes "issue_publication_permit T W now q c atoms caller attestation = Inr p" and "qn_trust_root q = Some r"
  shows "verify_permit_signature T (Some r) p = Inr (r, publication_issuer_of q, pm_payload p) \<longleftrightarrow> CHR '':'' \<notin> set (tr_signer r)"
proof -
  from issue_permit_Inr [OF assms] obtain a parts anchor where p: "la_capability a = Some (qn_loader_token q)"
      "la_store_id a = qn_store_id q" "pm_payload p = permit_payload r anchor c caller a parts"
      "sign_payload T r (JObj (pm_payload p)) = Inr (pm_signature p)" "pm_loader_attestation p = Some a"
      "pm_issuer p = Some (publication_issuer_of q)"
    by metis
  have wire: "json_get (pm_payload p) ''loader_attestation'' = JObj (loader_wire a)"
    by (simp add: p(3) permit_payload_members)
  have store: "json_get (loader_wire a) ''store_id'' = JStr (pi_store_id (publication_issuer_of q))"
    by (simp add: loader_wire_def loader_payload_def json_get_def publication_issuer_of_def p(2))
  have owned: "owns_loader_attestation (publication_issuer_of q) (Some a)"
    by (simp add: owns_loader_attestation_def publication_issuer_of_def p(1))
  show ?thesis
    using signed_verifies_iff [OF p(4)] by (simp add: verify_permit_signature_def p(5,6) wire store owned res_bind_Inr_iff)
qed

lemma issued_permit_binds:
  assumes "issue_publication_permit T W now q c atoms caller attestation = Inr p" and "qn_trust_root q = Some r"
    and "CHR '':'' \<notin> set (tr_signer r)"
  shows "permit_binds T r c caller p"
proof -
  from issue_permit_Inr [OF assms(1,2)] obtain a parts anchor where p: "pm_payload p = permit_payload r anchor c caller a parts"
      "sign_payload T r (JObj (pm_payload p)) = Inr (pm_signature p)" by metis
  show ?thesis
    using signed_verifies_iff [OF p(2)] assms(3) by (simp add: permit_binds_def Let_def) (simp add: p(1) permit_payload_def json_get_def Let_def)
qed

text \<open>C13. A permit that a store issued for a capsule is accepted by the signature check of the gate
  with the same trust root exactly if the identifier of the signing approver has no colon, and then it
  binds that capsule, version and caller. It covers promoted atoms only.\<close>

theorem permit_signature_round_trip:
  assumes "issue_publication_permit T W now q c atoms caller attestation = Inr p" and "qn_trust_root q = Some r"
  shows "(verify_permit_signature T (Some r) p = Inr (r, publication_issuer_of q, pm_payload p) \<longleftrightarrow> CHR '':'' \<notin> set (tr_signer r)) \<and>
     (CHR '':'' \<notin> set (tr_signer r) \<longrightarrow> permit_binds T r c caller p) \<and>
     (\<forall>v \<in> set atoms. map_of (qn_promoted q) (va_candidate_id v) = Some v)"
proof -
  from issue_permit_Inr [OF assms] obtain parts where
      "res_fold (permit_step T W now q) \<lparr> pt_seen = [], pt_entries = [], pt_subjects = [], pt_bytes = [], pt_proofs = [] \<rparr> atoms = Inr parts"
    by metis
  from permit_steps_promoted [OF this] issued_permit_verifies [OF assms] issued_permit_binds [OF assms] show ?thesis by blast
qed

lemma quarantine_payload_ok: "json_value_ok (JObj (permit_payload reg_root (''trust-root-'' @ quarantine_hash) reg_capsule ''ci'' reg_attestation quarantine_parts))"
  by code_simp

lemma quarantine_root: "qn_trust_root quarantine_done = Some reg_root" "qn_loader_token quarantine_done = 0" "qn_store_id quarantine_done = ''st''"
  by (simp_all add: quarantine_done_def quarantine_bound_def quarantine_held_def quarantine_known_def quarantine_empty_def new_quarantine_def)

lemma quarantine_permit: "\<exists>p. issue_publication_permit reg_gate quarantine_world (\<lambda>_. 3) quarantine_done reg_capsule [quarantine_validated]
    ''ci'' (Some reg_attestation) = Inr p"
proof -
  have "validate_permit_loader reg_gate quarantine_done (Some reg_attestation) (text_digest (CHR ''a'')) = Inr reg_attestation"
    using reg_loader_verifies
    by (simp add: validate_permit_loader_def demand_some_def demand_def quarantine_root) (simp add: reg_attestation_def)
  moreover have "\<exists>signature. sign_payload reg_gate reg_root (JObj (permit_payload reg_root (''trust-root-'' @ quarantine_hash)
      reg_capsule ''ci'' reg_attestation quarantine_parts)) = Inr signature"
    using quarantine_payload_ok by (auto simp: sign_payload_def reg_root_def tr_signer_def jcs_text_def canonical_json_bytes_def)
  ultimately show ?thesis
    by (auto simp: issue_publication_permit_def demand_some_def demand_def reg_canonical_digest reg_manifest sample_manifest_def
        quarantine_permit_step quarantine_root reg_root_id of_registry_def Let_def)
qed

theorem permit_signature_round_trip_witness:
  "\<exists>p. verify_permit_signature reg_gate (Some reg_root) p = Inr (reg_root, publication_issuer_of quarantine_done, pm_payload p) \<and>
     permit_binds reg_gate reg_root reg_capsule ''ci'' p"
proof -
  obtain p where p: "issue_publication_permit reg_gate quarantine_world (\<lambda>_. 3) quarantine_done reg_capsule [quarantine_validated]
    ''ci'' (Some reg_attestation) = Inr p" using quarantine_permit by blast
  have "CHR '':'' \<notin> set (tr_signer reg_root)" by code_simp
  with permit_signature_round_trip [OF p quarantine_root(1)] show ?thesis by blast
qed

end
