(* ===== verification/Builder.thy ===== *)
theory Builder
  imports Quarantine Registry
begin

text \<open>
  The builder (\<^verbatim>\<open>build/publish.py\<close>): promoted atoms become the JSON of a capsule, the package is
  written and read back through the loader, which leaves a signed receipt, and a draft is
  published with a permit of its quarantine. The file system, the loader of a written package
  and the validation of the JSON by the capsule model are parameters.
\<close>

section \<open>Receipts of the loader\<close>

record loader_receipt =
  lr_capsule_digest :: pystr
  lr_capability :: nat
  lr_publication_digest :: pystr
  lr_package_path :: "pystr option"
  lr_store_id :: pystr
  lr_proof :: pystr
  lr_receipt_id :: pystr

definition loader_receipt_payload :: "pystr \<Rightarrow> pystr \<Rightarrow> pystr option \<Rightarrow> pystr \<Rightarrow> pystr \<Rightarrow> members" where
  "loader_receipt_payload capsule_digest publication_digest package_path store_id receipt_id =
    [(''profile'', JStr loader_profile), (''capsule_digest'', JStr capsule_digest),
     (''publication_digest'', JStr publication_digest), (''package_path'', json_opt JStr package_path),
     (''store_id'', JStr store_id), (''receipt_id'', JStr receipt_id)]"

text \<open>The surroundings: the absolute form of a path, whether one exists, a fresh directory and
  receipt name, what \<open>load_capsule\<close> makes of a package just written, and
  \<open>Capsule.model_validate_json\<close>.\<close>

record build_env =
  be_resolve :: "pystr \<Rightarrow> pystr"
  be_exists :: "pystr \<Rightarrow> bool"
  be_temporary :: pystr
  be_receipt_id :: pystr
  be_load :: "core_capsule \<Rightarrow> (pystr \<times> bytes) list \<Rightarrow> core_capsule option"
  be_model :: "members \<Rightarrow> core_capsule option"

definition demand_digest :: "pystr option \<Rightarrow> pystr quarantine_result" where
  "demand_digest d = (case d of None \<Rightarrow> Inl (QuarantineFault ''ValueError'') | Some x \<Rightarrow> Inr x)"

lemma demand_digest_Inr [simp, result_simps]: "demand_digest d = Inr x \<longleftrightarrow> d = Some x"
  by (cases d) (simp_all add: demand_digest_def)

definition receipt_matches ::
  "gate_env \<Rightarrow> build_env \<Rightarrow> loader_receipt \<Rightarrow> core_capsule \<Rightarrow> nat \<Rightarrow> pystr option \<Rightarrow> pystr \<Rightarrow> bool quarantine_result" where
  "receipt_matches T B t c capability package_path store_id =
    (let identity = map_option (be_resolve B) package_path in
     if lr_capability t \<noteq> capability \<or> lr_capsule_digest t \<noteq> cm_content_digest (cc_control_manifest c) then Inr False
     else res_bind (demand_digest (publication_digest_of T c)) (\<lambda>digest.
       Inr (lr_publication_digest t = digest \<and> lr_package_path t = identity \<and> lr_store_id t = store_id \<and>
         lr_store_id t \<noteq> [] \<and> lr_proof t \<noteq> [] \<and>
         loader_verify T (loader_receipt_payload (lr_capsule_digest t) (lr_publication_digest t) (lr_package_path t)
           (lr_store_id t) (lr_receipt_id t)) (lr_proof t))))"

definition load_and_issue ::
  "gate_env \<Rightarrow> build_env \<Rightarrow> core_capsule \<Rightarrow> (pystr \<times> bytes) list \<Rightarrow> pystr option \<Rightarrow> pystr \<Rightarrow> nat \<Rightarrow>
   (core_capsule \<times> loader_receipt) quarantine_result" where
  "load_and_issue T B written blobs package_path store_id capability =
     res_bind (demand_some (be_load B written blobs) ''load'') (\<lambda>loaded.
     res_bind (demand_digest (publication_digest_of T loaded)) (\<lambda>digest.
       let identity = map_option (be_resolve B) package_path; capsule_digest = cm_content_digest (cc_control_manifest loaded) in
       Inr (loaded, \<lparr> lr_capsule_digest = capsule_digest, lr_capability = capability, lr_publication_digest = digest,
         lr_package_path = identity, lr_store_id = store_id,
         lr_proof = loader_sign T (loader_receipt_payload capsule_digest digest identity store_id (be_receipt_id B)),
         lr_receipt_id = be_receipt_id B \<rparr>)))"

definition attest_loaded ::
  "gate_env \<Rightarrow> build_env \<Rightarrow> core_capsule \<Rightarrow> pystr option \<Rightarrow> loader_receipt \<Rightarrow> pystr \<Rightarrow> nat \<Rightarrow> loader_attestation quarantine_result" where
  "attest_loaded T B c package_path t store_id capability =
     res_bind (demand_digest (publication_digest_of T c)) (\<lambda>digest.
     res_bind (receipt_matches T B t c capability package_path store_id) (\<lambda>matches.
     res_bind (demand matches ''loader receipt'') (\<lambda>_.
       let a = \<lparr> la_capsule_digest = cm_content_digest (cc_control_manifest c), la_publication_digest = digest,
           la_pipeline = loader_pipeline, la_package_path = map_option (be_resolve B) package_path, la_signature = [],
           la_store_id = store_id, la_capability = Some capability, la_profile = loader_profile \<rparr>;
           signed = a \<lparr> la_signature := loader_sign T (loader_payload a) \<rparr> in
     res_bind (demand (loader_attestation_valid signed) ''loader attestation'') (\<lambda>_. Inr signed))))"

section \<open>Records of atoms and evidence\<close>

datatype build_template = TemplateCapsule core_capsule | TemplateMapping members

record build_request =
  bq_atoms :: "validated_atom list"
  bq_template :: "build_template option"
  bq_capsule_id :: pystr
  bq_version :: pystr
  bq_owner :: pystr
  bq_tenant :: pystr
  bq_authority :: pystr
  bq_sensitivity :: pystr
  bq_lifecycle :: pystr
  bq_environments :: "pystr list"
  bq_package_path :: "pystr option"
  bq_detached_signature :: "members option"

record draft_capsule =
  dr_capsule :: core_capsule
  dr_atom_ids :: "pystr list"
  dr_package_path :: "pystr option"
  dr_pipeline :: "pystr list"
  dr_receipt :: "loader_receipt option"
  dr_attestation :: "loader_attestation option"
  dr_atoms :: "validated_atom list"

definition candidate_of :: "validated_atom \<Rightarrow> candidate_atom" where
  "candidate_of v =
     \<lparr> ca_candidate_id = va_candidate_id v, ca_atom_id = va_atom_id v, ca_kind = va_kind v,
       ca_statement = va_statement v, ca_modality = va_modality v, ca_scope = va_scope v,
       ca_source_snapshot_id = va_source_snapshot_id v, ca_start_line = va_start_line v, ca_end_line = va_end_line v,
       ca_symbol_or_heading = va_symbol_or_heading v, ca_compression_class = va_compression_class v,
       ca_generated = va_generated v, ca_trust_level = va_source_trust_level v, ca_status = ''candidate'', ca_token = None \<rparr>"

definition trust_candidate :: "validated_atom \<Rightarrow> members" where
  "trust_candidate v =
    [(''candidate_id'', JStr (va_candidate_id v)), (''atom_id'', JStr (va_atom_id v)), (''kind'', JStr (va_kind v)),
     (''statement'', JStr (va_statement v)), (''modality'', JStr (va_modality v)), (''scope'', json_strings (va_scope v)),
     (''source_snapshot_id'', JStr (va_source_snapshot_id v)), (''start_line'', JInt (va_start_line v)),
     (''end_line'', JInt (va_end_line v)), (''symbol_or_heading'', JStr (va_symbol_or_heading v)),
     (''compression_class'', JStr (va_compression_class v)), (''generated'', JBool (va_generated v)),
     (''status'', JStr ''candidate''), (''source_trust_level'', JStr (va_source_trust_level v)),
     (''validated_trust_level'', JStr (va_trust_level v)), (''validated_status'', JStr (va_status v))]"

definition trust_approval :: "human_approval \<Rightarrow> members" where
  "trust_approval a =
    [(''approval_id'', JStr (ha_approval_id a)), (''candidate_id'', JStr (ha_candidate_id a)),
     (''approver_id'', JStr (ha_approver_id a)), (''approved_at'', JStr (ha_approved_at a)),
     (''decision'', JStr (ha_decision a)), (''candidate_digest'', JStr (ha_candidate_digest a)),
     (''evidence_digests'', json_strings (ha_evidence_digests a)), (''expires_at'', json_opt JStr (ha_expires_at a)),
     (''issuer'', JStr (ha_issuer a)), (''signature'', JStr (ha_signature a))]"

definition trust_record :: "validated_atom \<Rightarrow> pystr \<Rightarrow> members" where
  "trust_record v digest =
    [(''level'', JStr (va_trust_level v)), (''source_level'', JStr (va_source_trust_level v)),
     (''candidate_id'', JStr (va_candidate_id v)), (''candidate_digest'', JStr digest),
     (''candidate'', JObj (trust_candidate v)), (''approval'', JObj (trust_approval (va_approval v)))]"

definition approval_extension :: "gate_env \<Rightarrow> validated_atom \<Rightarrow> members quarantine_result" where
  "approval_extension T v =
     res_bind (demand (candidate_valid T (candidate_of v)) ''candidate'') (\<lambda>_.
     res_bind (candidate_digest_for T (candidate_of v)) (\<lambda>digest.
       Inr [(''x-trust'', JObj (trust_record v digest))]))"

definition atom_members :: "validated_atom \<Rightarrow> pystr \<Rightarrow> pystr \<Rightarrow> members \<Rightarrow> members" where
  "atom_members v authority valid_from extensions =
    [(''atom_id'', JStr (va_atom_id v)), (''kind'', JStr (va_kind v)), (''statement'', JStr (va_statement v)),
     (''modality'', JStr (va_modality v)), (''scope'', json_strings (va_scope v)), (''exceptions'', JList []),
     (''validity'', JObj [(''from'', JStr valid_from), (''until'', JNull)]), (''authority'', JStr authority),
     (''status'', JStr ''validated''), (''confidence'', JFloat 1),
     (''evidence_refs'', json_strings (map eb_binding_id (va_evidence_bindings v))), (''requires_atoms'', JList []),
     (''conflicts_with'', JList []), (''sensitivity'', JStr ''internal''),
     (''compression_class'', JStr (va_compression_class v)), (''refresh_policy'', JStr ''on-source-change''),
     (''extensions'', JObj extensions)]"

text \<open>The start of the validity is the least capture day; without bindings \<open>min\<close> fails.\<close>

definition atom_record :: "gate_env \<Rightarrow> pystr \<Rightarrow> validated_atom \<Rightarrow> members quarantine_result" where
  "atom_record T authority v =
     res_bind (scan_secrets T (va_statement v)) (\<lambda>_.
     if va_evidence_bindings v = [] then Inl (QuarantineFault ''ValueError'')
     else res_bind (approval_extension T v) (\<lambda>extensions.
       Inr (atom_members v authority (Min (set (map (\<lambda>b. take 10 (eb_captured_at b)) (va_evidence_bindings v)))) extensions)))"

definition source_map :: "evidence_binding \<Rightarrow> pystr \<Rightarrow> members" where
  "source_map b digest =
    [(''binding_id'', JStr (eb_binding_id b)), (''candidate_id'', JStr (eb_candidate_id b)),
     (''snapshot_id'', JStr (eb_snapshot_id b)), (''mode'', JStr (eb_mode b)),
     (''content_digest'', JStr (eb_content_digest b)), (''path'', json_opt JStr (eb_path b)),
     (''symbol_or_heading'', json_opt JStr (eb_symbol_or_heading b)), (''start_line'', json_opt JInt (eb_start_line b)),
     (''end_line'', json_opt JInt (eb_end_line b)), (''span_digest'', JStr (eb_span_digest b)),
     (''binding_digest'', JStr digest), (''repository'', json_opt JStr (eb_repository b)),
     (''revision'', json_opt JStr (eb_revision b)), (''uri'', json_opt JStr (eb_uri b)),
     (''source'', json_opt JStr (eb_source b)), (''verification_method'', json_opt JStr (eb_verification_method b)),
     (''access_policy'', JStr (eb_access_policy b)), (''media_type'', JStr (eb_media_type b)),
     (''captured_at'', JStr (eb_captured_at b))]"

definition binding_extension :: "gate_env \<Rightarrow> evidence_binding \<Rightarrow> members quarantine_result" where
  "binding_extension T b = res_bind (binding_digest_for T b) (\<lambda>digest. Inr [(''x-source-map'', JObj (source_map b digest))])"

definition locator_members :: "evidence_binding \<Rightarrow> members" where
  "locator_members b =
    (if eb_mode b = ''GIT_IMMUTABLE'' then
       [(''repository'', json_opt JStr (eb_repository b)), (''revision'', json_opt JStr (eb_revision b)),
        (''path'', json_opt JStr (eb_path b)),
        (''locator'', JObj [(''symbol_or_heading'', json_opt JStr (eb_symbol_or_heading b)),
           (''start_line'', json_opt JInt (eb_start_line b)), (''end_line'', json_opt JInt (eb_end_line b)),
           (''span_digest'', JStr (eb_span_digest b))])]
     else if eb_mode b = ''EXTERNAL_IMMUTABLE'' then
       [(''uri'', json_opt JStr (eb_uri b)), (''source'', json_opt JStr (eb_source b)),
        (''verification_method'', json_opt JStr (eb_verification_method b))]
     else [])"

definition evidence_members :: "evidence_binding \<Rightarrow> pystr \<Rightarrow> members \<Rightarrow> members" where
  "evidence_members b atom_id extensions =
    [(''mode'', JStr (eb_mode b)), (''evidence_id'', JStr (eb_binding_id b)), (''atom_ids'', json_strings [atom_id]),
     (''content_digest'', JStr (eb_content_digest b)), (''media_type'', JStr (eb_media_type b)),
     (''captured_at'', JStr (eb_captured_at b)), (''retention'', JStr ''follow-source-policy''),
     (''access_policy'', JStr (eb_access_policy b)), (''validation'', JStr ''verified''),
     (''extensions'', JObj extensions)] @ locator_members b"

definition evidence_record_of :: "gate_env \<Rightarrow> pystr \<Rightarrow> evidence_binding \<Rightarrow> members quarantine_result" where
  "evidence_record_of T atom_id b =
     res_bind (scan_secrets T (eb_source_bytes b)) (\<lambda>_.
     res_bind (binding_extension T b) (\<lambda>extensions. Inr (evidence_members b atom_id extensions)))"

section \<open>Assembling the JSON of a capsule\<close>

text \<open>\<open>d.update(...)\<close> and assignment to a member of a member of a dictionary.\<close>

definition put_members :: "members \<Rightarrow> members \<Rightarrow> members" where
  "put_members d entries = foldl (\<lambda>d (key, v). AList.update key v d) d entries"

definition put_inner :: "members \<Rightarrow> pystr \<Rightarrow> pystr \<Rightarrow> json \<Rightarrow> members quarantine_result" where
  "put_inner d outer inner v = (case map_of d outer of
       None \<Rightarrow> Inl (QuarantineFault ''KeyError'')
     | Some (JObj m) \<Rightarrow> Inr (AList.update outer (JObj (AList.update inner v m)) d)
     | Some _ \<Rightarrow> Inl (QuarantineFault ''TypeError''))"

definition format_opt :: "pystr option \<Rightarrow> pystr" where
  "format_opt s = (case s of None \<Rightarrow> ''None'' | Some t \<Rightarrow> t)"

definition or_text :: "pystr option \<Rightarrow> pystr \<Rightarrow> pystr" where
  "or_text s default_text = (case s of None \<Rightarrow> default_text | Some t \<Rightarrow> if t = [] then default_text else t)"

definition binding_marker :: "evidence_binding \<Rightarrow> pystr \<times> pystr \<times> pystr" where
  "binding_marker b =
    (if eb_mode b = ''GIT_IMMUTABLE'' then
       (''git:'' @ format_opt (eb_repository b) @ ''@'' @ format_opt (eb_revision b) @ '':'' @ format_opt (eb_path b),
        or_text (eb_path b) ''external/content'', or_text (eb_repository b) ''git-source'')
     else if eb_mode b = ''EXTERNAL_IMMUTABLE'' then
       (''external:'' @ format_opt (eb_uri b) @ ''@'' @ eb_content_digest b, ''external/content'', ''external-source'')
     else (''cas:'' @ eb_content_digest b, ''source/content'', ''local-cas''))"

definition add_new :: "'a list \<Rightarrow> 'a \<Rightarrow> 'a list" where
  "add_new xs x = (if x \<in> set xs then xs else xs @ [x])"

definition source_markers :: "validated_atom list \<Rightarrow> pystr list \<times> pystr list \<times> pystr list" where
  "source_markers atoms = foldl (\<lambda>(created, paths, repositories) b.
     case binding_marker b of (marker, path, repository) \<Rightarrow>
       (add_new created marker, add_new paths path, add_new repositories repository))
     ([], [], []) (concat (map va_evidence_bindings atoms))"

definition builder_test_digest :: "gate_env \<Rightarrow> pystr" where
  "builder_test_digest T = re_digest (ge_host T) (''{\"check\":\"m3-source-grounding\"}'' @ [CHR 0x0A])"

definition zero_digest :: pystr where
  "zero_digest = ''sha256:'' @ replicate 64 (CHR ''0'')"

definition signature_member :: "members \<Rightarrow> pystr \<Rightarrow> json quarantine_result" where
  "signature_member signature key = (case map_of signature key of
     None \<Rightarrow> Inl (QuarantineFault ''KeyError'') | Some v \<Rightarrow> Inr v)"

definition signature_policy_of :: "members \<Rightarrow> json quarantine_result" where
  "signature_policy_of signature =
     res_bind (signature_member signature ''algorithm'') (\<lambda>algorithm.
     res_bind (signature_member signature ''key_id'') (\<lambda>key_id.
       Inr (JObj [(''algorithm'', algorithm), (''key_id'', key_id), (''input_profile'', JStr ''CCS-2.1-signature-v1'')])))"

definition compression_class_json :: "pystr \<Rightarrow> pystr \<Rightarrow> pystr \<Rightarrow> pystr list \<Rightarrow> pystr option \<Rightarrow> json" where
  "compression_class_json name rendering lossy triggers ttl = JObj
    [(''name'', JStr name), (''rendering'', JStr rendering), (''lossy_compression'', JStr lossy),
     (''expansion_triggers'', json_strings triggers), (''ttl'', json_opt JStr ttl)]"

definition default_compression :: json where
  "default_compression = JObj
    [(''policy_version'', JStr ''1.0.0''),
     (''classes'', JList
       [compression_class_json ''P0_EXACT'' ''exact'' ''forbidden'' [''always''] None,
        compression_class_json ''P1_STRUCTURED'' ''canonical_atom'' ''validated_only'' [''ambiguity''] None,
        compression_class_json ''P2_EVIDENCE'' ''exact_excerpt_with_handle'' ''excerpt_only'' [''model_request''] None,
        compression_class_json ''P3_SUMMARY'' ''source_grounded_summary'' ''allowed'' [''missing_detail''] None,
        compression_class_json ''P4_TRANSIENT'' ''aggregate_or_drop'' ''allowed'' [] (Some ''P7D'')]),
     (''extensions'', JObj [])]"

definition builder_test :: "gate_env \<Rightarrow> json" where
  "builder_test T = JObj [(''test_id'', JStr ''m3-source-grounding''), (''kind'', JStr ''static''),
     (''path'', JStr ''tests/static/m3-source-grounding.json''), (''digest'', JStr (builder_test_digest T))]"

definition builder_checksum :: "gate_env \<Rightarrow> json" where
  "builder_checksum T = JObj [(''path'', JStr ''tests/static/m3-source-grounding.json''),
     (''digest'', JStr (builder_test_digest T))]"

definition scope_members :: "pystr list \<Rightarrow> pystr list \<Rightarrow> pystr list \<Rightarrow> json" where
  "scope_members repositories paths environments = JObj
    [(''repositories'', json_strings repositories), (''paths'', json_strings paths),
     (''environments'', json_strings environments)]"

definition builder_profile :: members where
  "builder_profile = [(''x-builder-profile'', JStr ''CCS-2.1-m3-v1''), (''x-m3-trust-required'', JBool True)]"

definition default_manifest :: "build_request \<Rightarrow> bool \<Rightarrow> json" where
  "default_manifest request signed = (case source_markers (bq_atoms request) of (created, paths, repositories) \<Rightarrow> JObj
    [(''spec_version'', JStr ''CCS-2.1''), (''canonical_profile'', JStr ''CCS-2.1-canonical-v1''),
     (''capsule_id'', JStr (bq_capsule_id request)), (''version'', JStr (bq_version request)),
     (''content_digest'', JStr zero_digest), (''owner'', JStr (bq_owner request)), (''tenant'', JStr (bq_tenant request)),
     (''scope'', scope_members repositories paths (bq_environments request)),
     (''authority'', JStr (bq_authority request)), (''sensitivity'', JStr (bq_sensitivity request)),
     (''provides'', JList []), (''requires'', JList []), (''conflicts'', JList []),
     (''lifecycle'', JStr (bq_lifecycle request)), (''created_from'', json_strings created),
     (''integrity'', JObj [(''lock'', JStr ''integrity/capsule.lock''),
        (''signature'', if signed then JStr ''integrity/signature.json'' else JNull)]),
     (''extensions'', JObj builder_profile)])"

definition default_contract :: "build_request \<Rightarrow> json" where
  "default_contract request = (case source_markers (bq_atoms request) of (created, paths, repositories) \<Rightarrow> JObj
    [(''contract_id'', JStr (bq_capsule_id request @ ''.source-grounding'')), (''replaces'', JNull),
     (''preconditions'', json_strings [''all P0/P1 atoms have exact evidence and trusted human approval'']),
     (''target_effects'', json_strings [''source-grounded payload is available'']),
     (''protected_invariants'', json_strings [''unapproved candidates remain quarantined'']),
     (''allowed_scope'', json_strings paths), (''forbidden_spillover'', JList []),
     (''verification'', JObj
       [(''static'', json_strings [''uv run pytest tests/security/test_trust_promotion.py'']),
        (''behavioral'', json_strings [''uv run pytest tests/integration/test_build_pipeline.py'']),
        (''differential'', JList [])]),
     (''activation'', JObj [(''risk'', JStr ''high''), (''approval_required'', JBool True),
        (''safe_boundary'', JStr ''before-next-agent-action'')]),
     (''rollback'', JObj [(''pointer'', JStr ''none:first-version''), (''compensating_action'', JNull)]),
     (''extensions'', JObj [])])"

definition default_integrity :: "gate_env \<Rightarrow> build_request \<Rightarrow> json \<Rightarrow> json" where
  "default_integrity T request signature_policy = (case source_markers (bq_atoms request) of (created, paths, repositories) \<Rightarrow> JObj
    [(''tests'', JList [builder_test T]),
     (''lock'', JObj
       [(''capsule_dependencies'', JList []), (''source_commits'', json_strings created),
        (''compiler_version'', JStr ''0.1.0''), (''adapter_versions'', json_strings [''m3-builder:0.1.0'']),
        (''compression_policy_version'', JStr ''1.0.0''), (''test_set_version'', JStr ''0.1.0''),
        (''model_series'', json_strings [''deterministic-parser'']),
        (''parameters'', json_strings [''human-approval=required'']),
        (''runtime_config_digest'', JStr (builder_test_digest T)), (''extensions'', JObj [])]),
     (''artifact_checksums'', JList [builder_checksum T]), (''signature_policy'', signature_policy),
     (''extensions'', JObj [])])"

text \<open>An empty signature counts as none here.\<close>

definition default_core :: "gate_env \<Rightarrow> build_request \<Rightarrow> members quarantine_result" where
  "default_core T request =
    (let signature = (case bq_detached_signature request of None \<Rightarrow> None | Some m \<Rightarrow> if m = [] then None else Some m) in
     res_bind (case signature of
         None \<Rightarrow> Inr (JObj [(''algorithm'', JStr ''m3-test-only''), (''key_id'', JStr ''not-signed''),
           (''input_profile'', JStr ''CCS-2.1-signature-v1'')])
       | Some m \<Rightarrow> signature_policy_of m) (\<lambda>policy.
       Inr [(''control_manifest'', default_manifest request (signature \<noteq> None)),
         (''semantic_payload'', JObj [(''atoms'', JList []), (''extensions'', JObj [])]),
         (''evidence_plane'', JObj [(''records'', JList []), (''extensions'', JObj [])]),
         (''dependency_graph'', JObj [(''edges'', JList []), (''extensions'', JObj [])]),
         (''replacement_contract'', default_contract request), (''compression_policy'', default_compression),
         (''tests_integrity'', default_integrity T request policy),
         (''detached_signature'', json_opt JObj signature),
         (''derived_artifacts'', JObj []), (''runtime_sidecar'', JObj [])]))"

text \<open>A mapping goes through its JSON text and back.\<close>

definition raw_template :: "gate_env \<Rightarrow> build_request \<Rightarrow> members quarantine_result" where
  "raw_template T request = (case bq_template request of
     None \<Rightarrow> default_core T request
   | Some (TemplateCapsule c) \<Rightarrow> Inr (capsule_wire_dict c)
   | Some (TemplateMapping m) \<Rightarrow> Inr m)"

record collected =
  cl_seen :: "pystr list"
  cl_records :: "json list"
  cl_blobs :: "(pystr \<times> bytes) list"

definition collect_binding :: "gate_env \<Rightarrow> pystr \<Rightarrow> collected \<Rightarrow> evidence_binding \<Rightarrow> collected quarantine_result" where
  "collect_binding T atom_id st b =
     res_bind (evidence_record_of T atom_id b) (\<lambda>record.
       let st' = st \<lparr> cl_records := cl_records st @ [JObj record] \<rparr> in
       if eb_mode b \<noteq> ''CAS'' then Inr st'
       else res_bind (demand (map_of (cl_blobs st) (eb_content_digest b) \<in> {None, Some (eb_source_bytes b)}) ''evidence bytes'') (\<lambda>_.
         Inr (st' \<lparr> cl_blobs := AList.update (eb_content_digest b) (eb_source_bytes b) (cl_blobs st) \<rparr>)))"

definition collect_atom ::
  "gate_env \<Rightarrow> source_world \<Rightarrow> (pystr \<Rightarrow> int) \<Rightarrow> quarantine \<Rightarrow> collected \<Rightarrow> validated_atom \<Rightarrow> collected quarantine_result" where
  "collect_atom T W now q st v =
     res_bind (verify_validated T W (now (va_candidate_id v)) q v) (\<lambda>_.
     res_bind (demand (va_atom_id v \<notin> set (cl_seen st)) ''duplicate atom'') (\<lambda>_.
       res_fold (collect_binding T (va_atom_id v)) (st \<lparr> cl_seen := cl_seen st @ [va_atom_id v] \<rparr>) (va_evidence_bindings v)))"

definition collect_evidence ::
  "gate_env \<Rightarrow> source_world \<Rightarrow> (pystr \<Rightarrow> int) \<Rightarrow> quarantine \<Rightarrow> build_request \<Rightarrow> (json list \<times> (pystr \<times> bytes) list) quarantine_result" where
  "collect_evidence T W now q request =
     res_bind (demand (bq_atoms request \<noteq> []) ''atoms'') (\<lambda>_.
     res_bind (res_fold (collect_atom T W now q) \<lparr> cl_seen = [], cl_records = [], cl_blobs = [] \<rparr> (bq_atoms request)) (\<lambda>st.
       Inr (cl_records st, cl_blobs st)))"

definition module_extensions :: "members \<Rightarrow> pystr \<Rightarrow> json" where
  "module_extensions raw key = (case json_obj (json_get raw key) of None \<Rightarrow> JObj []
     | Some m \<Rightarrow> (case map_of m ''extensions'' of None \<Rightarrow> JObj [] | Some v \<Rightarrow> v))"

definition populate_payload :: "gate_env \<Rightarrow> members \<Rightarrow> build_request \<Rightarrow> json list \<Rightarrow> members quarantine_result" where
  "populate_payload T raw request records =
     res_bind (res_map (atom_record T (bq_authority request)) (bq_atoms request)) (\<lambda>atoms.
       Inr (put_members raw
         [(''semantic_payload'', JObj [(''atoms'', JList (map JObj atoms)), (''extensions'', module_extensions raw ''semantic_payload'')]),
          (''evidence_plane'', JObj [(''records'', JList records), (''extensions'', module_extensions raw ''evidence_plane'')]),
          (''dependency_graph'', JObj [(''edges'', JList []), (''extensions'', JObj [])])]))"

text \<open>The manifest is changed in place; a signature that is given, even an empty one, replaces the
  template's.\<close>

definition configure_signature :: "members \<Rightarrow> build_request \<Rightarrow> members quarantine_result" where
  "configure_signature raw request = (let set_signature = \<lambda>raw v.
       res_bind (demand_some (json_obj (json_get raw ''control_manifest'')) ''manifest'') (\<lambda>manifest.
       res_bind (put_inner manifest ''integrity'' ''signature'' v) (\<lambda>manifest.
         Inr (AList.update ''control_manifest'' (JObj manifest) raw))) in
     case bq_detached_signature request of
       Some signature \<Rightarrow>
         res_bind (set_signature (AList.update ''detached_signature'' (JObj signature) raw) (JStr ''integrity/signature.json'')) (\<lambda>raw.
         res_bind (signature_policy_of signature) (\<lambda>policy.
           put_inner raw ''tests_integrity'' ''signature_policy'' policy))
     | None \<Rightarrow> if bq_template request = None then set_signature (AList.update ''detached_signature'' JNull raw) JNull else Inr raw)"

definition configure_manifest :: "members \<Rightarrow> build_request \<Rightarrow> (members \<times> pystr list) quarantine_result" where
  "configure_manifest raw request =
     res_bind (demand_some (json_obj (json_get raw ''control_manifest'')) ''manifest'') (\<lambda>manifest.
     case source_markers (bq_atoms request) of (created, paths, repositories) \<Rightarrow>
       let manifest = put_members manifest
         [(''capsule_id'', JStr (bq_capsule_id request)), (''version'', JStr (bq_version request)),
          (''owner'', JStr (bq_owner request)), (''tenant'', JStr (bq_tenant request)),
          (''authority'', JStr (bq_authority request)), (''sensitivity'', JStr (bq_sensitivity request)),
          (''lifecycle'', JStr (bq_lifecycle request)), (''created_from'', json_strings created),
          (''content_digest'', JStr zero_digest)] in
     res_bind (demand_some (json_obj (json_get manifest ''extensions'')) ''extensions'') (\<lambda>extensions.
       let manifest = put_members manifest
         [(''extensions'', JObj (put_members extensions builder_profile)),
          (''scope'', scope_members repositories paths (bq_environments request))] in
     res_bind (configure_signature (AList.update ''control_manifest'' (JObj manifest) raw) request) (\<lambda>raw.
       Inr (raw, created))))"

definition configure_integrity :: "gate_env \<Rightarrow> members \<Rightarrow> pystr list \<Rightarrow> members quarantine_result" where
  "configure_integrity T raw created =
     res_bind (demand_some (json_obj (json_get raw ''tests_integrity'')) ''tests'') (\<lambda>tests_integrity.
     res_bind (demand_some (json_obj (json_get tests_integrity ''lock'')) ''lock'') (\<lambda>lock.
       Inr (put_members raw
         [(''tests_integrity'', JObj (put_members tests_integrity
             [(''lock'', JObj (AList.update ''source_commits'' (json_strings created) lock)),
              (''tests'', JList [builder_test T]), (''artifact_checksums'', JList [builder_checksum T])])),
          (''derived_artifacts'', JObj []), (''runtime_sidecar'', JObj [])])))"

definition validate_assembled :: "gate_env \<Rightarrow> build_env \<Rightarrow> members \<Rightarrow> core_capsule quarantine_result" where
  "validate_assembled T B raw =
     res_bind (demand_some (be_model B raw) ''model'') (\<lambda>candidate.
     res_bind (demand_digest (canonical_digest_of T candidate)) (\<lambda>digest.
     res_bind (put_inner raw ''control_manifest'' ''content_digest'' (JStr digest)) (\<lambda>raw.
       demand_some (be_model B raw) ''digested model'')))"

definition assemble ::
  "gate_env \<Rightarrow> build_env \<Rightarrow> source_world \<Rightarrow> (pystr \<Rightarrow> int) \<Rightarrow> quarantine \<Rightarrow> build_request \<Rightarrow>
   (core_capsule \<times> (pystr \<times> bytes) list) quarantine_result" where
  "assemble T B W now q request =
     res_bind (collect_evidence T W now q request) (\<lambda>(records, blobs).
     res_bind (raw_template T request) (\<lambda>raw.
     res_bind (populate_payload T raw request records) (\<lambda>raw.
     res_bind (configure_manifest raw request) (\<lambda>(raw, created).
     res_bind (configure_integrity T raw created) (\<lambda>raw.
     res_bind (validate_assembled T B raw) (\<lambda>c. Inr (c, blobs)))))))"

section \<open>Drafts and their publication\<close>

text \<open>\<open>sort_keys\<close>: the members in key order at every level.\<close>

fun key_sorted :: "json \<Rightarrow> json" where
  "key_sorted (JList xs) = JList (map key_sorted xs)"
| "key_sorted (JObj fs) = JObj (sort_key fst (map (\<lambda>f. (fst f, key_sorted (snd f))) fs))"
| "key_sorted v = v"

text \<open>Before anything is written, the whole projection and the evidence are scanned.\<close>

definition scan_package :: "gate_env \<Rightarrow> core_capsule \<Rightarrow> (pystr \<times> bytes) list \<Rightarrow> unit quarantine_result" where
  "scan_package T c blobs =
     res_bind (scan_secrets T (ge_py_dumps T (key_sorted (JObj (capsule_wire_dict c))) @ [CHR 0x0A])) (\<lambda>_.
     res_bind (res_map (scan_secrets T) (dict_values blobs)) (\<lambda>_. Inr ()))"

definition validate_through_loader ::
  "gate_env \<Rightarrow> build_env \<Rightarrow> core_capsule \<Rightarrow> (pystr \<times> bytes) list \<Rightarrow> pystr option \<Rightarrow> nat \<Rightarrow> pystr \<Rightarrow>
   (core_capsule \<times> pystr option \<times> loader_receipt) quarantine_result" where
  "validate_through_loader T B c blobs package_path capability store_id =
    (let destination = (case package_path of None \<Rightarrow> be_temporary B | Some p \<Rightarrow> be_resolve B p) in
     res_bind (demand (package_path \<noteq> None \<longrightarrow> \<not> be_exists B destination) ''destination exists'') (\<lambda>_.
     res_bind (scan_package T c blobs) (\<lambda>_.
     res_bind (load_and_issue T B c blobs (Some destination) store_id capability) (\<lambda>(loaded, receipt).
       Inr (loaded, Some destination, receipt)))))"

definition build_capsule ::
  "gate_env \<Rightarrow> build_env \<Rightarrow> source_world \<Rightarrow> (pystr \<Rightarrow> int) \<Rightarrow> quarantine option \<Rightarrow> build_request \<Rightarrow> draft_capsule quarantine_result" where
  "build_capsule T B W now store request =
     res_bind (demand_some store ''quarantine'') (\<lambda>q.
     res_bind (assemble T B W now q request) (\<lambda>(c, blobs).
     res_bind (validate_through_loader T B c blobs (bq_package_path request) (qn_loader_token q) (qn_store_id q)) (\<lambda>(loaded, path, receipt).
     res_bind (if qn_trust_root q = None then Inr None
         else res_bind (attest_loaded T B loaded path receipt (qn_store_id q) (qn_loader_token q)) (\<lambda>a. Inr (Some a))) (\<lambda>attestation.
       Inr \<lparr> dr_capsule = loaded, dr_atom_ids = map va_atom_id (bq_atoms request), dr_package_path = path,
         dr_pipeline = loader_pipeline, dr_receipt = Some receipt, dr_attestation = attestation,
         dr_atoms = bq_atoms request \<rparr>))))"

datatype publish_error = BuildError pystr | BuildFault quarantine_error | RegistryRefused registry_error

definition draft_ready ::
  "gate_env \<Rightarrow> build_env \<Rightarrow> quarantine option \<Rightarrow> draft_capsule \<Rightarrow> bool quarantine_result" where
  "draft_ready T B store draft = (case (dr_receipt draft, store) of
     (Some receipt, Some q) \<Rightarrow>
       res_bind (receipt_matches T B receipt (dr_capsule draft) (qn_loader_token q) (dr_package_path draft) (qn_store_id q)) (\<lambda>ok.
         Inr (ok \<and> dr_pipeline draft = loader_pipeline \<and> dr_attestation draft \<noteq> None \<and> dr_atoms draft \<noteq> []))
   | _ \<Rightarrow> Inr False)"

definition publish_draft ::
  "build_env \<Rightarrow> registry \<Rightarrow> source_world \<Rightarrow> (pystr \<Rightarrow> int) \<Rightarrow> cas \<Rightarrow> registry_db \<Rightarrow> quarantine option \<Rightarrow> draft_capsule \<Rightarrow>
   pystr \<Rightarrow> pystr \<Rightarrow> publish_error + published_capsule \<times> registry_db" where
  "publish_draft B R W now blobs db store draft caller stamped =
    (case draft_ready (rg_gate R) B store draft of
       Inl e \<Rightarrow> Inl (BuildFault e)
     | Inr False \<Rightarrow> Inl (BuildError ''draft'')
     | Inr True \<Rightarrow>
         (case issue_publication_permit (rg_gate R) W now (the store) (dr_capsule draft) (dr_atoms draft) caller (dr_attestation draft) of
            Inl _ \<Rightarrow> Inl (BuildError ''permit'')
          | Inr permit \<Rightarrow>
              (case registry_publish R blobs db (dr_capsule draft) caller (Some permit) stamped of
                 Inl e \<Rightarrow> Inl (RegistryRefused e)
               | Inr published \<Rightarrow> Inr published)))"

end
