(* ===== verification/Builder_Laws.thy ===== *)
theory Builder_Laws
  imports Builder Quarantine_Laws Registry_Trust
begin

text \<open>
  How builder, quarantine and publication gate fit together: what the gate accepts is what the
  quarantine promoted, and the gate accepts what the builder writes of a promoted atom.
\<close>

section \<open>What the gate accepts was promoted\<close>

text \<open>Encoded values that are equal after normalization.\<close>

lemma jcs_norm_atoms [simp]:
  "jcs_norm v = JStr s \<longleftrightarrow> v = JStr s" "JStr s = jcs_norm v \<longleftrightarrow> v = JStr s"
  by (cases v; auto simp: jcs_norm.simps(1,2,3))+

lemma jcs_norm_strings: "jcs_norm v = jcs_norm (json_strings xs) \<longleftrightarrow> v = json_strings xs"
proof -
  have "map jcs_norm ys = map JStr xs \<longleftrightarrow> ys = map JStr xs" for ys
    by (induction xs arbitrary: ys) (auto simp: map_eq_Cons_conv)
  then show ?thesis
    by (cases v) (auto simp: json_strings_def jcs_norm.simps(1,2,3) comp_def)
qed

lemma json_strings_same [simp]: "json_strings xs = json_strings ys \<longleftrightarrow> xs = ys"
  by (simp add: json_strings_def inj_map_eq_map inj_def)

lemma json_eq_strings [simp]: "json_eq v (json_strings xs) \<longleftrightarrow> v = json_strings xs"
proof -
  have one: "py_norm v = JStr s \<longleftrightarrow> v = JStr s" for v s by (cases v) auto
  have "map py_norm ys = map JStr xs \<longleftrightarrow> ys = map JStr xs" for ys
    by (induction xs arbitrary: ys) (auto simp: map_eq_Cons_conv one)
  then show ?thesis
    by (cases v) (auto simp: json_strings_def json_eq_def comp_def)
qed

lemma projections_agree:
  assumes "jcs_law (rv_dumps (re_base (ge_host T)))"
    and "jcs_same (ge_host T) (permit_projection m) (candidate_projection candidate) = Inr True"
    and "(key, source) \<in> set projection_keys"
  shows "jcs_norm (json_get m (if key = ''source_snapshot_id'' then ''snapshot_id'' else key)) = jcs_norm (json_get candidate source)"
proof -
  let ?f = "\<lambda>(key, _). (key, json_get m (if key = ''source_snapshot_id'' then ''snapshot_id'' else key))"
  let ?g = "\<lambda>(key, source). (key, json_get candidate source)"
  have "rv_dumps (re_base (ge_host T)) (permit_projection m) = rv_dumps (re_base (ge_host T)) (candidate_projection candidate)"
    using assms(2) by (auto simp: jcs_same_def jcs_text_def canonical_json_bytes_def res_bind_Inr_iff split: if_splits)
  with assms(1) have norm: "jcs_norm (JObj (map ?f projection_keys)) = jcs_norm (JObj (map ?g projection_keys))"
    by (simp add: jcs_law_def permit_projection_def candidate_projection_def)
  have keys: "map fst (map ?f projection_keys) = map fst (map ?g projection_keys)"
    by (simp add: split_def)
  have "distinct (map fst (map ?f projection_keys))" by (simp add: projection_keys_def)
  from norm jcs_norm_obj [OF keys this]
  have "map (jcs_norm \<circ> snd) (map ?f projection_keys) = map (jcs_norm \<circ> snd) (map ?g projection_keys)" by simp
  then have "\<forall>x \<in> set projection_keys. (jcs_norm \<circ> snd) (?f x) = (jcs_norm \<circ> snd) (?g x)"
    by (simp add: map_eq_conv)
  with assms(3) show ?thesis by fastforce
qed

text \<open>An accepted atom reads as the permit's entry of its candidate.\<close>

definition permits_atom :: "members \<Rightarrow> core_atom \<Rightarrow> bool" where
  "permits_atom m a \<longleftrightarrow> json_get m ''atom_id'' = JStr (at_atom_id a) \<and> json_get m ''statement'' = JStr (at_statement a) \<and>
     json_get m ''kind'' = JStr (at_kind a) \<and> json_get m ''modality'' = JStr (at_modality a) \<and>
     json_get m ''scope'' = json_strings (at_scope a) \<and> json_get m ''compression_class'' = JStr (at_compression_class a)"

lemma atom_json_members:
  assumes "atom_json a = JObj atom"
  shows "json_get atom ''atom_id'' = JStr (at_atom_id a)" "json_get atom ''statement'' = JStr (at_statement a)"
     "json_get atom ''kind'' = JStr (at_kind a)" "json_get atom ''modality'' = JStr (at_modality a)"
     "json_get atom ''scope'' = json_strings (at_scope a)" "json_get atom ''compression_class'' = JStr (at_compression_class a)"
  using assms by (auto simp: atom_json_def json_get_def)

lemma accepted_atom_permitted:
  assumes "jcs_law (rv_dumps (re_base (ge_host T)))" and "atom_json a = JObj atom"
    and "validate_m3_atom T r store permit_by_id evidence subjects authoritative (atom, trust) = Inr ()"
  obtains i m where "map_of permit_by_id i = Some m" "permits_atom m a"
proof -
  obtain i m candidate digest sp where m: "map_of permit_by_id i = Some m"
      "validate_candidate_witness T atom trust m = Inr (candidate, digest, sp)"
    using assms(3) by (auto simp: validate_m3_atom_def res_bind_Inr_iff split: option.splits prod.splits)
  then have match: "candidate_matches_permit T atom trust m candidate digest = Inr ()"
    by (auto simp: validate_candidate_witness_def res_bind_Inr_iff)
  then have same: "jcs_same (ge_host T) (permit_projection m) (candidate_projection candidate) = Inr True"
    and candidate: "\<forall>key \<in> {''atom_id'', ''statement'', ''kind'', ''modality'', ''scope'', ''compression_class''}.
        json_eq (json_get candidate key) (json_get atom key)"
    by (auto simp: candidate_matches_permit_def res_bind_Inr_iff)
  note wire = atom_json_members [OF assms(2)]
  have c: "json_get candidate ''atom_id'' = JStr (at_atom_id a)" "json_get candidate ''statement'' = JStr (at_statement a)"
     "json_get candidate ''kind'' = JStr (at_kind a)" "json_get candidate ''modality'' = JStr (at_modality a)"
     "json_get candidate ''scope'' = json_strings (at_scope a)" "json_get candidate ''compression_class'' = JStr (at_compression_class a)"
    using candidate by (simp_all add: wire)
  note agree = projections_agree [OF assms(1) same]
  have "jcs_norm (json_get m ''atom_id'') = jcs_norm (json_get candidate ''atom_id'')"
     "jcs_norm (json_get m ''statement'') = jcs_norm (json_get candidate ''statement'')"
     "jcs_norm (json_get m ''kind'') = jcs_norm (json_get candidate ''kind'')"
     "jcs_norm (json_get m ''modality'') = jcs_norm (json_get candidate ''modality'')"
     "jcs_norm (json_get m ''scope'') = jcs_norm (json_get candidate ''scope'')"
     "jcs_norm (json_get m ''compression_class'') = jcs_norm (json_get candidate ''compression_class'')"
    using agree [of "''atom_id''" "''atom_id''"] agree [of "''statement''" "''statement''"] agree [of "''kind''" "''kind''"]
      agree [of "''modality''" "''modality''"] agree [of "''scope''" "''scope''"] agree [of "''compression_class''" "''compression_class''"]
    by (simp_all add: projection_keys_def)
  then have "permits_atom m a"
    by (simp add: permits_atom_def c jcs_norm_strings)
  with m(1) show ?thesis by (rule that)
qed

text \<open>The entries of a permit are those of its atoms.\<close>

lemma permit_subjects_entries [simp]: "pt_entries (foldl permit_subject st bs) = pt_entries st"
  by (induction bs arbitrary: st) (simp_all add: permit_subject_def Let_def)

lemma permit_entries:
  assumes "res_fold (permit_step T W now q) st atoms = Inr st'" and "e \<in> set (pt_entries st')"
  shows "e \<in> set (pt_entries st) \<or>
    (\<exists>v \<in> set atoms. \<exists>m bs p. e = JObj m \<and> permit_atom_entry T W (now (va_candidate_id v)) q v = Inr (m, bs, p))"
  using assms
proof (induction atoms arbitrary: st)
  case (Cons v atoms)
  from Cons.prems(1) obtain mid where step: "permit_step T W now q st v = Inr mid" "res_fold (permit_step T W now q) mid atoms = Inr st'"
    by (auto simp: res_bind_Inr_iff)
  then obtain m bs p where entry: "permit_atom_entry T W (now (va_candidate_id v)) q v = Inr (m, bs, p)"
    by (auto simp: permit_step_def res_bind_Inr_iff)
  have "pt_entries mid = pt_entries st @ [JObj m]"
    using step(1) by (auto simp: permit_step_def entry res_bind_Inr_iff Let_def)
  note mid = entry this step(2)
  from Cons.IH [OF mid(3) Cons.prems(2)] mid(1,2) show ?case by auto
qed simp

lemma permit_atom_entry_Inr:
  assumes "permit_atom_entry T W now q v = Inr (m, bs, p)"
  obtains c s digest where "verify_validated T W now q v = Inr ()" "map_of (qn_candidates q) (va_candidate_id v) = Some c"
    "map_of (qn_snapshots q) (va_source_snapshot_id v) = Some s" "candidate_digest_for T c = Inr digest"
    "bs = va_evidence_bindings v" "p = sn_proof s"
    "m = candidate_wire c @
         [(''candidate_digest'', JStr digest), (''snapshot_id'', JStr (va_source_snapshot_id v)),
          (''snapshot_principal_id'', JStr (sn_principal_id s)), (''snapshot_captured_at'', JStr (sn_captured_at s)),
          (''source_trust_level'', JStr (va_source_trust_level v)), (''validated_trust_level'', JStr (va_trust_level v)),
          (''validated_status'', JStr (va_status v)), (''source_proof'', snapshot_proof_wire s),
          (''approval'', JObj (approval_wire (va_approval v))),
          (''bindings'', JList (map (JObj \<circ> evidence_binding_wire) (va_evidence_bindings v)))]"
  using assms by (auto simp: permit_atom_entry_def find_candidate_def res_bind_Inr_iff)

text \<open>The atom of a capsule is a copy of a promoted atom.\<close>

definition copies_atom :: "core_atom \<Rightarrow> validated_atom \<Rightarrow> bool" where
  "copies_atom a v \<longleftrightarrow> at_atom_id a = va_atom_id v \<and> at_statement a = va_statement v \<and> at_kind a = va_kind v \<and>
     at_modality a = va_modality v \<and> at_scope a = va_scope v \<and> at_compression_class a = va_compression_class v"

lemma permitted_atom_copies:
  assumes "permit_atom_entry T W now q v = Inr (m, bs, p)" and "promotion_backed T q v" and "permits_atom m a"
  shows "copies_atom a v"
proof -
  from permit_atom_entry_Inr [OF assms(1)] obtain c s digest rest where m: "map_of (qn_candidates q) (va_candidate_id v) = Some c"
      "m = candidate_wire c @ rest" by metis
  with assms(2) have v: "v = validated_from c (va_evidence_bindings v) (va_approval v)"
    by (auto simp: promotion_backed_def)
  have "json_get m ''atom_id'' = JStr (ca_atom_id c)" "json_get m ''statement'' = JStr (ca_statement c)"
     "json_get m ''kind'' = JStr (ca_kind c)" "json_get m ''modality'' = JStr (ca_modality c)"
     "json_get m ''scope'' = json_strings (ca_scope c)" "json_get m ''compression_class'' = JStr (ca_compression_class c)"
    by (simp_all add: m(2) json_get_def candidate_wire_def)
  with assms(3) have "at_atom_id a = ca_atom_id c" "at_statement a = ca_statement c" "at_kind a = ca_kind c"
     "at_modality a = ca_modality c" "at_scope a = ca_scope c" "at_compression_class a = ca_compression_class c"
    by (simp_all add: permits_atom_def)
  then show ?thesis
    by (subst v) (simp add: copies_atom_def validated_from_def)
qed

lemma gate_accepts_permitted:
  assumes "validate_m3_publication T trusted store c caller (Some p) = Inr payload" and "requires_m3_gate c"
    and "jcs_law (rv_dumps (re_base (ge_host T)))" and "a \<in> set (capsule_atoms c)"
  obtains items m where "json_get (pm_payload p) ''atoms'' = JList items" "JObj m \<in> set items" "permits_atom m a"
proof -
  obtain r issuer members subjects authoritative atoms evidence permit_by_id us where g:
      "verify_permit_signature T trusted p = Inr (r, issuer, members)"
      "wire_trust_metadata c = Inr (atoms, evidence)"
      "res_map (validate_m3_atom T r store permit_by_id evidence subjects authoritative) atoms = Inr us"
      "permit_atom_map (json_get members ''atoms'') (length atoms) = Inr permit_by_id"
    using assms(1,2) by (auto simp: validate_m3_publication_def res_bind_Inr_iff split: prod.splits)
  have members: "members = pm_payload p" using verify_permit_signature_facts [OF g(1)] by blast
  have pairs: "list_all2 (\<lambda>a pair. wire_atom_trust evidence (atom_json a) = Inr pair) (capsule_atoms c) atoms"
    using g(2) by (auto simp: wire_trust_metadata_def res_bind_Inr_iff res_map_Inr_iff list_all2_conv_all_nth)
  obtain k where k: "k < length (capsule_atoms c)" "a = capsule_atoms c ! k" using assms(4) by (auto simp: in_set_conv_nth)
  obtain atom trust where pair: "atoms ! k = (atom, trust)" by fastforce
  have "wire_atom_trust evidence (atom_json a) = Inr (atom, trust)"
    using pairs k pair by (auto simp: list_all2_conv_all_nth)
  then have json: "atom_json a = JObj atom" using wire_atom_trust_facts by blast
  have "validate_m3_atom T r store permit_by_id evidence subjects authoritative (atom, trust) = Inr ()"
    using g(3) pairs k pair by (auto simp: res_map_Inr_iff list_all2_conv_all_nth dest!: spec [of _ k])
  from accepted_atom_permitted [OF assms(3) json this] obtain i m where m: "map_of permit_by_id i = Some m" "permits_atom m a" .
  from permit_atom_map_member [OF g(4) m(1)] m(2) show ?thesis unfolding members by (blast intro: that)
qed

section \<open>What the builder writes is accepted\<close>

text \<open>The locator of a binding names no more than its mode carries.\<close>

definition mode_locators :: "evidence_binding \<Rightarrow> bool" where
  "mode_locators b \<longleftrightarrow>
     (eb_mode b \<noteq> ''GIT_IMMUTABLE'' \<longrightarrow> eb_repository b = None \<and> eb_revision b = None) \<and>
     (eb_mode b \<noteq> ''EXTERNAL_IMMUTABLE'' \<longrightarrow> eb_uri b = None \<and> eb_source b = None \<and> eb_verification_method b = None)"

lemma json_opt_null [simp]: "json_opt JStr x = JNull \<longleftrightarrow> x = None" "JNull = json_opt JStr x \<longleftrightarrow> x = None"
  by (cases x; simp add: json_opt_def)+

text \<open>The gate rebuilds the wire of a binding from the evidence record and its source map.\<close>

lemma rebuilt_members:
  "json_get (source_map b d) ''binding_id'' = JStr (eb_binding_id b)"
  "json_get (source_map b d) ''candidate_id'' = JStr (eb_candidate_id b)"
  "json_get (source_map b d) ''snapshot_id'' = JStr (eb_snapshot_id b)"
  "json_get (source_map b d) ''span_digest'' = JStr (eb_span_digest b)"
  "json_get (source_map b d) ''path'' = json_opt JStr (eb_path b)"
  "json_get (source_map b d) ''symbol_or_heading'' = json_opt JStr (eb_symbol_or_heading b)"
  "json_get (source_map b d) ''start_line'' = json_opt JInt (eb_start_line b)"
  "json_get (source_map b d) ''end_line'' = json_opt JInt (eb_end_line b)"
  "json_get (source_map b d) ''binding_digest'' = JStr d"
  by (simp_all add: source_map_def json_get_def)

lemma evidence_members_get:
  "json_get (evidence_members b i x) ''mode'' = JStr (eb_mode b)"
  "json_get (evidence_members b i x) ''content_digest'' = JStr (eb_content_digest b)"
  "json_get (evidence_members b i x) ''media_type'' = JStr (eb_media_type b)"
  "json_get (evidence_members b i x) ''captured_at'' = JStr (eb_captured_at b)"
  "json_get (evidence_members b i x) ''access_policy'' = JStr (eb_access_policy b)"
  "json_get (evidence_members b i x) ''extensions'' = JObj x"
  by (simp_all add: evidence_members_def json_get_def)

lemma locator_get:
  "json_get (evidence_members b i x) ''repository'' = (if eb_mode b = ''GIT_IMMUTABLE'' then json_opt JStr (eb_repository b) else JNull)"
  "json_get (evidence_members b i x) ''revision'' = (if eb_mode b = ''GIT_IMMUTABLE'' then json_opt JStr (eb_revision b) else JNull)"
  "json_get (evidence_members b i x) ''uri'' = (if eb_mode b = ''EXTERNAL_IMMUTABLE'' then json_opt JStr (eb_uri b) else JNull)"
  "json_get (evidence_members b i x) ''source'' = (if eb_mode b = ''EXTERNAL_IMMUTABLE'' then json_opt JStr (eb_source b) else JNull)"
  "json_get (evidence_members b i x) ''verification_method'' =
     (if eb_mode b = ''EXTERNAL_IMMUTABLE'' then json_opt JStr (eb_verification_method b) else JNull)"
  by (auto simp: evidence_members_def locator_members_def json_get_def)

lemma rebuilt_wire:
  "binding_wire (evidence_members b i x) (source_map b d) =
    [(''binding_id'', JStr (eb_binding_id b)), (''candidate_id'', JStr (eb_candidate_id b)),
     (''snapshot_id'', JStr (eb_snapshot_id b)), (''mode'', JStr (eb_mode b)),
     (''content_digest'', JStr (eb_content_digest b)), (''span_digest'', JStr (eb_span_digest b)),
     (''media_type'', JStr (eb_media_type b)), (''captured_at'', JStr (eb_captured_at b)),
     (''access_policy'', JStr (eb_access_policy b)),
     (''repository'', json_get (evidence_members b i x) ''repository''),
     (''revision'', json_get (evidence_members b i x) ''revision''), (''path'', json_opt JStr (eb_path b)),
     (''symbol_or_heading'', json_opt JStr (eb_symbol_or_heading b)), (''start_line'', json_opt JInt (eb_start_line b)),
     (''end_line'', json_opt JInt (eb_end_line b)), (''uri'', json_get (evidence_members b i x) ''uri''),
     (''source'', json_get (evidence_members b i x) ''source''),
     (''verification_method'', json_get (evidence_members b i x) ''verification_method'')]"
  by (simp add: binding_wire_def rebuilt_members evidence_members_get)

lemma rebuilt_wire_iff:
  "binding_wire (evidence_members b i x) (source_map b d) = evidence_binding_wire b \<longleftrightarrow> mode_locators b"
  unfolding rebuilt_wire by (auto simp: evidence_binding_wire_def locator_get mode_locators_def)

lemma rebuilt_wire_norm:
  "jcs_norm (JObj (binding_wire (evidence_members b i x) (source_map b d))) = jcs_norm (JObj (evidence_binding_wire b)) \<longleftrightarrow> mode_locators b"
proof -
  have "jcs_norm (json_opt JStr y) = JNull \<longleftrightarrow> y = None" "JNull = jcs_norm (json_opt JStr y) \<longleftrightarrow> y = None" for y
    by (cases y; simp add: json_opt_def)+
  then show ?thesis
    unfolding rebuilt_wire evidence_binding_wire_def
    by (subst jcs_norm_obj) (auto simp: locator_get mode_locators_def)
qed

lemma evidence_record_Inr:
  assumes "evidence_record_of T i b = Inr m"
  obtains d where "binding_digest_for T b = Inr d" "m = evidence_members b i [(''x-source-map'', JObj (source_map b d))]"
    "source_map_of m = Some (source_map b d)"
proof -
  obtain d where d: "binding_digest_for T b = Inr d" "m = evidence_members b i [(''x-source-map'', JObj (source_map b d))]"
    using assms by (auto simp: evidence_record_of_def binding_extension_def res_bind_Inr_iff)
  moreover have "source_map_of m = Some (source_map b d)"
    by (simp add: source_map_of_def d(2) evidence_members_get) (simp add: json_get_def)
  ultimately show ?thesis by (rule that)
qed

lemma q_digest_jcs: "q_digest T v = Inr d \<longleftrightarrow> jcs_digest (ge_host T) v = Inr d"
  by (auto simp: q_digest_def jcs_digest_def jcs_text_def res_bind_Inr_iff split: option.splits)

text \<open>What the bytes of a binding are to the gate: the source that the permit carries, or the blob.\<close>

definition bytes_available :: "gate_env \<Rightarrow> cas \<Rightarrow> (pystr \<times> bytes) list \<Rightarrow> evidence_binding \<Rightarrow> bool" where
  "bytes_available T store authoritative b \<longleftrightarrow>
    (if eb_mode b = ''CAS''
     then (\<exists>stored. read_verified (ge_host T) store (eb_content_digest b) = Inr stored \<and> sb_data stored = eb_source_bytes b)
     else map_of authoritative (eb_binding_id b) = Some (eb_source_bytes b))"

lemma subject_members:
  assumes "subject_wire b = JObj subject"
  shows "json_get subject ''content_digest'' = JStr (eb_content_digest b)" "json_get subject ''mode'' = JStr (eb_mode b)"
    "json_get subject ''media_type'' = JStr (eb_media_type b)" "json_get subject ''snapshot_id'' = JStr (eb_snapshot_id b)"
  using assms by (auto simp: subject_wire_def json_get_def)

lemma evidence_binding_members:
  "json_get (evidence_binding_wire b) ''binding_id'' = JStr (eb_binding_id b)"
  "json_get (evidence_binding_wire b) ''content_digest'' = JStr (eb_content_digest b)"
  "json_get (evidence_binding_wire b) ''mode'' = JStr (eb_mode b)"
  "json_get (evidence_binding_wire b) ''media_type'' = JStr (eb_media_type b)"
  "json_get (evidence_binding_wire b) ''snapshot_id'' = JStr (eb_snapshot_id b)"
  "json_get (evidence_binding_wire b) ''span_digest'' = JStr (eb_span_digest b)"
  "json_get (evidence_binding_wire b) ''start_line'' = json_opt JInt (eb_start_line b)"
  "json_get (evidence_binding_wire b) ''end_line'' = json_opt JInt (eb_end_line b)"
  "json_get (evidence_binding_wire b) ''repository'' = json_opt JStr (eb_repository b)"
  "json_get (evidence_binding_wire b) ''revision'' = json_opt JStr (eb_revision b)"
  "json_get (evidence_binding_wire b) ''path'' = json_opt JStr (eb_path b)"
  by (simp_all add: evidence_binding_wire_def json_get_def)

lemma authoritative_span_lines:
  assumes "line_span T data i j = Inr text"
  shows "authoritative_line_span T data (JInt i) (JInt j) = Inr text"
  using assms by (auto simp: line_span_def authoritative_line_span_def json_int_def res_bind_Inr_iff the_or_def)

lemma built_binding_validates:
  assumes "evidence_record_of T i b = Inr m" and "mode_locators b" and "binding_valid T b"
    and "map_of evidence (eb_binding_id b) = Some m" and "binding_digest_for T b = Inr d" and "d \<in> set digests"
    and "map_of subjects (eb_binding_id b) = Some subject" and "subject_wire b = JObj subject"
    and "bytes_available T store authoritative b"
    and "verify_evidence_binding T c s b = Inr ()" and "json_get atom ''statement'' = JStr (ca_statement c)"
  shows "validate_gate_binding T store atom evidence digests subjects authoritative (JStr (eb_binding_id b)) = Inr (evidence_binding_wire b)"
proof -
  from evidence_record_Inr [OF assms(1)] assms(5) have m: "source_map_of m = Some (source_map b d)"
      "m = evidence_members b i [(''x-source-map'', JObj (source_map b d))]" by auto
  have wire: "binding_wire m (source_map b d) = evidence_binding_wire b"
    unfolding m(2) using assms(2) by (simp only: rebuilt_wire_iff)
  have digest: "jcs_digest (ge_host T) (JObj (evidence_binding_wire b)) = Inr d"
    using assms(5) by (simp add: binding_digest_for_def q_digest_jcs)
  have clean: "ge_clean T (eb_source_bytes b)"
    using assms(10) by (auto simp: verify_evidence_binding_def verify_binding_bytes_def res_bind_Inr_iff)
  have data: "authoritative_binding_data T store (evidence_binding_wire b) (eb_binding_id b) authoritative = Inr (eb_source_bytes b)"
    using assms(9) clean
    by (auto simp: authoritative_binding_data_def bytes_available_def evidence_binding_members the_or_def json_str_def ensure_def guarded_def
        split: if_splits)
  obtain span where span: "line_span T (eb_source_bytes b) (ca_start_line c) (ca_end_line c) = Inr span"
      "span_statement T span = ge_strip T (ca_statement c)" "re_digest (ge_host T) span = eb_span_digest b"
      "eb_start_line b = Some (ca_start_line c)" "eb_end_line b = Some (ca_end_line c)"
    using assms(10) by (auto simp: verify_evidence_binding_def verify_binding_identity_def verify_binding_bytes_def res_bind_Inr_iff)
  have content: "eb_content_digest b = re_digest (ge_host T) (eb_source_bytes b)"
    using assms(3) by (simp add: binding_valid_def)
  have "validate_authoritative_binding T atom (evidence_binding_wire b) (eb_source_bytes b) = Inr ()"
    using span content authoritative_span_lines [OF span(1)] assms(11)
    by (simp add: validate_authoritative_binding_def evidence_binding_members json_opt_def res_bind_Inr_iff)
  with data digest wire m(1) assms(4,6,7) show ?thesis
    by (simp add: validate_gate_binding_def Let_def the_or_def json_str_def json_key_def ensure_def rebuilt_members
        evidence_binding_members subject_members [OF assms(8)])
qed

text \<open>A snapshot carries a proof only if the collector of the store issued it.\<close>

definition snapshots_proved :: "quarantine \<Rightarrow> bool" where
  "snapshots_proved q \<longleftrightarrow> (\<forall>i s. map_of (qn_snapshots q) i = Some s \<longrightarrow> sn_proof s = None \<or> has_deterministic_source_proof q s)"

lemma deterministic_token: "qn_source_token q' = qn_source_token q \<Longrightarrow> has_deterministic_source_proof q' = has_deterministic_source_proof q"
  by (rule ext) (simp add: has_deterministic_source_proof_def split: option.split)

lemma snapshots_proved_same:
  assumes "qn_snapshots q' = qn_snapshots q" and "qn_source_token q' = qn_source_token q" and "snapshots_proved q"
  shows "snapshots_proved q'"
  using assms(3) unfolding snapshots_proved_def assms(1) deterministic_token [OF assms(2)] .

lemma quarantine_step_proved:
  assumes "quarantine_step T q q'" and "snapshots_proved q"
  shows "snapshots_proved q'"
  using assms(1)
proof cases
  case (snapshots s)
  then have "qn_snapshots q' = AList.update (sn_snapshot_id s) s (qn_snapshots q)" "qn_source_token q' = qn_source_token q"
      "sn_proof s = None \<or> has_deterministic_source_proof q s"
    by (auto simp: register_snapshot_def res_bind_Inr_iff)
  note after = this
  show ?thesis unfolding snapshots_proved_def
  proof (intro allI impI)
    fix i t assume "map_of (qn_snapshots q') i = Some t"
    then have "t = s \<or> map_of (qn_snapshots q) i = Some t"
      unfolding after(1) update_conv' by (simp split: if_splits)
    with after(3) assms(2) have "sn_proof t = None \<or> has_deterministic_source_proof q t"
      unfolding snapshots_proved_def by blast
    then show "sn_proof t = None \<or> has_deterministic_source_proof q' t"
      unfolding deterministic_token [OF after(2)] .
  qed
next
  case (candidates c)
  then have "qn_snapshots q' = qn_snapshots q" "qn_source_token q' = qn_source_token q"
    by (auto simp: register_candidate_def res_bind_Inr_iff)
  then show ?thesis using assms(2) by (rule snapshots_proved_same)
next
  case (binds b)
  then have "qn_snapshots q' = qn_snapshots q" "qn_source_token q' = qn_source_token q"
    by (auto simp: register_binding_def Let_def res_bind_Inr_iff)
  then show ?thesis using assms(2) by (rule snapshots_proved_same)
next
  case (promotes W now i a v)
  then have "qn_snapshots q' = qn_snapshots q" "qn_source_token q' = qn_source_token q"
    by (auto simp: promote_def Let_def res_bind_Inr_iff)
  then show ?thesis using assms(2) by (rule snapshots_proved_same)
qed

lemma quarantine_run_proved: "quarantine_run T q q' \<Longrightarrow> snapshots_proved q \<Longrightarrow> snapshots_proved q'"
  by (induction rule: quarantine_run.induct) (blast intro: quarantine_step_proved)+

lemma snapshots_proved_new: "snapshots_proved (new_quarantine r i tokens)"
  by (cases tokens) (simp add: snapshots_proved_def new_quarantine_def)

section \<open>Candidate and approval of a promoted atom\<close>

lemma validated_fields:
  assumes "v = validated_from c bs a"
  shows "va_candidate_id v = ca_candidate_id c" "va_atom_id v = ca_atom_id c" "va_kind v = ca_kind c"
    "va_statement v = ca_statement c" "va_modality v = ca_modality c" "va_scope v = ca_scope c"
    "va_source_snapshot_id v = ca_source_snapshot_id c" "va_start_line v = ca_start_line c" "va_end_line v = ca_end_line c"
    "va_symbol_or_heading v = ca_symbol_or_heading c" "va_compression_class v = ca_compression_class c"
    "va_evidence_bindings v = bs" "va_approval v = a" "va_source_trust_level v = ca_trust_level c"
    "va_generated v = ca_generated c" "va_trust_level v = ''T1''" "va_status v = ''validated''"
  by (simp_all add: assms validated_from_def)

lemma trust_candidate_get:
  "json_get (trust_candidate v) ''candidate_id'' = JStr (va_candidate_id v)"
  "json_get (trust_candidate v) ''atom_id'' = JStr (va_atom_id v)"
  "json_get (trust_candidate v) ''kind'' = JStr (va_kind v)"
  "json_get (trust_candidate v) ''statement'' = JStr (va_statement v)"
  "json_get (trust_candidate v) ''modality'' = JStr (va_modality v)"
  "json_get (trust_candidate v) ''scope'' = json_strings (va_scope v)"
  "json_get (trust_candidate v) ''source_snapshot_id'' = JStr (va_source_snapshot_id v)"
  "json_get (trust_candidate v) ''start_line'' = JInt (va_start_line v)"
  "json_get (trust_candidate v) ''end_line'' = JInt (va_end_line v)"
  "json_get (trust_candidate v) ''symbol_or_heading'' = JStr (va_symbol_or_heading v)"
  "json_get (trust_candidate v) ''compression_class'' = JStr (va_compression_class v)"
  "json_get (trust_candidate v) ''generated'' = JBool (va_generated v)"
  "json_get (trust_candidate v) ''status'' = JStr ''candidate''"
  "json_get (trust_candidate v) ''source_trust_level'' = JStr (va_source_trust_level v)"
  "json_get (trust_candidate v) ''validated_trust_level'' = JStr (va_trust_level v)"
  "json_get (trust_candidate v) ''validated_status'' = JStr (va_status v)"
  by (simp_all add: trust_candidate_def json_get_def)

lemma built_projection:
  assumes "v = validated_from c bs a" and "ca_status c = ''candidate''"
  shows "candidate_projection (trust_candidate v) = JObj (candidate_wire c)"
  by (simp add: candidate_projection_def projection_keys_def trust_candidate_get validated_fields [OF assms(1)]
      candidate_wire_def assms(2))

lemma candidate_of_wire:
  assumes "v = validated_from c bs a" and "ca_status c = ''candidate''"
  shows "candidate_wire (candidate_of v) = candidate_wire c"
  by (simp add: candidate_wire_def candidate_of_def validated_fields [OF assms(1)] assms(2))

text \<open>The members of the permit's entry.\<close>

definition entry_members :: "candidate_atom \<Rightarrow> source_snapshot \<Rightarrow> pystr \<Rightarrow> validated_atom \<Rightarrow> members" where
  "entry_members c s digest v = candidate_wire c @
     [(''candidate_digest'', JStr digest), (''snapshot_id'', JStr (va_source_snapshot_id v)),
      (''snapshot_principal_id'', JStr (sn_principal_id s)), (''snapshot_captured_at'', JStr (sn_captured_at s)),
      (''source_trust_level'', JStr (va_source_trust_level v)), (''validated_trust_level'', JStr (va_trust_level v)),
      (''validated_status'', JStr (va_status v)), (''source_proof'', snapshot_proof_wire s),
      (''approval'', JObj (approval_wire (va_approval v))),
      (''bindings'', JList (map (JObj \<circ> evidence_binding_wire) (va_evidence_bindings v)))]"

lemma entry_get:
  "json_get (entry_members c s d v) ''candidate_digest'' = JStr d"
  "json_get (entry_members c s d v) ''snapshot_principal_id'' = JStr (sn_principal_id s)"
  "json_get (entry_members c s d v) ''snapshot_captured_at'' = JStr (sn_captured_at s)"
  "json_get (entry_members c s d v) ''source_trust_level'' = JStr (va_source_trust_level v)"
  "json_get (entry_members c s d v) ''validated_trust_level'' = JStr (va_trust_level v)"
  "json_get (entry_members c s d v) ''validated_status'' = JStr (va_status v)"
  "json_get (entry_members c s d v) ''source_proof'' = snapshot_proof_wire s"
  "json_get (entry_members c s d v) ''approval'' = JObj (approval_wire (va_approval v))"
  "json_get (entry_members c s d v) ''bindings'' = JList (map (JObj \<circ> evidence_binding_wire) (va_evidence_bindings v))"
  by (simp_all add: entry_members_def candidate_wire_def json_get_def)

lemma entry_projection:
  assumes "v = validated_from c bs a"
  shows "permit_projection (entry_members c s d v) = JObj (candidate_wire c)"
  by (simp add: permit_projection_def projection_keys_def entry_members_def validated_fields [OF assms] candidate_wire_def json_get_def)

lemma trust_record_get:
  "json_get (trust_record v d) ''level'' = JStr (va_trust_level v)"
  "json_get (trust_record v d) ''source_level'' = JStr (va_source_trust_level v)"
  "json_get (trust_record v d) ''candidate_id'' = JStr (va_candidate_id v)"
  "json_get (trust_record v d) ''candidate_digest'' = JStr d"
  "json_get (trust_record v d) ''candidate'' = JObj (trust_candidate v)"
  "json_get (trust_record v d) ''approval'' = JObj (trust_approval (va_approval v))"
  by (simp_all add: trust_record_def json_get_def)

lemma atom_members_get:
  "json_get (atom_members v authority day x) ''atom_id'' = JStr (va_atom_id v)"
  "json_get (atom_members v authority day x) ''kind'' = JStr (va_kind v)"
  "json_get (atom_members v authority day x) ''statement'' = JStr (va_statement v)"
  "json_get (atom_members v authority day x) ''modality'' = JStr (va_modality v)"
  "json_get (atom_members v authority day x) ''scope'' = json_strings (va_scope v)"
  "json_get (atom_members v authority day x) ''status'' = JStr ''validated''"
  "json_get (atom_members v authority day x) ''compression_class'' = JStr (va_compression_class v)"
  "json_get (atom_members v authority day x) ''evidence_refs'' = json_strings (map eb_binding_id (va_evidence_bindings v))"
  "json_get (atom_members v authority day x) ''extensions'' = JObj x"
  by (simp_all add: atom_members_def json_get_def)

end
