(* ===== verification/Publish_Laws.thy ===== *)
theory Publish_Laws
  imports Builder_Laws Quarantine_Properties
begin

text \<open>
  What the builder writes of a promoted atom, seen by the gate check for check; and the entries of
  a permit, traced back to the atoms it was issued for.
\<close>

section \<open>The approval in the capsule\<close>

lemma trust_approval_members: "map_of (trust_approval a) = map_of (approval_wire a)"
  by (simp add: trust_approval_def approval_wire_def fun_upd_twist)

lemma trust_approval_fields:
  "approval_field (trust_approval a) = approval_field (approval_wire a)"
  "json_get (trust_approval a) = json_get (approval_wire a)"
  "set (dict_keys (trust_approval a)) = set (dict_keys (approval_wire a))"
  by (simp_all add: approval_field_def json_get_def trust_approval_members fun_eq_iff)
    (auto simp: trust_approval_def approval_wire_def)

lemma trust_approval_same:
  "human_approval_valid T (trust_approval a) = human_approval_valid T (approval_wire a)"
  "hmac_verify T r (trust_approval a) = hmac_verify T r (approval_wire a)"
  unfolding human_approval_valid_def hmac_verify_def approval_signing_json_def trust_approval_fields by (simp_all only: refl)

lemma sort_swap_last: "f x \<noteq> f y \<Longrightarrow> sort_key f (zs @ [x, y]) = sort_key f (zs @ [y, x])"
  by (simp add: sort_key_def insort_key_left_comm [of f x y "[]", simplified])

lemma trust_approval_text:
  assumes "jcs_law (rv_dumps (re_base (ge_host T)))"
  shows "jcs_same (ge_host T) (JObj (approval_wire a)) (JObj (trust_approval a)) = Inr True"
proof -
  let ?n = "\<lambda>f. (fst f, jcs_norm (snd f))"
  obtain xs where xs: "approval_wire a = xs @ [(''signature'', JStr (ha_signature a)), (''issuer'', JStr (ha_issuer a))]"
      "trust_approval a = xs @ [(''issuer'', JStr (ha_issuer a)), (''signature'', JStr (ha_signature a))]"
    by (simp add: approval_wire_def trust_approval_def)
  have "jcs_norm (JObj (approval_wire a)) = jcs_norm (JObj (trust_approval a))"
    unfolding xs jcs_norm.simps(3) map_append list.map by (subst sort_swap_last) simp_all
  then have "rv_dumps (re_base (ge_host T)) (JObj (approval_wire a)) = rv_dumps (re_base (ge_host T)) (JObj (trust_approval a))"
    using assms by (simp add: jcs_law_def)
  moreover have "json_value_ok (JObj (approval_wire a))" "json_value_ok (JObj (trust_approval a))"
    by (simp_all add: approval_wire_def trust_approval_def json_strings_def json_opt_def split: option.split)
  ultimately show ?thesis
    by (simp add: jcs_same_def jcs_text_def canonical_json_bytes_def)
qed

lemma approval_wire_get:
  "approval_field (approval_wire a) ''approver_id'' = JStr (ha_approver_id a)"
  "approval_field (approval_wire a) ''decision'' = JStr (ha_decision a)"
  "approval_field (approval_wire a) ''candidate_id'' = JStr (ha_candidate_id a)"
  "approval_field (approval_wire a) ''candidate_digest'' = JStr (ha_candidate_digest a)"
  "approval_field (approval_wire a) ''approved_at'' = JStr (ha_approved_at a)"
  "approval_field (approval_wire a) ''expires_at'' = json_opt JStr (ha_expires_at a)"
  "approval_field (approval_wire a) ''evidence_digests'' = json_strings (ha_evidence_digests a)"
  "json_get (approval_wire a) ''evidence_digests'' = json_strings (ha_evidence_digests a)"
  by (simp_all add: approval_field_def approval_wire_def json_get_def)

lemma digest_list_strings: "digest_list (json_strings xs) \<noteq> None \<Longrightarrow> digest_list (json_strings xs) = Some xs"
  by (auto simp: digest_list_def json_strings_def json_str_def comp_def split: if_splits)

text \<open>Given before, and not expired, when the gate looks at the clock.\<close>

definition approval_timely :: "gate_env \<Rightarrow> human_approval \<Rightarrow> bool" where
  "approval_timely T a \<longleftrightarrow>
     (\<forall>t. approval_instant T (ha_approved_at a) = Inr t \<longrightarrow> t \<le> ge_now T (ha_candidate_id a)) \<and>
     (\<forall>e t. ha_expires_at a = Some e \<longrightarrow> approval_instant T e = Inr t \<longrightarrow> ge_now T (ha_candidate_id a) < t)"

lemma approval_instant_Inr: "approval_instant T s = Inr t \<longleftrightarrow> parse_instant T (JStr s) = Some t"
  by (simp add: approval_instant_def)

lemma built_approval_accepted:
  assumes "jcs_law (rv_dumps (re_base (ge_host T)))" and "human_approval_valid T (approval_wire a)" and "va_approval v = a"
    and "hmac_verify T r (approval_wire a) = Inr True" and "approval_timely T a"
    and "ha_decision a = ''approve''" and "ha_candidate_digest a = d" and "ha_evidence_digests a \<noteq> []"
    and "ha_approver_id a \<noteq> sn_principal_id s" and "approval_instant T (sn_captured_at s) = Inr captured"
    and "approval_instant T (ha_approved_at a) = Inr approved" and "captured \<le> approved"
  shows "validate_approval T r (ha_candidate_id a) d (trust_record v d) (entry_members c s d' v) = Inr (ha_evidence_digests a)"
proof -
  have "digest_list (json_strings (ha_evidence_digests a)) = Some (ha_evidence_digests a)"
    using assms(2) digest_list_strings by (auto simp: human_approval_valid_def approval_wire_get)
  moreover have "approved \<le> ge_now T (ha_candidate_id a)"
    using assms(5,11) by (simp add: approval_timely_def)
  moreover have "case parse_instant T (json_opt JStr (ha_expires_at a)) of None \<Rightarrow> True | Some t \<Rightarrow> ge_now T (ha_candidate_id a) < t"
    using assms(5) by (cases "ha_expires_at a")
      (auto simp: approval_timely_def approval_instant_Inr json_opt_def parse_instant_def split: option.split)
  ultimately show ?thesis
    using assms(2,4,6-12)
    by (simp add: validate_approval_def trust_record_get entry_get assms(3) trust_approval_text [OF assms(1)] trust_approval_same
        trust_approval_fields approval_wire_get approval_instant_Inr validate_approval_source_def the_or_def ensure_def
        guarded_def json_str_def)
qed

section \<open>Its candidate and bindings\<close>

definition proof_members :: "source_proof \<Rightarrow> members" where
  "proof_members p = (case source_proof_wire p of JObj m \<Rightarrow> m | _ \<Rightarrow> [])"

lemma proof_members_get:
  "source_proof_wire p = JObj (proof_members p)"
  "json_get (proof_members p) ''snapshot_id'' = JStr (pf_snapshot_id p)"
  "json_get (proof_members p) ''content_digest'' = JStr (pf_content_digest p)"
  "json_get (proof_members p) ''mode'' = JStr (pf_mode p)"
  "json_get (proof_members p) ''repository'' = JStr (pf_repository p)"
  "json_get (proof_members p) ''revision'' = JStr (pf_revision p)"
  "json_get (proof_members p) ''path'' = JStr (pf_path p)"
  "json_get (proof_members p) ''collector_profile'' = JStr (pf_collector_profile p)"
  by (simp_all add: proof_members_def source_proof_wire_def json_get_def)

lemma built_classification:
  assumes "snapshots_proved q" and "map_of (qn_snapshots q) i = Some s" and "va_source_trust_level v = expected_trust q s"
    and "va_generated v = sn_generated s" and "va_source_snapshot_id v = sn_snapshot_id s"
  shows "source_classification (trust_candidate v) (entry_members c s d v) = Inr (map_option proof_members (sn_proof s))"
proof (cases "has_deterministic_source_proof q s")
  case True
  then obtain p where "sn_proof s = Some p" "\<not> sn_generated s" "pf_collector_profile p = ''CCS-2.1-deterministic-source-v1''"
      "pf_snapshot_id p = sn_snapshot_id s" "pf_mode p = ''GIT_IMMUTABLE''"
    by (auto simp: has_deterministic_source_proof_def split: option.splits)
  with True assms(3-5) show ?thesis
    by (simp add: source_classification_def Let_def trust_candidate_get entry_get snapshot_proof_wire_def proof_members_get expected_trust_def)
next
  case False
  with assms(1,2) have "sn_proof s = None" by (auto simp: snapshots_proved_def)
  with False assms(3,4) show ?thesis
    by (simp add: source_classification_def Let_def trust_candidate_get entry_get snapshot_proof_wire_def expected_trust_def)
qed

lemma built_candidate_accepted:
  assumes "v = validated_from c bs a" and "ca_status c = ''candidate''" and "candidate_digest_for T c = Inr d"
    and "source_classification (trust_candidate v) (entry_members c s d v) = Inr proof"
  shows "validate_candidate_witness T (atom_members v authority day x) (trust_record v d) (entry_members c s d v) = Inr (trust_candidate v, d, proof)"
proof -
  have digest: "jcs_digest (ge_host T) (JObj (candidate_wire c)) = Inr d"
    using assms(3) by (simp add: candidate_digest_for_def q_digest_jcs)
  then have "jcs_same (ge_host T) (JObj (candidate_wire c)) (JObj (candidate_wire c)) = Inr True"
    by (auto simp: jcs_digest_def jcs_same_def jcs_text_def res_bind_Inr_iff split: option.splits)
  with digest show ?thesis
    by (simp add: validate_candidate_witness_def candidate_matches_permit_def trust_record_get trust_candidate_get entry_get
        atom_members_get validated_fields [OF assms(1)] built_projection [OF assms(1,2)] entry_projection [OF assms(1)] assms(4)
        the_or_def json_str_def ensure_def json_eq_def [of v v for v])
qed

text \<open>The binding of a deterministic source is that source.\<close>

lemma deterministic_binding:
  assumes "has_deterministic_source_proof q s" and "sn_proof s = Some p" and "verify_evidence_binding T c s b = Inr ()"
  shows "proof_binds (Some (proof_members p)) (evidence_binding_wire b # bs)"
proof -
  have b: "eb_mode b = sn_mode s" "eb_snapshot_id b = sn_snapshot_id s" "eb_content_digest b = sn_content_digest s"
      "eb_path b = Some (sn_relative_path s)" "verify_binding_locator s b = Inr ()"
    using assms(3) by (auto simp: verify_evidence_binding_def verify_binding_identity_def res_bind_Inr_iff)
  have p: "pf_mode p = sn_mode s" "sn_mode s = ''GIT_IMMUTABLE''" "pf_snapshot_id p = sn_snapshot_id s"
      "pf_content_digest p = sn_content_digest s" "Some (pf_repository p) = sn_repository s" "Some (pf_revision p) = sn_revision s"
      "pf_path p = sn_relative_path s"
    using assms(1,2) by (simp_all add: has_deterministic_source_proof_def)
  from b(5) have "eb_repository b = Some (pf_repository p)" "eb_revision b = Some (pf_revision p)"
    using b(1) p(2,5,6) by (simp_all add: verify_binding_locator_def)
  with b(1-4) p(1-4,7) show ?thesis
    by (simp add: proof_binds_def proof_members_get evidence_binding_members json_opt_def)
qed

text \<open>What the gate knows of the bindings of an atom: their records, their subjects and their bytes.\<close>

definition bindings_known ::
  "gate_env \<Rightarrow> cas \<Rightarrow> (pystr \<times> members) list \<Rightarrow> (pystr \<times> members) list \<Rightarrow> (pystr \<times> bytes) list \<Rightarrow> validated_atom \<Rightarrow> bool" where
  "bindings_known T store evidence subjects authoritative v \<longleftrightarrow> (\<forall>b \<in> set (va_evidence_bindings v).
     binding_valid T b \<and> mode_locators b \<and> bytes_available T store authoritative b \<and>
     (\<exists>m. evidence_record_of T (va_atom_id v) b = Inr m \<and> map_of evidence (eb_binding_id b) = Some m) \<and>
     (\<exists>m. subject_wire b = JObj m \<and> map_of subjects (eb_binding_id b) = Some m))"

lemma built_bindings_accepted:
  assumes "bindings_known T store evidence subjects authoritative v" and "v = validated_from c bs a"
    and "\<forall>b \<in> set bs. verify_evidence_binding T c s b = Inr ()" and "res_map (binding_digest_for T) bs = Inr digests"
  shows "res_map (validate_gate_binding T store (atom_members v authority day x) evidence digests subjects authoritative)
      (map (JStr \<circ> eb_binding_id) bs) = Inr (map evidence_binding_wire bs)"
proof -
  have "validate_gate_binding T store (atom_members v authority day x) evidence digests subjects authoritative (JStr (eb_binding_id b)) =
      Inr (evidence_binding_wire b)" if b: "b \<in> set bs" for b
  proof -
    obtain d where d: "binding_digest_for T b = Inr d" "d \<in> set digests"
      using assms(4) b by (force simp: res_map_Inr_iff list_all2_conv_all_nth in_set_conv_nth)
    from assms(1) b obtain m subject where "evidence_record_of T (va_atom_id v) b = Inr m" "map_of evidence (eb_binding_id b) = Some m"
        "subject_wire b = JObj subject" "map_of subjects (eb_binding_id b) = Some subject" "binding_valid T b" "mode_locators b"
        "bytes_available T store authoritative b"
      by (auto simp: bindings_known_def validated_fields [OF assms(2)])
    then show ?thesis
      using d assms(3) b by (intro built_binding_validates [where c = c and s = s]) (auto simp: atom_members_get validated_fields [OF assms(2)])
  qed
  then show ?thesis
    by (simp add: res_map_Inr_iff list_all2_conv_all_nth)
qed

lemma bindings_text:
  assumes "res_map (binding_digest_for T) bs = Inr digests"
  shows "res_map (\<lambda>b. jcs_digest (ge_host T) (JObj b)) (map evidence_binding_wire bs) = Inr digests"
    "jcs_same (ge_host T) (JList (map (JObj \<circ> evidence_binding_wire) bs)) (JList (map JObj (map evidence_binding_wire bs))) = Inr True"
proof -
  have each: "\<And>b. b \<in> set bs \<Longrightarrow> \<exists>d. jcs_digest (ge_host T) (JObj (evidence_binding_wire b)) = Inr d"
    using assms by (force simp: res_map_Inr_iff list_all2_conv_all_nth in_set_conv_nth binding_digest_for_def q_digest_jcs)
  show "res_map (\<lambda>b. jcs_digest (ge_host T) (JObj b)) (map evidence_binding_wire bs) = Inr digests"
    using assms by (simp add: res_map_Inr_iff list_all2_conv_all_nth binding_digest_for_def q_digest_jcs)
  have "json_value_ok (JObj (evidence_binding_wire b))" if "b \<in> set bs" for b
    using each [OF that] by (auto simp: jcs_digest_def jcs_text_def canonical_json_bytes_def res_bind_Inr_iff split: if_splits)
  then have "json_value_ok (JList (map (JObj \<circ> evidence_binding_wire) bs))" by simp
  then show "jcs_same (ge_host T) (JList (map (JObj \<circ> evidence_binding_wire) bs)) (JList (map JObj (map evidence_binding_wire bs))) = Inr True"
    by (simp add: jcs_same_def jcs_text_def canonical_json_bytes_def comp_def del: json_value_ok.simps)
qed

section \<open>Entries of a permit\<close>

lemma entered_atom:
  assumes "quarantine_run T (new_quarantine r i tokens) q" and "permit_atom_entry T W now q v = Inr (entry, bs, p)"
  obtains c s d where "map_of (qn_candidates q) (va_candidate_id v) = Some c"
    "map_of (qn_snapshots q) (va_source_snapshot_id v) = Some s" "candidate_digest_for T c = Inr d"
    "entry = entry_members c s d v" "ge_clean T (va_statement v)"
    "\<forall>b \<in> set (va_evidence_bindings v). verify_evidence_binding T c s b = Inr ()"
    "v = validated_from c (va_evidence_bindings v) (va_approval v)" "va_generated v = sn_generated s"
    "va_evidence_bindings v \<noteq> []" "approval_backs T q c (va_evidence_bindings v) s (va_approval v)"
    "va_source_snapshot_id v = sn_snapshot_id s"
proof -
  have inv: "quarantine_inv T q" using quarantine_run_grows [OF assms(1) quarantine_inv_new] by blast
  from permit_atom_entry_Inr [OF assms(2)] obtain c s d where c: "verify_validated T W now q v = Inr ()"
      "map_of (qn_candidates q) (va_candidate_id v) = Some c" "map_of (qn_snapshots q) (va_source_snapshot_id v) = Some s"
      "candidate_digest_for T c = Inr d" "entry = entry_members c s d v" unfolding entry_members_def by metis
  from c(1) have promoted: "map_of (qn_promoted q) (va_candidate_id v) = Some v" and clean: "ge_clean T (va_statement v)"
    and verified: "\<forall>b \<in> set (va_evidence_bindings v). verify_evidence_binding T c s b = Inr ()"
    using c(2,3) by (auto simp: verify_validated_def res_bind_Inr_iff res_map_Inr_iff list_all2_conv_all_nth in_set_conv_nth)
  from quarantine_invD(3) [OF inv promoted] c(2,3) have "v = validated_from c (va_evidence_bindings v) (va_approval v)"
      "va_generated v = sn_generated s" "va_evidence_bindings v \<noteq> []"
      "approval_backs T q c (va_evidence_bindings v) s (va_approval v)"
    by (auto simp: promotion_backed_def)
  moreover have "va_source_snapshot_id v = sn_snapshot_id s" using quarantine_invD(1) [OF inv c(3)] by simp
  ultimately show ?thesis using that c(2-5) clean verified by blast
qed

lemma publish_draft_Inr:
  assumes "publish_draft B R W now blobs db (Some q) draft caller stamped = Inr (out, db')"
  obtains permit where "issue_publication_permit (rg_gate R) W now q (dr_capsule draft) (dr_atoms draft) caller (dr_attestation draft) = Inr permit"
    "registry_publish R blobs db (dr_capsule draft) caller (Some permit) stamped = Inr (out, db')"
  using assms by (auto simp: publish_draft_def split: sum.splits bool.splits)

lemma permitted_entry:
  assumes "issue_publication_permit T W now q c atoms caller attestation = Inr p"
    and "json_get (pm_payload p) ''atoms'' = JList items" and "JObj m \<in> set items"
  obtains v bs sp where "v \<in> set atoms" "permit_atom_entry T W (now (va_candidate_id v)) q v = Inr (m, bs, sp)"
proof -
  obtain r where r: "qn_trust_root q = Some r"
    using assms(1) by (auto simp: issue_publication_permit_def res_bind_Inr_iff)
  from issue_permit_Inr [OF assms(1) r] obtain a parts anchor where p: "pm_payload p = permit_payload r anchor c caller a parts"
      "res_fold (permit_step T W now q) \<lparr> pt_seen = [], pt_entries = [], pt_subjects = [], pt_bytes = [], pt_proofs = [] \<rparr> atoms = Inr parts"
    by metis
  with assms(2,3) have "JObj m \<in> set (pt_entries parts)" by (simp add: permit_payload_members)
  from permit_entries [OF p(2) this] show ?thesis by (auto intro: that)
qed

section \<open>A built atom passes\<close>

lemma built_atom_passes:
  assumes "jcs_law (rv_dumps (re_base (ge_host T)))"
    and "quarantine_run T (new_quarantine (Some r) i tokens) q"
    and "permit_atom_entry T W now q v = Inr (entry, bs, p)" and "atom_record T authority v = Inr atom"
    and "json_get atom ''extensions'' = JObj ext" and "json_get ext ''x-trust'' = JObj trust"
    and "map_of permit_by_id (va_candidate_id v) = Some entry"
    and "\<forall>c. map_of (qn_candidates q) (va_candidate_id v) = Some c \<longrightarrow> candidate_valid T c"
    and "\<forall>s. map_of (qn_snapshots q) (va_source_snapshot_id v) = Some s \<longrightarrow> va_source_trust_level v = expected_trust q s"
    and "human_approval_valid T (approval_wire (va_approval v))" and "approval_timely T (va_approval v)"
    and "bindings_known T store evidence subjects authoritative v"
  shows "validate_m3_atom T r store permit_by_id evidence subjects authoritative (atom, trust) = Inr ()"
proof -
  from entered_atom [OF assms(2,3)] obtain c s d where c: "map_of (qn_candidates q) (va_candidate_id v) = Some c"
      "map_of (qn_snapshots q) (va_source_snapshot_id v) = Some s" "candidate_digest_for T c = Inr d"
      "entry = entry_members c s d v" "ge_clean T (va_statement v)"
      "\<forall>b \<in> set (va_evidence_bindings v). verify_evidence_binding T c s b = Inr ()"
    and v: "v = validated_from c (va_evidence_bindings v) (va_approval v)" "va_generated v = sn_generated s"
      "va_evidence_bindings v \<noteq> []" "approval_backs T q c (va_evidence_bindings v) s (va_approval v)"
      "va_source_snapshot_id v = sn_snapshot_id s" by metis
  have root: "qn_trust_root q = Some r" and proved: "snapshots_proved q"
    using quarantine_run_grows [OF assms(2) quarantine_inv_new] quarantine_run_proved [OF assms(2) snapshots_proved_new]
    by (cases tokens; auto simp: quarantine_grows_def new_quarantine_def)+
  define bs' a where "bs' = va_evidence_bindings v" and "a = va_approval v"
  note v = v[folded bs'_def a_def] and verified = c(6)[folded bs'_def]
  note fields = validated_fields [OF v(1)]
  have status: "ca_status c = ''candidate''" using assms(8) c(1) by (simp add: candidate_valid_def)
  obtain x where atom: "atom = atom_members v authority x [(''x-trust'', JObj (trust_record v d))]"
    using assms(4) c(3) candidate_of_wire [OF v(1) status]
    by (auto simp: atom_record_def approval_extension_def candidate_digest_for_def res_bind_Inr_iff split: if_splits)
  have trust: "trust = trust_record v d"
    using assms(5,6) by (simp add: atom atom_members_get) (auto simp: json_get_def)
  obtain captured approved where backs: "ha_candidate_id a = ca_candidate_id c" "ha_decision a = ''approve''"
      "ha_candidate_digest a = d" "res_map (binding_digest_for T) bs' = Inr (ha_evidence_digests a)"
      "ha_approver_id a \<noteq> sn_principal_id s" "approval_trusted T q a = Inr True"
      "approval_instant T (sn_captured_at s) = Inr captured" "approval_instant T (ha_approved_at a) = Inr approved" "captured \<le> approved"
    using v(4) c(3) by (auto simp: approval_backs_def)
  have signed: "hmac_verify T r (approval_wire a) = Inr True"
    using backs(6) by (simp add: approval_trusted_def root split: sum.splits)
  have digests: "ha_evidence_digests a \<noteq> []"
    using backs(4) v(3) by (auto simp: res_map_Inr_iff)
  have level: "source_classification (trust_candidate v) (entry_members c s d v) = Inr (map_option proof_members (sn_proof s))"
    using built_classification [OF proved c(2) _ v(2,5)] assms(9) c(2) by blast
  have witness: "validate_candidate_witness T atom trust entry = Inr (trust_candidate v, d, map_option proof_members (sn_proof s))"
    unfolding atom trust c(4) by (rule built_candidate_accepted [OF v(1) status c(3) level])
  have approval: "validate_approval T r (va_candidate_id v) d trust entry = Inr (ha_evidence_digests a)"
    using built_approval_accepted [OF assms(1) _ _ signed _ backs(2,3) digests backs(5,7,8,9), of v] assms(10,11) backs(1)
    unfolding trust c(4) by (simp add: a_def [symmetric] fields(1))
  have bindings: "res_map (validate_gate_binding T store atom evidence (ha_evidence_digests a) subjects authoritative)
      (map (JStr \<circ> eb_binding_id) bs') = Inr (map evidence_binding_wire bs')"
    unfolding atom using built_bindings_accepted [OF assms(12) v(1) verified backs(4)] .
  have deterministic: "va_source_trust_level v = ''T2'' \<longrightarrow>
      proof_binds (map_option proof_members (sn_proof s)) (map evidence_binding_wire bs')"
  proof
    assume "va_source_trust_level v = ''T2''"
    with assms(9) c(2) have "has_deterministic_source_proof q s" by (auto simp: expected_trust_def split: if_splits)
    then obtain p where p: "has_deterministic_source_proof q s" "sn_proof s = Some p"
      by (auto simp: has_deterministic_source_proof_def split: option.splits)
    obtain b rest where b: "bs' = b # rest" using v(3) by (cases bs') auto
    then have "verify_evidence_binding T c s b = Inr ()" using verified by simp
    from deterministic_binding [OF p this] show "proof_binds (map_option proof_members (sn_proof s)) (map evidence_binding_wire bs')"
      by (simp add: p(2) b)
  qed
  have "validate_bindings T store atom evidence (ha_evidence_digests a) subjects
      (json_get (trust_candidate v) ''source_trust_level'') (map_option proof_members (sn_proof s)) authoritative =
      Inr (map evidence_binding_wire bs')"
    using bindings deterministic
    by (simp add: validate_bindings_def atom atom_members_get trust_candidate_get json_strings_def comp_def bs'_def [symmetric]
        the_or_def ensure_def json_list_def)
  moreover have "json_get entry ''bindings'' = JList (map (JObj \<circ> evidence_binding_wire) bs')"
    by (simp add: c(4) entry_get bs'_def)
  moreover have "json_get trust ''candidate_id'' = JStr (va_candidate_id v)" "json_get atom ''statement'' = JStr (va_statement v)"
    by (simp_all add: trust trust_record_get atom atom_members_get)
  ultimately show ?thesis
    using witness approval assms(7) c(5) bindings_text [OF backs(4)]
    by (simp add: validate_m3_atom_def the_or_def ensure_def json_str_def json_list_def)
qed

section \<open>An accepted atom was promoted\<close>

lemma permitted_atoms_promoted:
  assumes "jcs_law (rv_dumps (re_base (ge_host T)))" and "quarantine_run T (new_quarantine r i tokens) q"
    and "issue_publication_permit T W now q draft atoms publisher attestation = Inr permit"
    and "validate_m3_publication T trusted store c caller (Some permit) = Inr payload"
    and "requires_m3_gate c" and "a \<in> set (capsule_atoms c)"
  shows "\<exists>v \<in> set atoms. copies_atom a v \<and> map_of (qn_promoted q) (va_candidate_id v) = Some v \<and> promotion_backed T q v"
proof -
  have inv: "quarantine_inv T q" using quarantine_run_grows [OF assms(2) quarantine_inv_new] by blast
  from gate_accepts_permitted [OF assms(4,5,1,6)] obtain items m where m: "json_get (pm_payload permit) ''atoms'' = JList items"
      "JObj m \<in> set items" "permits_atom m a" .
  from permitted_entry [OF assms(3) m(1,2)] obtain v bs sp where v: "v \<in> set atoms"
      "permit_atom_entry T W (now (va_candidate_id v)) q v = Inr (m, bs, sp)" .
  then have promoted: "map_of (qn_promoted q) (va_candidate_id v) = Some v"
    by (auto simp: permit_atom_entry_def verify_validated_def res_bind_Inr_iff)
  then have backed: "promotion_backed T q v" using quarantine_invD(3) [OF inv] by blast
  with v promoted permitted_atom_copies [OF v(2) backed m(3)] show ?thesis by blast
qed

end
