(* ===== verification/Publish_Sample.thy ===== *)
theory Publish_Sample
  imports Publish_Laws
begin

text \<open>
  The atom of the quarantine sample in a capsule: its record and its evidence as the builder writes
  them, its permit, and the gate that lets it through.
\<close>

definition pub_record :: members where
  "pub_record = (case evidence_record_of reg_gate (''atom-'' @ quarantine_hash) quarantine_binding of Inr m \<Rightarrow> m | _ \<Rightarrow> [])"

definition pub_wire :: members where
  "pub_wire = (case atom_record reg_gate ''team'' quarantine_validated of Inr m \<Rightarrow> m | _ \<Rightarrow> [])"

definition pub_trust :: members where
  "pub_trust = trust_record quarantine_validated (text_digest (CHR ''a''))"

definition pub_subject :: members where
  "pub_subject = (case subject_wire quarantine_binding of JObj m \<Rightarrow> m | _ \<Rightarrow> [])"

lemma law_record: "evidence_record_of (law_gate d) (va_atom_id quarantine_validated) quarantine_binding = Inr pub_record"
  by code_simp

lemma law_wire: "atom_record (law_gate d) ''team'' quarantine_validated = Inr pub_wire"
  by code_simp

lemma pub_wire_trust: "json_get pub_wire ''extensions'' = JObj [(''x-trust'', JObj pub_trust)]"
  by code_simp

lemma law_binding_valid: "binding_valid (law_gate d) quarantine_binding"
  by code_simp

lemma pub_locators: "mode_locators quarantine_binding"
  by code_simp

text \<open>The stored blob is read back if the encoder writes its header as the sample has it.\<close>

lemma law_header:
  assumes "d reg_header = ''H''"
  shows "parse_header (ge_host (law_gate d)) ''H'' = Inr (''text/plain'', text_digest (CHR ''a''), JInt 8)"
proof -
  have header: "reg_header = JObj [(''digest'', JStr (text_digest (CHR ''a''))), (''media_type'', JStr ''text/plain''), (''size'', JInt 8)]"
    by (simp add: reg_header_def cas_header_def)
  have "re_loads (ge_host (law_gate d)) ''H'' = Some reg_header" "re_bytes (ge_host (law_gate d)) reg_header = Some ''H''"
    using assms by (simp_all add: law_gate_def reg_gate_def reg_loads_def canonical_json_bytes_def header)
  moreover have "is_media_type ''text/plain''" by code_simp
  ultimately show ?thesis using reg_digest_ok by (simp add: parse_header_def header)
qed

lemma law_read:
  assumes "d reg_header = ''H''"
  shows "read_verified (ge_host (law_gate d)) reg_cas (text_digest (CHR ''a'')) =
    Inr \<lparr> sb_ref = \<lparr> br_digest = text_digest (CHR ''a''), br_media_type = ''text/plain'', br_size = 8 \<rparr>, sb_data = ''reviewed'' \<rparr>"
proof -
  have digest: "re_digest (ge_host (law_gate d)) ''reviewed'' = text_digest (CHR ''a'')" by code_simp
  have "open_envelope (ge_host (law_gate d)) (cas_magic @ be32 1 @ ''H'' @ ''reviewed'') =
      Inr ((''text/plain'', text_digest (CHR ''a''), JInt 8), ''reviewed'')"
    by (simp add: open_envelope_def startswith_def Let_def from_be32_be32 law_header [of d, OF assms])
  with digest show ?thesis by (simp add: read_verified_def reg_cas_def reg_digest_ok)
qed

text \<open>Such an encoder, with the promise of RFC 8785.\<close>

definition law_dumps :: "json \<Rightarrow> bytes" where
  "law_dumps v = (if jcs_norm v = jcs_norm reg_header then ''H'' else counting_dumps v)"

lemma law_dumps_law: "jcs_law law_dumps"
proof -
  have ne: "counting_dumps v \<noteq> ''H''" for v
  proof
    assume "counting_dumps v = ''H''"
    moreover have "set (counting_dumps v) \<subseteq> {CHR ''x''}" by (auto simp: counting_dumps_def)
    ultimately show False by simp
  qed
  have "counting_dumps v = counting_dumps w \<longleftrightarrow> jcs_norm v = jcs_norm w" for v w
    using counting_dumps_law by (simp add: jcs_law_def)
  with ne have "law_dumps v = law_dumps w \<longleftrightarrow> jcs_norm v = jcs_norm w" for v w
    unfolding law_dumps_def by metis
  then show ?thesis by (simp add: jcs_law_def)
qed

lemma law_dumps_header: "law_dumps reg_header = ''H''"
  by (simp add: law_dumps_def)

lemma law_approval: "human_approval_valid (law_gate d) (approval_wire quarantine_approval)"
  by code_simp

lemma law_timely: "approval_instant (law_gate d) ''day 2'' = Inr 2" "ge_now (law_gate d) i = 3"
  by code_simp (simp add: law_gate_def reg_gate_def)

lemma pub_bindings_known:
  assumes "d reg_header = ''H''"
  shows "bindings_known (law_gate d) reg_cas [(''evidence-'' @ quarantine_hash, pub_record)] [(''evidence-'' @ quarantine_hash, pub_subject)] [] quarantine_validated"
proof -
  have fields: "va_evidence_bindings quarantine_validated = [quarantine_binding]" "eb_mode quarantine_binding = ''CAS''"
    "eb_content_digest quarantine_binding = text_digest (CHR ''a'')" "eb_source_bytes quarantine_binding = ''reviewed''"
    "eb_binding_id quarantine_binding = ''evidence-'' @ quarantine_hash" "subject_wire quarantine_binding = JObj pub_subject"
    by (simp_all add: quarantine_validated_def validated_from_def quarantine_binding_def make_binding_def quarantine_snapshot_def
        pub_subject_def subject_wire_def)
  then have "bytes_available (law_gate d) reg_cas [] quarantine_binding"
    by (simp add: bytes_available_def law_read [of d, OF assms])
  with fields show ?thesis
    using law_record [of d] law_binding_valid [of d] pub_locators by (simp add: bindings_known_def)
qed

lemma pub_candidate_valid: "candidate_valid (law_gate d) quarantine_candidate"
  by code_simp

lemma pub_lookups:
  "map_of (qn_candidates quarantine_done) (va_candidate_id quarantine_validated) = Some quarantine_candidate"
  "map_of (qn_snapshots quarantine_done) (va_source_snapshot_id quarantine_validated) = Some quarantine_snapshot"
  "va_source_trust_level quarantine_validated = expected_trust quarantine_done quarantine_snapshot"
  "va_approval quarantine_validated = quarantine_approval" "va_candidate_id quarantine_validated = ''candidate-'' @ quarantine_hash"
  by (simp_all add: quarantine_done_def quarantine_bound_def quarantine_held_def quarantine_known_def quarantine_validated_def
      validated_from_def quarantine_candidate_def span_candidate_def quarantine_snapshot_def expected_trust_def
      has_deterministic_source_proof_def)

lemma law_approval_timely: "approval_timely (law_gate d) quarantine_approval"
proof -
  have "ha_approved_at quarantine_approval = ''day 2''" "ha_expires_at quarantine_approval = None"
    by (simp_all add: quarantine_approval_def unsigned_approval_def)
  then show ?thesis by (simp add: approval_timely_def law_timely)
qed

lemma law_gate_law: "jcs_law (rv_dumps (re_base (ge_host (law_gate law_dumps))))"
  using law_dumps_law by (simp add: law_gate_def)

lemma pub_hypotheses:
  "json_get [(''x-trust'', JObj pub_trust)] ''x-trust'' = JObj pub_trust"
  "map_of [(''candidate-'' @ quarantine_hash, quarantine_entry)] (va_candidate_id quarantine_validated) = Some quarantine_entry"
  "\<forall>c. map_of (qn_candidates quarantine_done) (va_candidate_id quarantine_validated) = Some c \<longrightarrow> candidate_valid (law_gate d) c"
  "\<forall>s. map_of (qn_snapshots quarantine_done) (va_source_snapshot_id quarantine_validated) = Some s \<longrightarrow>
     va_source_trust_level quarantine_validated = expected_trust quarantine_done s"
  "human_approval_valid (law_gate d) (approval_wire (va_approval quarantine_validated))"
  "approval_timely (law_gate d) (va_approval quarantine_validated)"
proof -
  show "json_get [(''x-trust'', JObj pub_trust)] ''x-trust'' = JObj pub_trust" by (simp add: json_get_def)
  show "map_of [(''candidate-'' @ quarantine_hash, quarantine_entry)] (va_candidate_id quarantine_validated) = Some quarantine_entry"
    by (simp add: pub_lookups)
  show "\<forall>c. map_of (qn_candidates quarantine_done) (va_candidate_id quarantine_validated) = Some c \<longrightarrow> candidate_valid (law_gate d) c"
    unfolding pub_lookups(1) by (simp add: pub_candidate_valid)
  show "\<forall>s. map_of (qn_snapshots quarantine_done) (va_source_snapshot_id quarantine_validated) = Some s \<longrightarrow>
     va_source_trust_level quarantine_validated = expected_trust quarantine_done s"
    unfolding pub_lookups(2) by (simp add: pub_lookups(3))
  show "human_approval_valid (law_gate d) (approval_wire (va_approval quarantine_validated))"
    "approval_timely (law_gate d) (va_approval quarantine_validated)"
    unfolding pub_lookups by (rule law_approval, rule law_approval_timely)
qed

lemma pub_atom_passes:
  "validate_m3_atom (law_gate law_dumps) reg_root reg_cas [(''candidate-'' @ quarantine_hash, quarantine_entry)]
     [(''evidence-'' @ quarantine_hash, pub_record)] [(''evidence-'' @ quarantine_hash, pub_subject)] [] (pub_wire, pub_trust) = Inr ()"
  by (rule built_atom_passes [OF law_gate_law law_run_done law_permit_entry law_wire pub_wire_trust pub_hypotheses
      pub_bindings_known [of law_dumps, OF law_dumps_header]])

section \<open>The capsule and its gate\<close>

definition pub_atom :: core_atom where
  "pub_atom = reg_atom \<lparr> at_atom_id := ''atom-'' @ quarantine_hash, at_kind := ''fact'', at_modality := ''INFORMATIVE'',
     at_scope := [''path:notes.txt''], at_exceptions := [], at_validity := \<lparr> vd_from = ''day 1'', vd_until = None \<rparr>,
     at_authority := ''team'', at_status := ''validated'', at_confidence := 1,
     at_evidence_refs := [''evidence-'' @ quarantine_hash], at_requires_atoms := [], at_conflicts_with := [],
     at_sensitivity := ''internal'', at_compression_class := ''P1_STRUCTURED'', at_refresh_policy := ''on-source-change'',
     at_extensions := [(''x-trust'', JObj pub_trust)] \<rparr>"

definition pub_evidence :: evidence_record where
  "pub_evidence = reg_evidence \<lparr> er_evidence_id := ''evidence-'' @ quarantine_hash, er_atom_ids := [''atom-'' @ quarantine_hash],
     er_captured_at := ''day 1'', er_retention := ''follow-source-policy'', er_extensions := [(''x-source-map'',
       JObj (source_map quarantine_binding (text_digest (CHR ''a''))))] \<rparr>"

definition pub_capsule :: core_capsule where
  "pub_capsule = reg_capsule \<lparr> cc_semantic_payload := \<lparr> sl_atoms = [pub_atom], sl_extensions = [] \<rparr>,
     cc_evidence_plane := \<lparr> ep_records = [pub_evidence], ep_extensions = [] \<rparr> \<rparr>"

lemma pub_atom_wire: "atom_json pub_atom = JObj pub_wire"
  by code_simp

lemma pub_evidence_wire: "evidence_json pub_evidence = JObj pub_record"
  by code_simp

lemma law_trust_metadata: "wire_trust_metadata pub_capsule = Inr ([(pub_wire, pub_trust)], [(''evidence-'' @ quarantine_hash, pub_record)])"
  by code_simp

definition pub_payload :: members where
  "pub_payload = permit_payload reg_root (''trust-root-'' @ quarantine_hash) pub_capsule ''ci'' reg_attestation quarantine_parts"

definition pub_permit :: publication_permit where
  "pub_permit = \<lparr> pm_payload = pub_payload, pm_signature = ''hmac-sha256:reviewer:bb'', pm_source_bytes = [''reviewed''],
     pm_source_proofs = [], pm_loader_attestation = Some reg_attestation, pm_issuer = Some (publication_issuer_of quarantine_done) \<rparr>"

lemma pub_payload_ok: "json_value_ok (JObj pub_payload)" "json_value_ok (JObj (capsule_wire_dict pub_capsule))"
  by code_simp+

lemma pub_manifest: "cc_control_manifest pub_capsule = sample_manifest ''acme.core''"
  by (simp add: pub_capsule_def reg_manifest)

lemma law_digests: "canonical_digest_of (law_gate d) pub_capsule = Some (text_digest (CHR ''a''))"
  "publication_digest_of (law_gate d) pub_capsule = Some (text_digest (CHR ''a''))"
  "canonical_digest_of (law_gate d) reg_capsule = Some (text_digest (CHR ''a''))"
  "publication_digest_of (law_gate d) reg_capsule = Some (text_digest (CHR ''a''))"
  by code_simp+

lemma law_root_id: "root_id (law_gate d) reg_root = Inr (''trust-root-'' @ quarantine_hash)"
  by code_simp

lemma law_loader_verifies: "loader_verify (law_gate d) (loader_payload reg_attestation) (la_signature reg_attestation)"
  by code_simp

lemma law_signs: "sign_payload (law_gate d) reg_root (JObj pub_payload) = Inr ''hmac-sha256:reviewer:bb''"
proof -
  have "tr_signer reg_root = ''reviewer''" "map_of (tr_secrets reg_root) ''reviewer'' = Some [CHR 0x02]"
    "to_hex (ge_hmac (law_gate d) k m) = ''bb''" for k m by code_simp+
  then show ?thesis
    using pub_payload_ok(1) by (simp add: sign_payload_def jcs_text_def canonical_json_bytes_def)
qed

lemma law_permit: "issue_publication_permit (law_gate d) quarantine_world (\<lambda>_. 3) quarantine_done pub_capsule [quarantine_validated]
    ''ci'' (Some reg_attestation) = Inr pub_permit"
proof -
  have loader: "validate_permit_loader (law_gate d) quarantine_done (Some reg_attestation) (text_digest (CHR ''a'')) = Inr reg_attestation"
    using law_loader_verifies
    by (simp add: validate_permit_loader_def demand_some_def demand_def quarantine_root) (simp add: reg_attestation_def)
  have "pt_bytes quarantine_parts = [''reviewed'']" "pt_proofs quarantine_parts = []"
    by (simp_all add: quarantine_parts_def)
  with loader show ?thesis
    by (simp add: issue_publication_permit_def demand_some_def demand_def law_digests pub_manifest sample_manifest_def
        law_permit_step quarantine_root law_root_id of_registry_def Let_def pub_payload_def [symmetric, simplified] law_signs pub_permit_def)
qed

lemma law_signature: "verify_permit_signature (law_gate d) (Some reg_root) pub_permit = Inr (reg_root, publication_issuer_of quarantine_done, pub_payload)"
proof -
  have "CHR '':'' \<notin> set (tr_signer reg_root)" by code_simp
  then show ?thesis
    using issued_permit_verifies [OF law_permit [of d] quarantine_root(1)] by (simp add: pub_permit_def)
qed

lemma pub_payload_get:
  "json_get pub_payload ''capsule_digest'' = JStr (text_digest (CHR ''a''))" "json_get pub_payload ''capsule_id'' = JStr ''acme.core''"
  "json_get pub_payload ''version'' = JStr ''1.0.0''" "json_get pub_payload ''principal_id'' = JStr ''ci''"
  "json_get pub_payload ''policy_version'' = JStr ''policy-1''"
  "json_get pub_payload ''trust_root_id'' = JStr (''trust-root-'' @ quarantine_hash)"
  "json_get pub_payload ''scanner_version'' = JStr ''m3-secret-scanner-v1''" "json_get pub_payload ''authority'' = JStr ''team''"
  "json_get pub_payload ''scope'' = scope_json pub_capsule"
  "json_get pub_payload ''loader_attestation'' = JObj (loader_wire reg_attestation)"
  "json_get pub_payload ''atoms'' = JList [JObj quarantine_entry]"
  "json_get pub_payload ''source_subjects'' = JList [JObj pub_subject]"
  by (simp_all add: pub_payload_def permit_payload_def json_get_def Let_def pub_manifest sample_manifest_def reg_root_def
      quarantine_parts_def pub_subject_def subject_wire_def)

lemma law_loader_validates: "validate_loader_attestation (law_gate d) pub_payload pub_capsule pub_permit = Inr ()"
proof -
  have "ge_load (law_gate d) ''/packages/core'' = Some reg_capsule" by (simp add: law_gate_def reg_package)
  moreover have "json_value_ok (JObj (loader_wire reg_attestation))" by code_simp
  moreover have "pm_loader_attestation pub_permit = Some reg_attestation" by (simp add: pub_permit_def)
  ultimately show ?thesis
    by (simp add: validate_loader_attestation_def Let_def pub_payload_get reg_loader_members jcs_same_refl canonical_json_bytes_def
        law_loader_verifies law_digests pub_manifest sample_manifest_def ensure_def the_or_def json_obj_def json_str_def guarded_def startswith_def)
qed

lemma law_header_validates: "validate_m3_header (law_gate d) reg_root pub_capsule ''ci'' pub_payload pub_permit = Inr ()"
proof -
  have "json_eq (scope_json pub_capsule) (scope_json pub_capsule)" by (simp add: json_eq_def)
  moreover have "tr_policy_version reg_root = ''policy-1''" by (simp add: reg_root_def)
  ultimately show ?thesis
    by (simp add: validate_m3_header_def Let_def law_loader_validates law_root_id pub_payload_get pub_manifest sample_manifest_def ensure_def)
qed

lemma law_subjects: "validate_source_subjects (law_gate d) (publication_issuer_of quarantine_done) pub_payload pub_permit =
    Inr ([(''evidence-'' @ quarantine_hash, pub_subject)], [(''evidence-'' @ quarantine_hash, ''reviewed'')])"
proof -
  have inputs: "source_subject_inputs pub_payload pub_permit = Inr [(JObj pub_subject, ''reviewed'')]"
    by (simp add: source_subject_inputs_def pub_payload_get pub_permit_def the_or_def json_list_def ensure_def)
  have "case json_obj (JObj quarantine_entry) of None \<Rightarrow> False | Some atom \<Rightarrow>
    (case json_list (json_get atom ''bindings'') of None \<Rightarrow> False | Some bs \<Rightarrow>
      res_fold (add_proof_wire (law_gate d) (json_get atom ''source_proof'')) [] bs = Inr [])" by code_simp
  then have "git_proof_wires_by_binding (law_gate d) pub_payload = Inr []"
    by (auto simp: git_proof_wires_by_binding_def pub_payload_get the_or_def json_list_def json_obj_def split: json.splits)
  moreover have "subject_step (law_gate d) [] [] \<lparr> ss_subjects = [], ss_authoritative = [], ss_used = {} \<rparr> (JObj pub_subject, ''reviewed'') =
     Inr \<lparr> ss_subjects = [(''evidence-'' @ quarantine_hash, pub_subject)],
       ss_authoritative = [(''evidence-'' @ quarantine_hash, ''reviewed'')], ss_used = {} \<rparr>" by code_simp
  moreover have "permit_git_proofs (law_gate d) (publication_issuer_of quarantine_done) pub_permit = Inr []"
    by (simp add: permit_git_proofs_def pub_permit_def)
  ultimately show ?thesis
    by (simp add: validate_source_subjects_def inputs guarded_def ensure_def)
qed

lemma pub_gate_passes: "validate_m3_publication (law_gate law_dumps) (Some reg_root) reg_cas pub_capsule ''ci'' (Some pub_permit) = Inr (Some pub_payload)"
proof -
  have "validate_m3_atom (law_gate law_dumps) reg_root reg_cas [(''candidate-'' @ quarantine_hash, quarantine_entry)]
      [(''evidence-'' @ quarantine_hash, pub_record)] [(''evidence-'' @ quarantine_hash, pub_subject)]
      [(''evidence-'' @ quarantine_hash, ''reviewed'')] (pub_wire, pub_trust) = Inr ()"
  proof (rule built_atom_passes [OF law_gate_law law_run_done law_permit_entry law_wire pub_wire_trust pub_hypotheses])
    show "bindings_known (law_gate law_dumps) reg_cas [(''evidence-'' @ quarantine_hash, pub_record)]
        [(''evidence-'' @ quarantine_hash, pub_subject)] [(''evidence-'' @ quarantine_hash, ''reviewed'')] quarantine_validated"
      using pub_bindings_known [of law_dumps, OF law_dumps_header] by (auto simp: bindings_known_def bytes_available_def split: if_splits)
  qed
  moreover have "permit_atom_map (JList [JObj quarantine_entry]) 1 = Inr [(''candidate-'' @ quarantine_hash, quarantine_entry)]"
    by code_simp
  moreover have "clean_json (law_gate law_dumps) (JObj (capsule_wire_dict pub_capsule))" "clean_json (law_gate law_dumps) (JObj pub_payload)"
    "ge_clean (law_gate law_dumps) (pm_signature pub_permit)"
    using pub_payload_ok by (simp_all add: clean_json_def canonical_json_bytes_def del: json_value_ok.simps) (simp_all add: law_gate_def reg_gate_def)
  moreover have "requires_m3_gate pub_capsule" by code_simp
  ultimately show ?thesis
    by (simp add: validate_m3_publication_def law_signature law_header_validates law_subjects law_trust_metadata pub_payload_get
        the_or_def ensure_def)
qed

end
