(* ===== verification/Publish_Properties.thy ===== *)
theory Publish_Properties
  imports Publish_Sample
begin

text \<open>
  The properties of publication as a whole: builder, quarantine and registry together.
\<close>

section \<open>Built atoms pass the gate\<close>

text \<open>C10. What the builder writes of a promoted atom can be published: however the quarantine was
  used, an atom that is entered in a permit, with the record of the builder and its evidence
  records, subjects and bytes as the builder left them, passes the check of the gate, on four
  conditions. The candidate and the approval are well formed, the approval has not expired, the
  source still has the classification it had when the atom was made, and no locator of its
  evidence carries anything that its mode does not keep (\<open>mode_locators\<close> in \<open>bindings_known\<close>: the
  builder drops such members, and the property after this one says that their binding is then not
  found again).\<close>

theorem built_atom_accepted:
  assumes "jcs_law (rv_dumps (re_base (ge_host T)))"
    and "quarantine_run T (new_quarantine (Some r) i tokens) q"
    and "permit_atom_entry T W now q v = Inr (entry, bs, p)" and "atom_record T authority v = Inr atom"
    and "json_get atom ''extensions'' = JObj ext" and "json_get ext ''x-trust'' = JObj trust"
    and "map_of permit_by_id (va_candidate_id v) = Some entry"
    and "\<forall>c. map_of (qn_candidates q) (va_candidate_id v) = Some c \<longrightarrow> candidate_valid T c"
    and "\<forall>s. map_of (qn_snapshots q) (va_source_snapshot_id v) = Some s \<longrightarrow> va_source_trust_level v = expected_trust q s"
    and "human_approval_valid T (approval_wire (va_approval v))" and "approval_timely T (va_approval v)"
    and "bindings_known T store evidence subjects authoritative v"
  shows "validate_m3_atom T r store permit_by_id evidence subjects authoritative (atom, trust) = Inr ()"
  using assms by (rule built_atom_passes)

theorem built_atom_accepted_witness:
  "validate_m3_atom (law_gate law_dumps) reg_root reg_cas [(''candidate-'' @ quarantine_hash, quarantine_entry)]
     [(''evidence-'' @ quarantine_hash, pub_record)] [(''evidence-'' @ quarantine_hash, pub_subject)] [] (pub_wire, pub_trust) = Inr ()"
  by (rule built_atom_accepted [OF law_gate_law law_run_done law_permit_entry law_wire pub_wire_trust pub_hypotheses
      pub_bindings_known [of law_dumps, OF law_dumps_header]])

section \<open>Bindings are rebuilt\<close>

lemma rebuilt_value_ok:
  "json_value_ok (JObj (evidence_binding_wire b)) \<Longrightarrow> json_value_ok (JObj (binding_wire (evidence_members b i x) (source_map b d)))"
  unfolding rebuilt_wire by (simp add: evidence_binding_wire_def locator_get json_opt_def split: option.splits)

text \<open>C11. The gate finds the digest of a binding in the record and the source map that the builder
  wrote exactly if the locator of the binding holds nothing that its mode does not carry, or there is an
  explicit SHA-256 collision: a snapshot of mode \<open>CAS\<close> that names a repository can be promoted and
  built but not published.\<close>

theorem binding_rebuilt_iff:
  fixes T :: gate_env
  defines "dumps \<equiv> rv_dumps (re_base (ge_host T))" and "sha256 \<equiv> rv_sha256 (re_base (ge_host T))"
  assumes "jcs_law dumps" and "evidence_record_of T i b = Inr m" and "source_map_of m = Some sm"
  shows "(\<exists>d. json_get sm ''binding_digest'' = JStr d \<and> jcs_digest (ge_host T) (JObj (binding_wire m sm)) = Inr d) \<longleftrightarrow>
     mode_locators b \<or> (dumps (JObj (binding_wire m sm)) \<noteq> dumps (JObj (evidence_binding_wire b)) \<and>
       sha256 (dumps (JObj (binding_wire m sm))) = sha256 (dumps (JObj (evidence_binding_wire b))))"
proof -
  from evidence_record_Inr [OF assms(4)] obtain d where written: "binding_digest_for T b = Inr d"
      "m = evidence_members b i [(''x-source-map'', JObj (source_map b d))]" "source_map_of m = Some (source_map b d)" .
  with assms(5) have d: "binding_digest_for T b = Inr d" "sm = source_map b d"
      "m = evidence_members b i [(''x-source-map'', JObj (source_map b d))]" by simp_all
  have digest: "jcs_digest (ge_host T) (JObj (evidence_binding_wire b)) = Inr d"
    using d(1) by (simp add: binding_digest_for_def q_digest_jcs)
  then have ok: "json_value_ok (JObj (evidence_binding_wire b))"
    by (auto simp: jcs_digest_def jcs_text_def canonical_json_bytes_def res_bind_Inr_iff split: if_splits)
  have wire: "jcs_digest (ge_host T) v = Inr (''sha256:'' @ to_hex (sha256 (dumps v)))" if "json_value_ok v" for v
    using that by (simp add: jcs_digest_def jcs_text_def canonical_json_bytes_def dumps_def sha256_def)
  have "json_value_ok (JObj (binding_wire m sm))"
    unfolding d(2,3) by (rule rebuilt_value_ok [OF ok])
  moreover have "dumps (JObj (binding_wire m sm)) = dumps (JObj (evidence_binding_wire b)) \<longleftrightarrow> mode_locators b"
    using assms(3) rebuilt_wire_norm unfolding d(2,3) jcs_law_def by blast
  moreover have "json_get sm ''binding_digest'' = JStr d" by (simp add: d(2) rebuilt_members)
  ultimately show ?thesis
    using wire [OF ok] digest by (auto simp: wire to_hex_inject simp del: json_value_ok.simps)
qed

theorem binding_rebuilt_iff_witness:
  "\<exists>d. json_get (source_map quarantine_binding (text_digest (CHR ''a''))) ''binding_digest'' = JStr d \<and>
    jcs_digest (ge_host (law_gate law_dumps))
      (JObj (binding_wire pub_record (source_map quarantine_binding (text_digest (CHR ''a''))))) = Inr d"
proof -
  have "source_map_of pub_record = Some (source_map quarantine_binding (text_digest (CHR ''a'')))" by code_simp
  from binding_rebuilt_iff [OF law_gate_law law_record this] pub_locators show ?thesis by blast
qed

section \<open>What is published was promoted\<close>

text \<open>C9. Whatever capsule the gate lets through with a permit of a quarantine, however that was used:
  every atom of the capsule is a copy of one of the atoms that the permit was issued for, which the
  quarantine promoted and still holds, with its evidence and its approval.\<close>

theorem accepted_atoms_promoted:
  assumes "jcs_law (rv_dumps (re_base (ge_host T)))" and "quarantine_run T (new_quarantine r i tokens) q"
    and "issue_publication_permit T W now q draft atoms publisher attestation = Inr permit"
    and "validate_m3_publication T trusted store c caller (Some permit) = Inr payload"
    and "requires_m3_gate c" and "a \<in> set (capsule_atoms c)"
  shows "\<exists>v \<in> set atoms. copies_atom a v \<and> map_of (qn_promoted q) (va_candidate_id v) = Some v \<and> promotion_backed T q v"
  using assms by (rule permitted_atoms_promoted)

theorem accepted_atoms_promoted_witness:
  "copies_atom pub_atom quarantine_validated \<and> promotion_backed (law_gate law_dumps) quarantine_done quarantine_validated"
proof -
  have "requires_m3_gate pub_capsule" "pub_atom \<in> set (capsule_atoms pub_capsule)" by code_simp+
  from accepted_atoms_promoted [OF law_gate_law law_run_done law_permit pub_gate_passes this] show ?thesis by simp
qed

text \<open>So is every atom of a draft whose publication adds to the registry.\<close>

lemma published_atoms_promoted:
  assumes "jcs_law (rv_dumps (re_base (ge_host (rg_gate R))))"
    and "quarantine_run (rg_gate R) (new_quarantine r i tokens) q"
    and "publish_draft B R W now blobs db (Some q) draft caller stamped = Inr (out, db')" and "db' \<noteq> db"
  shows "\<exists>c. rg_capsule R (capsule_wire_dict (dr_capsule draft)) = Some c \<and>
    (requires_m3_gate c \<longrightarrow> (\<forall>a \<in> set (capsule_atoms c). \<exists>v \<in> set (dr_atoms draft).
       copies_atom a v \<and> map_of (qn_promoted q) (va_candidate_id v) = Some v \<and> promotion_backed (rg_gate R) q v))"
proof -
  from publish_draft_Inr [OF assms(3)] obtain permit where
      permit: "issue_publication_permit (rg_gate R) W now q (dr_capsule draft) (dr_atoms draft) caller (dr_attestation draft) = Inr permit"
    and publish: "registry_publish R blobs db (dr_capsule draft) caller (Some permit) stamped = Inr (out, db')" .
  from publish assms(4) obtain c payload where c: "rg_capsule R (capsule_wire_dict (dr_capsule draft)) = Some c"
      "validate_m3_publication (rg_gate R) (rg_trust R) blobs c caller (Some permit) = Inr payload"
    by (cases rule: registry_publish_cases) auto
  from permitted_atoms_promoted [OF assms(1,2) permit c(2)] c(1) show ?thesis by blast
qed

end
