(* ===== verification/Contracts.thy ===== *)
theory Contracts
  imports Session Approvals Journal Trust_Wire
begin

text \<open>
  Execution contracts (\<^verbatim>\<open>validate/models.py\<close>, \<^verbatim>\<open>validate/contracts.py\<close> and the resolver of
  \<^verbatim>\<open>validate/artifacts.py\<close>): the execution profile a new publication carries in its replacement
  contract, and \<open>parse_execution_contract\<close>, which binds every clause of the contract to one check
  and every check to program bytes. \<open>None\<close> is any exception; the public functions turn all of
  them into one error. Python's Unicode \<open>casefold\<close> is a member of the environment. A processor limit
  is the number it denotes: canonical JSON writes \<open>1\<close> and \<open>1.0\<close> alike.
\<close>

record exec_env =
  xe_host :: store_env
  xe_casefold :: "pystr \<Rightarrow> pystr"

definition assured :: "bool \<Rightarrow> unit option" where
  "assured ok = (if ok then Some () else None)"

fun assured_all :: "('a \<Rightarrow> unit option) \<Rightarrow> 'a list \<Rightarrow> unit option" where
  "assured_all f [] = Some ()"
| "assured_all f (x # xs) = Option.bind (f x) (\<lambda>_. assured_all f xs)"

definition exec_digest :: "exec_env \<Rightarrow> bytes \<Rightarrow> pystr" where
  "exec_digest X data = digest_bytes (xe_host X) data"

text \<open>\<open>identity\<close> of \<^verbatim>\<open>validate/run_models.py\<close>; an integer out of range raises.\<close>

definition json_identity :: "exec_env \<Rightarrow> json \<Rightarrow> pystr option" where
  "json_identity X v = map_option (exec_digest X) (canonical_json_bytes (se_dumps (xe_host X)) v)"

section \<open>Invocations, checks, profiles\<close>

record invocation =
  iv_test_id :: pystr
  iv_artifact_ids :: "pystr list"
  iv_argv :: "pystr list"

record subject_probe = invocation +
  sb_probe_id :: pystr
  sb_input_state :: pystr

record check_binding = invocation +
  cb_check_id :: pystr
  cb_role :: pystr
  cb_phase :: pystr
  cb_clause_path :: pystr
  cb_clause_sha256 :: pystr
  cb_subject_probes :: "subject_probe list"
  cb_old_expected :: "bool option"
  cb_new_expected :: "bool option"
  cb_pair_expected :: "bool option"

record runner_config =
  rn_image_digest :: pystr
  rn_platform :: pystr
  rn_profile :: pystr
  rn_cpu_limit :: rat
  rn_memory_bytes :: int
  rn_process_limit :: int
  rn_timeout_seconds :: int
  rn_stdout_limit :: int
  rn_stderr_limit :: int
  rn_tree_limit :: int
  rn_tree_files :: int

record execution_profile =
  ex_profile :: pystr
  ex_replaces_ref :: capsule_ref
  ex_accepts_interfaces :: "pystr list"
  ex_checks :: "check_binding list"
  ex_executor :: invocation
  ex_runner :: runner_config
  ex_repetitions :: int

definition invocation_valid :: "'a invocation_scheme \<Rightarrow> bool" where
  "invocation_valid i \<longleftrightarrow> iv_test_id i \<noteq> [] \<and> iv_artifact_ids i \<noteq> [] \<and>
     nonempty_strings (iv_artifact_ids i) \<and> distinct (iv_artifact_ids i) \<and>
     (\<forall>item \<in> set (iv_argv i). CHR 0x00 \<notin> set item) \<and> iv_test_id i \<in> set (iv_artifact_ids i)"

definition subject_probe_valid :: "subject_probe \<Rightarrow> bool" where
  "subject_probe_valid p \<longleftrightarrow> invocation_valid p \<and> sb_probe_id p \<noteq> [] \<and>
     sb_input_state p \<in> {''initial'', ''current'', ''old_final'', ''new_final''}"

text \<open>An expectation that is \<open>None\<close> was not given: an explicit \<open>null\<close> is rejected by the parser, as
  it is by \<open>_expectations\<close>.\<close>

definition check_binding_valid :: "check_binding \<Rightarrow> bool" where
  "check_binding_valid c \<longleftrightarrow> invocation_valid c \<and> cb_check_id c \<noteq> [] \<and>
     cb_role c \<in> {''precondition'', ''static'', ''behavioral'', ''target'', ''invariant'', ''spillover'', ''differential''} \<and>
     cb_phase c \<in> {''pre'', ''post'', ''pair''} \<and> cb_clause_path c \<noteq> [] \<and> is_digest (cb_clause_sha256 c) \<and>
     (\<forall>p \<in> set (cb_subject_probes c). subject_probe_valid p) \<and>
     (if cb_phase c = ''pair''
      then cb_old_expected c = None \<and> cb_new_expected c = None \<and> cb_pair_expected c \<noteq> None
      else cb_old_expected c \<noteq> None \<and> cb_new_expected c \<noteq> None \<and> cb_pair_expected c = None)"

definition runner_config_valid :: "runner_config \<Rightarrow> bool" where
  "runner_config_valid r \<longleftrightarrow> is_digest (rn_image_digest r) \<and>
     rn_platform r \<in> {''linux/arm64'', ''linux/amd64''} \<and> rn_profile r = ''ccs-m5-docker/1.0.0'' \<and>
     0 < rn_cpu_limit r \<and> rn_cpu_limit r \<le> 1 \<and>
     1 \<le> rn_memory_bytes r \<and> rn_memory_bytes r \<le> 1073741824 \<and>
     1 \<le> rn_process_limit r \<and> rn_process_limit r \<le> 128 \<and>
     1 \<le> rn_timeout_seconds r \<and> rn_timeout_seconds r \<le> 300 \<and>
     1 \<le> rn_stdout_limit r \<and> rn_stdout_limit r \<le> 4194304 \<and>
     1 \<le> rn_stderr_limit r \<and> rn_stderr_limit r \<le> 4194304 \<and>
     1 \<le> rn_tree_limit r \<and> rn_tree_limit r \<le> 67108864 \<and>
     1 \<le> rn_tree_files r \<and> rn_tree_files r \<le> 10000"

definition execution_profile_valid :: "execution_profile \<Rightarrow> bool" where
  "execution_profile_valid p \<longleftrightarrow> ex_profile p = ''ccs-m5-execution/1.0.0'' \<and>
     capsule_ref_valid (ex_replaces_ref p) \<and>
     nonempty_strings (ex_accepts_interfaces p) \<and> distinct (ex_accepts_interfaces p) \<and>
     ex_checks p \<noteq> [] \<and> (\<forall>c \<in> set (ex_checks p). check_binding_valid c) \<and>
     invocation_valid (ex_executor p) \<and> runner_config_valid (ex_runner p) \<and>
     1 \<le> ex_repetitions p \<and> ex_repetitions p \<le> 3"

section \<open>Reading a profile\<close>

text \<open>Strict fields: no coercion, no unknown members.\<close>

definition field_str :: "members \<Rightarrow> pystr \<Rightarrow> pystr option" where
  "field_str m key = (case map_of m key of Some (JStr s) \<Rightarrow> Some s | _ \<Rightarrow> None)"

definition field_strings :: "members \<Rightarrow> pystr \<Rightarrow> pystr list option" where
  "field_strings m key = (case map_of m key of Some (JList xs) \<Rightarrow> those (map json_str xs) | _ \<Rightarrow> None)"

definition field_int :: "members \<Rightarrow> pystr \<Rightarrow> int option" where
  "field_int m key = (case map_of m key of Some (JInt i) \<Rightarrow> Some i | _ \<Rightarrow> None)"

definition field_number :: "members \<Rightarrow> pystr \<Rightarrow> rat option" where
  "field_number m key = (case map_of m key of Some (JInt i) \<Rightarrow> Some (of_int i) | Some (JFloat r) \<Rightarrow> Some r | _ \<Rightarrow> None)"

definition field_flag :: "members \<Rightarrow> pystr \<Rightarrow> bool option option" where
  "field_flag m key = (case map_of m key of None \<Rightarrow> Some None | Some (JBool b) \<Rightarrow> Some (Some b) | _ \<Rightarrow> None)"

definition field_obj :: "members \<Rightarrow> pystr \<Rightarrow> members option" where
  "field_obj m key = (case map_of m key of Some (JObj d) \<Rightarrow> Some d | _ \<Rightarrow> None)"

definition field_objs :: "members \<Rightarrow> pystr \<Rightarrow> members list option" where
  "field_objs m key = (case map_of m key of Some (JList xs) \<Rightarrow> those (map json_obj xs) | _ \<Rightarrow> None)"

definition only_fields :: "pystr list \<Rightarrow> members \<Rightarrow> unit option" where
  "only_fields names m = assured (set (dict_keys m) \<subseteq> set names)"

definition invocation_fields :: "pystr list" where
  "invocation_fields = [''test_id'', ''artifact_ids'', ''argv'']"

definition read_invocation :: "pystr list \<Rightarrow> members \<Rightarrow> invocation option" where
  "read_invocation extra m =
     Option.bind (only_fields (invocation_fields @ extra) m) (\<lambda>_.
     Option.bind (field_str m ''test_id'') (\<lambda>test.
     Option.bind (field_strings m ''artifact_ids'') (\<lambda>ids.
     Option.bind (field_strings m ''argv'') (\<lambda>argv.
       Some \<lparr> iv_test_id = test, iv_artifact_ids = ids, iv_argv = argv \<rparr>))))"

definition read_probe :: "members \<Rightarrow> subject_probe option" where
  "read_probe m =
     Option.bind (read_invocation [''probe_id'', ''input_state''] m) (\<lambda>i.
     Option.bind (field_str m ''probe_id'') (\<lambda>probe.
     Option.bind (field_str m ''input_state'') (\<lambda>state.
       Some \<lparr> iv_test_id = iv_test_id i, iv_artifact_ids = iv_artifact_ids i, iv_argv = iv_argv i,
         sb_probe_id = probe, sb_input_state = state \<rparr>)))"

definition read_check :: "members \<Rightarrow> check_binding option" where
  "read_check m =
     Option.bind (read_invocation [''check_id'', ''role'', ''phase'', ''clause_path'', ''clause_sha256'',
       ''subject_probes'', ''old_expected'', ''new_expected'', ''pair_expected''] m) (\<lambda>i.
     Option.bind (field_str m ''check_id'') (\<lambda>check.
     Option.bind (field_str m ''role'') (\<lambda>role.
     Option.bind (field_str m ''phase'') (\<lambda>phase.
     Option.bind (field_str m ''clause_path'') (\<lambda>path.
     Option.bind (field_str m ''clause_sha256'') (\<lambda>sha.
     Option.bind (Option.bind (field_objs m ''subject_probes'') (\<lambda>ms. those (map read_probe ms))) (\<lambda>probes.
     Option.bind (field_flag m ''old_expected'') (\<lambda>old.
     Option.bind (field_flag m ''new_expected'') (\<lambda>new.
     Option.bind (field_flag m ''pair_expected'') (\<lambda>pair.
       Some \<lparr> iv_test_id = iv_test_id i, iv_artifact_ids = iv_artifact_ids i, iv_argv = iv_argv i,
         cb_check_id = check, cb_role = role, cb_phase = phase, cb_clause_path = path, cb_clause_sha256 = sha,
         cb_subject_probes = probes, cb_old_expected = old, cb_new_expected = new,
         cb_pair_expected = pair \<rparr>))))))))))"

definition read_runner :: "members \<Rightarrow> runner_config option" where
  "read_runner m =
     Option.bind (only_fields [''image_digest'', ''platform'', ''profile'', ''cpu_limit'', ''memory_bytes'',
       ''process_limit'', ''timeout_seconds'', ''stdout_limit_bytes'', ''stderr_limit_bytes'',
       ''output_tree_limit_bytes'', ''output_tree_file_limit''] m) (\<lambda>_.
     Option.bind (field_str m ''image_digest'') (\<lambda>image.
     Option.bind (field_str m ''platform'') (\<lambda>platform.
     Option.bind (field_str m ''profile'') (\<lambda>profile.
     Option.bind (field_number m ''cpu_limit'') (\<lambda>cpu.
     Option.bind (field_int m ''memory_bytes'') (\<lambda>memory.
     Option.bind (field_int m ''process_limit'') (\<lambda>processes.
     Option.bind (field_int m ''timeout_seconds'') (\<lambda>timeout.
     Option.bind (field_int m ''stdout_limit_bytes'') (\<lambda>out.
     Option.bind (field_int m ''stderr_limit_bytes'') (\<lambda>err.
     Option.bind (field_int m ''output_tree_limit_bytes'') (\<lambda>tree.
     Option.bind (field_int m ''output_tree_file_limit'') (\<lambda>files.
       Some \<lparr> rn_image_digest = image, rn_platform = platform, rn_profile = profile, rn_cpu_limit = cpu,
         rn_memory_bytes = memory, rn_process_limit = processes, rn_timeout_seconds = timeout,
         rn_stdout_limit = out, rn_stderr_limit = err, rn_tree_limit = tree, rn_tree_files = files \<rparr>))))))))))))"

definition read_ref :: "members \<Rightarrow> capsule_ref option" where
  "read_ref m =
     Option.bind (only_fields [''capsule_id'', ''version'', ''digest''] m) (\<lambda>_.
     Option.bind (field_str m ''capsule_id'') (\<lambda>i.
     Option.bind (field_str m ''version'') (\<lambda>v.
     Option.bind (field_str m ''digest'') (\<lambda>d.
       Some \<lparr> cr_capsule_id = i, cr_version = v, cr_digest = d \<rparr>))))"

text \<open>\<open>ExecutionProfile.model_validate(_raw_containers(raw))\<close>. A JSON value is what
  \<open>_raw_containers\<close> lets through.\<close>

definition read_profile :: "json option \<Rightarrow> execution_profile option" where
  "read_profile raw =
     Option.bind (Option.bind raw json_obj) (\<lambda>m.
     Option.bind (only_fields [''profile'', ''replaces_ref'', ''accepts_interfaces'', ''checks'', ''executor'',
       ''runner'', ''repetitions''] m) (\<lambda>_.
     Option.bind (field_str m ''profile'') (\<lambda>profile.
     Option.bind (Option.bind (field_obj m ''replaces_ref'') read_ref) (\<lambda>ref.
     Option.bind (field_strings m ''accepts_interfaces'') (\<lambda>accepts.
     Option.bind (Option.bind (field_objs m ''checks'') (\<lambda>ms. those (map read_check ms))) (\<lambda>checks.
     Option.bind (Option.bind (field_obj m ''executor'') (read_invocation [])) (\<lambda>executor.
     Option.bind (Option.bind (field_obj m ''runner'') read_runner) (\<lambda>runner.
     Option.bind (field_int m ''repetitions'') (\<lambda>repetitions.
       let p = \<lparr> ex_profile = profile, ex_replaces_ref = ref, ex_accepts_interfaces = accepts, ex_checks = checks,
         ex_executor = executor, ex_runner = runner, ex_repetitions = repetitions \<rparr> in
       if execution_profile_valid p then Some p else None)))))))))"

section \<open>Requests and artifacts\<close>

record replacement_request =
  rx_operation_id :: pystr
  rx_principal :: pystr
  rx_old :: published_capsule
  rx_new :: published_capsule
  rx_task :: view_task
  rx_source_repository :: pystr
  rx_source_commit :: pystr
  rx_budget :: view_budget
  rx_model_id :: pystr
  rx_tokenizer_profile :: pystr
  rx_renderer_version :: pystr

definition replacement_request_valid :: "replacement_request \<Rightarrow> bool" where
  "replacement_request_valid r \<longleftrightarrow> rx_operation_id r \<noteq> [] \<and> view_task_valid (rx_task r) \<and>
     rx_source_repository r \<noteq> [] \<and> git_revision (rx_source_commit r) \<and> view_budget_valid (rx_budget r) \<and>
     rx_model_id r \<noteq> [] \<and> rx_tokenizer_profile r \<noteq> [] \<and> rx_renderer_version r \<noteq> [] \<and>
     tk_repository (rx_task r) = rx_source_repository r"

record artifact =
  af_test_id :: pystr
  af_file :: pystr
  af_kind :: pystr
  af_lock :: pystr
  af_data :: bytes

record bound_execution =
  bd_request :: replacement_request
  bd_profile :: execution_profile
  bd_artifacts :: "artifact list"

abbreviation contract_of :: "replacement_request \<Rightarrow> core_contract" where
  "contract_of r \<equiv> cc_replacement_contract (pc_capsule (rx_new r))"

abbreviation manifest_of :: "published_capsule \<Rightarrow> control_manifest" where
  "manifest_of p \<equiv> cc_control_manifest (pc_capsule p)"

text \<open>\<open>LocalArtifactResolver.resolve\<close>; loading a package and reading a file of it are services.\<close>

definition local_resolve ::
  "exec_env \<Rightarrow> ('path \<Rightarrow> core_capsule option) \<Rightarrow> ('path \<Rightarrow> pystr \<Rightarrow> bytes option) \<Rightarrow> (pystr \<times> 'path) list \<Rightarrow>
   published_capsule \<Rightarrow> artifact list option"
where
  "local_resolve X load read packages publication =
     Option.bind (map_of packages (cm_content_digest (manifest_of publication))) (\<lambda>package.
     Option.bind (load package) (\<lambda>loaded.
     Option.bind (assured (json_eq (core_projection loaded) (core_projection (pc_capsule publication)))) (\<lambda>_.
       those (map (\<lambda>test. Option.bind (read package (td_path test)) (\<lambda>data.
           if exec_digest X data = td_digest test then
             Some \<lparr> af_test_id = td_test_id test, af_file = td_path test, af_kind = td_kind test,
               af_lock = td_digest test, af_data = data \<rparr>
           else None))
         (ti_tests (cc_tests_integrity loaded))))))"

section \<open>The contract\<close>

type_synonym registry_reader = "pystr \<Rightarrow> pystr \<Rightarrow> pystr \<Rightarrow> published_capsule option"

fun verify_publications :: "registry_reader \<Rightarrow> pystr \<Rightarrow> published_capsule list \<Rightarrow> unit option" where
  "verify_publications G caller [] = Some ()"
| "verify_publications G caller (publication # rest) =
     Option.bind (G (cm_capsule_id (manifest_of publication)) (cm_version (manifest_of publication)) caller) (\<lambda>actual.
       if pc_registry_status actual = ''PUBLISHED'' \<and>
          json_eq (publication_projection actual) (publication_projection publication)
       then verify_publications G caller rest else None)"

definition high_risk :: "replacement_request \<Rightarrow> bool" where
  "high_risk r \<longleftrightarrow> tk_risk (rx_task r) \<in> {''high'', ''critical''} \<or>
     ap_risk (rc_activation (contract_of r)) \<in> {''high'', ''critical''}"

definition compatibility :: "replacement_request \<Rightarrow> execution_profile \<Rightarrow> unit option" where
  "compatibility r p =
    (let old = manifest_of (rx_old r); new = manifest_of (rx_new r); contract = contract_of r;
         ref = ex_replaces_ref p; old_name = cm_capsule_id old @ ''@'' @ cm_version old in
     Option.bind (assured ((cr_capsule_id ref, cr_version ref, cr_digest ref) =
         (cm_capsule_id old, cm_version old, cm_content_digest old))) (\<lambda>_.
     Option.bind (assured (rc_replaces contract = Some old_name \<and> rp_pointer (rc_rollback contract) = old_name)) (\<lambda>_.
     Option.bind (assured (set (cm_provides old) \<subseteq> set (ex_accepts_interfaces p))) (\<lambda>_.
     Option.bind (assured (set (tk_required_interfaces (rx_task r)) \<subseteq> set (cm_provides new))) (\<lambda>_.
     Option.bind (assured (tk_repository (rx_task r) = rx_source_repository r)) (\<lambda>_.
     Option.bind (assured (tk_tenant (rx_task r) = cm_tenant old \<and> cm_tenant old = cm_tenant new)) (\<lambda>_.
       assured (ex_repetitions p = (if high_risk r then 3 else 1)))))))))"

text \<open>\<open>_clauses\<close>: every clause under its path, with the role, the phase and the digest its check
  must have.\<close>

definition collections :: "core_contract \<Rightarrow> (pystr \<times> pystr \<times> pystr \<times> pystr list) list" where
  "collections c =
    [(''preconditions'', ''precondition'', ''pre'', rc_preconditions c),
     (''target_effects'', ''target'', ''post'', rc_target_effects c),
     (''protected_invariants'', ''invariant'', ''post'', rc_protected_invariants c),
     (''forbidden_spillover'', ''spillover'', ''post'', rc_forbidden_spillover c),
     (''verification/static'', ''static'', ''post'', vc_static (rc_verification c)),
     (''verification/behavioral'', ''behavioral'', ''post'', vc_behavioral (rc_verification c)),
     (''verification/differential'', ''differential'', ''pair'', vc_differential (rc_verification c))]"

definition clause_rows ::
  "exec_env \<Rightarrow> pystr \<times> pystr \<times> pystr \<times> pystr list \<Rightarrow> (pystr \<times> pystr \<times> pystr \<times> pystr) list" where
  "clause_rows X = (\<lambda>(name, role, phase, texts).
     map (\<lambda>(i, t). (name @ ''/'' @ nat_text i, role, phase, exec_digest X t)) (enumerate 0 texts))"

definition clauses :: "exec_env \<Rightarrow> core_contract \<Rightarrow> (pystr \<times> pystr \<times> pystr \<times> pystr) list option" where
  "clauses X c =
    (if \<exists>(name, role, phase, texts) \<in> set (collections c). role \<in> {''target'', ''invariant'', ''spillover''} \<and> texts = []
     then None else Some (concat (map (clause_rows X) (collections c))))"

definition expectations :: "check_binding \<Rightarrow> unit option" where
  "expectations c =
    (let pair = (cb_old_expected c, cb_new_expected c);
         states = (if cb_phase c = ''pair'' then {''initial'', ''old_final'', ''new_final''} else {''initial'', ''current''}) in
     Option.bind (assured (cb_role c \<in> {''precondition'', ''static'', ''behavioral'', ''invariant''} \<longrightarrow>
       pair = (Some True, Some True))) (\<lambda>_.
     Option.bind (assured (cb_role c = ''target'' \<longrightarrow> cb_new_expected c = Some True)) (\<lambda>_.
     Option.bind (assured (cb_role c = ''spillover'' \<longrightarrow> pair = (Some False, Some False))) (\<lambda>_.
     Option.bind (assured (cb_role c = ''differential'' \<longrightarrow> cb_pair_expected c = Some True)) (\<lambda>_.
       assured (\<forall>p \<in> set (cb_subject_probes c). sb_input_state p \<in> states))))))"

definition check_coverage :: "exec_env \<Rightarrow> replacement_request \<Rightarrow> execution_profile \<Rightarrow> unit option" where
  "check_coverage X r p =
     Option.bind (clauses X (contract_of r)) (\<lambda>cs.
     Option.bind (assured (distinct (map cb_check_id (ex_checks p)))) (\<lambda>_.
     Option.bind (assured (distinct (map cb_clause_path (ex_checks p)) \<and>
         set (map cb_clause_path (ex_checks p)) = set (dict_keys cs))) (\<lambda>_.
     Option.bind (assured (distinct (concat (map (\<lambda>c. map sb_probe_id (cb_subject_probes c)) (ex_checks p))))) (\<lambda>_.
     Option.bind (assured_all (\<lambda>c. Option.bind
         (assured (map_of cs (cb_clause_path c) = Some (cb_role c, cb_phase c, cb_clause_sha256 c)))
         (\<lambda>_. expectations c)) (ex_checks p)) (\<lambda>_.
       assured (\<exists>c \<in> set (ex_checks p). cb_role c = ''target'' \<and> cb_old_expected c = Some False))))))"

section \<open>Programs and what they may share\<close>

definition invocation_artifacts ::
  "(pystr \<times> artifact) list \<Rightarrow> pystr \<Rightarrow> 'a invocation_scheme \<Rightarrow> pystr list option" where
  "invocation_artifacts artifacts kind i =
    (if \<not> set (iv_artifact_ids i) \<subseteq> set (dict_keys artifacts) then None
     else Option.bind (map_of artifacts (iv_test_id i)) (\<lambda>entry.
       if af_kind entry = kind \<and> startswith (af_file entry) (''tests/'' @ kind @ ''/'') \<and>
          startswith (rev (af_file entry)) (rev ''.py'')
       then Some (iv_artifact_ids i) else None))"

fun invocations_artifacts ::
  "(pystr \<times> artifact) list \<Rightarrow> pystr \<Rightarrow> 'a invocation_scheme list \<Rightarrow> pystr list option" where
  "invocations_artifacts artifacts kind [] = Some []"
| "invocations_artifacts artifacts kind (i # rest) =
     Option.bind (invocation_artifacts artifacts kind i) (\<lambda>ids.
     Option.bind (invocations_artifacts artifacts kind rest) (\<lambda>ids'. Some (ids @ ids')))"

definition checker_kind :: "check_binding \<Rightarrow> pystr" where
  "checker_kind c = (if cb_role c \<in> {''precondition'', ''static''} then ''static'' else ''behavioral'')"

text \<open>The programs of the checks: the checkers and the subjects they probe.\<close>

fun check_artifacts :: "(pystr \<times> artifact) list \<Rightarrow> check_binding list \<Rightarrow> (pystr list \<times> pystr list) option" where
  "check_artifacts artifacts [] = Some ([], [])"
| "check_artifacts artifacts (c # rest) =
     Option.bind (invocation_artifacts artifacts (checker_kind c) c) (\<lambda>checker.
     Option.bind (invocations_artifacts artifacts ''behavioral'' (cb_subject_probes c)) (\<lambda>subject.
     Option.bind (check_artifacts artifacts rest) (\<lambda>(checkers, subjects).
       Some (checker @ checkers, subject @ subjects))))"

definition disjoint_programs ::
  "exec_env \<Rightarrow> (pystr \<times> artifact) list \<Rightarrow> pystr list \<Rightarrow> pystr list \<Rightarrow> bool" where
  "disjoint_programs X artifacts subjects checkers \<longleftrightarrow>
    (let path = (\<lambda>key. map_option (xe_casefold X \<circ> af_file) (map_of artifacts key));
         content = (\<lambda>key. map_option af_lock (map_of artifacts key)) in
     set subjects \<inter> set checkers = {} \<and>
     path ` set subjects \<inter> path ` set checkers = {} \<and>
     content ` set subjects \<inter> content ` set checkers = {})"

definition verify_artifacts ::
  "exec_env \<Rightarrow> replacement_request \<Rightarrow> execution_profile \<Rightarrow> artifact list \<Rightarrow> unit option" where
  "verify_artifacts X r p values =
    (let artifacts = dict_by af_test_id values;
         integrity = cc_tests_integrity (pc_capsule (rx_new r)); tests = ti_tests integrity;
         checksums = dict_by ac_path (ti_artifact_checksums integrity) in
     Option.bind (assured (length artifacts = length values \<and> set (dict_keys artifacts) = td_test_id ` set tests)) (\<lambda>_.
     Option.bind (assured_all (\<lambda>test. Option.bind (map_of artifacts (td_test_id test)) (\<lambda>a.
         assured ((af_file a, af_kind a, af_lock a) = (td_path test, td_kind test, td_digest test) \<and>
           map_option ac_digest (map_of checksums (td_path test)) = Some (td_digest test) \<and>
           exec_digest X (af_data a) = td_digest test))) tests) (\<lambda>_.
     Option.bind (invocation_artifacts artifacts ''behavioral'' (ex_executor p)) (\<lambda>executor.
     Option.bind (check_artifacts artifacts (ex_checks p)) (\<lambda>(checkers, probed).
       assured (disjoint_programs X artifacts (executor @ probed) checkers))))))"

datatype execution_error = ExecutionContractError

definition parse_execution_contract ::
  "exec_env \<Rightarrow> registry_reader \<Rightarrow> (published_capsule \<Rightarrow> artifact list option) \<Rightarrow> replacement_request \<Rightarrow>
   execution_error + bound_execution"
where
  "parse_execution_contract X G resolver r =
    (case Option.bind (assured (replacement_request_valid r)) (\<lambda>_.
       Option.bind (verify_publications G (rx_principal r) [rx_old r, rx_new r]) (\<lambda>_.
       Option.bind (read_profile (map_of (rc_extensions (contract_of r)) ''x-m5-execution'')) (\<lambda>p.
       Option.bind (compatibility r p) (\<lambda>_.
       Option.bind (check_coverage X r p) (\<lambda>_.
       Option.bind (resolver (rx_new r)) (\<lambda>artifacts.
       Option.bind (verify_artifacts X r p artifacts) (\<lambda>_.
         Some \<lparr> bd_request = r, bd_profile = p, bd_artifacts = artifacts \<rparr>))))))) of
       None \<Rightarrow> Inl ExecutionContractError | Some bound \<Rightarrow> Inr bound)"

section \<open>The execution subject\<close>

definition invocation_members :: "'a invocation_scheme \<Rightarrow> members" where
  "invocation_members i = [(''test_id'', JStr (iv_test_id i)), (''artifact_ids'', json_strings (iv_artifact_ids i)),
     (''argv'', json_strings (iv_argv i))]"

definition probe_json :: "subject_probe \<Rightarrow> json" where
  "probe_json p = JObj (invocation_members p @
     [(''probe_id'', JStr (sb_probe_id p)), (''input_state'', JStr (sb_input_state p))])"

definition flag_member :: "pystr \<Rightarrow> bool option \<Rightarrow> members" where
  "flag_member key flag = (case flag of None \<Rightarrow> [] | Some b \<Rightarrow> [(key, JBool b)])"

definition check_json :: "check_binding \<Rightarrow> json" where
  "check_json c = JObj (invocation_members c @
     [(''check_id'', JStr (cb_check_id c)), (''role'', JStr (cb_role c)), (''phase'', JStr (cb_phase c)),
      (''clause_path'', JStr (cb_clause_path c)), (''clause_sha256'', JStr (cb_clause_sha256 c)),
      (''subject_probes'', JList (map probe_json (cb_subject_probes c)))] @
     flag_member ''old_expected'' (cb_old_expected c) @ flag_member ''new_expected'' (cb_new_expected c) @
     flag_member ''pair_expected'' (cb_pair_expected c))"

definition runner_json :: "runner_config \<Rightarrow> json" where
  "runner_json r = JObj
    [(''image_digest'', JStr (rn_image_digest r)), (''platform'', JStr (rn_platform r)),
     (''profile'', JStr (rn_profile r)), (''cpu_limit'', JFloat (rn_cpu_limit r)),
     (''memory_bytes'', JInt (rn_memory_bytes r)), (''process_limit'', JInt (rn_process_limit r)),
     (''timeout_seconds'', JInt (rn_timeout_seconds r)), (''stdout_limit_bytes'', JInt (rn_stdout_limit r)),
     (''stderr_limit_bytes'', JInt (rn_stderr_limit r)), (''output_tree_limit_bytes'', JInt (rn_tree_limit r)),
     (''output_tree_file_limit'', JInt (rn_tree_files r))]"

definition profile_json :: "execution_profile \<Rightarrow> json" where
  "profile_json p = JObj
    [(''profile'', JStr (ex_profile p)), (''replaces_ref'', capsule_ref_json (ex_replaces_ref p)),
     (''accepts_interfaces'', json_strings (ex_accepts_interfaces p)),
     (''checks'', JList (map check_json (ex_checks p))), (''executor'', JObj (invocation_members (ex_executor p))),
     (''runner'', runner_json (ex_runner p)), (''repetitions'', JInt (ex_repetitions p))]"

definition artifact_json :: "exec_env \<Rightarrow> artifact \<Rightarrow> json" where
  "artifact_json X a = JObj
    [(''test_id'', JStr (af_test_id a)), (''path'', JStr (af_file a)), (''kind'', JStr (af_kind a)),
     (''digest'', JStr (af_lock a)), (''bytes_digest'', JStr (exec_digest X (af_data a)))]"

definition execution_subject_json :: "exec_env \<Rightarrow> bound_execution \<Rightarrow> json" where
  "execution_subject_json X b =
    (let r = bd_request b in JObj
      [(''domain'', JStr ''ccs-m5-execution-approval/1.0.0''), (''operation_id'', JStr (rx_operation_id r)),
       (''principal'', JStr (rx_principal r)), (''old'', publication_projection (rx_old r)),
       (''new'', publication_projection (rx_new r)), (''task'', view_task_json (rx_task r)),
       (''source_repository'', JStr (rx_source_repository r)), (''source_commit'', JStr (rx_source_commit r)),
       (''budget'', view_budget_json (rx_budget r)), (''model_id'', JStr (rx_model_id r)),
       (''tokenizer_profile'', JStr (rx_tokenizer_profile r)), (''renderer_version'', JStr (rx_renderer_version r)),
       (''profile'', profile_json (bd_profile b)), (''artifacts'', JList (map (artifact_json X) (bd_artifacts b)))])"

definition execution_subject :: "exec_env \<Rightarrow> bound_execution \<Rightarrow> pystr option" where
  "execution_subject X b = json_identity X (execution_subject_json X b)"

text \<open>\<open>verify_execution\<close> and \<open>issue_execution\<close> of \<^verbatim>\<open>validate/approvals.py\<close>: an approval of the
  execution domain for exactly this bound execution.\<close>

definition verify_execution ::
  "exec_env \<Rightarrow> approval_verifier \<Rightarrow> approval \<Rightarrow> bound_execution \<Rightarrow> clock_value \<Rightarrow> approval approval_result" where
  "verify_execution X v a b now = (case execution_subject X b of
      None \<Rightarrow> Inl ApprovalValidation
    | Some subject \<Rightarrow>
        approval_verify (xe_host X) v a Execution (rx_operation_id (bd_request b)) subject now)"

definition issue_execution ::
  "exec_env \<Rightarrow> approval_verifier \<Rightarrow> bound_execution \<Rightarrow> clock_value \<Rightarrow> clock_value \<Rightarrow> bool \<Rightarrow> approval approval_result" where
  "issue_execution X v b issued_at expires_at synthetic = (case execution_subject X b of
      None \<Rightarrow> Inl ApprovalValidation
    | Some subject \<Rightarrow>
        approval_issue (xe_host X) v Execution (rx_operation_id (bd_request b)) subject issued_at expires_at synthetic)"

end
