(* ===== verification/Behavior.thy ===== *)
theory Behavior
  imports Contracts
begin

text \<open>
  Twin evaluation (\<^verbatim>\<open>validate/run_models.py\<close>, \<^verbatim>\<open>validate/snapshots.py\<close>, \<^verbatim>\<open>validate/behavior.py\<close>): what
  the host records of the runs of an old and a new capsule, and the reports computed from the
  authenticated records. Every operation gets the rows of the journal and returns them; a fresh
  record identifier is an argument. \<open>None\<close> is any exception: the services catch all of them.
  The verifier and the journal of a service read and write one database, each with its own key.
\<close>

section \<open>What a host observes\<close>

record tree_entry =
  te_path :: pystr
  te_kind :: pystr
  te_mode :: int
  te_digest :: "pystr option"
  te_size :: int

record tree_snapshot =
  sn_entries :: "tree_entry list"

record process_capture =
  px_subject :: pystr
  px_container_id :: pystr
  px_started_ns :: int
  px_finished_ns :: int
  px_exit_code :: "int option"
  px_terminated :: bool
  px_timed_out :: bool
  px_output_limited :: bool
  px_stdout :: bytes
  px_stderr :: bytes

record check_capture =
  kc_check_id :: pystr
  kc_process :: process_capture
  kc_probes :: "process_capture list"

datatype run_role = RunOld | RunNew

fun run_role_text :: "run_role \<Rightarrow> pystr" where
  "run_role_text RunOld = ''old''"
| "run_role_text RunNew = ''new''"

record run_evidence =
  ev_role :: run_role
  ev_repetition :: int
  ev_final :: "tree_snapshot option"
  ev_snapshot_ns :: "int option"
  ev_executor :: "process_capture option"
  ev_checks :: "check_capture list"

record completed_run =
  co_role :: run_role
  co_repetition :: int
  co_final :: tree_snapshot
  co_snapshot_ns :: int
  co_executor :: process_capture
  co_checks :: "check_capture list"

record pair_evidence =
  pe_repetition :: int
  pe_old_record :: record_ref
  pe_new_record :: record_ref
  pe_checks :: "check_capture list"

record evaluation_context =
  ct_initial :: tree_snapshot
  ct_old_view_digest :: pystr
  ct_new_view_digest :: pystr
  ct_approval_digest :: pystr
  ct_synthetic :: bool

record agent_run =
  ag_role :: run_role
  ag_repetition :: int
  ag_record :: record_ref
  ag_pair_record :: "record_ref option"

text \<open>The environment of an evaluation: pydantic's text form of bytes and its JSON parsers, and
  \<open>json.loads\<close>, whose objects still have all pairs of the text.\<close>

record run_env = exec_env +
  xn_base64 :: "bytes \<Rightarrow> pystr"
  xn_json_loads :: "bytes \<Rightarrow> json option"
  xn_parse_run :: "bytes \<Rightarrow> run_evidence option"
  xn_parse_pair :: "bytes \<Rightarrow> pair_evidence option"

abbreviation exec_of :: "run_env \<Rightarrow> exec_env" where
  "exec_of X \<equiv> exec_env.truncate X"

definition tree_entry_valid :: "tree_entry \<Rightarrow> bool" where
  "tree_entry_valid e \<longleftrightarrow> te_path e \<noteq> [] \<and> te_kind e \<in> {''file'', ''directory''} \<and> 0 \<le> te_mode e \<and> te_mode e \<le> 4095 \<and>
     (case te_digest e of None \<Rightarrow> True | Some d \<Rightarrow> is_digest d) \<and> 0 \<le> te_size e"

definition process_capture_valid :: "process_capture \<Rightarrow> bool" where
  "process_capture_valid p \<longleftrightarrow> is_digest (px_subject p) \<and> px_container_id p \<noteq> [] \<and> 0 \<le> px_started_ns p \<and>
     0 \<le> px_finished_ns p"

definition check_capture_valid :: "check_capture \<Rightarrow> bool" where
  "check_capture_valid c \<longleftrightarrow> process_capture_valid (kc_process c) \<and> (\<forall>p \<in> set (kc_probes c). process_capture_valid p)"

definition run_evidence_valid :: "run_evidence \<Rightarrow> bool" where
  "run_evidence_valid e \<longleftrightarrow> 0 \<le> ev_repetition e \<and>
     (case ev_final e of None \<Rightarrow> True | Some s \<Rightarrow> \<forall>t \<in> set (sn_entries s). tree_entry_valid t) \<and>
     (case ev_snapshot_ns e of None \<Rightarrow> True | Some t \<Rightarrow> 0 \<le> t) \<and>
     (case ev_executor e of None \<Rightarrow> True | Some p \<Rightarrow> process_capture_valid p) \<and>
     (\<forall>c \<in> set (ev_checks e). check_capture_valid c)"

definition record_ref_valid :: "record_ref \<Rightarrow> bool" where
  "record_ref_valid r \<longleftrightarrow> rr_record_id r \<noteq> [] \<and> is_digest (rr_digest r)"

definition pair_evidence_valid :: "pair_evidence \<Rightarrow> bool" where
  "pair_evidence_valid e \<longleftrightarrow> 0 \<le> pe_repetition e \<and> record_ref_valid (pe_old_record e) \<and>
     record_ref_valid (pe_new_record e) \<and> (\<forall>c \<in> set (pe_checks e). check_capture_valid c)"

section \<open>JSON forms and identities\<close>

definition tree_entry_json :: "tree_entry \<Rightarrow> json" where
  "tree_entry_json e = JObj
    [(''path'', JStr (te_path e)), (''kind'', JStr (te_kind e)), (''mode'', JInt (te_mode e)),
     (''digest'', json_opt JStr (te_digest e)), (''size'', JInt (te_size e))]"

definition snapshot_json :: "tree_snapshot \<Rightarrow> json" where
  "snapshot_json s = JObj [(''entries'', JList (map tree_entry_json (sn_entries s)))]"

definition process_json :: "run_env \<Rightarrow> process_capture \<Rightarrow> json" where
  "process_json X p = JObj
    [(''subject'', JStr (px_subject p)), (''container_id'', JStr (px_container_id p)),
     (''started_ns'', JInt (px_started_ns p)), (''finished_ns'', JInt (px_finished_ns p)),
     (''exit_code'', json_opt JInt (px_exit_code p)), (''terminated'', JBool (px_terminated p)),
     (''timed_out'', JBool (px_timed_out p)), (''output_limited'', JBool (px_output_limited p)),
     (''stdout'', JStr (xn_base64 X (px_stdout p))), (''stderr'', JStr (xn_base64 X (px_stderr p)))]"

definition check_capture_json :: "run_env \<Rightarrow> check_capture \<Rightarrow> json" where
  "check_capture_json X c = JObj
    [(''check_id'', JStr (kc_check_id c)), (''process'', process_json X (kc_process c)),
     (''probes'', JList (map (process_json X) (kc_probes c)))]"

definition run_evidence_json :: "run_env \<Rightarrow> run_evidence \<Rightarrow> json" where
  "run_evidence_json X e = JObj
    [(''role'', JStr (run_role_text (ev_role e))), (''repetition'', JInt (ev_repetition e)),
     (''final'', json_opt snapshot_json (ev_final e)), (''snapshot_ns'', json_opt JInt (ev_snapshot_ns e)),
     (''executor'', json_opt (process_json X) (ev_executor e)),
     (''checks'', JList (map (check_capture_json X) (ev_checks e)))]"

definition record_ref_json :: "record_ref \<Rightarrow> json" where
  "record_ref_json r = JObj [(''record_id'', JStr (rr_record_id r)), (''digest'', JStr (rr_digest r))]"

definition pair_evidence_json :: "run_env \<Rightarrow> pair_evidence \<Rightarrow> json" where
  "pair_evidence_json X e = JObj
    [(''repetition'', JInt (pe_repetition e)), (''old_record'', record_ref_json (pe_old_record e)),
     (''new_record'', record_ref_json (pe_new_record e)),
     (''checks'', JList (map (check_capture_json X) (pe_checks e)))]"

definition context_json :: "evaluation_context \<Rightarrow> json" where
  "context_json c = JObj
    [(''initial'', snapshot_json (ct_initial c)), (''old_view_digest'', JStr (ct_old_view_digest c)),
     (''new_view_digest'', JStr (ct_new_view_digest c)), (''approval_digest'', JStr (ct_approval_digest c)),
     (''synthetic'', JBool (ct_synthetic c))]"

definition agent_run_json :: "agent_run \<Rightarrow> json" where
  "agent_run_json r = JObj
    [(''role'', JStr (run_role_text (ag_role r))), (''repetition'', JInt (ag_repetition r)),
     (''record'', record_ref_json (ag_record r)), (''pair_record'', json_opt record_ref_json (ag_pair_record r))]"

definition wire_bytes :: "run_env \<Rightarrow> json \<Rightarrow> bytes option" where
  "wire_bytes X v = canonical_json_bytes (se_dumps (xe_host X)) v"

definition json_identity_of :: "run_env \<Rightarrow> json \<Rightarrow> pystr option" where
  "json_identity_of X v = json_identity (exec_of X) v"

definition snapshot_digest_value :: "run_env \<Rightarrow> tree_snapshot \<Rightarrow> pystr option" where
  "snapshot_digest_value X s = json_identity_of X (snapshot_json s)"

definition evaluation_scope :: "run_env \<Rightarrow> bound_execution \<Rightarrow> pystr option" where
  "evaluation_scope X b =
    (let r = bd_request b in json_identity_of X (JObj
      [(''tenant'', JStr (tk_tenant (rx_task r))), (''principal'', JStr (rx_principal r)),
       (''repository'', JStr (rx_source_repository r)), (''environment'', JStr (tk_environment (rx_task r)))]))"

definition run_subject ::
  "run_env \<Rightarrow> bound_execution \<Rightarrow> evaluation_context \<Rightarrow> pystr \<Rightarrow> int \<Rightarrow> pystr option" where
  "run_subject X b ctx role repetition =
     Option.bind (execution_subject (exec_of X) b) (\<lambda>execution.
       json_identity_of X (JObj
         [(''domain'', JStr ''ccs-m5-run/1''), (''execution'', JStr execution), (''context'', context_json ctx),
          (''role'', JStr role), (''repetition'', JInt repetition)]))"

definition stage_subject ::
  "run_env \<Rightarrow> bound_execution \<Rightarrow> evaluation_context \<Rightarrow> pystr \<Rightarrow> int \<Rightarrow> pystr \<Rightarrow> pystr list \<Rightarrow> process_capture list \<Rightarrow>
   pystr option"
where
  "stage_subject X b ctx role repetition stage inputs probes =
     Option.bind (run_subject X b ctx role repetition) (\<lambda>run.
       json_identity_of X (JObj
         [(''domain'', JStr ''ccs-m5-stage/1''), (''run'', JStr run), (''stage_id'', JStr stage),
          (''inputs'', json_strings inputs), (''probes'', JList (map (process_json X) probes))]))"

section \<open>Trees\<close>

text \<open>\<open>str(PurePosixPath(path).parent)\<close> of a safe relative path.\<close>

definition parent_path :: "pystr \<Rightarrow> pystr" where
  "parent_path path = (case butlast (py_split (CHR ''/'') path) of [] \<Rightarrow> ''.'' | parts \<Rightarrow> py_join ''/'' parts)"

definition entry_ok :: "(pystr \<times> tree_entry) list \<Rightarrow> tree_entry \<Rightarrow> bool" where
  "entry_ok entries e \<longleftrightarrow>
     \<not> (te_kind e = ''directory'' \<and> (te_digest e \<noteq> None \<or> te_size e \<noteq> 0)) \<and>
     \<not> (te_kind e = ''file'' \<and> te_digest e = None) \<and>
     (te_path e = ''.'' \<or>
       (is_safe_relative_path (te_path e) None \<and> set (te_path e) \<inter> set ''*?[]'' = {} \<and>
        (case map_of entries (parent_path (te_path e)) of None \<Rightarrow> False | Some p \<Rightarrow> te_kind p = ''directory'')))"

definition validate_snapshot :: "tree_snapshot \<Rightarrow> runner_config \<Rightarrow> unit option" where
  "validate_snapshot s limits =
    (let entries = dict_by te_path (sn_entries s); paths = map te_path (sn_entries s) in
     assured (length entries = length paths \<and> sort paths = paths \<and>
       (case map_of entries ''.'' of None \<Rightarrow> False | Some e \<Rightarrow> te_kind e = ''directory'') \<and>
       int (length entries) \<le> rn_tree_files limits \<and>
       sum_list (map te_size (dict_values entries)) \<le> rn_tree_limit limits \<and>
       (\<forall>e \<in> set (dict_values entries). entry_ok entries e)))"

definition tree_delta :: "tree_snapshot \<Rightarrow> tree_snapshot \<Rightarrow> pystr list" where
  "tree_delta before after =
    (let old = dict_by te_path (sn_entries before); new = dict_by te_path (sn_entries after) in
     unique_strings (filter (\<lambda>p. map_of old p \<noteq> map_of new p) (dict_keys old @ dict_keys new)))"

text \<open>\<open>any\<close> over questions that may raise, from left to right.\<close>

fun any_of :: "('a \<Rightarrow> bool option) \<Rightarrow> 'a list \<Rightarrow> bool option" where
  "any_of f [] = Some False"
| "any_of f (x # xs) = Option.bind (f x) (\<lambda>b. if b then Some True else any_of f xs)"

definition glob_matches :: "pystr \<Rightarrow> pystr \<Rightarrow> bool option" where
  "glob_matches g p = (case path_matches g p of Inl _ \<Rightarrow> None | Inr b \<Rightarrow> Some b)"

definition scope_violations :: "pystr list \<Rightarrow> pystr list \<Rightarrow> pystr list \<Rightarrow> bool option" where
  "scope_violations paths allowed forbidden =
     any_of (\<lambda>p. if p = ''.'' then Some True
       else Option.bind (any_of (\<lambda>g. glob_matches g p) allowed) (\<lambda>inside.
         if \<not> inside then Some True else any_of (\<lambda>g. glob_matches g p) forbidden)) paths"

section \<open>Reports\<close>

record run_count =
  nt_numerator :: nat
  nt_denominator :: nat

record check_trace =
  ck_check_id :: pystr
  ck_role :: pystr
  ck_observation :: "bool option"
  ck_expected :: bool
  ck_valid :: bool

record contract_report =
  nr_valid :: bool
  nr_blockers :: "pystr list"
  nr_run :: agent_run
  nr_ter :: run_count
  nr_pip :: run_count
  nr_bsr :: run_count
  nr_traces :: "check_trace list"
  nr_record :: "record_ref option"

record differential_report =
  df_valid :: bool
  df_blockers :: "pystr list"
  df_old :: agent_run
  df_new :: agent_run
  df_old_report :: contract_report
  df_new_report :: contract_report
  df_traces :: "check_trace list"
  df_initial_to_old :: "pystr list"
  df_initial_to_new :: "pystr list"
  df_old_to_new :: "pystr list"
  df_record :: "record_ref option"

record repetition_report =
  pt_valid :: bool
  pt_blockers :: "pystr list"
  pt_pairs :: "differential_report list"
  pt_record :: "record_ref option"

definition count_json :: "run_count \<Rightarrow> json" where
  "count_json c = JObj [(''numerator'', JInt (int (nt_numerator c))), (''denominator'', JInt (int (nt_denominator c)))]"

definition trace_json :: "check_trace \<Rightarrow> json" where
  "trace_json t = JObj
    [(''check_id'', JStr (ck_check_id t)), (''role'', JStr (ck_role t)), (''observation'', json_opt JBool (ck_observation t)),
     (''expected'', JBool (ck_expected t)), (''valid'', JBool (ck_valid t))]"

text \<open>The member \<open>record\<close> is left out of the signed payload of a report, but not of a report inside
  another one.\<close>

definition contract_members :: "contract_report \<Rightarrow> members" where
  "contract_members r =
    [(''kind'', JStr ''contract''), (''valid'', JBool (nr_valid r)), (''blockers'', json_strings (nr_blockers r)),
     (''run'', agent_run_json (nr_run r)), (''ter'', count_json (nr_ter r)), (''pip'', count_json (nr_pip r)),
     (''bsr'', count_json (nr_bsr r)), (''traces'', JList (map trace_json (nr_traces r)))]"

definition contract_json :: "contract_report \<Rightarrow> json" where
  "contract_json r = JObj (contract_members r @ [(''record'', json_opt record_ref_json (nr_record r))])"

definition differential_members :: "differential_report \<Rightarrow> members" where
  "differential_members r =
    [(''kind'', JStr ''differential''), (''valid'', JBool (df_valid r)), (''blockers'', json_strings (df_blockers r)),
     (''old'', agent_run_json (df_old r)), (''new'', agent_run_json (df_new r)),
     (''old_report'', contract_json (df_old_report r)), (''new_report'', contract_json (df_new_report r)),
     (''traces'', JList (map trace_json (df_traces r))), (''initial_to_old'', json_strings (df_initial_to_old r)),
     (''initial_to_new'', json_strings (df_initial_to_new r)), (''old_to_new'', json_strings (df_old_to_new r))]"

definition differential_json :: "differential_report \<Rightarrow> json" where
  "differential_json r = JObj (differential_members r @ [(''record'', json_opt record_ref_json (df_record r))])"

definition repetition_members :: "repetition_report \<Rightarrow> members" where
  "repetition_members r =
    [(''kind'', JStr ''repetitions''), (''valid'', JBool (pt_valid r)), (''blockers'', json_strings (pt_blockers r)),
     (''pairs'', JList (map differential_json (pt_pairs r)))]"

end
