(* ===== verification/Evaluation.thy ===== *)
theory Evaluation
  imports Behavior
begin

text \<open>
  The behaviour service (\<^verbatim>\<open>validate/behavior.py\<close>): the host's recorder, the checks on captured
  processes, and the reports on one run, on a pair of runs and on a group of repetitions.
\<close>

record behavior_service =
  bs_bound :: bound_execution
  bs_context :: evaluation_context
  bs_verify_key :: bytes
  bs_journal_key :: bytes

abbreviation service_checks :: "behavior_service \<Rightarrow> check_binding list" where
  "service_checks S \<equiv> ex_checks (bd_profile (bs_bound S))"

abbreviation service_runner :: "behavior_service \<Rightarrow> runner_config" where
  "service_runner S \<equiv> ex_runner (bd_profile (bs_bound S))"

definition service_subject :: "run_env \<Rightarrow> behavior_service \<Rightarrow> pystr \<Rightarrow> int \<Rightarrow> pystr option" where
  "service_subject X S role repetition = run_subject X (bs_bound S) (bs_context S) role repetition"

definition service_append ::
  "run_env \<Rightarrow> behavior_service \<Rightarrow> pystr \<Rightarrow> journal_row list \<Rightarrow> pystr \<Rightarrow> pystr option \<Rightarrow> bytes option \<Rightarrow>
   (record_ref \<times> journal_row list) option"
where
  "service_append X S uid rows kind subject payload =
     Option.bind (evaluation_scope X (bs_bound S)) (\<lambda>scope.
     Option.bind subject (\<lambda>sub.
     Option.bind payload (\<lambda>raw.
       case record_append (xe_host X) (bs_journal_key S) uid rows kind scope sub raw of
         Inl _ \<Rightarrow> None | Inr r \<Rightarrow> Some r)))"

definition service_verify ::
  "run_env \<Rightarrow> behavior_service \<Rightarrow> journal_row list \<Rightarrow> record_ref \<Rightarrow> pystr \<Rightarrow> pystr option \<Rightarrow> bytes option" where
  "service_verify X S rows reference kind subject =
     Option.bind (evaluation_scope X (bs_bound S)) (\<lambda>scope.
     Option.bind subject (\<lambda>sub.
       case record_verify (xe_host X) (bs_verify_key S) rows reference kind scope sub of
         Inl _ \<Rightarrow> None | Inr raw \<Rightarrow> Some raw))"

section \<open>The recorder\<close>

definition record_run ::
  "run_env \<Rightarrow> behavior_service \<Rightarrow> pystr \<Rightarrow> journal_row list \<Rightarrow> run_evidence \<Rightarrow> (agent_run \<times> journal_row list) option" where
  "record_run X S uid rows e =
     map_option (\<lambda>(ref, rows'). (\<lparr> ag_role = ev_role e, ag_repetition = ev_repetition e, ag_record = ref,
         ag_pair_record = None \<rparr>, rows'))
       (service_append X S uid rows ''run'' (service_subject X S (run_role_text (ev_role e)) (ev_repetition e))
         (wire_bytes X (run_evidence_json X e)))"

definition record_pair ::
  "run_env \<Rightarrow> behavior_service \<Rightarrow> pystr \<Rightarrow> journal_row list \<Rightarrow> agent_run \<Rightarrow> agent_run \<Rightarrow> pair_evidence \<Rightarrow>
   ((agent_run \<times> agent_run) \<times> journal_row list) option"
where
  "record_pair X S uid rows old new e =
     map_option (\<lambda>(ref, rows'). ((old \<lparr> ag_pair_record := Some ref \<rparr>, new \<lparr> ag_pair_record := Some ref \<rparr>), rows'))
       (service_append X S uid rows ''pair'' (service_subject X S ''pair'' (pe_repetition e))
         (wire_bytes X (pair_evidence_json X e)))"

section \<open>Checks on captures\<close>

definition membership :: "check_capture list \<Rightarrow> pystr list \<Rightarrow> unit option" where
  "membership captures expected = assured (distinct (map kc_check_id captures) \<and>
     set (map kc_check_id captures) = set expected)"

definition containers :: "check_capture list \<Rightarrow> pystr list" where
  "containers captures = concat (map (\<lambda>c. map px_container_id (kc_process c # kc_probes c)) captures)"

definition pair_container_identities :: "completed_run \<Rightarrow> completed_run \<Rightarrow> check_capture list \<Rightarrow> unit option" where
  "pair_container_identities old new paired =
     assured (distinct ([px_container_id (co_executor old), px_container_id (co_executor new)] @
       containers (co_checks old @ co_checks new @ paired)))"

text \<open>\<open>_unique_json\<close>, the hook for every object of the text.\<close>

fun unique_json :: "json \<Rightarrow> bool" where
  "unique_json (JList xs) = (\<forall>x \<in> set xs. unique_json x)"
| "unique_json (JObj fs) = (distinct (map fst fs) \<and> (\<forall>f \<in> set fs. unique_json (snd f)))"
| "unique_json v = True"

definition observation :: "run_env \<Rightarrow> bytes \<Rightarrow> pystr \<Rightarrow> bool option" where
  "observation X raw check_id = (case xn_json_loads X raw of
      Some (JObj m) \<Rightarrow>
        (if unique_json (JObj m) \<and> set (dict_keys m) = {''check_id'', ''observation''} \<and>
            map_of m ''check_id'' = Some (JStr check_id)
         then (case map_of m ''observation'' of Some (JBool b) \<Rightarrow> Some b | _ \<Rightarrow> None) else None)
    | _ \<Rightarrow> None)"

definition process_check :: "runner_config \<Rightarrow> process_capture \<Rightarrow> pystr \<Rightarrow> bool \<Rightarrow> unit option" where
  "process_check runner p expected probe =
     assured (px_subject p = expected \<and>
       (case px_exit_code p of None \<Rightarrow> False | Some code \<Rightarrow> if probe then 0 \<le> code else code = 0) \<and>
       px_terminated p \<and> \<not> px_timed_out p \<and> \<not> px_output_limited p \<and>
       px_started_ns p \<le> px_finished_ns p \<and>
       px_finished_ns p - px_started_ns p \<le> rn_timeout_seconds runner * 1000000000 \<and>
       int (length (px_stdout p)) \<le> rn_stdout_limit runner \<and> int (length (px_stderr p)) \<le> rn_stderr_limit runner)"

definition probe_check ::
  "run_env \<Rightarrow> behavior_service \<Rightarrow> pystr \<Rightarrow> int \<Rightarrow> (pystr \<times> pystr) list \<Rightarrow> int \<Rightarrow> int \<Rightarrow>
   subject_probe \<times> process_capture \<Rightarrow> unit option"
where
  "probe_check X S role repetition states earliest started = (\<lambda>(binding, observed).
     Option.bind (map_of states (sb_input_state binding)) (\<lambda>state.
     Option.bind (stage_subject X (bs_bound S) (bs_context S) role repetition (sb_probe_id binding) [state] [])
       (\<lambda>expected.
     Option.bind (process_check (service_runner S) observed expected True) (\<lambda>_.
       assured (earliest \<le> px_started_ns observed \<and> px_finished_ns observed \<le> started)))))"

definition input_states :: "pystr \<Rightarrow> pystr list \<Rightarrow> (pystr \<times> pystr) list" where
  "input_states role inputs =
     [(''initial'', inputs ! 0), (''current'', last inputs)] @
     (if role = ''pair'' then [(''old_final'', inputs ! 1), (''new_final'', inputs ! 2)] else [])"

definition check_capture_ok ::
  "run_env \<Rightarrow> behavior_service \<Rightarrow> check_binding \<Rightarrow> check_capture \<Rightarrow> pystr \<Rightarrow> int \<Rightarrow> pystr list \<Rightarrow> int \<Rightarrow> unit option" where
  "check_capture_ok X S check capture role repetition inputs earliest =
     Option.bind (assured (length (kc_probes capture) = length (cb_subject_probes check))) (\<lambda>_.
     Option.bind (assured_all (probe_check X S role repetition (input_states role inputs) earliest
         (px_started_ns (kc_process capture))) (zip (cb_subject_probes check) (kc_probes capture))) (\<lambda>_.
     Option.bind (assured (distinct (map px_container_id (kc_process capture # kc_probes capture)) \<and>
         earliest \<le> px_started_ns (kc_process capture))) (\<lambda>_.
     Option.bind (stage_subject X (bs_bound S) (bs_context S) role repetition (cb_check_id check) inputs
         (kc_probes capture)) (\<lambda>expected.
       process_check (service_runner S) (kc_process capture) expected False))))"

section \<open>One run\<close>

definition completed :: "run_evidence \<Rightarrow> completed_run option" where
  "completed e = (case (ev_final e, ev_snapshot_ns e, ev_executor e) of
      (Some final, Some t, Some executor) \<Rightarrow> Some \<lparr> co_role = ev_role e, co_repetition = ev_repetition e,
        co_final = final, co_snapshot_ns = t, co_executor = executor, co_checks = ev_checks e \<rparr>
    | _ \<Rightarrow> None)"

definition read_run :: "run_env \<Rightarrow> behavior_service \<Rightarrow> journal_row list \<Rightarrow> agent_run \<Rightarrow> completed_run option" where
  "read_run X S rows run =
     Option.bind (assured (0 \<le> ag_repetition run \<and> ag_repetition run < ex_repetitions (bd_profile (bs_bound S)))) (\<lambda>_.
     Option.bind (service_verify X S rows (ag_record run) ''run''
         (service_subject X S (run_role_text (ag_role run)) (ag_repetition run))) (\<lambda>payload.
     Option.bind (xn_parse_run X payload) (\<lambda>evidence.
     Option.bind (assured (run_evidence_valid evidence)) (\<lambda>_.
     Option.bind (completed evidence) (\<lambda>c.
     Option.bind (assured (wire_bytes X (run_evidence_json X evidence) = Some payload \<and>
         co_role c = ag_role run \<and> co_repetition c = ag_repetition run \<and>
         distinct (containers (co_checks c) @ [px_container_id (co_executor c)]))) (\<lambda>_.
     Option.bind (validate_snapshot (ct_initial (bs_context S)) (service_runner S)) (\<lambda>_.
     Option.bind (validate_snapshot (co_final c) (service_runner S)) (\<lambda>_. Some c))))))))"

definition check_contract :: "behavior_service \<Rightarrow> core_contract \<Rightarrow> unit option" where
  "check_contract S contract = assured (json_eq (replacement_contract_json contract)
       (replacement_contract_json (contract_of (bd_request (bs_bound S)))) \<and>
     (\<forall>role \<in> {''target'', ''invariant'', ''spillover''}. \<exists>c \<in> set (service_checks S). cb_role c = role))"

definition run_trace ::
  "run_env \<Rightarrow> behavior_service \<Rightarrow> completed_run \<Rightarrow> pystr list \<Rightarrow> check_binding \<Rightarrow> check_trace" where
  "run_trace X S e inputs check =
    (let capture = the (map_of (dict_by kc_check_id (co_checks e)) (cb_check_id check));
         pre = (cb_phase check = ''pre'');
         expected = (if co_role e = RunOld then cb_old_expected check else cb_new_expected check);
         seen = Option.bind (check_capture_ok X S check capture (run_role_text (co_role e)) (co_repetition e)
             (if pre then take 1 inputs else inputs) (if pre then 0 else co_snapshot_ns e)) (\<lambda>_.
           Option.bind (assured (pre \<longrightarrow> px_finished_ns (kc_process capture) \<le> px_started_ns (co_executor e))) (\<lambda>_.
           Option.bind (assured (cb_phase check = ''post'' \<longrightarrow> co_snapshot_ns e \<le> px_started_ns (kc_process capture)))
             (\<lambda>_. observation X (px_stdout (kc_process capture)) (cb_check_id check)))) in
     \<lparr> ck_check_id = cb_check_id check, ck_role = cb_role check, ck_observation = seen,
       ck_expected = (expected = Some True), ck_valid = (seen \<noteq> None) \<rparr>)"

definition run_checks :: "behavior_service \<Rightarrow> check_binding list" where
  "run_checks S = filter (\<lambda>c. cb_phase c \<noteq> ''pair'') (service_checks S)"

definition run_traces :: "run_env \<Rightarrow> behavior_service \<Rightarrow> completed_run \<Rightarrow> check_trace list option" where
  "run_traces X S e =
     Option.bind (snapshot_digest_value X (ct_initial (bs_context S))) (\<lambda>initial.
     Option.bind (snapshot_digest_value X (co_final e)) (\<lambda>final.
     Option.bind (stage_subject X (bs_bound S) (bs_context S) (run_role_text (co_role e)) (co_repetition e)
         ''executor'' [initial] []) (\<lambda>expected.
     Option.bind (process_check (service_runner S) (co_executor e) expected False) (\<lambda>_.
     Option.bind (assured (px_finished_ns (co_executor e) \<le> co_snapshot_ns e)) (\<lambda>_.
     Option.bind (membership (co_checks e) (map cb_check_id (run_checks S))) (\<lambda>_.
       Some (map (run_trace X S e [initial, final]) (run_checks S))))))))"

definition count_role :: "check_trace list \<Rightarrow> pystr \<Rightarrow> run_count" where
  "count_role traces role =
    (let relevant = filter (\<lambda>t. ck_role t = role) traces in
     \<lparr> nt_numerator = length (filter (\<lambda>t. ck_valid t \<and> ck_observation t = Some True) relevant),
       nt_denominator = length relevant \<rparr>)"

definition failure_code :: "pystr \<Rightarrow> pystr" where
  "failure_code role = (if role = ''target'' then ''TARGET_FAILED'' else if role = ''invariant'' then ''INVARIANT_FAILED''
     else if role = ''spillover'' then ''SPILLOVER_TRIGGERED'' else ''GUARD_FAILED'')"

definition trace_blockers :: "check_trace list \<Rightarrow> pystr list" where
  "trace_blockers traces =
     map (\<lambda>t. if \<not> ck_valid t then ''INVALID_CHECK_RECORD'' else failure_code (ck_role t))
       (filter (\<lambda>t. \<not> ck_valid t \<or> ck_observation t \<noteq> Some (ck_expected t)) traces)"

section \<open>Reports\<close>

definition contract_subject :: "run_env \<Rightarrow> behavior_service \<Rightarrow> pystr \<Rightarrow> json list \<Rightarrow> pystr option" where
  "contract_subject X S kind members =
     Option.bind (service_subject X S ''pair'' 0) (\<lambda>binding.
       json_identity_of X (JObj [(''binding'', JStr binding), (''kind'', JStr kind), (''members'', JList members)]))"

definition contract_report_subject :: "run_env \<Rightarrow> behavior_service \<Rightarrow> contract_report \<Rightarrow> pystr option" where
  "contract_report_subject X S r = contract_subject X S ''contract'' [agent_run_json (nr_run r)]"

definition differential_subject :: "run_env \<Rightarrow> behavior_service \<Rightarrow> differential_report \<Rightarrow> pystr option" where
  "differential_subject X S r =
     contract_subject X S ''differential'' [agent_run_json (df_old r), agent_run_json (df_new r)]"

definition repetition_subject :: "run_env \<Rightarrow> behavior_service \<Rightarrow> repetition_report \<Rightarrow> pystr option" where
  "repetition_subject X S r =
     Option.bind (those (map (differential_subject X S) (pt_pairs r))) (\<lambda>subjects.
       contract_subject X S ''repetitions'' (map JStr subjects))"

definition persistence_failed :: pystr where
  "persistence_failed = ''REPORT_PERSISTENCE_FAILED''"

text \<open>\<open>_persist\<close> for the three kinds of report.\<close>

definition persist_contract ::
  "run_env \<Rightarrow> behavior_service \<Rightarrow> pystr \<Rightarrow> journal_row list \<Rightarrow> contract_report \<Rightarrow> contract_report \<times> journal_row list" where
  "persist_contract X S uid rows r =
    (case service_append X S uid rows ''contract'' (contract_report_subject X S r)
        (wire_bytes X (JObj (contract_members r))) of
       Some (ref, rows') \<Rightarrow> (r \<lparr> nr_record := Some ref \<rparr>, rows')
     | None \<Rightarrow> (r \<lparr> nr_valid := False, nr_blockers := nr_blockers r @ [persistence_failed] \<rparr>, rows))"

definition persist_differential ::
  "run_env \<Rightarrow> behavior_service \<Rightarrow> pystr \<Rightarrow> journal_row list \<Rightarrow> differential_report \<Rightarrow>
   differential_report \<times> journal_row list"
where
  "persist_differential X S uid rows r =
    (case service_append X S uid rows ''differential'' (differential_subject X S r)
        (wire_bytes X (JObj (differential_members r))) of
       Some (ref, rows') \<Rightarrow> (r \<lparr> df_record := Some ref \<rparr>, rows')
     | None \<Rightarrow> (r \<lparr> df_valid := False, df_blockers := df_blockers r @ [persistence_failed] \<rparr>, rows))"

definition persist_repetitions ::
  "run_env \<Rightarrow> behavior_service \<Rightarrow> pystr \<Rightarrow> journal_row list \<Rightarrow> repetition_report \<Rightarrow>
   repetition_report \<times> journal_row list"
where
  "persist_repetitions X S uid rows r =
    (case service_append X S uid rows ''repetitions'' (repetition_subject X S r)
        (wire_bytes X (JObj (repetition_members r))) of
       Some (ref, rows') \<Rightarrow> (r \<lparr> pt_record := Some ref \<rparr>, rows')
     | None \<Rightarrow> (r \<lparr> pt_valid := False, pt_blockers := pt_blockers r @ [persistence_failed] \<rparr>, rows))"

definition contract_traces ::
  "run_env \<Rightarrow> behavior_service \<Rightarrow> journal_row list \<Rightarrow> agent_run \<Rightarrow> core_contract \<Rightarrow> check_trace list option" where
  "contract_traces X S rows run contract =
     Option.bind (check_contract S contract) (\<lambda>_.
     Option.bind (read_run X S rows run) (\<lambda>evidence. run_traces X S evidence))"

definition evaluate_contract ::
  "run_env \<Rightarrow> behavior_service \<Rightarrow> pystr \<Rightarrow> journal_row list \<Rightarrow> agent_run \<Rightarrow> core_contract \<Rightarrow>
   contract_report \<times> journal_row list"
where
  "evaluate_contract X S uid rows run contract =
    (let (traces, blockers) = (case contract_traces X S rows run contract of
         None \<Rightarrow> ([], [''INVALID_RUN_RECORD'']) | Some ts \<Rightarrow> (ts, trace_blockers ts)) in
     persist_contract X S uid rows
       \<lparr> nr_valid = (blockers = []), nr_blockers = unique_strings blockers, nr_run = run,
         nr_ter = count_role traces ''target'', nr_pip = count_role traces ''invariant'',
         nr_bsr = count_role traces ''spillover'', nr_traces = traces, nr_record = None \<rparr>)"

section \<open>A pair of runs\<close>

definition pair_runs ::
  "run_env \<Rightarrow> behavior_service \<Rightarrow> journal_row list \<Rightarrow> agent_run \<Rightarrow> agent_run \<Rightarrow> (completed_run \<times> completed_run) option" where
  "pair_runs X S rows old new =
     Option.bind (assured (ag_role old = RunOld \<and> ag_role new = RunNew \<and> ag_repetition old = ag_repetition new \<and>
         ag_pair_record old \<noteq> None \<and> ag_pair_record old = ag_pair_record new)) (\<lambda>_.
     Option.bind (read_run X S rows old) (\<lambda>old_evidence.
     Option.bind (read_run X S rows new) (\<lambda>new_evidence.
     Option.bind (pair_container_identities old_evidence new_evidence []) (\<lambda>_.
       Some (old_evidence, new_evidence)))))"

definition cross_preconditions :: "behavior_service \<Rightarrow> completed_run \<Rightarrow> completed_run \<Rightarrow> unit option" where
  "cross_preconditions S old new =
    (let pre_ids = map cb_check_id (filter (\<lambda>c. cb_phase c = ''pre'') (service_checks S));
         ends = map (\<lambda>c. px_finished_ns (kc_process c))
           (filter (\<lambda>c. kc_check_id c \<in> set pre_ids) (co_checks old @ co_checks new)) in
     assured ((if ends = [] then 0 else Max (set ends)) \<le>
       min (px_started_ns (co_executor old)) (px_started_ns (co_executor new))))"

definition pair_trace ::
  "run_env \<Rightarrow> behavior_service \<Rightarrow> int \<Rightarrow> pystr list \<Rightarrow> int \<Rightarrow> check_binding \<times> check_capture \<Rightarrow> check_trace option" where
  "pair_trace X S repetition inputs earliest = (\<lambda>(check, capture).
     Option.bind (assured (cb_check_id check = kc_check_id capture \<and>
         earliest \<le> px_started_ns (kc_process capture))) (\<lambda>_.
     Option.bind (check_capture_ok X S check capture ''pair'' repetition inputs earliest) (\<lambda>_.
     Option.bind (observation X (px_stdout (kc_process capture)) (cb_check_id check)) (\<lambda>seen.
       Some \<lparr> ck_check_id = cb_check_id check, ck_role = cb_role check, ck_observation = Some seen,
         ck_expected = True, ck_valid = True \<rparr>))))"

definition pair_checks :: "behavior_service \<Rightarrow> check_binding list" where
  "pair_checks S = filter (\<lambda>c. cb_phase c = ''pair'') (service_checks S)"

definition read_pair ::
  "run_env \<Rightarrow> behavior_service \<Rightarrow> journal_row list \<Rightarrow> agent_run \<Rightarrow> agent_run \<Rightarrow> pair_evidence option" where
  "read_pair X S rows old new =
     Option.bind (ag_pair_record new) (\<lambda>reference.
     Option.bind (service_verify X S rows reference ''pair'' (service_subject X S ''pair'' (ag_repetition old))) (\<lambda>payload.
     Option.bind (xn_parse_pair X payload) (\<lambda>evidence.
     Option.bind (assured (pair_evidence_valid evidence \<and>
         wire_bytes X (pair_evidence_json X evidence) = Some payload \<and>
         pe_old_record evidence = ag_record old \<and> pe_new_record evidence = ag_record new \<and>
         pe_repetition evidence = ag_repetition old)) (\<lambda>_. Some evidence))))"

definition pair_traces ::
  "run_env \<Rightarrow> behavior_service \<Rightarrow> journal_row list \<Rightarrow> agent_run \<Rightarrow> agent_run \<Rightarrow> completed_run \<Rightarrow> completed_run \<Rightarrow>
   check_trace list option"
where
  "pair_traces X S rows old new old_evidence new_evidence =
     Option.bind (read_pair X S rows old new) (\<lambda>evidence.
     Option.bind (pair_container_identities old_evidence new_evidence (pe_checks evidence)) (\<lambda>_.
     Option.bind (assured (pair_checks S \<noteq> [])) (\<lambda>_.
     Option.bind (membership (pe_checks evidence) (map cb_check_id (pair_checks S))) (\<lambda>_.
     Option.bind (those [snapshot_digest_value X (ct_initial (bs_context S)),
         snapshot_digest_value X (co_final old_evidence), snapshot_digest_value X (co_final new_evidence),
         json_identity_of X (record_ref_json (ag_record old)),
         json_identity_of X (record_ref_json (ag_record new))]) (\<lambda>inputs.
     (let ends = map (\<lambda>c. px_finished_ns (kc_process c)) (co_checks old_evidence @ co_checks new_evidence) in
      Option.bind (assured (ends \<noteq> [] \<and> length (pair_checks S) = length (pe_checks evidence))) (\<lambda>_.
        those (map (pair_trace X S (ag_repetition old) inputs (Max (set ends)))
          (zip (pair_checks S) (pe_checks evidence))))))))))"

type_synonym tree_deltas = "pystr list \<times> pystr list \<times> pystr list"

text \<open>The guarded part of \<open>compare_runs\<close>: the deltas, the traces and the blockers found before the
  first exception, which adds its own.\<close>

definition compare_evidence ::
  "run_env \<Rightarrow> behavior_service \<Rightarrow> journal_row list \<Rightarrow> agent_run \<Rightarrow> agent_run \<Rightarrow> core_contract \<Rightarrow>
   tree_deltas \<times> check_trace list \<times> pystr list"
where
  "compare_evidence X S rows old new contract =
    (case Option.bind (check_contract S contract) (\<lambda>_. pair_runs X S rows old new) of
       None \<Rightarrow> (([], [], []), [], [''INVALID_PAIR_RECORD''])
     | Some (old_evidence, new_evidence) \<Rightarrow>
         (let initial = ct_initial (bs_context S);
              to_old = tree_delta initial (co_final old_evidence);
              to_new = tree_delta initial (co_final new_evidence);
              deltas = (to_old, to_new, tree_delta (co_final old_evidence) (co_final new_evidence)) in
          case any_of (\<lambda>d. scope_violations d (rc_allowed_scope contract) (rc_forbidden_spillover contract))
              [to_old, to_new] of
            None \<Rightarrow> (deltas, [], [''INVALID_PAIR_RECORD''])
          | Some outside \<Rightarrow>
              (let scope = (if outside then [''SCOPE_VIOLATION''] else []) in
               case Option.bind (cross_preconditions S old_evidence new_evidence)
                   (\<lambda>_. pair_traces X S rows old new old_evidence new_evidence) of
                 None \<Rightarrow> (deltas, [], scope @ [''INVALID_PAIR_RECORD''])
               | Some traces \<Rightarrow> (deltas, traces, scope @ trace_blockers traces))))"

definition compare_runs ::
  "run_env \<Rightarrow> behavior_service \<Rightarrow> (nat \<Rightarrow> pystr) \<Rightarrow> journal_row list \<Rightarrow> agent_run \<Rightarrow> agent_run \<Rightarrow> core_contract \<Rightarrow>
   differential_report \<times> journal_row list"
where
  "compare_runs X S uid rows old new contract =
    (let (old_report, rows1) = evaluate_contract X S (uid 0) rows old contract;
         (new_report, rows2) = evaluate_contract X S (uid 1) rows1 new contract;
         ((to_old, to_new, between), traces, found) = compare_evidence X S rows2 old new contract;
         blockers = nr_blockers old_report @ nr_blockers new_report @ found in
     persist_differential X S (uid 2) rows2
       \<lparr> df_valid = (blockers = []), df_blockers = unique_strings blockers, df_old = old, df_new = new,
         df_old_report = old_report, df_new_report = new_report, df_traces = traces,
         df_initial_to_old = to_old, df_initial_to_new = to_new, df_old_to_new = between, df_record = None \<rparr>)"

section \<open>Verifying a stored report, and repetitions\<close>

definition verify_contract_report ::
  "run_env \<Rightarrow> behavior_service \<Rightarrow> journal_row list \<Rightarrow> contract_report \<Rightarrow> unit option" where
  "verify_contract_report X S rows r =
     Option.bind (nr_record r) (\<lambda>reference.
     Option.bind (service_verify X S rows reference ''contract'' (contract_report_subject X S r)) (\<lambda>payload.
     Option.bind (assured (wire_bytes X (JObj (contract_members r)) = Some payload)) (\<lambda>_.
     Option.bind (read_run X S rows (nr_run r)) (\<lambda>_. Some ()))))"

definition verify_differential_report ::
  "run_env \<Rightarrow> behavior_service \<Rightarrow> journal_row list \<Rightarrow> differential_report \<Rightarrow> unit option" where
  "verify_differential_report X S rows r =
     Option.bind (df_record r) (\<lambda>reference.
     Option.bind (service_verify X S rows reference ''differential'' (differential_subject X S r)) (\<lambda>payload.
     Option.bind (assured (wire_bytes X (JObj (differential_members r)) = Some payload)) (\<lambda>_.
     Option.bind (verify_contract_report X S rows (df_old_report r)) (\<lambda>_.
     Option.bind (verify_contract_report X S rows (df_new_report r)) (\<lambda>_.
     Option.bind (pair_runs X S rows (df_old r) (df_new r)) (\<lambda>(old, new).
     Option.bind (pair_traces X S rows (df_old r) (df_new r) old new) (\<lambda>_. Some ())))))))"

definition verify_repetition_report ::
  "run_env \<Rightarrow> behavior_service \<Rightarrow> journal_row list \<Rightarrow> repetition_report \<Rightarrow> unit option" where
  "verify_repetition_report X S rows r =
     Option.bind (pt_record r) (\<lambda>reference.
     Option.bind (service_verify X S rows reference ''repetitions'' (repetition_subject X S r)) (\<lambda>payload.
     Option.bind (assured (wire_bytes X (JObj (repetition_members r)) = Some payload)) (\<lambda>_.
       assured_all (verify_differential_report X S rows) (pt_pairs r))))"

definition outcome :: "run_env \<Rightarrow> differential_report \<Rightarrow> pystr option" where
  "outcome X pair = json_identity_of X (JObj
     [(''valid'', JBool (df_valid pair)), (''blockers'', json_strings (df_blockers pair)),
      (''traces'', JList (map (\<lambda>ts. JList (map trace_json ts))
        [nr_traces (df_old_report pair), nr_traces (df_new_report pair), df_traces pair]))])"

definition repetition_blockers ::
  "run_env \<Rightarrow> behavior_service \<Rightarrow> journal_row list \<Rightarrow> differential_report list \<Rightarrow> pystr list" where
  "repetition_blockers X S rows pairs =
    (case Option.bind (assured_all (verify_differential_report X S rows) pairs) (\<lambda>_.
        assured (sort (map (\<lambda>p. ag_repetition (df_old p)) pairs) = [0..ex_repetitions (bd_profile (bs_bound S)) - 1])) of
       None \<Rightarrow> [''INVALID_REPEAT_GROUP'']
     | Some _ \<Rightarrow>
         (if list_all df_valid pairs then [] else [''REPETITION_FAILED'']) @
         (case those (map (outcome X) pairs) of
            None \<Rightarrow> [''INVALID_REPEAT_GROUP'']
          | Some fingerprints \<Rightarrow> if card (set fingerprints) = 1 then [] else [''UNSTABLE_TWIN_RUN'']))"

definition evaluate_repetitions ::
  "run_env \<Rightarrow> behavior_service \<Rightarrow> pystr \<Rightarrow> journal_row list \<Rightarrow> differential_report list \<Rightarrow>
   repetition_report \<times> journal_row list"
where
  "evaluate_repetitions X S uid rows pairs =
    (let blockers = repetition_blockers X S rows pairs in
     persist_repetitions X S uid rows
       \<lparr> pt_valid = (blockers = []), pt_blockers = blockers, pt_pairs = pairs, pt_record = None \<rparr>)"

end
