(* ===== verification/Contracts_Laws.thy ===== *)
theory Contracts_Laws
  imports Contracts Frames
begin

text \<open>
  What a bound execution is: its checks and the clauses of the contract correspond one to one, its
  artifacts are the locked tests, and programs under test share nothing with the programs that
  check them.
  Writing a profile, as the execution subject does, and reading it, as the contract does, are inverse.
\<close>

section \<open>Guards\<close>

named_theorems option_simps \<open>sequences of options that may fail\<close>

lemmas [option_simps] = Option.bind_eq_Some_conv bind_eq_None_conv

lemma assured_iff [simp]: "assured ok = Some u \<longleftrightarrow> ok"
  by (simp add: assured_def)

lemma demand_None [simp]: "assured ok = None \<longleftrightarrow> \<not> ok"
  by (simp add: assured_def)

lemma assured_all_iff [option_simps]: "assured_all f xs = Some u \<longleftrightarrow> (\<forall>x \<in> set xs. f x = Some ())"
  by (induction xs) (auto simp: Option.bind_eq_Some_conv)

text \<open>A dictionary as long as the sequence it was built from has no key twice.\<close>

lemma distinct_of_dict_by:
  assumes "length (dict_by f xs) = length xs" shows "distinct (map f xs)"
proof (rule card_distinct)
  have "card (set (map f xs)) = card (set (dict_keys (dict_by f xs)))" by simp
  also have "\<dots> = length (dict_keys (dict_by f xs))" by (rule distinct_card) simp
  finally show "card (set (map f xs)) = length (map f xs)" using assms by simp
qed

lemma those_eq_Some [option_simps]: "those xs = Some ys \<longleftrightarrow> xs = map Some ys"
proof (induction xs arbitrary: ys)
  case (Cons x xs)
  then show ?case by (cases x; cases ys) (auto split: option.splits)
qed auto

lemma those_map_Some [simp]: "those (map Some xs) = Some xs"
  by (simp add: those_eq_Some)

section \<open>Clauses\<close>

lemma clause_path_inject [simp]: "n @ CHR ''/'' # nat_text i = m @ CHR ''/'' # nat_text j \<longleftrightarrow> n = m \<and> i = j"
proof -
  have "CHR ''/'' \<notin> set (nat_text k)" for k using nat_text_digits [of "CHR ''/''" k] by auto
  then show ?thesis using split_last_unique [of n "CHR ''/''" "nat_text i" m "nat_text j"] by auto
qed

lemma clause_rows_simps:
  "clause_rows X (name, role, phase, texts) =
     map (\<lambda>(i, t). (name @ ''/'' @ nat_text i, role, phase, exec_digest X t)) (enumerate 0 texts)"
  by (simp add: clause_rows_def)

lemma clause_rows_keys:
  "map fst (clause_rows X (name, role, phase, texts)) = map (\<lambda>i. name @ ''/'' @ nat_text i) [0..<length texts]"
  by (rule nth_equalityI) (simp_all add: clause_rows_simps nth_enumerate_eq)

lemma clause_rows_path:
  "p \<in> set (map fst (clause_rows X col)) \<Longrightarrow> \<exists>i. p = fst col @ CHR ''/'' # nat_text i"
  by (cases col) (auto simp: clause_rows_keys simp flip: list.set_map)

lemma distinct_clause_rows:
  "distinct (map fst cols) \<Longrightarrow> distinct (concat (map (\<lambda>col. map fst (clause_rows X col)) cols))"
proof (induction cols)
  case (Cons col cols)
  have "set (map fst (clause_rows X col)) \<inter> set (map fst (clause_rows X c)) = {}" if "c \<in> set cols" for c
  proof -
    from Cons.prems that have "fst c \<noteq> fst col" by simp (metis imageI)
    then show ?thesis by (auto dest!: clause_rows_path simp del: set_map)
  qed
  moreover have "distinct (map fst (clause_rows X col))"
    by (cases col) (simp add: clause_rows_keys distinct_map inj_on_def)
  ultimately show ?case using Cons by (simp add: disjoint_iff)
qed simp

lemma clauses_eq:
  "clauses X c = Some cs \<longleftrightarrow> rc_target_effects c \<noteq> [] \<and> rc_protected_invariants c \<noteq> [] \<and>
     rc_forbidden_spillover c \<noteq> [] \<and> cs = concat (map (clause_rows X) (collections c))"
  by (auto simp: clauses_def collections_def)

lemma distinct_clauses: "clauses X c = Some cs \<Longrightarrow> distinct (map fst cs)"
  using distinct_clause_rows [of "collections c" X]
  by (simp add: clauses_eq map_concat comp_def) (simp add: collections_def)

lemma clause_lookup:
  assumes "clauses X c = Some cs"
  shows "map_of cs path = Some (role, phase, sha) \<longleftrightarrow>
    (\<exists>name texts i. (name, role, phase, texts) \<in> set (collections c) \<and> i < length texts \<and>
       path = name @ CHR ''/'' # nat_text i \<and> sha = exec_digest X (texts ! i))"
proof -
  have cs: "cs = concat (map (clause_rows X) (collections c))" using assms by (simp add: clauses_eq)
  have "map_of cs path = Some (role, phase, sha) \<longleftrightarrow> (path, role, phase, sha) \<in> set cs"
    by (rule map_of_eq_Some_iff [OF distinct_clauses [OF assms]])
  also have "\<dots> \<longleftrightarrow> (\<exists>name texts i. (name, role, phase, texts) \<in> set (collections c) \<and> i < length texts \<and>
       path = name @ CHR ''/'' # nat_text i \<and> sha = exec_digest X (texts ! i))"
    by (fastforce simp: cs clause_rows_def in_set_enumerate_eq)
  finally show ?thesis .
qed

section \<open>Coverage\<close>

lemma check_coverage_iff:
  "check_coverage X r p = Some () \<longleftrightarrow> (\<exists>cs. clauses X (contract_of r) = Some cs \<and>
     distinct (map cb_check_id (ex_checks p)) \<and> distinct (map cb_clause_path (ex_checks p)) \<and>
     cb_clause_path ` set (ex_checks p) = fst ` set cs \<and>
     distinct (concat (map (\<lambda>c. map sb_probe_id (cb_subject_probes c)) (ex_checks p))) \<and>
     (\<forall>c \<in> set (ex_checks p). map_of cs (cb_clause_path c) = Some (cb_role c, cb_phase c, cb_clause_sha256 c) \<and>
        expectations c = Some ()) \<and>
     (\<exists>c \<in> set (ex_checks p). cb_role c = ''target'' \<and> cb_old_expected c = Some False))"
  by (auto simp: check_coverage_def option_simps)

lemma expectations_iff:
  "expectations c = Some () \<longleftrightarrow>
     (cb_role c \<in> {''precondition'', ''static'', ''behavioral'', ''invariant''} \<longrightarrow>
       cb_old_expected c = Some True \<and> cb_new_expected c = Some True) \<and>
     (cb_role c = ''target'' \<longrightarrow> cb_new_expected c = Some True) \<and>
     (cb_role c = ''spillover'' \<longrightarrow> cb_old_expected c = Some False \<and> cb_new_expected c = Some False) \<and>
     (cb_role c = ''differential'' \<longrightarrow> cb_pair_expected c = Some True) \<and>
     (\<forall>p \<in> set (cb_subject_probes c). sb_input_state p \<in>
       (if cb_phase c = ''pair'' then {''initial'', ''old_final'', ''new_final''} else {''initial'', ''current''}))"
  by (simp add: expectations_def option_simps Let_def)

lemma covered_clause:
  assumes "check_coverage X r p = Some ()"
    and "(name, role, phase, texts) \<in> set (collections (contract_of r))" and "i < length texts"
  shows "\<exists>!c. c \<in> set (ex_checks p) \<and> cb_clause_path c = name @ CHR ''/'' # nat_text i"
    and "\<And>c. c \<in> set (ex_checks p) \<Longrightarrow> cb_clause_path c = name @ CHR ''/'' # nat_text i \<Longrightarrow>
      cb_role c = role \<and> cb_phase c = phase \<and> cb_clause_sha256 c = exec_digest X (texts ! i)"
proof -
  let ?path = "name @ CHR ''/'' # nat_text i"
  obtain cs where cs: "clauses X (contract_of r) = Some cs"
    and d: "distinct (map cb_clause_path (ex_checks p))"
    and paths: "cb_clause_path ` set (ex_checks p) = fst ` set cs"
    and row: "\<And>c. c \<in> set (ex_checks p) \<Longrightarrow> map_of cs (cb_clause_path c) = Some (cb_role c, cb_phase c, cb_clause_sha256 c)"
    using assms(1) by (auto simp: check_coverage_iff)
  have lookup: "map_of cs ?path = Some (role, phase, exec_digest X (texts ! i))"
    using assms(2,3) by (auto simp: clause_lookup [OF cs])
  then have "?path \<in> cb_clause_path ` set (ex_checks p)" unfolding paths by (metis domI dom_map_of_conv_image_fst)
  then show "\<exists>!c. c \<in> set (ex_checks p) \<and> cb_clause_path c = ?path"
    using d by (auto simp: distinct_map inj_on_def)
  show "cb_role c = role \<and> cb_phase c = phase \<and> cb_clause_sha256 c = exec_digest X (texts ! i)"
    if "c \<in> set (ex_checks p)" and "cb_clause_path c = ?path" for c
    using row [OF that(1)] lookup by (simp add: that(2))
qed

text \<open>The checks of a role are as many as its clauses.\<close>

definition role_texts :: "core_contract \<Rightarrow> pystr \<Rightarrow> pystr list" where
  "role_texts c role = concat (map (\<lambda>(name, r, phase, texts). if r = role then texts else []) (collections c))"

lemma filter_clause_rows:
  "filter (\<lambda>row. fst (snd row) = role) (clause_rows X (name, r, phase, texts)) =
     (if r = role then clause_rows X (name, r, phase, texts) else [])"
  by (auto simp: clause_rows_def filter_empty_conv filter_id_conv)

lemma role_rows:
  "length (filter (\<lambda>row. fst (snd row) = role) (concat (map (clause_rows X) cols))) =
     length (concat (map (\<lambda>(name, r, phase, texts). if r = role then texts else []) cols))"
proof (induction cols)
  case (Cons col cols)
  obtain name r phase texts where "col = (name, r, phase, texts)" by (cases col) auto
  with Cons show ?case by (simp add: filter_clause_rows) (simp add: clause_rows_def)
qed simp

lemma covered_role_count:
  assumes "check_coverage X r p = Some ()"
  shows "length (filter (\<lambda>c. cb_role c = role) (ex_checks p)) = length (role_texts (contract_of r) role)"
proof -
  obtain cs where cs: "clauses X (contract_of r) = Some cs"
    and d: "distinct (map cb_clause_path (ex_checks p))"
    and paths: "cb_clause_path ` set (ex_checks p) = fst ` set cs"
    and row: "\<And>c. c \<in> set (ex_checks p) \<Longrightarrow> map_of cs (cb_clause_path c) = Some (cb_role c, cb_phase c, cb_clause_sha256 c)"
    using assms by (auto simp: check_coverage_iff)
  let ?checks = "filter (\<lambda>c. cb_role c = role) (ex_checks p)" and ?rows = "filter (\<lambda>row. fst (snd row) = role) cs"
  have dc: "distinct (map cb_clause_path ?checks)" using d by (rule distinct_map_filter)
  have dr: "distinct (map fst ?rows)" using distinct_clauses [OF cs] by (rule distinct_map_filter)
  have "cb_clause_path ` set ?checks = fst ` set ?rows"
  proof
    show "cb_clause_path ` set ?checks \<subseteq> fst ` set ?rows" using row by (force dest!: map_of_SomeD)
    show "fst ` set ?rows \<subseteq> cb_clause_path ` set ?checks"
    proof (safe)
      fix path ro ph sha assume m: "(path, ro, ph, sha) \<in> set ?rows"
      then have look: "map_of cs path = Some (ro, ph, sha)" using distinct_clauses [OF cs] by auto
      from m have "path \<in> cb_clause_path ` set (ex_checks p)" unfolding paths by force
      then obtain c where c: "c \<in> set (ex_checks p)" "path = cb_clause_path c" by auto
      with row [OF c(1)] look m show "fst (path, ro, ph, sha) \<in> cb_clause_path ` set ?checks" by auto
    qed
  qed
  then have "length ?checks = length ?rows"
    using distinct_card [OF dc] distinct_card [OF dr] by simp
  also have "\<dots> = length (role_texts (contract_of r) role)"
    using role_rows [of role X "collections (contract_of r)"] cs by (simp add: clauses_eq role_texts_def)
  finally show ?thesis .
qed

lemma covered_count:
  assumes "check_coverage X r p = Some ()"
  shows "length (ex_checks p) = length (concat (map (\<lambda>(name, role, phase, texts). texts) (collections (contract_of r))))"
proof -
  obtain cs where cs: "clauses X (contract_of r) = Some cs"
    and d: "distinct (map cb_clause_path (ex_checks p))"
    and paths: "cb_clause_path ` set (ex_checks p) = fst ` set cs"
    using assms by (auto simp: check_coverage_iff)
  have "length (ex_checks p) = length cs"
    using distinct_card [OF d] distinct_card [OF distinct_clauses [OF cs]] paths by simp
  also have "\<dots> = length (concat (map (\<lambda>(name, role, phase, texts). texts) (collections (contract_of r))))"
  proof -
    have "length (concat (map (clause_rows X) cols)) = length (concat (map (\<lambda>(name, role, phase, texts). texts) cols))" for cols
      by (induction cols) (auto simp: clause_rows_def)
    then show ?thesis using cs by (simp add: clauses_eq)
  qed
  finally show ?thesis .
qed

text \<open>Checks of effects, invariants and spillover judge a single run.\<close>

lemma unpaired_role:
  assumes "check_coverage X r p = Some ()" and "role \<in> {''target'', ''invariant'', ''spillover''}"
  shows "filter (\<lambda>c. cb_phase c \<noteq> ''pair'' \<and> cb_role c = role \<and> Q c) (ex_checks p) =
    filter (\<lambda>c. cb_role c = role \<and> Q c) (ex_checks p)"
proof (rule filter_cong [OF refl])
  fix c assume c: "c \<in> set (ex_checks p)"
  obtain cs where cs: "clauses X (contract_of r) = Some cs"
    and row: "map_of cs (cb_clause_path c) = Some (cb_role c, cb_phase c, cb_clause_sha256 c)"
    using assms(1) c by (auto simp: check_coverage_iff)
  obtain name texts where "(name, cb_role c, cb_phase c, texts) \<in> set (collections (contract_of r))"
    using row unfolding clause_lookup [OF cs] by blast
  then have "cb_role c = role \<Longrightarrow> cb_phase c \<noteq> ''pair''" using assms(2) by (auto simp: collections_def)
  then show "(cb_phase c \<noteq> ''pair'' \<and> cb_role c = role \<and> Q c) = (cb_role c = role \<and> Q c)" by blast
qed

lemma role_texts_simps [simp]:
  "role_texts c ''target'' = rc_target_effects c" "role_texts c ''invariant'' = rc_protected_invariants c"
  "role_texts c ''spillover'' = rc_forbidden_spillover c"
  by (simp_all add: role_texts_def collections_def)

section \<open>Programs\<close>

text \<open>The artifacts the subject of a test runs from, and those its checkers run from.\<close>

definition subject_programs :: "execution_profile \<Rightarrow> pystr set" where
  "subject_programs p = set (iv_artifact_ids (ex_executor p)) \<union>
     (\<Union>c \<in> set (ex_checks p). \<Union>probe \<in> set (cb_subject_probes c). set (iv_artifact_ids probe))"

definition checker_programs :: "execution_profile \<Rightarrow> pystr set" where
  "checker_programs p = (\<Union>c \<in> set (ex_checks p). set (iv_artifact_ids c))"

lemma invocation_artifacts_ids: "invocation_artifacts as kind i = Some ids \<Longrightarrow> ids = iv_artifact_ids i"
  by (auto simp: invocation_artifacts_def option_simps split: if_splits)

lemma invocations_artifacts_ids:
  "invocations_artifacts as kind xs = Some ids \<Longrightarrow> set ids = (\<Union>i \<in> set xs. set (iv_artifact_ids i))"
  by (induction xs arbitrary: ids) (auto simp: option_simps dest!: invocation_artifacts_ids)

lemma check_artifacts_ids:
  "check_artifacts as checks = Some (checkers, subjects) \<Longrightarrow>
     set checkers = (\<Union>c \<in> set checks. set (iv_artifact_ids c)) \<and>
     set subjects = (\<Union>c \<in> set checks. \<Union>probe \<in> set (cb_subject_probes c). set (iv_artifact_ids probe))"
  by (induction checks arbitrary: checkers subjects)
    (auto simp: option_simps dest!: invocation_artifacts_ids invocations_artifacts_ids)

lemma verify_artifacts_laws:
  assumes "verify_artifacts X r p values = Some ()"
  shows "distinct (map af_test_id values)"
    and "af_test_id ` set values = td_test_id ` set (ti_tests (cc_tests_integrity (pc_capsule (rx_new r))))"
    and "\<And>t. t \<in> set (ti_tests (cc_tests_integrity (pc_capsule (rx_new r)))) \<Longrightarrow>
      \<exists>a \<in> set values. af_test_id a = td_test_id t \<and> af_file a = td_path t \<and> af_kind a = td_kind t \<and>
        af_lock a = td_digest t \<and> exec_digest X (af_data a) = td_digest t"
    and "\<exists>subjects checkers. disjoint_programs X (dict_by af_test_id values) subjects checkers \<and>
      set subjects = subject_programs p \<and> set checkers = checker_programs p"
proof -
  let ?as = "dict_by af_test_id values" and ?tests = "ti_tests (cc_tests_integrity (pc_capsule (rx_new r)))"
  from assms obtain executor checkers probed where
    len: "length ?as = length values" and keys: "set (dict_keys ?as) = td_test_id ` set ?tests"
    and tests: "\<And>t. t \<in> set ?tests \<Longrightarrow> \<exists>a. map_of ?as (td_test_id t) = Some a \<and>
      (af_file a, af_kind a, af_lock a) = (td_path t, td_kind t, td_digest t) \<and> exec_digest X (af_data a) = td_digest t"
    and e: "invocation_artifacts ?as ''behavioral'' (ex_executor p) = Some executor"
    and c: "check_artifacts ?as (ex_checks p) = Some (checkers, probed)"
    and disjoint: "disjoint_programs X ?as (executor @ probed) checkers"
    by (fastforce simp: verify_artifacts_def Let_def option_simps)
  show "af_test_id ` set values = td_test_id ` set ?tests" using keys by simp
  show "\<exists>a \<in> set values. af_test_id a = td_test_id t \<and> af_file a = td_path t \<and> af_kind a = td_kind t \<and>
        af_lock a = td_digest t \<and> exec_digest X (af_data a) = td_digest t" if "t \<in> set ?tests" for t
  proof -
    note t = that
    obtain a where m: "map_of ?as (td_test_id t) = Some a"
      and a: "(af_file a, af_kind a, af_lock a) = (td_path t, td_kind t, td_digest t)"
        "exec_digest X (af_data a) = td_digest t"
      using tests [OF t] by blast
    with map_of_dict_byD [OF m] show ?thesis by auto
  qed
  show "distinct (map af_test_id values)" using len by (rule distinct_of_dict_by)
  show "\<exists>subjects checkers. disjoint_programs X ?as subjects checkers \<and>
      set subjects = subject_programs p \<and> set checkers = checker_programs p"
    using disjoint invocation_artifacts_ids [OF e] check_artifacts_ids [OF c]
    by (intro exI [of _ "executor @ probed"] exI [of _ checkers]) (auto simp: subject_programs_def checker_programs_def)
qed

lemma programs_apart:
  assumes "verify_artifacts X r p values = Some ()" and "a \<in> set values" and "b \<in> set values"
    and "af_test_id a \<in> subject_programs p" and "af_test_id b \<in> checker_programs p"
  shows "af_test_id a \<noteq> af_test_id b" and "xe_casefold X (af_file a) \<noteq> xe_casefold X (af_file b)"
    and "af_lock a \<noteq> af_lock b"
proof -
  note laws = verify_artifacts_laws [OF assms(1)]
  have m: "map_of (dict_by af_test_id values) (af_test_id x) = Some x" if "x \<in> set values" for x
    using laws(1) that by (intro map_of_dict_by_inj) (auto simp: distinct_map)
  obtain subjects checkers where d: "disjoint_programs X (dict_by af_test_id values) subjects checkers"
    and s: "af_test_id a \<in> set subjects" "af_test_id b \<in> set checkers"
    using laws(4) assms(4,5) by auto
  from d s show "af_test_id a \<noteq> af_test_id b" by (auto simp: disjoint_programs_def Let_def)
  from d s m [OF assms(2)] m [OF assms(3)] show "xe_casefold X (af_file a) \<noteq> xe_casefold X (af_file b)"
    and "af_lock a \<noteq> af_lock b"
    unfolding disjoint_programs_def Let_def disjoint_iff by (force simp: image_iff)+
qed

section \<open>Bound executions\<close>

lemma parse_execution_contract_iff:
  "parse_execution_contract X G resolver r = Inr b \<longleftrightarrow>
    replacement_request_valid r \<and> verify_publications G (rx_principal r) [rx_old r, rx_new r] = Some () \<and>
    bd_request b = r \<and>
    read_profile (map_of (rc_extensions (contract_of r)) ''x-m5-execution'') = Some (bd_profile b) \<and>
    compatibility r (bd_profile b) = Some () \<and> check_coverage X r (bd_profile b) = Some () \<and>
    resolver (rx_new r) = Some (bd_artifacts b) \<and> verify_artifacts X r (bd_profile b) (bd_artifacts b) = Some ()"
  by (cases b) (auto simp: parse_execution_contract_def option_simps split: option.splits)

lemma read_profile_valid: "read_profile raw = Some p \<Longrightarrow> execution_profile_valid p"
  by (auto simp: read_profile_def option_simps Let_def split: if_splits)

section \<open>Profiles as text\<close>

text \<open>Writing a profile, as the execution subject does, and reading it, as the contract does, are
  inverse.\<close>

lemma json_strs [simp]: "those (map (json_str \<circ> JStr) xs) = Some xs"
  by (simp add: comp_def json_str_def)

lemmas reading = field_str_def field_strings_def field_int_def field_number_def field_flag_def field_obj_def
  field_objs_def only_fields_def assured_def invocation_fields_def invocation_members_def read_invocation_def
  json_strings_def json_obj_def

lemma read_probe_json: "Option.bind (json_obj (probe_json p)) read_probe = Some p"
  by (simp add: probe_json_def read_probe_def reading)

lemma json_obj_members [simp]: "json_obj (JObj m) = Some m"
  by (simp add: json_obj_def)

lemma read_objs:
  assumes "\<And>x. x \<in> set xs \<Longrightarrow> Option.bind (json_obj (f x)) g = Some x"
  shows "Option.bind (those (map json_obj (map f xs))) (\<lambda>ms. those (map g ms)) = Some xs"
  using assms
proof (induction xs)
  case (Cons x xs)
  from Cons.prems [of x] obtain m where m: "json_obj (f x) = Some m" "g m = Some x"
    by (auto simp: Option.bind_eq_Some_conv)
  have "Option.bind (those (map json_obj (map f xs))) (\<lambda>ms. those (map g ms)) = Some xs"
    by (rule Cons.IH) (use Cons.prems in simp)
  then obtain ms where "those (map json_obj (map f xs)) = Some ms" "those (map g ms) = Some xs"
    by (auto simp only: Option.bind_eq_Some_conv)
  with m show ?case by simp
qed simp

lemma read_check_json: "Option.bind (json_obj (check_json c)) read_check = Some c"
proof -
  have "Option.bind (those (map json_obj (map probe_json (cb_subject_probes c)))) (\<lambda>ms. those (map read_probe ms)) =
      Some (cb_subject_probes c)"
    by (rule read_objs) (rule read_probe_json)
  then show ?thesis
    by (cases "cb_old_expected c"; cases "cb_new_expected c"; cases "cb_pair_expected c")
      (simp_all add: check_json_def read_check_def flag_member_def reading)
qed

lemma read_runner_json: "Option.bind (json_obj (runner_json r)) read_runner = Some r"
  by (simp add: runner_json_def read_runner_def reading)

lemma read_ref_json: "Option.bind (json_obj (capsule_ref_json r)) read_ref = Some r"
  by (simp add: capsule_ref_json_def read_ref_def reading)

lemma read_profile_json:
  "read_profile (Some (profile_json p)) = (if execution_profile_valid p then Some p else None)"
proof -
  have checks: "Option.bind (those (map json_obj (map check_json (ex_checks p)))) (\<lambda>ms. those (map read_check ms)) =
      Some (ex_checks p)"
    by (rule read_objs) (rule read_check_json)
  obtain ref where ref: "capsule_ref_json (ex_replaces_ref p) = JObj ref" "read_ref ref = Some (ex_replaces_ref p)"
    using read_ref_json [of "ex_replaces_ref p"] by (simp add: capsule_ref_json_def json_obj_def)
  obtain run where run: "runner_json (ex_runner p) = JObj run" "read_runner run = Some (ex_runner p)"
    using read_runner_json [of "ex_runner p"] by (simp add: runner_json_def json_obj_def)
  have eta: "\<lparr> iv_test_id = iv_test_id e, iv_artifact_ids = iv_artifact_ids e, iv_argv = iv_argv e \<rparr> = e" for e :: invocation
    by simp
  obtain ms where "those (map json_obj (map check_json (ex_checks p))) = Some ms" "those (map read_check ms) = Some (ex_checks p)"
    using checks by (auto simp only: Option.bind_eq_Some_conv)
  then show ?thesis
    by (simp add: profile_json_def read_profile_def reading ref run Let_def eta) (cases p, simp)
qed

end
