(* ===== verification/Evaluation_Laws.thy ===== *)
theory Evaluation_Laws
  imports Evaluation Contracts_Laws
begin

text \<open>
  What a valid report rests on. The journal only grows, so what was read from it is read again;
  a report without blockers says that every check of the profile was seen, in records of the
  journal, with the expected result, at the right time and in a process that ended properly.

  What a valid comparison of two runs and a valid group of repetitions establish: both runs are
  records of the journal and were observed, the paired checks ran after both, nothing outside the
  allowed scope changed, and no process stands for two.
\<close>

section \<open>Reading a growing journal\<close>

text \<open>A store that only grows: what was read once is read again.\<close>

locale stable_reads =
  fixes grows :: "'s \<Rightarrow> 's \<Rightarrow> bool" and reads :: "'s \<Rightarrow> 'k \<Rightarrow> 'v option"
  assumes grows_trans: "grows s t \<Longrightarrow> grows t u \<Longrightarrow> grows s u"
    and keep: "grows s t \<Longrightarrow> reads s k = Some v \<Longrightarrow> reads t k = Some v"
begin

lemma agree: "grows s t \<Longrightarrow> reads s k = Some v \<Longrightarrow> reads t k = Some w \<Longrightarrow> w = v"
  using keep by fastforce

lemma later: "grows s t \<Longrightarrow> grows t u \<Longrightarrow> reads s k = Some v \<Longrightarrow> reads u k = Some v"
  using grows_trans keep by blast

end

lemma find_prefix: "prefix rows rows' \<Longrightarrow> find P rows = Some x \<Longrightarrow> find P rows' = Some x"
proof -
  have "find P rows = Some x \<Longrightarrow> find P (rows @ more) = Some x" for more
    by (induction rows) (auto split: if_splits)
  then show "prefix rows rows' \<Longrightarrow> find P rows = Some x \<Longrightarrow> find P rows' = Some x"
    by (auto elim: prefixE)
qed

lemma record_verify_prefix:
  assumes "prefix rows rows'" and "record_verify E key rows ref kind scope subject = Inr raw"
  shows "record_verify E key rows' ref kind scope subject = Inr raw"
proof -
  obtain row where row: "find (\<lambda>r. jr_record_id r = rr_record_id ref) rows = Some row"
    using assms(2) by (auto simp: record_verify_def split: option.splits)
  show ?thesis using assms(2) by (simp add: record_verify_def row find_prefix [OF assms(1) row])
qed

lemma service_verify_iff:
  "service_verify X S rows ref kind subject = Some raw \<longleftrightarrow> (\<exists>scope sub. evaluation_scope X (bs_bound S) = Some scope \<and>
     subject = Some sub \<and> record_verify (xe_host X) (bs_verify_key S) rows ref kind scope sub = Inr raw)"
proof -
  have "(case r of Inl _ \<Rightarrow> None | Inr b \<Rightarrow> Some b) = Some raw \<longleftrightarrow> r = Inr raw" for r :: "bytes record_result"
    by (cases r) auto
  then show ?thesis by (auto simp: service_verify_def option_simps)
qed

interpretation jv: stable_reads prefix
  "\<lambda>rows (X, S, ref, kind, subject). service_verify X S rows ref kind subject"
proof
  fix rows rows' :: "journal_row list" and k v
  assume grow: "prefix rows rows'"
    and read: "(case k of (X, S, ref, kind, subject) \<Rightarrow> service_verify X S rows ref kind subject) = Some v"
  show "(case k of (X, S, ref, kind, subject) \<Rightarrow> service_verify X S rows' ref kind subject) = Some v"
    using read record_verify_prefix [OF grow] by (cases k) (auto simp: service_verify_iff)
qed auto

interpretation jr: stable_reads prefix "\<lambda>rows (X, S, run). read_run X S rows run"
proof
  fix rows rows' :: "journal_row list" and k v
  assume grow: "prefix rows rows'" and read: "(case k of (X, S, run) \<Rightarrow> read_run X S rows run) = Some v"
  obtain X S run where k: "k = (X, S, run)" by (cases k) auto
  show "(case k of (X, S, run) \<Rightarrow> read_run X S rows' run) = Some v"
    using read jv.keep [OF grow, of "(X, S, ag_record run, ''run'',
        service_subject X S (run_role_text (ag_role run)) (ag_repetition run))"]
    by (auto simp: k read_run_def option_simps)
qed auto

interpretation jp: stable_reads prefix "\<lambda>rows (X, S, old, new). read_pair X S rows old new"
proof
  fix rows rows' :: "journal_row list" and k v
  assume grow: "prefix rows rows'" and read: "(case k of (X, S, old, new) \<Rightarrow> read_pair X S rows old new) = Some v"
  obtain X S old new where k: "k = (X, S, old, new)" by (cases k) auto
  show "(case k of (X, S, old, new) \<Rightarrow> read_pair X S rows' old new) = Some v"
    using read jv.keep [OF grow, of "(X, S, the (ag_pair_record new), ''pair'',
        service_subject X S ''pair'' (ag_repetition old))"]
    by (auto simp: k read_pair_def option_simps)
qed auto

lemma service_append_grows: "service_append X S uid rows kind subject payload = Some (ref, rows') \<Longrightarrow> prefix rows rows'"
  by (auto simp: service_append_def option_simps record_append_def split: sum.splits if_splits)

lemma persist_contract_grows: "persist_contract X S uid rows r = (r', rows') \<Longrightarrow> prefix rows rows'"
  by (auto simp: persist_contract_def split: option.splits dest: service_append_grows)

lemma persist_differential_grows: "persist_differential X S uid rows r = (r', rows') \<Longrightarrow> prefix rows rows'"
  by (auto simp: persist_differential_def split: option.splits dest: service_append_grows)

lemma persist_repetitions_grows: "persist_repetitions X S uid rows r = (r', rows') \<Longrightarrow> prefix rows rows'"
  by (auto simp: persist_repetitions_def split: option.splits dest: service_append_grows)

lemma evaluate_contract_grows: "evaluate_contract X S uid rows run contract = (r, rows') \<Longrightarrow> prefix rows rows'"
  by (auto simp: evaluate_contract_def Let_def split: prod.splits dest: persist_contract_grows)

section \<open>Processes and traces\<close>

definition finished_cleanly :: "runner_config \<Rightarrow> process_capture \<Rightarrow> bool" where
  "finished_cleanly runner p \<longleftrightarrow> px_exit_code p = Some 0 \<and> px_terminated p \<and> \<not> px_timed_out p \<and>
     \<not> px_output_limited p \<and> px_started_ns p \<le> px_finished_ns p \<and>
     px_finished_ns p - px_started_ns p \<le> rn_timeout_seconds runner * 1000000000 \<and>
     int (length (px_stdout p)) \<le> rn_stdout_limit runner \<and> int (length (px_stderr p)) \<le> rn_stderr_limit runner"

lemma process_check_iff:
  "process_check runner p expected False = Some () \<longleftrightarrow> px_subject p = expected \<and> finished_cleanly runner p"
  by (auto simp: process_check_def finished_cleanly_def split: option.splits)

text \<open>A capture of a check whose process and probes ran after \<open>earliest\<close>, the probes first.\<close>

definition captured_after :: "runner_config \<Rightarrow> check_binding \<Rightarrow> check_capture \<Rightarrow> int \<Rightarrow> bool" where
  "captured_after runner c k earliest \<longleftrightarrow> kc_check_id k = cb_check_id c \<and> finished_cleanly runner (kc_process k) \<and>
     earliest \<le> px_started_ns (kc_process k) \<and> length (kc_probes k) = length (cb_subject_probes c) \<and>
     (\<forall>p \<in> set (kc_probes k). px_terminated p \<and> \<not> px_timed_out p \<and> earliest \<le> px_started_ns p \<and>
        px_finished_ns p \<le> px_started_ns (kc_process k))"

lemma check_capture_ok_captured:
  assumes "check_capture_ok X S c k role repetition inputs earliest = Some ()" and "kc_check_id k = cb_check_id c"
  shows "captured_after (service_runner S) c k earliest"
proof -
  from assms have len: "length (kc_probes k) = length (cb_subject_probes c)"
    and probes: "\<forall>x \<in> set (zip (cb_subject_probes c) (kc_probes k)).
      probe_check X S role repetition (input_states role inputs) earliest (px_started_ns (kc_process k)) x = Some ()"
    and rest: "earliest \<le> px_started_ns (kc_process k)" "finished_cleanly (service_runner S) (kc_process k)"
    by (auto simp: check_capture_ok_def option_simps process_check_iff)
  have "px_terminated p \<and> \<not> px_timed_out p \<and> earliest \<le> px_started_ns p \<and> px_finished_ns p \<le> px_started_ns (kc_process k)"
    if p: "p \<in> set (kc_probes k)" for p
  proof -
    obtain b where "(b, p) \<in> set (zip (cb_subject_probes c) (kc_probes k))"
      using p len by (metis in_set_impl_in_set_zip2)
    with probes show ?thesis by (auto simp: probe_check_def option_simps process_check_def dest!: bspec)
  qed
  with len rest assms(2) show ?thesis by (simp add: captured_after_def)
qed

definition expected_of :: "run_role \<Rightarrow> check_binding \<Rightarrow> bool" where
  "expected_of role c \<longleftrightarrow> (if role = RunOld then cb_old_expected c else cb_new_expected c) = Some True"

definition check_observed :: "run_env \<Rightarrow> behavior_service \<Rightarrow> completed_run \<Rightarrow> check_binding \<Rightarrow> bool" where
  "check_observed X S e c \<longleftrightarrow> (\<exists>k \<in> set (co_checks e).
     captured_after (service_runner S) c k (if cb_phase c = ''pre'' then 0 else co_snapshot_ns e) \<and>
     (cb_phase c = ''pre'' \<longrightarrow> px_finished_ns (kc_process k) \<le> px_started_ns (co_executor e)) \<and>
     observation X (px_stdout (kc_process k)) (cb_check_id c) = Some (expected_of (co_role e) c))"

definition run_observed :: "run_env \<Rightarrow> behavior_service \<Rightarrow> completed_run \<Rightarrow> bool" where
  "run_observed X S e \<longleftrightarrow> finished_cleanly (service_runner S) (co_executor e) \<and>
     px_finished_ns (co_executor e) \<le> co_snapshot_ns e \<and>
     distinct (map kc_check_id (co_checks e)) \<and>
     kc_check_id ` set (co_checks e) = cb_check_id ` set (run_checks S) \<and>
     (\<forall>c \<in> set (run_checks S). check_observed X S e c)"

lemma run_trace_simps [simp]:
  "ck_role (run_trace X S e inputs c) = cb_role c" "ck_check_id (run_trace X S e inputs c) = cb_check_id c"
  "ck_expected (run_trace X S e inputs c) = expected_of (co_role e) c"
  "ck_valid (run_trace X S e inputs c) \<longleftrightarrow> ck_observation (run_trace X S e inputs c) \<noteq> None"
  by (simp_all add: run_trace_def Let_def expected_of_def)

lemma run_trace_observed:
  assumes "ck_observation (run_trace X S e inputs c) = Some b"
    and "cb_check_id c \<in> kc_check_id ` set (co_checks e)" and "b = expected_of (co_role e) c"
  shows "check_observed X S e c"
proof -
  let ?k = "the (map_of (dict_by kc_check_id (co_checks e)) (cb_check_id c))"
  obtain k where "map_of (dict_by kc_check_id (co_checks e)) (cb_check_id c) = Some k"
    using assms(2) by (metis (no_types, lifting) imageE map_of_dict_by_ex)
  from map_of_dict_byD [OF this] this have k: "?k \<in> set (co_checks e)" "kc_check_id ?k = cb_check_id c" by simp_all
  from assms(1) have "check_capture_ok X S c ?k (run_role_text (co_role e)) (co_repetition e)
       (if cb_phase c = ''pre'' then take 1 inputs else inputs) (if cb_phase c = ''pre'' then 0 else co_snapshot_ns e) = Some ()"
    and "cb_phase c = ''pre'' \<Longrightarrow> px_finished_ns (kc_process ?k) \<le> px_started_ns (co_executor e)"
    and "observation X (px_stdout (kc_process ?k)) (cb_check_id c) = Some b"
    by (simp_all add: run_trace_def Let_def option_simps)
  with check_capture_ok_captured [OF this(1) k(2)] k assms(3) show ?thesis
    unfolding check_observed_def by blast
qed

lemma no_trace_blockers:
  "trace_blockers ts = [] \<longleftrightarrow> (\<forall>t \<in> set ts. ck_valid t \<and> ck_observation t = Some (ck_expected t))"
  by (auto simp: trace_blockers_def filter_empty_conv)

lemma run_traces_iff:
  "run_traces X S e = Some ts \<Longrightarrow> \<exists>inputs. ts = map (run_trace X S e inputs) (run_checks S) \<and>
     finished_cleanly (service_runner S) (co_executor e) \<and> px_finished_ns (co_executor e) \<le> co_snapshot_ns e \<and>
     distinct (map kc_check_id (co_checks e)) \<and> kc_check_id ` set (co_checks e) = cb_check_id ` set (run_checks S)"
  by (auto simp: run_traces_def option_simps process_check_iff membership_def)

lemma run_traces_observed:
  assumes "run_traces X S e = Some ts" and "trace_blockers ts = []"
  shows "run_observed X S e"
proof -
  obtain inputs where ts: "ts = map (run_trace X S e inputs) (run_checks S)"
    and e: "finished_cleanly (service_runner S) (co_executor e)" "px_finished_ns (co_executor e) \<le> co_snapshot_ns e"
      "distinct (map kc_check_id (co_checks e))" "kc_check_id ` set (co_checks e) = cb_check_id ` set (run_checks S)"
    using run_traces_iff [OF assms(1)] by blast
  have "check_observed X S e c" if "c \<in> set (run_checks S)" for c
  proof (rule run_trace_observed)
    show "ck_observation (run_trace X S e inputs c) = Some (expected_of (co_role e) c)"
      using assms(2) that by (simp add: no_trace_blockers ts)
    show "cb_check_id c \<in> kc_check_id ` set (co_checks e)" using that e(4) by auto
  qed (rule refl)
  with e show ?thesis by (simp add: run_observed_def)
qed

section \<open>Changes of a tree\<close>

definition changes_within :: "core_contract \<Rightarrow> tree_snapshot \<Rightarrow> tree_snapshot \<Rightarrow> bool" where
  "changes_within contract before after \<longleftrightarrow>
    (\<forall>e \<in> (set (sn_entries before) - set (sn_entries after)) \<union> (set (sn_entries after) - set (sn_entries before)).
       te_path e \<noteq> ''.'' \<and> (\<exists>g \<in> set (rc_allowed_scope contract). path_glob g (te_path e)) \<and>
       (\<forall>g \<in> set (rc_forbidden_spillover contract). \<not> path_glob g (te_path e)))"

lemma any_of_False: "any_of f xs = Some False \<longleftrightarrow> (\<forall>x \<in> set xs. f x = Some False)"
  by (induction xs) (auto simp: option_simps)

lemma any_of_True: "any_of f xs = Some True \<Longrightarrow> \<exists>x \<in> set xs. f x = Some True"
  by (induction xs) (auto simp: option_simps split: if_splits)

lemma glob_matches_glob: "glob_matches g p = Some b \<Longrightarrow> b = path_glob g p"
  by (auto simp: glob_matches_def path_matches_def segments_eq matches_glob path_glob_def split: if_splits)

lemma no_scope_violation:
  assumes "scope_violations paths allowed forbidden = Some False" and "p \<in> set paths"
  shows "p \<noteq> ''.'' \<and> (\<exists>g \<in> set allowed. path_glob g p) \<and> (\<forall>g \<in> set forbidden. \<not> path_glob g p)"
proof -
  have "(if p = ''.'' then Some True
       else Option.bind (any_of (\<lambda>g. glob_matches g p) allowed) (\<lambda>inside.
         if \<not> inside then Some True else any_of (\<lambda>g. glob_matches g p) forbidden)) = Some False"
    using assms by (simp only: scope_violations_def any_of_False)
  then have dot: "p \<noteq> ''.''" and inside: "any_of (\<lambda>g. glob_matches g p) allowed = Some True"
    and out: "any_of (\<lambda>g. glob_matches g p) forbidden = Some False"
    by (auto simp: option_simps split: if_splits)
  from any_of_True [OF inside] obtain g where "g \<in> set allowed" "path_glob g p"
    using glob_matches_glob by blast
  moreover have "\<not> path_glob g p" if "g \<in> set forbidden" for g
    using out that glob_matches_glob [of g p False] by (simp add: any_of_False)
  ultimately show ?thesis using dot by blast
qed

lemma validate_snapshot_distinct: "validate_snapshot s limits = Some () \<Longrightarrow> distinct (map te_path (sn_entries s))"
  by (rule distinct_of_dict_by) (simp add: validate_snapshot_def Let_def)

lemma tree_delta_iff:
  assumes "distinct (map te_path (sn_entries before))" and "distinct (map te_path (sn_entries after))"
  shows "p \<in> set (tree_delta before after) \<longleftrightarrow>
    (\<exists>e \<in> (set (sn_entries before) - set (sn_entries after)) \<union> (set (sn_entries after) - set (sn_entries before)).
       te_path e = p)"
proof -
  have look: "map_of (dict_by te_path (sn_entries s)) p = Some e \<longleftrightarrow> e \<in> set (sn_entries s) \<and> te_path e = p"
    if "distinct (map te_path (sn_entries s))" for s e
    using that map_of_dict_byD [of te_path "sn_entries s" p e] map_of_dict_by_inj [of te_path "sn_entries s" e]
    by (auto simp: distinct_map simp del: map_of_eq_Some_iff)
  let ?old = "map_of (dict_by te_path (sn_entries before)) p" and ?new = "map_of (dict_by te_path (sn_entries after)) p"
  note old = look [OF assms(1)] and new = look [OF assms(2)]
  have "p \<in> set (tree_delta before after) \<longleftrightarrow> ?old \<noteq> ?new"
    using map_of_dict_by_eq_None [of te_path "sn_entries before" p] map_of_dict_by_eq_None [of te_path "sn_entries after" p]
    by (auto simp: tree_delta_def Let_def simp del: map_of_eq_None_iff)
  also have "\<dots> \<longleftrightarrow> (\<exists>e. (?old = Some e) \<noteq> (?new = Some e))"
    by (cases ?old; cases ?new) auto
  finally show ?thesis unfolding old new by blast
qed

lemma changes_within_delta:
  assumes "validate_snapshot before limits = Some ()" and "validate_snapshot after limits = Some ()"
    and "scope_violations (tree_delta before after) (rc_allowed_scope contract) (rc_forbidden_spillover contract) = Some False"
  shows "changes_within contract before after"
  unfolding changes_within_def
proof
  fix e
  assume "e \<in> (set (sn_entries before) - set (sn_entries after)) \<union> (set (sn_entries after) - set (sn_entries before))"
  then have "te_path e \<in> set (tree_delta before after)"
    using tree_delta_iff [OF validate_snapshot_distinct [OF assms(1)] validate_snapshot_distinct [OF assms(2)]] by blast
  with no_scope_violation [OF assms(3)]
  show "te_path e \<noteq> ''.'' \<and> (\<exists>g \<in> set (rc_allowed_scope contract). path_glob g (te_path e)) \<and>
       (\<forall>g \<in> set (rc_forbidden_spillover contract). \<not> path_glob g (te_path e))" by blast
qed

section \<open>A pair of runs\<close>

definition pair_observed ::
  "run_env \<Rightarrow> behavior_service \<Rightarrow> completed_run \<Rightarrow> completed_run \<Rightarrow> pair_evidence \<Rightarrow> bool" where
  "pair_observed X S old new pe \<longleftrightarrow> pair_checks S \<noteq> [] \<and>
     (\<forall>c \<in> set (pair_checks S). \<exists>k \<in> set (pe_checks pe). kc_check_id k = cb_check_id c \<and>
        finished_cleanly (service_runner S) (kc_process k) \<and>
        observation X (px_stdout (kc_process k)) (cb_check_id c) = Some True \<and>
        (\<forall>r \<in> set (co_checks old @ co_checks new). px_finished_ns (kc_process r) \<le> px_started_ns (kc_process k)))"

definition preconditions_first :: "behavior_service \<Rightarrow> completed_run \<Rightarrow> completed_run \<Rightarrow> bool" where
  "preconditions_first S old new \<longleftrightarrow>
    (\<forall>c \<in> set (service_checks S). cb_phase c = ''pre'' \<longrightarrow>
      (\<forall>k \<in> set (co_checks old @ co_checks new). kc_check_id k = cb_check_id c \<longrightarrow>
        px_finished_ns (kc_process k) \<le> px_started_ns (co_executor old) \<and>
        px_finished_ns (kc_process k) \<le> px_started_ns (co_executor new)))"

definition comparison_observed ::
  "run_env \<Rightarrow> behavior_service \<Rightarrow> journal_row list \<Rightarrow> agent_run \<Rightarrow> agent_run \<Rightarrow> core_contract \<Rightarrow> bool" where
  "comparison_observed X S rows old new contract \<longleftrightarrow>
    (\<exists>oe ne pe. read_run X S rows old = Some oe \<and> read_run X S rows new = Some ne \<and>
       read_pair X S rows old new = Some pe \<and> co_role oe = RunOld \<and> co_role ne = RunNew \<and>
       run_observed X S oe \<and> run_observed X S ne \<and> pair_observed X S oe ne pe \<and>
       preconditions_first S oe ne \<and>
       changes_within contract (ct_initial (bs_context S)) (co_final oe) \<and>
       changes_within contract (ct_initial (bs_context S)) (co_final ne) \<and>
       distinct ([px_container_id (co_executor oe), px_container_id (co_executor ne)] @
         containers (co_checks oe @ co_checks ne @ pe_checks pe)))"

lemma comparison_observed_later:
  assumes "comparison_observed X S rows old new contract" and "prefix rows rows'"
  shows "comparison_observed X S rows' old new contract"
  using assms(1) jr.keep [OF assms(2), of "(X, S, _)"] jp.keep [OF assms(2), of "(X, S, old, new)"]
  unfolding comparison_observed_def by fastforce

lemma read_run_laws:
  "read_run X S rows run = Some e \<Longrightarrow> co_role e = ag_role run \<and> co_repetition e = ag_repetition run \<and>
     0 \<le> ag_repetition run \<and> ag_repetition run < ex_repetitions (bd_profile (bs_bound S)) \<and>
     validate_snapshot (ct_initial (bs_context S)) (service_runner S) = Some () \<and>
     validate_snapshot (co_final e) (service_runner S) = Some ()"
  by (auto simp: read_run_def option_simps)

lemma pair_runs_iff:
  "pair_runs X S rows old new = Some (oe, ne) \<longleftrightarrow> ag_role old = RunOld \<and> ag_role new = RunNew \<and>
     ag_repetition old = ag_repetition new \<and> ag_pair_record old \<noteq> None \<and> ag_pair_record old = ag_pair_record new \<and>
     read_run X S rows old = Some oe \<and> read_run X S rows new = Some ne \<and>
     pair_container_identities oe ne [] = Some ()"
  by (auto simp: pair_runs_def option_simps)

lemma cross_preconditions_first:
  assumes "cross_preconditions S old new = Some ()" shows "preconditions_first S old new"
  unfolding preconditions_first_def
proof (intro ballI impI)
  fix c k
  assume c: "c \<in> set (service_checks S)" "cb_phase c = ''pre''" and k: "k \<in> set (co_checks old @ co_checks new)"
    and id: "kc_check_id k = cb_check_id c"
  let ?ids = "map cb_check_id (filter (\<lambda>c. cb_phase c = ''pre'') (service_checks S))"
  let ?ends = "map (\<lambda>c. px_finished_ns (kc_process c)) (filter (\<lambda>c. kc_check_id c \<in> set ?ids) (co_checks old @ co_checks new))"
  have m: "px_finished_ns (kc_process k) \<in> set ?ends" using c k id by auto
  then have "px_finished_ns (kc_process k) \<le> Max (set ?ends)" by simp
  moreover have "Max (set ?ends) \<le> min (px_started_ns (co_executor old)) (px_started_ns (co_executor new))"
  proof -
    have "?ends \<noteq> []"
    proof
      assume "?ends = []"
      with m show False by (simp only: list.set empty_iff)
    qed
    moreover have "(if ?ends = [] then 0 else Max (set ?ends)) \<le> min (px_started_ns (co_executor old)) (px_started_ns (co_executor new))"
      using assms by (simp only: cross_preconditions_def Let_def assured_iff)
    ultimately show ?thesis by (simp only: if_False)
  qed
  ultimately show "px_finished_ns (kc_process k) \<le> px_started_ns (co_executor old) \<and>
      px_finished_ns (kc_process k) \<le> px_started_ns (co_executor new)" by linarith
qed

lemma pair_trace_laws:
  assumes "pair_trace X S repetition inputs earliest (c, k) = Some t" and "ck_observation t = Some (ck_expected t)"
  shows "kc_check_id k = cb_check_id c" and "finished_cleanly (service_runner S) (kc_process k)"
    and "observation X (px_stdout (kc_process k)) (cb_check_id c) = Some True" and "earliest \<le> px_started_ns (kc_process k)"
proof -
  from assms have id: "kc_check_id k = cb_check_id c"
    and ok: "check_capture_ok X S c k ''pair'' repetition inputs earliest = Some ()"
    and seen: "observation X (px_stdout (kc_process k)) (cb_check_id c) = Some True"
    by (auto simp: pair_trace_def option_simps)
  from id seen check_capture_ok_captured [OF ok id]
  show "kc_check_id k = cb_check_id c" "finished_cleanly (service_runner S) (kc_process k)"
    "observation X (px_stdout (kc_process k)) (cb_check_id c) = Some True" "earliest \<le> px_started_ns (kc_process k)"
    by (simp_all add: captured_after_def)
qed

lemma pair_traces_observed:
  assumes "pair_traces X S rows old new oe ne = Some ts" and "trace_blockers ts = []"
  shows "\<exists>pe. read_pair X S rows old new = Some pe \<and> pair_observed X S oe ne pe \<and>
    pair_container_identities oe ne (pe_checks pe) = Some ()"
proof -
  let ?ends = "map (\<lambda>c. px_finished_ns (kc_process c)) (co_checks oe @ co_checks ne)"
  from assms(1) obtain pe inputs where pe: "read_pair X S rows old new = Some pe"
    and ids: "pair_container_identities oe ne (pe_checks pe) = Some ()"
    and some: "pair_checks S \<noteq> []" and len: "length (pair_checks S) = length (pe_checks pe)"
    and ts: "map (pair_trace X S (ag_repetition old) inputs (Max (set ?ends))) (zip (pair_checks S) (pe_checks pe)) = map Some ts"
    unfolding pair_traces_def Let_def option_simps by auto
  have "\<exists>k \<in> set (pe_checks pe). kc_check_id k = cb_check_id c \<and> finished_cleanly (service_runner S) (kc_process k) \<and>
        observation X (px_stdout (kc_process k)) (cb_check_id c) = Some True \<and>
        (\<forall>r \<in> set (co_checks oe @ co_checks ne). px_finished_ns (kc_process r) \<le> px_started_ns (kc_process k))"
    if c: "c \<in> set (pair_checks S)" for c
  proof -
    obtain k where z: "(c, k) \<in> set (zip (pair_checks S) (pe_checks pe))"
      using c len by (metis in_set_impl_in_set_zip1)
    then have k: "k \<in> set (pe_checks pe)" by (rule set_zip_rightD)
    let ?trace = "pair_trace X S (ag_repetition old) inputs (Max (set ?ends))"
    have "?trace (c, k) \<in> set (map ?trace (zip (pair_checks S) (pe_checks pe)))"
      using z by (simp only: set_map image_eqI)
    then obtain t where t: "t \<in> set ts" "?trace (c, k) = Some t" unfolding ts by auto
    then have "ck_observation t = Some (ck_expected t)" using assms(2) by (simp add: no_trace_blockers)
    note laws = pair_trace_laws [OF t(2) this]
    have "px_finished_ns (kc_process r) \<le> px_started_ns (kc_process k)" if r: "r \<in> set (co_checks oe @ co_checks ne)" for r
    proof -
      have "px_finished_ns (kc_process r) \<in> set ?ends" using r by auto
      then have "px_finished_ns (kc_process r) \<le> Max (set ?ends)" by simp
      with laws(4) show ?thesis by linarith
    qed
    with laws k show ?thesis by blast
  qed
  with pe ids some show ?thesis by (auto simp: pair_observed_def)
qed


section \<open>Reports\<close>

lemma persist_contract_valid:
  assumes "persist_contract X S uid rows r = (r', rows')" and "nr_blockers r' = []"
  shows "\<exists>ref. r' = r \<lparr> nr_record := Some ref \<rparr>" and "prefix rows rows'"
  using assms by (auto simp: persist_contract_def split: option.splits dest: service_append_grows)

lemma unique_strings_Nil [simp]: "unique_strings xs = [] \<longleftrightarrow> xs = []"
  by (simp add: unique_strings_def)

lemma evaluate_contract_valid:
  assumes "evaluate_contract X S uid rows run contract = (r, rows')" and "nr_blockers r = []"
  shows "\<exists>e ts. read_run X S rows run = Some e \<and> run_traces X S e = Some ts \<and> run_observed X S e \<and>
      trace_blockers ts = [] \<and> nr_traces r = ts \<and> nr_ter r = count_role ts ''target'' \<and>
      nr_pip r = count_role ts ''invariant'' \<and> nr_bsr r = count_role ts ''spillover''"
    and "prefix rows rows'"
proof -
  have blockers: "nr_blockers r' = [] \<Longrightarrow> nr_blockers r0 = []"
    if "persist_contract X S uid rows r0 = (r', rows')" for r0 r'
    using that by (auto simp: persist_contract_def split: option.splits)
  obtain ts where t: "contract_traces X S rows run contract = Some ts"
    using assms blockers by (cases "contract_traces X S rows run contract") (fastforce simp: evaluate_contract_def Let_def)+
  then obtain e where e: "read_run X S rows run = Some e" "run_traces X S e = Some ts"
    by (auto simp: contract_traces_def option_simps)
  from assms(1) have p: "persist_contract X S uid rows
       \<lparr> nr_valid = (trace_blockers ts = []), nr_blockers = unique_strings (trace_blockers ts), nr_run = run,
         nr_ter = count_role ts ''target'', nr_pip = count_role ts ''invariant'',
         nr_bsr = count_role ts ''spillover'', nr_traces = ts, nr_record = None \<rparr> = (r, rows')"
    by (simp add: evaluate_contract_def t)
  from blockers [OF p assms(2)] have b: "trace_blockers ts = []" by simp
  from persist_contract_valid [OF p assms(2)] e b run_traces_observed [OF e(2) b]
  show "\<exists>e ts. read_run X S rows run = Some e \<and> run_traces X S e = Some ts \<and> run_observed X S e \<and>
      trace_blockers ts = [] \<and> nr_traces r = ts \<and> nr_ter r = count_role ts ''target'' \<and>
      nr_pip r = count_role ts ''invariant'' \<and> nr_bsr r = count_role ts ''spillover''" and "prefix rows rows'"
    by auto
qed

lemma compare_evidence_clean:
  assumes "compare_evidence X S rows old new contract = (deltas, ts, [])"
  shows "\<exists>oe ne. pair_runs X S rows old new = Some (oe, ne) \<and>
    scope_violations (tree_delta (ct_initial (bs_context S)) (co_final oe)) (rc_allowed_scope contract)
      (rc_forbidden_spillover contract) = Some False \<and>
    scope_violations (tree_delta (ct_initial (bs_context S)) (co_final ne)) (rc_allowed_scope contract)
      (rc_forbidden_spillover contract) = Some False \<and>
    cross_preconditions S oe ne = Some () \<and> pair_traces X S rows old new oe ne = Some ts \<and> trace_blockers ts = []"
  using assms
  by (auto simp: compare_evidence_def Let_def any_of_False [of _ "[_, _]", simplified] option_simps
      split: option.splits prod.splits if_splits)

lemma comparison_valid:
  assumes "compare_runs X S uid rows old new contract = (report, rows')" and "df_valid report"
  shows "comparison_observed X S rows' old new contract" and "df_old report = old" and "df_new report = new"
proof -
  obtain r1 rows1 where c1: "evaluate_contract X S (uid 0) rows old contract = (r1, rows1)" by (cases "evaluate_contract X S (uid 0) rows old contract")
  obtain r2 rows2 where c2: "evaluate_contract X S (uid 1) rows1 new contract = (r2, rows2)" by (cases "evaluate_contract X S (uid 1) rows1 new contract")
  obtain to_old to_new between ts found
    where c3: "compare_evidence X S rows2 old new contract = ((to_old, to_new, between), ts, found)"
    by (metis prod_cases3 surj_pair)
  let ?blockers = "nr_blockers r1 @ nr_blockers r2 @ found"
  have p: "persist_differential X S (uid 2) rows2
       \<lparr> df_valid = (?blockers = []), df_blockers = unique_strings ?blockers, df_old = old, df_new = new,
         df_old_report = r1, df_new_report = r2, df_traces = ts,
         df_initial_to_old = to_old, df_initial_to_new = to_new, df_old_to_new = between, df_record = None \<rparr> = (report, rows')"
    using assms(1) by (simp add: compare_runs_def c1 c2 [unfolded One_nat_def] c3 Let_def)
  from p assms(2) have clean: "nr_blockers r1 = []" "nr_blockers r2 = []" "found = []"
    and grow: "prefix rows2 rows'" and names: "df_old report = old" "df_new report = new"
    by (auto simp: persist_differential_def split: option.splits dest: service_append_grows)
  show "df_old report = old" "df_new report = new" by (fact names)+
  obtain oe ne where runs: "pair_runs X S rows2 old new = Some (oe, ne)"
    and so: "scope_violations (tree_delta (ct_initial (bs_context S)) (co_final oe)) (rc_allowed_scope contract)
      (rc_forbidden_spillover contract) = Some False"
    and sn: "scope_violations (tree_delta (ct_initial (bs_context S)) (co_final ne)) (rc_allowed_scope contract)
      (rc_forbidden_spillover contract) = Some False"
    and cross: "cross_preconditions S oe ne = Some ()"
    and pair: "pair_traces X S rows2 old new oe ne = Some ts" "trace_blockers ts = []"
    using compare_evidence_clean [OF c3 [unfolded clean(3)]] by blast
  from runs have r: "read_run X S rows2 old = Some oe" "read_run X S rows2 new = Some ne"
    "ag_role old = RunOld" "ag_role new = RunNew"
    by (simp_all add: pair_runs_iff)
  obtain e1 where e1: "read_run X S rows old = Some e1" "run_observed X S e1" and g1: "prefix rows rows1"
    using evaluate_contract_valid [OF c1 clean(1)] by blast
  obtain e2 where e2: "read_run X S rows1 new = Some e2" "run_observed X S e2" and g2: "prefix rows1 rows2"
    using evaluate_contract_valid [OF c2 clean(2)] by blast
  have "oe = e1" using jr.agree [of rows rows2 "(X, S, old)"] prefix_order.trans [OF g1 g2] e1 r by simp
  moreover have "ne = e2" using jr.agree [OF g2, of "(X, S, new)"] e2 r by simp
  ultimately have seen: "run_observed X S oe" "run_observed X S ne" using e1 e2 by simp_all
  obtain pe where pe: "read_pair X S rows2 old new = Some pe" "pair_observed X S oe ne pe"
    and ids: "pair_container_identities oe ne (pe_checks pe) = Some ()"
    using pair_traces_observed [OF pair] by blast
  note lo = read_run_laws [OF r(1)] and ln = read_run_laws [OF r(2)]
  have "comparison_observed X S rows2 old new contract"
    unfolding comparison_observed_def
  proof (intro exI conjI)
    show "changes_within contract (ct_initial (bs_context S)) (co_final oe)"
      by (rule changes_within_delta [OF _ _ so]) (use lo in blast)+
    show "changes_within contract (ct_initial (bs_context S)) (co_final ne)"
      by (rule changes_within_delta [OF _ _ sn]) (use ln in blast)+
    show "distinct ([px_container_id (co_executor oe), px_container_id (co_executor ne)] @
         containers (co_checks oe @ co_checks ne @ pe_checks pe))"
      using ids by (simp only: pair_container_identities_def assured_iff)
  qed (use r lo ln seen pe cross_preconditions_first [OF cross] in simp_all)
  then show "comparison_observed X S rows' old new contract" using grow by (rule comparison_observed_later)
qed

section \<open>Rates\<close>

lemma count_role_traces:
  assumes "trace_blockers (map (run_trace X S e inputs) checks) = []"
  shows "count_role (map (run_trace X S e inputs) checks) role =
    \<lparr> nt_numerator = length (filter (\<lambda>c. cb_role c = role \<and> expected_of (co_role e) c) checks),
      nt_denominator = length (filter (\<lambda>c. cb_role c = role) checks) \<rparr>"
proof -
  have seen: "ck_observation (run_trace X S e inputs c) = Some (expected_of (co_role e) c)" if "c \<in> set checks" for c
    using assms that by (auto simp: no_trace_blockers)
  let ?cs = "filter (\<lambda>c. cb_role c = role) checks"
  have role: "filter (\<lambda>t. ck_role t = role) (map (run_trace X S e inputs) checks) = map (run_trace X S e inputs) ?cs"
    by (simp add: filter_map comp_def)
  have hits: "filter (\<lambda>t. ck_valid t \<and> ck_observation t = Some True) (map (run_trace X S e inputs) ?cs) =
      map (run_trace X S e inputs) (filter (expected_of (co_role e)) ?cs)"
    using seen by (auto simp: filter_map simp del: filter_filter intro!: arg_cong [of _ _ "map _"] filter_cong)
  show ?thesis unfolding count_role_def Let_def role hits by (simp add: conj_commute)
qed

lemma evaluate_contract_blockers:
  "evaluate_contract X S uid rows run contract = (r, rows') \<Longrightarrow> nr_valid r \<Longrightarrow> nr_blockers r = []"
  by (auto simp: evaluate_contract_def Let_def persist_contract_def split: option.splits prod.splits)

section \<open>Repetitions\<close>

lemma verified_pair:
  "verify_differential_report X S rows p = Some () \<Longrightarrow> ag_repetition (df_old p) = ag_repetition (df_new p)"
  by (auto simp: verify_differential_report_def option_simps pair_runs_iff)

lemma one_fingerprint:
  assumes "map f xs = map Some ys" and "card (set ys) = 1"
  shows "\<exists>y. \<forall>x \<in> set xs. f x = Some y"
proof -
  obtain y where "set ys = {y}" using assms(2) by (auto simp: card_1_singleton_iff)
  then have "f ` set xs = {Some y}" using arg_cong [OF assms(1), of set] by simp
  then show ?thesis by blast
qed

lemma repetition_blockers_Nil:
  assumes "repetition_blockers X S rows pairs = []"
  shows "\<forall>p \<in> set pairs. verify_differential_report X S rows p = Some ()"
    and "sort (map (\<lambda>p. ag_repetition (df_old p)) pairs) = [0..ex_repetitions (bd_profile (bs_bound S)) - 1]"
    and "\<forall>p \<in> set pairs. df_valid p"
    and "\<exists>f. \<forall>p \<in> set pairs. outcome X p = Some f"
proof -
  from assms obtain fs where fs: "map (outcome X) pairs = map Some fs" "card (set fs) = 1"
    and rest: "\<forall>p \<in> set pairs. verify_differential_report X S rows p = Some ()"
      "sort (map (\<lambda>p. ag_repetition (df_old p)) pairs) = [0..ex_repetitions (bd_profile (bs_bound S)) - 1]"
      "\<forall>p \<in> set pairs. df_valid p"
    by (auto simp: repetition_blockers_def option_simps list_all_iff split: option.splits if_splits)
  from rest one_fingerprint [OF fs]
  show "\<forall>p \<in> set pairs. verify_differential_report X S rows p = Some ()"
    and "sort (map (\<lambda>p. ag_repetition (df_old p)) pairs) = [0..ex_repetitions (bd_profile (bs_bound S)) - 1]"
    and "\<forall>p \<in> set pairs. df_valid p"
    and "\<exists>f. \<forall>p \<in> set pairs. outcome X p = Some f" by blast+
qed

lemma evaluate_repetitions_valid:
  assumes "evaluate_repetitions X S uid rows pairs = (report, rows')" and "pt_valid report"
  shows "prefix rows rows'"
    and "sort (map (\<lambda>p. ag_repetition (df_old p)) pairs) = [0..ex_repetitions (bd_profile (bs_bound S)) - 1]"
    and "\<forall>p \<in> set pairs. df_valid p"
    and "\<forall>p \<in> set pairs. verify_differential_report X S rows p = Some ()"
    and "\<exists>f. \<forall>p \<in> set pairs. outcome X p = Some f"
proof -
  from assms have none: "repetition_blockers X S rows pairs = []" and grow: "prefix rows rows'"
    by (auto simp: evaluate_repetitions_def Let_def persist_repetitions_def split: option.splits dest: service_append_grows)
  from grow repetition_blockers_Nil [OF none] show "prefix rows rows'"
    and "sort (map (\<lambda>p. ag_repetition (df_old p)) pairs) = [0..ex_repetitions (bd_profile (bs_bound S)) - 1]"
    and "\<forall>p \<in> set pairs. df_valid p"
    and "\<forall>p \<in> set pairs. verify_differential_report X S rows p = Some ()"
    and "\<exists>f. \<forall>p \<in> set pairs. outcome X p = Some f" by blast+
qed

end
