(* ===== verification/Recording.thy ===== *)
theory Recording
  imports Evaluation_Laws
begin

text \<open>
  The other direction: what the host recorded is read back, reports without blockers are stored,
  and a stored report verifies, as long as record identifiers are fresh and both keys agree.
\<close>

definition unused_record :: "journal_row list \<Rightarrow> pystr \<Rightarrow> bool" where
  "unused_record rows uid \<longleftrightarrow> uid \<noteq> [] \<and> uid \<notin> jr_record_id ` set rows"

lemma scope_nonempty: "evaluation_scope X b = Some scope \<Longrightarrow> scope \<noteq> []"
  by (auto simp: evaluation_scope_def Let_def json_identity_of_def json_identity_def exec_digest_def digest_bytes_def)

lemma identity_nonempty: "json_identity_of X v = Some d \<Longrightarrow> d \<noteq> []"
  by (auto simp: json_identity_of_def json_identity_def exec_digest_def digest_bytes_def)

text \<open>One record is appended under its identifier.\<close>

lemma service_append_fresh:
  assumes "evaluation_scope X (bs_bound S) = Some scope" and "subject \<noteq> []" and "kind \<noteq> []" and "unused_record rows uid"
  shows "\<exists>row. service_append X S uid rows kind (Some subject) (Some raw) =
    Some (\<lparr> rr_record_id = uid, rr_digest = digest_bytes (xe_host X) raw \<rparr>, rows @ [row]) \<and> jr_record_id row = uid"
  using assms scope_nonempty [OF assms(1)] by (auto simp: service_append_def record_append_def unused_record_def)

lemma service_append_iff:
  "service_append X S uid rows kind subject payload = Some r \<longleftrightarrow> (\<exists>scope sub raw. evaluation_scope X (bs_bound S) = Some scope \<and>
     subject = Some sub \<and> payload = Some raw \<and>
     record_append (xe_host X) (bs_journal_key S) uid rows kind scope sub raw = Inr r)"
proof -
  have "(case a of Inl _ \<Rightarrow> None | Inr b \<Rightarrow> Some b) = Some r \<longleftrightarrow> a = Inr r" for a :: "(record_ref \<times> journal_row list) record_result"
    by (cases a) auto
  then show ?thesis by (auto simp: service_append_def option_simps)
qed

text \<open>And is read back from any later journal.\<close>

lemma append_verify:
  assumes "service_append X S uid rows kind subject payload = Some (ref, rows1)" and "prefix rows1 rows2"
    and "bs_verify_key S = bs_journal_key S"
  shows "service_verify X S rows2 ref kind subject = payload"
proof -
  obtain scope sub raw where scope: "evaluation_scope X (bs_bound S) = Some scope" "subject = Some sub" "payload = Some raw"
    and a: "record_append (xe_host X) (bs_journal_key S) uid rows kind scope sub raw = Inr (ref, rows1)"
    using assms(1) by (auto simp: service_append_iff)
  have "record_verify (xe_host X) (bs_journal_key S) rows1 ref kind scope sub = Inr raw"
    unfolding record_verify_def record_append_find(1) [OF a journal_refl]
    by (simp add: record_append_find(2,3) [OF a journal_refl])
  then have "service_verify X S rows1 ref kind subject = Some raw"
    by (simp add: service_verify_iff scope assms(3))
  with jv.keep [OF assms(2), of "(X, S, ref, kind, subject)"] show ?thesis by (simp add: scope)
qed

lemma recorded_run_read:
  assumes "record_run X S uid rows e = Some (run, rows1)" and "prefix rows1 rows2"
    and "bs_verify_key S = bs_journal_key S"
    and "\<And>raw. wire_bytes X (run_evidence_json X e) = Some raw \<Longrightarrow> xn_parse_run X raw = Some e"
    and "run_evidence_valid e" and "completed e = Some c" and "ev_repetition e < ex_repetitions (bd_profile (bs_bound S))"
    and "distinct (containers (co_checks c) @ [px_container_id (co_executor c)])"
    and "validate_snapshot (ct_initial (bs_context S)) (service_runner S) = Some ()"
    and "validate_snapshot (co_final c) (service_runner S) = Some ()"
  shows "read_run X S rows2 run = Some c"
proof -
  obtain raw ref where raw: "wire_bytes X (run_evidence_json X e) = Some raw"
    and a: "service_append X S uid rows ''run'' (service_subject X S (run_role_text (ev_role e)) (ev_repetition e)) (Some raw) = Some (ref, rows1)"
    and run: "run = \<lparr> ag_role = ev_role e, ag_repetition = ev_repetition e, ag_record = ref, ag_pair_record = None \<rparr>"
    using assms(1) by (cases "wire_bytes X (run_evidence_json X e)") (auto simp: record_run_def service_append_def option_simps)
  have c: "co_role c = ev_role e" "co_repetition c = ev_repetition e"
    using assms(6) by (auto simp: completed_def split: option.splits)
  have "0 \<le> ev_repetition e" using assms(5) by (simp add: run_evidence_valid_def)
  with append_verify [OF a assms(2,3)] assms(4) [OF raw] assms(5-10) c show ?thesis
    by (simp add: read_run_def run option_simps raw)
qed

lemma read_run_pair [simp]: "read_run X S rows (run \<lparr> ag_pair_record := r \<rparr>) = read_run X S rows run"
  by (simp add: read_run_def)

lemma recorded_pair_read:
  assumes "record_pair X S uid rows old new e = Some ((old', new'), rows1)" and "prefix rows1 rows2"
    and "bs_verify_key S = bs_journal_key S"
    and "\<And>raw. wire_bytes X (pair_evidence_json X e) = Some raw \<Longrightarrow> xn_parse_pair X raw = Some e"
    and "pair_evidence_valid e" and "pe_old_record e = ag_record old" and "pe_new_record e = ag_record new"
    and "pe_repetition e = ag_repetition old"
  shows "read_pair X S rows2 old' new' = Some e"
proof -
  obtain raw ref where raw: "wire_bytes X (pair_evidence_json X e) = Some raw"
    and a: "service_append X S uid rows ''pair'' (service_subject X S ''pair'' (pe_repetition e)) (Some raw) = Some (ref, rows1)"
    and run: "old' = old \<lparr> ag_pair_record := Some ref \<rparr>" "new' = new \<lparr> ag_pair_record := Some ref \<rparr>"
    using assms(1) by (cases "wire_bytes X (pair_evidence_json X e)") (auto simp: record_pair_def service_append_def option_simps)
  with append_verify [OF a assms(2,3)] assms(4) [OF raw] assms(5-8) show ?thesis
    by (simp add: read_pair_def run option_simps raw)
qed

section \<open>Storing and verifying reports\<close>

lemma contract_subject_nonempty: "contract_subject X S kind members = Some d \<Longrightarrow> d \<noteq> []"
  by (auto simp: contract_subject_def option_simps dest: identity_nonempty)

definition passed_report :: "agent_run \<Rightarrow> check_trace list \<Rightarrow> contract_report" where
  "passed_report run ts = \<lparr> nr_valid = True, nr_blockers = [], nr_run = run, nr_ter = count_role ts ''target'',
     nr_pip = count_role ts ''invariant'', nr_bsr = count_role ts ''spillover'', nr_traces = ts, nr_record = None \<rparr>"

lemma contract_report_stored:
  assumes "contract_traces X S rows run contract = Some ts" and "trace_blockers ts = []"
    and "evaluation_scope X (bs_bound S) = Some scope" and "unused_record rows uid"
    and "contract_subject X S ''contract'' [agent_run_json run] = Some sub"
    and "wire_bytes X (JObj (contract_members (passed_report run ts))) = Some raw"
    and "bs_verify_key S = bs_journal_key S"
  shows "\<exists>ref row. evaluate_contract X S uid rows run contract = (passed_report run ts \<lparr> nr_record := Some ref \<rparr>, rows @ [row]) \<and>
    jr_record_id row = uid \<and>
    (\<forall>rows2. prefix (rows @ [row]) rows2 \<longrightarrow> read_run X S rows2 run \<noteq> None \<longrightarrow>
      verify_contract_report X S rows2 (passed_report run ts \<lparr> nr_record := Some ref \<rparr>) = Some ())"
proof -
  let ?r = "passed_report run ts"
  have run: "contract_report_subject X S (?r \<lparr> nr_record := x \<rparr>) = Some sub" "contract_report_subject X S ?r = Some sub"
      "contract_members (?r \<lparr> nr_record := x \<rparr>) = contract_members ?r" "nr_run (?r \<lparr> nr_record := x \<rparr>) = run" for x
    using assms(5) by (simp_all add: contract_report_subject_def contract_members_def passed_report_def)
  obtain ref row where a: "service_append X S uid rows ''contract'' (Some sub) (Some raw) = Some (ref, rows @ [row])"
    and row: "jr_record_id row = uid"
    using service_append_fresh [OF assms(3) contract_subject_nonempty [OF assms(5)] _ assms(4), of "''contract''" raw] by blast
  have "persist_contract X S uid rows ?r = (?r \<lparr> nr_record := Some ref \<rparr>, rows @ [row])"
    using a assms(6) by (simp add: persist_contract_def run)
  then have "evaluate_contract X S uid rows run contract = (?r \<lparr> nr_record := Some ref \<rparr>, rows @ [row])"
    using assms(2) by (simp add: evaluate_contract_def assms(1) unique_strings_def passed_report_def)
  moreover have "verify_contract_report X S rows2 (?r \<lparr> nr_record := Some ref \<rparr>) = Some ()"
    if "prefix (rows @ [row]) rows2" "read_run X S rows2 run \<noteq> None" for rows2
    using append_verify [OF a that(1) assms(7)] that(2) assms(6)
    by (auto simp: verify_contract_report_def run option_simps)
  ultimately show ?thesis using row by blast
qed

lemma differential_report_stored:
  assumes "compare_evidence X S rows2 old new contract = (deltas, ts, [])"
    and "evaluate_contract X S (uid 0) rows old contract = (r1, rows1)" and "nr_blockers r1 = []"
    and "evaluate_contract X S (uid 1) rows1 new contract = (r2, rows2)" and "nr_blockers r2 = []"
    and "evaluation_scope X (bs_bound S) = Some scope" and "unused_record rows2 (uid 2)"
    and "contract_subject X S ''differential'' [agent_run_json old, agent_run_json new] = Some sub"
    and "\<And>r. df_valid r \<Longrightarrow> df_blockers r = [] \<Longrightarrow> df_old r = old \<Longrightarrow> df_new r = new \<Longrightarrow> df_old_report r = r1 \<Longrightarrow>
      df_new_report r = r2 \<Longrightarrow> df_traces r = ts \<Longrightarrow> wire_bytes X (JObj (differential_members r)) \<noteq> None"
    and "bs_verify_key S = bs_journal_key S"
    and "\<And>rows'. prefix rows2 rows' \<Longrightarrow> verify_contract_report X S rows' r1 = Some () \<and> verify_contract_report X S rows' r2 = Some ()"
    and "\<And>rows'. prefix rows2 rows' \<Longrightarrow> \<exists>oe ne ts'. pair_runs X S rows' old new = Some (oe, ne) \<and>
      pair_traces X S rows' old new oe ne = Some ts'"
  shows "\<exists>r row. compare_runs X S uid rows old new contract = (r, rows2 @ [row]) \<and> df_valid r \<and> df_old r = old \<and> df_new r = new \<and>
    df_blockers r = [] \<and> df_old_report r = r1 \<and> df_new_report r = r2 \<and> df_traces r = ts \<and> jr_record_id row = uid 2 \<and>
    (\<forall>rows'. prefix (rows2 @ [row]) rows' \<longrightarrow> verify_differential_report X S rows' r = Some ())"
proof -
  obtain to_old to_new between where deltas: "deltas = (to_old, to_new, between)" by (cases deltas) auto
  let ?r = "\<lparr> df_valid = True, df_blockers = [], df_old = old, df_new = new, df_old_report = r1, df_new_report = r2,
      df_traces = ts, df_initial_to_old = to_old, df_initial_to_new = to_new, df_old_to_new = between, df_record = None \<rparr>"
  obtain raw where raw: "wire_bytes X (JObj (differential_members ?r)) = Some raw" using assms(9) [of ?r] by auto
  obtain ref row where a: "service_append X S (uid 2) rows2 ''differential'' (Some sub) (Some raw) = Some (ref, rows2 @ [row])"
    and row: "jr_record_id row = uid 2"
    using service_append_fresh [OF assms(6) contract_subject_nonempty [OF assms(8)] _ assms(7), of "''differential''" raw] by blast
  have sub: "differential_subject X S r = Some sub" if "df_old r = old" "df_new r = new" for r
    using assms(8) that by (simp add: differential_subject_def)
  have "compare_runs X S uid rows old new contract = (?r \<lparr> df_record := Some ref \<rparr>, rows2 @ [row])"
    using a raw by (simp add: compare_runs_def assms(2) assms(4) [unfolded One_nat_def] assms(1,3,5) deltas
        persist_differential_def sub Let_def unique_strings_def)
  moreover have "verify_differential_report X S rows' (?r \<lparr> df_record := Some ref \<rparr>) = Some ()"
    if later: "prefix (rows2 @ [row]) rows'" for rows'
  proof -
    have grow: "prefix rows2 rows'" using later by (auto elim: prefixE)
    from assms(12) [OF grow] obtain oe ne ts' where "pair_runs X S rows' old new = Some (oe, ne)"
      "pair_traces X S rows' old new oe ne = Some ts'" by blast
    then show ?thesis using append_verify [OF a later assms(10)] assms(11) [OF grow] raw
      by (simp add: verify_differential_report_def sub differential_members_def option_simps)
  qed
  ultimately show ?thesis using row by auto
qed

end
