(* ===== verification/Evaluation_Sample.thy ===== *)
theory Evaluation_Sample
  imports Recording Store_Sample Capsule_Sample
begin

text \<open>
  One replacement with an effect, an invariant, a forbidden path and a paired check. The old run
  leaves the tree alone, the new one adds a file in scope; a checker prints the identifier of its
  check and \<open>T\<close> or \<open>F\<close>.

  The runs of the sample replacement: their records, the reports on them, and that everything is
  accepted.
\<close>

section \<open>The contract\<close>

definition twin_exec :: exec_env where
  "twin_exec = \<lparr> xe_host = sample_env, xe_casefold = (\<lambda>s. s) \<rparr>"

definition twin_program :: "pystr \<Rightarrow> test_definition" where
  "twin_program name = \<lparr> td_test_id = name, td_kind = ''behavioral'', td_path = ''tests/behavioral/'' @ name @ ''.py'',
     td_digest = exec_digest twin_exec name \<rparr>"

definition twin_check :: "pystr \<Rightarrow> pystr \<Rightarrow> pystr \<Rightarrow> pystr \<Rightarrow> pystr \<Rightarrow> bool option \<Rightarrow> bool option \<Rightarrow> bool option \<Rightarrow> check_binding" where
  "twin_check name role phase path text old new pair = \<lparr> iv_test_id = ''check'', iv_artifact_ids = [''check''], iv_argv = [],
     cb_check_id = name, cb_role = role, cb_phase = phase, cb_clause_path = path,
     cb_clause_sha256 = exec_digest twin_exec text, cb_subject_probes = [], cb_old_expected = old,
     cb_new_expected = new, cb_pair_expected = pair \<rparr>"

definition twin_checks :: "check_binding list" where
  "twin_checks =
    [twin_check ''e'' ''target'' ''post'' ''target_effects/0'' ''effect'' (Some False) (Some True) None,
     twin_check ''i'' ''invariant'' ''post'' ''protected_invariants/0'' ''invariant'' (Some True) (Some True) None,
     twin_check ''s'' ''spillover'' ''post'' ''forbidden_spillover/0'' ''secret'' (Some False) (Some False) None,
     twin_check ''d'' ''differential'' ''pair'' ''verification/differential/0'' ''faster'' None None (Some True)]"

definition twin_limits :: runner_config where
  "twin_limits = \<lparr> rn_image_digest = text_digest (CHR ''b''), rn_platform = ''linux/amd64'',
     rn_profile = ''ccs-m5-docker/1.0.0'', rn_cpu_limit = 1, rn_memory_bytes = 1, rn_process_limit = 1,
     rn_timeout_seconds = 1, rn_stdout_limit = 10, rn_stderr_limit = 10, rn_tree_limit = 10, rn_tree_files = 10 \<rparr>"

definition twin_profile :: execution_profile where
  "twin_profile = \<lparr> ex_profile = ''ccs-m5-execution/1.0.0'',
     ex_replaces_ref = \<lparr> cr_capsule_id = ''acme.core'', cr_version = ''1.0.0'', cr_digest = text_digest (CHR ''a'') \<rparr>,
     ex_accepts_interfaces = [''api/v1''], ex_checks = twin_checks,
     ex_executor = \<lparr> iv_test_id = ''run'', iv_artifact_ids = [''run''], iv_argv = [] \<rparr>,
     ex_runner = twin_limits,
     ex_repetitions = 1 \<rparr>"

definition twin_contract :: core_contract where
  "twin_contract = (cc_replacement_contract sample_capsule)
     \<lparr> rc_replaces := Some ''acme.core@1.0.0'', rc_forbidden_spillover := [''secret''],
       rc_verification := \<lparr> vc_static = [], vc_behavioral = [], vc_differential = [''faster''] \<rparr>,
       rc_rollback := \<lparr> rp_pointer = ''acme.core@1.0.0'', rp_compensating_action = None \<rparr>,
       rc_extensions := [(''x-m5-execution'', profile_json twin_profile)] \<rparr>"

definition twin_old :: published_capsule where
  "twin_old = \<lparr> pc_capsule = sample_capsule, pc_registry_status = ''PUBLISHED'', pc_published_at = ''2024-06-01T00:00:00Z'' \<rparr>"

definition twin_new :: published_capsule where
  "twin_new = twin_old \<lparr> pc_capsule := sample_capsule
     \<lparr> cc_control_manifest := (sample_manifest ''acme.core'') \<lparr> cm_version := ''2.0.0'' \<rparr>,
       cc_replacement_contract := twin_contract,
       cc_tests_integrity := (cc_tests_integrity sample_capsule)
         \<lparr> ti_tests := [twin_program ''run'', twin_program ''check''],
           ti_artifact_checksums := map (\<lambda>t. \<lparr> ac_path = td_path t, ac_digest = td_digest t \<rparr>)
             [twin_program ''run'', twin_program ''check''] \<rparr> \<rparr> \<rparr>"

definition twin_task :: view_task where
  "twin_task = \<lparr> tk_task_id = ''t'', tk_tenant = ''acme'', tk_repository = ''repo'', tk_paths = [''lib''],
     tk_environment = ''ci'', tk_text = ''text'', tk_risk = ''low'', tk_required_interfaces = [], tk_required_atom_ids = [] \<rparr>"

definition twin_request :: replacement_request where
  "twin_request = \<lparr> rx_operation_id = ''op'', rx_principal = ''alice'', rx_old = twin_old, rx_new = twin_new,
     rx_task = twin_task,
     rx_source_repository = ''repo'', rx_source_commit = ''sha1:'' @ replicate 40 (CHR ''0''),
     rx_budget = \<lparr> vb_model_input_tokens = 9, vb_system_tokens = 0, vb_conversation_tokens = 0, vb_tools_tokens = 0,
       vb_safety_headroom_tokens = 0 \<rparr>,
     rx_model_id = ''m'', rx_tokenizer_profile = ''k'', rx_renderer_version = ''1'' \<rparr>"

definition twin_artifacts :: "artifact list" where
  "twin_artifacts = map (\<lambda>t. \<lparr> af_test_id = td_test_id t, af_file = td_path t, af_kind = td_kind t, af_lock = td_digest t,
     af_data = td_test_id t \<rparr>) [twin_program ''run'', twin_program ''check'']"

definition twin_registry :: registry_reader where
  "twin_registry i v caller = (if v = ''1.0.0'' then Some twin_old else Some twin_new)"

definition twin_bound :: bound_execution where
  "twin_bound = \<lparr> bd_request = twin_request, bd_profile = twin_profile, bd_artifacts = twin_artifacts \<rparr>"

lemma twin_digest: "is_digest (exec_digest twin_exec text)" "is_digest (text_digest (CHR ''a''))" "is_digest (text_digest (CHR ''b''))"
proof -
  show "is_digest (exec_digest twin_exec text)"
    unfolding exec_digest_def digest_bytes_def
    by (rule is_digest_hex) (simp add: twin_exec_def sample_env_def sample_hash_def min_def)
qed code_simp+

lemma twin_task_valid: "view_task_valid twin_task" "git_revision (''sha1:'' @ replicate 40 (CHR ''0''))"
  by code_simp+

lemma twin_profile_valid: "execution_profile_valid twin_profile"
  using twin_digest sample_semver
  by (simp add: execution_profile_valid_def twin_profile_def twin_limits_def twin_checks_def twin_check_def check_binding_valid_def
      invocation_valid_def runner_config_valid_def nonempty_strings_def capsule_ref_valid_def)

lemma twin_parse: "parse_execution_contract twin_exec twin_registry (\<lambda>_. Some twin_artifacts) twin_request = Inr twin_bound"
proof -
  have valid: "replacement_request_valid twin_request"
    using twin_task_valid
    by (simp add: replacement_request_valid_def twin_request_def view_budget_valid_def count_valid_def budget_available_def)
      (simp add: twin_task_def)
  have pubs: "verify_publications twin_registry (rx_principal twin_request) [rx_old twin_request, rx_new twin_request] = Some ()"
    by (simp add: twin_request_def twin_registry_def twin_old_def twin_new_def sample_capsule_def sample_manifest_def json_eq_def)
  have prof: "read_profile (map_of (rc_extensions (contract_of twin_request)) ''x-m5-execution'') = Some twin_profile"
    by (simp add: twin_request_def twin_new_def twin_contract_def read_profile_json twin_profile_valid)
  have compat: "compatibility twin_request twin_profile = Some ()"
    by (simp add: compatibility_def twin_request_def twin_task_def twin_new_def twin_old_def twin_contract_def twin_profile_def
        sample_capsule_def sample_manifest_def high_risk_def option_simps)
  have zero: "nat_text 0 = ''0''" by code_simp
  have cov: "check_coverage twin_exec twin_request twin_profile = Some ()"
    by (simp add: check_coverage_iff clauses_eq expectations_iff twin_request_def twin_new_def twin_contract_def twin_profile_def
        sample_capsule_def twin_checks_def twin_check_def collections_def clause_rows_def zero)
  have "sample_hash ''run'' \<noteq> sample_hash ''check''" by (simp add: sample_hash_def)
  then have digests: "exec_digest twin_exec ''run'' \<noteq> exec_digest twin_exec ''check''"
    by (simp add: exec_digest_def twin_exec_def digest_bytes_def to_hex_inject sample_env_def)
  have art: "verify_artifacts twin_exec twin_request twin_profile twin_artifacts = Some ()"
    using digests
    by (simp add: verify_artifacts_def twin_request_def twin_new_def twin_artifacts_def twin_program_def twin_profile_def
        sample_capsule_def twin_checks_def twin_check_def invocation_artifacts_def checker_kind_def startswith_def
        disjoint_programs_def dict_by_def option_simps twin_exec_def Let_def)
  show ?thesis
    using valid pubs prof compat cov art by (simp add: parse_execution_contract_iff twin_bound_def)
qed

section \<open>Identities\<close>

definition twin_id :: "json \<Rightarrow> pystr" where
  "twin_id v = exec_digest twin_exec (sample_dumps v)"

definition twin_initial :: tree_snapshot where
  "twin_initial = \<lparr> sn_entries = [\<lparr> te_path = ''.'', te_kind = ''directory'', te_mode = 0, te_digest = None, te_size = 0 \<rparr>] \<rparr>"

definition twin_after :: tree_snapshot where
  "twin_after = \<lparr> sn_entries = sn_entries twin_initial @
     [\<lparr> te_path = ''lib'', te_kind = ''file'', te_mode = 0, te_digest = Some (text_digest (CHR ''a'')), te_size = 1 \<rparr>] \<rparr>"

fun twin_final :: "run_role \<Rightarrow> tree_snapshot" where
  "twin_final RunOld = twin_initial"
| "twin_final RunNew = twin_after"

definition twin_context :: evaluation_context where
  "twin_context = \<lparr> ct_initial = twin_initial, ct_old_view_digest = text_digest (CHR ''a''),
     ct_new_view_digest = text_digest (CHR ''a''), ct_approval_digest = text_digest (CHR ''a''), ct_synthetic = True \<rparr>"

definition twin_run_id :: "pystr \<Rightarrow> pystr" where
  "twin_run_id role = twin_id (JObj
     [(''domain'', JStr ''ccs-m5-run/1''), (''execution'', JStr (twin_id (execution_subject_json twin_exec twin_bound))),
      (''context'', context_json twin_context), (''role'', JStr role), (''repetition'', JInt 0)])"

definition twin_stage :: "pystr \<Rightarrow> pystr \<Rightarrow> pystr list \<Rightarrow> pystr" where
  "twin_stage role stage inputs = twin_id (JObj
     [(''domain'', JStr ''ccs-m5-stage/1''), (''run'', JStr (twin_run_id role)), (''stage_id'', JStr stage),
      (''inputs'', json_strings inputs), (''probes'', JList [])])"

abbreviation twin_tree :: "tree_snapshot \<Rightarrow> pystr" where
  "twin_tree s \<equiv> twin_id (snapshot_json s)"

section \<open>Evidence\<close>

definition twin_process :: "pystr \<Rightarrow> pystr \<Rightarrow> int \<Rightarrow> bytes \<Rightarrow> process_capture" where
  "twin_process subject name start out = \<lparr> px_subject = subject, px_container_id = name, px_started_ns = start,
     px_finished_ns = start + 1, px_exit_code = Some 0, px_terminated = True, px_timed_out = False,
     px_output_limited = False, px_stdout = out, px_stderr = [] \<rparr>"

definition twin_capture :: "pystr \<Rightarrow> pystr \<Rightarrow> pystr list \<Rightarrow> int \<Rightarrow> bytes \<Rightarrow> check_capture" where
  "twin_capture role stage inputs start out = \<lparr> kc_check_id = stage,
     kc_process = twin_process (twin_stage role stage inputs) (role @ stage) start (stage @ out), kc_probes = [] \<rparr>"

definition twin_captures :: "run_role \<Rightarrow> check_capture list" where
  "twin_captures role = map (\<lambda>(check, out). twin_capture (run_role_text role) check
       [twin_tree twin_initial, twin_tree (twin_final role)] 4 out)
     [(''e'', if role = RunOld then ''F'' else ''T''), (''i'', ''T''), (''s'', ''F'')]"

definition twin_executor :: "run_role \<Rightarrow> process_capture" where
  "twin_executor role = twin_process (twin_stage (run_role_text role) ''executor'' [twin_tree twin_initial])
     (run_role_text role @ ''x'') 1 []"

definition twin_evidence :: "run_role \<Rightarrow> run_evidence" where
  "twin_evidence role = \<lparr> ev_role = role, ev_repetition = 0, ev_final = Some (twin_final role), ev_snapshot_ns = Some 3,
     ev_executor = Some (twin_executor role), ev_checks = twin_captures role \<rparr>"

definition twin_completed :: "run_role \<Rightarrow> completed_run" where
  "twin_completed role = \<lparr> co_role = role, co_repetition = 0, co_final = twin_final role, co_snapshot_ns = 3,
     co_executor = twin_executor role, co_checks = twin_captures role \<rparr>"

definition twin_loads :: "bytes \<Rightarrow> json option" where
  "twin_loads raw = (if raw = [] then None
     else Some (JObj [(''check_id'', JStr (butlast raw)), (''observation'', JBool (last raw = CHR ''T''))]))"

definition twin_base :: run_env where
  "twin_base = \<lparr> xe_host = sample_env, xe_casefold = (\<lambda>s. s), xn_base64 = (\<lambda>s. s), xn_json_loads = twin_loads,
     xn_parse_run = (\<lambda>_. None), xn_parse_pair = (\<lambda>_. None) \<rparr>"

definition twin_record :: "run_role \<Rightarrow> record_ref" where
  "twin_record role = \<lparr> rr_record_id = run_role_text role,
     rr_digest = twin_id (run_evidence_json twin_base (twin_evidence role)) \<rparr>"

definition twin_pair :: pair_evidence where
  "twin_pair = \<lparr> pe_repetition = 0, pe_old_record = twin_record RunOld, pe_new_record = twin_record RunNew,
     pe_checks = [twin_capture ''pair'' ''d'' [twin_tree twin_initial, twin_tree twin_initial, twin_tree twin_after,
       twin_id (record_ref_json (twin_record RunOld)), twin_id (record_ref_json (twin_record RunNew))] 6 ''T''] \<rparr>"

definition twin_env :: run_env where
  "twin_env = twin_base
     \<lparr> xn_parse_run := (\<lambda>raw. if raw = sample_dumps (run_evidence_json twin_base (twin_evidence RunOld))
         then Some (twin_evidence RunOld) else Some (twin_evidence RunNew)),
       xn_parse_pair := (\<lambda>_. Some twin_pair) \<rparr>"

definition twin_service :: behavior_service where
  "twin_service = \<lparr> bs_bound = twin_bound, bs_context = twin_context, bs_verify_key = ''key'', bs_journal_key = ''key'' \<rparr>"

definition twin_agent :: "run_role \<Rightarrow> record_ref option \<Rightarrow> agent_run" where
  "twin_agent role pair = \<lparr> ag_role = role, ag_repetition = 0, ag_record = twin_record role, ag_pair_record = pair \<rparr>"

section \<open>What the definitions evaluate to\<close>

lemma twin_id_digest [simp]: "is_digest (twin_id v)"
  by (simp add: twin_id_def twin_digest)

lemma twin_host [simp]: "xe_host twin_env = sample_env" "exec_env.truncate twin_env = twin_exec"
  by (simp_all add: twin_env_def twin_base_def twin_exec_def exec_env.truncate_def)

lemma twin_host_dumps: "se_dumps sample_env = sample_dumps" "xe_host twin_exec = sample_env"
  by (simp_all add: sample_env_def twin_exec_def)

lemma twin_json [simp]:
  "process_json twin_env = process_json twin_base" "check_capture_json twin_env = check_capture_json twin_base"
  "run_evidence_json twin_env = run_evidence_json twin_base" "pair_evidence_json twin_env = pair_evidence_json twin_base"
proof -
  show p: "process_json twin_env = process_json twin_base" by (simp add: fun_eq_iff process_json_def twin_env_def)
  show c: "check_capture_json twin_env = check_capture_json twin_base" by (simp add: fun_eq_iff check_capture_json_def p)
  show "run_evidence_json twin_env = run_evidence_json twin_base" by (simp add: fun_eq_iff run_evidence_json_def p c)
  show "pair_evidence_json twin_env = pair_evidence_json twin_base" by (simp add: fun_eq_iff pair_evidence_json_def c)
qed

lemma twin_wire: "wire_bytes twin_env v = (if json_value_ok v then Some (sample_dumps v) else None)"
  by (simp add: wire_bytes_def canonical_json_bytes_def twin_host_dumps)

lemma twin_identity: "json_identity_of twin_env v = (if json_value_ok v then Some (twin_id v) else None)"
  by (simp add: json_identity_of_def json_identity_def canonical_json_bytes_def twin_id_def twin_host_dumps)

lemma json_strings_ok [simp]: "json_value_ok (json_strings xs)"
  by (auto simp: json_strings_def)

lemma twin_module_ok:
  "(\<forall>(k, v) \<in> set (rc_extensions r). json_value_ok v) \<Longrightarrow> json_value_ok (replacement_contract_json r)"
  "ti_extensions t = [] \<Longrightarrow> il_extensions (ti_lock t) = [] \<Longrightarrow> json_value_ok (tests_integrity_json t)"
  "cm_extensions m = [] \<Longrightarrow> json_value_ok (JObj (manifest_json m))"
  by (auto simp: replacement_contract_json_def tests_integrity_json_def lock_json_def test_json_def checksum_json_def
      capsule_ref_json_def manifest_json_def)

lemma twin_profile_ok: "json_value_ok (profile_json twin_profile)"
  by (simp add: profile_json_def twin_limits_def twin_profile_def twin_checks_def twin_check_def check_json_def invocation_members_def
      runner_json_def capsule_ref_json_def json_opt_def flag_member_def)

lemma twin_projection_ok: "json_value_ok (publication_projection twin_old)" "json_value_ok (publication_projection twin_new)"
proof -
  show old: "json_value_ok (publication_projection twin_old)" by code_simp
  have shared: "json_value_ok (semantic_payload_json (cc_semantic_payload sample_capsule))"
      "json_value_ok (evidence_plane_json (cc_evidence_plane sample_capsule))"
      "json_value_ok (dependency_graph_json (cc_dependency_graph sample_capsule))"
      "json_value_ok (compression_policy_json (cc_compression_policy sample_capsule))" by code_simp+
  have ext: "rc_extensions twin_contract = [(''x-m5-execution'', profile_json twin_profile)]"
    by (simp add: twin_contract_def)
  have manifest: "json_value_ok (JObj (manifest_json (sample_manifest ''acme.core'' \<lparr> cm_version := v \<rparr>)))" for v
    by (rule twin_module_ok) (simp add: sample_manifest_def)
  show "json_value_ok (publication_projection twin_new)"
    using shared manifest [of "''2.0.0''"] twin_module_ok(1) [of twin_contract] twin_profile_ok
      twin_module_ok(2) [of "cc_tests_integrity (pc_capsule twin_new)"]
    by (auto simp: publication_projection_def core_projection_def twin_new_def capsule_wire_dict_def
        core_modules_json_def ext twin_old_def sample_capsule_def signature_json_def)
qed

lemma twin_execution: "execution_subject twin_exec twin_bound = Some (twin_id (execution_subject_json twin_exec twin_bound))"
proof -
  have "json_value_ok (execution_subject_json twin_exec twin_bound)"
    using twin_projection_ok twin_profile_ok
    by (simp add: execution_subject_json_def Let_def twin_bound_def twin_request_def view_task_json_def twin_task_def
        view_budget_json_def artifact_json_def)
  then show ?thesis
    by (simp add: execution_subject_def json_identity_def canonical_json_bytes_def twin_host_dumps twin_id_def)
qed

lemma twin_tree_ok [simp]: "json_value_ok (snapshot_json twin_initial)" "json_value_ok (snapshot_json twin_after)"
  "json_value_ok (snapshot_json (twin_final role))"
proof -
  show i: "json_value_ok (snapshot_json twin_initial)" and a: "json_value_ok (snapshot_json twin_after)"
    by (simp_all add: snapshot_json_def tree_entry_json_def twin_after_def twin_initial_def)
  show "json_value_ok (snapshot_json (twin_final role))" by (cases role) (simp_all add: i a)
qed

lemma twin_subject: "run_subject twin_env twin_bound twin_context role 0 = Some (twin_run_id role)"
  using twin_tree_ok
  by (simp add: run_subject_def twin_execution twin_identity twin_run_id_def context_json_def twin_context_def)

lemma twin_stage_subject: "stage_subject twin_env twin_bound twin_context role 0 stage inputs [] = Some (twin_stage role stage inputs)"
  by (simp add: stage_subject_def twin_subject twin_identity twin_stage_def)

lemma twin_scope: "evaluation_scope twin_env twin_bound \<noteq> None"
  by (simp add: evaluation_scope_def Let_def twin_identity)

lemma twin_snapshot: "snapshot_digest_value twin_env twin_initial = Some (twin_tree twin_initial)"
  "snapshot_digest_value twin_env (twin_final role) = Some (twin_tree (twin_final role))"
  by (simp_all add: snapshot_digest_value_def twin_identity)

lemma twin_evidence_ok: "json_value_ok (run_evidence_json twin_base (twin_evidence role))"
  by (simp add: run_evidence_json_def twin_evidence_def json_opt_def process_json_def check_capture_json_def
      twin_captures_def twin_capture_def twin_executor_def twin_process_def)

lemma twin_pair_ok: "json_value_ok (pair_evidence_json twin_base twin_pair)"
  by (simp add: pair_evidence_json_def twin_pair_def json_opt_def process_json_def check_capture_json_def
      twin_capture_def twin_process_def record_ref_json_def)

lemma twin_parse_run:
  assumes "wire_bytes twin_env (run_evidence_json twin_base (twin_evidence role)) = Some raw"
  shows "xn_parse_run twin_env raw = Some (twin_evidence role)"
proof -
  have "run_evidence_json twin_base (twin_evidence RunOld) \<noteq> run_evidence_json twin_base (twin_evidence RunNew)"
    by (simp add: run_evidence_json_def twin_evidence_def)
  moreover have "raw = sample_dumps (run_evidence_json twin_base (twin_evidence role))"
    using assms by (simp add: twin_wire twin_evidence_ok)
  ultimately show ?thesis by (cases role) (simp_all add: twin_env_def sample_dumps_inj)
qed

lemma twin_evidence_valid: "run_evidence_valid (twin_evidence role)"
  using twin_digest
  by (cases role) (simp_all add: run_evidence_valid_def twin_evidence_def twin_after_def twin_initial_def tree_entry_valid_def
      process_capture_valid_def check_capture_valid_def twin_executor_def twin_captures_def twin_capture_def twin_process_def
      twin_stage_def)

lemma twin_pair_valid: "pair_evidence_valid twin_pair"
  by (simp add: pair_evidence_valid_def twin_pair_def record_ref_valid_def twin_record_def check_capture_valid_def
      process_capture_valid_def twin_capture_def twin_process_def twin_stage_def)

lemma twin_completed_evidence: "completed (twin_evidence role) = Some (twin_completed role)"
  by (simp add: completed_def twin_evidence_def twin_completed_def)

lemma twin_containers: "distinct (containers (co_checks (twin_completed role)) @ [px_container_id (co_executor (twin_completed role))])"
  by (cases role) (simp_all add: containers_def twin_completed_def twin_captures_def twin_capture_def twin_process_def twin_executor_def)

lemma twin_service_simps [simp]: "bs_bound twin_service = twin_bound" "bs_context twin_service = twin_context"
  "bs_verify_key twin_service = bs_journal_key twin_service" "bd_profile twin_bound = twin_profile"
  "bd_request twin_bound = twin_request" "ex_runner twin_profile = twin_limits" "ex_checks twin_profile = twin_checks"
  "ex_repetitions twin_profile = 1"
  by (simp_all add: twin_service_def twin_bound_def twin_profile_def)

lemma twin_limit_simps [simp]: "rn_timeout_seconds twin_limits = 1" "rn_stdout_limit twin_limits = 10"
  "rn_stderr_limit twin_limits = 10"
  by (simp_all add: twin_limits_def)

lemma twin_snapshots_valid: "validate_snapshot (twin_final role) twin_limits = Some ()"
  "validate_snapshot twin_initial twin_limits = Some ()"
proof -
  show "validate_snapshot twin_initial twin_limits = Some ()" by code_simp
  then show "validate_snapshot (twin_final role) twin_limits = Some ()"
  proof (cases role)
    case RunNew
    have "validate_snapshot twin_after twin_limits = Some ()" by code_simp
    with RunNew show ?thesis by simp
  qed simp
qed

lemma twin_run_checks: "run_checks twin_service = take 3 twin_checks" "pair_checks twin_service = drop 3 twin_checks"
  by (simp_all add: run_checks_def pair_checks_def twin_checks_def twin_check_def)

lemma twin_observation: "observation twin_env (stage @ [v]) stage = Some (v = CHR ''T'')"
proof -
  have "xn_json_loads twin_env = twin_loads" by (simp add: twin_env_def twin_base_def)
  then show ?thesis by (simp add: observation_def twin_loads_def insert_commute)
qed

lemmas twin_answers =
  twin_observation [of "''e''" "CHR ''T''", simplified] twin_observation [of "''e''" "CHR ''F''", simplified]
  twin_observation [of "''i''" "CHR ''T''", simplified] twin_observation [of "''s''" "CHR ''F''", simplified]
  twin_observation [of "''d''" "CHR ''T''", simplified]

lemma twin_capture_ok:
  assumes "cb_check_id c = stage" and "cb_subject_probes c = []" and "length stage < 9" and "earliest \<le> start"
  shows "check_capture_ok twin_env twin_service c (twin_capture role stage inputs start [v]) role 0 inputs earliest = Some ()"
  using assms
  by (simp add: check_capture_ok_def twin_capture_def twin_process_def process_check_def twin_stage_subject option_simps)

lemma twin_post_trace:
  assumes "map_of (dict_by kc_check_id (twin_captures role)) stage =
      Some (twin_capture (run_role_text role) stage inputs 4 [v])"
    and "cb_check_id c = stage" and "cb_phase c = ''post''" and "cb_subject_probes c = []" and "length stage < 9"
    and "(v = CHR ''T'') = expected_of role c"
  shows "run_trace twin_env twin_service (twin_completed role) inputs c =
    \<lparr> ck_check_id = stage, ck_role = cb_role c, ck_observation = Some (expected_of role c),
      ck_expected = expected_of role c, ck_valid = True \<rparr>"
proof -
  have k: "kc_process (twin_capture (run_role_text role) stage inputs 4 [v]) =
      twin_process (twin_stage (run_role_text role) stage inputs) (run_role_text role @ stage) 4 (stage @ [v])"
    by (simp add: twin_capture_def)
  have seen: "observation twin_env (stage @ [v]) stage = Some (expected_of role c)"
    by (simp add: twin_observation assms(6))
  show ?thesis
    using assms(1-5) seen
    by (simp add: run_trace_def Let_def twin_completed_def twin_capture_ok k option_simps twin_process_def expected_of_def)
qed

lemma twin_run_trace:
  assumes "c \<in> set (take 3 twin_checks)"
  shows "run_trace twin_env twin_service (twin_completed role) [twin_tree twin_initial, twin_tree (twin_final role)] c =
    \<lparr> ck_check_id = cb_check_id c, ck_role = cb_role c, ck_observation = Some (expected_of role c),
      ck_expected = expected_of role c, ck_valid = True \<rparr>"
proof -
  have id: "kc_check_id (twin_capture r stage inputs start out) = stage" for r stage inputs start out
    by (simp add: twin_capture_def)
  from assms consider "c = twin_checks ! 0" | "c = twin_checks ! 1" | "c = twin_checks ! 2"
    by (auto simp: twin_checks_def)
  then show ?thesis
  proof cases
    case 1 then show ?thesis
      by (intro trans [OF twin_post_trace [of role _ _ "if role = RunOld then CHR ''F'' else CHR ''T''"]])
        (simp_all add: twin_checks_def twin_check_def twin_captures_def dict_by_def id expected_of_def)
  next
    case 2 then show ?thesis
      by (intro trans [OF twin_post_trace [of role _ _ "CHR ''T''"]])
        (simp_all add: twin_checks_def twin_check_def twin_captures_def dict_by_def id expected_of_def)
  next
    case 3 then show ?thesis
      by (intro trans [OF twin_post_trace [of role _ _ "CHR ''F''"]])
        (simp_all add: twin_checks_def twin_check_def twin_captures_def dict_by_def id expected_of_def)
  qed
qed

definition twin_traces :: "run_role \<Rightarrow> check_trace list" where
  "twin_traces role = map (\<lambda>c. \<lparr> ck_check_id = cb_check_id c, ck_role = cb_role c,
     ck_observation = Some (expected_of role c), ck_expected = expected_of role c, ck_valid = True \<rparr>) (take 3 twin_checks)"

lemma twin_no_blockers: "trace_blockers (twin_traces role) = []"
  by (auto simp: no_trace_blockers twin_traces_def)

lemma twin_executor_ok:
  "process_check twin_limits (twin_executor role) (twin_stage (run_role_text role) ''executor'' [twin_tree twin_initial]) False = Some ()"
  by (simp add: process_check_def twin_executor_def twin_process_def)

lemma twin_run_traces: "run_traces twin_env twin_service (twin_completed role) = Some (twin_traces role)"
proof -
  have co: "co_role (twin_completed role) = role" "co_repetition (twin_completed role) = 0"
    "co_final (twin_completed role) = twin_final role" "co_executor (twin_completed role) = twin_executor role"
    "px_finished_ns (twin_executor role) \<le> co_snapshot_ns (twin_completed role)"
    "ct_initial twin_context = twin_initial"
    by (simp_all add: twin_completed_def twin_executor_def twin_process_def twin_context_def)
  have "membership (co_checks (twin_completed role)) (map cb_check_id (take 3 twin_checks)) = Some ()"
    by (simp add: membership_def twin_completed_def twin_captures_def twin_capture_def twin_checks_def twin_check_def)
  then show ?thesis
    using twin_run_trace
    by (simp add: run_traces_def co twin_snapshot twin_stage_subject twin_executor_ok twin_run_checks twin_traces_def option_simps)
qed

lemma twin_read_run:
  assumes "record_run twin_env twin_service uid rows (twin_evidence role) = Some (run, rows1)" and "prefix rows1 rows2"
  shows "read_run twin_env twin_service rows2 run = Some (twin_completed role)"
proof (rule recorded_run_read [OF assms])
  show "validate_snapshot (co_final (twin_completed role)) (service_runner twin_service) = Some ()"
    using twin_snapshots_valid by (simp add: twin_completed_def)
qed (use twin_parse_run twin_snapshots_valid twin_evidence_valid twin_completed_evidence twin_containers in
    \<open>simp_all add: twin_evidence_def twin_context_def\<close>)

section \<open>Records and reports\<close>

definition twin_pair_ref :: record_ref where
  "twin_pair_ref = \<lparr> rr_record_id = ''pair'', rr_digest = twin_id (pair_evidence_json twin_base twin_pair) \<rparr>"

abbreviation twin_run :: "run_role \<Rightarrow> agent_run" where
  "twin_run role \<equiv> twin_agent role (Some twin_pair_ref)"

lemma twin_service_subject [simp]: "service_subject twin_env twin_service role 0 = Some (twin_run_id role)"
  by (simp add: service_subject_def twin_subject)

lemma twin_append:
  assumes "unused_record rows uid" and "subject \<noteq> []" and "kind \<noteq> []" and "json_value_ok v"
  shows "\<exists>row. service_append twin_env twin_service uid rows kind (Some subject) (wire_bytes twin_env v) =
    Some (\<lparr> rr_record_id = uid, rr_digest = twin_id v \<rparr>, rows @ [row]) \<and> jr_record_id row = uid"
proof -
  have "digest_bytes sample_env m = exec_digest twin_exec m" for m by (simp add: exec_digest_def twin_host_dumps)
  then show ?thesis
    using twin_scope service_append_fresh [of twin_env twin_service _ subject kind rows uid "sample_dumps v"] assms
    by (auto simp: twin_wire twin_id_def)
qed

lemma twin_run_id_nonempty [simp]: "twin_run_id role \<noteq> []" "twin_id v \<noteq> []"
  by (simp_all add: twin_run_id_def twin_id_def exec_digest_def digest_bytes_def)

lemma twin_recorded:
  assumes "unused_record rows (run_role_text role)"
  shows "\<exists>row. record_run twin_env twin_service (run_role_text role) rows (twin_evidence role) =
    Some (twin_agent role None, rows @ [row]) \<and> jr_record_id row = run_role_text role"
  using twin_append [OF assms _ _ twin_evidence_ok, of "twin_run_id (run_role_text role)" "''run''" role]
  by (auto simp: record_run_def twin_agent_def twin_record_def twin_evidence_def)

lemma twin_pair_recorded:
  assumes "unused_record rows ''pair''"
  shows "\<exists>row. record_pair twin_env twin_service ''pair'' rows (twin_agent RunOld None) (twin_agent RunNew None) twin_pair =
    Some ((twin_run RunOld, twin_run RunNew), rows @ [row]) \<and> jr_record_id row = ''pair''"
  using twin_append [OF assms _ _ twin_pair_ok, of "twin_run_id ''pair''" "''pair''"]
  by (auto simp: record_pair_def twin_agent_def twin_pair_def twin_pair_ref_def)

definition twin_rows_ok :: "journal_row list \<Rightarrow> bool" where
  "twin_rows_ok rows \<longleftrightarrow> (\<forall>role. read_run twin_env twin_service rows (twin_run role) = Some (twin_completed role)) \<and>
     read_pair twin_env twin_service rows (twin_run RunOld) (twin_run RunNew) = Some twin_pair"

lemma twin_rows: "\<exists>rows. (\<forall>later. prefix rows later \<longrightarrow> twin_rows_ok later) \<and> jr_record_id ` set rows = {''old'', ''new'', ''pair''}"
proof -
  obtain a where a: "record_run twin_env twin_service ''old'' [] (twin_evidence RunOld) = Some (twin_agent RunOld None, [a])"
    "jr_record_id a = ''old''"
    using twin_recorded [of "[]" RunOld] by (auto simp: unused_record_def)
  obtain b where b: "record_run twin_env twin_service ''new'' [a] (twin_evidence RunNew) = Some (twin_agent RunNew None, [a, b])"
    "jr_record_id b = ''new''"
    using twin_recorded [of "[a]" RunNew] a(2) by (auto simp: unused_record_def)
  obtain c where c: "record_pair twin_env twin_service ''pair'' [a, b] (twin_agent RunOld None) (twin_agent RunNew None) twin_pair =
      Some ((twin_run RunOld, twin_run RunNew), [a, b, c])" "jr_record_id c = ''pair''"
    using twin_pair_recorded [of "[a, b]"] a(2) b(2) by (auto simp: unused_record_def)
  have "twin_rows_ok later" if later: "prefix [a, b, c] later" for later
  proof -
    have run: "twin_run role = (twin_agent role None) \<lparr> ag_pair_record := Some twin_pair_ref \<rparr>" for role
      by (simp add: twin_agent_def)
    have "prefix [a] later" "prefix [a, b] later" using later by (auto elim!: prefixE)
    from twin_read_run [OF a(1) this(1)] twin_read_run [OF b(1) this(2)]
    have "read_run twin_env twin_service later (twin_run role) = Some (twin_completed role)" for role
      unfolding run by (cases role) simp_all
    moreover have "read_pair twin_env twin_service later (twin_run RunOld) (twin_run RunNew) = Some twin_pair"
      by (rule recorded_pair_read [OF c(1) later])
        (simp_all add: twin_pair_valid, simp_all add: twin_env_def twin_pair_def twin_agent_def)
    ultimately show ?thesis by (simp add: twin_rows_ok_def)
  qed
  then show ?thesis using a(2) b(2) c(2) by (intro exI [of _ "[a, b, c]"]) auto
qed

lemma twin_contract_of [simp]: "contract_of twin_request = twin_contract"
  by (simp add: twin_request_def twin_new_def)

lemma twin_check_contract: "check_contract twin_service twin_contract = Some ()"
  by (simp add: check_contract_def json_eq_def twin_checks_def twin_check_def)

lemma twin_contract_traces:
  "twin_rows_ok rows \<Longrightarrow> contract_traces twin_env twin_service rows (twin_run role) twin_contract = Some (twin_traces role)"
  by (simp add: contract_traces_def twin_check_contract twin_rows_ok_def twin_run_traces)

lemma twin_agent_ok [simp]: "json_value_ok (agent_run_json (twin_run role))"
  by (simp add: agent_run_json_def twin_agent_def json_opt_def record_ref_json_def)

lemma twin_report_subject:
  "contract_subject twin_env twin_service kind (map agent_run_json (map twin_run roles)) = Some (twin_id (JObj
     [(''binding'', JStr (twin_run_id ''pair'')), (''kind'', JStr kind),
      (''members'', JList (map agent_run_json (map twin_run roles)))]))"
  by (simp add: contract_subject_def twin_identity)

lemma twin_count_ok: "json_value_ok (count_json (count_role (twin_traces role) kind))"
proof -
  let ?relevant = "filter (\<lambda>t. ck_role t = kind) (twin_traces role)"
  let ?hits = "filter (\<lambda>t. ck_valid t \<and> ck_observation t = Some True) ?relevant"
  have "length (twin_traces role) = 3" by (simp add: twin_traces_def twin_checks_def)
  then have d: "length ?relevant \<le> 3" by (metis length_filter_le)
  then have n: "length ?hits \<le> 3" using length_filter_le order_trans by blast
  have small: "\<bar>int k\<bar> \<le> 2 ^ 53 - 1" if "k \<le> 3" for k using that by simp
  from small [OF n] small [OF d]
  have "\<bar>int (length ?hits)\<bar> \<le> 2 ^ 53 - 1" "\<bar>int (length ?relevant)\<bar> \<le> 2 ^ 53 - 1" by blast+
  then show ?thesis unfolding count_role_def Let_def count_json_def run_count.simps json_value_ok.simps
    by (simp only: list.set ball_simps fst_conv snd_conv json_value_ok.simps)
qed

lemma twin_trace_ok: "json_value_ok (trace_json t)"
  by (cases "ck_observation t") (simp_all add: trace_json_def json_opt_def)

lemma twin_members_ok: "json_value_ok (JObj (contract_members (passed_report (twin_run role) (twin_traces role))))"
  by (auto simp: contract_members_def passed_report_def twin_count_ok twin_trace_ok)

lemma twin_report:
  assumes "\<And>later. prefix rows later \<Longrightarrow> twin_rows_ok later" and "unused_record rows uid"
  shows "\<exists>ref row. evaluate_contract twin_env twin_service uid rows (twin_run role) twin_contract =
      (passed_report (twin_run role) (twin_traces role) \<lparr> nr_record := Some ref \<rparr>, rows @ [row]) \<and> jr_record_id row = uid \<and>
    (\<forall>later. prefix (rows @ [row]) later \<longrightarrow> verify_contract_report twin_env twin_service later
       (passed_report (twin_run role) (twin_traces role) \<lparr> nr_record := Some ref \<rparr>) = Some ())"
proof -
  obtain scope where scope: "evaluation_scope twin_env (bs_bound twin_service) = Some scope" using twin_scope by auto
  have "prefix (rows @ [row]) later \<Longrightarrow> read_run twin_env twin_service later (twin_run role) \<noteq> None" for row later
    using assms(1) [of later] by (auto simp: twin_rows_ok_def elim!: prefixE)
  with contract_report_stored [OF twin_contract_traces [OF assms(1)] twin_no_blockers scope assms(2)
      twin_report_subject [of "''contract''" "[role]", simplified] _ twin_service_simps(3)]
  show ?thesis by (auto simp: twin_wire twin_members_ok simp del: json_value_ok.simps)
qed

section \<open>The comparison\<close>

lemma twin_pair_runs: "twin_rows_ok rows \<Longrightarrow>
  pair_runs twin_env twin_service rows (twin_run RunOld) (twin_run RunNew) = Some (twin_completed RunOld, twin_completed RunNew)"
proof -
  have "pair_container_identities (twin_completed RunOld) (twin_completed RunNew) [] = Some ()"
    by (simp add: pair_container_identities_def containers_def twin_completed_def twin_captures_def twin_capture_def
        twin_process_def twin_executor_def)
  then show "twin_rows_ok rows \<Longrightarrow> ?thesis"
    by (simp add: pair_runs_iff twin_rows_ok_def) (simp add: twin_agent_def)
qed

definition twin_pair_traces :: "check_trace list" where
  "twin_pair_traces = [\<lparr> ck_check_id = ''d'', ck_role = ''differential'', ck_observation = Some True, ck_expected = True,
     ck_valid = True \<rparr>]"

lemma twin_pair_traced: "twin_rows_ok rows \<Longrightarrow>
  pair_traces twin_env twin_service rows (twin_run RunOld) (twin_run RunNew) (twin_completed RunOld) (twin_completed RunNew) =
    Some twin_pair_traces"
proof -
  assume rows: "twin_rows_ok rows"
  have ids: "pair_container_identities (twin_completed RunOld) (twin_completed RunNew) (pe_checks twin_pair) = Some ()"
    by (simp add: pair_container_identities_def containers_def twin_completed_def twin_captures_def twin_capture_def
        twin_process_def twin_executor_def twin_pair_def)
  have members: "membership (pe_checks twin_pair) [''d''] = Some ()"
    by (simp add: membership_def twin_pair_def twin_capture_def)
  have ends: "map (\<lambda>c. px_finished_ns (kc_process c)) (co_checks (twin_completed RunOld) @ co_checks (twin_completed RunNew)) =
      [5, 5, 5, 5, 5, 5]"
    by (simp add: twin_completed_def twin_captures_def twin_capture_def twin_process_def)
  have inputs: "those [snapshot_digest_value twin_env (ct_initial (bs_context twin_service)),
       snapshot_digest_value twin_env (co_final (twin_completed RunOld)),
       snapshot_digest_value twin_env (co_final (twin_completed RunNew)),
       json_identity_of twin_env (record_ref_json (ag_record (twin_run RunOld))),
       json_identity_of twin_env (record_ref_json (ag_record (twin_run RunNew)))] =
     Some [twin_tree twin_initial, twin_tree twin_initial, twin_tree twin_after, twin_id (record_ref_json (twin_record RunOld)),
       twin_id (record_ref_json (twin_record RunNew))]" (is "_ = Some ?inputs")
    using twin_snapshot(1) twin_snapshot(2) [of RunNew]
    by (simp add: twin_context_def twin_completed_def twin_agent_def twin_identity record_ref_json_def)
  have checks: "pair_checks twin_service = [twin_checks ! 3]" by (simp add: twin_run_checks twin_checks_def)
  let ?capture = "twin_capture ''pair'' ''d'' ?inputs 6 ''T''"
  have pe: "pe_checks twin_pair = [?capture]" by (simp add: twin_pair_def)
  have c: "cb_check_id (twin_checks ! 3) = ''d''" "cb_subject_probes (twin_checks ! 3) = []" "cb_role (twin_checks ! 3) = ''differential''"
    by (simp_all add: twin_checks_def twin_check_def)
  have "pair_trace twin_env twin_service 0 ?inputs 5 (twin_checks ! 3, ?capture) = Some (hd twin_pair_traces)"
    using twin_capture_ok [OF c(1,2), of 5 6 "''pair''" ?inputs "CHR ''T''"] twin_answers
    by (simp add: pair_trace_def c option_simps twin_pair_traces_def)
      (simp add: twin_capture_def twin_process_def ex_bool_eq)
  then show ?thesis
    using rows unfolding pair_traces_def Let_def ends inputs checks
    by (simp add: twin_rows_ok_def option_simps ids [unfolded pe] members [unfolded pe] pe c twin_pair_traces_def)
      (simp add: twin_agent_def)
qed

lemma twin_deltas: "tree_delta twin_initial twin_initial = []" "tree_delta twin_initial twin_after = [''lib'']"
  "scope_violations [] allowed forbidden = Some False" "scope_violations [''lib''] [''lib''] [''secret''] = Some False"
proof -
  show "tree_delta twin_initial twin_initial = []" "tree_delta twin_initial twin_after = [''lib'']"
    "scope_violations [''lib''] [''lib''] [''secret''] = Some False" by code_simp+
  show "scope_violations [] allowed forbidden = Some False" by (simp add: scope_violations_def)
qed

lemma twin_compare_evidence:
  assumes "twin_rows_ok rows"
  shows "\<exists>deltas. compare_evidence twin_env twin_service rows (twin_run RunOld) (twin_run RunNew) twin_contract =
    (deltas, twin_pair_traces, [])"
proof -
  have "cross_preconditions twin_service (twin_completed RunOld) (twin_completed RunNew) = Some ()"
    by (simp add: cross_preconditions_def twin_checks_def twin_check_def twin_completed_def twin_executor_def twin_process_def)
  moreover have "trace_blockers twin_pair_traces = []" by (simp add: no_trace_blockers twin_pair_traces_def)
  moreover have "rc_allowed_scope twin_contract = [''lib'']" "rc_forbidden_spillover twin_contract = [''secret'']"
    by (simp_all add: twin_contract_def sample_capsule_def)
  moreover have "ct_initial twin_context = twin_initial" "co_final (twin_completed role) = twin_final role" for role
    by (simp_all add: twin_context_def twin_completed_def)
  ultimately show ?thesis
    by (simp add: compare_evidence_def twin_check_contract twin_pair_runs [OF assms] twin_pair_traced [OF assms] Let_def
        twin_deltas)
qed

lemma twin_differential_ok:
  assumes "df_old r = twin_run RunOld" "df_new r = twin_run RunNew"
    and "df_old_report r = passed_report (twin_run RunOld) (twin_traces RunOld) \<lparr> nr_record := Some ref1 \<rparr>"
    and "df_new_report r = passed_report (twin_run RunNew) (twin_traces RunNew) \<lparr> nr_record := Some ref2 \<rparr>"
  shows "json_value_ok (JObj (differential_members r))"
proof -
  have "contract_members (p \<lparr> nr_record := x \<rparr>) = contract_members p" for p x by (simp add: contract_members_def)
  then have "json_value_ok (contract_json (passed_report (twin_run role) (twin_traces role) \<lparr> nr_record := Some ref \<rparr>))" for role ref
    using twin_members_ok [of role] by (simp add: contract_json_def json_opt_def record_ref_json_def ball_Un)
  then show ?thesis
    by (simp add: differential_members_def assms twin_trace_ok)
qed

definition twin_uid :: "nat \<Rightarrow> pystr" where
  "twin_uid k = replicate (Suc k) (CHR ''c'')"

lemma twin_compared:
  assumes "\<And>later. prefix rows later \<Longrightarrow> twin_rows_ok later" and "jr_record_id ` set rows = {''old'', ''new'', ''pair''}"
  shows "\<exists>report more. compare_runs twin_env twin_service twin_uid rows (twin_run RunOld) (twin_run RunNew) twin_contract =
      (report, rows @ more) \<and> df_valid report \<and> df_old report = twin_run RunOld \<and> df_new report = twin_run RunNew \<and>
    json_value_ok (differential_json report) \<and> outcome twin_env report \<noteq> None \<and>
    jr_record_id ` set (rows @ more) = {''old'', ''new'', ''pair'', ''c'', ''cc'', ''ccc''} \<and>
    verify_differential_report twin_env twin_service (rows @ more) report = Some ()"
proof -
  have uid: "twin_uid 0 = ''c''" "twin_uid 1 = ''cc''" "twin_uid 2 = ''ccc''" by (simp_all add: twin_uid_def eval_nat_numeral)
  let ?report = "\<lambda>role ref. passed_report (twin_run role) (twin_traces role) \<lparr> nr_record := Some ref \<rparr>"
  have fresh: "unused_record rows ''c''" "\<And>row. jr_record_id row = ''c'' \<Longrightarrow> unused_record (rows @ [row]) ''cc''"
      "\<And>row row'. jr_record_id row = ''c'' \<Longrightarrow> jr_record_id row' = ''cc'' \<Longrightarrow> unused_record (rows @ [row, row']) ''ccc''"
    using assms(2) by (simp_all add: unused_record_def)
  obtain ref1 row1 where one: "evaluate_contract twin_env twin_service (twin_uid 0) rows (twin_run RunOld) twin_contract =
      (?report RunOld ref1, rows @ [row1])" "jr_record_id row1 = ''c''"
      "\<And>later. prefix (rows @ [row1]) later \<Longrightarrow> verify_contract_report twin_env twin_service later (?report RunOld ref1) = Some ()"
    using twin_report [OF assms(1) fresh(1), where role = RunOld] unfolding uid by blast
  have "twin_rows_ok later" if "prefix (rows @ [row1]) later" for later
    using assms(1) that by (auto elim!: prefixE)
  from twin_report [OF this fresh(2) [OF one(2)], where role = RunNew]
  obtain ref2 row2 where two: "evaluate_contract twin_env twin_service (twin_uid 1) (rows @ [row1]) (twin_run RunNew) twin_contract =
      (?report RunNew ref2, rows @ [row1, row2])" "jr_record_id row2 = ''cc''"
      "\<And>later. prefix (rows @ [row1, row2]) later \<Longrightarrow> verify_contract_report twin_env twin_service later (?report RunNew ref2) = Some ()"
    unfolding uid by auto
  have ok: "twin_rows_ok later" if "prefix (rows @ [row1, row2]) later" for later
    using assms(1) that by (auto elim!: prefixE)
  obtain deltas where d: "compare_evidence twin_env twin_service (rows @ [row1, row2]) (twin_run RunOld) (twin_run RunNew) twin_contract =
      (deltas, twin_pair_traces, [])"
    using twin_compare_evidence [OF ok] by blast
  obtain scope where scope: "evaluation_scope twin_env (bs_bound twin_service) = Some scope" using twin_scope by auto
  have "\<exists>r row. compare_runs twin_env twin_service twin_uid rows (twin_run RunOld) (twin_run RunNew) twin_contract =
      (r, (rows @ [row1, row2]) @ [row]) \<and> df_valid r \<and> df_old r = twin_run RunOld \<and> df_new r = twin_run RunNew \<and>
    df_blockers r = [] \<and> df_old_report r = ?report RunOld ref1 \<and> df_new_report r = ?report RunNew ref2 \<and>
    df_traces r = twin_pair_traces \<and> jr_record_id row = twin_uid 2 \<and>
    (\<forall>rows'. prefix ((rows @ [row1, row2]) @ [row]) rows' \<longrightarrow> verify_differential_report twin_env twin_service rows' r = Some ())"
  proof (rule differential_report_stored [OF d one(1) _ two(1) _ scope _
        twin_report_subject [of "''differential''" "[RunOld, RunNew]", simplified]])
    show "unused_record (rows @ [row1, row2]) (twin_uid 2)"
      using fresh(3) [OF one(2) two(2)] by (simp add: uid)
    show "wire_bytes twin_env (JObj (differential_members r)) \<noteq> None"
      if "df_old r = twin_run RunOld" "df_new r = twin_run RunNew" "df_old_report r = ?report RunOld ref1"
        "df_new_report r = ?report RunNew ref2" for r
      using twin_differential_ok [OF that] by (simp add: twin_wire del: json_value_ok.simps)
    show "verify_contract_report twin_env twin_service rows' (?report RunOld ref1) = Some () \<and>
        verify_contract_report twin_env twin_service rows' (?report RunNew ref2) = Some ()"
      if "prefix (rows @ [row1, row2]) rows'" for rows'
      using one(3) two(3) that by (auto elim!: prefixE)
    show "\<exists>oe ne ts'. pair_runs twin_env twin_service rows' (twin_run RunOld) (twin_run RunNew) = Some (oe, ne) \<and>
        pair_traces twin_env twin_service rows' (twin_run RunOld) (twin_run RunNew) oe ne = Some ts'"
      if "prefix (rows @ [row1, row2]) rows'" for rows'
      using twin_pair_runs [OF ok [OF that]] twin_pair_traced [OF ok [OF that]] by blast
  qed (simp_all add: passed_report_def)
  then obtain r row where r: "compare_runs twin_env twin_service twin_uid rows (twin_run RunOld) (twin_run RunNew) twin_contract =
      (r, rows @ [row1, row2, row])" "df_valid r" "df_old r = twin_run RunOld" "df_new r = twin_run RunNew"
      "df_old_report r = ?report RunOld ref1" "df_new_report r = ?report RunNew ref2" "jr_record_id row = ''ccc''"
      "verify_differential_report twin_env twin_service (rows @ [row1, row2, row]) r = Some ()"
    unfolding uid by auto
  have "json_value_ok (differential_json r)"
    using twin_differential_ok [OF r(3-6)] by (cases "df_record r") (simp_all add: differential_json_def json_opt_def record_ref_json_def ball_Un)
  moreover have "outcome twin_env r \<noteq> None"
    by (simp add: outcome_def twin_identity twin_trace_ok)
  moreover have "jr_record_id ` set (rows @ [row1, row2, row]) = {''old'', ''new'', ''pair'', ''c'', ''cc'', ''ccc''}"
    unfolding set_append image_Un assms(2) using one(2) two(2) r(7) by auto
  ultimately show ?thesis using r by blast
qed

lemma twin_repetition:
  assumes "json_value_ok (differential_json p)" and "outcome twin_env p \<noteq> None" and "df_valid p"
    and "df_old p = twin_run RunOld" and "df_new p = twin_run RunNew"
    and "verify_differential_report twin_env twin_service rows p = Some ()" and "unused_record rows uid"
  shows "\<exists>report rows'. evaluate_repetitions twin_env twin_service uid rows [p] = (report, rows') \<and> pt_valid report"
proof -
  have "ag_repetition (twin_run RunOld) = 0" by (simp add: twin_agent_def)
  then have clean: "repetition_blockers twin_env twin_service rows [p] = []"
    using assms(2,3,4,6) by (auto simp: repetition_blockers_def option_simps assured_def)
  let ?r = "\<lparr> pt_valid = True, pt_blockers = [], pt_pairs = [p], pt_record = None \<rparr>"
  have subject: "differential_subject twin_env twin_service p \<noteq> None"
    using twin_report_subject [of "''differential''" "[RunOld, RunNew]", simplified] by (simp add: differential_subject_def assms(4,5))
  then have "repetition_subject twin_env twin_service ?r \<noteq> None"
    by (auto simp: repetition_subject_def contract_subject_def twin_identity)
  then obtain sub where sub: "repetition_subject twin_env twin_service ?r = Some sub" by blast
  then have "sub \<noteq> []" by (auto simp: repetition_subject_def option_simps dest: contract_subject_nonempty)
  moreover have "json_value_ok (JObj (repetition_members ?r))" by (simp add: repetition_members_def assms(1))
  ultimately show ?thesis
    using twin_append [OF assms(7), of sub "''repetitions''" "JObj (repetition_members ?r)"]
    by (auto simp: evaluate_repetitions_def clean persist_repetitions_def sub)
qed

end
