(* ===== verification/Evaluation_Properties.thy ===== *)
theory Evaluation_Properties
  imports Evaluation_Sample
begin

text \<open>
  The properties of execution contracts and of twin evaluation.
\<close>

text \<open>C17. A contract that parses for execution leaves no clause unchecked and no check without a
  clause: it is bound to its own request, every clause of every collection has exactly one check,
  with the clause's role, phase and digest, there are as many checks as clauses, one target check
  must fail on the old and pass on the new capsule, the programs are exactly the declared tests with
  bytes of the locked digest, and no program of the subject has an identifier, a file name (up to
  letter case) or the bytes of a program that checks.\<close>

theorem execution_contract_covers:
  assumes "parse_execution_contract X G resolver r = Inr b"
  shows "bd_request b = r \<and>
    (\<forall>(name, role, phase, texts) \<in> set (collections (contract_of r)). \<forall>i < length texts.
       \<exists>!c. c \<in> set (ex_checks (bd_profile b)) \<and> cb_clause_path c = name @ ''/'' @ nat_text i \<and>
         cb_role c = role \<and> cb_phase c = phase \<and> cb_clause_sha256 c = exec_digest X (texts ! i)) \<and>
    length (ex_checks (bd_profile b)) = length (concat (map (\<lambda>(name, role, phase, texts). texts) (collections (contract_of r)))) \<and>
    (\<exists>c \<in> set (ex_checks (bd_profile b)). cb_role c = ''target'' \<and> cb_old_expected c = Some False \<and>
       cb_new_expected c = Some True) \<and>
    af_test_id ` set (bd_artifacts b) = td_test_id ` set (ti_tests (cc_tests_integrity (pc_capsule (rx_new r)))) \<and>
    (\<forall>t \<in> set (ti_tests (cc_tests_integrity (pc_capsule (rx_new r)))). \<exists>a \<in> set (bd_artifacts b).
       af_test_id a = td_test_id t \<and> exec_digest X (af_data a) = td_digest t) \<and>
    (\<forall>s \<in> set (bd_artifacts b). \<forall>k \<in> set (bd_artifacts b).
       af_test_id s \<in> subject_programs (bd_profile b) \<and> af_test_id k \<in> checker_programs (bd_profile b) \<longrightarrow>
       af_test_id s \<noteq> af_test_id k \<and> xe_casefold X (af_file s) \<noteq> xe_casefold X (af_file k) \<and> af_data s \<noteq> af_data k)"
proof -
  from assms have b: "bd_request b = r" and cov: "check_coverage X r (bd_profile b) = Some ()"
    and art: "verify_artifacts X r (bd_profile b) (bd_artifacts b) = Some ()"
    by (auto simp: parse_execution_contract_iff)
  note art_laws = verify_artifacts_laws [OF art]
  have lock: "exec_digest X (af_data a) = af_lock a" if "a \<in> set (bd_artifacts b)" for a
  proof -
    from art_laws(2) that obtain t where t: "t \<in> set (ti_tests (cc_tests_integrity (pc_capsule (rx_new r))))"
      "af_test_id a = td_test_id t" by (metis (no_types, lifting) image_iff)
    from art_laws(3) [OF t(1)] obtain a' where a': "a' \<in> set (bd_artifacts b)" "af_test_id a' = td_test_id t"
      "af_lock a' = td_digest t" "exec_digest X (af_data a') = td_digest t" by blast
    have "a' = a" using art_laws(1) that a' t(2) by (auto simp: distinct_map inj_on_def)
    with a' show ?thesis by simp
  qed
  have apart: "af_test_id s \<noteq> af_test_id k \<and> xe_casefold X (af_file s) \<noteq> xe_casefold X (af_file k) \<and> af_data s \<noteq> af_data k"
    if "s \<in> set (bd_artifacts b)" "k \<in> set (bd_artifacts b)"
      "af_test_id s \<in> subject_programs (bd_profile b)" "af_test_id k \<in> checker_programs (bd_profile b)" for s k
    using programs_apart [OF art that] lock [OF that(1)] lock [OF that(2)] by auto
  have clause: "\<exists>!c. c \<in> set (ex_checks (bd_profile b)) \<and> cb_clause_path c = name @ ''/'' @ nat_text i \<and>
         cb_role c = role \<and> cb_phase c = phase \<and> cb_clause_sha256 c = exec_digest X (texts ! i)"
    if "(name, role, phase, texts) \<in> set (collections (contract_of r))" "i < length texts" for name role phase texts i
    using covered_clause(1) [OF cov that] covered_clause(2) [OF cov that] by simp metis
  show ?thesis
  proof (intro conjI ballI impI)
    show "bd_request b = r" by (fact b)
    show "case col of (name, role, phase, texts) \<Rightarrow> \<forall>i < length texts.
       \<exists>!c. c \<in> set (ex_checks (bd_profile b)) \<and> cb_clause_path c = name @ ''/'' @ nat_text i \<and>
         cb_role c = role \<and> cb_phase c = phase \<and> cb_clause_sha256 c = exec_digest X (texts ! i)"
      if "col \<in> set (collections (contract_of r))" for col
    proof -
      obtain name role phase texts where "col = (name, role, phase, texts)" by (cases col) auto
      with that clause show ?thesis by simp
    qed
    show "length (ex_checks (bd_profile b)) =
      length (concat (map (\<lambda>(name, role, phase, texts). texts) (collections (contract_of r))))"
      by (rule covered_count [OF cov])
    show "\<exists>c \<in> set (ex_checks (bd_profile b)). cb_role c = ''target'' \<and> cb_old_expected c = Some False \<and>
       cb_new_expected c = Some True"
      using cov by (auto simp: check_coverage_iff expectations_iff)
  qed (use apart art_laws(2,3) in blast)+
qed

theorem execution_contract_covers_witness:
  "bd_request twin_bound = twin_request \<and> length (ex_checks (bd_profile twin_bound)) = 4"
  using execution_contract_covers [OF twin_parse] by (simp add: twin_checks_def)

lemma expected_by_role:
  assumes "expectations c = Some ()"
  shows "cb_role c = ''invariant'' \<Longrightarrow> expected_of role c" and "cb_role c = ''spillover'' \<Longrightarrow> \<not> expected_of role c"
    and "cb_role c = ''target'' \<Longrightarrow> expected_of RunNew c"
  using assms by (simp_all add: expectations_iff expected_of_def)

text \<open>The rates of a report without blockers are the ones its contract asks for: every protected
  invariant held, no forbidden path was touched, and of the target effects all hold in a run of the
  new capsule and not all in a run of the old one. The denominators are the numbers of clauses of
  the contract, whatever checks the profile lists.\<close>

theorem passing_run_rates:
  assumes "parse_execution_contract (exec_of X) G resolver r = Inr (bs_bound S)"
    and "evaluate_contract X S uid rows run contract = (report, rows')" and "nr_valid report"
  shows "nr_pip report = \<lparr> nt_numerator = length (rc_protected_invariants (contract_of r)),
      nt_denominator = length (rc_protected_invariants (contract_of r)) \<rparr> \<and>
    nr_bsr report = \<lparr> nt_numerator = 0, nt_denominator = length (rc_forbidden_spillover (contract_of r)) \<rparr> \<and>
    nt_denominator (nr_ter report) = length (rc_target_effects (contract_of r)) \<and>
    (if ag_role run = RunNew then nt_numerator (nr_ter report) = nt_denominator (nr_ter report)
     else nt_numerator (nr_ter report) < nt_denominator (nr_ter report))"
proof -
  let ?checks = "ex_checks (bd_profile (bs_bound S))"
  from assms(1) have cov: "check_coverage (exec_of X) r (bd_profile (bs_bound S)) = Some ()"
    by (simp add: parse_execution_contract_iff)
  obtain e ts where e: "read_run X S rows run = Some e" "run_traces X S e = Some ts" "trace_blockers ts = []"
    and rates: "nr_ter report = count_role ts ''target''" "nr_pip report = count_role ts ''invariant''"
      "nr_bsr report = count_role ts ''spillover''"
    using evaluate_contract_valid(1) [OF assms(2) evaluate_contract_blockers [OF assms(2,3)]] by blast
  from run_traces_iff [OF e(2)] obtain inputs where ts: "ts = map (run_trace X S e inputs) (run_checks S)" by blast
  have counts: "count_role ts role = \<lparr>
      nt_numerator = length (filter (\<lambda>c. cb_role c = role \<and> expected_of (co_role e) c) ?checks),
      nt_denominator = length (role_texts (contract_of r) role) \<rparr>"
    if "role \<in> {''target'', ''invariant'', ''spillover''}" for role
    using count_role_traces [OF e(3) [unfolded ts], of role] covered_role_count [OF cov, of role]
      unpaired_role [OF cov that, of "\<lambda>c. True"] unpaired_role [OF cov that, of "expected_of (co_role e)"]
    by (simp add: ts run_checks_def conj_commute conj_left_commute)
  have role: "co_role e = ag_role run" using read_run_laws [OF e(1)] by simp
  have met: "expectations c = Some ()" if "c \<in> set ?checks" for c
    using cov that by (auto simp: check_coverage_iff)
  have invariant: "filter (\<lambda>c. cb_role c = ''invariant'' \<and> expected_of (co_role e) c) ?checks =
      filter (\<lambda>c. cb_role c = ''invariant'') ?checks"
    using expected_by_role(1) [OF met] by (intro filter_cong) blast+
  have spillover: "filter (\<lambda>c. cb_role c = ''spillover'' \<and> expected_of (co_role e) c) ?checks = []"
    using expected_by_role(2) [OF met] by (simp add: filter_empty_conv)
  have new: "filter (\<lambda>c. cb_role c = ''target'' \<and> expected_of (co_role e) c) ?checks =
      filter (\<lambda>c. cb_role c = ''target'') ?checks" if "ag_role run = RunNew"
    using expected_by_role(3) [OF met] by (intro filter_cong) (auto simp: role that)
  have old: "length (filter (\<lambda>c. cb_role c = ''target'' \<and> expected_of (co_role e) c) ?checks) <
      length (filter (\<lambda>c. cb_role c = ''target'') ?checks)" if "ag_role run = RunOld"
  proof -
    obtain c where c: "c \<in> set ?checks" "cb_role c = ''target''" "cb_old_expected c = Some False"
      using cov by (auto simp: check_coverage_iff)
    have "length (filter (expected_of RunOld) (filter (\<lambda>c. cb_role c = ''target'') ?checks)) <
        length (filter (\<lambda>c. cb_role c = ''target'') ?checks)"
      by (rule length_filter_less [of c]) (use c in \<open>auto simp: expected_of_def\<close>)
    then show ?thesis by (simp add: role that conj_commute)
  qed
  show ?thesis
    using new old covered_role_count [OF cov, of "''target''"] covered_role_count [OF cov, of "''invariant''"]
    by (cases "ag_role run") (simp_all add: rates counts invariant spillover)
qed

theorem passing_run_rates_witness:
  "\<exists>rows report rows'. evaluate_contract twin_env twin_service ''c'' rows (twin_run RunNew) twin_contract = (report, rows') \<and>
    nr_valid report \<and> nr_ter report = \<lparr> nt_numerator = 1, nt_denominator = 1 \<rparr> \<and> nr_bsr report = \<lparr> nt_numerator = 0, nt_denominator = 1 \<rparr>"
proof -
  obtain rows where rows: "\<And>later. prefix rows later \<Longrightarrow> twin_rows_ok later"
      "jr_record_id ` set rows = {''old'', ''new'', ''pair''}"
    using twin_rows by blast
  have "unused_record rows ''c''" using rows(2) by (simp add: unused_record_def)
  from twin_report [OF rows(1) this, of RunNew] obtain report rows' where
    r: "evaluate_contract twin_env twin_service ''c'' rows (twin_run RunNew) twin_contract = (report, rows')" "nr_valid report"
    by (auto simp: passed_report_def)
  have "parse_execution_contract (exec_of twin_env) twin_registry (\<lambda>_. Some twin_artifacts) twin_request = Inr (bs_bound twin_service)"
    by (simp add: twin_parse)
  from passing_run_rates [OF this r] r show ?thesis
    by (cases "nr_ter report") (auto simp: twin_agent_def twin_contract_def sample_capsule_def)
qed

text \<open>C16. A valid repetition report over pairs that the comparison returned covers every repetition of
  the profile exactly once, each with its own pair of runs, and every pair has the same outcome. Of
  each pair the journal holds both runs and the paired checks, and they show: every check of the
  profile ended properly, after the state it looks at and in its own container, with the result the
  contract expects of that run, the paired checks after both runs; and neither run changed
  anything outside the allowed scope or inside a forbidden path.\<close>

theorem repetitions_observed:
  assumes "\<forall>p \<in> set pairs. \<exists>uids rows0 rows1.
      compare_runs X S uids rows0 (df_old p) (df_new p) contract = (p, rows1) \<and> prefix rows1 rows"
    and "evaluate_repetitions X S uid rows pairs = (report, rows')" and "pt_valid report"
  shows "length pairs = nat (ex_repetitions (bd_profile (bs_bound S))) \<and>
    (\<forall>k. 0 \<le> k \<and> k < ex_repetitions (bd_profile (bs_bound S)) \<longrightarrow>
      (\<exists>p \<in> set pairs. ag_repetition (df_old p) = k \<and> ag_repetition (df_new p) = k \<and>
         comparison_observed X S rows' (df_old p) (df_new p) contract)) \<and>
    (\<exists>f. \<forall>p \<in> set pairs. outcome X p = Some f)"
proof -
  let ?n = "ex_repetitions (bd_profile (bs_bound S))"
  note valid = evaluate_repetitions_valid [OF assms(2,3)]
  have seen: "comparison_observed X S rows' (df_old p) (df_new p) contract" if p: "p \<in> set pairs" for p
  proof -
    obtain uids rows0 rows1 where c: "compare_runs X S uids rows0 (df_old p) (df_new p) contract = (p, rows1)"
      and grow: "prefix rows1 rows" using assms(1) p by blast
    have "df_valid p" using valid(3) p by blast
    from comparison_valid(1) [OF c this] show ?thesis
      by (rule comparison_observed_later) (rule prefix_order.trans [OF grow valid(1)])
  qed
  have same: "ag_repetition (df_new p) = ag_repetition (df_old p)" if "p \<in> set pairs" for p
    using verified_pair [OF bspec [OF valid(4) that]] by simp
  have "length pairs = length [0..?n - 1]" using arg_cong [OF valid(2), of length] by simp
  moreover have "\<exists>p \<in> set pairs. ag_repetition (df_old p) = k" if "0 \<le> k" "k < ?n" for k
  proof -
    have "(\<lambda>p. ag_repetition (df_old p)) ` set pairs = {0..?n - 1}" using arg_cong [OF valid(2), of set] by simp
    moreover have "k \<in> {0..?n - 1}" using that by simp
    ultimately show ?thesis by (metis (no_types, lifting) imageE)
  qed
  ultimately show ?thesis using seen same valid(5) by auto
qed

theorem repetitions_observed_witness:
  "\<exists>rows p. (\<exists>f. outcome twin_env p = Some f) \<and> comparison_observed twin_env twin_service rows (df_old p) (df_new p) twin_contract"
proof -
  obtain rows where rows: "\<And>later. prefix rows later \<Longrightarrow> twin_rows_ok later"
      "jr_record_id ` set rows = {''old'', ''new'', ''pair''}"
    using twin_rows by blast
  obtain p more where p: "compare_runs twin_env twin_service twin_uid rows (twin_run RunOld) (twin_run RunNew) twin_contract =
      (p, rows @ more)" "df_valid p" "df_old p = twin_run RunOld" "df_new p = twin_run RunNew"
      "json_value_ok (differential_json p)" "outcome twin_env p \<noteq> None"
      "jr_record_id ` set (rows @ more) = {''old'', ''new'', ''pair'', ''c'', ''cc'', ''ccc''}"
      "verify_differential_report twin_env twin_service (rows @ more) p = Some ()"
    using twin_compared [OF rows] by - (drule meta_mp, assumption, elim exE conjE, rule that)
  have "unused_record (rows @ more) ''r''" unfolding unused_record_def p(7) by simp
  with twin_repetition [OF p(5,6,2,3,4,8)] obtain report rows' where
    r: "evaluate_repetitions twin_env twin_service ''r'' (rows @ more) [p] = (report, rows')" "pt_valid report" by blast
  have "compare_runs twin_env twin_service twin_uid rows (df_old p) (df_new p) twin_contract = (p, rows @ more)"
    using p(1) unfolding p(3,4) .
  then have "\<forall>q \<in> set [p]. \<exists>uids rows0 rows1.
      compare_runs twin_env twin_service uids rows0 (df_old q) (df_new q) twin_contract = (q, rows1) \<and> prefix rows1 (rows @ more)"
    unfolding list.set ball_simps using prefix_order.refl by blast
  note seen = repetitions_observed [OF this r, unfolded twin_service_simps]
  have "comparison_observed twin_env twin_service rows' (df_old p) (df_new p) twin_contract"
    using spec [OF conjunct1 [OF conjunct2 [OF seen]], of 0]
    by (auto simp only: list.set bex_simps order_refl zero_less_one)
  moreover have "\<exists>f. outcome twin_env p = Some f"
    using conjunct2 [OF conjunct2 [OF seen]] by (simp only: list.set ball_simps simp_thms)
  ultimately show ?thesis by blast
qed

end
