(* ===== verification/Spec2Isabelle.thy ===== *)
theory Spec2Isabelle
  imports Formal_Properties Scope_Match Resolve_Closure Swap_Properties Record_Properties
    Store_Properties Admission_Properties Compile_Properties Registry_Properties Quarantine_Properties
    Publish_Properties Evaluation_Properties
begin

text \<open>
  ContractCapsule: a verification library.

  ContractCapsule packages knowledge for coding agents as capsules (atoms with evidence, a
  dependency graph, a replacement contract). Sources are captured, their statements reviewed and
  promoted (audit, build), published into a registry behind a trust gate (storage), admitted,
  ranked and compiled into a view under a token budget (resolve, compile), checked against the
  replacement contract (validate), and swapped at runtime behind a transactional store
  (swap). \<^verbatim>\<open>formal.py\<close> is the reference semantics of the whole. Paths below are relative to
  \<^verbatim>\<open>src/src/contractcapsule/\<close>.

  How the code is modelled. A class is a record, a literal or enumeration a datatype or its text, a
  \<^verbatim>\<open>dict\<close> an association list in insertion order, a table the list of its rows. An operation gets
  the state and returns it; one that raises returns \<open>Inl\<close> of its error, or \<open>None\<close> where every
  caller catches everything. Strings and bytes are byte strings (UTF-8), integers are unbounded,
  as in Python. Types hold by typing, so nominal type checks are not repeated. Object identities
  that serve as capabilities are numbers.

  Theories, in the order of the code:

  \<^item> Prelude, Json, Base_Models: results, dictionaries, strings; JSON values, hexadecimal, base64,
    digests; the field checks of \<^verbatim>\<open>models/base.py\<close>. Closure_Spec and Glob_Spec: the locales of a
    dependency closure and of a row-by-row matcher, interpreted in Formal_Closure, Resolve_Closure
    and Scope_Match.
  \<^item> Formal_Model, Formal_Closure, Formal_View, Formal_Swap, Formal_Fingerprint: \<^verbatim>\<open>formal.py\<close>.
    Formal_View_Laws, Formal_Properties: soundness and completeness of validation, replacement,
    activation, rollback, fingerprints.
  \<^item> Capsule_Model, Canonical, Capsule_Properties: \<^verbatim>\<open>models/core.py\<close>, \<^verbatim>\<open>models/canonical.py\<close>; the
    canonical digest binds the content. Capsule_Sample: a capsule for the witnesses.
  \<^item> Cas, Trust_Wire, Trust_Gate, Registry: \<^verbatim>\<open>storage/cas.py\<close> and \<^verbatim>\<open>storage/registry.py\<close>: blobs, the
    checks of a publication, and the registry over its four tables. Registry_Laws: it only appends.
    Registry_Trust: what the gate establishes, without the order of its checks.
    Registry_Properties, Registry_Sample.
  \<^item> Quarantine, Atomize, Builder: \<^verbatim>\<open>audit/quarantine.py\<close>, \<^verbatim>\<open>build/atomize.py\<close>, \<^verbatim>\<open>build/publish.py\<close>
    (and the freshness check of \<^verbatim>\<open>build/ingest.py\<close>). Quarantine_Laws: the invariant of promoted
    atoms. Builder_Laws, Publish_Laws, Publish_Properties: what the builder writes is what the gate
    expects, and the gate lets through only what was promoted. Quarantine_Sample, Publish_Sample.
  \<^item> Scope_Match, Versions, Policies, Admission, Rank, Graph, Resolve_Closure: \<^verbatim>\<open>resolve/\<close>.
    Admission_Laws, Admission_Properties, Graph_Laws: declarative conditions of admission, the
    assembly only grows.
  \<^item> View_Model, Render, Session: \<^verbatim>\<open>models/view.py\<close> and \<^verbatim>\<open>compile/\<close>. Session_Laws: a weakest
    precondition for session steps and the two invariants of a compilation. Frames: what the neutral
    renderer prints is read back, item by item. Compile_Properties, Compile_Sample.
  \<^item> Journal, Approvals, Attempts, Record_Properties: the signed records of \<^verbatim>\<open>validate/journal.py\<close>,
    \<^verbatim>\<open>validate/approvals.py\<close>, \<^verbatim>\<open>swap/attempts.py\<close>.
  \<^item> Contracts, Behavior, Evaluation: \<^verbatim>\<open>validate/models.py\<close>, \<^verbatim>\<open>validate/contracts.py\<close>,
    \<^verbatim>\<open>validate/artifacts.py\<close>; \<^verbatim>\<open>validate/run_models.py\<close>, \<^verbatim>\<open>validate/snapshots.py\<close>,
    \<^verbatim>\<open>validate/behavior.py\<close>: execution contracts, what the host records of the runs of an old and a
    new capsule, and the reports on a run, a pair and a group of repetitions. Contracts_Laws: checks
    and clauses correspond one to one, a profile reads back. Evaluation_Laws: what reports rest on,
    with the locale of reads that survive later appends, interpreted on each reader of the journal.
    Recording: what was recorded is read back. Evaluation_Properties, Evaluation_Sample.
  \<^item> Runtime_Models, Store_Base, Runtime_Store, Store_Receipts, Swap_Controller:
    \<^verbatim>\<open>swap/runtime_models.py\<close>, \<^verbatim>\<open>swap/store.py\<close>, \<^verbatim>\<open>swap/boundary.py\<close>, \<^verbatim>\<open>swap/controller.py\<close>.
    Store_Effects has one elimination lemma per operation, Store_Machine the step relation and the
    abstract action lock it refines, Store_Invariant and Store_Preserve the integrity of every
    reachable database, Store_Laws and Store_Replay tickets, swaps and replay, Store_Liveness and
    Store_Cycle that operations commit when their guards hold. Store_Properties, Swap_Properties,
    Store_Sample.

  Parameters, with what is assumed of them in named predicates: SHA-256 and HMAC (a property that
  needs injectivity says so, or ends in an explicit collision); the JCS encoder (\<open>jcs_law\<close>: it
  identifies exactly the values that differ in the order of members or in writing an integer as a
  float; \<open>object_lines\<close>: it prints an object on one line that begins with a brace); clocks and fresh identifiers (arguments of each operation); the file system, git and
  packages; the full-text engine, tokenizer and secret scanner; parsers of pydantic, JSON, YAML and
  Python; Unicode case folding. The predicates (\<open>env_laws\<close>, \<open>iso_laws\<close>, \<open>jcs_law\<close>,
  \<open>object_lines\<close>, \<open>loads_law\<close>, \<open>strip_law\<close>) are shown to hold of concrete functions in the sample theories.

  Loops are structural recursion over the sequence the code iterates over, with two exceptions: the
  dependency closures, which terminate because every round moves a target out of the finite set of
  targets not yet reached. No definition uses fuel: every modelled operation is a total function.

  What modelling showed (the theorem that proves it in parentheses): a validation report with only
  the blocker NONE is activated (activate_accepts_none_report); views that compile without blocker
  can be rejected by the validator (compile_view_validates_iff states when); a signer with a colon in
  its name issues permits that never verify (permit_signature_round_trip); a plain-text line starting
  with a hash mark can be approved and never promoted (text_candidate_binds_iff); a content-store
  source given with a repository is promoted and never publishable (binding_rebuilt_iff).

  Not modelled: files, locks and fsync of the content store, opening SQLite files and their
  migrations, ingestion of files and git objects and the package writer (\<^verbatim>\<open>build/ingest.py\<close>,
  \<^verbatim>\<open>package.py\<close>, \<^verbatim>\<open>compile/evidence.py\<close>, \<^verbatim>\<open>compile/git_evidence.py\<close>), whose results are
  parameters; Docker and process control (\<^verbatim>\<open>swap/docker_*.py\<close>, \<^verbatim>\<open>swap/twin_*.py\<close>,
  \<^verbatim>\<open>swap/trees.py\<close>, \<^verbatim>\<open>swap/staging.py\<close>), whose captures are what the evaluation records; the
  view-level validation service (\<^verbatim>\<open>validate/integrity.py\<close>, \<^verbatim>\<open>validate/compression.py\<close>,
  \<^verbatim>\<open>validate/evidence.py\<close>), which recomputes a compilation with the same functions; schema export;
  adapters and the stdio server; benchmark, baselines and experiments.
\<close>

end
